(* ===== verification/Prelude.thy ===== *)
theory Prelude
  imports Main "HOL-Library.Word" "HOL-Library.AList" "HOL-Library.Char_ord"
    "HOL-Library.List_Lexorder" "HOL-Library.Multiset"
begin

text \<open>
  Shared vocabulary of the development: fallible results as sums, Rust strings as UTF-8 byte
  lists with their scalar values, hash maps as association lists, saturating machine integers,
  Rust's stable slice sort, and the generic locales (string enumerations, keyed tables, guarded
  transition systems) that the components interpret.
\<close>

section \<open>Collections of rewrite rules\<close>

named_theorems result_simps \<open>rewriting of fallible results\<close>
named_theorems table_simps \<open>reads of the storage tables after writes\<close>

section \<open>Machine types\<close>

type_synonym u8 = "8 word"
type_synonym u32 = "32 word"
type_synonym u64 = "64 word"

text \<open>\<^verbatim>\<open>DateTime<Utc>\<close>: an instant, counted in nanoseconds.\<close>

type_synonym instant = int

text \<open>\<^verbatim>\<open>uN::saturating_add(1)\<close>.\<close>

definition sat_inc :: "'a::len word \<Rightarrow> 'a word" where
  "sat_inc w = (if w = - 1 then w else w + 1)"

lemma word_lt_max: "(w::'a::len word) \<noteq> - 1 \<Longrightarrow> w < w + 1"
proof -
  assume "w \<noteq> - 1"
  then have "1 + w \<noteq> 0" by (metis add.commute add_eq_0_iff2)
  then have "unat (1 + w) = Suc (unat w)" by (rule unatSuc)
  then show ?thesis by (simp add: word_less_nat_alt add.commute)
qed

lemma sat_inc_ge: "w \<le> sat_inc w"
  using word_lt_max [of w] by (auto simp: sat_inc_def intro: order.strict_implies_order)

lemma sat_inc_gt: "w \<noteq> - 1 \<Longrightarrow> w < sat_inc w"
  using word_lt_max [of w] by (simp add: sat_inc_def)

section \<open>Fallible results\<close>

text \<open>\<^verbatim>\<open>Result<T, E>\<close> is \<open>'e + 'a\<close>; the question mark operator is \<open>rbind\<close>.\<close>

definition rbind :: "'e + 'a \<Rightarrow> ('a \<Rightarrow> 'e + 'b) \<Rightarrow> 'e + 'b" where
  "rbind m f = (case m of Inl e \<Rightarrow> Inl e | Inr x \<Rightarrow> f x)"

definition rmap :: "('a \<Rightarrow> 'b) \<Rightarrow> 'e + 'a \<Rightarrow> 'e + 'b" where
  "rmap f m = (case m of Inl e \<Rightarrow> Inl e | Inr x \<Rightarrow> Inr (f x))"

definition map_err :: "('e \<Rightarrow> 'f) \<Rightarrow> 'e + 'a \<Rightarrow> 'f + 'a" where
  "map_err f m = (case m of Inl e \<Rightarrow> Inl (f e) | Inr x \<Rightarrow> Inr x)"

definition ok_of :: "'e + 'a \<Rightarrow> 'a option" where
  "ok_of m = (case m of Inl _ \<Rightarrow> None | Inr x \<Rightarrow> Some x)"

definition err_of :: "'e + 'a \<Rightarrow> 'e option" where
  "err_of m = (case m of Inl e \<Rightarrow> Some e | Inr _ \<Rightarrow> None)"

definition is_ok :: "'e + 'a \<Rightarrow> bool" where
  "is_ok m = (case m of Inl _ \<Rightarrow> False | Inr _ \<Rightarrow> True)"

text \<open>\<^verbatim>\<open>iter().map(f).collect::<Result<Vec<_>>>()\<close>: the first error stops.\<close>

fun rmap_list :: "('a \<Rightarrow> 'e + 'b) \<Rightarrow> 'a list \<Rightarrow> 'e + 'b list" where
  "rmap_list f [] = Inr []"
| "rmap_list f (x # xs) = rbind (f x) (\<lambda>y. rbind (rmap_list f xs) (\<lambda>ys. Inr (y # ys)))"

text \<open>\<^verbatim>\<open>iter().map(f).collect::<Option<Vec<_>>>()\<close>.\<close>

fun omap_list :: "('a \<Rightarrow> 'b option) \<Rightarrow> 'a list \<Rightarrow> 'b list option" where
  "omap_list f [] = Some []"
| "omap_list f (x # xs) =
     (case f x of None \<Rightarrow> None | Some y \<Rightarrow> map_option (\<lambda>ys. y # ys) (omap_list f xs))"

text \<open>\<^verbatim>\<open>Option<Result<T>>::transpose()\<close>.\<close>

definition transpose_opt :: "('e + 'a) option \<Rightarrow> 'e + 'a option" where
  "transpose_opt m = (case m of None \<Rightarrow> Inr None | Some r \<Rightarrow> rmap Some r)"

lemma rbind_simps [simp, result_simps]:
  "rbind (Inl e) f = Inl e"
  "rbind (Inr x) f = f x"
  by (simp_all add: rbind_def)

lemma rmap_simps [simp, result_simps]:
  "rmap g (Inl e) = Inl e"
  "rmap g (Inr x) = Inr (g x)"
  by (simp_all add: rmap_def)

lemma map_err_simps [simp, result_simps]:
  "map_err h (Inl e) = Inl (h e)"
  "map_err h (Inr x) = Inr x"
  by (simp_all add: map_err_def)

lemma ok_of_simps [simp, result_simps]:
  "ok_of (Inl e) = None" "ok_of (Inr x) = Some x"
  by (simp_all add: ok_of_def)

lemma err_of_simps [simp, result_simps]:
  "err_of (Inl e) = Some e" "err_of (Inr x) = None"
  by (simp_all add: err_of_def)

lemma is_ok_simps [simp, result_simps]:
  "is_ok (Inl e) = False" "is_ok (Inr x) = True"
  by (simp_all add: is_ok_def)

lemma rbind_Inr_iff: "rbind m f = Inr y \<longleftrightarrow> (\<exists>x. m = Inr x \<and> f x = Inr y)"
  by (cases m) auto

lemma rbind_Inl_iff: "rbind m f = Inl e \<longleftrightarrow> m = Inl e \<or> (\<exists>x. m = Inr x \<and> f x = Inl e)"
  by (cases m) auto

lemma rmap_Inr_iff: "rmap f m = Inr y \<longleftrightarrow> (\<exists>x. m = Inr x \<and> y = f x)"
  by (cases m) auto

lemma rmap_Inl_iff: "rmap f m = Inl e \<longleftrightarrow> m = Inl e"
  by (cases m) auto

lemma map_err_Inr_iff: "map_err f m = Inr x \<longleftrightarrow> m = Inr x"
  by (cases m) auto

lemma map_err_Inl_iff: "map_err f m = Inl e \<longleftrightarrow> (\<exists>e'. m = Inl e' \<and> e = f e')"
  by (cases m) auto

lemma ok_of_Some_iff: "ok_of m = Some x \<longleftrightarrow> m = Inr x"
  by (cases m) auto

lemma is_ok_iff: "is_ok m \<longleftrightarrow> (\<exists>x. m = Inr x)"
  by (cases m) auto

lemmas result_iffs = rbind_Inr_iff rmap_Inr_iff map_err_Inr_iff ok_of_Some_iff
lemmas result_error_iffs = rbind_Inl_iff rmap_Inl_iff map_err_Inl_iff

lemma rmap_list_map: "(\<And>x. x \<in> set xs \<Longrightarrow> f (g x) = Inr x) \<Longrightarrow> rmap_list f (map g xs) = Inr xs"
  by (induction xs) auto

lemma omap_list_map: "(\<And>x. x \<in> set xs \<Longrightarrow> f (g x) = Some x) \<Longrightarrow> omap_list f (map g xs) = Some xs"
  by (induction xs) auto

section \<open>Numbers in messages\<close>

fun show_nat :: "nat \<Rightarrow> string" where
  "show_nat n = (if n < 10 then [char_of (48 + n)] else show_nat (n div 10) @ [char_of (48 + n mod 10)])"

declare show_nat.simps [simp del]

definition hex_digit :: "nat \<Rightarrow> char" where
  "hex_digit n = (if n < 10 then char_of (48 + n) else char_of (55 + n))"

fun show_hex :: "nat \<Rightarrow> string" where
  "show_hex n = (if n < 16 then [hex_digit n] else show_hex (n div 16) @ [hex_digit (n mod 16)])"

declare show_hex.simps [simp del]

text \<open>The format \<^verbatim>\<open>{:04X}\<close>.\<close>

definition show_hex4 :: "nat \<Rightarrow> string" where
  "show_hex4 n = (let h = show_hex n in replicate (4 - length h) CHR ''0'' @ h)"

text \<open>Text in single and in double quotes.\<close>

definition quoted :: "string \<Rightarrow> string" where
  "quoted s = [CHR 0x27] @ s @ [CHR 0x27]"

definition dquoted :: "string \<Rightarrow> string" where
  "dquoted s = [CHR 0x22] @ s @ [CHR 0x22]"

section \<open>Rust strings\<close>

text \<open>
  A \<^verbatim>\<open>String\<close> is its UTF-8 byte list; \<^verbatim>\<open>len()\<close> is the number of bytes. \<open>char_indices p s\<close> decodes
  the scalar values together with the byte offsets at which they start, offset by \<open>p\<close>; the decoder
  reads the length of a scalar off its first byte, which is exact for the well-formed UTF-8 that
  every \<^verbatim>\<open>str\<close> holds.
\<close>

abbreviation code_of :: "char \<Rightarrow> nat" where
  "code_of c \<equiv> of_char c"

definition utf8_width :: "nat \<Rightarrow> nat" where
  "utf8_width b = (if b < 192 then 1 else if b < 224 then 2 else if b < 240 then 3 else 4)"

definition utf8_lead :: "nat \<Rightarrow> nat" where
  "utf8_lead b = (if b < 192 then b else if b < 224 then b - 192 else if b < 240 then b - 224 else b - 240)"

definition utf8_scalar :: "nat \<Rightarrow> string \<Rightarrow> nat" where
  "utf8_scalar b cs = fold (\<lambda>c acc. acc * 64 + code_of c mod 64) cs (utf8_lead b)"

function char_indices :: "nat \<Rightarrow> string \<Rightarrow> (nat \<times> nat) list" where
  "char_indices p [] = []"
| "char_indices p (c # cs) =
     (let k = utf8_width (code_of c) - 1
      in (p, utf8_scalar (code_of c) (take k cs)) # char_indices (p + k + 1) (drop k cs))"
  by pat_completeness auto
termination
  by (relation "measure (\<lambda>(p, s). length s)") auto

definition rust_chars :: "string \<Rightarrow> nat list" where
  "rust_chars s = map snd (char_indices 0 s)"

definition is_control :: "nat \<Rightarrow> bool" where
  "is_control c \<longleftrightarrow> c < 32 \<or> (127 \<le> c \<and> c < 160)"

definition is_ascii_digit :: "nat \<Rightarrow> bool" where
  "is_ascii_digit c \<longleftrightarrow> 48 \<le> c \<and> c \<le> 57"

definition is_ascii_lowercase :: "nat \<Rightarrow> bool" where
  "is_ascii_lowercase c \<longleftrightarrow> 97 \<le> c \<and> c \<le> 122"

definition is_ascii_uppercase :: "nat \<Rightarrow> bool" where
  "is_ascii_uppercase c \<longleftrightarrow> 65 \<le> c \<and> c \<le> 90"

definition is_ascii_alphanumeric :: "nat \<Rightarrow> bool" where
  "is_ascii_alphanumeric c \<longleftrightarrow> is_ascii_digit c \<or> is_ascii_lowercase c \<or> is_ascii_uppercase c"

text \<open>\<^verbatim>\<open>char::is_whitespace\<close> (the Unicode property \<^verbatim>\<open>White_Space\<close>) and \<^verbatim>\<open>str::trim\<close>.\<close>

definition is_whitespace :: "nat \<Rightarrow> bool" where
  "is_whitespace c \<longleftrightarrow> (9 \<le> c \<and> c \<le> 13) \<or> c = 32 \<or> c = 133 \<or> c = 160 \<or> c = 5760
     \<or> (8192 \<le> c \<and> c \<le> 8202) \<or> c = 8232 \<or> c = 8233 \<or> c = 8239 \<or> c = 8287 \<or> c = 12288"

definition trim :: "string \<Rightarrow> string" where
  "trim s =
     (let kept = filter (\<lambda>(p, c). \<not> is_whitespace c) (char_indices 0 s)
      in if kept = [] then []
         else let b = fst (hd kept); e = fst (last kept); w = utf8_width (code_of (s ! e))
              in take (e + w - b) (drop b s))"

text \<open>\<^verbatim>\<open>str::split(c)\<close> on an ASCII separator.\<close>

fun split_on :: "char \<Rightarrow> string \<Rightarrow> string list" where
  "split_on sep [] = [[]]"
| "split_on sep (c # cs) =
     (if c = sep then [] # split_on sep cs
      else (case split_on sep cs of [] \<Rightarrow> [[c]] | seg # segs \<Rightarrow> (c # seg) # segs))"

definition starts_with :: "string \<Rightarrow> string \<Rightarrow> bool" where
  "starts_with p s \<longleftrightarrow> take (length p) s = p"

definition ends_with_char :: "char \<Rightarrow> string \<Rightarrow> bool" where
  "ends_with_char c s \<longleftrightarrow> s \<noteq> [] \<and> last s = c"

lemma split_on_nonempty [simp]: "split_on sep s \<noteq> []"
  by (induction s) (auto split: list.splits)

lemma split_on_no_sep: "sep \<notin> set s \<Longrightarrow> split_on sep s = [s]"
  by (induction s) auto

lemma split_on_append:
  "sep \<notin> set a \<Longrightarrow> split_on sep (a @ sep # b) = a # split_on sep b"
  by (induction a) auto

lemma split_on_sep_free: "seg \<in> set (split_on sep s) \<Longrightarrow> sep \<notin> set seg"
  by (induction s arbitrary: seg) (auto split: list.splits if_splits)

lemma split_on_two:
  "split_on sep s = [a, b] \<longleftrightarrow> s = a @ sep # b \<and> sep \<notin> set a \<and> sep \<notin> set b"
proof
  assume split: "split_on sep s = [a, b]"
  then have ab: "sep \<notin> set a" "sep \<notin> set b"
    using split_on_sep_free [of _ sep s] by auto
  have "\<exists>p q. s = p @ sep # q \<and> sep \<notin> set p"
    using split split_on_no_sep [of sep s] split_list_first [of sep s] by fastforce
  then obtain p q where pq: "s = p @ sep # q" "sep \<notin> set p" by blast
  with split have "p = a" and q: "split_on sep q = [b]"
    by (simp_all add: split_on_append)
  have "sep \<notin> set q"
    using q split_list_first [of sep q] by (auto simp: split_on_append)
  with q have "q = b" by (simp add: split_on_no_sep)
  with pq \<open>p = a\<close> ab show "s = a @ sep # b \<and> sep \<notin> set a \<and> sep \<notin> set b" by simp
next
  assume "s = a @ sep # b \<and> sep \<notin> set a \<and> sep \<notin> set b"
  then show "split_on sep s = [a, b]" by (simp add: split_on_append split_on_no_sep)
qed

text \<open>A string of ASCII bytes is its own list of scalar values.\<close>

lemma char_indices_ascii:
  "\<forall>c \<in> set s. code_of c < 128 \<Longrightarrow> map snd (char_indices p s) = map code_of s"
  by (induction p s rule: char_indices.induct)
     (auto simp: Let_def utf8_width_def utf8_scalar_def utf8_lead_def)

lemma rust_chars_ascii: "\<forall>c \<in> set s. code_of c < 128 \<Longrightarrow> rust_chars s = map code_of s"
  by (simp add: rust_chars_def char_indices_ascii)

text \<open>
  Well-formed UTF-8: continuation bytes follow every leading byte, no scalar is encoded in more
  bytes than it needs, no surrogate and nothing above \<^verbatim>\<open>U+10FFFF\<close> is encoded. Every \<^verbatim>\<open>str\<close>
  satisfies it.
\<close>

definition scalar_ok :: "nat \<Rightarrow> nat \<Rightarrow> bool" where
  "scalar_ok w v \<longleftrightarrow>
     (if w = 1 then v < 128 else if w = 2 then 128 \<le> v
      else if w = 3 then 2048 \<le> v \<and> \<not> (55296 \<le> v \<and> v \<le> 57343)
      else 65536 \<le> v \<and> v < 1114112)"

function valid_utf8 :: "string \<Rightarrow> bool" where
  "valid_utf8 [] = True"
| "valid_utf8 (c # cs) =
     (let w = utf8_width (code_of c); k = w - 1
      in k \<le> length cs \<and> list_all (\<lambda>d. 128 \<le> code_of d \<and> code_of d < 192) (take k cs)
         \<and> scalar_ok w (utf8_scalar (code_of c) (take k cs)) \<and> valid_utf8 (drop k cs))"
  by pat_completeness auto
termination
  by (relation "measure length") auto

text \<open>So a string all of whose scalars are ASCII consists of ASCII bytes.\<close>

lemma valid_utf8_ascii_bytes:
  "valid_utf8 s \<Longrightarrow> \<forall>x \<in> set (map snd (char_indices p s)). x < 128 \<Longrightarrow> \<forall>c \<in> set s. code_of c < 128"
proof (induction p s rule: char_indices.induct)
  case (1 p)
  then show ?case by simp
next
  case (2 p c cs)
  let ?w = "utf8_width (code_of c)"
  have lt: "utf8_scalar (code_of c) (take (?w - 1) cs) < 128"
    using "2.prems"(2) by (simp add: Let_def)
  have w1: "?w = 1"
    using "2.prems"(1) lt by (auto simp: Let_def scalar_ok_def utf8_width_def split: if_splits)
  then have "code_of c < 128"
    using lt by (auto simp: utf8_scalar_def utf8_lead_def utf8_width_def split: if_splits)
  moreover have "\<forall>d \<in> set cs. code_of d < 128"
    using "2.IH" [of 0] "2.prems" w1 by (simp add: Let_def)
  ultimately show ?case by simp
qed

lemma valid_utf8_ascii:
  "\<forall>c \<in> set s. code_of c < 128 \<Longrightarrow> valid_utf8 s"
  by (induction s) (auto simp: utf8_width_def scalar_ok_def utf8_scalar_def utf8_lead_def Let_def)

lemma valid_utf8_split:
  "valid_utf8 (a @ c # b) \<Longrightarrow> code_of c < 128 \<Longrightarrow> valid_utf8 a \<and> valid_utf8 (c # b)"
proof (induction a rule: length_induct)
  case (1 a)
  show ?case
  proof (cases a)
    case Nil
    with "1.prems" show ?thesis by simp
  next
    case (Cons x xs)
    let ?k = "utf8_width (code_of x) - 1"
    have conts: "list_all (\<lambda>d. 128 \<le> code_of d \<and> code_of d < 192) (take ?k (xs @ c # b))"
      using "1.prems"(1) Cons by (simp add: Let_def)
    have k: "?k \<le> length xs"
    proof (rule ccontr)
      assume "\<not> ?k \<le> length xs"
      then have "c \<in> set (take ?k (xs @ c # b))" by (cases "?k - length xs") auto
      with conts have "128 \<le> code_of c" by (auto simp: list_all_iff)
      with "1.prems"(2) show False by simp
    qed
    then have "valid_utf8 (drop ?k xs @ c # b)"
      using "1.prems"(1) Cons by (simp add: Let_def)
    then have rest: "valid_utf8 (drop ?k xs) \<and> valid_utf8 (c # b)"
      using "1.IH" [rule_format, of "drop ?k xs"] "1.prems"(2) Cons
      by (simp del: valid_utf8.simps)
    have "valid_utf8 a"
      using rest k "1.prems"(1) Cons by (simp add: Let_def)
    with rest show ?thesis by blast
  qed
qed

section \<open>Hash maps\<close>

text \<open>
  \<^verbatim>\<open>HashMap<K, V>\<close> is an association list with distinct keys. Lookups see only \<^const>\<open>map_of\<close>; an
  iteration visits the entries in list order, and since every theorem quantifies over all states,
  it quantifies over all iteration orders of the map.
\<close>

type_synonym ('k, 'v) hashmap = "('k \<times> 'v) list"

abbreviation hm_get :: "('k, 'v) hashmap \<Rightarrow> 'k \<Rightarrow> 'v option" where
  "hm_get \<equiv> map_of"

abbreviation hm_insert :: "'k \<Rightarrow> 'v \<Rightarrow> ('k, 'v) hashmap \<Rightarrow> ('k, 'v) hashmap" where
  "hm_insert \<equiv> AList.update"

abbreviation hm_remove :: "'k \<Rightarrow> ('k, 'v) hashmap \<Rightarrow> ('k, 'v) hashmap" where
  "hm_remove \<equiv> AList.delete"

definition hm_values :: "('k, 'v) hashmap \<Rightarrow> 'v list" where
  "hm_values m = map snd m"

definition hm_wf :: "('v \<Rightarrow> 'k) \<Rightarrow> ('k, 'v) hashmap \<Rightarrow> bool" where
  "hm_wf key m \<longleftrightarrow> distinct (map fst m) \<and> (\<forall>e \<in> set m. fst e = key (snd e))"

lemma hm_get_insert [table_simps]:
  "hm_get (hm_insert k v m) k' = (if k' = k then Some v else hm_get m k')"
  by (simp add: update_conv')

lemma hm_get_remove [table_simps]:
  "hm_get (hm_remove k m) k' = (if k' = k then None else hm_get m k')"
  by (simp add: delete_conv')

lemma hm_wf_empty [simp]: "hm_wf key []"
  by (simp add: hm_wf_def)

lemma set_update_subset: "set (AList.update k v m) \<subseteq> insert (k, v) (set m)"
  by (induction m) auto

lemma hm_wf_insert: "hm_wf key m \<Longrightarrow> hm_wf key (hm_insert (key v) v m)"
  using set_update_subset [of "key v" v m] by (auto simp: hm_wf_def distinct_update)

lemma hm_wf_remove: "hm_wf key m \<Longrightarrow> hm_wf key (hm_remove k m)"
proof -
  have "set (hm_remove k m) \<subseteq> set m" by (auto simp: AList.delete_eq)
  then show "hm_wf key m \<Longrightarrow> hm_wf key (hm_remove k m)"
    by (auto simp: hm_wf_def intro: distinct_delete)
qed

lemma hm_wf_get: "hm_wf key m \<Longrightarrow> hm_get m k = Some v \<Longrightarrow> key v = k"
  by (auto simp: hm_wf_def dest: map_of_SomeD)

lemma hm_values_iff: "hm_wf key m \<Longrightarrow> v \<in> set (hm_values m) \<longleftrightarrow> hm_get m (key v) = Some v"
  by (force simp: hm_wf_def hm_values_def map_of_eq_Some_iff image_iff dest: map_of_SomeD)

section \<open>Slice sorting\<close>

text \<open>
  \<^verbatim>\<open>slice::sort_by\<close> as the standard library runs it on short slices: a stable insertion sort from
  the left, in which an element moves left past the elements it is strictly less than. For a
  comparator that is a total preorder every stable sort gives this result; \<^const>\<open>sort_key\<close> is the
  same function for a key into a linear order.
\<close>

fun insert_tail :: "('a \<Rightarrow> 'a \<Rightarrow> bool) \<Rightarrow> 'a \<Rightarrow> 'a list \<Rightarrow> 'a list" where
  "insert_tail lt x [] = [x]"
| "insert_tail lt x (y # ys) = (if lt x y then y # insert_tail lt x ys else x # y # ys)"

definition sort_by :: "('a \<Rightarrow> 'a \<Rightarrow> bool) \<Rightarrow> 'a list \<Rightarrow> 'a list" where
  "sort_by lt xs = rev (fold (insert_tail lt) xs [])"

lemma mset_insert_tail: "mset (insert_tail lt x ys) = add_mset x (mset ys)"
  by (induction ys) auto

lemma mset_fold_insert_tail: "mset (fold (insert_tail lt) xs ys) = mset xs + mset ys"
  by (induction xs arbitrary: ys) (auto simp: mset_insert_tail)

lemma mset_sort_by [simp]: "mset (sort_by lt xs) = mset xs"
  by (simp add: sort_by_def mset_fold_insert_tail)

lemma set_sort_by [simp]: "set (sort_by lt xs) = set xs"
  using mset_sort_by [of lt xs] by (metis set_mset_mset)

section \<open>Interfaces\<close>

text \<open>An enumeration with a canonical wire string: printing and parsing are inverse.\<close>

locale string_enum =
  fixes as_str :: "'a \<Rightarrow> string"
    and parse :: "string \<Rightarrow> 'a option"
  assumes parse_as_str: "parse (as_str x) = Some x"
    and as_str_parse: "parse s = Some x \<Longrightarrow> as_str x = s"
begin

lemma as_str_inject: "as_str x = as_str y \<longleftrightarrow> x = y"
  using parse_as_str by (metis option.inject)

lemma parse_iff: "parse s = Some x \<longleftrightarrow> s = as_str x"
  using parse_as_str as_str_parse by auto

lemma parse_None_iff: "parse s = None \<longleftrightarrow> s \<notin> range as_str"
  using parse_iff by (metis not_None_eq rangeE rangeI)

end

text \<open>
  A table of records of the storage state, keyed by a function of the record: a load after a save
  sees the saved record at its key and the old table elsewhere.
\<close>

locale keyed_table =
  fixes key :: "'r \<Rightarrow> 'k"
    and load :: "'s \<Rightarrow> 'k \<Rightarrow> 'r option"
    and save :: "'r \<Rightarrow> 's \<Rightarrow> 's"
  assumes load_save: "load (save r s) k = (if k = key r then Some r else load s k)"
begin

lemma load_save_same: "load (save r s) (key r) = Some r"
  by (simp add: load_save)

lemma load_save_other: "k \<noteq> key r \<Longrightarrow> load (save r s) k = load s k"
  by (simp add: load_save)

lemma load_save_overwrites: "key r = key r' \<Longrightarrow> load (save r' (save r s)) = load (save r' s)"
  by (auto simp: load_save)

lemma load_save_commutes:
  "key r \<noteq> key r' \<Longrightarrow> load (save r' (save r s)) = load (save r (save r' s))"
  by (auto simp: load_save)

lemma load_saves_frame: "k \<notin> key ` set rs \<Longrightarrow> load (fold save rs s) k = load s k"
  by (induction rs arbitrary: s) (auto simp: load_save)

end

text \<open>A transition system with an invariant that its initial states have and its steps keep.\<close>

locale invariant_system =
  fixes init :: "'s \<Rightarrow> bool"
    and step :: "'s \<Rightarrow> 's \<Rightarrow> bool"
    and inv :: "'s \<Rightarrow> bool"
  assumes init_inv: "init s \<Longrightarrow> inv s"
    and step_inv: "step s t \<Longrightarrow> inv s \<Longrightarrow> inv t"
begin

lemma steps_inv: "step\<^sup>*\<^sup>* s t \<Longrightarrow> inv s \<Longrightarrow> inv t"
  by (induction rule: rtranclp_induct) (auto intro: step_inv)

lemma reachable_inv: "init s \<Longrightarrow> step\<^sup>*\<^sup>* s t \<Longrightarrow> inv t"
  using steps_inv init_inv by blast

end

end
