(* ===== verification/Externals.thy ===== *)
theory Externals
  imports Prelude
begin

text \<open>
  The code outside the repository that the library and the SDK call: \<^verbatim>\<open>serde_json\<close>, \<^verbatim>\<open>uuid\<close>,
  \<^verbatim>\<open>chrono\<close>, \<^verbatim>\<open>sha2\<close> and the size constant of \<^verbatim>\<open>pubky-noise\<close>. Every definition that calls one of
  them takes the record \<open>ext\<close> as its first argument. What a theorem relies on is a hypothesis
  named here. The JSON tree and the field rules of the derived \<^verbatim>\<open>Deserialize\<close> instances are
  written out, since the wire structs of the repository are defined through them.
\<close>

section \<open>JSON documents\<close>

text \<open>
  The syntax tree of a JSON text. An object keeps its members in document order, repeated keys
  included: a struct field may not be repeated, while \<^verbatim>\<open>serde_json::Value\<close> keeps the last one.
\<close>

datatype json =
    JNull
  | JBool bool
  | JInt int
  | JFloat string
  | JStr string
  | JArr "json list"
  | JObj "(string \<times> json) list"

text \<open>\<^verbatim>\<open>serde_json::Map<String, Value>\<close>: sorted by key, each key once.\<close>

type_synonym json_map = "(string \<times> json) list"

fun map_insert :: "string \<Rightarrow> json \<Rightarrow> json_map \<Rightarrow> json_map" where
  "map_insert k v [] = [(k, v)]"
| "map_insert k v ((k', v') # m) =
     (if k = k' then (k, v) # m else if k < k' then (k, v) # (k', v') # m else (k', v') # map_insert k v m)"

text \<open>A document read as \<^verbatim>\<open>serde_json::Value\<close>: each object becomes a map, later members win.\<close>

fun to_value :: "json \<Rightarrow> json" where
  "to_value (JArr xs) = JArr (map to_value xs)"
| "to_value (JObj kvs) =
     JObj (foldl (\<lambda>m kv. map_insert (fst kv) (snd kv) m) [] (map (\<lambda>kv. (fst kv, to_value (snd kv))) kvs))"
| "to_value j = j"

fun wf_value :: "json \<Rightarrow> bool" where
  "wf_value (JArr xs) = list_all wf_value xs"
| "wf_value (JObj kvs) = (sorted_wrt (<) (map fst kvs) \<and> list_all (\<lambda>kv. wf_value (snd kv)) kvs)"
| "wf_value j = True"

definition wf_json_map :: "json_map \<Rightarrow> bool" where
  "wf_json_map m \<longleftrightarrow> wf_value (JObj m)"

text \<open>\<^verbatim>\<open>Value::get(key)\<close>, \<^verbatim>\<open>Value::as_str\<close>, \<^verbatim>\<open>Value::as_u64\<close>.\<close>

fun value_get :: "string \<Rightarrow> json \<Rightarrow> json option" where
  "value_get k (JObj kvs) = map_of kvs k"
| "value_get k _ = None"

fun as_str :: "json \<Rightarrow> string option" where
  "as_str (JStr s) = Some s"
| "as_str _ = None"

fun as_u64 :: "json \<Rightarrow> int option" where
  "as_u64 (JInt n) = (if 0 \<le> n \<and> n < 2 ^ 64 then Some n else None)"
| "as_u64 _ = None"

section \<open>Called code as parameters\<close>

text \<open>
  \<open>json_from_str\<close> parses a text and \<open>json_to_string\<close> prints a tree, or they give the displayed
  error; \<open>serde_error\<close> is the displayed error of reading a text as the named struct. A UUID is a
  128-bit number: \<open>uuid_try_parse\<close> reads any accepted spelling and \<open>uuid_hyphenated\<close> prints the
  canonical one. \<open>rfc3339\<close> parses a timestamp to its instant, or gives the displayed error.
  \<open>base64url_decode\<close> and \<open>base64url_encode\<close> are the \<^verbatim>\<open>URL_SAFE_NO_PAD\<close> engine on bytes.
  \<open>sha256_hex\<close> is the lower-case hexadecimal digest. \<open>noise_msg_len\<close> is
  \<^verbatim>\<open>pubky_noise::snow_crypto::PUBKY_NOISE_MSG_LEN\<close>. \<open>base64_error\<close> is the displayed decoding error;
  \<open>rfc3339_secs\<close> is \<^verbatim>\<open>to_rfc3339_opts(Secs, true)\<close>. A \<^verbatim>\<open>pubky::PublicKey\<close> is its 32 bytes; it is read
  from its z-base32 text, from its displayed text, from its bytes, and through its own serde
  instance. A Noise session state is its endpoint key and the rest of its fields, read and printed
  by \<^verbatim>\<open>pubky-noise\<close>. The authenticated cipher takes the key, the nonce, the message and the
  associated data.
\<close>

datatype PublicKey = PublicKey (public_key_bytes: string)

record PubkyNoiseSessionState =
  nss_endpoint_pubkey :: string
  nss_rest :: string

record ext =
  json_from_str :: "string \<Rightarrow> string + json"
  json_to_string :: "json \<Rightarrow> string + string"
  serde_error :: "string \<Rightarrow> string \<Rightarrow> string"
  uuid_try_parse :: "string \<Rightarrow> string + 128 word"
  uuid_hyphenated :: "128 word \<Rightarrow> string"
  rfc3339 :: "string \<Rightarrow> string + instant"
  base64url_decode :: "string \<Rightarrow> string option"
  base64url_encode :: "string \<Rightarrow> string"
  sha256_hex :: "string \<Rightarrow> string"
  noise_msg_len :: nat
  base64_error :: "string \<Rightarrow> string"
  rfc3339_secs :: "instant \<Rightarrow> string"
  public_key_from_z32 :: "string \<Rightarrow> string + PublicKey"
  public_key_z32 :: "PublicKey \<Rightarrow> string"
  public_key_from_text :: "string \<Rightarrow> string + PublicKey"
  public_key_display :: "PublicKey \<Rightarrow> string"
  public_key_from_bytes :: "string \<Rightarrow> string + PublicKey"
  de_public_key :: "json \<Rightarrow> PublicKey option"
  ser_public_key :: "PublicKey \<Rightarrow> json"
  noise_state_read :: "string \<Rightarrow> string + PubkyNoiseSessionState"
  noise_state_print :: "PubkyNoiseSessionState \<Rightarrow> string"
  aead_encrypt :: "string \<Rightarrow> string \<Rightarrow> string \<Rightarrow> string \<Rightarrow> string + string"
  aead_decrypt :: "string \<Rightarrow> string \<Rightarrow> string \<Rightarrow> string \<Rightarrow> string + string"

text \<open>\<^verbatim>\<open>Uuid::get_version_num\<close> and \<^verbatim>\<open>Uuid::get_variant() == RFC4122\<close>: the fields of RFC 4122.\<close>

definition uuid_version_num :: "128 word \<Rightarrow> nat" where
  "uuid_version_num u = unat (drop_bit 76 u) mod 16"

definition uuid_variant_rfc4122 :: "128 word \<Rightarrow> bool" where
  "uuid_variant_rfc4122 u \<longleftrightarrow> unat (drop_bit 62 u) mod 4 = 2"

text \<open>The documented round trip of the canonical UUID text.\<close>

definition uuid_roundtrip :: "ext \<Rightarrow> bool" where
  "uuid_roundtrip E \<longleftrightarrow> (\<forall>u. uuid_try_parse E (uuid_hyphenated E u) = Inr u)"

text \<open>The printed form of a document parses back to that document.\<close>

definition json_faithful :: "ext \<Rightarrow> json \<Rightarrow> bool" where
  "json_faithful E j \<longleftrightarrow> (case json_to_string E j of Inl _ \<Rightarrow> False | Inr s \<Rightarrow> json_from_str E s = Inr j)"

text \<open>Whatever document the printer prints, the text parses back to it.\<close>

definition json_prints_back :: "ext \<Rightarrow> bool" where
  "json_prints_back E \<longleftrightarrow> (\<forall>j s. json_to_string E j = Inr s \<longrightarrow> json_from_str E s = Inr j)"

text \<open>
  Decoding undoes encoding for base64url; decryption undoes encryption under the same key, nonce
  and associated data; the texts of a public key read back as the key; a session state reads back.
\<close>

definition base64_roundtrip :: "ext \<Rightarrow> bool" where
  "base64_roundtrip E \<longleftrightarrow> (\<forall>s. base64url_decode E (base64url_encode E s) = Some s)"

definition aead_correct :: "ext \<Rightarrow> bool" where
  "aead_correct E \<longleftrightarrow>
     (\<forall>key nonce msg aad c. aead_encrypt E key nonce msg aad = Inr c \<longrightarrow> aead_decrypt E key nonce c aad = Inr msg)"

definition public_key_roundtrip :: "ext \<Rightarrow> bool" where
  "public_key_roundtrip E \<longleftrightarrow>
     (\<forall>k. public_key_from_z32 E (public_key_z32 E k) = Inr k
        \<and> public_key_from_text E (public_key_display E k) = Inr k
        \<and> de_public_key E (ser_public_key E k) = Some k)"

definition noise_state_roundtrip :: "ext \<Rightarrow> PubkyNoiseSessionState \<Rightarrow> bool" where
  "noise_state_roundtrip E st \<longleftrightarrow> noise_state_read E (noise_state_print E st) = Inr st"

text \<open>\<^verbatim>\<open>serde_json::from_str::<Struct>\<close>: a syntax error and a shape error both give the displayed error.\<close>

definition struct_from_str :: "ext \<Rightarrow> string \<Rightarrow> (json \<Rightarrow> 'a option) \<Rightarrow> string \<Rightarrow> string + 'a" where
  "struct_from_str E name dec s =
     (case json_from_str E s of
        Inl _ \<Rightarrow> Inl (serde_error E name s)
      | Inr j \<Rightarrow> (case dec j of None \<Rightarrow> Inl (serde_error E name s) | Some w \<Rightarrow> Inr w))"

definition value_from_str :: "ext \<Rightarrow> string \<Rightarrow> json option" where
  "value_from_str E s = map_option to_value (ok_of (json_from_str E s))"

section \<open>Derived struct deserialisation\<close>

text \<open>
  A struct with named fields and \<^verbatim>\<open>deny_unknown_fields\<close> reads an object whose keys are among the
  fields and not repeated, or an array that lists the fields in declaration order.
\<close>

fun struct_fields :: "string list \<Rightarrow> json \<Rightarrow> (string \<times> json) list option" where
  "struct_fields names (JObj kvs) =
     (if distinct (map fst kvs) \<and> set (map fst kvs) \<subseteq> set names then Some kvs else None)"
| "struct_fields names (JArr xs) =
     (if length xs \<le> length names then Some (zip names xs) else None)"
| "struct_fields names _ = None"

text \<open>Without \<^verbatim>\<open>deny_unknown_fields\<close> an object may have other keys, repeated or not.\<close>

fun struct_fields_open :: "string list \<Rightarrow> json \<Rightarrow> (string \<times> json) list option" where
  "struct_fields_open names (JObj kvs) =
     (let known = filter (\<lambda>kv. fst kv \<in> set names) kvs
      in if distinct (map fst known) then Some known else None)"
| "struct_fields_open names (JArr xs) =
     (if length xs \<le> length names then Some (zip names xs) else None)"
| "struct_fields_open names _ = None"

definition field :: "string \<Rightarrow> (json \<Rightarrow> 'a option) \<Rightarrow> (string \<times> json) list \<Rightarrow> 'a option" where
  "field k dec kvs = Option.bind (map_of kvs k) dec"

definition field_default :: "'a \<Rightarrow> string \<Rightarrow> (json \<Rightarrow> 'a option) \<Rightarrow> (string \<times> json) list \<Rightarrow> 'a option" where
  "field_default d k dec kvs = (case map_of kvs k of None \<Rightarrow> Some d | Some j \<Rightarrow> dec j)"

fun de_string :: "json \<Rightarrow> string option" where
  "de_string (JStr s) = Some s"
| "de_string _ = None"

fun de_u8 :: "json \<Rightarrow> u8 option" where
  "de_u8 (JInt n) = (if 0 \<le> n \<and> n < 256 then Some (of_int n) else None)"
| "de_u8 _ = None"

fun de_u32 :: "json \<Rightarrow> u32 option" where
  "de_u32 (JInt n) = (if 0 \<le> n \<and> n < 2 ^ 32 then Some (of_int n) else None)"
| "de_u32 _ = None"

text \<open>\<^verbatim>\<open>Vec<u8>\<close>: an array of numbers below 256; here the bytes are characters.\<close>

fun de_byte :: "json \<Rightarrow> char option" where
  "de_byte (JInt n) = (if 0 \<le> n \<and> n < 256 then Some (char_of (nat n)) else None)"
| "de_byte _ = None"

fun de_bytes :: "json \<Rightarrow> string option" where
  "de_bytes (JArr xs) = omap_list de_byte xs"
| "de_bytes _ = None"

definition ser_bytes :: "string \<Rightarrow> json" where
  "ser_bytes s = JArr (map (\<lambda>c. JInt (int (of_char c))) s)"

text \<open>\<^verbatim>\<open>Option<T>\<close> in a required place: \<^verbatim>\<open>null\<close> is \<^verbatim>\<open>None\<close>.\<close>

fun de_nullable :: "(json \<Rightarrow> 'a option) \<Rightarrow> json \<Rightarrow> 'a option option" where
  "de_nullable dec JNull = Some None"
| "de_nullable dec j = map_option Some (dec j)"

text \<open>An \<^verbatim>\<open>Option<T>\<close> field: missing and \<^verbatim>\<open>null\<close> are both \<^verbatim>\<open>None\<close>.\<close>

definition field_option :: "string \<Rightarrow> (json \<Rightarrow> 'a option) \<Rightarrow> (string \<times> json) list \<Rightarrow> 'a option option" where
  "field_option k dec kvs = field_default None k (de_nullable dec) kvs"

definition ser_nullable :: "('a \<Rightarrow> json) \<Rightarrow> 'a option \<Rightarrow> json" where
  "ser_nullable ser x = (case x of None \<Rightarrow> JNull | Some v \<Rightarrow> ser v)"

fun de_string_list :: "json \<Rightarrow> string list option" where
  "de_string_list (JArr xs) = omap_list de_string xs"
| "de_string_list _ = None"

fun de_json_map :: "json \<Rightarrow> json_map option" where
  "de_json_map (JObj kvs) = (case to_value (JObj kvs) of JObj m \<Rightarrow> Some m | _ \<Rightarrow> None)"
| "de_json_map _ = None"

section \<open>Facts about documents\<close>

lemma map_insert_last:
  "sorted_wrt (<) (map fst (m @ [(k, v)])) \<Longrightarrow> map_insert k v m = m @ [(k, v)]"
  by (induction m) (auto simp: sorted_wrt_append)

lemma foldl_map_insert_sorted:
  "sorted_wrt (<) (map fst (m @ kvs)) \<Longrightarrow>
   foldl (\<lambda>m kv. map_insert (fst kv) (snd kv) m) m kvs = m @ kvs"
proof (induction kvs arbitrary: m)
  case Nil
  then show ?case by simp
next
  case (Cons kv kvs)
  have "map_insert (fst kv) (snd kv) m = m @ [kv]"
    using Cons.prems map_insert_last [of m "fst kv" "snd kv"] by (auto simp: sorted_wrt_append)
  then show ?case using Cons.IH [of "m @ [kv]"] Cons.prems by simp
qed

text \<open>A well-formed value is what reading its own printed form as a value gives.\<close>

lemma to_value_wf: "wf_value j \<Longrightarrow> to_value j = j"
proof (induction j)
  case (JArr xs)
  then have "map to_value xs = xs" by (auto simp: list_all_iff intro: map_idI)
  then show ?case by simp
next
  case (JObj kvs)
  have "(fst kv, to_value (snd kv)) = kv" if "kv \<in> set kvs" for kv
  proof -
    have "snd kv \<in> Basic_BNFs.snds kv" by (simp add: snds.simps)
    then show ?thesis using JObj that by (auto simp: list_all_iff prod_eq_iff)
  qed
  then have "map (\<lambda>kv. (fst kv, to_value (snd kv))) kvs = kvs" by (auto intro: map_idI)
  then show ?case using JObj.prems foldl_map_insert_sorted [of "[]" kvs] by simp
qed auto

lemma de_json_map_wf: "wf_json_map m \<Longrightarrow> de_json_map (JObj m) = Some m"
  using to_value_wf [of "JObj m"] by (simp add: wf_json_map_def)

lemma map_of_map_insert: "map_of (map_insert a b m) x = (if x = a then Some b else map_of m x)"
  by (induction m) auto

lemma dom_map_insert: "fst ` set (map_insert a b m) = insert a (fst ` set m)"
  by (induction a b m rule: map_insert.induct) (simp_all add: insert_commute)

lemma map_of_map_snd: "map_of (map (\<lambda>kv. (fst kv, f (snd kv))) kvs) k = map_option f (map_of kvs k)"
  by (induction kvs) auto

lemma foldl_insert_get:
  "distinct (map fst kvs) \<Longrightarrow>
   map_of (foldl (\<lambda>m kv. map_insert (fst kv) (snd kv) m) m kvs) k =
     (case map_of kvs k of Some v \<Rightarrow> Some v | None \<Rightarrow> map_of m k)"
proof (induction kvs arbitrary: m)
  case Nil
  then show ?case by simp
next
  case (Cons kv kvs)
  then show ?case
    by (cases kv) (auto simp: map_of_map_insert split: option.splits dest: map_of_SomeD
        intro: rev_image_eqI)
qed

text \<open>Reading a member of an object without repeated keys through \<^verbatim>\<open>Value::get\<close>.\<close>

lemma value_get_to_value:
  "distinct (map fst kvs) \<Longrightarrow> value_get k (to_value (JObj kvs)) = map_option to_value (map_of kvs k)"
  using foldl_insert_get [of "map (\<lambda>kv. (fst kv, to_value (snd kv))) kvs" "[]" k]
  by (simp add: comp_def map_of_map_snd option.case_eq_if map_option_case split: option.splits)

lemma de_string_to_value: "as_str (to_value j) = de_string j"
  by (cases j) auto

lemma omap_de_string [simp]: "omap_list de_string (map JStr xs) = Some xs"
  by (simp add: omap_list_map)

lemma de_nullable_ser:
  "(\<And>v. x = Some v \<Longrightarrow> ser v \<noteq> JNull \<and> dec (ser v) = Some v) \<Longrightarrow> de_nullable dec (ser_nullable ser x) = Some x"
proof (cases x)
  case (Some v)
  assume "\<And>v. x = Some v \<Longrightarrow> ser v \<noteq> JNull \<and> dec (ser v) = Some v"
  with Some show ?thesis by (cases "ser v") (auto simp: ser_nullable_def)
qed (simp add: ser_nullable_def)

lemma struct_from_str_Inr:
  "struct_from_str E name dec s = Inr w \<longleftrightarrow> (\<exists>j. json_from_str E s = Inr j \<and> dec j = Some w)"
  by (auto simp: struct_from_str_def split: sum.splits option.splits)

lemma struct_fields_obj:
  "struct_fields names j = Some kvs \<Longrightarrow> value_get k (to_value j) = Some v \<Longrightarrow> \<exists>u. j = JObj kvs \<and> map_of kvs k = Some u \<and> v = to_value u"
  by (cases j) (auto simp: value_get_to_value simp del: to_value.simps(2) split: if_splits)

lemma de_u8_of_word: "de_u8 (JInt (uint w)) = Some (w::u8)"
  using uint_bounded [of w] by simp

lemma de_u32_of_word: "de_u32 (JInt (uint w)) = Some (w::u32)"
  using uint_bounded [of w] by simp

lemma de_ser_bytes [simp]: "de_bytes (ser_bytes s) = Some s"
proof -
  have "omap_list de_byte (map (\<lambda>c. JInt (int (of_char c))) s) = Some s"
  proof (rule omap_list_map)
    fix c assume "c \<in> set s"
    have "(of_char c :: nat) < 256" by simp
    then show "de_byte (JInt (int (of_char c))) = Some c" by simp
  qed
  then show ?thesis by (simp add: ser_bytes_def)
qed

section \<open>A concrete instance\<close>

text \<open>
  An instance of the parameters with which the hypotheses hold: UUID texts are the 128 bits, least
  significant first, the JSON texts are those of a finite table, a timestamp denotes its length.
\<close>

definition binary_uuid_print :: "128 word \<Rightarrow> string" where
  "binary_uuid_print u = map (\<lambda>i. if bit u i then CHR ''1'' else CHR ''0'') [0..<128]"

definition binary_uuid_read :: "string \<Rightarrow> string + 128 word" where
  "binary_uuid_read s =
     (if length s = 128 then Inr (horner_sum of_bool 2 (map (\<lambda>c. c = CHR ''1'') s)) else Inl ''invalid length'')"

definition table_ext :: "(string \<times> json) list \<Rightarrow> ext" where
  "table_ext tab =
     \<lparr>json_from_str = (\<lambda>s. case map_of tab s of None \<Rightarrow> Inl ''syntax error'' | Some j \<Rightarrow> Inr j),
      json_to_string = (\<lambda>j. case map_of (map prod.swap tab) j of None \<Rightarrow> Inl ''unprintable'' | Some s \<Rightarrow> Inr s),
      serde_error = (\<lambda>name s. ''invalid '' @ name),
      uuid_try_parse = binary_uuid_read, uuid_hyphenated = binary_uuid_print,
      rfc3339 = (\<lambda>s. Inr (int (length s))),
      base64url_decode = Some, base64url_encode = (\<lambda>s. s), sha256_hex = (\<lambda>s. s), noise_msg_len = 1000,
      base64_error = (\<lambda>s. ''invalid base64''), rfc3339_secs = (\<lambda>t. replicate (nat t) CHR ''0'' @ ''Z''),
      public_key_from_z32 = (\<lambda>s. Inr (PublicKey s)), public_key_z32 = public_key_bytes,
      public_key_from_text = (\<lambda>s. Inr (PublicKey s)), public_key_display = public_key_bytes,
      public_key_from_bytes = (\<lambda>s. Inr (PublicKey s)),
      de_public_key = (\<lambda>j. map_option PublicKey (de_string j)), ser_public_key = (\<lambda>k. JStr (public_key_bytes k)),
      noise_state_read = (\<lambda>s. Inr \<lparr>nss_endpoint_pubkey = s, nss_rest = []\<rparr>), noise_state_print = nss_endpoint_pubkey,
      aead_encrypt = (\<lambda>key nonce msg aad. Inr (aad @ msg)),
      aead_decrypt = (\<lambda>key nonce msg aad. if take (length aad) msg = aad then Inr (drop (length aad) msg)
                                            else Inl ''aead::Error'')\<rparr>"

lemma table_ext_uuid_roundtrip: "uuid_roundtrip (table_ext tab)"
proof -
  have bits: "map (\<lambda>c. c = CHR ''1'') (binary_uuid_print u) = map (bit u) [0..<128]" for u
    by (simp add: binary_uuid_print_def comp_def)
  have "horner_sum of_bool 2 (map (bit u) [0..<128]) = u" for u :: "128 word"
    using horner_sum_bit_eq_take_bit [of u 128] by (simp add: take_bit_word_eq_self)
  moreover have "length (binary_uuid_print u) = 128" for u by (simp add: binary_uuid_print_def)
  ultimately show ?thesis
    by (simp add: uuid_roundtrip_def table_ext_def binary_uuid_read_def bits)
qed

lemma table_ext_prints_back: "distinct (map fst tab) \<Longrightarrow> json_prints_back (table_ext tab)"
  by (auto simp: json_prints_back_def table_ext_def map_of_eq_Some_iff split: option.splits
      dest!: map_of_SomeD dest: eq_key_imp_eq_value)

lemma table_ext_laws:
  "base64_roundtrip (table_ext tab)" "aead_correct (table_ext tab)" "public_key_roundtrip (table_ext tab)"
  by (simp_all add: base64_roundtrip_def aead_correct_def public_key_roundtrip_def table_ext_def)

text \<open>A version 4 UUID of that instance.\<close>

definition sample_uuid_num :: "128 word" where
  "sample_uuid_num = 2 ^ 78 + 2 ^ 63"

definition sample_uuid :: string where
  "sample_uuid = binary_uuid_print sample_uuid_num"

lemma sample_uuid_read: "uuid_try_parse (table_ext tab) sample_uuid = Inr sample_uuid_num"
  using table_ext_uuid_roundtrip [of tab] by (simp add: uuid_roundtrip_def sample_uuid_def table_ext_def)

lemma sample_uuid_v4: "uuid_version_num sample_uuid_num = 4" "uuid_variant_rfc4122 sample_uuid_num"
  by (simp_all add: uuid_version_num_def uuid_variant_rfc4122_def sample_uuid_num_def)

end
