(* ===== verification/Lib_Values.thy ===== *)
theory Lib_Values
  imports Externals
begin

text \<open>
  The value types of \<^verbatim>\<open>paykit-lib\<close> and their validation: the error type (\<^verbatim>\<open>error.rs\<close>), the shared
  validators (\<^verbatim>\<open>validation.rs\<close>), Payment Amounts, Payment References, receiver paths, Payment
  Endpoint Identifiers, event and request identifiers, Private Message Kinds, and the storage
  paths built from them (\<^verbatim>\<open>pubky_routing.rs\<close>). The lemmas characterise what each constructor
  accepts and show that accepted values cannot escape their place in a storage path.
\<close>

section \<open>Errors\<close>

text \<open>
  \<^verbatim>\<open>PaykitError\<close>. An \<^verbatim>\<open>anyhow::Error\<close> source is a message, a wrapped Paykit error or one of the two
  marker errors that classify deterministic private-link failures (with the displayed noise error).
\<close>

datatype paykit_error =
    Transport string anyhow
  | NotFound string
  | InvalidData string "anyhow option"
  | Validation string
and anyhow =
    AnyhowMsg string
  | AnyhowPaykit paykit_error
  | NonRetryablePrivateSendError string
  | NonRetryablePrivateReceiveError string

type_synonym 'a res = "paykit_error + 'a"

fun paykit_error_display :: "paykit_error \<Rightarrow> string" where
  "paykit_error_display (Transport ctx src) = ''transport error: '' @ ctx"
| "paykit_error_display (NotFound msg) = ''not found: '' @ msg"
| "paykit_error_display (InvalidData ctx src) = ''invalid data: '' @ ctx"
| "paykit_error_display (Validation msg) = ''validation error: '' @ msg"

fun is_non_retryable_private_send_error :: "paykit_error \<Rightarrow> bool" where
  "is_non_retryable_private_send_error (Transport _ (NonRetryablePrivateSendError _)) = True"
| "is_non_retryable_private_send_error _ = False"

fun is_non_retryable_private_receive_error :: "paykit_error \<Rightarrow> bool" where
  "is_non_retryable_private_receive_error (Transport _ (NonRetryablePrivateReceiveError _)) = True"
| "is_non_retryable_private_receive_error _ = False"

fun map_error :: "string \<Rightarrow> paykit_error \<Rightarrow> paykit_error" where
  "map_error label (Transport ctx src) = Transport (label @ '': '' @ ctx) src"
| "map_error label (NotFound msg) = NotFound (label @ '': '' @ msg)"
| "map_error label (InvalidData ctx src) = InvalidData (label @ '': '' @ ctx) src"
| "map_error label (Validation msg) = Validation (label @ '': '' @ msg)"

section \<open>Private Message Kinds\<close>

datatype PrivateMessageKind =
    PrivatePaymentListKind
  | ReceiptAccessKind
  | PaymentRequestKind
  | PaymentRequestAcceptanceKind
  | PaymentRequestRejectionKind
  | PaymentRequestCancellationKind
  | PaymentProofKind

fun kind_as_str :: "PrivateMessageKind \<Rightarrow> string" where
  "kind_as_str PrivatePaymentListKind = ''paykit.private_payment_list''"
| "kind_as_str ReceiptAccessKind = ''paykit.receipt_access''"
| "kind_as_str PaymentRequestKind = ''paykit.payment_request''"
| "kind_as_str PaymentRequestAcceptanceKind = ''paykit.payment_request_acceptance''"
| "kind_as_str PaymentRequestRejectionKind = ''paykit.payment_request_rejection''"
| "kind_as_str PaymentRequestCancellationKind = ''paykit.payment_request_cancellation''"
| "kind_as_str PaymentProofKind = ''paykit.payment_proof''"

definition kind_parse :: "string \<Rightarrow> PrivateMessageKind option" where
  "kind_parse s =
     (if s = ''paykit.private_payment_list'' then Some PrivatePaymentListKind
      else if s = ''paykit.receipt_access'' then Some ReceiptAccessKind
      else if s = ''paykit.payment_request'' then Some PaymentRequestKind
      else if s = ''paykit.payment_request_acceptance'' then Some PaymentRequestAcceptanceKind
      else if s = ''paykit.payment_request_rejection'' then Some PaymentRequestRejectionKind
      else if s = ''paykit.payment_request_cancellation'' then Some PaymentRequestCancellationKind
      else if s = ''paykit.payment_proof'' then Some PaymentProofKind
      else None)"

section \<open>Shared validators\<close>

definition validate_uuid_v4 :: "ext \<Rightarrow> string \<Rightarrow> string \<Rightarrow> string res" where
  "validate_uuid_v4 E value label =
     (case uuid_try_parse E value of
        Inl err \<Rightarrow> Inl (Validation (label @ '' must be a UUID v4 string: '' @ err))
      | Inr uuid \<Rightarrow>
          if uuid_version_num uuid \<noteq> 4 \<or> \<not> uuid_variant_rfc4122 uuid
          then Inl (Validation (label @ '' must be an RFC4122 UUID v4 string''))
          else Inr (uuid_hyphenated E uuid))"

definition invalid_data :: "string \<Rightarrow> anyhow option \<Rightarrow> paykit_error" where
  "invalid_data ctx src = InvalidData ctx src"

definition invalid_plaintext_json :: "string \<Rightarrow> paykit_error" where
  "invalid_plaintext_json ctx = InvalidData ctx None"

fun invalid_wire :: "paykit_error \<Rightarrow> string \<Rightarrow> paykit_error" where
  "invalid_wire (Validation msg) label = invalid_data (label @ '': '' @ msg) None"
| "invalid_wire other label = other"

definition parse_utc_timestamp :: "ext \<Rightarrow> string \<Rightarrow> string \<Rightarrow> instant res" where
  "parse_utc_timestamp E value fld =
     (if \<not> ends_with_char CHR ''Z'' value
      then Inl (Validation (fld @ '' must be an RFC3339 UTC timestamp using the Z suffix''))
      else map_err (\<lambda>err. Validation (fld @ '' must be a valid RFC3339 timestamp: '' @ err))
             (rfc3339 E value))"

definition validate_wire_version_kind_str :: "u8 \<Rightarrow> string \<Rightarrow> string \<Rightarrow> string \<Rightarrow> unit res" where
  "validate_wire_version_kind_str version kind expected_kind label =
     (if version \<noteq> 1 \<or> kind \<noteq> expected_kind
      then Inl (invalid_data (''unsupported '' @ label @ '' version/kind'') None)
      else Inr ())"

definition validate_wire_version_kind ::
  "u8 \<Rightarrow> string \<Rightarrow> PrivateMessageKind \<Rightarrow> string \<Rightarrow> unit res" where
  "validate_wire_version_kind version kind expected label =
     validate_wire_version_kind_str version kind (kind_as_str expected) label"

definition validate_outgoing_version_kind ::
  "u8 \<Rightarrow> PrivateMessageKind \<Rightarrow> PrivateMessageKind \<Rightarrow> string \<Rightarrow> unit res" where
  "validate_outgoing_version_kind version kind expected label =
     (if version \<noteq> 1 \<or> kind \<noteq> expected
      then Inl (Validation (label @ '' must use version 1 and kind '' @ kind_as_str expected))
      else Inr ())"

section \<open>Identifiers\<close>

datatype EventId = EventId (event_id_str: string)

definition EventId_new :: "ext \<Rightarrow> string \<Rightarrow> EventId res" where
  "EventId_new E s = rmap EventId (validate_uuid_v4 E s ''Event ID'')"

datatype PaymentRequestId = PaymentRequestId (request_id_str: string)

definition PaymentRequestId_new :: "ext \<Rightarrow> string \<Rightarrow> PaymentRequestId res" where
  "PaymentRequestId_new E s = rmap PaymentRequestId (validate_uuid_v4 E s ''Payment Request ID'')"

section \<open>Payment Amounts\<close>

record PaymentAmount =
  amount_value :: string
  amount_asset :: string

fun validate_decimal_loop :: "string \<Rightarrow> bool \<Rightarrow> bool \<Rightarrow> nat list \<Rightarrow> unit res" where
  "validate_decimal_loop label seen_dot seen_digit [] =
     (if \<not> seen_digit then Inl (Validation (label @ ''.value must contain at least one digit''))
      else Inr ())"
| "validate_decimal_loop label seen_dot seen_digit (ch # chs) =
     (if ch = 46 \<and> \<not> seen_dot then validate_decimal_loop label True seen_digit chs
      else if is_ascii_digit ch then validate_decimal_loop label seen_dot True chs
      else Inl (Validation (label @ ''.value must be a decimal string'')))"

definition validate_decimal :: "string \<Rightarrow> string \<Rightarrow> unit res" where
  "validate_decimal value label = validate_decimal_loop label False False (rust_chars value)"

definition validate_text :: "string \<Rightarrow> string \<Rightarrow> unit res" where
  "validate_text value fld =
     (if value = [] then Inl (Validation (''Payment Amount '' @ fld @ '' must not be empty''))
      else if list_ex is_control (rust_chars value)
      then Inl (Validation (''Payment Amount '' @ fld @ '' must not contain control characters''))
      else Inr ())"

definition amount_validate_with_label :: "PaymentAmount \<Rightarrow> string \<Rightarrow> unit res" where
  "amount_validate_with_label a label =
     rbind (validate_decimal (amount_value a) label) (\<lambda>_. validate_text (amount_asset a) ''asset'')"

definition PaymentAmount_new :: "string \<Rightarrow> string \<Rightarrow> PaymentAmount res" where
  "PaymentAmount_new v a =
     (let amount = \<lparr>amount_value = v, amount_asset = a\<rparr>
      in rbind (amount_validate_with_label amount ''Payment Amount'') (\<lambda>_. Inr amount))"

section \<open>Payment References\<close>

datatype PaymentReference = PaymentReference (reference_str: string)

definition PAYMENT_REFERENCE_MAX_LEN :: nat where
  "PAYMENT_REFERENCE_MAX_LEN = 256"

definition PaymentReference_new :: "string \<Rightarrow> PaymentReference res" where
  "PaymentReference_new reference =
     (if reference = [] then Inl (Validation ''Payment Reference must not be empty'')
      else let char_count = length (rust_chars reference) in
      if char_count > PAYMENT_REFERENCE_MAX_LEN
      then Inl (Validation (''Payment Reference must not exceed '' @ show_nat PAYMENT_REFERENCE_MAX_LEN
             @ '' characters, got '' @ show_nat char_count))
      else case List.find (\<lambda>(_, ch). is_control ch) (char_indices 0 reference) of
        Some (pos, ch) \<Rightarrow>
          Inl (Validation (''Payment Reference must not contain control character U+'' @ show_hex4 ch
             @ '' at byte '' @ show_nat pos))
      | None \<Rightarrow> Inr (PaymentReference reference))"

section \<open>Receiver paths\<close>

datatype PaykitReceiverPath = PaykitReceiverPath (receiver_path_str: string)

definition PAYKIT_RECEIVER_PATH_MAX_LEN :: nat where
  "PAYKIT_RECEIVER_PATH_MAX_LEN = 128"

definition PAYKIT_RECEIVER_SEGMENT_MAX_LEN :: nat where
  "PAYKIT_RECEIVER_SEGMENT_MAX_LEN = 64"

definition receiver_segment_char :: "nat \<Rightarrow> bool" where
  "receiver_segment_char ch \<longleftrightarrow> is_ascii_lowercase ch \<or> is_ascii_digit ch \<or> ch = 45"

definition validate_receiver_path_segment :: "string \<Rightarrow> unit res" where
  "validate_receiver_path_segment segment =
     (if segment = [] then Inl (Validation ''PaykitReceiverPath segments must not be empty'')
      else if length segment > PAYKIT_RECEIVER_SEGMENT_MAX_LEN
      then Inl (Validation (''PaykitReceiverPath segments must not exceed ''
             @ show_nat PAYKIT_RECEIVER_SEGMENT_MAX_LEN @ '' bytes''))
      else if segment = ''.'' \<or> segment = ''..''
      then Inl (Validation ''PaykitReceiverPath segments must not be path-traversal components'')
      else if list_ex (\<lambda>ch. \<not> receiver_segment_char ch) (rust_chars segment)
      then Inl (Validation (''PaykitReceiverPath segments may only contain lowercase ASCII letters, digits, and ''
             @ quoted ''-''))
      else Inr ())"

definition validate_receiver_path :: "string \<Rightarrow> unit res" where
  "validate_receiver_path value =
     (if value = [] then Inl (Validation ''PaykitReceiverPath must not be empty'')
      else if length value > PAYKIT_RECEIVER_PATH_MAX_LEN
      then Inl (Validation (''PaykitReceiverPath must not exceed ''
             @ show_nat PAYKIT_RECEIVER_PATH_MAX_LEN @ '' bytes''))
      else case split_on CHR ''/'' value of
        [app, runtime] \<Rightarrow>
          rbind (validate_receiver_path_segment app) (\<lambda>_.
          rbind (validate_receiver_path_segment runtime) (\<lambda>_.
            if app = ''private''
            then Inl (Validation (''PaykitReceiverPath app segment '' @ quoted ''private'' @ '' is reserved''))
            else if runtime = ''wallet'' \<or> runtime = ''server'' then Inr ()
            else Inl (Validation (''PaykitReceiverPath runtime segment must be '' @ quoted ''wallet''
                   @ '' or '' @ quoted ''server'' @ '', got '' @ quoted runtime))))
      | _ \<Rightarrow> Inl (Validation ''PaykitReceiverPath must have the shape {app}/{wallet|server}''))"

definition PaykitReceiverPath_new :: "string \<Rightarrow> PaykitReceiverPath res" where
  "PaykitReceiverPath_new value = rbind (validate_receiver_path value) (\<lambda>_. Inr (PaykitReceiverPath value))"

section \<open>Payment Endpoint Identifiers\<close>

datatype PaymentEndpointIdentifier = PaymentEndpointIdentifier (identifier_str: string)
datatype PaymentEndpointPayload = PaymentEndpointPayload (payload_str: string)

definition PAYMENT_ENDPOINT_IDENTIFIER_MAX_LEN :: nat where
  "PAYMENT_ENDPOINT_IDENTIFIER_MAX_LEN = 64"

definition identifier_char :: "nat \<Rightarrow> bool" where
  "identifier_char ch \<longleftrightarrow> is_ascii_alphanumeric ch \<or> ch = 45 \<or> ch = 95 \<or> ch = 46"

definition PaymentEndpointIdentifier_new :: "string \<Rightarrow> PaymentEndpointIdentifier res" where
  "PaymentEndpointIdentifier_new ident =
     (if ident = [] then Inl (Validation ''PaymentEndpointIdentifier must not be empty'')
      else if length ident > PAYMENT_ENDPOINT_IDENTIFIER_MAX_LEN
      then Inl (Validation (''PaymentEndpointIdentifier must not exceed ''
             @ show_nat PAYMENT_ENDPOINT_IDENTIFIER_MAX_LEN @ '' characters, got ''
             @ show_nat (length (rust_chars ident))))
      else if ident = ''private'' \<or> ident = ''encrypted-link-recovery''
      then Inl (Validation (''PaymentEndpointIdentifier '' @ quoted ident @ '' is reserved for Paykit storage''))
      else case List.find (\<lambda>(_, ch). \<not> identifier_char ch) (char_indices 0 ident) of
        Some (pos, ch) \<Rightarrow>
          Inl (Validation (''PaymentEndpointIdentifier contains forbidden character ''
             @ quoted (take (utf8_width (code_of (ident ! pos))) (drop pos ident))
             @ '' at byte '' @ show_nat pos @ '' in '' @ dquoted ident))
      | None \<Rightarrow>
          if list_all (\<lambda>b. b = CHR ''.'') ident
          then Inl (Validation (''PaymentEndpointIdentifier must not be a path-traversal component: ''
                 @ dquoted ident))
          else Inr (PaymentEndpointIdentifier ident))"

section \<open>Storage paths\<close>

definition PAYKIT_PATH_PREFIX :: string where
  "PAYKIT_PATH_PREFIX = ''/pub/paykit/v0''"

definition PAYKIT_PRIVATE_PATH_PREFIX :: string where
  "PAYKIT_PRIVATE_PATH_PREFIX = ''/pub/paykit/v0/private''"

definition receiver_marker_path :: "PaykitReceiverPath \<Rightarrow> string" where
  "receiver_marker_path rp = PAYKIT_PATH_PREFIX @ ''/'' @ receiver_path_str rp @ ''/receiver.json''"

definition payment_endpoint_path_prefix :: "PaykitReceiverPath \<Rightarrow> string" where
  "payment_endpoint_path_prefix rp = PAYKIT_PATH_PREFIX @ ''/'' @ receiver_path_str rp @ ''/endpoints/''"

definition payment_endpoint_path :: "PaykitReceiverPath \<Rightarrow> PaymentEndpointIdentifier \<Rightarrow> string" where
  "payment_endpoint_path rp ident = payment_endpoint_path_prefix rp @ identifier_str ident"

definition private_message_path_prefix :: "PaykitReceiverPath \<Rightarrow> string" where
  "private_message_path_prefix rp = PAYKIT_PRIVATE_PATH_PREFIX @ ''/'' @ receiver_path_str rp @ ''/messages''"

definition receipt_path_prefix :: "PaykitReceiverPath \<Rightarrow> string" where
  "receipt_path_prefix rp = PAYKIT_PRIVATE_PATH_PREFIX @ ''/'' @ receiver_path_str rp @ ''/receipts''"

definition encrypted_link_recovery_path_prefix :: "PaykitReceiverPath \<Rightarrow> string" where
  "encrypted_link_recovery_path_prefix rp =
     PAYKIT_PRIVATE_PATH_PREFIX @ ''/'' @ receiver_path_str rp @ ''/encrypted-link-recovery''"

text \<open>
  \<^verbatim>\<open>receiver_pair_path_domain\<close>: the public keys enter through their \<^verbatim>\<open>z32()\<close> text. The two
  (key, path) pairs are sorted, so both sides build the same bytes.
\<close>

definition receiver_pair_path_domain ::
  "string \<Rightarrow> string \<Rightarrow> PaykitReceiverPath \<Rightarrow> string \<Rightarrow> PaykitReceiverPath \<Rightarrow> string" where
  "receiver_pair_path_domain base local_key local_rp remote_key remote_rp =
     (let a = (local_key, receiver_path_str local_rp); b = (remote_key, receiver_path_str remote_rp);
          endpoints = (if fst b < fst a \<or> fst b = fst a \<and> snd b < snd a then [b, a] else [a, b])
      in base @ concat (map (\<lambda>(k, p). CHR 0x00 # k @ CHR 0x00 # p) endpoints))"

section \<open>Private Message Kinds are canonical\<close>

interpretation kind_enum: string_enum kind_as_str kind_parse
proof
  fix k s
  show "kind_parse (kind_as_str k) = Some k" by (cases k) (simp_all add: kind_parse_def)
  show "kind_parse s = Some k \<Longrightarrow> kind_as_str k = s" by (auto simp: kind_parse_def split: if_splits)
qed

section \<open>What the constructors accept\<close>

text \<open>Decimal text: digits with at most one point among them, and at least one digit.\<close>

definition decimal_text :: "nat list \<Rightarrow> bool" where
  "decimal_text cs \<longleftrightarrow>
     list_all (\<lambda>c. is_ascii_digit c \<or> c = 46) cs \<and> count_list cs 46 \<le> 1 \<and> list_ex is_ascii_digit cs"

lemma decimal_loop_iff:
  "validate_decimal_loop label dot d cs = Inr () \<longleftrightarrow>
     list_all (\<lambda>c. is_ascii_digit c \<or> c = 46) cs \<and> count_list cs 46 \<le> (if dot then 0 else 1)
     \<and> (d \<or> list_ex is_ascii_digit cs)"
proof (induction cs arbitrary: dot d)
  case Nil
  then show ?case by simp
next
  case (Cons ch cs)
  have "\<not> is_ascii_digit 46" by (simp add: is_ascii_digit_def)
  with Cons.IH show ?case by (cases "ch = 46"; cases dot) auto
qed

lemma validate_decimal_iff: "validate_decimal v label = Inr () \<longleftrightarrow> decimal_text (rust_chars v)"
  by (simp add: validate_decimal_def decimal_loop_iff decimal_text_def)

lemma validate_text_iff:
  "validate_text v fld = Inr () \<longleftrightarrow> v \<noteq> [] \<and> list_all (\<lambda>c. \<not> is_control c) (rust_chars v)"
  by (auto simp: validate_text_def list_all_iff list_ex_iff)

lemma amount_validate_iff:
  "amount_validate_with_label a label = Inr () \<longleftrightarrow>
     decimal_text (rust_chars (amount_value a)) \<and> amount_asset a \<noteq> []
     \<and> list_all (\<lambda>c. \<not> is_control c) (rust_chars (amount_asset a))"
  by (auto simp: amount_validate_with_label_def rbind_Inr_iff validate_decimal_iff validate_text_iff)

lemma find_None_list_all: "List.find P xs = None \<longleftrightarrow> list_all (\<lambda>x. \<not> P x) xs"
  by (auto simp: find_None_iff list_all_iff)

lemma receiver_segment_iff:
  "validate_receiver_path_segment seg = Inr () \<longleftrightarrow>
     seg \<noteq> [] \<and> length seg \<le> PAYKIT_RECEIVER_SEGMENT_MAX_LEN \<and> list_all receiver_segment_char (rust_chars seg)"
proof -
  have "\<not> list_all receiver_segment_char (rust_chars ''.'')"
    "\<not> list_all receiver_segment_char (rust_chars ''..'')"
    by (simp_all add: rust_chars_ascii receiver_segment_char_def is_ascii_lowercase_def is_ascii_digit_def)
  then show ?thesis
    by (auto simp: validate_receiver_path_segment_def list_all_iff list_ex_iff not_less)
qed

lemma runtime_segments_ok:
  "validate_receiver_path_segment ''wallet'' = Inr ()"
  "validate_receiver_path_segment ''server'' = Inr ()"
  by (simp_all add: receiver_segment_iff rust_chars_ascii receiver_segment_char_def
      is_ascii_lowercase_def is_ascii_digit_def PAYKIT_RECEIVER_SEGMENT_MAX_LEN_def)

text \<open>The shape \<^verbatim>\<open>{app}/{wallet|server}\<close>.\<close>

definition receiver_path_shape :: "string \<Rightarrow> string \<Rightarrow> string \<Rightarrow> bool" where
  "receiver_path_shape v app runtime \<longleftrightarrow>
     v = app @ CHR ''/'' # runtime \<and> (runtime = ''wallet'' \<or> runtime = ''server'')
     \<and> app \<noteq> [] \<and> length app \<le> 64 \<and> list_all receiver_segment_char (rust_chars app)
     \<and> CHR ''/'' \<notin> set app \<and> app \<noteq> ''private''"

lemma receiver_path_new_iff:
  "PaykitReceiverPath_new v = Inr p \<longleftrightarrow>
     p = PaykitReceiverPath v \<and> (\<exists>app runtime. receiver_path_shape v app runtime)"
proof -
  have "validate_receiver_path v = Inr () \<longleftrightarrow> (\<exists>app runtime. receiver_path_shape v app runtime)"
  proof
    assume ok: "validate_receiver_path v = Inr ()"
    then obtain app runtime where split: "split_on CHR ''/'' v = [app, runtime]"
      by (auto simp: validate_receiver_path_def split: if_splits list.splits)
    from split have v: "v = app @ CHR ''/'' # runtime \<and> CHR ''/'' \<notin> set app"
      by (simp add: split_on_two)
    from ok split have "receiver_path_shape v app runtime"
      using v by (auto simp: validate_receiver_path_def receiver_path_shape_def rbind_Inr_iff
          receiver_segment_iff PAYKIT_RECEIVER_SEGMENT_MAX_LEN_def split: if_splits)
    then show "\<exists>app runtime. receiver_path_shape v app runtime" by blast
  next
    assume "\<exists>app runtime. receiver_path_shape v app runtime"
    then obtain app runtime where shape: "receiver_path_shape v app runtime" by blast
    then have v: "v = app @ CHR ''/'' # runtime" and rt: "runtime = ''wallet'' \<or> runtime = ''server''"
      by (auto simp: receiver_path_shape_def)
    have split: "split_on CHR ''/'' v = [app, runtime]"
      using shape by (auto simp: receiver_path_shape_def split_on_two)
    have seg: "validate_receiver_path_segment app = Inr ()" "validate_receiver_path_segment runtime = Inr ()"
      using shape rt runtime_segments_ok
      by (auto simp: receiver_segment_iff receiver_path_shape_def PAYKIT_RECEIVER_SEGMENT_MAX_LEN_def)
    have "length v \<le> PAYKIT_RECEIVER_PATH_MAX_LEN"
      using shape by (auto simp: receiver_path_shape_def PAYKIT_RECEIVER_PATH_MAX_LEN_def)
    with v split seg shape show "validate_receiver_path v = Inr ()"
      by (auto simp: validate_receiver_path_def receiver_path_shape_def)
  qed
  then show ?thesis by (auto simp: PaykitReceiverPath_new_def rbind_Inr_iff)
qed

lemma identifier_char_ascii: "identifier_char c \<Longrightarrow> c < 128"
  by (auto simp: identifier_char_def is_ascii_alphanumeric_def is_ascii_digit_def
      is_ascii_lowercase_def is_ascii_uppercase_def)

lemma identifier_bytes:
  assumes "valid_utf8 s"
  shows "list_all (\<lambda>x. identifier_char (snd x)) (char_indices 0 s) \<longleftrightarrow> list_all (\<lambda>c. identifier_char (code_of c)) s"
proof
  assume "list_all (\<lambda>x. identifier_char (snd x)) (char_indices 0 s)"
  then have ids: "\<forall>x \<in> set (map snd (char_indices 0 s)). identifier_char x"
    by (auto simp: list_all_iff)
  then have "\<forall>c \<in> set s. code_of c < 128"
    using valid_utf8_ascii_bytes [OF assms, of 0] identifier_char_ascii by auto
  then have "map snd (char_indices 0 s) = map code_of s" by (rule char_indices_ascii)
  with ids show "list_all (\<lambda>c. identifier_char (code_of c)) s" by (auto simp: list_all_iff)
next
  assume ids: "list_all (\<lambda>c. identifier_char (code_of c)) s"
  then have "map snd (char_indices 0 s) = map code_of s"
    by (intro char_indices_ascii) (auto simp: list_all_iff dest: identifier_char_ascii)
  then have "list_all identifier_char (map snd (char_indices 0 s)) = list_all identifier_char (map code_of s)"
    by simp
  with ids show "list_all (\<lambda>x. identifier_char (snd x)) (char_indices 0 s)"
    by (simp add: list.pred_map comp_def)
qed

lemma identifier_new_iff:
  assumes "valid_utf8 i"
  shows "PaymentEndpointIdentifier_new i = Inr x \<longleftrightarrow>
     x = PaymentEndpointIdentifier i \<and> i \<noteq> [] \<and> length i \<le> 64 \<and> i \<noteq> ''private'' \<and> i \<noteq> ''encrypted-link-recovery''
     \<and> list_all (\<lambda>c. identifier_char (code_of c)) i \<and> \<not> list_all (\<lambda>b. b = CHR ''.'') i"
proof -
  have find: "List.find (\<lambda>(_, ch). \<not> identifier_char ch) (char_indices 0 i) = None
     \<longleftrightarrow> list_all (\<lambda>c. identifier_char (code_of c)) i"
    using identifier_bytes [OF assms] by (simp add: find_None_list_all split_beta)
  show ?thesis
  proof (cases "list_all (\<lambda>c. identifier_char (code_of c)) i")
    case True
    then show ?thesis
      using find by (auto simp: PaymentEndpointIdentifier_new_def PAYMENT_ENDPOINT_IDENTIFIER_MAX_LEN_def)
  next
    case False
    then obtain p where "List.find (\<lambda>(_, ch). \<not> identifier_char ch) (char_indices 0 i) = Some p"
      using find by (metis not_None_eq)
    with False show ?thesis
      by (auto simp: PaymentEndpointIdentifier_new_def split: prod.splits)
  qed
qed

lemma uuid_canonical_fixed:
  "uuid_roundtrip E \<Longrightarrow> validate_uuid_v4 E s label = Inr c \<Longrightarrow> validate_uuid_v4 E c label' = Inr c"
  by (auto simp: validate_uuid_v4_def uuid_roundtrip_def split: sum.splits if_splits)

lemma sample_ids:
  "EventId_new (table_ext tab) sample_uuid = Inr (EventId sample_uuid)"
  "PaymentRequestId_new (table_ext tab) sample_uuid = Inr (PaymentRequestId sample_uuid)"
proof -
  have "validate_uuid_v4 (table_ext tab) sample_uuid label = Inr sample_uuid" for label
    unfolding validate_uuid_v4_def sample_uuid_read by (simp add: sample_uuid_v4 table_ext_def sample_uuid_def)
  then show "EventId_new (table_ext tab) sample_uuid = Inr (EventId sample_uuid)"
    "PaymentRequestId_new (table_ext tab) sample_uuid = Inr (PaymentRequestId sample_uuid)"
    by (simp_all add: EventId_new_def PaymentRequestId_new_def)
qed

section \<open>Accepted values stay in their place\<close>

lemma identifier_no_slash:
  "list_all (\<lambda>c. identifier_char (code_of c)) i \<Longrightarrow> CHR ''/'' \<notin> set i"
  by (auto simp: list_all_iff identifier_char_def is_ascii_alphanumeric_def is_ascii_digit_def
      is_ascii_lowercase_def is_ascii_uppercase_def)

lemma split_endpoint_path:
  assumes "CHR ''/'' \<notin> set app" and "CHR ''/'' \<notin> set runtime" and "CHR ''/'' \<notin> set i"
  shows "split_on CHR ''/'' (payment_endpoint_path (PaykitReceiverPath (app @ CHR ''/'' # runtime))
           (PaymentEndpointIdentifier i))
         = [[], ''pub'', ''paykit'', ''v0'', app, runtime, ''endpoints'', i]"
  using assms split_on_append [of "CHR ''/''" app] split_on_append [of "CHR ''/''" runtime]
  by (simp add: payment_endpoint_path_def payment_endpoint_path_prefix_def PAYKIT_PATH_PREFIX_def
      split_on_no_sep)

lemma runtime_no_slash: "runtime = ''wallet'' \<or> runtime = ''server'' \<Longrightarrow> CHR ''/'' \<notin> set runtime"
  by auto

lemma append_sep_eq:
  "c \<notin> set a \<Longrightarrow> c \<notin> set b \<Longrightarrow> a @ c # x = b @ c # y \<longleftrightarrow> a = b \<and> x = y"
proof (induction a arbitrary: b)
  case Nil
  then show ?case by (cases b) auto
next
  case (Cons d a)
  then show ?case by (cases b) auto
qed

text \<open>The Payment Amount constructor accepts exactly the values made of ASCII digits and at most
  one decimal point with at least one digit, together with a non-empty asset without control
  characters, and stores them unchanged.\<close>

theorem payment_amount_new_exact:
  "PaymentAmount_new v a = Inr amount \<longleftrightarrow>
     amount = \<lparr>amount_value = v, amount_asset = a\<rparr> \<and> decimal_text (rust_chars v)
     \<and> a \<noteq> [] \<and> list_all (\<lambda>c. \<not> is_control c) (rust_chars a)"
  by (auto simp: PaymentAmount_new_def Let_def rbind_Inr_iff amount_validate_iff)

text \<open>The Payment Reference constructor accepts exactly the non-empty texts of at most 256 Unicode
  scalar values without control characters, and stores them unchanged.\<close>

theorem payment_reference_new_exact:
  "PaymentReference_new r = Inr x \<longleftrightarrow>
     x = PaymentReference r \<and> r \<noteq> [] \<and> length (rust_chars r) \<le> 256
     \<and> list_all (\<lambda>c. \<not> is_control c) (rust_chars r)"
proof -
  have find: "List.find (\<lambda>(_, ch). is_control ch) (char_indices 0 r) = None
     \<longleftrightarrow> list_all (\<lambda>c. \<not> is_control c) (rust_chars r)"
    by (simp add: find_None_list_all rust_chars_def list.pred_map comp_def split_beta)
  show ?thesis
  proof (cases "List.find (\<lambda>(_, ch). is_control ch) (char_indices 0 r)")
    case None
    with find show ?thesis
      by (auto simp: PaymentReference_new_def PAYMENT_REFERENCE_MAX_LEN_def Let_def)
  next
    case (Some p)
    with find have "\<not> list_all (\<lambda>c. \<not> is_control c) (rust_chars r)" by simp
    with Some show ?thesis
      by (auto simp: PaymentReference_new_def Let_def split: prod.splits)
  qed
qed

text \<open>a Payment Endpoint stored under an accepted receiver path and an accepted identifier lands
  exactly at \<^verbatim>\<open>/pub/paykit/v0/{app}/{runtime}/endpoints/{identifier}\<close>: the path splits into these
  eight segments, so neither value can add, remove or traverse a path component, the receiver
  segment is never the reserved \<^verbatim>\<open>private\<close> folder, and the identifier is no dot component.\<close>

theorem endpoint_path_confined:
  assumes rp: "PaykitReceiverPath_new v = Inr rp"
    and ident: "PaymentEndpointIdentifier_new i = Inr x" and utf8: "valid_utf8 i"
  shows "\<exists>app runtime. v = app @ CHR ''/'' # runtime \<and> app \<noteq> ''private''
     \<and> split_on CHR ''/'' (payment_endpoint_path rp x) = [[], ''pub'', ''paykit'', ''v0'', app, runtime, ''endpoints'', i]
     \<and> i \<noteq> ''.'' \<and> i \<noteq> ''..''"
proof -
  from rp obtain app runtime where shape: "receiver_path_shape v app runtime" and rpv: "rp = PaykitReceiverPath v"
    by (auto simp: receiver_path_new_iff)
  from ident utf8 have x: "x = PaymentEndpointIdentifier i" and "CHR ''/'' \<notin> set i" "i \<noteq> ''.''" "i \<noteq> ''..''"
    using identifier_no_slash [of i] by (auto simp: identifier_new_iff)
  moreover have "CHR ''/'' \<notin> set app" "CHR ''/'' \<notin> set runtime"
    using shape runtime_no_slash by (auto simp: receiver_path_shape_def)
  ultimately show ?thesis
    using shape rpv split_endpoint_path [of app runtime i] by (auto simp: receiver_path_shape_def)
qed

theorem endpoint_path_confined_witness:
  "split_on CHR ''/'' (payment_endpoint_path (PaykitReceiverPath ''bitkit/wallet'')
      (PaymentEndpointIdentifier ''btc-lightning-bolt11''))
    = [[], ''pub'', ''paykit'', ''v0'', ''bitkit'', ''wallet'', ''endpoints'', ''btc-lightning-bolt11'']"
proof -
  have utf8: "valid_utf8 ''btc-lightning-bolt11''" by (rule valid_utf8_ascii) simp
  have rp: "PaykitReceiverPath_new ''bitkit/wallet'' = Inr (PaykitReceiverPath ''bitkit/wallet'')"
    by code_simp
  have ident: "PaymentEndpointIdentifier_new ''btc-lightning-bolt11'' = Inr (PaymentEndpointIdentifier ''btc-lightning-bolt11'')"
    by code_simp
  obtain app runtime where "''bitkit/wallet'' = app @ CHR ''/'' # runtime"
    "split_on CHR ''/'' (payment_endpoint_path (PaykitReceiverPath ''bitkit/wallet'')
       (PaymentEndpointIdentifier ''btc-lightning-bolt11''))
     = [[], ''pub'', ''paykit'', ''v0'', app, runtime, ''endpoints'', ''btc-lightning-bolt11'']"
    using endpoint_path_confined [OF rp ident utf8] by blast
  moreover from this(1) have "app = ''bitkit'' \<and> runtime = ''wallet''"
    by (auto simp: Cons_eq_append_conv)
  ultimately show ?thesis by simp
qed

text \<open>The two sorted endpoints of a path domain, and the bytes they contribute.\<close>

definition pair_endpoints :: "string \<times> string \<Rightarrow> string \<times> string \<Rightarrow> (string \<times> string) list" where
  "pair_endpoints a b = (if fst b < fst a \<or> fst b = fst a \<and> snd b < snd a then [b, a] else [a, b])"

lemma receiver_pair_path_domain_eq:
  "receiver_pair_path_domain base k1 p1 k2 p2 =
     base @ concat (map (\<lambda>(k, p). CHR 0x00 # k @ CHR 0x00 # p)
       (pair_endpoints (k1, receiver_path_str p1) (k2, receiver_path_str p2)))"
  by (simp add: receiver_pair_path_domain_def pair_endpoints_def Let_def)

lemma pair_mset_eq: "{#a, b#} = {#c, d#} \<longleftrightarrow> a = c \<and> b = d \<or> a = d \<and> b = c"
  by (auto simp: add_eq_conv_ex)

lemma pair_endpoints_sym: "pair_endpoints a b = pair_endpoints b a"
  by (auto simp: pair_endpoints_def prod_eq_iff)

lemma pair_endpoints_mset: "mset (pair_endpoints a b) = {#a, b#}"
  by (simp add: pair_endpoints_def add_mset_commute)

lemma nul_separated_inject:
  assumes "CHR 0x00 \<notin> set k1" "CHR 0x00 \<notin> set p1" "CHR 0x00 \<notin> set k2" "CHR 0x00 \<notin> set p2"
    and "CHR 0x00 \<notin> set k3" "CHR 0x00 \<notin> set p3" "CHR 0x00 \<notin> set k4" "CHR 0x00 \<notin> set p4"
    and "k1 @ CHR 0x00 # p1 @ CHR 0x00 # k2 @ CHR 0x00 # p2
       = k3 @ CHR 0x00 # p3 @ CHR 0x00 # k4 @ CHR 0x00 # p4"
  shows "k1 = k3 \<and> p1 = p3 \<and> k2 = k4 \<and> p2 = p4"
  using assms by (simp add: append_sep_eq)

text \<open>both sides of a link derive the same path domain, whichever of them is local, and two links
  with the same domain connect the same unordered pair of (identity key, receiver path) endpoints;
  keys and receiver paths hold no NUL byte.\<close>

theorem receiver_pair_path_domain_agrees:
  assumes "\<And>s. s \<in> {k1, k2, k3, k4, receiver_path_str p1, receiver_path_str p2, receiver_path_str p3, receiver_path_str p4}
             \<Longrightarrow> CHR 0x00 \<notin> set s"
  shows "receiver_pair_path_domain base k1 p1 k2 p2 = receiver_pair_path_domain base k2 p2 k1 p1
     \<and> (receiver_pair_path_domain base k1 p1 k2 p2 = receiver_pair_path_domain base k3 p3 k4 p4
        \<longleftrightarrow> {#(k1, p1), (k2, p2)#} = {#(k3, p3), (k4, p4)#})"
proof
  show "receiver_pair_path_domain base k1 p1 k2 p2 = receiver_pair_path_domain base k2 p2 k1 p1"
    by (simp add: receiver_pair_path_domain_eq pair_endpoints_sym)
  let ?e = "pair_endpoints (k1, receiver_path_str p1) (k2, receiver_path_str p2)"
  let ?f = "pair_endpoints (k3, receiver_path_str p3) (k4, receiver_path_str p4)"
  have nul: "CHR 0x00 \<notin> set k1" "CHR 0x00 \<notin> set k2" "CHR 0x00 \<notin> set k3" "CHR 0x00 \<notin> set k4"
    "CHR 0x00 \<notin> set (receiver_path_str p1)" "CHR 0x00 \<notin> set (receiver_path_str p2)"
    "CHR 0x00 \<notin> set (receiver_path_str p3)" "CHR 0x00 \<notin> set (receiver_path_str p4)"
    using assms by simp_all
  have "receiver_pair_path_domain base k1 p1 k2 p2 = receiver_pair_path_domain base k3 p3 k4 p4 \<longleftrightarrow> ?e = ?f"
    using nul by (auto simp: receiver_pair_path_domain_eq pair_endpoints_def append_sep_eq)
  also have "\<dots> \<longleftrightarrow> {#(k1, receiver_path_str p1), (k2, receiver_path_str p2)#}
                   = {#(k3, receiver_path_str p3), (k4, receiver_path_str p4)#}"
  proof
    assume "?e = ?f"
    then show "{#(k1, receiver_path_str p1), (k2, receiver_path_str p2)#}
                 = {#(k3, receiver_path_str p3), (k4, receiver_path_str p4)#}"
      by (metis pair_endpoints_mset)
  next
    assume "{#(k1, receiver_path_str p1), (k2, receiver_path_str p2)#}
                 = {#(k3, receiver_path_str p3), (k4, receiver_path_str p4)#}"
    then show "?e = ?f" by (auto simp: pair_mset_eq pair_endpoints_sym)
  qed
  also have "\<dots> \<longleftrightarrow> {#(k1, p1), (k2, p2)#} = {#(k3, p3), (k4, p4)#}"
    by (cases p1; cases p2; cases p3; cases p4) (auto simp: pair_mset_eq)
  finally show "receiver_pair_path_domain base k1 p1 k2 p2 = receiver_pair_path_domain base k3 p3 k4 p4
      \<longleftrightarrow> {#(k1, p1), (k2, p2)#} = {#(k3, p3), (k4, p4)#}" .
qed

theorem receiver_pair_path_domain_agrees_witness:
  "receiver_pair_path_domain ''d'' ''aa'' (PaykitReceiverPath ''x/wallet'') ''bb'' (PaykitReceiverPath ''y/server'')
     \<noteq> receiver_pair_path_domain ''d'' ''aa'' (PaykitReceiverPath ''y/server'') ''bb'' (PaykitReceiverPath ''x/wallet'')"
proof -
  have "{#(''aa'', PaykitReceiverPath ''x/wallet''), (''bb'', PaykitReceiverPath ''y/server'')#}
      \<noteq> {#(''aa'', PaykitReceiverPath ''y/server''), (''bb'', PaykitReceiverPath ''x/wallet'')#}"
    by (simp add: pair_mset_eq)
  moreover have "receiver_pair_path_domain ''d'' ''aa'' (PaykitReceiverPath ''x/wallet'') ''bb'' (PaykitReceiverPath ''y/server'')
       = receiver_pair_path_domain ''d'' ''aa'' (PaykitReceiverPath ''y/server'') ''bb'' (PaykitReceiverPath ''x/wallet'')
     \<longleftrightarrow> {#(''aa'', PaykitReceiverPath ''x/wallet''), (''bb'', PaykitReceiverPath ''y/server'')#}
      = {#(''aa'', PaykitReceiverPath ''y/server''), (''bb'', PaykitReceiverPath ''x/wallet'')#}"
    by (rule conjunct2 [OF receiver_pair_path_domain_agrees]) auto
  ultimately show ?thesis by blast
qed

end
