(* ===== verification/Payment_Request_Types.thy ===== *)
theory Payment_Request_Types
  imports Lib_Values
begin

text \<open>
  Payment Request protocol data (\<^verbatim>\<open>paykit-lib/src/payment_request/types.rs\<close>): recurrence, terms,
  billing periods, the five lifecycle Event Messages, their validators and the stateless check of
  a Payment Proof against the request it pays.
\<close>

section \<open>Recurrence and billing periods\<close>

datatype RecurrenceUnit = Minute | Hour | Day | Week | Month | Year

fun recurrence_unit_as_str :: "RecurrenceUnit \<Rightarrow> string" where
  "recurrence_unit_as_str Minute = ''minute''"
| "recurrence_unit_as_str Hour = ''hour''"
| "recurrence_unit_as_str Day = ''day''"
| "recurrence_unit_as_str Week = ''week''"
| "recurrence_unit_as_str Month = ''month''"
| "recurrence_unit_as_str Year = ''year''"

definition recurrence_unit_parse :: "string \<Rightarrow> RecurrenceUnit res" where
  "recurrence_unit_parse s =
     (if s = ''minute'' then Inr Minute
      else if s = ''hour'' then Inr Hour
      else if s = ''day'' then Inr Day
      else if s = ''week'' then Inr Week
      else if s = ''month'' then Inr Month
      else if s = ''year'' then Inr Year
      else Inl (Validation (''unsupported Recurrence unit '' @ quoted s)))"

record Recurrence =
  rec_every :: u32
  rec_unit :: RecurrenceUnit
  rec_starts_at :: string
  rec_anchor :: string
  rec_ends_at :: "string option"

record BillingPeriod =
  bp_starts_at :: string
  bp_ends_at :: string

definition recurrence_validate :: "ext \<Rightarrow> Recurrence \<Rightarrow> unit res" where
  "recurrence_validate E r =
     (if rec_every r = 0 then Inl (Validation ''Recurrence every must be a positive integer'')
      else
        rbind (parse_utc_timestamp E (rec_starts_at r) ''Recurrence starts_at'') (\<lambda>starts_at.
        rbind (parse_utc_timestamp E (rec_anchor r) ''Recurrence anchor'') (\<lambda>_.
        case rec_ends_at r of
          None \<Rightarrow> Inr ()
        | Some ends \<Rightarrow>
            rbind (parse_utc_timestamp E ends ''Recurrence ends_at'') (\<lambda>ends_at.
            if ends_at \<le> starts_at then Inl (Validation ''Recurrence ends_at must be after starts_at'')
            else Inr ()))))"

definition billing_validate_with_label :: "ext \<Rightarrow> BillingPeriod \<Rightarrow> string \<Rightarrow> unit res" where
  "billing_validate_with_label E p label =
     rbind (parse_utc_timestamp E (bp_starts_at p) (label @ '' starts_at'')) (\<lambda>starts_at.
     rbind (parse_utc_timestamp E (bp_ends_at p) (label @ '' ends_at'')) (\<lambda>ends_at.
     if ends_at \<le> starts_at then Inl (Validation (label @ '' ends_at must be after starts_at''))
     else Inr ()))"

definition billing_validate :: "ext \<Rightarrow> BillingPeriod \<Rightarrow> unit res" where
  "billing_validate E p = billing_validate_with_label E p ''Billing Period''"

section \<open>Terms\<close>

record PaymentRequestTerms =
  terms_amount :: PaymentAmount
  terms_payment_reference :: PaymentReference
  terms_proposal_expires_at :: "string option"
  terms_recurrence :: "Recurrence option"
  terms_identifiers :: "PaymentEndpointIdentifier list"
  terms_metadata :: json_map

definition terms_validate :: "ext \<Rightarrow> PaymentRequestTerms \<Rightarrow> unit res" where
  "terms_validate E t =
     rbind (amount_validate_with_label (terms_amount t) ''Payment Request amount'') (\<lambda>_.
     rbind (case terms_proposal_expires_at t of
              None \<Rightarrow> Inr ()
            | Some exp \<Rightarrow> rmap (\<lambda>_. ()) (parse_utc_timestamp E exp ''Payment Request proposal_expires_at'')) (\<lambda>_.
     rbind (case terms_recurrence t of None \<Rightarrow> Inr () | Some r \<Rightarrow> recurrence_validate E r) (\<lambda>_.
     if terms_identifiers t = []
     then Inl (Validation ''accepted_payment_endpoint_identifiers must not be empty'')
     else Inr ())))"

section \<open>Event Messages\<close>

record PaymentRequest =
  prq_version :: u8
  prq_kind :: PrivateMessageKind
  prq_event_id :: EventId
  prq_request_id :: PaymentRequestId
  prq_request :: PaymentRequestTerms

definition PaymentRequest_new :: "EventId \<Rightarrow> PaymentRequestId \<Rightarrow> PaymentRequestTerms \<Rightarrow> PaymentRequest" where
  "PaymentRequest_new eid rid terms =
     \<lparr>prq_version = 1, prq_kind = PaymentRequestKind, prq_event_id = eid, prq_request_id = rid,
      prq_request = terms\<rparr>"

record PaymentRequestAcceptance =
  acc_version :: u8
  acc_kind :: PrivateMessageKind
  acc_event_id :: EventId
  acc_request_id :: PaymentRequestId

definition PaymentRequestAcceptance_new :: "EventId \<Rightarrow> PaymentRequestId \<Rightarrow> PaymentRequestAcceptance" where
  "PaymentRequestAcceptance_new eid rid =
     \<lparr>acc_version = 1, acc_kind = PaymentRequestAcceptanceKind, acc_event_id = eid, acc_request_id = rid\<rparr>"

record PaymentRequestRejection =
  rej_version :: u8
  rej_kind :: PrivateMessageKind
  rej_event_id :: EventId
  rej_request_id :: PaymentRequestId
  rej_reason :: "string option"

definition PaymentRequestRejection_new ::
  "EventId \<Rightarrow> PaymentRequestId \<Rightarrow> string option \<Rightarrow> PaymentRequestRejection" where
  "PaymentRequestRejection_new eid rid reason =
     \<lparr>rej_version = 1, rej_kind = PaymentRequestRejectionKind, rej_event_id = eid, rej_request_id = rid,
      rej_reason = reason\<rparr>"

record PaymentRequestCancellation =
  can_version :: u8
  can_kind :: PrivateMessageKind
  can_event_id :: EventId
  can_request_id :: PaymentRequestId
  can_reason :: "string option"

definition PaymentRequestCancellation_new ::
  "EventId \<Rightarrow> PaymentRequestId \<Rightarrow> string option \<Rightarrow> PaymentRequestCancellation" where
  "PaymentRequestCancellation_new eid rid reason =
     \<lparr>can_version = 1, can_kind = PaymentRequestCancellationKind, can_event_id = eid,
      can_request_id = rid, can_reason = reason\<rparr>"

record PaymentProof =
  prf_version :: u8
  prf_kind :: PrivateMessageKind
  prf_event_id :: EventId
  prf_request_id :: PaymentRequestId
  prf_payment_reference :: PaymentReference
  prf_billing_period :: "BillingPeriod option"
  prf_identifier :: PaymentEndpointIdentifier
  prf_proof :: json_map

definition PaymentProof_new ::
  "EventId \<Rightarrow> PaymentRequestId \<Rightarrow> PaymentReference \<Rightarrow> BillingPeriod option \<Rightarrow> PaymentEndpointIdentifier
    \<Rightarrow> json_map \<Rightarrow> PaymentProof" where
  "PaymentProof_new eid rid ref period ident proof =
     \<lparr>prf_version = 1, prf_kind = PaymentProofKind, prf_event_id = eid, prf_request_id = rid,
      prf_payment_reference = ref, prf_billing_period = period, prf_identifier = ident,
      prf_proof = proof\<rparr>"

definition validate_for_request :: "ext \<Rightarrow> PaymentProof \<Rightarrow> PaymentRequest \<Rightarrow> unit res" where
  "validate_for_request E p q =
     (if prf_version p \<noteq> 1 \<or> prf_kind p \<noteq> PaymentProofKind
      then Inl (Validation ''Payment Proof must have version 1 and kind paykit.payment_proof'')
      else if prq_version q \<noteq> 1 \<or> prq_kind q \<noteq> PaymentRequestKind
      then Inl (Validation ''Payment Request must have version 1 and kind paykit.payment_request'')
      else
        rbind (terms_validate E (prq_request q)) (\<lambda>_.
        if prf_request_id p \<noteq> prq_request_id q
        then Inl (Validation ''Payment Proof payment_request_id must match Payment Request'')
        else if prf_payment_reference p \<noteq> terms_payment_reference (prq_request q)
        then Inl (Validation ''Payment Proof payment_reference must match Payment Request'')
        else if prf_identifier p \<notin> set (terms_identifiers (prq_request q))
        then Inl (Validation ''Payment Proof payment_endpoint_identifier is not accepted by Payment Request'')
        else case (terms_recurrence (prq_request q), prf_billing_period p) of
          (None, Some _) \<Rightarrow>
            Inl (Validation ''Payment Proof billing_period must be null for one-time Payment Requests'')
        | (Some _, None) \<Rightarrow>
            Inl (Validation ''Payment Proof billing_period is required for recurring Payment Requests'')
        | (_, Some period) \<Rightarrow> billing_validate E period
        | (None, None) \<Rightarrow> Inr ()))"

datatype PaymentRequestEvent =
    Request PaymentRequest
  | Acceptance PaymentRequestAcceptance
  | Rejection PaymentRequestRejection
  | Cancellation PaymentRequestCancellation
  | Proof PaymentProof

fun event_kind :: "PaymentRequestEvent \<Rightarrow> PrivateMessageKind" where
  "event_kind (Request e) = prq_kind e"
| "event_kind (Acceptance e) = acc_kind e"
| "event_kind (Rejection e) = rej_kind e"
| "event_kind (Cancellation e) = can_kind e"
| "event_kind (Proof e) = prf_kind e"

fun event_event_id :: "PaymentRequestEvent \<Rightarrow> EventId" where
  "event_event_id (Request e) = prq_event_id e"
| "event_event_id (Acceptance e) = acc_event_id e"
| "event_event_id (Rejection e) = rej_event_id e"
| "event_event_id (Cancellation e) = can_event_id e"
| "event_event_id (Proof e) = prf_event_id e"

fun event_request_id :: "PaymentRequestEvent \<Rightarrow> PaymentRequestId" where
  "event_request_id (Request e) = prq_request_id e"
| "event_request_id (Acceptance e) = acc_request_id e"
| "event_request_id (Rejection e) = rej_request_id e"
| "event_request_id (Cancellation e) = can_request_id e"
| "event_request_id (Proof e) = prf_request_id e"

record PaymentRequestEventMessage =
  evm_kind :: PrivateMessageKind
  evm_event_id :: "EventId option"
  evm_request_id :: "PaymentRequestId option"
  evm_raw_json :: string
  evm_event :: "string + PaymentRequestEvent"

definition evm_is_valid :: "PaymentRequestEventMessage \<Rightarrow> bool" where
  "evm_is_valid m = is_ok (evm_event m)"

definition evm_parsed_event :: "PaymentRequestEventMessage \<Rightarrow> PaymentRequestEvent option" where
  "evm_parsed_event m = ok_of (evm_event m)"

definition evm_validation_error :: "PaymentRequestEventMessage \<Rightarrow> string option" where
  "evm_validation_error m = err_of (evm_event m)"

section \<open>What the validators accept\<close>

interpretation unit_enum: string_enum recurrence_unit_as_str "\<lambda>s. ok_of (recurrence_unit_parse s)"
proof
  fix u s
  show "ok_of (recurrence_unit_parse (recurrence_unit_as_str u)) = Some u"
    by (cases u) (simp_all add: recurrence_unit_parse_def)
  show "ok_of (recurrence_unit_parse s) = Some u \<Longrightarrow> recurrence_unit_as_str u = s"
    by (auto simp: recurrence_unit_parse_def split: if_splits)
qed

lemma recurrence_unit_parse_as_str [simp]:
  "recurrence_unit_parse (recurrence_unit_as_str u) = Inr u"
  using unit_enum.parse_as_str by (simp add: ok_of_Some_iff)

text \<open>A text that names an instant in the accepted form.\<close>

definition utc_instant :: "ext \<Rightarrow> string \<Rightarrow> instant option" where
  "utc_instant E s = (if ends_with_char CHR ''Z'' s then ok_of (rfc3339 E s) else None)"

lemma parse_utc_timestamp_iff: "parse_utc_timestamp E s fld = Inr t \<longleftrightarrow> utc_instant E s = Some t"
  by (auto simp: parse_utc_timestamp_def utc_instant_def map_err_Inr_iff ok_of_Some_iff)

lemma parse_utc_timestamp_error: "parse_utc_timestamp E s fld = Inl e \<Longrightarrow> \<exists>m. e = Validation m"
  by (auto simp: parse_utc_timestamp_def map_err_Inl_iff split: if_splits)

text \<open>Two instants in strict order.\<close>

definition utc_before :: "ext \<Rightarrow> string \<Rightarrow> string \<Rightarrow> bool" where
  "utc_before E a b \<longleftrightarrow>
     (case (utc_instant E a, utc_instant E b) of (Some x, Some y) \<Rightarrow> x < y | _ \<Rightarrow> False)"

lemma billing_validate_iff:
  "billing_validate_with_label E p label = Inr () \<longleftrightarrow> utc_before E (bp_starts_at p) (bp_ends_at p)"
  by (auto simp: billing_validate_with_label_def rbind_Inr_iff parse_utc_timestamp_iff utc_before_def
      not_le split: option.splits)

definition recurrence_ok :: "ext \<Rightarrow> Recurrence \<Rightarrow> bool" where
  "recurrence_ok E r \<longleftrightarrow>
     rec_every r \<noteq> 0 \<and> utc_instant E (rec_starts_at r) \<noteq> None \<and> utc_instant E (rec_anchor r) \<noteq> None
     \<and> pred_option (utc_before E (rec_starts_at r)) (rec_ends_at r)"

lemma recurrence_validate_iff: "recurrence_validate E r = Inr () \<longleftrightarrow> recurrence_ok E r"
  by (cases "rec_ends_at r")
     (auto simp: recurrence_validate_def recurrence_ok_def rbind_Inr_iff parse_utc_timestamp_iff
      utc_before_def not_le split: option.splits if_splits)

definition terms_ok :: "ext \<Rightarrow> PaymentRequestTerms \<Rightarrow> bool" where
  "terms_ok E t \<longleftrightarrow>
     decimal_text (rust_chars (amount_value (terms_amount t))) \<and> amount_asset (terms_amount t) \<noteq> []
     \<and> list_all (\<lambda>c. \<not> is_control c) (rust_chars (amount_asset (terms_amount t)))
     \<and> pred_option (\<lambda>s. utc_instant E s \<noteq> None) (terms_proposal_expires_at t)
     \<and> pred_option (recurrence_ok E) (terms_recurrence t)
     \<and> terms_identifiers t \<noteq> []"

lemma terms_validate_iff: "terms_validate E t = Inr () \<longleftrightarrow> terms_ok E t"
  by (cases "terms_proposal_expires_at t"; cases "terms_recurrence t")
     (auto simp: terms_validate_def terms_ok_def rbind_Inr_iff rmap_Inr_iff amount_validate_iff
      parse_utc_timestamp_iff recurrence_validate_iff)

lemma rbind_error: "rbind m f = Inl e \<Longrightarrow> (\<And>e. m = Inl e \<Longrightarrow> P e) \<Longrightarrow> (\<And>x e. m = Inr x \<Longrightarrow> f x = Inl e \<Longrightarrow> P e) \<Longrightarrow> P e"
  by (cases m) auto

text \<open>Every validator rejects with a \<^verbatim>\<open>Validation\<close> error.\<close>

lemma validate_decimal_error: "validate_decimal v label = Inl e \<Longrightarrow> \<exists>m. e = Validation m"
proof -
  have "validate_decimal_loop label dot d cs = Inl e \<Longrightarrow> \<exists>m. e = Validation m" for dot d cs
    by (induction label dot d cs rule: validate_decimal_loop.induct) (auto split: if_splits)
  then show "validate_decimal v label = Inl e \<Longrightarrow> \<exists>m. e = Validation m"
    by (simp add: validate_decimal_def)
qed

lemma amount_validate_error: "amount_validate_with_label a label = Inl e \<Longrightarrow> \<exists>m. e = Validation m"
  by (auto simp: amount_validate_with_label_def rbind_Inl_iff validate_text_def
      dest: validate_decimal_error split: if_splits)

lemma billing_validate_error: "billing_validate_with_label E p label = Inl e \<Longrightarrow> \<exists>m. e = Validation m"
  by (auto simp: billing_validate_with_label_def rbind_Inl_iff
      dest: parse_utc_timestamp_error split: if_splits)

lemma recurrence_validate_error: "recurrence_validate E r = Inl e \<Longrightarrow> \<exists>m. e = Validation m"
  by (auto simp: recurrence_validate_def rbind_Inl_iff
      dest: parse_utc_timestamp_error split: if_splits option.splits)

lemma terms_validate_error: "terms_validate E t = Inl e \<Longrightarrow> \<exists>m. e = Validation m"
  by (auto simp: terms_validate_def rbind_Inl_iff rmap_Inl_iff
      dest: parse_utc_timestamp_error amount_validate_error recurrence_validate_error
      split: if_splits option.splits)

lemma validate_uuid_v4_error: "validate_uuid_v4 E s label = Inl e \<Longrightarrow> \<exists>m. e = Validation m"
  by (auto simp: validate_uuid_v4_def split: sum.splits if_splits)

lemma event_id_new_error: "EventId_new E s = Inl e \<Longrightarrow> \<exists>m. e = Validation m"
  by (auto simp: EventId_new_def rmap_Inl_iff dest: validate_uuid_v4_error)

lemma request_id_new_error: "PaymentRequestId_new E s = Inl e \<Longrightarrow> \<exists>m. e = Validation m"
  by (auto simp: PaymentRequestId_new_def rmap_Inl_iff dest: validate_uuid_v4_error)

lemma reference_new_error: "PaymentReference_new s = Inl e \<Longrightarrow> \<exists>m. e = Validation m"
  by (auto simp: PaymentReference_new_def Let_def split: if_splits option.splits)

lemma identifier_new_error: "PaymentEndpointIdentifier_new s = Inl e \<Longrightarrow> \<exists>m. e = Validation m"
  by (auto simp: PaymentEndpointIdentifier_new_def split: if_splits option.splits)

lemma unit_parse_error: "recurrence_unit_parse s = Inl e \<Longrightarrow> \<exists>m. e = Validation m"
  by (auto simp: recurrence_unit_parse_def split: if_splits)

lemmas validation_errors = parse_utc_timestamp_error amount_validate_error billing_validate_error
  recurrence_validate_error terms_validate_error event_id_new_error request_id_new_error
  reference_new_error identifier_new_error unit_parse_error

section \<open>Proofs against their request\<close>

lemma proof_valid_iff:
  "validate_for_request E p q = Inr () \<longleftrightarrow>
     prf_version p = 1 \<and> prf_kind p = PaymentProofKind \<and> prq_version q = 1 \<and> prq_kind q = PaymentRequestKind
     \<and> terms_ok E (prq_request q) \<and> prf_request_id p = prq_request_id q
     \<and> prf_payment_reference p = terms_payment_reference (prq_request q)
     \<and> prf_identifier p \<in> set (terms_identifiers (prq_request q))
     \<and> (terms_recurrence (prq_request q) = None) = (prf_billing_period p = None)
     \<and> pred_option (\<lambda>b. utc_before E (bp_starts_at b) (bp_ends_at b)) (prf_billing_period p)"
  by (cases "terms_recurrence (prq_request q)"; cases "prf_billing_period p")
     (auto simp: validate_for_request_def rbind_Inr_iff terms_validate_iff billing_validate_def
      billing_validate_iff)

text \<open>C11: a Payment Proof is accepted for a Payment Request exactly when both carry version 1 and
  their own kind, the request's terms are valid, the proof names the request, its Payment Reference
  and one of its accepted endpoint identifiers, and carries a billing period exactly when the
  request recurs, one that ends after it starts.\<close>

theorem validate_for_request_exact:
  "validate_for_request E p q = Inr () \<longleftrightarrow>
     prf_version p = 1 \<and> prf_kind p = PaymentProofKind \<and> prq_version q = 1 \<and> prq_kind q = PaymentRequestKind
     \<and> terms_ok E (prq_request q) \<and> prf_request_id p = prq_request_id q
     \<and> prf_payment_reference p = terms_payment_reference (prq_request q)
     \<and> prf_identifier p \<in> set (terms_identifiers (prq_request q))
     \<and> (terms_recurrence (prq_request q) = None) = (prf_billing_period p = None)
     \<and> pred_option (\<lambda>b. utc_before E (bp_starts_at b) (bp_ends_at b)) (prf_billing_period p)"
  by (rule proof_valid_iff)

end
