(* ===== verification/Payment_Request_Wire.thy ===== *)
theory Payment_Request_Wire
  imports Payment_Request_Types
begin

text \<open>
  The wire form of the Payment Request protocol (\<^verbatim>\<open>payment_request/wire.rs\<close>, \<^verbatim>\<open>shared_wire.rs\<close>,
  \<^verbatim>\<open>payment_request/api.rs\<close>) and the raw stream item it arrives in
  (\<^verbatim>\<open>encrypted_link/private_application_message.rs\<close>). Each wire struct is a record with the decoder
  and printer of its derived serde instances; the conversions and the parse and serialise
  functions follow the code. The lemmas show that serialisation and parsing are inverse, that a
  parsed event is valid, and that parsing fails with invalid-data errors only.
\<close>

section \<open>Wire structs\<close>

record PaymentAmountWire =
  paw_value :: string
  paw_asset :: string

definition de_PaymentAmountWire :: "json \<Rightarrow> PaymentAmountWire option" where
  "de_PaymentAmountWire j =
     Option.bind (struct_fields [''value'', ''asset''] j) (\<lambda>kvs.
     Option.bind (field ''value'' de_string kvs) (\<lambda>v.
     Option.bind (field ''asset'' de_string kvs) (\<lambda>a.
     Some \<lparr>paw_value = v, paw_asset = a\<rparr>)))"

definition ser_PaymentAmountWire :: "PaymentAmountWire \<Rightarrow> json" where
  "ser_PaymentAmountWire w = JObj [(''value'', JStr (paw_value w)), (''asset'', JStr (paw_asset w))]"

definition amount_of_wire :: "PaymentAmountWire \<Rightarrow> PaymentAmount" where
  "amount_of_wire w = \<lparr>amount_value = paw_value w, amount_asset = paw_asset w\<rparr>"

definition amount_to_wire :: "PaymentAmount \<Rightarrow> PaymentAmountWire" where
  "amount_to_wire a = \<lparr>paw_value = amount_value a, paw_asset = amount_asset a\<rparr>"

record BillingPeriodWire =
  bpw_starts_at :: string
  bpw_ends_at :: string

definition de_BillingPeriodWire :: "json \<Rightarrow> BillingPeriodWire option" where
  "de_BillingPeriodWire j =
     Option.bind (struct_fields [''starts_at'', ''ends_at''] j) (\<lambda>kvs.
     Option.bind (field ''starts_at'' de_string kvs) (\<lambda>s.
     Option.bind (field ''ends_at'' de_string kvs) (\<lambda>e.
     Some \<lparr>bpw_starts_at = s, bpw_ends_at = e\<rparr>)))"

definition ser_BillingPeriodWire :: "BillingPeriodWire \<Rightarrow> json" where
  "ser_BillingPeriodWire w =
     JObj [(''starts_at'', JStr (bpw_starts_at w)), (''ends_at'', JStr (bpw_ends_at w))]"

definition billing_of_wire :: "BillingPeriodWire \<Rightarrow> BillingPeriod" where
  "billing_of_wire w = \<lparr>bp_starts_at = bpw_starts_at w, bp_ends_at = bpw_ends_at w\<rparr>"

definition billing_to_wire :: "BillingPeriod \<Rightarrow> BillingPeriodWire" where
  "billing_to_wire p = \<lparr>bpw_starts_at = bp_starts_at p, bpw_ends_at = bp_ends_at p\<rparr>"

record RecurrenceWire =
  rw_every :: u32
  rw_unit :: string
  rw_starts_at :: string
  rw_anchor :: string
  rw_ends_at :: "string option"

definition de_RecurrenceWire :: "json \<Rightarrow> RecurrenceWire option" where
  "de_RecurrenceWire j =
     Option.bind (struct_fields [''every'', ''unit'', ''starts_at'', ''anchor'', ''ends_at''] j) (\<lambda>kvs.
     Option.bind (field ''every'' de_u32 kvs) (\<lambda>every.
     Option.bind (field ''unit'' de_string kvs) (\<lambda>unit.
     Option.bind (field ''starts_at'' de_string kvs) (\<lambda>starts_at.
     Option.bind (field ''anchor'' de_string kvs) (\<lambda>anchor.
     Option.bind (field ''ends_at'' (de_nullable de_string) kvs) (\<lambda>ends_at.
     Some \<lparr>rw_every = every, rw_unit = unit, rw_starts_at = starts_at, rw_anchor = anchor,
           rw_ends_at = ends_at\<rparr>))))))"

definition ser_RecurrenceWire :: "RecurrenceWire \<Rightarrow> json" where
  "ser_RecurrenceWire w =
     JObj [(''every'', JInt (uint (rw_every w))), (''unit'', JStr (rw_unit w)),
           (''starts_at'', JStr (rw_starts_at w)), (''anchor'', JStr (rw_anchor w)),
           (''ends_at'', ser_nullable JStr (rw_ends_at w))]"

record PaymentRequestTermsWire =
  tw_amount :: PaymentAmountWire
  tw_payment_reference :: string
  tw_proposal_expires_at :: "string option"
  tw_recurrence :: "RecurrenceWire option"
  tw_identifiers :: "string list"
  tw_metadata :: json_map

definition de_PaymentRequestTermsWire :: "json \<Rightarrow> PaymentRequestTermsWire option" where
  "de_PaymentRequestTermsWire j =
     Option.bind (struct_fields [''amount'', ''payment_reference'', ''proposal_expires_at'', ''recurrence'',
       ''accepted_payment_endpoint_identifiers'', ''metadata''] j) (\<lambda>kvs.
     Option.bind (field ''amount'' de_PaymentAmountWire kvs) (\<lambda>amount.
     Option.bind (field ''payment_reference'' de_string kvs) (\<lambda>reference.
     Option.bind (field ''proposal_expires_at'' (de_nullable de_string) kvs) (\<lambda>expires.
     Option.bind (field ''recurrence'' (de_nullable de_RecurrenceWire) kvs) (\<lambda>recurrence.
     Option.bind (field ''accepted_payment_endpoint_identifiers'' de_string_list kvs) (\<lambda>idents.
     Option.bind (field_default [] ''metadata'' de_json_map kvs) (\<lambda>metadata.
     Some \<lparr>tw_amount = amount, tw_payment_reference = reference, tw_proposal_expires_at = expires,
           tw_recurrence = recurrence, tw_identifiers = idents, tw_metadata = metadata\<rparr>)))))))"

definition ser_PaymentRequestTermsWire :: "PaymentRequestTermsWire \<Rightarrow> json" where
  "ser_PaymentRequestTermsWire w =
     JObj [(''amount'', ser_PaymentAmountWire (tw_amount w)),
           (''payment_reference'', JStr (tw_payment_reference w)),
           (''proposal_expires_at'', ser_nullable JStr (tw_proposal_expires_at w)),
           (''recurrence'', ser_nullable ser_RecurrenceWire (tw_recurrence w)),
           (''accepted_payment_endpoint_identifiers'', JArr (map JStr (tw_identifiers w))),
           (''metadata'', JObj (tw_metadata w))]"

record PaymentRequestWire =
  prw_version :: u8
  prw_kind :: string
  prw_event_id :: string
  prw_request_id :: string
  prw_request :: PaymentRequestTermsWire

definition de_PaymentRequestWire :: "json \<Rightarrow> PaymentRequestWire option" where
  "de_PaymentRequestWire j =
     Option.bind (struct_fields [''version'', ''kind'', ''event_id'', ''payment_request_id'', ''request''] j) (\<lambda>kvs.
     Option.bind (field ''version'' de_u8 kvs) (\<lambda>version.
     Option.bind (field ''kind'' de_string kvs) (\<lambda>kind.
     Option.bind (field ''event_id'' de_string kvs) (\<lambda>eid.
     Option.bind (field ''payment_request_id'' de_string kvs) (\<lambda>rid.
     Option.bind (field ''request'' de_PaymentRequestTermsWire kvs) (\<lambda>request.
     Some \<lparr>prw_version = version, prw_kind = kind, prw_event_id = eid, prw_request_id = rid,
           prw_request = request\<rparr>))))))"

definition ser_PaymentRequestWire :: "PaymentRequestWire \<Rightarrow> json" where
  "ser_PaymentRequestWire w =
     JObj [(''version'', JInt (uint (prw_version w))), (''kind'', JStr (prw_kind w)),
           (''event_id'', JStr (prw_event_id w)), (''payment_request_id'', JStr (prw_request_id w)),
           (''request'', ser_PaymentRequestTermsWire (prw_request w))]"

record BasicEventWire =
  bew_version :: u8
  bew_kind :: string
  bew_event_id :: string
  bew_request_id :: string
  bew_reason :: "string option"

text \<open>\<^verbatim>\<open>deserialize_optional_string_no_null\<close>: a present reason is a string.\<close>

definition deserialize_optional_string_no_null :: "json \<Rightarrow> string option option" where
  "deserialize_optional_string_no_null j = (case to_value j of JStr s \<Rightarrow> Some (Some s) | _ \<Rightarrow> None)"

definition de_BasicEventWire :: "json \<Rightarrow> BasicEventWire option" where
  "de_BasicEventWire j =
     Option.bind (struct_fields [''version'', ''kind'', ''event_id'', ''payment_request_id'', ''reason''] j) (\<lambda>kvs.
     Option.bind (field ''version'' de_u8 kvs) (\<lambda>version.
     Option.bind (field ''kind'' de_string kvs) (\<lambda>kind.
     Option.bind (field ''event_id'' de_string kvs) (\<lambda>eid.
     Option.bind (field ''payment_request_id'' de_string kvs) (\<lambda>rid.
     Option.bind (field_default None ''reason'' deserialize_optional_string_no_null kvs) (\<lambda>reason.
     Some \<lparr>bew_version = version, bew_kind = kind, bew_event_id = eid, bew_request_id = rid,
           bew_reason = reason\<rparr>))))))"

definition ser_BasicEventWire :: "BasicEventWire \<Rightarrow> json" where
  "ser_BasicEventWire w =
     JObj ([(''version'', JInt (uint (bew_version w))), (''kind'', JStr (bew_kind w)),
            (''event_id'', JStr (bew_event_id w)), (''payment_request_id'', JStr (bew_request_id w))]
           @ (case bew_reason w of None \<Rightarrow> [] | Some r \<Rightarrow> [(''reason'', JStr r)]))"

record PaymentProofWire =
  ppw_version :: u8
  ppw_kind :: string
  ppw_event_id :: string
  ppw_request_id :: string
  ppw_payment_reference :: string
  ppw_billing_period :: "BillingPeriodWire option"
  ppw_identifier :: string
  ppw_proof :: json_map

definition de_PaymentProofWire :: "json \<Rightarrow> PaymentProofWire option" where
  "de_PaymentProofWire j =
     Option.bind (struct_fields [''version'', ''kind'', ''event_id'', ''payment_request_id'',
       ''payment_reference'', ''billing_period'', ''payment_endpoint_identifier'', ''proof''] j) (\<lambda>kvs.
     Option.bind (field ''version'' de_u8 kvs) (\<lambda>version.
     Option.bind (field ''kind'' de_string kvs) (\<lambda>kind.
     Option.bind (field ''event_id'' de_string kvs) (\<lambda>eid.
     Option.bind (field ''payment_request_id'' de_string kvs) (\<lambda>rid.
     Option.bind (field ''payment_reference'' de_string kvs) (\<lambda>reference.
     Option.bind (field ''billing_period'' (de_nullable de_BillingPeriodWire) kvs) (\<lambda>period.
     Option.bind (field ''payment_endpoint_identifier'' de_string kvs) (\<lambda>ident.
     Option.bind (field ''proof'' de_json_map kvs) (\<lambda>proof.
     Some \<lparr>ppw_version = version, ppw_kind = kind, ppw_event_id = eid, ppw_request_id = rid,
           ppw_payment_reference = reference, ppw_billing_period = period, ppw_identifier = ident,
           ppw_proof = proof\<rparr>)))))))))"

definition ser_PaymentProofWire :: "PaymentProofWire \<Rightarrow> json" where
  "ser_PaymentProofWire w =
     JObj [(''version'', JInt (uint (ppw_version w))), (''kind'', JStr (ppw_kind w)),
           (''event_id'', JStr (ppw_event_id w)), (''payment_request_id'', JStr (ppw_request_id w)),
           (''payment_reference'', JStr (ppw_payment_reference w)),
           (''billing_period'', ser_nullable ser_BillingPeriodWire (ppw_billing_period w)),
           (''payment_endpoint_identifier'', JStr (ppw_identifier w)),
           (''proof'', JObj (ppw_proof w))]"

section \<open>Conversions\<close>

definition recurrence_of_wire :: "ext \<Rightarrow> RecurrenceWire \<Rightarrow> Recurrence res" where
  "recurrence_of_wire E w =
     rbind (recurrence_unit_parse (rw_unit w)) (\<lambda>unit.
     let r = \<lparr>rec_every = rw_every w, rec_unit = unit, rec_starts_at = rw_starts_at w,
              rec_anchor = rw_anchor w, rec_ends_at = rw_ends_at w\<rparr>
     in rbind (recurrence_validate E r) (\<lambda>_. Inr r))"

definition recurrence_to_wire :: "Recurrence \<Rightarrow> RecurrenceWire" where
  "recurrence_to_wire r =
     \<lparr>rw_every = rec_every r, rw_unit = recurrence_unit_as_str (rec_unit r), rw_starts_at = rec_starts_at r,
      rw_anchor = rec_anchor r, rw_ends_at = rec_ends_at r\<rparr>"

definition terms_of_wire :: "ext \<Rightarrow> PaymentRequestTermsWire \<Rightarrow> PaymentRequestTerms res" where
  "terms_of_wire E w =
     rbind (rmap_list PaymentEndpointIdentifier_new (tw_identifiers w)) (\<lambda>idents.
     rbind (PaymentReference_new (tw_payment_reference w)) (\<lambda>reference.
     rbind (transpose_opt (map_option (recurrence_of_wire E) (tw_recurrence w))) (\<lambda>recurrence.
     let t = \<lparr>terms_amount = amount_of_wire (tw_amount w), terms_payment_reference = reference,
              terms_proposal_expires_at = tw_proposal_expires_at w, terms_recurrence = recurrence,
              terms_identifiers = idents, terms_metadata = tw_metadata w\<rparr>
     in rbind (terms_validate E t) (\<lambda>_. Inr t))))"

definition terms_to_wire :: "PaymentRequestTerms \<Rightarrow> PaymentRequestTermsWire" where
  "terms_to_wire t =
     \<lparr>tw_amount = amount_to_wire (terms_amount t),
      tw_payment_reference = reference_str (terms_payment_reference t),
      tw_proposal_expires_at = terms_proposal_expires_at t,
      tw_recurrence = map_option recurrence_to_wire (terms_recurrence t),
      tw_identifiers = map identifier_str (terms_identifiers t),
      tw_metadata = terms_metadata t\<rparr>"

definition request_to_wire :: "PaymentRequest \<Rightarrow> PaymentRequestWire" where
  "request_to_wire e =
     \<lparr>prw_version = prq_version e, prw_kind = kind_as_str (prq_kind e),
      prw_event_id = event_id_str (prq_event_id e), prw_request_id = request_id_str (prq_request_id e),
      prw_request = terms_to_wire (prq_request e)\<rparr>"

definition request_of_wire :: "ext \<Rightarrow> PaymentRequestWire \<Rightarrow> PaymentRequest res" where
  "request_of_wire E w =
     rbind (validate_wire_version_kind (prw_version w) (prw_kind w) PaymentRequestKind ''Payment Request event'') (\<lambda>_.
     rbind (EventId_new E (prw_event_id w)) (\<lambda>eid.
     rbind (PaymentRequestId_new E (prw_request_id w)) (\<lambda>rid.
     rbind (terms_of_wire E (prw_request w)) (\<lambda>terms.
     Inr \<lparr>prq_version = 1, prq_kind = PaymentRequestKind, prq_event_id = eid, prq_request_id = rid,
          prq_request = terms\<rparr>))))"

definition BasicEventWire_new ::
  "u8 \<Rightarrow> PrivateMessageKind \<Rightarrow> EventId \<Rightarrow> PaymentRequestId \<Rightarrow> string option \<Rightarrow> BasicEventWire" where
  "BasicEventWire_new version kind eid rid reason =
     \<lparr>bew_version = version, bew_kind = kind_as_str kind, bew_event_id = event_id_str eid,
      bew_request_id = request_id_str rid, bew_reason = reason\<rparr>"

definition acceptance_to_wire :: "PaymentRequestAcceptance \<Rightarrow> BasicEventWire" where
  "acceptance_to_wire e =
     BasicEventWire_new (acc_version e) (acc_kind e) (acc_event_id e) (acc_request_id e) None"

definition rejection_to_wire :: "PaymentRequestRejection \<Rightarrow> BasicEventWire" where
  "rejection_to_wire e =
     BasicEventWire_new (rej_version e) (rej_kind e) (rej_event_id e) (rej_request_id e) (rej_reason e)"

definition cancellation_to_wire :: "PaymentRequestCancellation \<Rightarrow> BasicEventWire" where
  "cancellation_to_wire e =
     BasicEventWire_new (can_version e) (can_kind e) (can_event_id e) (can_request_id e) (can_reason e)"

definition proof_to_wire :: "PaymentProof \<Rightarrow> PaymentProofWire" where
  "proof_to_wire e =
     \<lparr>ppw_version = prf_version e, ppw_kind = kind_as_str (prf_kind e),
      ppw_event_id = event_id_str (prf_event_id e), ppw_request_id = request_id_str (prf_request_id e),
      ppw_payment_reference = reference_str (prf_payment_reference e),
      ppw_billing_period = map_option billing_to_wire (prf_billing_period e),
      ppw_identifier = identifier_str (prf_identifier e), ppw_proof = prf_proof e\<rparr>"

definition proof_of_wire :: "ext \<Rightarrow> PaymentProofWire \<Rightarrow> PaymentProof res" where
  "proof_of_wire E w =
     rbind (validate_wire_version_kind (ppw_version w) (ppw_kind w) PaymentProofKind ''Payment Request event'') (\<lambda>_.
     let period = map_option billing_of_wire (ppw_billing_period w) in
     rbind (case period of None \<Rightarrow> Inr () | Some p \<Rightarrow> billing_validate E p) (\<lambda>_.
     rbind (EventId_new E (ppw_event_id w)) (\<lambda>eid.
     rbind (PaymentRequestId_new E (ppw_request_id w)) (\<lambda>rid.
     rbind (PaymentReference_new (ppw_payment_reference w)) (\<lambda>reference.
     rbind (PaymentEndpointIdentifier_new (ppw_identifier w)) (\<lambda>ident.
     Inr \<lparr>prf_version = 1, prf_kind = PaymentProofKind, prf_event_id = eid, prf_request_id = rid,
          prf_payment_reference = reference, prf_billing_period = period, prf_identifier = ident,
          prf_proof = ppw_proof w\<rparr>))))))"

section \<open>Serialisation\<close>

text \<open>\<^verbatim>\<open>serde_json::to_string\<close> with the error context of the caller.\<close>

definition to_json_string :: "ext \<Rightarrow> string \<Rightarrow> json \<Rightarrow> string res" where
  "to_json_string E label j =
     map_err (\<lambda>err. invalid_data (''failed to serialize '' @ label @ '' JSON: '' @ err) (Some (AnyhowMsg err)))
       (json_to_string E j)"

definition serialize_payment_request_json :: "ext \<Rightarrow> PaymentRequest \<Rightarrow> string res" where
  "serialize_payment_request_json E e =
     rbind (validate_outgoing_version_kind (prq_version e) (prq_kind e) PaymentRequestKind ''Payment Request'') (\<lambda>_.
     rbind (terms_validate E (prq_request e)) (\<lambda>_.
     to_json_string E ''Payment Request'' (ser_PaymentRequestWire (request_to_wire e))))"

definition serialize_basic_event_json :: "ext \<Rightarrow> BasicEventWire \<Rightarrow> PrivateMessageKind \<Rightarrow> string \<Rightarrow> string res" where
  "serialize_basic_event_json E w expected label =
     (if bew_version w \<noteq> 1 \<or> bew_kind w \<noteq> kind_as_str expected
      then Inl (Validation (label @ '' must use version 1 and kind '' @ kind_as_str expected))
      else to_json_string E label (ser_BasicEventWire w))"

definition serialize_acceptance_json :: "ext \<Rightarrow> PaymentRequestAcceptance \<Rightarrow> string res" where
  "serialize_acceptance_json E e =
     serialize_basic_event_json E (acceptance_to_wire e) PaymentRequestAcceptanceKind ''Payment Request Acceptance''"

definition serialize_rejection_json :: "ext \<Rightarrow> PaymentRequestRejection \<Rightarrow> string res" where
  "serialize_rejection_json E e =
     serialize_basic_event_json E (rejection_to_wire e) PaymentRequestRejectionKind ''Payment Request Rejection''"

definition serialize_cancellation_json :: "ext \<Rightarrow> PaymentRequestCancellation \<Rightarrow> string res" where
  "serialize_cancellation_json E e =
     serialize_basic_event_json E (cancellation_to_wire e) PaymentRequestCancellationKind
       ''Payment Request Cancellation''"

definition serialize_payment_proof_json :: "ext \<Rightarrow> PaymentProof \<Rightarrow> string res" where
  "serialize_payment_proof_json E e =
     rbind (validate_outgoing_version_kind (prf_version e) (prf_kind e) PaymentProofKind ''Payment Proof'') (\<lambda>_.
     rbind (case prf_billing_period e of None \<Rightarrow> Inr () | Some p \<Rightarrow> billing_validate E p) (\<lambda>_.
     to_json_string E ''Payment Proof'' (ser_PaymentProofWire (proof_to_wire e))))"

fun serialize_payment_request_event :: "ext \<Rightarrow> PaymentRequestEvent \<Rightarrow> string res" where
  "serialize_payment_request_event E (Request e) = serialize_payment_request_json E e"
| "serialize_payment_request_event E (Acceptance e) = serialize_acceptance_json E e"
| "serialize_payment_request_event E (Rejection e) = serialize_rejection_json E e"
| "serialize_payment_request_event E (Cancellation e) = serialize_cancellation_json E e"
| "serialize_payment_request_event E (Proof e) = serialize_payment_proof_json E e"

section \<open>Parsing\<close>

definition from_json_string :: "ext \<Rightarrow> string \<Rightarrow> string \<Rightarrow> (json \<Rightarrow> 'a option) \<Rightarrow> string \<Rightarrow> 'a res" where
  "from_json_string E struct label dec raw =
     map_err (\<lambda>err. invalid_data (''failed to parse '' @ label @ '' JSON: '' @ err) (Some (AnyhowMsg err)))
       (struct_from_str E struct dec raw)"

definition parse_payment_request_json :: "ext \<Rightarrow> string \<Rightarrow> PaymentRequest res" where
  "parse_payment_request_json E raw =
     rbind (from_json_string E ''PaymentRequestWire'' ''Payment Request'' de_PaymentRequestWire raw) (\<lambda>w.
     map_err (\<lambda>err. invalid_wire err ''Payment Request'') (request_of_wire E w))"

definition parse_basic_event_json :: "ext \<Rightarrow> string \<Rightarrow> string \<Rightarrow> BasicEventWire res" where
  "parse_basic_event_json E raw label = from_json_string E ''BasicEventWire'' label de_BasicEventWire raw"

definition parse_acceptance_json :: "ext \<Rightarrow> string \<Rightarrow> PaymentRequestAcceptance res" where
  "parse_acceptance_json E raw =
     rbind (parse_basic_event_json E raw ''Payment Request Acceptance'') (\<lambda>w.
     rbind (validate_wire_version_kind (bew_version w) (bew_kind w) PaymentRequestAcceptanceKind
              ''Payment Request event'') (\<lambda>_.
     if bew_reason w \<noteq> None
     then Inl (invalid_data ''Payment Request Acceptance must not include reason'' None)
     else
       rbind (map_err (\<lambda>err. invalid_wire err ''Payment Request Acceptance'') (EventId_new E (bew_event_id w))) (\<lambda>eid.
       rbind (map_err (\<lambda>err. invalid_wire err ''Payment Request Acceptance'')
                (PaymentRequestId_new E (bew_request_id w))) (\<lambda>rid.
       Inr \<lparr>acc_version = 1, acc_kind = PaymentRequestAcceptanceKind, acc_event_id = eid, acc_request_id = rid\<rparr>))))"

definition parse_rejection_json :: "ext \<Rightarrow> string \<Rightarrow> PaymentRequestRejection res" where
  "parse_rejection_json E raw =
     rbind (parse_basic_event_json E raw ''Payment Request Rejection'') (\<lambda>w.
     rbind (validate_wire_version_kind (bew_version w) (bew_kind w) PaymentRequestRejectionKind
              ''Payment Request event'') (\<lambda>_.
     rbind (map_err (\<lambda>err. invalid_wire err ''Payment Request Rejection'') (EventId_new E (bew_event_id w))) (\<lambda>eid.
     rbind (map_err (\<lambda>err. invalid_wire err ''Payment Request Rejection'')
              (PaymentRequestId_new E (bew_request_id w))) (\<lambda>rid.
     Inr \<lparr>rej_version = 1, rej_kind = PaymentRequestRejectionKind, rej_event_id = eid, rej_request_id = rid,
          rej_reason = bew_reason w\<rparr>))))"

definition parse_cancellation_json :: "ext \<Rightarrow> string \<Rightarrow> PaymentRequestCancellation res" where
  "parse_cancellation_json E raw =
     rbind (parse_basic_event_json E raw ''Payment Request Cancellation'') (\<lambda>w.
     rbind (validate_wire_version_kind (bew_version w) (bew_kind w) PaymentRequestCancellationKind
              ''Payment Request event'') (\<lambda>_.
     rbind (map_err (\<lambda>err. invalid_wire err ''Payment Request Cancellation'') (EventId_new E (bew_event_id w))) (\<lambda>eid.
     rbind (map_err (\<lambda>err. invalid_wire err ''Payment Request Cancellation'')
              (PaymentRequestId_new E (bew_request_id w))) (\<lambda>rid.
     Inr \<lparr>can_version = 1, can_kind = PaymentRequestCancellationKind, can_event_id = eid, can_request_id = rid,
          can_reason = bew_reason w\<rparr>))))"

definition parse_payment_proof_json :: "ext \<Rightarrow> string \<Rightarrow> PaymentProof res" where
  "parse_payment_proof_json E raw =
     rbind (from_json_string E ''PaymentProofWire'' ''Payment Proof'' de_PaymentProofWire raw) (\<lambda>w.
     map_err (\<lambda>err. invalid_wire err ''Payment Proof'') (proof_of_wire E w))"

definition parse_event_header_ids :: "ext \<Rightarrow> string \<Rightarrow> EventId option \<times> PaymentRequestId option" where
  "parse_event_header_ids E raw =
     (case value_from_str E raw of
        None \<Rightarrow> (None, None)
      | Some v \<Rightarrow>
          (Option.bind (Option.bind (value_get ''event_id'' v) as_str) (\<lambda>s. ok_of (EventId_new E s)),
           Option.bind (Option.bind (value_get ''payment_request_id'' v) as_str)
             (\<lambda>s. ok_of (PaymentRequestId_new E s))))"

definition parse_event :: "ext \<Rightarrow> PrivateMessageKind \<Rightarrow> string \<Rightarrow> PaymentRequestEvent res option" where
  "parse_event E kind raw =
     (case kind of
        PaymentRequestKind \<Rightarrow> Some (rmap Request (parse_payment_request_json E raw))
      | PaymentRequestAcceptanceKind \<Rightarrow> Some (rmap Acceptance (parse_acceptance_json E raw))
      | PaymentRequestRejectionKind \<Rightarrow> Some (rmap Rejection (parse_rejection_json E raw))
      | PaymentRequestCancellationKind \<Rightarrow> Some (rmap Cancellation (parse_cancellation_json E raw))
      | PaymentProofKind \<Rightarrow> Some (rmap Proof (parse_payment_proof_json E raw))
      | PrivatePaymentListKind \<Rightarrow> None
      | ReceiptAccessKind \<Rightarrow> None)"

section \<open>Private Application Messages\<close>

record PrivateApplicationMessage =
  pam_version :: "u8 option"
  pam_kind :: "string option"
  pam_raw_json :: string

definition INVALID_UTF8_PRIVATE_MESSAGE_PREFIX :: string where
  "INVALID_UTF8_PRIVATE_MESSAGE_PREFIX = ''paykit.invalid_utf8_private_message:''"

definition from_plaintext :: "ext \<Rightarrow> string \<Rightarrow> PrivateApplicationMessage" where
  "from_plaintext E plaintext =
     (let v = value_from_str E plaintext in
      \<lparr>pam_version = Option.bind (Option.bind (Option.bind v (value_get ''version'')) as_u64)
           (\<lambda>n. if n < 256 then Some (of_int n) else None),
       pam_kind = Option.bind (Option.bind v (value_get ''kind'')) as_str,
       pam_raw_json = plaintext\<rparr>)"

definition known_kind :: "ext \<Rightarrow> PrivateApplicationMessage \<Rightarrow> PrivateMessageKind option" where
  "known_kind E m =
     Option.bind (Option.bind (Option.bind (value_from_str E (pam_raw_json m)) (value_get ''kind'')) as_str)
       kind_parse"

definition invalid_utf8_error :: "PrivateApplicationMessage \<Rightarrow> string option" where
  "invalid_utf8_error m =
     (if starts_with INVALID_UTF8_PRIVATE_MESSAGE_PREFIX (pam_raw_json m)
      then Some ''Private Application Message plaintext is not valid UTF-8'' else None)"

text \<open>The fixed-size noise buffer with its zero padding trimmed, as text or as the local marker.\<close>

definition trim_padding :: "string \<Rightarrow> string" where
  "trim_padding raw = rev (dropWhile (\<lambda>b. b = CHR 0x00) (rev raw))"

definition decode_private_application_message :: "ext \<Rightarrow> string \<Rightarrow> PrivateApplicationMessage res" where
  "decode_private_application_message E raw =
     (let bytes = trim_padding raw;
          plaintext = (if valid_utf8 bytes then bytes
                       else INVALID_UTF8_PRIVATE_MESSAGE_PREFIX @ base64url_encode E bytes)
      in Inr (from_plaintext E plaintext))"

definition parse_payment_request_event_message ::
  "ext \<Rightarrow> PrivateApplicationMessage \<Rightarrow> PaymentRequestEventMessage option" where
  "parse_payment_request_event_message E m =
     Option.bind (known_kind E m) (\<lambda>kind.
     Option.bind (parse_event E kind (pam_raw_json m)) (\<lambda>r.
     let (eid, rid) = parse_event_header_ids E (pam_raw_json m) in
     Some \<lparr>evm_kind = kind, evm_event_id = eid, evm_request_id = rid, evm_raw_json = pam_raw_json m,
           evm_event = map_err paykit_error_display r\<rparr>))"

section \<open>Sending over the noise channel\<close>

definition send_attempts_from_retries :: "u32 \<Rightarrow> u32" where
  "send_attempts_from_retries max_send_retries = sat_inc max_send_retries"

definition validate_private_application_message_size :: "ext \<Rightarrow> string \<Rightarrow> string \<Rightarrow> unit res" where
  "validate_private_application_message_size E plaintext ctx =
     (if length plaintext > noise_msg_len E
      then Inl (Validation (ctx @ '' payload ('' @ show_nat (length plaintext)
             @ '' bytes) exceeds max message size ('' @ show_nat (noise_msg_len E) @ '' bytes)''))
      else Inr ())"

text \<open>
  The noise encryptor is a parameter: its state, and a send that gives the new state and either an
  error (whether it is \<^verbatim>\<open>HomeserverWriteError\<close>, and its debug text) or success. \<open>send_loop\<close> runs the
  attempts that are left; its result carries the last retryable error.
\<close>

type_synonym 'n noise_send = "'n \<Rightarrow> string \<Rightarrow> 'n \<times> (bool \<times> string) option"

fun send_loop :: "'n noise_send \<Rightarrow> string \<Rightarrow> string \<Rightarrow> nat \<Rightarrow> string option \<Rightarrow> 'n
    \<Rightarrow> 'n \<times> (paykit_error + string option option)" where
  "send_loop send plaintext ctx 0 last_error n = (n, Inr (Some last_error))"
| "send_loop send plaintext ctx (Suc left) last_error n =
     (case send n plaintext of
        (n', None) \<Rightarrow> (n', Inr None)
      | (n', Some (True, err)) \<Rightarrow> send_loop send plaintext ctx left (Some err) n'
      | (n', Some (False, err)) \<Rightarrow>
          (n', Inl (Transport (''failed to send '' @ ctx @ '': '' @ err) (NonRetryablePrivateSendError err))))"

definition send_private_application_message ::
  "ext \<Rightarrow> 'n noise_send \<Rightarrow> u32 \<Rightarrow> string \<Rightarrow> string \<Rightarrow> 'n \<Rightarrow> 'n \<times> unit res" where
  "send_private_application_message E send max_send_retries plaintext ctx n =
     (case validate_private_application_message_size E plaintext ctx of
        Inl e \<Rightarrow> (n, Inl e)
      | Inr _ \<Rightarrow>
          let attempts = unat (send_attempts_from_retries max_send_retries) in
          (case send_loop send plaintext ctx attempts None n of
             (n', Inl e) \<Rightarrow> (n', Inl e)
           | (n', Inr None) \<Rightarrow> (n', Inr ())
           | (n', Inr (Some last_error)) \<Rightarrow>
               (n', Inl (Transport (''failed to send '' @ ctx @ '' after '' @ show_nat attempts @ '' attempts'')
                  (AnyhowMsg (''pubky-noise send_message failed on all '' @ show_nat attempts
                     @ '' attempts; last error: ''
                     @ (case last_error of None \<Rightarrow> ''unknown error'' | Some e \<Rightarrow> e)))))))"

section \<open>Printing and reading wire structs\<close>

lemma wf_value_map_insert:
  "sorted_wrt (<) (map fst m) \<Longrightarrow> list_all (\<lambda>kv. wf_value (snd kv)) m \<Longrightarrow> wf_value v \<Longrightarrow>
   sorted_wrt (<) (map fst (map_insert k v m)) \<and> list_all (\<lambda>kv. wf_value (snd kv)) (map_insert k v m)"
proof (induction k v m rule: map_insert.induct)
  case (2 k v k' v' m)
  have "set (map fst (map_insert k v m)) = insert k (set (map fst m))"
    by (simp add: dom_map_insert)
  with 2 show ?case by (auto simp del: set_map)
qed simp

lemma wf_value_foldl:
  "wf_value (JObj m) \<Longrightarrow> list_all (\<lambda>kv. wf_value (snd kv)) kvs \<Longrightarrow>
   wf_value (JObj (foldl (\<lambda>m kv. map_insert (fst kv) (snd kv) m) m kvs))"
proof (induction kvs arbitrary: m)
  case (Cons kv kvs)
  then show ?case using wf_value_map_insert [of m "snd kv" "fst kv"] by simp
qed simp

lemma wf_value_to_value: "wf_value (to_value j)"
proof (induction j)
  case (JObj kvs)
  have "wf_value (to_value (snd kv))" if "kv \<in> set kvs" for kv
    using JObj that by (metis snds.intros prod.collapse)
  then show ?case
    using wf_value_foldl [of "[]" "map (\<lambda>kv. (fst kv, to_value (snd kv))) kvs"] by (simp add: list_all_iff)
qed (auto simp: list_all_iff)

lemma wf_de_json_map: "de_json_map j = Some m \<Longrightarrow> wf_json_map m"
proof (cases j)
  case (JObj kvs)
  assume "de_json_map j = Some m"
  with JObj have "to_value (JObj kvs) = JObj m" by (auto split: json.splits)
  then show ?thesis using wf_value_to_value [of "JObj kvs"] by (simp add: wf_json_map_def)
qed auto

lemmas wire_field_simps = field_def field_default_def de_nullable_ser de_u8_of_word de_u32_of_word

lemma de_ser_amount [simp]: "de_PaymentAmountWire (ser_PaymentAmountWire w) = Some w"
  by (simp add: de_PaymentAmountWire_def ser_PaymentAmountWire_def field_def)

lemma de_ser_billing [simp]: "de_BillingPeriodWire (ser_BillingPeriodWire w) = Some w"
  by (simp add: de_BillingPeriodWire_def ser_BillingPeriodWire_def field_def)

lemma de_ser_recurrence [simp]: "de_RecurrenceWire (ser_RecurrenceWire w) = Some w"
  by (simp add: de_RecurrenceWire_def ser_RecurrenceWire_def wire_field_simps del: de_u32.simps)

lemma ser_not_null [simp]: "ser_RecurrenceWire w \<noteq> JNull" "ser_BillingPeriodWire b \<noteq> JNull"
  by (simp_all add: ser_RecurrenceWire_def ser_BillingPeriodWire_def)

lemma de_ser_terms:
  "wf_json_map (tw_metadata w) \<Longrightarrow> de_PaymentRequestTermsWire (ser_PaymentRequestTermsWire w) = Some w"
  by (simp add: de_PaymentRequestTermsWire_def ser_PaymentRequestTermsWire_def wire_field_simps
      de_json_map_wf del: de_json_map.simps)

lemma de_ser_request:
  "wf_json_map (tw_metadata (prw_request w)) \<Longrightarrow> de_PaymentRequestWire (ser_PaymentRequestWire w) = Some w"
  by (simp add: de_PaymentRequestWire_def ser_PaymentRequestWire_def wire_field_simps de_ser_terms
      del: de_u8.simps)

lemma de_ser_basic: "de_BasicEventWire (ser_BasicEventWire w) = Some w"
  by (cases "bew_reason w")
     (simp_all add: de_BasicEventWire_def ser_BasicEventWire_def wire_field_simps
      deserialize_optional_string_no_null_def del: de_u8.simps)

lemma de_ser_proof:
  "wf_json_map (ppw_proof w) \<Longrightarrow> de_PaymentProofWire (ser_PaymentProofWire w) = Some w"
  by (simp add: de_PaymentProofWire_def ser_PaymentProofWire_def wire_field_simps de_json_map_wf
      del: de_u8.simps de_json_map.simps)

lemma amount_wire_inverse [simp]: "amount_of_wire (amount_to_wire a) = a"
  by (simp add: amount_of_wire_def amount_to_wire_def)

lemma billing_wire_inverse [simp]: "billing_of_wire (billing_to_wire p) = p"
  by (simp add: billing_of_wire_def billing_to_wire_def)

lemma recurrence_wire_inverse:
  "recurrence_ok E r \<Longrightarrow> recurrence_of_wire E (recurrence_to_wire r) = Inr r"
  using recurrence_validate_iff [of E r]
  by (cases r) (simp add: recurrence_of_wire_def recurrence_to_wire_def Let_def)

section \<open>Well-formed events\<close>

text \<open>
  What the types of the code guarantee of an event: identifiers, references and ids were built by
  their constructors and JSON objects are \<^verbatim>\<open>serde_json::Map\<close> values.
\<close>

definition terms_wf :: "PaymentRequestTerms \<Rightarrow> bool" where
  "terms_wf t \<longleftrightarrow>
     PaymentReference_new (reference_str (terms_payment_reference t)) = Inr (terms_payment_reference t)
     \<and> list_all (\<lambda>i. PaymentEndpointIdentifier_new (identifier_str i) = Inr i) (terms_identifiers t)
     \<and> wf_json_map (terms_metadata t)"

definition ids_wf :: "ext \<Rightarrow> PaymentRequestEvent \<Rightarrow> bool" where
  "ids_wf E ev \<longleftrightarrow>
     EventId_new E (event_id_str (event_event_id ev)) = Inr (event_event_id ev)
     \<and> PaymentRequestId_new E (request_id_str (event_request_id ev)) = Inr (event_request_id ev)"

definition proof_wf :: "PaymentProof \<Rightarrow> bool" where
  "proof_wf p \<longleftrightarrow>
     PaymentReference_new (reference_str (prf_payment_reference p)) = Inr (prf_payment_reference p)
     \<and> PaymentEndpointIdentifier_new (identifier_str (prf_identifier p)) = Inr (prf_identifier p)
     \<and> wf_json_map (prf_proof p)"

definition event_wf :: "ext \<Rightarrow> PaymentRequestEvent \<Rightarrow> bool" where
  "event_wf E ev \<longleftrightarrow> ids_wf E ev \<and>
     (case ev of Request e \<Rightarrow> terms_wf (prq_request e) | Proof p \<Rightarrow> proof_wf p | _ \<Rightarrow> True)"

text \<open>What serialisation checks of an event.\<close>

fun event_valid :: "ext \<Rightarrow> PaymentRequestEvent \<Rightarrow> bool" where
  "event_valid E (Request e) \<longleftrightarrow>
     prq_version e = 1 \<and> prq_kind e = PaymentRequestKind \<and> terms_ok E (prq_request e)"
| "event_valid E (Acceptance e) \<longleftrightarrow> acc_version e = 1 \<and> acc_kind e = PaymentRequestAcceptanceKind"
| "event_valid E (Rejection e) \<longleftrightarrow> rej_version e = 1 \<and> rej_kind e = PaymentRequestRejectionKind"
| "event_valid E (Cancellation e) \<longleftrightarrow> can_version e = 1 \<and> can_kind e = PaymentRequestCancellationKind"
| "event_valid E (Proof e) \<longleftrightarrow>
     prf_version e = 1 \<and> prf_kind e = PaymentProofKind
     \<and> pred_option (\<lambda>b. utc_before E (bp_starts_at b) (bp_ends_at b)) (prf_billing_period e)"

text \<open>The document an event is printed as.\<close>

fun event_json :: "PaymentRequestEvent \<Rightarrow> json" where
  "event_json (Request e) = ser_PaymentRequestWire (request_to_wire e)"
| "event_json (Acceptance e) = ser_BasicEventWire (acceptance_to_wire e)"
| "event_json (Rejection e) = ser_BasicEventWire (rejection_to_wire e)"
| "event_json (Cancellation e) = ser_BasicEventWire (cancellation_to_wire e)"
| "event_json (Proof e) = ser_PaymentProofWire (proof_to_wire e)"

lemma billing_opt_validate:
  "(case p of None \<Rightarrow> Inr () | Some q \<Rightarrow> billing_validate E q) = Inr () \<longleftrightarrow>
   pred_option (\<lambda>b. utc_before E (bp_starts_at b) (bp_ends_at b)) p"
  by (cases p) (simp_all add: billing_validate_def billing_validate_iff)

lemma serialize_iff:
  "serialize_payment_request_event E ev = Inr s \<longleftrightarrow> event_valid E ev \<and> json_to_string E (event_json ev) = Inr s"
proof (cases ev)
  case (Request e)
  then show ?thesis
    by (auto simp: serialize_payment_request_json_def validate_outgoing_version_kind_def rbind_Inr_iff
        terms_validate_iff to_json_string_def map_err_Inr_iff)
next
  case (Proof e)
  then show ?thesis
    by (auto simp: serialize_payment_proof_json_def validate_outgoing_version_kind_def rbind_Inr_iff
        billing_opt_validate to_json_string_def map_err_Inr_iff)
qed (auto simp: serialize_acceptance_json_def serialize_rejection_json_def serialize_cancellation_json_def
    serialize_basic_event_json_def acceptance_to_wire_def rejection_to_wire_def cancellation_to_wire_def
    BasicEventWire_new_def to_json_string_def map_err_Inr_iff kind_enum.as_str_inject
    simp del: kind_as_str.simps)

lemma terms_wire_inverse:
  assumes "terms_wf t" and "terms_ok E t"
  shows "terms_of_wire E (terms_to_wire t) = Inr t"
proof -
  have idents: "rmap_list PaymentEndpointIdentifier_new (map identifier_str (terms_identifiers t))
      = Inr (terms_identifiers t)"
    using assms(1) by (intro rmap_list_map) (simp add: terms_wf_def list_all_iff)
  have recur: "transpose_opt (map_option (recurrence_of_wire E)
      (map_option recurrence_to_wire (terms_recurrence t))) = Inr (terms_recurrence t)"
    using assms(2) by (cases "terms_recurrence t")
      (simp_all add: transpose_opt_def terms_ok_def recurrence_wire_inverse)
  have "terms_validate E t = Inr ()" using assms(2) by (simp add: terms_validate_iff)
  with idents recur assms(1) show ?thesis
    by (cases t) (simp add: terms_of_wire_def terms_to_wire_def terms_wf_def Let_def)
qed

lemma from_json_string_faithful:
  "json_from_str E s = Inr j \<Longrightarrow> dec j = Some w \<Longrightarrow> from_json_string E name label dec s = Inr w"
  by (simp add: from_json_string_def struct_from_str_def)

lemmas basic_event_defs = acceptance_to_wire_def rejection_to_wire_def cancellation_to_wire_def
  BasicEventWire_new_def parse_basic_event_json_def validate_wire_version_kind_def
  validate_wire_version_kind_str_def

lemma parse_of_json:
  assumes "json_from_str E s = Inr (event_json ev)" and "event_wf E ev" and "event_valid E ev"
  shows "parse_event E (event_kind ev) s = Some (Inr ev)"
proof (cases ev)
  case (Request e)
  have "request_of_wire E (request_to_wire e) = Inr e"
    using assms Request terms_wire_inverse [of "prq_request e" E]
    by (simp add: request_of_wire_def request_to_wire_def validate_wire_version_kind_def
        validate_wire_version_kind_str_def event_wf_def ids_wf_def)
  moreover have "from_json_string E ''PaymentRequestWire'' ''Payment Request'' de_PaymentRequestWire s
      = Inr (request_to_wire e)"
    using assms Request
    by (intro from_json_string_faithful [where j = "event_json ev"] )
       (simp_all add: de_ser_request request_to_wire_def terms_to_wire_def event_wf_def terms_wf_def)
  ultimately show ?thesis
    using assms(3) Request by (simp add: parse_event_def parse_payment_request_json_def)
next
  case (Proof p)
  have "(case prf_billing_period p of None \<Rightarrow> Inr () | Some q \<Rightarrow> billing_validate E q) = Inr ()"
    using assms(3) Proof by (simp add: billing_opt_validate)
  then have "proof_of_wire E (proof_to_wire p) = Inr p"
    using assms Proof
    by (simp add: proof_of_wire_def proof_to_wire_def validate_wire_version_kind_def Let_def comp_def
        validate_wire_version_kind_str_def event_wf_def ids_wf_def proof_wf_def option.map_comp option.map_ident)
  moreover have "from_json_string E ''PaymentProofWire'' ''Payment Proof'' de_PaymentProofWire s
      = Inr (proof_to_wire p)"
    using assms Proof
    by (intro from_json_string_faithful [where j = "event_json ev"])
       (simp_all add: de_ser_proof proof_to_wire_def event_wf_def proof_wf_def)
  ultimately show ?thesis
    using assms(3) Proof by (simp add: parse_event_def parse_payment_proof_json_def)
qed (use assms in \<open>simp_all add: parse_event_def parse_acceptance_json_def parse_rejection_json_def
    parse_cancellation_json_def basic_event_defs event_wf_def ids_wf_def
    from_json_string_faithful [where j = "event_json ev"] from_json_string_faithful de_ser_basic\<close>)

text \<open>C9: whatever event serialises, parsing the text it serialises to with its own kind gives the
  event back, for every event whose parts were built by their constructors and every JSON printer
  whose output parses back to the printed document.\<close>

theorem payment_request_event_roundtrip:
  assumes "event_wf E ev" and "json_faithful E (event_json ev)"
    and "serialize_payment_request_event E ev = Inr s"
  shows "parse_event E (event_kind ev) s = Some (Inr ev)"
  using assms by (intro parse_of_json) (auto simp: serialize_iff json_faithful_def)

text \<open>A proposal for one coin, and a table in which its document has a text.\<close>

definition sample_terms :: PaymentRequestTerms where
  "sample_terms =
     \<lparr>terms_amount = \<lparr>amount_value = ''0.5'', amount_asset = ''btc''\<rparr>,
      terms_payment_reference = PaymentReference ''order-7'', terms_proposal_expires_at = None,
      terms_recurrence = Some \<lparr>rec_every = 1, rec_unit = Month, rec_starts_at = ''0Z'', rec_anchor = ''0Z'',
        rec_ends_at = Some ''10Z''\<rparr>,
      terms_identifiers = [PaymentEndpointIdentifier ''btc-lightning-bolt11''], terms_metadata = []\<rparr>"

definition sample_event :: PaymentRequestEvent where
  "sample_event = Request (PaymentRequest_new (EventId sample_uuid) (PaymentRequestId sample_uuid) sample_terms)"

definition sample_ext :: ext where
  "sample_ext = table_ext [(''doc'', event_json sample_event)]"

lemma sample_ids_wf: "ids_wf (table_ext tab) sample_event"
  using sample_ids [of tab] by (simp add: ids_wf_def sample_event_def PaymentRequest_new_def)

lemma sample_terms_wf: "terms_wf sample_terms"
  by code_simp

lemma sample_event_wf: "event_wf (table_ext tab) sample_event"
  using sample_ids_wf sample_terms_wf by (simp add: event_wf_def sample_event_def PaymentRequest_new_def)

lemma sample_terms_ok: "terms_ok (table_ext tab) sample_terms"
proof -
  have "recurrence_ok (table_ext tab) \<lparr>rec_every = 1, rec_unit = Month, rec_starts_at = ''0Z'',
      rec_anchor = ''0Z'', rec_ends_at = Some ''10Z''\<rparr>"
    by (simp add: recurrence_ok_def utc_before_def utc_instant_def table_ext_def ends_with_char_def)
  moreover have "decimal_text (rust_chars ''0.5'')" "list_all (\<lambda>c. \<not> is_control c) (rust_chars ''btc'')"
    by code_simp+
  ultimately show ?thesis by (simp add: terms_ok_def sample_terms_def)
qed

lemma sample_event_valid: "event_valid (table_ext tab) sample_event"
  using sample_terms_ok by (simp add: sample_event_def PaymentRequest_new_def)

lemma sample_serialises: "serialize_payment_request_event sample_ext sample_event = Inr ''doc''"
proof -
  have "json_to_string sample_ext (event_json sample_event) = Inr ''doc''"
    by (simp add: sample_ext_def table_ext_def)
  then show ?thesis using sample_event_valid by (simp add: serialize_iff sample_ext_def)
qed

theorem payment_request_event_roundtrip_witness:
  "parse_event sample_ext PaymentRequestKind ''doc'' = Some (Inr sample_event)"
proof -
  have "json_faithful sample_ext (event_json sample_event)"
    by (simp add: json_faithful_def sample_ext_def table_ext_def)
  with sample_serialises have "parse_event sample_ext (event_kind sample_event) ''doc'' = Some (Inr sample_event)"
    by (intro payment_request_event_roundtrip) (simp_all add: sample_event_wf sample_ext_def)
  then show ?thesis by (simp add: sample_event_def PaymentRequest_new_def)
qed

section \<open>Parsed events are valid\<close>

lemma event_id_new_canonical:
  "uuid_roundtrip E \<Longrightarrow> EventId_new E s = Inr i \<Longrightarrow> EventId_new E (event_id_str i) = Inr i"
  by (auto simp: EventId_new_def rmap_Inr_iff dest: uuid_canonical_fixed)

lemma request_id_new_canonical:
  "uuid_roundtrip E \<Longrightarrow> PaymentRequestId_new E s = Inr i \<Longrightarrow> PaymentRequestId_new E (request_id_str i) = Inr i"
  by (auto simp: PaymentRequestId_new_def rmap_Inr_iff dest: uuid_canonical_fixed)

lemma reference_new_str: "PaymentReference_new s = Inr r \<Longrightarrow> reference_str r = s"
  by (auto simp: PaymentReference_new_def Let_def split: if_splits option.splits)

lemma identifier_new_str: "PaymentEndpointIdentifier_new s = Inr i \<Longrightarrow> identifier_str i = s"
  by (auto simp: PaymentEndpointIdentifier_new_def split: if_splits option.splits)

lemma rmap_list_canonical:
  "rmap_list PaymentEndpointIdentifier_new ss = Inr idents \<Longrightarrow>
   list_all (\<lambda>i. PaymentEndpointIdentifier_new (identifier_str i) = Inr i) idents"
proof (induction ss arbitrary: idents)
  case (Cons s ss)
  then obtain i rest where "PaymentEndpointIdentifier_new s = Inr i" "idents = i # rest"
      "rmap_list PaymentEndpointIdentifier_new ss = Inr rest"
    by (auto simp: rbind_Inr_iff)
  with Cons.IH show ?case using identifier_new_str [of s i] by auto
qed simp

lemma from_json_string_Inr:
  "from_json_string E name label dec s = Inr w \<longleftrightarrow> (\<exists>j. json_from_str E s = Inr j \<and> dec j = Some w)"
  by (simp add: from_json_string_def map_err_Inr_iff struct_from_str_Inr)

lemma de_terms_metadata: "de_PaymentRequestTermsWire j = Some w \<Longrightarrow> wf_json_map (tw_metadata w)"
proof -
  have "wf_json_map []" by (simp add: wf_json_map_def)
  then show "de_PaymentRequestTermsWire j = Some w \<Longrightarrow> wf_json_map (tw_metadata w)"
    by (auto simp: de_PaymentRequestTermsWire_def field_default_def
        split: Option.bind_splits option.splits dest: wf_de_json_map)
qed

lemma de_proof_map: "de_PaymentProofWire j = Some w \<Longrightarrow> wf_json_map (ppw_proof w)"
  by (auto simp: de_PaymentProofWire_def field_def split: Option.bind_splits dest: wf_de_json_map)

lemma de_request_metadata: "de_PaymentRequestWire j = Some w \<Longrightarrow> wf_json_map (tw_metadata (prw_request w))"
  by (auto simp: de_PaymentRequestWire_def field_def split: Option.bind_splits dest: de_terms_metadata)

lemma terms_of_wire_sound:
  "terms_of_wire E w = Inr t \<Longrightarrow> wf_json_map (tw_metadata w) \<Longrightarrow> terms_wf t \<and> terms_ok E t"
proof -
  assume "terms_of_wire E w = Inr t" and meta: "wf_json_map (tw_metadata w)"
  then obtain idents ref where ok: "rmap_list PaymentEndpointIdentifier_new (tw_identifiers w) = Inr idents"
      "PaymentReference_new (tw_payment_reference w) = Inr ref" "terms_validate E t = Inr ()"
      "terms_identifiers t = idents" "terms_payment_reference t = ref" "terms_metadata t = tw_metadata w"
    by (auto simp: terms_of_wire_def rbind_Inr_iff Let_def)
  with meta show "terms_wf t \<and> terms_ok E t"
    using rmap_list_canonical [OF ok(1)] reference_new_str [OF ok(2)]
    by (simp add: terms_wf_def terms_validate_iff)
qed

lemma parse_request_sound:
  assumes "uuid_roundtrip E" and "parse_payment_request_json E raw = Inr e"
  shows "event_wf E (Request e) \<and> event_valid E (Request e)"
proof -
  obtain j w where w: "de_PaymentRequestWire j = Some w" "request_of_wire E w = Inr e"
    using assms(2) by (auto simp: parse_payment_request_json_def rbind_Inr_iff map_err_Inr_iff from_json_string_Inr)
  then obtain eid rid t where parts: "EventId_new E (prw_event_id w) = Inr eid"
      "PaymentRequestId_new E (prw_request_id w) = Inr rid" "terms_of_wire E (prw_request w) = Inr t"
      "e = \<lparr>prq_version = 1, prq_kind = PaymentRequestKind, prq_event_id = eid, prq_request_id = rid, prq_request = t\<rparr>"
    by (auto simp: request_of_wire_def rbind_Inr_iff)
  with terms_of_wire_sound [OF parts(3) de_request_metadata [OF w(1)]] show ?thesis
    using event_id_new_canonical [OF assms(1) parts(1)] request_id_new_canonical [OF assms(1) parts(2)]
    by (simp add: event_wf_def ids_wf_def)
qed

lemma parse_proof_sound:
  assumes "uuid_roundtrip E" and "parse_payment_proof_json E raw = Inr e"
  shows "event_wf E (Proof e) \<and> event_valid E (Proof e)"
proof -
  obtain j w where w: "de_PaymentProofWire j = Some w" "proof_of_wire E w = Inr e"
    using assms(2) by (auto simp: parse_payment_proof_json_def rbind_Inr_iff map_err_Inr_iff from_json_string_Inr)
  let ?period = "map_option billing_of_wire (ppw_billing_period w)"
  obtain eid rid ref ident where parts: "EventId_new E (ppw_event_id w) = Inr eid"
      "PaymentRequestId_new E (ppw_request_id w) = Inr rid"
      "PaymentReference_new (ppw_payment_reference w) = Inr ref"
      "PaymentEndpointIdentifier_new (ppw_identifier w) = Inr ident"
      "(case ?period of None \<Rightarrow> Inr () | Some p \<Rightarrow> billing_validate E p) = Inr ()"
      "e = PaymentProof_new eid rid ref ?period ident (ppw_proof w)"
    using w(2) by (auto simp: proof_of_wire_def rbind_Inr_iff Let_def PaymentProof_new_def)
  show ?thesis
    using event_id_new_canonical [OF assms(1) parts(1)] request_id_new_canonical [OF assms(1) parts(2)]
      parts(3,4) reference_new_str [OF parts(3)] identifier_new_str [OF parts(4)] de_proof_map [OF w(1)]
      parts(5) [unfolded billing_opt_validate]
    by (simp add: parts(6) PaymentProof_new_def event_wf_def ids_wf_def proof_wf_def)
qed

text \<open>The three events without a body of their own share their checks.\<close>

lemma basic_ids_wf:
  assumes "uuid_roundtrip E" and "EventId_new E s = Inr eid" and "PaymentRequestId_new E r = Inr rid"
  shows "event_event_id ev = eid \<Longrightarrow> event_request_id ev = rid \<Longrightarrow> ids_wf E ev"
  using event_id_new_canonical [OF assms(1,2)] request_id_new_canonical [OF assms(1,3)]
  by (simp add: ids_wf_def)

lemma parse_acceptance_sound:
  assumes "uuid_roundtrip E" and "parse_acceptance_json E raw = Inr a"
  shows "event_wf E (Acceptance a) \<and> event_valid E (Acceptance a)"
proof -
  obtain se sr eid rid where "EventId_new E se = Inr eid" "PaymentRequestId_new E sr = Inr rid"
      "a = PaymentRequestAcceptance_new eid rid"
    using assms(2) by (auto simp: parse_acceptance_json_def rbind_Inr_iff map_err_Inr_iff
        PaymentRequestAcceptance_new_def split: if_splits)
  with basic_ids_wf [OF assms(1), where ev = "Acceptance a"] show ?thesis
    by (simp add: event_wf_def PaymentRequestAcceptance_new_def)
qed

lemma parse_rejection_sound:
  assumes "uuid_roundtrip E" and "parse_rejection_json E raw = Inr a"
  shows "event_wf E (Rejection a) \<and> event_valid E (Rejection a)"
proof -
  obtain se sr eid rid reason where "EventId_new E se = Inr eid" "PaymentRequestId_new E sr = Inr rid"
      "a = PaymentRequestRejection_new eid rid reason"
    using assms(2) by (auto simp: parse_rejection_json_def rbind_Inr_iff map_err_Inr_iff
        PaymentRequestRejection_new_def)
  with basic_ids_wf [OF assms(1), where ev = "Rejection a"] show ?thesis
    by (simp add: event_wf_def PaymentRequestRejection_new_def)
qed

lemma parse_cancellation_sound:
  assumes "uuid_roundtrip E" and "parse_cancellation_json E raw = Inr a"
  shows "event_wf E (Cancellation a) \<and> event_valid E (Cancellation a)"
proof -
  obtain se sr eid rid reason where "EventId_new E se = Inr eid" "PaymentRequestId_new E sr = Inr rid"
      "a = PaymentRequestCancellation_new eid rid reason"
    using assms(2) by (auto simp: parse_cancellation_json_def rbind_Inr_iff map_err_Inr_iff
        PaymentRequestCancellation_new_def)
  with basic_ids_wf [OF assms(1), where ev = "Cancellation a"] show ?thesis
    by (simp add: event_wf_def PaymentRequestCancellation_new_def)
qed

lemma parse_event_kind: "parse_event E k raw = Some (Inr ev) \<Longrightarrow> event_valid E ev \<Longrightarrow> event_kind ev = k"
  by (auto simp: parse_event_def rmap_Inr_iff split: PrivateMessageKind.splits)

lemma parse_event_sound:
  "uuid_roundtrip E \<Longrightarrow> parse_event E k raw = Some (Inr ev) \<Longrightarrow> event_wf E ev \<and> event_valid E ev"
  using parse_request_sound parse_proof_sound parse_acceptance_sound parse_rejection_sound
    parse_cancellation_sound
  by (auto simp: parse_event_def rmap_Inr_iff split: PrivateMessageKind.splits)

text \<open>Every event the parser accepts is well-formed and passes the checks of serialisation, is of
  the kind that selected the parser, and its canonical text parses to the same event again.\<close>

theorem parse_event_canonical:
  assumes "uuid_roundtrip E" and "parse_event E k raw = Some (Inr ev)"
    and "json_faithful E (event_json ev)"
  shows "event_wf E ev \<and> event_valid E ev \<and> event_kind ev = k \<and>
    (\<exists>s. serialize_payment_request_event E ev = Inr s \<and> parse_event E k s = Some (Inr ev))"
proof -
  have ev: "event_wf E ev" "event_valid E ev" using parse_event_sound [OF assms(1,2)] by auto
  have k: "event_kind ev = k" using parse_event_kind [OF assms(2) ev(2)] .
  obtain s where "json_to_string E (event_json ev) = Inr s" "json_from_str E s = Inr (event_json ev)"
    using assms(3) by (auto simp: json_faithful_def split: sum.splits)
  with ev k show ?thesis using parse_of_json [of E s ev] by (auto simp: serialize_iff)
qed

theorem parse_event_canonical_witness:
  "\<exists>s. serialize_payment_request_event sample_ext sample_event = Inr s
     \<and> parse_event sample_ext PaymentRequestKind s = Some (Inr sample_event)"
proof -
  have faithful: "json_faithful sample_ext (event_json sample_event)"
    by (simp add: json_faithful_def sample_ext_def table_ext_def)
  have "parse_event sample_ext (event_kind sample_event) ''doc'' = Some (Inr sample_event)"
    unfolding sample_ext_def
    by (rule parse_of_json [OF _ sample_event_wf sample_event_valid]) (simp add: table_ext_def)
  then have "parse_event sample_ext PaymentRequestKind ''doc'' = Some (Inr sample_event)"
    by (simp add: sample_event_def PaymentRequest_new_def)
  from parse_event_canonical [OF _ this faithful] show ?thesis
    using table_ext_uuid_roundtrip by (auto simp: sample_ext_def)
qed

section \<open>Parse errors\<close>

lemma from_json_string_error: "from_json_string E name label dec s = Inl e \<Longrightarrow> \<exists>c src. e = InvalidData c src"
  by (auto simp: from_json_string_def map_err_Inl_iff invalid_data_def)

lemma wire_kind_error: "validate_wire_version_kind v k ex label = Inl e \<Longrightarrow> \<exists>c src. e = InvalidData c src"
  by (auto simp: validate_wire_version_kind_def validate_wire_version_kind_str_def invalid_data_def
      split: if_splits)

lemma invalid_wire_error:
  "e = Validation m \<or> e = InvalidData c src \<Longrightarrow> \<exists>c src. invalid_wire e label = InvalidData c src"
  by (auto simp: invalid_data_def)

lemma terms_of_wire_error: "terms_of_wire E w = Inl e \<Longrightarrow> \<exists>m. e = Validation m"
proof -
  have idents: "rmap_list PaymentEndpointIdentifier_new ss = Inl e \<Longrightarrow> \<exists>m. e = Validation m" for ss e
    by (induction ss) (auto simp: rbind_Inl_iff dest: identifier_new_error)
  have recur: "transpose_opt (map_option (recurrence_of_wire E) r) = Inl e \<Longrightarrow> \<exists>m. e = Validation m" for r e
    by (cases r) (auto simp: transpose_opt_def rmap_Inl_iff recurrence_of_wire_def rbind_Inl_iff Let_def
        dest: unit_parse_error recurrence_validate_error)
  show "terms_of_wire E w = Inl e \<Longrightarrow> \<exists>m. e = Validation m"
    by (auto simp: terms_of_wire_def rbind_Inl_iff Let_def
        dest: idents recur reference_new_error terms_validate_error)
qed

lemma request_of_wire_error: "request_of_wire E w = Inl e \<Longrightarrow> (\<exists>m. e = Validation m) \<or> (\<exists>c src. e = InvalidData c src)"
  by (auto simp: request_of_wire_def rbind_Inl_iff
      dest: wire_kind_error event_id_new_error request_id_new_error terms_of_wire_error)

lemma proof_of_wire_error: "proof_of_wire E w = Inl e \<Longrightarrow> (\<exists>m. e = Validation m) \<or> (\<exists>c src. e = InvalidData c src)"
  by (auto simp: proof_of_wire_def rbind_Inl_iff Let_def billing_validate_def
      dest: wire_kind_error event_id_new_error request_id_new_error reference_new_error
        identifier_new_error billing_validate_error split: option.splits)

lemmas wire_errors = wire_kind_error event_id_new_error request_id_new_error from_json_string_error
lemmas wire_error_iffs = rbind_Inl_iff map_err_Inl_iff invalid_data_def

text \<open>Whatever text arrives, a recognised event that does not parse fails with an invalid-data
  error; the validators' own error class never leaves the parser.\<close>

theorem parse_event_error_class:
  "parse_event E k raw = Some (Inl e) \<Longrightarrow> \<exists>ctx src. e = InvalidData ctx src"
proof -
  have "\<exists>c src. e = InvalidData c src" if "parse_payment_request_json E raw = Inl e"
    using that by (auto simp: parse_payment_request_json_def wire_error_iffs
        dest!: from_json_string_error request_of_wire_error)
  moreover have "\<exists>c src. e = InvalidData c src" if "parse_payment_proof_json E raw = Inl e"
    using that by (auto simp: parse_payment_proof_json_def wire_error_iffs
        dest!: from_json_string_error proof_of_wire_error)
  moreover have "\<exists>c src. e = InvalidData c src" if "parse_acceptance_json E raw = Inl e"
    using that by (auto simp: parse_acceptance_json_def parse_basic_event_json_def wire_error_iffs
        dest!: wire_errors split: if_splits)
  moreover have "\<exists>c src. e = InvalidData c src" if "parse_rejection_json E raw = Inl e"
    using that by (auto simp: parse_rejection_json_def parse_basic_event_json_def wire_error_iffs
        dest!: wire_errors)
  moreover have "\<exists>c src. e = InvalidData c src" if "parse_cancellation_json E raw = Inl e"
    using that by (auto simp: parse_cancellation_json_def parse_basic_event_json_def wire_error_iffs
        dest!: wire_errors)
  ultimately show "parse_event E k raw = Some (Inl e) \<Longrightarrow> \<exists>ctx src. e = InvalidData ctx src"
    by (auto simp: parse_event_def rmap_Inl_iff split: PrivateMessageKind.splits)
qed

theorem parse_event_error_class_witness:
  "\<exists>e ctx src. parse_event sample_ext PaymentProofKind ''doc'' = Some (Inl e) \<and> e = InvalidData ctx src"
proof -
  have "de_PaymentProofWire (event_json sample_event) = None"
    by (simp add: sample_event_def de_PaymentProofWire_def ser_PaymentRequestWire_def)
  then have "\<exists>e. parse_event sample_ext PaymentProofKind ''doc'' = Some (Inl e)"
    by (simp add: parse_event_def parse_payment_proof_json_def from_json_string_def struct_from_str_def
        sample_ext_def table_ext_def)
  then show ?thesis using parse_event_error_class by blast
qed

section \<open>Header ids\<close>

lemma header_field:
  assumes "struct_fields names j = Some kvs" and "value_get ''kind'' (to_value j) = Some v"
    and "field k de_string kvs = Some s"
  shows "Option.bind (value_get k (to_value j)) as_str = Some s"
proof -
  obtain u where j: "j = JObj kvs" using struct_fields_obj [OF assms(1,2)] by blast
  with assms(1) have "distinct (map fst kvs)" by (simp split: if_splits)
  then have "value_get k (to_value j) = map_option to_value (map_of kvs k)"
    unfolding j by (rule value_get_to_value)
  then show ?thesis
    using assms(3) by (auto simp: field_def de_string_to_value split: Option.bind_splits)
qed

text \<open>The ids a wire struct carries, and what its object shows as header fields.\<close>

lemma request_header:
  assumes "de_PaymentRequestWire j = Some w" and "value_get ''kind'' (to_value j) = Some v"
  shows "Option.bind (value_get ''event_id'' (to_value j)) as_str = Some (prw_event_id w)"
    and "Option.bind (value_get ''payment_request_id'' (to_value j)) as_str = Some (prw_request_id w)"
proof -
  obtain names kvs where "struct_fields names j = Some kvs" "field ''event_id'' de_string kvs = Some (prw_event_id w)"
      "field ''payment_request_id'' de_string kvs = Some (prw_request_id w)"
    using assms(1) by (auto simp: de_PaymentRequestWire_def bind_eq_Some_conv)
  then show "Option.bind (value_get ''event_id'' (to_value j)) as_str = Some (prw_event_id w)"
    "Option.bind (value_get ''payment_request_id'' (to_value j)) as_str = Some (prw_request_id w)"
    by (auto intro: header_field [OF _ assms(2)] simp del: bind_eq_Some_conv)
qed

lemma proof_header:
  assumes "de_PaymentProofWire j = Some w" and "value_get ''kind'' (to_value j) = Some v"
  shows "Option.bind (value_get ''event_id'' (to_value j)) as_str = Some (ppw_event_id w)"
    and "Option.bind (value_get ''payment_request_id'' (to_value j)) as_str = Some (ppw_request_id w)"
proof -
  obtain names kvs where "struct_fields names j = Some kvs" "field ''event_id'' de_string kvs = Some (ppw_event_id w)"
      "field ''payment_request_id'' de_string kvs = Some (ppw_request_id w)"
    using assms(1) by (auto simp: de_PaymentProofWire_def bind_eq_Some_conv)
  then show "Option.bind (value_get ''event_id'' (to_value j)) as_str = Some (ppw_event_id w)"
    "Option.bind (value_get ''payment_request_id'' (to_value j)) as_str = Some (ppw_request_id w)"
    by (auto intro: header_field [OF _ assms(2)] simp del: bind_eq_Some_conv)
qed

lemma basic_header:
  assumes "de_BasicEventWire j = Some w" and "value_get ''kind'' (to_value j) = Some v"
  shows "Option.bind (value_get ''event_id'' (to_value j)) as_str = Some (bew_event_id w)"
    and "Option.bind (value_get ''payment_request_id'' (to_value j)) as_str = Some (bew_request_id w)"
proof -
  obtain names kvs where "struct_fields names j = Some kvs" "field ''event_id'' de_string kvs = Some (bew_event_id w)"
      "field ''payment_request_id'' de_string kvs = Some (bew_request_id w)"
    using assms(1) by (auto simp: de_BasicEventWire_def bind_eq_Some_conv)
  then show "Option.bind (value_get ''event_id'' (to_value j)) as_str = Some (bew_event_id w)"
    "Option.bind (value_get ''payment_request_id'' (to_value j)) as_str = Some (bew_request_id w)"
    by (auto intro: header_field [OF _ assms(2)] simp del: bind_eq_Some_conv)
qed

lemmas wire_headers = request_header proof_header basic_header
lemmas parse_json_defs = parse_payment_request_json_def parse_acceptance_json_def parse_rejection_json_def
  parse_cancellation_json_def parse_payment_proof_json_def parse_basic_event_json_def

lemma parse_event_wire_ids:
  assumes "parse_event E k raw = Some (Inr ev)"
  obtains j s r where "json_from_str E raw = Inr j"
    "\<And>v. value_get ''kind'' (to_value j) = Some v \<Longrightarrow>
       Option.bind (value_get ''event_id'' (to_value j)) as_str = Some s \<and>
       Option.bind (value_get ''payment_request_id'' (to_value j)) as_str = Some r"
    "EventId_new E s = Inr (event_event_id ev)" "PaymentRequestId_new E r = Inr (event_request_id ev)"
proof (cases ev)
  case (Request e)
  with assms that show ?thesis
    by (auto simp: parse_event_def parse_json_defs request_of_wire_def result_iffs from_json_string_Inr
        wire_headers split: PrivateMessageKind.splits)
next
  case (Proof e)
  with assms that show ?thesis
    by (auto simp: parse_event_def parse_json_defs proof_of_wire_def result_iffs from_json_string_Inr Let_def
        wire_headers split: PrivateMessageKind.splits)
qed (use assms that in \<open>auto simp: parse_event_def parse_json_defs result_iffs from_json_string_Inr
    wire_headers split: PrivateMessageKind.splits if_splits\<close>)

lemma event_message_ids:
  assumes "parse_payment_request_event_message E m = Some em" and "evm_event em = Inr ev"
  shows "evm_event_id em = Some (event_event_id ev) \<and> evm_request_id em = Some (event_request_id ev)
    \<and> parse_event E (evm_kind em) (evm_raw_json em) = Some (Inr ev) \<and> evm_raw_json em = pam_raw_json m"
proof -
  obtain k where k: "known_kind E m = Some k" and ev: "parse_event E k (pam_raw_json m) = Some (Inr ev)"
    and em: "em = \<lparr>evm_kind = k, evm_event_id = fst (parse_event_header_ids E (pam_raw_json m)),
       evm_request_id = snd (parse_event_header_ids E (pam_raw_json m)), evm_raw_json = pam_raw_json m,
       evm_event = Inr ev\<rparr>"
    using assms by (auto simp: parse_payment_request_event_message_def map_err_Inr_iff
        split: Option.bind_splits prod.splits)
  obtain j s r where j: "json_from_str E (pam_raw_json m) = Inr j"
    and ids: "\<And>v. value_get ''kind'' (to_value j) = Some v \<Longrightarrow>
       Option.bind (value_get ''event_id'' (to_value j)) as_str = Some s \<and>
       Option.bind (value_get ''payment_request_id'' (to_value j)) as_str = Some r"
    and new: "EventId_new E s = Inr (event_event_id ev)" "PaymentRequestId_new E r = Inr (event_request_id ev)"
    using parse_event_wire_ids [OF ev] by blast
  have "\<exists>v. value_get ''kind'' (to_value j) = Some v"
    using k j by (auto simp: known_kind_def value_from_str_def split: Option.bind_splits)
  then show ?thesis using ids new ev em j 
    by (auto simp: parse_event_header_ids_def value_from_str_def bind_eq_Some_conv)
qed

text \<open>A message whose body parses under its kind, and the sample request as one.\<close>

lemma parsed_event_message:
  assumes "known_kind E m = Some k" and "parse_event E k (pam_raw_json m) = Some (Inr ev)"
  obtains em where "parse_payment_request_event_message E m = Some em" "evm_event em = Inr ev"
  using assms by (cases "parse_event_header_ids E (pam_raw_json m)")
    (auto simp: parse_payment_request_event_message_def)

lemma sample_doc:
  assumes "pam_raw_json m = ''doc''"
  shows "known_kind sample_ext m = Some PaymentRequestKind"
    and "parse_event sample_ext PaymentRequestKind ''doc'' = Some (Inr sample_event)"
proof -
  have "value_get ''kind'' (to_value (event_json sample_event)) = Some (JStr ''paykit.payment_request'')"
    by (simp add: sample_event_def ser_PaymentRequestWire_def request_to_wire_def PaymentRequest_new_def
        value_get_to_value del: to_value.simps(2))
  then show "known_kind sample_ext m = Some PaymentRequestKind"
    using assms by (simp add: known_kind_def value_from_str_def sample_ext_def table_ext_def kind_parse_def)
  show "parse_event sample_ext PaymentRequestKind ''doc'' = Some (Inr sample_event)"
    using parse_of_json [OF _ sample_event_wf sample_event_valid, of "[(''doc'', event_json sample_event)]" "''doc''"]
    by (simp add: sample_ext_def table_ext_def sample_event_def PaymentRequest_new_def)
qed

text \<open>When a stream item parses as an event, the header ids recorded beside it are the event's own
  Event ID and Payment Request ID, and its recorded kind selected the parser.\<close>

theorem event_message_header_agrees:
  assumes "parse_payment_request_event_message E m = Some em" and "evm_event em = Inr ev"
  shows "evm_event_id em = Some (event_event_id ev) \<and> evm_request_id em = Some (event_request_id ev)
    \<and> parse_event E (evm_kind em) (evm_raw_json em) = Some (Inr ev) \<and> evm_raw_json em = pam_raw_json m"
  using event_message_ids [OF assms] .

theorem event_message_header_agrees_witness:
  "\<exists>em. parse_payment_request_event_message sample_ext (from_plaintext sample_ext ''doc'') = Some em
     \<and> evm_event_id em = Some (EventId sample_uuid)"
proof -
  have raw: "pam_raw_json (from_plaintext sample_ext ''doc'') = ''doc''" by (simp add: from_plaintext_def Let_def)
  obtain em where em: "parse_payment_request_event_message sample_ext (from_plaintext sample_ext ''doc'') = Some em"
      "evm_event em = Inr sample_event"
    using parsed_event_message [OF sample_doc(1) [OF raw]] sample_doc(2) [OF raw] raw by metis
  then show ?thesis
    using event_message_header_agrees [OF em] by (auto simp: sample_event_def PaymentRequest_new_def)
qed

section \<open>Retries\<close>

text \<open>The encryptor after \<open>i\<close> sends of the plaintext, and whether send number \<open>i\<close> fails retryably.\<close>

definition noise_state :: "'n noise_send \<Rightarrow> string \<Rightarrow> 'n \<Rightarrow> nat \<Rightarrow> 'n" where
  "noise_state send plaintext n i = ((\<lambda>m. fst (send m plaintext)) ^^ i) n"

definition retryable_failure :: "'n noise_send \<Rightarrow> string \<Rightarrow> 'n \<Rightarrow> nat \<Rightarrow> bool" where
  "retryable_failure send plaintext n i \<longleftrightarrow>
     (case snd (send (noise_state send plaintext n i) plaintext) of Some (True, _) \<Rightarrow> True | _ \<Rightarrow> False)"

lemma noise_state_Suc: "noise_state send p n (Suc i) = noise_state send p (fst (send n p)) i"
  by (simp only: noise_state_def funpow_Suc_right comp_def)

lemma retryable_failure_Suc:
  "retryable_failure send p n (Suc i) = retryable_failure send p (fst (send n p)) i"
  by (simp add: retryable_failure_def noise_state_Suc)

lemma list_all_upt_Suc: "list_all P [0..<Suc k] \<longleftrightarrow> P 0 \<and> list_all (\<lambda>i. P (Suc i)) [0..<k]"
  by (simp only: upt_conv_Cons [OF zero_less_Suc] list.pred_inject map_Suc_upt [symmetric] list.pred_map comp_def)

lemma send_loop_success:
  "send_loop send p ctx a le n = (n', Inr None) \<longleftrightarrow>
     (\<exists>k<a. list_all (retryable_failure send p n) [0..<k]
        \<and> snd (send (noise_state send p n k) p) = None \<and> n' = noise_state send p n (Suc k))"
proof (induction a arbitrary: le n)
  case (Suc a)
  obtain m r where mr: "send n p = (m, r)" by (cases "send n p")
  have ex_Suc: "(\<exists>k<Suc a. P k) \<longleftrightarrow> P 0 \<or> (\<exists>k<a. P (Suc k))" for P
    by (metis less_Suc_eq_0_disj)
  show ?case
  proof (cases r)
    case None
    with mr show ?thesis
      by (auto simp: ex_Suc list_all_upt_Suc noise_state_def retryable_failure_def simp del: upt_Suc)
  next
    case (Some te)
    then obtain t err where te: "r = Some (t, err)" by (cases te) auto
    show ?thesis
    proof (cases t)
      case True
      with mr te have "retryable_failure send p n 0" by (simp add: retryable_failure_def noise_state_def)
      with True mr te Suc.IH [of "Some err" m] show ?thesis
        by (simp add: ex_Suc list_all_upt_Suc retryable_failure_Suc noise_state_Suc noise_state_def [of _ _ _ 0]
            del: upt_Suc)
    next
      case False
      with mr te have "\<not> retryable_failure send p n 0" by (simp add: retryable_failure_def noise_state_def)
      with False mr te show ?thesis
        by (simp add: ex_Suc list_all_upt_Suc noise_state_def [of _ _ _ 0] del: upt_Suc)
    qed
  qed
qed simp

text \<open>a private message is reported sent exactly when it fits the noise buffer and some attempt
  succeeds, within the configured retries plus one (saturating) and after retryable failures only;
  the encryptor is then in the state right after that attempt.\<close>

theorem send_private_application_message_exact:
  "send_private_application_message E send retries plaintext ctx n = (n', Inr ()) \<longleftrightarrow>
     length plaintext \<le> noise_msg_len E \<and>
     (\<exists>k < unat (send_attempts_from_retries retries).
        list_all (retryable_failure send plaintext n) [0..<k]
        \<and> snd (send (noise_state send plaintext n k) plaintext) = None
        \<and> n' = noise_state send plaintext n (Suc k))"
proof -
  let ?loop = "send_loop send plaintext ctx (unat (send_attempts_from_retries retries)) None n"
  have "send_private_application_message E send retries plaintext ctx n = (n', Inr ()) \<longleftrightarrow>
      length plaintext \<le> noise_msg_len E \<and> ?loop = (n', Inr None)"
    by (auto simp: send_private_application_message_def validate_private_application_message_size_def Let_def
        not_less split: prod.splits sum.splits option.splits if_splits)
  then show ?thesis by (simp add: send_loop_success)
qed

end
