(* ===== verification/Storage_Records.thy ===== *)
theory Storage_Records
  imports Payment_Request_Types
begin

text \<open>
  The durable records of the SDK (\<^verbatim>\<open>paykit-sdk/src/storage/records.rs\<close> and the record types it
  collects from \<^verbatim>\<open>domain/\<close> and \<^verbatim>\<open>identity.rs\<close>), the storage state, and the SDK's error type. Hash
  maps are association lists with distinct keys; the order in which the code iterates a hash map
  is unspecified and is the order of the list here. Identifiers are 64-bit words.
\<close>

section \<open>Errors\<close>

text \<open>\<^verbatim>\<open>PaykitSdkError\<close>: the context, and the source when one is kept.\<close>

datatype sdk_error =
    SdkStorage string "anyhow option"
  | SdkIdentity string "anyhow option"
  | SdkTransport string "anyhow option"
  | SdkNotFound string "anyhow option"
  | SdkProtocol string "anyhow option"
  | SdkPolicy string "anyhow option"
  | SdkPaymentAdapter string "anyhow option"
  | SdkRecoveryRequired string "anyhow option"

type_synonym 'a sdk_res = "sdk_error + 'a"

fun sdk_error_of_lib :: "paykit_error \<Rightarrow> sdk_error" where
  "sdk_error_of_lib (Transport ctx src) = SdkTransport ctx (Some src)"
| "sdk_error_of_lib (NotFound msg) = SdkNotFound msg None"
| "sdk_error_of_lib (InvalidData ctx src) = SdkProtocol ctx None"
| "sdk_error_of_lib (Validation msg) = SdkProtocol msg None"

fun sdk_error_display :: "sdk_error \<Rightarrow> string" where
  "sdk_error_display (SdkStorage ctx _) = ''storage error: '' @ ctx"
| "sdk_error_display (SdkIdentity ctx _) = ''identity error: '' @ ctx"
| "sdk_error_display (SdkTransport ctx _) = ''transport error: '' @ ctx"
| "sdk_error_display (SdkNotFound ctx _) = ''not found: '' @ ctx"
| "sdk_error_display (SdkProtocol ctx _) = ''protocol error: '' @ ctx"
| "sdk_error_display (SdkPolicy ctx _) = ''policy error: '' @ ctx"
| "sdk_error_display (SdkPaymentAdapter ctx _) = ''payment adapter error: '' @ ctx"
| "sdk_error_display (SdkRecoveryRequired ctx _) = ''recovery required: '' @ ctx"

section \<open>Identity\<close>

datatype PubkyPublicKey = PubkyPublicKey (z32: string)

type_synonym peer_key = "PubkyPublicKey \<times> PaykitReceiverPath"
type_synonym peer_item_key = "PubkyPublicKey \<times> PaykitReceiverPath \<times> string"

record IdentityState =
  id_public_key :: "PubkyPublicKey option"
  id_noise_public_key :: "PubkyPublicKey option"
  id_initialized_at :: instant
  id_sign_out_generation :: u64

section \<open>Linked peers\<close>

datatype EncryptedLinkHandshakeRole = Initiator | Responder

datatype LinkedPeerState = NotLinked | Linking | Linked | RecoveryRequiredState | Blocked

record LinkedPeerRecord =
  lp_counterparty :: PubkyPublicKey
  lp_path :: PaykitReceiverPath
  lp_state :: LinkedPeerState
  lp_last_sync_at :: "instant option"
  lp_last_private_receive_at :: "instant option"
  lp_failure_count :: u32
  lp_local_recovery_attempt_id :: "string option"
  lp_local_recovery_marker_created_at :: "instant option"
  lp_local_recovery_marker_last_error :: "string option"
  lp_remote_recovery_attempt_id :: "string option"
  lp_remote_recovery_marker_observed_at :: "instant option"

record EncryptedLinkStateRecord =
  ls_counterparty :: PubkyPublicKey
  ls_path :: PaykitReceiverPath
  ls_link_snapshot :: "string option"
  ls_handshake_snapshot :: "string option"
  ls_handshake_role :: "EncryptedLinkHandshakeRole option"
  ls_generation :: u64
  ls_checkpointed_at :: instant

record PeerLinkOperationLease =
  le_counterparty :: PubkyPublicKey
  le_path :: PaykitReceiverPath
  le_lease_id :: u64
  le_claimed_at :: instant
  le_expires_at :: instant

section \<open>Public endpoints, reservations and contacts\<close>

datatype PublicationStatus =
  NotPublished | PendingPublication | Published | PendingRemoval | Removed | PublicationFailed

record PublicEndpointRecord =
  pe_identifier :: string
  pe_payload :: "string option"
  pe_status :: PublicationStatus
  pe_updated_at :: instant
  pe_last_error :: "string option"

record PaymentEndpointReservationRecord =
  rv_reservation_id :: string
  rv_counterparty :: PubkyPublicKey
  rv_path :: PaykitReceiverPath
  rv_identifier :: string
  rv_payload_hash :: string
  rv_outbound_message_id :: u64
  rv_attribution :: "(string, string) hashmap"
  rv_expires_at :: "instant option"
  rv_cancellation_started_at :: "instant option"
  rv_created_at :: instant

record PaykitProfile =
  pf_display_name :: "string option"
  pf_image_uri :: "string option"
  pf_extra :: "json_map option"

record ContactRecord =
  ct_public_key :: PubkyPublicKey
  ct_receiver_paths :: "PaykitReceiverPath list"
  ct_label :: "string option"
  ct_profile :: "PaykitProfile option"
  ct_profile_fetched_at :: "instant option"
  ct_created_at :: instant
  ct_updated_at :: instant
  ct_public_contact_marker_status :: PublicationStatus
  ct_public_contact_marker_receiver_path :: "PaykitReceiverPath option"
  ct_public_contact_published_at :: "instant option"
  ct_public_contact_removed_at :: "instant option"
  ct_public_contact_last_error :: "string option"

section \<open>Outbound private messages\<close>

datatype OutboundPrivateMessageStatus =
  Pending | Sending | Sent | Failed | Invalid | RecoveryRequired | Superseded

record NewOutboundPrivateMessage =
  nm_counterparty :: PubkyPublicKey
  nm_path :: PaykitReceiverPath
  nm_kind :: string
  nm_raw_json :: string
  nm_created_at :: instant

record OutboundPrivateMessageRecord =
  om_id :: u64
  om_counterparty :: PubkyPublicKey
  om_path :: PaykitReceiverPath
  om_kind :: string
  om_raw_json :: string
  om_status :: OutboundPrivateMessageStatus
  om_attempt_count :: u32
  om_created_at :: instant
  om_updated_at :: instant
  om_last_attempt_at :: "instant option"
  om_sent_at :: "instant option"
  om_last_error :: "string option"

definition outbound_from_new :: "u64 \<Rightarrow> NewOutboundPrivateMessage \<Rightarrow> OutboundPrivateMessageRecord" where
  "outbound_from_new i m =
     \<lparr>om_id = i, om_counterparty = nm_counterparty m, om_path = nm_path m, om_kind = nm_kind m,
      om_raw_json = nm_raw_json m, om_status = Pending, om_attempt_count = 0,
      om_created_at = nm_created_at m, om_updated_at = nm_created_at m, om_last_attempt_at = None,
      om_sent_at = None, om_last_error = None\<rparr>"

section \<open>Private stream\<close>

datatype PrivateStreamParseStatus = Valid | MalformedRecognized | UnknownKind | InvalidJson

record NewPrivateStreamItem =
  ns_counterparty :: PubkyPublicKey
  ns_path :: PaykitReceiverPath
  ns_receive_batch_id :: u64
  ns_raw_json :: string
  ns_parsed_version :: "u32 option"
  ns_parsed_kind :: "string option"
  ns_known_paykit_kind :: "string option"
  ns_parse_status :: PrivateStreamParseStatus
  ns_parse_error :: "string option"
  ns_received_at :: instant

record PrivateStreamItemRecord =
  si_id :: u64
  si_counterparty :: PubkyPublicKey
  si_path :: PaykitReceiverPath
  si_receive_batch_id :: u64
  si_raw_json :: string
  si_parsed_version :: "u32 option"
  si_parsed_kind :: "string option"
  si_known_paykit_kind :: "string option"
  si_parse_status :: PrivateStreamParseStatus
  si_parse_error :: "string option"
  si_received_at :: instant

definition stream_item_from_new :: "u64 \<Rightarrow> NewPrivateStreamItem \<Rightarrow> PrivateStreamItemRecord" where
  "stream_item_from_new i m =
     \<lparr>si_id = i, si_counterparty = ns_counterparty m, si_path = ns_path m,
      si_receive_batch_id = ns_receive_batch_id m, si_raw_json = ns_raw_json m,
      si_parsed_version = ns_parsed_version m, si_parsed_kind = ns_parsed_kind m,
      si_known_paykit_kind = ns_known_paykit_kind m, si_parse_status = ns_parse_status m,
      si_parse_error = ns_parse_error m, si_received_at = ns_received_at m\<rparr>"

record EventDedupRecord =
  ed_counterparty :: PubkyPublicKey
  ed_path :: PaykitReceiverPath
  ed_event_id :: string
  ed_event_kind :: string
  ed_payload_hash :: string
  ed_first_stream_item_id :: u64
  ed_duplicate_stream_item_ids :: "u64 list"
  ed_conflicting_stream_item_ids :: "u64 list"

section \<open>Receipts\<close>

record AmountRecord =
  ar_value :: string
  ar_asset :: string

definition amount_record_of :: "PaymentAmount \<Rightarrow> AmountRecord" where
  "amount_record_of a = \<lparr>ar_value = amount_value a, ar_asset = amount_asset a\<rparr>"

record BillingPeriodRecord =
  br_starts_at :: string
  br_ends_at :: string

definition billing_record_of :: "BillingPeriod \<Rightarrow> BillingPeriodRecord" where
  "billing_record_of p = \<lparr>br_starts_at = bp_starts_at p, br_ends_at = bp_ends_at p\<rparr>"

datatype ReceiptRetrievalStatus = RetrievalPending | Retrieved | RetrievalNotFound | RetrievalFailed

datatype ReceiptIssuanceStatus = PendingStorage | Stored | AccessQueued | IssuanceFailed

record ReceiptAccessRecord =
  ra_counterparty :: PubkyPublicKey
  ra_path :: PaykitReceiverPath
  ra_stream_item_id :: u64
  ra_receive_batch_id :: u64
  ra_event_id :: string
  ra_receipt_id :: string
  ra_payment_reference :: string
  ra_payment_request_id :: "string option"
  ra_billing_period :: "BillingPeriodRecord option"
  ra_location :: string
  ra_key :: string
  ra_retrieval_status :: ReceiptRetrievalStatus
  ra_retrieval_attempted_at :: "instant option"
  ra_retrieved_at :: "instant option"
  ra_last_retrieval_error :: "string option"
  ra_received_at :: instant

record ReceiptRecord =
  rr_issuer :: PubkyPublicKey
  rr_issuer_path :: PaykitReceiverPath
  rr_receipt_access_event_id :: string
  rr_receipt_access_key_hash :: string
  rr_receipt_id :: string
  rr_payment_reference :: string
  rr_payment_request_id :: "string option"
  rr_billing_period :: "BillingPeriodRecord option"
  rr_recipient_public_key :: PubkyPublicKey
  rr_payment_endpoint_identifier :: "string option"
  rr_amount :: "AmountRecord option"
  rr_metadata :: json_map
  rr_location :: string
  rr_retrieved_at :: instant

record ReceiptIssuanceRecord =
  ri_counterparty :: PubkyPublicKey
  ri_path :: PaykitReceiverPath
  ri_receipt_id :: string
  ri_receipt_access_event_id :: string
  ri_payment_reference :: string
  ri_payment_request_id :: "string option"
  ri_billing_period :: "BillingPeriodRecord option"
  ri_payment_endpoint_identifier :: "string option"
  ri_amount :: "AmountRecord option"
  ri_location :: string
  ri_encrypted_receipt :: string
  ri_access_json :: string
  ri_status :: ReceiptIssuanceStatus
  ri_outbound_message_id :: "u64 option"
  ri_created_at :: instant
  ri_updated_at :: instant
  ri_stored_at :: "instant option"
  ri_access_queued_at :: "instant option"
  ri_last_error :: "string option"

section \<open>The storage state\<close>

record StorageState =
  st_identity_state :: "IdentityState option"
  st_linked_peers :: "(peer_key, LinkedPeerRecord) hashmap"
  st_contact_records :: "(PubkyPublicKey, ContactRecord) hashmap"
  st_public_endpoint_records :: "(string, PublicEndpointRecord) hashmap"
  st_payment_endpoint_reservations :: "(peer_item_key, PaymentEndpointReservationRecord) hashmap"
  st_encrypted_link_states :: "(peer_key, EncryptedLinkStateRecord) hashmap"
  st_peer_link_operation_leases :: "(peer_key, PeerLinkOperationLease) hashmap"
  st_next_lease_id :: u64
  st_outbound_private_messages :: "OutboundPrivateMessageRecord list"
  st_next_outbound_id :: u64
  st_private_stream_items :: "PrivateStreamItemRecord list"
  st_next_receive_batch_id :: u64
  st_next_stream_item_id :: u64
  st_event_dedup_records :: "(peer_item_key, EventDedupRecord) hashmap"
  st_receipt_access_records :: "(peer_item_key, ReceiptAccessRecord) hashmap"
  st_receipt_records :: "(peer_item_key, ReceiptRecord) hashmap"
  st_receipt_issuance_records :: "(peer_item_key, ReceiptIssuanceRecord) hashmap"

text \<open>\<^verbatim>\<open>StorageState::default()\<close>.\<close>

definition empty_storage :: StorageState where
  "empty_storage =
     \<lparr>st_identity_state = None, st_linked_peers = [], st_contact_records = [],
      st_public_endpoint_records = [], st_payment_endpoint_reservations = [],
      st_encrypted_link_states = [], st_peer_link_operation_leases = [], st_next_lease_id = 0,
      st_outbound_private_messages = [], st_next_outbound_id = 0, st_private_stream_items = [],
      st_next_receive_batch_id = 0, st_next_stream_item_id = 0, st_event_dedup_records = [],
      st_receipt_access_records = [], st_receipt_records = [], st_receipt_issuance_records = []\<rparr>"

end
