(* ===== verification/Private_Messages.thy ===== *)
theory Private_Messages
  imports Payment_Request_Wire Storage_Records
begin

text \<open>
  The two Private Application Messages beside the Payment Request events: Private Payment Lists
  (\<^verbatim>\<open>paykit-lib/src/private_payment_list.rs\<close>) and Receipt Access descriptors
  (\<^verbatim>\<open>paykit-lib/src/receipt/types.rs\<close>, \<^verbatim>\<open>access.rs\<close>, \<^verbatim>\<open>wire.rs\<close>). The lemmas give the round trip of
  Private Payment Lists and that an accepted Receipt Access points inside the receipts folder of
  some receiver path, at its own Receipt ID.
\<close>

section \<open>Private Payment Lists\<close>

record PrivatePaymentList =
  ppl_version :: u8
  ppl_kind :: PrivateMessageKind
  ppl_payment_endpoints :: "(PaymentEndpointIdentifier, PaymentEndpointPayload) hashmap"

definition PrivatePaymentList_new ::
  "(PaymentEndpointIdentifier, PaymentEndpointPayload) hashmap \<Rightarrow> PrivatePaymentList" where
  "PrivatePaymentList_new endpoints =
     \<lparr>ppl_version = 1, ppl_kind = PrivatePaymentListKind, ppl_payment_endpoints = endpoints\<rparr>"

record PrivatePaymentListWire =
  plw_version :: u8
  plw_kind :: string
  plw_payment_endpoints :: "(string, string) hashmap"

text \<open>The visitor inserts the members in document order and stops at a repeated identifier.\<close>

fun visit_endpoints :: "(string, string) hashmap \<Rightarrow> (string \<times> json) list \<Rightarrow> (string, string) hashmap option" where
  "visit_endpoints m [] = Some m"
| "visit_endpoints m ((k, v) # kvs) =
     Option.bind (de_string v) (\<lambda>s. if hm_get m k \<noteq> None then None else visit_endpoints (hm_insert k s m) kvs)"

fun deserialize_payment_endpoints :: "json \<Rightarrow> (string, string) hashmap option" where
  "deserialize_payment_endpoints (JObj kvs) = visit_endpoints [] kvs"
| "deserialize_payment_endpoints _ = None"

definition de_PrivatePaymentListWire :: "json \<Rightarrow> PrivatePaymentListWire option" where
  "de_PrivatePaymentListWire j =
     Option.bind (struct_fields [''version'', ''kind'', ''payment_endpoints''] j) (\<lambda>kvs.
     Option.bind (field ''version'' de_u8 kvs) (\<lambda>version.
     Option.bind (field ''kind'' de_string kvs) (\<lambda>kind.
     Option.bind (field ''payment_endpoints'' deserialize_payment_endpoints kvs) (\<lambda>endpoints.
     Some \<lparr>plw_version = version, plw_kind = kind, plw_payment_endpoints = endpoints\<rparr>))))"

fun collect_endpoints ::
  "(PaymentEndpointIdentifier, PaymentEndpointPayload) hashmap \<Rightarrow> (string, string) hashmap
    \<Rightarrow> (PaymentEndpointIdentifier, PaymentEndpointPayload) hashmap res" where
  "collect_endpoints acc [] = Inr acc"
| "collect_endpoints acc ((key, value) # rest) =
     rbind (map_err (\<lambda>err. invalid_data
              (''Private Payment List contains invalid Payment Endpoint Identifier '' @ quoted key)
              (Some (AnyhowPaykit err)))
            (PaymentEndpointIdentifier_new key)) (\<lambda>ident.
     collect_endpoints (hm_insert ident (PaymentEndpointPayload value) acc) rest)"

definition parse_private_payment_list_json :: "ext \<Rightarrow> string \<Rightarrow> PrivatePaymentList res" where
  "parse_private_payment_list_json E raw =
     rbind (from_json_string E ''PrivatePaymentListWire'' ''Private Payment List'' de_PrivatePaymentListWire raw) (\<lambda>w.
     if plw_version w \<noteq> 1
     then Inl (invalid_data (''unsupported Private Payment List version '' @ show_nat (unat (plw_version w))) None)
     else if plw_kind w \<noteq> kind_as_str PrivatePaymentListKind
     then Inl (invalid_data (''unsupported Private Payment List kind '' @ quoted (plw_kind w)) None)
     else rmap PrivatePaymentList_new (collect_endpoints [] (plw_payment_endpoints w)))"

definition private_payment_list_json :: "PrivatePaymentList \<Rightarrow> json" where
  "private_payment_list_json l =
     JObj [(''version'', JInt (uint (ppl_version l))), (''kind'', JStr (kind_as_str (ppl_kind l))),
           (''payment_endpoints'',
             JObj (map (\<lambda>(k, v). (identifier_str k, JStr (payload_str v))) (ppl_payment_endpoints l)))]"

definition serialize_private_payment_list_json :: "ext \<Rightarrow> PrivatePaymentList \<Rightarrow> string res" where
  "serialize_private_payment_list_json E l = to_json_string E ''Private Payment List'' (private_payment_list_json l)"

section \<open>Receipt Access\<close>

datatype ReceiptId = ReceiptId (receipt_id_str: string)

definition ReceiptId_new :: "ext \<Rightarrow> string \<Rightarrow> ReceiptId res" where
  "ReceiptId_new E s = rmap ReceiptId (validate_uuid_v4 E s ''Receipt ID'')"

datatype ReceiptDecryptionKey = ReceiptDecryptionKey (decryption_key_str: string)

definition ReceiptDecryptionKey_new :: "ext \<Rightarrow> string \<Rightarrow> ReceiptDecryptionKey res" where
  "ReceiptDecryptionKey_new E key =
     (case base64url_decode E key of
        None \<Rightarrow> Inl (Validation ''Receipt Decryption Key must be base64url'')
      | Some decoded \<Rightarrow>
          if length decoded \<noteq> 32 then Inl (Validation ''Receipt Decryption Key must decode to 32 bytes'')
          else Inr (ReceiptDecryptionKey key))"

record ReceiptAccess =
  rac_version :: u8
  rac_kind :: PrivateMessageKind
  rac_event_id :: EventId
  rac_receipt_id :: ReceiptId
  rac_payment_reference :: PaymentReference
  rac_payment_request_id :: "PaymentRequestId option"
  rac_billing_period :: "BillingPeriod option"
  rac_location :: string
  rac_key :: ReceiptDecryptionKey

definition validate_request_context ::
  "ext \<Rightarrow> PaymentRequestId option \<Rightarrow> BillingPeriod option \<Rightarrow> string \<Rightarrow> unit res" where
  "validate_request_context E rid period label =
     (if rid = None \<and> period \<noteq> None
      then Inl (Validation (label @ '' billing_period requires payment_request_id''))
      else case period of None \<Rightarrow> Inr () | Some p \<Rightarrow> billing_validate_with_label E p label)"

definition receipt_location :: "PaykitReceiverPath \<Rightarrow> ReceiptId \<Rightarrow> string" where
  "receipt_location rp rid = receipt_path_prefix rp @ ''/'' @ receipt_id_str rid"

definition location_matches_receiver_path :: "string \<Rightarrow> PaykitReceiverPath \<Rightarrow> ReceiptId \<Rightarrow> bool" where
  "location_matches_receiver_path location rp rid \<longleftrightarrow> location = receipt_location rp rid"

definition has_location_for_receiver :: "ReceiptAccess \<Rightarrow> PaykitReceiverPath \<Rightarrow> bool" where
  "has_location_for_receiver a rp = location_matches_receiver_path (rac_location a) rp (rac_receipt_id a)"

text \<open>\<^verbatim>\<open>strip_prefix\<close> and \<^verbatim>\<open>split_once\<close> of \<^verbatim>\<open>str\<close>.\<close>

definition strip_prefix :: "string \<Rightarrow> string \<Rightarrow> string option" where
  "strip_prefix p s = (if starts_with p s then Some (drop (length p) s) else None)"

fun split_once :: "string \<Rightarrow> string \<Rightarrow> (string \<times> string) option" where
  "split_once pat s =
     (case strip_prefix pat s of
        Some rest \<Rightarrow> Some ([], rest)
      | None \<Rightarrow> (case s of [] \<Rightarrow> None | c # cs \<Rightarrow> map_option (\<lambda>(a, b). (c # a, b)) (split_once pat cs)))"

declare split_once.simps [simp del]

definition receiver_scoped_location_matches :: "string \<Rightarrow> ReceiptId \<Rightarrow> bool" where
  "receiver_scoped_location_matches location rid \<longleftrightarrow>
     (case strip_prefix (PAYKIT_PRIVATE_PATH_PREFIX @ ''/'') location of
        None \<Rightarrow> False
      | Some rest \<Rightarrow>
          (case split_once ''/receipts/'' rest of
             None \<Rightarrow> False
           | Some (receiver_path, receipt_segment) \<Rightarrow>
               receipt_segment = receipt_id_str rid \<and> is_ok (PaykitReceiverPath_new receiver_path)))"

definition has_canonical_location :: "ReceiptAccess \<Rightarrow> bool" where
  "has_canonical_location a = receiver_scoped_location_matches (rac_location a) (rac_receipt_id a)"

definition validate_location :: "ReceiptAccess \<Rightarrow> unit res" where
  "validate_location a =
     (if \<not> has_canonical_location a then Inl (Validation ''Receipt Access location does not match Receipt ID'')
      else Inr ())"

definition receipt_access_validate :: "ext \<Rightarrow> ReceiptAccess \<Rightarrow> unit res" where
  "receipt_access_validate E a =
     (if rac_version a \<noteq> 1 then Inl (Validation ''Receipt Access version must be 1'')
      else if rac_kind a \<noteq> ReceiptAccessKind
      then Inl (Validation ''Receipt Access kind must be paykit.receipt_access'')
      else rbind (validate_request_context E (rac_payment_request_id a) (rac_billing_period a) ''Receipt Access'')
             (\<lambda>_. validate_location a))"

definition validate_wire_location :: "ReceiptAccess \<Rightarrow> unit res" where
  "validate_wire_location a =
     (if \<not> has_canonical_location a
      then Inl (InvalidData ''Receipt Access location does not match Receipt ID'' None) else Inr ())"

record ReceiptAccessWire =
  raw_version :: u8
  raw_kind :: string
  raw_event_id :: string
  raw_receipt_id :: string
  raw_payment_reference :: string
  raw_payment_request_id :: "string option"
  raw_billing_period :: "BillingPeriodWire option"
  raw_location :: string
  raw_key :: string

text \<open>\<^verbatim>\<open>deserialize_optional_no_null\<close> with a default of \<^verbatim>\<open>None\<close>.\<close>

definition optional_no_null :: "(json \<Rightarrow> 'a option) \<Rightarrow> json \<Rightarrow> 'a option option" where
  "optional_no_null dec j = map_option Some (dec j)"

definition de_ReceiptAccessWire :: "json \<Rightarrow> ReceiptAccessWire option" where
  "de_ReceiptAccessWire j =
     Option.bind (struct_fields [''version'', ''kind'', ''event_id'', ''receipt_id'', ''payment_reference'',
       ''payment_request_id'', ''billing_period'', ''location'', ''key''] j) (\<lambda>kvs.
     Option.bind (field ''version'' de_u8 kvs) (\<lambda>version.
     Option.bind (field ''kind'' de_string kvs) (\<lambda>kind.
     Option.bind (field ''event_id'' de_string kvs) (\<lambda>eid.
     Option.bind (field ''receipt_id'' de_string kvs) (\<lambda>rcid.
     Option.bind (field ''payment_reference'' de_string kvs) (\<lambda>reference.
     Option.bind (field_default None ''payment_request_id'' (optional_no_null de_string) kvs) (\<lambda>rid.
     Option.bind (field_default None ''billing_period'' (optional_no_null de_BillingPeriodWire) kvs) (\<lambda>period.
     Option.bind (field ''location'' de_string kvs) (\<lambda>location.
     Option.bind (field ''key'' de_string kvs) (\<lambda>key.
     Some \<lparr>raw_version = version, raw_kind = kind, raw_event_id = eid, raw_receipt_id = rcid,
           raw_payment_reference = reference, raw_payment_request_id = rid, raw_billing_period = period,
           raw_location = location, raw_key = key\<rparr>))))))))))"

text \<open>The conversions wrap each field's error with a static context.\<close>

definition access_field :: "string \<Rightarrow> 'a res \<Rightarrow> 'a res" where
  "access_field what r =
     map_err (\<lambda>err. InvalidData (''Receipt Access contains invalid '' @ what) (Some (AnyhowPaykit err))) r"

definition access_of_wire :: "ext \<Rightarrow> ReceiptAccessWire \<Rightarrow> ReceiptAccess res" where
  "access_of_wire E w =
     rbind (validate_wire_version_kind (raw_version w) (raw_kind w) ReceiptAccessKind ''Receipt Access'') (\<lambda>_.
     rbind (access_field ''Event ID'' (EventId_new E (raw_event_id w))) (\<lambda>eid.
     rbind (access_field ''Receipt ID'' (ReceiptId_new E (raw_receipt_id w))) (\<lambda>rcid.
     rbind (access_field ''Payment Reference'' (PaymentReference_new (raw_payment_reference w))) (\<lambda>reference.
     rbind (access_field ''Payment Request ID''
              (transpose_opt (map_option (PaymentRequestId_new E) (raw_payment_request_id w)))) (\<lambda>rid.
     let period = map_option billing_of_wire (raw_billing_period w) in
     rbind (case period of None \<Rightarrow> Inr ()
              | Some p \<Rightarrow> access_field ''Billing Period''
                  (billing_validate_with_label E p ''Receipt Access Billing Period'')) (\<lambda>_.
     rbind (access_field ''Receipt Decryption Key'' (ReceiptDecryptionKey_new E (raw_key w))) (\<lambda>key.
     let access = \<lparr>rac_version = 1, rac_kind = ReceiptAccessKind, rac_event_id = eid, rac_receipt_id = rcid,
                   rac_payment_reference = reference, rac_payment_request_id = rid, rac_billing_period = period,
                   rac_location = raw_location w, rac_key = key\<rparr> in
     rbind (access_field ''Payment Request context''
              (validate_request_context E (rac_payment_request_id access) (rac_billing_period access) ''Receipt Access'')) (\<lambda>_.
     rbind (validate_wire_location access) (\<lambda>_. Inr access)))))))))"

definition parse_receipt_access_json :: "ext \<Rightarrow> string \<Rightarrow> ReceiptAccess res" where
  "parse_receipt_access_json E raw =
     rbind (map_err (\<lambda>_. invalid_plaintext_json ''failed to parse Receipt Access JSON'')
              (struct_from_str E ''ReceiptAccessWire'' de_ReceiptAccessWire raw)) (\<lambda>w. access_of_wire E w)"

record ReceiptAccessEventMessage =
  ram_kind :: PrivateMessageKind
  ram_event_id :: "EventId option"
  ram_receipt_id :: "ReceiptId option"
  ram_raw_json :: string
  ram_access :: "string + ReceiptAccess"

definition parse_receipt_access_header_ids :: "ext \<Rightarrow> string \<Rightarrow> EventId option \<times> ReceiptId option" where
  "parse_receipt_access_header_ids E raw =
     (case value_from_str E raw of
        None \<Rightarrow> (None, None)
      | Some v \<Rightarrow>
          (Option.bind (Option.bind (value_get ''event_id'' v) as_str) (\<lambda>s. ok_of (EventId_new E s)),
           Option.bind (Option.bind (value_get ''receipt_id'' v) as_str) (\<lambda>s. ok_of (ReceiptId_new E s))))"

definition parse_receipt_access_event_message ::
  "ext \<Rightarrow> PrivateApplicationMessage \<Rightarrow> ReceiptAccessEventMessage option" where
  "parse_receipt_access_event_message E m =
     Option.bind (known_kind E m) (\<lambda>kind.
     if kind = ReceiptAccessKind
     then let (eid, rcid) = parse_receipt_access_header_ids E (pam_raw_json m) in
       Some \<lparr>ram_kind = kind, ram_event_id = eid, ram_receipt_id = rcid, ram_raw_json = pam_raw_json m,
             ram_access = map_err paykit_error_display (parse_receipt_access_json E (pam_raw_json m))\<rparr>
     else None)"

definition receipt_access_record_from_access ::
  "PubkyPublicKey \<Rightarrow> PaykitReceiverPath \<Rightarrow> u64 \<Rightarrow> u64 \<Rightarrow> instant \<Rightarrow> ReceiptAccess \<Rightarrow> ReceiptAccessRecord" where
  "receipt_access_record_from_access cp rp stream_item_id batch_id received_at a =
     \<lparr>ra_counterparty = cp, ra_path = rp, ra_stream_item_id = stream_item_id, ra_receive_batch_id = batch_id,
      ra_event_id = event_id_str (rac_event_id a), ra_receipt_id = receipt_id_str (rac_receipt_id a),
      ra_payment_reference = reference_str (rac_payment_reference a),
      ra_payment_request_id = map_option request_id_str (rac_payment_request_id a),
      ra_billing_period = map_option billing_record_of (rac_billing_period a),
      ra_location = rac_location a, ra_key = decryption_key_str (rac_key a),
      ra_retrieval_status = RetrievalPending, ra_retrieval_attempted_at = None, ra_retrieved_at = None,
      ra_last_retrieval_error = None, ra_received_at = received_at\<rparr>"

section \<open>Private Payment Lists round trip\<close>

lemma visit_endpoints_append:
  assumes "distinct (map fst (m @ kvs))"
  shows "visit_endpoints m (map (\<lambda>(k, v). (k, JStr v)) kvs) = Some (m @ kvs)"
  using assms
proof (induction kvs arbitrary: m)
  case (Cons kv kvs)
  obtain k v where kv: "kv = (k, v)" by (cases kv)
  have fresh: "k \<notin> fst ` set m" using Cons.prems kv by auto
  then have "hm_get m k = None" by (simp add: map_of_eq_None_iff)
  moreover have "hm_insert k v m = m @ [(k, v)]" using fresh by (induction m) auto
  ultimately show ?case using Cons.IH [of "m @ [(k, v)]"] Cons.prems kv by simp
qed simp

lemma collect_endpoints_append:
  assumes "distinct (map fst (acc @ eps))"
    and "list_all (\<lambda>(k, v). PaymentEndpointIdentifier_new (identifier_str k) = Inr k) eps"
  shows "collect_endpoints acc (map (\<lambda>(k, v). (identifier_str k, payload_str v)) eps) = Inr (acc @ eps)"
  using assms
proof (induction eps arbitrary: acc)
  case (Cons kv eps)
  obtain k v where kv: "kv = (k, v)" by (cases kv)
  have fresh: "k \<notin> fst ` set acc" using Cons.prems(1) kv by auto
  have "hm_insert k v acc = acc @ [(k, v)]" using fresh by (induction acc) auto
  then show ?case using Cons.IH [of "acc @ [(k, v)]"] Cons.prems kv by simp
qed simp

definition list_wf :: "PrivatePaymentList \<Rightarrow> bool" where
  "list_wf l \<longleftrightarrow> ppl_version l = 1 \<and> ppl_kind l = PrivatePaymentListKind
     \<and> distinct (map fst (ppl_payment_endpoints l))
     \<and> list_all (\<lambda>(k, v). PaymentEndpointIdentifier_new (identifier_str k) = Inr k) (ppl_payment_endpoints l)"

lemma parse_serialized_list:
  assumes "list_wf l" and "json_faithful E (private_payment_list_json l)"
    and "serialize_private_payment_list_json E l = Inr raw"
  shows "parse_private_payment_list_json E raw = Inr l"
proof -
  let ?eps = "ppl_payment_endpoints l"
  let ?w = "\<lparr>plw_version = 1, plw_kind = kind_as_str PrivatePaymentListKind,
      plw_payment_endpoints = map (\<lambda>(k, v). (identifier_str k, payload_str v)) ?eps\<rparr>"
  have l: "ppl_version l = 1" "ppl_kind l = PrivatePaymentListKind" using assms(1) by (simp_all add: list_wf_def)
  have "inj_on identifier_str (set (map fst ?eps))"
    by (auto simp: inj_on_def intro: PaymentEndpointIdentifier.expand)
  then have "distinct (map identifier_str (map fst ?eps))"
    using assms(1) by (subst distinct_map) (simp add: list_wf_def)
  moreover have "map (\<lambda>(k, v). (identifier_str k, JStr (payload_str v))) ?eps
      = map (\<lambda>(k, v). (k, JStr v)) (map (\<lambda>(k, v). (identifier_str k, payload_str v)) ?eps)" by auto
  ultimately have "visit_endpoints [] (map (\<lambda>(k, v). (identifier_str k, JStr (payload_str v))) ?eps)
      = Some (map (\<lambda>(k, v). (identifier_str k, payload_str v)) ?eps)"
    by (simp only:) (subst visit_endpoints_append, simp_all add: comp_def split_beta)
  then have "de_PrivatePaymentListWire (private_payment_list_json l) = Some ?w"
    using l by (simp add: de_PrivatePaymentListWire_def private_payment_list_json_def field_def)
  moreover have "json_from_str E raw = Inr (private_payment_list_json l)"
    using assms(2,3) by (auto simp: json_faithful_def serialize_private_payment_list_json_def to_json_string_def
        map_err_Inr_iff)
  moreover have "collect_endpoints [] (map (\<lambda>(k, v). (identifier_str k, payload_str v)) ?eps) = Inr ?eps"
    using collect_endpoints_append [of "[]" ?eps] assms(1) by (simp add: list_wf_def)
  moreover have "PrivatePaymentList_new ?eps = l"
    using l by (cases l) (simp add: PrivatePaymentList_new_def)
  ultimately show ?thesis
    by (simp add: parse_private_payment_list_json_def from_json_string_faithful)
qed

text \<open>a Private Payment List, whose endpoints form a map over validated identifiers, survives its
  wire form: parsing what it serialises to gives the list back.\<close>

theorem private_payment_list_roundtrip:
  assumes "list_wf l" and "json_faithful E (private_payment_list_json l)"
    and "serialize_private_payment_list_json E l = Inr raw"
  shows "parse_private_payment_list_json E raw = Inr l"
  using assms by (rule parse_serialized_list)

definition sample_payment_list :: PrivatePaymentList where
  "sample_payment_list =
     PrivatePaymentList_new [(PaymentEndpointIdentifier ''btc-lightning-bolt11'', PaymentEndpointPayload ''lnbc1''),
       (PaymentEndpointIdentifier ''btc-onchain'', PaymentEndpointPayload ''bc1q'')]"

theorem private_payment_list_roundtrip_witness:
  "parse_private_payment_list_json (table_ext [(''doc'', private_payment_list_json sample_payment_list)]) ''doc''
     = Inr sample_payment_list"
proof (rule private_payment_list_roundtrip)
  let ?E = "table_ext [(''doc'', private_payment_list_json sample_payment_list)]"
  show "list_wf sample_payment_list" by code_simp
  show "json_faithful ?E (private_payment_list_json sample_payment_list)"
    by (simp add: json_faithful_def table_ext_def)
  show "serialize_private_payment_list_json ?E sample_payment_list = Inr ''doc''"
    by (simp add: serialize_private_payment_list_json_def to_json_string_def table_ext_def)
qed

section \<open>Receipt locations\<close>

lemma strip_prefix_iff: "strip_prefix p s = Some r \<longleftrightarrow> s = p @ r"
  by (auto simp: strip_prefix_def starts_with_def) (metis append_take_drop_id)

lemma split_once_sound: "split_once pat s = Some (a, b) \<Longrightarrow> s = a @ pat @ b"
proof (induction s arbitrary: a)
  case Nil
  then show ?case by (subst (asm) split_once.simps) (auto simp: strip_prefix_iff split: option.splits)
next
  case (Cons c cs)
  then show ?case
    by (subst (asm) split_once.simps) (auto simp: strip_prefix_iff split: option.splits)
qed

text \<open>The first occurrence is found when no earlier suffix starts with the pattern.\<close>

lemma split_once_first:
  "list_all (\<lambda>i. \<not> starts_with pat (drop i (a @ pat @ b))) [0..<length a] \<Longrightarrow> split_once pat (a @ pat @ b) = Some (a, b)"
proof (induction a)
  case Nil
  then show ?case by (subst split_once.simps) (simp add: strip_prefix_def starts_with_def)
next
  case (Cons c a)
  have first: "\<not> starts_with pat (c # a @ pat @ b)"
    and rest: "list_all (\<lambda>i. \<not> starts_with pat (drop i (a @ pat @ b))) [0..<length a]"
    using Cons.prems by (simp_all add: list_all_upt_Suc del: upt_Suc)
  from first have "strip_prefix pat (c # a @ pat @ b) = None" by (simp add: strip_prefix_def)
  then show ?case using Cons.IH [OF rest] by (subst split_once.simps) simp
qed

lemma starts_with_Cons: "starts_with (c # p) (d # s) \<longleftrightarrow> c = d \<and> starts_with p s"
  by (auto simp: starts_with_def)

text \<open>A receiver path has one slash, and what follows it is neither \<^verbatim>\<open>receipts\<close> nor a prefix of it.\<close>

lemma receiver_path_no_receipts:
  assumes "receiver_path_shape v app runtime"
  shows "list_all (\<lambda>i. \<not> starts_with ''/receipts/'' (drop i (v @ ''/receipts/'' @ b))) [0..<length v]"
proof -
  have v: "v = app @ CHR ''/'' # runtime" and rt: "runtime = ''wallet'' \<or> runtime = ''server''"
    and app: "CHR ''/'' \<notin> set app"
    using assms by (auto simp: receiver_path_shape_def)
  have "\<not> starts_with ''/receipts/'' (drop i (v @ ''/receipts/'' @ b))" if i: "i < length v" for i
  proof (cases "i = length app")
    case True
    then show ?thesis using v rt by (auto simp: starts_with_Cons)
  next
    case False
    have "v ! i \<noteq> CHR ''/''"
    proof (cases "i < length app")
      case True
      then have "v ! i = app ! i" using v by (simp add: nth_append)
      then show ?thesis using app True by (metis nth_mem)
    next
      case later: False
      then have "v ! i = runtime ! (i - length app - 1)" using v False by (simp add: nth_append nth_Cons')
      moreover have "i - length app - 1 < length runtime" using i v later False by simp
      ultimately have "v ! i \<in> set runtime" by simp
      then show ?thesis using rt by auto
    qed
    moreover have "drop i (v @ ''/receipts/'' @ b) = v ! i # drop (Suc i) (v @ ''/receipts/'' @ b)"
      using i by (subst Cons_nth_drop_Suc [symmetric]) (simp_all add: nth_append)
    ultimately show ?thesis by (simp add: starts_with_Cons)
  qed
  then show ?thesis by (simp add: list_all_iff)
qed

lemma path_new_is_ok: "is_ok (PaykitReceiverPath_new v) \<longleftrightarrow> (\<exists>app runtime. receiver_path_shape v app runtime)"
  by (auto simp: is_ok_iff receiver_path_new_iff)

text \<open>The location check of an incoming Receipt Access accepts exactly the canonical receipt paths:
  some valid receiver path's receipts folder followed by the descriptor's own Receipt ID.\<close>

theorem receipt_location_exact:
  "has_canonical_location a \<longleftrightarrow>
     (\<exists>rp. is_ok (PaykitReceiverPath_new (receiver_path_str rp)) \<and> has_location_for_receiver a rp)"
proof
  assume "has_canonical_location a"
  then obtain rest v where rest: "rac_location a = PAYKIT_PRIVATE_PATH_PREFIX @ ''/'' @ rest"
    and v: "split_once ''/receipts/'' rest = Some (v, receipt_id_str (rac_receipt_id a))"
      "is_ok (PaykitReceiverPath_new v)"
    by (auto simp: has_canonical_location_def receiver_scoped_location_matches_def strip_prefix_iff
        split: option.splits)
  have "has_location_for_receiver a (PaykitReceiverPath v)"
    using split_once_sound [OF v(1)] rest
    by (simp add: has_location_for_receiver_def location_matches_receiver_path_def receipt_location_def
        receipt_path_prefix_def)
  then show "\<exists>rp. is_ok (PaykitReceiverPath_new (receiver_path_str rp)) \<and> has_location_for_receiver a rp"
    using v(2) by (intro exI [of _ "PaykitReceiverPath v"]) simp
next
  assume "\<exists>rp. is_ok (PaykitReceiverPath_new (receiver_path_str rp)) \<and> has_location_for_receiver a rp"
  then obtain v app runtime where shape: "receiver_path_shape v app runtime"
    and loc: "rac_location a = receipt_location (PaykitReceiverPath v) (rac_receipt_id a)"
    by (auto simp: path_new_is_ok has_location_for_receiver_def location_matches_receiver_path_def)
  let ?id = "receipt_id_str (rac_receipt_id a)"
  have "rac_location a = (PAYKIT_PRIVATE_PATH_PREFIX @ ''/'') @ v @ ''/receipts/'' @ ?id"
    using loc by (simp add: receipt_location_def receipt_path_prefix_def)
  then have "strip_prefix (PAYKIT_PRIVATE_PATH_PREFIX @ ''/'') (rac_location a) = Some (v @ ''/receipts/'' @ ?id)"
    by (simp only: strip_prefix_iff)
  moreover have "split_once ''/receipts/'' (v @ ''/receipts/'' @ ?id) = Some (v, ?id)"
    by (rule split_once_first [OF receiver_path_no_receipts [OF shape]])
  ultimately show "has_canonical_location a"
    using shape path_new_is_ok by (auto simp: has_canonical_location_def receiver_scoped_location_matches_def)
qed

section \<open>Receipt Access header ids\<close>

lemma access_header:
  assumes "de_ReceiptAccessWire j = Some w" and "value_get ''kind'' (to_value j) = Some v"
  shows "Option.bind (value_get ''event_id'' (to_value j)) as_str = Some (raw_event_id w)"
proof -
  obtain names kvs where "struct_fields names j = Some kvs" "field ''event_id'' de_string kvs = Some (raw_event_id w)"
    using assms(1) by (auto simp: de_ReceiptAccessWire_def bind_eq_Some_conv)
  then show ?thesis by (rule header_field [OF _ assms(2)])
qed

lemma access_message_event_id:
  assumes "parse_receipt_access_event_message E m = Some em" and "ram_access em = Inr a"
  shows "ram_event_id em = Some (rac_event_id a) \<and> has_canonical_location a"
proof -
  have k: "known_kind E m = Some ReceiptAccessKind" and p: "parse_receipt_access_json E (pam_raw_json m) = Inr a"
    and em: "ram_event_id em = fst (parse_receipt_access_header_ids E (pam_raw_json m))"
    using assms by (auto simp: parse_receipt_access_event_message_def map_err_Inr_iff
        split: Option.bind_splits prod.splits if_splits)
  obtain j w where j: "json_from_str E (pam_raw_json m) = Inr j" "de_ReceiptAccessWire j = Some w"
      "access_of_wire E w = Inr a"
    using p by (auto simp: parse_receipt_access_json_def result_iffs struct_from_str_Inr)
  have a: "EventId_new E (raw_event_id w) = Inr (rac_event_id a)" "has_canonical_location a"
    using j(3) by (auto simp: access_of_wire_def access_field_def result_iffs Let_def validate_wire_location_def
        split: if_splits)
  obtain v where "value_get ''kind'' (to_value j) = Some v"
    using k j by (auto simp: known_kind_def value_from_str_def split: Option.bind_splits)
  from access_header [OF j(2) this] show ?thesis
    using a em j by (auto simp: parse_receipt_access_header_ids_def value_from_str_def bind_eq_Some_conv)
qed

end
