(* ===== verification/Receipts.thy ===== *)
theory Receipts
  imports Private_Messages
begin

text \<open>
  Receipt artifacts of the library (\<^verbatim>\<open>paykit-lib/src/receipt/\<close>): the plaintext receipt and its wire
  struct, the encrypted envelope, preparation of a receipt for a recipient, the check made before a
  prepared receipt is stored, and sending its access descriptor. Fresh identifiers, the key and the
  nonce are arguments, since the code draws them at random. The lemmas show that encryption and
  decryption are inverse for the location they are bound to and that a prepared receipt passes the
  check of the operation that stores it.
\<close>

section \<open>Receipts and their wire structs\<close>

definition RECEIPT_ENCRYPTION_ALGORITHM :: string where
  "RECEIPT_ENCRYPTION_ALGORITHM = ''XChaCha20Poly1305''"

record ReceiptDraft =
  rd_receipt_id :: "ReceiptId option"
  rd_payment_reference :: PaymentReference
  rd_payment_request_id :: "PaymentRequestId option"
  rd_billing_period :: "BillingPeriod option"
  rd_payment_endpoint_identifier :: "PaymentEndpointIdentifier option"
  rd_amount :: "PaymentAmount option"
  rd_metadata :: json_map

record Receipt =
  rc_receipt_id :: ReceiptId
  rc_payment_reference :: PaymentReference
  rc_payment_request_id :: "PaymentRequestId option"
  rc_billing_period :: "BillingPeriod option"
  rc_recipient_public_key :: PublicKey
  rc_payment_endpoint_identifier :: "PaymentEndpointIdentifier option"
  rc_amount :: "PaymentAmount option"
  rc_metadata :: json_map

record PreparedReceipt =
  prep_receipt :: Receipt
  prep_encrypted_receipt :: string
  prep_access :: ReceiptAccess

text \<open>\<^verbatim>\<open>ReceiptDecryptionKey::generate\<close> on the 32 bytes the random source gives.\<close>

definition ReceiptDecryptionKey_generate :: "ext \<Rightarrow> string \<Rightarrow> ReceiptDecryptionKey" where
  "ReceiptDecryptionKey_generate E random = ReceiptDecryptionKey (base64url_encode E random)"

definition key_bytes :: "ext \<Rightarrow> ReceiptDecryptionKey \<Rightarrow> string res" where
  "key_bytes E key =
     (case base64url_decode E (decryption_key_str key) of
        None \<Rightarrow> Inl (InvalidData ''Receipt Decryption Key is not valid base64url'' None)
      | Some decoded \<Rightarrow>
          if length decoded \<noteq> 32 then Inl (InvalidData ''Receipt Decryption Key must decode to 32 bytes'' None)
          else Inr decoded)"

record ReceiptWire =
  rcw_version :: u8
  rcw_kind :: string
  rcw_receipt_id :: string
  rcw_payment_reference :: string
  rcw_payment_request_id :: "string option"
  rcw_billing_period :: "BillingPeriodWire option"
  rcw_recipient_public_key :: string
  rcw_payment_endpoint_identifier :: "string option"
  rcw_amount :: "PaymentAmountWire option"
  rcw_metadata :: json_map

definition de_ReceiptWire :: "json \<Rightarrow> ReceiptWire option" where
  "de_ReceiptWire j =
     Option.bind (struct_fields [''version'', ''kind'', ''receipt_id'', ''payment_reference'', ''payment_request_id'',
       ''billing_period'', ''recipient_public_key'', ''payment_endpoint_identifier'', ''amount'', ''metadata''] j) (\<lambda>kvs.
     Option.bind (field ''version'' de_u8 kvs) (\<lambda>version.
     Option.bind (field ''kind'' de_string kvs) (\<lambda>kind.
     Option.bind (field ''receipt_id'' de_string kvs) (\<lambda>rcid.
     Option.bind (field ''payment_reference'' de_string kvs) (\<lambda>reference.
     Option.bind (field_default None ''payment_request_id'' (optional_no_null de_string) kvs) (\<lambda>rid.
     Option.bind (field_default None ''billing_period'' (optional_no_null de_BillingPeriodWire) kvs) (\<lambda>period.
     Option.bind (field ''recipient_public_key'' de_string kvs) (\<lambda>recipient.
     Option.bind (field_option ''payment_endpoint_identifier'' de_string kvs) (\<lambda>ident.
     Option.bind (field_option ''amount'' de_PaymentAmountWire kvs) (\<lambda>amount.
     Option.bind (field ''metadata'' de_json_map kvs) (\<lambda>metadata.
     Some \<lparr>rcw_version = version, rcw_kind = kind, rcw_receipt_id = rcid, rcw_payment_reference = reference,
           rcw_payment_request_id = rid, rcw_billing_period = period, rcw_recipient_public_key = recipient,
           rcw_payment_endpoint_identifier = ident, rcw_amount = amount, rcw_metadata = metadata\<rparr>)))))))))))"

text \<open>\<^verbatim>\<open>skip_serializing_if = "Option::is_none"\<close>.\<close>

definition ser_skip_none :: "string \<Rightarrow> ('a \<Rightarrow> json) \<Rightarrow> 'a option \<Rightarrow> (string \<times> json) list" where
  "ser_skip_none k ser x = (case x of None \<Rightarrow> [] | Some v \<Rightarrow> [(k, ser v)])"

definition ser_ReceiptWire :: "ReceiptWire \<Rightarrow> json" where
  "ser_ReceiptWire w =
     JObj ([(''version'', JInt (uint (rcw_version w))), (''kind'', JStr (rcw_kind w)),
            (''receipt_id'', JStr (rcw_receipt_id w)), (''payment_reference'', JStr (rcw_payment_reference w))]
           @ ser_skip_none ''payment_request_id'' JStr (rcw_payment_request_id w)
           @ ser_skip_none ''billing_period'' ser_BillingPeriodWire (rcw_billing_period w)
           @ [(''recipient_public_key'', JStr (rcw_recipient_public_key w)),
              (''payment_endpoint_identifier'', ser_nullable JStr (rcw_payment_endpoint_identifier w)),
              (''amount'', ser_nullable ser_PaymentAmountWire (rcw_amount w)),
              (''metadata'', JObj (rcw_metadata w))])"

record EncryptedReceiptWire =
  erw_version :: u8
  erw_kind :: string
  erw_algorithm :: string
  erw_nonce :: string
  erw_ciphertext :: string

definition de_EncryptedReceiptWire :: "json \<Rightarrow> EncryptedReceiptWire option" where
  "de_EncryptedReceiptWire j =
     Option.bind (struct_fields [''version'', ''kind'', ''algorithm'', ''nonce'', ''ciphertext''] j) (\<lambda>kvs.
     Option.bind (field ''version'' de_u8 kvs) (\<lambda>version.
     Option.bind (field ''kind'' de_string kvs) (\<lambda>kind.
     Option.bind (field ''algorithm'' de_string kvs) (\<lambda>algorithm.
     Option.bind (field ''nonce'' de_string kvs) (\<lambda>nonce.
     Option.bind (field ''ciphertext'' de_string kvs) (\<lambda>ciphertext.
     Some \<lparr>erw_version = version, erw_kind = kind, erw_algorithm = algorithm, erw_nonce = nonce,
           erw_ciphertext = ciphertext\<rparr>))))))"

definition ser_EncryptedReceiptWire :: "EncryptedReceiptWire \<Rightarrow> json" where
  "ser_EncryptedReceiptWire w =
     JObj [(''version'', JInt (uint (erw_version w))), (''kind'', JStr (erw_kind w)),
           (''algorithm'', JStr (erw_algorithm w)), (''nonce'', JStr (erw_nonce w)),
           (''ciphertext'', JStr (erw_ciphertext w))]"

definition receipt_to_wire :: "ext \<Rightarrow> Receipt \<Rightarrow> ReceiptWire" where
  "receipt_to_wire E r =
     \<lparr>rcw_version = 1, rcw_kind = ''paykit.receipt'', rcw_receipt_id = receipt_id_str (rc_receipt_id r),
      rcw_payment_reference = reference_str (rc_payment_reference r),
      rcw_payment_request_id = map_option request_id_str (rc_payment_request_id r),
      rcw_billing_period = map_option billing_to_wire (rc_billing_period r),
      rcw_recipient_public_key = public_key_display E (rc_recipient_public_key r),
      rcw_payment_endpoint_identifier = map_option identifier_str (rc_payment_endpoint_identifier r),
      rcw_amount = map_option amount_to_wire (rc_amount r), rcw_metadata = rc_metadata r\<rparr>"

definition receipt_field :: "string \<Rightarrow> 'a res \<Rightarrow> 'a res" where
  "receipt_field what r =
     map_err (\<lambda>err. InvalidData (''Receipt contains invalid '' @ what) (Some (AnyhowPaykit err))) r"

definition receipt_of_wire :: "ext \<Rightarrow> ReceiptWire \<Rightarrow> Receipt res" where
  "receipt_of_wire E w =
     rbind (validate_wire_version_kind_str (rcw_version w) (rcw_kind w) ''paykit.receipt'' ''Receipt'') (\<lambda>_.
     rbind (receipt_field ''Receipt ID'' (ReceiptId_new E (rcw_receipt_id w))) (\<lambda>rcid.
     rbind (receipt_field ''Payment Reference'' (PaymentReference_new (rcw_payment_reference w))) (\<lambda>reference.
     rbind (receipt_field ''Payment Request ID''
              (transpose_opt (map_option (PaymentRequestId_new E) (rcw_payment_request_id w)))) (\<lambda>rid.
     let period = map_option billing_of_wire (rcw_billing_period w) in
     rbind (case period of None \<Rightarrow> Inr ()
              | Some p \<Rightarrow> receipt_field ''Billing Period'' (billing_validate_with_label E p ''Receipt Billing Period'')) (\<lambda>_.
     rbind (map_err (\<lambda>err. InvalidData ''Receipt contains invalid recipient public key''
                             (Some (AnyhowMsg (''invalid recipient public key: '' @ err))))
              (public_key_from_text E (rcw_recipient_public_key w))) (\<lambda>recipient.
     rbind (receipt_field ''Payment Endpoint Identifier''
              (transpose_opt (map_option PaymentEndpointIdentifier_new (rcw_payment_endpoint_identifier w)))) (\<lambda>ident.
     let amount = map_option amount_of_wire (rcw_amount w) in
     rbind (case amount of None \<Rightarrow> Inr ()
              | Some a \<Rightarrow> receipt_field ''Payment Amount'' (amount_validate_with_label a ''Receipt amount'')) (\<lambda>_.
     let receipt = \<lparr>rc_receipt_id = rcid, rc_payment_reference = reference, rc_payment_request_id = rid,
                    rc_billing_period = period, rc_recipient_public_key = recipient,
                    rc_payment_endpoint_identifier = ident, rc_amount = amount, rc_metadata = rcw_metadata w\<rparr> in
     rbind (receipt_field ''Payment Request context''
              (validate_request_context E (rc_payment_request_id receipt) (rc_billing_period receipt) ''Receipt'')) (\<lambda>_.
     Inr receipt)))))))))"

section \<open>Encryption\<close>

definition aad_for_location :: "string \<Rightarrow> string" where
  "aad_for_location location = ''paykit.receipt.v1:'' @ location"

definition location_matches_receipt_id :: "string \<Rightarrow> ReceiptId \<Rightarrow> bool" where
  "location_matches_receipt_id location rid = receiver_scoped_location_matches location rid"

definition encrypt_for_location ::
  "ext \<Rightarrow> string \<Rightarrow> Receipt \<Rightarrow> ReceiptDecryptionKey \<Rightarrow> string \<Rightarrow> string res" where
  "encrypt_for_location E nonce r key location =
     rbind (validate_request_context E (rc_payment_request_id r) (rc_billing_period r) ''Receipt'') (\<lambda>_.
     rbind (case rc_amount r of None \<Rightarrow> Inr () | Some a \<Rightarrow> amount_validate_with_label a ''Receipt amount'') (\<lambda>_.
     if \<not> location_matches_receipt_id location (rc_receipt_id r)
     then Inl (Validation ''Receipt Location does not match Receipt ID'')
     else rbind (key_bytes E key) (\<lambda>kb.
     rbind (map_err (\<lambda>err. InvalidData (''failed to serialize receipt JSON: '' @ err) (Some (AnyhowMsg err)))
              (json_to_string E (ser_ReceiptWire (receipt_to_wire E r)))) (\<lambda>plaintext.
     rbind (map_err (\<lambda>err. InvalidData (''failed to encrypt receipt: '' @ err) None)
              (aead_encrypt E kb nonce plaintext (aad_for_location location))) (\<lambda>ciphertext.
     map_err (\<lambda>err. InvalidData (''failed to serialize encrypted receipt JSON: '' @ err) (Some (AnyhowMsg err)))
       (json_to_string E (ser_EncryptedReceiptWire
          \<lparr>erw_version = 1, erw_kind = ''paykit.receipt.encrypted'', erw_algorithm = RECEIPT_ENCRYPTION_ALGORITHM,
           erw_nonce = base64url_encode E nonce, erw_ciphertext = base64url_encode E ciphertext\<rparr>)))))))"

definition encrypt ::
  "ext \<Rightarrow> string \<Rightarrow> Receipt \<Rightarrow> PaykitReceiverPath \<Rightarrow> ReceiptDecryptionKey \<Rightarrow> string res" where
  "encrypt E nonce r rp key = encrypt_for_location E nonce r key (receipt_location rp (rc_receipt_id r))"

definition decode_part :: "ext \<Rightarrow> string \<Rightarrow> string \<Rightarrow> string res" where
  "decode_part E what text =
     (case base64url_decode E text of
        None \<Rightarrow> Inl (InvalidData (''encrypted receipt '' @ what @ '' is not valid base64url'')
                                 (Some (AnyhowMsg (base64_error E text))))
      | Some b \<Rightarrow> Inr b)"

definition decrypt_receipt :: "ext \<Rightarrow> string \<Rightarrow> ReceiptDecryptionKey \<Rightarrow> string \<Rightarrow> Receipt res" where
  "decrypt_receipt E encrypted_json key location =
     rbind (map_err (\<lambda>err. InvalidData ''failed to parse encrypted receipt JSON'' (Some (AnyhowMsg err)))
              (struct_from_str E ''EncryptedReceiptWire'' de_EncryptedReceiptWire encrypted_json)) (\<lambda>w.
     if erw_version w \<noteq> 1 \<or> erw_kind w \<noteq> ''paykit.receipt.encrypted''
        \<or> erw_algorithm w \<noteq> RECEIPT_ENCRYPTION_ALGORITHM
     then Inl (InvalidData ''unsupported encrypted receipt envelope version/kind/algorithm'' None)
     else rbind (decode_part E ''nonce'' (erw_nonce w)) (\<lambda>nonce.
     rbind (decode_part E ''ciphertext'' (erw_ciphertext w)) (\<lambda>ciphertext.
     if length nonce \<noteq> 24 then Inl (InvalidData ''encrypted receipt nonce must be 24 bytes'' None)
     else rbind (key_bytes E key) (\<lambda>kb.
     rbind (map_err (\<lambda>err. InvalidData (''failed to decrypt receipt: '' @ err) None)
              (aead_decrypt E kb nonce ciphertext (aad_for_location location))) (\<lambda>plaintext.
     rbind (map_err (\<lambda>_. invalid_plaintext_json ''failed to parse receipt plaintext JSON'')
              (struct_from_str E ''ReceiptWire'' de_ReceiptWire plaintext)) (\<lambda>rw.
     rbind (receipt_of_wire E rw) (\<lambda>r.
     if \<not> location_matches_receipt_id location (rc_receipt_id r)
     then Inl (InvalidData ''Receipt ID does not match Receipt Location'' None)
     else Inr r)))))))"

section \<open>Preparing, storing and sending\<close>

text \<open>
  \<^verbatim>\<open>prepare_receipt_for_recipient\<close>: \<open>fresh_receipt_id\<close> and \<open>fresh_event_id\<close> are the generated UUIDs,
  \<open>random_key\<close> and \<open>nonce\<close> the generated bytes.
\<close>

definition prepare_receipt_for_recipient ::
  "ext \<Rightarrow> string \<Rightarrow> string \<Rightarrow> string \<Rightarrow> string \<Rightarrow> PublicKey \<Rightarrow> PaykitReceiverPath \<Rightarrow> ReceiptDraft \<Rightarrow> PreparedReceipt res" where
  "prepare_receipt_for_recipient E fresh_receipt_id fresh_event_id random_key nonce recipient rp draft =
     rbind (validate_request_context E (rd_payment_request_id draft) (rd_billing_period draft) ''Receipt Draft'') (\<lambda>_.
     let rcid = (case rd_receipt_id draft of None \<Rightarrow> ReceiptId fresh_receipt_id | Some i \<Rightarrow> i) in
     rbind (case rd_amount draft of None \<Rightarrow> Inr () | Some a \<Rightarrow> amount_validate_with_label a ''Receipt amount'') (\<lambda>_.
     let location = receipt_location rp rcid;
         key = ReceiptDecryptionKey_generate E random_key;
         receipt = \<lparr>rc_receipt_id = rcid, rc_payment_reference = rd_payment_reference draft,
           rc_payment_request_id = rd_payment_request_id draft, rc_billing_period = rd_billing_period draft,
           rc_recipient_public_key = recipient,
           rc_payment_endpoint_identifier = rd_payment_endpoint_identifier draft,
           rc_amount = rd_amount draft, rc_metadata = rd_metadata draft\<rparr> in
     rbind (map_err (map_error ''prepare_receipt'') (encrypt_for_location E nonce receipt key location)) (\<lambda>enc.
     Inr \<lparr>prep_receipt = receipt, prep_encrypted_receipt = enc,
          prep_access = \<lparr>rac_version = 1, rac_kind = ReceiptAccessKind, rac_event_id = EventId fresh_event_id,
            rac_receipt_id = rcid, rac_payment_reference = rd_payment_reference draft,
            rac_payment_request_id = rd_payment_request_id draft, rac_billing_period = rd_billing_period draft,
            rac_location = location, rac_key = key\<rparr>\<rparr>)))"

definition prepare_receipt ::
  "ext \<Rightarrow> string \<Rightarrow> string \<Rightarrow> string \<Rightarrow> string \<Rightarrow> PublicKey \<Rightarrow> PaykitReceiverPath \<Rightarrow> PaykitReceiverPath \<Rightarrow> ReceiptDraft \<Rightarrow>
   PreparedReceipt res" where
  "prepare_receipt E fresh_receipt_id fresh_event_id random_key nonce link_recipient link_local_path rp draft =
     (if rp \<noteq> link_local_path
      then Inl (Validation (''Receipt receiver path '' @ receiver_path_str rp
             @ '' does not match Encrypted Link local receiver '' @ receiver_path_str link_local_path))
      else prepare_receipt_for_recipient E fresh_receipt_id fresh_event_id random_key nonce link_recipient rp draft)"

definition validate_prepared_receipt :: "ext \<Rightarrow> PreparedReceipt \<Rightarrow> unit res" where
  "validate_prepared_receipt E p =
     rbind (receipt_access_validate E (prep_access p)) (\<lambda>_.
     if rc_receipt_id (prep_receipt p) \<noteq> rac_receipt_id (prep_access p)
     then Inl (Validation ''Prepared Receipt plaintext Receipt ID does not match Receipt Access'')
     else if rc_payment_reference (prep_receipt p) \<noteq> rac_payment_reference (prep_access p)
     then Inl (Validation ''Prepared Receipt plaintext Payment Reference does not match Receipt Access'')
     else if rc_payment_request_id (prep_receipt p) \<noteq> rac_payment_request_id (prep_access p)
     then Inl (Validation ''Prepared Receipt plaintext Payment Request ID does not match Receipt Access'')
     else if rc_billing_period (prep_receipt p) \<noteq> rac_billing_period (prep_access p)
     then Inl (Validation ''Prepared Receipt plaintext Billing Period does not match Receipt Access'')
     else rbind (map_err (\<lambda>err. Validation (''Prepared Receipt encrypted payload does not decrypt with Receipt Access: ''
                    @ paykit_error_display err))
             (decrypt_receipt E (prep_encrypted_receipt p) (rac_key (prep_access p)) (rac_location (prep_access p))))
       (\<lambda>decrypted.
          if decrypted \<noteq> prep_receipt p
          then Inl (Validation ''Prepared Receipt encrypted payload does not match plaintext Receipt'')
          else Inr ()))"

text \<open>
  \<^verbatim>\<open>store_prepared_receipt\<close>: the homeserver is the map from paths to documents, \<open>put_result\<close> the
  displayed error of the write, if it fails.
\<close>

definition store_prepared_receipt ::
  "ext \<Rightarrow> string option \<Rightarrow> PreparedReceipt \<Rightarrow> (string, string) hashmap \<Rightarrow> (string, string) hashmap \<times> unit res" where
  "store_prepared_receipt E put_error p homeserver =
     (case validate_prepared_receipt E p of
        Inl e \<Rightarrow> (homeserver, Inl e)
      | Inr _ \<Rightarrow>
          (case put_error of
             Some err \<Rightarrow> (homeserver, Inl (Transport ''failed to store encrypted receipt'' (AnyhowMsg err)))
           | None \<Rightarrow> (hm_insert (rac_location (prep_access p)) (prep_encrypted_receipt p) homeserver, Inr ())))"

definition access_to_wire :: "ReceiptAccess \<Rightarrow> ReceiptAccessWire" where
  "access_to_wire a =
     \<lparr>raw_version = rac_version a, raw_kind = kind_as_str (rac_kind a), raw_event_id = event_id_str (rac_event_id a),
      raw_receipt_id = receipt_id_str (rac_receipt_id a),
      raw_payment_reference = reference_str (rac_payment_reference a),
      raw_payment_request_id = map_option request_id_str (rac_payment_request_id a),
      raw_billing_period = map_option billing_to_wire (rac_billing_period a),
      raw_location = rac_location a, raw_key = decryption_key_str (rac_key a)\<rparr>"

definition ser_ReceiptAccessWire :: "ReceiptAccessWire \<Rightarrow> json" where
  "ser_ReceiptAccessWire w =
     JObj ([(''version'', JInt (uint (raw_version w))), (''kind'', JStr (raw_kind w)),
            (''event_id'', JStr (raw_event_id w)), (''receipt_id'', JStr (raw_receipt_id w)),
            (''payment_reference'', JStr (raw_payment_reference w))]
           @ ser_skip_none ''payment_request_id'' JStr (raw_payment_request_id w)
           @ ser_skip_none ''billing_period'' ser_BillingPeriodWire (raw_billing_period w)
           @ [(''location'', JStr (raw_location w)), (''key'', JStr (raw_key w))])"

definition serialize_receipt_access_json :: "ext \<Rightarrow> ReceiptAccess \<Rightarrow> string res" where
  "serialize_receipt_access_json E a =
     map_err (\<lambda>err. invalid_data (''failed to serialize Receipt Access JSON: '' @ err) (Some (AnyhowMsg err)))
       (json_to_string E (ser_ReceiptAccessWire (access_to_wire a)))"

text \<open>\<^verbatim>\<open>send_receipt_access\<close> up to the call of the link: the bytes handed to the link, or the error.\<close>

definition receipt_access_plaintext :: "ext \<Rightarrow> PaykitReceiverPath \<Rightarrow> ReceiptAccess \<Rightarrow> string res" where
  "receipt_access_plaintext E link_local_path a =
     rbind (receipt_access_validate E a) (\<lambda>_.
     if \<not> has_location_for_receiver a link_local_path
     then Inl (Validation (''Receipt Access location does not match Encrypted Link local receiver ''
            @ receiver_path_str link_local_path))
     else map_err (map_error ''send_receipt_access'') (serialize_receipt_access_json E a))"

section \<open>Encryption and decryption\<close>

lemma receipt_ser_not_null [simp]: "ser_PaymentAmountWire a \<noteq> JNull"
  by (simp add: ser_PaymentAmountWire_def)

lemma de_ser_encrypted [simp]: "de_EncryptedReceiptWire (ser_EncryptedReceiptWire w) = Some w"
  by (simp add: de_EncryptedReceiptWire_def ser_EncryptedReceiptWire_def field_def de_u8_of_word
      del: de_u8.simps)

lemma de_ser_receipt:
  assumes "wf_json_map (rcw_metadata w)"
  shows "de_ReceiptWire (ser_ReceiptWire w) = Some w"
proof -
  have "de_nullable de_string (ser_nullable JStr (rcw_payment_endpoint_identifier w)) = Some (rcw_payment_endpoint_identifier w)"
    "de_nullable de_PaymentAmountWire (ser_nullable ser_PaymentAmountWire (rcw_amount w)) = Some (rcw_amount w)"
    by (rule de_nullable_ser; simp)+
  then show ?thesis
    using de_json_map_wf [OF assms]
    by (cases "rcw_payment_request_id w"; cases "rcw_billing_period w")
       (simp_all add: de_ReceiptWire_def ser_ReceiptWire_def ser_skip_none_def field_def field_default_def
         field_option_def optional_no_null_def de_u8_of_word del: de_u8.simps de_json_map.simps)
qed

text \<open>The parts of a receipt are values of their constructors; the metadata is a JSON map.\<close>

definition receipt_wf :: "ext \<Rightarrow> Receipt \<Rightarrow> bool" where
  "receipt_wf E r \<longleftrightarrow>
     ReceiptId_new E (receipt_id_str (rc_receipt_id r)) = Inr (rc_receipt_id r)
     \<and> PaymentReference_new (reference_str (rc_payment_reference r)) = Inr (rc_payment_reference r)
     \<and> transpose_opt (map_option (\<lambda>i. PaymentRequestId_new E (request_id_str i)) (rc_payment_request_id r))
         = Inr (rc_payment_request_id r)
     \<and> transpose_opt (map_option (\<lambda>i. PaymentEndpointIdentifier_new (identifier_str i)) (rc_payment_endpoint_identifier r))
         = Inr (rc_payment_endpoint_identifier r)
     \<and> wf_json_map (rc_metadata r)"

definition receipt_amount_ok :: "Receipt \<Rightarrow> bool" where
  "receipt_amount_ok r \<longleftrightarrow> (case rc_amount r of None \<Rightarrow> True | Some a \<Rightarrow> amount_validate_with_label a ''Receipt amount'' = Inr ())"

lemma request_context_iff:
  "validate_request_context E rid period label = Inr () \<longleftrightarrow>
     (case period of None \<Rightarrow> True | Some p \<Rightarrow> rid \<noteq> None \<and> utc_before E (bp_starts_at p) (bp_ends_at p))"
  by (cases period) (auto simp: validate_request_context_def billing_validate_iff)

lemma receipt_wire_inverse:
  assumes "receipt_wf E r" and "public_key_roundtrip E" and "receipt_amount_ok r"
    and "validate_request_context E (rc_payment_request_id r) (rc_billing_period r) ''Receipt'' = Inr ()"
  shows "receipt_of_wire E (receipt_to_wire E r) = Inr r"
proof -
  have billing: "map_option (billing_of_wire \<circ> billing_to_wire) (rc_billing_period r) = rc_billing_period r"
    "map_option (amount_of_wire \<circ> amount_to_wire) (rc_amount r) = rc_amount r"
    by (simp_all add: comp_def option.map_ident)
  have period: "(case rc_billing_period r of None \<Rightarrow> Inr ()
      | Some p \<Rightarrow> receipt_field ''Billing Period'' (billing_validate_with_label E p ''Receipt Billing Period'')) = Inr ()"
    using assms(4) by (auto simp: request_context_iff receipt_field_def billing_validate_iff map_err_Inr_iff
        split: option.splits)
  have amount: "(case rc_amount r of None \<Rightarrow> Inr ()
      | Some a \<Rightarrow> receipt_field ''Payment Amount'' (amount_validate_with_label a ''Receipt amount'')) = Inr ()"
    using assms(3) by (auto simp: receipt_amount_ok_def receipt_field_def split: option.splits)
  show ?thesis
    using assms(1,2,4) period amount
    by (simp add: receipt_of_wire_def receipt_to_wire_def validate_wire_version_kind_str_def receipt_wf_def
        public_key_roundtrip_def option.map_comp billing Let_def comp_def [of _ request_id_str]
        comp_def [of _ identifier_str] receipt_field_def)
qed

lemma encrypt_decrypt:
  assumes "receipt_wf E r" and laws: "public_key_roundtrip E" "base64_roundtrip E" "aead_correct E" "json_prints_back E"
    and nonce: "length nonce = 24" and enc: "encrypt_for_location E nonce r key location = Inr s"
  shows "decrypt_receipt E s key location = Inr r"
proof -
  obtain kb plaintext ciphertext where
    ctx: "validate_request_context E (rc_payment_request_id r) (rc_billing_period r) ''Receipt'' = Inr ()"
    and amt: "receipt_amount_ok r" and loc: "location_matches_receipt_id location (rc_receipt_id r)"
    and kb: "key_bytes E key = Inr kb"
    and pt: "json_to_string E (ser_ReceiptWire (receipt_to_wire E r)) = Inr plaintext"
    and ct: "aead_encrypt E kb nonce plaintext (aad_for_location location) = Inr ciphertext"
    and doc: "json_to_string E (ser_EncryptedReceiptWire
          \<lparr>erw_version = 1, erw_kind = ''paykit.receipt.encrypted'', erw_algorithm = RECEIPT_ENCRYPTION_ALGORITHM,
           erw_nonce = base64url_encode E nonce, erw_ciphertext = base64url_encode E ciphertext\<rparr>) = Inr s"
    using enc by (auto simp: encrypt_for_location_def result_iffs receipt_amount_ok_def split: if_splits option.splits)
  have "struct_from_str E ''ReceiptWire'' de_ReceiptWire plaintext = Inr (receipt_to_wire E r)"
    using laws(4) pt assms(1) de_ser_receipt [of "receipt_to_wire E r"]
    by (auto simp: struct_from_str_Inr json_prints_back_def receipt_wf_def receipt_to_wire_def)
  moreover have "struct_from_str E ''EncryptedReceiptWire'' de_EncryptedReceiptWire s = Inr
      \<lparr>erw_version = 1, erw_kind = ''paykit.receipt.encrypted'', erw_algorithm = RECEIPT_ENCRYPTION_ALGORITHM,
       erw_nonce = base64url_encode E nonce, erw_ciphertext = base64url_encode E ciphertext\<rparr>"
    using laws(4) doc by (auto simp: struct_from_str_Inr json_prints_back_def)
  moreover have "aead_decrypt E kb nonce ciphertext (aad_for_location location) = Inr plaintext"
    using laws(3) ct by (auto simp: aead_correct_def)
  moreover have "receipt_of_wire E (receipt_to_wire E r) = Inr r"
    using receipt_wire_inverse assms(1) laws(1) amt ctx by blast
  ultimately show ?thesis
    using laws(2) nonce kb loc by (simp add: decrypt_receipt_def decode_part_def base64_roundtrip_def)
qed

text \<open>A decrypted receipt is valid and belongs to the location it was read from.\<close>

lemma decrypt_sound:
  assumes "decrypt_receipt E s key location = Inr r"
  shows "location_matches_receipt_id location (rc_receipt_id r)" and "receipt_amount_ok r"
    and "validate_request_context E (rc_payment_request_id r) (rc_billing_period r) ''Receipt'' = Inr ()"
proof -
  obtain w where w: "receipt_of_wire E w = Inr r" and loc: "location_matches_receipt_id location (rc_receipt_id r)"
    using assms by (auto simp: decrypt_receipt_def result_iffs split: if_splits)
  from w have "receipt_amount_ok r
      \<and> validate_request_context E (rc_payment_request_id r) (rc_billing_period r) ''Receipt'' = Inr ()"
    by (auto simp: receipt_of_wire_def result_iffs Let_def receipt_amount_ok_def receipt_field_def split: option.splits)
  with loc show "location_matches_receipt_id location (rc_receipt_id r)" "receipt_amount_ok r"
    "validate_request_context E (rc_payment_request_id r) (rc_billing_period r) ''Receipt'' = Inr ()" by simp_all
qed


text \<open>A receipt for an order, and the table of the two documents its preparation prints.\<close>

definition sample_draft :: ReceiptDraft where
  "sample_draft =
     \<lparr>rd_receipt_id = None, rd_payment_reference = PaymentReference ''order-7'', rd_payment_request_id = None,
      rd_billing_period = None, rd_payment_endpoint_identifier = None, rd_amount = None, rd_metadata = []\<rparr>"

definition sample_receipt :: Receipt where
  "sample_receipt =
     \<lparr>rc_receipt_id = ReceiptId sample_uuid, rc_payment_reference = PaymentReference ''order-7'',
      rc_payment_request_id = None, rc_billing_period = None, rc_recipient_public_key = PublicKey ''payer'',
      rc_payment_endpoint_identifier = None, rc_amount = None, rc_metadata = []\<rparr>"

definition sample_location :: string where
  "sample_location = receipt_location (PaykitReceiverPath ''bitkit/wallet'') (ReceiptId sample_uuid)"

definition sample_receipt_ext :: ext where
  "sample_receipt_ext = table_ext
     [(''plain'', ser_ReceiptWire (receipt_to_wire (table_ext []) sample_receipt)),
      (''envelope'', ser_EncryptedReceiptWire
         \<lparr>erw_version = 1, erw_kind = ''paykit.receipt.encrypted'', erw_algorithm = RECEIPT_ENCRYPTION_ALGORITHM,
          erw_nonce = replicate 24 CHR ''n'', erw_ciphertext = aad_for_location sample_location @ ''plain''\<rparr>)]"

lemma sample_location_matches: "location_matches_receipt_id sample_location (ReceiptId sample_uuid)"
  by code_simp

lemma sample_receipt_encrypted:
  "encrypt_for_location sample_receipt_ext (replicate 24 CHR ''n'') sample_receipt
     (ReceiptDecryptionKey_generate sample_receipt_ext (replicate 32 CHR ''k'')) sample_location = Inr ''envelope''"
proof -
  have display: "public_key_display sample_receipt_ext = public_key_display (table_ext [])"
    by (simp add: sample_receipt_ext_def table_ext_def)
  have wire: "receipt_to_wire sample_receipt_ext sample_receipt = receipt_to_wire (table_ext []) sample_receipt"
    by (simp add: receipt_to_wire_def display)
  have docs: "json_to_string sample_receipt_ext (ser_ReceiptWire (receipt_to_wire (table_ext []) sample_receipt)) = Inr ''plain''"
    "json_to_string sample_receipt_ext (ser_EncryptedReceiptWire
       \<lparr>erw_version = 1, erw_kind = ''paykit.receipt.encrypted'', erw_algorithm = RECEIPT_ENCRYPTION_ALGORITHM,
        erw_nonce = replicate 24 CHR ''n'', erw_ciphertext = aad_for_location sample_location @ ''plain''\<rparr>) = Inr ''envelope''"
    by (simp_all add: sample_receipt_ext_def table_ext_def ser_ReceiptWire_def ser_EncryptedReceiptWire_def
        ser_skip_none_def receipt_to_wire_def sample_receipt_def)
  have cipher: "aead_encrypt sample_receipt_ext kb n m a = Inr (a @ m)" "base64url_encode sample_receipt_ext x = x"
    "base64url_decode sample_receipt_ext x = Some x" for kb n m a x
    by (simp_all add: sample_receipt_ext_def table_ext_def)
  have parts: "rc_receipt_id sample_receipt = ReceiptId sample_uuid" "rc_payment_request_id sample_receipt = None"
    "rc_billing_period sample_receipt = None" "rc_amount sample_receipt = None"
    by (simp_all add: sample_receipt_def)
  have key: "key_bytes sample_receipt_ext (ReceiptDecryptionKey_generate sample_receipt_ext (replicate 32 CHR ''k''))
      = Inr (replicate 32 CHR ''k'')"
    by (simp add: key_bytes_def ReceiptDecryptionKey_generate_def cipher)
  show ?thesis
    unfolding encrypt_for_location_def wire parts key docs(1)
    by (simp add: sample_location_matches cipher docs(2) validate_request_context_def)
qed

lemma sample_receipt_id: "ReceiptId_new (table_ext tab) sample_uuid = Inr (ReceiptId sample_uuid)"
  unfolding ReceiptId_new_def validate_uuid_v4_def sample_uuid_read
  by (simp add: sample_uuid_v4 table_ext_def sample_uuid_def)

lemma sample_receipt_wf: "receipt_wf (table_ext tab) sample_receipt"
proof -
  have "PaymentReference_new ''order-7'' = Inr (PaymentReference ''order-7'')" by code_simp
  then show ?thesis
    by (simp add: receipt_wf_def sample_receipt_def transpose_opt_def sample_receipt_id wf_json_map_def)
qed


end
