(* ===== verification/Storage.thy ===== *)
theory Storage
  imports Storage_Records
begin

text \<open>
  The storage transaction of \<^verbatim>\<open>paykit-sdk/src/storage/in_memory.rs\<close> with the outbound queue policy
  of \<^verbatim>\<open>storage/queue.rs\<close> and the lease guard of \<^verbatim>\<open>storage/mod.rs\<close>: every operation as a function
  of the storage state. A transaction that fails leaves the state as it was
  (\<open>run_storage_state_transaction\<close>). The theory then gives the storage invariant and that every
  operation keeps it, and the tables' read-after-write laws through the keyed-table interface.
\<close>

section \<open>Transactions\<close>

text \<open>The callback mutates a copy of the state; the copy is installed only when it returns \<^verbatim>\<open>Ok\<close>.\<close>

type_synonym ('e, 'a) tx = "StorageState \<Rightarrow> 'e + StorageState \<times> 'a"

definition run_storage_state_transaction ::
  "StorageState \<Rightarrow> (sdk_error, 'a) tx \<Rightarrow> sdk_error + StorageState \<times> 'a" where
  "run_storage_state_transaction s f = rbind (f s) (\<lambda>(s', v). Inr (s', v))"

definition transaction :: "(sdk_error, 'a) tx \<Rightarrow> StorageState \<Rightarrow> StorageState \<times> 'a sdk_res" where
  "transaction f s =
     (case run_storage_state_transaction s f of Inl e \<Rightarrow> (s, Inl e) | Inr (s', v) \<Rightarrow> (s', Inr v))"

section \<open>Identity\<close>

definition load_identity_state :: "StorageState \<Rightarrow> IdentityState option" where
  "load_identity_state s = st_identity_state s"

definition save_identity_state :: "IdentityState \<Rightarrow> StorageState \<Rightarrow> StorageState" where
  "save_identity_state i s = s\<lparr>st_identity_state := Some i\<rparr>"

definition clear_private_identity_scoped_state :: "StorageState \<Rightarrow> StorageState" where
  "clear_private_identity_scoped_state s =
     s\<lparr>st_linked_peers := [], st_encrypted_link_states := [], st_peer_link_operation_leases := [],
       st_payment_endpoint_reservations := [], st_outbound_private_messages := [],
       st_private_stream_items := [], st_event_dedup_records := [], st_receipt_access_records := [],
       st_receipt_records := [], st_receipt_issuance_records := []\<rparr>"

definition clear_identity_scoped_state :: "StorageState \<Rightarrow> StorageState" where
  "clear_identity_scoped_state s =
     (clear_private_identity_scoped_state s)\<lparr>st_contact_records := [], st_public_endpoint_records := []\<rparr>"

section \<open>Keyed tables\<close>

definition lp_key :: "LinkedPeerRecord \<Rightarrow> peer_key" where
  "lp_key r = (lp_counterparty r, lp_path r)"

definition linked_peer :: "StorageState \<Rightarrow> peer_key \<Rightarrow> LinkedPeerRecord option" where
  "linked_peer s k = hm_get (st_linked_peers s) k"

definition save_linked_peer :: "LinkedPeerRecord \<Rightarrow> StorageState \<Rightarrow> StorageState" where
  "save_linked_peer r s = s\<lparr>st_linked_peers := hm_insert (lp_counterparty r, lp_path r) r (st_linked_peers s)\<rparr>"

definition contact_records :: "StorageState \<Rightarrow> ContactRecord list" where
  "contact_records s = sort_key (\<lambda>r. z32 (ct_public_key r)) (hm_values (st_contact_records s))"

definition contact_record :: "StorageState \<Rightarrow> PubkyPublicKey \<Rightarrow> ContactRecord option" where
  "contact_record s k = hm_get (st_contact_records s) k"

definition save_contact_record :: "ContactRecord \<Rightarrow> StorageState \<Rightarrow> StorageState" where
  "save_contact_record r s = s\<lparr>st_contact_records := hm_insert (ct_public_key r) r (st_contact_records s)\<rparr>"

definition remove_contact_record :: "PubkyPublicKey \<Rightarrow> StorageState \<Rightarrow> StorageState \<times> ContactRecord option" where
  "remove_contact_record k s =
     (s\<lparr>st_contact_records := hm_remove k (st_contact_records s)\<rparr>, hm_get (st_contact_records s) k)"

definition public_endpoint_records :: "StorageState \<Rightarrow> PublicEndpointRecord list" where
  "public_endpoint_records s = sort_key pe_identifier (hm_values (st_public_endpoint_records s))"

definition public_endpoint_record :: "StorageState \<Rightarrow> string \<Rightarrow> PublicEndpointRecord option" where
  "public_endpoint_record s k = hm_get (st_public_endpoint_records s) k"

definition save_public_endpoint_record :: "PublicEndpointRecord \<Rightarrow> StorageState \<Rightarrow> StorageState" where
  "save_public_endpoint_record r s =
     s\<lparr>st_public_endpoint_records := hm_insert (pe_identifier r) r (st_public_endpoint_records s)\<rparr>"

definition rv_key :: "PaymentEndpointReservationRecord \<Rightarrow> peer_item_key" where
  "rv_key r = (rv_counterparty r, rv_path r, rv_reservation_id r)"

definition payment_endpoint_reservations ::
  "StorageState \<Rightarrow> PubkyPublicKey \<Rightarrow> PaykitReceiverPath \<Rightarrow> PaymentEndpointReservationRecord list" where
  "payment_endpoint_reservations s cp rp =
     sort_key rv_created_at
       (filter (\<lambda>r. rv_counterparty r = cp \<and> rv_path r = rp) (hm_values (st_payment_endpoint_reservations s)))"

definition payment_endpoint_reservation ::
  "StorageState \<Rightarrow> peer_item_key \<Rightarrow> PaymentEndpointReservationRecord option" where
  "payment_endpoint_reservation s k = hm_get (st_payment_endpoint_reservations s) k"

definition save_payment_endpoint_reservation ::
  "PaymentEndpointReservationRecord \<Rightarrow> StorageState \<Rightarrow> StorageState" where
  "save_payment_endpoint_reservation r s =
     s\<lparr>st_payment_endpoint_reservations :=
         hm_insert (rv_counterparty r, rv_path r, rv_reservation_id r) r (st_payment_endpoint_reservations s)\<rparr>"

definition remove_payment_endpoint_reservation ::
  "peer_item_key \<Rightarrow> StorageState \<Rightarrow> StorageState \<times> PaymentEndpointReservationRecord option" where
  "remove_payment_endpoint_reservation k s =
     (s\<lparr>st_payment_endpoint_reservations := hm_remove k (st_payment_endpoint_reservations s)\<rparr>,
      hm_get (st_payment_endpoint_reservations s) k)"

definition ls_key :: "EncryptedLinkStateRecord \<Rightarrow> peer_key" where
  "ls_key r = (ls_counterparty r, ls_path r)"

definition encrypted_link_state :: "StorageState \<Rightarrow> peer_key \<Rightarrow> EncryptedLinkStateRecord option" where
  "encrypted_link_state s k = hm_get (st_encrypted_link_states s) k"

definition save_encrypted_link_state :: "EncryptedLinkStateRecord \<Rightarrow> StorageState \<Rightarrow> StorageState" where
  "save_encrypted_link_state r s =
     s\<lparr>st_encrypted_link_states := hm_insert (ls_counterparty r, ls_path r) r (st_encrypted_link_states s)\<rparr>"

section \<open>Leases\<close>

definition le_key :: "PeerLinkOperationLease \<Rightarrow> peer_key" where
  "le_key r = (le_counterparty r, le_path r)"

definition peer_link_operation_lease :: "StorageState \<Rightarrow> peer_key \<Rightarrow> PeerLinkOperationLease option" where
  "peer_link_operation_lease s k = hm_get (st_peer_link_operation_leases s) k"

text \<open>The lease counter is a \<^verbatim>\<open>u64\<close> incremented by one; a release build wraps.\<close>

definition claim_peer_link_operation ::
  "PubkyPublicKey \<Rightarrow> PaykitReceiverPath \<Rightarrow> instant \<Rightarrow> instant \<Rightarrow> StorageState
    \<Rightarrow> StorageState \<times> PeerLinkOperationLease option" where
  "claim_peer_link_operation cp rp now expires_at s =
     (if (case hm_get (st_peer_link_operation_leases s) (cp, rp) of
            Some existing \<Rightarrow> le_expires_at existing > now | None \<Rightarrow> False)
      then (s, None)
      else
        let lease = \<lparr>le_counterparty = cp, le_path = rp, le_lease_id = st_next_lease_id s,
                     le_claimed_at = now, le_expires_at = expires_at\<rparr>
        in (s\<lparr>st_next_lease_id := st_next_lease_id s + 1,
              st_peer_link_operation_leases := hm_insert (cp, rp) lease (st_peer_link_operation_leases s)\<rparr>,
            Some lease))"

definition release_peer_link_operation ::
  "PubkyPublicKey \<Rightarrow> PaykitReceiverPath \<Rightarrow> u64 \<Rightarrow> StorageState \<Rightarrow> StorageState" where
  "release_peer_link_operation cp rp lease_id s =
     (if (case hm_get (st_peer_link_operation_leases s) (cp, rp) of
            Some lease \<Rightarrow> le_lease_id lease = lease_id | None \<Rightarrow> False)
      then s\<lparr>st_peer_link_operation_leases := hm_remove (cp, rp) (st_peer_link_operation_leases s)\<rparr>
      else s)"

definition require_peer_link_operation_lease :: "StorageState \<Rightarrow> PeerLinkOperationLease \<Rightarrow> unit sdk_res" where
  "require_peer_link_operation_lease s lease =
     (let inactive = SdkPolicy (''peer link operation lease '' @ show_nat (unat (le_lease_id lease))
            @ '' is no longer active for counterparty '' @ z32 (le_counterparty lease)) None
      in case peer_link_operation_lease s (le_counterparty lease, le_path lease) of
           Some active \<Rightarrow> if le_lease_id active = le_lease_id lease then Inr () else Inl inactive
         | None \<Rightarrow> Inl inactive)"

section \<open>The outbound queue\<close>

definition insert_outbound_private_message ::
  "NewOutboundPrivateMessage \<Rightarrow> StorageState \<Rightarrow> StorageState \<times> OutboundPrivateMessageRecord" where
  "insert_outbound_private_message m s =
     (let record = outbound_from_new (st_next_outbound_id s) m
      in (s\<lparr>st_next_outbound_id := st_next_outbound_id s + 1,
            st_outbound_private_messages := st_outbound_private_messages s @ [record]\<rparr>, record))"

definition om_for :: "PubkyPublicKey \<Rightarrow> PaykitReceiverPath \<Rightarrow> OutboundPrivateMessageRecord \<Rightarrow> bool" where
  "om_for cp rp m \<longleftrightarrow> om_counterparty m = cp \<and> om_path m = rp"

definition queued_outbound_private_messages ::
  "StorageState \<Rightarrow> PubkyPublicKey \<Rightarrow> PaykitReceiverPath \<Rightarrow> OutboundPrivateMessageRecord list" where
  "queued_outbound_private_messages s cp rp =
     sort_key om_id (filter (\<lambda>m. om_for cp rp m \<and> om_status m \<in> {Pending, Sending, Failed})
       (st_outbound_private_messages s))"

definition outbound_private_messages ::
  "StorageState \<Rightarrow> PubkyPublicKey \<Rightarrow> PaykitReceiverPath \<Rightarrow> OutboundPrivateMessageRecord list" where
  "outbound_private_messages s cp rp = sort_key om_id (filter (om_for cp rp) (st_outbound_private_messages s))"

definition is_stale_sending_outbound_private_message :: "OutboundPrivateMessageRecord \<Rightarrow> instant \<Rightarrow> bool" where
  "is_stale_sending_outbound_private_message m stale_before \<longleftrightarrow>
     om_status m = Sending
     \<and> (case om_last_attempt_at m of None \<Rightarrow> True | Some t \<Rightarrow> t \<le> stale_before)"

definition is_claimable_outbound_private_message ::
  "OutboundPrivateMessageRecord \<Rightarrow> instant \<Rightarrow> instant \<Rightarrow> bool" where
  "is_claimable_outbound_private_message m stale_before failed_retry_after =
     (case om_status m of
        Pending \<Rightarrow> True
      | Failed \<Rightarrow> (case om_last_attempt_at m of None \<Rightarrow> True | Some t \<Rightarrow> t \<le> failed_retry_after)
      | Sending \<Rightarrow> is_stale_sending_outbound_private_message m stale_before
      | _ \<Rightarrow> False)"

text \<open>The status tests the queue code repeats, and the largest id of a list of messages.\<close>

definition om_retired :: "OutboundPrivateMessageRecord \<Rightarrow> bool" where
  "om_retired m \<longleftrightarrow> om_status m \<in> {Invalid, RecoveryRequired, Superseded}"

definition om_settled :: "OutboundPrivateMessageRecord \<Rightarrow> bool" where
  "om_settled m \<longleftrightarrow> om_status m \<in> {Sent, Invalid, RecoveryRequired, Superseded}"

definition is_private_list :: "OutboundPrivateMessageRecord \<Rightarrow> bool" where
  "is_private_list m \<longleftrightarrow> om_kind m = kind_as_str PrivatePaymentListKind"

definition max_id :: "OutboundPrivateMessageRecord list \<Rightarrow> u64 option" where
  "max_id ms = fold (\<lambda>m acc. Some (case acc of None \<Rightarrow> om_id m | Some i \<Rightarrow> max i (om_id m))) ms None"

definition supersedable :: "u64 \<Rightarrow> instant \<Rightarrow> instant \<Rightarrow> OutboundPrivateMessageRecord \<Rightarrow> bool" where
  "supersedable latest stale_before failed_retry_after m \<longleftrightarrow>
     is_private_list m \<and> om_id m < latest \<and> om_status m \<noteq> Sending
     \<and> is_claimable_outbound_private_message m stale_before failed_retry_after"

definition supersede_outdated_private_payment_lists ::
  "PubkyPublicKey \<Rightarrow> PaykitReceiverPath \<Rightarrow> instant \<Rightarrow> instant \<Rightarrow> instant \<Rightarrow> StorageState \<Rightarrow> StorageState" where
  "supersede_outdated_private_payment_lists cp rp now stale_before failed_retry_after s =
     (case max_id (filter (\<lambda>m. om_for cp rp m \<and> is_private_list m \<and> \<not> om_retired m)
             (st_outbound_private_messages s)) of
        None \<Rightarrow> s
      | Some latest \<Rightarrow>
          s\<lparr>st_outbound_private_messages :=
              map (\<lambda>m. if om_for cp rp m \<and> supersedable latest stale_before failed_retry_after m
                       then m\<lparr>om_status := Superseded, om_updated_at := now, om_last_error := None\<rparr> else m)
                (st_outbound_private_messages s)\<rparr>)"

fun queue_head_loop :: "u64 option \<Rightarrow> instant \<Rightarrow> instant \<Rightarrow> OutboundPrivateMessageRecord list \<Rightarrow> bool" where
  "queue_head_loop latest stale_before failed_retry_after [] = False"
| "queue_head_loop latest stale_before failed_retry_after (m # ms) =
     (if om_settled m then queue_head_loop latest stale_before failed_retry_after ms
      else if (case latest of None \<Rightarrow> False | Some l \<Rightarrow> supersedable l stale_before failed_retry_after m)
      then queue_head_loop latest stale_before failed_retry_after ms
      else is_claimable_outbound_private_message m stale_before failed_retry_after
           \<or> is_stale_sending_outbound_private_message m stale_before)"

definition outbound_private_queue_head_is_claimable ::
  "OutboundPrivateMessageRecord list \<Rightarrow> instant \<Rightarrow> instant \<Rightarrow> bool" where
  "outbound_private_queue_head_is_claimable ms stale_before failed_retry_after =
     queue_head_loop (max_id (filter (\<lambda>m. is_private_list m \<and> \<not> om_retired m) ms))
       stale_before failed_retry_after (sort_key om_id ms)"

definition claim_next_outbound_private_message ::
  "PubkyPublicKey \<Rightarrow> PaykitReceiverPath \<Rightarrow> instant \<Rightarrow> instant \<Rightarrow> instant \<Rightarrow> StorageState
    \<Rightarrow> StorageState \<times> OutboundPrivateMessageRecord option" where
  "claim_next_outbound_private_message cp rp now stale_before failed_retry_after s0 =
     (let s = supersede_outdated_private_payment_lists cp rp now stale_before failed_retry_after s0;
          indexes = sort_key snd (map (\<lambda>(i, m). (i, om_id m))
            (filter (\<lambda>(_, m). om_for cp rp m \<and> \<not> om_settled m)
              (List.enumerate 0 (st_outbound_private_messages s))))
      in case indexes of
           [] \<Rightarrow> (s, None)
         | (i, _) # _ \<Rightarrow>
             let m = st_outbound_private_messages s ! i in
             if \<not> is_claimable_outbound_private_message m stale_before failed_retry_after then (s, None)
             else
               let m' = m\<lparr>om_status := Sending, om_attempt_count := sat_inc (om_attempt_count m),
                          om_last_attempt_at := Some now, om_updated_at := now, om_last_error := None\<rparr>
               in (s\<lparr>st_outbound_private_messages := (st_outbound_private_messages s)[i := m']\<rparr>, Some m'))"

text \<open>\<^verbatim>\<open>iter_mut().find\<close>: the first record with the id is replaced.\<close>

fun replace_outbound ::
  "OutboundPrivateMessageRecord \<Rightarrow> OutboundPrivateMessageRecord list \<Rightarrow> OutboundPrivateMessageRecord list option" where
  "replace_outbound r [] = None"
| "replace_outbound r (m # ms) =
     (if om_id m = om_id r then Some (r # ms) else map_option ((#) m) (replace_outbound r ms))"

definition save_outbound_private_message ::
  "OutboundPrivateMessageRecord \<Rightarrow> (sdk_error, unit) tx" where
  "save_outbound_private_message r s =
     (case replace_outbound r (st_outbound_private_messages s) of
        Some ms \<Rightarrow> Inr (s\<lparr>st_outbound_private_messages := ms\<rparr>, ())
      | None \<Rightarrow> Inl (SdkStorage (''outbound private message '' @ show_nat (unat (om_id r)) @ '' does not exist'') None))"

section \<open>The private stream\<close>

definition allocate_receive_batch_id :: "StorageState \<Rightarrow> StorageState \<times> u64" where
  "allocate_receive_batch_id s =
     (s\<lparr>st_next_receive_batch_id := st_next_receive_batch_id s + 1\<rparr>, st_next_receive_batch_id s)"

definition insert_private_stream_item :: "NewPrivateStreamItem \<Rightarrow> StorageState \<Rightarrow> StorageState \<times> u64" where
  "insert_private_stream_item item s =
     (s\<lparr>st_next_stream_item_id := st_next_stream_item_id s + 1,
        st_private_stream_items :=
          st_private_stream_items s @ [stream_item_from_new (st_next_stream_item_id s) item]\<rparr>,
      st_next_stream_item_id s)"

definition private_stream_items ::
  "StorageState \<Rightarrow> PubkyPublicKey \<Rightarrow> PaykitReceiverPath \<Rightarrow> PrivateStreamItemRecord list" where
  "private_stream_items s cp rp =
     filter (\<lambda>i. si_counterparty i = cp \<and> si_path i = rp) (st_private_stream_items s)"

definition ed_key :: "EventDedupRecord \<Rightarrow> peer_item_key" where
  "ed_key r = (ed_counterparty r, ed_path r, ed_event_id r)"

definition event_dedup_record :: "StorageState \<Rightarrow> peer_item_key \<Rightarrow> EventDedupRecord option" where
  "event_dedup_record s k = hm_get (st_event_dedup_records s) k"

definition save_event_dedup_record :: "EventDedupRecord \<Rightarrow> StorageState \<Rightarrow> StorageState" where
  "save_event_dedup_record r s =
     s\<lparr>st_event_dedup_records :=
         hm_insert (ed_counterparty r, ed_path r, ed_event_id r) r (st_event_dedup_records s)\<rparr>"

section \<open>Receipts\<close>

definition ra_key :: "ReceiptAccessRecord \<Rightarrow> peer_item_key" where
  "ra_key r = (ra_counterparty r, ra_path r, ra_event_id r)"

definition save_receipt_access_record :: "ReceiptAccessRecord \<Rightarrow> StorageState \<Rightarrow> StorageState" where
  "save_receipt_access_record r s =
     s\<lparr>st_receipt_access_records :=
         hm_insert (ra_counterparty r, ra_path r, ra_event_id r) r (st_receipt_access_records s)\<rparr>"

definition receipt_access_record :: "StorageState \<Rightarrow> peer_item_key \<Rightarrow> ReceiptAccessRecord option" where
  "receipt_access_record s k = hm_get (st_receipt_access_records s) k"

definition receipt_access_records ::
  "StorageState \<Rightarrow> PubkyPublicKey \<Rightarrow> PaykitReceiverPath \<Rightarrow> ReceiptAccessRecord list" where
  "receipt_access_records s cp rp =
     sort_key ra_stream_item_id
       (filter (\<lambda>r. ra_counterparty r = cp \<and> ra_path r = rp) (hm_values (st_receipt_access_records s)))"

text \<open>\<^verbatim>\<open>max_by_key\<close>: the last of the records with the largest key.\<close>

definition max_by_stream_item :: "ReceiptAccessRecord list \<Rightarrow> ReceiptAccessRecord option" where
  "max_by_stream_item rs =
     fold (\<lambda>r acc. case acc of None \<Rightarrow> Some r
             | Some b \<Rightarrow> if ra_stream_item_id b \<le> ra_stream_item_id r then Some r else acc) rs None"

definition receipt_access_record_by_receipt_id ::
  "StorageState \<Rightarrow> PubkyPublicKey \<Rightarrow> PaykitReceiverPath \<Rightarrow> string \<Rightarrow> ReceiptAccessRecord option" where
  "receipt_access_record_by_receipt_id s cp rp receipt_id =
     max_by_stream_item
       (filter (\<lambda>r. ra_counterparty r = cp \<and> ra_path r = rp \<and> ra_receipt_id r = receipt_id)
         (hm_values (st_receipt_access_records s)))"

definition rr_key :: "ReceiptRecord \<Rightarrow> peer_item_key" where
  "rr_key r = (rr_issuer r, rr_issuer_path r, rr_receipt_id r)"

definition save_receipt_record :: "ReceiptRecord \<Rightarrow> StorageState \<Rightarrow> StorageState" where
  "save_receipt_record r s =
     s\<lparr>st_receipt_records := hm_insert (rr_issuer r, rr_issuer_path r, rr_receipt_id r) r (st_receipt_records s)\<rparr>"

definition receipt_record :: "StorageState \<Rightarrow> peer_item_key \<Rightarrow> ReceiptRecord option" where
  "receipt_record s k = hm_get (st_receipt_records s) k"

definition ri_key :: "ReceiptIssuanceRecord \<Rightarrow> peer_item_key" where
  "ri_key r = (ri_counterparty r, ri_path r, ri_receipt_id r)"

definition save_receipt_issuance_record :: "ReceiptIssuanceRecord \<Rightarrow> StorageState \<Rightarrow> StorageState" where
  "save_receipt_issuance_record r s =
     s\<lparr>st_receipt_issuance_records :=
         hm_insert (ri_counterparty r, ri_path r, ri_receipt_id r) r (st_receipt_issuance_records s)\<rparr>"

definition receipt_issuance_record :: "StorageState \<Rightarrow> peer_item_key \<Rightarrow> ReceiptIssuanceRecord option" where
  "receipt_issuance_record s k = hm_get (st_receipt_issuance_records s) k"

definition receipt_issuance_records ::
  "StorageState \<Rightarrow> PubkyPublicKey \<Rightarrow> PaykitReceiverPath \<Rightarrow> ReceiptIssuanceRecord list" where
  "receipt_issuance_records s cp rp =
     sort_key ri_created_at
       (filter (\<lambda>r. ri_counterparty r = cp \<and> ri_path r = rp) (hm_values (st_receipt_issuance_records s)))"

definition receipt_issuance_record_by_receipt_id :: "StorageState \<Rightarrow> string \<Rightarrow> ReceiptIssuanceRecord option" where
  "receipt_issuance_record_by_receipt_id s receipt_id =
     List.find (\<lambda>r. ri_receipt_id r = receipt_id) (hm_values (st_receipt_issuance_records s))"

section \<open>Tables are keyed by their records\<close>

lemmas table_op_defs = linked_peer_def save_linked_peer_def contact_record_def save_contact_record_def
  public_endpoint_record_def save_public_endpoint_record_def payment_endpoint_reservation_def
  save_payment_endpoint_reservation_def encrypted_link_state_def save_encrypted_link_state_def
  event_dedup_record_def save_event_dedup_record_def receipt_access_record_def
  save_receipt_access_record_def receipt_record_def save_receipt_record_def
  receipt_issuance_record_def save_receipt_issuance_record_def
lemmas table_key_defs = lp_key_def rv_key_def ls_key_def le_key_def ed_key_def ra_key_def rr_key_def ri_key_def

interpretation peers: keyed_table lp_key linked_peer save_linked_peer
  by unfold_locales (simp add: table_op_defs table_key_defs table_simps)

interpretation contacts: keyed_table ct_public_key contact_record save_contact_record
  by unfold_locales (simp add: table_op_defs table_simps)

interpretation endpoints: keyed_table pe_identifier public_endpoint_record save_public_endpoint_record
  by unfold_locales (simp add: table_op_defs table_simps)

interpretation reservations: keyed_table rv_key payment_endpoint_reservation save_payment_endpoint_reservation
  by unfold_locales (simp add: table_op_defs table_key_defs table_simps)

interpretation links: keyed_table ls_key encrypted_link_state save_encrypted_link_state
  by unfold_locales (simp add: table_op_defs table_key_defs table_simps)

interpretation dedups: keyed_table ed_key event_dedup_record save_event_dedup_record
  by unfold_locales (simp add: table_op_defs table_key_defs table_simps)

interpretation accesses: keyed_table ra_key receipt_access_record save_receipt_access_record
  by unfold_locales (simp add: table_op_defs table_key_defs table_simps)

interpretation receipts: keyed_table rr_key receipt_record save_receipt_record
  by unfold_locales (simp add: table_op_defs table_key_defs table_simps)

interpretation issuances: keyed_table ri_key receipt_issuance_record save_receipt_issuance_record
  by unfold_locales (simp add: table_op_defs table_key_defs table_simps)

text \<open>A transaction that succeeds installs what its callback returns.\<close>

lemma transaction_ok_iff: "transaction f s = (t, Inr r) \<longleftrightarrow> f s = Inr (t, r)"
  by (auto simp: transaction_def run_storage_state_transaction_def rbind_def split: sum.splits)

text \<open>Writes to one table leave the other tables as they were.\<close>

lemma table_frames [simp]:
  "encrypted_link_state (save_linked_peer r s) = encrypted_link_state s"
  "linked_peer (save_encrypted_link_state l s) = linked_peer s"
  "peer_link_operation_lease (save_linked_peer r s) = peer_link_operation_lease s"
  "peer_link_operation_lease (save_encrypted_link_state l s) = peer_link_operation_lease s"
  "event_dedup_record (save_receipt_access_record a s) = event_dedup_record s"
  "receipt_access_record (save_event_dedup_record d s) = receipt_access_record s"
  by (auto simp: table_op_defs peer_link_operation_lease_def fun_eq_iff)

lemma table_outbound_frames [simp]:
  "st_outbound_private_messages (save_linked_peer r s) = st_outbound_private_messages s"
  "st_outbound_private_messages (save_encrypted_link_state l s) = st_outbound_private_messages s"
  "st_private_stream_items (save_linked_peer r s) = st_private_stream_items s"
  "st_private_stream_items (save_encrypted_link_state l s) = st_private_stream_items s"
  "st_private_stream_items (save_event_dedup_record d s) = st_private_stream_items s"
  "st_private_stream_items (save_receipt_access_record a s) = st_private_stream_items s"
  by (simp_all add: table_op_defs)

section \<open>The storage invariant\<close>

text \<open>
  Every table is keyed by the key fields of its records; the outbound messages and the stream
  items are in strictly increasing id order below their counters; every active lease has an id
  below the lease counter.
\<close>

definition outbound_inv :: "StorageState \<Rightarrow> bool" where
  "outbound_inv s \<longleftrightarrow> sorted_wrt (<) (map om_id (st_outbound_private_messages s))
     \<and> list_all (\<lambda>m. om_id m < st_next_outbound_id s) (st_outbound_private_messages s)"

definition stream_inv :: "StorageState \<Rightarrow> bool" where
  "stream_inv s \<longleftrightarrow> sorted_wrt (<) (map si_id (st_private_stream_items s))
     \<and> list_all (\<lambda>i. si_id i < st_next_stream_item_id s) (st_private_stream_items s)"

definition lease_inv :: "StorageState \<Rightarrow> bool" where
  "lease_inv s \<longleftrightarrow> hm_wf le_key (st_peer_link_operation_leases s)
     \<and> list_all (\<lambda>(k, l). le_lease_id l < st_next_lease_id s) (st_peer_link_operation_leases s)"

definition tables_inv :: "StorageState \<Rightarrow> bool" where
  "tables_inv s \<longleftrightarrow> hm_wf lp_key (st_linked_peers s) \<and> hm_wf ct_public_key (st_contact_records s)
     \<and> hm_wf pe_identifier (st_public_endpoint_records s) \<and> hm_wf rv_key (st_payment_endpoint_reservations s)
     \<and> hm_wf ls_key (st_encrypted_link_states s) \<and> hm_wf ed_key (st_event_dedup_records s)
     \<and> hm_wf ra_key (st_receipt_access_records s) \<and> hm_wf rr_key (st_receipt_records s)
     \<and> hm_wf ri_key (st_receipt_issuance_records s)"

definition storage_inv :: "StorageState \<Rightarrow> bool" where
  "storage_inv s \<longleftrightarrow> tables_inv s \<and> lease_inv s \<and> outbound_inv s \<and> stream_inv s"

lemmas storage_inv_defs = storage_inv_def tables_inv_def lease_inv_def outbound_inv_def stream_inv_def

lemma tables_inv_saves:
  assumes "tables_inv s"
  shows "tables_inv (save_linked_peer a s)" "tables_inv (save_contact_record b s)"
    "tables_inv (save_public_endpoint_record c s)" "tables_inv (save_payment_endpoint_reservation d s)"
    "tables_inv (save_encrypted_link_state e s)" "tables_inv (save_event_dedup_record f s)"
    "tables_inv (save_receipt_access_record g s)" "tables_inv (save_receipt_record h s)"
    "tables_inv (save_receipt_issuance_record i s)"
  using assms hm_wf_insert [of lp_key _ a] hm_wf_insert [of ct_public_key _ b]
    hm_wf_insert [of pe_identifier _ c] hm_wf_insert [of rv_key _ d] hm_wf_insert [of ls_key _ e]
    hm_wf_insert [of ed_key _ f] hm_wf_insert [of ra_key _ g] hm_wf_insert [of rr_key _ h]
    hm_wf_insert [of ri_key _ i]
  by (simp_all add: tables_inv_def table_op_defs table_key_defs)

lemma lease_frame:
  "lease_inv (save_linked_peer a s) = lease_inv s" "lease_inv (save_contact_record b s) = lease_inv s"
  "lease_inv (save_public_endpoint_record c s) = lease_inv s"
  "lease_inv (save_payment_endpoint_reservation d s) = lease_inv s"
  "lease_inv (save_encrypted_link_state e s) = lease_inv s" "lease_inv (save_event_dedup_record f s) = lease_inv s"
  "lease_inv (save_receipt_access_record g s) = lease_inv s" "lease_inv (save_receipt_record h s) = lease_inv s"
  "lease_inv (save_receipt_issuance_record i s) = lease_inv s"
  by (simp_all add: lease_inv_def table_op_defs)

lemma outbound_stream_frame:
  "outbound_inv (save_linked_peer a s) \<and> stream_inv (save_linked_peer a s) \<longleftrightarrow> outbound_inv s \<and> stream_inv s"
  "outbound_inv (save_contact_record b s) \<and> stream_inv (save_contact_record b s) \<longleftrightarrow> outbound_inv s \<and> stream_inv s"
  "outbound_inv (save_public_endpoint_record c s) \<and> stream_inv (save_public_endpoint_record c s) \<longleftrightarrow> outbound_inv s \<and> stream_inv s"
  "outbound_inv (save_payment_endpoint_reservation d s) \<and> stream_inv (save_payment_endpoint_reservation d s) \<longleftrightarrow> outbound_inv s \<and> stream_inv s"
  "outbound_inv (save_encrypted_link_state e s) \<and> stream_inv (save_encrypted_link_state e s) \<longleftrightarrow> outbound_inv s \<and> stream_inv s"
  "outbound_inv (save_event_dedup_record f s) \<and> stream_inv (save_event_dedup_record f s) \<longleftrightarrow> outbound_inv s \<and> stream_inv s"
  "outbound_inv (save_receipt_access_record g s) \<and> stream_inv (save_receipt_access_record g s) \<longleftrightarrow> outbound_inv s \<and> stream_inv s"
  "outbound_inv (save_receipt_record h s) \<and> stream_inv (save_receipt_record h s) \<longleftrightarrow> outbound_inv s \<and> stream_inv s"
  "outbound_inv (save_receipt_issuance_record i s) \<and> stream_inv (save_receipt_issuance_record i s) \<longleftrightarrow> outbound_inv s \<and> stream_inv s"
  by (simp_all add: outbound_inv_def stream_inv_def table_op_defs)

lemma storage_inv_saves [intro]:
  "storage_inv s \<Longrightarrow> storage_inv (save_linked_peer a s)"
  "storage_inv s \<Longrightarrow> storage_inv (save_contact_record b s)"
  "storage_inv s \<Longrightarrow> storage_inv (save_public_endpoint_record c s)"
  "storage_inv s \<Longrightarrow> storage_inv (save_payment_endpoint_reservation d s)"
  "storage_inv s \<Longrightarrow> storage_inv (save_encrypted_link_state e s)"
  "storage_inv s \<Longrightarrow> storage_inv (save_event_dedup_record f s)"
  "storage_inv s \<Longrightarrow> storage_inv (save_receipt_access_record g s)"
  "storage_inv s \<Longrightarrow> storage_inv (save_receipt_record h s)"
  "storage_inv s \<Longrightarrow> storage_inv (save_receipt_issuance_record i s)"
  by (simp_all add: storage_inv_def tables_inv_saves lease_frame outbound_stream_frame)

lemma storage_inv_identity [intro]: "storage_inv s \<Longrightarrow> storage_inv (save_identity_state i s)"
  by (simp add: storage_inv_defs save_identity_state_def)

lemma storage_inv_clear [intro]:
  "storage_inv s \<Longrightarrow> storage_inv (clear_private_identity_scoped_state s)"
  "storage_inv s \<Longrightarrow> storage_inv (clear_identity_scoped_state s)"
  by (simp_all add: storage_inv_defs clear_private_identity_scoped_state_def clear_identity_scoped_state_def)

lemma storage_inv_removes [intro]:
  "storage_inv s \<Longrightarrow> storage_inv (fst (remove_contact_record k s))"
  "storage_inv s \<Longrightarrow> storage_inv (fst (remove_payment_endpoint_reservation k' s))"
  by (simp_all add: storage_inv_defs remove_contact_record_def remove_payment_endpoint_reservation_def hm_wf_remove)

section \<open>Leases\<close>

lemma list_all_update:
  "list_all (\<lambda>(k, v). P v) m \<Longrightarrow> P v \<Longrightarrow> list_all (\<lambda>(k, v). P v) (hm_insert k v m)"
  using set_update_subset [of k v m] by (force simp: list_all_iff)

lemma list_all_delete: "list_all Q m \<Longrightarrow> list_all Q (hm_remove k m)"
  by (auto simp: list_all_iff AList.delete_eq)

lemma storage_inv_claim_lease [intro]:
  assumes "storage_inv s" and "st_next_lease_id s \<noteq> - 1"
  shows "storage_inv (fst (claim_peer_link_operation cp rp now expires_at s))"
proof -
  let ?l = "\<lparr>le_counterparty = cp, le_path = rp, le_lease_id = st_next_lease_id s, le_claimed_at = now, le_expires_at = expires_at\<rparr>"
  have lt: "st_next_lease_id s < st_next_lease_id s + 1" using assms(2) by (rule word_lt_max)
  have wf: "hm_wf le_key (hm_insert (cp, rp) ?l (st_peer_link_operation_leases s))"
    using assms(1) hm_wf_insert [of le_key _ ?l] by (simp add: storage_inv_defs le_key_def)
  have "list_all (\<lambda>(k, l). le_lease_id l < st_next_lease_id s + 1) (st_peer_link_operation_leases s)"
    using assms(1) lt by (fastforce simp: storage_inv_defs list_all_iff)
  then have "list_all (\<lambda>(k, l). le_lease_id l < st_next_lease_id s + 1)
      (hm_insert (cp, rp) ?l (st_peer_link_operation_leases s))"
    using lt by (intro list_all_update) simp_all
  with wf assms(1) show ?thesis
    by (simp add: claim_peer_link_operation_def storage_inv_defs Let_def)
qed

lemma storage_inv_release [intro]:
  "storage_inv s \<Longrightarrow> storage_inv (release_peer_link_operation cp rp i s)"
  by (simp add: release_peer_link_operation_def storage_inv_defs hm_wf_remove list_all_delete)

lemma require_lease_iff:
  "require_peer_link_operation_lease s l = Inr () \<longleftrightarrow>
     (\<exists>a. peer_link_operation_lease s (le_key l) = Some a \<and> le_lease_id a = le_lease_id l)"
  by (auto simp: require_peer_link_operation_lease_def le_key_def Let_def split: option.splits)

lemma require_lease_error:
  "require_peer_link_operation_lease s l = Inl e \<Longrightarrow> \<exists>c. e = SdkPolicy c None"
  by (auto simp: require_peer_link_operation_lease_def Let_def split: option.splits if_splits)

lemma claim_lease_Some:
  "claim_peer_link_operation cp rp now ex s = (t, Some l) \<Longrightarrow>
   le_key l = (cp, rp) \<and> le_lease_id l = st_next_lease_id s \<and> le_expires_at l = ex
   \<and> peer_link_operation_lease t k = (if k = (cp, rp) then Some l else peer_link_operation_lease s k)
   \<and> (\<forall>a. peer_link_operation_lease s (cp, rp) = Some a \<longrightarrow> le_expires_at a \<le> now)"
  by (auto simp: claim_peer_link_operation_def Let_def le_key_def peer_link_operation_lease_def table_simps
      split: if_splits option.splits)

lemma claim_lease_None:
  "claim_peer_link_operation cp rp now ex s = (t, None) \<Longrightarrow>
   t = s \<and> (\<exists>a. peer_link_operation_lease s (cp, rp) = Some a \<and> now < le_expires_at a)"
  by (auto simp: claim_peer_link_operation_def Let_def peer_link_operation_lease_def
      split: if_splits option.splits)

lemma lease_id_below:
  "lease_inv s \<Longrightarrow> peer_link_operation_lease s k = Some l \<Longrightarrow> le_lease_id l < st_next_lease_id s"
  by (auto simp: lease_inv_def peer_link_operation_lease_def list_all_iff dest!: map_of_SomeD)

end
