(* ===== verification/Sdk_Config.thy ===== *)
theory Sdk_Config
  imports Storage_Records
begin

text \<open>
  The runtime configuration (\<^verbatim>\<open>paykit-sdk/src/config.rs\<close>): its policies, its validation and the
  public paths it derives, and the check that a session's capabilities cover the required ones
  (\<^verbatim>\<open>identity.rs\<close>). A \<^verbatim>\<open>std::time::Duration\<close> is its number of nanoseconds.
\<close>

section \<open>Configuration\<close>

definition DEFAULT_PROFILE_NAMESPACE :: string where
  "DEFAULT_PROFILE_NAMESPACE = ''paykit''"

datatype EndpointManagementScope = ManagedOnly | FullPaykitNamespace

datatype EncryptedLinkRecoveryMarkerPolicy = MarkersEnabled | MarkersDisabled

datatype PublicContactSharingPolicy = LocalOnly | ConfiguredPublicNamespace

record PaykitSdkConfig =
  cf_receiver_path :: PaykitReceiverPath
  cf_profile_namespace :: string
  cf_endpoint_management_scope :: EndpointManagementScope
  cf_encrypted_link_recovery_markers :: EncryptedLinkRecoveryMarkerPolicy
  cf_public_contact_sharing :: PublicContactSharingPolicy
  cf_peer_link_operation_lease_timeout :: nat
  cf_outbound_private_send_lease_timeout :: nat
  cf_outbound_private_retry_backoff :: nat

definition from_secs :: "nat \<Rightarrow> nat" where
  "from_secs n = n * 1000000000"

definition PaykitSdkConfig_new :: "PaykitReceiverPath \<Rightarrow> PaykitSdkConfig" where
  "PaykitSdkConfig_new rp =
     \<lparr>cf_receiver_path = rp, cf_profile_namespace = DEFAULT_PROFILE_NAMESPACE,
      cf_endpoint_management_scope = ManagedOnly, cf_encrypted_link_recovery_markers = MarkersEnabled,
      cf_public_contact_sharing = LocalOnly, cf_peer_link_operation_lease_timeout = from_secs 60,
      cf_outbound_private_send_lease_timeout = from_secs 60, cf_outbound_private_retry_backoff = from_secs 30\<rparr>"

definition namespace_char :: "nat \<Rightarrow> bool" where
  "namespace_char c \<longleftrightarrow> is_ascii_alphanumeric c \<or> c = 46 \<or> c = 45 \<or> c = 95"

definition validate_profile_namespace :: "string \<Rightarrow> unit sdk_res" where
  "validate_profile_namespace ns =
     (if ns = [] then Inl (SdkPolicy ''profile namespace must not be empty'' None)
      else if length ns > 128 then Inl (SdkPolicy ''profile namespace must not exceed 128 bytes'' None)
      else if starts_with ''.'' ns \<or> ends_with_char CHR ''.'' ns
      then Inl (SdkPolicy (''profile namespace must not start or end with '' @ quoted ''.'') None)
      else if ns = ''pubky.app''
      then Inl (SdkPolicy (''profile namespace '' @ quoted ''pubky.app'' @ '' is reserved for Pubky app data'') None)
      else if list_ex (\<lambda>c. \<not> namespace_char c) (rust_chars ns)
      then Inl (SdkPolicy (''profile namespace may only contain ASCII letters, digits, '' @ quoted ''.''
             @ '', '' @ quoted ''-'' @ '' and '' @ quoted ''_'') None)
      else Inr ())"

text \<open>\<open>from_std\<close> is \<^verbatim>\<open>chrono::Duration::from_std\<close>: the signed duration, or the displayed error.\<close>

definition validate_runtime_duration :: "(nat \<Rightarrow> string + int) \<Rightarrow> string \<Rightarrow> nat \<Rightarrow> unit sdk_res" where
  "validate_runtime_duration from_std label d =
     (if d = 0 then Inl (SdkPolicy (label @ '' must be greater than zero'') None)
      else rmap (\<lambda>_. ()) (map_err (\<lambda>err. SdkPolicy (label @ '' must fit SDK runtime duration: '' @ err) None) (from_std d)))"

definition config_validate :: "(nat \<Rightarrow> string + int) \<Rightarrow> PaykitSdkConfig \<Rightarrow> unit sdk_res" where
  "config_validate from_std c =
     rbind (validate_profile_namespace (cf_profile_namespace c)) (\<lambda>_.
     rbind (validate_runtime_duration from_std ''peer link operation lease timeout''
              (cf_peer_link_operation_lease_timeout c)) (\<lambda>_.
     rbind (validate_runtime_duration from_std ''outbound private send lease timeout''
              (cf_outbound_private_send_lease_timeout c)) (\<lambda>_.
     rbind (validate_runtime_duration from_std ''outbound private retry backoff''
              (cf_outbound_private_retry_backoff c)) (\<lambda>_. Inr ()))))"

section \<open>Paths\<close>

definition profile_receiver_path :: "PaykitSdkConfig \<Rightarrow> PaykitReceiverPath \<Rightarrow> string" where
  "profile_receiver_path c rp =
     (if cf_profile_namespace c = DEFAULT_PROFILE_NAMESPACE
      then PAYKIT_PATH_PREFIX @ ''/'' @ receiver_path_str rp
      else ''/pub/'' @ cf_profile_namespace c @ ''/'' @ receiver_path_str rp)"

definition paykit_profile_path_for_receiver :: "PaykitSdkConfig \<Rightarrow> PaykitReceiverPath \<Rightarrow> string" where
  "paykit_profile_path_for_receiver c rp = profile_receiver_path c rp @ ''/profile.json''"

definition paykit_profile_path :: "PaykitSdkConfig \<Rightarrow> string" where
  "paykit_profile_path c = paykit_profile_path_for_receiver c (cf_receiver_path c)"

definition paykit_profile_blob_path_prefix :: "PaykitSdkConfig \<Rightarrow> string" where
  "paykit_profile_blob_path_prefix c = profile_receiver_path c (cf_receiver_path c) @ ''/blobs/''"

definition public_contact_path_prefix :: "PaykitSdkConfig \<Rightarrow> string" where
  "public_contact_path_prefix c = profile_receiver_path c (cf_receiver_path c) @ ''/contacts/''"

definition public_contact_path :: "PaykitSdkConfig \<Rightarrow> PubkyPublicKey \<Rightarrow> PaykitReceiverPath \<Rightarrow> string" where
  "public_contact_path c pk rp =
     public_contact_path_prefix c @ z32 pk @ ''/'' @ receiver_path_str rp @ ''.json''"

definition required_session_capabilities :: "PaykitSdkConfig \<Rightarrow> string" where
  "required_session_capabilities c =
     (let rp = receiver_path_str (cf_receiver_path c);
          base = PAYKIT_PATH_PREFIX @ ''/'' @ rp @ ''/:rw,'' @ PAYKIT_PRIVATE_PATH_PREFIX @ ''/'' @ rp @ ''/:rw''
      in if cf_profile_namespace c = DEFAULT_PROFILE_NAMESPACE then base
         else base @ '',/pub/'' @ cf_profile_namespace c @ ''/'' @ rp @ ''/:rw'')"

definition config_receipt_path_prefix :: "PaykitSdkConfig \<Rightarrow> string" where
  "config_receipt_path_prefix c =
     PAYKIT_PRIVATE_PATH_PREFIX @ ''/'' @ receiver_path_str (cf_receiver_path c) @ ''/receipts''"

section \<open>Capabilities\<close>

text \<open>\<^verbatim>\<open>pubky::Capability\<close>: a scope and its actions.\<close>

record Capability =
  cap_scope :: string
  cap_actions :: "char list"

definition scope_covers :: "string \<Rightarrow> string \<Rightarrow> bool" where
  "scope_covers parent child \<longleftrightarrow>
     parent = child \<or> (ends_with_char CHR ''/'' parent \<and> starts_with parent child)"

definition capability_covers :: "Capability \<Rightarrow> Capability \<Rightarrow> bool" where
  "capability_covers actual required \<longleftrightarrow>
     scope_covers (cap_scope actual) (cap_scope required)
     \<and> list_all (\<lambda>a. a \<in> set (cap_actions actual)) (cap_actions required)"

text \<open>
  \<open>norm_caps\<close> is \<^verbatim>\<open>Capabilities::normalize\<close>, \<open>parse_cap\<close> and \<open>show_cap\<close> read and display one capability.
\<close>

definition parse_capabilities ::
  "(Capability list \<Rightarrow> Capability list) \<Rightarrow> (string \<Rightarrow> string + Capability) \<Rightarrow> string \<Rightarrow> Capability list sdk_res" where
  "parse_capabilities norm_caps parse_cap text =
     rbind (rmap_list (\<lambda>entry.
              if entry = [] then Inl (SdkProtocol ''Pubky capabilities must not contain empty entries'' None)
              else map_err (\<lambda>err. SdkProtocol (''invalid Pubky capability: '' @ err) None) (parse_cap entry))
            (map trim (split_on CHR '','' text))) (\<lambda>capabilities.
     if capabilities = [] then Inl (SdkProtocol ''Pubky capabilities must contain at least one valid entry'' None)
     else Inr (norm_caps capabilities))"

definition validate_session_capabilities ::
  "(Capability list \<Rightarrow> Capability list) \<Rightarrow> (string \<Rightarrow> string + Capability) \<Rightarrow> (Capability \<Rightarrow> string) \<Rightarrow>
   Capability list \<Rightarrow> string \<Rightarrow> unit sdk_res" where
  "validate_session_capabilities norm_caps parse_cap show_cap actual required_text =
     rbind (parse_capabilities norm_caps parse_cap required_text) (\<lambda>required.
     let missing = map show_cap (filter (\<lambda>r. \<not> list_ex (\<lambda>a. capability_covers a r) (norm_caps actual)) required)
     in if missing = [] then Inr ()
        else Inl (SdkIdentity (''Pubky session is missing required Paykit capabilities: ''
               @ concat (case missing of [] \<Rightarrow> [] | m # ms \<Rightarrow> m # map (\<lambda>x. '','' @ x) ms)) None))"

lemma scope_covers_trans:
  "scope_covers a b \<Longrightarrow> scope_covers b c \<Longrightarrow> scope_covers a c"
proof -
  assume ab: "scope_covers a b" and bc: "scope_covers b c"
  have "starts_with a c" if "starts_with a b" "starts_with b c"
  proof -
    have "length a \<le> length b" using that(1) by (metis starts_with_def length_take min.bounded_iff order_refl)
    then have "take (length a) c = take (length a) (take (length b) c)" by (simp add: min_absorb1)
    with that show ?thesis by (simp add: starts_with_def)
  qed
  with ab bc show ?thesis by (auto simp: scope_covers_def)
qed

lemma capability_covers_trans:
  "capability_covers a b \<Longrightarrow> capability_covers b c \<Longrightarrow> capability_covers a c"
  by (auto simp: capability_covers_def list_all_iff intro: scope_covers_trans)

lemma capabilities_accepted_iff:
  "validate_session_capabilities norm_caps parse_cap show_cap actual text = Inr () \<longleftrightarrow>
     (\<exists>required. parse_capabilities norm_caps parse_cap text = Inr required \<and> (\<forall>r \<in> set required. \<exists>a \<in> set (norm_caps actual). capability_covers a r))"
  by (auto simp: validate_session_capabilities_def rbind_Inr_iff Let_def filter_empty_conv list_ex_iff)

end
