(* ===== verification/Contacts.thy ===== *)
theory Contacts
  imports Storage Private_Messages Sdk_Config
begin

text \<open>
  Contacts, profiles and their public markers (\<^verbatim>\<open>paykit-sdk/src/domain/contacts/mod.rs\<close>,
  \<^verbatim>\<open>runtime/contacts.rs\<close>): field bounds of profiles and contact updates, the profile documents,
  blob paths, the contact record with the publication state of its public marker, and the runtime
  operations. An operation that writes to the homeserver between two storage transactions is given
  both as its single transactions, which other operations may interleave, and composed, with the
  result of the homeserver call as an argument.
\<close>

section \<open>Field bounds\<close>

definition MAX_DISPLAY_NAME_CHARS :: nat where "MAX_DISPLAY_NAME_CHARS = 128"

definition MAX_IMAGE_URI_CHARS :: nat where "MAX_IMAGE_URI_CHARS = 2048"

definition MAX_PROFILE_EXTRA_BYTES :: nat where "MAX_PROFILE_EXTRA_BYTES = 16 * 1024"

definition MAX_PAYKIT_BLOB_NAME_BYTES :: nat where "MAX_PAYKIT_BLOB_NAME_BYTES = 128"

definition MAX_LOCAL_LABEL_CHARS :: nat where "MAX_LOCAL_LABEL_CHARS = 128"

definition MAX_PUBKY_PROFILE_NAME_CHARS :: nat where "MAX_PUBKY_PROFILE_NAME_CHARS = 128"

definition MAX_PUBKY_PROFILE_TEXT_CHARS :: nat where "MAX_PUBKY_PROFILE_TEXT_CHARS = 4096"

definition MAX_PUBKY_PROFILE_URI_CHARS :: nat where "MAX_PUBKY_PROFILE_URI_CHARS = 2048"

definition MAX_PUBKY_PROFILE_LINKS :: nat where "MAX_PUBKY_PROFILE_LINKS = 32"

definition protocol_error :: "string \<Rightarrow> sdk_error" where
  "protocol_error ctx = SdkProtocol ctx None"

definition validate_optional_text :: "string option \<Rightarrow> string \<Rightarrow> nat \<Rightarrow> bool \<Rightarrow> unit sdk_res" where
  "validate_optional_text value label max_chars allow_empty =
     (case value of
        None \<Rightarrow> Inr ()
      | Some v \<Rightarrow>
          if \<not> allow_empty \<and> trim v = [] then Inl (protocol_error (label @ '' must not be empty''))
          else if length (rust_chars v) > max_chars
          then Inl (protocol_error (label @ '' must not exceed '' @ show_nat max_chars @ '' characters''))
          else if list_ex is_control (rust_chars v)
          then Inl (protocol_error (label @ '' must not contain control characters''))
          else Inr ())"

definition contact_validate_text :: "string \<Rightarrow> string \<Rightarrow> nat \<Rightarrow> bool \<Rightarrow> unit sdk_res" where
  "contact_validate_text v label max_chars allow_empty = validate_optional_text (Some v) label max_chars allow_empty"

section \<open>Profiles\<close>

definition paykit_profile_validate :: "ext \<Rightarrow> PaykitProfile \<Rightarrow> unit sdk_res" where
  "paykit_profile_validate E p =
     rbind (validate_optional_text (pf_display_name p) ''profile display name'' MAX_DISPLAY_NAME_CHARS False) (\<lambda>_.
     rbind (validate_optional_text (pf_image_uri p) ''profile image URI'' MAX_IMAGE_URI_CHARS False) (\<lambda>_.
     case pf_extra p of
       None \<Rightarrow> Inr ()
     | Some extra \<Rightarrow>
         rbind (map_err (\<lambda>err. protocol_error (''profile extra must be valid JSON: '' @ err))
                  (json_to_string E (JObj extra))) (\<lambda>extra_json.
         if length extra_json > MAX_PROFILE_EXTRA_BYTES
         then Inl (protocol_error (''profile extra must not exceed '' @ show_nat MAX_PROFILE_EXTRA_BYTES @ '' bytes''))
         else Inr ())))"

record PubkyProfileLink =
  pl_title :: string
  pl_url :: string

record PubkyProfile =
  pp_name :: string
  pp_bio :: "string option"
  pp_image :: "string option"
  pp_links :: "PubkyProfileLink list option"
  pp_status :: "string option"

definition profile_link_validate :: "PubkyProfileLink \<Rightarrow> unit sdk_res" where
  "profile_link_validate l =
     rbind (contact_validate_text (pl_title l) ''Pubky profile link title'' MAX_PUBKY_PROFILE_NAME_CHARS True) (\<lambda>_.
     contact_validate_text (pl_url l) ''Pubky profile link URL'' MAX_PUBKY_PROFILE_URI_CHARS False)"

definition validate_bio :: "PubkyProfile \<Rightarrow> unit sdk_res" where
  "validate_bio p = validate_optional_text (pp_bio p) ''Pubky profile bio'' MAX_PUBKY_PROFILE_TEXT_CHARS True"

definition validate_image :: "PubkyProfile \<Rightarrow> unit sdk_res" where
  "validate_image p = validate_optional_text (pp_image p) ''Pubky profile image'' MAX_PUBKY_PROFILE_URI_CHARS False"

definition validate_status_text :: "PubkyProfile \<Rightarrow> unit sdk_res" where
  "validate_status_text p = validate_optional_text (pp_status p) ''Pubky profile status'' MAX_PUBKY_PROFILE_TEXT_CHARS True"

definition pubky_profile_validate :: "PubkyProfile \<Rightarrow> unit sdk_res" where
  "pubky_profile_validate p =
     rbind (contact_validate_text (pp_name p) ''Pubky profile name'' MAX_PUBKY_PROFILE_NAME_CHARS False) (\<lambda>_.
     rbind (validate_bio p) (\<lambda>_.
     rbind (validate_image p) (\<lambda>_.
     rbind (validate_status_text p) (\<lambda>_.
     case pp_links p of
       None \<Rightarrow> Inr ()
     | Some links \<Rightarrow>
         if length links > MAX_PUBKY_PROFILE_LINKS
         then Inl (protocol_error (''Pubky profile links must not exceed '' @ show_nat MAX_PUBKY_PROFILE_LINKS @ '' entries''))
         else rmap (\<lambda>_. ()) (rmap_list profile_link_validate links)))))"

definition drop_invalid_optional_fields :: "PubkyProfile \<Rightarrow> PubkyProfile" where
  "drop_invalid_optional_fields p =
     (let p1 = (if is_ok (validate_bio p) then p else p\<lparr>pp_bio := None\<rparr>);
          p2 = (if is_ok (validate_image p1) then p1 else p1\<lparr>pp_image := None\<rparr>);
          p3 = (if is_ok (validate_status_text p2) then p2 else p2\<lparr>pp_status := None\<rparr>)
      in case pp_links p3 of
           None \<Rightarrow> p3
         | Some links \<Rightarrow>
             let valid_links = filter (\<lambda>l. is_ok (profile_link_validate l)) (take MAX_PUBKY_PROFILE_LINKS links)
             in p3\<lparr>pp_links := if valid_links = [] then None else Some valid_links\<rparr>)"

definition de_PubkyProfileLink :: "json \<Rightarrow> PubkyProfileLink option" where
  "de_PubkyProfileLink j =
     Option.bind (struct_fields_open [''title'', ''url''] j) (\<lambda>kvs.
     Option.bind (field ''title'' de_string kvs) (\<lambda>title.
     Option.bind (field ''url'' de_string kvs) (\<lambda>url.
     Some \<lparr>pl_title = title, pl_url = url\<rparr>)))"

fun de_link_list :: "json \<Rightarrow> PubkyProfileLink list option" where
  "de_link_list (JArr xs) = omap_list de_PubkyProfileLink xs"
| "de_link_list _ = None"

definition de_PubkyProfile :: "json \<Rightarrow> PubkyProfile option" where
  "de_PubkyProfile j =
     Option.bind (struct_fields_open [''name'', ''bio'', ''image'', ''links'', ''status''] j) (\<lambda>kvs.
     Option.bind (field ''name'' de_string kvs) (\<lambda>name.
     Option.bind (field_option ''bio'' de_string kvs) (\<lambda>bio.
     Option.bind (field_option ''image'' de_string kvs) (\<lambda>image.
     Option.bind (field_option ''links'' de_link_list kvs) (\<lambda>links.
     Option.bind (field_option ''status'' de_string kvs) (\<lambda>status.
     Some \<lparr>pp_name = name, pp_bio = bio, pp_image = image, pp_links = links, pp_status = status\<rparr>))))))"

definition parse_pubky_profile_json :: "ext \<Rightarrow> string \<Rightarrow> PubkyProfile sdk_res" where
  "parse_pubky_profile_json E raw =
     rbind (map_err (\<lambda>err. protocol_error (''invalid Pubky profile JSON: '' @ err))
              (struct_from_str E ''PubkyProfile'' de_PubkyProfile raw)) (\<lambda>profile.
     let p = drop_invalid_optional_fields profile in
     rbind (pubky_profile_validate p) (\<lambda>_. Inr p))"

text \<open>
  \<^verbatim>\<open>PaykitProfileDocument\<close>: the profile is flattened into the document, so the document is read as
  an object and its other members are ignored.
\<close>

record PaykitProfileDocument =
  pd_version :: u32
  pd_kind :: string
  pd_profile :: PaykitProfile

fun de_PaykitProfileDocument :: "json \<Rightarrow> PaykitProfileDocument option" where
  "de_PaykitProfileDocument (JObj kvs) =
     Option.bind (struct_fields_open [''version'', ''kind'', ''display_name'', ''image_uri'', ''extra''] (JObj kvs)) (\<lambda>kvs.
     Option.bind (field ''version'' de_u32 kvs) (\<lambda>version.
     Option.bind (field ''kind'' de_string kvs) (\<lambda>kind.
     Option.bind (field_option ''display_name'' de_string kvs) (\<lambda>name.
     Option.bind (field_option ''image_uri'' de_string kvs) (\<lambda>image.
     Option.bind (field_option ''extra'' de_json_map kvs) (\<lambda>extra.
     Some \<lparr>pd_version = version, pd_kind = kind,
           pd_profile = \<lparr>pf_display_name = name, pf_image_uri = image, pf_extra = extra\<rparr>\<rparr>))))))"
| "de_PaykitProfileDocument _ = None"

definition ser_PaykitProfileDocument :: "PaykitProfileDocument \<Rightarrow> json" where
  "ser_PaykitProfileDocument d =
     JObj [(''version'', JInt (uint (pd_version d))), (''kind'', JStr (pd_kind d)),
           (''display_name'', ser_nullable JStr (pf_display_name (pd_profile d))),
           (''image_uri'', ser_nullable JStr (pf_image_uri (pd_profile d))),
           (''extra'', ser_nullable JObj (pf_extra (pd_profile d)))]"

definition profile_json :: "ext \<Rightarrow> PaykitProfile \<Rightarrow> string sdk_res" where
  "profile_json E p =
     rbind (paykit_profile_validate E p) (\<lambda>_.
     map_err (\<lambda>err. protocol_error (''failed to serialize Paykit profile: '' @ err))
       (json_to_string E (ser_PaykitProfileDocument \<lparr>pd_version = 1, pd_kind = ''paykit.profile'', pd_profile = p\<rparr>)))"

definition parse_profile_json :: "ext \<Rightarrow> string \<Rightarrow> PaykitProfile sdk_res" where
  "parse_profile_json E raw =
     rbind (map_err (\<lambda>err. protocol_error (''invalid Paykit profile JSON: '' @ err))
              (struct_from_str E ''PaykitProfileDocument'' de_PaykitProfileDocument raw)) (\<lambda>d.
     if pd_version d \<noteq> 1
     then Inl (protocol_error (''unsupported Paykit profile version '' @ show_nat (unat (pd_version d))))
     else if pd_kind d \<noteq> ''paykit.profile''
     then Inl (protocol_error (''unexpected Paykit profile kind '' @ quoted (pd_kind d)))
     else rbind (paykit_profile_validate E (pd_profile d)) (\<lambda>_. Inr (pd_profile d)))"

section \<open>Blob paths\<close>

definition blob_char :: "nat \<Rightarrow> bool" where
  "blob_char c \<longleftrightarrow> is_ascii_alphanumeric c \<or> c = 46 \<or> c = 45 \<or> c = 95"

definition validate_paykit_blob_name :: "string \<Rightarrow> unit sdk_res" where
  "validate_paykit_blob_name name =
     (if name = [] then Inl (protocol_error ''Paykit blob name must not be empty'')
      else if length name > MAX_PAYKIT_BLOB_NAME_BYTES
      then Inl (protocol_error (''Paykit blob name must not exceed '' @ show_nat MAX_PAYKIT_BLOB_NAME_BYTES @ '' bytes''))
      else if name = ''.'' \<or> name = ''..''
      then Inl (protocol_error ''Paykit blob name must not be a path traversal segment'')
      else if list_ex (\<lambda>c. \<not> blob_char c) (rust_chars name)
      then Inl (protocol_error (''Paykit blob name may only contain ASCII letters, digits, '' @ quoted ''.''
                  @ '', '' @ quoted ''-'' @ '' and '' @ quoted ''_''))
      else Inr ())"

definition paykit_blob_path :: "string \<Rightarrow> string \<Rightarrow> string sdk_res" where
  "paykit_blob_path prefix name = rbind (validate_paykit_blob_name name) (\<lambda>_. Inr (prefix @ name))"

definition paykit_blob_uri :: "PubkyPublicKey \<Rightarrow> string \<Rightarrow> string" where
  "paykit_blob_uri pk path = ''pubky://'' @ z32 pk @ path"

definition validate_paykit_blob_path :: "string \<Rightarrow> string \<Rightarrow> string sdk_res" where
  "validate_paykit_blob_path prefix path =
     (case strip_prefix prefix path of
        None \<Rightarrow> Inl (protocol_error ''Paykit blob path is outside configured blob prefix'')
      | Some name \<Rightarrow> rbind (validate_paykit_blob_name name) (\<lambda>_. Inr path))"

text \<open>\<open>parse_resource\<close> is \<^verbatim>\<open>pubky::PubkyResource::from_str\<close>: the owner and the path, or the displayed error.\<close>

definition paykit_blob_path_from_uri_or_path ::
  "ext \<Rightarrow> (string \<Rightarrow> string + PublicKey \<times> string) \<Rightarrow> PubkyPublicKey \<Rightarrow> string \<Rightarrow> string \<Rightarrow> string sdk_res" where
  "paykit_blob_path_from_uri_or_path E parse_resource pk prefix s =
     (if starts_with ''pubky://'' s \<or> starts_with ''pubky'' s
      then rbind (map_err (\<lambda>err. protocol_error (''invalid Pubky blob URI: '' @ err)) (parse_resource s)) (\<lambda>(owner, path).
           if PubkyPublicKey (public_key_z32 E owner) \<noteq> pk
           then Inl (protocol_error ''Paykit blob URI owner does not match local identity'')
           else validate_paykit_blob_path prefix path)
      else validate_paykit_blob_path prefix s)"

definition PUBKY_FOLLOWS_PATH_PREFIX :: string where
  "PUBKY_FOLLOWS_PATH_PREFIX = ''/pub/pubky.app/follows/''"

definition direct_pubky_follow_key :: "string \<Rightarrow> string option" where
  "direct_pubky_follow_key path =
     (case strip_prefix PUBKY_FOLLOWS_PATH_PREFIX path of
        None \<Rightarrow> None
      | Some v \<Rightarrow> if v = [] \<or> CHR ''/'' \<in> set v then None else Some v)"

definition PubkyPublicKey_new :: "ext \<Rightarrow> string \<Rightarrow> PubkyPublicKey sdk_res" where
  "PubkyPublicKey_new E s =
     rmap (\<lambda>k. PubkyPublicKey (public_key_z32 E k))
       (map_err (\<lambda>err. SdkIdentity ''invalid Pubky public key'' (Some (AnyhowMsg err))) (public_key_from_z32 E s))"

definition pubky_follow_keys_from_follow_entries :: "ext \<Rightarrow> string list \<Rightarrow> PubkyPublicKey list" where
  "pubky_follow_keys_from_follow_entries E paths =
     remdups_adj (sort_key z32 (List.map_filter
       (\<lambda>path. Option.bind (direct_pubky_follow_key path) (\<lambda>v. ok_of (PubkyPublicKey_new E v))) paths))"

section \<open>Contact records\<close>

record ContactUpdate =
  cu_public_key :: PubkyPublicKey
  cu_receiver_paths :: "PaykitReceiverPath list"
  cu_label :: "string option"

definition normalized_receiver_paths :: "PaykitReceiverPath list \<Rightarrow> PaykitReceiverPath list" where
  "normalized_receiver_paths ps = remdups_adj (sort_key receiver_path_str ps)"

definition validate_receiver_paths :: "PaykitReceiverPath list \<Rightarrow> unit sdk_res" where
  "validate_receiver_paths ps =
     (if ps = [] then Inl (protocol_error ''contact receiver paths must not be empty'')
      else if length (remdups_adj (sort_key receiver_path_str ps)) \<noteq> length ps
      then Inl (protocol_error ''contact receiver paths must not contain duplicates'')
      else Inr ())"

definition contact_update_validate :: "ContactUpdate \<Rightarrow> unit sdk_res" where
  "contact_update_validate u =
     rbind (validate_receiver_paths (cu_receiver_paths u)) (\<lambda>_.
     validate_optional_text (cu_label u) ''contact label'' MAX_LOCAL_LABEL_CHARS True)"

definition normalize_label :: "string option \<Rightarrow> string option" where
  "normalize_label label = Option.bind label (\<lambda>l. let t = trim l in if t = [] then None else Some t)"

definition contact_from_update :: "ContactUpdate \<Rightarrow> ContactRecord option \<Rightarrow> instant \<Rightarrow> ContactRecord" where
  "contact_from_update u existing now =
     (let label = normalize_label (cu_label u); paths = normalized_receiver_paths (cu_receiver_paths u)
      in case existing of
           Some r \<Rightarrow> r\<lparr>ct_receiver_paths := paths, ct_label := label, ct_updated_at := now\<rparr>
         | None \<Rightarrow>
             \<lparr>ct_public_key = cu_public_key u, ct_receiver_paths = paths, ct_label = label, ct_profile = None,
              ct_profile_fetched_at = None, ct_created_at = now, ct_updated_at = now,
              ct_public_contact_marker_status = NotPublished, ct_public_contact_marker_receiver_path = None,
              ct_public_contact_published_at = None, ct_public_contact_removed_at = None,
              ct_public_contact_last_error = None\<rparr>)"

definition contact_with_profile :: "ContactRecord \<Rightarrow> PaykitProfile option \<Rightarrow> instant \<Rightarrow> ContactRecord" where
  "contact_with_profile r profile fetched_at =
     r\<lparr>ct_profile := profile, ct_profile_fetched_at := Some fetched_at, ct_updated_at := fetched_at\<rparr>"

definition mark_public_contact_publication_pending ::
  "ContactRecord \<Rightarrow> PaykitReceiverPath \<Rightarrow> instant \<Rightarrow> ContactRecord" where
  "mark_public_contact_publication_pending r rp at =
     r\<lparr>ct_public_contact_marker_status := PendingPublication, ct_public_contact_marker_receiver_path := Some rp,
       ct_public_contact_last_error := None, ct_updated_at := at\<rparr>"

definition mark_public_contact_published :: "ContactRecord \<Rightarrow> instant \<Rightarrow> ContactRecord" where
  "mark_public_contact_published r at =
     r\<lparr>ct_public_contact_marker_status := Published, ct_public_contact_published_at := Some at,
       ct_public_contact_removed_at := None, ct_public_contact_last_error := None, ct_updated_at := at\<rparr>"

definition mark_public_contact_removal_pending ::
  "ContactRecord \<Rightarrow> PaykitReceiverPath \<Rightarrow> instant \<Rightarrow> ContactRecord" where
  "mark_public_contact_removal_pending r rp at =
     r\<lparr>ct_public_contact_marker_status := PendingRemoval, ct_public_contact_marker_receiver_path := Some rp,
       ct_public_contact_last_error := None, ct_updated_at := at\<rparr>"

definition mark_public_contact_removed :: "ContactRecord \<Rightarrow> instant \<Rightarrow> ContactRecord" where
  "mark_public_contact_removed r at =
     r\<lparr>ct_public_contact_marker_status := Removed, ct_public_contact_marker_receiver_path := None,
       ct_public_contact_published_at := None, ct_public_contact_removed_at := Some at,
       ct_public_contact_last_error := None, ct_updated_at := at\<rparr>"

definition mark_public_contact_failed :: "ContactRecord \<Rightarrow> string \<Rightarrow> instant \<Rightarrow> ContactRecord" where
  "mark_public_contact_failed r err at =
     r\<lparr>ct_public_contact_marker_status := PublicationFailed, ct_public_contact_last_error := Some err,
       ct_updated_at := at\<rparr>"

definition can_remove_locally :: "ContactRecord \<Rightarrow> bool" where
  "can_remove_locally r \<longleftrightarrow> ct_public_contact_marker_status r = NotPublished
     \<or> ct_public_contact_marker_status r = Removed"

definition may_have_public_marker :: "ContactRecord \<Rightarrow> bool" where
  "may_have_public_marker r \<longleftrightarrow>
     ct_public_contact_marker_status r \<in> {PendingPublication, PendingRemoval, Published}
     \<or> (ct_public_contact_published_at r \<noteq> None \<and> ct_public_contact_removed_at r = None)"

definition contains_receiver_path :: "ContactRecord \<Rightarrow> PaykitReceiverPath \<Rightarrow> bool" where
  "contains_receiver_path r rp \<longleftrightarrow> rp \<in> set (ct_receiver_paths r)"

definition public_contact_json :: "ext \<Rightarrow> PubkyPublicKey \<Rightarrow> PaykitReceiverPath \<Rightarrow> string sdk_res" where
  "public_contact_json E pk rp =
     map_err (\<lambda>err. protocol_error (''failed to serialize Paykit public contact: '' @ err))
       (json_to_string E (JObj [(''version'', JInt 1), (''kind'', JStr ''paykit.contact''),
          (''public_key'', JStr (z32 pk)), (''receiver_path'', JStr (receiver_path_str rp))]))"

section \<open>Runtime operations\<close>

text \<open>\<^verbatim>\<open>require_initialized_identity\<close>.\<close>

definition require_initialized_identity :: "string \<Rightarrow> StorageState \<Rightarrow> PubkyPublicKey sdk_res" where
  "require_initialized_identity what s =
     (case Option.bind (load_identity_state s) id_public_key of
        None \<Rightarrow> Inl (SdkIdentity (''cannot '' @ what @ '' without an initialized Pubky identity'') None)
      | Some pk \<Rightarrow> Inr pk)"

definition save_contact_tx :: "ContactUpdate \<Rightarrow> instant \<Rightarrow> (sdk_error, ContactRecord) tx" where
  "save_contact_tx u now s =
     (let existing = contact_record s (cu_public_key u)
      in rbind (case existing of
                  None \<Rightarrow> Inr ()
                | Some r \<Rightarrow>
                    (case ct_public_contact_marker_receiver_path r of
                       None \<Rightarrow> Inr ()
                     | Some marker \<Rightarrow>
                         if may_have_public_marker r \<and> marker \<notin> set (cu_receiver_paths u)
                         then Inl (SdkPolicy (''remove public contact marker before removing contact receiver ''
                                @ z32 (ct_public_key r) @ ''/'' @ receiver_path_str marker) None)
                         else Inr ())) (\<lambda>_.
         let record = contact_from_update u existing now in Inr (save_contact_record record s, record)))"

definition save_contact :: "ContactUpdate \<Rightarrow> instant \<Rightarrow> StorageState \<Rightarrow> StorageState \<times> ContactRecord sdk_res" where
  "save_contact u now s =
     (case rbind (contact_update_validate u) (\<lambda>_. require_initialized_identity ''save contact'' s) of
        Inl e \<Rightarrow> (s, Inl e)
      | Inr local \<Rightarrow>
          if cu_public_key u = local
          then (s, Inl (SdkPolicy ''cannot save the local Paykit identity as a contact'' None))
          else transaction (save_contact_tx u now) s)"

definition remove_contact_tx :: "PubkyPublicKey \<Rightarrow> (sdk_error, ContactRecord option) tx" where
  "remove_contact_tx pk s =
     (case contact_record s pk of
        None \<Rightarrow> Inr (s, None)
      | Some existing \<Rightarrow>
          if \<not> can_remove_locally existing
          then Inl (SdkPolicy (''remove public contact marker before deleting contact '' @ z32 pk) None)
          else Inr (remove_contact_record pk s))"

definition remove_contact :: "PubkyPublicKey \<Rightarrow> StorageState \<Rightarrow> StorageState \<times> ContactRecord option sdk_res" where
  "remove_contact pk s =
     (case require_initialized_identity ''remove contact'' s of
        Inl e \<Rightarrow> (s, Inl e)
      | Inr _ \<Rightarrow> transaction (remove_contact_tx pk) s)"

text \<open>The transaction of \<^verbatim>\<open>refresh_contact_paykit_profile\<close> on the fetched profile.\<close>

definition refresh_contact_tx ::
  "PubkyPublicKey \<Rightarrow> PaykitReceiverPath \<Rightarrow> PaykitProfile option \<Rightarrow> instant \<Rightarrow> (sdk_error, ContactRecord option) tx" where
  "refresh_contact_tx pk rp fetched now s =
     (case contact_record s pk of
        None \<Rightarrow> Inr (s, None)
      | Some existing \<Rightarrow>
          if \<not> contains_receiver_path existing rp then Inr (s, None)
          else let record = contact_with_profile existing fetched now
               in Inr (save_contact_record record s, Some record))"

definition publication_pending_tx :: "PubkyPublicKey \<Rightarrow> PaykitReceiverPath \<Rightarrow> instant \<Rightarrow> (sdk_error, unit) tx" where
  "publication_pending_tx pk rp at s =
     (case contact_record s pk of
        None \<Rightarrow> Inl (protocol_error (''cannot publish unsaved contact '' @ z32 pk))
      | Some existing \<Rightarrow>
          if \<not> contains_receiver_path existing rp
          then Inl (protocol_error (''cannot publish unsaved contact receiver '' @ z32 pk @ ''/'' @ receiver_path_str rp))
          else Inr (save_contact_record (mark_public_contact_publication_pending existing rp at) s, ()))"

definition publication_recorded_tx :: "PubkyPublicKey \<Rightarrow> instant \<Rightarrow> (sdk_error, ContactRecord) tx" where
  "publication_recorded_tx pk now s =
     (case contact_record s pk of
        None \<Rightarrow> Inl (protocol_error (''contact '' @ z32 pk @ '' disappeared before public publication was recorded''))
      | Some existing \<Rightarrow>
          let record = mark_public_contact_published existing now
          in Inr (save_contact_record record s, record))"

definition removal_pending_tx :: "PubkyPublicKey \<Rightarrow> PaykitReceiverPath \<Rightarrow> instant \<Rightarrow> (sdk_error, unit) tx" where
  "removal_pending_tx pk rp at s =
     (case contact_record s pk of
        None \<Rightarrow> Inr (s, ())
      | Some existing \<Rightarrow> Inr (save_contact_record (mark_public_contact_removal_pending existing rp at) s, ()))"

definition removal_recorded_tx :: "PubkyPublicKey \<Rightarrow> instant \<Rightarrow> (sdk_error, ContactRecord option) tx" where
  "removal_recorded_tx pk now s =
     (case contact_record s pk of
        None \<Rightarrow> Inr (s, None)
      | Some existing \<Rightarrow>
          let record = mark_public_contact_removed existing now
          in Inr (save_contact_record record s, Some record))"

definition marker_failed_tx :: "PubkyPublicKey \<Rightarrow> string \<Rightarrow> instant \<Rightarrow> (sdk_error, unit) tx" where
  "marker_failed_tx pk err at s =
     (case contact_record s pk of
        None \<Rightarrow> Inr (s, ())
      | Some existing \<Rightarrow> Inr (save_contact_record (mark_public_contact_failed existing err at) s, ()))"

definition marker_receiver_path :: "ContactRecord \<Rightarrow> PaykitReceiverPath sdk_res" where
  "marker_receiver_path r =
     (case ct_public_contact_marker_receiver_path r of
        None \<Rightarrow> Inl (protocol_error (''contact '' @ z32 (ct_public_key r) @ '' has no receiver path for public contact marker''))
      | Some rp \<Rightarrow> Inr rp)"

text \<open>
  The composed operations. \<open>session\<close> is the result of loading the session of the initialised
  identity, \<open>put\<close> and \<open>delete\<close> the homeserver calls: the mapped error, if any, and for \<open>delete\<close>
  whether the error says that nothing was there. \<open>clock\<close> gives the time of each reading.
\<close>

definition publish_public_contact ::
  "ext \<Rightarrow> PaykitSdkConfig \<Rightarrow> unit sdk_res \<Rightarrow> (string \<Rightarrow> string \<Rightarrow> sdk_error option) \<Rightarrow> (nat \<Rightarrow> instant) \<Rightarrow>
   PubkyPublicKey \<Rightarrow> PaykitReceiverPath \<Rightarrow> StorageState \<Rightarrow> StorageState \<times> ContactRecord sdk_res" where
  "publish_public_contact E cfg session put clock pk rp s =
     (if cf_public_contact_sharing cfg \<noteq> ConfiguredPublicNamespace
      then (s, Inl (SdkPolicy ''public contact sharing is disabled'' None))
      else case session of
        Inl e \<Rightarrow> (s, Inl e)
      | Inr _ \<Rightarrow>
          (case transaction (publication_pending_tx pk rp (clock 0)) s of
             (s1, Inl e) \<Rightarrow> (s1, Inl e)
           | (s1, Inr _) \<Rightarrow>
               (case public_contact_json E pk rp of
                  Inl e \<Rightarrow> (s1, Inl e)
                | Inr doc \<Rightarrow>
                    (case put (public_contact_path cfg pk rp) doc of
                       Some err \<Rightarrow>
                         (case transaction (marker_failed_tx pk (sdk_error_display err) (clock 1)) s1 of
                            (s2, Inl e) \<Rightarrow> (s2, Inl e)
                          | (s2, Inr _) \<Rightarrow> (s2, Inl err))
                     | None \<Rightarrow> transaction (publication_recorded_tx pk (clock 1)) s1))))"

text \<open>The first phase of \<^verbatim>\<open>remove_public_contact\<close>: the tracked marker is marked as pending removal.\<close>

definition begin_marker_removal ::
  "(nat \<Rightarrow> instant) \<Rightarrow> PubkyPublicKey \<Rightarrow> PaykitReceiverPath \<Rightarrow> StorageState \<Rightarrow> StorageState \<times> unit sdk_res" where
  "begin_marker_removal clock pk rp s =
     (case contact_record s pk of
        None \<Rightarrow> (s, Inr ())
      | Some r \<Rightarrow>
          if \<not> may_have_public_marker r then (s, Inr ())
          else (case marker_receiver_path r of
                  Inl e \<Rightarrow> (s, Inl e)
                | Inr marker \<Rightarrow>
                    if marker \<noteq> rp
                    then (s, Inl (SdkPolicy (''public contact marker for '' @ z32 pk @ '' is tracked under ''
                           @ receiver_path_str marker) None))
                    else transaction (removal_pending_tx pk rp (clock 0)) s))"

definition remove_public_contact ::
  "PaykitSdkConfig \<Rightarrow> unit sdk_res \<Rightarrow> (string \<Rightarrow> (sdk_error \<times> bool) option) \<Rightarrow> (nat \<Rightarrow> instant) \<Rightarrow>
   PubkyPublicKey \<Rightarrow> PaykitReceiverPath \<Rightarrow> StorageState \<Rightarrow> StorageState \<times> ContactRecord option sdk_res" where
  "remove_public_contact cfg session delete clock pk rp s =
     (let existing_record = contact_record s pk
      in case session of
        Inl e \<Rightarrow> (s, Inl e)
      | Inr _ \<Rightarrow>
          case begin_marker_removal clock pk rp s of
               (s1, Inl e) \<Rightarrow> (s1, Inl e)
             | (s1, Inr _) \<Rightarrow>
                 (case delete (public_contact_path cfg pk rp) of
                    Some (err, False) \<Rightarrow>
                      (case transaction (marker_failed_tx pk (sdk_error_display err) (clock 1)) s1 of
                         (s2, Inl e) \<Rightarrow> (s2, Inl e)
                       | (s2, Inr _) \<Rightarrow> (s2, Inl err))
                  | _ \<Rightarrow>
                      if existing_record = None then (s1, Inr None)
                      else transaction (removal_recorded_tx pk (clock 1)) s1))"

text \<open>
  \<^verbatim>\<open>sync_public_contact_markers\<close>: pending removals first, then pending publications, each in key
  order; the first error stops. \<open>clock k\<close> is the clock of the \<open>k\<close>-th record.
\<close>

definition pending_markers :: "StorageState \<Rightarrow> ContactRecord list" where
  "pending_markers s =
     sort_key (\<lambda>r. (if ct_public_contact_marker_status r = PendingRemoval then 0
                    else if ct_public_contact_marker_status r = PendingPublication then 1 else 2 :: nat))
       (filter (\<lambda>r. ct_public_contact_marker_status r \<in> {PendingPublication, PendingRemoval}) (contact_records s))"

definition sync_marker ::
  "ext \<Rightarrow> PaykitSdkConfig \<Rightarrow> unit sdk_res \<Rightarrow> (string \<Rightarrow> string \<Rightarrow> sdk_error option) \<Rightarrow>
   (string \<Rightarrow> (sdk_error \<times> bool) option) \<Rightarrow> (nat \<Rightarrow> instant) \<Rightarrow> ContactRecord \<Rightarrow> StorageState \<Rightarrow>
   StorageState \<times> ContactRecord option sdk_res" where
  "sync_marker E cfg session put delete clock r s =
     (case ct_public_contact_marker_status r of
        PendingPublication \<Rightarrow>
          (case marker_receiver_path r of
             Inl e \<Rightarrow> (s, Inl e)
           | Inr rp \<Rightarrow>
               if cf_public_contact_sharing cfg = ConfiguredPublicNamespace
               then (case publish_public_contact E cfg session put clock (ct_public_key r) rp s of
                       (t, res) \<Rightarrow> (t, rmap Some res))
               else (case transaction (marker_failed_tx (ct_public_key r) ''public contact sharing is disabled'' (clock 0)) s of
                       (t, res) \<Rightarrow> (t, rmap (\<lambda>_. None) res)))
      | PendingRemoval \<Rightarrow>
          (case marker_receiver_path r of
             Inl e \<Rightarrow> (s, Inl e)
           | Inr rp \<Rightarrow> remove_public_contact cfg session delete clock (ct_public_key r) rp s)
      | _ \<Rightarrow> (s, Inr None))"

fun sync_markers_loop ::
  "ext \<Rightarrow> PaykitSdkConfig \<Rightarrow> unit sdk_res \<Rightarrow> (string \<Rightarrow> string \<Rightarrow> sdk_error option) \<Rightarrow>
   (string \<Rightarrow> (sdk_error \<times> bool) option) \<Rightarrow> (nat \<Rightarrow> nat \<Rightarrow> instant) \<Rightarrow> nat \<Rightarrow> ContactRecord list \<Rightarrow> StorageState \<Rightarrow>
   StorageState \<times> ContactRecord list sdk_res" where
  "sync_markers_loop E cfg session put delete clock k [] s = (s, Inr [])"
| "sync_markers_loop E cfg session put delete clock k (r # rs) s =
     (case sync_marker E cfg session put delete (clock k) r s of
        (t, Inl e) \<Rightarrow> (t, Inl e)
      | (t, Inr res) \<Rightarrow>
          (case sync_markers_loop E cfg session put delete clock (Suc k) rs t of
             (u, Inl e) \<Rightarrow> (u, Inl e)
           | (u, Inr synced) \<Rightarrow> (u, Inr (case res of None \<Rightarrow> synced | Some x \<Rightarrow> x # synced))))"

definition sync_public_contact_markers ::
  "ext \<Rightarrow> PaykitSdkConfig \<Rightarrow> unit sdk_res \<Rightarrow> (string \<Rightarrow> string \<Rightarrow> sdk_error option) \<Rightarrow>
   (string \<Rightarrow> (sdk_error \<times> bool) option) \<Rightarrow> (nat \<Rightarrow> nat \<Rightarrow> instant) \<Rightarrow> StorageState \<Rightarrow>
   StorageState \<times> ContactRecord list sdk_res" where
  "sync_public_contact_markers E cfg session put delete clock s =
     sync_markers_loop E cfg session put delete clock 0 (pending_markers s) s"

section \<open>Coherence of public markers\<close>

text \<open>
  Every transaction of the contact operations as one step, so that the transactions of different
  operations may interleave in any order.
\<close>

inductive contact_step :: "StorageState \<Rightarrow> StorageState \<Rightarrow> bool" where
  save: "save_contact_tx u now s = Inr (t, r) \<Longrightarrow> contact_step s t"
| remove: "remove_contact_tx pk s = Inr (t, res) \<Longrightarrow> contact_step s t"
| refresh: "refresh_contact_tx pk rp fetched now s = Inr (t, res) \<Longrightarrow> contact_step s t"
| publication_pending: "publication_pending_tx pk rp at s = Inr (t, res1) \<Longrightarrow> contact_step s t"
| publication_recorded: "publication_recorded_tx pk now s = Inr (t, r) \<Longrightarrow> contact_step s t"
| removal_pending: "removal_pending_tx pk rp at s = Inr (t, res1) \<Longrightarrow> contact_step s t"
| removal_recorded: "removal_recorded_tx pk now s = Inr (t, res) \<Longrightarrow> contact_step s t"
| marker_failed: "marker_failed_tx pk err at s = Inr (t, res1) \<Longrightarrow> contact_step s t"

text \<open>
  What the status of a marker says about the record: never both a publication and a removal time;
  an error exactly with a failure; no marker path, time or error before the first publication; a
  publication time once published; after a removal its time and neither path nor publication time;
  a path while an operation is pending.
\<close>

definition marker_coherent :: "ContactRecord \<Rightarrow> bool" where
  "marker_coherent r \<longleftrightarrow>
     \<not> (ct_public_contact_published_at r \<noteq> None \<and> ct_public_contact_removed_at r \<noteq> None)
     \<and> (ct_public_contact_last_error r \<noteq> None \<longleftrightarrow> ct_public_contact_marker_status r = PublicationFailed)
     \<and> (case ct_public_contact_marker_status r of
          NotPublished \<Rightarrow> ct_public_contact_published_at r = None \<and> ct_public_contact_removed_at r = None
            \<and> ct_public_contact_marker_receiver_path r = None
        | PendingPublication \<Rightarrow> ct_public_contact_marker_receiver_path r \<noteq> None
        | Published \<Rightarrow> ct_public_contact_published_at r \<noteq> None
        | PendingRemoval \<Rightarrow> ct_public_contact_marker_receiver_path r \<noteq> None
        | Removed \<Rightarrow> ct_public_contact_removed_at r \<noteq> None \<and> ct_public_contact_marker_receiver_path r = None
        | PublicationFailed \<Rightarrow> True)"

definition contacts_coherent :: "StorageState \<Rightarrow> bool" where
  "contacts_coherent s \<longleftrightarrow> (\<forall>k r. contact_record s k = Some r \<longrightarrow> marker_coherent r)"

lemmas contact_change_defs = contact_with_profile_def mark_public_contact_publication_pending_def
  mark_public_contact_published_def mark_public_contact_removal_pending_def
  mark_public_contact_removed_def mark_public_contact_failed_def

lemma marker_coherent_changes:
  "marker_coherent r \<Longrightarrow> marker_coherent (contact_with_profile r p at)"
  "marker_coherent r \<Longrightarrow> marker_coherent (mark_public_contact_publication_pending r rp at)"
  "marker_coherent r \<Longrightarrow> marker_coherent (mark_public_contact_published r at)"
  "marker_coherent r \<Longrightarrow> marker_coherent (mark_public_contact_removal_pending r rp at)"
  "marker_coherent r \<Longrightarrow> marker_coherent (mark_public_contact_removed r at)"
  "marker_coherent r \<Longrightarrow> marker_coherent (mark_public_contact_failed r err at)"
  by (auto simp: marker_coherent_def contact_change_defs split: PublicationStatus.splits)

lemma marker_coherent_update:
  "(\<And>r. existing = Some r \<Longrightarrow> marker_coherent r) \<Longrightarrow> marker_coherent (contact_from_update u existing now)"
  by (cases existing) (auto simp: contact_from_update_def marker_coherent_def Let_def split: PublicationStatus.splits)

lemma contacts_coherent_save:
  "contacts_coherent s \<Longrightarrow> marker_coherent r \<Longrightarrow> contacts_coherent (save_contact_record r s)"
  by (auto simp: contacts_coherent_def contacts.load_save split: if_splits)

lemma contacts_coherent_remove:
  "contacts_coherent s \<Longrightarrow> contacts_coherent (fst (remove_contact_record pk s))"
  by (auto simp: contacts_coherent_def remove_contact_record_def contact_record_def table_simps split: if_splits)

lemmas contact_tx_defs = save_contact_tx_def remove_contact_tx_def refresh_contact_tx_def
  publication_pending_tx_def publication_recorded_tx_def removal_pending_tx_def removal_recorded_tx_def
  marker_failed_tx_def

lemma contacts_coherent_get: "contacts_coherent s \<Longrightarrow> contact_record s k = Some r \<Longrightarrow> marker_coherent r"
  by (simp add: contacts_coherent_def)

lemma contact_step_coherent: "contact_step s t \<Longrightarrow> contacts_coherent s \<Longrightarrow> contacts_coherent t"
proof (induction rule: contact_step.induct)
  case (save u now s t r)
  then have "t = save_contact_record (contact_from_update u (contact_record s (cu_public_key u)) now) s"
    by (auto simp: save_contact_tx_def Let_def rbind_Inr_iff)
  with save.prems show ?case
    by (auto intro: contacts_coherent_save marker_coherent_update contacts_coherent_get)
next
  case (remove pk s t res)
  then show ?case
    using contacts_coherent_remove [of s pk]
    by (auto simp: remove_contact_tx_def split: option.splits if_splits)
next
  case (refresh pk rp fetched now s t res)
  then show ?case
    by (auto simp: refresh_contact_tx_def Let_def split: option.splits if_splits
        intro: contacts_coherent_save marker_coherent_changes contacts_coherent_get)
next
  case (publication_pending pk rp at s t res1)
  then show ?case
    by (auto simp: publication_pending_tx_def split: option.splits if_splits
        intro: contacts_coherent_save marker_coherent_changes contacts_coherent_get)
next
  case (publication_recorded pk now s t r)
  then show ?case
    by (auto simp: publication_recorded_tx_def Let_def split: option.splits
        intro: contacts_coherent_save marker_coherent_changes contacts_coherent_get)
next
  case (removal_pending pk rp at s t res1)
  then show ?case
    by (auto simp: removal_pending_tx_def split: option.splits
        intro: contacts_coherent_save marker_coherent_changes contacts_coherent_get)
next
  case (removal_recorded pk now s t res)
  then show ?case
    by (auto simp: removal_recorded_tx_def Let_def split: option.splits
        intro: contacts_coherent_save marker_coherent_changes contacts_coherent_get)
next
  case (marker_failed pk err at s t res1)
  then show ?case
    by (auto simp: marker_failed_tx_def split: option.splits
        intro: contacts_coherent_save marker_coherent_changes contacts_coherent_get)
qed

interpretation contact_system: invariant_system "\<lambda>s. st_contact_records s = []" contact_step contacts_coherent
proof unfold_locales
  show "contacts_coherent s" if "st_contact_records s = []" for s
    using that by (simp add: contacts_coherent_def contact_record_def)
qed (rule contact_step_coherent)

text \<open>A transaction takes at most one step, so the composed operations run in the step relation.\<close>

lemma transaction_contact_step:
  "(\<And>t r. f s = Inr (t, r) \<Longrightarrow> contact_step s t) \<Longrightarrow> transaction f s = (t, res) \<Longrightarrow> contact_step\<^sup>*\<^sup>* s t"
  by (auto simp: transaction_def run_storage_state_transaction_def rbind_def split: sum.splits prod.splits)

lemmas contact_tx_steps =
  transaction_contact_step [OF contact_step.publication_pending]
  transaction_contact_step [OF contact_step.publication_recorded]
  transaction_contact_step [OF contact_step.removal_pending]
  transaction_contact_step [OF contact_step.removal_recorded]
  transaction_contact_step [OF contact_step.marker_failed]

lemma publish_steps:
  assumes "publish_public_contact E cfg session put clock pk rp s = (t, res)"
  shows "contact_step\<^sup>*\<^sup>* s t"
proof -
  obtain s1 r1 where s1: "transaction (publication_pending_tx pk rp (clock 0)) s = (s1, r1)" by fastforce
  have "contact_step\<^sup>*\<^sup>* s s1" using s1 by (auto intro: contact_tx_steps(1))
  moreover have "t = s \<or> t = s1 \<or> (\<exists>r. transaction (publication_recorded_tx pk (clock 1)) s1 = (t, r))
      \<or> (\<exists>err r. transaction (marker_failed_tx pk (sdk_error_display err) (clock 1)) s1 = (t, r))"
    using assms unfolding publish_public_contact_def s1
    by (simp split: if_splits sum.splits prod.splits option.splits) blast+
  then have "t = s \<or> contact_step\<^sup>*\<^sup>* s1 t" by (auto intro: contact_tx_steps(2,5))
  ultimately show ?thesis by (auto intro: rtranclp_trans)
qed

lemma begin_removal_steps:
  "begin_marker_removal clock pk rp s = (t, res) \<Longrightarrow> contact_step\<^sup>*\<^sup>* s t"
  by (auto simp: begin_marker_removal_def split: if_splits sum.splits option.splits intro: contact_tx_steps)

lemma remove_marker_steps:
  assumes "remove_public_contact cfg session delete clock pk rp s = (t, res)"
  shows "contact_step\<^sup>*\<^sup>* s t"
proof -
  obtain s1 r1 where s1: "begin_marker_removal clock pk rp s = (s1, r1)" by fastforce
  have "contact_step\<^sup>*\<^sup>* s1 t" if "t \<noteq> s"
    using assms s1 that
    by (auto simp: remove_public_contact_def Let_def split: if_splits sum.splits prod.splits option.splits bool.splits
        intro: contact_tx_steps)
  with begin_removal_steps [OF s1] show ?thesis by (cases "t = s") (auto intro: rtranclp_trans)
qed

lemma sync_marker_steps:
  "sync_marker E cfg session put delete clock r s = (t, res) \<Longrightarrow> contact_step\<^sup>*\<^sup>* s t"
  by (auto simp: sync_marker_def split: PublicationStatus.splits if_splits sum.splits prod.splits
      intro: publish_steps remove_marker_steps contact_tx_steps)

lemma sync_markers_steps:
  "sync_markers_loop E cfg session put delete clock k rs s = (t, res) \<Longrightarrow> contact_step\<^sup>*\<^sup>* s t"
proof (induction rs arbitrary: k s t res)
  case (Cons r rs)
  obtain u ru where u: "sync_marker E cfg session put delete (clock k) r s = (u, ru)" by fastforce
  obtain v rv where v: "sync_markers_loop E cfg session put delete clock (Suc k) rs u = (v, rv)" by fastforce
  have "t = u \<or> t = v" using Cons.prems u v by (auto split: sum.splits)
  with sync_marker_steps [OF u] Cons.IH [OF v] show ?case by (auto intro: rtranclp_trans)
qed simp

text \<open>C37: in every state that the contact operations can reach from an empty contact table, whatever
  the order in which the transactions of different operations interleave, the publication state of
  every contact's public marker is coherent with its times, path and error; retrying the pending
  markers, with any results of the homeserver calls, stays among these states.\<close>

theorem contact_markers_coherent:
  assumes "st_contact_records s = []" and "contact_step\<^sup>*\<^sup>* s t"
  shows "(contact_record t pk = Some r \<longrightarrow> marker_coherent r)
     \<and> contact_step\<^sup>*\<^sup>* s (fst (sync_public_contact_markers E cfg session put delete clock t))"
proof -
  obtain u res where u: "sync_public_contact_markers E cfg session put delete clock t = (u, res)" by fastforce
  then have "contact_step\<^sup>*\<^sup>* t u"
    by (auto simp: sync_public_contact_markers_def intro: sync_markers_steps)
  with assms u show ?thesis
    using contact_system.reachable_inv [OF assms] by (auto intro: contacts_coherent_get rtranclp_trans)
qed

text \<open>A contact with two receivers whose marker publication under the first one failed.\<close>

definition sample_contact_key :: PubkyPublicKey where
  "sample_contact_key = PubkyPublicKey ''payee''"

definition sample_paths :: "PaykitReceiverPath list" where
  "sample_paths = [PaykitReceiverPath ''bitkit/wallet'', PaykitReceiverPath ''tether/wallet'']"

definition sample_contact :: "PaykitReceiverPath list \<Rightarrow> ContactUpdate" where
  "sample_contact ps = \<lparr>cu_public_key = sample_contact_key, cu_receiver_paths = ps, cu_label = None\<rparr>"

definition sample_contact_saved :: ContactRecord where
  "sample_contact_saved = contact_from_update (sample_contact sample_paths) None 1"

definition sample_contact_failed :: ContactRecord where
  "sample_contact_failed = mark_public_contact_failed
     (mark_public_contact_publication_pending sample_contact_saved (PaykitReceiverPath ''bitkit/wallet'') 2) ''offline'' 3"

definition sample_contact_state :: StorageState where
  "sample_contact_state = save_contact_record sample_contact_failed empty_storage"

lemma save_contact_overwrites:
  "ct_public_key a = ct_public_key b \<Longrightarrow> save_contact_record b (save_contact_record a empty_storage) = save_contact_record b empty_storage"
  by (simp add: save_contact_record_def empty_storage_def)

lemma sample_contact_keys:
  "ct_public_key sample_contact_saved = sample_contact_key"
  "ct_public_key (mark_public_contact_publication_pending r rp at) = ct_public_key r"
  "ct_public_key (mark_public_contact_failed r err at) = ct_public_key r"
  by (simp_all add: sample_contact_saved_def contact_from_update_def sample_contact_def Let_def contact_change_defs)

lemma sample_contact_reached: "contact_step\<^sup>*\<^sup>* empty_storage sample_contact_state"
proof -
  let ?s1 = "save_contact_record sample_contact_saved empty_storage"
  let ?pending = "mark_public_contact_publication_pending sample_contact_saved (PaykitReceiverPath ''bitkit/wallet'') 2"
  let ?s2 = "save_contact_record ?pending empty_storage"
  have "save_contact_tx (sample_contact sample_paths) 1 empty_storage = Inr (?s1, sample_contact_saved)"
    by (simp add: save_contact_tx_def sample_contact_saved_def contact_record_def empty_storage_def Let_def)
  then have "contact_step empty_storage ?s1" by (rule contact_step.save)
  moreover have "contains_receiver_path sample_contact_saved (PaykitReceiverPath ''bitkit/wallet'')"
    by (simp add: contains_receiver_path_def sample_contact_saved_def contact_from_update_def sample_contact_def
        sample_paths_def normalized_receiver_paths_def Let_def)
  then have "publication_pending_tx sample_contact_key (PaykitReceiverPath ''bitkit/wallet'') 2 ?s1 = Inr (?s2, ())"
    by (simp add: publication_pending_tx_def contacts.load_save sample_contact_keys save_contact_overwrites)
  then have "contact_step ?s1 ?s2" by (rule contact_step.publication_pending)
  moreover have "marker_failed_tx sample_contact_key ''offline'' 3 ?s2 = Inr (sample_contact_state, ())"
    by (simp add: marker_failed_tx_def contacts.load_save sample_contact_keys save_contact_overwrites
        sample_contact_state_def sample_contact_failed_def)
  then have "contact_step ?s2 sample_contact_state" by (rule contact_step.marker_failed)
  ultimately show ?thesis by (meson rtranclp.rtrancl_into_rtrancl rtranclp.rtrancl_refl)
qed

theorem contact_markers_coherent_witness:
  "contact_record sample_contact_state sample_contact_key = Some sample_contact_failed \<and> marker_coherent sample_contact_failed"
proof -
  have "contact_record sample_contact_state sample_contact_key = Some sample_contact_failed"
    by (simp add: sample_contact_state_def sample_contact_failed_def contacts.load_save sample_contact_keys)
  moreover have "st_contact_records empty_storage = []" by (simp add: empty_storage_def)
  ultimately show ?thesis
    using contact_markers_coherent [OF _ sample_contact_reached, of sample_contact_key sample_contact_failed] by simp
qed

end
