(* ===== verification/Storage_Queue.thy ===== *)
theory Storage_Queue
  imports Storage
begin

text \<open>
  What the storage promises of its outbound queue and its leases. An index-free specification of
  claiming is shown equal to the indexed code; from it follow first-in first-out delivery per
  peer, the exactness of the claimability preview, and what superseding may touch. The transition
  system of all storage operations then keeps the storage invariant, and a lease that is no longer
  active never becomes active again.
\<close>

section \<open>Largest ids\<close>

lemma max_id_fold:
  "fold (\<lambda>m acc. Some (case acc of None \<Rightarrow> om_id m | Some i \<Rightarrow> max i (om_id m))) ms (Some i)
     = Some (fold max (map om_id ms) i)"
  by (induction ms arbitrary: i) (auto simp: max.commute)

lemma max_id_Cons: "max_id (m # ms) = Some (fold max (map om_id ms) (om_id m))"
  by (simp add: max_id_def max_id_fold)

lemma fold_max_ge: "(i::'a::linorder) \<le> fold max xs i \<and> (\<forall>x \<in> set xs. x \<le> fold max xs i)"
  by (induction xs arbitrary: i) (auto intro: order_trans [OF max.cobounded1] order_trans [OF max.cobounded2])

lemma fold_max_in: "fold max xs (i::'a::linorder) \<in> insert i (set xs)"
  by (induction xs arbitrary: i) (auto simp: max_def)

lemma max_id_None_iff: "max_id ms = None \<longleftrightarrow> ms = []"
  by (cases ms) (simp_all add: max_id_Cons, simp add: max_id_def)

lemma max_id_ge: "max_id ms = Some i \<Longrightarrow> m \<in> set ms \<Longrightarrow> om_id m \<le> i"
proof (cases ms)
  case (Cons a as)
  assume "max_id ms = Some i" "m \<in> set ms"
  with Cons show ?thesis using fold_max_ge [of "om_id a" "map om_id as"] by (auto simp: max_id_Cons)
qed auto

lemma max_id_in: "max_id ms = Some i \<Longrightarrow> \<exists>m \<in> set ms. om_id m = i"
proof (cases ms)
  case (Cons a as)
  assume "max_id ms = Some i"
  with Cons show ?thesis using fold_max_in [of "map om_id as" "om_id a"] by (auto simp: max_id_Cons)
qed (auto simp: max_id_def)

section \<open>Superseding\<close>

text \<open>The effect on one message, given the newest live list of its peer.\<close>

definition supersede_message ::
  "u64 option \<Rightarrow> PubkyPublicKey \<Rightarrow> PaykitReceiverPath \<Rightarrow> instant \<Rightarrow> instant \<Rightarrow> instant
    \<Rightarrow> OutboundPrivateMessageRecord \<Rightarrow> OutboundPrivateMessageRecord" where
  "supersede_message latest cp rp now sb fa m =
     (if om_for cp rp m \<and> (case latest of None \<Rightarrow> False | Some l \<Rightarrow> supersedable l sb fa m)
      then m\<lparr>om_status := Superseded, om_updated_at := now, om_last_error := None\<rparr> else m)"

definition live_list_id :: "StorageState \<Rightarrow> PubkyPublicKey \<Rightarrow> PaykitReceiverPath \<Rightarrow> u64 option" where
  "live_list_id s cp rp =
     max_id (filter (\<lambda>m. om_for cp rp m \<and> is_private_list m \<and> \<not> om_retired m) (st_outbound_private_messages s))"

lemma supersede_outbound:
  "st_outbound_private_messages (supersede_outdated_private_payment_lists cp rp now sb fa s) =
     map (supersede_message (live_list_id s cp rp) cp rp now sb fa) (st_outbound_private_messages s)"
proof (cases "live_list_id s cp rp")
  case None
  then have "supersede_message (live_list_id s cp rp) cp rp now sb fa = id"
    by (auto simp: supersede_message_def fun_eq_iff)
  with None show ?thesis
    by (simp add: supersede_outdated_private_payment_lists_def live_list_id_def)
next
  case (Some l)
  then show ?thesis
    by (auto simp: supersede_outdated_private_payment_lists_def live_list_id_def supersede_message_def)
qed

lemma supersede_rest:
  "supersede_outdated_private_payment_lists cp rp now sb fa s =
     s\<lparr>st_outbound_private_messages :=
        st_outbound_private_messages (supersede_outdated_private_payment_lists cp rp now sb fa s)\<rparr>"
  by (auto simp: supersede_outdated_private_payment_lists_def split: option.splits)

lemma supersede_message_simps [simp]:
  "om_id (supersede_message l cp rp now sb fa m) = om_id m"
  "om_for cp' rp' (supersede_message l cp rp now sb fa m) = om_for cp' rp' m"
  "om_kind (supersede_message l cp rp now sb fa m) = om_kind m"
  "om_raw_json (supersede_message l cp rp now sb fa m) = om_raw_json m"
  by (simp_all add: supersede_message_def om_for_def)

lemma supersede_ids [simp]:
  "map om_id (st_outbound_private_messages (supersede_outdated_private_payment_lists cp rp now sb fa s))
     = map om_id (st_outbound_private_messages s)"
  by (simp add: supersede_outbound comp_def)

lemma claimable_status:
  "is_claimable_outbound_private_message m sb fa \<Longrightarrow> om_status m \<in> {Pending, Failed, Sending}"
  by (auto simp: is_claimable_outbound_private_message_def split: OutboundPrivateMessageStatus.splits)

lemma stale_sending_claimable:
  "is_stale_sending_outbound_private_message m sb \<Longrightarrow> is_claimable_outbound_private_message m sb fa"
  by (simp add: is_claimable_outbound_private_message_def is_stale_sending_outbound_private_message_def)

text \<open>superseding before a claim touches, for the claimed peer only, Private Payment Lists that
  are queued or failed and older than another live list of that peer; it changes nothing of them
  but status, update time and last error, it leaves every Event Message alone, and the newest live
  list always survives it unchanged.\<close>

theorem supersede_only_outdated_lists:
  assumes "i < length (st_outbound_private_messages s)" and "m = st_outbound_private_messages s ! i"
    and "ms' = st_outbound_private_messages (supersede_outdated_private_payment_lists cp rp now sb fa s)"
    and "ms' ! i \<noteq> m"
  shows "om_counterparty m = cp \<and> om_path m = rp \<and> om_kind m = kind_as_str PrivatePaymentListKind
    \<and> om_status m \<in> {Pending, Failed}
    \<and> ms' ! i = m\<lparr>om_status := Superseded, om_updated_at := now, om_last_error := None\<rparr>
    \<and> (\<exists>n \<in> set (st_outbound_private_messages s). om_counterparty n = cp \<and> om_path n = rp
         \<and> om_kind n = kind_as_str PrivatePaymentListKind \<and> om_status n \<notin> {Invalid, RecoveryRequired, Superseded}
         \<and> om_id m < om_id n \<and> n \<in> set ms')"
proof -
  let ?f = "supersede_message (live_list_id s cp rp) cp rp now sb fa"
  have ms': "ms' = map ?f (st_outbound_private_messages s)" using assms(3) by (simp add: supersede_outbound)
  have m': "ms' ! i = ?f m" using ms' assms(1,2) by simp
  with assms(4) have "?f m \<noteq> m" by simp
  then obtain l where l: "live_list_id s cp rp = Some l" "om_for cp rp m" "supersedable l sb fa m"
    by (auto simp: supersede_message_def split: if_splits option.splits)
  obtain n where n: "n \<in> set (st_outbound_private_messages s)" "om_for cp rp n"
      "is_private_list n" "\<not> om_retired n" "om_id n = l"
    using max_id_in [OF l(1) [unfolded live_list_id_def]] by auto
  have "?f n = n" using l(1) n(5) by (simp add: supersede_message_def supersedable_def)
  then have "n \<in> set ms'" using n(1) ms' by force
  moreover have "om_status m \<in> {Pending, Failed}"
    using l(3) claimable_status by (auto simp: supersedable_def)
  moreover have "ms' ! i = m\<lparr>om_status := Superseded, om_updated_at := now, om_last_error := None\<rparr>"
    using m' l by (simp add: supersede_message_def)
  moreover have "om_kind m = kind_as_str PrivatePaymentListKind" "om_kind n = kind_as_str PrivatePaymentListKind"
    using l(3) n(3) unfolding supersedable_def is_private_list_def by blast+
  ultimately show ?thesis
    using l(2,3) n(1,2,4,5) unfolding om_for_def om_retired_def supersedable_def by blast
qed

text \<open>Two Private Payment Lists queued for one peer, the second newer.\<close>

definition sample_peer :: PubkyPublicKey where
  "sample_peer = PubkyPublicKey ''alice''"

definition sample_path :: PaykitReceiverPath where
  "sample_path = PaykitReceiverPath ''bitkit/wallet''"

definition sample_list :: "string \<Rightarrow> instant \<Rightarrow> NewOutboundPrivateMessage" where
  "sample_list json now =
     \<lparr>nm_counterparty = sample_peer, nm_path = sample_path, nm_kind = ''paykit.private_payment_list'',
      nm_raw_json = json, nm_created_at = now\<rparr>"

definition sample_queue :: StorageState where
  "sample_queue =
     fst (insert_outbound_private_message (sample_list ''new'' 2)
       (fst (insert_outbound_private_message (sample_list ''old'' 1) empty_storage)))"

theorem supersede_only_outdated_lists_witness:
  "\<exists>n \<in> set (st_outbound_private_messages sample_queue). om_raw_json n = ''new'' \<and> n \<in> set
     (st_outbound_private_messages (supersede_outdated_private_payment_lists sample_peer sample_path 3 0 0 sample_queue))"
proof -
  let ?ms = "st_outbound_private_messages sample_queue"
  let ?ms' = "st_outbound_private_messages (supersede_outdated_private_payment_lists sample_peer sample_path 3 0 0 sample_queue)"
  have "0 < length ?ms" "?ms' ! 0 \<noteq> ?ms ! 0" by code_simp+
  then obtain n where n: "n \<in> set ?ms" "om_id (?ms ! 0) < om_id n" "n \<in> set ?ms'"
    using supersede_only_outdated_lists [OF _ refl refl, of 0 sample_queue sample_peer sample_path 3 0 0] by blast
  have "list_all (\<lambda>n. om_id (?ms ! 0) < om_id n \<longrightarrow> om_raw_json n = ''new'') ?ms" by code_simp
  with n show ?thesis by (auto simp: list_all_iff)
qed

section \<open>Claiming without indexes\<close>

definition claim_message :: "instant \<Rightarrow> OutboundPrivateMessageRecord \<Rightarrow> OutboundPrivateMessageRecord" where
  "claim_message now m =
     m\<lparr>om_status := Sending, om_attempt_count := sat_inc (om_attempt_count m),
       om_last_attempt_at := Some now, om_updated_at := now, om_last_error := None\<rparr>"

text \<open>The specification: the oldest unsettled message of the peer is claimed, if it is claimable.\<close>

definition claim_spec ::
  "PubkyPublicKey \<Rightarrow> PaykitReceiverPath \<Rightarrow> instant \<Rightarrow> instant \<Rightarrow> instant \<Rightarrow> OutboundPrivateMessageRecord list
    \<Rightarrow> OutboundPrivateMessageRecord list \<times> OutboundPrivateMessageRecord option" where
  "claim_spec cp rp now sb fa ms =
     (case filter (\<lambda>m. om_for cp rp m \<and> \<not> om_settled m) ms of
        [] \<Rightarrow> (ms, None)
      | m # _ \<Rightarrow>
          if is_claimable_outbound_private_message m sb fa
          then (map (\<lambda>x. if om_id x = om_id m then claim_message now x else x) ms, Some (claim_message now m))
          else (ms, None))"

lemma enumerate_filter_snd: "map snd (filter (\<lambda>(_, m). P m) (List.enumerate n ms)) = filter P ms"
  by (induction ms arbitrary: n) auto

lemma enumerate_filter_nth:
  "(i, m) \<in> set (filter (\<lambda>(_, m). P m) (List.enumerate 0 ms)) \<Longrightarrow> i < length ms \<and> ms ! i = m"
  by (auto simp: in_set_enumerate_eq)

lemma sorted_filter_indexes:
  assumes "sorted_wrt (<) (map om_id ms)"
  shows "sort_key snd (map (\<lambda>(i, m). (i, om_id m)) (filter (\<lambda>(_, m). P m) (List.enumerate 0 ms)))
       = map (\<lambda>(i, m). (i, om_id m)) (filter (\<lambda>(_, m). P m) (List.enumerate 0 ms))"
proof (rule sort_key_id_if_sorted)
  let ?f = "filter (\<lambda>(_, m). P m) (List.enumerate 0 ms)"
  have "map snd (map (\<lambda>(i, m). (i, om_id m)) ?f) = map om_id (map snd ?f)" by (simp add: split_beta)
  also have "\<dots> = map om_id (filter P ms)" by (simp only: enumerate_filter_snd)
  finally have eq: "map snd (map (\<lambda>(i, m). (i, om_id m)) ?f) = map om_id (filter P ms)" .
  have "sorted (map om_id ms)" using assms by (auto simp: strict_sorted_iff)
  then show "sorted (map snd (map (\<lambda>(i, m). (i, om_id m)) ?f))"
    unfolding eq by (rule sorted_filter)
qed

lemma update_as_map:
  assumes "sorted_wrt (<) (map om_id ms)" and "i < length ms"
  shows "ms[i := f (ms ! i)] = map (\<lambda>x. if om_id x = om_id (ms ! i) then f x else x) ms"
proof (rule nth_equalityI)
  fix j assume j: "j < length (ms[i := f (ms ! i)])"
  have "om_id (ms ! j) = om_id (ms ! i) \<longleftrightarrow> j = i"
    using assms j sorted_wrt_nth_less [OF assms(1), of i j] sorted_wrt_nth_less [OF assms(1), of j i]
    by (cases i j rule: linorder_cases) auto
  with assms j show "ms[i := f (ms ! i)] ! j = map (\<lambda>x. if om_id x = om_id (ms ! i) then f x else x) ms ! j"
    by (auto simp: nth_list_update)
qed simp

lemma claim_next_refines:
  assumes "outbound_inv s"
  shows "claim_next_outbound_private_message cp rp now sb fa s =
    (let t = supersede_outdated_private_payment_lists cp rp now sb fa s;
         (ms, r) = claim_spec cp rp now sb fa (st_outbound_private_messages t)
     in (t\<lparr>st_outbound_private_messages := ms\<rparr>, r))"
proof -
  let ?t = "supersede_outdated_private_payment_lists cp rp now sb fa s"
  let ?ms = "st_outbound_private_messages ?t"
  let ?P = "\<lambda>m. om_for cp rp m \<and> \<not> om_settled m"
  have sorted: "sorted_wrt (<) (map om_id ?ms)" using assms by (simp add: outbound_inv_def)
  define f where "f = filter (\<lambda>(_, m). ?P m) (List.enumerate 0 ?ms)"
  have idx: "sort_key snd (map (\<lambda>(i, m). (i, om_id m)) f) = map (\<lambda>(i, m). (i, om_id m)) f"
    unfolding f_def by (rule sorted_filter_indexes [OF sorted])
  have snd_f: "filter ?P ?ms = map snd f" unfolding f_def by (simp only: enumerate_filter_snd)
  show ?thesis
  proof (cases f)
    case Nil
    with idx snd_f show ?thesis
      by (simp add: claim_next_outbound_private_message_def claim_spec_def Let_def f_def)
  next
    case (Cons im rest)
    obtain i m where im: "im = (i, m)" by (cases im)
    have "(i, m) \<in> set f" using Cons im by simp
    then have i: "i < length ?ms" "?ms ! i = m" 
      unfolding f_def using enumerate_filter_nth [of i m ?P ?ms] by blast+
    have upd: "?ms[i := claim_message now m] = map (\<lambda>x. if om_id x = om_id m then claim_message now x else x) ?ms"
      using update_as_map [OF sorted i(1), of "claim_message now"] i(2) by simp
    show ?thesis
      using idx snd_f Cons im i upd
      by (simp add: claim_next_outbound_private_message_def claim_spec_def Let_def f_def [symmetric] claim_message_def)
  qed
qed

lemma claim_spec_ids: "map om_id (fst (claim_spec cp rp now sb fa ms)) = map om_id ms"
  by (auto simp: claim_spec_def claim_message_def split: list.splits)

section \<open>First in, first out\<close>

lemma filter_Cons_first:
  "filter P xs = y # ys \<Longrightarrow> sorted_wrt (<) (map om_id xs) \<Longrightarrow> x \<in> set xs \<Longrightarrow> om_id x < om_id y \<Longrightarrow> \<not> P x"
proof (induction xs)
  case (Cons a xs)
  show ?case
  proof (cases "P a")
    case True
    with Cons.prems show ?thesis by auto
  next
    case False
    with Cons show ?thesis by auto
  qed
qed simp

lemma claim_spec_Some:
  assumes "claim_spec cp rp now sb fa ms = (ms', Some m')" and "sorted_wrt (<) (map om_id ms)"
  obtains m where "m \<in> set ms" "om_for cp rp m" "\<not> om_settled m" "is_claimable_outbound_private_message m sb fa"
    "m' = claim_message now m" "ms' = map (\<lambda>x. if om_id x = om_id m then claim_message now x else x) ms"
    "\<And>x. x \<in> set ms \<Longrightarrow> om_for cp rp x \<Longrightarrow> om_id x < om_id m \<Longrightarrow> om_settled x"
proof -
  obtain m rest where f: "filter (\<lambda>m. om_for cp rp m \<and> \<not> om_settled m) ms = m # rest"
    and c: "is_claimable_outbound_private_message m sb fa" "m' = claim_message now m"
      "ms' = map (\<lambda>x. if om_id x = om_id m then claim_message now x else x) ms"
    using assms(1) by (auto simp: claim_spec_def split: list.splits if_splits)
  have "m \<in> set (filter (\<lambda>m. om_for cp rp m \<and> \<not> om_settled m) ms)" by (simp add: f)
  moreover have "om_settled x" if "x \<in> set ms" "om_for cp rp x" "om_id x < om_id m" for x
    using filter_Cons_first [OF f assms(2) that(1,3)] that(2) by blast
  ultimately show thesis using that c by auto
qed


lemma outbound_from_new_id [simp]: "om_id (outbound_from_new i m) = i"
  by (simp add: outbound_from_new_def)

lemma sample_queue_inv: "storage_inv sample_queue"
proof -
  have "tables_inv sample_queue \<and> lease_inv sample_queue \<and> stream_inv sample_queue"
    by (simp add: sample_queue_def insert_outbound_private_message_def empty_storage_def Let_def
        tables_inv_def lease_inv_def stream_inv_def)
  moreover have "outbound_inv sample_queue"
    by (simp add: sample_queue_def insert_outbound_private_message_def empty_storage_def Let_def outbound_inv_def)
  ultimately show ?thesis by (simp add: storage_inv_def)
qed


section \<open>The claimability preview\<close>

lemma supersedable_unsettled:
  "(case l of None \<Rightarrow> False | Some i \<Rightarrow> supersedable i sb fa m) \<Longrightarrow> \<not> om_settled m"
  using claimable_status [of m sb fa]
  by (auto simp: supersedable_def om_settled_def split: option.splits)

lemma supersede_settled:
  "om_for cp rp m \<Longrightarrow> om_settled (supersede_message l cp rp now sb fa m) \<longleftrightarrow>
     om_settled m \<or> (case l of None \<Rightarrow> False | Some i \<Rightarrow> supersedable i sb fa m)"
  by (auto simp: supersede_message_def om_settled_def)

lemma queue_head_loop_spec:
  "list_all (om_for cp rp) ms \<Longrightarrow>
   queue_head_loop l sb fa ms =
     (case filter (\<lambda>m. \<not> om_settled m) (map (supersede_message l cp rp now sb fa) ms) of
        [] \<Rightarrow> False | m # _ \<Rightarrow> is_claimable_outbound_private_message m sb fa)"
proof (induction ms)
  case (Cons m ms)
  let ?g = "case l of None \<Rightarrow> False | Some i \<Rightarrow> supersedable i sb fa m"
  have settled: "om_settled (supersede_message l cp rp now sb fa m) \<longleftrightarrow> om_settled m \<or> ?g"
    using Cons.prems by (simp add: supersede_settled)
  have same: "\<not> ?g \<Longrightarrow> supersede_message l cp rp now sb fa m = m"
    by (simp add: supersede_message_def)
  show ?case
  proof (cases "om_settled m \<or> ?g")
    case True
    then show ?thesis using Cons settled by auto
  next
    case False
    then show ?thesis using settled same stale_sending_claimable [of m sb fa] by auto
  qed
qed simp

lemma filter_filter_for:
  "filter (\<lambda>m. om_for cp rp m \<and> \<not> om_settled m) (map (supersede_message l cp rp now sb fa) ms)
     = filter (\<lambda>m. \<not> om_settled m) (map (supersede_message l cp rp now sb fa) (filter (om_for cp rp) ms))"
  by (induction ms) auto

text \<open>the read-only preview of the queue head agrees with claiming: it answers true exactly when a
  claim with the same deadlines would hand out a message.\<close>

theorem queue_head_preview_exact:
  assumes "storage_inv s"
  shows "outbound_private_queue_head_is_claimable (outbound_private_messages s cp rp) sb fa \<longleftrightarrow>
    snd (claim_next_outbound_private_message cp rp now sb fa s) \<noteq> None"
proof -
  let ?ms = "st_outbound_private_messages s"
  let ?L = "filter (om_for cp rp) ?ms"
  let ?l = "live_list_id s cp rp"
  have inv: "outbound_inv s" using assms by (simp add: storage_inv_def)
  then have "sorted (map om_id ?ms)" by (auto simp: outbound_inv_def strict_sorted_iff)
  then have sorted: "sort_key om_id ?L = ?L" by (intro sort_key_id_if_sorted sorted_filter)
  have "outbound_private_queue_head_is_claimable (outbound_private_messages s cp rp) sb fa =
      queue_head_loop ?l sb fa ?L"
    by (simp add: outbound_private_queue_head_is_claimable_def outbound_private_messages_def sorted
        live_list_id_def)
  also have "\<dots> = (case filter (\<lambda>m. om_for cp rp m \<and> \<not> om_settled m) (map (supersede_message ?l cp rp now sb fa) ?ms) of
        [] \<Rightarrow> False | m # _ \<Rightarrow> is_claimable_outbound_private_message m sb fa)"
    unfolding filter_filter_for by (rule queue_head_loop_spec) (simp add: list_all_iff)
  also have "\<dots> \<longleftrightarrow> snd (claim_next_outbound_private_message cp rp now sb fa s) \<noteq> None"
    by (cases "filter (\<lambda>m. om_for cp rp m \<and> \<not> om_settled m) (map (supersede_message ?l cp rp now sb fa) ?ms)")
       (simp_all add: claim_next_refines [OF inv] claim_spec_def supersede_outbound Let_def)
  finally show ?thesis .
qed

theorem queue_head_preview_exact_witness:
  "snd (claim_next_outbound_private_message sample_peer sample_path 3 0 0 sample_queue) \<noteq> None"
proof -
  have "outbound_private_queue_head_is_claimable (outbound_private_messages sample_queue sample_peer sample_path) 0 0"
    by code_simp
  then show ?thesis using queue_head_preview_exact [OF sample_queue_inv] by blast
qed

section \<open>The transition system of the storage\<close>

lemma storage_inv_outbound:
  assumes "storage_inv s" and "sorted_wrt (<) (map om_id ms)" and "set (map om_id ms) \<subseteq> set (map om_id (st_outbound_private_messages s))"
  shows "storage_inv (s\<lparr>st_outbound_private_messages := ms\<rparr>)"
proof -
  have "list_all (\<lambda>i. i < st_next_outbound_id s) (map om_id ms)"
    using assms(1,3) by (auto simp: storage_inv_defs list_all_iff)
  then show ?thesis using assms(1,2) by (simp add: storage_inv_defs list.pred_map comp_def)
qed

lemma storage_inv_supersede [intro]:
  "storage_inv s \<Longrightarrow> storage_inv (supersede_outdated_private_payment_lists cp rp now sb fa s)"
  using storage_inv_outbound [of s "st_outbound_private_messages (supersede_outdated_private_payment_lists cp rp now sb fa s)"]
    supersede_rest [of cp rp now sb fa s] supersede_ids [of cp rp now sb fa s]
  by (simp add: storage_inv_defs)

lemma storage_inv_claim_message [intro]:
  assumes "storage_inv s"
  shows "storage_inv (fst (claim_next_outbound_private_message cp rp now sb fa s))"
proof -
  let ?t = "supersede_outdated_private_payment_lists cp rp now sb fa s"
  obtain ms r where spec: "claim_spec cp rp now sb fa (st_outbound_private_messages ?t) = (ms, r)"
    by (cases "claim_spec cp rp now sb fa (st_outbound_private_messages ?t)")
  have t: "storage_inv ?t" using assms by blast
  have ids: "map om_id ms = map om_id (st_outbound_private_messages ?t)"
    using claim_spec_ids [of cp rp now sb fa "st_outbound_private_messages ?t"] spec by simp
  have "storage_inv (?t\<lparr>st_outbound_private_messages := ms\<rparr>)"
    using t ids by (intro storage_inv_outbound) (simp_all add: storage_inv_defs)
  then show ?thesis
    using assms spec by (simp add: claim_next_refines storage_inv_def Let_def)
qed

lemma replace_outbound_ids: "replace_outbound r ms = Some ms' \<Longrightarrow> map om_id ms' = map om_id ms"
  by (induction ms arbitrary: ms') (auto split: if_splits)

lemma storage_inv_save_outbound:
  assumes "storage_inv s" and "save_outbound_private_message r s = Inr (t, u)"
  shows "storage_inv t"
proof -
  obtain ms where "replace_outbound r (st_outbound_private_messages s) = Some ms"
      and t: "t = s\<lparr>st_outbound_private_messages := ms\<rparr>"
    using assms(2) by (auto simp: save_outbound_private_message_def split: option.splits)
  then have "map om_id ms = map om_id (st_outbound_private_messages s)" by (blast intro: replace_outbound_ids)
  then show ?thesis
    unfolding t using assms(1) by (intro storage_inv_outbound) (simp_all add: storage_inv_defs)
qed

lemma append_next:
  fixes f :: "'a \<Rightarrow> 'w::len word"
  assumes "sorted_wrt (<) (map f xs)" and "list_all (\<lambda>x. f x < n) xs" and "f y = n" and "n \<noteq> - 1"
  shows "sorted_wrt (<) (map f (xs @ [y]))" and "list_all (\<lambda>x. f x < n + 1) (xs @ [y])"
proof -
  have lt: "n < n + 1" using assms(4) by (rule word_lt_max)
  then have "list_all (\<lambda>x. f x < n + 1) xs" using assms(2) by (auto simp: list_all_iff intro: order.strict_trans)
  then show "sorted_wrt (<) (map f (xs @ [y]))" and "list_all (\<lambda>x. f x < n + 1) (xs @ [y])"
    using assms lt by (auto simp: sorted_wrt_append list_all_iff)
qed

lemma storage_inv_insert_outbound [intro]:
  assumes "storage_inv s" and "st_next_outbound_id s \<noteq> - 1"
  shows "storage_inv (fst (insert_outbound_private_message m s))"
  using assms append_next [of om_id "st_outbound_private_messages s" "st_next_outbound_id s"
      "outbound_from_new (st_next_outbound_id s) m"]
  by (simp add: insert_outbound_private_message_def storage_inv_defs Let_def outbound_from_new_def)

lemma storage_inv_insert_stream [intro]:
  assumes "storage_inv s" and "st_next_stream_item_id s \<noteq> - 1"
  shows "storage_inv (fst (insert_private_stream_item i s))"
  using assms append_next [of si_id "st_private_stream_items s" "st_next_stream_item_id s"
      "stream_item_from_new (st_next_stream_item_id s) i"]
  by (simp add: insert_private_stream_item_def storage_inv_defs stream_item_from_new_def)

lemma storage_inv_batch_id [intro]: "storage_inv s \<Longrightarrow> storage_inv (fst (allocate_receive_batch_id s))"
  by (simp add: allocate_receive_batch_id_def storage_inv_defs)

text \<open>
  One operation of a storage transaction. The id counters are 64-bit; the operations that draw an
  id step only while the counter is not exhausted.
\<close>

inductive storage_step :: "StorageState \<Rightarrow> StorageState \<Rightarrow> bool" where
  "storage_step s (save_identity_state i s)"
| "storage_step s (clear_private_identity_scoped_state s)"
| "storage_step s (clear_identity_scoped_state s)"
| "storage_step s (save_linked_peer lp s)"
| "storage_step s (save_contact_record ct s)"
| "storage_step s (fst (remove_contact_record k s))"
| "storage_step s (save_public_endpoint_record pe s)"
| "storage_step s (save_payment_endpoint_reservation rv s)"
| "storage_step s (fst (remove_payment_endpoint_reservation rk s))"
| "storage_step s (save_encrypted_link_state ls s)"
| "st_next_lease_id s \<noteq> - 1 \<Longrightarrow> storage_step s (fst (claim_peer_link_operation cp rp now ex s))"
| "storage_step s (release_peer_link_operation cp rp li s)"
| "st_next_outbound_id s \<noteq> - 1 \<Longrightarrow> storage_step s (fst (insert_outbound_private_message nm s))"
| "storage_step s (fst (claim_next_outbound_private_message cp rp now sb fa s))"
| "save_outbound_private_message om s = Inr (t, ()) \<Longrightarrow> storage_step s t"
| "storage_step s (fst (allocate_receive_batch_id s))"
| "st_next_stream_item_id s \<noteq> - 1 \<Longrightarrow> storage_step s (fst (insert_private_stream_item ns s))"
| "storage_step s (save_event_dedup_record ed s)"
| "storage_step s (save_receipt_access_record ra s)"
| "storage_step s (save_receipt_record rr s)"
| "storage_step s (save_receipt_issuance_record ri s)"

inductive_cases storage_stepE: "storage_step s t"

lemma storage_step_inv: "storage_step s t \<Longrightarrow> storage_inv s \<Longrightarrow> storage_inv t"
  by (induction rule: storage_step.induct) (auto intro: storage_inv_save_outbound)

lemma storage_inv_empty: "storage_inv empty_storage"
  by (simp add: empty_storage_def storage_inv_defs)

interpretation store: invariant_system "\<lambda>s. s = empty_storage" storage_step storage_inv
  by unfold_locales (use storage_inv_empty storage_step_inv in auto)



section \<open>Fencing of leases\<close>

text \<open>A lease whose id was drawn already and that is not the active one of its peer.\<close>

definition lease_dead :: "PeerLinkOperationLease \<Rightarrow> StorageState \<Rightarrow> bool" where
  "lease_dead l s \<longleftrightarrow> le_lease_id l < st_next_lease_id s \<and> require_peer_link_operation_lease s l \<noteq> Inr ()"

lemma lease_dead_iff:
  "lease_dead l s \<longleftrightarrow> le_lease_id l < st_next_lease_id s
     \<and> \<not> (\<exists>a. peer_link_operation_lease s (le_key l) = Some a \<and> le_lease_id a = le_lease_id l)"
  by (simp add: lease_dead_def require_lease_iff)

lemma lease_dead_cong:
  "st_next_lease_id t = st_next_lease_id s \<Longrightarrow> st_peer_link_operation_leases t = st_peer_link_operation_leases s
   \<Longrightarrow> lease_dead l t = lease_dead l s"
  by (simp add: lease_dead_iff peer_link_operation_lease_def)

lemma lease_dead_claim:
  assumes "lease_dead l s" and "st_next_lease_id s \<noteq> - 1"
  shows "lease_dead l (fst (claim_peer_link_operation cp rp now ex s))"
proof -
  obtain t r where c: "claim_peer_link_operation cp rp now ex s = (t, r)"
    by (cases "claim_peer_link_operation cp rp now ex s")
  show ?thesis
  proof (cases r)
    case None
    with c have "t = s" using claim_lease_None by blast
    with c assms show ?thesis by simp
  next
    case (Some a)
    have "st_next_lease_id t = st_next_lease_id s + 1"
      using c Some by (auto simp: claim_peer_link_operation_def Let_def split: if_splits)
    then have "le_lease_id l < st_next_lease_id t"
      using assms word_lt_max [OF assms(2)] by (auto simp: lease_dead_iff intro: order.strict_trans)
    then show ?thesis
      using c claim_lease_Some [OF c [unfolded Some], of "le_key l"] assms(1)
      by (auto simp: lease_dead_iff split: if_splits)
  qed
qed

lemma lease_dead_release: "lease_dead l s \<Longrightarrow> lease_dead l (release_peer_link_operation cp rp i s)"
  by (auto simp: lease_dead_iff release_peer_link_operation_def peer_link_operation_lease_def table_simps)

lemma lease_dead_step: "storage_step s t \<Longrightarrow> lease_dead l s \<Longrightarrow> lease_dead l t"
proof (induction rule: storage_step.induct)
  case (14 s cp rp now sb fa)
  have "st_next_lease_id (supersede_outdated_private_payment_lists cp rp now sb fa s) = st_next_lease_id s"
    "st_peer_link_operation_leases (supersede_outdated_private_payment_lists cp rp now sb fa s) = st_peer_link_operation_leases s"
    by (auto simp: supersede_outdated_private_payment_lists_def split: option.splits)
  with 14 show ?case
    by (subst lease_dead_cong [of _ s])
       (auto simp: claim_next_outbound_private_message_def Let_def split: list.splits)
next
  case (11 s cp rp now ex)
  then show ?case by (blast intro: lease_dead_claim)
next
  case (12 s cp rp li)
  then show ?case by (rule lease_dead_release)
qed (auto simp: lease_dead_iff peer_link_operation_lease_def table_op_defs save_identity_state_def
    clear_private_identity_scoped_state_def clear_identity_scoped_state_def remove_contact_record_def
    remove_payment_endpoint_reservation_def insert_outbound_private_message_def Let_def
    save_outbound_private_message_def allocate_receive_batch_id_def insert_private_stream_item_def
    split: option.splits)



end
