(* ===== verification/Linked_Peers.thy ===== *)
theory Linked_Peers
  imports Storage_Queue
begin

text \<open>
  Linked Peer state and Encrypted Link checkpoints (\<^verbatim>\<open>paykit-sdk/src/domain/linked_peers/mod.rs\<close>,
  and the peer guards, blocking and role choice of \<^verbatim>\<open>runtime/encrypted_links.rs\<close>). Each operation is
  the callback of its storage transaction. The lemmas show what every operation keeps: blocked
  peers stay blocked, link generations never decrease, a stale generation never overwrites a link
  state, and a link state never holds an established link and a handshake at once.
\<close>

section \<open>Reports and guards\<close>

record LinkedPeerHandshakeReport =
  hr_counterparty :: PubkyPublicKey
  hr_path :: PaykitReceiverPath
  hr_state :: LinkedPeerState
  hr_generation :: u64
  hr_handshake_role :: "EncryptedLinkHandshakeRole option"

definition default_linked_peer :: "PubkyPublicKey \<Rightarrow> PaykitReceiverPath \<Rightarrow> LinkedPeerRecord" where
  "default_linked_peer cp rp =
     \<lparr>lp_counterparty = cp, lp_path = rp, lp_state = NotLinked, lp_last_sync_at = None,
      lp_last_private_receive_at = None, lp_failure_count = 0, lp_local_recovery_attempt_id = None,
      lp_local_recovery_marker_created_at = None, lp_local_recovery_marker_last_error = None,
      lp_remote_recovery_attempt_id = None, lp_remote_recovery_marker_observed_at = None\<rparr>"

text \<open>\<^verbatim>\<open>tx.linked_peer(..).unwrap_or_else(default_linked_peer)\<close>.\<close>

definition linked_peer_or_default ::
  "StorageState \<Rightarrow> PubkyPublicKey \<Rightarrow> PaykitReceiverPath \<Rightarrow> LinkedPeerRecord" where
  "linked_peer_or_default s cp rp =
     (case linked_peer s (cp, rp) of Some p \<Rightarrow> p | None \<Rightarrow> default_linked_peer cp rp)"

definition ensure_not_blocked :: "LinkedPeerRecord \<Rightarrow> unit sdk_res" where
  "ensure_not_blocked p =
     (if lp_state p = Blocked
      then Inl (SdkPolicy (''Linked Peer '' @ z32 (lp_counterparty p) @ '' is blocked'') None) else Inr ())"

definition counterparty_receiver_path_for_operation ::
  "PubkyPublicKey \<Rightarrow> PaykitReceiverPath option \<Rightarrow> PeerLinkOperationLease option \<Rightarrow> PaykitReceiverPath sdk_res" where
  "counterparty_receiver_path_for_operation cp rp lease =
     (case lease of
        Some l \<Rightarrow> Inr (le_path l)
      | None \<Rightarrow>
          (case rp of
             Some p \<Rightarrow> Inr p
           | None \<Rightarrow> Inl (SdkPolicy (''counterparty '' @ z32 cp
               @ '' receiver path is required for private link state'') None)))"

text \<open>The lease check at the head of the transactions that take an optional lease.\<close>

definition require_optional_lease :: "StorageState \<Rightarrow> PeerLinkOperationLease option \<Rightarrow> unit sdk_res" where
  "require_optional_lease s lease =
     (case lease of Some l \<Rightarrow> require_peer_link_operation_lease s l | None \<Rightarrow> Inr ())"

definition unexpired_lease_held ::
  "StorageState \<Rightarrow> PubkyPublicKey \<Rightarrow> PaykitReceiverPath \<Rightarrow> instant \<Rightarrow> bool" where
  "unexpired_lease_held s cp rp now \<longleftrightarrow>
     (case peer_link_operation_lease s (cp, rp) of Some a \<Rightarrow> le_expires_at a > now | None \<Rightarrow> False)"

definition report_current_link_state ::
  "PubkyPublicKey \<Rightarrow> PaykitReceiverPath \<Rightarrow> LinkedPeerRecord \<Rightarrow> EncryptedLinkStateRecord \<Rightarrow> instant
    \<Rightarrow> LinkedPeerRecord \<times> LinkedPeerHandshakeReport" where
  "report_current_link_state cp rp peer ls now =
     (if ls_link_snapshot ls \<noteq> None
      then (peer\<lparr>lp_state := Linked, lp_last_sync_at := Some now, lp_failure_count := 0\<rparr>,
            \<lparr>hr_counterparty = cp, hr_path = rp, hr_state = Linked, hr_generation = ls_generation ls,
             hr_handshake_role = None\<rparr>)
      else if ls_handshake_snapshot ls \<noteq> None
      then (peer\<lparr>lp_state := Linking, lp_last_sync_at := Some now, lp_failure_count := 0\<rparr>,
            \<lparr>hr_counterparty = cp, hr_path = rp, hr_state = Linking, hr_generation = ls_generation ls,
             hr_handshake_role = ls_handshake_role ls\<rparr>)
      else (peer\<lparr>lp_state := RecoveryRequiredState,
                 lp_last_sync_at := (if lp_last_sync_at peer = None then Some now else lp_last_sync_at peer)\<rparr>,
            \<lparr>hr_counterparty = cp, hr_path = rp, hr_state = RecoveryRequiredState,
             hr_generation = ls_generation ls, hr_handshake_role = None\<rparr>))"

section \<open>Peer state updates\<close>

definition save_linked_peer_state_inner ::
  "PubkyPublicKey \<Rightarrow> LinkedPeerState \<Rightarrow> PaykitReceiverPath option \<Rightarrow> PeerLinkOperationLease option \<Rightarrow> instant
    \<Rightarrow> (sdk_error, LinkedPeerRecord) tx" where
  "save_linked_peer_state_inner cp state rp_opt lease now s =
     rbind (require_optional_lease s lease) (\<lambda>_.
     rbind (counterparty_receiver_path_for_operation cp rp_opt lease) (\<lambda>rp.
     if lease = None \<and> unexpired_lease_held s cp rp now
     then Inl (SdkPolicy (''peer link operation already in progress for counterparty '' @ z32 cp) None)
     else
       let record = linked_peer_or_default s cp rp in
       if lp_state record = Blocked \<and> state \<noteq> Blocked
       then Inl (SdkPolicy (''Linked Peer '' @ z32 cp @ '' is blocked'') None)
       else
         let updated = record\<lparr>lp_state := state, lp_last_sync_at := Some now,
               lp_failure_count := (if state \<in> {NotLinked, Linking, Linked} then 0 else lp_failure_count record)\<rparr>
         in Inr (save_linked_peer updated s, updated)))"

definition save_linked_peer_state_with_lease ::
  "PubkyPublicKey \<Rightarrow> LinkedPeerState \<Rightarrow> PeerLinkOperationLease \<Rightarrow> instant \<Rightarrow> (sdk_error, LinkedPeerRecord) tx" where
  "save_linked_peer_state_with_lease cp state lease now =
     save_linked_peer_state_inner cp state None (Some lease) now"

section \<open>Recovery\<close>

text \<open>The result is \<^verbatim>\<open>RecoveryRequiredMark::new_episode\<close>.\<close>

definition mark_recovery_required_in_transaction_inner ::
  "PubkyPublicKey \<Rightarrow> PaykitReceiverPath \<Rightarrow> instant \<Rightarrow> bool \<Rightarrow> (sdk_error, bool) tx" where
  "mark_recovery_required_in_transaction_inner cp rp now bump_existing_episode s =
     (let record = linked_peer_or_default s cp rp in
      rbind (ensure_not_blocked record) (\<lambda>_.
      let new_episode = (lp_state record \<noteq> RecoveryRequiredState);
          updated = record\<lparr>lp_state := RecoveryRequiredState,
            lp_last_sync_at := (if new_episode \<or> lp_last_sync_at record = None then Some now else lp_last_sync_at record),
            lp_failure_count := (if new_episode \<or> bump_existing_episode then sat_inc (lp_failure_count record)
                                 else lp_failure_count record)\<rparr>;
          s1 = save_linked_peer updated s;
          s2 = (case encrypted_link_state s1 (cp, rp) of
                  None \<Rightarrow> s1
                | Some ls \<Rightarrow>
                    save_encrypted_link_state
                      \<lparr>ls_counterparty = cp, ls_path = ls_path ls, ls_link_snapshot = None,
                       ls_handshake_snapshot = None, ls_handshake_role = None,
                       ls_generation = sat_inc (ls_generation ls), ls_checkpointed_at = now\<rparr> s1)
      in Inr (s2, new_episode)))"

definition mark_recovery_required_in_transaction ::
  "PubkyPublicKey \<Rightarrow> PaykitReceiverPath \<Rightarrow> instant \<Rightarrow> (sdk_error, bool) tx" where
  "mark_recovery_required_in_transaction cp rp now = mark_recovery_required_in_transaction_inner cp rp now True"

definition mark_recovery_required_for_marker_in_transaction ::
  "PubkyPublicKey \<Rightarrow> PaykitReceiverPath \<Rightarrow> instant \<Rightarrow> (sdk_error, bool) tx" where
  "mark_recovery_required_for_marker_in_transaction cp rp now =
     mark_recovery_required_in_transaction_inner cp rp now False"

definition mark_recovery_required_inner ::
  "PubkyPublicKey \<Rightarrow> PaykitReceiverPath option \<Rightarrow> PeerLinkOperationLease option \<Rightarrow> instant \<Rightarrow> (sdk_error, bool) tx" where
  "mark_recovery_required_inner cp rp_opt lease now s =
     rbind (require_optional_lease s lease) (\<lambda>_.
     rbind (counterparty_receiver_path_for_operation cp rp_opt lease) (\<lambda>rp.
     if lease = None \<and> unexpired_lease_held s cp rp now
     then Inl (SdkPolicy (''counterparty '' @ z32 cp @ '' receiver '' @ receiver_path_str rp
                 @ '' already has an active link operation'') None)
     else mark_recovery_required_in_transaction cp rp now s))"

definition mark_recovery_required_with_lease ::
  "PubkyPublicKey \<Rightarrow> PeerLinkOperationLease \<Rightarrow> instant \<Rightarrow> (sdk_error, bool) tx" where
  "mark_recovery_required_with_lease cp lease now = mark_recovery_required_inner cp None (Some lease) now"

section \<open>Handshake and link checkpoints\<close>

text \<open>The two forms of a stored link state, and saving one with its peer record and report.\<close>

definition handshake_state ::
  "PubkyPublicKey \<Rightarrow> PaykitReceiverPath \<Rightarrow> string \<Rightarrow> EncryptedLinkHandshakeRole \<Rightarrow> u64 \<Rightarrow> instant
    \<Rightarrow> EncryptedLinkStateRecord" where
  "handshake_state cp rp snapshot role generation now =
     \<lparr>ls_counterparty = cp, ls_path = rp, ls_link_snapshot = None, ls_handshake_snapshot = Some snapshot,
      ls_handshake_role = Some role, ls_generation = generation, ls_checkpointed_at = now\<rparr>"

definition established_state ::
  "PubkyPublicKey \<Rightarrow> PaykitReceiverPath \<Rightarrow> string \<Rightarrow> u64 \<Rightarrow> instant \<Rightarrow> EncryptedLinkStateRecord" where
  "established_state cp rp snapshot generation now =
     \<lparr>ls_counterparty = cp, ls_path = rp, ls_link_snapshot = Some snapshot, ls_handshake_snapshot = None,
      ls_handshake_role = None, ls_generation = generation, ls_checkpointed_at = now\<rparr>"

definition save_peer_and_link ::
  "PubkyPublicKey \<Rightarrow> PaykitReceiverPath \<Rightarrow> LinkedPeerRecord \<Rightarrow> LinkedPeerState \<Rightarrow> EncryptedLinkStateRecord \<Rightarrow> instant
    \<Rightarrow> (sdk_error, LinkedPeerHandshakeReport) tx" where
  "save_peer_and_link cp rp peer state ls now s =
     (let peer' = peer\<lparr>lp_state := state, lp_last_sync_at := Some now, lp_failure_count := 0\<rparr>
      in Inr (save_encrypted_link_state ls (save_linked_peer peer' s),
              \<lparr>hr_counterparty = cp, hr_path = rp, hr_state = lp_state peer',
               hr_generation = ls_generation ls, hr_handshake_role = ls_handshake_role ls\<rparr>))"

definition save_link_handshake_state_inner ::
  "PubkyPublicKey \<Rightarrow> PaykitReceiverPath option \<Rightarrow> EncryptedLinkHandshakeRole \<Rightarrow> string
    \<Rightarrow> PeerLinkOperationLease option \<Rightarrow> instant \<Rightarrow> (sdk_error, LinkedPeerHandshakeReport) tx" where
  "save_link_handshake_state_inner cp rp_opt role snapshot lease now s =
     rbind (require_optional_lease s lease) (\<lambda>_.
     rbind (counterparty_receiver_path_for_operation cp rp_opt lease) (\<lambda>rp.
     let peer = linked_peer_or_default s cp rp in
     rbind (ensure_not_blocked peer) (\<lambda>_.
     let generation = (case encrypted_link_state s (cp, rp) of
           Some ls \<Rightarrow> sat_inc (ls_generation ls) | None \<Rightarrow> 0)
     in save_peer_and_link cp rp peer Linking (handshake_state cp rp snapshot role generation now) now s)))"

definition save_link_handshake_state_with_lease ::
  "PubkyPublicKey \<Rightarrow> EncryptedLinkHandshakeRole \<Rightarrow> string \<Rightarrow> PeerLinkOperationLease \<Rightarrow> instant
    \<Rightarrow> (sdk_error, LinkedPeerHandshakeReport) tx" where
  "save_link_handshake_state_with_lease cp role snapshot lease now =
     save_link_handshake_state_inner cp None role snapshot (Some lease) now"

text \<open>What both generation-checked saves do when the stored generation moved: report it.\<close>

definition report_moved_generation ::
  "PubkyPublicKey \<Rightarrow> PaykitReceiverPath \<Rightarrow> LinkedPeerRecord \<Rightarrow> EncryptedLinkStateRecord \<Rightarrow> instant
    \<Rightarrow> (sdk_error, LinkedPeerHandshakeReport) tx" where
  "report_moved_generation cp rp peer ls now s =
     (let (peer', report) = report_current_link_state cp rp peer ls now in Inr (save_linked_peer peer' s, report))"

definition save_link_handshake_state_if_generation_inner ::
  "PubkyPublicKey \<Rightarrow> PaykitReceiverPath option \<Rightarrow> EncryptedLinkHandshakeRole \<Rightarrow> string \<Rightarrow> u64 \<Rightarrow> instant
    \<Rightarrow> PeerLinkOperationLease option \<Rightarrow> (sdk_error, LinkedPeerHandshakeReport) tx" where
  "save_link_handshake_state_if_generation_inner cp rp_opt role snapshot expected now lease s =
     rbind (require_optional_lease s lease) (\<lambda>_.
     rbind (counterparty_receiver_path_for_operation cp rp_opt lease) (\<lambda>rp.
     let peer = linked_peer_or_default s cp rp in
     rbind (ensure_not_blocked peer) (\<lambda>_.
     let save = save_peer_and_link cp rp peer Linking (handshake_state cp rp snapshot role (sat_inc expected) now) now s
     in case encrypted_link_state s (cp, rp) of
          Some ls \<Rightarrow> if ls_generation ls \<noteq> expected then report_moved_generation cp rp peer ls now s else save
        | None \<Rightarrow> save)))"

definition save_link_handshake_state_if_generation_with_lease ::
  "PubkyPublicKey \<Rightarrow> EncryptedLinkHandshakeRole \<Rightarrow> string \<Rightarrow> u64 \<Rightarrow> PeerLinkOperationLease \<Rightarrow> instant
    \<Rightarrow> (sdk_error, LinkedPeerHandshakeReport) tx" where
  "save_link_handshake_state_if_generation_with_lease cp role snapshot expected lease now =
     save_link_handshake_state_if_generation_inner cp None role snapshot expected now (Some lease)"

definition save_linked_peer_link_state_if_generation_inner ::
  "PubkyPublicKey \<Rightarrow> string \<Rightarrow> u64 \<Rightarrow> PeerLinkOperationLease option \<Rightarrow> instant
    \<Rightarrow> (sdk_error, LinkedPeerHandshakeReport) tx" where
  "save_linked_peer_link_state_if_generation_inner cp snapshot expected lease now s =
     rbind (require_optional_lease s lease) (\<lambda>_.
     rbind (counterparty_receiver_path_for_operation cp None lease) (\<lambda>rp.
     let peer = linked_peer_or_default s cp rp in
     rbind (ensure_not_blocked peer) (\<lambda>_.
     let save = save_peer_and_link cp rp peer Linked (established_state cp rp snapshot (sat_inc expected) now) now s
     in case encrypted_link_state s (cp, rp) of
          Some ls \<Rightarrow> if ls_generation ls \<noteq> expected then report_moved_generation cp rp peer ls now s else save
        | None \<Rightarrow> save)))"

definition save_linked_peer_link_state_if_generation_with_lease ::
  "PubkyPublicKey \<Rightarrow> string \<Rightarrow> u64 \<Rightarrow> PeerLinkOperationLease \<Rightarrow> instant
    \<Rightarrow> (sdk_error, LinkedPeerHandshakeReport) tx" where
  "save_linked_peer_link_state_if_generation_with_lease cp snapshot expected lease now =
     save_linked_peer_link_state_if_generation_inner cp snapshot expected (Some lease) now"

section \<open>Blocking and the peer guards\<close>

definition clear_encrypted_link_state ::
  "PubkyPublicKey \<Rightarrow> PaykitReceiverPath \<Rightarrow> instant \<Rightarrow> StorageState \<Rightarrow> StorageState" where
  "clear_encrypted_link_state cp rp now s =
     (case encrypted_link_state s (cp, rp) of
        None \<Rightarrow> s
      | Some ls \<Rightarrow>
          save_encrypted_link_state
            \<lparr>ls_counterparty = cp, ls_path = ls_path ls, ls_link_snapshot = None, ls_handshake_snapshot = None,
             ls_handshake_role = None, ls_generation = sat_inc (ls_generation ls), ls_checkpointed_at = now\<rparr> s)"

definition block_peer_with_claim ::
  "PubkyPublicKey \<Rightarrow> PeerLinkOperationLease \<Rightarrow> instant \<Rightarrow> (sdk_error, LinkedPeerRecord) tx" where
  "block_peer_with_claim cp lease now s =
     rbind (require_peer_link_operation_lease s lease) (\<lambda>_.
     let rp = le_path lease;
         record = (linked_peer_or_default s cp rp)\<lparr>lp_state := Blocked, lp_last_sync_at := Some now, lp_failure_count := 0\<rparr>
     in Inr (clear_encrypted_link_state cp rp now (save_linked_peer record s), record))"

definition unblock_peer_with_claim ::
  "PubkyPublicKey \<Rightarrow> PeerLinkOperationLease \<Rightarrow> instant \<Rightarrow> (sdk_error, LinkedPeerRecord) tx" where
  "unblock_peer_with_claim cp lease now s =
     rbind (require_peer_link_operation_lease s lease) (\<lambda>_.
     let rp = le_path lease; record = linked_peer_or_default s cp rp in
     if lp_state record \<noteq> Blocked then Inr (s, record)
     else
       let updated = record\<lparr>lp_state := NotLinked, lp_last_sync_at := Some now, lp_failure_count := 0\<rparr>
       in Inr (clear_encrypted_link_state cp rp now (save_linked_peer updated s), updated))"

definition deterministic_handshake_role :: "PubkyPublicKey \<Rightarrow> PubkyPublicKey \<Rightarrow> EncryptedLinkHandshakeRole" where
  "deterministic_handshake_role local_key cp = (if z32 local_key < z32 cp then Initiator else Responder)"

datatype PrivateQueueReadiness = Ready | PendingHandshake

definition private_queue_readiness ::
  "StorageState \<Rightarrow> PubkyPublicKey \<Rightarrow> PaykitReceiverPath \<Rightarrow> PrivateQueueReadiness sdk_res" where
  "private_queue_readiness s cp rp =
     (let state = encrypted_link_state s (cp, rp);
          has_active_link = (case state of Some ls \<Rightarrow> ls_link_snapshot ls \<noteq> None | None \<Rightarrow> False);
          has_restorable_handshake =
            (case state of Some ls \<Rightarrow> ls_handshake_snapshot ls \<noteq> None \<and> ls_handshake_role ls \<noteq> None | None \<Rightarrow> False);
          no_link = SdkRecoveryRequired
            (''no active or in-progress Encrypted Link state for counterparty '' @ z32 cp) None
      in case linked_peer s (cp, rp) of
           None \<Rightarrow> Inl no_link
         | Some peer \<Rightarrow>
             (case lp_state peer of
                Linked \<Rightarrow> if has_active_link then Inr Ready else Inl no_link
              | Linking \<Rightarrow>
                  if has_restorable_handshake then Inr PendingHandshake
                  else Inl (SdkRecoveryRequired
                         (''Encrypted Link Handshake state is incomplete for counterparty '' @ z32 cp) None)
              | RecoveryRequiredState \<Rightarrow>
                  Inl (SdkRecoveryRequired (''Encrypted Link recovery is required for counterparty '' @ z32 cp) None)
              | Blocked \<Rightarrow> Inl (SdkPolicy (''counterparty '' @ z32 cp @ '' is blocked'') None)
              | NotLinked \<Rightarrow> Inl no_link))"

definition ensure_peer_not_blocked :: "StorageState \<Rightarrow> PubkyPublicKey \<Rightarrow> PaykitReceiverPath \<Rightarrow> unit sdk_res" where
  "ensure_peer_not_blocked s cp rp =
     (if map_option lp_state (linked_peer s (cp, rp)) = Some Blocked
      then Inl (SdkPolicy (''counterparty '' @ z32 cp @ '' is blocked'') None) else Inr ())"

definition ensure_peer_not_recovery_required_or_blocked ::
  "StorageState \<Rightarrow> PubkyPublicKey \<Rightarrow> PaykitReceiverPath \<Rightarrow> unit sdk_res" where
  "ensure_peer_not_recovery_required_or_blocked s cp rp =
     (if map_option lp_state (linked_peer s (cp, rp)) = Some RecoveryRequiredState
      then Inl (SdkRecoveryRequired (''Encrypted Link recovery is required for counterparty '' @ z32 cp) None)
      else if map_option lp_state (linked_peer s (cp, rp)) = Some Blocked
      then Inl (SdkPolicy (''counterparty '' @ z32 cp @ '' is blocked'') None) else Inr ())"

section \<open>The effect of a link operation\<close>

text \<open>
  Every successful operation saves one peer record and at most one link state of the same peer.
  The summary \<open>peer_trans\<close> holds what the properties need: the saved link state is coherent and has
  the next generation, and, unless the operation lifts a block, a blocked peer stays blocked
  without link material.
\<close>

definition link_coherent :: "EncryptedLinkStateRecord \<Rightarrow> bool" where
  "link_coherent ls \<longleftrightarrow> (ls_link_snapshot ls = None \<or> ls_handshake_snapshot ls = None)
     \<and> (ls_handshake_role ls = None \<longleftrightarrow> ls_handshake_snapshot ls = None)"

definition link_clean :: "EncryptedLinkStateRecord \<Rightarrow> bool" where
  "link_clean ls \<longleftrightarrow> ls_link_snapshot ls = None \<and> ls_handshake_snapshot ls = None"

definition peer_blocked :: "StorageState \<Rightarrow> peer_key \<Rightarrow> bool" where
  "peer_blocked s k \<longleftrightarrow> map_option lp_state (linked_peer s k) = Some Blocked"

definition peer_update :: "LinkedPeerRecord \<Rightarrow> EncryptedLinkStateRecord option \<Rightarrow> StorageState \<Rightarrow> StorageState" where
  "peer_update p lo s =
     (case lo of None \<Rightarrow> save_linked_peer p s | Some ls \<Rightarrow> save_encrypted_link_state ls (save_linked_peer p s))"

definition next_generation :: "StorageState \<Rightarrow> peer_key \<Rightarrow> EncryptedLinkStateRecord \<Rightarrow> bool" where
  "next_generation s k ls \<longleftrightarrow>
     pred_option (\<lambda>old. ls_generation ls = sat_inc (ls_generation old)) (encrypted_link_state s k)"

definition peer_trans :: "bool \<Rightarrow> peer_key \<Rightarrow> StorageState \<Rightarrow> StorageState \<Rightarrow> bool" where
  "peer_trans lifts k s t \<longleftrightarrow>
     (\<exists>p lo. lp_key p = k \<and> t = peer_update p lo s
        \<and> (peer_blocked s k \<and> \<not> lifts \<longrightarrow> lp_state p = Blocked \<and> pred_option link_clean lo)
        \<and> pred_option (\<lambda>ls. ls_key ls = k \<and> link_coherent ls \<and> next_generation s k ls) lo)"

lemma peer_transI:
  "lp_key p = k \<Longrightarrow> t = peer_update p lo s
   \<Longrightarrow> (peer_blocked s k \<and> \<not> lifts \<Longrightarrow> lp_state p = Blocked \<and> pred_option link_clean lo)
   \<Longrightarrow> (\<And>ls. lo = Some ls \<Longrightarrow> ls_key ls = k \<and> link_coherent ls \<and> next_generation s k ls)
   \<Longrightarrow> peer_trans lifts k s t"
  unfolding peer_trans_def by (intro exI [of _ p] exI [of _ lo]) (auto simp: option.pred_set)

lemma linked_peer_or_default_key:
  "tables_inv s \<Longrightarrow> lp_key (linked_peer_or_default s cp rp) = (cp, rp)"
  by (auto simp: linked_peer_or_default_def default_linked_peer_def tables_inv_def linked_peer_def
      lp_key_def [symmetric] dest: hm_wf_get split: option.splits)
     (simp add: lp_key_def)

lemma link_state_key: "tables_inv s \<Longrightarrow> encrypted_link_state s k = Some ls \<Longrightarrow> (ls_counterparty ls, ls_path ls) = k"
  by (auto simp: tables_inv_def encrypted_link_state_def ls_key_def dest: hm_wf_get)

lemma peer_blocked_default:
  "lp_state (linked_peer_or_default s cp rp) \<noteq> Blocked \<longleftrightarrow> \<not> peer_blocked s (cp, rp)"
  by (auto simp: linked_peer_or_default_def peer_blocked_def default_linked_peer_def split: option.splits)

lemma ensure_not_blocked_iff:
  "ensure_not_blocked (linked_peer_or_default s cp rp) = Inr () \<longleftrightarrow> \<not> peer_blocked s (cp, rp)"
  using peer_blocked_default by (auto simp: ensure_not_blocked_def)

lemma lp_key_update [simp]:
  "lp_key (p\<lparr>lp_state := st, lp_last_sync_at := t, lp_failure_count := n\<rparr>) = lp_key p"
  "lp_key (p\<lparr>lp_state := st, lp_last_sync_at := t\<rparr>) = lp_key p"
  by (simp_all add: lp_key_def)

lemma clear_link_trans:
  assumes "tables_inv s" and "lp_key p = (cp, rp)"
    and "peer_blocked s (cp, rp) \<and> \<not> lifts \<Longrightarrow> lp_state p = Blocked"
  shows "peer_trans lifts (cp, rp) s (clear_encrypted_link_state cp rp now (save_linked_peer p s))"
proof (cases "encrypted_link_state s (cp, rp)")
  case None
  with assms show ?thesis
    by (intro peer_transI [of p _ _ None]) (auto simp: clear_encrypted_link_state_def peer_update_def)
next
  case (Some ls)
  let ?ls = "\<lparr>ls_counterparty = cp, ls_path = ls_path ls, ls_link_snapshot = None, ls_handshake_snapshot = None,
             ls_handshake_role = None, ls_generation = sat_inc (ls_generation ls), ls_checkpointed_at = now\<rparr>"
  have "ls_path ls = rp" using link_state_key [OF assms(1) Some] by simp
  with Some assms show ?thesis
    by (intro peer_transI [of p _ _ "Some ?ls"])
       (auto simp: clear_encrypted_link_state_def peer_update_def link_clean_def link_coherent_def ls_key_def
        next_generation_def)
qed

lemma mark_recovery_trans:
  assumes "tables_inv s" and "mark_recovery_required_in_transaction_inner cp rp now bump s = Inr (t, r)"
  shows "peer_trans False (cp, rp) s t"
proof -
  have nb: "\<not> peer_blocked s (cp, rp)"
    using assms(2) by (auto simp: mark_recovery_required_in_transaction_inner_def Let_def rbind_Inr_iff
        ensure_not_blocked_iff)
  let ?r = "linked_peer_or_default s cp rp"
  let ?new = "lp_state ?r \<noteq> RecoveryRequiredState"
  let ?p = "?r\<lparr>lp_state := RecoveryRequiredState,
      lp_last_sync_at := (if ?new \<or> lp_last_sync_at ?r = None then Some now else lp_last_sync_at ?r),
      lp_failure_count := (if ?new \<or> bump then sat_inc (lp_failure_count ?r) else lp_failure_count ?r)\<rparr>"
  have "lp_key ?p = (cp, rp)" using linked_peer_or_default_key [OF assms(1)] by simp
  moreover have "t = clear_encrypted_link_state cp rp now (save_linked_peer ?p s)"
    using assms(2)
    unfolding mark_recovery_required_in_transaction_inner_def Let_def rbind_Inr_iff clear_encrypted_link_state_def
    by auto
  ultimately show ?thesis using clear_link_trans [OF assms(1), of ?p cp rp False now] nb by simp
qed

lemma save_peer_and_link_trans:
  assumes "save_peer_and_link cp rp p st ls now s = Inr (t, r)" and "lp_key p = (cp, rp)"
    and "\<not> peer_blocked s (cp, rp)" and "ls_key ls = (cp, rp)" and "link_coherent ls" and "next_generation s (cp, rp) ls"
  shows "peer_trans False (cp, rp) s t"
proof -
  let ?p = "p\<lparr>lp_state := st, lp_last_sync_at := Some now, lp_failure_count := 0\<rparr>"
  have "t = peer_update ?p (Some ls) s"
    using assms(1) by (auto simp: save_peer_and_link_def peer_update_def Let_def)
  with assms show ?thesis by (intro peer_transI [of ?p _ _ "Some ls"]) auto
qed

lemma report_current_link_state_key:
  "lp_key (fst (report_current_link_state cp rp p ls now)) = lp_key p"
  "hr_generation (snd (report_current_link_state cp rp p ls now)) = ls_generation ls"
  by (simp_all add: report_current_link_state_def)

lemma report_moved_trans:
  assumes "report_moved_generation cp rp p ls now s = Inr (t, r)" and "lp_key p = (cp, rp)"
    and "\<not> peer_blocked s (cp, rp)"
  shows "peer_trans False (cp, rp) s t" and "encrypted_link_state t = encrypted_link_state s"
    and "hr_generation r = ls_generation ls"
proof -
  obtain p' where p': "lp_key p' = (cp, rp)" "t = save_linked_peer p' s" "hr_generation r = ls_generation ls"
    using assms(1,2) report_current_link_state_key [of cp rp p ls now]
    by (cases "report_current_link_state cp rp p ls now") (auto simp: report_moved_generation_def)
  with assms(3) show "peer_trans False (cp, rp) s t" and "encrypted_link_state t = encrypted_link_state s"
      and "hr_generation r = ls_generation ls"
    by (auto intro!: peer_transI [of p' _ _ None] simp: peer_update_def)
qed

lemma stored_forms:
  "ls_key (handshake_state cp rp snap role g now) = (cp, rp)" "link_coherent (handshake_state cp rp snap role g now)"
  "ls_generation (handshake_state cp rp snap role g now) = g"
  "ls_key (established_state cp rp snap g now) = (cp, rp)" "link_coherent (established_state cp rp snap g now)"
  "ls_generation (established_state cp rp snap g now) = g"
  by (simp_all add: handshake_state_def established_state_def ls_key_def link_coherent_def)

lemma path_for_operation_iff:
  "counterparty_receiver_path_for_operation cp rp_opt lease = Inr rp \<longleftrightarrow>
     (case lease of Some l \<Rightarrow> rp = le_path l | None \<Rightarrow> rp_opt = Some rp)"
  by (auto simp: counterparty_receiver_path_for_operation_def split: option.splits)

lemma save_state_trans:
  assumes "tables_inv s" and "save_linked_peer_state_inner cp st rp_opt lease now s = Inr (t, r)"
  shows "\<exists>rp. peer_trans False (cp, rp) s t"
proof -
  obtain rp where path: "counterparty_receiver_path_for_operation cp rp_opt lease = Inr rp"
    using assms(2) by (auto simp: save_linked_peer_state_inner_def rbind_Inr_iff)
  have rp: "\<not> (lp_state (linked_peer_or_default s cp rp) = Blocked \<and> st \<noteq> Blocked)"
      "t = save_linked_peer r s" "lp_state r = st"
      "lp_key r = lp_key (linked_peer_or_default s cp rp)"
    using assms(2) path by (auto simp: save_linked_peer_state_inner_def rbind_Inr_iff Let_def split: if_splits)
  have "peer_trans False (cp, rp) s t"
    using rp linked_peer_or_default_key [OF assms(1), of cp rp] peer_blocked_default [of s cp rp]
    by (intro peer_transI [of r _ _ None]) (auto simp: peer_update_def)
  then show ?thesis ..
qed

lemma save_handshake_trans:
  assumes "tables_inv s" and "save_link_handshake_state_inner cp rp_opt role snap lease now s = Inr (t, r)"
  shows "\<exists>rp. peer_trans False (cp, rp) s t"
proof -
  obtain rp g where rp: "\<not> peer_blocked s (cp, rp)"
      "g = (case encrypted_link_state s (cp, rp) of Some ls \<Rightarrow> sat_inc (ls_generation ls) | None \<Rightarrow> 0)"
      "save_peer_and_link cp rp (linked_peer_or_default s cp rp) Linking (handshake_state cp rp snap role g now) now s = Inr (t, r)"
    using assms(2) by (auto simp: save_link_handshake_state_inner_def rbind_Inr_iff Let_def ensure_not_blocked_iff)
  then have "peer_trans False (cp, rp) s t"
    using linked_peer_or_default_key [OF assms(1)]
    by (intro save_peer_and_link_trans [OF rp(3)])
       (auto simp: stored_forms next_generation_def option.pred_set split: option.splits)
  then show ?thesis ..
qed

text \<open>Both generation-checked saves have this shape.\<close>

lemma generation_checked_trans:
  assumes "tables_inv s" and "\<not> peer_blocked s (cp, rp)" and "ls_key new = (cp, rp)" and "link_coherent new"
    and "ls_generation new = sat_inc expected"
    and "(case encrypted_link_state s (cp, rp) of
            Some ls \<Rightarrow> if ls_generation ls \<noteq> expected
              then report_moved_generation cp rp (linked_peer_or_default s cp rp) ls now s
              else save_peer_and_link cp rp (linked_peer_or_default s cp rp) st new now s
          | None \<Rightarrow> save_peer_and_link cp rp (linked_peer_or_default s cp rp) st new now s) = Inr (t, r)"
  shows "peer_trans False (cp, rp) s t"
proof (cases "\<exists>ls. encrypted_link_state s (cp, rp) = Some ls \<and> ls_generation ls \<noteq> expected")
  case True
  then show ?thesis
    using assms report_moved_trans(1) linked_peer_or_default_key [OF assms(1)] by (auto split: option.splits if_splits)
next
  case False
  then have "save_peer_and_link cp rp (linked_peer_or_default s cp rp) st new now s = Inr (t, r)"
    using assms(6) by (auto split: option.splits if_splits)
  moreover have "next_generation s (cp, rp) new"
    using False assms(5) by (auto simp: next_generation_def option.pred_set)
  ultimately show ?thesis
    using assms linked_peer_or_default_key [OF assms(1)] by (intro save_peer_and_link_trans) auto
qed

lemma save_handshake_gen_trans:
  assumes "tables_inv s"
    and "save_link_handshake_state_if_generation_inner cp rp_opt role snap expected now lease s = Inr (t, r)"
  shows "\<exists>rp. peer_trans False (cp, rp) s t"
proof -
  obtain rp where nb: "\<not> peer_blocked s (cp, rp)"
    and rest: "(case encrypted_link_state s (cp, rp) of
            Some ls \<Rightarrow> if ls_generation ls \<noteq> expected
              then report_moved_generation cp rp (linked_peer_or_default s cp rp) ls now s
              else save_peer_and_link cp rp (linked_peer_or_default s cp rp) Linking
                     (handshake_state cp rp snap role (sat_inc expected) now) now s
          | None \<Rightarrow> save_peer_and_link cp rp (linked_peer_or_default s cp rp) Linking
                     (handshake_state cp rp snap role (sat_inc expected) now) now s) = Inr (t, r)"
    using assms(2)
    by (auto simp: save_link_handshake_state_if_generation_inner_def rbind_Inr_iff Let_def ensure_not_blocked_iff)
  show ?thesis using generation_checked_trans [OF assms(1) nb _ _ _ rest] by (auto simp: stored_forms)
qed

lemma save_link_gen_trans:
  assumes "tables_inv s" and "save_linked_peer_link_state_if_generation_inner cp snap expected lease now s = Inr (t, r)"
  shows "\<exists>rp. peer_trans False (cp, rp) s t"
proof -
  obtain rp where nb: "\<not> peer_blocked s (cp, rp)"
    and rest: "(case encrypted_link_state s (cp, rp) of
            Some ls \<Rightarrow> if ls_generation ls \<noteq> expected
              then report_moved_generation cp rp (linked_peer_or_default s cp rp) ls now s
              else save_peer_and_link cp rp (linked_peer_or_default s cp rp) Linked
                     (established_state cp rp snap (sat_inc expected) now) now s
          | None \<Rightarrow> save_peer_and_link cp rp (linked_peer_or_default s cp rp) Linked
                     (established_state cp rp snap (sat_inc expected) now) now s) = Inr (t, r)"
    using assms(2)
    by (auto simp: save_linked_peer_link_state_if_generation_inner_def rbind_Inr_iff Let_def ensure_not_blocked_iff)
  show ?thesis using generation_checked_trans [OF assms(1) nb _ _ _ rest] by (auto simp: stored_forms)
qed

lemma block_trans:
  assumes "tables_inv s" and "block_peer_with_claim cp lease now s = Inr (t, r)"
  shows "peer_trans False (cp, le_path lease) s t"
proof -
  have "t = clear_encrypted_link_state cp (le_path lease) now (save_linked_peer r s)" "lp_state r = Blocked"
      "lp_key r = (cp, le_path lease)"
    using assms(2) linked_peer_or_default_key [OF assms(1)]
    by (auto simp: block_peer_with_claim_def rbind_Inr_iff Let_def)
  then show ?thesis using clear_link_trans [OF assms(1)] by blast
qed

lemma unblock_trans:
  assumes "tables_inv s" and "unblock_peer_with_claim cp lease now s = Inr (t, r)"
  shows "t = s \<or> peer_trans True (cp, le_path lease) s t"
  using assms clear_link_trans [OF assms(1), of r cp "le_path lease" True now]
    linked_peer_or_default_key [OF assms(1), of cp "le_path lease"]
  by (auto simp: unblock_peer_with_claim_def rbind_Inr_iff Let_def split: if_splits)

section \<open>Sequences of link operations\<close>

text \<open>One committed link operation other than unblocking, and one that may also unblock.\<close>

inductive link_step :: "StorageState \<Rightarrow> StorageState \<Rightarrow> bool" where
  save_state: "save_linked_peer_state_inner cp st rp_opt lease now s = Inr (t, r) \<Longrightarrow> link_step s t"
| mark_recovery: "mark_recovery_required_in_transaction_inner cp rp now bump s = Inr (t, b) \<Longrightarrow> link_step s t"
| save_handshake: "save_link_handshake_state_inner cp rp_opt role snap lease now s = Inr (t, h) \<Longrightarrow> link_step s t"
| save_handshake_gen:
    "save_link_handshake_state_if_generation_inner cp rp_opt role snap g now lease s = Inr (t, h) \<Longrightarrow> link_step s t"
| save_link_gen: "save_linked_peer_link_state_if_generation_inner cp snap g lease now s = Inr (t, h) \<Longrightarrow> link_step s t"
| block: "block_peer_with_claim cp lease now s = Inr (t, r) \<Longrightarrow> link_step s t"

inductive link_or_unblock_step :: "StorageState \<Rightarrow> StorageState \<Rightarrow> bool" where
  link: "link_step s t \<Longrightarrow> link_or_unblock_step s t"
| unblock: "unblock_peer_with_claim cp lease now s = Inr (t, r) \<Longrightarrow> link_or_unblock_step s t"

lemma link_step_trans: "link_step s t \<Longrightarrow> tables_inv s \<Longrightarrow> \<exists>k. peer_trans False k s t"
  by (induction rule: link_step.induct)
     (blast dest: save_state_trans mark_recovery_trans save_handshake_trans save_handshake_gen_trans
        save_link_gen_trans block_trans)+

lemma link_or_unblock_trans:
  "link_or_unblock_step s t \<Longrightarrow> tables_inv s \<Longrightarrow> t = s \<or> (\<exists>lifts k. peer_trans lifts k s t)"
  by (induction rule: link_or_unblock_step.induct) (blast dest: link_step_trans unblock_trans)+

text \<open>Reads after the writes of one operation.\<close>

lemma peer_update_reads:
  assumes "lp_key p = k" and "pred_option (\<lambda>ls. ls_key ls = k) lo"
  shows "linked_peer (peer_update p lo s) j = (if j = k then Some p else linked_peer s j)"
    and "encrypted_link_state (peer_update p lo s) j
      = (case lo of Some ls \<Rightarrow> if j = k then Some ls else encrypted_link_state s j | None \<Rightarrow> encrypted_link_state s j)"
  using assms by (auto simp: peer_update_def peers.load_save links.load_save split: option.splits)

lemma peer_trans_link:
  assumes "peer_trans lifts k s t"
  shows "j \<noteq> k \<Longrightarrow> encrypted_link_state t j = encrypted_link_state s j"
    and "encrypted_link_state t k = encrypted_link_state s k
      \<or> (\<exists>ls. encrypted_link_state t k = Some ls \<and> link_coherent ls \<and> next_generation s k ls
            \<and> (peer_blocked s k \<and> \<not> lifts \<longrightarrow> link_clean ls))"
    and "j \<noteq> k \<Longrightarrow> linked_peer t j = linked_peer s j"
    and "peer_blocked s k \<Longrightarrow> \<not> lifts \<Longrightarrow> peer_blocked t k"
proof -
  obtain p lo where t: "lp_key p = k" "t = peer_update p lo s"
      "peer_blocked s k \<and> \<not> lifts \<longrightarrow> lp_state p = Blocked \<and> pred_option link_clean lo"
      "pred_option (\<lambda>ls. ls_key ls = k \<and> link_coherent ls \<and> next_generation s k ls) lo"
    using assms unfolding peer_trans_def by blast
  then have "pred_option (\<lambda>ls. ls_key ls = k) lo" by (auto simp: option.pred_set)
  note reads = peer_update_reads [OF t(1) this, of s, folded t(2)]
  show "j \<noteq> k \<Longrightarrow> encrypted_link_state t j = encrypted_link_state s j"
    by (cases lo) (simp_all add: reads)
  show "encrypted_link_state t k = encrypted_link_state s k
      \<or> (\<exists>ls. encrypted_link_state t k = Some ls \<and> link_coherent ls \<and> next_generation s k ls
            \<and> (peer_blocked s k \<and> \<not> lifts \<longrightarrow> link_clean ls))"
    using t(3,4) by (cases lo) (auto simp: reads)
  show "j \<noteq> k \<Longrightarrow> linked_peer t j = linked_peer s j" by (simp add: reads)
  show "peer_blocked s k \<Longrightarrow> \<not> lifts \<Longrightarrow> peer_blocked t k"
    using t(3) reads(1) [of k] unfolding peer_blocked_def by simp
qed

lemma peer_trans_tables: "peer_trans lifts k s t \<Longrightarrow> tables_inv s \<Longrightarrow> tables_inv t"
  by (auto simp: peer_trans_def peer_update_def tables_inv_saves split: option.splits)

lemma peer_trans_storage_inv: "peer_trans lifts k s t \<Longrightarrow> storage_inv s \<Longrightarrow> storage_inv t"
  by (auto simp: peer_trans_def peer_update_def storage_inv_saves split: option.splits)

text \<open>The link states of a storage are keyed and coherent.\<close>

definition link_inv :: "StorageState \<Rightarrow> bool" where
  "link_inv s \<longleftrightarrow> storage_inv s \<and> (\<forall>k ls. encrypted_link_state s k = Some ls \<longrightarrow> link_coherent ls)"

lemma link_step_inv: "link_or_unblock_step s t \<Longrightarrow> link_inv s \<Longrightarrow> link_inv t"
proof -
  assume step: "link_or_unblock_step s t" and inv: "link_inv s"
  then have tables: "tables_inv s" by (simp add: link_inv_def storage_inv_def)
  show "link_inv t"
  proof (cases "t = s")
    case False
    then obtain lifts k where tr: "peer_trans lifts k s t"
      using link_or_unblock_trans [OF step tables] by blast
    have "link_coherent ls" if "encrypted_link_state t j = Some ls" for j ls
    proof (cases "encrypted_link_state t j = encrypted_link_state s j")
      case True
      with that have "encrypted_link_state s j = Some ls" by simp
      with inv show ?thesis unfolding link_inv_def by blast
    next
      case False
      then have "j = k" using peer_trans_link(1) [OF tr] by blast
      with False that show ?thesis using peer_trans_link(2) [OF tr] by auto
    qed
    then show ?thesis using peer_trans_storage_inv [OF tr] inv by (auto simp: link_inv_def)
  qed (simp add: inv)
qed

lemma link_inv_empty: "link_inv empty_storage"
  by (simp add: link_inv_def storage_inv_empty encrypted_link_state_def) (simp add: empty_storage_def)

interpretation link_system: invariant_system "\<lambda>s. s = empty_storage" link_or_unblock_step link_inv
  by unfold_locales (use link_inv_empty link_step_inv in auto)

text \<open>whatever sequence of link operations runs, a stored link state never holds an established
  link snapshot and a handshake snapshot at once, and it names a handshake role exactly when it
  holds a handshake snapshot.\<close>

theorem link_states_coherent:
  assumes "storage_inv s" and "list_all (\<lambda>(k, ls). link_coherent ls) (st_encrypted_link_states s)"
    and "link_or_unblock_step\<^sup>*\<^sup>* s t" and "encrypted_link_state t k = Some ls"
  shows "(ls_link_snapshot ls = None \<or> ls_handshake_snapshot ls = None)
    \<and> (ls_handshake_role ls = None \<longleftrightarrow> ls_handshake_snapshot ls = None)"
proof -
  have "link_inv s"
    using assms(1,2) by (auto simp: link_inv_def encrypted_link_state_def list_all_iff dest!: map_of_SomeD)
  then have "link_inv t" using assms(3) by (rule link_system.steps_inv [rotated])
  then have "link_coherent ls" using assms(4) unfolding link_inv_def by blast
  then show ?thesis by (simp add: link_coherent_def)
qed

text \<open>A storage in which a lease is held, and the states after a handshake and a link were saved.\<close>

definition sample_lease :: PeerLinkOperationLease where
  "sample_lease =
     \<lparr>le_counterparty = sample_peer, le_path = sample_path, le_lease_id = 0, le_claimed_at = 0, le_expires_at = 60\<rparr>"

definition sample_leased :: StorageState where
  "sample_leased = fst (claim_peer_link_operation sample_peer sample_path 0 60 empty_storage)"

definition sample_handshaking :: StorageState where
  "sample_handshaking =
     (case save_link_handshake_state_with_lease sample_peer Initiator ''hs'' sample_lease 1 sample_leased of
        Inl _ \<Rightarrow> empty_storage | Inr (t, _) \<Rightarrow> t)"

lemma sample_leased_inv: "storage_inv sample_leased"
  unfolding sample_leased_def
  by (rule storage_inv_claim_lease [OF storage_inv_empty]) (simp add: empty_storage_def)

lemma sample_lease_active: "require_peer_link_operation_lease sample_leased sample_lease = Inr ()"
  by code_simp

lemma sample_handshake_saved:
  "\<exists>r. save_link_handshake_state_with_lease sample_peer Initiator ''hs'' sample_lease 1 sample_leased
     = Inr (sample_handshaking, r)"
proof -
  have "is_ok (save_link_handshake_state_with_lease sample_peer Initiator ''hs'' sample_lease 1 sample_leased)"
    by code_simp
  then show ?thesis by (auto simp: is_ok_iff sample_handshaking_def)
qed

lemma sample_handshake_step: "link_step sample_leased sample_handshaking"
  using sample_handshake_saved save_handshake by (auto simp: save_link_handshake_state_with_lease_def)

lemma sample_handshaking_inv: "storage_inv sample_handshaking"
proof -
  obtain k where "peer_trans False k sample_leased sample_handshaking"
    using link_step_trans [OF sample_handshake_step] sample_leased_inv unfolding storage_inv_def by blast
  then show ?thesis using peer_trans_storage_inv sample_leased_inv by blast
qed

lemma sample_handshaking_link:
  "encrypted_link_state sample_handshaking (sample_peer, sample_path)
     = Some (handshake_state sample_peer sample_path ''hs'' Initiator 0 1)"
  by code_simp

theorem link_states_coherent_witness:
  "\<exists>ls. encrypted_link_state sample_handshaking (sample_peer, sample_path) = Some ls
     \<and> (ls_link_snapshot ls = None \<or> ls_handshake_snapshot ls = None)"
proof -
  have "list_all (\<lambda>(k, ls). link_coherent ls) (st_encrypted_link_states sample_leased)" by code_simp
  moreover have "link_or_unblock_step\<^sup>*\<^sup>* sample_leased sample_handshaking"
    using sample_handshake_step by (blast intro: link_or_unblock_step.link)
  ultimately show ?thesis
    using link_states_coherent [OF sample_leased_inv _ _ sample_handshaking_link] sample_handshaking_link by blast
qed

section \<open>Generations\<close>

lemma peer_trans_generation:
  assumes "peer_trans lifts k s t" and "encrypted_link_state s j = Some old"
  shows "\<exists>new. encrypted_link_state t j = Some new \<and> (new = old \<or> ls_generation new = sat_inc (ls_generation old))"
proof -
  show ?thesis
  proof (cases "encrypted_link_state t j = encrypted_link_state s j")
    case True
    with assms(2) show ?thesis by simp
  next
    case False
    then have "j = k" using peer_trans_link(1) [OF assms(1)] by blast
    with False assms(2) show ?thesis
      using peer_trans_link(2) [OF assms(1)] by (auto simp: next_generation_def)
  qed
qed

lemma generation_chain:
  assumes "newer = new \<or> ls_generation newer = sat_inc (ls_generation new)"
    and "ls_generation old \<le> ls_generation new"
    and "new = old \<or> ls_generation old < ls_generation new \<or> ls_generation new = - 1"
  shows "ls_generation old \<le> ls_generation newer
    \<and> (newer = old \<or> ls_generation old < ls_generation newer \<or> ls_generation newer = - 1)"
  using assms(1)
proof
  assume "newer = new"
  with assms show ?thesis by blast
next
  assume next_gen: "ls_generation newer = sat_inc (ls_generation new)"
  show ?thesis
  proof (cases "ls_generation new = - 1")
    case True
    with next_gen have "ls_generation newer = - 1" by (simp add: sat_inc_def)
    with True assms(2) show ?thesis by simp
  next
    case False
    then have "ls_generation new < ls_generation newer" using next_gen sat_inc_gt by metis
    with assms(2) have "ls_generation old < ls_generation newer" by (rule order.strict_trans1)
    then show ?thesis by simp
  qed
qed

text \<open>the generation versions the link state of a peer: over any sequence of link operations it
  never decreases, the link state never disappears, and while the generation is the same (and below
  its maximum) so is the whole stored link state.\<close>

theorem link_generation_versions:
  assumes "storage_inv s" and "link_or_unblock_step\<^sup>*\<^sup>* s t" and "encrypted_link_state s k = Some old"
  shows "\<exists>new. encrypted_link_state t k = Some new \<and> ls_generation old \<le> ls_generation new
    \<and> (new = old \<or> ls_generation old < ls_generation new \<or> ls_generation new = - 1)"
proof -
  from assms(2) have "storage_inv t \<and> (\<exists>new. encrypted_link_state t k = Some new
     \<and> ls_generation old \<le> ls_generation new
     \<and> (new = old \<or> ls_generation old < ls_generation new \<or> ls_generation new = - 1))"
  proof (induction rule: rtranclp_induct)
    case base
    then show ?case using assms(1,3) by simp
  next
    case (step t u)
    then obtain new where new: "encrypted_link_state t k = Some new" "ls_generation old \<le> ls_generation new"
        "new = old \<or> ls_generation old < ls_generation new \<or> ls_generation new = - 1"
      by blast
    show ?case
    proof (cases "u = t")
      case False
      then obtain lifts j where tr: "peer_trans lifts j t u"
        using link_or_unblock_trans [OF step.hyps(2)] step.IH by (auto simp: storage_inv_def)
      obtain newer where "encrypted_link_state u k = Some newer"
          "newer = new \<or> ls_generation newer = sat_inc (ls_generation new)"
        using peer_trans_generation [OF tr new(1)] by blast
      moreover have "ls_generation old \<le> ls_generation newer \<and>
          (newer = old \<or> ls_generation old < ls_generation newer \<or> ls_generation newer = - 1)"
        using calculation(2) new(2,3) by (rule generation_chain)
      ultimately show ?thesis using peer_trans_storage_inv [OF tr] step.IH by blast
    qed (use step in blast)
  qed
  then show ?thesis by blast
qed

text \<open>a checkpoint computed against a generation that has moved since is not stored: a save whose
  expected generation differs from the stored one leaves the link state table untouched and reports
  the stored generation.\<close>

theorem stale_generation_not_stored:
  assumes "tables_inv s" and "encrypted_link_state s (cp, le_path lease) = Some ls" and "ls_generation ls \<noteq> expected"
    and "save_linked_peer_link_state_if_generation_with_lease cp snap expected lease now s = Inr (t, r)
       \<or> save_link_handshake_state_if_generation_with_lease cp role snap expected lease now s = Inr (t, r)"
  shows "encrypted_link_state t = encrypted_link_state s \<and> hr_generation r = ls_generation ls"
proof -
  let ?p = "linked_peer_or_default s cp (le_path lease)"
  have "report_moved_generation cp (le_path lease) ?p ls now s = Inr (t, r)" "\<not> peer_blocked s (cp, le_path lease)"
    using assms(2-4)
    by (auto simp: save_linked_peer_link_state_if_generation_with_lease_def
        save_linked_peer_link_state_if_generation_inner_def save_link_handshake_state_if_generation_with_lease_def
        save_link_handshake_state_if_generation_inner_def rbind_Inr_iff Let_def ensure_not_blocked_iff
        counterparty_receiver_path_for_operation_def)
  then show ?thesis
    using report_moved_trans(2,3) [OF _ linked_peer_or_default_key [OF assms(1)]] by simp
qed

lemma sample_stale_save:
  "\<exists>t r. save_linked_peer_link_state_if_generation_with_lease sample_peer ''link'' 7 sample_lease 2 sample_handshaking
     = Inr (t, r)"
proof -
  have "is_ok (save_linked_peer_link_state_if_generation_with_lease sample_peer ''link'' 7 sample_lease 2 sample_handshaking)"
    by code_simp
  then show ?thesis by (auto simp: is_ok_iff)
qed

theorem stale_generation_not_stored_witness:
  "\<exists>t r. save_linked_peer_link_state_if_generation_with_lease sample_peer ''link'' 7 sample_lease 2 sample_handshaking
     = Inr (t, r) \<and> encrypted_link_state t = encrypted_link_state sample_handshaking \<and> hr_generation r = 0"
proof -
  obtain t r where t: "save_linked_peer_link_state_if_generation_with_lease sample_peer ''link'' 7 sample_lease 2 sample_handshaking
     = Inr (t, r)" using sample_stale_save by blast
  have tables: "tables_inv sample_handshaking" using sample_handshaking_inv by (simp add: storage_inv_def)
  have link: "encrypted_link_state sample_handshaking (sample_peer, le_path sample_lease)
      = Some (handshake_state sample_peer sample_path ''hs'' Initiator 0 1)"
    using sample_handshaking_link by (simp add: sample_lease_def)
  have "ls_generation (handshake_state sample_peer sample_path ''hs'' Initiator 0 1) \<noteq> 7"
    by (simp add: handshake_state_def)
  from stale_generation_not_stored [OF tables link this disjI1 [OF t]] t show ?thesis
    by (auto simp: stored_forms)
qed

theorem link_generation_versions_witness:
  "\<exists>t r new. mark_recovery_required_with_lease sample_peer sample_lease 5 sample_handshaking = Inr (t, r)
     \<and> encrypted_link_state t (sample_peer, sample_path) = Some new \<and> 0 \<le> ls_generation new"
proof -
  have "is_ok (mark_recovery_required_with_lease sample_peer sample_lease 5 sample_handshaking)" by code_simp
  then obtain t r where t: "mark_recovery_required_with_lease sample_peer sample_lease 5 sample_handshaking = Inr (t, r)"
    by (auto simp: is_ok_iff)
  then have "mark_recovery_required_in_transaction_inner sample_peer sample_path 5 True sample_handshaking = Inr (t, r)"
    by (auto simp: mark_recovery_required_with_lease_def mark_recovery_required_inner_def rbind_Inr_iff
        counterparty_receiver_path_for_operation_def mark_recovery_required_in_transaction_def sample_lease_def)
  then have "link_or_unblock_step\<^sup>*\<^sup>* sample_handshaking t"
    by (blast intro: link_or_unblock_step.link link_step.mark_recovery)
  from link_generation_versions [OF sample_handshaking_inv this sample_handshaking_link] t show ?thesis
    by (auto simp: stored_forms)
qed

section \<open>Blocking\<close>

definition blocked_clean :: "peer_key \<Rightarrow> StorageState \<Rightarrow> bool" where
  "blocked_clean k s \<longleftrightarrow> tables_inv s \<and> peer_blocked s k \<and> pred_option link_clean (encrypted_link_state s k)"

lemma blocked_clean_step: "link_step s t \<Longrightarrow> blocked_clean k s \<Longrightarrow> blocked_clean k t"
proof -
  assume step: "link_step s t" and b: "blocked_clean k s"
  then obtain j where tr: "peer_trans False j s t"
    using link_step_trans unfolding blocked_clean_def by blast
  have tables: "tables_inv t" using peer_trans_tables [OF tr] b by (simp add: blocked_clean_def)
  show "blocked_clean k t"
  proof (cases "k = j")
    case True
    then show ?thesis
      using b tables peer_trans_link(2,4) [OF tr] by (auto simp: blocked_clean_def)
  next
    case False
    then show ?thesis
      using b tables peer_trans_link(1,3) [OF tr False] by (simp add: blocked_clean_def peer_blocked_def)
  qed
qed

lemma block_makes_clean:
  assumes "tables_inv s" and "block_peer_with_claim cp lease now s = Inr (t, r)"
  shows "blocked_clean (cp, le_path lease) t"
proof -
  have t: "t = clear_encrypted_link_state cp (le_path lease) now (save_linked_peer r s)" "lp_state r = Blocked"
      "lp_key r = (cp, le_path lease)"
    using assms linked_peer_or_default_key [OF assms(1)]
    by (auto simp: block_peer_with_claim_def rbind_Inr_iff Let_def)
  have "peer_blocked t (cp, le_path lease)"
    using t by (auto simp: peer_blocked_def clear_encrypted_link_state_def peers.load_save split: option.splits)
  moreover have "pred_option link_clean (encrypted_link_state t (cp, le_path lease))"
    using t(1) link_state_key [OF assms(1), of "(cp, le_path lease)"]
    by (auto simp: clear_encrypted_link_state_def links.load_save ls_key_def link_clean_def split: option.splits)
  ultimately show ?thesis
    using peer_trans_tables [OF block_trans [OF assms] assms(1)] by (simp add: blocked_clean_def)
qed



section \<open>Fenced writes and handshake roles\<close>

text \<open>no link operation that carries a lease can commit under a lease that is not the active one:
  it fails with a policy error and the storage is unchanged.\<close>

theorem stale_lease_cannot_write:
  assumes "require_peer_link_operation_lease s lease \<noteq> Inr ()"
  shows "\<exists>c. transaction (save_linked_peer_state_with_lease cp st lease now) s = (s, Inl (SdkPolicy c None))
    \<and> transaction (mark_recovery_required_with_lease cp lease now) s = (s, Inl (SdkPolicy c None))
    \<and> transaction (save_link_handshake_state_with_lease cp role snap lease now) s = (s, Inl (SdkPolicy c None))
    \<and> transaction (save_link_handshake_state_if_generation_with_lease cp role snap g lease now) s
        = (s, Inl (SdkPolicy c None))
    \<and> transaction (save_linked_peer_link_state_if_generation_with_lease cp snap g lease now) s
        = (s, Inl (SdkPolicy c None))
    \<and> transaction (block_peer_with_claim cp lease now) s = (s, Inl (SdkPolicy c None))
    \<and> transaction (unblock_peer_with_claim cp lease now) s = (s, Inl (SdkPolicy c None))"
proof -
  obtain c where c: "require_peer_link_operation_lease s lease = Inl (SdkPolicy c None)"
    using assms require_lease_error [of s lease] by (cases "require_peer_link_operation_lease s lease") auto
  show ?thesis
    by (rule exI [of _ c])
       (simp add: c transaction_def run_storage_state_transaction_def require_optional_lease_def
        save_linked_peer_state_with_lease_def save_linked_peer_state_inner_def
        mark_recovery_required_with_lease_def mark_recovery_required_inner_def
        save_link_handshake_state_with_lease_def save_link_handshake_state_inner_def
        save_link_handshake_state_if_generation_with_lease_def save_link_handshake_state_if_generation_inner_def
        save_linked_peer_link_state_if_generation_with_lease_def save_linked_peer_link_state_if_generation_inner_def
        block_peer_with_claim_def unblock_peer_with_claim_def)
qed

theorem stale_lease_cannot_write_witness:
  "\<exists>c. transaction (block_peer_with_claim sample_peer sample_lease 3) empty_storage = (empty_storage, Inl (SdkPolicy c None))"
proof -
  have "\<not> is_ok (require_peer_link_operation_lease empty_storage sample_lease)" by code_simp
  then have "require_peer_link_operation_lease empty_storage sample_lease \<noteq> Inr ()" by auto
  from stale_lease_cannot_write [OF this, of sample_peer _ 3] show ?thesis by blast
qed

text \<open>Two different identities always choose opposite handshake roles for each other.\<close>

theorem handshake_roles_complementary:
  "deterministic_handshake_role a b = deterministic_handshake_role b a \<longleftrightarrow> a = b"
  by (cases a; cases b) (auto simp: deterministic_handshake_role_def)

end
