(* ===== verification/Private_Stream.thy ===== *)
theory Private_Stream
  imports Private_Messages Linked_Peers
begin

text \<open>
  Intake of the private stream (\<^verbatim>\<open>paykit-sdk/src/domain/private_stream/mod.rs\<close>): classification of a
  received message, Event ID deduplication, and the transaction that stores a batch with its link
  checkpoint. The lemmas give the dedupe table after a batch in closed form, the order and ids of
  the stored items, that an indexed Receipt Access is never replaced, and that a batch whose lease
  was lost leaves no trace.
\<close>

section \<open>Classification\<close>

record PrivateStreamEventHeader =
  eh_event_id :: string
  eh_event_kind :: string

record PrivateStreamMessageClassification =
  cl_status :: PrivateStreamParseStatus
  cl_parse_error :: "string option"
  cl_event :: "PrivateStreamEventHeader option"
  cl_receipt_access :: "ReceiptAccess option"

definition status_from_event_validity :: "bool \<Rightarrow> PrivateStreamParseStatus" where
  "status_from_event_validity is_valid = (if is_valid then Valid else MalformedRecognized)"

definition event_header :: "PrivateMessageKind \<Rightarrow> EventId \<Rightarrow> PrivateStreamEventHeader" where
  "event_header kind eid = \<lparr>eh_event_id = event_id_str eid, eh_event_kind = kind_as_str kind\<rparr>"

definition classify_payment_request_event ::
  "ext \<Rightarrow> PrivateMessageKind \<Rightarrow> PrivateApplicationMessage \<Rightarrow> PrivateStreamMessageClassification" where
  "classify_payment_request_event E kind m =
     (let parsed = parse_payment_request_event_message E m in
      \<lparr>cl_status = status_from_event_validity (case parsed of Some p \<Rightarrow> evm_is_valid p | None \<Rightarrow> False),
       cl_parse_error = Option.bind parsed evm_validation_error,
       cl_event = map_option (event_header kind) (Option.bind parsed evm_event_id),
       cl_receipt_access = None\<rparr>)"

definition classify_private_application_message ::
  "ext \<Rightarrow> PrivateApplicationMessage \<Rightarrow> PrivateStreamMessageClassification" where
  "classify_private_application_message E m =
     (case known_kind E m of
        None \<Rightarrow>
          \<lparr>cl_status = (if pam_version m \<noteq> None \<and> pam_kind m \<noteq> None then UnknownKind else InvalidJson),
           cl_parse_error = invalid_utf8_error m, cl_event = None, cl_receipt_access = None\<rparr>
      | Some kind \<Rightarrow>
          (case kind of
             PrivatePaymentListKind \<Rightarrow>
               (case parse_private_payment_list_json E (pam_raw_json m) of
                  Inr _ \<Rightarrow> \<lparr>cl_status = Valid, cl_parse_error = None, cl_event = None, cl_receipt_access = None\<rparr>
                | Inl err \<Rightarrow>
                    \<lparr>cl_status = MalformedRecognized, cl_parse_error = Some (paykit_error_display err),
                     cl_event = None, cl_receipt_access = None\<rparr>)
           | ReceiptAccessKind \<Rightarrow>
               (let parsed = parse_receipt_access_event_message E m in
                \<lparr>cl_status = status_from_event_validity (case parsed of Some p \<Rightarrow> is_ok (ram_access p) | None \<Rightarrow> False),
                 cl_parse_error = Option.bind parsed (\<lambda>p. err_of (ram_access p)),
                 cl_event = map_option (event_header kind) (Option.bind parsed ram_event_id),
                 cl_receipt_access = Option.bind parsed (\<lambda>p. ok_of (ram_access p))\<rparr>)
           | _ \<Rightarrow> classify_payment_request_event E kind m))"

definition enforce_receipt_access_receiver_scope ::
  "PaykitReceiverPath \<Rightarrow> PrivateStreamMessageClassification \<Rightarrow> PrivateStreamMessageClassification" where
  "enforce_receipt_access_receiver_scope rp c =
     (case cl_receipt_access c of
        None \<Rightarrow> c
      | Some access \<Rightarrow>
          if has_location_for_receiver access rp then c
          else c\<lparr>cl_status := MalformedRecognized,
                 cl_parse_error := Some (''Receipt Access location does not match counterparty receiver ''
                   @ receiver_path_str rp),
                 cl_event := None, cl_receipt_access := None\<rparr>)"

section \<open>Deduplication\<close>

record EventIdConflict =
  ec_event_id :: string
  ec_first_stream_item_id :: u64
  ec_conflicting_stream_item_id :: u64

record PrivateStreamIntakeReport =
  ir_receive_batch_id :: u64
  ir_stream_item_ids :: "u64 list"
  ir_event_conflicts :: "EventIdConflict list"

datatype EventDedupeOutcome = First | Duplicate | Conflict

definition payload_hash :: "ext \<Rightarrow> string \<Rightarrow> string" where
  "payload_hash E raw = ''sha256:'' @ sha256_hex E raw"

definition update_event_dedupe ::
  "PubkyPublicKey \<Rightarrow> PaykitReceiverPath \<Rightarrow> string \<Rightarrow> string \<Rightarrow> string \<Rightarrow> u64 \<Rightarrow> StorageState \<Rightarrow> PrivateStreamIntakeReport
    \<Rightarrow> StorageState \<times> PrivateStreamIntakeReport \<times> EventDedupeOutcome" where
  "update_event_dedupe cp rp event_id kind hash stream_item_id s report =
     (case event_dedup_record s (cp, rp, event_id) of
        None \<Rightarrow>
          (save_event_dedup_record
             \<lparr>ed_counterparty = cp, ed_path = rp, ed_event_id = event_id, ed_event_kind = kind,
              ed_payload_hash = hash, ed_first_stream_item_id = stream_item_id,
              ed_duplicate_stream_item_ids = [], ed_conflicting_stream_item_ids = []\<rparr> s, report, First)
      | Some record \<Rightarrow>
          if ed_payload_hash record = hash
          then (save_event_dedup_record
                  (record\<lparr>ed_duplicate_stream_item_ids := ed_duplicate_stream_item_ids record @ [stream_item_id]\<rparr>) s,
                report, Duplicate)
          else (save_event_dedup_record
                  (record\<lparr>ed_conflicting_stream_item_ids := ed_conflicting_stream_item_ids record @ [stream_item_id]\<rparr>) s,
                report\<lparr>ir_event_conflicts := ir_event_conflicts report
                  @ [\<lparr>ec_event_id = ed_event_id record, ec_first_stream_item_id = ed_first_stream_item_id record,
                      ec_conflicting_stream_item_id = stream_item_id\<rparr>]\<rparr>, Conflict))"

section \<open>Storing a batch\<close>

definition new_stream_item ::
  "ext \<Rightarrow> PubkyPublicKey \<Rightarrow> PaykitReceiverPath \<Rightarrow> u64 \<Rightarrow> instant \<Rightarrow> PrivateApplicationMessage
    \<Rightarrow> PrivateStreamMessageClassification \<Rightarrow> NewPrivateStreamItem" where
  "new_stream_item E cp rp batch_id received_at m c =
     \<lparr>ns_counterparty = cp, ns_path = rp, ns_receive_batch_id = batch_id, ns_raw_json = pam_raw_json m,
      ns_parsed_version = map_option ucast (pam_version m), ns_parsed_kind = pam_kind m,
      ns_known_paykit_kind = map_option kind_as_str (known_kind E m), ns_parse_status = cl_status c,
      ns_parse_error = cl_parse_error c, ns_received_at = received_at\<rparr>"

text \<open>The body of the loop over the messages.\<close>

definition persist_message ::
  "ext \<Rightarrow> PubkyPublicKey \<Rightarrow> PaykitReceiverPath \<Rightarrow> u64 \<Rightarrow> instant \<Rightarrow> PrivateApplicationMessage
    \<Rightarrow> StorageState \<times> PrivateStreamIntakeReport \<Rightarrow> StorageState \<times> PrivateStreamIntakeReport" where
  "persist_message E cp rp batch_id received_at m = (\<lambda>(s, report).
     let c = enforce_receipt_access_receiver_scope rp (classify_private_application_message E m);
         (s1, stream_item_id) = insert_private_stream_item (new_stream_item E cp rp batch_id received_at m c) s;
         (s2, report2, outcome) =
           (case cl_event c of
              None \<Rightarrow> (s1, report, None)
            | Some ev \<Rightarrow>
                let (s', report', out) = update_event_dedupe cp rp (eh_event_id ev) (eh_event_kind ev)
                       (payload_hash E (pam_raw_json m)) stream_item_id s1 report
                in (s', report', Some out));
         s3 = (case (outcome, cl_receipt_access c) of
                 (Some First, Some access) \<Rightarrow>
                   save_receipt_access_record
                     (receipt_access_record_from_access cp rp stream_item_id batch_id received_at access) s2
               | _ \<Rightarrow> s2)
     in (s3, report2\<lparr>ir_stream_item_ids := ir_stream_item_ids report2 @ [stream_item_id]\<rparr>))"

definition persist_messages ::
  "ext \<Rightarrow> PubkyPublicKey \<Rightarrow> PaykitReceiverPath \<Rightarrow> u64 \<Rightarrow> instant \<Rightarrow> PrivateApplicationMessage list
    \<Rightarrow> StorageState \<times> PrivateStreamIntakeReport \<Rightarrow> StorageState \<times> PrivateStreamIntakeReport" where
  "persist_messages E cp rp batch_id received_at ms = fold (persist_message E cp rp batch_id received_at) ms"

definition persist_private_stream_batch_with_link_lease ::
  "ext \<Rightarrow> PubkyPublicKey \<Rightarrow> PaykitReceiverPath \<Rightarrow> PrivateApplicationMessage list \<Rightarrow> EncryptedLinkStateRecord option
    \<Rightarrow> PeerLinkOperationLease option \<Rightarrow> instant \<Rightarrow> (sdk_error, PrivateStreamIntakeReport) tx" where
  "persist_private_stream_batch_with_link_lease E cp rp messages link_state lease received_at s =
     (let (s0, batch_id) = allocate_receive_batch_id s;
          (s1, report) = persist_messages E cp rp batch_id received_at messages
            (s0, \<lparr>ir_receive_batch_id = batch_id, ir_stream_item_ids = [], ir_event_conflicts = []\<rparr>)
      in rbind (case link_state of
                  None \<Rightarrow> Inr s1
                | Some ls \<Rightarrow> rbind (require_optional_lease s1 lease) (\<lambda>_. Inr (save_encrypted_link_state ls s1))) (\<lambda>s2.
         let s3 = (case linked_peer s2 (cp, rp) of
                     None \<Rightarrow> s2
                   | Some peer \<Rightarrow>
                       let peer1 = (if ir_stream_item_ids report \<noteq> []
                                    then peer\<lparr>lp_last_private_receive_at := Some received_at\<rparr> else peer);
                           peer2 = (if link_state \<noteq> None \<or> ir_stream_item_ids report \<noteq> []
                                    then peer1\<lparr>lp_last_sync_at := Some received_at\<rparr> else peer1)
                       in save_linked_peer peer2 s2)
         in Inr (s3, report)))"

section \<open>The dedupe table after a batch\<close>

text \<open>The header that counts for deduplication, and the occurrences of an Event ID in a batch.\<close>

definition dedupe_header :: "ext \<Rightarrow> PaykitReceiverPath \<Rightarrow> PrivateApplicationMessage \<Rightarrow> PrivateStreamEventHeader option" where
  "dedupe_header E rp m =
     cl_event (enforce_receipt_access_receiver_scope rp (classify_private_application_message E m))"

fun occurrences ::
  "ext \<Rightarrow> PaykitReceiverPath \<Rightarrow> string \<Rightarrow> u64 \<Rightarrow> PrivateApplicationMessage list \<Rightarrow> (u64 \<times> string \<times> string) list" where
  "occurrences E rp event_id next_id [] = []"
| "occurrences E rp event_id next_id (m # ms) =
     (case dedupe_header E rp m of
        Some h \<Rightarrow> if eh_event_id h = event_id then [(next_id, eh_event_kind h, payload_hash E (pam_raw_json m))] else []
      | None \<Rightarrow> []) @ occurrences E rp event_id (next_id + 1) ms"

text \<open>
  The specification: the first occurrence fixes kind, hash and first item; later ones are filed as
  duplicates or conflicts by comparing their hash with it.
\<close>

definition dedup_add :: "EventDedupRecord \<Rightarrow> (u64 \<times> string \<times> string) list \<Rightarrow> EventDedupRecord" where
  "dedup_add r occs =
     r\<lparr>ed_duplicate_stream_item_ids := ed_duplicate_stream_item_ids r
         @ map fst (filter (\<lambda>(i, k, h). h = ed_payload_hash r) occs),
       ed_conflicting_stream_item_ids := ed_conflicting_stream_item_ids r
         @ map fst (filter (\<lambda>(i, k, h). h \<noteq> ed_payload_hash r) occs)\<rparr>"

definition dedup_first :: "PubkyPublicKey \<Rightarrow> PaykitReceiverPath \<Rightarrow> string \<Rightarrow> u64 \<Rightarrow> string \<Rightarrow> string \<Rightarrow> EventDedupRecord" where
  "dedup_first cp rp event_id i kind hash =
     \<lparr>ed_counterparty = cp, ed_path = rp, ed_event_id = event_id, ed_event_kind = kind, ed_payload_hash = hash,
      ed_first_stream_item_id = i, ed_duplicate_stream_item_ids = [], ed_conflicting_stream_item_ids = []\<rparr>"

fun dedup_spec ::
  "PubkyPublicKey \<Rightarrow> PaykitReceiverPath \<Rightarrow> string \<Rightarrow> EventDedupRecord option \<Rightarrow> (u64 \<times> string \<times> string) list
    \<Rightarrow> EventDedupRecord option" where
  "dedup_spec cp rp event_id (Some r) occs = Some (dedup_add r occs)"
| "dedup_spec cp rp event_id None [] = None"
| "dedup_spec cp rp event_id None ((i, k, h) # occs) = Some (dedup_add (dedup_first cp rp event_id i k h) occs)"

lemma dedup_add_Nil [simp]: "dedup_add r [] = r"
  by (simp add: dedup_add_def)

lemma dedup_add_append: "dedup_add r (xs @ ys) = dedup_add (dedup_add r xs) ys"
  by (simp add: dedup_add_def)

lemma dedup_spec_append:
  "dedup_spec cp rp e o' (xs @ ys) = dedup_spec cp rp e (dedup_spec cp rp e o' xs) ys"
proof (cases o')
  case None
  then show ?thesis by (cases xs) (auto simp: dedup_add_append)
qed (simp add: dedup_add_append)

lemma dedup_add_key [simp]: "ed_key (dedup_add r occs) = ed_key r"
  by (simp add: ed_key_def dedup_add_def)

lemma update_dedupe_state:
  assumes "tables_inv s" and "update_event_dedupe cp rp e k h i s report = (t, report', out)"
  shows "event_dedup_record t (cp, rp, e') =
      dedup_spec cp rp e' (event_dedup_record s (cp, rp, e')) (if e' = e then [(i, k, h)] else [])"
    and "out = First \<longleftrightarrow> event_dedup_record s (cp, rp, e) = None"
    and "\<exists>r. ed_key r = (cp, rp, e) \<and> t = save_event_dedup_record r s"
proof -
  obtain r where r: "ed_key r = (cp, rp, e)" "t = save_event_dedup_record r s"
      "dedup_spec cp rp e (event_dedup_record s (cp, rp, e)) [(i, k, h)] = Some r"
      "out = First \<longleftrightarrow> event_dedup_record s (cp, rp, e) = None"
  proof (cases "event_dedup_record s (cp, rp, e)")
    case None
    then show thesis
      using assms(2) that [of "dedup_first cp rp e i k h"]
      by (auto simp: update_event_dedupe_def dedup_first_def ed_key_def)
  next
    case (Some r)
    have key: "ed_key r = (cp, rp, e)"
      using assms(1) Some by (auto simp: tables_inv_def event_dedup_record_def dest: hm_wf_get)
    then show thesis
      using assms(2) Some that [of "dedup_add r [(i, k, h)]"]
      by (auto simp: update_event_dedupe_def dedup_add_def ed_key_def split: if_splits)
  qed
  then show "event_dedup_record t (cp, rp, e') =
      dedup_spec cp rp e' (event_dedup_record s (cp, rp, e')) (if e' = e then [(i, k, h)] else [])"
    by (cases "event_dedup_record s (cp, rp, e')") (auto simp: dedups.load_save)
  show "out = First \<longleftrightarrow> event_dedup_record s (cp, rp, e) = None"
    and "\<exists>r. ed_key r = (cp, rp, e) \<and> t = save_event_dedup_record r s"
    using r by auto
qed

text \<open>One message of the batch: which tables it writes, and what it reads back.\<close>

lemma tables_inv_stream [simp]: "tables_inv (fst (insert_private_stream_item i s)) = tables_inv s"
  by (simp add: insert_private_stream_item_def tables_inv_def)

lemma stream_insert_frames [simp]:
  "event_dedup_record (fst (insert_private_stream_item i s)) = event_dedup_record s"
  "receipt_access_record (fst (insert_private_stream_item i s)) = receipt_access_record s"
  "linked_peer (fst (insert_private_stream_item i s)) = linked_peer s"
  "peer_link_operation_lease (fst (insert_private_stream_item i s)) = peer_link_operation_lease s"
  "st_next_stream_item_id (fst (insert_private_stream_item i s)) = st_next_stream_item_id s + 1"
  "st_private_stream_items (fst (insert_private_stream_item i s))
     = st_private_stream_items s @ [stream_item_from_new (st_next_stream_item_id s) i]"
  "snd (insert_private_stream_item i s) = st_next_stream_item_id s"
  by (simp_all add: insert_private_stream_item_def table_op_defs peer_link_operation_lease_def fun_eq_iff)

lemma save_counter_frames [simp]:
  "st_next_stream_item_id (save_event_dedup_record d s) = st_next_stream_item_id s"
  "st_next_stream_item_id (save_receipt_access_record a s) = st_next_stream_item_id s"
  "peer_link_operation_lease (save_event_dedup_record d s) = peer_link_operation_lease s"
  "peer_link_operation_lease (save_receipt_access_record a s) = peer_link_operation_lease s"
  by (simp_all add: table_op_defs peer_link_operation_lease_def fun_eq_iff)

definition stored_item ::
  "ext \<Rightarrow> PubkyPublicKey \<Rightarrow> PaykitReceiverPath \<Rightarrow> u64 \<Rightarrow> instant \<Rightarrow> PrivateApplicationMessage \<Rightarrow> u64 \<Rightarrow> PrivateStreamItemRecord" where
  "stored_item E cp rp batch_id received_at m i =
     stream_item_from_new i (new_stream_item E cp rp batch_id received_at m
       (enforce_receipt_access_receiver_scope rp (classify_private_application_message E m)))"

text \<open>
  What one message changes: an optional dedupe record for its own header, and a Receipt Access
  record only when that header was unknown.
\<close>

lemma persist_message_effect:
  assumes "tables_inv s" and "persist_message E cp rp batch_id received_at m (s, report) = (t, report')"
  defines "s1 \<equiv> fst (insert_private_stream_item (new_stream_item E cp rp batch_id received_at m
     (enforce_receipt_access_receiver_scope rp (classify_private_application_message E m))) s)"
  obtains (plain) "dedupe_header E rp m = None" "t = s1"
  | (dedupe) h r where "dedupe_header E rp m = Some h" "ed_key r = (cp, rp, eh_event_id h)"
      "t = save_event_dedup_record r s1"
  | (indexed) h r a where "dedupe_header E rp m = Some h" "ed_key r = (cp, rp, eh_event_id h)"
      "event_dedup_record s (cp, rp, eh_event_id h) = None"
      "cl_receipt_access (enforce_receipt_access_receiver_scope rp (classify_private_application_message E m)) = Some a"
      "t = save_receipt_access_record
         (receipt_access_record_from_access cp rp (st_next_stream_item_id s) batch_id received_at a)
         (save_event_dedup_record r s1)"
proof -
  let ?c = "enforce_receipt_access_receiver_scope rp (classify_private_application_message E m)"
  have ins: "insert_private_stream_item (new_stream_item E cp rp batch_id received_at m ?c) s
      = (s1, st_next_stream_item_id s)"
    unfolding s1_def by (simp add: insert_private_stream_item_def)
  have s1: "tables_inv s1" "event_dedup_record s1 = event_dedup_record s" using assms(1) unfolding s1_def by simp_all
  show thesis
  proof (cases "cl_event ?c")
    case None
    then show thesis
      using assms(2) ins plain by (auto simp: persist_message_def Let_def dedupe_header_def)
  next
    case (Some h)
    obtain s2 report2 out where upd: "update_event_dedupe cp rp (eh_event_id h) (eh_event_kind h)
        (payload_hash E (pam_raw_json m)) (st_next_stream_item_id s) s1 report = (s2, report2, out)"
      by (cases "update_event_dedupe cp rp (eh_event_id h) (eh_event_kind h)
        (payload_hash E (pam_raw_json m)) (st_next_stream_item_id s) s1 report")
    obtain r where r: "ed_key r = (cp, rp, eh_event_id h)" "s2 = save_event_dedup_record r s1"
      using update_dedupe_state(3) [OF s1(1) upd] by blast
    have first: "out = First \<longleftrightarrow> event_dedup_record s (cp, rp, eh_event_id h) = None"
      using update_dedupe_state(2) [OF s1(1) upd] s1(2) by simp
    have t: "t = (case (Some out, cl_receipt_access ?c) of
        (Some First, Some access) \<Rightarrow> save_receipt_access_record
           (receipt_access_record_from_access cp rp (st_next_stream_item_id s) batch_id received_at access) s2
      | _ \<Rightarrow> s2)"
      using assms(2) ins upd Some by (simp add: persist_message_def Let_def)
    have h: "dedupe_header E rp m = Some h" using Some by (simp add: dedupe_header_def)
    show thesis
    proof (cases "out = First \<and> cl_receipt_access ?c \<noteq> None")
      case True
      then obtain a where "cl_receipt_access ?c = Some a" by blast
      with True t r first h show thesis by (intro indexed) auto
    next
      case False
      with t have "t = s2" by (auto split: option.splits EventDedupeOutcome.splits)
      with r h show thesis by (intro dedupe) auto
    qed
  qed
qed

lemma persist_message_dedup:
  assumes "tables_inv s" and "persist_message E cp rp batch_id received_at m (s, report) = (t, report')"
  shows "event_dedup_record t (cp, rp, e) =
    dedup_spec cp rp e (event_dedup_record s (cp, rp, e)) (occurrences E rp e (st_next_stream_item_id s) [m])"
proof -
  let ?c = "enforce_receipt_access_receiver_scope rp (classify_private_application_message E m)"
  obtain s1 where ins: "insert_private_stream_item (new_stream_item E cp rp batch_id received_at m ?c) s
      = (s1, st_next_stream_item_id s)" and s1: "tables_inv s1" "event_dedup_record s1 = event_dedup_record s"
    using assms(1) stream_insert_frames(1,7) [of "new_stream_item E cp rp batch_id received_at m ?c" s]
      tables_inv_stream [of "new_stream_item E cp rp batch_id received_at m ?c" s]
    by (metis prod.collapse)
  show ?thesis
  proof (cases "cl_event ?c")
    case None
    then have "t = s1" using assms(2) ins by (auto simp: persist_message_def Let_def)
    then show ?thesis using None s1 by (cases "event_dedup_record s (cp, rp, e)") (simp_all add: dedupe_header_def)
  next
    case (Some h)
    obtain s2 report2 out where upd: "update_event_dedupe cp rp (eh_event_id h) (eh_event_kind h)
        (payload_hash E (pam_raw_json m)) (st_next_stream_item_id s) s1 report = (s2, report2, out)"
      by (cases "update_event_dedupe cp rp (eh_event_id h) (eh_event_kind h)
        (payload_hash E (pam_raw_json m)) (st_next_stream_item_id s) s1 report")
    have "event_dedup_record t = event_dedup_record s2"
      using assms(2) ins upd Some
      by (auto simp: persist_message_def Let_def split: option.splits EventDedupeOutcome.splits)
    then show ?thesis
      using update_dedupe_state(1) [OF s1(1) upd, of e] s1 Some by (auto simp: dedupe_header_def)
  qed
qed

lemma persist_message_frames:
  assumes "tables_inv s" and "persist_message E cp rp batch_id received_at m (s, report) = (t, report')"
  shows "tables_inv t \<and> st_next_stream_item_id t = st_next_stream_item_id s + 1
    \<and> st_private_stream_items t
      = st_private_stream_items s @ [stored_item E cp rp batch_id received_at m (st_next_stream_item_id s)]
    \<and> peer_link_operation_lease t = peer_link_operation_lease s"
  using assms
proof (cases rule: persist_message_effect)
  case plain
  then show ?thesis using assms(1) by (simp add: stored_item_def)
next
  case (dedupe h r)
  then show ?thesis using assms(1) by (simp add: stored_item_def tables_inv_saves)
next
  case (indexed h r a)
  then show ?thesis using assms(1) by (simp add: stored_item_def tables_inv_saves)
qed

lemma persist_message_report:
  assumes "persist_message E cp rp batch_id received_at m (s, report) = (t, report')"
  shows "ir_stream_item_ids report' = ir_stream_item_ids report @ [st_next_stream_item_id s]"
    and "ir_receive_batch_id report' = ir_receive_batch_id report"
  using assms
  by (auto simp: persist_message_def Let_def insert_private_stream_item_def update_event_dedupe_def
      split: option.splits if_splits)

text \<open>The whole loop, by induction on the batch.\<close>

lemma persist_messages_simps [simp]:
  "persist_messages E cp rp b now [] st = st"
  "persist_messages E cp rp b now (m # ms) st = persist_messages E cp rp b now ms (persist_message E cp rp b now m st)"
  by (simp_all add: persist_messages_def)

fun stored_items ::
  "ext \<Rightarrow> PubkyPublicKey \<Rightarrow> PaykitReceiverPath \<Rightarrow> u64 \<Rightarrow> instant \<Rightarrow> u64 \<Rightarrow> PrivateApplicationMessage list \<Rightarrow> PrivateStreamItemRecord list" where
  "stored_items E cp rp b now i [] = []"
| "stored_items E cp rp b now i (m # ms) = stored_item E cp rp b now m i # stored_items E cp rp b now (i + 1) ms"

lemma occurrences_Cons: "occurrences E rp e i (m # ms) = occurrences E rp e i [m] @ occurrences E rp e (i + 1) ms"
  by simp

lemma persist_messages_effect:
  assumes "tables_inv s" and "persist_messages E cp rp b now ms (s, report) = (t, report')"
  shows "tables_inv t \<and> st_next_stream_item_id t = st_next_stream_item_id s + of_nat (length ms)
    \<and> st_private_stream_items t
      = st_private_stream_items s @ stored_items E cp rp b now (st_next_stream_item_id s) ms
    \<and> peer_link_operation_lease t = peer_link_operation_lease s
    \<and> ir_stream_item_ids report' = ir_stream_item_ids report
        @ map si_id (stored_items E cp rp b now (st_next_stream_item_id s) ms)
    \<and> ir_receive_batch_id report' = ir_receive_batch_id report
    \<and> event_dedup_record t (cp, rp, e) = dedup_spec cp rp e (event_dedup_record s (cp, rp, e))
        (occurrences E rp e (st_next_stream_item_id s) ms)"
  using assms
proof (induction ms arbitrary: s report)
  case Nil
  then show ?case by (cases "event_dedup_record s (cp, rp, e)") simp_all
next
  case (Cons m ms)
  obtain s1 report1 where one: "persist_message E cp rp b now m (s, report) = (s1, report1)"
    by (cases "persist_message E cp rp b now m (s, report)")
  note frames = persist_message_frames [OF Cons.prems(1) one]
  have "persist_messages E cp rp b now ms (s1, report1) = (t, report')" using Cons.prems(2) one by simp
  note rest = Cons.IH [OF conjunct1 [OF frames] this]
  have "event_dedup_record t (cp, rp, e) = dedup_spec cp rp e (event_dedup_record s (cp, rp, e))
        (occurrences E rp e (st_next_stream_item_id s) (m # ms))"
    using rest frames persist_message_dedup [OF Cons.prems(1) one, of e]
    unfolding occurrences_Cons [of E rp e "st_next_stream_item_id s" m ms] dedup_spec_append by simp
  moreover have "si_id (stored_item E cp rp b now m (st_next_stream_item_id s)) = st_next_stream_item_id s"
    by (simp add: stored_item_def stream_item_from_new_def)
  ultimately show ?case
    using rest frames persist_message_report [OF one] by (simp add: algebra_simps)
qed

definition accesses_deduped :: "StorageState \<Rightarrow> bool" where
  "accesses_deduped s \<longleftrightarrow> list_all (\<lambda>(k, a). event_dedup_record s k \<noteq> None) (st_receipt_access_records s)"

lemma accesses_deduped_iff:
  "accesses_deduped s \<longleftrightarrow> (\<forall>k. receipt_access_record s k \<noteq> None \<longrightarrow> event_dedup_record s k \<noteq> None)"
proof
  assume dedup: "accesses_deduped s"
  show "\<forall>k. receipt_access_record s k \<noteq> None \<longrightarrow> event_dedup_record s k \<noteq> None"
  proof (intro allI impI)
    fix k assume "receipt_access_record s k \<noteq> None"
    then obtain a where "(k, a) \<in> set (st_receipt_access_records s)"
      by (auto simp: receipt_access_record_def dest: map_of_SomeD)
    then show "event_dedup_record s k \<noteq> None" using dedup by (fastforce simp: accesses_deduped_def list_all_iff)
  qed
next
  assume keyed: "\<forall>k. receipt_access_record s k \<noteq> None \<longrightarrow> event_dedup_record s k \<noteq> None"
  have "event_dedup_record s k \<noteq> None" if "(k, a) \<in> set (st_receipt_access_records s)" for k a
    using keyed that by (metis receipt_access_record_def option.distinct(1) weak_map_of_SomeI)
  then show "accesses_deduped s" by (auto simp: accesses_deduped_def list_all_iff)
qed

lemma classified_access_id:
  assumes "cl_receipt_access (enforce_receipt_access_receiver_scope rp (classify_private_application_message E m)) = Some a"
  shows "\<exists>h. dedupe_header E rp m = Some h \<and> eh_event_id h = event_id_str (rac_event_id a)
    \<and> has_location_for_receiver a rp"
proof -
  have a: "cl_receipt_access (classify_private_application_message E m) = Some a" "has_location_for_receiver a rp"
    using assms by (auto simp: enforce_receipt_access_receiver_scope_def split: option.splits if_splits)
  then obtain em where em: "known_kind E m = Some ReceiptAccessKind"
      "parse_receipt_access_event_message E m = Some em" "ram_access em = Inr a"
    by (cases "parse_private_payment_list_json E (pam_raw_json m)")
      (auto simp: classify_private_application_message_def classify_payment_request_event_def Let_def
        bind_eq_Some_conv ok_of_Some_iff split: option.splits PrivateMessageKind.splits)
  then show ?thesis
    using access_message_event_id [OF em(2,3)] a
    by (auto simp: dedupe_header_def enforce_receipt_access_receiver_scope_def
        classify_private_application_message_def Let_def event_header_def)
qed

lemma persist_message_access:
  assumes "tables_inv s" and "accesses_deduped s"
    and "persist_message E cp rp b now m (s, report) = (t, report')"
  shows "accesses_deduped t \<and> (receipt_access_record s k = Some a \<longrightarrow> receipt_access_record t k = Some a)"
proof -
  have t: "tables_inv t" using persist_message_frames [OF assms(1,3)] by simp
  note iff = accesses_deduped_iff [of s] accesses_deduped_iff [of t]
  from assms(1,3) show ?thesis
  proof (cases rule: persist_message_effect)
    case plain
    then show ?thesis using assms(2) unfolding iff by simp
  next
    case (dedupe h r)
    then show ?thesis using assms(2) unfolding iff by (auto simp: dedups.load_save)
  next
    case (indexed h r x)
    have "ra_key (receipt_access_record_from_access cp rp (st_next_stream_item_id s) b now x) = ed_key r"
      using classified_access_id [OF indexed(4)] indexed(1,2)
      by (auto simp: ra_key_def receipt_access_record_from_access_def)
    moreover have "receipt_access_record s (ed_key r) = None" using assms(2) indexed(2,3) unfolding iff by metis
    ultimately show ?thesis
      using assms(2) indexed(5) unfolding iff by (auto simp: dedups.load_save accesses.load_save)
  qed
qed

lemma persist_messages_access:
  assumes "tables_inv s" and "accesses_deduped s"
    and "persist_messages E cp rp b now ms (s, report) = (t, report')"
  shows "accesses_deduped t \<and> (receipt_access_record s k = Some a \<longrightarrow> receipt_access_record t k = Some a)"
  using assms
proof (induction ms arbitrary: s report)
  case (Cons m ms)
  obtain s1 report1 where one: "persist_message E cp rp b now m (s, report) = (s1, report1)"
    by (cases "persist_message E cp rp b now m (s, report)")
  have "persist_messages E cp rp b now ms (s1, report1) = (t, report')" using Cons.prems(3) one by simp
  with Cons.IH [of s1 report1] persist_message_frames [OF Cons.prems(1) one]
    persist_message_access [OF Cons.prems(1,2) one] show ?case by blast
qed simp

text \<open>The checkpoint and the peer record written after the loop do not touch the stream tables.\<close>

lemma checkpoint_frames [simp]:
  "event_dedup_record (save_linked_peer p s) = event_dedup_record s"
  "event_dedup_record (save_encrypted_link_state l s) = event_dedup_record s"
  "receipt_access_record (save_linked_peer p s) = receipt_access_record s"
  "receipt_access_record (save_encrypted_link_state l s) = receipt_access_record s"
  "st_private_stream_items (save_linked_peer p s) = st_private_stream_items s"
  "st_private_stream_items (save_encrypted_link_state l s) = st_private_stream_items s"
  "st_next_stream_item_id (save_linked_peer p s) = st_next_stream_item_id s"
  "st_next_stream_item_id (save_encrypted_link_state l s) = st_next_stream_item_id s"
  by (simp_all add: table_op_defs fun_eq_iff)

lemma allocate_batch_frames [simp]:
  "event_dedup_record (fst (allocate_receive_batch_id s)) = event_dedup_record s"
  "receipt_access_record (fst (allocate_receive_batch_id s)) = receipt_access_record s"
  "peer_link_operation_lease (fst (allocate_receive_batch_id s)) = peer_link_operation_lease s"
  "st_private_stream_items (fst (allocate_receive_batch_id s)) = st_private_stream_items s"
  "st_next_stream_item_id (fst (allocate_receive_batch_id s)) = st_next_stream_item_id s"
  "tables_inv (fst (allocate_receive_batch_id s)) = tables_inv s"
  "accesses_deduped (fst (allocate_receive_batch_id s)) = accesses_deduped s"
  "snd (allocate_receive_batch_id s) = st_next_receive_batch_id s"
  by (simp_all add: allocate_receive_batch_id_def table_op_defs peer_link_operation_lease_def fun_eq_iff
      tables_inv_def accesses_deduped_def)

definition empty_report :: "u64 \<Rightarrow> PrivateStreamIntakeReport" where
  "empty_report b = \<lparr>ir_receive_batch_id = b, ir_stream_item_ids = [], ir_event_conflicts = []\<rparr>"

lemma persist_batch_unfold:
  obtains s0 s1 report where "s0 = fst (allocate_receive_batch_id s)"
    "persist_messages E cp rp (st_next_receive_batch_id s) now ms (s0, empty_report (st_next_receive_batch_id s)) = (s1, report)"
    "\<And>e. persist_private_stream_batch_with_link_lease E cp rp ms ls lease now s = Inl e \<longleftrightarrow>
       ls \<noteq> None \<and> require_optional_lease s1 lease = Inl e"
    "\<And>t r. persist_private_stream_batch_with_link_lease E cp rp ms ls lease now s = Inr (t, r) \<Longrightarrow>
       r = report \<and> event_dedup_record t = event_dedup_record s1 \<and> receipt_access_record t = receipt_access_record s1
       \<and> st_private_stream_items t = st_private_stream_items s1 \<and> st_next_stream_item_id t = st_next_stream_item_id s1"
proof -
  obtain s1 report where "persist_messages E cp rp (st_next_receive_batch_id s) now ms
      (fst (allocate_receive_batch_id s), empty_report (st_next_receive_batch_id s)) = (s1, report)"
    by (cases "persist_messages E cp rp (st_next_receive_batch_id s) now ms
      (fst (allocate_receive_batch_id s), empty_report (st_next_receive_batch_id s))")
  then show thesis
    by (intro that [OF refl, of s1 report])
      (auto simp: persist_private_stream_batch_with_link_lease_def allocate_receive_batch_id_def empty_report_def
        Let_def result_iffs rbind_Inl_iff split: option.splits)
qed

text \<open>C7: after a batch is stored, the dedupe record of every Event ID of the peer is the one the
  specification computes from the occurrences in the batch, in order: the first one ever seen fixes the
  event's kind, payload hash and first item; every later one is filed exactly once, as a duplicate when
  its payload hash agrees and as a conflict when it differs.\<close>

theorem batch_dedupe_refines:
  assumes "tables_inv s"
    and "persist_private_stream_batch_with_link_lease E cp rp messages link_state lease now s = Inr (t, report)"
  shows "event_dedup_record t (cp, rp, e) =
    dedup_spec cp rp e (event_dedup_record s (cp, rp, e)) (occurrences E rp e (st_next_stream_item_id s) messages)"
proof (rule persist_batch_unfold [of s E cp rp now messages link_state lease])
  fix s0 s1 r
  assume u: "s0 = fst (allocate_receive_batch_id s)"
    "persist_messages E cp rp (st_next_receive_batch_id s) now messages
       (s0, empty_report (st_next_receive_batch_id s)) = (s1, r)"
    "\<And>t' r'. persist_private_stream_batch_with_link_lease E cp rp messages link_state lease now s = Inr (t', r') \<Longrightarrow>
       r' = r \<and> event_dedup_record t' = event_dedup_record s1 \<and> receipt_access_record t' = receipt_access_record s1
       \<and> st_private_stream_items t' = st_private_stream_items s1 \<and> st_next_stream_item_id t' = st_next_stream_item_id s1"
  show ?thesis
    using persist_messages_effect [OF _ u(2), of e] u(3) [OF assms(2)] assms(1) u(1) by simp
qed

text \<open>a stored batch appends one stream item per message, in the order received, with consecutive
  item ids and the batch's id, and the report lists exactly those ids.\<close>

theorem batch_items_in_order:
  assumes "tables_inv s"
    and "persist_private_stream_batch_with_link_lease E cp rp messages link_state lease now s = Inr (t, report)"
  shows "st_private_stream_items t = st_private_stream_items s
      @ stored_items E cp rp (st_next_receive_batch_id s) now (st_next_stream_item_id s) messages
    \<and> st_next_stream_item_id t = st_next_stream_item_id s + of_nat (length messages)
    \<and> ir_stream_item_ids report
        = map si_id (stored_items E cp rp (st_next_receive_batch_id s) now (st_next_stream_item_id s) messages)
    \<and> ir_receive_batch_id report = st_next_receive_batch_id s"
proof (rule persist_batch_unfold [of s E cp rp now messages link_state lease])
  fix s0 s1 r
  assume u: "s0 = fst (allocate_receive_batch_id s)"
    "persist_messages E cp rp (st_next_receive_batch_id s) now messages
       (s0, empty_report (st_next_receive_batch_id s)) = (s1, r)"
    "\<And>t' r'. persist_private_stream_batch_with_link_lease E cp rp messages link_state lease now s = Inr (t', r') \<Longrightarrow>
       r' = r \<and> event_dedup_record t' = event_dedup_record s1 \<and> receipt_access_record t' = receipt_access_record s1
       \<and> st_private_stream_items t' = st_private_stream_items s1 \<and> st_next_stream_item_id t' = st_next_stream_item_id s1"
  show ?thesis
    using persist_messages_effect [OF _ u(2)] u(3) [OF assms(2)] assms(1) u(1) by (simp add: empty_report_def)
qed

text \<open>an indexed Receipt Access is never replaced by a later message that reuses its Event ID,
  and every indexed access keeps a dedupe record, which is what protects it.\<close>

theorem receipt_access_never_replaced:
  assumes "tables_inv s" and "accesses_deduped s" and "receipt_access_record s k = Some a"
    and "persist_private_stream_batch_with_link_lease E cp rp messages link_state lease now s = Inr (t, report)"
  shows "receipt_access_record t k = Some a \<and> event_dedup_record t k \<noteq> None"
proof (rule persist_batch_unfold [of s E cp rp now messages link_state lease])
  fix s0 s1 r
  assume u: "s0 = fst (allocate_receive_batch_id s)"
    "persist_messages E cp rp (st_next_receive_batch_id s) now messages
       (s0, empty_report (st_next_receive_batch_id s)) = (s1, r)"
    "\<And>t' r'. persist_private_stream_batch_with_link_lease E cp rp messages link_state lease now s = Inr (t', r') \<Longrightarrow>
       r' = r \<and> event_dedup_record t' = event_dedup_record s1 \<and> receipt_access_record t' = receipt_access_record s1
       \<and> st_private_stream_items t' = st_private_stream_items s1 \<and> st_next_stream_item_id t' = st_next_stream_item_id s1"
  have "accesses_deduped s1 \<and> receipt_access_record s1 k = Some a \<and> tables_inv s1"
    using persist_messages_access [OF _ _ u(2)] persist_messages_effect [OF _ u(2)] assms u(1) by simp
  then show ?thesis using u(3) [OF assms(4)] accesses_deduped_iff [of s1] by (metis option.distinct(1))
qed

text \<open>When the link checkpoint's lease was lost while the batch was decrypted, the whole batch is
  rejected and the store keeps no trace of it.\<close>

theorem batch_with_lost_lease_rejected:
  assumes "tables_inv s" and "require_peer_link_operation_lease s l \<noteq> Inr ()"
  shows "\<exists>c. transaction (persist_private_stream_batch_with_link_lease E cp rp messages (Some ls) (Some l) now) s
    = (s, Inl (SdkPolicy c None))"
proof (rule persist_batch_unfold [of s E cp rp now messages "Some ls" "Some l"])
  fix s0 s1 r
  assume u: "s0 = fst (allocate_receive_batch_id s)"
    "persist_messages E cp rp (st_next_receive_batch_id s) now messages
       (s0, empty_report (st_next_receive_batch_id s)) = (s1, r)"
    "\<And>e. persist_private_stream_batch_with_link_lease E cp rp messages (Some ls) (Some l) now s = Inl e \<longleftrightarrow>
       Some ls \<noteq> None \<and> require_optional_lease s1 (Some l) = Inl e"
  have "peer_link_operation_lease s1 = peer_link_operation_lease s"
    using persist_messages_effect [OF _ u(2)] assms(1) u(1) by simp
  then have "\<exists>c. require_optional_lease s1 (Some l) = Inl (SdkPolicy c None)"
    using assms(2) by (auto simp: require_optional_lease_def require_peer_link_operation_lease_def Let_def
        split: option.splits if_splits)
  then obtain c where "persist_private_stream_batch_with_link_lease E cp rp messages (Some ls) (Some l) now s
      = Inl (SdkPolicy c None)" using u(3) by blast
  then show ?thesis by (auto simp: transaction_def run_storage_state_transaction_def)
qed

text \<open>A request received twice, then a document that is not a message.\<close>

definition sample_messages :: "PrivateApplicationMessage list" where
  "sample_messages = map (from_plaintext sample_ext) [''doc'', ''doc'', ''other'']"

definition sample_intake :: "sdk_error + StorageState \<times> PrivateStreamIntakeReport" where
  "sample_intake = persist_private_stream_batch_with_link_lease sample_ext sample_peer sample_path sample_messages
     None None 5 sample_leased"

lemma classify_valid_event:
  assumes "known_kind E m = Some k" and "parse_event E k (pam_raw_json m) = Some (Inr ev)"
  shows "classify_private_application_message E m =
    \<lparr>cl_status = Valid, cl_parse_error = None, cl_event = Some (event_header k (event_event_id ev)), cl_receipt_access = None\<rparr>"
proof -
  obtain em where em: "parse_payment_request_event_message E m = Some em" "evm_event em = Inr ev"
    using parsed_event_message [OF assms] by blast
  have "k \<noteq> PrivatePaymentListKind" "k \<noteq> ReceiptAccessKind" using assms(2) by (auto simp: parse_event_def)
  then show ?thesis
    using assms(1) em event_message_ids [OF em]
    by (cases k) (simp_all add: classify_private_application_message_def classify_payment_request_event_def
        status_from_event_validity_def evm_is_valid_def evm_validation_error_def)
qed

lemma sample_headers:
  "dedupe_header sample_ext rp (from_plaintext sample_ext ''doc'')
     = Some \<lparr>eh_event_id = sample_uuid, eh_event_kind = ''paykit.payment_request''\<rparr>"
  "dedupe_header sample_ext rp (from_plaintext sample_ext ''other'') = None"
proof -
  have raw: "pam_raw_json (from_plaintext sample_ext ''doc'') = ''doc''" by (simp add: from_plaintext_def Let_def)
  show "dedupe_header sample_ext rp (from_plaintext sample_ext ''doc'')
     = Some \<lparr>eh_event_id = sample_uuid, eh_event_kind = ''paykit.payment_request''\<rparr>"
    using classify_valid_event [OF sample_doc(1) [OF raw], of sample_event] sample_doc(2) [OF raw] raw
    by (simp add: dedupe_header_def enforce_receipt_access_receiver_scope_def event_header_def sample_event_def
        PaymentRequest_new_def)
  show "dedupe_header sample_ext rp (from_plaintext sample_ext ''other'') = None"
    by (simp add: dedupe_header_def enforce_receipt_access_receiver_scope_def classify_private_application_message_def
        known_kind_def value_from_str_def from_plaintext_def sample_ext_def table_ext_def)
qed

lemma sample_leased_tables: "tables_inv sample_leased"
  using sample_leased_inv by (simp add: storage_inv_def)

lemma sample_intake_ok: "\<exists>t report. sample_intake = Inr (t, report)"
proof -
  have "is_ok sample_intake"
    by (simp add: sample_intake_def persist_private_stream_batch_with_link_lease_def Let_def split: prod.splits)
  then show ?thesis by (auto simp: is_ok_iff)
qed

theorem batch_dedupe_refines_witness:
  "\<exists>t report. sample_intake = Inr (t, report) \<and> event_dedup_record t (sample_peer, sample_path, sample_uuid)
     = Some (dedup_add (dedup_first sample_peer sample_path sample_uuid 0 ''paykit.payment_request''
         (payload_hash sample_ext ''doc'')) [(1, ''paykit.payment_request'', payload_hash sample_ext ''doc'')])"
proof -
  obtain t report where t: "sample_intake = Inr (t, report)" using sample_intake_ok by blast
  have "occurrences sample_ext sample_path sample_uuid 0 sample_messages
      = [(0, ''paykit.payment_request'', payload_hash sample_ext ''doc''),
         (1, ''paykit.payment_request'', payload_hash sample_ext ''doc'')]"
    by (simp add: sample_messages_def sample_headers) (simp add: from_plaintext_def Let_def)
  moreover have "st_next_stream_item_id sample_leased = 0" by code_simp
  moreover have "event_dedup_record sample_leased (sample_peer, sample_path, sample_uuid) = None" by code_simp
  ultimately show ?thesis
    using batch_dedupe_refines [OF sample_leased_tables t [unfolded sample_intake_def], of sample_uuid] t
    by (intro exI [of _ t] exI [of _ report]) simp
qed

theorem batch_items_in_order_witness:
  "\<exists>t report. sample_intake = Inr (t, report) \<and> ir_stream_item_ids report = [0, 1, 2]
     \<and> map si_raw_json (st_private_stream_items t) = [''doc'', ''doc'', ''other'']"
proof -
  obtain t report where t: "sample_intake = Inr (t, report)" using sample_intake_ok by blast
  have "st_next_stream_item_id sample_leased = 0" "st_private_stream_items sample_leased = []" by code_simp+
  with batch_items_in_order [OF sample_leased_tables t [unfolded sample_intake_def]]
  have "ir_stream_item_ids report = [0, 1, 2]
      \<and> map si_raw_json (st_private_stream_items t) = [''doc'', ''doc'', ''other'']"
    by (simp add: sample_messages_def stored_item_def stream_item_from_new_def new_stream_item_def from_plaintext_def Let_def)
  with t show ?thesis by (intro exI [of _ t] exI [of _ report]) simp
qed

theorem batch_with_lost_lease_rejected_witness:
  "\<exists>c. transaction (persist_private_stream_batch_with_link_lease sample_ext sample_peer sample_path sample_messages
     (Some (established_state sample_peer sample_path ''link'' 0 1)) (Some (sample_lease\<lparr>le_lease_id := 7\<rparr>)) 5) sample_leased
     = (sample_leased, Inl (SdkPolicy c None))"
proof -
  have "\<not> is_ok (require_peer_link_operation_lease sample_leased (sample_lease\<lparr>le_lease_id := 7\<rparr>))" by code_simp
  then have "require_peer_link_operation_lease sample_leased (sample_lease\<lparr>le_lease_id := 7\<rparr>) \<noteq> Inr ()" by auto
  from batch_with_lost_lease_rejected [OF sample_leased_tables this] show ?thesis by blast
qed

text \<open>A store that already indexed a Receipt Access under the Event ID the batch reuses.\<close>

definition sample_access_record :: ReceiptAccessRecord where
  "sample_access_record =
     \<lparr>ra_counterparty = sample_peer, ra_path = sample_path, ra_stream_item_id = 0, ra_receive_batch_id = 0,
      ra_event_id = sample_uuid, ra_receipt_id = sample_uuid, ra_payment_reference = ''ref'',
      ra_payment_request_id = None, ra_billing_period = None, ra_location = ''loc'', ra_key = ''key'',
      ra_retrieval_status = RetrievalPending, ra_retrieval_attempted_at = None, ra_retrieved_at = None,
      ra_last_retrieval_error = None, ra_received_at = 1\<rparr>"

definition sample_indexed :: StorageState where
  "sample_indexed = save_receipt_access_record sample_access_record
     (save_event_dedup_record (dedup_first sample_peer sample_path sample_uuid 0 ''paykit.receipt_access'' ''h'') empty_storage)"

theorem receipt_access_never_replaced_witness:
  "\<exists>t report. persist_private_stream_batch_with_link_lease sample_ext sample_peer sample_path sample_messages
       None None 5 sample_indexed = Inr (t, report)
     \<and> receipt_access_record t (sample_peer, sample_path, sample_uuid) = Some sample_access_record"
proof -
  have ok: "is_ok (persist_private_stream_batch_with_link_lease sample_ext sample_peer sample_path sample_messages
       None None 5 sample_indexed)"
    by (simp add: persist_private_stream_batch_with_link_lease_def Let_def split: prod.splits)
  then obtain t report where t: "persist_private_stream_batch_with_link_lease sample_ext sample_peer sample_path
      sample_messages None None 5 sample_indexed = Inr (t, report)" by (auto simp: is_ok_iff)
  have "tables_inv sample_indexed"
    unfolding sample_indexed_def by (intro tables_inv_saves) (simp add: tables_inv_def empty_storage_def)
  moreover have "accesses_deduped sample_indexed" by code_simp
  moreover have "receipt_access_record sample_indexed (sample_peer, sample_path, sample_uuid) = Some sample_access_record"
    by code_simp
  ultimately show ?thesis using receipt_access_never_replaced [OF _ _ _ t] t by blast
qed

end
