(* ===== verification/Outbound_Private.thy ===== *)
theory Outbound_Private
  imports Private_Stream Storage_Queue
begin

text \<open>
  The durable outbound queue (\<^verbatim>\<open>paykit-sdk/src/domain/outbound_private/mod.rs\<close>): validation of a
  message before it is queued or sent, enqueueing, claiming under a peer lease, and the delivery
  outcomes. The lemmas show that the sender's validation accepts exactly the messages a receiver
  classifies as valid, and that every record the queue operations leave behind passes the validation
  that runs again before it is sent.
\<close>

section \<open>Validation\<close>

definition private_application_message :: "PrivateMessageKind \<Rightarrow> string \<Rightarrow> PrivateApplicationMessage" where
  "private_application_message kind raw_json =
     \<lparr>pam_version = Some 1, pam_kind = Some (kind_as_str kind), pam_raw_json = raw_json\<rparr>"

definition event_body_result :: "string \<Rightarrow> 'm option \<Rightarrow> ('m \<Rightarrow> string option) \<Rightarrow> unit sdk_res" where
  "event_body_result mismatch parsed validation_error =
     (case parsed of
        None \<Rightarrow> Inl (SdkProtocol mismatch None)
      | Some event \<Rightarrow>
          (case validation_error event of Some err \<Rightarrow> Inl (SdkProtocol err None) | None \<Rightarrow> Inr ()))"

definition validate_outbound_private_message_body :: "ext \<Rightarrow> PrivateMessageKind \<Rightarrow> string \<Rightarrow> unit sdk_res" where
  "validate_outbound_private_message_body E kind raw_json =
     (case kind of
        PrivatePaymentListKind \<Rightarrow>
          rmap (\<lambda>_. ()) (map_err sdk_error_of_lib (parse_private_payment_list_json E raw_json))
      | ReceiptAccessKind \<Rightarrow>
          event_body_result ''Receipt Access payload does not match private message kind''
            (parse_receipt_access_event_message E (private_application_message kind raw_json))
            (\<lambda>event. err_of (ram_access event))
      | _ \<Rightarrow>
          event_body_result ''Payment Request event payload does not match private message kind''
            (parse_payment_request_event_message E (private_application_message kind raw_json))
            evm_validation_error)"

definition validate_outbound_private_message :: "ext \<Rightarrow> string \<Rightarrow> string sdk_res" where
  "validate_outbound_private_message E raw_json =
     (if length raw_json > noise_msg_len E
      then Inl (SdkProtocol ''Private Application Message exceeds pubky-noise message size'' None)
      else
     rbind (map_err (\<lambda>err. SdkProtocol (''invalid private message JSON: '' @ err) None)
              (rmap to_value (json_from_str E raw_json))) (\<lambda>value.
     rbind (case Option.bind (value_get ''version'' value) as_u64 of
              Some v \<Rightarrow> Inr v
            | None \<Rightarrow> Inl (SdkProtocol ''private message version is missing'' None)) (\<lambda>version.
     if version \<noteq> 1
     then Inl (SdkProtocol (''unsupported private message version '' @ show_nat (nat version)) None)
     else
     rbind (case Option.bind (value_get ''kind'' value) as_str of
              Some k \<Rightarrow> Inr k
            | None \<Rightarrow> Inl (SdkProtocol ''private message kind is missing'' None)) (\<lambda>kind.
     rbind (case kind_parse kind of
              Some k \<Rightarrow> Inr k
            | None \<Rightarrow> Inl (SdkProtocol (''unsupported private message kind '' @ quoted kind) None)) (\<lambda>parsed_kind.
     rbind (validate_outbound_private_message_body E parsed_kind raw_json) (\<lambda>_. Inr kind))))))"

definition validate_queued_outbound_private_message :: "ext \<Rightarrow> OutboundPrivateMessageRecord \<Rightarrow> unit sdk_res" where
  "validate_queued_outbound_private_message E record =
     rbind (validate_outbound_private_message E (om_raw_json record)) (\<lambda>kind.
     if kind \<noteq> om_kind record
     then Inl (SdkProtocol (''queued private message kind '' @ quoted (om_kind record)
            @ '' does not match payload kind '' @ quoted kind) None)
     else Inr ())"

section \<open>Enqueueing and claiming\<close>

definition enqueue_private_message ::
  "ext \<Rightarrow> PubkyPublicKey \<Rightarrow> PaykitReceiverPath \<Rightarrow> string \<Rightarrow> instant \<Rightarrow> StorageState
    \<Rightarrow> StorageState \<times> OutboundPrivateMessageRecord sdk_res" where
  "enqueue_private_message E cp rp raw_json now s =
     (case validate_outbound_private_message E raw_json of
        Inl e \<Rightarrow> (s, Inl e)
      | Inr kind \<Rightarrow>
          transaction (\<lambda>tx. Inr (insert_outbound_private_message
            \<lparr>nm_counterparty = cp, nm_path = rp, nm_kind = kind, nm_raw_json = raw_json, nm_created_at = now\<rparr> tx)) s)"

definition enqueue_private_message_with_link_lease ::
  "ext \<Rightarrow> PubkyPublicKey \<Rightarrow> string \<Rightarrow> instant \<Rightarrow> PeerLinkOperationLease \<Rightarrow> StorageState
    \<Rightarrow> StorageState \<times> OutboundPrivateMessageRecord sdk_res" where
  "enqueue_private_message_with_link_lease E cp raw_json now lease s =
     (case validate_outbound_private_message E raw_json of
        Inl e \<Rightarrow> (s, Inl e)
      | Inr kind \<Rightarrow>
          transaction (\<lambda>tx. rbind (require_peer_link_operation_lease tx lease) (\<lambda>_.
            Inr (insert_outbound_private_message
              \<lparr>nm_counterparty = cp, nm_path = le_path lease, nm_kind = kind, nm_raw_json = raw_json,
               nm_created_at = now\<rparr> tx))) s)"

definition claim_next_outbound_private_message_with_peer_lease ::
  "PubkyPublicKey \<Rightarrow> instant \<Rightarrow> instant \<Rightarrow> instant \<Rightarrow> PeerLinkOperationLease
    \<Rightarrow> (sdk_error, OutboundPrivateMessageRecord option) tx" where
  "claim_next_outbound_private_message_with_peer_lease cp now stale_before failed_retry_after lease s =
     rbind (require_peer_link_operation_lease s lease) (\<lambda>_.
     Inr (claim_next_outbound_private_message cp (le_path lease) now stale_before failed_retry_after s))"

section \<open>Delivery outcomes\<close>

definition mark_outbound_sent :: "OutboundPrivateMessageRecord \<Rightarrow> instant \<Rightarrow> OutboundPrivateMessageRecord" where
  "mark_outbound_sent record now =
     record\<lparr>om_status := Sent, om_sent_at := Some now, om_updated_at := now, om_last_error := None\<rparr>"

definition mark_outbound_failed ::
  "OutboundPrivateMessageRecord \<Rightarrow> string \<Rightarrow> instant \<Rightarrow> OutboundPrivateMessageRecord" where
  "mark_outbound_failed record err now =
     record\<lparr>om_status := Failed, om_updated_at := now, om_last_error := Some err\<rparr>"

definition mark_outbound_invalid ::
  "OutboundPrivateMessageRecord \<Rightarrow> string \<Rightarrow> instant \<Rightarrow> OutboundPrivateMessageRecord" where
  "mark_outbound_invalid record err now =
     record\<lparr>om_status := Invalid, om_updated_at := now, om_last_error := Some err\<rparr>"

definition mark_outbound_recovery_required ::
  "OutboundPrivateMessageRecord \<Rightarrow> string \<Rightarrow> instant \<Rightarrow> OutboundPrivateMessageRecord" where
  "mark_outbound_recovery_required record err now =
     record\<lparr>om_status := RecoveryRequired, om_updated_at := now, om_last_error := Some err\<rparr>"

section \<open>Sender and receiver agree on validity\<close>

lemma event_body_ok:
  "event_body_result mm p f = Inr () \<longleftrightarrow> (\<exists>ev. p = Some ev \<and> f ev = None)"
  by (auto simp: event_body_result_def split: option.splits)

text \<open>The parsers look only at the raw JSON, so the sender's synthetic message stands for the received one.\<close>

lemma parse_messages_raw:
  assumes "pam_raw_json m = pam_raw_json m'"
  shows "parse_payment_request_event_message E m = parse_payment_request_event_message E m'"
    and "parse_receipt_access_event_message E m = parse_receipt_access_event_message E m'"
    and "known_kind E m = known_kind E m'"
  unfolding parse_payment_request_event_message_def parse_receipt_access_event_message_def known_kind_def assms
  by (rule refl)+

lemma from_plaintext_raw [simp]: "pam_raw_json (from_plaintext E raw) = raw"
  by (simp add: from_plaintext_def Let_def)

lemma private_application_message_raw [simp]: "pam_raw_json (private_application_message k raw) = raw"
  by (simp add: private_application_message_def)

lemma is_ok_err_of: "is_ok r \<longleftrightarrow> err_of r = None"
  by (cases r) simp_all

lemma body_valid_iff:
  assumes "known_kind E (from_plaintext E raw) = Some k"
  shows "validate_outbound_private_message_body E k raw = Inr () \<longleftrightarrow>
    cl_status (classify_private_application_message E (from_plaintext E raw)) = Valid"
proof -
  note raw = parse_messages_raw [of "private_application_message k raw" "from_plaintext E raw" E, simplified]
  show ?thesis
  proof (cases k)
    case PrivatePaymentListKind
    then show ?thesis
      using assms by (cases "parse_private_payment_list_json E raw")
        (auto simp: validate_outbound_private_message_body_def classify_private_application_message_def)
  next
    case ReceiptAccessKind
    then show ?thesis
      using assms raw
      by (auto simp: validate_outbound_private_message_body_def classify_private_application_message_def Let_def
          event_body_ok status_from_event_validity_def is_ok_err_of split: option.splits)
  qed (use assms raw in \<open>auto simp: validate_outbound_private_message_body_def event_body_ok
      classify_private_application_message_def classify_payment_request_event_def Let_def evm_is_valid_def
      evm_validation_error_def status_from_event_validity_def is_ok_err_of split: option.splits\<close>)
qed

lemma as_u64_nonneg: "as_u64 v = Some n \<Longrightarrow> 0 \<le> n"
  by (cases v) (auto split: if_splits)

lemma u8_one_iff:
  assumes "0 \<le> n" and "n < 256"
  shows "(of_int n :: u8) = 1 \<longleftrightarrow> n = 1"
proof -
  have "uint (of_int n :: u8) = n" using assms by (simp add: uint_word_of_int_eq take_bit_int_eq_self)
  then show ?thesis by (metis of_int_1 unsigned_1)
qed

lemma header_of_plaintext:
  assumes "json_from_str E raw = Inr j"
  shows "known_kind E (from_plaintext E raw) = Option.bind (pam_kind (from_plaintext E raw)) kind_parse"
    and "pam_kind (from_plaintext E raw) = Option.bind (value_get ''kind'' (to_value j)) as_str"
    and "pam_version (from_plaintext E raw) = Some 1 \<longleftrightarrow>
      Option.bind (value_get ''version'' (to_value j)) as_u64 = Some 1"
proof -
  have v: "value_from_str E raw = Some (to_value j)" using assms by (simp add: value_from_str_def)
  show "known_kind E (from_plaintext E raw) = Option.bind (pam_kind (from_plaintext E raw)) kind_parse"
    and "pam_kind (from_plaintext E raw) = Option.bind (value_get ''kind'' (to_value j)) as_str"
    by (simp_all add: known_kind_def from_plaintext_def v)
  show "pam_version (from_plaintext E raw) = Some 1 \<longleftrightarrow>
      Option.bind (value_get ''version'' (to_value j)) as_u64 = Some 1"
  proof (cases "Option.bind (value_get ''version'' (to_value j)) as_u64")
    case (Some n)
    then have "0 \<le> n" by (auto simp: bind_eq_Some_conv intro: as_u64_nonneg)
    with Some show ?thesis using u8_one_iff [of n] by (auto simp: from_plaintext_def v simp del: Option.bind_assoc)
  qed (simp add: from_plaintext_def v del: Option.bind_assoc)
qed

lemma classified_valid_known:
  assumes "cl_status (classify_private_application_message E m) = Valid"
  shows "\<exists>k j. known_kind E m = Some k \<and> json_from_str E (pam_raw_json m) = Inr j"
proof -
  obtain k where k: "known_kind E m = Some k"
    using assms by (cases "known_kind E m") (auto simp: classify_private_application_message_def split: if_splits)
  then show ?thesis by (cases "json_from_str E (pam_raw_json m)") (auto simp: known_kind_def value_from_str_def)
qed

lemma validate_outbound_iff:
  "validate_outbound_private_message E raw = Inr kind \<longleftrightarrow>
     length raw \<le> noise_msg_len E
     \<and> pam_version (from_plaintext E raw) = Some 1 \<and> pam_kind (from_plaintext E raw) = Some kind
     \<and> cl_status (classify_private_application_message E (from_plaintext E raw)) = Valid"
  (is "?lhs \<longleftrightarrow> ?rhs")
proof (cases "json_from_str E raw")
  case (Inl err)
  then show ?thesis
    using classified_valid_known [of E "from_plaintext E raw"]
    by (auto simp: validate_outbound_private_message_def)
next
  case (Inr j)
  note header = header_of_plaintext [OF Inr]
  have "?lhs \<longleftrightarrow> length raw \<le> noise_msg_len E
      \<and> Option.bind (value_get ''version'' (to_value j)) as_u64 = Some 1
      \<and> Option.bind (value_get ''kind'' (to_value j)) as_str = Some kind
      \<and> (\<exists>k. kind_parse kind = Some k \<and> validate_outbound_private_message_body E k raw = Inr ())"
    using Inr by (auto simp: validate_outbound_private_message_def result_iffs simp del: bind_eq_Some_conv
        split: option.splits)
  also have "\<dots> \<longleftrightarrow> ?rhs"
    unfolding header(2,3) [symmetric]
    using body_valid_iff [of E raw] classified_valid_known [of E "from_plaintext E raw"] header(1)
    by (cases "kind_parse kind") auto
  finally show ?thesis .
qed

text \<open>C6: the check before a message is queued or sent accepts exactly the texts that fit a noise
  message, carry version 1, and that the receiving side's own classification of the same plaintext calls
  valid; the kind it returns is the kind the receiver reads.\<close>

theorem outbound_validation_exact:
  "validate_outbound_private_message E raw = Inr kind \<longleftrightarrow>
     length raw \<le> noise_msg_len E
     \<and> pam_version (from_plaintext E raw) = Some 1 \<and> pam_kind (from_plaintext E raw) = Some kind
     \<and> cl_status (classify_private_application_message E (from_plaintext E raw)) = Valid"
  by (rule validate_outbound_iff)

section \<open>What is in the queue can be sent\<close>

definition queue_valid :: "ext \<Rightarrow> StorageState \<Rightarrow> bool" where
  "queue_valid E s \<longleftrightarrow>
     list_all (\<lambda>m. validate_queued_outbound_private_message E m = Inr ()) (st_outbound_private_messages s)"

definition message_body :: "OutboundPrivateMessageRecord \<Rightarrow> string \<times> string" where
  "message_body m = (om_kind m, om_raw_json m)"

text \<open>Validation reads only the body, and neither claiming nor a delivery outcome changes it.\<close>

lemma validate_queued_body:
  "message_body m = message_body m' \<Longrightarrow>
     validate_queued_outbound_private_message E m = validate_queued_outbound_private_message E m'"
  unfolding message_body_def validate_queued_outbound_private_message_def prod.inject by (elim conjE) (simp only:)

lemma queue_valid_iff:
  "queue_valid E s \<longleftrightarrow> (\<forall>m \<in> set (st_outbound_private_messages s). validate_queued_outbound_private_message E m = Inr ())"
  by (simp add: queue_valid_def list_all_iff)

lemma queue_valid_bodies:
  assumes "set (map message_body (st_outbound_private_messages t)) \<subseteq> set (map message_body (st_outbound_private_messages s))"
    and "queue_valid E s"
  shows "queue_valid E t"
  unfolding queue_valid_iff
proof
  fix m assume "m \<in> set (st_outbound_private_messages t)"
  then obtain m' where "m' \<in> set (st_outbound_private_messages s)" "message_body m = message_body m'"
    using assms(1) by fastforce
  then show "validate_queued_outbound_private_message E m = Inr ()"
    using assms(2) validate_queued_body [of m m' E] by (simp add: queue_valid_iff)
qed

lemma mark_bodies [simp]:
  "message_body (mark_outbound_sent m now) = message_body m"
  "message_body (mark_outbound_failed m err now) = message_body m"
  "message_body (mark_outbound_invalid m err now) = message_body m"
  "message_body (mark_outbound_recovery_required m err now) = message_body m"
  by (simp_all add: message_body_def mark_outbound_sent_def mark_outbound_failed_def mark_outbound_invalid_def
      mark_outbound_recovery_required_def)

lemma map_update_same: "i < length xs \<Longrightarrow> f y = f (xs ! i) \<Longrightarrow> map f (xs[i := y]) = map f xs"
  by (metis list_update_id map_update nth_map)

lemma claim_bodies:
  assumes "claim_next_outbound_private_message cp rp now sb fa s = (t, r)"
  shows "map message_body (st_outbound_private_messages t) = map message_body (st_outbound_private_messages s)
    \<and> pred_option (\<lambda>m. m \<in> set (st_outbound_private_messages t)) r"
proof -
  let ?u = "supersede_outdated_private_payment_lists cp rp now sb fa s"
  let ?ms = "st_outbound_private_messages ?u"
  let ?idx = "sort_key snd (map (\<lambda>(i, m). (i, om_id m))
      (filter (\<lambda>(_, m). om_for cp rp m \<and> \<not> om_settled m) (List.enumerate 0 ?ms)))"
  have sup: "map message_body ?ms = map message_body (st_outbound_private_messages s)"
    by (simp add: supersede_outbound message_body_def)
  have inside: "i < length ?ms" if "(i, k) \<in> set ?idx" for i k
    using that by (auto simp: in_set_enumerate_eq)
  show ?thesis
  proof (cases ?idx)
    case Nil
    then show ?thesis using assms sup by (simp add: claim_next_outbound_private_message_def Let_def)
  next
    case (Cons x xs)
    obtain i k where x: "x = (i, k)" by (cases x)
    then have "i < length ?ms" using inside [of i k] Cons by simp
    moreover note Cons [unfolded x]
    ultimately show ?thesis using assms unfolding sup [symmetric]
      by (auto simp: claim_next_outbound_private_message_def Let_def message_body_def set_update_memI
          intro!: map_update_same split: if_splits)
  qed
qed

lemma replace_bodies:
  "replace_outbound r ms = Some ms' \<Longrightarrow> set ms' \<subseteq> insert r (set ms)"
  by (induction ms arbitrary: ms') (auto split: if_splits)

text \<open>
  The operations on the queue: enqueueing with or without a lease, claiming under one, and saving one
  of the four outcomes of a record that is in the queue.
\<close>

inductive outbound_step :: "ext \<Rightarrow> StorageState \<Rightarrow> StorageState \<Rightarrow> bool" for E where
  enqueue: "outbound_step E s (fst (enqueue_private_message E cp rp raw now s))"
| enqueue_leased: "outbound_step E s (fst (enqueue_private_message_with_link_lease E cp raw now lease s))"
| claim: "outbound_step E s (fst (transaction
    (claim_next_outbound_private_message_with_peer_lease cp now sb fa lease) s))"
| outcome: "m \<in> set (st_outbound_private_messages s)
   \<Longrightarrow> m' \<in> {mark_outbound_sent m now, mark_outbound_failed m err now, mark_outbound_invalid m err now,
       mark_outbound_recovery_required m err now}
   \<Longrightarrow> outbound_step E s (fst (transaction (save_outbound_private_message m') s))"

lemma queue_valid_insert:
  assumes "queue_valid E s" and "validate_outbound_private_message E raw = Inr kind"
  shows "queue_valid E (fst (insert_outbound_private_message
    \<lparr>nm_counterparty = cp, nm_path = rp, nm_kind = kind, nm_raw_json = raw, nm_created_at = now\<rparr> s))"
  using assms by (simp add: queue_valid_def insert_outbound_private_message_def Let_def outbound_from_new_def
      validate_queued_outbound_private_message_def)

lemma transaction_fst: "fst (transaction f s) = (case f s of Inl _ \<Rightarrow> s | Inr r \<Rightarrow> fst r)"
  by (auto simp: transaction_def run_storage_state_transaction_def split: sum.splits)

lemma queue_valid_save:
  assumes "queue_valid E s" and "validate_queued_outbound_private_message E m = Inr ()"
  shows "queue_valid E (fst (transaction (save_outbound_private_message m) s))"
  using assms replace_bodies [of m "st_outbound_private_messages s"]
  by (auto simp: transaction_fst save_outbound_private_message_def queue_valid_iff split: option.splits)

lemma outbound_step_valid: "outbound_step E s t \<Longrightarrow> queue_valid E s \<Longrightarrow> queue_valid E t"
proof (induction rule: outbound_step.induct)
  case (enqueue s cp rp raw now)
  then show ?case
    using queue_valid_insert [OF enqueue]
    by (auto simp: enqueue_private_message_def transaction_fst split: sum.splits)
next
  case (enqueue_leased s cp raw now lease)
  then show ?case
    using queue_valid_insert [OF enqueue_leased, of raw _ cp "le_path lease" now]
    by (cases "require_peer_link_operation_lease s lease")
      (auto simp: enqueue_private_message_with_link_lease_def transaction_fst split: sum.splits)
next
  case (claim s cp now sb fa lease)
  let ?t = "fst (claim_next_outbound_private_message cp (le_path lease) now sb fa s)"
  have "map message_body (st_outbound_private_messages ?t) = map message_body (st_outbound_private_messages s)"
    using claim_bodies [of cp "le_path lease" now sb fa s ?t] by (metis prod.collapse)
  then have "queue_valid E ?t" using queue_valid_bodies [OF _ claim, of ?t] by (simp only: order_refl)
  then show ?case
    using claim by (cases "require_peer_link_operation_lease s lease")
      (simp_all add: claim_next_outbound_private_message_with_peer_lease_def transaction_fst)
next
  case (outcome m s m' now err)
  then have "message_body m' = message_body m" "validate_queued_outbound_private_message E m = Inr ()"
    by (auto simp: queue_valid_iff)
  with outcome show ?case using queue_valid_save [of E s m'] validate_queued_body [of m' m E] by simp
qed

interpretation outbox: invariant_system "\<lambda>s. st_outbound_private_messages s = []" "outbound_step E" "queue_valid E" for E
  by unfold_locales (simp add: queue_valid_def, rule outbound_step_valid)


definition sample_outbox :: StorageState where
  "sample_outbox = fst (enqueue_private_message sample_ext sample_peer sample_path ''doc'' 1 sample_leased)"

lemma sample_doc_version: "pam_version (from_plaintext sample_ext ''doc'') = Some 1"
  by code_simp

lemma sample_doc_validated: "validate_outbound_private_message sample_ext ''doc'' = Inr ''paykit.payment_request''"
proof -
  have "cl_status (classify_private_application_message sample_ext (from_plaintext sample_ext ''doc'')) = Valid"
    using classify_valid_event [of sample_ext "from_plaintext sample_ext ''doc''" PaymentRequestKind sample_event]
      sample_doc [of "from_plaintext sample_ext ''doc''"] by simp
  moreover have "pam_kind (from_plaintext sample_ext ''doc'') = Some ''paykit.payment_request''" by code_simp
  ultimately show ?thesis
    using sample_doc_version by (simp add: validate_outbound_iff sample_ext_def table_ext_def)
qed

lemma sample_outbox_eq:
  "sample_outbox = fst (insert_outbound_private_message
     \<lparr>nm_counterparty = sample_peer, nm_path = sample_path, nm_kind = ''paykit.payment_request'', nm_raw_json = ''doc'',
      nm_created_at = 1\<rparr> sample_leased)"
  by (simp add: sample_outbox_def enqueue_private_message_def sample_doc_validated transaction_fst)


end
