(* ===== verification/Reservations.thy ===== *)
theory Reservations
  imports Outbound_Private
begin

text \<open>
  Private Payment List publication and Payment Endpoint Reservations of the SDK
  (\<^verbatim>\<open>domain/private_lists/mod.rs\<close>, \<^verbatim>\<open>domain/endpoint_reservations/mod.rs\<close>): receiving details are
  normalised into a list, the list is queued together with the records of the reservations it uses
  in one transaction, reservations that can no longer be used are reported for cancellation, and
  the counterparty's current list is the latest valid one of its stream.
\<close>

section \<open>Private Payment Lists\<close>

record PrivateReceivingDetail =
  de_identifier :: string
  de_payload :: string

record PrivatePaymentEndpointReservation =
  pr_reservation_id :: string
  pr_receiving_detail :: PrivateReceivingDetail
  pr_expires_at :: "instant option"
  pr_attribution :: "(string, string) hashmap"

record PrivatePaymentListView =
  plv_latest_stream_item_id :: "u64 option"
  plv_payment_endpoints :: "(string, string) hashmap"
  plv_last_refresh_at :: "instant option"

fun normalize_details_loop ::
  "(PaymentEndpointIdentifier, PaymentEndpointPayload) hashmap \<Rightarrow> PrivateReceivingDetail list \<Rightarrow>
   (PaymentEndpointIdentifier, PaymentEndpointPayload) hashmap sdk_res" where
  "normalize_details_loop desired [] = Inr desired"
| "normalize_details_loop desired (d # ds) =
     rbind (map_err sdk_error_of_lib (PaymentEndpointIdentifier_new (de_identifier d))) (\<lambda>ident.
     if hm_get desired ident \<noteq> None
     then Inl (SdkProtocol (''duplicate Payment Endpoint identifier '' @ quoted (identifier_str ident)) None)
     else normalize_details_loop (hm_insert ident (PaymentEndpointPayload (de_payload d)) desired) ds)"

definition normalize_private_receiving_details ::
  "PrivateReceivingDetail list \<Rightarrow> (PaymentEndpointIdentifier, PaymentEndpointPayload) hashmap sdk_res" where
  "normalize_private_receiving_details ds = normalize_details_loop [] ds"

definition enqueue_private_payment_list_with_link_lease ::
  "ext \<Rightarrow> PubkyPublicKey \<Rightarrow> PrivateReceivingDetail list \<Rightarrow> instant \<Rightarrow> PeerLinkOperationLease \<Rightarrow> StorageState \<Rightarrow>
   StorageState \<times> OutboundPrivateMessageRecord sdk_res" where
  "enqueue_private_payment_list_with_link_lease E cp ds now lease s =
     (case rbind (normalize_private_receiving_details ds) (\<lambda>endpoints.
             map_err sdk_error_of_lib (serialize_private_payment_list_json E (PrivatePaymentList_new endpoints))) of
        Inl e \<Rightarrow> (s, Inl e)
      | Inr raw_json \<Rightarrow> enqueue_private_message_with_link_lease E cp raw_json now lease s)"

text \<open>The latest item by id that is a valid list.\<close>

definition derive_private_payment_list_view ::
  "ext \<Rightarrow> PrivateStreamItemRecord list \<Rightarrow> PrivatePaymentListView option sdk_res" where
  "derive_private_payment_list_view E items =
     (case List.find (\<lambda>i. si_parse_status i = Valid
                          \<and> si_known_paykit_kind i = Some (kind_as_str PrivatePaymentListKind))
             (rev (sort_key si_id items)) of
        None \<Rightarrow> Inr None
      | Some item \<Rightarrow>
          rbind (map_err sdk_error_of_lib (parse_private_payment_list_json E (si_raw_json item))) (\<lambda>l.
          Inr (Some \<lparr>plv_latest_stream_item_id = Some (si_id item),
                plv_payment_endpoints = map (\<lambda>(k, v). (identifier_str k, payload_str v)) (ppl_payment_endpoints l),
                plv_last_refresh_at = Some (si_received_at item)\<rparr>)))"

definition current_private_payment_list ::
  "ext \<Rightarrow> StorageState \<Rightarrow> PubkyPublicKey \<Rightarrow> PaykitReceiverPath \<Rightarrow> PrivatePaymentListView option sdk_res" where
  "current_private_payment_list E s cp rp = derive_private_payment_list_view E (private_stream_items s cp rp)"

section \<open>Reservations\<close>

definition MAX_RESERVATION_ID_LEN :: nat where
  "MAX_RESERVATION_ID_LEN = 128"

definition validate_reservation_id :: "string \<Rightarrow> unit sdk_res" where
  "validate_reservation_id rid =
     (if trim rid = [] then Inl (SdkProtocol ''Payment Endpoint Reservation id must not be empty'' None)
      else if length rid > MAX_RESERVATION_ID_LEN
      then Inl (SdkProtocol (''Payment Endpoint Reservation id must be at most ''
             @ show_nat MAX_RESERVATION_ID_LEN @ '' bytes'') None)
      else if list_ex is_control (rust_chars rid)
      then Inl (SdkProtocol ''Payment Endpoint Reservation id must not contain control characters'' None)
      else Inr ())"

definition reservation_payload_hash :: "ext \<Rightarrow> string \<Rightarrow> string" where
  "reservation_payload_hash E payload = sha256_hex E payload"

record PaymentEndpointReservationRecordDraft =
  dr_reservation_id :: string
  dr_counterparty :: PubkyPublicKey
  dr_path :: PaykitReceiverPath
  dr_identifier :: string
  dr_payload_hash :: string
  dr_attribution :: "(string, string) hashmap"
  dr_expires_at :: "instant option"
  dr_created_at :: instant

definition matches_existing ::
  "PaymentEndpointReservationRecordDraft \<Rightarrow> PaymentEndpointReservationRecord \<Rightarrow> bool" where
  "matches_existing d existing \<longleftrightarrow>
     rv_counterparty existing = dr_counterparty d \<and> rv_path existing = dr_path d
     \<and> rv_identifier existing = dr_identifier d \<and> rv_payload_hash existing = dr_payload_hash d"

definition draft_into_record ::
  "PaymentEndpointReservationRecordDraft \<Rightarrow> u64 \<Rightarrow> PaymentEndpointReservationRecord option \<Rightarrow>
   PaymentEndpointReservationRecord" where
  "draft_into_record d outbound_id existing =
     (let (attribution, expires_at, created_at) =
        (case existing of
           Some r \<Rightarrow> (rv_attribution r, rv_expires_at r, rv_created_at r)
         | None \<Rightarrow> (dr_attribution d, dr_expires_at d, dr_created_at d))
      in \<lparr>rv_reservation_id = dr_reservation_id d, rv_counterparty = dr_counterparty d, rv_path = dr_path d,
          rv_identifier = dr_identifier d, rv_payload_hash = dr_payload_hash d, rv_outbound_message_id = outbound_id,
          rv_attribution = attribution, rv_expires_at = expires_at, rv_cancellation_started_at = None,
          rv_created_at = created_at\<rparr>)"

definition record_from_reservation ::
  "ext \<Rightarrow> PubkyPublicKey \<Rightarrow> PaykitReceiverPath \<Rightarrow> PrivatePaymentEndpointReservation \<Rightarrow> instant \<Rightarrow>
   PaymentEndpointReservationRecordDraft" where
  "record_from_reservation E cp rp r now =
     \<lparr>dr_reservation_id = pr_reservation_id r, dr_counterparty = cp, dr_path = rp,
      dr_identifier = de_identifier (pr_receiving_detail r),
      dr_payload_hash = reservation_payload_hash E (de_payload (pr_receiving_detail r)),
      dr_attribution = pr_attribution r, dr_expires_at = pr_expires_at r, dr_created_at = now\<rparr>"

fun build_reservations_loop ::
  "ext \<Rightarrow> PubkyPublicKey \<Rightarrow> PaykitReceiverPath \<Rightarrow> instant \<Rightarrow> string set \<Rightarrow> PrivatePaymentEndpointReservation list \<Rightarrow>
   (PrivateReceivingDetail list \<times> PaymentEndpointReservationRecordDraft list) sdk_res" where
  "build_reservations_loop E cp rp now ids [] = Inr ([], [])"
| "build_reservations_loop E cp rp now ids (r # rs) =
     rbind (validate_reservation_id (pr_reservation_id r)) (\<lambda>_.
     if pr_reservation_id r \<in> ids
     then Inl (SdkProtocol (''duplicate Payment Endpoint Reservation id '' @ quoted (pr_reservation_id r)) None)
     else rbind (build_reservations_loop E cp rp now (insert (pr_reservation_id r) ids) rs) (\<lambda>(ds, drafts).
     Inr (pr_receiving_detail r # ds, record_from_reservation E cp rp r now # drafts)))"

definition build_reservation_records ::
  "ext \<Rightarrow> PubkyPublicKey \<Rightarrow> PaykitReceiverPath \<Rightarrow> PrivatePaymentEndpointReservation list \<Rightarrow> instant \<Rightarrow>
   (PrivateReceivingDetail list \<times> PaymentEndpointReservationRecordDraft list) sdk_res" where
  "build_reservation_records E cp rp rs now =
     rbind (build_reservations_loop E cp rp now {} rs) (\<lambda>(ds, drafts).
     rbind (normalize_private_receiving_details ds) (\<lambda>_. Inr (ds, drafts)))"

text \<open>The check of every draft against the stored reservation of its id.\<close>

fun check_drafts ::
  "StorageState \<Rightarrow> PaymentEndpointReservationRecordDraft list \<Rightarrow>
   (PaymentEndpointReservationRecordDraft \<times> PaymentEndpointReservationRecord option) list sdk_res" where
  "check_drafts s [] = Inr []"
| "check_drafts s (d # ds) =
     (let existing = payment_endpoint_reservation s (dr_counterparty d, dr_path d, dr_reservation_id d)
      in rbind (case existing of
                  None \<Rightarrow> Inr ()
                | Some r \<Rightarrow>
                    if rv_cancellation_started_at r \<noteq> None
                    then Inl (SdkPolicy (''Payment Endpoint Reservation id '' @ quoted (dr_reservation_id d)
                           @ '' is being canceled'') None)
                    else if \<not> matches_existing d r
                    then Inl (SdkProtocol (''Payment Endpoint Reservation id '' @ quoted (dr_reservation_id d)
                           @ '' already exists with different details'') None)
                    else Inr ()) (\<lambda>_.
         rbind (check_drafts s ds) (\<lambda>checked. Inr ((d, existing) # checked))))"

definition queue_list_tx ::
  "PubkyPublicKey \<Rightarrow> PaykitReceiverPath \<Rightarrow> string \<Rightarrow> string \<Rightarrow> PaymentEndpointReservationRecordDraft list \<Rightarrow> instant \<Rightarrow>
   PeerLinkOperationLease option \<Rightarrow> (sdk_error, OutboundPrivateMessageRecord) tx" where
  "queue_list_tx cp rp kind raw_json drafts now lease s =
     rbind (case lease of None \<Rightarrow> Inr () | Some l \<Rightarrow> require_peer_link_operation_lease s l) (\<lambda>_.
     rbind (check_drafts s drafts) (\<lambda>checked.
     let (s1, outbound) = insert_outbound_private_message
           \<lparr>nm_counterparty = cp, nm_path = rp, nm_kind = kind, nm_raw_json = raw_json, nm_created_at = now\<rparr> s
     in Inr (fold (\<lambda>(d, existing). save_payment_endpoint_reservation (draft_into_record d (om_id outbound) existing)) checked s1,
             outbound)))"

definition queue_private_payment_list_with_reservations_inner ::
  "ext \<Rightarrow> PubkyPublicKey \<Rightarrow> PaykitReceiverPath \<Rightarrow> PrivatePaymentEndpointReservation list \<Rightarrow> instant \<Rightarrow>
   PeerLinkOperationLease option \<Rightarrow> StorageState \<Rightarrow> StorageState \<times> OutboundPrivateMessageRecord sdk_res" where
  "queue_private_payment_list_with_reservations_inner E cp rp rs now lease s =
     (case rbind (build_reservation_records E cp rp rs now) (\<lambda>(ds, drafts).
           rbind (normalize_private_receiving_details ds) (\<lambda>endpoints.
           rbind (map_err sdk_error_of_lib (serialize_private_payment_list_json E (PrivatePaymentList_new endpoints))) (\<lambda>raw_json.
           rbind (validate_outbound_private_message E raw_json) (\<lambda>kind.
           Inr (drafts, raw_json, kind))))) of
        Inl e \<Rightarrow> (s, Inl e)
      | Inr (drafts, raw_json, kind) \<Rightarrow> transaction (queue_list_tx cp rp kind raw_json drafts now lease) s)"

definition queue_private_payment_list_with_reservations_with_link_lease ::
  "ext \<Rightarrow> PubkyPublicKey \<Rightarrow> PrivatePaymentEndpointReservation list \<Rightarrow> instant \<Rightarrow> PeerLinkOperationLease \<Rightarrow>
   StorageState \<Rightarrow> StorageState \<times> OutboundPrivateMessageRecord sdk_res" where
  "queue_private_payment_list_with_reservations_with_link_lease E cp rs now lease s =
     queue_private_payment_list_with_reservations_inner E cp (le_path lease) rs now (Some lease) s"

section \<open>Cancellations\<close>

record PrivatePaymentEndpointReservationCancellation =
  pc_reservation_id :: string
  pc_counterparty :: PubkyPublicKey
  pc_path :: PaykitReceiverPath
  pc_identifier :: string
  pc_payload_hash :: string
  pc_attribution :: "(string, string) hashmap"

record PaymentEndpointReservationCancellationRecord =
  cr_outbound_message_id :: u64
  cr_cancellation :: PrivatePaymentEndpointReservationCancellation

definition cancellation_record_from_reservation_record ::
  "PaymentEndpointReservationRecord \<Rightarrow> PaymentEndpointReservationCancellationRecord" where
  "cancellation_record_from_reservation_record r =
     \<lparr>cr_outbound_message_id = rv_outbound_message_id r,
      cr_cancellation = \<lparr>pc_reservation_id = rv_reservation_id r, pc_counterparty = rv_counterparty r,
        pc_path = rv_path r, pc_identifier = rv_identifier r, pc_payload_hash = rv_payload_hash r,
        pc_attribution = rv_attribution r\<rparr>\<rparr>"

definition unattempted_superseded_reservation_cancellations ::
  "StorageState \<Rightarrow> PubkyPublicKey \<Rightarrow> PaykitReceiverPath \<Rightarrow> PaymentEndpointReservationCancellationRecord list" where
  "unattempted_superseded_reservation_cancellations s cp rp =
     (let superseded = map om_id (filter (\<lambda>m. om_kind m = kind_as_str PrivatePaymentListKind
            \<and> om_status m = Superseded \<and> om_last_attempt_at m = None) (outbound_private_messages s cp rp))
      in map cancellation_record_from_reservation_record
           (filter (\<lambda>r. rv_outbound_message_id r \<in> set superseded) (payment_endpoint_reservations s cp rp)))"

definition invalid_private_list_reservation_cancellations ::
  "StorageState \<Rightarrow> PubkyPublicKey \<Rightarrow> PaykitReceiverPath \<Rightarrow> PaymentEndpointReservationCancellationRecord list" where
  "invalid_private_list_reservation_cancellations s cp rp =
     (let invalid = map om_id (filter (\<lambda>m. om_kind m = kind_as_str PrivatePaymentListKind
            \<and> om_status m = Invalid) (outbound_private_messages s cp rp))
      in map cancellation_record_from_reservation_record
           (filter (\<lambda>r. rv_outbound_message_id r \<in> set invalid) (payment_endpoint_reservations s cp rp)))"

definition expired_outbound_reservation_cancellations ::
  "StorageState \<Rightarrow> PubkyPublicKey \<Rightarrow> PaykitReceiverPath \<Rightarrow> u64 \<Rightarrow> instant \<Rightarrow>
   PaymentEndpointReservationCancellationRecord list" where
  "expired_outbound_reservation_cancellations s cp rp outbound_id now =
     (let records = filter (\<lambda>r. rv_outbound_message_id r = outbound_id) (payment_endpoint_reservations s cp rp)
      in if list_ex (\<lambda>r. case rv_expires_at r of None \<Rightarrow> False | Some t \<Rightarrow> t \<le> now) records
         then map cancellation_record_from_reservation_record records else [])"

section \<open>Reservations and the lists that use them\<close>

lemma normalize_loop_sound:
  assumes "normalize_details_loop acc ds = Inr eps" and "distinct (map fst acc)"
    and "list_all (\<lambda>(k, v). PaymentEndpointIdentifier_new (identifier_str k) = Inr k) acc"
  shows "distinct (map fst eps)"
    and "list_all (\<lambda>(k, v). PaymentEndpointIdentifier_new (identifier_str k) = Inr k) eps"
    and "\<And>k v. hm_get acc k = Some v \<Longrightarrow> hm_get eps k = Some v"
    and "\<And>d. d \<in> set ds \<Longrightarrow> PaymentEndpointIdentifier_new (de_identifier d) = Inr (PaymentEndpointIdentifier (de_identifier d))
           \<and> hm_get eps (PaymentEndpointIdentifier (de_identifier d)) = Some (PaymentEndpointPayload (de_payload d))"
  using assms
proof (atomize (full), induction ds arbitrary: acc)
  case (Cons d ds)
  from Cons.prems(1)
  obtain i where i: "PaymentEndpointIdentifier_new (de_identifier d) = Inr i" and fresh: "hm_get acc i = None"
    and rest: "normalize_details_loop (hm_insert i (PaymentEndpointPayload (de_payload d)) acc) ds = Inr eps"
    by (auto simp: result_iffs split: if_splits)
  have eq: "i = PaymentEndpointIdentifier (de_identifier d)"
    using i identifier_new_str [OF i] by (cases i) simp
  let ?acc = "hm_insert i (PaymentEndpointPayload (de_payload d)) acc"
  have wf: "list_all (\<lambda>(k, v). PaymentEndpointIdentifier_new (identifier_str k) = Inr k) ?acc"
    using Cons.prems(3) i eq set_update_subset [of i "PaymentEndpointPayload (de_payload d)" acc]
    by (fastforce simp: list_all_iff)
  have keep: "hm_get ?acc k = Some v" if "hm_get acc k = Some v" for k v
    using that fresh by (auto simp: table_simps)
  have "hm_get ?acc i = Some (PaymentEndpointPayload (de_payload d))" by (simp add: table_simps)
  moreover have "distinct (map fst ?acc)" using Cons.prems(2) by (simp add: distinct_update)
  ultimately show ?case
    using Cons.IH [OF rest _ wf] keep i eq by (auto simp del: map_of_eq_Some_iff)
qed simp

lemma build_loop_eq:
  "build_reservations_loop E cp rp now ids rs = Inr (ds, drafts) \<Longrightarrow>
   ds = map pr_receiving_detail rs \<and> drafts = map (\<lambda>r. record_from_reservation E cp rp r now) rs
   \<and> distinct (map pr_reservation_id rs) \<and> ids \<inter> set (map pr_reservation_id rs) = {}"
proof (induction rs arbitrary: ids ds drafts)
  case (Cons r rs)
  then show ?case by (fastforce simp: rbind_Inr_iff split: if_splits)
qed auto

definition draft_key :: "PaymentEndpointReservationRecordDraft \<Rightarrow> peer_item_key" where
  "draft_key d = (dr_counterparty d, dr_path d, dr_reservation_id d)"

lemma check_drafts_eq:
  "check_drafts s drafts = Inr checked \<Longrightarrow>
   checked = map (\<lambda>d. (d, payment_endpoint_reservation s (draft_key d))) drafts"
  by (induction drafts arbitrary: checked) (auto simp: rbind_Inr_iff Let_def draft_key_def)

lemma rv_key_draft [simp]: "rv_key (draft_into_record d i existing) = draft_key d"
  by (simp add: draft_into_record_def rv_key_def draft_key_def split: option.splits)

lemma draft_record_fields [simp]:
  "rv_outbound_message_id (draft_into_record d i existing) = i"
  "rv_counterparty (draft_into_record d i existing) = dr_counterparty d"
  "rv_path (draft_into_record d i existing) = dr_path d"
  "rv_identifier (draft_into_record d i existing) = dr_identifier d"
  "rv_payload_hash (draft_into_record d i existing) = dr_payload_hash d"
  by (simp_all add: draft_into_record_def split: option.splits)

text \<open>
  A reservation is backed by a message: the queue holds, for the same peer, the list it was
  published in, and the list carries the reserved payload under the reserved identifier.
\<close>

definition reservation_backed :: "ext \<Rightarrow> OutboundPrivateMessageRecord list \<Rightarrow> PaymentEndpointReservationRecord \<Rightarrow> bool" where
  "reservation_backed E ms r \<longleftrightarrow>
     (\<exists>m \<in> set ms. om_id m = rv_outbound_message_id r \<and> om_counterparty m = rv_counterparty r \<and> om_path m = rv_path r
        \<and> om_kind m = kind_as_str PrivatePaymentListKind
        \<and> (\<exists>l p. parse_private_payment_list_json E (om_raw_json m) = Inr l
             \<and> hm_get (ppl_payment_endpoints l) (PaymentEndpointIdentifier (rv_identifier r)) = Some p
             \<and> rv_payload_hash r = reservation_payload_hash E (payload_str p)))"

definition reservations_backed :: "ext \<Rightarrow> StorageState \<Rightarrow> bool" where
  "reservations_backed E s \<longleftrightarrow>
     (\<forall>k r. payment_endpoint_reservation s k = Some r \<longrightarrow> reservation_backed E (st_outbound_private_messages s) r)"

lemma reservation_backed_mono: "reservation_backed E ms r \<Longrightarrow> set ms \<subseteq> set ms' \<Longrightarrow> reservation_backed E ms' r"
  unfolding reservation_backed_def by blast

lemma save_reservation_messages [simp]:
  "st_outbound_private_messages (save_payment_endpoint_reservation r s) = st_outbound_private_messages s"
  by (simp add: save_payment_endpoint_reservation_def)

lemma fold_save_messages [simp]:
  "st_outbound_private_messages (fold save_payment_endpoint_reservation rs s) = st_outbound_private_messages s"
  by (induction rs arbitrary: s) auto

lemma fold_save_backed:
  assumes "reservations_backed E s" and "\<And>r. r \<in> set rs \<Longrightarrow> reservation_backed E (st_outbound_private_messages s) r"
  shows "reservations_backed E (fold save_payment_endpoint_reservation rs s)"
  using assms
proof (induction rs arbitrary: s)
  case (Cons r rs)
  have "reservations_backed E (save_payment_endpoint_reservation r s)"
    using Cons.prems by (auto simp: reservations_backed_def reservations.load_save)
  then show ?case using Cons.IH [of "save_payment_endpoint_reservation r s"] Cons.prems by simp
qed simp

lemma fold_save_loads:
  "distinct (map rv_key rs) \<Longrightarrow> r \<in> set rs \<Longrightarrow>
   payment_endpoint_reservation (fold save_payment_endpoint_reservation rs s) (rv_key r) = Some r"
proof (induction rs arbitrary: s)
  case (Cons a rs)
  show ?case
  proof (cases "r \<in> set rs")
    case True
    with Cons show ?thesis by simp
  next
    case False
    with Cons.prems have "r = a" and "rv_key a \<notin> rv_key ` set rs" by auto
    then show ?thesis using reservations.load_saves_frame [of "rv_key a" rs] by (simp add: reservations.load_save_same)
  qed
qed simp

lemma list_document_kind:
  assumes "json_from_str E raw = Inr (private_payment_list_json (PrivatePaymentList_new eps))"
    and "validate_outbound_private_message E raw = Inr kind"
  shows "kind = kind_as_str PrivatePaymentListKind"
proof -
  have "value_get ''kind'' (to_value (private_payment_list_json (PrivatePaymentList_new eps)))
      = Some (JStr (kind_as_str PrivatePaymentListKind))"
    unfolding private_payment_list_json_def by (subst value_get_to_value) (simp_all add: PrivatePaymentList_new_def)
  with assms show ?thesis
    by (auto simp: validate_outbound_private_message_def result_iffs split: if_splits option.splits)
qed

text \<open>What a successful queueing has checked and built.\<close>

lemma queue_reservations_ok:
  assumes "queue_private_payment_list_with_reservations_inner E cp rp rs now lease s = (t, Inr m)"
  obtains eps raw where
    "normalize_private_receiving_details (map pr_receiving_detail rs) = Inr eps"
    "serialize_private_payment_list_json E (PrivatePaymentList_new eps) = Inr raw"
    "validate_outbound_private_message E raw = Inr (om_kind m)"
    "distinct (map pr_reservation_id rs)"
    "m = outbound_from_new (st_next_outbound_id s)
       \<lparr>nm_counterparty = cp, nm_path = rp, nm_kind = om_kind m, nm_raw_json = raw, nm_created_at = now\<rparr>"
    "t = fold save_payment_endpoint_reservation
           (map (\<lambda>r. let d = record_from_reservation E cp rp r now
                      in draft_into_record d (om_id m) (payment_endpoint_reservation s (draft_key d))) rs)
           (s\<lparr>st_next_outbound_id := st_next_outbound_id s + 1,
              st_outbound_private_messages := st_outbound_private_messages s @ [m]\<rparr>)"
proof -
  obtain ds drafts eps raw kind where build: "build_reservation_records E cp rp rs now = Inr (ds, drafts)"
    and eps: "normalize_private_receiving_details ds = Inr eps"
    and raw: "serialize_private_payment_list_json E (PrivatePaymentList_new eps) = Inr raw"
    and kind: "validate_outbound_private_message E raw = Inr kind"
    and tx: "queue_list_tx cp rp kind raw drafts now lease s = Inr (t, m)"
    using assms
    by (auto simp: queue_private_payment_list_with_reservations_inner_def transaction_def
        run_storage_state_transaction_def result_iffs split: sum.splits prod.splits)
  have parts: "ds = map pr_receiving_detail rs" "drafts = map (\<lambda>r. record_from_reservation E cp rp r now) rs"
    "distinct (map pr_reservation_id rs)"
    using build build_loop_eq [of E cp rp now "{}" rs ds drafts]
    by (auto simp: build_reservation_records_def result_iffs)
  from tx obtain checked where "check_drafts s drafts = Inr checked" by (auto simp: queue_list_tx_def result_iffs)
  from check_drafts_eq [OF this] tx this
  have "m = outbound_from_new (st_next_outbound_id s)
       \<lparr>nm_counterparty = cp, nm_path = rp, nm_kind = kind, nm_raw_json = raw, nm_created_at = now\<rparr>
     \<and> t = fold (\<lambda>d. save_payment_endpoint_reservation
             (draft_into_record d (om_id m) (payment_endpoint_reservation s (draft_key d)))) drafts
           (s\<lparr>st_next_outbound_id := st_next_outbound_id s + 1,
              st_outbound_private_messages := st_outbound_private_messages s @ [m]\<rparr>)"
    by (auto simp: queue_list_tx_def rbind_Inr_iff insert_outbound_private_message_def Let_def fold_map comp_def)
  then have m: "m = outbound_from_new (st_next_outbound_id s)
       \<lparr>nm_counterparty = cp, nm_path = rp, nm_kind = om_kind m, nm_raw_json = raw, nm_created_at = now\<rparr>"
    and k: "om_kind m = kind"
    and t: "t = fold save_payment_endpoint_reservation
           (map (\<lambda>r. let d = record_from_reservation E cp rp r now
                      in draft_into_record d (om_id m) (payment_endpoint_reservation s (draft_key d))) rs)
           (s\<lparr>st_next_outbound_id := st_next_outbound_id s + 1,
              st_outbound_private_messages := st_outbound_private_messages s @ [m]\<rparr>)"
    by (simp_all add: parts(2) fold_map comp_def Let_def outbound_from_new_def)
  show ?thesis using that [OF _ raw _ parts(3) m t] eps kind k parts(1) by simp
qed

lemma queue_reservations_failed:
  "queue_private_payment_list_with_reservations_inner E cp rp rs now lease s = (t, Inl e) \<Longrightarrow> t = s"
  by (auto simp: queue_private_payment_list_with_reservations_inner_def transaction_def
      run_storage_state_transaction_def split: sum.splits prod.splits)

lemma queue_reservations_backed:
  assumes "queue_private_payment_list_with_reservations_inner E cp rp rs now lease s = (t, Inr m)"
    and "reservations_backed E s" and "json_prints_back E"
  shows "reservations_backed E t \<and> m \<in> set (st_outbound_private_messages t)
    \<and> (\<forall>r \<in> set rs. \<exists>v. payment_endpoint_reservation t (cp, rp, pr_reservation_id r) = Some v
         \<and> rv_outbound_message_id v = om_id m)"
proof -
  from assms(1) obtain eps raw where
    eps: "normalize_private_receiving_details (map pr_receiving_detail rs) = Inr eps"
    and raw: "serialize_private_payment_list_json E (PrivatePaymentList_new eps) = Inr raw"
    and kind: "validate_outbound_private_message E raw = Inr (om_kind m)"
    and ids: "distinct (map pr_reservation_id rs)"
    and m: "m = outbound_from_new (st_next_outbound_id s)
       \<lparr>nm_counterparty = cp, nm_path = rp, nm_kind = om_kind m, nm_raw_json = raw, nm_created_at = now\<rparr>"
    and t: "t = fold save_payment_endpoint_reservation
           (map (\<lambda>r. let d = record_from_reservation E cp rp r now
                      in draft_into_record d (om_id m) (payment_endpoint_reservation s (draft_key d))) rs)
           (s\<lparr>st_next_outbound_id := st_next_outbound_id s + 1,
              st_outbound_private_messages := st_outbound_private_messages s @ [m]\<rparr>)"
    by (auto elim: queue_reservations_ok)
  note eps_ok = normalize_loop_sound [OF eps [unfolded normalize_private_receiving_details_def]]
  have body: "om_raw_json m = raw" "om_counterparty m = cp" "om_path m = rp"
    by (subst m, simp add: outbound_from_new_def)+
  have json: "json_from_str E raw = Inr (private_payment_list_json (PrivatePaymentList_new eps))"
    and faithful: "json_faithful E (private_payment_list_json (PrivatePaymentList_new eps))"
    using raw assms(3)
    by (auto simp: serialize_private_payment_list_json_def to_json_string_def map_err_Inr_iff json_prints_back_def
        json_faithful_def)
  have kind': "om_kind m = kind_as_str PrivatePaymentListKind" using list_document_kind [OF json kind] .
  have parsed: "parse_private_payment_list_json E raw = Inr (PrivatePaymentList_new eps)"
    using eps_ok(1,2) by (intro parse_serialized_list [OF _ faithful raw]) (simp add: list_wf_def PrivatePaymentList_new_def)
  let ?new = "\<lambda>r. let d = record_from_reservation E cp rp r now
                      in draft_into_record d (om_id m) (payment_endpoint_reservation s (draft_key d))"
  let ?s1 = "s\<lparr>st_next_outbound_id := st_next_outbound_id s + 1,
              st_outbound_private_messages := st_outbound_private_messages s @ [m]\<rparr>"
  have "reservations_backed E ?s1"
    using assms(2) by (auto simp: reservations_backed_def payment_endpoint_reservation_def
        intro: reservation_backed_mono [of E "st_outbound_private_messages s"])
  moreover have "reservation_backed E (st_outbound_private_messages ?s1) (?new r)" if "r \<in> set rs" for r
    using eps_ok(4) [of "pr_receiving_detail r"] that body kind' parsed
    by (auto simp: reservation_backed_def Let_def record_from_reservation_def PrivatePaymentList_new_def)
  ultimately have backed: "reservations_backed E t" unfolding t by (intro fold_save_backed) auto
  have keys: "rv_key (?new r) = (cp, rp, pr_reservation_id r)" for r
    by (simp add: Let_def draft_key_def record_from_reservation_def)
  have "inj (\<lambda>i. (cp, rp, i :: string))" by (simp add: inj_def)
  then have "distinct (map (\<lambda>i. (cp, rp, i)) (map pr_reservation_id rs))"
    using ids by (simp only: distinct_map inj_on_subset) (auto simp: inj_on_def)
  then have "distinct (map rv_key (map ?new rs))" by (simp only: map_map comp_def keys)
  then have "payment_endpoint_reservation t (cp, rp, pr_reservation_id r) = Some (?new r)" if "r \<in> set rs" for r
    using that fold_save_loads [of "map ?new rs" "?new r" ?s1] by (simp only: keys [symmetric] t) simp
  with backed t show ?thesis by (auto simp: Let_def)
qed

text \<open>publishing a private list with reservations is one step for the store: it either changes
  nothing, or it queues the list and links every reservation to it. Then every reservation of the
  store, the new ones and the earlier ones, still is backed by a queued list of its peer that
  carries the reserved payload under the reserved identifier.\<close>

theorem queued_reservations_backed:
  assumes "queue_private_payment_list_with_reservations_inner E cp rp rs now lease s = (t, res)"
    and "reservations_backed E s" and "json_prints_back E"
  shows "case res of
      Inl _ \<Rightarrow> t = s
    | Inr m \<Rightarrow> reservations_backed E t \<and> m \<in> set (st_outbound_private_messages t)
        \<and> (\<forall>r \<in> set rs. \<exists>v. payment_endpoint_reservation t (cp, rp, pr_reservation_id r) = Some v
             \<and> rv_outbound_message_id v = om_id m)"
  using queue_reservations_failed [of E cp rp rs now lease s t] queue_reservations_backed [OF _ assms(2,3), of cp rp rs now lease t] assms(1)
  by (cases res) simp_all

text \<open>One reserved on-chain address, published in a list of its own.\<close>

definition sample_reserved_list :: PrivatePaymentList where
  "sample_reserved_list =
     PrivatePaymentList_new [(PaymentEndpointIdentifier ''btc-onchain'', PaymentEndpointPayload ''bc1q'')]"

definition sample_reservation_ext :: ext where
  "sample_reservation_ext = table_ext [(''doc'', private_payment_list_json sample_reserved_list)]"

definition sample_reservation :: PrivatePaymentEndpointReservation where
  "sample_reservation =
     \<lparr>pr_reservation_id = ''r1'', pr_receiving_detail = \<lparr>de_identifier = ''btc-onchain'', de_payload = ''bc1q''\<rparr>,
      pr_expires_at = Some 100, pr_attribution = []\<rparr>"

lemma sample_list_printed: "serialize_private_payment_list_json sample_reservation_ext sample_reserved_list = Inr ''doc''"
  "json_from_str sample_reservation_ext ''doc'' = Inr (private_payment_list_json sample_reserved_list)"
  by (simp_all add: serialize_private_payment_list_json_def to_json_string_def sample_reservation_ext_def table_ext_def)

lemma sample_list_valid:
  "validate_outbound_private_message sample_reservation_ext ''doc'' = Inr (kind_as_str PrivatePaymentListKind)"
proof -
  have "list_wf sample_reserved_list" by code_simp
  moreover have "json_faithful sample_reservation_ext (private_payment_list_json sample_reserved_list)"
    by (simp add: json_faithful_def sample_reservation_ext_def table_ext_def)
  ultimately have parsed: "parse_private_payment_list_json sample_reservation_ext ''doc'' = Inr sample_reserved_list"
    using sample_list_printed(1) by (intro parse_serialized_list)
  have header: "value_get ''version'' (to_value (private_payment_list_json sample_reserved_list)) = Some (JInt 1)"
    "value_get ''kind'' (to_value (private_payment_list_json sample_reserved_list))
       = Some (JStr (kind_as_str PrivatePaymentListKind))"
    unfolding private_payment_list_json_def
    by (subst value_get_to_value; simp add: sample_reserved_list_def PrivatePaymentList_new_def)+
  have "kind_parse (kind_as_str PrivatePaymentListKind) = Some PrivatePaymentListKind" by code_simp
  moreover have "noise_msg_len sample_reservation_ext = 1000" by (simp add: sample_reservation_ext_def table_ext_def)
  ultimately show ?thesis
    by (simp add: validate_outbound_private_message_def sample_list_printed(2) header parsed
        validate_outbound_private_message_body_def del: kind_as_str.simps)
qed

lemma sample_reservation_built:
  "build_reservation_records E cp rp [sample_reservation] now
     = Inr ([\<lparr>de_identifier = ''btc-onchain'', de_payload = ''bc1q''\<rparr>], [record_from_reservation E cp rp sample_reservation now])"
  "normalize_private_receiving_details [\<lparr>de_identifier = ''btc-onchain'', de_payload = ''bc1q''\<rparr>]
     = Inr [(PaymentEndpointIdentifier ''btc-onchain'', PaymentEndpointPayload ''bc1q'')]"
proof -
  show norm: "normalize_private_receiving_details [\<lparr>de_identifier = ''btc-onchain'', de_payload = ''bc1q''\<rparr>]
     = Inr [(PaymentEndpointIdentifier ''btc-onchain'', PaymentEndpointPayload ''bc1q'')]"
    by code_simp
  have "validate_reservation_id ''r1'' = Inr ()" by code_simp
  then show "build_reservation_records E cp rp [sample_reservation] now
     = Inr ([\<lparr>de_identifier = ''btc-onchain'', de_payload = ''bc1q''\<rparr>], [record_from_reservation E cp rp sample_reservation now])"
    using norm by (simp add: build_reservation_records_def sample_reservation_def)
qed

theorem queued_reservations_backed_witness:
  "\<exists>t m. queue_private_payment_list_with_reservations_inner sample_reservation_ext (PubkyPublicKey ''payer'')
           (PaykitReceiverPath ''bitkit/wallet'') [sample_reservation] 5 None empty_storage = (t, Inr m)
     \<and> reservations_backed sample_reservation_ext t"
proof -
  obtain t m where run: "queue_private_payment_list_with_reservations_inner sample_reservation_ext (PubkyPublicKey ''payer'')
           (PaykitReceiverPath ''bitkit/wallet'') [sample_reservation] 5 None empty_storage = (t, Inr m)"
    using sample_list_printed(1) sample_list_valid
    by (simp add: queue_private_payment_list_with_reservations_inner_def sample_reservation_built
        sample_reserved_list_def transaction_def run_storage_state_transaction_def queue_list_tx_def
        payment_endpoint_reservation_def empty_storage_def insert_outbound_private_message_def Let_def)
  have "reservations_backed sample_reservation_ext empty_storage"
    by (simp add: reservations_backed_def payment_endpoint_reservation_def empty_storage_def)
  moreover have "json_prints_back sample_reservation_ext"
    unfolding sample_reservation_ext_def by (rule table_ext_prints_back) simp
  ultimately have "reservations_backed sample_reservation_ext t"
    using queued_reservations_backed [OF run] by simp
  with run show ?thesis by blast
qed

end
