(* ===== verification/Link_Snapshots.thy ===== *)
theory Link_Snapshots
  imports Private_Messages
begin

text \<open>
  Stored forms of Encrypted Links (\<^verbatim>\<open>paykit-lib/src/encrypted_link/snapshot.rs\<close>) and Encrypted Link
  Recovery Markers (\<^verbatim>\<open>encrypted_link_recovery.rs\<close>): the receiver-scoped snapshot of a link or of a
  handshake with its wire struct, and the public marker with its paths. The lemmas show the round
  trips of both wire forms.
\<close>

section \<open>Snapshots\<close>

definition SNAPSHOT_WIRE_VERSION :: u32 where
  "SNAPSHOT_WIRE_VERSION = 1"

record SnapshotWire =
  sw_version :: u32
  sw_local_receiver_path :: PaykitReceiverPath
  sw_remote_receiver_path :: PaykitReceiverPath
  sw_remote_noise_public_key :: PublicKey
  sw_state :: string

text \<open>The receiver path is read through \<^verbatim>\<open>PaykitReceiverPath::new\<close>.\<close>

definition de_receiver_path :: "json \<Rightarrow> PaykitReceiverPath option" where
  "de_receiver_path j = Option.bind (de_string j) (\<lambda>s. ok_of (PaykitReceiverPath_new s))"

definition de_SnapshotWire :: "ext \<Rightarrow> json \<Rightarrow> SnapshotWire option" where
  "de_SnapshotWire E j =
     Option.bind (struct_fields_open [''version'', ''local_receiver_path'', ''remote_receiver_path'',
       ''remote_noise_public_key'', ''state''] j) (\<lambda>kvs.
     Option.bind (field ''version'' de_u32 kvs) (\<lambda>version.
     Option.bind (field ''local_receiver_path'' de_receiver_path kvs) (\<lambda>local.
     Option.bind (field ''remote_receiver_path'' de_receiver_path kvs) (\<lambda>remote.
     Option.bind (field ''remote_noise_public_key'' (de_public_key E) kvs) (\<lambda>key.
     Option.bind (field ''state'' de_bytes kvs) (\<lambda>state.
     Some \<lparr>sw_version = version, sw_local_receiver_path = local, sw_remote_receiver_path = remote,
           sw_remote_noise_public_key = key, sw_state = state\<rparr>))))))"

definition ser_SnapshotWire :: "ext \<Rightarrow> SnapshotWire \<Rightarrow> json" where
  "ser_SnapshotWire E w =
     JObj [(''version'', JInt (uint (sw_version w))),
           (''local_receiver_path'', JStr (receiver_path_str (sw_local_receiver_path w))),
           (''remote_receiver_path'', JStr (receiver_path_str (sw_remote_receiver_path w))),
           (''remote_noise_public_key'', ser_public_key E (sw_remote_noise_public_key w)),
           (''state'', ser_bytes (sw_state w))]"

text \<open>\<^verbatim>\<open>EncryptedLinkSnapshot\<close> and \<^verbatim>\<open>EncryptedLinkHandshakeSnapshot\<close> have the same fields.\<close>

record EncryptedLinkSnapshot =
  es_state :: PubkyNoiseSessionState
  es_recipient :: PublicKey
  es_remote_noise_public_key :: PublicKey
  es_local_receiver_path :: PaykitReceiverPath
  es_remote_receiver_path :: PaykitReceiverPath

definition recipient_from_snapshot_state :: "ext \<Rightarrow> PubkyNoiseSessionState \<Rightarrow> string \<Rightarrow> PublicKey res" where
  "recipient_from_snapshot_state E st snapshot_kind =
     map_err (\<lambda>err. InvalidData (''failed to reconstruct recipient public key from '' @ snapshot_kind @ '': '' @ err)
                      (Some (AnyhowMsg err)))
       (public_key_from_bytes E (nss_endpoint_pubkey st))"

definition deserialize_snapshot_wire :: "ext \<Rightarrow> string \<Rightarrow> string \<Rightarrow> SnapshotWire res" where
  "deserialize_snapshot_wire E bytes snapshot_kind =
     rbind (map_err (\<lambda>err. InvalidData (''failed to deserialize '' @ snapshot_kind @ '': '' @ err) (Some (AnyhowMsg err)))
              (struct_from_str E ''SnapshotWire'' (de_SnapshotWire E) bytes)) (\<lambda>w.
     if sw_version w \<noteq> SNAPSHOT_WIRE_VERSION
     then Inl (InvalidData (''unsupported '' @ snapshot_kind @ '' version '' @ show_nat (unat (sw_version w))
            @ '', expected '' @ show_nat (unat SNAPSHOT_WIRE_VERSION)) None)
     else Inr w)"

definition deserialize_noise_state :: "ext \<Rightarrow> string \<Rightarrow> string \<Rightarrow> PubkyNoiseSessionState res" where
  "deserialize_noise_state E bytes snapshot_kind =
     map_err (\<lambda>err. InvalidData (''failed to deserialize '' @ snapshot_kind @ '': '' @ err) None) (noise_state_read E bytes)"

definition snapshot_serialize :: "ext \<Rightarrow> EncryptedLinkSnapshot \<Rightarrow> string + string" where
  "snapshot_serialize E sn =
     json_to_string E (ser_SnapshotWire E
       \<lparr>sw_version = SNAPSHOT_WIRE_VERSION, sw_local_receiver_path = es_local_receiver_path sn,
        sw_remote_receiver_path = es_remote_receiver_path sn,
        sw_remote_noise_public_key = es_remote_noise_public_key sn, sw_state = noise_state_print E (es_state sn)\<rparr>)"

definition snapshot_deserialize :: "ext \<Rightarrow> string \<Rightarrow> string \<Rightarrow> EncryptedLinkSnapshot res" where
  "snapshot_deserialize E snapshot_kind bytes =
     rbind (deserialize_snapshot_wire E bytes snapshot_kind) (\<lambda>w.
     rbind (deserialize_noise_state E (sw_state w) snapshot_kind) (\<lambda>st.
     rbind (recipient_from_snapshot_state E st snapshot_kind) (\<lambda>recipient.
     Inr \<lparr>es_state = st, es_recipient = recipient, es_remote_noise_public_key = sw_remote_noise_public_key w,
          es_local_receiver_path = sw_local_receiver_path w, es_remote_receiver_path = sw_remote_receiver_path w\<rparr>)))"

abbreviation link_snapshot_deserialize :: "ext \<Rightarrow> string \<Rightarrow> EncryptedLinkSnapshot res" where
  "link_snapshot_deserialize E \<equiv> snapshot_deserialize E ''Encrypted Link snapshot''"

abbreviation handshake_snapshot_deserialize :: "ext \<Rightarrow> string \<Rightarrow> EncryptedLinkSnapshot res" where
  "handshake_snapshot_deserialize E \<equiv> snapshot_deserialize E ''Encrypted Link Handshake snapshot''"

definition validate_receiver_scope ::
  "string \<Rightarrow> EncryptedLinkSnapshot \<Rightarrow> PaykitReceiverPath \<Rightarrow> PaykitReceiverPath \<Rightarrow> unit res" where
  "validate_receiver_scope snapshot_kind sn restore_local restore_remote =
     (if es_local_receiver_path sn \<noteq> restore_local \<or> es_remote_receiver_path sn \<noteq> restore_remote
      then Inl (Validation (snapshot_kind @ '' receiver scope mismatch (restore local='' @ receiver_path_str restore_local
             @ '', remote='' @ receiver_path_str restore_remote @ ''; snapshot local=''
             @ receiver_path_str (es_local_receiver_path sn) @ '', remote=''
             @ receiver_path_str (es_remote_receiver_path sn) @ '')''))
      else Inr ())"

section \<open>Recovery markers\<close>

definition RECOVERY_MARKER_KIND :: string where
  "RECOVERY_MARKER_KIND = ''paykit.encrypted_link_recovery''"

definition RECOVERY_MARKER_PATH_DOMAIN :: string where
  "RECOVERY_MARKER_PATH_DOMAIN = ''paykit-link-recovery-v0''"

record EncryptedLinkRecoveryMarker =
  rm_attempt_id :: string
  rm_created_at :: string

definition EncryptedLinkRecoveryMarker_new :: "ext \<Rightarrow> string \<Rightarrow> string \<Rightarrow> EncryptedLinkRecoveryMarker res" where
  "EncryptedLinkRecoveryMarker_new E attempt_id created_at =
     rbind (validate_uuid_v4 E attempt_id ''Encrypted Link recovery attempt ID'') (\<lambda>aid.
     rbind (parse_utc_timestamp E created_at ''Encrypted Link recovery marker created_at'') (\<lambda>_.
     Inr \<lparr>rm_attempt_id = aid, rm_created_at = created_at\<rparr>))"

record RecoveryMarkerWire =
  rmw_version :: u8
  rmw_kind :: string
  rmw_attempt_id :: string
  rmw_created_at :: string

definition de_RecoveryMarkerWire :: "json \<Rightarrow> RecoveryMarkerWire option" where
  "de_RecoveryMarkerWire j =
     Option.bind (struct_fields [''version'', ''kind'', ''attempt_id'', ''created_at''] j) (\<lambda>kvs.
     Option.bind (field ''version'' de_u8 kvs) (\<lambda>version.
     Option.bind (field ''kind'' de_string kvs) (\<lambda>kind.
     Option.bind (field ''attempt_id'' de_string kvs) (\<lambda>aid.
     Option.bind (field ''created_at'' de_string kvs) (\<lambda>at.
     Some \<lparr>rmw_version = version, rmw_kind = kind, rmw_attempt_id = aid, rmw_created_at = at\<rparr>)))))"

definition ser_RecoveryMarkerWire :: "RecoveryMarkerWire \<Rightarrow> json" where
  "ser_RecoveryMarkerWire w =
     JObj [(''version'', JInt (uint (rmw_version w))), (''kind'', JStr (rmw_kind w)),
           (''attempt_id'', JStr (rmw_attempt_id w)), (''created_at'', JStr (rmw_created_at w))]"

definition marker_to_wire :: "EncryptedLinkRecoveryMarker \<Rightarrow> RecoveryMarkerWire" where
  "marker_to_wire m =
     \<lparr>rmw_version = 1, rmw_kind = RECOVERY_MARKER_KIND, rmw_attempt_id = rm_attempt_id m,
      rmw_created_at = rm_created_at m\<rparr>"

definition marker_of_wire :: "ext \<Rightarrow> RecoveryMarkerWire \<Rightarrow> EncryptedLinkRecoveryMarker res" where
  "marker_of_wire E w =
     (if rmw_version w \<noteq> 1 \<or> rmw_kind w \<noteq> RECOVERY_MARKER_KIND
      then Inl (invalid_data (''unsupported Encrypted Link recovery marker version/kind: ''
             @ show_nat (unat (rmw_version w)) @ ''/'' @ rmw_kind w) None)
      else map_err (\<lambda>err. invalid_wire err ''Encrypted Link recovery marker'')
             (EncryptedLinkRecoveryMarker_new E (rmw_attempt_id w) (rmw_created_at w)))"

definition serialize_encrypted_link_recovery_marker :: "ext \<Rightarrow> EncryptedLinkRecoveryMarker \<Rightarrow> string res" where
  "serialize_encrypted_link_recovery_marker E m =
     map_err (\<lambda>err. Validation (''failed to serialize Encrypted Link recovery marker: '' @ err))
       (json_to_string E (ser_RecoveryMarkerWire (marker_to_wire m)))"

definition parse_encrypted_link_recovery_marker_json :: "ext \<Rightarrow> string \<Rightarrow> EncryptedLinkRecoveryMarker res" where
  "parse_encrypted_link_recovery_marker_json E raw =
     rbind (map_err (\<lambda>err. invalid_data (''Encrypted Link recovery marker JSON is invalid: '' @ err) (Some (AnyhowMsg err)))
              (struct_from_str E ''RecoveryMarkerWire'' de_RecoveryMarkerWire raw)) (\<lambda>w. marker_of_wire E w)"

text \<open>
  \<open>derive\<close> is \<^verbatim>\<open>pubky_noise::path_derivation::derive_asymmetric_paths\<close> for the local secret key and
  the remote public key: from the domain and the base path, the write and the read path.
\<close>

definition encrypted_link_recovery_marker_paths ::
  "(string \<Rightarrow> PublicKey \<Rightarrow> string \<Rightarrow> string \<Rightarrow> string \<times> string) \<Rightarrow> ext \<Rightarrow> string \<Rightarrow> PublicKey \<Rightarrow> PublicKey \<Rightarrow> PublicKey \<Rightarrow>
   PaykitReceiverPath \<Rightarrow> PaykitReceiverPath \<Rightarrow> string \<times> string" where
  "encrypted_link_recovery_marker_paths derive E secret local_id remote_id remote_noise local_rp remote_rp =
     (let domain = receiver_pair_path_domain RECOVERY_MARKER_PATH_DOMAIN (public_key_z32 E local_id) local_rp
                     (public_key_z32 E remote_id) remote_rp;
          write_path = fst (derive secret remote_noise domain (encrypted_link_recovery_path_prefix local_rp));
          read_path = snd (derive secret remote_noise domain (encrypted_link_recovery_path_prefix remote_rp))
      in (write_path, read_path))"

section \<open>Round trips\<close>

definition snapshot_wf :: "ext \<Rightarrow> EncryptedLinkSnapshot \<Rightarrow> bool" where
  "snapshot_wf E sn \<longleftrightarrow>
     PaykitReceiverPath_new (receiver_path_str (es_local_receiver_path sn)) = Inr (es_local_receiver_path sn)
     \<and> PaykitReceiverPath_new (receiver_path_str (es_remote_receiver_path sn)) = Inr (es_remote_receiver_path sn)
     \<and> public_key_from_bytes E (nss_endpoint_pubkey (es_state sn)) = Inr (es_recipient sn)
     \<and> noise_state_roundtrip E (es_state sn)"

lemma de_ser_snapshot:
  assumes "public_key_roundtrip E"
    and "PaykitReceiverPath_new (receiver_path_str (sw_local_receiver_path w)) = Inr (sw_local_receiver_path w)"
    and "PaykitReceiverPath_new (receiver_path_str (sw_remote_receiver_path w)) = Inr (sw_remote_receiver_path w)"
  shows "de_SnapshotWire E (ser_SnapshotWire E w) = Some w"
  using assms
  by (simp add: de_SnapshotWire_def ser_SnapshotWire_def field_def de_receiver_path_def public_key_roundtrip_def
      de_u32_of_word Let_def del: de_u32.simps)

lemma snapshot_restores:
  assumes "snapshot_wf E sn" and "public_key_roundtrip E" and "json_prints_back E" and "snapshot_serialize E sn = Inr bytes"
  shows "snapshot_deserialize E kind bytes = Inr sn"
proof -
  let ?w = "\<lparr>sw_version = SNAPSHOT_WIRE_VERSION, sw_local_receiver_path = es_local_receiver_path sn,
        sw_remote_receiver_path = es_remote_receiver_path sn,
        sw_remote_noise_public_key = es_remote_noise_public_key sn, sw_state = noise_state_print E (es_state sn)\<rparr>"
  have "struct_from_str E ''SnapshotWire'' (de_SnapshotWire E) bytes = Inr ?w"
    using assms de_ser_snapshot [of E ?w]
    by (auto simp: struct_from_str_Inr json_prints_back_def snapshot_serialize_def snapshot_wf_def)
  then show ?thesis
    using assms(1)
    by (simp add: snapshot_deserialize_def deserialize_snapshot_wire_def deserialize_noise_state_def
        recipient_from_snapshot_state_def snapshot_wf_def noise_state_roundtrip_def)
qed

lemma recovery_marker_roundtrip:
  assumes "EncryptedLinkRecoveryMarker_new E aid at = Inr m" and "uuid_roundtrip E" and "json_prints_back E"
    and "serialize_encrypted_link_recovery_marker E m = Inr raw"
  shows "parse_encrypted_link_recovery_marker_json E raw = Inr m"
proof -
  have "de_RecoveryMarkerWire (ser_RecoveryMarkerWire w) = Some w" for w
    by (simp add: de_RecoveryMarkerWire_def ser_RecoveryMarkerWire_def field_def de_u8_of_word del: de_u8.simps)
  then have "struct_from_str E ''RecoveryMarkerWire'' de_RecoveryMarkerWire raw = Inr (marker_to_wire m)"
    using assms(3,4) by (auto simp: struct_from_str_Inr json_prints_back_def
        serialize_encrypted_link_recovery_marker_def map_err_Inr_iff)
  moreover have "EncryptedLinkRecoveryMarker_new E (rm_attempt_id m) (rm_created_at m) = Inr m"
    using assms(1) uuid_canonical_fixed [OF assms(2)]
    by (auto simp: EncryptedLinkRecoveryMarker_new_def result_iffs)
  ultimately show ?thesis
    by (simp add: parse_encrypted_link_recovery_marker_json_def marker_of_wire_def marker_to_wire_def)
qed

section \<open>Both peers derive the same marker paths\<close>

text \<open>
  The documented contract of the path derivation: with the keys exchanged, one side's write path
  for a domain and base is the other side's read path. \<open>public_of\<close> is the public key of a secret.
\<close>

definition derivation_paired ::
  "(string \<Rightarrow> PublicKey) \<Rightarrow> (string \<Rightarrow> PublicKey \<Rightarrow> string \<Rightarrow> string \<Rightarrow> string \<times> string) \<Rightarrow> bool" where
  "derivation_paired public_of derive \<longleftrightarrow>
     (\<forall>a b domain base. fst (derive a (public_of b) domain base) = snd (derive b (public_of a) domain base))"

lemma pair_domain_swap:
  "receiver_pair_path_domain base k1 p1 k2 p2 = receiver_pair_path_domain base k2 p2 k1 p1"
  unfolding receiver_pair_path_domain_eq by (subst pair_endpoints_sym) (rule refl)

text \<open>Two peers that swap their identities, receiver paths and noise keys meet at the same
  recovery marker paths: what one writes is where the other reads, in both directions.\<close>

theorem recovery_marker_paths_meet:
  assumes "derivation_paired public_of derive"
  shows "encrypted_link_recovery_marker_paths derive E sb idb ida (public_of sa) rpb rpa
     = prod.swap (encrypted_link_recovery_marker_paths derive E sa ida idb (public_of sb) rpa rpb)"
proof -
  have flip: "snd (derive a (public_of b) d base) = fst (derive b (public_of a) d base)" for a b d base
    using assms by (simp add: derivation_paired_def)
  show ?thesis
    by (simp add: encrypted_link_recovery_marker_paths_def Let_def flip
        pair_domain_swap [of _ "public_key_z32 E idb" rpb])
qed

text \<open>A derivation that writes the two public keys into the path, in a fixed order per direction.\<close>

definition sample_derive :: "string \<Rightarrow> PublicKey \<Rightarrow> string \<Rightarrow> string \<Rightarrow> string \<times> string" where
  "sample_derive secret pk domain base =
     (base @ ''/'' @ secret @ ''>'' @ public_key_bytes pk, base @ ''/'' @ public_key_bytes pk @ ''>'' @ secret)"

theorem recovery_marker_paths_meet_witness:
  "derivation_paired PublicKey sample_derive
   \<and> fst (encrypted_link_recovery_marker_paths sample_derive (table_ext []) ''b'' (PublicKey ''B'') (PublicKey ''A'')
         (PublicKey ''a'') (PaykitReceiverPath ''tether/wallet'') (PaykitReceiverPath ''bitkit/wallet''))
     = snd (encrypted_link_recovery_marker_paths sample_derive (table_ext []) ''a'' (PublicKey ''A'') (PublicKey ''B'')
         (PublicKey ''b'') (PaykitReceiverPath ''bitkit/wallet'') (PaykitReceiverPath ''tether/wallet''))"
proof -
  have paired: "derivation_paired PublicKey sample_derive"
    by (simp add: derivation_paired_def sample_derive_def)
  show ?thesis
    unfolding recovery_marker_paths_meet [OF paired, of "table_ext []" "''b''" "PublicKey ''B''" "PublicKey ''A''" "''a''"]
      fst_swap using paired by blast
qed

end
