(* ===== verification/Backup_Validation.thy ===== *)
theory Backup_Validation
  imports Receipts Contacts Reservations Link_Snapshots
begin

text \<open>
  The checks of a backup before it replaces the store (\<^verbatim>\<open>paykit-sdk/src/backup/validation.rs\<close>): every
  table's records alone, and the references between tables. Each check runs over the values of its
  hash map and stops at the first error.
\<close>

section \<open>Tables\<close>

fun keyed_loop :: "('r \<Rightarrow> 'k) \<Rightarrow> string \<Rightarrow> ('k, 'r) hashmap \<Rightarrow> 'r list \<Rightarrow> ('k, 'r) hashmap sdk_res" where
  "keyed_loop key label keyed [] = Inr keyed"
| "keyed_loop key label keyed (r # rs) =
     (if hm_get keyed (key r) \<noteq> None then Inl (protocol_error (''duplicate '' @ label @ '' backup key''))
      else keyed_loop key label (hm_insert (key r) r keyed) rs)"

definition keyed_by_tuple :: "('r \<Rightarrow> 'k) \<Rightarrow> 'r list \<Rightarrow> string \<Rightarrow> ('k, 'r) hashmap sdk_res" where
  "keyed_by_tuple key rs label = keyed_loop key label [] rs"

text \<open>The first id that an earlier element already has.\<close>

fun first_repeated :: "'k list \<Rightarrow> 'k list \<Rightarrow> 'k option" where
  "first_repeated seen [] = None"
| "first_repeated seen (k # ks) = (if k \<in> set seen then Some k else first_repeated (k # seen) ks)"

definition show_u64 :: "u64 \<Rightarrow> string" where
  "show_u64 w = show_nat (unat w)"

definition unique_outbound_messages ::
  "OutboundPrivateMessageRecord list \<Rightarrow> OutboundPrivateMessageRecord list sdk_res" where
  "unique_outbound_messages rs =
     (case first_repeated [] (map om_id rs) of
        Some i \<Rightarrow> Inl (protocol_error (''duplicate outbound Private Application Message id '' @ show_u64 i))
      | None \<Rightarrow> Inr (sort_key om_id rs))"

definition unique_private_stream_items :: "PrivateStreamItemRecord list \<Rightarrow> PrivateStreamItemRecord list sdk_res" where
  "unique_private_stream_items rs =
     (case first_repeated [] (map si_id rs) of
        Some i \<Rightarrow> Inl (protocol_error (''duplicate private stream item id '' @ show_u64 i))
      | None \<Rightarrow> Inr (sort_key si_id rs))"

text \<open>\<^verbatim>\<open>iter().map(|id| id.saturating_add(1)).max().unwrap_or_default()\<close>.\<close>

definition next_id :: "u64 list \<Rightarrow> u64" where
  "next_id ids = fold (\<lambda>i acc. max acc (sat_inc i)) ids 0"

definition next_outbound_id :: "OutboundPrivateMessageRecord list \<Rightarrow> u64" where
  "next_outbound_id rs = next_id (map om_id rs)"

definition next_receive_batch_id :: "PrivateStreamItemRecord list \<Rightarrow> u64" where
  "next_receive_batch_id rs = next_id (map si_receive_batch_id rs)"

definition next_private_stream_item_id :: "PrivateStreamItemRecord list \<Rightarrow> u64" where
  "next_private_stream_item_id rs = next_id (map si_id rs)"

text \<open>A loop of checks over records.\<close>

definition check_all :: "('r \<Rightarrow> unit sdk_res) \<Rightarrow> 'r list \<Rightarrow> unit sdk_res" where
  "check_all check rs = rmap (\<lambda>_. ()) (rmap_list check rs)"

lemma check_all_iff [simp]: "check_all check rs = Inr () \<longleftrightarrow> (\<forall>r \<in> set rs. check r = Inr ())"
  unfolding check_all_def by (induction rs) (auto simp: result_iffs)

text \<open>Keying succeeds exactly on records with distinct keys, and keeps their order.\<close>

definition keyed :: "('r \<Rightarrow> 'k) \<Rightarrow> 'r list \<Rightarrow> ('k, 'r) hashmap" where
  "keyed key rs = map (\<lambda>r. (key r, r)) rs"

lemma update_fresh: "k \<notin> fst ` set m \<Longrightarrow> AList.update k v m = m @ [(k, v)]"
  by (induction m) auto

lemma keyed_loop_iff:
  "keyed_loop key label m rs = Inr t \<longleftrightarrow>
     distinct (map key rs) \<and> key ` set rs \<inter> fst ` set m = {} \<and> t = m @ keyed key rs"
proof (induction rs arbitrary: m)
  case Nil
  then show ?case by (auto simp: keyed_def)
next
  case (Cons r rs)
  show ?case
  proof (cases "hm_get m (key r) = None")
    case True
    then have fresh: "key r \<notin> fst ` set m" by (simp add: map_of_eq_None_iff)
    have step: "keyed_loop key label m (r # rs) = keyed_loop key label (m @ [(key r, r)]) rs"
      using True by (simp add: update_fresh [OF fresh])
    show ?thesis unfolding step Cons.IH using fresh by (auto simp: keyed_def)
  next
    case False
    then have "key r \<in> fst ` set m" by (auto simp: map_of_eq_None_iff)
    with False show ?thesis by simp
  qed
qed

lemma keyed_by_tuple_iff:
  "keyed_by_tuple key rs label = Inr t \<longleftrightarrow> distinct (map key rs) \<and> t = keyed key rs"
  by (simp add: keyed_by_tuple_def keyed_loop_iff)

lemma hm_wf_keyed: "distinct (map key rs) \<Longrightarrow> hm_wf key (keyed key rs)"
  by (auto simp: hm_wf_def keyed_def comp_def)

lemma hm_values_keyed [simp]: "hm_values (keyed key rs) = rs"
  by (simp add: hm_values_def keyed_def comp_def)

lemma first_repeated_None: "first_repeated seen ks = None \<longleftrightarrow> distinct ks \<and> set ks \<inter> set seen = {}"
  by (induction ks arbitrary: seen) auto

lemma unique_outbound_iff:
  "unique_outbound_messages rs = Inr t \<longleftrightarrow> distinct (map om_id rs) \<and> t = sort_key om_id rs"
  unfolding unique_outbound_messages_def using first_repeated_None [of "[]" "map om_id rs"]
  by (auto split: option.splits)

lemma unique_items_iff:
  "unique_private_stream_items rs = Inr t \<longleftrightarrow> distinct (map si_id rs) \<and> t = sort_key si_id rs"
  unfolding unique_private_stream_items_def using first_repeated_None [of "[]" "map si_id rs"]
  by (auto split: option.splits)

lemmas table_iffs = keyed_by_tuple_iff unique_outbound_iff unique_items_iff

lemma sort_key_strict: "distinct (map f rs) \<Longrightarrow> sorted_wrt (<) (map f (sort_key f rs))"
  by (metis distinct_map distinct_sort set_sort sorted_sort_key strict_sorted_iff)

text \<open>The next id: fresh above every restored id but the largest one.\<close>

lemma next_id_fold: "fold (\<lambda>i acc. max acc (sat_inc i)) ids a = Max (insert a (sat_inc ` set ids))"
proof (induction ids arbitrary: a)
  case (Cons i ids)
  show ?case
    unfolding list.simps fold_simps Cons.IH
    by (cases "ids = []") (simp_all add: insert_commute max.assoc)
qed simp

lemma sat_inc_le: "i < n \<Longrightarrow> sat_inc i \<le> n"
  by (cases "i = - 1") (simp_all add: sat_inc_def inc_le)

lemma next_id_ge: "i \<in> set ids \<Longrightarrow> sat_inc i \<le> next_id ids"
  by (simp add: next_id_def next_id_fold)

lemma next_id_le: "(\<And>i. i \<in> set ids \<Longrightarrow> i < n) \<Longrightarrow> next_id ids \<le> n"
  by (auto simp: next_id_def next_id_fold sat_inc_le)

lemma next_id_fresh_iff: "(\<forall>i \<in> set ids. i < max n (next_id ids)) \<longleftrightarrow> - 1 \<notin> set ids"
proof
  assume "\<forall>i \<in> set ids. i < max n (next_id ids)"
  then show "- 1 \<notin> set ids" using word_order.extremum_strict by blast
next
  assume "- 1 \<notin> set ids"
  then show "\<forall>i \<in> set ids. i < max n (next_id ids)"
    using sat_inc_gt next_id_ge by (metis less_le_trans max.strict_coboundedI2)
qed

section \<open>Links and peers\<close>

definition to_public_key :: "ext \<Rightarrow> PubkyPublicKey \<Rightarrow> PublicKey sdk_res" where
  "to_public_key E k =
     map_err (\<lambda>err. SdkIdentity ''invalid Pubky public key'' (Some (AnyhowMsg err))) (public_key_from_z32 E (z32 k))"

definition check_snapshot ::
  "PublicKey \<Rightarrow> PaykitReceiverPath \<Rightarrow> peer_key \<Rightarrow> string \<Rightarrow> EncryptedLinkSnapshot res \<Rightarrow> unit sdk_res" where
  "check_snapshot expected_recipient local_rp k what parsed =
     rbind (map_err sdk_error_of_lib parsed) (\<lambda>snapshot.
     if es_recipient snapshot \<noteq> expected_recipient
     then Inl (protocol_error (what @ '' snapshot recipient does not match counterparty '' @ z32 (fst k)))
     else if es_local_receiver_path snapshot \<noteq> local_rp \<or> es_remote_receiver_path snapshot \<noteq> snd k
     then Inl (protocol_error (what @ '' snapshot receiver paths do not match peer ''
            @ z32 (fst k) @ ''/'' @ receiver_path_str (snd k)))
     else Inr ())"

definition check_link_snapshots ::
  "ext \<Rightarrow> PaykitReceiverPath \<Rightarrow> peer_key \<times> EncryptedLinkStateRecord \<Rightarrow> unit sdk_res" where
  "check_link_snapshots E local_rp = (\<lambda>(k, record).
     rbind (to_public_key E (fst k)) (\<lambda>expected.
     rbind (case ls_link_snapshot record of
              None \<Rightarrow> Inr ()
            | Some bytes \<Rightarrow> check_snapshot expected local_rp k ''Encrypted Link'' (link_snapshot_deserialize E bytes)) (\<lambda>_.
     case ls_handshake_snapshot record of
       None \<Rightarrow> Inr ()
     | Some bytes \<Rightarrow>
         check_snapshot expected local_rp k ''Encrypted Link Handshake'' (handshake_snapshot_deserialize E bytes))))"

definition validate_encrypted_link_snapshots ::
  "ext \<Rightarrow> (peer_key, EncryptedLinkStateRecord) hashmap \<Rightarrow> PaykitReceiverPath \<Rightarrow> unit sdk_res" where
  "validate_encrypted_link_snapshots E records local_rp = check_all (check_link_snapshots E local_rp) records"

definition validate_recovery_marker_fields ::
  "ext \<Rightarrow> PubkyPublicKey \<Rightarrow> string \<Rightarrow> string option \<Rightarrow> instant option \<Rightarrow> unit sdk_res" where
  "validate_recovery_marker_fields E cp label attempt_id timestamp =
     (case (attempt_id, timestamp) of
        (Some aid, Some t) \<Rightarrow>
          rmap (\<lambda>_. ()) (map_err (\<lambda>err. protocol_error (label @ '' for counterparty '' @ z32 cp @ '' is invalid: ''
                  @ paykit_error_display err))
            (EncryptedLinkRecoveryMarker_new E aid (rfc3339_secs E t)))
      | (None, None) \<Rightarrow> Inr ()
      | _ \<Rightarrow> Inl (protocol_error (label @ '' for counterparty '' @ z32 cp
                  @ '' must store attempt id and timestamp together'')))"

definition validate_linked_peer_record :: "ext \<Rightarrow> LinkedPeerRecord \<Rightarrow> unit sdk_res" where
  "validate_linked_peer_record E r =
     rbind (validate_recovery_marker_fields E (lp_counterparty r) ''local Encrypted Link recovery marker''
              (lp_local_recovery_attempt_id r) (lp_local_recovery_marker_created_at r)) (\<lambda>_.
     validate_recovery_marker_fields E (lp_counterparty r) ''remote Encrypted Link recovery marker''
       (lp_remote_recovery_attempt_id r) (lp_remote_recovery_marker_observed_at r))"

definition validate_linked_peer_records :: "ext \<Rightarrow> (peer_key, LinkedPeerRecord) hashmap \<Rightarrow> unit sdk_res" where
  "validate_linked_peer_records E records = check_all (validate_linked_peer_record E) (hm_values records)"

section \<open>Public endpoints and contacts\<close>

fun publication_status_debug :: "PublicationStatus \<Rightarrow> string" where
  "publication_status_debug NotPublished = ''NotPublished''"
| "publication_status_debug PendingPublication = ''PendingPublication''"
| "publication_status_debug Published = ''Published''"
| "publication_status_debug PendingRemoval = ''PendingRemoval''"
| "publication_status_debug Removed = ''Removed''"
| "publication_status_debug PublicationFailed = ''Failed''"

definition validate_public_endpoint_record :: "PublicEndpointRecord \<Rightarrow> unit sdk_res" where
  "validate_public_endpoint_record r =
     rbind (map_err sdk_error_of_lib (PaymentEndpointIdentifier_new (pe_identifier r))) (\<lambda>_.
     let subject = ''public endpoint record '' @ quoted (pe_identifier r);
         status_text = publication_status_debug (pe_status r)
     in case pe_status r of
          NotPublished \<Rightarrow> Inl (protocol_error (subject @ '' cannot be not-published''))
        | PendingRemoval \<Rightarrow>
            if pe_last_error r \<noteq> None then Inl (protocol_error (subject @ '' has an error for status '' @ status_text))
            else Inr ()
        | Removed \<Rightarrow>
            if pe_last_error r \<noteq> None then Inl (protocol_error (subject @ '' has an error for status '' @ status_text))
            else if pe_payload r \<noteq> None
            then Inl (protocol_error (''removed '' @ subject @ '' still has a payload''))
            else Inr ()
        | PublicationFailed \<Rightarrow>
            if pe_last_error r = None then Inl (protocol_error (''failed '' @ subject @ '' has no error''))
            else Inr ()
        | _ \<Rightarrow>
            if pe_payload r = None then Inl (protocol_error (subject @ '' has no payload for status '' @ status_text))
            else if pe_last_error r \<noteq> None
            then Inl (protocol_error (subject @ '' has an error for status '' @ status_text))
            else Inr ())"

definition validate_public_endpoint_records :: "(string, PublicEndpointRecord) hashmap \<Rightarrow> unit sdk_res" where
  "validate_public_endpoint_records records = check_all validate_public_endpoint_record (hm_values records)"

definition validate_contact_marker_state :: "ContactRecord \<Rightarrow> unit sdk_res" where
  "validate_contact_marker_state r =
     (let published = ct_public_contact_published_at r \<noteq> None; removed = ct_public_contact_removed_at r \<noteq> None;
          failed = ct_public_contact_last_error r \<noteq> None; tracked = ct_public_contact_marker_receiver_path r \<noteq> None;
          active = (case ct_public_contact_marker_receiver_path r of
                      None \<Rightarrow> False | Some rp \<Rightarrow> contains_receiver_path r rp)
      in if published \<and> removed
         then Inl (protocol_error (''local contact '' @ z32 (ct_public_key r)
                @ '' has inconsistent public contact marker timestamps''))
         else if (case ct_public_contact_marker_status r of
                NotPublished \<Rightarrow> published \<or> removed \<or> failed \<or> tracked
              | PendingPublication \<Rightarrow> failed \<or> \<not> active
              | Published \<Rightarrow> \<not> published \<or> removed \<or> failed \<or> \<not> active
              | PendingRemoval \<Rightarrow> \<not> published \<or> removed \<or> failed \<or> \<not> active
              | Removed \<Rightarrow> published \<or> \<not> removed \<or> failed \<or> tracked
              | PublicationFailed \<Rightarrow> \<not> failed \<or> \<not> active)
         then Inl (protocol_error (''local contact '' @ z32 (ct_public_key r)
                @ '' has inconsistent public contact marker state''))
         else Inr ())"

definition validate_contact_record :: "ext \<Rightarrow> ContactRecord \<Rightarrow> unit sdk_res" where
  "validate_contact_record E r =
     rbind (case ct_profile r of None \<Rightarrow> Inr () | Some p \<Rightarrow> paykit_profile_validate E p) (\<lambda>_.
     rbind (contact_update_validate \<lparr>cu_public_key = ct_public_key r, cu_receiver_paths = ct_receiver_paths r,
              cu_label = ct_label r\<rparr>) (\<lambda>_.
     validate_contact_marker_state r))"

definition validate_contact_records :: "ext \<Rightarrow> (PubkyPublicKey, ContactRecord) hashmap \<Rightarrow> unit sdk_res" where
  "validate_contact_records E records = check_all (validate_contact_record E) (hm_values records)"

section \<open>Outbound messages and reservations\<close>

text \<open>\<^verbatim>\<open>outbound_by_id\<close>: a map collected from the records; a later record wins.\<close>

definition outbound_by_id :: "OutboundPrivateMessageRecord list \<Rightarrow> u64 \<Rightarrow> OutboundPrivateMessageRecord option" where
  "outbound_by_id rs i = map_of (rev (map (\<lambda>r. (om_id r, r)) rs)) i"

definition validate_payment_endpoint_reservation ::
  "ext \<Rightarrow> OutboundPrivateMessageRecord list \<Rightarrow> PaymentEndpointReservationRecord \<Rightarrow> unit sdk_res" where
  "validate_payment_endpoint_reservation E outbound r =
     rbind (validate_reservation_id (rv_reservation_id r)) (\<lambda>_.
     rbind (map_err sdk_error_of_lib (PaymentEndpointIdentifier_new (rv_identifier r))) (\<lambda>identifier.
     let subject = ''Payment Endpoint Reservation '' @ quoted (rv_reservation_id r);
         target = show_u64 (rv_outbound_message_id r)
     in case outbound_by_id outbound (rv_outbound_message_id r) of
          None \<Rightarrow> Inl (protocol_error (subject @ '' references missing outbound message '' @ target))
        | Some m \<Rightarrow>
            if om_counterparty m \<noteq> rv_counterparty r \<or> om_path m \<noteq> rv_path r
            then Inl (protocol_error (subject @ '' peer does not match outbound message '' @ target))
            else if om_kind m \<noteq> kind_as_str PrivatePaymentListKind
            then Inl (protocol_error (subject @ '' references non-list outbound message '' @ target))
            else rbind (map_err (\<lambda>err. protocol_error (paykit_error_display err))
                          (parse_private_payment_list_json E (om_raw_json m))) (\<lambda>l.
              case hm_get (ppl_payment_endpoints l) identifier of
                None \<Rightarrow> Inl (protocol_error (subject @ '' identifier is missing from outbound Private Payment List '' @ target))
              | Some payload \<Rightarrow>
                  if rv_payload_hash r \<noteq> reservation_payload_hash E (payload_str payload)
                  then Inl (protocol_error (subject @ '' payload hash does not match outbound Private Payment List '' @ target))
                  else Inr ())))"

definition validate_payment_endpoint_reservations ::
  "ext \<Rightarrow> (peer_item_key, PaymentEndpointReservationRecord) hashmap \<Rightarrow> OutboundPrivateMessageRecord list \<Rightarrow>
   unit sdk_res" where
  "validate_payment_endpoint_reservations E records outbound =
     check_all (validate_payment_endpoint_reservation E outbound) (hm_values records)"

fun outbound_status_debug :: "OutboundPrivateMessageStatus \<Rightarrow> string" where
  "outbound_status_debug Pending = ''Pending''"
| "outbound_status_debug Sending = ''Sending''"
| "outbound_status_debug Sent = ''Sent''"
| "outbound_status_debug Failed = ''Failed''"
| "outbound_status_debug Invalid = ''Invalid''"
| "outbound_status_debug RecoveryRequired = ''RecoveryRequired''"
| "outbound_status_debug Superseded = ''Superseded''"

definition validate_outbound_private_status :: "OutboundPrivateMessageRecord \<Rightarrow> unit sdk_res" where
  "validate_outbound_private_status r =
     (let tried = om_attempt_count r \<noteq> 0; attempted = om_last_attempt_at r \<noteq> None;
          sent = om_sent_at r \<noteq> None; failed = om_last_error r \<noteq> None
      in if (case om_status r of
               Pending \<Rightarrow> tried \<or> attempted \<or> sent \<or> failed
             | Sending \<Rightarrow> \<not> tried \<or> \<not> attempted \<or> sent \<or> failed
             | Sent \<Rightarrow> \<not> tried \<or> \<not> attempted \<or> \<not> sent \<or> failed
             | Failed \<Rightarrow> \<not> tried \<or> \<not> attempted \<or> sent \<or> \<not> failed
             | Invalid \<Rightarrow> sent \<or> \<not> failed
             | RecoveryRequired \<Rightarrow> sent \<or> \<not> failed
             | Superseded \<Rightarrow> sent \<or> failed)
         then Inl (protocol_error (''outbound Private Application Message '' @ show_u64 (om_id r)
                @ '' has inconsistent '' @ outbound_status_debug (om_status r) @ '' status metadata''))
         else Inr ())"

definition validate_outbound_record :: "ext \<Rightarrow> PaykitReceiverPath \<Rightarrow> OutboundPrivateMessageRecord \<Rightarrow> unit sdk_res" where
  "validate_outbound_record E local_rp r =
     rbind (validate_outbound_private_status r) (\<lambda>_.
     if om_status r = Invalid \<or> om_status r = RecoveryRequired then Inr ()
     else rbind (validate_queued_outbound_private_message E r) (\<lambda>_.
     rbind (validate_outbound_private_message E (om_raw_json r)) (\<lambda>kind.
     if kind = kind_as_str ReceiptAccessKind
     then rbind (map_err (\<lambda>err. protocol_error (paykit_error_display err))
                   (parse_receipt_access_json E (om_raw_json r))) (\<lambda>access.
          if \<not> has_location_for_receiver access local_rp
          then Inl (protocol_error (''outbound Receipt Access message '' @ show_u64 (om_id r)
                 @ '' location does not match local receiver '' @ receiver_path_str local_rp))
          else Inr ())
     else Inr ())))"

definition validate_outbound_private_messages ::
  "ext \<Rightarrow> OutboundPrivateMessageRecord list \<Rightarrow> PaykitReceiverPath \<Rightarrow> unit sdk_res" where
  "validate_outbound_private_messages E records local_rp = check_all (validate_outbound_record E local_rp) records"

section \<open>Private stream items\<close>

definition private_message_header ::
  "ext \<Rightarrow> string \<Rightarrow> u32 option \<times> string option \<times> PrivateMessageKind option" where
  "private_message_header E raw =
     (case value_from_str E raw of
        None \<Rightarrow> (None, None, None)
      | Some v \<Rightarrow>
          let version = Option.bind (Option.bind (value_get ''version'' v) as_u64)
                          (\<lambda>n. if n < 256 then Some (of_int n) else None);
              kind = Option.bind (value_get ''kind'' v) as_str
          in (version, kind, Option.bind kind kind_parse))"

text \<open>\<^verbatim>\<open>u8::try_from(version).ok()\<close>.\<close>

definition u8_try_from :: "u32 \<Rightarrow> u8 option" where
  "u8_try_from v = (if unat v < 256 then Some (ucast v) else None)"

definition private_application_message_from_raw :: "string \<Rightarrow> u32 option \<Rightarrow> string option \<Rightarrow> PrivateApplicationMessage" where
  "private_application_message_from_raw raw version kind =
     \<lparr>pam_version = Option.bind version u8_try_from, pam_kind = kind, pam_raw_json = raw\<rparr>"

definition stream_private_application_message ::
  "PrivateStreamItemRecord \<Rightarrow> PrivateMessageKind \<Rightarrow> PrivateApplicationMessage" where
  "stream_private_application_message r kind =
     \<lparr>pam_version = Option.bind (si_parsed_version r) u8_try_from, pam_kind = Some (kind_as_str kind),
      pam_raw_json = si_raw_json r\<rparr>"

definition validate_valid_private_stream_body ::
  "ext \<Rightarrow> PrivateStreamItemRecord \<Rightarrow> PrivateMessageKind \<Rightarrow> unit sdk_res" where
  "validate_valid_private_stream_body E r kind =
     (let subject = ''private stream item '' @ show_u64 (si_id r); m = stream_private_application_message r kind
      in case kind of
           PrivatePaymentListKind \<Rightarrow>
             rmap (\<lambda>_. ()) (map_err sdk_error_of_lib (parse_private_payment_list_json E (si_raw_json r)))
         | ReceiptAccessKind \<Rightarrow>
             (case parse_receipt_access_event_message E m of
                None \<Rightarrow> Inl (protocol_error (subject @ '' Receipt Access payload does not match its kind''))
              | Some event \<Rightarrow>
                  (case ram_access event of
                     Inl err \<Rightarrow> Inl (protocol_error err)
                   | Inr access \<Rightarrow>
                       if \<not> has_location_for_receiver access (si_path r)
                       then Inl (protocol_error (subject @ '' Receipt Access location does not match counterparty receiver ''
                              @ receiver_path_str (si_path r)))
                       else Inr ()))
         | _ \<Rightarrow>
             (case parse_payment_request_event_message E m of
                None \<Rightarrow> Inl (protocol_error (subject @ '' Payment Request payload does not match its kind''))
              | Some event \<Rightarrow>
                  (case evm_validation_error event of
                     Some err \<Rightarrow> Inl (protocol_error err)
                   | None \<Rightarrow> Inr ())))"

definition validate_private_stream_item :: "ext \<Rightarrow> PrivateStreamItemRecord \<Rightarrow> unit sdk_res" where
  "validate_private_stream_item E r =
     (let (version, kind, known) = private_message_header E (si_raw_json r);
          c = enforce_receipt_access_receiver_scope (si_path r) (classify_private_application_message E
                (private_application_message_from_raw (si_raw_json r) version kind));
          subject = ''private stream item '' @ show_u64 (si_id r)
      in if si_parsed_version r \<noteq> version
         then Inl (protocol_error (subject @ '' has stale parsed version metadata''))
         else if si_parsed_kind r \<noteq> kind
         then Inl (protocol_error (subject @ '' has stale parsed kind metadata''))
         else if si_known_paykit_kind r \<noteq> map_option kind_as_str known
         then Inl (protocol_error (subject @ '' has stale known kind metadata''))
         else if si_parse_status r \<noteq> cl_status c
         then Inl (protocol_error (subject @ '' has stale parse status metadata''))
         else if si_parse_error r \<noteq> cl_parse_error c
         then Inl (protocol_error (subject @ '' has stale parse error metadata''))
         else if si_parse_status r = Valid
         then (case known of
                 None \<Rightarrow> Inl (protocol_error (subject @ '' is marked valid without a recognized Paykit kind''))
               | Some k \<Rightarrow> validate_valid_private_stream_body E r k)
         else Inr ())"

definition validate_private_stream_items :: "ext \<Rightarrow> PrivateStreamItemRecord list \<Rightarrow> unit sdk_res" where
  "validate_private_stream_items E records = check_all (validate_private_stream_item E) records"

section \<open>Event dedupe records\<close>

datatype EventDedupeItemKind = FirstItem | DuplicateItem | ConflictItem

definition stream_by_id :: "PrivateStreamItemRecord list \<Rightarrow> u64 \<Rightarrow> PrivateStreamItemRecord option" where
  "stream_by_id items i = map_of (rev (map (\<lambda>r. (si_id r, r)) items)) i"

definition event_dedup_subject :: "EventDedupRecord \<Rightarrow> string" where
  "event_dedup_subject r = ''Event dedupe record '' @ quoted (ed_event_id r)"

definition validate_event_dedup_membership :: "EventDedupRecord \<Rightarrow> unit sdk_res" where
  "validate_event_dedup_membership r =
     (case first_repeated [ed_first_stream_item_id r] (ed_duplicate_stream_item_ids r @ ed_conflicting_stream_item_ids r) of
        Some i \<Rightarrow> Inl (protocol_error (event_dedup_subject r @ '' references stream item '' @ show_u64 i @ '' more than once''))
      | None \<Rightarrow> Inr ())"

text \<open>The classification of a stored item from its stored header.\<close>

definition classify_stored_item :: "ext \<Rightarrow> PrivateStreamItemRecord \<Rightarrow> PrivateStreamMessageClassification" where
  "classify_stored_item E item =
     enforce_receipt_access_receiver_scope (si_path item) (classify_private_application_message E
       (private_application_message_from_raw (si_raw_json item) (si_parsed_version item) (si_parsed_kind item)))"

definition validate_event_dedup_stream_item ::
  "ext \<Rightarrow> EventDedupRecord \<Rightarrow> PrivateStreamItemRecord \<Rightarrow> EventDedupeItemKind \<Rightarrow> unit sdk_res" where
  "validate_event_dedup_stream_item E r item item_kind =
     (let subject = event_dedup_subject r; i = show_u64 (si_id item)
      in if si_counterparty item \<noteq> ed_counterparty r
         then Inl (protocol_error (subject @ '' counterparty does not match stream item '' @ i))
         else if si_path item \<noteq> ed_path r
         then Inl (protocol_error (subject @ '' counterparty receiver does not match stream item '' @ i))
         else case cl_event (classify_stored_item E item) of
           None \<Rightarrow> Inl (protocol_error (subject @ '' references non-event stream item '' @ i))
         | Some event \<Rightarrow>
             if eh_event_id event \<noteq> ed_event_id r
             then Inl (protocol_error (subject @ '' does not match stream item '' @ i @ '' event header''))
             else if item_kind = ConflictItem
             then (if payload_hash E (si_raw_json item) = ed_payload_hash r
                   then Inl (protocol_error (subject @ '' conflict stream item '' @ i @ '' has same payload hash''))
                   else Inr ())
             else if eh_event_kind event \<noteq> ed_event_kind r
             then Inl (protocol_error (subject @ '' same-payload stream item '' @ i @ '' has different event kind''))
             else if payload_hash E (si_raw_json item) \<noteq> ed_payload_hash r
             then Inl (protocol_error (subject @ '' same-payload stream item '' @ i @ '' has different payload hash''))
             else Inr ())"

definition validate_referenced_item ::
  "ext \<Rightarrow> PrivateStreamItemRecord list \<Rightarrow> EventDedupRecord \<Rightarrow> EventDedupeItemKind \<Rightarrow> u64 \<Rightarrow> unit sdk_res" where
  "validate_referenced_item E items r item_kind i =
     (case stream_by_id items i of
        None \<Rightarrow> Inl (protocol_error (event_dedup_subject r @ '' references missing stream item '' @ show_u64 i))
      | Some item \<Rightarrow> validate_event_dedup_stream_item E r item item_kind)"

definition validate_event_dedup_record :: "ext \<Rightarrow> PrivateStreamItemRecord list \<Rightarrow> EventDedupRecord \<Rightarrow> unit sdk_res" where
  "validate_event_dedup_record E items r =
     rbind (validate_event_dedup_membership r) (\<lambda>_.
     let subject = event_dedup_subject r
     in case stream_by_id items (ed_first_stream_item_id r) of
       None \<Rightarrow> Inl (protocol_error (subject @ '' references missing first stream item '' @ show_u64 (ed_first_stream_item_id r)))
     | Some item \<Rightarrow>
         if si_counterparty item \<noteq> ed_counterparty r \<or> si_path item \<noteq> ed_path r
         then Inl (protocol_error (subject @ '' peer does not match first stream item''))
         else if payload_hash E (si_raw_json item) \<noteq> ed_payload_hash r
         then Inl (protocol_error (subject @ '' payload hash does not match first stream item''))
         else rbind (validate_event_dedup_stream_item E r item FirstItem) (\<lambda>_.
           rbind (check_all (validate_referenced_item E items r DuplicateItem) (ed_duplicate_stream_item_ids r)) (\<lambda>_.
           check_all (validate_referenced_item E items r ConflictItem) (ed_conflicting_stream_item_ids r))))"

definition validate_event_dedup_records ::
  "ext \<Rightarrow> (peer_item_key, EventDedupRecord) hashmap \<Rightarrow> PrivateStreamItemRecord list \<Rightarrow> unit sdk_res" where
  "validate_event_dedup_records E records items = check_all (validate_event_dedup_record E items) (hm_values records)"

definition event_dedup_record_contains_stream_event ::
  "ext \<Rightarrow> EventDedupRecord \<Rightarrow> PrivateStreamItemRecord \<Rightarrow> string \<Rightarrow> bool" where
  "event_dedup_record_contains_stream_event E r item ekind =
     (let item_hash = payload_hash E (si_raw_json item)
      in if ed_first_stream_item_id r = si_id item
         then ekind = ed_event_kind r \<and> item_hash = ed_payload_hash r
         else if si_id item \<in> set (ed_duplicate_stream_item_ids r)
         then ekind = ed_event_kind r \<and> item_hash = ed_payload_hash r
         else if si_id item \<in> set (ed_conflicting_stream_item_ids r)
         then item_hash \<noteq> ed_payload_hash r
         else False)"

definition validate_required_index ::
  "ext \<Rightarrow> (peer_item_key, EventDedupRecord) hashmap \<Rightarrow> (peer_item_key, ReceiptAccessRecord) hashmap \<Rightarrow>
   PrivateStreamItemRecord \<Rightarrow> unit sdk_res" where
  "validate_required_index E dedups accesses item =
     (let c = classify_stored_item E item
      in case cl_event c of
           None \<Rightarrow> Inr ()
         | Some event \<Rightarrow>
             let key = (si_counterparty item, si_path item, eh_event_id event)
             in case hm_get dedups key of
                  None \<Rightarrow> Inl (protocol_error (''private stream item '' @ show_u64 (si_id item)
                           @ '' is missing required Event dedupe record '' @ quoted (eh_event_id event)))
                | Some dedupe \<Rightarrow>
                    if \<not> event_dedup_record_contains_stream_event E dedupe item (eh_event_kind event)
                    then Inl (protocol_error (''Event dedupe record '' @ quoted (eh_event_id event)
                           @ '' does not include private stream item '' @ show_u64 (si_id item)))
                    else if cl_receipt_access c \<noteq> None \<and> ed_first_stream_item_id dedupe = si_id item
                            \<and> hm_get accesses key = None
                    then Inl (protocol_error (''Receipt Access event '' @ quoted (eh_event_id event)
                           @ '' is missing required Receipt Access record''))
                    else Inr ())"

definition validate_required_private_stream_indexes ::
  "ext \<Rightarrow> PrivateStreamItemRecord list \<Rightarrow> (peer_item_key, EventDedupRecord) hashmap \<Rightarrow>
   (peer_item_key, ReceiptAccessRecord) hashmap \<Rightarrow> unit sdk_res" where
  "validate_required_private_stream_indexes E items dedups accesses =
     check_all (validate_required_index E dedups accesses) items"

section \<open>Receipt records\<close>

definition access_subject :: "ReceiptAccessRecord \<Rightarrow> string" where
  "access_subject r = ''Receipt Access record '' @ quoted (ra_event_id r)"

definition validate_receipt_access_retrieval_status :: "ReceiptAccessRecord \<Rightarrow> unit sdk_res" where
  "validate_receipt_access_retrieval_status r =
     (let attempted = ra_retrieval_attempted_at r \<noteq> None; retrieved = ra_retrieved_at r \<noteq> None;
          failed = ra_last_retrieval_error r \<noteq> None
      in case ra_retrieval_status r of
           RetrievalPending \<Rightarrow>
             if attempted \<or> retrieved \<or> failed
             then Inl (protocol_error (''pending '' @ access_subject r @ '' has retrieval metadata'')) else Inr ()
         | Retrieved \<Rightarrow>
             if \<not> attempted \<or> \<not> retrieved \<or> failed
             then Inl (protocol_error (''retrieved '' @ access_subject r @ '' has inconsistent retrieval metadata'')) else Inr ()
         | _ \<Rightarrow>
             if \<not> attempted \<or> retrieved \<or> \<not> failed
             then Inl (protocol_error (''failed '' @ access_subject r @ '' has inconsistent retrieval metadata'')) else Inr ())"

text \<open>The fields that a Receipt Access payload and a stored record share.\<close>

definition access_fields_match ::
  "ReceiptAccess \<Rightarrow> string \<Rightarrow> string \<Rightarrow> string \<Rightarrow> string option \<Rightarrow> BillingPeriodRecord option \<Rightarrow> string \<Rightarrow> bool" where
  "access_fields_match a eid rcid reference rid period location \<longleftrightarrow>
     event_id_str (rac_event_id a) = eid \<and> receipt_id_str (rac_receipt_id a) = rcid
     \<and> reference_str (rac_payment_reference a) = reference
     \<and> map_option request_id_str (rac_payment_request_id a) = rid
     \<and> map_option billing_record_of (rac_billing_period a) = period \<and> rac_location a = location"

definition validate_receipt_access_record ::
  "ext \<Rightarrow> PrivateStreamItemRecord list \<Rightarrow> ReceiptAccessRecord \<Rightarrow> unit sdk_res" where
  "validate_receipt_access_record E items r =
     rbind (validate_receipt_access_retrieval_status r) (\<lambda>_.
     case stream_by_id items (ra_stream_item_id r) of
       None \<Rightarrow> Inl (protocol_error (access_subject r @ '' references missing stream item '' @ show_u64 (ra_stream_item_id r)))
     | Some item \<Rightarrow>
         if si_counterparty item \<noteq> ra_counterparty r \<or> si_path item \<noteq> ra_path r
            \<or> si_receive_batch_id item \<noteq> ra_receive_batch_id r
            \<or> si_known_paykit_kind item \<noteq> Some (kind_as_str ReceiptAccessKind)
         then Inl (protocol_error (access_subject r @ '' does not match its stream item''))
         else case parse_receipt_access_event_message E (stream_private_application_message item ReceiptAccessKind) of
           None \<Rightarrow> Inl (protocol_error (access_subject r @ '' stream item is not parseable''))
         | Some event \<Rightarrow>
             (case ok_of (ram_access event) of
                None \<Rightarrow> Inl (protocol_error (access_subject r @ '' stream item is malformed''))
              | Some a \<Rightarrow>
                  if \<not> access_fields_match a (ra_event_id r) (ra_receipt_id r) (ra_payment_reference r)
                         (ra_payment_request_id r) (ra_billing_period r) (ra_location r)
                     \<or> decryption_key_str (rac_key a) \<noteq> ReceiptAccessRecord.ra_key r
                  then Inl (protocol_error (access_subject r @ '' does not match parsed stream payload''))
                  else if \<not> has_location_for_receiver a (ra_path r)
                  then Inl (protocol_error (access_subject r @ '' location does not match counterparty receiver ''
                         @ receiver_path_str (ra_path r)))
                  else Inr ()))"

definition validate_receipt_access_records ::
  "ext \<Rightarrow> (peer_item_key, ReceiptAccessRecord) hashmap \<Rightarrow> PrivateStreamItemRecord list \<Rightarrow> unit sdk_res" where
  "validate_receipt_access_records E records items = check_all (validate_receipt_access_record E items) (hm_values records)"

definition receipt_access_key_hash :: "ext \<Rightarrow> string \<Rightarrow> string" where
  "receipt_access_key_hash E key = ''sha256:'' @ sha256_hex E key"

definition validate_receipt_record ::
  "ext \<Rightarrow> (peer_item_key, ReceiptAccessRecord) hashmap \<Rightarrow> PubkyPublicKey option \<Rightarrow> ReceiptRecord \<Rightarrow> unit sdk_res" where
  "validate_receipt_record E accesses expected_recipient r =
     (let subject = ''Receipt record '' @ quoted (rr_receipt_id r)
      in rbind (map_err sdk_error_of_lib (ReceiptId_new E (rr_receipt_id r))) (\<lambda>_.
         if (case expected_recipient of None \<Rightarrow> False | Some k \<Rightarrow> rr_recipient_public_key r \<noteq> k)
         then Inl (protocol_error (subject @ '' recipient does not match backup identity''))
         else rbind (case rr_payment_endpoint_identifier r of
                None \<Rightarrow> Inr ()
              | Some i \<Rightarrow> rmap (\<lambda>_. ()) (map_err sdk_error_of_lib (PaymentEndpointIdentifier_new i))) (\<lambda>_.
         case hm_get accesses (rr_issuer r, rr_issuer_path r, rr_receipt_access_event_id r) of
           None \<Rightarrow> Inl (protocol_error (subject @ '' references missing Receipt Access event ''
                    @ quoted (rr_receipt_access_event_id r)))
         | Some a \<Rightarrow>
             if ra_receipt_id a \<noteq> rr_receipt_id r \<or> ra_payment_reference a \<noteq> rr_payment_reference r
                \<or> ra_payment_request_id a \<noteq> rr_payment_request_id r \<or> ra_billing_period a \<noteq> rr_billing_period r
                \<or> ra_location a \<noteq> rr_location r \<or> receipt_access_key_hash E (ReceiptAccessRecord.ra_key a) \<noteq> rr_receipt_access_key_hash r
             then Inl (protocol_error (subject @ '' does not match its Receipt Access record''))
             else Inr ())))"

definition validate_receipt_records ::
  "ext \<Rightarrow> (peer_item_key, ReceiptRecord) hashmap \<Rightarrow> (peer_item_key, ReceiptAccessRecord) hashmap \<Rightarrow>
   PubkyPublicKey option \<Rightarrow> unit sdk_res" where
  "validate_receipt_records E records accesses expected =
     check_all (validate_receipt_record E accesses expected) (hm_values records)"

fun issuance_status_debug :: "ReceiptIssuanceStatus \<Rightarrow> string" where
  "issuance_status_debug PendingStorage = ''PendingStorage''"
| "issuance_status_debug Stored = ''Stored''"
| "issuance_status_debug AccessQueued = ''AccessQueued''"
| "issuance_status_debug IssuanceFailed = ''Failed''"

definition issuance_subject :: "ReceiptIssuanceRecord \<Rightarrow> string" where
  "issuance_subject r = ''Receipt issuance record '' @ quoted (ri_receipt_id r)"

definition validate_receipt_issuance_status :: "ReceiptIssuanceRecord \<Rightarrow> unit sdk_res" where
  "validate_receipt_issuance_status r =
     (let before = (\<lambda>t. case t of None \<Rightarrow> False | Some x \<Rightarrow> x < ri_created_at r);
          stored = ri_stored_at r \<noteq> None; queued = ri_access_queued_at r \<noteq> None;
          outbound = ri_outbound_message_id r \<noteq> None; failed = ri_last_error r \<noteq> None
      in if ri_updated_at r < ri_created_at r \<or> before (ri_stored_at r) \<or> before (ri_access_queued_at r)
         then Inl (protocol_error (issuance_subject r @ '' has inconsistent timestamps''))
         else if (case ri_status r of
                PendingStorage \<Rightarrow> stored \<or> queued \<or> outbound \<or> failed
              | Stored \<Rightarrow> \<not> stored \<or> queued \<or> outbound \<or> failed
              | AccessQueued \<Rightarrow> \<not> stored \<or> \<not> queued \<or> \<not> outbound \<or> failed
              | IssuanceFailed \<Rightarrow> queued \<or> outbound \<or> \<not> failed)
         then Inl (protocol_error (issuance_subject r @ '' has inconsistent ''
                @ issuance_status_debug (ri_status r) @ '' status metadata''))
         else Inr ())"

definition issuance_receipt_matches :: "ext \<Rightarrow> ReceiptIssuanceRecord \<Rightarrow> Receipt \<Rightarrow> bool" where
  "issuance_receipt_matches E r receipt \<longleftrightarrow>
     PubkyPublicKey (public_key_z32 E (rc_recipient_public_key receipt)) = ri_counterparty r
     \<and> receipt_id_str (rc_receipt_id receipt) = ri_receipt_id r
     \<and> reference_str (rc_payment_reference receipt) = ri_payment_reference r
     \<and> map_option request_id_str (rc_payment_request_id receipt) = ri_payment_request_id r
     \<and> map_option billing_record_of (rc_billing_period receipt) = ri_billing_period r
     \<and> map_option identifier_str (rc_payment_endpoint_identifier receipt) = ri_payment_endpoint_identifier r
     \<and> map_option amount_record_of (rc_amount receipt) = ri_amount r"

definition validate_receipt_issuance_record ::
  "ext \<Rightarrow> OutboundPrivateMessageRecord list \<Rightarrow> PaykitReceiverPath \<Rightarrow> ReceiptIssuanceRecord \<Rightarrow> unit sdk_res" where
  "validate_receipt_issuance_record E outbound local_rp r =
     rbind (validate_receipt_issuance_status r) (\<lambda>_.
     rbind (map_err sdk_error_of_lib (ReceiptId_new E (ri_receipt_id r))) (\<lambda>_.
     rbind (case ri_payment_endpoint_identifier r of
              None \<Rightarrow> Inr ()
            | Some i \<Rightarrow> rmap (\<lambda>_. ()) (map_err sdk_error_of_lib (PaymentEndpointIdentifier_new i))) (\<lambda>_.
     rbind (map_err (\<lambda>err. protocol_error (paykit_error_display err)) (parse_receipt_access_json E (ri_access_json r))) (\<lambda>a.
     if \<not> access_fields_match a (ri_receipt_access_event_id r) (ri_receipt_id r) (ri_payment_reference r)
            (ri_payment_request_id r) (ri_billing_period r) (ri_location r)
     then Inl (protocol_error (issuance_subject r @ '' does not match Receipt Access payload''))
     else if \<not> has_location_for_receiver a local_rp
     then Inl (protocol_error (issuance_subject r @ '' location does not match local receiver '' @ receiver_path_str local_rp))
     else rbind (map_err (\<lambda>_. protocol_error ''stored encrypted receipt is invalid'')
                  (decrypt_receipt E (ri_encrypted_receipt r) (rac_key a) (rac_location a))) (\<lambda>receipt.
     if \<not> issuance_receipt_matches E r receipt
     then Inl (protocol_error (issuance_subject r @ '' does not match encrypted Receipt''))
     else case ri_outbound_message_id r of
            None \<Rightarrow> Inr ()
          | Some i \<Rightarrow>
              (case outbound_by_id outbound i of
                 None \<Rightarrow> Inl (protocol_error (issuance_subject r @ '' references missing outbound message '' @ show_u64 i))
               | Some m \<Rightarrow>
                   if om_counterparty m \<noteq> ri_counterparty r \<or> om_path m \<noteq> ri_path r
                      \<or> om_kind m \<noteq> kind_as_str ReceiptAccessKind \<or> om_raw_json m \<noteq> ri_access_json r
                   then Inl (protocol_error (issuance_subject r @ '' does not match outbound message '' @ show_u64 i))
                   else Inr ()))))))"

fun validate_issuances_loop ::
  "ext \<Rightarrow> OutboundPrivateMessageRecord list \<Rightarrow> PaykitReceiverPath \<Rightarrow> string list \<Rightarrow> ReceiptIssuanceRecord list \<Rightarrow>
   unit sdk_res" where
  "validate_issuances_loop E outbound local_rp seen [] = Inr ()"
| "validate_issuances_loop E outbound local_rp seen (r # rs) =
     (if ri_receipt_id r \<in> set seen
      then Inl (protocol_error (issuance_subject r @ '' is duplicated across counterparties''))
      else rbind (validate_receipt_issuance_record E outbound local_rp r) (\<lambda>_.
           validate_issuances_loop E outbound local_rp (ri_receipt_id r # seen) rs))"

definition validate_receipt_issuance_records ::
  "ext \<Rightarrow> (peer_item_key, ReceiptIssuanceRecord) hashmap \<Rightarrow> OutboundPrivateMessageRecord list \<Rightarrow>
   PaykitReceiverPath \<Rightarrow> unit sdk_res" where
  "validate_receipt_issuance_records E records outbound local_rp =
     validate_issuances_loop E outbound local_rp [] (hm_values records)"

end
