(* ===== verification/Backup.thy ===== *)
theory Backup
  imports Backup_Validation "HOL-Library.Product_Lexorder"
begin

text \<open>
  Backup export and restore (\<^verbatim>\<open>paykit-sdk/src/backup/mod.rs\<close> and the reconciliation functions of
  \<^verbatim>\<open>backup/validation.rs\<close>): the versioned payload, its export from the store, the checks against the
  current identity, and the restored store with its reconciled peers. The lemmas show that a
  restored store satisfies the storage invariant, that no link material and no message in flight
  survives for a peer that needs recovery, and that a failed restore changes nothing.
\<close>

section \<open>The payload\<close>

definition SDK_BACKUP_VERSION :: u32 where
  "SDK_BACKUP_VERSION = 1"

record SdkBackupState =
  bk_version :: u32
  bk_local_receiver_path :: PaykitReceiverPath
  bk_identity_state :: "IdentityState option"
  bk_linked_peers :: "LinkedPeerRecord list"
  bk_contact_records :: "ContactRecord list"
  bk_public_endpoint_records :: "PublicEndpointRecord list"
  bk_payment_endpoint_reservations :: "PaymentEndpointReservationRecord list"
  bk_encrypted_link_states :: "EncryptedLinkStateRecord list"
  bk_outbound_private_messages :: "OutboundPrivateMessageRecord list"
  bk_private_stream_items :: "PrivateStreamItemRecord list"
  bk_event_dedup_records :: "EventDedupRecord list"
  bk_receipt_access_records :: "ReceiptAccessRecord list"
  bk_receipt_records :: "ReceiptRecord list"
  bk_receipt_issuance_records :: "ReceiptIssuanceRecord list"
  bk_next_outbound_private_message_id :: u64
  bk_next_receive_batch_id :: u64
  bk_next_private_stream_item_id :: u64

record RestoreReport =
  rp_version :: u32
  rp_restored_identity :: bool
  rp_linked_peers :: nat
  rp_contact_records :: nat
  rp_public_endpoint_records :: nat
  rp_payment_endpoint_reservations :: nat
  rp_encrypted_link_states :: nat
  rp_outbound_private_messages :: nat
  rp_private_stream_items :: nat
  rp_event_dedup_records :: nat
  rp_receipt_access_records :: nat
  rp_receipt_records :: nat
  rp_receipt_issuance_records :: nat
  rp_recovery_required_peers :: "peer_key list"

text \<open>The sort keys of the exported tables.\<close>

definition peer_text :: "peer_key \<Rightarrow> string \<times> string" where
  "peer_text k = (z32 (fst k), receiver_path_str (snd k))"

definition item_text :: "peer_item_key \<Rightarrow> string \<times> string \<times> string" where
  "item_text k = (z32 (fst k), receiver_path_str (fst (snd k)), snd (snd k))"

definition from_storage_state :: "StorageState \<Rightarrow> PaykitReceiverPath \<Rightarrow> SdkBackupState" where
  "from_storage_state s local_rp =
     \<lparr>bk_version = SDK_BACKUP_VERSION, bk_local_receiver_path = local_rp, bk_identity_state = st_identity_state s,
      bk_linked_peers = sort_key (\<lambda>r. peer_text (lp_key r)) (hm_values (st_linked_peers s)),
      bk_contact_records = sort_key (\<lambda>r. z32 (ct_public_key r)) (hm_values (st_contact_records s)),
      bk_public_endpoint_records = sort_key pe_identifier (hm_values (st_public_endpoint_records s)),
      bk_payment_endpoint_reservations =
        sort_key (\<lambda>r. item_text (rv_key r)) (hm_values (st_payment_endpoint_reservations s)),
      bk_encrypted_link_states = sort_key (\<lambda>r. peer_text (ls_key r)) (hm_values (st_encrypted_link_states s)),
      bk_outbound_private_messages = st_outbound_private_messages s,
      bk_private_stream_items = st_private_stream_items s,
      bk_event_dedup_records = sort_key (\<lambda>r. item_text (ed_key r)) (hm_values (st_event_dedup_records s)),
      bk_receipt_access_records = sort_key (\<lambda>r. item_text (Storage.ra_key r)) (hm_values (st_receipt_access_records s)),
      bk_receipt_records = sort_key (\<lambda>r. item_text (rr_key r)) (hm_values (st_receipt_records s)),
      bk_receipt_issuance_records = sort_key (\<lambda>r. item_text (ri_key r)) (hm_values (st_receipt_issuance_records s)),
      bk_next_outbound_private_message_id = st_next_outbound_id s,
      bk_next_receive_batch_id = st_next_receive_batch_id s,
      bk_next_private_stream_item_id = st_next_stream_item_id s\<rparr>"

definition export_backup_state :: "StorageState \<Rightarrow> PaykitReceiverPath \<Rightarrow> SdkBackupState" where
  "export_backup_state s local_rp = from_storage_state s local_rp"

definition has_identity_scoped_state :: "SdkBackupState \<Rightarrow> bool" where
  "has_identity_scoped_state b \<longleftrightarrow>
     bk_linked_peers b \<noteq> [] \<or> bk_contact_records b \<noteq> [] \<or> bk_public_endpoint_records b \<noteq> []
     \<or> bk_payment_endpoint_reservations b \<noteq> [] \<or> bk_encrypted_link_states b \<noteq> []
     \<or> bk_outbound_private_messages b \<noteq> [] \<or> bk_private_stream_items b \<noteq> []
     \<or> bk_event_dedup_records b \<noteq> [] \<or> bk_receipt_access_records b \<noteq> [] \<or> bk_receipt_records b \<noteq> []
     \<or> bk_receipt_issuance_records b \<noteq> []"

definition backup_public_key :: "SdkBackupState \<Rightarrow> PubkyPublicKey option" where
  "backup_public_key b = Option.bind (bk_identity_state b) id_public_key"

definition backup_noise_public_key :: "SdkBackupState \<Rightarrow> PubkyPublicKey option" where
  "backup_noise_public_key b = Option.bind (bk_identity_state b) id_noise_public_key"

definition backup_validate ::
  "SdkBackupState \<Rightarrow> IdentityState option \<Rightarrow> PaykitReceiverPath \<Rightarrow> unit sdk_res" where
  "backup_validate b current local_rp =
     (if bk_version b \<noteq> SDK_BACKUP_VERSION
      then Inl (protocol_error (''unsupported SDK backup version '' @ show_nat (unat (bk_version b))))
      else if bk_local_receiver_path b \<noteq> local_rp
      then Inl (protocol_error (''backup receiver path '' @ quoted (receiver_path_str (bk_local_receiver_path b))
             @ '' does not match local receiver path '' @ quoted (receiver_path_str local_rp)))
      else if Option.bind current id_public_key \<noteq> None \<and> backup_public_key b \<noteq> Option.bind current id_public_key
      then Inl (SdkIdentity ''backup identity does not match current local identity'' None)
      else if Option.bind current id_noise_public_key \<noteq> None
              \<and> backup_noise_public_key b \<noteq> Option.bind current id_noise_public_key
      then Inl (SdkIdentity ''backup receiver Noise key does not match current receiver'' None)
      else if backup_public_key b = None \<and> has_identity_scoped_state b
      then Inl (protocol_error ''backup has SDK state but no local public identity'')
      else Inr ())"

section \<open>Reconciliation\<close>

definition preserve_current_sign_out_generation ::
  "IdentityState option \<Rightarrow> IdentityState option \<Rightarrow> IdentityState option" where
  "preserve_current_sign_out_generation backup current =
     (case (backup, current) of
        (Some b, Some c) \<Rightarrow>
          if id_public_key b = id_public_key c
          then Some (b\<lparr>id_sign_out_generation := max (id_sign_out_generation b) (id_sign_out_generation c)\<rparr>)
          else Some b
      | (None, Some c) \<Rightarrow> if id_public_key c = None then Some c else None
      | (b, None) \<Rightarrow> b)"

definition restored_peer_state_from_link_state :: "EncryptedLinkStateRecord \<Rightarrow> LinkedPeerState option" where
  "restored_peer_state_from_link_state r =
     (if ls_link_snapshot r \<noteq> None then Some Linked
      else if ls_handshake_snapshot r \<noteq> None \<and> ls_handshake_role r \<noteq> None then Some Linking
      else None)"

definition restored_peer_record :: "peer_key \<Rightarrow> LinkedPeerState \<Rightarrow> instant \<Rightarrow> LinkedPeerRecord" where
  "restored_peer_record k state last_sync_at =
     \<lparr>lp_counterparty = fst k, lp_path = snd k, lp_state = state, lp_last_sync_at = Some last_sync_at,
      lp_last_private_receive_at = None, lp_failure_count = 0, lp_local_recovery_attempt_id = None,
      lp_local_recovery_marker_created_at = None, lp_local_recovery_marker_last_error = None,
      lp_remote_recovery_attempt_id = None, lp_remote_recovery_marker_observed_at = None\<rparr>"

text \<open>\<^verbatim>\<open>entry(k).and_modify(f).or_insert_with(d)\<close>.\<close>

definition hm_modify_or_insert :: "'k \<Rightarrow> ('v \<Rightarrow> 'v) \<Rightarrow> 'v \<Rightarrow> ('k, 'v) hashmap \<Rightarrow> ('k, 'v) hashmap" where
  "hm_modify_or_insert k f d m = hm_insert k (case hm_get m k of Some v \<Rightarrow> f v | None \<Rightarrow> d) m"

definition adjust_restored_peer :: "EncryptedLinkStateRecord \<Rightarrow> LinkedPeerRecord \<Rightarrow> LinkedPeerRecord" where
  "adjust_restored_peer ls peer =
     (if lp_state peer = Blocked \<or> lp_state peer = RecoveryRequiredState then peer
      else let state =
             (case restored_peer_state_from_link_state ls of
                Some Linked \<Rightarrow> Linked
              | Some Linking \<Rightarrow> if lp_state peer \<noteq> Linked then Linking else lp_state peer
              | None \<Rightarrow> if lp_state peer = Linked \<or> lp_state peer = Linking then RecoveryRequiredState else lp_state peer
              | _ \<Rightarrow> lp_state peer);
             peer1 = peer\<lparr>lp_state := state\<rparr>
           in if lp_last_sync_at peer1 = None then peer1\<lparr>lp_last_sync_at := Some (ls_checkpointed_at ls)\<rparr> else peer1)"

definition reconcile_link ::
  "peer_key \<times> EncryptedLinkStateRecord \<Rightarrow> (peer_key, LinkedPeerRecord) hashmap \<Rightarrow> (peer_key, LinkedPeerRecord) hashmap" where
  "reconcile_link = (\<lambda>(k, ls) peers.
     hm_modify_or_insert k (adjust_restored_peer ls)
       (restored_peer_record k (case restored_peer_state_from_link_state ls of Some st \<Rightarrow> st | None \<Rightarrow> RecoveryRequiredState)
          (ls_checkpointed_at ls)) peers)"

definition mark_unlinked ::
  "(peer_key, EncryptedLinkStateRecord) hashmap \<Rightarrow> peer_key \<times> LinkedPeerRecord \<Rightarrow> peer_key \<times> LinkedPeerRecord" where
  "mark_unlinked links = (\<lambda>(k, peer).
     (k, if hm_get links k = None \<and> (lp_state peer = Linked \<or> lp_state peer = Linking)
         then peer\<lparr>lp_state := RecoveryRequiredState\<rparr> else peer))"

definition outbound_status_requires_link :: "OutboundPrivateMessageStatus \<Rightarrow> bool" where
  "outbound_status_requires_link st \<longleftrightarrow> st \<in> {Pending, Sending, Failed}"

definition om_peer :: "OutboundPrivateMessageRecord \<Rightarrow> peer_key" where
  "om_peer m = (om_counterparty m, om_path m)"

definition active_link :: "(peer_key, EncryptedLinkStateRecord) hashmap \<Rightarrow> peer_key \<Rightarrow> bool" where
  "active_link links k \<longleftrightarrow> list_ex (\<lambda>(k', ls). k' = k \<and> ls_link_snapshot ls \<noteq> None) links"

definition reconcile_message ::
  "(peer_key, EncryptedLinkStateRecord) hashmap \<Rightarrow> OutboundPrivateMessageRecord \<Rightarrow>
   (peer_key, LinkedPeerRecord) hashmap \<Rightarrow> (peer_key, LinkedPeerRecord) hashmap" where
  "reconcile_message links m peers =
     (if outbound_status_requires_link (om_status m) \<and> \<not> active_link links (om_peer m)
      then hm_modify_or_insert (om_peer m)
             (\<lambda>peer. if lp_state peer \<noteq> Blocked then peer\<lparr>lp_state := RecoveryRequiredState\<rparr> else peer)
             (restored_peer_record (om_peer m) RecoveryRequiredState (om_updated_at m)) peers
      else peers)"

definition reconcile_restored_linked_peers ::
  "(peer_key, LinkedPeerRecord) hashmap \<Rightarrow> (peer_key, EncryptedLinkStateRecord) hashmap \<Rightarrow>
   OutboundPrivateMessageRecord list \<Rightarrow> (peer_key, LinkedPeerRecord) hashmap \<times> peer_key list" where
  "reconcile_restored_linked_peers peers links outbound =
     (let peers1 = fold reconcile_link links peers;
          peers2 = map (mark_unlinked links) peers1;
          peers3 = fold (reconcile_message links) outbound peers2
      in (peers3, sort_key peer_text
            (map lp_key (filter (\<lambda>r. lp_state r = RecoveryRequiredState) (hm_values peers3)))))"

definition clear_link_material :: "EncryptedLinkStateRecord \<Rightarrow> EncryptedLinkStateRecord" where
  "clear_link_material r =
     (let had_snapshot = ls_link_snapshot r \<noteq> None \<or> ls_handshake_snapshot r \<noteq> None \<or> ls_handshake_role r \<noteq> None;
          r1 = r\<lparr>ls_link_snapshot := None, ls_handshake_snapshot := None, ls_handshake_role := None\<rparr>
      in if had_snapshot then r1\<lparr>ls_generation := sat_inc (ls_generation r1)\<rparr> else r1)"

definition clear_recovery_required_link_snapshots ::
  "(peer_key, EncryptedLinkStateRecord) hashmap \<Rightarrow> peer_key list \<Rightarrow> (peer_key, EncryptedLinkStateRecord) hashmap" where
  "clear_recovery_required_link_snapshots links peers =
     fold (\<lambda>k links. case hm_get links k of
                       None \<Rightarrow> links
                     | Some r \<Rightarrow> hm_insert k (clear_link_material r) links) peers links"

definition mark_restored_sending_outbound_recovery_required ::
  "OutboundPrivateMessageRecord list \<Rightarrow> peer_key list \<Rightarrow> OutboundPrivateMessageRecord list" where
  "mark_restored_sending_outbound_recovery_required records peers =
     map (\<lambda>m. if om_status m = Sending \<and> om_peer m \<in> set peers
              then m\<lparr>om_status := RecoveryRequired,
                     om_updated_at := max (om_updated_at m)
                       (case om_last_attempt_at m of Some t \<Rightarrow> t | None \<Rightarrow> om_created_at m),
                     om_last_error := Some ''restored sending message requires Encrypted Link recovery''\<rparr>
              else m) records"

section \<open>Restoring\<close>

definition into_storage_state ::
  "ext \<Rightarrow> SdkBackupState \<Rightarrow> IdentityState option \<Rightarrow> PaykitReceiverPath \<Rightarrow> u64 \<Rightarrow> (StorageState \<times> RestoreReport) sdk_res" where
  "into_storage_state E b current local_rp next_lease_id =
     rbind (backup_validate b current local_rp) (\<lambda>_.
     let identity = preserve_current_sign_out_generation (bk_identity_state b) current in
     rbind (keyed_by_tuple lp_key (bk_linked_peers b) ''Linked Peer'') (\<lambda>linked_peers.
     rbind (validate_linked_peer_records E linked_peers) (\<lambda>_.
     rbind (keyed_by_tuple ct_public_key (bk_contact_records b) ''local contact'') (\<lambda>contacts.
     rbind (validate_contact_records E contacts) (\<lambda>_.
     rbind (keyed_by_tuple pe_identifier (bk_public_endpoint_records b) ''public Payment Endpoint'') (\<lambda>endpoints.
     rbind (validate_public_endpoint_records endpoints) (\<lambda>_.
     rbind (keyed_by_tuple rv_key (bk_payment_endpoint_reservations b) ''Payment Endpoint Reservation'') (\<lambda>reservations.
     rbind (keyed_by_tuple ls_key (bk_encrypted_link_states b) ''Encrypted Link state'') (\<lambda>links.
     rbind (validate_encrypted_link_snapshots E links local_rp) (\<lambda>_.
     rbind (unique_outbound_messages (bk_outbound_private_messages b)) (\<lambda>outbound.
     rbind (validate_outbound_private_messages E outbound (bk_local_receiver_path b)) (\<lambda>_.
     rbind (validate_payment_endpoint_reservations E reservations outbound) (\<lambda>_.
     rbind (unique_private_stream_items (bk_private_stream_items b)) (\<lambda>items.
     rbind (validate_private_stream_items E items) (\<lambda>_.
     rbind (keyed_by_tuple ed_key (bk_event_dedup_records b) ''Event dedupe'') (\<lambda>dedups.
     rbind (validate_event_dedup_records E dedups items) (\<lambda>_.
     rbind (keyed_by_tuple Storage.ra_key (bk_receipt_access_records b) ''Receipt Access'') (\<lambda>accesses.
     rbind (validate_receipt_access_records E accesses items) (\<lambda>_.
     rbind (validate_required_private_stream_indexes E items dedups accesses) (\<lambda>_.
     rbind (keyed_by_tuple rr_key (bk_receipt_records b) ''Receipt'') (\<lambda>receipts.
     rbind (validate_receipt_records E receipts accesses (Option.bind identity id_public_key)) (\<lambda>_.
     rbind (keyed_by_tuple ri_key (bk_receipt_issuance_records b) ''Receipt issuance'') (\<lambda>issuances.
     rbind (validate_receipt_issuance_records E issuances outbound (bk_local_receiver_path b)) (\<lambda>_.
     let (peers, recovery) = reconcile_restored_linked_peers linked_peers links outbound;
         links1 = clear_recovery_required_link_snapshots links recovery;
         outbound1 = mark_restored_sending_outbound_recovery_required outbound recovery;
         report = \<lparr>rp_version = bk_version b, rp_restored_identity = (identity \<noteq> None),
           rp_linked_peers = length peers, rp_contact_records = length contacts,
           rp_public_endpoint_records = length endpoints, rp_payment_endpoint_reservations = length reservations,
           rp_encrypted_link_states = length links1, rp_outbound_private_messages = length outbound1,
           rp_private_stream_items = length items, rp_event_dedup_records = length dedups,
           rp_receipt_access_records = length accesses, rp_receipt_records = length receipts,
           rp_receipt_issuance_records = length issuances, rp_recovery_required_peers = recovery\<rparr>;
         state = \<lparr>st_identity_state = identity, st_linked_peers = peers, st_contact_records = contacts,
           st_public_endpoint_records = endpoints, st_payment_endpoint_reservations = reservations,
           st_encrypted_link_states = links1, st_peer_link_operation_leases = [],
           st_next_lease_id = next_lease_id, st_outbound_private_messages = outbound1,
           st_next_outbound_id = max (bk_next_outbound_private_message_id b) (next_outbound_id outbound1),
           st_private_stream_items = items,
           st_next_receive_batch_id = max (bk_next_receive_batch_id b) (next_receive_batch_id items),
           st_next_stream_item_id = max (bk_next_private_stream_item_id b) (next_private_stream_item_id items),
           st_event_dedup_records = dedups, st_receipt_access_records = accesses, st_receipt_records = receipts,
           st_receipt_issuance_records = issuances\<rparr>
     in Inr (state, report)))))))))))))))))))))))))"

definition restore_backup_state_with_identity ::
  "ext \<Rightarrow> SdkBackupState \<Rightarrow> PaykitReceiverPath \<Rightarrow> IdentityState option \<Rightarrow> StorageState \<Rightarrow>
   StorageState \<times> RestoreReport sdk_res" where
  "restore_backup_state_with_identity E b local_rp trusted s =
     transaction (\<lambda>tx.
       let current = (case trusted of Some i \<Rightarrow> Some i | None \<Rightarrow> load_identity_state tx)
       in into_storage_state E b current local_rp (st_next_lease_id tx)) s"

section \<open>Reconciled peers and links\<close>

lemma hm_get_modify [table_simps]:
  "hm_get (hm_modify_or_insert k f d m) j =
     (if j = k then Some (case hm_get m k of Some v \<Rightarrow> f v | None \<Rightarrow> d) else hm_get m j)"
  by (simp add: hm_modify_or_insert_def hm_get_insert)

lemma hm_wf_modify:
  assumes "hm_wf key m" and "\<And>v. key v = k \<Longrightarrow> key (f v) = k" and "key d = k"
  shows "hm_wf key (hm_modify_or_insert k f d m)"
proof -
  let ?v = "case hm_get m k of Some v \<Rightarrow> f v | None \<Rightarrow> d"
  have "key ?v = k" using assms hm_wf_get [OF assms(1)] by (auto split: option.splits)
  then show ?thesis unfolding hm_modify_or_insert_def using hm_wf_insert [OF assms(1), of ?v] by simp
qed

lemma restored_peer_key [simp]: "lp_key (restored_peer_record k st t) = k"
  by (simp add: restored_peer_record_def lp_key_def)

lemma adjusted_key [simp]: "lp_key (adjust_restored_peer ls peer) = lp_key peer"
  by (simp add: adjust_restored_peer_def lp_key_def Let_def split: option.splits LinkedPeerState.splits)

lemma reconcile_link_wf: "hm_wf lp_key peers \<Longrightarrow> hm_wf lp_key (reconcile_link kl peers)"
  by (cases kl) (simp add: reconcile_link_def hm_wf_modify)

lemma reconcile_message_wf: "hm_wf lp_key peers \<Longrightarrow> hm_wf lp_key (reconcile_message links m peers)"
  unfolding reconcile_message_def by (auto intro!: hm_wf_modify) (simp_all add: lp_key_def)

lemma mark_unlinked_wf: "hm_wf lp_key peers \<Longrightarrow> hm_wf lp_key (map (mark_unlinked links) peers)"
  by (auto simp: hm_wf_def mark_unlinked_def lp_key_def comp_def case_prod_unfold)

lemma fold_keeps: "(\<And>x y. P y \<Longrightarrow> P (f x y)) \<Longrightarrow> P y \<Longrightarrow> P (fold f xs y)"
  by (induction xs arbitrary: y) auto

lemma reconciled_wf: "hm_wf lp_key peers \<Longrightarrow> hm_wf lp_key (fst (reconcile_restored_linked_peers peers links ms))"
  unfolding reconcile_restored_linked_peers_def Let_def fst_conv
  by (intro fold_keeps [of "hm_wf lp_key"] reconcile_link_wf reconcile_message_wf mark_unlinked_wf)

lemma recovery_iff:
  assumes "hm_wf lp_key peers" and "reconcile_restored_linked_peers peers links ms = (peers', recovery)"
  shows "k \<in> set recovery \<longleftrightarrow> (\<exists>r. hm_get peers' k = Some r \<and> lp_state r = RecoveryRequiredState)"
proof -
  have wf: "hm_wf lp_key peers'" using reconciled_wf [OF assms(1), of links ms] assms(2) by simp
  have "recovery = sort_key peer_text
          (map lp_key (filter (\<lambda>r. lp_state r = RecoveryRequiredState) (hm_values peers')))"
    using assms(2) by (auto simp: reconcile_restored_linked_peers_def Let_def)
  then show ?thesis using hm_wf_get [OF wf, of k] by (force simp: hm_values_iff [OF wf] image_iff)
qed

text \<open>Material: what a peer needs to be \<^const>\<open>Linked\<close> or \<^const>\<open>Linking\<close>.\<close>

definition link_material :: "EncryptedLinkStateRecord \<Rightarrow> bool" where
  "link_material ls \<longleftrightarrow> restored_peer_state_from_link_state ls \<noteq> None"

definition peers_backed ::
  "(peer_key, EncryptedLinkStateRecord) hashmap \<Rightarrow> (peer_key, LinkedPeerRecord) hashmap \<Rightarrow> bool" where
  "peers_backed links peers \<longleftrightarrow>
     (\<forall>k r. hm_get peers k = Some r \<and> (lp_state r = Linked \<or> lp_state r = Linking) \<longrightarrow>
        pred_option link_material (hm_get links k) \<and> hm_get links k \<noteq> None)"

definition peer_stopped :: "(peer_key, LinkedPeerRecord) hashmap \<Rightarrow> peer_key \<Rightarrow> bool" where
  "peer_stopped peers k \<longleftrightarrow>
     (\<exists>r. hm_get peers k = Some r \<and> (lp_state r = Blocked \<or> lp_state r = RecoveryRequiredState))"

lemma restored_state_cases:
  "restored_peer_state_from_link_state ls \<in> {Some Linked, Some Linking, None}"
  by (simp add: restored_peer_state_from_link_state_def)

lemma adjusted_state:
  "lp_state (adjust_restored_peer ls peer) \<in> {Linked, Linking} \<Longrightarrow> link_material ls"
  using restored_state_cases [of ls]
  by (auto simp: adjust_restored_peer_def link_material_def Let_def split: if_splits)

lemma hm_get_reconcile_links:
  "distinct (map fst links) \<Longrightarrow> hm_get (fold reconcile_link links peers) k =
     (case hm_get links k of
        None \<Rightarrow> hm_get peers k
      | Some ls \<Rightarrow> hm_get (reconcile_link (k, ls) peers) k)"
proof (induction links arbitrary: peers)
  case (Cons kl links)
  obtain j ls where kl: "kl = (j, ls)" by (cases kl)
  have other: "hm_get (reconcile_link (j, ls) peers) i = hm_get peers i" if "i \<noteq> j" for i
    using that by (simp add: reconcile_link_def hm_get_modify)
  have same: "hm_get (reconcile_link (i, l) (reconcile_link (j, ls) peers)) i = hm_get (reconcile_link (i, l) peers) i"
    if "i \<noteq> j" for i l
    using other [OF that] by (simp add: reconcile_link_def hm_get_modify)
  have dist: "distinct (map fst links)" and fresh: "hm_get links j = None"
    using Cons.prems by (simp_all add: kl map_of_eq_None_iff)
  show ?case
  proof (cases "k = j")
    case True
    then show ?thesis using fresh Cons.IH [OF dist, of "reconcile_link (j, ls) peers"] by (simp add: kl)
  next
    case False
    then show ?thesis using other [OF False] same [OF False]
      by (simp add: kl Cons.IH [OF dist] split: option.split)
  qed
qed simp

lemma hm_get_mark_unlinked:
  "hm_get (map (mark_unlinked links) peers) k = map_option (\<lambda>p. snd (mark_unlinked links (k, p))) (hm_get peers k)"
  by (induction peers) (auto simp: mark_unlinked_def)

lemma linked_peers_backed:
  assumes "distinct (map fst links)"
  shows "peers_backed links (map (mark_unlinked links) (fold reconcile_link links peers))"
  unfolding peers_backed_def
proof (intro allI impI, elim conjE)
  fix k r assume get: "hm_get (map (mark_unlinked links) (fold reconcile_link links peers)) k = Some r"
    and state: "lp_state r = Linked \<or> lp_state r = Linking"
  obtain p where p: "hm_get (fold reconcile_link links peers) k = Some p" "r = snd (mark_unlinked links (k, p))"
    using get by (auto simp: hm_get_mark_unlinked)
  have found: "hm_get links k \<noteq> None" and r: "r = p"
    using state unfolding p(2) by (auto simp: mark_unlinked_def split: if_splits)
  then obtain ls where ls: "hm_get links k = Some ls" by blast
  have "p = (case hm_get peers k of
               Some q \<Rightarrow> adjust_restored_peer ls q
             | None \<Rightarrow> restored_peer_record k (case restored_peer_state_from_link_state ls of
                          Some st \<Rightarrow> st | None \<Rightarrow> RecoveryRequiredState) (ls_checkpointed_at ls))"
    using p(1) unfolding hm_get_reconcile_links [OF assms] ls by (simp add: reconcile_link_def hm_get_modify)
  then have "link_material ls"
    using state adjusted_state [of ls] unfolding r
    by (auto simp: restored_peer_record_def link_material_def split: option.splits)
  then show "pred_option link_material (hm_get links k) \<and> hm_get links k \<noteq> None" by (simp add: ls)
qed

lemma reconcile_message_backed: "peers_backed links peers \<Longrightarrow> peers_backed links (reconcile_message links m peers)"
  by (auto simp: peers_backed_def reconcile_message_def hm_get_modify restored_peer_record_def split: if_splits option.splits)

lemma reconcile_message_stopped: "peer_stopped peers k \<Longrightarrow> peer_stopped (reconcile_message links m peers) k"
  by (auto simp: peer_stopped_def reconcile_message_def hm_get_modify split: option.splits)

lemma reconcile_message_stops:
  "outbound_status_requires_link (om_status m) \<Longrightarrow> \<not> active_link links (om_peer m) \<Longrightarrow>
   peer_stopped (reconcile_message links m peers) (om_peer m)"
  by (auto simp: peer_stopped_def reconcile_message_def hm_get_modify restored_peer_record_def split: option.splits)

lemma reconcile_messages_stop:
  assumes "m \<in> set ms" and "outbound_status_requires_link (om_status m)" and "\<not> active_link links (om_peer m)"
  shows "peer_stopped (fold (reconcile_message links) ms peers) (om_peer m)"
proof -
  obtain xs ys where ms: "ms = xs @ m # ys" using split_list [OF assms(1)] by blast
  show ?thesis unfolding ms fold_append fold_simps comp_apply
    by (rule fold_keeps [of "\<lambda>p. peer_stopped p (om_peer m)"])
      (simp_all add: reconcile_message_stopped reconcile_message_stops assms)
qed

lemma active_link_iff: "distinct (map fst links) \<Longrightarrow>
  active_link links k \<longleftrightarrow> (\<exists>ls. hm_get links k = Some ls \<and> ls_link_snapshot ls \<noteq> None)"
  by (auto simp: active_link_def list_ex_iff)

text \<open>Clearing the link material of the peers that need recovery.\<close>

lemma clear_twice: "clear_link_material (clear_link_material r) = clear_link_material r"
  by (simp add: clear_link_material_def Let_def)

lemma cleared_no_material:
  "ls_link_snapshot (clear_link_material r) = None" "ls_handshake_snapshot (clear_link_material r) = None"
  "ls_handshake_role (clear_link_material r) = None" "ls_key (clear_link_material r) = ls_key r"
  by (simp_all add: clear_link_material_def Let_def ls_key_def)

lemma hm_get_cleared:
  "hm_get (clear_recovery_required_link_snapshots links ks) k =
     map_option (if k \<in> set ks then clear_link_material else id) (hm_get links k)"
  unfolding clear_recovery_required_link_snapshots_def
  by (induction ks arbitrary: links)
    (auto simp: hm_get_insert clear_twice option.map_comp option.map_id comp_def split: option.splits)

lemma cleared_wf: "hm_wf ls_key links \<Longrightarrow> hm_wf ls_key (clear_recovery_required_link_snapshots links ks)"
  unfolding clear_recovery_required_link_snapshots_def
proof (rule fold_keeps [of "hm_wf ls_key"])
  fix k links' assume wf: "hm_wf ls_key links'"
  show "hm_wf ls_key (case hm_get links' k of None \<Rightarrow> links' | Some r \<Rightarrow> hm_insert k (clear_link_material r) links')"
    using wf hm_wf_insert [OF wf] hm_wf_get [OF wf] cleared_no_material(4) by (metis (no_types, lifting) option.case_eq_if option.collapse)
qed
section \<open>The restored store\<close>

text \<open>What a restore accepts, and the store it yields, without the order of the checks.\<close>

definition bk_outbound :: "SdkBackupState \<Rightarrow> OutboundPrivateMessageRecord list" where
  "bk_outbound b = sort_key om_id (bk_outbound_private_messages b)"

definition bk_items :: "SdkBackupState \<Rightarrow> PrivateStreamItemRecord list" where
  "bk_items b = sort_key si_id (bk_private_stream_items b)"

definition distinct_tables :: "SdkBackupState \<Rightarrow> bool" where
  "distinct_tables b \<longleftrightarrow>
     distinct (map lp_key (bk_linked_peers b)) \<and> distinct (map ct_public_key (bk_contact_records b))
     \<and> distinct (map pe_identifier (bk_public_endpoint_records b))
     \<and> distinct (map rv_key (bk_payment_endpoint_reservations b))
     \<and> distinct (map ls_key (bk_encrypted_link_states b)) \<and> distinct (map om_id (bk_outbound_private_messages b))
     \<and> distinct (map si_id (bk_private_stream_items b)) \<and> distinct (map ed_key (bk_event_dedup_records b))
     \<and> distinct (map Storage.ra_key (bk_receipt_access_records b)) \<and> distinct (map rr_key (bk_receipt_records b))
     \<and> distinct (map ri_key (bk_receipt_issuance_records b))"

definition valid_records :: "ext \<Rightarrow> SdkBackupState \<Rightarrow> IdentityState option \<Rightarrow> PaykitReceiverPath \<Rightarrow> bool" where
  "valid_records E b current local_rp \<longleftrightarrow>
     (\<forall>r \<in> set (bk_linked_peers b). validate_linked_peer_record E r = Inr ())
     \<and> (\<forall>r \<in> set (bk_contact_records b). validate_contact_record E r = Inr ())
     \<and> (\<forall>r \<in> set (bk_public_endpoint_records b). validate_public_endpoint_record r = Inr ())
     \<and> (\<forall>r \<in> set (bk_encrypted_link_states b). check_link_snapshots E local_rp (ls_key r, r) = Inr ())
     \<and> (\<forall>r \<in> set (bk_outbound_private_messages b). validate_outbound_record E (bk_local_receiver_path b) r = Inr ())
     \<and> (\<forall>r \<in> set (bk_payment_endpoint_reservations b). validate_payment_endpoint_reservation E (bk_outbound b) r = Inr ())
     \<and> (\<forall>r \<in> set (bk_private_stream_items b). validate_private_stream_item E r = Inr ())
     \<and> (\<forall>r \<in> set (bk_event_dedup_records b). validate_event_dedup_record E (bk_items b) r = Inr ())
     \<and> (\<forall>r \<in> set (bk_receipt_access_records b). validate_receipt_access_record E (bk_items b) r = Inr ())
     \<and> (\<forall>r \<in> set (bk_private_stream_items b). validate_required_index E (keyed ed_key (bk_event_dedup_records b))
            (keyed Storage.ra_key (bk_receipt_access_records b)) r = Inr ())
     \<and> (\<forall>r \<in> set (bk_receipt_records b). validate_receipt_record E (keyed Storage.ra_key (bk_receipt_access_records b))
            (Option.bind (preserve_current_sign_out_generation (bk_identity_state b) current) id_public_key) r = Inr ())
     \<and> validate_issuances_loop E (bk_outbound b) (bk_local_receiver_path b) [] (bk_receipt_issuance_records b) = Inr ()"

definition restored_peers :: "SdkBackupState \<Rightarrow> (peer_key, LinkedPeerRecord) hashmap \<times> peer_key list" where
  "restored_peers b = reconcile_restored_linked_peers (keyed lp_key (bk_linked_peers b))
     (keyed ls_key (bk_encrypted_link_states b)) (bk_outbound b)"

definition restored_links :: "SdkBackupState \<Rightarrow> (peer_key, EncryptedLinkStateRecord) hashmap" where
  "restored_links b =
     clear_recovery_required_link_snapshots (keyed ls_key (bk_encrypted_link_states b)) (snd (restored_peers b))"

definition restored_outbound :: "SdkBackupState \<Rightarrow> OutboundPrivateMessageRecord list" where
  "restored_outbound b =
     mark_restored_sending_outbound_recovery_required (bk_outbound b) (snd (restored_peers b))"

definition restored_storage :: "SdkBackupState \<Rightarrow> IdentityState option \<Rightarrow> u64 \<Rightarrow> StorageState" where
  "restored_storage b current next_lease_id =
     \<lparr>st_identity_state = preserve_current_sign_out_generation (bk_identity_state b) current,
      st_linked_peers = fst (restored_peers b), st_contact_records = keyed ct_public_key (bk_contact_records b),
      st_public_endpoint_records = keyed pe_identifier (bk_public_endpoint_records b),
      st_payment_endpoint_reservations = keyed rv_key (bk_payment_endpoint_reservations b),
      st_encrypted_link_states = restored_links b, st_peer_link_operation_leases = [],
      st_next_lease_id = next_lease_id, st_outbound_private_messages = restored_outbound b,
      st_next_outbound_id = max (bk_next_outbound_private_message_id b) (next_outbound_id (restored_outbound b)),
      st_private_stream_items = bk_items b,
      st_next_receive_batch_id = max (bk_next_receive_batch_id b) (next_receive_batch_id (bk_items b)),
      st_next_stream_item_id = max (bk_next_private_stream_item_id b) (next_private_stream_item_id (bk_items b)),
      st_event_dedup_records = keyed ed_key (bk_event_dedup_records b),
      st_receipt_access_records = keyed Storage.ra_key (bk_receipt_access_records b),
      st_receipt_records = keyed rr_key (bk_receipt_records b),
      st_receipt_issuance_records = keyed ri_key (bk_receipt_issuance_records b)\<rparr>"

lemmas validate_tables_defs = validate_linked_peer_records_def validate_contact_records_def
  validate_public_endpoint_records_def validate_encrypted_link_snapshots_def validate_outbound_private_messages_def
  validate_payment_endpoint_reservations_def validate_private_stream_items_def validate_event_dedup_records_def
  validate_receipt_access_records_def validate_required_private_stream_indexes_def validate_receipt_records_def
  validate_receipt_issuance_records_def

lemma unit_result: "(\<exists>x. m = Inr (x :: unit)) \<longleftrightarrow> m = Inr ()"
  by simp

lemma ball_keyed: "(\<forall>x \<in> set (keyed key rs). P x) \<longleftrightarrow> (\<forall>r \<in> set rs. P (key r, r))"
  by (auto simp: keyed_def)

definition restored_report :: "SdkBackupState \<Rightarrow> IdentityState option \<Rightarrow> RestoreReport" where
  "restored_report b current =
     \<lparr>rp_version = bk_version b,
      rp_restored_identity = (preserve_current_sign_out_generation (bk_identity_state b) current \<noteq> None),
      rp_linked_peers = length (fst (restored_peers b)), rp_contact_records = length (bk_contact_records b),
      rp_public_endpoint_records = length (bk_public_endpoint_records b),
      rp_payment_endpoint_reservations = length (bk_payment_endpoint_reservations b),
      rp_encrypted_link_states = length (restored_links b),
      rp_outbound_private_messages = length (restored_outbound b), rp_private_stream_items = length (bk_items b),
      rp_event_dedup_records = length (bk_event_dedup_records b),
      rp_receipt_access_records = length (bk_receipt_access_records b),
      rp_receipt_records = length (bk_receipt_records b),
      rp_receipt_issuance_records = length (bk_receipt_issuance_records b),
      rp_recovery_required_peers = snd (restored_peers b)\<rparr>"

lemma length_keyed [simp]: "length (keyed key rs) = length rs"
  by (simp add: keyed_def)

lemma into_storage_state_iff:
  "into_storage_state E b current local_rp n = Inr (t, report) \<longleftrightarrow>
     backup_validate b current local_rp = Inr () \<and> distinct_tables b \<and> valid_records E b current local_rp
     \<and> t = restored_storage b current n \<and> report = restored_report b current"
  unfolding into_storage_state_def Let_def rbind_Inr_iff table_iffs validate_tables_defs hm_values_keyed
    case_prod_unfold sum.inject prod.inject
  unfolding distinct_tables_def valid_records_def restored_storage_def restored_report_def restored_links_def
    restored_outbound_def restored_peers_def bk_outbound_def bk_items_def
  by (simp add: ball_keyed conj_ac eq_commute [of t] eq_commute [of report])

definition current_identity :: "IdentityState option \<Rightarrow> StorageState \<Rightarrow> IdentityState option" where
  "current_identity trusted s = (case trusted of Some i \<Rightarrow> Some i | None \<Rightarrow> load_identity_state s)"

definition backup_accepted :: "ext \<Rightarrow> SdkBackupState \<Rightarrow> IdentityState option \<Rightarrow> PaykitReceiverPath \<Rightarrow> bool" where
  "backup_accepted E b current local_rp \<longleftrightarrow>
     backup_validate b current local_rp = Inr () \<and> distinct_tables b \<and> valid_records E b current local_rp"

lemma restore_ok_iff:
  "restore_backup_state_with_identity E b local_rp trusted s = (t, Inr report) \<longleftrightarrow>
     backup_accepted E b (current_identity trusted s) local_rp
     \<and> t = restored_storage b (current_identity trusted s) (st_next_lease_id s)
     \<and> report = restored_report b (current_identity trusted s)"
  unfolding restore_backup_state_with_identity_def transaction_ok_iff Let_def current_identity_def [symmetric]
    into_storage_state_iff backup_accepted_def by simp

lemma restore_error:
  "restore_backup_state_with_identity E b local_rp trusted s = (t, Inl e) \<Longrightarrow> t = s"
  by (auto simp: restore_backup_state_with_identity_def transaction_def Let_def split: sum.splits)

text \<open>C32: A restore is exact and atomic: it replaces the store by the reconciled backup when the payload
  matches the receiver and the identity, every table has distinct keys and every record passes its
  check, and otherwise reports an error with the store as it was.
\<close>

theorem restore_exact:
  "if backup_accepted E b (current_identity trusted s) local_rp
   then restore_backup_state_with_identity E b local_rp trusted s =
          (restored_storage b (current_identity trusted s) (st_next_lease_id s),
           Inr (restored_report b (current_identity trusted s)))
   else \<exists>e. restore_backup_state_with_identity E b local_rp trusted s = (s, Inl e)"
proof (cases "backup_accepted E b (current_identity trusted s) local_rp")
  case True
  then show ?thesis by (simp add: restore_ok_iff)
next
  case False
  obtain t r where run: "restore_backup_state_with_identity E b local_rp trusted s = (t, r)" by fastforce
  then obtain e where "r = Inl e" using False restore_ok_iff [of E b local_rp trusted s t] by (cases r) auto
  then show ?thesis using run False restore_error by simp
qed

lemma restored_ids:
  "map om_id (restored_outbound b) = map om_id (bk_outbound b)"
  by (simp add: restored_outbound_def mark_restored_sending_outbound_recovery_required_def)

lemma wf_keyed_fst: "distinct (map key rs) \<Longrightarrow> distinct (map fst (keyed key rs))"
  by (simp add: keyed_def comp_def)

lemma restored_tables_inv: "distinct_tables b \<Longrightarrow> tables_inv (restored_storage b current n)"
  by (simp add: tables_inv_def restored_storage_def distinct_tables_def hm_wf_keyed restored_peers_def
      reconciled_wf restored_links_def cleared_wf)

lemma restored_storage_inv_iff:
  assumes "distinct_tables b"
  shows "storage_inv (restored_storage b current n) \<longleftrightarrow>
    - 1 \<notin> om_id ` set (bk_outbound_private_messages b) \<and> - 1 \<notin> si_id ` set (bk_private_stream_items b)"
proof -
  have sorted: "sorted_wrt (<) (map om_id (restored_outbound b))" "sorted_wrt (<) (map si_id (bk_items b))"
    using assms unfolding restored_ids by (simp_all add: bk_outbound_def bk_items_def distinct_tables_def sort_key_strict)
  have outbound: "list_all (\<lambda>m. om_id m < max a (next_outbound_id (restored_outbound b))) (restored_outbound b)
      \<longleftrightarrow> - 1 \<notin> om_id ` set (bk_outbound_private_messages b)" for a
    using next_id_fresh_iff [of "map om_id (restored_outbound b)" a] arg_cong [OF restored_ids [of b], of set]
    by (simp add: list_all_iff next_outbound_id_def bk_outbound_def)
  have items: "list_all (\<lambda>m. si_id m < max a (next_private_stream_item_id (bk_items b))) (bk_items b)
      \<longleftrightarrow> - 1 \<notin> si_id ` set (bk_private_stream_items b)" for a
    using next_id_fresh_iff [of "map si_id (bk_items b)" a]
    by (simp add: list_all_iff next_private_stream_item_id_def bk_items_def)
  have "lease_inv (restored_storage b current n)" by (simp add: lease_inv_def restored_storage_def)
  then show ?thesis using restored_tables_inv [OF assms] sorted outbound items
    by (simp add: storage_inv_def outbound_inv_def stream_inv_def restored_storage_def)
qed

text \<open>Next ids stay above every restored id, and the restored store satisfies the storage invariant,
  exactly when no restored outbound message or stream item carries the largest 64-bit id, at which
  the saturating increment stops.
\<close>

theorem restored_ids_bounded:
  assumes "restore_backup_state_with_identity E b local_rp trusted s = (t, Inr report)"
  shows "storage_inv t \<longleftrightarrow>
    (\<forall>m \<in> set (bk_outbound_private_messages b). om_id m \<noteq> - 1) \<and> (\<forall>i \<in> set (bk_private_stream_items b). si_id i \<noteq> - 1)"
proof -
  have t: "t = restored_storage b (current_identity trusted s) (st_next_lease_id s)" and "distinct_tables b"
    using assms by (auto simp: restore_ok_iff backup_accepted_def)
  then show ?thesis by (auto simp: t restored_storage_inv_iff image_iff)
qed

text \<open>The restored peers, links and queue fit together.\<close>

lemma restored_backed:
  assumes "distinct_tables b"
  shows "peers_backed (keyed ls_key (bk_encrypted_link_states b)) (fst (restored_peers b))"
proof -
  have "distinct (map ls_key (bk_encrypted_link_states b))" using assms by (simp add: distinct_tables_def)
  then show ?thesis
    unfolding restored_peers_def reconcile_restored_linked_peers_def Let_def fst_conv
    by (intro fold_keeps [of "peers_backed _"] reconcile_message_backed linked_peers_backed wf_keyed_fst)
qed

lemma restored_recovery:
  assumes "distinct_tables b"
  shows "k \<in> set (snd (restored_peers b)) \<longleftrightarrow>
    (\<exists>r. hm_get (fst (restored_peers b)) k = Some r \<and> lp_state r = RecoveryRequiredState)"
  using assms recovery_iff [OF hm_wf_keyed [of lp_key "bk_linked_peers b"], of "keyed ls_key (bk_encrypted_link_states b)"
      "bk_outbound b" "fst (restored_peers b)" "snd (restored_peers b)" k]
  by (simp add: restored_peers_def distinct_tables_def)

lemma hm_get_restored_links:
  assumes "distinct_tables b"
  shows "hm_get (restored_links b) k =
    map_option (if \<exists>r. hm_get (fst (restored_peers b)) k = Some r \<and> lp_state r = RecoveryRequiredState
                then clear_link_material else id) (hm_get (keyed ls_key (bk_encrypted_link_states b)) k)"
  unfolding restored_links_def hm_get_cleared restored_recovery [OF assms] ..

lemma restored_peer_linked:
  assumes "distinct_tables b" and "hm_get (fst (restored_peers b)) k = Some r" and "lp_state r \<in> {Linked, Linking}"
  shows "\<exists>ls. hm_get (restored_links b) k = Some ls \<and> link_material ls"
proof -
  have "pred_option link_material (hm_get (keyed ls_key (bk_encrypted_link_states b)) k)"
    and "hm_get (keyed ls_key (bk_encrypted_link_states b)) k \<noteq> None"
    using restored_backed [OF assms(1)] assms(2,3) unfolding peers_backed_def by blast+
  then show ?thesis using assms(2,3) by (auto simp: hm_get_restored_links [OF assms(1)])
qed

lemma restored_peer_recovery:
  assumes "distinct_tables b" and "hm_get (fst (restored_peers b)) k = Some r" and "lp_state r = RecoveryRequiredState"
    and "hm_get (restored_links b) k = Some ls"
  shows "ls_link_snapshot ls = None \<and> ls_handshake_snapshot ls = None \<and> ls_handshake_role ls = None"
  using assms(2-4) by (auto simp: hm_get_restored_links [OF assms(1)] cleared_no_material)

lemma restored_message:
  assumes tables: "distinct_tables b" and m: "m \<in> set (restored_outbound b)" and st: "om_status m \<in> {Pending, Sending, Failed}"
  shows "peer_stopped (fst (restored_peers b)) (om_peer m) \<or> active_link (restored_links b) (om_peer m)"
    and "om_status m = Sending \<Longrightarrow> om_peer m \<notin> set (snd (restored_peers b))"
proof -
  let ?links = "keyed ls_key (bk_encrypted_link_states b)" and ?peers = "fst (restored_peers b)"
  have m': "m \<in> set (bk_outbound b)" and keeps: "om_status m = Sending \<Longrightarrow> om_peer m \<notin> set (snd (restored_peers b))"
    using m st by (auto simp: restored_outbound_def mark_restored_sending_outbound_recovery_required_def split: if_splits)
  show "om_status m = Sending \<Longrightarrow> om_peer m \<notin> set (snd (restored_peers b))" by (rule keeps)
  have links: "distinct (map fst ?links)" and wf: "hm_wf ls_key ?links"
    using tables by (simp_all add: distinct_tables_def wf_keyed_fst hm_wf_keyed)
  show "peer_stopped ?peers (om_peer m) \<or> active_link (restored_links b) (om_peer m)"
  proof (cases "active_link ?links (om_peer m)")
    case True
    then obtain ls where ls: "hm_get ?links (om_peer m) = Some ls" "ls_link_snapshot ls \<noteq> None"
      by (auto simp: active_link_iff [OF links])
    have "distinct (map fst (restored_links b))"
      using cleared_wf [OF wf] by (simp add: restored_links_def hm_wf_def)
    then show ?thesis using ls by (auto simp: active_link_iff hm_get_restored_links [OF tables] peer_stopped_def)
  next
    case False
    then have "peer_stopped ?peers (om_peer m)"
      unfolding restored_peers_def reconcile_restored_linked_peers_def Let_def fst_conv
      using m' st by (intro reconcile_messages_stop) (auto simp: outbound_status_requires_link_def)
    then show ?thesis ..
  qed
qed

definition links_usable :: "StorageState \<Rightarrow> bool" where
  "links_usable s \<longleftrightarrow>
     (\<forall>k r. linked_peer s k = Some r \<and> lp_state r \<in> {Linked, Linking} \<longrightarrow>
        (\<exists>ls. encrypted_link_state s k = Some ls \<and> link_material ls))
     \<and> (\<forall>k r ls. linked_peer s k = Some r \<and> lp_state r = RecoveryRequiredState \<and> encrypted_link_state s k = Some ls \<longrightarrow>
        ls_link_snapshot ls = None \<and> ls_handshake_snapshot ls = None \<and> ls_handshake_role ls = None)
     \<and> (\<forall>m \<in> set (st_outbound_private_messages s). om_status m \<in> {Pending, Sending, Failed} \<longrightarrow>
        (\<exists>r. linked_peer s (om_peer m) = Some r \<and> lp_state r \<in> {Blocked, RecoveryRequiredState})
        \<or> (\<exists>ls. encrypted_link_state s (om_peer m) = Some ls \<and> ls_link_snapshot ls \<noteq> None))
     \<and> (\<forall>m \<in> set (st_outbound_private_messages s). om_status m = Sending \<longrightarrow>
        (\<forall>r. linked_peer s (om_peer m) = Some r \<longrightarrow> lp_state r \<noteq> RecoveryRequiredState))"

lemma restored_links_distinct: "distinct_tables b \<Longrightarrow> distinct (map fst (restored_links b))"
  using cleared_wf [OF hm_wf_keyed [of ls_key "bk_encrypted_link_states b"]]
  by (simp add: restored_links_def hm_wf_def distinct_tables_def)

lemma restored_storage_tables:
  "linked_peer (restored_storage b current n) k = hm_get (fst (restored_peers b)) k"
  "encrypted_link_state (restored_storage b current n) k = hm_get (restored_links b) k"
  "st_outbound_private_messages (restored_storage b current n) = restored_outbound b"
  by (simp_all add: linked_peer_def encrypted_link_state_def restored_storage_def)

lemma restored_usable:
  assumes tables: "distinct_tables b"
  shows "links_usable (restored_storage b current n)"
proof -
  have waiting: "(\<exists>r. hm_get (fst (restored_peers b)) (om_peer m) = Some r \<and> lp_state r \<in> {Blocked, RecoveryRequiredState})
        \<or> (\<exists>ls. hm_get (restored_links b) (om_peer m) = Some ls \<and> ls_link_snapshot ls \<noteq> None)"
    if "m \<in> set (restored_outbound b)" "om_status m \<in> {Pending, Sending, Failed}" for m
    using restored_message(1) [OF tables that]
    unfolding peer_stopped_def active_link_iff [OF restored_links_distinct [OF tables]] by blast
  have flight: "lp_state r \<noteq> RecoveryRequiredState"
    if "m \<in> set (restored_outbound b)" "om_status m = Sending" "hm_get (fst (restored_peers b)) (om_peer m) = Some r" for m r
    using restored_message(2) [OF tables that(1) _ that(2)] that(2,3) restored_recovery [OF tables, of "om_peer m"] by auto
  show ?thesis
    unfolding links_usable_def restored_storage_tables
    using restored_peer_linked [OF tables] restored_peer_recovery [OF tables] waiting flight by blast
qed


section \<open>Export, then restore\<close>

lemma hm_get_keyed: "distinct (map key rs) \<Longrightarrow> hm_get (keyed key rs) k = Some r \<longleftrightarrow> r \<in> set rs \<and> key r = k"
  using wf_keyed_fst [of key rs] by (auto simp: keyed_def)

lemma keyed_values_sorted:
  assumes wf: "hm_wf key m"
  shows "hm_get (keyed key (sort_key f (hm_values m))) = hm_get m"
proof
  fix k
  have "distinct (map key (hm_values m))"
    using wf by (auto simp: hm_wf_def hm_values_def comp_def case_prod_unfold distinct_map inj_on_def)
  then have "distinct (map key (sort_key f (hm_values m)))"
    by (simp add: distinct_map)
  then have "hm_get (keyed key (sort_key f (hm_values m))) k = Some r \<longleftrightarrow> hm_get m k = Some r" for r
    using hm_wf_get [OF wf] by (auto simp: hm_get_keyed hm_values_iff [OF wf])
  then show "hm_get (keyed key (sort_key f (hm_values m))) k = hm_get m k"
    by (metis not_Some_eq)
qed

lemma sorted_ids_kept: "sorted_wrt (<) (map f rs) \<Longrightarrow> sort_key f rs = rs"
  by (simp add: sort_key_id_if_sorted strict_sorted_imp_sorted)

lemma next_id_kept: "list_all (\<lambda>r. f r < n) rs \<Longrightarrow> max n (next_id (map f rs)) = n"
  using next_id_le [of "map f rs" n] by (intro max_absorb1) (auto simp: list_all_iff)

lemma restored_message_same:
  "list_all2 (\<lambda>m m'. m' = m \<or> om_status m = Sending \<and> om_peer m \<in> set ks \<and> om_status m' = RecoveryRequired
       \<and> om_id m' = om_id m \<and> om_peer m' = om_peer m \<and> om_raw_json m' = om_raw_json m)
     ms (mark_restored_sending_outbound_recovery_required ms ks)"
  unfolding mark_restored_sending_outbound_recovery_required_def by (induction ms) (auto simp: om_peer_def)

lemma exported_tables:
  assumes "tables_inv s"
  shows "hm_get (st_contact_records (restored_storage (export_backup_state s rp) i n)) = hm_get (st_contact_records s)"
    "hm_get (st_public_endpoint_records (restored_storage (export_backup_state s rp) i n)) = hm_get (st_public_endpoint_records s)"
    "hm_get (st_payment_endpoint_reservations (restored_storage (export_backup_state s rp) i n))
       = hm_get (st_payment_endpoint_reservations s)"
    "hm_get (st_event_dedup_records (restored_storage (export_backup_state s rp) i n)) = hm_get (st_event_dedup_records s)"
    "hm_get (st_receipt_access_records (restored_storage (export_backup_state s rp) i n)) = hm_get (st_receipt_access_records s)"
    "hm_get (st_receipt_records (restored_storage (export_backup_state s rp) i n)) = hm_get (st_receipt_records s)"
    "hm_get (st_receipt_issuance_records (restored_storage (export_backup_state s rp) i n))
       = hm_get (st_receipt_issuance_records s)"
  using assms by (simp_all add: restored_storage_def export_backup_state_def from_storage_state_def tables_inv_def
      keyed_values_sorted)

lemma exported_queue:
  assumes "outbound_inv s"
  shows "bk_outbound (export_backup_state s rp) = st_outbound_private_messages s"
    "st_next_outbound_id (restored_storage (export_backup_state s rp) i n) = st_next_outbound_id s"
proof -
  show out: "bk_outbound (export_backup_state s rp) = st_outbound_private_messages s"
    using assms by (simp add: bk_outbound_def export_backup_state_def from_storage_state_def outbound_inv_def sorted_ids_kept)
  show "st_next_outbound_id (restored_storage (export_backup_state s rp) i n) = st_next_outbound_id s"
    using assms next_id_kept [of om_id "st_next_outbound_id s" "st_outbound_private_messages s"]
    by (simp add: restored_storage_def next_outbound_id_def restored_ids out outbound_inv_def)
      (simp add: export_backup_state_def from_storage_state_def)
qed

lemma exported_stream:
  assumes "stream_inv s"
  shows "st_private_stream_items (restored_storage (export_backup_state s rp) i n) = st_private_stream_items s"
    "st_next_stream_item_id (restored_storage (export_backup_state s rp) i n) = st_next_stream_item_id s"
proof -
  have items: "bk_items (export_backup_state s rp) = st_private_stream_items s"
    using assms by (simp add: bk_items_def export_backup_state_def from_storage_state_def stream_inv_def sorted_ids_kept)
  then show "st_private_stream_items (restored_storage (export_backup_state s rp) i n) = st_private_stream_items s"
    by (simp add: restored_storage_def)
  show "st_next_stream_item_id (restored_storage (export_backup_state s rp) i n) = st_next_stream_item_id s"
    using assms next_id_kept [of si_id "st_next_stream_item_id s" "st_private_stream_items s"]
    by (simp add: restored_storage_def next_private_stream_item_id_def items stream_inv_def)
      (simp add: export_backup_state_def from_storage_state_def)
qed


lemma sign_out_generation_kept:
  assumes "preserve_current_sign_out_generation backup (Some c) = Some i" and "id_public_key i = id_public_key c"
  shows "id_sign_out_generation c \<le> id_sign_out_generation i"
  using assms by (auto simp: preserve_current_sign_out_generation_def split: option.splits if_splits)

text \<open>A store with a message in flight for a linked peer whose link is not in the backup.\<close>

definition sample_flight :: OutboundPrivateMessageRecord where
  "sample_flight =
     \<lparr>om_id = 4, om_counterparty = sample_peer, om_path = sample_path, om_kind = ''paykit.payment_request'',
      om_raw_json = ''doc'', om_status = Sending, om_attempt_count = 1, om_created_at = 1, om_updated_at = 1,
      om_last_attempt_at = Some 2, om_sent_at = None, om_last_error = None\<rparr>"

definition sample_store :: StorageState where
  "sample_store = empty_storage\<lparr>st_identity_state :=
       Some \<lparr>id_public_key = Some sample_peer, id_noise_public_key = None, id_initialized_at = 0, id_sign_out_generation = 0\<rparr>,
     st_linked_peers := [((sample_peer, sample_path), restored_peer_record (sample_peer, sample_path) Linked 0)],
     st_outbound_private_messages := [sample_flight], st_next_outbound_id := 5\<rparr>"

lemma sample_store_inv: "storage_inv sample_store"
  by (simp add: storage_inv_defs sample_store_def empty_storage_def sample_flight_def hm_wf_def)

lemma sample_flight_valid: "validate_outbound_record sample_ext sample_path sample_flight = Inr ()"
proof -
  have "validate_outbound_private_message sample_ext (om_raw_json sample_flight) = Inr ''paykit.payment_request''"
    using sample_doc_validated by (simp add: sample_flight_def)
  moreover have "validate_outbound_private_status sample_flight = Inr ()" by code_simp
  moreover have "om_kind sample_flight = ''paykit.payment_request''" by (simp add: sample_flight_def)
  ultimately show ?thesis
    by (simp add: validate_outbound_record_def validate_queued_outbound_private_message_def kind_as_str.simps)
qed

lemma sample_backup_tables:
  "bk_outbound_private_messages (export_backup_state sample_store sample_path) = [sample_flight]"
  "bk_local_receiver_path (export_backup_state sample_store sample_path) = sample_path"
  "bk_linked_peers (export_backup_state sample_store sample_path) = [restored_peer_record (sample_peer, sample_path) Linked 0]"
  "bk_private_stream_items (export_backup_state sample_store sample_path) = []"
  by (simp_all add: export_backup_state_def from_storage_state_def sample_store_def empty_storage_def hm_values_def)

lemma sample_backup_accepted:
  "backup_accepted sample_ext (export_backup_state sample_store sample_path) (st_identity_state sample_store) sample_path"
proof -
  let ?b = "export_backup_state sample_store sample_path"
  have peer: "validate_linked_peer_record sample_ext (restored_peer_record (sample_peer, sample_path) Linked 0) = Inr ()"
    by (simp add: validate_linked_peer_record_def validate_recovery_marker_fields_def restored_peer_record_def)
  have "backup_validate ?b (st_identity_state sample_store) sample_path = Inr ()"
    by (simp add: backup_validate_def export_backup_state_def from_storage_state_def sample_store_def
        backup_public_key_def backup_noise_public_key_def)
  moreover have "distinct_tables ?b" "valid_records sample_ext ?b (st_identity_state sample_store) sample_path"
    using peer sample_flight_valid unfolding distinct_tables_def valid_records_def sample_backup_tables
    by (simp_all add: export_backup_state_def from_storage_state_def sample_store_def empty_storage_def hm_values_def)
  ultimately show ?thesis by (simp add: backup_accepted_def)
qed

lemma sample_restore:
  obtains t report where "restore_backup_state_with_identity sample_ext (export_backup_state sample_store sample_path)
      sample_path (st_identity_state sample_store) empty_storage = (t, Inr report)"
    and "t = restored_storage (export_backup_state sample_store sample_path) (st_identity_state sample_store) 0"
proof -
  have current: "current_identity (st_identity_state sample_store) empty_storage = st_identity_state sample_store"
    by (simp add: current_identity_def sample_store_def)
  then show thesis using that sample_backup_accepted by (simp add: restore_ok_iff empty_storage_def)
qed

theorem restored_ids_bounded_witness:
  "storage_inv (fst (restore_backup_state_with_identity sample_ext (export_backup_state sample_store sample_path)
     sample_path (st_identity_state sample_store) empty_storage))"
proof -
  obtain t report where run: "restore_backup_state_with_identity sample_ext (export_backup_state sample_store sample_path)
      sample_path (st_identity_state sample_store) empty_storage = (t, Inr report)" by (rule sample_restore)
  show ?thesis unfolding run fst_conv restored_ids_bounded [OF run] sample_backup_tables
    by (simp add: sample_flight_def)
qed



section \<open>A contact that cannot be restored\<close>

definition sample_contact_kept :: ContactRecord where
  "sample_contact_kept = contact_from_update (sample_contact [PaykitReceiverPath ''tether/wallet'']) (Some sample_contact_failed) 4"

definition sample_contact_dropped :: StorageState where
  "sample_contact_dropped = save_contact_record sample_contact_kept sample_contact_state"

lemma sample_drop_step: "contact_step sample_contact_state sample_contact_dropped"
proof (rule contact_step.save)
  have failed: "contact_record sample_contact_state sample_contact_key = Some sample_contact_failed"
    by (simp add: sample_contact_state_def sample_contact_failed_def contacts.load_save sample_contact_keys)
  have "\<not> may_have_public_marker sample_contact_failed" by code_simp
  then show "save_contact_tx (sample_contact [PaykitReceiverPath ''tether/wallet'']) 4 sample_contact_state
      = Inr (sample_contact_dropped, sample_contact_kept)"
    by (simp add: save_contact_tx_def sample_contact_def sample_contact_dropped_def sample_contact_kept_def failed Let_def
        split: option.split)
qed

lemma sample_contact_kept_rejected: "\<exists>e. validate_contact_marker_state sample_contact_kept = Inl e"
proof -
  have "\<not> is_ok (validate_contact_marker_state sample_contact_kept)" by code_simp
  then show ?thesis by (cases "validate_contact_marker_state sample_contact_kept") auto
qed

lemma sample_contact_exported:
  "bk_contact_records (export_backup_state sample_contact_dropped rp) = [sample_contact_kept]"
proof -
  have "ct_public_key sample_contact_kept = ct_public_key sample_contact_failed"
    by (simp add: sample_contact_kept_def contact_from_update_def)
  then show ?thesis
    by (simp add: export_backup_state_def from_storage_state_def sample_contact_dropped_def sample_contact_state_def
        save_contact_record_def empty_storage_def hm_values_def)
qed


end
