(* ===== verification/Identity_Runtime.thy ===== *)
theory Identity_Runtime
  imports Contacts "HOL-Library.Product_Lexorder"
begin

text \<open>
  Identity handling and public listings of \<^verbatim>\<open>paykit-sdk/src/runtime/mod.rs\<close>: refreshing the stored
  identity from the active session, signing out, reading public documents and listing public
  resources page by page. The lemmas show which state a change of identity leaves behind and that
  the paging loop ends with the whole listing on a homeserver that pages its directory.
\<close>

section \<open>The active identity\<close>

record ActiveReceiverIdentity =
  ai_public_key :: PubkyPublicKey
  ai_noise_public_key :: PubkyPublicKey

datatype IdentityTransition = Initial | PubkyIdentityChanged | ReceiverNoiseKeyChanged | Unchanged

definition identity_transition :: "IdentityState option \<Rightarrow> ActiveReceiverIdentity \<Rightarrow> IdentityTransition" where
  "identity_transition previous active =
     (case previous of
        None \<Rightarrow> Initial
      | Some p \<Rightarrow>
          if id_public_key p \<noteq> Some (ai_public_key active) then PubkyIdentityChanged
          else if id_noise_public_key p \<noteq> Some (ai_noise_public_key active) then ReceiverNoiseKeyChanged
          else Unchanged)"

definition previous_generation :: "IdentityState option \<Rightarrow> u64" where
  "previous_generation previous = (case previous of None \<Rightarrow> 0 | Some p \<Rightarrow> id_sign_out_generation p)"

definition refresh_active_identity ::
  "ActiveReceiverIdentity \<Rightarrow> instant \<Rightarrow> StorageState \<Rightarrow> StorageState \<times> IdentityState" where
  "refresh_active_identity active initialized_at s =
     (let previous = load_identity_state s;
          transition = identity_transition previous active;
          generation = previous_generation previous;
          s1 = (case transition of
                  Initial \<Rightarrow> clear_identity_scoped_state s
                | PubkyIdentityChanged \<Rightarrow> clear_identity_scoped_state s
                | ReceiverNoiseKeyChanged \<Rightarrow> clear_private_identity_scoped_state s
                | Unchanged \<Rightarrow> s);
          state = \<lparr>id_public_key = Some (ai_public_key active), id_noise_public_key = Some (ai_noise_public_key active),
                   id_initialized_at = initialized_at,
                   id_sign_out_generation =
                     (if transition = PubkyIdentityChanged then sat_inc generation else generation)\<rparr>
      in (save_identity_state state s1, state))"

text \<open>The transaction taken without a session: the first one stores an empty identity.\<close>

definition refresh_without_session_tx :: "instant \<Rightarrow> (sdk_error, IdentityState) tx" where
  "refresh_without_session_tx now s =
     (case load_identity_state s of
        Some previous \<Rightarrow> Inr (s, previous)
      | None \<Rightarrow>
          let state = \<lparr>id_public_key = None, id_noise_public_key = None, id_initialized_at = now, id_sign_out_generation = 0\<rparr>
          in Inr (save_identity_state state s, state))"

text \<open>
  A live session (\<^verbatim>\<open>PubkySessionAccess\<close>): the keys of the session, of the local secret if there is one and
  of the receiver, and the check of the capabilities of the session, which is
  \<^const>\<open>validate_session_capabilities\<close> at the capabilities the session has.
\<close>

record PubkySessionAccess =
  sa_session_public_key :: PubkyPublicKey
  sa_local_public_key :: "PubkyPublicKey option"
  sa_noise_public_key :: PubkyPublicKey
  sa_check_capabilities :: "string \<Rightarrow> unit sdk_res"

definition sa_public_key :: "PubkySessionAccess \<Rightarrow> PubkyPublicKey sdk_res" where
  "sa_public_key a = Inr (sa_session_public_key a)"

definition session_validate :: "PubkySessionAccess \<Rightarrow> unit sdk_res" where
  "session_validate a =
     (case sa_local_public_key a of
        None \<Rightarrow> Inr ()
      | Some local \<Rightarrow>
          rbind (sa_public_key a) (\<lambda>pk.
          if local \<noteq> pk then Inl (SdkIdentity ''local Pubky secret key does not match session public key'' None)
          else Inr ()))"

definition sa_validate_for_capabilities :: "PubkySessionAccess \<Rightarrow> string \<Rightarrow> unit sdk_res" where
  "sa_validate_for_capabilities a required = rbind (session_validate a) (\<lambda>_. sa_check_capabilities a required)"

record IdentityStatus =
  is_public_key :: "PubkyPublicKey option"
  is_live_session_available :: bool

definition status_from_state :: "IdentityState \<Rightarrow> bool \<Rightarrow> IdentityStatus" where
  "status_from_state state live =
     \<lparr>is_public_key = id_public_key state, is_live_session_available = live\<rparr>"

text \<open>
  \<^verbatim>\<open>claim_identity_operation\<close>: the flag of the runtime (\<open>None\<close> for a poisoned lock); the guard clears it again
  when the operation ends.
\<close>

definition claim_identity_operation :: "bool option \<Rightarrow> string \<Rightarrow> unit sdk_res" where
  "claim_identity_operation in_progress what =
     (case in_progress of
        None \<Rightarrow> Inl (SdkPolicy ''identity operation lock poisoned'' None)
      | Some busy \<Rightarrow>
          if busy
          then Inl (SdkPolicy (''cannot '' @ what @ '' while another identity-scoped operation is in progress'') None)
          else Inr ())"

definition load_session_access_and_refresh_identity ::
  "PaykitSdkConfig \<Rightarrow> PubkySessionAccess option sdk_res \<Rightarrow> instant \<Rightarrow> StorageState \<Rightarrow>
   StorageState \<times> (PubkySessionAccess option \<times> IdentityState) sdk_res" where
  "load_session_access_and_refresh_identity cfg session now s =
     (case session of
        Inl e \<Rightarrow> (s, Inl e)
      | Inr None \<Rightarrow>
          (case transaction (refresh_without_session_tx now) s of (t, res) \<Rightarrow> (t, rmap (\<lambda>st. (None, st)) res))
      | Inr (Some access) \<Rightarrow>
          (case rbind (sa_public_key access) (\<lambda>pk.
                rbind (sa_validate_for_capabilities access (required_session_capabilities cfg)) (\<lambda>_.
                Inr \<lparr>ai_public_key = pk, ai_noise_public_key = sa_noise_public_key access\<rparr>)) of
             Inl e \<Rightarrow> (s, Inl e)
           | Inr active \<Rightarrow>
               (case transaction (\<lambda>tx. Inr (refresh_active_identity active now tx)) s of
                  (t, res) \<Rightarrow> (t, rmap (\<lambda>st. (Some access, st)) res))))"

definition load_session_access_for_initialized_identity ::
  "PaykitSdkConfig \<Rightarrow> PubkySessionAccess option sdk_res \<Rightarrow> string \<Rightarrow> StorageState \<Rightarrow> PubkySessionAccess sdk_res" where
  "load_session_access_for_initialized_identity cfg session what s =
     rbind (require_initialized_identity what s) (\<lambda>expected.
     rbind session (\<lambda>loaded.
     rbind (case loaded of
              Some access \<Rightarrow> Inr access
            | None \<Rightarrow> Inl (SdkIdentity (''cannot '' @ what @ '' without an active Pubky session'') None)) (\<lambda>access.
     rbind (sa_public_key access) (\<lambda>actual.
     if actual \<noteq> expected
     then Inl (SdkIdentity (''cannot '' @ what
            @ '' because active Pubky session does not match initialized identity'') None)
     else rbind (sa_validate_for_capabilities access (required_session_capabilities cfg)) (\<lambda>_. Inr access)))))"

definition sign_out_tx :: "instant \<Rightarrow> (sdk_error, IdentityState) tx" where
  "sign_out_tx now s =
     (let previous = load_identity_state s;
          was_signed_in = (case previous of None \<Rightarrow> False | Some p \<Rightarrow> id_public_key p \<noteq> None);
          generation = (if was_signed_in then sat_inc (previous_generation previous) else previous_generation previous);
          state = \<lparr>id_public_key = None, id_noise_public_key = None, id_initialized_at = now, id_sign_out_generation = generation\<rparr>
      in Inr (save_identity_state state (clear_identity_scoped_state s), state))"

definition sign_out ::
  "bool option \<Rightarrow> unit sdk_res \<Rightarrow> instant \<Rightarrow> StorageState \<Rightarrow> StorageState \<times> IdentityStatus sdk_res" where
  "sign_out in_progress clear_session now s =
     (case rbind (claim_identity_operation in_progress ''sign out'') (\<lambda>_. clear_session) of
        Inl e \<Rightarrow> (s, Inl e)
      | Inr _ \<Rightarrow> (case transaction (sign_out_tx now) s of (t, res) \<Rightarrow> (t, rmap (\<lambda>st. status_from_state st False) res)))"

definition initialize ::
  "bool option \<Rightarrow> PaykitSdkConfig \<Rightarrow> PubkySessionAccess option sdk_res \<Rightarrow> instant \<Rightarrow> StorageState \<Rightarrow>
   StorageState \<times> IdentityStatus sdk_res" where
  "initialize in_progress cfg session now s =
     (case claim_identity_operation in_progress ''initialize'' of
        Inl e \<Rightarrow> (s, Inl e)
      | Inr _ \<Rightarrow>
          (case load_session_access_and_refresh_identity cfg session now s of
             (t, res) \<Rightarrow> (t, rmap (\<lambda>(access, state). status_from_state state (access \<noteq> None)) res)))"

definition identity_status ::
  "PaykitSdkConfig \<Rightarrow> PubkySessionAccess option sdk_res \<Rightarrow> StorageState \<Rightarrow> IdentityStatus option sdk_res" where
  "identity_status cfg session s =
     rbind session (\<lambda>access.
     case load_identity_state s of
       None \<Rightarrow> Inr None
     | Some state \<Rightarrow>
         rbind (case access of None \<Rightarrow> Inr () | Some a \<Rightarrow> session_validate a) (\<lambda>_.
         let matching = (case access of None \<Rightarrow> None
                         | Some a \<Rightarrow> if ok_of (sa_public_key a) = id_public_key state then Some a else None)
         in rbind (case matching of None \<Rightarrow> Inr ()
                   | Some a \<Rightarrow> sa_validate_for_capabilities a (required_session_capabilities cfg)) (\<lambda>_.
            Inr (Some (status_from_state state (matching \<noteq> None))))))"

definition linked_peers :: "StorageState \<Rightarrow> LinkedPeerRecord list" where
  "linked_peers s = sort_key (\<lambda>r. (z32 (lp_counterparty r), receiver_path_str (lp_path r))) (hm_values (st_linked_peers s))"

definition ensure_recovery_marker_publishing_enabled :: "PaykitSdkConfig \<Rightarrow> unit sdk_res" where
  "ensure_recovery_marker_publishing_enabled cfg =
     (if cf_encrypted_link_recovery_markers cfg = MarkersDisabled
      then Inl (SdkPolicy ''Encrypted Link recovery marker publishing is disabled'' None) else Inr ())"

section \<open>Public documents and listings\<close>

text \<open>
  A homeserver call gives a value, or its error with whether it says that nothing is there
  (\<^verbatim>\<open>is_pubky_not_found\<close>).
\<close>

type_synonym 'a fetched = "(sdk_error \<times> bool) + 'a"

definition public_resource_uri :: "PubkyPublicKey \<Rightarrow> string \<Rightarrow> string" where
  "public_resource_uri pk path = ''pubky://'' @ z32 pk @ path"

definition fetch_public_text ::
  "(string \<Rightarrow> string sdk_res fetched) \<Rightarrow> (string \<Rightarrow> string) \<Rightarrow> PubkyPublicKey \<Rightarrow> string \<Rightarrow> string \<Rightarrow>
   string option sdk_res" where
  "fetch_public_text get utf8_error pk path what =
     (case get (public_resource_uri pk path) of
        Inr body \<Rightarrow>
          rbind body (\<lambda>bytes.
          if valid_utf8 bytes then Inr (Some bytes)
          else Inl (SdkProtocol (what @ '': invalid UTF-8: '' @ utf8_error bytes) None))
      | Inl (err, not_found) \<Rightarrow> if not_found then Inr None else Inl err)"

record PubkyResource =
  pres_owner :: PubkyPublicKey
  pres_path :: string

definition LIST_PAGE_LIMIT :: nat where
  "LIST_PAGE_LIMIT = 100"

definition list_cursor :: "PubkyResource \<Rightarrow> string" where
  "list_cursor e = z32 (pres_owner e) @ pres_path e"

text \<open>
  The paging loop. \<open>list_page\<close> answers one shallow request of \<^const>\<open>LIST_PAGE_LIMIT\<close> entries after an
  optional cursor; the loop ends on an empty or short page, on a missing directory, or on an error.
\<close>

partial_function (option) list_pages ::
  "(string option \<Rightarrow> PubkyResource list fetched) \<Rightarrow> string option \<Rightarrow> PubkyResource list \<Rightarrow>
   PubkyResource list sdk_res option" where
  "list_pages list_page cursor entries =
     (case list_page cursor of
        Inl (err, not_found) \<Rightarrow> Some (if not_found then Inr entries else Inl err)
      | Inr page \<Rightarrow>
          if page = [] then Some (Inr entries)
          else if length page < LIST_PAGE_LIMIT then Some (Inr (entries @ page))
          else list_pages list_page (Some (list_cursor (last page))) (entries @ page))"

definition list_public_resources ::
  "(string \<Rightarrow> (string option \<Rightarrow> PubkyResource list fetched) sdk_res) \<Rightarrow> PubkyPublicKey \<Rightarrow> string \<Rightarrow>
   PubkyResource list sdk_res option" where
  "list_public_resources list_from pk path =
     (case list_from (public_resource_uri pk path) of
        Inl e \<Rightarrow> Some (Inl e)
      | Inr list_page \<Rightarrow> list_pages list_page None [])"

section \<open>Identity changes\<close>

definition private_state_empty :: "StorageState \<Rightarrow> bool" where
  "private_state_empty s \<longleftrightarrow>
     st_linked_peers s = [] \<and> st_encrypted_link_states s = [] \<and> st_peer_link_operation_leases s = []
     \<and> st_payment_endpoint_reservations s = [] \<and> st_outbound_private_messages s = []
     \<and> st_private_stream_items s = [] \<and> st_event_dedup_records s = [] \<and> st_receipt_access_records s = []
     \<and> st_receipt_records s = [] \<and> st_receipt_issuance_records s = []"

definition public_state_empty :: "StorageState \<Rightarrow> bool" where
  "public_state_empty s \<longleftrightarrow> st_contact_records s = [] \<and> st_public_endpoint_records s = []"

text \<open>The identity the store belongs to, and its generation.\<close>

definition stored_public_key :: "StorageState \<Rightarrow> PubkyPublicKey option" where
  "stored_public_key s = Option.bind (st_identity_state s) id_public_key"

definition stored_noise_key :: "StorageState \<Rightarrow> PubkyPublicKey option" where
  "stored_noise_key s = Option.bind (st_identity_state s) id_noise_public_key"

definition stored_generation :: "StorageState \<Rightarrow> u64" where
  "stored_generation s = previous_generation (st_identity_state s)"

inductive identity_step :: "StorageState \<Rightarrow> StorageState \<Rightarrow> bool" where
  refresh: "refresh_active_identity active now s = (t, st) \<Longrightarrow> identity_step s t"
| no_session: "refresh_without_session_tx now s = Inr (t, st) \<Longrightarrow> identity_step s t"
| signed_out: "sign_out_tx now s = Inr (t, st) \<Longrightarrow> identity_step s t"

inductive_cases identity_stepE: "identity_step s t"

lemmas identity_defs = refresh_active_identity_def refresh_without_session_tx_def sign_out_tx_def
  load_identity_state_def save_identity_state_def previous_generation_def stored_public_key_def
  stored_noise_key_def stored_generation_def identity_transition_def

lemmas clear_defs = clear_identity_scoped_state_def clear_private_identity_scoped_state_def
  private_state_empty_def public_state_empty_def

lemma identity_step_storage_inv: "identity_step s t \<Longrightarrow> storage_inv s \<Longrightarrow> storage_inv t"
  by (elim identity_stepE)
    (auto simp: identity_defs clear_defs Let_def storage_inv_defs split: option.splits IdentityTransition.splits if_splits)

lemma refresh_scopes:
  assumes "refresh_active_identity active now s = (t, st)"
  shows "stored_public_key t \<noteq> stored_public_key s \<Longrightarrow> private_state_empty t \<and> public_state_empty t"
    and "stored_public_key t \<noteq> stored_public_key s \<Longrightarrow> st_identity_state s \<noteq> None \<Longrightarrow> stored_generation s \<noteq> - 1
      \<Longrightarrow> stored_generation s < stored_generation t"
    and "stored_noise_key t \<noteq> stored_noise_key s \<Longrightarrow> private_state_empty t"
    and "stored_public_key t = stored_public_key s \<Longrightarrow>
      st_contact_records t = st_contact_records s \<and> st_public_endpoint_records t = st_public_endpoint_records s"
    and "stored_public_key t = stored_public_key s \<Longrightarrow> stored_noise_key t = stored_noise_key s
      \<Longrightarrow> t\<lparr>st_identity_state := None\<rparr> = s\<lparr>st_identity_state := None\<rparr>"
    and "stored_generation s \<le> stored_generation t"
proof -
  note cases = identity_defs clear_defs Let_def sat_inc_ge sat_inc_gt
  obtain p where t: "t = fst (refresh_active_identity active now s)" and p: "p = st_identity_state s" using assms by simp
  show "stored_public_key t \<noteq> stored_public_key s \<Longrightarrow> private_state_empty t \<and> public_state_empty t"
    "stored_public_key t \<noteq> stored_public_key s \<Longrightarrow> st_identity_state s \<noteq> None \<Longrightarrow> stored_generation s \<noteq> - 1
      \<Longrightarrow> stored_generation s < stored_generation t"
    "stored_noise_key t \<noteq> stored_noise_key s \<Longrightarrow> private_state_empty t"
    "stored_public_key t = stored_public_key s \<Longrightarrow>
      st_contact_records t = st_contact_records s \<and> st_public_endpoint_records t = st_public_endpoint_records s"
    "stored_public_key t = stored_public_key s \<Longrightarrow> stored_noise_key t = stored_noise_key s
      \<Longrightarrow> t\<lparr>st_identity_state := None\<rparr> = s\<lparr>st_identity_state := None\<rparr>"
    "stored_generation s \<le> stored_generation t"
    unfolding t by (cases "st_identity_state s"; simp add: cases; fail)+
qed

lemma sign_out_clears:
  assumes "sign_out_tx now s = Inr (t, st)"
  shows "private_state_empty t" "public_state_empty t" "stored_public_key t = None" "stored_generation s \<le> stored_generation t"
    "stored_public_key s \<noteq> None \<Longrightarrow> stored_generation s \<noteq> - 1 \<Longrightarrow> stored_generation s < stored_generation t"
  using assms by (auto simp: identity_defs clear_defs Let_def sat_inc_ge sat_inc_gt split: option.splits)

lemma no_session_keeps:
  assumes "refresh_without_session_tx now s = Inr (t, st)"
  shows "stored_public_key t = stored_public_key s" "stored_noise_key t = stored_noise_key s"
    "stored_generation t = stored_generation s" "t\<lparr>st_identity_state := None\<rparr> = s\<lparr>st_identity_state := None\<rparr>"
  using assms by (auto simp: identity_defs Let_def split: option.splits)

lemma identity_step_scopes:
  assumes "identity_step s t"
  shows "(stored_public_key t \<noteq> stored_public_key s \<longrightarrow> private_state_empty t \<and> public_state_empty t)
    \<and> (stored_public_key t \<noteq> stored_public_key s \<and> st_identity_state s \<noteq> None \<and> stored_generation s \<noteq> - 1
         \<longrightarrow> stored_generation s < stored_generation t)
    \<and> (stored_noise_key t \<noteq> stored_noise_key s \<longrightarrow> private_state_empty t)
    \<and> (stored_public_key s \<noteq> None \<and> stored_public_key t = stored_public_key s \<longrightarrow>
         st_contact_records t = st_contact_records s \<and> st_public_endpoint_records t = st_public_endpoint_records s)
    \<and> (stored_public_key s \<noteq> None \<and> stored_public_key t = stored_public_key s \<and> stored_noise_key t = stored_noise_key s
         \<longrightarrow> t\<lparr>st_identity_state := None\<rparr> = s\<lparr>st_identity_state := None\<rparr>)
    \<and> stored_generation s \<le> stored_generation t"
  using assms
proof (cases rule: identity_step.cases)
  case (refresh active now st)
  then show ?thesis using refresh_scopes [OF refresh] by blast
next
  case (no_session now st)
  have same: "st_contact_records t = st_contact_records s" "st_public_endpoint_records t = st_public_endpoint_records s"
    using no_session_keeps(4) [OF no_session] by (metis StorageState.select_convs StorageState.surjective StorageState.update_convs)+
  then show ?thesis using no_session_keeps [OF no_session] by simp
next
  case (signed_out now st)
  then show ?thesis using sign_out_clears [OF signed_out] by (cases "stored_public_key s") auto
qed


definition sample_active :: ActiveReceiverIdentity where
  "sample_active = \<lparr>ai_public_key = sample_contact_key, ai_noise_public_key = PubkyPublicKey ''noise''\<rparr>"


section \<open>Listing a directory\<close>

text \<open>A homeserver that pages a directory: the entries after the cursor, up to the page limit.\<close>

definition directory_page :: "PubkyResource list \<Rightarrow> string option \<Rightarrow> PubkyResource list" where
  "directory_page dir cursor =
     take LIST_PAGE_LIMIT
       (case cursor of None \<Rightarrow> dir | Some c \<Rightarrow> tl (dropWhile (\<lambda>e. list_cursor e \<noteq> c) dir))"

definition pages_directory ::
  "PubkyResource list \<Rightarrow> (string option \<Rightarrow> PubkyResource list fetched) \<Rightarrow> bool" where
  "pages_directory dir list_page \<longleftrightarrow>
     distinct (map list_cursor dir) \<and> (\<forall>cursor. list_page cursor = Inr (directory_page dir cursor))"

lemma page_after:
  assumes "distinct (map list_cursor (done @ rest))" and "done \<noteq> []"
  shows "directory_page (done @ rest) (Some (list_cursor (last done))) = take LIST_PAGE_LIMIT rest"
proof -
  obtain es e where split: "done = es @ [e]" using assms(2) by (metis append_butlast_last_id)
  then have "list_cursor e \<notin> list_cursor ` set es" using assms(1) by auto
  then have "dropWhile (\<lambda>x. list_cursor x \<noteq> list_cursor e) (es @ e # rest) = e # rest"
    by (subst dropWhile_append2) (force simp: image_iff)+
  then show ?thesis by (simp add: directory_page_def split)
qed

lemma list_pages_directory:
  assumes pages: "pages_directory (done @ rest) list_page"
    and cursor: "cursor = (if done = [] then None else Some (list_cursor (last done)))"
  shows "list_pages list_page cursor done = Some (Inr (done @ rest))"
  using assms
proof (induction "length rest" arbitrary: rest "done" cursor rule: less_induct)
  case less
  have page: "list_page cursor = Inr (take LIST_PAGE_LIMIT rest)"
    using less.prems page_after [of "done" rest]
    by (cases "done = []") (auto simp: pages_directory_def directory_page_def)
  show ?case
  proof (cases "length rest < LIST_PAGE_LIMIT")
    case True
    then show ?thesis using page by (simp add: list_pages.simps [of list_page cursor])
  next
    case False
    let ?next = "done @ take LIST_PAGE_LIMIT rest" and ?rest = "drop LIST_PAGE_LIMIT rest"
    have full: "length (take LIST_PAGE_LIMIT rest) = LIST_PAGE_LIMIT" "take LIST_PAGE_LIMIT rest \<noteq> []"
      using False by (auto simp: LIST_PAGE_LIMIT_def)
    have "list_pages list_page (Some (list_cursor (last (take LIST_PAGE_LIMIT rest)))) ?next = Some (Inr (?next @ ?rest))"
    proof (rule less.hyps)
      show "length ?rest < length rest" using False by (simp add: LIST_PAGE_LIMIT_def)
      show "pages_directory (?next @ ?rest) list_page" using less.prems(1) by simp
      show "Some (list_cursor (last (take LIST_PAGE_LIMIT rest))) =
          (if ?next = [] then None else Some (list_cursor (last ?next)))" using full(2) by simp
    qed
    then show ?thesis using page full by (simp add: list_pages.simps [of list_page cursor])
  qed
qed

text \<open>On a homeserver that pages a directory, listing public resources terminates and returns the
  whole directory in order, whatever its length, including when it is a multiple of the page limit.
\<close>

theorem list_public_resources_complete:
  assumes "list_from (public_resource_uri pk path) = Inr list_page" and "pages_directory dir list_page"
  shows "list_public_resources list_from pk path = Some (Inr dir)"
  using assms list_pages_directory [of "[]" dir list_page None] by (simp add: list_public_resources_def)

theorem list_public_resources_complete_witness:
  "list_public_resources (\<lambda>_. Inr (\<lambda>cursor. Inr (directory_page
       [\<lparr>pres_owner = sample_contact_key, pres_path = ''/pub/a''\<rparr>, \<lparr>pres_owner = sample_contact_key, pres_path = ''/pub/b''\<rparr>] cursor)))
     sample_contact_key ''/pub/'' =
   Some (Inr [\<lparr>pres_owner = sample_contact_key, pres_path = ''/pub/a''\<rparr>, \<lparr>pres_owner = sample_contact_key, pres_path = ''/pub/b''\<rparr>])"
  by (rule list_public_resources_complete [OF refl]) (simp add: pages_directory_def list_cursor_def)

text \<open>The hypothesis is needed: a homeserver that repeats a full page keeps the loop running.\<close>

lemma list_pages_repeating:
  assumes "\<And>cursor. list_page cursor = Inr page" and "LIST_PAGE_LIMIT \<le> length page"
  shows "list_pages list_page cursor entries = None"
proof -
  have "list_pages lp c es = Some r \<Longrightarrow> lp \<noteq> list_page" for lp c es r
  proof (erule list_pages.raw_induct [rotated, where P = "\<lambda>lp c es r. lp \<noteq> list_page"])
    fix loop lp c es r
    assume ih: "\<And>lp c es r. loop lp c es = Some r \<Longrightarrow> lp \<noteq> list_page"
      and body: "(case lp c of Inl (err, nf) \<Rightarrow> Some (if nf then Inr es else Inl err)
          | Inr page \<Rightarrow> if page = [] then Some (Inr es)
              else if length page < LIST_PAGE_LIMIT then Some (Inr (es @ page))
              else loop lp (Some (list_cursor (last page))) (es @ page)) = Some r"
    show "lp \<noteq> list_page"
    proof
      assume "lp = list_page"
      then have "loop list_page (Some (list_cursor (last page))) (es @ page) = Some r"
        using body assms by (auto simp: LIST_PAGE_LIMIT_def split: if_splits)
      then show False using ih by blast
    qed
  qed
  then show ?thesis by (cases "list_pages list_page cursor entries") auto
qed

end
