(* ===== verification/Link_Runtime.thy ===== *)
theory Link_Runtime
  imports Identity_Runtime Linked_Peers
begin

text \<open>
  Sequencing of runtime operations over the store, and the guards that private operations share
  (\<^verbatim>\<open>runtime/encrypted_links.rs\<close>, \<^verbatim>\<open>runtime/payment_requests.rs\<close>): session access, the peer checks,
  and claiming and releasing the lease of a peer.
\<close>

section \<open>Runtime operations\<close>

text \<open>
  An operation runs several transactions; what they stored stays when a later one fails. The
  operations are composed with \<open>rt_bind\<close>, and an invariant of each part is one of the whole.
\<close>

type_synonym 'a rt = "StorageState \<Rightarrow> StorageState \<times> 'a sdk_res"

definition rt_bind :: "'a rt \<Rightarrow> ('a \<Rightarrow> 'b rt) \<Rightarrow> 'b rt" where
  "rt_bind m f s = (case m s of (t, Inl e) \<Rightarrow> (t, Inl e) | (t, Inr x) \<Rightarrow> f x t)"

definition rt_return :: "'a \<Rightarrow> 'a rt" where
  "rt_return x s = (s, Inr x)"

definition rt_fail :: "sdk_error \<Rightarrow> 'a rt" where
  "rt_fail e s = (s, Inl e)"

definition rt_lift :: "'a sdk_res \<Rightarrow> 'a rt" where
  "rt_lift r s = (s, r)"

text \<open>A transaction that only reads.\<close>

definition rt_read :: "(StorageState \<Rightarrow> 'a) \<Rightarrow> 'a rt" where
  "rt_read f s = (s, Inr (f s))"

definition rt_check :: "(StorageState \<Rightarrow> 'a sdk_res) \<Rightarrow> 'a rt" where
  "rt_check f s = (s, f s)"

text \<open>A transaction that only writes and cannot fail.\<close>

definition rt_save :: "(StorageState \<Rightarrow> StorageState) \<Rightarrow> unit rt" where
  "rt_save f s = (f s, Inr ())"

text \<open>\<^verbatim>\<open>match\<close> on the result of an operation instead of propagating its error.\<close>

definition rt_catch :: "'a rt \<Rightarrow> (sdk_error \<Rightarrow> 'b rt) \<Rightarrow> ('a \<Rightarrow> 'b rt) \<Rightarrow> 'b rt" where
  "rt_catch m handle f s = (case m s of (t, Inl e) \<Rightarrow> handle e t | (t, Inr x) \<Rightarrow> f x t)"

lemmas rt_defs = rt_bind_def rt_return_def rt_fail_def rt_lift_def rt_read_def rt_check_def rt_save_def rt_catch_def

lemma rt_bind_ok: "rt_bind m f s = (t, Inr y) \<longleftrightarrow> (\<exists>u x. m s = (u, Inr x) \<and> f x u = (t, Inr y))"
  by (auto simp: rt_bind_def split: prod.splits sum.splits)

definition rt_keeps :: "(StorageState \<Rightarrow> bool) \<Rightarrow> 'a rt \<Rightarrow> bool" where
  "rt_keeps P m \<longleftrightarrow> (\<forall>s. P s \<longrightarrow> P (fst (m s)))"

named_theorems rt_rules

lemma rt_keeps_bind [rt_rules]: "rt_keeps P m \<Longrightarrow> (\<And>x. rt_keeps P (f x)) \<Longrightarrow> rt_keeps P (rt_bind m f)"
  by (auto simp: rt_keeps_def rt_bind_def split: prod.splits sum.splits)

lemma rt_keeps_catch [rt_rules]:
  "rt_keeps P m \<Longrightarrow> (\<And>e. rt_keeps P (h e)) \<Longrightarrow> (\<And>x. rt_keeps P (f x)) \<Longrightarrow> rt_keeps P (rt_catch m h f)"
  by (auto simp: rt_keeps_def rt_catch_def split: prod.splits sum.splits)

lemma rt_keeps_pure [rt_rules]:
  "rt_keeps P (rt_return x)" "rt_keeps P (rt_fail e)" "rt_keeps P (rt_lift r)" "rt_keeps P (rt_read g)"
  "rt_keeps P (rt_check h)"
  by (simp_all add: rt_keeps_def rt_defs)

lemma rt_keeps_cases [rt_rules]:
  "(\<And>a b. rt_keeps P (f a b)) \<Longrightarrow> rt_keeps P (case p of (a, b) \<Rightarrow> f a b)"
  "(c \<Longrightarrow> rt_keeps P m) \<Longrightarrow> (\<not> c \<Longrightarrow> rt_keeps P m') \<Longrightarrow> rt_keeps P (if c then m else m')"
  "(opt = None \<Longrightarrow> rt_keeps P m) \<Longrightarrow> (\<And>x. opt = Some x \<Longrightarrow> rt_keeps P (g x)) \<Longrightarrow>
     rt_keeps P (case opt of None \<Rightarrow> m | Some x \<Rightarrow> g x)"
  "(\<And>e. res = Inl e \<Longrightarrow> rt_keeps P (h e)) \<Longrightarrow> (\<And>x. res = Inr x \<Longrightarrow> rt_keeps P (k x)) \<Longrightarrow>
     rt_keeps P (case res of Inl e \<Rightarrow> h e | Inr x \<Rightarrow> k x)"
  "(\<And>x. x = v \<Longrightarrow> rt_keeps P (g x)) \<Longrightarrow> rt_keeps P (Let v g)"
  by (auto split: prod.split option.split sum.split)

text \<open>What a successful part returns, for the parts after it.\<close>

definition rt_yields :: "(StorageState \<Rightarrow> bool) \<Rightarrow> 'a rt \<Rightarrow> ('a \<Rightarrow> bool) \<Rightarrow> bool" where
  "rt_yields P m Q \<longleftrightarrow> (\<forall>s t x. P s \<longrightarrow> m s = (t, Inr x) \<longrightarrow> Q x)"

lemma rt_keeps_then:
  "rt_keeps P m \<Longrightarrow> rt_yields P m Q \<Longrightarrow> (\<And>x. Q x \<Longrightarrow> rt_keeps P (f x)) \<Longrightarrow> rt_keeps P (rt_bind m f)"
  by (auto simp: rt_keeps_def rt_yields_def rt_bind_def split: prod.split sum.split)

lemma rt_yields_check: "(\<And>s x. P s \<Longrightarrow> f s = Inr x \<Longrightarrow> Q x) \<Longrightarrow> rt_yields P (rt_check f) Q"
  by (simp add: rt_yields_def rt_check_def)

lemma rt_yields_lift: "(\<And>x. r = Inr x \<Longrightarrow> Q x) \<Longrightarrow> rt_yields P (rt_lift r) Q"
  by (simp add: rt_yields_def rt_lift_def)

lemma rt_yields_read: "(\<And>s. P s \<Longrightarrow> Q (f s)) \<Longrightarrow> rt_yields P (rt_read f) Q"
  by (auto simp: rt_yields_def rt_read_def)

lemma rt_keeps_save: "(\<And>s. P s \<Longrightarrow> P (f s)) \<Longrightarrow> rt_keeps P (rt_save f)"
  by (simp add: rt_keeps_def rt_save_def)

lemma rt_keeps_transaction: "(\<And>s t r. P s \<Longrightarrow> f s = Inr (t, r) \<Longrightarrow> P t) \<Longrightarrow> rt_keeps P (transaction f)"
  by (auto simp: rt_keeps_def transaction_def run_storage_state_transaction_def rbind_def split: sum.splits)

section \<open>Sessions and peers\<close>

definition refresh_identity ::
  "PaykitSdkConfig \<Rightarrow> PubkySessionAccess option sdk_res \<Rightarrow> instant \<Rightarrow> (PubkySessionAccess option \<times> IdentityState) rt" where
  "refresh_identity cfg session now = load_session_access_and_refresh_identity cfg session now"

definition private_link_session_access ::
  "PaykitSdkConfig \<Rightarrow> PubkySessionAccess option sdk_res \<Rightarrow> instant \<Rightarrow> PubkySessionAccess rt" where
  "private_link_session_access cfg session now =
     rt_bind (refresh_identity cfg session now) (\<lambda>(access, _).
     rt_lift (case access of None \<Rightarrow> Inl (SdkIdentity ''no Pubky session available'' None) | Some a \<Rightarrow> Inr a))"

definition ensure_peer_allows_private_automation ::
  "PubkyPublicKey \<Rightarrow> PaykitReceiverPath \<Rightarrow> StorageState \<Rightarrow> unit sdk_res" where
  "ensure_peer_allows_private_automation cp rp s =
     (let has_active_link = (Option.bind (encrypted_link_state s (cp, rp)) ls_link_snapshot \<noteq> None);
          no_link = Inl (SdkRecoveryRequired (''no active Encrypted Link snapshot for counterparty '' @ z32 cp) None)
      in case map_option lp_state (linked_peer s (cp, rp)) of
           None \<Rightarrow> no_link
         | Some st \<Rightarrow>
             (case st of
                Linked \<Rightarrow> if has_active_link then Inr () else no_link
              | Linking \<Rightarrow>
                  Inl (SdkRecoveryRequired (''Encrypted Link Handshake is still in progress for counterparty '' @ z32 cp) None)
              | RecoveryRequiredState \<Rightarrow>
                  Inl (SdkRecoveryRequired (''Encrypted Link recovery is required for counterparty '' @ z32 cp) None)
              | Blocked \<Rightarrow> Inl (SdkPolicy (''counterparty '' @ z32 cp @ '' is blocked'') None)
              | NotLinked \<Rightarrow> no_link))"

text \<open>The identity and session checks in front of private queueing.\<close>

definition require_local_session ::
  "PaykitSdkConfig \<Rightarrow> PubkySessionAccess option sdk_res \<Rightarrow> instant \<Rightarrow> unit rt" where
  "require_local_session cfg session now =
     rt_bind (refresh_identity cfg session now) (\<lambda>(access, identity).
     rt_lift (if id_public_key identity = None
              then Inl (SdkIdentity ''local Pubky identity is not initialized'' None)
              else if access = None then Inl (SdkIdentity ''no Pubky session available'' None)
              else Inr ()))"

definition ensure_private_outbound_ready ::
  "PaykitSdkConfig \<Rightarrow> PubkySessionAccess option sdk_res \<Rightarrow> instant \<Rightarrow> PubkyPublicKey \<Rightarrow> PaykitReceiverPath \<Rightarrow> unit rt" where
  "ensure_private_outbound_ready cfg session now cp rp =
     rt_bind (require_local_session cfg session now) (\<lambda>_.
     rt_bind (rt_check (ensure_peer_allows_private_automation cp rp)) (\<lambda>_.
     rt_check (\<lambda>s. if Option.bind (encrypted_link_state s (cp, rp)) ls_link_snapshot = None
                    then Inl (SdkRecoveryRequired (''no active Encrypted Link snapshot for counterparty '' @ z32 cp) None)
                    else Inr ())))"

section \<open>Leases\<close>

text \<open>\<open>from_std\<close> is \<^verbatim>\<open>chrono::Duration::from_std\<close>.\<close>

definition claim_link_operation ::
  "PaykitSdkConfig \<Rightarrow> (nat \<Rightarrow> string + int) \<Rightarrow> instant \<Rightarrow> PubkyPublicKey \<Rightarrow> PaykitReceiverPath \<Rightarrow> PeerLinkOperationLease rt" where
  "claim_link_operation cfg from_std now cp rp =
     rt_bind (rt_lift (map_err (\<lambda>err. SdkPolicy (''invalid peer link lease timeout: '' @ err) None)
                (from_std (cf_peer_link_operation_lease_timeout cfg)))) (\<lambda>timeout.
     rt_bind (transaction (\<lambda>s. Inr (claim_peer_link_operation cp rp now (now + timeout) s))) (\<lambda>claimed.
     rt_lift (case claimed of
                Some lease \<Rightarrow> Inr lease
              | None \<Rightarrow> Inl (SdkPolicy (''peer link operation already in progress for counterparty '' @ z32 cp) None))))"

definition finish_link_operation :: "PeerLinkOperationLease \<Rightarrow> 'a rt \<Rightarrow> 'a rt" where
  "finish_link_operation lease m s =
     (case m s of (t, result) \<Rightarrow>
        (release_peer_link_operation (le_counterparty lease) (le_path lease) (le_lease_id lease) t, result))"

definition with_link_operation ::
  "PaykitSdkConfig \<Rightarrow> (nat \<Rightarrow> string + int) \<Rightarrow> instant \<Rightarrow> PubkyPublicKey \<Rightarrow> PaykitReceiverPath \<Rightarrow>
   (PeerLinkOperationLease \<Rightarrow> 'a rt) \<Rightarrow> 'a rt" where
  "with_link_operation cfg from_std now cp rp body =
     rt_bind (claim_link_operation cfg from_std now cp rp) (\<lambda>lease. finish_link_operation lease (body lease))"

section \<open>What the guards keep\<close>

lemma transaction_step:
  "(\<And>t r. f s = Inr (t, r) \<Longrightarrow> identity_step s t) \<Longrightarrow> fst (transaction f s) = s \<or> identity_step s (fst (transaction f s))"
  by (auto simp: transaction_def run_storage_state_transaction_def rbind_def split: sum.splits)

lemma refresh_identity_step:
  "fst (refresh_identity cfg session now s) = s \<or> identity_step s (fst (refresh_identity cfg session now s))"
proof -
  have "fst (transaction (refresh_without_session_tx now) s) = s
      \<or> identity_step s (fst (transaction (refresh_without_session_tx now) s))"
    by (rule transaction_step) (rule identity_step.no_session)
  moreover have "fst (transaction (\<lambda>tx. Inr (refresh_active_identity active now tx)) s) = s
      \<or> identity_step s (fst (transaction (\<lambda>tx. Inr (refresh_active_identity active now tx)) s))" for active
    by (rule transaction_step) (simp add: identity_step.refresh)
  ultimately show ?thesis
    unfolding refresh_identity_def load_session_access_and_refresh_identity_def
    by (simp add: case_prod_unfold split: sum.split option.split)
qed

lemma rt_keeps_refresh:
  assumes "\<And>s t. P s \<Longrightarrow> identity_step s t \<Longrightarrow> P t"
  shows "rt_keeps P (refresh_identity cfg session now)"
  unfolding rt_keeps_def using refresh_identity_step assms by metis

lemma rt_keeps_guards:
  assumes "\<And>s t. P s \<Longrightarrow> identity_step s t \<Longrightarrow> P t"
  shows "rt_keeps P (private_link_session_access cfg session now)"
    and "rt_keeps P (require_local_session cfg session now)"
    and "rt_keeps P (ensure_private_outbound_ready cfg session now cp rp)"
  unfolding private_link_session_access_def require_local_session_def ensure_private_outbound_ready_def
  by (intro rt_rules rt_keeps_refresh [of P, OF assms]; assumption)+

text \<open>The lease taken for an operation is the stored one while it runs and is gone when it ends, whatever the result.\<close>

lemma finish_releases:
  assumes "finish_link_operation lease m s = (t, r)" and "peer_link_operation_lease (fst (m s)) (le_counterparty lease, le_path lease) = Some lease"
  shows "peer_link_operation_lease t (le_counterparty lease, le_path lease) = None"
  using assms
  by (auto simp: finish_link_operation_def release_peer_link_operation_def peer_link_operation_lease_def hm_get_remove
      split: prod.splits option.splits if_splits)

end
