(* ===== verification/Backup_Runtime.thy ===== *)
theory Backup_Runtime
  imports Backup Link_Runtime
begin

text \<open>
  The runtime side of backups (\<^verbatim>\<open>paykit-sdk/src/runtime/backup.rs\<close>): exporting, and restoring under the checks that
  tie a backup with identity-scoped state to the active session. A restore that these checks or the
  payload checks reject changes nothing, and one that succeeds leaves a store of the session's identity.
\<close>

definition sdk_export_backup_state :: "PaykitSdkConfig \<Rightarrow> SdkBackupState rt" where
  "sdk_export_backup_state cfg = rt_read (\<lambda>s. export_backup_state s (cf_receiver_path cfg))"

definition validate_backup_restore_session ::
  "PaykitSdkConfig \<Rightarrow> PubkySessionAccess option sdk_res \<Rightarrow> SdkBackupState \<Rightarrow> PubkySessionAccess sdk_res" where
  "validate_backup_restore_session cfg session b =
     rbind session (\<lambda>loaded.
     rbind (case loaded of
              Some access \<Rightarrow> Inr access
            | None \<Rightarrow> Inl (SdkIdentity ''cannot restore identity-scoped backup without an active Pubky identity'' None)) (\<lambda>access.
     rbind (sa_public_key access) (\<lambda>pk.
     if backup_public_key b \<noteq> Some pk
     then Inl (SdkIdentity ''backup identity does not match active Pubky identity'' None)
     else if backup_noise_public_key b \<noteq> Some (sa_noise_public_key access)
     then Inl (SdkIdentity ''backup receiver Noise key does not match active receiver'' None)
     else rbind (sa_validate_for_capabilities access (required_session_capabilities cfg)) (\<lambda>_. Inr access))))"

text \<open>The transaction only reads.\<close>

definition restore_validation_identity :: "PaykitSdkConfig \<Rightarrow> PubkySessionAccess \<Rightarrow> instant \<Rightarrow> IdentityState rt" where
  "restore_validation_identity cfg access now =
     rt_bind (rt_lift (sa_public_key access)) (\<lambda>pk.
     rt_bind (rt_lift (sa_validate_for_capabilities access (required_session_capabilities cfg))) (\<lambda>_.
     rt_read (\<lambda>s.
       let fresh = \<lparr>id_public_key = Some pk, id_noise_public_key = Some (sa_noise_public_key access), id_initialized_at = now,
                    id_sign_out_generation = 0\<rparr>
       in case load_identity_state s of
            Some identity \<Rightarrow>
              if id_public_key identity = Some pk \<and> id_noise_public_key identity = Some (sa_noise_public_key access)
              then identity else fresh
          | None \<Rightarrow> fresh)))"

definition sdk_restore_backup_state ::
  "ext \<Rightarrow> PaykitSdkConfig \<Rightarrow> bool option \<Rightarrow> PubkySessionAccess option sdk_res \<Rightarrow> instant \<Rightarrow> SdkBackupState \<Rightarrow> RestoreReport rt" where
  "sdk_restore_backup_state E cfg in_progress session now b =
     rt_bind (rt_lift (claim_identity_operation in_progress ''restore backup'')) (\<lambda>_.
     rt_bind (if backup_public_key b \<noteq> None \<or> has_identity_scoped_state b
              then rt_bind (rt_lift (validate_backup_restore_session cfg session b)) (\<lambda>access.
                   rt_bind (restore_validation_identity cfg access now) (\<lambda>identity. rt_return (Some identity)))
              else rt_return None) (\<lambda>trusted.
     restore_backup_state_with_identity E b (cf_receiver_path cfg) trusted))"

section \<open>What a restore leaves\<close>

lemma validated_session:
  assumes "validate_backup_restore_session cfg session b = Inr access"
  shows "session = Inr (Some access)" and "backup_public_key b = Some (sa_session_public_key access)"
    and "backup_noise_public_key b = Some (sa_noise_public_key access)"
    and "sa_validate_for_capabilities access (required_session_capabilities cfg) = Inr ()"
  using assms by (auto simp: validate_backup_restore_session_def sa_public_key_def result_iffs split: option.splits if_splits)

lemma trusted_identity:
  assumes "restore_validation_identity cfg access now s = (t, Inr identity)"
  shows "t = s" and "id_public_key identity = Some (sa_session_public_key access)"
    and "stored_public_key s = Some (sa_session_public_key access) \<and> stored_noise_key s = Some (sa_noise_public_key access)
      \<Longrightarrow> st_identity_state s = Some identity"
  using assms by (auto simp: restore_validation_identity_def rt_bind_ok rt_defs Let_def sa_public_key_def load_identity_state_def
      stored_public_key_def stored_noise_key_def split: option.splits if_splits sum.splits)

text \<open>A restore without identity-scoped records leaves a store without any.\<close>

lemma restored_empty:
  assumes "\<not> has_identity_scoped_state b"
  shows "private_state_empty (restored_storage b current n) \<and> public_state_empty (restored_storage b current n)"
  using assms by (simp add: has_identity_scoped_state_def private_state_empty_def public_state_empty_def restored_storage_def keyed_def
      restored_peers_def restored_links_def restored_outbound_def bk_outbound_def bk_items_def
      reconcile_restored_linked_peers_def clear_recovery_required_link_snapshots_def mark_restored_sending_outbound_recovery_required_def hm_values_def)

lemma restored_identity_keys:
  assumes "backup_public_key b = Some pk" and "backup_noise_public_key b = Some key"
  shows "stored_public_key (restored_storage b current n) = Some pk" and "stored_noise_key (restored_storage b current n) = Some key"
    and "current = Some i \<Longrightarrow> id_public_key i = Some pk \<Longrightarrow> id_sign_out_generation i \<le> stored_generation (restored_storage b current n)"
  using assms by (auto simp: backup_public_key_def backup_noise_public_key_def restored_storage_def stored_public_key_def stored_noise_key_def
      stored_generation_def previous_generation_def preserve_current_sign_out_generation_def Option.bind_eq_Some_conv split: option.splits)

text \<open>C33: A restore that fails leaves the store as it was. One that succeeds leaves no identity-scoped record at all, or its
  backup has the public key and the noise key of an active session with the required capabilities, and the
  store belongs to that identity afterwards; when it did before, its sign-out generation has not gone back.\<close>

theorem restore_bound_to_session:
  assumes "sdk_restore_backup_state E cfg in_progress session now b s = (t, r)"
  shows "case r of
      Inl e \<Rightarrow> t = s
    | Inr report \<Rightarrow>
        (private_state_empty t \<and> public_state_empty t \<and> backup_public_key b = None)
        \<or> (\<exists>access. session = Inr (Some access) \<and> sa_validate_for_capabilities access (required_session_capabilities cfg) = Inr ()
             \<and> stored_public_key t = Some (sa_session_public_key access) \<and> stored_noise_key t = Some (sa_noise_public_key access)
             \<and> (stored_public_key s = stored_public_key t \<and> stored_noise_key s = stored_noise_key t
                  \<longrightarrow> stored_generation s \<le> stored_generation t))"
proof (cases r)
  case (Inl e)
  then have "t = s"
    using assms restore_error by (auto simp: sdk_restore_backup_state_def restore_validation_identity_def rt_defs
        split: sum.splits prod.splits if_splits)
  with Inl show ?thesis by simp
next
  case (Inr report)
  show ?thesis
  proof (cases "backup_public_key b \<noteq> None \<or> has_identity_scoped_state b")
    case False
    then have "restore_backup_state_with_identity E b (cf_receiver_path cfg) None s = (t, Inr report)"
      using assms Inr by (auto simp: sdk_restore_backup_state_def rt_bind_ok rt_defs split: sum.splits)
    then have "t = restored_storage b (current_identity None s) (st_next_lease_id s)" by (simp add: restore_ok_iff)
    with False restored_empty Inr show ?thesis by simp
  next
    case True
    then obtain access identity u where session: "validate_backup_restore_session cfg session b = Inr access"
        and identity: "restore_validation_identity cfg access now s = (u, Inr identity)"
        and restored: "restore_backup_state_with_identity E b (cf_receiver_path cfg) (Some identity) u = (t, Inr report)"
      using assms Inr by (simp add: sdk_restore_backup_state_def rt_bind_ok) (auto simp: rt_bind_ok rt_return_def rt_lift_def)
    note active = validated_session [OF session] and trusted = trusted_identity [OF identity]
    have t: "t = restored_storage b (Some identity) (st_next_lease_id s)"
      using restored trusted(1) by (simp add: restore_ok_iff current_identity_def)
    note keys = restored_identity_keys [OF active(2,3), where current = "Some identity" and n = "st_next_lease_id s", folded t]
    have "stored_generation s \<le> stored_generation t" if "stored_public_key s = stored_public_key t" "stored_noise_key s = stored_noise_key t"
      using that trusted(3) keys(1,2) keys(3) [OF refl trusted(2)] by (simp add: stored_generation_def [of s] previous_generation_def)
    with active(1,4) keys(1,2) Inr show ?thesis by auto
  qed
qed

definition sample_restore_session :: PubkySessionAccess where
  "sample_restore_session =
     \<lparr>sa_session_public_key = PubkyPublicKey ''bob'', sa_local_public_key = None, sa_noise_public_key = PubkyPublicKey ''noise'',
      sa_check_capabilities = (\<lambda>_. Inr ())\<rparr>"

definition sample_signed_in :: StorageState where
  "sample_signed_in = empty_storage\<lparr>st_identity_state := Some \<lparr>id_public_key = Some (PubkyPublicKey ''bob''),
     id_noise_public_key = Some (PubkyPublicKey ''noise''), id_initialized_at = 1, id_sign_out_generation = 3\<rparr>\<rparr>"

definition sample_restore :: "StorageState \<times> RestoreReport sdk_res" where
  "sample_restore = sdk_restore_backup_state (table_ext []) (PaykitSdkConfig_new sample_path) (Some False) (Inr (Some sample_restore_session)) 9
     (export_backup_state sample_signed_in sample_path) empty_storage"

lemma sample_restore_ok: "\<exists>report. sample_restore = (fst sample_restore, Inr report)"
proof -
  let ?b = "export_backup_state sample_signed_in sample_path" and ?cfg = "PaykitSdkConfig_new sample_path"
  let ?identity = "\<lparr>id_public_key = Some (PubkyPublicKey ''bob''), id_noise_public_key = Some (PubkyPublicKey ''noise''),
     id_initialized_at = 9, id_sign_out_generation = 0\<rparr>"
  have b: "?b = \<lparr>bk_version = SDK_BACKUP_VERSION, bk_local_receiver_path = sample_path, bk_identity_state = st_identity_state sample_signed_in,
      bk_linked_peers = [], bk_contact_records = [], bk_public_endpoint_records = [], bk_payment_endpoint_reservations = [],
      bk_encrypted_link_states = [], bk_outbound_private_messages = [], bk_private_stream_items = [], bk_event_dedup_records = [],
      bk_receipt_access_records = [], bk_receipt_records = [], bk_receipt_issuance_records = [],
      bk_next_outbound_private_message_id = st_next_outbound_id empty_storage, bk_next_receive_batch_id = st_next_receive_batch_id empty_storage,
      bk_next_private_stream_item_id = st_next_stream_item_id empty_storage\<rparr>"
    by (simp add: export_backup_state_def from_storage_state_def sample_signed_in_def empty_storage_def hm_values_def)
  have keys: "backup_public_key ?b = Some (PubkyPublicKey ''bob'')" "backup_noise_public_key ?b = Some (PubkyPublicKey ''noise'')"
    by (simp_all add: backup_public_key_def backup_noise_public_key_def export_backup_state_def from_storage_state_def sample_signed_in_def)
  have accepted: "backup_accepted (table_ext []) ?b (Some ?identity) sample_path"
    unfolding backup_accepted_def
  proof (intro conjI)
    show "backup_validate ?b (Some ?identity) sample_path = Inr ()" by (simp add: backup_validate_def keys) (simp add: b)
    show "distinct_tables ?b" by (simp add: distinct_tables_def b)
    show "valid_records (table_ext []) ?b (Some ?identity) sample_path" by (simp add: valid_records_def b bk_outbound_def)
  qed
  have "sample_restore = restore_backup_state_with_identity (table_ext []) ?b sample_path (Some ?identity) empty_storage"
    unfolding sample_restore_def sdk_restore_backup_state_def
    by (simp add: keys claim_identity_operation_def validate_backup_restore_session_def restore_validation_identity_def rt_defs
        sample_restore_session_def sa_public_key_def sa_validate_for_capabilities_def session_validate_def Let_def PaykitSdkConfig_new_def
        load_identity_state_def empty_storage_def)
  moreover have "current_identity (Some ?identity) empty_storage = Some ?identity" by (simp add: current_identity_def)
  ultimately have "sample_restore = (restored_storage ?b (Some ?identity) (st_next_lease_id empty_storage), Inr (restored_report ?b (Some ?identity)))"
    using accepted restore_ok_iff [of "table_ext []" ?b sample_path "Some ?identity" empty_storage] by metis
  then show ?thesis by (metis fst_conv)
qed

theorem restore_bound_to_session_witness:
  "stored_public_key (fst sample_restore) = Some (PubkyPublicKey ''bob'') \<and> stored_noise_key (fst sample_restore) = Some (PubkyPublicKey ''noise'')"
proof -
  obtain report where "sample_restore = (fst sample_restore, Inr report)" using sample_restore_ok by blast
  moreover have "backup_public_key (export_backup_state sample_signed_in sample_path) = Some (PubkyPublicKey ''bob'')"
    by (simp add: backup_public_key_def export_backup_state_def from_storage_state_def sample_signed_in_def)
  ultimately show ?thesis
    using restore_bound_to_session [of "table_ext []" "PaykitSdkConfig_new sample_path" "Some False" "Inr (Some sample_restore_session)" 9
        "export_backup_state sample_signed_in sample_path" empty_storage "fst sample_restore" "Inr report", folded sample_restore_def]
    by (auto simp: sample_restore_session_def)
qed

end
