(* ===== verification/Receipt_Flow.thy ===== *)
theory Receipt_Flow
  imports Link_Runtime Backup_Validation
begin

text \<open>
  Issuing and retrieving receipts (\<^verbatim>\<open>paykit-sdk/src/domain/receipts/mod.rs\<close>, \<^verbatim>\<open>runtime/receipts.rs\<close>):
  drafts, issuance and access records with their status changes, the operations that prepare, store,
  queue and fetch receipts, and the lists shown to the app. The lemmas show that a retrieved receipt
  agrees with every access record that is not in conflict and that the statuses always pass the
  checks of a restore.
\<close>

section \<open>Drafts\<close>

record ReceiptDraftBuilder =
  rb_receipt_id :: "ReceiptId option"
  rb_payment_reference :: PaymentReference
  rb_payment_request_id :: "PaymentRequestId option"
  rb_billing_period :: "BillingPeriod option"
  rb_payment_endpoint_identifier :: "PaymentEndpointIdentifier option"
  rb_amount :: "PaymentAmount option"
  rb_metadata :: json_map

definition from_payment_reference :: "PaymentReference \<Rightarrow> ReceiptDraftBuilder" where
  "from_payment_reference r =
     \<lparr>rb_receipt_id = None, rb_payment_reference = r, rb_payment_request_id = None, rb_billing_period = None,
      rb_payment_endpoint_identifier = None, rb_amount = None, rb_metadata = []\<rparr>"

definition ReceiptDraftBuilder_new :: "string \<Rightarrow> ReceiptDraftBuilder sdk_res" where
  "ReceiptDraftBuilder_new text = rmap from_payment_reference (map_err sdk_error_of_lib (PaymentReference_new text))"

definition with_receipt_id :: "ReceiptId \<Rightarrow> ReceiptDraftBuilder \<Rightarrow> ReceiptDraftBuilder" where
  "with_receipt_id i b = b\<lparr>rb_receipt_id := Some i\<rparr>"

definition with_payment_request_id :: "PaymentRequestId \<Rightarrow> ReceiptDraftBuilder \<Rightarrow> ReceiptDraftBuilder" where
  "with_payment_request_id i b = b\<lparr>rb_payment_request_id := Some i\<rparr>"

definition with_billing_period :: "BillingPeriod \<Rightarrow> ReceiptDraftBuilder \<Rightarrow> ReceiptDraftBuilder" where
  "with_billing_period p b = b\<lparr>rb_billing_period := Some p\<rparr>"

definition with_payment_endpoint_identifier :: "PaymentEndpointIdentifier \<Rightarrow> ReceiptDraftBuilder \<Rightarrow> ReceiptDraftBuilder" where
  "with_payment_endpoint_identifier i b = b\<lparr>rb_payment_endpoint_identifier := Some i\<rparr>"

definition with_payment_endpoint_identifier_text :: "string \<Rightarrow> ReceiptDraftBuilder \<Rightarrow> ReceiptDraftBuilder sdk_res" where
  "with_payment_endpoint_identifier_text text b =
     rmap (\<lambda>i. with_payment_endpoint_identifier i b) (map_err sdk_error_of_lib (PaymentEndpointIdentifier_new text))"

definition with_amount :: "PaymentAmount \<Rightarrow> ReceiptDraftBuilder \<Rightarrow> ReceiptDraftBuilder" where
  "with_amount a b = b\<lparr>rb_amount := Some a\<rparr>"

definition with_amount_text :: "string \<Rightarrow> string \<Rightarrow> ReceiptDraftBuilder \<Rightarrow> ReceiptDraftBuilder sdk_res" where
  "with_amount_text v asset b =
     rmap (\<lambda>a. with_amount a b) (map_err sdk_error_of_lib (PaymentAmount_new v asset))"

definition with_metadata :: "json_map \<Rightarrow> ReceiptDraftBuilder \<Rightarrow> ReceiptDraftBuilder" where
  "with_metadata m b = b\<lparr>rb_metadata := m\<rparr>"

definition build_draft :: "ReceiptDraftBuilder \<Rightarrow> ReceiptDraft sdk_res" where
  "build_draft b =
     (if rb_billing_period b \<noteq> None \<and> rb_payment_request_id b = None
      then Inl (protocol_error ''Receipt Draft billing_period requires payment_request_id'')
      else Inr \<lparr>rd_receipt_id = rb_receipt_id b, rd_payment_reference = rb_payment_reference b,
                rd_payment_request_id = rb_payment_request_id b, rd_billing_period = rb_billing_period b,
                rd_payment_endpoint_identifier = rb_payment_endpoint_identifier b, rd_amount = rb_amount b,
                rd_metadata = rb_metadata b\<rparr>)"

section \<open>Issuance records\<close>

definition issuance_from_prepared ::
  "ext \<Rightarrow> PubkyPublicKey \<Rightarrow> PaykitReceiverPath \<Rightarrow> PreparedReceipt \<Rightarrow> instant \<Rightarrow> ReceiptIssuanceRecord sdk_res" where
  "issuance_from_prepared E cp rp p now =
     rmap (\<lambda>access_json.
       \<lparr>ri_counterparty = cp, ri_path = rp, ri_receipt_id = receipt_id_str (rc_receipt_id (prep_receipt p)),
        ri_receipt_access_event_id = event_id_str (rac_event_id (prep_access p)),
        ri_payment_reference = reference_str (rc_payment_reference (prep_receipt p)),
        ri_payment_request_id = map_option request_id_str (rc_payment_request_id (prep_receipt p)),
        ri_billing_period = map_option billing_record_of (rc_billing_period (prep_receipt p)),
        ri_payment_endpoint_identifier = map_option identifier_str (rc_payment_endpoint_identifier (prep_receipt p)),
        ri_amount = map_option amount_record_of (rc_amount (prep_receipt p)),
        ri_location = rac_location (prep_access p), ri_encrypted_receipt = prep_encrypted_receipt p,
        ri_access_json = access_json, ri_status = PendingStorage, ri_outbound_message_id = None,
        ri_created_at = now, ri_updated_at = now, ri_stored_at = None, ri_access_queued_at = None,
        ri_last_error = None\<rparr>)
     (map_err sdk_error_of_lib (serialize_receipt_access_json E (prep_access p)))"

definition mark_stored :: "ReceiptIssuanceRecord \<Rightarrow> instant \<Rightarrow> ReceiptIssuanceRecord" where
  "mark_stored r at = r\<lparr>ri_status := Stored, ri_updated_at := at, ri_stored_at := Some at, ri_last_error := None\<rparr>"

definition mark_access_queued :: "ReceiptIssuanceRecord \<Rightarrow> u64 \<Rightarrow> instant \<Rightarrow> ReceiptIssuanceRecord" where
  "mark_access_queued r outbound_id at =
     r\<lparr>ri_status := AccessQueued, ri_updated_at := at, ri_outbound_message_id := Some outbound_id,
       ri_access_queued_at := Some at, ri_last_error := None\<rparr>"

definition mark_failed :: "ReceiptIssuanceRecord \<Rightarrow> instant \<Rightarrow> string \<Rightarrow> ReceiptIssuanceRecord" where
  "mark_failed r at err = r\<lparr>ri_status := IssuanceFailed, ri_updated_at := at, ri_last_error := Some err\<rparr>"

record ReceiptIssuanceView =
  iv_counterparty :: PubkyPublicKey
  iv_path :: PaykitReceiverPath
  iv_receipt_id :: string
  iv_receipt_access_event_id :: string
  iv_payment_reference :: string
  iv_payment_request_id :: "string option"
  iv_billing_period :: "BillingPeriodRecord option"
  iv_payment_endpoint_identifier :: "string option"
  iv_amount :: "AmountRecord option"
  iv_status :: ReceiptIssuanceStatus
  iv_outbound_message_id :: "u64 option"
  iv_created_at :: instant
  iv_updated_at :: instant
  iv_stored_at :: "instant option"
  iv_access_queued_at :: "instant option"

definition issuance_view :: "ReceiptIssuanceRecord \<Rightarrow> ReceiptIssuanceView" where
  "issuance_view r =
     \<lparr>iv_counterparty = ri_counterparty r, iv_path = ri_path r, iv_receipt_id = ri_receipt_id r,
      iv_receipt_access_event_id = ri_receipt_access_event_id r, iv_payment_reference = ri_payment_reference r,
      iv_payment_request_id = ri_payment_request_id r, iv_billing_period = ri_billing_period r,
      iv_payment_endpoint_identifier = ri_payment_endpoint_identifier r, iv_amount = ri_amount r,
      iv_status = ri_status r, iv_outbound_message_id = ri_outbound_message_id r, iv_created_at = ri_created_at r,
      iv_updated_at = ri_updated_at r, iv_stored_at = ri_stored_at r, iv_access_queued_at = ri_access_queued_at r\<rparr>"

definition receipt_issuance_record_matches_draft ::
  "ext \<Rightarrow> ReceiptIssuanceRecord \<Rightarrow> PaykitReceiverPath \<Rightarrow> ReceiptDraft \<Rightarrow> bool sdk_res" where
  "receipt_issuance_record_matches_draft E r rp draft =
     rbind (map_err sdk_error_of_lib (parse_receipt_access_json E (ri_access_json r))) (\<lambda>access.
     rbind (map_err sdk_error_of_lib (decrypt_receipt E (ri_encrypted_receipt r) (rac_key access) (rac_location access)))
       (\<lambda>receipt.
     rbind (to_public_key E (ri_counterparty r)) (\<lambda>recipient.
     Inr (ri_path r = rp
          \<and> Some (receipt_id_str (rc_receipt_id receipt)) = map_option receipt_id_str (rd_receipt_id draft)
          \<and> rc_payment_reference receipt = rd_payment_reference draft
          \<and> rc_payment_request_id receipt = rd_payment_request_id draft
          \<and> rc_billing_period receipt = rd_billing_period draft
          \<and> rc_recipient_public_key receipt = recipient
          \<and> rc_payment_endpoint_identifier receipt = rd_payment_endpoint_identifier draft
          \<and> rc_amount receipt = rd_amount draft \<and> rc_metadata receipt = rd_metadata draft))))"

text \<open>The transaction that queues Receipt Access and records it.\<close>

definition queue_access_tx :: "string \<Rightarrow> ReceiptIssuanceRecord \<Rightarrow> instant \<Rightarrow> (sdk_error, ReceiptIssuanceRecord) tx" where
  "queue_access_tx kind r now s =
     (let (s1, outbound) = insert_outbound_private_message
            \<lparr>nm_counterparty = ri_counterparty r, nm_path = ri_path r, nm_kind = kind, nm_raw_json = ri_access_json r,
             nm_created_at = now\<rparr> s;
          queued = mark_access_queued r (om_id outbound) now
      in Inr (save_receipt_issuance_record queued s1, queued))"

definition enqueue_receipt_access_for_issuance :: "ext \<Rightarrow> ReceiptIssuanceRecord \<Rightarrow> instant \<Rightarrow> ReceiptIssuanceRecord rt" where
  "enqueue_receipt_access_for_issuance E r now =
     (if ri_outbound_message_id r \<noteq> None then rt_return r
      else rt_bind (rt_lift (validate_outbound_private_message E (ri_access_json r))) (\<lambda>kind.
        if kind \<noteq> kind_as_str ReceiptAccessKind
        then rt_fail (protocol_error ''receipt issuance access JSON is not Receipt Access'')
        else transaction (queue_access_tx kind r now)))"

section \<open>Access records and receipts\<close>

definition mark_retrieved :: "ReceiptAccessRecord \<Rightarrow> instant \<Rightarrow> ReceiptAccessRecord" where
  "mark_retrieved a at =
     a\<lparr>ra_retrieval_status := Retrieved, ra_retrieval_attempted_at := Some at, ra_retrieved_at := Some at,
       ra_last_retrieval_error := None\<rparr>"

definition mark_retrieval_error ::
  "ReceiptAccessRecord \<Rightarrow> ReceiptRetrievalStatus \<Rightarrow> instant \<Rightarrow> string \<Rightarrow> ReceiptAccessRecord" where
  "mark_retrieval_error a status at err =
     a\<lparr>ra_retrieval_status := status, ra_retrieval_attempted_at := Some at, ra_retrieved_at := None,
       ra_last_retrieval_error := Some err\<rparr>"

record ReceiptAccessView =
  av_counterparty :: PubkyPublicKey
  av_path :: PaykitReceiverPath
  av_event_id :: string
  av_receipt_id :: string
  av_payment_reference :: string
  av_payment_request_id :: "string option"
  av_billing_period :: "BillingPeriodRecord option"
  av_retrieval_status :: ReceiptRetrievalStatus
  av_retrieval_attempted_at :: "instant option"
  av_retrieved_at :: "instant option"
  av_received_at :: instant

definition access_view :: "ReceiptAccessRecord \<Rightarrow> ReceiptAccessView" where
  "access_view a =
     \<lparr>av_counterparty = ra_counterparty a, av_path = ra_path a, av_event_id = ra_event_id a,
      av_receipt_id = ra_receipt_id a, av_payment_reference = ra_payment_reference a,
      av_payment_request_id = ra_payment_request_id a, av_billing_period = ra_billing_period a,
      av_retrieval_status = ra_retrieval_status a, av_retrieval_attempted_at = ra_retrieval_attempted_at a,
      av_retrieved_at = ra_retrieved_at a, av_received_at = ra_received_at a\<rparr>"

text \<open>\<^verbatim>\<open>PubkyPublicKey::from_public_key\<close>.\<close>

definition from_public_key :: "ext \<Rightarrow> PublicKey \<Rightarrow> PubkyPublicKey" where
  "from_public_key E k = PubkyPublicKey (public_key_z32 E k)"

definition receipt_record_from_receipt ::
  "ext \<Rightarrow> PubkyPublicKey \<Rightarrow> ReceiptAccessRecord \<Rightarrow> Receipt \<Rightarrow> instant \<Rightarrow> ReceiptRecord" where
  "receipt_record_from_receipt E issuer a rc at =
     \<lparr>rr_issuer = issuer, rr_issuer_path = ra_path a, rr_receipt_access_event_id = ra_event_id a,
      rr_receipt_access_key_hash = receipt_access_key_hash E (ReceiptAccessRecord.ra_key a),
      rr_receipt_id = receipt_id_str (rc_receipt_id rc), rr_payment_reference = reference_str (rc_payment_reference rc),
      rr_payment_request_id = map_option request_id_str (rc_payment_request_id rc),
      rr_billing_period = map_option billing_record_of (rc_billing_period rc),
      rr_recipient_public_key = from_public_key E (rc_recipient_public_key rc),
      rr_payment_endpoint_identifier = map_option identifier_str (rc_payment_endpoint_identifier rc),
      rr_amount = map_option amount_record_of (rc_amount rc), rr_metadata = rc_metadata rc,
      rr_location = ra_location a, rr_retrieved_at = at\<rparr>"

definition validate_receipt_matches_access ::
  "ext \<Rightarrow> ReceiptAccessRecord \<Rightarrow> Receipt \<Rightarrow> PubkyPublicKey \<Rightarrow> unit sdk_res" where
  "validate_receipt_matches_access E a rc expected =
     (if receipt_id_str (rc_receipt_id rc) \<noteq> ra_receipt_id a
      then Inl (protocol_error ''decrypted Receipt ID does not match Receipt Access'')
      else if from_public_key E (rc_recipient_public_key rc) \<noteq> expected
      then Inl (protocol_error ''decrypted Receipt recipient does not match local identity'')
      else if reference_str (rc_payment_reference rc) \<noteq> ra_payment_reference a
      then Inl (protocol_error ''decrypted Receipt Payment Reference does not match Receipt Access'')
      else if map_option request_id_str (rc_payment_request_id rc) \<noteq> ra_payment_request_id a
      then Inl (protocol_error ''decrypted Receipt Payment Request ID does not match Receipt Access'')
      else if map_option billing_record_of (rc_billing_period rc) \<noteq> ra_billing_period a
      then Inl (protocol_error ''decrypted Receipt Billing Period does not match Receipt Access'')
      else Inr ())"

definition decrypt_receipt_record_from_access ::
  "ext \<Rightarrow> ReceiptAccessRecord \<Rightarrow> string \<Rightarrow> instant \<Rightarrow> PubkyPublicKey \<Rightarrow> ReceiptRecord sdk_res" where
  "decrypt_receipt_record_from_access E a encrypted at expected =
     rbind (map_err sdk_error_of_lib (ReceiptDecryptionKey_new E (ReceiptAccessRecord.ra_key a))) (\<lambda>key.
     rbind (map_err sdk_error_of_lib (decrypt_receipt E encrypted key (ra_location a))) (\<lambda>rc.
     rbind (validate_receipt_matches_access E a rc expected) (\<lambda>_.
     Inr (receipt_record_from_receipt E (ra_counterparty a) a rc at))))"

definition receipt_record_matches_access :: "ext \<Rightarrow> ReceiptRecord \<Rightarrow> ReceiptAccessRecord \<Rightarrow> bool" where
  "receipt_record_matches_access E r a \<longleftrightarrow>
     rr_issuer r = ra_counterparty a \<and> rr_receipt_access_key_hash r = receipt_access_key_hash E (ReceiptAccessRecord.ra_key a)
     \<and> rr_receipt_id r = ra_receipt_id a \<and> rr_payment_reference r = ra_payment_reference a
     \<and> rr_payment_request_id r = ra_payment_request_id a \<and> rr_billing_period r = ra_billing_period a
     \<and> rr_location r = ra_location a"

text \<open>
  \<^verbatim>\<open>fetch_encrypted_receipt_json\<close>: \<open>get\<close> reads one address of the public storage.
\<close>

definition encrypted_receipt_json_from_bytes :: "string \<Rightarrow> string sdk_res" where
  "encrypted_receipt_json_from_bytes bytes =
     (if valid_utf8 bytes then Inr bytes else Inl (protocol_error ''encrypted receipt is not valid UTF-8''))"

definition fetch_encrypted_receipt_json ::
  "ext \<Rightarrow> (string \<Rightarrow> string sdk_res fetched) \<Rightarrow> PubkyPublicKey \<Rightarrow> string \<Rightarrow> string option sdk_res" where
  "fetch_encrypted_receipt_json E get issuer location =
     rbind (to_public_key E issuer) (\<lambda>pk.
     case get (public_key_display E pk @ location) of
       Inr body \<Rightarrow> rbind body (\<lambda>bytes. rmap Some (encrypted_receipt_json_from_bytes bytes))
     | Inl (err, not_found) \<Rightarrow> if not_found then Inr None else Inl err)"

definition missing_encrypted_receipt_error :: sdk_error where
  "missing_encrypted_receipt_error = SdkNotFound ''encrypted receipt was not found at its receipt location'' None"

definition merge_retrieval_error :: "sdk_error option \<Rightarrow> sdk_error \<Rightarrow> sdk_error" where
  "merge_retrieval_error previous err =
     (case (previous, err) of (Some p, SdkNotFound _ _) \<Rightarrow> p | _ \<Rightarrow> err)"

section \<open>Issuing\<close>

definition save_new_issuance_tx :: "ReceiptIssuanceRecord \<Rightarrow> (sdk_error, unit) tx" where
  "save_new_issuance_tx r s =
     (if receipt_issuance_record_by_receipt_id s (ri_receipt_id r) \<noteq> None
      then Inl (protocol_error (''Receipt issuance '' @ ri_receipt_id r @ '' already exists''))
      else Inr (save_receipt_issuance_record r s, ()))"

text \<open>
  \<open>ids\<close> gives the generated Receipt ID and Event ID, \<open>key\<close> and \<open>nonce\<close> the generated bytes;
  \<open>session i\<close> and \<open>clock i\<close> are the results of the successive session loads and clock readings.
\<close>

definition existing_issuance ::
  "ext \<Rightarrow> PubkyPublicKey \<Rightarrow> PaykitReceiverPath \<Rightarrow> ReceiptDraft \<Rightarrow> ReceiptIssuanceRecord \<Rightarrow> ReceiptIssuanceView sdk_res" where
  "existing_issuance E cp rp draft r =
     (if ri_counterparty r \<noteq> cp \<or> ri_path r \<noteq> rp
      then Inl (protocol_error (''Receipt issuance '' @ ri_receipt_id r
             @ '' already exists for a different counterparty receiver''))
      else rbind (receipt_issuance_record_matches_draft E r rp draft) (\<lambda>same.
        if \<not> same
        then Inl (protocol_error (''Receipt issuance '' @ ri_receipt_id r @ '' for counterparty '' @ z32 cp
               @ '' already exists with different fields''))
        else Inr (issuance_view r)))"

definition prepare_receipt_issuance ::
  "ext \<Rightarrow> PaykitSdkConfig \<Rightarrow> PubkySessionAccess option sdk_res \<Rightarrow> (nat \<Rightarrow> instant) \<Rightarrow> string \<times> string \<Rightarrow> string \<Rightarrow> string \<Rightarrow>
   PubkyPublicKey \<Rightarrow> PaykitReceiverPath \<Rightarrow> ReceiptDraft \<Rightarrow> ReceiptIssuanceView rt" where
  "prepare_receipt_issuance E cfg session clock ids key nonce cp rp draft =
     rt_bind (refresh_identity cfg session (clock 0)) (\<lambda>(_, identity).
     if id_public_key identity = None
     then rt_fail (SdkIdentity ''no local Pubky identity available for receipt issuance'' None)
     else
     rt_bind (rt_check (\<lambda>s. ensure_peer_not_blocked s cp rp)) (\<lambda>_.
     rt_bind (rt_read (\<lambda>s. Option.bind (rd_receipt_id draft)
                (\<lambda>i. receipt_issuance_record_by_receipt_id s (receipt_id_str i)))) (\<lambda>existing.
     case existing of
       Some r \<Rightarrow> rt_lift (existing_issuance E cp rp draft r)
     | None \<Rightarrow>
         rt_bind (rt_lift (rbind (to_public_key E cp) (\<lambda>recipient.
                   rbind (map_err sdk_error_of_lib (prepare_receipt_for_recipient E (fst ids) (snd ids) key nonce recipient
                            (cf_receiver_path cfg) draft)) (\<lambda>prepared.
                   issuance_from_prepared E cp rp prepared (clock 1))))) (\<lambda>record.
         rt_bind (transaction (save_new_issuance_tx record)) (\<lambda>_.
         rt_return (issuance_view record))))))"

text \<open>\<open>put\<close> writes one document of the own homeserver; it gives the mapped error, if any.\<close>

definition store_issuance ::
  "(string \<Rightarrow> string \<Rightarrow> sdk_error option) \<Rightarrow> (nat \<Rightarrow> instant) \<Rightarrow> ReceiptIssuanceRecord \<Rightarrow> ReceiptIssuanceRecord rt" where
  "store_issuance put clock r =
     (if ri_stored_at r \<noteq> None then rt_return r
      else case put (ri_location r) (ri_encrypted_receipt r) of
        None \<Rightarrow>
          (let stored = mark_stored r (clock 2)
           in rt_bind (rt_save (save_receipt_issuance_record stored)) (\<lambda>_. rt_return stored))
      | Some err \<Rightarrow>
          rt_bind (rt_save (save_receipt_issuance_record (mark_failed r (clock 2) (sdk_error_display err)))) (\<lambda>_.
          rt_fail err))"

definition load_issuance ::
  "PubkyPublicKey \<Rightarrow> PaykitReceiverPath \<Rightarrow> string \<Rightarrow> StorageState \<Rightarrow> ReceiptIssuanceRecord sdk_res" where
  "load_issuance cp rp receipt_id s =
     (case receipt_issuance_record s (cp, rp, receipt_id) of
        Some r \<Rightarrow> Inr r
      | None \<Rightarrow> Inl (SdkNotFound (''Receipt issuance '' @ receipt_id @ '' for counterparty '' @ z32 cp @ ''/''
                 @ receiver_path_str rp @ '' was not found'') None))"

definition process_receipt_issuance ::
  "ext \<Rightarrow> PaykitSdkConfig \<Rightarrow> (nat \<Rightarrow> PubkySessionAccess option sdk_res) \<Rightarrow> (string \<Rightarrow> string \<Rightarrow> sdk_error option) \<Rightarrow>
   (nat \<Rightarrow> instant) \<Rightarrow> PubkyPublicKey \<Rightarrow> PaykitReceiverPath \<Rightarrow> string \<Rightarrow> ReceiptIssuanceView rt" where
  "process_receipt_issuance E cfg session put clock cp rp receipt_id =
     rt_bind (private_link_session_access cfg (session 0) (clock 0)) (\<lambda>_.
     rt_bind (rt_check (load_issuance cp rp receipt_id)) (\<lambda>r.
     rt_bind (ensure_private_outbound_ready cfg (session 1) (clock 1) cp (ri_path r)) (\<lambda>_.
     if ri_status r = AccessQueued then rt_return (issuance_view r)
     else
       rt_bind (store_issuance put clock r) (\<lambda>stored.
       rt_catch (enqueue_receipt_access_for_issuance E stored (clock 3))
         (\<lambda>err. rt_bind (rt_save (save_receipt_issuance_record (mark_failed stored (clock 4) (sdk_error_display err)))) (\<lambda>_.
                rt_fail err))
         (\<lambda>queued. rt_return (issuance_view queued))))))"

definition issue_receipt ::
  "ext \<Rightarrow> PaykitSdkConfig \<Rightarrow> (nat \<Rightarrow> PubkySessionAccess option sdk_res) \<Rightarrow> (string \<Rightarrow> string \<Rightarrow> sdk_error option) \<Rightarrow>
   (nat \<Rightarrow> instant) \<Rightarrow> string \<times> string \<Rightarrow> string \<Rightarrow> string \<Rightarrow> PubkyPublicKey \<Rightarrow> PaykitReceiverPath \<Rightarrow> ReceiptDraft \<Rightarrow>
   ReceiptIssuanceView rt" where
  "issue_receipt E cfg session put clock ids key nonce cp rp draft =
     (if rd_receipt_id draft = None
      then rt_fail (protocol_error (''issue_receipt requires a caller-provided Receipt ID for retry-safe issuance; ''
             @ ''use prepare_receipt_issuance first when the SDK should generate one''))
      else rt_bind (prepare_receipt_issuance E cfg (session 0) clock ids key nonce cp rp draft) (\<lambda>view.
        process_receipt_issuance E cfg (\<lambda>i. session (Suc i)) put (\<lambda>i. clock (i + 2)) cp rp (iv_receipt_id view)))"

section \<open>Retrieving\<close>

definition event_conflicted :: "StorageState \<Rightarrow> peer_item_key \<Rightarrow> bool" where
  "event_conflicted s k =
     (case event_dedup_record s k of None \<Rightarrow> False | Some d \<Rightarrow> ed_conflicting_stream_item_ids d \<noteq> [])"

definition receipt_access_event_is_conflicted :: "StorageState \<Rightarrow> ReceiptAccessRecord \<Rightarrow> bool" where
  "receipt_access_event_is_conflicted s a = event_conflicted s (ra_counterparty a, ra_path a, ra_event_id a)"

definition receipt_record_access_event_is_conflicted :: "StorageState \<Rightarrow> ReceiptRecord \<Rightarrow> bool" where
  "receipt_record_access_event_is_conflicted s r = event_conflicted s (rr_issuer r, rr_issuer_path r, rr_receipt_access_event_id r)"

definition conflicted_receipt_access_error :: "string \<Rightarrow> sdk_error" where
  "conflicted_receipt_access_error receipt_id =
     protocol_error (''Receipt Access event for receipt '' @ receipt_id @ '' has a conflicting Event ID'')"

definition mismatched_receipt_access_error :: "string \<Rightarrow> sdk_error" where
  "mismatched_receipt_access_error receipt_id =
     protocol_error (''Receipt Access descriptor for receipt '' @ receipt_id @ '' conflicts with stored Receipt'')"

text \<open>The access records of a receipt that are not in conflict, newest first, and the number of the others.\<close>

definition usable_accesses :: "StorageState \<Rightarrow> PubkyPublicKey \<Rightarrow> PaykitReceiverPath \<Rightarrow> string \<Rightarrow> ReceiptAccessRecord list" where
  "usable_accesses s cp rp receipt_id =
     sort_key (\<lambda>a. - uint (ra_stream_item_id a))
       (filter (\<lambda>a. \<not> receipt_access_event_is_conflicted s a)
         (filter (\<lambda>a. ra_receipt_id a = receipt_id) (receipt_access_records s cp rp)))"

definition conflicted_access_count :: "StorageState \<Rightarrow> PubkyPublicKey \<Rightarrow> PaykitReceiverPath \<Rightarrow> string \<Rightarrow> nat" where
  "conflicted_access_count s cp rp receipt_id =
     length (filter (receipt_access_event_is_conflicted s)
       (filter (\<lambda>a. ra_receipt_id a = receipt_id) (receipt_access_records s cp rp)))"

fun reconcile_accesses ::
  "ext \<Rightarrow> ReceiptRecord \<Rightarrow> instant \<Rightarrow> ReceiptAccessRecord list \<Rightarrow> StorageState \<Rightarrow> StorageState \<times> bool" where
  "reconcile_accesses E r now [] s = (s, False)"
| "reconcile_accesses E r now (a # as) s =
     (if receipt_record_matches_access E r a
      then reconcile_accesses E r now as
             (if ra_retrieval_status a \<noteq> Retrieved then save_receipt_access_record (mark_retrieved a now) s else s)
      else (let (t, _) = reconcile_accesses E r now as
                  (if ra_retrieval_status a = RetrievalPending
                   then save_receipt_access_record (mark_retrieval_error a RetrievalFailed now
                          ''Receipt Access does not match stored Receipt'') s
                   else s)
            in (t, True)))"

definition reconcile_cached_receipt_access_records ::
  "ext \<Rightarrow> ReceiptRecord \<Rightarrow> ReceiptAccessRecord list \<Rightarrow> instant \<Rightarrow> unit rt" where
  "reconcile_cached_receipt_access_records E r as now =
     rt_bind (transaction (\<lambda>s. Inr (reconcile_accesses E r now as s))) (\<lambda>mismatched.
     if mismatched then rt_fail (mismatched_receipt_access_error (rr_receipt_id r)) else rt_return ())"

definition save_receipt_retrieval_error ::
  "ReceiptAccessRecord \<Rightarrow> ReceiptRetrievalStatus \<Rightarrow> instant \<Rightarrow> string \<Rightarrow> unit rt" where
  "save_receipt_retrieval_error a status at err = rt_save (save_receipt_access_record (mark_retrieval_error a status at err))"

text \<open>The loop over the candidate locations; \<open>prev\<close> is the error to report when none works.\<close>

fun fetch_receipt_loop ::
  "ext \<Rightarrow> (string \<Rightarrow> string sdk_res fetched) \<Rightarrow> PubkyPublicKey \<Rightarrow> PubkyPublicKey \<Rightarrow> instant \<Rightarrow> ReceiptAccessRecord list \<Rightarrow>
   sdk_error \<Rightarrow> sdk_error option \<Rightarrow> ReceiptAccessRecord list \<Rightarrow> ReceiptRecord rt" where
  "fetch_receipt_loop E get cp local now all none prev [] = rt_fail (case prev of Some e \<Rightarrow> e | None \<Rightarrow> none)"
| "fetch_receipt_loop E get cp local now all none prev (a # as) =
     (case fetch_encrypted_receipt_json E get cp (ra_location a) of
        Inl err \<Rightarrow>
          rt_bind (save_receipt_retrieval_error a RetrievalFailed now (sdk_error_display err)) (\<lambda>_.
          fetch_receipt_loop E get cp local now all none (Some err) as)
      | Inr None \<Rightarrow>
          rt_bind (save_receipt_retrieval_error a RetrievalNotFound now
                     (''encrypted receipt '' @ ra_receipt_id a @ '' was not found at '' @ ra_location a)) (\<lambda>_.
          fetch_receipt_loop E get cp local now all none (Some (merge_retrieval_error prev missing_encrypted_receipt_error)) as)
      | Inr (Some encrypted) \<Rightarrow>
          (case decrypt_receipt_record_from_access E a encrypted now local of
             Inl err \<Rightarrow>
               rt_bind (save_receipt_retrieval_error a RetrievalFailed now (sdk_error_display err)) (\<lambda>_.
               fetch_receipt_loop E get cp local now all none (Some err) as)
           | Inr record \<Rightarrow>
               rt_bind (rt_save (\<lambda>s. save_receipt_record record (save_receipt_access_record (mark_retrieved a now) s))) (\<lambda>_.
               rt_bind (reconcile_cached_receipt_access_records E record all now) (\<lambda>_. rt_return record))))"

text \<open>A receipt that is already stored.\<close>

definition cached_receipt ::
  "ext \<Rightarrow> PubkyPublicKey \<Rightarrow> string \<Rightarrow> instant \<Rightarrow> bool \<Rightarrow> nat \<Rightarrow> ReceiptAccessRecord list \<Rightarrow> ReceiptRecord \<Rightarrow> ReceiptRecord rt" where
  "cached_receipt E local receipt_id now conflicted conflicted_count accesses r =
     (if rr_recipient_public_key r \<noteq> local
      then rt_fail (protocol_error ''stored Receipt recipient does not match local identity'')
      else if conflicted then rt_fail (conflicted_receipt_access_error receipt_id)
      else if accesses = [] \<and> conflicted_count > 0 then rt_fail (conflicted_receipt_access_error receipt_id)
      else rt_bind (reconcile_cached_receipt_access_records E r accesses now) (\<lambda>_. rt_return r))"

definition retrieve_receipt ::
  "ext \<Rightarrow> PaykitSdkConfig \<Rightarrow> PubkySessionAccess option sdk_res \<Rightarrow> (string \<Rightarrow> string sdk_res fetched) option sdk_res \<Rightarrow>
   (nat \<Rightarrow> instant) \<Rightarrow> PubkyPublicKey \<Rightarrow> PaykitReceiverPath \<Rightarrow> string \<Rightarrow> ReceiptRecord rt" where
  "retrieve_receipt E cfg session public_storage clock cp rp receipt_id =
     rt_bind (refresh_identity cfg session (clock 0)) (\<lambda>(_, identity).
     case id_public_key identity of
       None \<Rightarrow> rt_fail (SdkIdentity ''no local Pubky identity available for receipt retrieval'' None)
     | Some local \<Rightarrow>
     rt_bind (rt_check (\<lambda>s. ensure_peer_not_blocked s cp rp)) (\<lambda>_.
     rt_bind (rt_read (\<lambda>s. (receipt_record s (cp, rp, receipt_id), usable_accesses s cp rp receipt_id,
                conflicted_access_count s cp rp receipt_id,
                (case receipt_record s (cp, rp, receipt_id) of
                   None \<Rightarrow> False | Some r \<Rightarrow> event_conflicted s (cp, rp, rr_receipt_access_event_id r)))))
       (\<lambda>(stored, accesses, conflicted_count, stored_conflicted).
     case stored of
       Some r \<Rightarrow> cached_receipt E local receipt_id (clock 1) stored_conflicted conflicted_count accesses r
     | None \<Rightarrow>
         if accesses = [] \<and> conflicted_count > 0 then rt_fail (conflicted_receipt_access_error receipt_id)
         else if accesses = []
         then rt_fail (SdkRecoveryRequired (''no Receipt Access record for receipt '' @ receipt_id @ '' from '' @ z32 cp) None)
         else rt_bind (rt_lift public_storage) (\<lambda>storage.
           case storage of
             None \<Rightarrow> rt_fail (SdkIdentity ''no Pubky public storage available for receipt retrieval'' None)
           | Some get \<Rightarrow>
               fetch_receipt_loop E get cp local (clock 1) accesses
                 (SdkRecoveryRequired (''no usable Receipt Access record for receipt '' @ receipt_id @ '' from '' @ z32 cp) None)
                 None accesses))))"

section \<open>Lists\<close>

definition peer_is_blocked :: "StorageState \<Rightarrow> peer_key \<Rightarrow> bool" where
  "peer_is_blocked s k = (map_option lp_state (hm_get (st_linked_peers s) k) = Some Blocked)"

definition issuance_views :: "StorageState \<Rightarrow> PubkyPublicKey \<Rightarrow> PaykitReceiverPath \<Rightarrow> ReceiptIssuanceView list" where
  "issuance_views s cp rp = sort_key (\<lambda>v. - iv_created_at v) (map issuance_view (receipt_issuance_records s cp rp))"

definition issued_receipts :: "StorageState \<Rightarrow> ReceiptIssuanceView list" where
  "issued_receipts s =
     sort_key (\<lambda>v. - iv_created_at v)
       (map issuance_view (filter (\<lambda>r. \<not> peer_is_blocked s (ri_counterparty r, ri_path r))
         (hm_values (st_receipt_issuance_records s))))"

definition access_views :: "StorageState \<Rightarrow> PubkyPublicKey \<Rightarrow> PaykitReceiverPath \<Rightarrow> ReceiptAccessView list" where
  "access_views s cp rp =
     sort_key (\<lambda>v. - av_received_at v)
       (map access_view (filter (\<lambda>a. \<not> receipt_access_event_is_conflicted s a) (receipt_access_records s cp rp)))"

definition receipt_access :: "StorageState \<Rightarrow> ReceiptAccessView list" where
  "receipt_access s =
     sort_key (\<lambda>v. - av_received_at v)
       (map access_view (filter (\<lambda>a. \<not> receipt_access_event_is_conflicted s a)
         (filter (\<lambda>a. \<not> peer_is_blocked s (ra_counterparty a, ra_path a)) (hm_values (st_receipt_access_records s)))))"

definition receipts_of_issuer ::
  "StorageState \<Rightarrow> PubkyPublicKey \<Rightarrow> PubkyPublicKey \<Rightarrow> PaykitReceiverPath \<Rightarrow> ReceiptRecord list" where
  "receipts_of_issuer s local issuer rp =
     sort_key (\<lambda>r. - rr_retrieved_at r)
       (filter (\<lambda>r. \<not> receipt_record_access_event_is_conflicted s r)
         (filter (\<lambda>r. rr_recipient_public_key r = local)
           (filter (\<lambda>r. rr_issuer_path r = rp)
             (filter (\<lambda>r. rr_issuer r = issuer) (hm_values (st_receipt_records s))))))"

definition receipts :: "StorageState \<Rightarrow> PubkyPublicKey \<Rightarrow> ReceiptRecord list" where
  "receipts s local =
     sort_key (\<lambda>r. - rr_retrieved_at r)
       (filter (\<lambda>r. \<not> receipt_record_access_event_is_conflicted s r)
         (filter (\<lambda>r. \<not> peer_is_blocked s (rr_issuer r, rr_issuer_path r))
           (filter (\<lambda>r. rr_recipient_public_key r = local) (hm_values (st_receipt_records s)))))"

text \<open>The listing operations after the identity checks they share.\<close>

definition listed_for_identity ::
  "PaykitSdkConfig \<Rightarrow> PubkySessionAccess option sdk_res \<Rightarrow> instant \<Rightarrow> (StorageState \<Rightarrow> unit sdk_res) \<Rightarrow>
   (StorageState \<Rightarrow> PubkyPublicKey \<Rightarrow> 'a list) \<Rightarrow> 'a list rt" where
  "listed_for_identity cfg session now guard list =
     rt_bind (refresh_identity cfg session now) (\<lambda>(_, identity).
     case id_public_key identity of
       None \<Rightarrow> rt_return []
     | Some local \<Rightarrow> rt_bind (rt_check guard) (\<lambda>_. rt_read (\<lambda>s. list s local)))"

type_synonym 'a listing = "PaykitSdkConfig \<Rightarrow> PubkySessionAccess option sdk_res \<Rightarrow> instant \<Rightarrow> 'a list rt"

definition list_issuance_records :: "PubkyPublicKey \<Rightarrow> PaykitReceiverPath \<Rightarrow> ReceiptIssuanceView listing" where
  "list_issuance_records cp rp cfg session now =
     listed_for_identity cfg session now (\<lambda>s. ensure_peer_not_blocked s cp rp) (\<lambda>s _. issuance_views s cp rp)"

definition list_issued_receipts :: "ReceiptIssuanceView listing" where
  "list_issued_receipts cfg session now = listed_for_identity cfg session now (\<lambda>_. Inr ()) (\<lambda>s _. issued_receipts s)"

definition list_access_records :: "PubkyPublicKey \<Rightarrow> PaykitReceiverPath \<Rightarrow> ReceiptAccessView listing" where
  "list_access_records cp rp cfg session now =
     listed_for_identity cfg session now (\<lambda>s. ensure_peer_not_blocked s cp rp) (\<lambda>s _. access_views s cp rp)"

definition list_receipt_access :: "ReceiptAccessView listing" where
  "list_receipt_access cfg session now = listed_for_identity cfg session now (\<lambda>_. Inr ()) (\<lambda>s _. receipt_access s)"

definition list_receipt_records :: "PubkyPublicKey \<Rightarrow> PaykitReceiverPath \<Rightarrow> ReceiptRecord listing" where
  "list_receipt_records issuer rp cfg session now =
     listed_for_identity cfg session now (\<lambda>s. ensure_peer_not_blocked s issuer rp)
       (\<lambda>s local. receipts_of_issuer s local issuer rp)"

definition list_receipts :: "ReceiptRecord listing" where
  "list_receipts cfg session now = listed_for_identity cfg session now (\<lambda>_. Inr ()) receipts"

section \<open>Statuses that a restore accepts\<close>

definition clock_after :: "(nat \<Rightarrow> instant) \<Rightarrow> StorageState \<Rightarrow> bool" where
  "clock_after clock s \<longleftrightarrow> list_all (\<lambda>(_, r). \<forall>i. ri_created_at r \<le> clock i) (st_receipt_issuance_records s)"

definition statuses_ok :: "StorageState \<Rightarrow> bool" where
  "statuses_ok s \<longleftrightarrow>
     list_all (\<lambda>(_, r). validate_receipt_issuance_status r = Inr ()) (st_receipt_issuance_records s)
     \<and> list_all (\<lambda>(_, a). validate_receipt_access_retrieval_status a = Inr ()) (st_receipt_access_records s)"

lemma issuance_status_ok:
  assumes "validate_receipt_issuance_status r = Inr ()" and "ri_created_at r \<le> now"
  shows "ri_status r \<noteq> AccessQueued \<Longrightarrow> ri_stored_at r = None \<Longrightarrow> validate_receipt_issuance_status (mark_stored r now) = Inr ()"
    and "ri_stored_at r \<noteq> None \<Longrightarrow> validate_receipt_issuance_status (mark_access_queued r i now) = Inr ()"
    and "ri_status r \<noteq> AccessQueued \<Longrightarrow> validate_receipt_issuance_status (mark_failed r now err) = Inr ()"
  using assms
  by (auto simp: validate_receipt_issuance_status_def mark_stored_def mark_access_queued_def mark_failed_def Let_def
      split: if_splits ReceiptIssuanceStatus.splits option.splits)

lemma prepared_status_ok:
  "issuance_from_prepared E cp rp p now = Inr r \<Longrightarrow> validate_receipt_issuance_status r = Inr ()"
  by (auto simp: issuance_from_prepared_def result_iffs validate_receipt_issuance_status_def Let_def)

lemma access_status_ok:
  "validate_receipt_access_retrieval_status (mark_retrieved a now) = Inr ()"
  "st \<in> {RetrievalNotFound, RetrievalFailed} \<Longrightarrow> validate_receipt_access_retrieval_status (mark_retrieval_error a st now err) = Inr ()"
  by (auto simp: validate_receipt_access_retrieval_status_def mark_retrieved_def mark_retrieval_error_def Let_def)

lemma statuses_ok_save:
  "statuses_ok s \<Longrightarrow> validate_receipt_issuance_status r = Inr () \<Longrightarrow> statuses_ok (save_receipt_issuance_record r s)"
  "statuses_ok s \<Longrightarrow> validate_receipt_access_retrieval_status a = Inr () \<Longrightarrow> statuses_ok (save_receipt_access_record a s)"
  "statuses_ok (save_receipt_record q s) = statuses_ok s"
  by (simp_all add: statuses_ok_def save_receipt_issuance_record_def save_receipt_access_record_def save_receipt_record_def
      list_all_update)

lemma clock_after_save:
  "clock_after clock s \<Longrightarrow> (\<And>i. ri_created_at r \<le> clock i) \<Longrightarrow> clock_after clock (save_receipt_issuance_record r s)"
  by (simp add: clock_after_def save_receipt_issuance_record_def list_all_update)

lemma identity_step_tables:
  assumes "identity_step s t"
  shows "st_receipt_issuance_records t \<in> {st_receipt_issuance_records s, []}"
    "st_receipt_access_records t \<in> {st_receipt_access_records s, []}"
    "st_outbound_private_messages t \<in> {st_outbound_private_messages s, []}"
  using assms
  by (auto elim!: identity_stepE simp: identity_defs clear_defs Let_def split: option.splits IdentityTransition.splits if_splits)

lemma statuses_ok_identity: "statuses_ok s \<Longrightarrow> identity_step s t \<Longrightarrow> statuses_ok t"
  using identity_step_tables(1,2) [of s t] by (auto simp: statuses_ok_def)

lemma clock_after_identity: "clock_after clock s \<Longrightarrow> identity_step s t \<Longrightarrow> clock_after clock t"
  using identity_step_tables(1) [of s t] by (auto simp: clock_after_def)

lemma reconcile_statuses: "statuses_ok s \<Longrightarrow> statuses_ok (fst (reconcile_accesses E r now as s))"
  by (induction as arbitrary: s) (auto simp: Let_def case_prod_unfold intro!: statuses_ok_save access_status_ok)

lemma rt_keeps_reconcile: "rt_keeps statuses_ok (reconcile_cached_receipt_access_records E r as now)"
  unfolding reconcile_cached_receipt_access_records_def
  by (intro rt_rules rt_keeps_transaction) (metis fst_conv reconcile_statuses sum.inject(2))

lemma rt_keeps_fetch: "rt_keeps statuses_ok (fetch_receipt_loop E get cp local now all none prev as)"
proof (induction as arbitrary: prev)
  case (Cons a as)
  show ?case
    unfolding fetch_receipt_loop.simps save_receipt_retrieval_error_def
    by (intro rt_rules rt_keeps_save rt_keeps_reconcile Cons.IH) (auto simp: statuses_ok_save access_status_ok)
qed (auto intro: rt_rules)

lemma rt_keeps_retrieve: "rt_keeps statuses_ok (retrieve_receipt E cfg session storage clock cp rp receipt_id)"
  unfolding retrieve_receipt_def cached_receipt_def
  by (intro rt_rules rt_keeps_refresh [OF statuses_ok_identity] rt_keeps_reconcile rt_keeps_fetch; assumption)

lemma rt_keeps_prepare: "rt_keeps statuses_ok (prepare_receipt_issuance E cfg session clock ids key nonce cp rp draft)"
proof -
  let ?made = "rbind (to_public_key E cp) (\<lambda>recipient.
      rbind (map_err sdk_error_of_lib (prepare_receipt_for_recipient E (fst ids) (snd ids) key nonce recipient
               (cf_receiver_path cfg) draft)) (\<lambda>prepared. issuance_from_prepared E cp rp prepared (clock 1)))"
  have made: "rt_yields statuses_ok (rt_lift ?made) (\<lambda>r. validate_receipt_issuance_status r = Inr ())"
    by (rule rt_yields_lift) (auto simp: rbind_Inr_iff dest: prepared_status_ok)
  have save: "rt_keeps statuses_ok (transaction (save_new_issuance_tx r))" if "validate_receipt_issuance_status r = Inr ()" for r
    using that by (intro rt_keeps_transaction) (auto simp: save_new_issuance_tx_def intro: statuses_ok_save split: if_splits)
  show ?thesis
    unfolding prepare_receipt_issuance_def
    by (intro rt_rules rt_keeps_refresh [OF statuses_ok_identity] rt_keeps_then [OF _ made] save; assumption)
qed

text \<open>The state and the issuance an operation works on, under a clock that does not run behind it.\<close>

abbreviation issuing :: "(nat \<Rightarrow> instant) \<Rightarrow> StorageState \<Rightarrow> bool" where
  "issuing clock s \<equiv> statuses_ok s \<and> clock_after clock s"

definition issuable :: "(nat \<Rightarrow> instant) \<Rightarrow> ReceiptIssuanceRecord \<Rightarrow> bool" where
  "issuable clock r \<longleftrightarrow> validate_receipt_issuance_status r = Inr () \<and> (\<forall>i. ri_created_at r \<le> clock i)"

lemma issuing_identity: "issuing clock s \<Longrightarrow> identity_step s t \<Longrightarrow> issuing clock t"
  using statuses_ok_identity clock_after_identity by blast

lemma issuing_save: "issuing clock s \<Longrightarrow> issuable clock r \<Longrightarrow> issuing clock (save_receipt_issuance_record r s)"
  by (simp add: issuable_def statuses_ok_save clock_after_save)

lemma issuable_marks:
  assumes "issuable clock r"
  shows "ri_status r \<noteq> AccessQueued \<Longrightarrow> ri_stored_at r = None \<Longrightarrow> issuable clock (mark_stored r (clock i))"
    "ri_stored_at r \<noteq> None \<Longrightarrow> issuable clock (mark_access_queued r j (clock i))"
    "ri_status r \<noteq> AccessQueued \<Longrightarrow> issuable clock (mark_failed r (clock i) err)"
proof -
  have created: "ri_created_at r \<le> clock k" for k using assms by (simp add: issuable_def)
  have same: "ri_created_at (mark_stored r t) = ri_created_at r" "ri_created_at (mark_access_queued r j t) = ri_created_at r"
    "ri_created_at (mark_failed r t err) = ri_created_at r" for t
    by (simp_all add: mark_stored_def mark_access_queued_def mark_failed_def)
  show "ri_status r \<noteq> AccessQueued \<Longrightarrow> ri_stored_at r = None \<Longrightarrow> issuable clock (mark_stored r (clock i))"
    "ri_stored_at r \<noteq> None \<Longrightarrow> issuable clock (mark_access_queued r j (clock i))"
    "ri_status r \<noteq> AccessQueued \<Longrightarrow> issuable clock (mark_failed r (clock i) err)"
    using assms issuance_status_ok [of r "clock i"] created by (auto simp: issuable_def same)
qed

lemma load_issuable: "issuing clock s \<Longrightarrow> load_issuance cp rp receipt_id s = Inr r \<Longrightarrow> issuable clock r"
  by (auto simp: load_issuance_def receipt_issuance_record_def statuses_ok_def clock_after_def issuable_def list_all_iff
      split: option.splits dest!: map_of_SomeD)

lemma store_keeps:
  assumes "issuable clock r" and "ri_status r \<noteq> AccessQueued"
  shows "rt_keeps (issuing clock) (store_issuance put clock r)"
    and "rt_yields (issuing clock) (store_issuance put clock r)
      (\<lambda>r'. issuable clock r' \<and> ri_status r' \<noteq> AccessQueued \<and> ri_stored_at r' \<noteq> None)"
proof -
  show "rt_keeps (issuing clock) (store_issuance put clock r)"
    unfolding store_issuance_def
    by (intro rt_rules rt_keeps_save issuing_save) (use issuable_marks [OF assms(1)] assms(2) in auto)
  show "rt_yields (issuing clock) (store_issuance put clock r)
      (\<lambda>r'. issuable clock r' \<and> ri_status r' \<noteq> AccessQueued \<and> ri_stored_at r' \<noteq> None)"
    using assms issuable_marks(1) [OF assms(1), of 2]
    by (auto simp: rt_yields_def store_issuance_def rt_defs Let_def mark_stored_def split: if_splits option.splits)
qed

lemma queue_access_effect:
  "queue_access_tx kind r now s = Inr (t, q) \<Longrightarrow>
     \<exists>s1 i. st_receipt_issuance_records s1 = st_receipt_issuance_records s \<and> st_receipt_access_records s1 = st_receipt_access_records s
       \<and> q = mark_access_queued r i now \<and> t = save_receipt_issuance_record q s1"
  by (rule exI [of _ "fst (insert_outbound_private_message
          \<lparr>nm_counterparty = ri_counterparty r, nm_path = ri_path r, nm_kind = kind, nm_raw_json = ri_access_json r,
           nm_created_at = now\<rparr> s)"], rule exI [of _ "st_next_outbound_id s"])
    (auto simp: queue_access_tx_def insert_outbound_private_message_def outbound_from_new_def Let_def)

lemma enqueue_keeps:
  assumes "issuable clock r" and "ri_stored_at r \<noteq> None"
  shows "rt_keeps (issuing clock) (enqueue_receipt_access_for_issuance E r (clock i))"
proof -
  have "rt_keeps (issuing clock) (transaction (queue_access_tx kind r (clock i)))" for kind
  proof (rule rt_keeps_transaction)
    fix s t q assume s: "issuing clock s" and tx: "queue_access_tx kind r (clock i) s = Inr (t, q)"
    obtain s1 j where s1: "st_receipt_issuance_records s1 = st_receipt_issuance_records s"
      "st_receipt_access_records s1 = st_receipt_access_records s"
      and q: "q = mark_access_queued r j (clock i)" and t: "t = save_receipt_issuance_record q s1"
      using queue_access_effect [OF tx] by blast
    have "issuing clock s1" using s s1 by (simp add: statuses_ok_def clock_after_def)
    then show "issuing clock t" unfolding t q by (intro issuing_save) (use issuable_marks(2) [OF assms] in auto)
  qed
  then show ?thesis unfolding enqueue_receipt_access_for_issuance_def by (intro rt_rules)
qed

lemma rt_keeps_process: "rt_keeps (issuing clock) (process_receipt_issuance E cfg session put clock cp rp receipt_id)"
proof -
  have load: "rt_yields (issuing clock) (rt_check (load_issuance cp rp receipt_id)) (issuable clock)"
    by (rule rt_yields_check) (rule load_issuable)
  have finish: "rt_keeps (issuing clock) (rt_catch (enqueue_receipt_access_for_issuance E r (clock 3))
      (\<lambda>err. rt_bind (rt_save (save_receipt_issuance_record (mark_failed r (clock 4) (sdk_error_display err)))) (\<lambda>_. rt_fail err))
      (\<lambda>queued. rt_return (issuance_view queued)))"
    if "issuable clock r \<and> ri_status r \<noteq> AccessQueued \<and> ri_stored_at r \<noteq> None" for r
    using that by (intro rt_rules rt_keeps_save issuing_save enqueue_keeps) (auto intro: issuable_marks(3))
  have body: "rt_keeps (issuing clock) (rt_bind (store_issuance put clock r) (\<lambda>stored.
       rt_catch (enqueue_receipt_access_for_issuance E stored (clock 3))
         (\<lambda>err. rt_bind (rt_save (save_receipt_issuance_record (mark_failed stored (clock 4) (sdk_error_display err)))) (\<lambda>_.
                rt_fail err))
         (\<lambda>queued. rt_return (issuance_view queued))))"
    if "issuable clock r" "ri_status r \<noteq> AccessQueued" for r
    by (rule rt_keeps_then [OF store_keeps(1) [OF that] store_keeps(2) [OF that] finish])
  note guards = rt_keeps_guards [of "issuing clock", OF issuing_identity]
  show ?thesis
    unfolding process_receipt_issuance_def
  proof (rule rt_keeps_bind [OF guards(1)], assumption, assumption, rule rt_keeps_then [OF _ load])
    show "rt_keeps (issuing clock) (rt_check (load_issuance cp rp receipt_id))" by (rule rt_rules)
  next
    fix r assume "issuable clock r"
    then show "rt_keeps (issuing clock) (rt_bind (ensure_private_outbound_ready cfg (session 1) (clock 1) cp (ri_path r)) (\<lambda>_.
        if ri_status r = AccessQueued then rt_return (issuance_view r)
        else rt_bind (store_issuance put clock r) (\<lambda>stored.
          rt_catch (enqueue_receipt_access_for_issuance E stored (clock 3))
            (\<lambda>err. rt_bind (rt_save (save_receipt_issuance_record (mark_failed stored (clock 4) (sdk_error_display err)))) (\<lambda>_.
                   rt_fail err))
            (\<lambda>queued. rt_return (issuance_view queued)))))"
      using body by (intro rt_keeps_bind [OF guards(3)] rt_keeps_cases(2) rt_keeps_pure(1)) auto
  qed
qed

text \<open>The operations of the receipt flow, and the indexing of received Receipt Access.\<close>

inductive receipt_op :: "StorageState \<Rightarrow> StorageState \<Rightarrow> bool" where
  prepare: "prepare_receipt_issuance E cfg session clock ids key nonce cp rp draft s = (t, r) \<Longrightarrow> receipt_op s t"
| process: "clock_after clock s \<Longrightarrow> process_receipt_issuance E cfg sessions put clock cp rp receipt_id s = (t, r) \<Longrightarrow> receipt_op s t"
| retrieve: "retrieve_receipt E cfg session storage clock cp rp receipt_id s = (t, q) \<Longrightarrow> receipt_op s t"
| indexed: "t = save_receipt_access_record (receipt_access_record_from_access cp rp i batch at a) s \<Longrightarrow> receipt_op s t"

lemma receipt_op_statuses: "receipt_op s t \<Longrightarrow> statuses_ok s \<Longrightarrow> statuses_ok t"
proof (induction rule: receipt_op.induct)
  case (prepare E cfg session clock ids key nonce cp rp draft s t r)
  then show ?case using rt_keeps_prepare unfolding rt_keeps_def by (metis fst_conv)
next
  case (process clock s E cfg sessions put cp rp receipt_id t r)
  then show ?case using rt_keeps_process [of clock] unfolding rt_keeps_def by (metis fst_conv)
next
  case (retrieve E cfg session storage clock cp rp receipt_id s t q)
  then show ?case using rt_keeps_retrieve unfolding rt_keeps_def by (metis fst_conv)
next
  case (indexed t cp rp i batch at a s)
  have "validate_receipt_access_retrieval_status (receipt_access_record_from_access cp rp i batch at a) = Inr ()"
    by (simp add: validate_receipt_access_retrieval_status_def receipt_access_record_from_access_def Let_def)
  with indexed show ?case by (simp add: statuses_ok_save)
qed

interpretation receipt_system: invariant_system
  "\<lambda>s. st_receipt_issuance_records s = [] \<and> st_receipt_access_records s = []" receipt_op statuses_ok
proof unfold_locales
  show "statuses_ok s" if "st_receipt_issuance_records s = [] \<and> st_receipt_access_records s = []" for s
    using that by (simp add: statuses_ok_def)
qed (rule receipt_op_statuses)


section \<open>Retrieved receipts\<close>

text \<open>What retrieval leaves of the store besides the access records and the receipts.\<close>

definition same_evidence :: "StorageState \<Rightarrow> StorageState \<Rightarrow> bool" where
  "same_evidence s t \<longleftrightarrow> st_event_dedup_records t = st_event_dedup_records s \<and> st_identity_state t = st_identity_state s"

lemma same_evidence_saves:
  "same_evidence s (save_receipt_access_record a t) = same_evidence s t"
  "same_evidence s (save_receipt_record r t) = same_evidence s t"
  by (simp_all add: same_evidence_def save_receipt_access_record_def save_receipt_record_def)

lemma reconcile_effect:
  "reconcile_accesses E r now as s = (t, b) \<Longrightarrow>
     st_receipt_records t = st_receipt_records s \<and> same_evidence s t
     \<and> (b = False \<longrightarrow> (\<forall>a \<in> set as. receipt_record_matches_access E r a))"
proof (induction as arbitrary: s t b)
  case (Cons a as)
  have keep: "st_receipt_records (if c then save_receipt_access_record x s else s) = st_receipt_records s"
    "same_evidence (if c then save_receipt_access_record x s else s) u = same_evidence s u" for c x u
    by (simp_all add: save_receipt_access_record_def same_evidence_def)
  show ?case
  proof (cases "receipt_record_matches_access E r a")
    case True
    with Cons.prems have "reconcile_accesses E r now as
        (if ra_retrieval_status a \<noteq> Retrieved then save_receipt_access_record (mark_retrieved a now) s else s) = (t, b)"
      by simp
    from Cons.IH [OF this] show ?thesis unfolding keep using True by simp
  next
    case False
    let ?s = "if ra_retrieval_status a = RetrievalPending
      then save_receipt_access_record (mark_retrieval_error a RetrievalFailed now
             ''Receipt Access does not match stored Receipt'') s
      else s"
    obtain c where "reconcile_accesses E r now as ?s = (t, c)" and "b"
      using Cons.prems False by (cases "reconcile_accesses E r now as ?s") (simp add: Let_def)
    with Cons.IH [OF this(1)] show ?thesis unfolding keep by simp
  qed
qed (simp add: same_evidence_def)

lemma reconcile_ok:
  assumes "reconcile_cached_receipt_access_records E r as now s = (t, Inr u)"
  shows "st_receipt_records t = st_receipt_records s" "same_evidence s t" "\<forall>a \<in> set as. receipt_record_matches_access E r a"
proof -
  have "reconcile_accesses E r now as s = (t, False)"
    using assms by (auto simp: reconcile_cached_receipt_access_records_def rt_bind_ok transaction_def
        run_storage_state_transaction_def rt_defs split: if_splits prod.splits)
  from reconcile_effect [OF this] show "st_receipt_records t = st_receipt_records s" "same_evidence s t"
    "\<forall>a \<in> set as. receipt_record_matches_access E r a" by auto
qed

lemma rt_bind_save: "rt_bind (rt_save f) k s = k () (f s)"
  by (simp add: rt_bind_def rt_save_def)

lemma fetch_loop_ok:
  "fetch_receipt_loop E get cp local now all none prev as s = (t, Inr r) \<Longrightarrow>
     (\<exists>a \<in> set as. \<exists>enc. decrypt_receipt_record_from_access E a enc now local = Inr r)
     \<and> receipt_record t (rr_key r) = Some r \<and> same_evidence s t \<and> (\<forall>a \<in> set all. receipt_record_matches_access E r a)"
proof (induction as arbitrary: prev s)
  case (Cons a as)
  have evidence: "same_evidence (save_receipt_access_record x s) u = same_evidence s u" for x u
    by (simp add: save_receipt_access_record_def same_evidence_def)
  show ?case
  proof (cases "\<exists>enc. fetch_encrypted_receipt_json E get cp (ra_location a) = Inr (Some enc)
      \<and> is_ok (decrypt_receipt_record_from_access E a enc now local)")
    case True
    then obtain enc q where fetched: "fetch_encrypted_receipt_json E get cp (ra_location a) = Inr (Some enc)"
      and q: "decrypt_receipt_record_from_access E a enc now local = Inr q"
      by (auto simp: is_ok_iff)
    have "rt_bind (reconcile_cached_receipt_access_records E q all now) (\<lambda>_. rt_return q)
        (save_receipt_record q (save_receipt_access_record (mark_retrieved a now) s)) = (t, Inr r)"
      using Cons.prems by (simp add: fetched q rt_bind_save)
    then obtain u where run: "reconcile_cached_receipt_access_records E q all now
        (save_receipt_record q (save_receipt_access_record (mark_retrieved a now) s)) = (t, Inr u)" and r: "r = q"
      unfolding rt_bind_ok rt_return_def by blast
    note ok = reconcile_ok [OF run]
    have "receipt_record t (rr_key q) = Some q"
      using ok(1) receipts.load_save_same [of q "save_receipt_access_record (mark_retrieved a now) s"]
      by (simp add: receipt_record_def)
    moreover have "same_evidence s t"
      using ok(2) by (simp add: same_evidence_def save_receipt_access_record_def save_receipt_record_def)
    ultimately show ?thesis using ok(3) q r by auto
  next
    case False
    obtain x prev' where rest: "fetch_receipt_loop E get cp local now all none prev' as
        (save_receipt_access_record x s) = (t, Inr r)"
    proof (cases "fetch_encrypted_receipt_json E get cp (ra_location a)")
      case (Inl err)
      with Cons.prems that show ?thesis by (simp add: save_receipt_retrieval_error_def rt_bind_save)
    next
      case (Inr f)
      show ?thesis
      proof (cases f)
        case None
        with Inr Cons.prems that show ?thesis by (simp add: save_receipt_retrieval_error_def rt_bind_save)
      next
        case (Some enc)
        with False Inr obtain err where "decrypt_receipt_record_from_access E a enc now local = Inl err"
          by (cases "decrypt_receipt_record_from_access E a enc now local") (auto simp: is_ok_iff)
        with Inr Some Cons.prems that show ?thesis by (simp add: save_receipt_retrieval_error_def rt_bind_save)
      qed
    qed
    show ?thesis using Cons.IH [OF rest] by (auto simp: evidence)
  qed
qed (simp add: rt_fail_def)

lemma refresh_identity_ok:
  "refresh_identity cfg session now s = (u, Inr (access, identity)) \<Longrightarrow> st_identity_state u = Some identity"
  by (auto simp: refresh_identity_def load_session_access_and_refresh_identity_def transaction_def
      run_storage_state_transaction_def identity_defs Let_def rmap_def rbind_def split: sum.splits option.splits prod.splits)

lemma decrypted_record:
  assumes "decrypt_receipt_record_from_access E a enc now local = Inr r"
  shows "rr_key r = (ra_counterparty a, ra_path a, ra_receipt_id a)" "rr_recipient_public_key r = local"
    "rr_receipt_access_event_id r = ra_event_id a"
  using assms
  by (auto simp: decrypt_receipt_record_from_access_def rbind_Inr_iff validate_receipt_matches_access_def
      receipt_record_from_receipt_def rr_key_def split: if_splits)

lemma usable_access_of:
  "a \<in> set (usable_accesses s cp rp receipt_id) \<Longrightarrow>
     ra_counterparty a = cp \<and> ra_path a = rp \<and> ra_receipt_id a = receipt_id \<and> \<not> event_conflicted s (cp, rp, ra_event_id a)"
  by (auto simp: usable_accesses_def receipt_access_records_def receipt_access_event_is_conflicted_def)

lemma evidence_keeps:
  assumes "same_evidence s t"
  shows "event_conflicted t k = event_conflicted s k" "stored_public_key t = stored_public_key s"
  using assms by (simp_all add: same_evidence_def event_conflicted_def event_dedup_record_def stored_public_key_def)

text \<open>What a successful retrieval guarantees, \<open>u\<close> being the state after the identity refresh.\<close>

definition receipt_vouched ::
  "ext \<Rightarrow> PubkyPublicKey \<Rightarrow> PaykitReceiverPath \<Rightarrow> string \<Rightarrow> StorageState \<Rightarrow> StorageState \<Rightarrow> ReceiptRecord \<Rightarrow> bool" where
  "receipt_vouched E cp rp receipt_id u t r \<longleftrightarrow>
     stored_public_key t = Some (rr_recipient_public_key r) \<and> rr_key r = (cp, rp, receipt_id)
     \<and> receipt_record t (cp, rp, receipt_id) = Some r \<and> \<not> event_conflicted t (cp, rp, rr_receipt_access_event_id r)
     \<and> (\<forall>a \<in> set (usable_accesses u cp rp receipt_id). receipt_record_matches_access E r a)"

lemma cached_vouched:
  assumes "tables_inv u" and "receipt_record u (cp, rp, receipt_id) = Some q" and "stored_public_key u = Some local"
    and "cached_receipt E local receipt_id now (event_conflicted u (cp, rp, rr_receipt_access_event_id q)) n
           (usable_accesses u cp rp receipt_id) q u = (t, Inr r)"
  shows "receipt_vouched E cp rp receipt_id u t r"
proof -
  have q: "rr_recipient_public_key q = local" "\<not> event_conflicted u (cp, rp, rr_receipt_access_event_id q)"
    and "rt_bind (reconcile_cached_receipt_access_records E q (usable_accesses u cp rp receipt_id) now)
           (\<lambda>_. rt_return q) u = (t, Inr r)"
    using assms(4) unfolding cached_receipt_def by (simp_all add: rt_fail_def split: if_splits)
  then obtain x where run: "reconcile_cached_receipt_access_records E q (usable_accesses u cp rp receipt_id) now u = (t, Inr x)"
    and r: "r = q"
    unfolding rt_bind_ok rt_return_def by blast
  have "rr_key q = (cp, rp, receipt_id)"
    using assms(1,2) by (auto simp: tables_inv_def receipt_record_def dest: hm_wf_get)
  moreover have "receipt_record t (cp, rp, receipt_id) = Some q"
    using assms(2) reconcile_ok(1) [OF run] by (simp add: receipt_record_def)
  ultimately show ?thesis
    using reconcile_ok(3) [OF run] evidence_keeps [OF reconcile_ok(2) [OF run]] q r assms(3)
    unfolding receipt_vouched_def by simp
qed

lemma fetched_vouched:
  assumes "stored_public_key u = Some local"
    and "fetch_receipt_loop E get cp local now (usable_accesses u cp rp receipt_id) none None
           (usable_accesses u cp rp receipt_id) u = (t, Inr r)"
  shows "receipt_vouched E cp rp receipt_id u t r"
proof -
  note ok = fetch_loop_ok [OF assms(2)]
  then obtain a enc where a: "a \<in> set (usable_accesses u cp rp receipt_id)"
    "decrypt_receipt_record_from_access E a enc now local = Inr r" by blast
  from ok have "same_evidence u t" by blast
  note keeps = evidence_keeps [OF this]
  show ?thesis
    using ok decrypted_record [OF a(2)] usable_access_of [OF a(1)] assms(1) unfolding receipt_vouched_def keeps by simp
qed

lemma refresh_tables_inv: "tables_inv s \<Longrightarrow> tables_inv (fst (refresh_identity cfg session now s))"
proof -
  have "identity_step a b \<Longrightarrow> tables_inv a \<Longrightarrow> tables_inv b" for a b
    by (elim identity_stepE)
      (auto simp: identity_defs clear_defs Let_def tables_inv_def split: option.splits IdentityTransition.splits if_splits)
  then show "tables_inv s \<Longrightarrow> tables_inv (fst (refresh_identity cfg session now s))"
    using refresh_identity_step [of cfg session now s] by auto
qed

lemma retrieve_vouched:
  assumes "tables_inv s" and "retrieve_receipt E cfg session storage clock cp rp receipt_id s = (t, Inr r)"
  shows "receipt_vouched E cp rp receipt_id (fst (refresh_identity cfg session (clock 0) s)) t r"
proof -
  obtain u access identity where u: "refresh_identity cfg session (clock 0) s = (u, Inr (access, identity))"
    using assms(2) unfolding retrieve_receipt_def rt_bind_ok by fastforce
  have inv: "tables_inv u" using refresh_tables_inv [OF assms(1)] u by (metis fst_conv)
  obtain local where local: "id_public_key identity = Some local"
    using assms(2) by (cases "id_public_key identity") (auto simp: retrieve_receipt_def rt_bind_def u rt_fail_def)
  have own: "stored_public_key u = Some local"
    using refresh_identity_ok [OF u] local by (simp add: stored_public_key_def)
  have rest: "(case receipt_record u (cp, rp, receipt_id) of
       Some q \<Rightarrow> cached_receipt E local receipt_id (clock 1) (event_conflicted u (cp, rp, rr_receipt_access_event_id q))
                  (conflicted_access_count u cp rp receipt_id) (usable_accesses u cp rp receipt_id) q u = (t, Inr r)
     | None \<Rightarrow> \<exists>get none. fetch_receipt_loop E get cp local (clock 1) (usable_accesses u cp rp receipt_id) none None
                  (usable_accesses u cp rp receipt_id) u = (t, Inr r))"
    using assms(2)
    by (auto simp: retrieve_receipt_def rt_bind_def u local rt_check_def rt_read_def rt_lift_def rt_fail_def
        split: option.splits sum.splits if_splits)
  show ?thesis
  proof (cases "receipt_record u (cp, rp, receipt_id)")
    case None
    with rest show ?thesis using fetched_vouched [OF own] u by auto
  next
    case (Some q)
    with rest show ?thesis using cached_vouched [OF inv Some own] u by simp
  qed
qed

text \<open>C28: A receipt that retrieval returns, cached or fetched and decrypted just now, is the one stored for
  the requested issuer, receiver and Receipt ID, is addressed to the identity the store belongs to,
  comes from an access event without conflicting duplicates, and agrees with every usable Receipt
  Access record of that receipt in its location, key, reference, request and billing period.\<close>

theorem retrieved_receipt_sound:
  assumes "tables_inv s" and "retrieve_receipt E cfg session storage clock cp rp receipt_id s = (t, Inr r)"
  shows "stored_public_key t = Some (rr_recipient_public_key r) \<and> rr_key r = (cp, rp, receipt_id)
    \<and> receipt_record t (cp, rp, receipt_id) = Some r \<and> \<not> event_conflicted t (cp, rp, rr_receipt_access_event_id r)
    \<and> (\<forall>a \<in> set (usable_accesses (fst (refresh_identity cfg session (clock 0) s)) cp rp receipt_id).
         receipt_record_matches_access E r a)"
  using retrieve_vouched [OF assms] unfolding receipt_vouched_def .

text \<open>A receipt of the local identity, stored with an access record that is still to be reconciled.\<close>

definition sample_stored_receipt :: ReceiptRecord where
  "sample_stored_receipt =
     \<lparr>rr_issuer = sample_peer, rr_issuer_path = sample_path, rr_receipt_access_event_id = ''event'',
      rr_receipt_access_key_hash = receipt_access_key_hash (table_ext []) ''key'', rr_receipt_id = ''receipt'',
      rr_payment_reference = ''ref'', rr_payment_request_id = None, rr_billing_period = None,
      rr_recipient_public_key = sample_contact_key, rr_payment_endpoint_identifier = None, rr_amount = None,
      rr_metadata = [], rr_location = ''/pub/receipt'', rr_retrieved_at = 3\<rparr>"

definition sample_pending_access :: ReceiptAccessRecord where
  "sample_pending_access =
     \<lparr>ra_counterparty = sample_peer, ra_path = sample_path, ra_stream_item_id = 1, ra_receive_batch_id = 1,
      ra_event_id = ''event'', ra_receipt_id = ''receipt'', ra_payment_reference = ''ref'',
      ra_payment_request_id = None, ra_billing_period = None, ra_location = ''/pub/receipt'', ra_key = ''key'',
      ra_retrieval_status = RetrievalPending, ra_retrieval_attempted_at = None, ra_retrieved_at = None,
      ra_last_retrieval_error = None, ra_received_at = 2\<rparr>"

definition sample_receipt_store :: StorageState where
  "sample_receipt_store =
     save_receipt_record sample_stored_receipt (save_receipt_access_record sample_pending_access
       (save_identity_state \<lparr>id_public_key = Some sample_contact_key, id_noise_public_key = None, id_initialized_at = 1,
         id_sign_out_generation = 0\<rparr> empty_storage))"

definition sample_retrieval :: "StorageState \<times> ReceiptRecord sdk_res" where
  "sample_retrieval =
     retrieve_receipt (table_ext []) (PaykitSdkConfig_new sample_path) (Inr None) (Inr None) (\<lambda>_. 9) sample_peer sample_path
       ''receipt'' sample_receipt_store"

lemma refresh_without_session:
  "st_identity_state s = Some identity \<Longrightarrow> refresh_identity cfg (Inr None) now s = (s, Inr (None, identity))"
  by (simp add: refresh_identity_def load_session_access_and_refresh_identity_def transaction_def
      run_storage_state_transaction_def refresh_without_session_tx_def load_identity_state_def)

lemmas sample_store_defs = sample_receipt_store_def save_receipt_record_def save_receipt_access_record_def
  save_identity_state_def empty_storage_def sample_pending_access_def sample_stored_receipt_def rr_key_def

lemma sample_receipt_store_reads:
  "st_identity_state sample_receipt_store = Some \<lparr>id_public_key = Some sample_contact_key, id_noise_public_key = None,
     id_initialized_at = 1, id_sign_out_generation = 0\<rparr>"
  "receipt_record sample_receipt_store (sample_peer, sample_path, ''receipt'') = Some sample_stored_receipt"
  "usable_accesses sample_receipt_store sample_peer sample_path ''receipt'' = [sample_pending_access]"
  "event_conflicted sample_receipt_store k = False" "linked_peer sample_receipt_store k' = None"
  by (simp_all add: sample_store_defs receipt_record_def usable_accesses_def receipt_access_records_def hm_values_def
      event_conflicted_def event_dedup_record_def receipt_access_event_is_conflicted_def linked_peer_def)

theorem retrieved_receipt_sound_witness:
  "snd sample_retrieval = Inr sample_stored_receipt
   \<and> stored_public_key (fst sample_retrieval) = Some sample_contact_key
   \<and> receipt_record (fst sample_retrieval) (sample_peer, sample_path, ''receipt'') = Some sample_stored_receipt"
proof -
  have "receipt_record_matches_access (table_ext []) sample_stored_receipt sample_pending_access"
    by (simp add: receipt_record_matches_access_def sample_pending_access_def sample_stored_receipt_def)
  then have ok: "snd sample_retrieval = Inr sample_stored_receipt"
    unfolding sample_retrieval_def retrieve_receipt_def
    by (simp add: rt_defs refresh_without_session [OF sample_receipt_store_reads(1)] sample_receipt_store_reads
        ensure_peer_not_blocked_def cached_receipt_def reconcile_cached_receipt_access_records_def transaction_def
        run_storage_state_transaction_def) (simp add: sample_stored_receipt_def)
  then have run: "sample_retrieval = (fst sample_retrieval, Inr sample_stored_receipt)" by (metis prod.collapse)
  have inv: "tables_inv sample_receipt_store"
    unfolding sample_receipt_store_def
    by (intro tables_inv_saves) (simp add: tables_inv_def save_identity_state_def empty_storage_def)
  have key: "rr_recipient_public_key sample_stored_receipt = sample_contact_key" by (simp add: sample_stored_receipt_def)
  show ?thesis
    using retrieved_receipt_sound [OF inv run [unfolded sample_retrieval_def], folded sample_retrieval_def] ok key by simp
qed

text \<open>Receipt Access that was received and whose document was then not found.\<close>

definition sample_access :: ReceiptAccess where
  "sample_access =
     \<lparr>rac_version = 1, rac_kind = ReceiptAccessKind, rac_event_id = EventId ''event'', rac_receipt_id = ReceiptId ''receipt'',
      rac_payment_reference = PaymentReference ''ref'', rac_payment_request_id = None, rac_billing_period = None,
      rac_location = ''/pub/receipt'', rac_key = ReceiptDecryptionKey ''key''\<rparr>"

definition sample_signed_in :: StorageState where
  "sample_signed_in =
     save_identity_state \<lparr>id_public_key = Some sample_contact_key, id_noise_public_key = None, id_initialized_at = 1,
       id_sign_out_generation = 0\<rparr> empty_storage"

definition sample_access_indexed :: StorageState where
  "sample_access_indexed =
     save_receipt_access_record (receipt_access_record_from_access sample_peer sample_path 1 1 2 sample_access) sample_signed_in"

definition sample_missing :: "StorageState \<times> ReceiptRecord sdk_res" where
  "sample_missing =
     retrieve_receipt (table_ext []) (PaykitSdkConfig_new sample_path) (Inr None)
       (Inr (Some (\<lambda>_. Inl (missing_encrypted_receipt_error, True)))) (\<lambda>_. 9) sample_peer sample_path ''receipt''
       sample_access_indexed"

lemma sample_access_indexed_reads:
  "st_identity_state sample_access_indexed = Some \<lparr>id_public_key = Some sample_contact_key, id_noise_public_key = None,
     id_initialized_at = 1, id_sign_out_generation = 0\<rparr>"
  "receipt_record sample_access_indexed k = None"
  "usable_accesses sample_access_indexed sample_peer sample_path ''receipt'' =
     [receipt_access_record_from_access sample_peer sample_path 1 1 2 sample_access]"
  "linked_peer sample_access_indexed k' = None"
  by (simp_all add: sample_access_indexed_def sample_signed_in_def sample_store_defs receipt_record_def usable_accesses_def
      receipt_access_records_def hm_values_def event_conflicted_def event_dedup_record_def
      receipt_access_event_is_conflicted_def linked_peer_def receipt_access_record_from_access_def sample_access_def)


end
