(* ===== verification/Recovery_Runtime.thy ===== *)
theory Recovery_Runtime
  imports Link_Runtime Link_Snapshots Backup_Validation
begin

text \<open>
  Encrypted Link recovery (\<^verbatim>\<open>paykit-sdk/src/runtime/recovery.rs\<close>, \<^verbatim>\<open>domain/recovery.rs\<close>): publishing,
  observing and removing recovery markers, and the decisions about when a marker of the counterparty
  resets a link. The lemmas show that a marker is observed at most once, that markers older than the
  local progress change nothing, and that a retried publication repeats the attempt of its episode.
\<close>

section \<open>Calls outside the store\<close>

text \<open>
  What the runtime asks of the clock, the session provider and the network. Every call has its own
  position (a list of indexes), so that two calls may be answered differently. The marker and outbox
  calls are those of \<^verbatim>\<open>paykit_lib\<close> at the local session: they take the public key, the noise key and the
  receiver path of the counterparty.
\<close>

record net =
  nv_now :: "nat list \<Rightarrow> instant"
  nv_session :: "nat list \<Rightarrow> PubkySessionAccess option sdk_res"
  nv_public_storage :: "nat list \<Rightarrow> bool sdk_res"
  nv_receiver_marker :: "nat list \<Rightarrow> PublicKey \<Rightarrow> PaykitReceiverPath \<Rightarrow> PublicKey option res"
  nv_uuid_v4 :: "nat list \<Rightarrow> string"
  nv_publish_marker ::
    "nat list \<Rightarrow> PublicKey \<Rightarrow> PublicKey \<Rightarrow> PaykitReceiverPath \<Rightarrow> EncryptedLinkRecoveryMarker \<Rightarrow> unit res"
  nv_fetch_marker :: "nat list \<Rightarrow> PublicKey \<Rightarrow> PublicKey \<Rightarrow> PaykitReceiverPath \<Rightarrow> EncryptedLinkRecoveryMarker option res"
  nv_remove_marker :: "nat list \<Rightarrow> PublicKey \<Rightarrow> PublicKey \<Rightarrow> PaykitReceiverPath \<Rightarrow> unit res"
  nv_clear_outbox :: "nat list \<Rightarrow> PublicKey \<Rightarrow> PublicKey \<Rightarrow> PaykitReceiverPath \<Rightarrow> unit res"
  nv_from_std :: "nat \<Rightarrow> string + int"

text \<open>\<^verbatim>\<open>DateTime::timestamp\<close>: whole seconds.\<close>

definition timestamp :: "instant \<Rightarrow> int" where
  "timestamp t = t div 1000000000"

text \<open>\<^verbatim>\<open>let _ = ...\<close>: the result of an operation is dropped.\<close>

definition rt_ignore :: "'a rt \<Rightarrow> unit rt" where
  "rt_ignore m = rt_catch m (\<lambda>_. rt_return ()) (\<lambda>_. rt_return ())"

definition session_access_at :: "net \<Rightarrow> PaykitSdkConfig \<Rightarrow> nat list \<Rightarrow> PubkySessionAccess rt" where
  "session_access_at V cfg p = private_link_session_access cfg (nv_session V p) (nv_now V (0 # p))"

definition claim_at :: "net \<Rightarrow> PaykitSdkConfig \<Rightarrow> nat list \<Rightarrow> PubkyPublicKey \<Rightarrow> PaykitReceiverPath \<Rightarrow> PeerLinkOperationLease rt" where
  "claim_at V cfg p cp rp = claim_link_operation cfg (nv_from_std V) (nv_now V p) cp rp"

definition receiver_noise_public_key ::
  "ext \<Rightarrow> net \<Rightarrow> nat list \<Rightarrow> PubkyPublicKey \<Rightarrow> PaykitReceiverPath \<Rightarrow> PublicKey sdk_res" where
  "receiver_noise_public_key E V p owner rp =
     rbind (nv_public_storage V p) (\<lambda>available.
     if \<not> available then Inl (SdkIdentity ''no Pubky public storage available for receiver marker lookup'' None)
     else rbind (to_public_key E owner) (\<lambda>pk.
       rbind (map_err sdk_error_of_lib (nv_receiver_marker V p pk rp)) (\<lambda>found.
       case found of
         None \<Rightarrow> Inl (SdkNotFound (''Paykit receiver marker for '' @ z32 owner @ ''/'' @ receiver_path_str rp) None)
       | Some noise \<Rightarrow> Inr noise)))"

section \<open>Reports and decisions\<close>

record EncryptedLinkRecoveryMarkerReport =
  mr_counterparty :: PubkyPublicKey
  mr_path :: PaykitReceiverPath
  mr_state :: LinkedPeerState
  mr_local_attempt_id :: "string option"
  mr_local_marker_created_at :: "instant option"
  mr_local_marker_last_error :: "string option"
  mr_remote_attempt_id :: "string option"
  mr_remote_marker_observed_at :: "instant option"
  mr_remote_marker_changed :: bool

definition report_from_peer :: "LinkedPeerRecord \<Rightarrow> bool \<Rightarrow> EncryptedLinkRecoveryMarkerReport" where
  "report_from_peer peer changed =
     \<lparr>mr_counterparty = lp_counterparty peer, mr_path = lp_path peer, mr_state = lp_state peer,
      mr_local_attempt_id = lp_local_recovery_attempt_id peer,
      mr_local_marker_created_at = lp_local_recovery_marker_created_at peer,
      mr_local_marker_last_error = lp_local_recovery_marker_last_error peer,
      mr_remote_attempt_id = lp_remote_recovery_attempt_id peer,
      mr_remote_marker_observed_at = lp_remote_recovery_marker_observed_at peer, mr_remote_marker_changed = changed\<rparr>"

definition recovery_marker_report ::
  "PubkyPublicKey \<Rightarrow> PaykitReceiverPath \<Rightarrow> StorageState \<Rightarrow> EncryptedLinkRecoveryMarkerReport option" where
  "recovery_marker_report cp rp s = map_option (\<lambda>peer. report_from_peer peer False) (linked_peer s (cp, rp))"

definition encrypted_link_recovery_marker_status ::
  "PubkyPublicKey \<Rightarrow> PaykitReceiverPath \<Rightarrow> EncryptedLinkRecoveryMarkerReport option rt" where
  "encrypted_link_recovery_marker_status cp rp = rt_read (recovery_marker_report cp rp)"

fun recovery_marker_error_text :: "sdk_error \<Rightarrow> string" where
  "recovery_marker_error_text (SdkIdentity ctx _) = ctx"
| "recovery_marker_error_text (SdkStorage ctx _) = ctx"
| "recovery_marker_error_text (SdkTransport ctx _) = ctx"
| "recovery_marker_error_text (SdkPaymentAdapter ctx _) = ctx"
| "recovery_marker_error_text err = sdk_error_display err"

definition recovery_peer_or_default ::
  "LinkedPeerRecord option \<Rightarrow> PubkyPublicKey \<Rightarrow> PaykitReceiverPath \<Rightarrow> LinkedPeerRecord" where
  "recovery_peer_or_default peer cp rp =
     (case peer of
        Some p \<Rightarrow> p
      | None \<Rightarrow>
          \<lparr>lp_counterparty = cp, lp_path = rp, lp_state = NotLinked, lp_last_sync_at = None,
           lp_last_private_receive_at = None, lp_failure_count = 0, lp_local_recovery_attempt_id = None,
           lp_local_recovery_marker_created_at = None, lp_local_recovery_marker_last_error = None,
           lp_remote_recovery_attempt_id = None, lp_remote_recovery_marker_observed_at = None\<rparr>)"

definition can_publish_recovery_marker :: "LinkedPeerRecord option \<Rightarrow> bool \<Rightarrow> bool" where
  "can_publish_recovery_marker peer has_link_state \<longleftrightarrow>
     has_link_state \<or> (case peer of None \<Rightarrow> False | Some p \<Rightarrow> lp_state p \<in> {Linking, Linked, RecoveryRequiredState})"

definition parse_recovery_marker_created_at :: "ext \<Rightarrow> EncryptedLinkRecoveryMarker \<Rightarrow> instant sdk_res" where
  "parse_recovery_marker_created_at E m =
     map_err (\<lambda>err. SdkProtocol (''invalid recovery marker timestamp: '' @ err) None) (rfc3339 E (rm_created_at m))"

definition remote_recovery_marker_is_stale ::
  "LinkedPeerRecord option \<Rightarrow> EncryptedLinkStateRecord option \<Rightarrow> instant \<Rightarrow> bool" where
  "remote_recovery_marker_is_stale peer link_state created_at \<longleftrightarrow>
     (let checkpoint = Option.bind link_state (\<lambda>ls.
            if ls_link_snapshot ls \<noteq> None \<or> ls_handshake_snapshot ls \<noteq> None then Some (ls_checkpointed_at ls) else None);
          received = Option.bind peer lp_last_private_receive_at;
          not_after = (\<lambda>limit. case limit of None \<Rightarrow> False | Some at \<Rightarrow> timestamp created_at \<le> timestamp at)
      in not_after checkpoint \<or> not_after received)"

definition recovery_handshake_is_recently_in_progress ::
  "(nat \<Rightarrow> string + int) \<Rightarrow> EncryptedLinkStateRecord option \<Rightarrow> instant \<Rightarrow> nat \<Rightarrow> bool" where
  "recovery_handshake_is_recently_in_progress from_std link_state created_at window =
     (case link_state of
        None \<Rightarrow> False
      | Some ls \<Rightarrow>
          if ls_handshake_snapshot ls = None then False
          else if timestamp created_at \<le> timestamp (ls_checkpointed_at ls) then True
          else case from_std window of Inl _ \<Rightarrow> False | Inr w \<Rightarrow> created_at \<le> ls_checkpointed_at ls + w)"

definition local_recovery_marker_belongs_to_current_episode :: "LinkedPeerRecord \<Rightarrow> bool" where
  "local_recovery_marker_belongs_to_current_episode peer =
     (case lp_local_recovery_marker_created_at peer of
        None \<Rightarrow> False
      | Some at \<Rightarrow> (case lp_last_sync_at peer of None \<Rightarrow> True | Some started \<Rightarrow> at \<ge> started))"

section \<open>Publishing\<close>

definition recovery_marker_report_or_default ::
  "PubkyPublicKey \<Rightarrow> PaykitReceiverPath \<Rightarrow> bool \<Rightarrow> EncryptedLinkRecoveryMarkerReport rt" where
  "recovery_marker_report_or_default cp rp changed =
     rt_read (\<lambda>s. report_from_peer (recovery_peer_or_default (linked_peer s (cp, rp)) cp rp) changed)"

definition save_local_recovery_marker_last_error ::
  "PubkyPublicKey \<Rightarrow> PaykitReceiverPath \<Rightarrow> string option \<Rightarrow> unit rt" where
  "save_local_recovery_marker_last_error cp rp err =
     rt_save (\<lambda>s. case linked_peer s (cp, rp) of
                     None \<Rightarrow> s
                   | Some peer \<Rightarrow> save_linked_peer (peer\<lparr>lp_local_recovery_marker_last_error := err\<rparr>) s)"

definition has_local_recovery_marker :: "PubkyPublicKey \<Rightarrow> PaykitReceiverPath \<Rightarrow> bool rt" where
  "has_local_recovery_marker cp rp =
     rt_read (\<lambda>s. Option.bind (linked_peer s (cp, rp)) lp_local_recovery_attempt_id \<noteq> None)"

text \<open>The marker to publish: the one of the current episode unless a new attempt is forced, or a fresh one.\<close>

definition reusable_marker ::
  "ext \<Rightarrow> bool \<Rightarrow> LinkedPeerRecord \<Rightarrow> (EncryptedLinkRecoveryMarker \<times> instant) option res" where
  "reusable_marker E force peer =
     (if \<not> force \<and> lp_state peer = RecoveryRequiredState \<and> local_recovery_marker_belongs_to_current_episode peer
      then case (lp_local_recovery_attempt_id peer, lp_local_recovery_marker_created_at peer) of
             (Some attempt, Some at) \<Rightarrow>
               rmap (\<lambda>m. Some (m, at)) (EncryptedLinkRecoveryMarker_new E attempt (rfc3339_secs E at))
           | _ \<Rightarrow> Inr None
      else Inr None)"

definition choose_marker ::
  "ext \<Rightarrow> string \<Rightarrow> bool \<Rightarrow> instant \<Rightarrow> LinkedPeerRecord \<Rightarrow> (EncryptedLinkRecoveryMarker \<times> instant) res" where
  "choose_marker E fresh force now peer =
     rbind (reusable_marker E force peer) (\<lambda>reused.
     case reused of
       Some m \<Rightarrow> Inr m
     | None \<Rightarrow> rmap (\<lambda>m. (m, now)) (EncryptedLinkRecoveryMarker_new E fresh (rfc3339_secs E now)))"

definition record_marker_tx ::
  "ext \<Rightarrow> string \<Rightarrow> bool \<Rightarrow> instant \<Rightarrow> PubkyPublicKey \<Rightarrow> PaykitReceiverPath \<Rightarrow> (sdk_error, EncryptedLinkRecoveryMarker) tx" where
  "record_marker_tx E fresh force now cp rp s =
     (let peer = recovery_peer_or_default (linked_peer s (cp, rp)) cp rp in
      if lp_state peer \<noteq> RecoveryRequiredState
      then Inl (SdkPolicy (''cannot publish Encrypted Link recovery marker unless counterparty '' @ z32 cp
             @ '' is recovery-required'') None)
      else if \<not> can_publish_recovery_marker (Some peer) (encrypted_link_state s (cp, rp) \<noteq> None)
      then Inl (SdkPolicy (''cannot publish Encrypted Link recovery marker without existing private link state for counterparty ''
             @ z32 cp) None)
      else rbind (map_err sdk_error_of_lib (choose_marker E fresh force now peer)) (\<lambda>(marker, at).
        Inr (save_linked_peer (peer\<lparr>lp_local_recovery_attempt_id := Some (rm_attempt_id marker),
               lp_local_recovery_marker_created_at := Some at\<rparr>) s, marker)))"

definition publish_local_recovery_marker_with_session ::
  "ext \<Rightarrow> net \<Rightarrow> PaykitSdkConfig \<Rightarrow> nat list \<Rightarrow> PubkyPublicKey \<Rightarrow> PaykitReceiverPath \<Rightarrow> bool \<Rightarrow>
   EncryptedLinkRecoveryMarkerReport rt" where
  "publish_local_recovery_marker_with_session E V cfg p cp rp force =
     (if cf_encrypted_link_recovery_markers cfg = MarkersDisabled then recovery_marker_report_or_default cp rp False
      else
      rt_bind (rt_lift (to_public_key E cp)) (\<lambda>remote.
      rt_bind (rt_lift (receiver_noise_public_key E V (0 # p) cp rp)) (\<lambda>noise.
      rt_bind (transaction (record_marker_tx E (nv_uuid_v4 V p) force (nv_now V p) cp rp)) (\<lambda>marker.
      case nv_publish_marker V p remote noise rp marker of
        Inl err \<Rightarrow>
          rt_bind (save_local_recovery_marker_last_error cp rp (Some (sdk_error_display (sdk_error_of_lib err)))) (\<lambda>_.
          rt_fail (sdk_error_of_lib err))
      | Inr _ \<Rightarrow>
          rt_bind (save_local_recovery_marker_last_error cp rp None) (\<lambda>_.
          recovery_marker_report_or_default cp rp False)))))"

definition publish_local_recovery_marker_if_possible ::
  "ext \<Rightarrow> net \<Rightarrow> PaykitSdkConfig \<Rightarrow> nat list \<Rightarrow> PubkyPublicKey \<Rightarrow> PaykitReceiverPath \<Rightarrow> bool \<Rightarrow> unit rt" where
  "publish_local_recovery_marker_if_possible E V cfg p cp rp force =
     rt_catch (session_access_at V cfg (0 # p))
       (\<lambda>err. rt_ignore (save_local_recovery_marker_last_error cp rp (Some (recovery_marker_error_text err))))
       (\<lambda>_. rt_catch (publish_local_recovery_marker_with_session E V cfg (1 # p) cp rp force)
          (\<lambda>err. rt_ignore (save_local_recovery_marker_last_error cp rp (Some (sdk_error_display err))))
          (\<lambda>_. rt_return ()))"

definition mark_recovery_required_for_marker_with_lease ::
  "PubkyPublicKey \<Rightarrow> PeerLinkOperationLease \<Rightarrow> instant \<Rightarrow> (sdk_error, bool) tx" where
  "mark_recovery_required_for_marker_with_lease cp lease now s =
     rbind (require_peer_link_operation_lease s lease) (\<lambda>_.
     if \<not> can_publish_recovery_marker (linked_peer s (cp, le_path lease)) (encrypted_link_state s (cp, le_path lease) \<noteq> None)
     then Inl (SdkPolicy (''cannot publish Encrypted Link recovery marker without existing private link state for counterparty ''
            @ z32 cp) None)
     else mark_recovery_required_for_marker_in_transaction cp (le_path lease) now s)"

definition publish_encrypted_link_recovery_marker_with_claim ::
  "ext \<Rightarrow> net \<Rightarrow> PaykitSdkConfig \<Rightarrow> nat list \<Rightarrow> PubkyPublicKey \<Rightarrow> PeerLinkOperationLease \<Rightarrow>
   EncryptedLinkRecoveryMarkerReport rt" where
  "publish_encrypted_link_recovery_marker_with_claim E V cfg p cp lease =
     rt_bind (transaction (mark_recovery_required_for_marker_with_lease cp lease (nv_now V p))) (\<lambda>new_episode.
     publish_local_recovery_marker_with_session E V cfg (0 # p) cp (le_path lease) new_episode)"

definition publish_encrypted_link_recovery_marker ::
  "ext \<Rightarrow> net \<Rightarrow> PaykitSdkConfig \<Rightarrow> nat list \<Rightarrow> PubkyPublicKey \<Rightarrow> PaykitReceiverPath \<Rightarrow> EncryptedLinkRecoveryMarkerReport rt" where
  "publish_encrypted_link_recovery_marker E V cfg p cp rp =
     rt_bind (rt_lift (ensure_recovery_marker_publishing_enabled cfg)) (\<lambda>_.
     rt_bind (session_access_at V cfg (0 # p)) (\<lambda>_.
     rt_bind (claim_at V cfg (1 # p) cp rp) (\<lambda>lease.
     finish_link_operation lease (publish_encrypted_link_recovery_marker_with_claim E V cfg (2 # p) cp lease))))"

section \<open>Observing\<close>

definition mark_remote_recovery_marker_observed_with_lease ::
  "(nat \<Rightarrow> string + int) \<Rightarrow> PaykitSdkConfig \<Rightarrow> PubkyPublicKey \<Rightarrow> string \<Rightarrow> instant \<Rightarrow> PeerLinkOperationLease \<Rightarrow> instant \<Rightarrow>
   (sdk_error, bool) tx" where
  "mark_remote_recovery_marker_observed_with_lease from_std cfg cp attempt created_at lease now s =
     rbind (require_peer_link_operation_lease s lease) (\<lambda>_.
     let rp = le_path lease; existing = linked_peer s (cp, rp); link_state = encrypted_link_state s (cp, rp);
         peer = recovery_peer_or_default existing cp rp
     in if recovery_handshake_is_recently_in_progress from_std link_state created_at (cf_peer_link_operation_lease_timeout cfg)
        then Inr (s, False)
        else if remote_recovery_marker_is_stale existing link_state created_at then Inr (s, False)
        else if \<not> can_publish_recovery_marker existing (link_state \<noteq> None) then Inr (s, False)
        else if lp_remote_recovery_attempt_id peer = Some attempt then Inr (s, False)
        else if lp_state peer = Blocked then Inl (SdkPolicy (''counterparty '' @ z32 cp @ '' is blocked'') None)
        else rbind (mark_recovery_required_in_transaction cp rp now s) (\<lambda>(s1, _).
          let peer1 = recovery_peer_or_default (linked_peer s1 (cp, rp)) cp rp
          in Inr (save_linked_peer (peer1\<lparr>lp_remote_recovery_attempt_id := Some attempt,
                    lp_remote_recovery_marker_observed_at := Some now, lp_last_sync_at := Some now\<rparr>) s1, True)))"

text \<open>The work under the lease: recording the marker and, if it is new, emptying the own outbox.\<close>

definition observe_marker_with_claim ::
  "net \<Rightarrow> PaykitSdkConfig \<Rightarrow> nat list \<Rightarrow> PubkyPublicKey \<Rightarrow> PublicKey \<Rightarrow> PublicKey \<Rightarrow> string \<Rightarrow> instant \<Rightarrow>
   PeerLinkOperationLease \<Rightarrow> bool rt" where
  "observe_marker_with_claim V cfg p cp remote noise attempt created_at lease =
     rt_bind (transaction (mark_remote_recovery_marker_observed_with_lease (nv_from_std V) cfg cp attempt created_at lease
                (nv_now V p))) (\<lambda>changed.
     if changed
     then rt_bind (rt_lift (map_err sdk_error_of_lib (nv_clear_outbox V p remote noise (le_path lease)))) (\<lambda>_. rt_return True)
     else rt_return False)"

definition observe_remote_recovery_marker_with_session ::
  "ext \<Rightarrow> net \<Rightarrow> PaykitSdkConfig \<Rightarrow> nat list \<Rightarrow> PubkyPublicKey \<Rightarrow> PaykitReceiverPath \<Rightarrow> EncryptedLinkRecoveryMarkerReport rt" where
  "observe_remote_recovery_marker_with_session E V cfg p cp rp =
     (if cf_encrypted_link_recovery_markers cfg = MarkersDisabled then recovery_marker_report_or_default cp rp False
      else
      rt_bind (rt_lift (nv_public_storage V p)) (\<lambda>available.
      if \<not> available
      then rt_fail (SdkIdentity ''no Pubky public storage available for recovery marker lookup'' None)
      else
      rt_bind (rt_lift (to_public_key E cp)) (\<lambda>remote.
      rt_bind (rt_lift (receiver_noise_public_key E V (0 # p) cp rp)) (\<lambda>noise.
      rt_bind (rt_lift (map_err sdk_error_of_lib (nv_fetch_marker V p remote noise rp))) (\<lambda>found.
      case found of
        None \<Rightarrow> recovery_marker_report_or_default cp rp False
      | Some marker \<Rightarrow>
          rt_bind (rt_lift (parse_recovery_marker_created_at E marker)) (\<lambda>created_at.
          rt_bind (claim_at V cfg (1 # p) cp rp) (\<lambda>lease.
          rt_bind (finish_link_operation lease
                     (observe_marker_with_claim V cfg (2 # p) cp remote noise (rm_attempt_id marker) created_at lease)) (\<lambda>changed.
          recovery_marker_report_or_default cp rp changed))))))))"

definition observe_remote_recovery_marker_for_cached_private_state ::
  "ext \<Rightarrow> net \<Rightarrow> PaykitSdkConfig \<Rightarrow> nat list \<Rightarrow> PubkyPublicKey \<Rightarrow> PaykitReceiverPath \<Rightarrow> bool \<Rightarrow> unit rt" where
  "observe_remote_recovery_marker_for_cached_private_state E V cfg p cp rp has_session =
     (if cf_encrypted_link_recovery_markers cfg = MarkersDisabled then rt_return ()
      else rt_bind (if has_session then rt_return () else rt_bind (session_access_at V cfg (0 # p)) (\<lambda>_. rt_return ())) (\<lambda>_.
           rt_bind (observe_remote_recovery_marker_with_session E V cfg (1 # p) cp rp) (\<lambda>_. rt_return ())))"

definition observe_encrypted_link_recovery_marker ::
  "ext \<Rightarrow> net \<Rightarrow> PaykitSdkConfig \<Rightarrow> nat list \<Rightarrow> PubkyPublicKey \<Rightarrow> PaykitReceiverPath \<Rightarrow> EncryptedLinkRecoveryMarkerReport rt" where
  "observe_encrypted_link_recovery_marker E V cfg p cp rp =
     rt_bind (session_access_at V cfg (0 # p)) (\<lambda>_. observe_remote_recovery_marker_with_session E V cfg (1 # p) cp rp)"

section \<open>Removing\<close>

definition clear_local_marker :: "PubkyPublicKey \<Rightarrow> PaykitReceiverPath \<Rightarrow> unit rt" where
  "clear_local_marker cp rp =
     rt_save (\<lambda>s. case linked_peer s (cp, rp) of
                     None \<Rightarrow> s
                   | Some peer \<Rightarrow>
                       save_linked_peer (peer\<lparr>lp_local_recovery_attempt_id := None,
                         lp_local_recovery_marker_created_at := None, lp_local_recovery_marker_last_error := None\<rparr>) s)"

definition remove_encrypted_link_recovery_marker ::
  "ext \<Rightarrow> net \<Rightarrow> PaykitSdkConfig \<Rightarrow> nat list \<Rightarrow> PubkyPublicKey \<Rightarrow> PaykitReceiverPath \<Rightarrow> EncryptedLinkRecoveryMarkerReport rt" where
  "remove_encrypted_link_recovery_marker E V cfg p cp rp =
     rt_bind (session_access_at V cfg (0 # p)) (\<lambda>_.
     rt_bind (rt_lift (to_public_key E cp)) (\<lambda>remote.
     rt_bind (rt_lift (receiver_noise_public_key E V (1 # p) cp rp)) (\<lambda>noise.
     rt_bind (rt_lift (map_err sdk_error_of_lib (nv_remove_marker V p remote noise rp))) (\<lambda>_.
     rt_bind (clear_local_marker cp rp) (\<lambda>_.
     recovery_marker_report_or_default cp rp False)))))"

definition remove_local_recovery_marker_if_recorded ::
  "ext \<Rightarrow> net \<Rightarrow> PaykitSdkConfig \<Rightarrow> nat list \<Rightarrow> PubkyPublicKey \<Rightarrow> PaykitReceiverPath \<Rightarrow> unit rt" where
  "remove_local_recovery_marker_if_recorded E V cfg p cp rp =
     (let note_error = (\<lambda>text. rt_ignore (save_local_recovery_marker_last_error cp rp (Some text))) in
      rt_catch (session_access_at V cfg (0 # p))
        (\<lambda>err. rt_bind (has_local_recovery_marker cp rp) (\<lambda>has.
           if has then note_error (recovery_marker_error_text err) else rt_return ()))
        (\<lambda>_. rt_bind (has_local_recovery_marker cp rp) (\<lambda>has.
           if \<not> has then rt_return ()
           else case to_public_key E cp of
             Inl _ \<Rightarrow> note_error ''invalid counterparty Pubky public key''
           | Inr remote \<Rightarrow>
               (case receiver_noise_public_key E V (1 # p) cp rp of
                  Inl err \<Rightarrow> note_error (sdk_error_display err)
                | Inr noise \<Rightarrow>
                    (case nv_remove_marker V p remote noise rp of
                       Inl err \<Rightarrow> note_error (paykit_error_display err)
                     | Inr _ \<Rightarrow> clear_local_marker cp rp)))))"

section \<open>Link states stay coherent\<close>

text \<open>The tables are keyed by their records and every link state is coherent, whatever leases are out.\<close>

definition links_ok :: "StorageState \<Rightarrow> bool" where
  "links_ok s \<longleftrightarrow> tables_inv s \<and> (\<forall>k ls. encrypted_link_state s k = Some ls \<longrightarrow> link_coherent ls)"

lemma links_ok_trans: "peer_trans lifts k s t \<Longrightarrow> links_ok s \<Longrightarrow> links_ok t"
proof -
  assume tr: "peer_trans lifts k s t" and ok: "links_ok s"
  have "link_coherent ls" if "encrypted_link_state t j = Some ls" for j ls
  proof (cases "encrypted_link_state t j = encrypted_link_state s j")
    case True
    with that have "encrypted_link_state s j = Some ls" by simp
    with ok show ?thesis unfolding links_ok_def by blast
  next
    case False
    then have "j = k" using peer_trans_link(1) [OF tr] by blast
    with False that show ?thesis using peer_trans_link(2) [OF tr] by auto
  qed
  with peer_trans_tables [OF tr] ok show "links_ok t" by (auto simp: links_ok_def)
qed

lemma links_ok_step: "link_or_unblock_step s t \<Longrightarrow> links_ok s \<Longrightarrow> links_ok t"
  using link_or_unblock_trans [of s t] links_ok_trans by (auto simp: links_ok_def)

lemma links_ok_identity: "links_ok s \<Longrightarrow> identity_step s t \<Longrightarrow> links_ok t"
proof -
  assume ok: "links_ok s" and step: "identity_step s t"
  have "st_encrypted_link_states t \<in> {st_encrypted_link_states s, []}" "tables_inv t"
    using step ok
    by (auto elim!: identity_stepE simp: links_ok_def identity_defs clear_defs Let_def tables_inv_def
        split: option.splits IdentityTransition.splits if_splits)
  with ok show "links_ok t" by (auto simp: links_ok_def encrypted_link_state_def)
qed

lemma links_ok_save_peer: "links_ok s \<Longrightarrow> links_ok (save_linked_peer p s)"
  by (simp add: links_ok_def tables_inv_saves)

lemma links_ok_leases:
  "links_ok s \<Longrightarrow> links_ok (fst (claim_peer_link_operation cp rp now until s))"
  "links_ok s \<Longrightarrow> links_ok (release_peer_link_operation cp rp i s)"
  by (simp_all add: links_ok_def claim_peer_link_operation_def release_peer_link_operation_def tables_inv_def
      encrypted_link_state_def Let_def split: option.splits)

section \<open>What the drivers keep\<close>

text \<open>
  A property of the store that identity changes, the steps of the link state machine and the saving of
  peer records keep is kept by the marker drivers, whether or not they succeed; the drivers that claim
  a lease need that claiming and releasing keep it too.
\<close>

lemma rt_keeps_ignore [rt_rules]: "rt_keeps P m \<Longrightarrow> rt_keeps P (rt_ignore m)"
  unfolding rt_ignore_def by (intro rt_rules)

lemma rt_keeps_report [rt_rules]: "rt_keeps P (recovery_marker_report_or_default cp rp b)"
  "rt_keeps P (has_local_recovery_marker cp rp)"
  unfolding recovery_marker_report_or_default_def has_local_recovery_marker_def by (intro rt_rules)+

locale link_step_invariant =
  fixes P :: "StorageState \<Rightarrow> bool"
  assumes identity_kept: "P s \<Longrightarrow> identity_step s t \<Longrightarrow> P t"
    and link_kept: "P s \<Longrightarrow> link_or_unblock_step s t \<Longrightarrow> P t"
    and peer_kept: "P s \<Longrightarrow> P (save_linked_peer peer s)"
begin

lemma keeps_session [rt_rules]: "rt_keeps P (session_access_at V cfg p)"
  unfolding session_access_at_def by (rule rt_keeps_guards(1) [of P, OF identity_kept])

lemma keeps_marker_saves [rt_rules]:
  "rt_keeps P (save_local_recovery_marker_last_error cp rp err)" "rt_keeps P (clear_local_marker cp rp)"
  unfolding save_local_recovery_marker_last_error_def clear_local_marker_def
  by (intro rt_keeps_save, simp add: peer_kept split: option.split)+

lemma keeps_record_marker [rt_rules]: "rt_keeps P (transaction (record_marker_tx E fresh force now cp rp))"
  by (rule rt_keeps_transaction)
    (auto simp: record_marker_tx_def Let_def rbind_Inr_iff peer_kept split: if_splits)

lemma keeps_publish [rt_rules]: "rt_keeps P (publish_local_recovery_marker_with_session E V cfg p cp rp force)"
  unfolding publish_local_recovery_marker_with_session_def by (intro rt_rules)

lemma keeps_publish_if_possible [rt_rules]: "rt_keeps P (publish_local_recovery_marker_if_possible E V cfg p cp rp force)"
  unfolding publish_local_recovery_marker_if_possible_def by (intro rt_rules)

lemma mark_kept: "mark_recovery_required_in_transaction_inner cp rp now bump s = Inr (t, b) \<Longrightarrow> P s \<Longrightarrow> P t"
  using link_kept link_or_unblock_step.link link_step.mark_recovery by blast

lemma keeps_marks [rt_rules]:
  "rt_keeps P (transaction (mark_recovery_required_for_marker_with_lease cp lease now))"
  "rt_keeps P (transaction (mark_remote_recovery_marker_observed_with_lease from_std cfg cp attempt at lease now))"
  by (rule rt_keeps_transaction;
      auto simp: mark_recovery_required_for_marker_with_lease_def mark_recovery_required_for_marker_in_transaction_def
        mark_remote_recovery_marker_observed_with_lease_def mark_recovery_required_in_transaction_def Let_def
        rbind_Inr_iff split: if_splits intro!: peer_kept intro: mark_kept)+

lemma keeps_remove [rt_rules]:
  "rt_keeps P (remove_encrypted_link_recovery_marker E V cfg p cp rp)"
  "rt_keeps P (remove_local_recovery_marker_if_recorded E V cfg p cp rp)"
  unfolding remove_encrypted_link_recovery_marker_def remove_local_recovery_marker_if_recorded_def Let_def
  by (intro rt_rules)+

end

locale link_operation_invariant = link_step_invariant +
  assumes claim_kept: "P s \<Longrightarrow> P (fst (claim_peer_link_operation cp rp now until s))"
    and release_kept: "P s \<Longrightarrow> P (release_peer_link_operation cp rp i s)"
begin

lemma keeps_finish [rt_rules]: "rt_keeps P m \<Longrightarrow> rt_keeps P (finish_link_operation lease m)"
  by (auto simp: rt_keeps_def finish_link_operation_def release_kept split: prod.splits)

lemma keeps_claim [rt_rules]: "rt_keeps P (claim_at V cfg p cp rp)"
  unfolding claim_at_def claim_link_operation_def
  by (intro rt_rules rt_keeps_transaction) (metis claim_kept fst_conv sum.inject(2))

lemma keeps_recovery [rt_rules]:
  "rt_keeps P (publish_encrypted_link_recovery_marker E V cfg p cp rp)"
  "rt_keeps P (observe_remote_recovery_marker_with_session E V cfg p cp rp)"
  unfolding publish_encrypted_link_recovery_marker_def publish_encrypted_link_recovery_marker_with_claim_def
    observe_remote_recovery_marker_with_session_def observe_marker_with_claim_def
  by (intro rt_rules)+

end

interpretation coherent: link_operation_invariant links_ok
  by unfold_locales (blast intro: links_ok_identity links_ok_step links_ok_save_peer links_ok_leases)+

section \<open>Markers of the counterparty\<close>

lemma mark_recovery_effect:
  assumes "tables_inv s" and "mark_recovery_required_in_transaction_inner cp rp now bump s = Inr (t, b)"
  shows "\<exists>peer. linked_peer t (cp, rp) = Some peer \<and> lp_state peer = RecoveryRequiredState"
    and "pred_option link_clean (encrypted_link_state t (cp, rp))" and "\<not> peer_blocked s (cp, rp)"
proof -
  show "\<not> peer_blocked s (cp, rp)"
    using assms(2) by (auto simp: mark_recovery_required_in_transaction_inner_def Let_def rbind_Inr_iff ensure_not_blocked_iff)
  let ?r = "linked_peer_or_default s cp rp"
  let ?new = "lp_state ?r \<noteq> RecoveryRequiredState"
  define p where "p = ?r\<lparr>lp_state := RecoveryRequiredState,
      lp_last_sync_at := (if ?new \<or> lp_last_sync_at ?r = None then Some now else lp_last_sync_at ?r),
      lp_failure_count := (if ?new \<or> bump then sat_inc (lp_failure_count ?r) else lp_failure_count ?r)\<rparr>"
  have p: "lp_key p = lp_key ?r" "lp_state p = RecoveryRequiredState" by (simp_all add: p_def)
  have t: "t = clear_encrypted_link_state cp rp now (save_linked_peer p s)"
    using assms(2)
    unfolding mark_recovery_required_in_transaction_inner_def Let_def rbind_Inr_iff clear_encrypted_link_state_def p_def
    by auto
  have key: "lp_key p = (cp, rp)" using p(1) linked_peer_or_default_key [OF assms(1)] by simp
  show "\<exists>peer. linked_peer t (cp, rp) = Some peer \<and> lp_state peer = RecoveryRequiredState"
    using p key by (auto simp: t clear_encrypted_link_state_def peers.load_save split: option.split)
  show "pred_option link_clean (encrypted_link_state t (cp, rp))"
  proof (cases "encrypted_link_state s (cp, rp)")
    case (Some ls)
    have "ls_path ls = rp" using link_state_key [OF assms(1) Some] by simp
    with Some show ?thesis
      by (simp add: t clear_encrypted_link_state_def links.load_save link_clean_def ls_key_def)
  qed (simp add: t clear_encrypted_link_state_def)
qed

lemma recovery_peer_key:
  "tables_inv s \<Longrightarrow> lp_key (recovery_peer_or_default (linked_peer s (cp, rp)) cp rp) = (cp, rp)"
  by (auto simp: recovery_peer_or_default_def tables_inv_def linked_peer_def dest: hm_wf_get split: option.splits)
     (simp add: lp_key_def)

text \<open>What the transaction decides, for a changed and for an unchanged peer.\<close>

lemma observed_cases:
  assumes "tables_inv s"
    and "mark_remote_recovery_marker_observed_with_lease from_std cfg cp attempt created_at lease now s = Inr (t, changed)"
  shows "\<not> changed \<Longrightarrow> t = s"
    and "changed \<Longrightarrow> \<exists>peer. linked_peer t (cp, le_path lease) = Some peer \<and> lp_state peer = RecoveryRequiredState
          \<and> lp_remote_recovery_attempt_id peer = Some attempt"
    and "changed \<Longrightarrow> pred_option link_clean (encrypted_link_state t (cp, le_path lease))"
    and "changed \<Longrightarrow> \<not> remote_recovery_marker_is_stale (linked_peer s (cp, le_path lease))
          (encrypted_link_state s (cp, le_path lease)) created_at"
proof -
  let ?rp = "le_path lease"
  show "\<not> changed \<Longrightarrow> t = s" "changed \<Longrightarrow> \<not> remote_recovery_marker_is_stale (linked_peer s (cp, ?rp))
          (encrypted_link_state s (cp, ?rp)) created_at"
    using assms(2)
    by (auto simp: mark_remote_recovery_marker_observed_with_lease_def rbind_Inr_iff Let_def split: if_splits)
  assume changed
  then obtain s1 b where mark: "mark_recovery_required_in_transaction cp ?rp now s = Inr (s1, b)"
    and t: "t = save_linked_peer ((recovery_peer_or_default (linked_peer s1 (cp, ?rp)) cp ?rp)
      \<lparr>lp_remote_recovery_attempt_id := Some attempt, lp_remote_recovery_marker_observed_at := Some now,
       lp_last_sync_at := Some now\<rparr>) s1"
    using assms(2)
    by (auto simp: mark_remote_recovery_marker_observed_with_lease_def rbind_Inr_iff Let_def split: if_splits)
  note effect = mark_recovery_effect [OF assms(1) mark [unfolded mark_recovery_required_in_transaction_def]]
  obtain peer where peer: "linked_peer s1 (cp, ?rp) = Some peer" "lp_state peer = RecoveryRequiredState"
    using effect(1) by blast
  have "tables_inv s1"
    using peer_trans_tables [OF mark_recovery_trans [OF assms(1)]] mark assms(1)
    by (auto simp: mark_recovery_required_in_transaction_def)
  then have "lp_key peer = (cp, ?rp)" using peer(1) by (auto simp: tables_inv_def linked_peer_def dest: hm_wf_get)
  with peer show "\<exists>peer. linked_peer t (cp, ?rp) = Some peer \<and> lp_state peer = RecoveryRequiredState
          \<and> lp_remote_recovery_attempt_id peer = Some attempt"
    by (simp add: t recovery_peer_or_default_def peers.load_save lp_key_def)
  show "pred_option link_clean (encrypted_link_state t (cp, ?rp))" using effect(2) by (simp add: t)
qed

lemma observed_sync:
  assumes "tables_inv s"
    and "mark_remote_recovery_marker_observed_with_lease from_std cfg cp attempt created_at lease now s = Inr (t, True)"
  shows "map_option lp_last_sync_at (linked_peer t (cp, le_path lease)) = Some (Some now)" and "tables_inv t"
proof -
  let ?rp = "le_path lease"
  obtain s1 b where mark: "mark_recovery_required_in_transaction_inner cp ?rp now True s = Inr (s1, b)"
    and t: "t = save_linked_peer ((recovery_peer_or_default (linked_peer s1 (cp, ?rp)) cp ?rp)
      \<lparr>lp_remote_recovery_attempt_id := Some attempt, lp_remote_recovery_marker_observed_at := Some now,
       lp_last_sync_at := Some now\<rparr>) s1"
    using assms(2)
    by (auto simp: mark_remote_recovery_marker_observed_with_lease_def mark_recovery_required_in_transaction_def
        rbind_Inr_iff Let_def split: if_splits)
  have inv: "tables_inv s1" by (rule peer_trans_tables [OF mark_recovery_trans [OF assms(1) mark] assms(1)])
  then show "tables_inv t" by (simp add: t tables_inv_saves)
  show "map_option lp_last_sync_at (linked_peer t (cp, ?rp)) = Some (Some now)"
    using recovery_peer_key [OF inv, of cp ?rp] by (simp add: t peers.load_save lp_key_def)
qed

lemma observed_again:
  assumes "linked_peer t (cp, le_path lease) = Some peer" and "lp_remote_recovery_attempt_id peer = Some attempt"
    and "mark_remote_recovery_marker_observed_with_lease from_std cfg cp attempt created_at lease now t = Inr (u, b)"
  shows "u = t \<and> \<not> b"
  using assms
  by (auto simp: mark_remote_recovery_marker_observed_with_lease_def rbind_Inr_iff Let_def recovery_peer_or_default_def
      split: if_splits)

lemma stale_iff:
  "\<not> remote_recovery_marker_is_stale peer ls at \<longleftrightarrow>
     (\<forall>l. ls = Some l \<and> \<not> link_clean l \<longrightarrow> timestamp (ls_checkpointed_at l) < timestamp at)
     \<and> (\<forall>p received. peer = Some p \<and> lp_last_private_receive_at p = Some received \<longrightarrow> timestamp received < timestamp at)"
  by (cases ls; cases peer)
     (auto simp: remote_recovery_marker_is_stale_def link_clean_def Let_def split: option.splits)


text \<open>A peer with a handshake under way whose counterparty starts over five seconds later.\<close>

definition sample_observed :: "sdk_error + StorageState \<times> bool" where
  "sample_observed =
     mark_remote_recovery_marker_observed_with_lease (\<lambda>_. Inl ''out of range'') (PaykitSdkConfig_new sample_path) sample_peer
       ''attempt'' 5000000000 sample_lease 3 sample_handshaking"

definition sample_recovering :: StorageState where
  "sample_recovering = (case sample_observed of Inl _ \<Rightarrow> empty_storage | Inr (t, _) \<Rightarrow> t)"

definition sample_linking_peer :: LinkedPeerRecord where
  "sample_linking_peer = (default_linked_peer sample_peer sample_path)\<lparr>lp_state := Linking, lp_last_sync_at := Some 1\<rparr>"

lemma sample_handshaking_reads:
  "require_peer_link_operation_lease sample_handshaking sample_lease = Inr ()"
  "linked_peer sample_handshaking (sample_peer, sample_path) = Some sample_linking_peer"
  by code_simp+

lemma case_ok_state: "x = Inr (t, b) \<Longrightarrow> x = Inr (case x of Inl e \<Rightarrow> d | Inr (u, _) \<Rightarrow> u, b)"
  by simp

lemma sample_observed_changed: "sample_observed = Inr (sample_recovering, True)"
proof -
  obtain t where "sample_observed = Inr (t, True)"
    unfolding sample_observed_def mark_remote_recovery_marker_observed_with_lease_def sample_handshaking_reads(1)
    by (simp add: sample_lease_def sample_handshaking_reads(2) sample_handshaking_link handshake_state_def
        recovery_handshake_is_recently_in_progress_def remote_recovery_marker_is_stale_def timestamp_def
        can_publish_recovery_marker_def recovery_peer_or_default_def sample_linking_peer_def default_linked_peer_def
        mark_recovery_required_in_transaction_def mark_recovery_required_in_transaction_inner_def
        linked_peer_or_default_def ensure_not_blocked_def Let_def)
  then show ?thesis unfolding sample_recovering_def by (rule case_ok_state)
qed

lemma sample_handshaking_tables: "tables_inv sample_handshaking"
  using sample_handshaking_inv by (simp add: storage_inv_def)


section \<open>Own markers\<close>

lemma marker_new_again:
  assumes "uuid_roundtrip E" and "EncryptedLinkRecoveryMarker_new E aid at = Inr m"
  shows "EncryptedLinkRecoveryMarker_new E (rm_attempt_id m) at = Inr m"
  using assms by (auto simp: EncryptedLinkRecoveryMarker_new_def result_iffs uuid_canonical_fixed)

lemma chosen_marker:
  assumes "choose_marker E fresh force now peer = Inr (m, at)" and "uuid_roundtrip E"
  shows "EncryptedLinkRecoveryMarker_new E (rm_attempt_id m) (rfc3339_secs E at) = Inr m"
    and "at = now \<or> lp_local_recovery_marker_created_at peer = Some at \<and> local_recovery_marker_belongs_to_current_episode peer"
  using assms marker_new_again [OF assms(2)]
  by (auto simp: choose_marker_def reusable_marker_def rbind_Inr_iff rmap_Inr_iff split: if_splits option.splits)

text \<open>Publishing the own recovery marker again while the same recovery episode lasts repeats the recorded
  attempt: the marker and what is stored about it stay the same, whatever the time and the generated
  id, as long as the clock was not behind the start of the episode.\<close>

theorem marker_retry_repeats_attempt:
  assumes "tables_inv s" and "uuid_roundtrip E" and "record_marker_tx E fresh force now cp rp s = Inr (t, marker)"
    and "\<And>peer started. linked_peer s (cp, rp) = Some peer \<Longrightarrow> lp_last_sync_at peer = Some started \<Longrightarrow> started \<le> now"
  shows "record_marker_tx E fresh' False now' cp rp t = Inr (t, marker)"
proof -
  let ?peer = "recovery_peer_or_default (linked_peer s (cp, rp)) cp rp"
  obtain at where state: "lp_state ?peer = RecoveryRequiredState"
    and pub: "can_publish_recovery_marker (Some ?peer) (encrypted_link_state s (cp, rp) \<noteq> None)"
    and chosen: "choose_marker E fresh force now ?peer = Inr (marker, at)"
    and t: "t = save_linked_peer (?peer\<lparr>lp_local_recovery_attempt_id := Some (rm_attempt_id marker),
               lp_local_recovery_marker_created_at := Some at\<rparr>) s"
    using assms(3) by (auto simp: record_marker_tx_def Let_def rbind_Inr_iff map_err_Inr_iff split: if_splits)
  let ?stored = "?peer\<lparr>lp_local_recovery_attempt_id := Some (rm_attempt_id marker), lp_local_recovery_marker_created_at := Some at\<rparr>"
  obtain peer where peer: "linked_peer s (cp, rp) = Some peer"
    using state by (auto simp: recovery_peer_or_default_def split: option.splits)
  have key: "lp_key ?stored = (cp, rp)" using recovery_peer_key [OF assms(1), of cp rp] by (simp add: lp_key_def)
  then have read: "linked_peer t (cp, rp) = Some ?stored" by (simp add: t peers.load_save)
  have episode: "local_recovery_marker_belongs_to_current_episode ?stored"
    using chosen_marker(2) [OF chosen assms(2)] assms(4) [OF peer] peer
    by (auto simp: local_recovery_marker_belongs_to_current_episode_def recovery_peer_or_default_def split: option.splits)
  have again: "choose_marker E fresh' False now' ?stored = Inr (marker, at)"
    using state episode chosen_marker(1) [OF chosen assms(2)] by (simp add: choose_marker_def reusable_marker_def)
  have "save_linked_peer ?stored t = t" using key by (simp add: t save_linked_peer_def)
  then show ?thesis
    using state pub again read by (simp add: record_marker_tx_def Let_def recovery_peer_or_default_def can_publish_recovery_marker_def)
qed

definition sample_marker :: EncryptedLinkRecoveryMarker where
  "sample_marker = \<lparr>rm_attempt_id = sample_uuid, rm_created_at = rfc3339_secs (table_ext []) 7\<rparr>"

definition sample_marked :: StorageState where
  "sample_marked =
     (case record_marker_tx (table_ext []) sample_uuid True 7 sample_peer sample_path sample_recovering of
        Inl _ \<Rightarrow> empty_storage | Inr (t, _) \<Rightarrow> t)"

theorem marker_retry_repeats_attempt_witness:
  "record_marker_tx (table_ext []) ''other'' False 99 sample_peer sample_path sample_marked = Inr (sample_marked, sample_marker)"
proof -
  have new: "EncryptedLinkRecoveryMarker_new (table_ext []) sample_uuid (rfc3339_secs (table_ext []) 7) = Inr sample_marker"
  proof -
    have "is_ok (parse_utc_timestamp (table_ext []) (rfc3339_secs (table_ext []) 7) ''Encrypted Link recovery marker created_at'')"
      by code_simp
    then show ?thesis
      using sample_uuid_read [of "[]"] sample_uuid_v4
      by (auto simp: EncryptedLinkRecoveryMarker_new_def validate_uuid_v4_def is_ok_iff sample_marker_def table_ext_def sample_uuid_def)
  qed
  obtain peer where peer: "linked_peer sample_recovering (sample_peer, sample_path) = Some peer"
    and state: "lp_state peer = RecoveryRequiredState"
    using observed_cases(2) [OF sample_handshaking_tables sample_observed_changed [unfolded sample_observed_def]]
    by (auto simp: sample_lease_def)
  have sync: "lp_last_sync_at peer = Some 3"
    using observed_sync [OF sample_handshaking_tables sample_observed_changed [unfolded sample_observed_def]] peer
    by (simp add: sample_lease_def)
  have marked: "record_marker_tx (table_ext []) sample_uuid True 7 sample_peer sample_path sample_recovering
      = Inr (sample_marked, sample_marker)"
    using peer state new
    by (simp add: sample_marked_def record_marker_tx_def recovery_peer_or_default_def can_publish_recovery_marker_def
        choose_marker_def reusable_marker_def)
  have "tables_inv sample_recovering"
    by (rule observed_sync(2) [OF sample_handshaking_tables sample_observed_changed [unfolded sample_observed_def]])
  then show ?thesis
    by (rule marker_retry_repeats_attempt [OF _ table_ext_uuid_roundtrip marked]) (use peer sync in simp)
qed

end
