(* ===== verification/Encrypted_Link.thy ===== *)
theory Encrypted_Link
  imports Link_Snapshots
begin

text \<open>
  Encrypted Links over the noise channel (\<^verbatim>\<open>paykit-lib/src/encrypted_link/handshake.rs\<close>, \<^verbatim>\<open>link.rs\<close>,
  \<^verbatim>\<open>paths.rs\<close> and the receiving and clearing of \<^verbatim>\<open>private_application_message.rs\<close>): starting, advancing and
  restoring handshakes, established links, and the two network loops. The noise library is a
  parameter. The lemmas show that both peers use the same pair of paths, that a stored link restores,
  that failed writes of a handshake are retried a bounded number of times, and that the loops end.
\<close>

section \<open>The noise library\<close>

text \<open>
  \<^verbatim>\<open>pubky_noise\<close>: an encryptor of type \<open>'n\<close>, its configuration and the state it saves. Network calls take
  their position as a list of indexes, so that two calls may be answered differently. An error is its
  debug text, with whether it is \<^verbatim>\<open>HomeserverWriteError\<close> (handshake and send) or
  \<^verbatim>\<open>HomeserverResponseError\<close> (receive). A handshake step tells whether it was the last one.
\<close>

record noise_config =
  nc_secret_key :: string
  nc_local_public_key :: PublicKey
  nc_write_path :: string
  nc_read_path :: string

record 'n noise =
  ns_config_error :: "noise_config \<Rightarrow> string option"
  ns_new :: "noise_config \<Rightarrow> bool \<Rightarrow> PublicKey \<Rightarrow> string + 'n"
  ns_restore :: "nat list \<Rightarrow> noise_config \<Rightarrow> PubkyNoiseSessionState \<Rightarrow> PublicKey \<Rightarrow> string + 'n"
  ns_phase :: "PubkyNoiseSessionState \<Rightarrow> string"
  ns_is_handshake_complete :: "'n \<Rightarrow> bool"
  ns_handle_handshake :: "nat list \<Rightarrow> 'n \<Rightarrow> 'n \<times> ((bool \<times> string) + bool)"
  ns_transition_transport :: "'n \<Rightarrow> 'n \<times> string option"
  ns_snapshot :: "'n \<Rightarrow> PubkyNoiseSessionState"
  ns_last_good_snapshot :: "'n \<Rightarrow> PubkyNoiseSessionState option"
  ns_send_message :: "nat list \<Rightarrow> 'n noise_send"
  ns_receive_message :: "nat list \<Rightarrow> 'n \<Rightarrow> 'n \<times> ((bool \<times> string) + string list)"
  ns_derive_paths :: "string \<Rightarrow> PublicKey \<Rightarrow> string \<Rightarrow> string \<Rightarrow> string \<times> string"

text \<open>The local side: the receiver noise secret and the public key of the session.\<close>

record local_party =
  lk_noise_secret_key :: string
  lk_public_key :: PublicKey

definition noise_failure :: "string \<Rightarrow> string \<Rightarrow> string \<Rightarrow> paykit_error" where
  "noise_failure ctx src err = Transport (ctx @ '': '' @ err) (AnyhowMsg (src @ '': '' @ err))"

section \<open>Paths\<close>

definition PAYKIT_PATH_DOMAIN :: string where
  "PAYKIT_PATH_DOMAIN = ''paykit-path-v0''"

definition compute_private_payment_paths ::
  "(string \<Rightarrow> PublicKey \<Rightarrow> string \<Rightarrow> string \<Rightarrow> string \<times> string) \<Rightarrow> ext \<Rightarrow> string \<Rightarrow> PublicKey \<Rightarrow> PublicKey \<Rightarrow> PublicKey \<Rightarrow>
   PaykitReceiverPath \<Rightarrow> PaykitReceiverPath \<Rightarrow> string \<times> string" where
  "compute_private_payment_paths derive E secret local_id remote_id remote_noise local_rp remote_rp =
     (let domain = receiver_pair_path_domain PAYKIT_PATH_DOMAIN (public_key_z32 E local_id) local_rp
                     (public_key_z32 E remote_id) remote_rp;
          write_path = fst (derive secret remote_noise domain (private_message_path_prefix local_rp));
          read_path = snd (derive secret remote_noise domain (private_message_path_prefix remote_rp))
      in (write_path, read_path))"

definition validate_private_payment_paths ::
  "ext \<Rightarrow> 'n noise \<Rightarrow> noise_config \<Rightarrow> PublicKey \<Rightarrow> PublicKey \<Rightarrow> PaykitReceiverPath \<Rightarrow> PaykitReceiverPath \<Rightarrow> unit res" where
  "validate_private_payment_paths E N c remote_id remote_noise local_rp remote_rp =
     (let (expected_write_path, expected_read_path) = compute_private_payment_paths (ns_derive_paths N) E (nc_secret_key c)
            (nc_local_public_key c) remote_id remote_noise local_rp remote_rp
      in if nc_write_path c \<noteq> expected_write_path \<or> nc_read_path c \<noteq> expected_read_path
         then Inl (Validation (''Noise config paths do not match receiver scope (local='' @ receiver_path_str local_rp
                @ '', remote='' @ receiver_path_str remote_rp @ '')''))
         else Inr ())"

text \<open>\<^verbatim>\<open>PubkyNoiseConfig::new_with_paths\<close> for the paths of a pair.\<close>

definition pair_config ::
  "ext \<Rightarrow> 'n noise \<Rightarrow> string \<Rightarrow> local_party \<Rightarrow> PublicKey \<Rightarrow> PublicKey \<Rightarrow> PaykitReceiverPath \<Rightarrow> PaykitReceiverPath \<Rightarrow> noise_config res" where
  "pair_config E N what L remote_id remote_noise local_rp remote_rp =
     (let (write_path, read_path) = compute_private_payment_paths (ns_derive_paths N) E (lk_noise_secret_key L)
            (lk_public_key L) remote_id remote_noise local_rp remote_rp;
          c = \<lparr>nc_secret_key = lk_noise_secret_key L, nc_local_public_key = lk_public_key L,
               nc_write_path = write_path, nc_read_path = read_path\<rparr>
      in case ns_config_error N c of
           Some err \<Rightarrow> Inl (noise_failure (''failed to create encryptor config'' @ what) ''pubky-noise PubkyNoiseConfig::new failed'' err)
         | None \<Rightarrow> Inr c)"

section \<open>Handshakes\<close>

definition DEFAULT_MAX_RECOVERY_ATTEMPTS :: u32 where
  "DEFAULT_MAX_RECOVERY_ATTEMPTS = 3"

definition DEFAULT_MAX_SEND_RETRIES :: u32 where
  "DEFAULT_MAX_SEND_RETRIES = 3"

record 'n EncryptedLinkHandshake =
  eh_encryptor :: 'n
  eh_remote_pubkey :: PublicKey
  eh_remote_noise_public_key :: PublicKey
  eh_config :: noise_config
  eh_local_receiver_path :: PaykitReceiverPath
  eh_remote_receiver_path :: PaykitReceiverPath
  eh_recovery_attempts :: u32
  eh_max_recovery_attempts :: u32

record 'n EncryptedLink =
  el_encryptor :: 'n
  el_recipient :: PublicKey
  el_remote_noise_public_key :: PublicKey
  el_config :: noise_config
  el_local_receiver_path :: PaykitReceiverPath
  el_remote_receiver_path :: PaykitReceiverPath
  el_max_send_retries :: u32

datatype 'n HandshakeProgress = Pending "'n EncryptedLinkHandshake" | Complete "'n EncryptedLink"

definition set_max_recovery_attempts :: "u32 \<Rightarrow> 'n EncryptedLinkHandshake \<Rightarrow> 'n EncryptedLinkHandshake" where
  "set_max_recovery_attempts n h = h\<lparr>eh_max_recovery_attempts := n\<rparr>"

definition handshake_snapshot :: "'n noise \<Rightarrow> 'n EncryptedLinkHandshake \<Rightarrow> EncryptedLinkSnapshot" where
  "handshake_snapshot N h =
     \<lparr>es_state = ns_snapshot N (eh_encryptor h), es_recipient = eh_remote_pubkey h,
      es_remote_noise_public_key = eh_remote_noise_public_key h, es_local_receiver_path = eh_local_receiver_path h,
      es_remote_receiver_path = eh_remote_receiver_path h\<rparr>"

text \<open>The common part of initiating and accepting; \<open>initiator\<close> tells which.\<close>

definition start_handshake ::
  "ext \<Rightarrow> 'n noise \<Rightarrow> bool \<Rightarrow> local_party \<Rightarrow> PublicKey \<Rightarrow> PublicKey \<Rightarrow> PaykitReceiverPath \<Rightarrow> PaykitReceiverPath \<Rightarrow>
   'n EncryptedLinkHandshake res" where
  "start_handshake E N initiator L remote_id remote_noise local_rp remote_rp =
     rbind (pair_config E N [] L remote_id remote_noise local_rp remote_rp) (\<lambda>c.
     rbind (map_err (noise_failure ''failed to initialize encryptor'' ''pubky-noise PubkyNoiseEncryptor::new failed'')
              (ns_new N c initiator remote_id)) (\<lambda>encryptor.
     Inr \<lparr>eh_encryptor = encryptor, eh_remote_pubkey = remote_id, eh_remote_noise_public_key = remote_noise,
          eh_config = c, eh_local_receiver_path = local_rp, eh_remote_receiver_path = remote_rp,
          eh_recovery_attempts = 0, eh_max_recovery_attempts = DEFAULT_MAX_RECOVERY_ATTEMPTS\<rparr>))"

definition initiate_encrypted_link ::
  "ext \<Rightarrow> 'n noise \<Rightarrow> local_party \<Rightarrow> PublicKey \<Rightarrow> PublicKey \<Rightarrow> PaykitReceiverPath \<Rightarrow> PaykitReceiverPath \<Rightarrow>
   'n EncryptedLinkHandshake res" where
  "initiate_encrypted_link E N = start_handshake E N True"

definition accept_encrypted_link ::
  "ext \<Rightarrow> 'n noise \<Rightarrow> local_party \<Rightarrow> PublicKey \<Rightarrow> PublicKey \<Rightarrow> PaykitReceiverPath \<Rightarrow> PaykitReceiverPath \<Rightarrow>
   'n EncryptedLinkHandshake res" where
  "accept_encrypted_link E N = start_handshake E N False"

definition from_parts ::
  "'n \<Rightarrow> PublicKey \<Rightarrow> PublicKey \<Rightarrow> noise_config \<Rightarrow> PaykitReceiverPath \<Rightarrow> PaykitReceiverPath \<Rightarrow> 'n EncryptedLink" where
  "from_parts encryptor recipient noise c local_rp remote_rp =
     \<lparr>el_encryptor = encryptor, el_recipient = recipient, el_remote_noise_public_key = noise, el_config = c,
      el_local_receiver_path = local_rp, el_remote_receiver_path = remote_rp,
      el_max_send_retries = DEFAULT_MAX_SEND_RETRIES\<rparr>"

definition finish_handshake :: "'n noise \<Rightarrow> 'n EncryptedLinkHandshake \<Rightarrow> 'n HandshakeProgress res" where
  "finish_handshake N h =
     (case ns_transition_transport N (eh_encryptor h) of
        (_, Some err) \<Rightarrow>
          Inl (noise_failure ''failed to transition to transport mode'' ''pubky-noise transition_transport failed'' err)
      | (encryptor, None) \<Rightarrow>
          Inr (Complete (from_parts encryptor (eh_remote_pubkey h) (eh_remote_noise_public_key h) (eh_config h)
                 (eh_local_receiver_path h) (eh_remote_receiver_path h))))"

text \<open>The retry of a step whose write failed: from the last good state, a bounded number of times in a row.\<close>

definition recover_handshake :: "'n noise \<Rightarrow> nat list \<Rightarrow> 'n EncryptedLinkHandshake \<Rightarrow> 'n HandshakeProgress res" where
  "recover_handshake N p h =
     (let attempts = eh_recovery_attempts h + 1 in
      if attempts > eh_max_recovery_attempts h
      then Inl (Transport (''handshake recovery exhausted after '' @ show_nat (unat (eh_max_recovery_attempts h))
             @ '' consecutive attempts'')
             (AnyhowMsg (''HomeserverWriteError persisted beyond recovery limit (''
                @ show_nat (unat (eh_max_recovery_attempts h)) @ '')'')))
      else case ns_last_good_snapshot N (eh_encryptor h) of
        None \<Rightarrow>
          Inl (Transport ''handshake recovery failed: missing last-good snapshot''
            (AnyhowMsg ''pubky-noise returned HomeserverWriteError but no recovery snapshot''))
      | Some st \<Rightarrow>
          rbind (map_err (noise_failure ''handshake recovery via restore() failed'' ''restore after HomeserverWriteError failed'')
                   (ns_restore N p (eh_config h) st (eh_remote_pubkey h))) (\<lambda>restored.
          Inr (Pending (h\<lparr>eh_encryptor := restored, eh_recovery_attempts := attempts\<rparr>))))"

definition advance_handshake :: "'n noise \<Rightarrow> nat list \<Rightarrow> 'n EncryptedLinkHandshake \<Rightarrow> 'n HandshakeProgress res" where
  "advance_handshake N p h =
     (if ns_is_handshake_complete N (eh_encryptor h) then finish_handshake N h
      else case ns_handle_handshake N p (eh_encryptor h) of
        (encryptor, Inr terminal) \<Rightarrow>
          if terminal then finish_handshake N (h\<lparr>eh_encryptor := encryptor\<rparr>)
          else Inr (Pending (h\<lparr>eh_encryptor := encryptor, eh_recovery_attempts := 0\<rparr>))
      | (encryptor, Inl (write_error, err)) \<Rightarrow>
          if write_error then recover_handshake N p (h\<lparr>eh_encryptor := encryptor\<rparr>)
          else Inl (noise_failure ''handshake step failed'' ''pubky-noise handle_handshake failed'' err))"

section \<open>Restoring\<close>

definition check_snapshot_for ::
  "ext \<Rightarrow> 'n noise \<Rightarrow> string \<Rightarrow> string \<Rightarrow> noise_config \<Rightarrow> PublicKey \<Rightarrow> EncryptedLinkSnapshot \<Rightarrow> unit res" where
  "check_snapshot_for E N phase phase_text c remote_id sn =
     (if es_recipient sn \<noteq> remote_id
      then Inl (Validation (''remote_pubkey does not match snapshot recipient (remote='' @ public_key_display E remote_id
             @ '', snapshot='' @ public_key_display E (es_recipient sn) @ '')''))
      else if ns_phase N (es_state sn) \<noteq> phase
      then Inl (Validation (phase_text @ '' snapshot, got '' @ ns_phase N (es_state sn)))
      else validate_private_payment_paths E N c remote_id (es_remote_noise_public_key sn) (es_local_receiver_path sn)
             (es_remote_receiver_path sn))"

definition restore_encrypted_link_handshake_inner ::
  "ext \<Rightarrow> 'n noise \<Rightarrow> nat list \<Rightarrow> noise_config \<Rightarrow> PublicKey \<Rightarrow> EncryptedLinkSnapshot \<Rightarrow> 'n EncryptedLinkHandshake res" where
  "restore_encrypted_link_handshake_inner E N p c remote_id sn =
     rbind (check_snapshot_for E N ''HandShake'' ''handshake restore requires handshake-phase'' c remote_id sn) (\<lambda>_.
     rbind (map_err (noise_failure ''failed to restore Encrypted Link handshake'' ''pubky-noise handshake restore failed'')
              (ns_restore N p c (es_state sn) remote_id)) (\<lambda>encryptor.
     Inr \<lparr>eh_encryptor = encryptor, eh_remote_pubkey = remote_id,
          eh_remote_noise_public_key = es_remote_noise_public_key sn, eh_config = c,
          eh_local_receiver_path = es_local_receiver_path sn, eh_remote_receiver_path = es_remote_receiver_path sn,
          eh_recovery_attempts = 0, eh_max_recovery_attempts = DEFAULT_MAX_RECOVERY_ATTEMPTS\<rparr>))"

definition restore_encrypted_link_handshake ::
  "ext \<Rightarrow> 'n noise \<Rightarrow> nat list \<Rightarrow> local_party \<Rightarrow> PublicKey \<Rightarrow> PaykitReceiverPath \<Rightarrow> PaykitReceiverPath \<Rightarrow>
   EncryptedLinkSnapshot \<Rightarrow> 'n EncryptedLinkHandshake res" where
  "restore_encrypted_link_handshake E N p L remote_id local_rp remote_rp sn =
     rbind (validate_receiver_scope ''Encrypted Link Handshake snapshot'' sn local_rp remote_rp) (\<lambda>_.
     rbind (pair_config E N '' for handshake restore'' L remote_id (es_remote_noise_public_key sn) local_rp remote_rp) (\<lambda>c.
     restore_encrypted_link_handshake_inner E N p c remote_id sn))"

definition restore_encrypted_link_inner ::
  "ext \<Rightarrow> 'n noise \<Rightarrow> nat list \<Rightarrow> noise_config \<Rightarrow> PublicKey \<Rightarrow> EncryptedLinkSnapshot \<Rightarrow> 'n EncryptedLink res" where
  "restore_encrypted_link_inner E N p c remote_id sn =
     rbind (check_snapshot_for E N ''Transport'' ''Encrypted Link restore requires transport-phase'' c remote_id sn) (\<lambda>_.
     rbind (map_err (noise_failure ''failed to restore Encrypted Link'' ''pubky-noise restore failed'')
              (ns_restore N p c (es_state sn) remote_id)) (\<lambda>encryptor.
     Inr (from_parts encryptor remote_id (es_remote_noise_public_key sn) c (es_local_receiver_path sn)
            (es_remote_receiver_path sn))))"

definition restore_encrypted_link ::
  "ext \<Rightarrow> 'n noise \<Rightarrow> nat list \<Rightarrow> local_party \<Rightarrow> PublicKey \<Rightarrow> PaykitReceiverPath \<Rightarrow> PaykitReceiverPath \<Rightarrow>
   EncryptedLinkSnapshot \<Rightarrow> 'n EncryptedLink res" where
  "restore_encrypted_link E N p L remote_id local_rp remote_rp sn =
     rbind (validate_receiver_scope ''Encrypted Link snapshot'' sn local_rp remote_rp) (\<lambda>_.
     rbind (pair_config E N '' for restore'' L remote_id (es_remote_noise_public_key sn) local_rp remote_rp) (\<lambda>c.
     restore_encrypted_link_inner E N p c remote_id sn))"

section \<open>Links\<close>

definition set_max_send_retries :: "u32 \<Rightarrow> 'n EncryptedLink \<Rightarrow> 'n EncryptedLink" where
  "set_max_send_retries n l = l\<lparr>el_max_send_retries := n\<rparr>"

definition link_snapshot :: "'n noise \<Rightarrow> 'n EncryptedLink \<Rightarrow> EncryptedLinkSnapshot" where
  "link_snapshot N l =
     \<lparr>es_state = ns_snapshot N (el_encryptor l), es_recipient = el_recipient l,
      es_remote_noise_public_key = el_remote_noise_public_key l, es_local_receiver_path = el_local_receiver_path l,
      es_remote_receiver_path = el_remote_receiver_path l\<rparr>"

definition validate_private_application_message_json :: "ext \<Rightarrow> string \<Rightarrow> unit res" where
  "validate_private_application_message_json E raw =
     rbind (map_err Validation (rmap to_value (json_from_str E raw))) (\<lambda>v.
     if (case Option.bind (value_get ''version'' v) as_u64 of None \<Rightarrow> True | Some n \<Rightarrow> n > 255)
     then Inl (Validation ''Private Application Message version must be a u8 integer'')
     else if Option.bind (value_get ''kind'' v) as_str = None
     then Inl (Validation ''Private Application Message kind must be a string'')
     else Inr ())"

definition send_private_application_message_with_context ::
  "ext \<Rightarrow> 'n noise \<Rightarrow> nat list \<Rightarrow> string \<Rightarrow> string \<Rightarrow> 'n EncryptedLink \<Rightarrow> 'n EncryptedLink \<times> unit res" where
  "send_private_application_message_with_context E N p plaintext ctx l =
     (case send_private_application_message E (ns_send_message N p) (el_max_send_retries l) plaintext ctx (el_encryptor l) of
        (encryptor, res) \<Rightarrow> (l\<lparr>el_encryptor := encryptor\<rparr>, res))"

definition send_private_application_message_json ::
  "ext \<Rightarrow> 'n noise \<Rightarrow> nat list \<Rightarrow> string \<Rightarrow> 'n EncryptedLink \<Rightarrow> 'n EncryptedLink \<times> unit res" where
  "send_private_application_message_json E N p raw l =
     (case validate_private_application_message_json E raw of
        Inl e \<Rightarrow> (l, Inl e)
      | Inr _ \<Rightarrow> send_private_application_message_with_context E N p raw ''Private Application Message'' l)"

text \<open>
  Receiving asks the encryptor for batches until one is empty. The loop may run forever, so it is a
  partial function; \<open>k\<close> numbers the calls.
\<close>

definition receive_failure :: "bool \<Rightarrow> string \<Rightarrow> paykit_error" where
  "receive_failure retryable err =
     Transport (''failed to receive Private Application Messages: '' @ err)
       (if retryable then AnyhowMsg (''pubky-noise receive_message failed: '' @ err)
        else NonRetryablePrivateReceiveError err)"

partial_function (option) receive_batches ::
  "ext \<Rightarrow> (nat \<Rightarrow> 'n \<Rightarrow> 'n \<times> ((bool \<times> string) + string list)) \<Rightarrow> nat \<Rightarrow> PrivateApplicationMessage list \<Rightarrow> 'n \<Rightarrow>
   ('n \<times> PrivateApplicationMessage list res) option" where
  "receive_batches E receive k messages n =
     (case receive k n of
        (n', Inl (retryable, err)) \<Rightarrow> Some (n', Inl (receive_failure retryable err))
      | (n', Inr batch) \<Rightarrow>
          if batch = [] then Some (n', Inr messages)
          else case rmap_list (decode_private_application_message E) batch of
            Inl e \<Rightarrow> Some (n', Inl e)
          | Inr decoded \<Rightarrow> receive_batches E receive (Suc k) (messages @ decoded) n')"

definition receive_private_application_messages ::
  "ext \<Rightarrow> 'n noise \<Rightarrow> nat list \<Rightarrow> 'n EncryptedLink \<Rightarrow> ('n EncryptedLink \<times> PrivateApplicationMessage list res) option" where
  "receive_private_application_messages E N p l =
     map_option (\<lambda>(n, res). (l\<lparr>el_encryptor := n\<rparr>, res))
       (receive_batches E (\<lambda>k. ns_receive_message N (k # p)) 0 [] (el_encryptor l))"

section \<open>Clearing the outbox\<close>

text \<open>
  \<open>list_page k\<close> is the \<open>k\<close>-th listing of the write path and \<open>delete k path\<close> the deletions after it, each over
  the contents of the homeserver, which they may change; an error says whether nothing was there.
\<close>

record 'w outbox =
  ob_list :: "nat \<Rightarrow> 'w \<Rightarrow> 'w \<times> ((anyhow \<times> bool) + string list)"
  ob_delete :: "nat \<Rightarrow> string \<Rightarrow> 'w \<Rightarrow> 'w \<times> (anyhow \<times> bool) option"

definition OUTBOX_PAGE_LIMIT :: nat where
  "OUTBOX_PAGE_LIMIT = 100"

fun delete_page :: "'w outbox \<Rightarrow> nat \<Rightarrow> string list \<Rightarrow> nat \<Rightarrow> 'w \<Rightarrow> 'w \<times> nat res" where
  "delete_page B k [] n w = (w, Inr n)"
| "delete_page B k (path # paths) n w =
     (case ob_delete B k path w of
        (w', None) \<Rightarrow> delete_page B k paths (n + 1) w'
      | (w', Some (src, not_found)) \<Rightarrow>
          if not_found then delete_page B k paths n w'
          else (w', Inl (Transport ''clear Encrypted Link outbox'' src)))"

partial_function (option) clear_outbox_loop :: "'w outbox \<Rightarrow> nat \<Rightarrow> nat \<Rightarrow> 'w \<Rightarrow> ('w \<times> nat res) option" where
  "clear_outbox_loop B k n w =
     (case ob_list B k w of
        (w1, Inl (src, not_found)) \<Rightarrow>
          Some (w1, if not_found then Inr n else Inl (Transport ''list Encrypted Link outbox'' src))
      | (w1, Inr page) \<Rightarrow>
          if page = [] then Some (w1, Inr n)
          else case delete_page B k page n w1 of
            (w2, Inl e) \<Rightarrow> Some (w2, Inl e)
          | (w2, Inr n') \<Rightarrow>
              if length page < OUTBOX_PAGE_LIMIT then Some (w2, Inr n') else clear_outbox_loop B (Suc k) n' w2)"

definition clear_encrypted_link_outbox ::
  "ext \<Rightarrow> 'n noise \<Rightarrow> local_party \<Rightarrow> PublicKey \<Rightarrow> PublicKey \<Rightarrow> PaykitReceiverPath \<Rightarrow> PaykitReceiverPath \<Rightarrow>
   (string \<Rightarrow> 'w outbox) \<Rightarrow> 'w \<Rightarrow> ('w \<times> nat res) option" where
  "clear_encrypted_link_outbox E N L remote_id remote_noise local_rp remote_rp storage w =
     (let (write_path, _) = compute_private_payment_paths (ns_derive_paths N) E (lk_noise_secret_key L) (lk_public_key L)
            remote_id remote_noise local_rp remote_rp
      in clear_outbox_loop (storage (write_path @ ''/'')) 0 0 w)"

section \<open>Both peers use the same paths\<close>

text \<open>Two peers that swap their identities, receiver paths and noise keys read where the other writes.\<close>

lemma private_paths_meet:
  assumes "derivation_paired public_of derive"
  shows "compute_private_payment_paths derive E sb idb ida (public_of sa) rpb rpa
     = prod.swap (compute_private_payment_paths derive E sa ida idb (public_of sb) rpa rpb)"
proof -
  have flip: "snd (derive a (public_of b) d base) = fst (derive b (public_of a) d base)" for a b d base
    using assms by (simp add: derivation_paired_def)
  show ?thesis
    by (simp add: compute_private_payment_paths_def Let_def flip pair_domain_swap [of _ "public_key_z32 E idb" rpb])
qed

lemma pair_config_iff:
  "pair_config E N what L remote_id noise local_rp remote_rp = Inr c \<longleftrightarrow>
     c = \<lparr>nc_secret_key = lk_noise_secret_key L, nc_local_public_key = lk_public_key L,
          nc_write_path = fst (compute_private_payment_paths (ns_derive_paths N) E (lk_noise_secret_key L) (lk_public_key L)
             remote_id noise local_rp remote_rp),
          nc_read_path = snd (compute_private_payment_paths (ns_derive_paths N) E (lk_noise_secret_key L) (lk_public_key L)
             remote_id noise local_rp remote_rp)\<rparr>
     \<and> ns_config_error N c = None"
  by (auto simp: pair_config_def Let_def case_prod_unfold split: option.splits)

text \<open>When two peers start a link, one as initiator and one as responder, for the same pair of
  identities and receiver paths and with the noise keys of each other, then each one's handshake
  writes to the path the other one reads, whatever the paths the library derives.\<close>

theorem handshake_paths_meet:
  assumes "derivation_paired public_of (ns_derive_paths N)"
    and "initiate_encrypted_link E N A (lk_public_key B) (public_of (lk_noise_secret_key B)) rpa rpb = Inr ha"
    and "accept_encrypted_link E N B (lk_public_key A) (public_of (lk_noise_secret_key A)) rpb rpa = Inr hb"
  shows "nc_write_path (eh_config ha) = nc_read_path (eh_config hb)
    \<and> nc_read_path (eh_config ha) = nc_write_path (eh_config hb)"
proof -
  have "pair_config E N [] A (lk_public_key B) (public_of (lk_noise_secret_key B)) rpa rpb = Inr (eh_config ha)"
    "pair_config E N [] B (lk_public_key A) (public_of (lk_noise_secret_key A)) rpb rpa = Inr (eh_config hb)"
    using assms(2,3) by (auto simp: initiate_encrypted_link_def accept_encrypted_link_def start_handshake_def rbind_Inr_iff)
  then show ?thesis
    using private_paths_meet [OF assms(1), of E "lk_noise_secret_key B" "lk_public_key B" "lk_public_key A"
        "lk_noise_secret_key A" rpb rpa]
    by (simp add: pair_config_iff)
qed

section \<open>Stored links restore\<close>

lemma config_paths_ok:
  assumes "pair_config E N what L remote_id noise local_rp remote_rp = Inr c"
  shows "validate_private_payment_paths E N c remote_id noise local_rp remote_rp = Inr ()"
  using assms unfolding pair_config_iff by (auto simp: validate_private_payment_paths_def Let_def case_prod_unfold)

text \<open>A snapshot restores to a link exactly when it was taken for the two receiver paths and for this
  counterparty, is in transport phase, and the noise library accepts its configuration and state; the
  restored link is for the same counterparty and receivers. Snapshots of other scopes, recipients or
  phases are refused before the library is asked to restore them.\<close>

theorem restore_encrypted_link_exact:
  "restore_encrypted_link E N p L remote_id local_rp remote_rp sn = Inr l \<longleftrightarrow>
     es_local_receiver_path sn = local_rp \<and> es_remote_receiver_path sn = remote_rp \<and> es_recipient sn = remote_id
     \<and> ns_phase N (es_state sn) = ''Transport''
     \<and> (\<exists>c n. pair_config E N '' for restore'' L remote_id (es_remote_noise_public_key sn) local_rp remote_rp = Inr c
          \<and> ns_restore N p c (es_state sn) remote_id = Inr n
          \<and> l = from_parts n remote_id (es_remote_noise_public_key sn) c local_rp remote_rp)"
proof (cases "es_local_receiver_path sn = local_rp \<and> es_remote_receiver_path sn = remote_rp")
  case True
  then show ?thesis
    using config_paths_ok
    by (fastforce simp: restore_encrypted_link_def validate_receiver_scope_def restore_encrypted_link_inner_def
        check_snapshot_for_def rbind_Inr_iff map_err_Inr_iff split: if_splits)
qed (auto simp: restore_encrypted_link_def validate_receiver_scope_def)

section \<open>Failed writes of a handshake\<close>

text \<open>A handshake advanced again and again; \<open>pos k\<close> is the position of the \<open>k\<close>-th call.\<close>

fun advance_times ::
  "'n noise \<Rightarrow> (nat \<Rightarrow> nat list) \<Rightarrow> nat \<Rightarrow> 'n EncryptedLinkHandshake \<Rightarrow> 'n HandshakeProgress res" where
  "advance_times N pos 0 h = Inr (Pending h)"
| "advance_times N pos (Suc k) h =
     rbind (advance_times N pos k h) (\<lambda>progress.
     case progress of Pending h' \<Rightarrow> advance_handshake N (pos k) h' | Complete l \<Rightarrow> Inr (Complete l))"

lemma write_failures_count:
  assumes "\<And>n. \<not> ns_is_handshake_complete N n" and "\<And>p n. \<exists>n' err. ns_handle_handshake N p n = (n', Inl (True, err))"
    and "eh_recovery_attempts h \<le> eh_max_recovery_attempts h" and "eh_max_recovery_attempts h < - 1"
    and "advance_times N pos k h = Inr progress"
  shows "\<exists>h'. progress = Pending h' \<and> eh_max_recovery_attempts h' = eh_max_recovery_attempts h
    \<and> unat (eh_recovery_attempts h') = unat (eh_recovery_attempts h) + k
    \<and> eh_recovery_attempts h' \<le> eh_max_recovery_attempts h"
  using assms(5)
proof (induction k arbitrary: progress)
  case 0
  with assms(3) show ?case by (intro exI [of _ h]) simp
next
  case (Suc k)
  from Suc.prems obtain mid where mid: "advance_times N pos k h = Inr mid"
    and step: "(case mid of Pending h' \<Rightarrow> advance_handshake N (pos k) h' | Complete l \<Rightarrow> Inr (Complete l)) = Inr progress"
    by (auto simp: rbind_Inr_iff)
  from Suc.IH [OF mid] obtain h1 where h1: "mid = Pending h1" "eh_max_recovery_attempts h1 = eh_max_recovery_attempts h"
    "unat (eh_recovery_attempts h1) = unat (eh_recovery_attempts h) + k" "eh_recovery_attempts h1 \<le> eh_max_recovery_attempts h"
    by blast
  obtain n' err where handle: "ns_handle_handshake N (pos k) (eh_encryptor h1) = (n', Inl (True, err))"
    using assms(2) by blast
  have "advance_handshake N (pos k) h1 = Inr progress" using step h1(1) by simp
  then obtain r where progress: "progress = Pending (h1\<lparr>eh_encryptor := r, eh_recovery_attempts := eh_recovery_attempts h1 + 1\<rparr>)"
    and le: "\<not> eh_recovery_attempts h1 + 1 > eh_max_recovery_attempts h"
    using h1(2) assms(1)
    by (auto simp: advance_handshake_def handle recover_handshake_def Let_def rbind_Inr_iff map_err_Inr_iff
        split: if_splits option.splits)
  have "1 + eh_recovery_attempts h1 \<noteq> 0"
    using h1(4) assms(4) by (metis add_eq_0_iff leD le_less_trans order_refl minus_unique)
  from unatSuc [OF this] have "unat (eh_recovery_attempts h1 + 1) = Suc (unat (eh_recovery_attempts h1))"
    by (simp add: add.commute)
  with progress le h1 show ?case by simp
qed

text \<open>C31: A handshake whose every step fails to write is retried from its last good state at most as often in a
  row as its limit allows, counting the attempts it has already made: one more advance gives an error,
  so the retries end (for a limit below the largest counter value).\<close>

theorem handshake_retries_bounded:
  assumes "\<And>n. \<not> ns_is_handshake_complete N n" and "\<And>p n. \<exists>n' err. ns_handle_handshake N p n = (n', Inl (True, err))"
    and "eh_recovery_attempts h \<le> eh_max_recovery_attempts h" and "eh_max_recovery_attempts h < - 1"
  shows "\<exists>e. advance_times N pos (Suc (unat (eh_max_recovery_attempts h) - unat (eh_recovery_attempts h))) h = Inl e"
proof (cases "advance_times N pos (Suc (unat (eh_max_recovery_attempts h) - unat (eh_recovery_attempts h))) h")
  case (Inr progress)
  from write_failures_count [OF assms Inr] obtain a :: u32 where
    "unat a = unat (eh_recovery_attempts h) + Suc (unat (eh_max_recovery_attempts h) - unat (eh_recovery_attempts h))"
    "a \<le> eh_max_recovery_attempts h"
    by blast
  then have False using assms(3) by (simp add: word_le_nat_alt)
  then show ?thesis ..
qed blast

text \<open>An encryptor that cannot write.\<close>

definition failing_noise :: "unit noise" where
  "failing_noise =
     \<lparr>ns_config_error = (\<lambda>_. None), ns_new = (\<lambda>_ _ _. Inr ()), ns_restore = (\<lambda>_ _ _ _. Inr ()),
      ns_phase = (\<lambda>_. ''HandShake''), ns_is_handshake_complete = (\<lambda>_. False),
      ns_handle_handshake = (\<lambda>_ _. ((), Inl (True, ''HomeserverWriteError''))),
      ns_transition_transport = (\<lambda>_. ((), None)), ns_snapshot = (\<lambda>_. \<lparr>nss_endpoint_pubkey = ''B'', nss_rest = []\<rparr>),
      ns_last_good_snapshot = (\<lambda>_. Some \<lparr>nss_endpoint_pubkey = ''B'', nss_rest = []\<rparr>),
      ns_send_message = (\<lambda>_ _ _. ((), None)), ns_receive_message = (\<lambda>_ _. ((), Inr [])),
      ns_derive_paths = sample_derive\<rparr>"

definition sample_party :: "string \<Rightarrow> string \<Rightarrow> local_party" where
  "sample_party secret key = \<lparr>lk_noise_secret_key = secret, lk_public_key = PublicKey key\<rparr>"

definition sample_started :: "bool \<Rightarrow> unit EncryptedLinkHandshake res" where
  "sample_started initiator =
     (if initiator
      then initiate_encrypted_link (table_ext []) failing_noise (sample_party ''a'' ''A'') (PublicKey ''B'') (PublicKey ''b'')
             (PaykitReceiverPath ''bitkit/wallet'') (PaykitReceiverPath ''tether/wallet'')
      else accept_encrypted_link (table_ext []) failing_noise (sample_party ''b'' ''B'') (PublicKey ''A'') (PublicKey ''a'')
             (PaykitReceiverPath ''tether/wallet'') (PaykitReceiverPath ''bitkit/wallet''))"

lemma sample_started_ok: "\<exists>h. sample_started initiator = Inr h \<and> eh_recovery_attempts h = 0 \<and> eh_max_recovery_attempts h = 3"
  by (cases initiator)
     (simp_all add: sample_started_def initiate_encrypted_link_def accept_encrypted_link_def start_handshake_def pair_config_def
      compute_private_payment_paths_def Let_def failing_noise_def DEFAULT_MAX_RECOVERY_ATTEMPTS_def)

theorem handshake_retries_bounded_witness:
  "\<exists>h e. sample_started True = Inr h \<and> advance_times failing_noise (\<lambda>k. [k]) 4 h = Inl e"
proof -
  obtain h where h: "sample_started True = Inr h" "eh_recovery_attempts h = 0" "eh_max_recovery_attempts h = 3"
    using sample_started_ok by blast
  have four: "Suc (unat (eh_max_recovery_attempts h) - unat (eh_recovery_attempts h)) = 4" by (simp add: h)
  have "\<exists>e. advance_times failing_noise (\<lambda>k. [k]) (Suc (unat (eh_max_recovery_attempts h) - unat (eh_recovery_attempts h))) h = Inl e"
    by (rule handshake_retries_bounded) (simp_all add: h failing_noise_def)
  then show ?thesis unfolding four using h(1) by blast
qed

theorem handshake_paths_meet_witness:
  "\<exists>ha hb. sample_started True = Inr ha \<and> sample_started False = Inr hb
     \<and> nc_write_path (eh_config ha) = nc_read_path (eh_config hb)"
proof -
  obtain ha hb where h: "sample_started True = Inr ha" "sample_started False = Inr hb" using sample_started_ok by blast
  have paired: "derivation_paired PublicKey (ns_derive_paths failing_noise)"
    by (simp add: derivation_paired_def sample_derive_def failing_noise_def)
  show ?thesis
    using handshake_paths_meet [OF paired, of "table_ext []" "sample_party ''a'' ''A''" "sample_party ''b'' ''B''"] h
    by (simp add: sample_started_def sample_party_def)
qed

section \<open>The network loops end\<close>

text \<open>A channel that hands out finitely many batches.\<close>

definition finite_channel :: "(nat \<Rightarrow> string list list \<Rightarrow> string list list \<times> ((bool \<times> string) + string list))" where
  "finite_channel k batches = (case batches of [] \<Rightarrow> ([], Inr []) | b # bs \<Rightarrow> (bs, Inr b))"

lemma decode_total: "\<exists>m. decode_private_application_message E raw = Inr m"
  by (simp add: decode_private_application_message_def Let_def)

lemma rmap_list_total: "\<forall>x. \<exists>y. f x = Inr y \<Longrightarrow> \<exists>ys. rmap_list f xs = Inr ys"
  by (induction xs) (simp_all add: rbind_Inr_iff, blast)

lemma rmap_list_append:
  "rmap_list f xs = Inr a \<Longrightarrow> rmap_list f ys = Inr b \<Longrightarrow> rmap_list f (xs @ ys) = Inr (a @ b)"
  by (induction xs arbitrary: a) (auto simp: rbind_Inr_iff)

lemma receive_batches_finite:
  "[] \<notin> set batches \<Longrightarrow>
     \<exists>decoded. rmap_list (decode_private_application_message E) (concat batches) = Inr decoded
       \<and> receive_batches E finite_channel k messages batches = Some ([], Inr (messages @ decoded))"
proof (induction batches arbitrary: k messages)
  case Nil
  then show ?case by (subst receive_batches.simps) (simp add: finite_channel_def)
next
  case (Cons b bs)
  obtain d where d: "rmap_list (decode_private_application_message E) b = Inr d"
    using decode_total [of E] rmap_list_total [of "decode_private_application_message E" b] by blast
  obtain ds where ds: "rmap_list (decode_private_application_message E) (concat bs) = Inr ds"
    "receive_batches E finite_channel (Suc k) (messages @ d) bs = Some ([], Inr ((messages @ d) @ ds))"
    using Cons by (metis list.set_intros(2))
  have "receive_batches E finite_channel k messages (b # bs) = receive_batches E finite_channel (Suc k) (messages @ d) bs"
    using Cons.prems d by (subst receive_batches.simps) (auto simp: finite_channel_def)
  with ds d show ?case by (auto simp: rmap_list_append)
qed

text \<open>
  What the loop relies on of the homeserver: a listing shows the first files of the prefix, up to the page
  limit, and a deletion removes the file; \<open>files\<close> reads the files off the contents.
\<close>

definition honest_outbox :: "('w \<Rightarrow> string list) \<Rightarrow> 'w outbox \<Rightarrow> bool" where
  "honest_outbox files B \<longleftrightarrow>
     (\<forall>k w. ob_list B k w = (w, Inr (take OUTBOX_PAGE_LIMIT (files w))))
     \<and> (\<forall>k path w. snd (ob_delete B k path w) = None \<and> files (fst (ob_delete B k path w)) = remove1 path (files w))"

lemma delete_page_honest:
  assumes "honest_outbox files B"
  shows "\<exists>w'. delete_page B k page n w = (w', Inr (n + length page)) \<and> files w' = foldl (\<lambda>fs path. remove1 path fs) (files w) page"
proof (induction page arbitrary: n w)
  case (Cons path page)
  obtain w1 where "ob_delete B k path w = (w1, None)" "files w1 = remove1 path (files w)"
    using assms by (metis honest_outbox_def prod.collapse)
  with Cons [of "n + 1" w1] show ?case by simp
qed simp

lemma remove_page: "foldl (\<lambda>fs path. remove1 path fs) fs (take m fs) = drop m fs"
proof (induction m arbitrary: fs)
  case (Suc m)
  then show ?case by (cases fs) simp_all
qed simp

lemma clear_outbox_loop_honest:
  assumes "honest_outbox files B"
  shows "\<exists>w'. clear_outbox_loop B k n w = Some (w', Inr (n + length (files w))) \<and> files w' = []"
proof (induction "length (files w)" arbitrary: k n w rule: less_induct)
  case less
  let ?page = "take OUTBOX_PAGE_LIMIT (files w)"
  have list: "ob_list B k w = (w, Inr ?page)" using assms by (simp add: honest_outbox_def)
  obtain w1 where w1: "delete_page B k ?page n w = (w1, Inr (n + length ?page))" "files w1 = drop OUTBOX_PAGE_LIMIT (files w)"
    using delete_page_honest [OF assms, of k ?page n w] by (auto simp: remove_page)
  show ?case
  proof (cases "files w = [] \<or> length ?page < OUTBOX_PAGE_LIMIT")
    case True
    then show ?thesis
      by (subst clear_outbox_loop.simps) (use list w1 in \<open>auto simp: OUTBOX_PAGE_LIMIT_def min_def split: if_splits\<close>)
  next
    case False
    then have shorter: "length (files w1) < length (files w)" by (simp add: w1 OUTBOX_PAGE_LIMIT_def)
    have "clear_outbox_loop B k n w = clear_outbox_loop B (Suc k) (n + length ?page) w1"
      by (subst clear_outbox_loop.simps) (use False list w1 in \<open>auto simp: OUTBOX_PAGE_LIMIT_def\<close>)
    with less [OF shorter, of "Suc k" "n + length ?page"] show ?thesis by (auto simp: w1)
  qed
qed

text \<open>Clearing the outbox of a link ends on a homeserver that lists what it stores and deletes what it is
  told to: every file under the private write path is gone, however many pages it took, and the
  count returned is the number of files deleted.\<close>

theorem clear_outbox_terminates:
  assumes "\<And>prefix. honest_outbox files (storage prefix)"
  shows "\<exists>w'. clear_encrypted_link_outbox E N L remote_id remote_noise local_rp remote_rp storage w
           = Some (w', Inr (length (files w))) \<and> files w' = []"
  using clear_outbox_loop_honest [OF assms, of _ 0 0 w]
  by (auto simp: clear_encrypted_link_outbox_def split: prod.split)

definition list_outbox :: "string list outbox" where
  "list_outbox = \<lparr>ob_list = (\<lambda>_ fs. (fs, Inr (take 100 fs))), ob_delete = (\<lambda>_ path fs. (remove1 path fs, None))\<rparr>"

theorem clear_outbox_terminates_witness:
  "clear_encrypted_link_outbox (table_ext []) failing_noise (sample_party ''a'' ''A'') (PublicKey ''B'') (PublicKey ''b'')
     (PaykitReceiverPath ''bitkit/wallet'') (PaykitReceiverPath ''tether/wallet'') (\<lambda>_. list_outbox)
     (replicate 250 ''m'') = Some ([], Inr 250)"
proof -
  have honest: "honest_outbox (\<lambda>fs. fs) list_outbox"
    by (simp add: honest_outbox_def list_outbox_def OUTBOX_PAGE_LIMIT_def)
  show ?thesis
    using clear_outbox_terminates [of "\<lambda>fs. fs" "\<lambda>_. list_outbox", OF honest, of "table_ext []" failing_noise
        "sample_party ''a'' ''A''" "PublicKey ''B''" "PublicKey ''b''" "PaykitReceiverPath ''bitkit/wallet''"
        "PaykitReceiverPath ''tether/wallet''" "replicate 250 ''m''"]
    by simp
qed

end
