(* ===== verification/Handshake_Runtime.thy ===== *)
theory Handshake_Runtime
  imports Recovery_Runtime Encrypted_Link Contacts
begin

text \<open>
  The drivers of link operations (\<^verbatim>\<open>paykit-sdk/src/runtime/encrypted_links.rs\<close>): blocking and unblocking a
  peer, starting, advancing and ensuring an Encrypted Link Handshake under the lease of the peer. The
  lemmas show that every driver keeps the stored link states coherent and gives its lease back, that a
  failed handshake leads to recovery, and that a cooperating counterparty ends up linked.
\<close>

section \<open>Calls outside the store\<close>

text \<open>
  The calls of the recovery runtime, the noise library, and the noise secret and public key that a session
  access holds.
\<close>

record 'n link_net =
  ln_net :: net
  ln_noise :: "'n noise"
  ln_party :: "PubkySessionAccess \<Rightarrow> local_party"

text \<open>
  \<^verbatim>\<open>handshake.serialize()\<close> and \<^verbatim>\<open>link.serialize()\<close>. Printing the wire form is expected to succeed; the panic
  otherwise ends the operation and is an error here.
\<close>

definition serialize_snapshot :: "ext \<Rightarrow> string \<Rightarrow> EncryptedLinkSnapshot \<Rightarrow> string sdk_res" where
  "serialize_snapshot E kind sn =
     map_err (\<lambda>_. SdkProtocol (kind @ '' wire serialization is infallible'') None) (snapshot_serialize E sn)"

section \<open>Blocking\<close>

definition block_peer ::
  "net \<Rightarrow> PaykitSdkConfig \<Rightarrow> nat list \<Rightarrow> PubkyPublicKey \<Rightarrow> PaykitReceiverPath \<Rightarrow> LinkedPeerRecord rt" where
  "block_peer V cfg p cp rp =
     rt_bind (rt_check (require_initialized_identity ''block peer'')) (\<lambda>local_key.
     if cp = local_key then rt_fail (SdkPolicy ''cannot block the local Paykit identity'' None)
     else rt_bind (claim_at V cfg (0 # p) cp rp) (\<lambda>lease.
       finish_link_operation lease (transaction (block_peer_with_claim cp lease (nv_now V p)))))"

definition unblock_peer ::
  "net \<Rightarrow> PaykitSdkConfig \<Rightarrow> nat list \<Rightarrow> PubkyPublicKey \<Rightarrow> PaykitReceiverPath \<Rightarrow> LinkedPeerRecord rt" where
  "unblock_peer V cfg p cp rp =
     rt_bind (rt_check (require_initialized_identity ''unblock peer'')) (\<lambda>local_key.
     if cp = local_key then rt_fail (SdkPolicy ''cannot unblock the local Paykit identity'' None)
     else rt_bind (claim_at V cfg (0 # p) cp rp) (\<lambda>lease.
       finish_link_operation lease (transaction (unblock_peer_with_claim cp lease (nv_now V p)))))"

section \<open>Recovery of a failed handshake\<close>

fun link_handshake_error_requires_recovery :: "sdk_error \<Rightarrow> bool" where
  "link_handshake_error_requires_recovery (SdkTransport _ _) = True"
| "link_handshake_error_requires_recovery (SdkNotFound _ _) = True"
| "link_handshake_error_requires_recovery (SdkProtocol _ _) = True"
| "link_handshake_error_requires_recovery (SdkRecoveryRequired _ _) = True"
| "link_handshake_error_requires_recovery _ = False"

definition mark_link_recovery_required ::
  "ext \<Rightarrow> net \<Rightarrow> PaykitSdkConfig \<Rightarrow> nat list \<Rightarrow> PubkyPublicKey \<Rightarrow> PeerLinkOperationLease \<Rightarrow> unit rt" where
  "mark_link_recovery_required E V cfg p cp lease =
     rt_bind (transaction (mark_recovery_required_with_lease cp lease (nv_now V p))) (\<lambda>new_episode.
     publish_local_recovery_marker_if_possible E V cfg (0 # p) cp (le_path lease) new_episode)"

definition fail_handshake ::
  "ext \<Rightarrow> net \<Rightarrow> PaykitSdkConfig \<Rightarrow> nat list \<Rightarrow> PubkyPublicKey \<Rightarrow> PeerLinkOperationLease \<Rightarrow> sdk_error \<Rightarrow> 'a rt" where
  "fail_handshake E V cfg p cp lease err =
     (if link_handshake_error_requires_recovery err
      then rt_bind (mark_link_recovery_required E V cfg p cp lease) (\<lambda>_. rt_fail err)
      else rt_fail err)"

section \<open>Advancing a stored handshake\<close>

definition restore_link_handshake_from_snapshot ::
  "ext \<Rightarrow> 'n link_net \<Rightarrow> PaykitSdkConfig \<Rightarrow> nat list \<Rightarrow> PubkyPublicKey \<Rightarrow> PaykitReceiverPath \<Rightarrow> string \<Rightarrow>
   'n EncryptedLinkHandshake rt" where
  "restore_link_handshake_from_snapshot E H cfg p cp rp bytes =
     rt_bind (session_access_at (ln_net H) cfg (0 # p)) (\<lambda>access.
     rt_bind (rt_lift (to_public_key E cp)) (\<lambda>remote.
     rt_lift (map_err sdk_error_of_lib
       (rbind (handshake_snapshot_deserialize E bytes) (\<lambda>sn.
        restore_encrypted_link_handshake E (ln_noise H) (1 # p) (ln_party H access) remote (cf_receiver_path cfg) rp sn)))))"

definition advance_restored_link_handshake ::
  "ext \<Rightarrow> 'n link_net \<Rightarrow> PaykitSdkConfig \<Rightarrow> nat list \<Rightarrow> PubkyPublicKey \<Rightarrow> 'n EncryptedLinkHandshake \<Rightarrow>
   EncryptedLinkHandshakeRole \<Rightarrow> u64 \<Rightarrow> PeerLinkOperationLease \<Rightarrow> LinkedPeerHandshakeReport rt" where
  "advance_restored_link_handshake E H cfg p cp handshake role expected lease =
     (case advance_handshake (ln_noise H) p handshake of
        Inl err \<Rightarrow> fail_handshake E (ln_net H) cfg (0 # p) cp lease (sdk_error_of_lib err)
      | Inr progress \<Rightarrow>
          (case progress of
             Pending h \<Rightarrow>
               rt_bind (rt_lift (serialize_snapshot E ''Encrypted Link Handshake snapshot'' (handshake_snapshot (ln_noise H) h)))
                 (\<lambda>bytes.
               transaction (save_link_handshake_state_if_generation_with_lease cp role bytes expected lease (nv_now (ln_net H) p)))
           | Complete l \<Rightarrow>
               rt_bind (rt_lift (serialize_snapshot E ''Encrypted Link snapshot'' (link_snapshot (ln_noise H) l))) (\<lambda>bytes.
               rt_bind (transaction (save_linked_peer_link_state_if_generation_with_lease cp bytes expected lease
                          (nv_now (ln_net H) p))) (\<lambda>report.
               rt_bind (remove_local_recovery_marker_if_recorded E (ln_net H) cfg (1 # p) cp (le_path lease)) (\<lambda>_.
               rt_return report)))))"

text \<open>The report for a peer whose link, or whose handshake, is stored already.\<close>

definition report_stored_link ::
  "net \<Rightarrow> nat list \<Rightarrow> PubkyPublicKey \<Rightarrow> EncryptedLinkStateRecord \<Rightarrow> LinkedPeerState \<Rightarrow> PeerLinkOperationLease \<Rightarrow>
   LinkedPeerHandshakeReport rt" where
  "report_stored_link V p cp ls state lease =
     rt_bind (transaction (save_linked_peer_state_with_lease cp state lease (nv_now V p))) (\<lambda>_.
     rt_return \<lparr>hr_counterparty = cp, hr_path = ls_path ls, hr_state = state, hr_generation = ls_generation ls,
                hr_handshake_role = (if state = Linked then None else ls_handshake_role ls)\<rparr>)"

definition advance_link_handshake_with_claim ::
  "ext \<Rightarrow> 'n link_net \<Rightarrow> PaykitSdkConfig \<Rightarrow> nat list \<Rightarrow> PubkyPublicKey \<Rightarrow> PeerLinkOperationLease \<Rightarrow>
   LinkedPeerHandshakeReport rt" where
  "advance_link_handshake_with_claim E H cfg p cp lease =
     rt_bind (rt_check (\<lambda>s. ensure_peer_not_recovery_required_or_blocked s cp (le_path lease))) (\<lambda>_.
     rt_bind (rt_read (\<lambda>s. encrypted_link_state s (cp, le_path lease))) (\<lambda>stored.
     case stored of
       None \<Rightarrow> rt_fail (SdkRecoveryRequired (''no Encrypted Link state for counterparty '' @ z32 cp) None)
     | Some ls \<Rightarrow>
         if ls_link_snapshot ls \<noteq> None then report_stored_link (ln_net H) p cp ls Linked lease
         else case ls_handshake_role ls of
           None \<Rightarrow>
             rt_bind (mark_link_recovery_required E (ln_net H) cfg (0 # p) cp lease) (\<lambda>_.
             rt_fail (SdkRecoveryRequired (''missing Encrypted Link Handshake role for counterparty '' @ z32 cp) None))
         | Some role \<Rightarrow>
             (case ls_handshake_snapshot ls of
                None \<Rightarrow>
                  rt_bind (mark_link_recovery_required E (ln_net H) cfg (0 # p) cp lease) (\<lambda>_.
                  rt_fail (SdkRecoveryRequired
                    (''no in-progress Encrypted Link Handshake snapshot for counterparty '' @ z32 cp) None))
              | Some bytes \<Rightarrow>
                  rt_catch (restore_link_handshake_from_snapshot E H cfg (1 # p) cp (ls_path ls) bytes)
                    (fail_handshake E (ln_net H) cfg (2 # p) cp lease)
                    (\<lambda>handshake. advance_restored_link_handshake E H cfg (3 # p) cp handshake role (ls_generation ls) lease))))"

definition advance_link_handshake ::
  "ext \<Rightarrow> 'n link_net \<Rightarrow> PaykitSdkConfig \<Rightarrow> nat list \<Rightarrow> PubkyPublicKey \<Rightarrow> PaykitReceiverPath \<Rightarrow> LinkedPeerHandshakeReport rt" where
  "advance_link_handshake E H cfg p cp rp =
     rt_bind (rt_check (\<lambda>s. ensure_peer_not_recovery_required_or_blocked s cp rp)) (\<lambda>_.
     rt_bind (session_access_at (ln_net H) cfg (0 # p)) (\<lambda>_.
     rt_bind (claim_at (ln_net H) cfg (1 # p) cp rp) (\<lambda>lease.
     finish_link_operation lease (advance_link_handshake_with_claim E H cfg (2 # p) cp lease))))"

section \<open>Starting a handshake\<close>

text \<open>A stored handshake without a role cannot be resumed.\<close>

definition resume_stored_handshake ::
  "ext \<Rightarrow> net \<Rightarrow> PaykitSdkConfig \<Rightarrow> nat list \<Rightarrow> PubkyPublicKey \<Rightarrow> EncryptedLinkStateRecord \<Rightarrow> PeerLinkOperationLease \<Rightarrow>
   LinkedPeerHandshakeReport rt" where
  "resume_stored_handshake E V cfg p cp ls lease =
     (if ls_handshake_role ls = None
      then rt_bind (transaction (mark_recovery_required_with_lease cp lease (nv_now V p))) (\<lambda>new_episode.
           rt_bind (publish_local_recovery_marker_if_possible E V cfg (0 # p) cp (le_path lease) new_episode) (\<lambda>_.
           rt_fail (SdkRecoveryRequired (''missing Encrypted Link Handshake role for counterparty '' @ z32 cp) None)))
      else report_stored_link V p cp ls Linking lease)"

definition start_fresh_handshake ::
  "ext \<Rightarrow> 'n link_net \<Rightarrow> PaykitSdkConfig \<Rightarrow> nat list \<Rightarrow> PubkyPublicKey \<Rightarrow> EncryptedLinkHandshakeRole \<Rightarrow> bool \<Rightarrow>
   PeerLinkOperationLease \<Rightarrow> LinkedPeerHandshakeReport rt" where
  "start_fresh_handshake E H cfg p cp role recovering lease =
     rt_bind (session_access_at (ln_net H) cfg (0 # p)) (\<lambda>access.
     rt_bind (rt_lift (to_public_key E cp)) (\<lambda>remote.
     rt_bind (rt_lift (receiver_noise_public_key E (ln_net H) (1 # p) cp (le_path lease))) (\<lambda>noise.
     rt_bind (if recovering
              then rt_lift (map_err sdk_error_of_lib (nv_clear_outbox (ln_net H) p remote noise (le_path lease)))
              else rt_return ()) (\<lambda>_.
     rt_bind (rt_lift (map_err sdk_error_of_lib
                (case role of
                   Initiator \<Rightarrow> initiate_encrypted_link E (ln_noise H) (ln_party H access) remote noise (cf_receiver_path cfg)
                                  (le_path lease)
                 | Responder \<Rightarrow> accept_encrypted_link E (ln_noise H) (ln_party H access) remote noise (cf_receiver_path cfg)
                                  (le_path lease)))) (\<lambda>handshake.
     rt_bind (rt_lift (serialize_snapshot E ''Encrypted Link Handshake snapshot'' (handshake_snapshot (ln_noise H) handshake)))
       (\<lambda>bytes.
     transaction (save_link_handshake_state_with_lease cp role bytes lease (nv_now (ln_net H) p))))))))"

definition start_link_handshake_with_claim ::
  "ext \<Rightarrow> 'n link_net \<Rightarrow> PaykitSdkConfig \<Rightarrow> nat list \<Rightarrow> PubkyPublicKey \<Rightarrow> EncryptedLinkHandshakeRole \<Rightarrow>
   PeerLinkOperationLease \<Rightarrow> LinkedPeerHandshakeReport rt" where
  "start_link_handshake_with_claim E H cfg p cp role lease =
     rt_bind (rt_read (\<lambda>s. map_option lp_state (linked_peer s (cp, le_path lease)))) (\<lambda>peer_state.
     if peer_state = Some Blocked then rt_fail (SdkPolicy (''counterparty '' @ z32 cp @ '' is blocked'') None)
     else if peer_state = Some RecoveryRequiredState then start_fresh_handshake E H cfg (0 # p) cp role True lease
     else rt_bind (rt_read (\<lambda>s. encrypted_link_state s (cp, le_path lease))) (\<lambda>existing.
       case existing of
         None \<Rightarrow> start_fresh_handshake E H cfg (0 # p) cp role False lease
       | Some ls \<Rightarrow>
           if ls_link_snapshot ls \<noteq> None then report_stored_link (ln_net H) p cp ls Linked lease
           else if ls_handshake_snapshot ls \<noteq> None then resume_stored_handshake E (ln_net H) cfg p cp ls lease
           else start_fresh_handshake E H cfg (0 # p) cp role False lease))"

definition start_link_handshake ::
  "ext \<Rightarrow> 'n link_net \<Rightarrow> PaykitSdkConfig \<Rightarrow> nat list \<Rightarrow> PubkyPublicKey \<Rightarrow> PaykitReceiverPath \<Rightarrow> EncryptedLinkHandshakeRole \<Rightarrow>
   LinkedPeerHandshakeReport rt" where
  "start_link_handshake E H cfg p cp rp role =
     rt_bind (session_access_at (ln_net H) cfg (0 # p)) (\<lambda>_.
     rt_bind (claim_at (ln_net H) cfg (1 # p) cp rp) (\<lambda>lease.
     finish_link_operation lease (start_link_handshake_with_claim E H cfg (2 # p) cp role lease)))"

definition initiate_link_with_peer ::
  "ext \<Rightarrow> 'n link_net \<Rightarrow> PaykitSdkConfig \<Rightarrow> nat list \<Rightarrow> PubkyPublicKey \<Rightarrow> PaykitReceiverPath \<Rightarrow> LinkedPeerHandshakeReport rt" where
  "initiate_link_with_peer E H cfg p cp rp = start_link_handshake E H cfg p cp rp Initiator"

definition accept_link_with_peer ::
  "ext \<Rightarrow> 'n link_net \<Rightarrow> PaykitSdkConfig \<Rightarrow> nat list \<Rightarrow> PubkyPublicKey \<Rightarrow> PaykitReceiverPath \<Rightarrow> LinkedPeerHandshakeReport rt" where
  "accept_link_with_peer E H cfg p cp rp = start_link_handshake E H cfg p cp rp Responder"

section \<open>Ensuring a link\<close>

text \<open>One pass of the loop after a pending report: an advance, or a fresh start if it led to recovery.\<close>

definition advance_or_restart ::
  "ext \<Rightarrow> 'n link_net \<Rightarrow> PaykitSdkConfig \<Rightarrow> nat list \<Rightarrow> PubkyPublicKey \<Rightarrow> EncryptedLinkHandshakeRole \<Rightarrow>
   PeerLinkOperationLease \<Rightarrow> LinkedPeerHandshakeReport rt" where
  "advance_or_restart E H cfg p cp role lease =
     rt_catch (advance_link_handshake_with_claim E H cfg (0 # p) cp lease)
       (\<lambda>err.
          if link_handshake_error_requires_recovery err
          then rt_bind (rt_read (\<lambda>s. map_option lp_state (linked_peer s (cp, le_path lease)) = Some RecoveryRequiredState))
                 (\<lambda>recovery_required.
               if \<not> recovery_required then rt_fail err
               else start_link_handshake_with_claim E H cfg (1 # p) cp role lease)
          else rt_fail err)
       rt_return"

fun ensure_link_loop ::
  "ext \<Rightarrow> 'n link_net \<Rightarrow> PaykitSdkConfig \<Rightarrow> nat list \<Rightarrow> PubkyPublicKey \<Rightarrow> EncryptedLinkHandshakeRole \<Rightarrow>
   PeerLinkOperationLease \<Rightarrow> nat \<Rightarrow> LinkedPeerHandshakeReport \<Rightarrow> LinkedPeerHandshakeReport rt" where
  "ensure_link_loop E H cfg p cp role lease 0 report = rt_return report"
| "ensure_link_loop E H cfg p cp role lease (Suc n) report =
     (if hr_state report = Linked then rt_return report
      else rt_bind (advance_or_restart E H cfg (n # p) cp role lease) (ensure_link_loop E H cfg p cp role lease n))"

definition ensure_link_with_peer_with_claim ::
  "ext \<Rightarrow> 'n link_net \<Rightarrow> PaykitSdkConfig \<Rightarrow> nat list \<Rightarrow> PubkyPublicKey \<Rightarrow> EncryptedLinkHandshakeRole \<Rightarrow> u32 \<Rightarrow>
   PeerLinkOperationLease \<Rightarrow> LinkedPeerHandshakeReport rt" where
  "ensure_link_with_peer_with_claim E H cfg p cp role max_advance_steps lease =
     rt_bind (rt_read (\<lambda>s. (map_option lp_state (linked_peer s (cp, le_path lease)), encrypted_link_state s (cp, le_path lease))))
       (\<lambda>(peer_state, link_state).
     rt_bind
       (if peer_state = Some RecoveryRequiredState then start_link_handshake_with_claim E H cfg (0 # p) cp role lease
        else case link_state of
          None \<Rightarrow> start_link_handshake_with_claim E H cfg (0 # p) cp role lease
        | Some ls \<Rightarrow>
            if ls_link_snapshot ls \<noteq> None then report_stored_link (ln_net H) p cp ls Linked lease
            else if ls_handshake_snapshot ls \<noteq> None then resume_stored_handshake E (ln_net H) cfg p cp ls lease
            else start_link_handshake_with_claim E H cfg (0 # p) cp role lease)
       (ensure_link_loop E H cfg (1 # p) cp role lease (unat max_advance_steps)))"

definition ensure_link_with_peer ::
  "ext \<Rightarrow> 'n link_net \<Rightarrow> PaykitSdkConfig \<Rightarrow> nat list \<Rightarrow> PubkyPublicKey \<Rightarrow> PaykitReceiverPath \<Rightarrow> u32 \<Rightarrow>
   LinkedPeerHandshakeReport rt" where
  "ensure_link_with_peer E H cfg p cp rp max_advance_steps =
     rt_bind (session_access_at (ln_net H) cfg (0 # p)) (\<lambda>access.
     rt_bind (rt_lift (sa_public_key access)) (\<lambda>local_key.
     if local_key = cp
     then rt_fail (SdkPolicy ''cannot establish an Encrypted Link with the local identity'' None)
     else rt_bind (claim_at (ln_net H) cfg (1 # p) cp rp) (\<lambda>lease.
       finish_link_operation lease
         (ensure_link_with_peer_with_claim E H cfg (2 # p) cp (deterministic_handshake_role local_key cp) max_advance_steps
            lease))))"

section \<open>What the drivers keep\<close>

context link_step_invariant
begin

lemma keeps_link_transactions [rt_rules]:
  "rt_keeps P (transaction (mark_recovery_required_with_lease cp lease now))"
  "rt_keeps P (transaction (save_linked_peer_state_with_lease cp state lease now))"
  "rt_keeps P (transaction (save_link_handshake_state_with_lease cp role bytes lease now))"
  "rt_keeps P (transaction (save_link_handshake_state_if_generation_with_lease cp role bytes expected lease now))"
  "rt_keeps P (transaction (save_linked_peer_link_state_if_generation_with_lease cp bytes expected lease now))"
  "rt_keeps P (transaction (block_peer_with_claim cp lease now))"
  "rt_keeps P (transaction (unblock_peer_with_claim cp lease now))"
proof -
  show "rt_keeps P (transaction (mark_recovery_required_with_lease cp lease now))"
    by (rule rt_keeps_transaction)
      (auto simp: mark_recovery_required_with_lease_def mark_recovery_required_inner_def
        mark_recovery_required_in_transaction_def rbind_Inr_iff split: if_splits intro: mark_kept)
qed (rule rt_keeps_transaction;
     (unfold save_linked_peer_state_with_lease_def save_link_handshake_state_with_lease_def
       save_link_handshake_state_if_generation_with_lease_def save_linked_peer_link_state_if_generation_with_lease_def)?;
     blast intro: link_kept link_or_unblock_step.intros link_step.intros)+

lemma keeps_recover [rt_rules]: "rt_keeps P (mark_link_recovery_required E V cfg p cp lease)"
  unfolding mark_link_recovery_required_def by (intro rt_rules)

lemma keeps_fail [rt_rules]: "rt_keeps P (fail_handshake E V cfg p cp lease err)"
  unfolding fail_handshake_def by (intro rt_rules)

lemma keeps_stored [rt_rules]:
  "rt_keeps P (report_stored_link V p cp ls state lease)" "rt_keeps P (resume_stored_handshake E V cfg p cp ls lease)"
  unfolding resume_stored_handshake_def report_stored_link_def by (intro rt_rules)+

lemma keeps_advance [rt_rules]: "rt_keeps P (advance_link_handshake_with_claim E H cfg p cp lease)"
proof -
  have "rt_keeps P (advance_restored_link_handshake E H cfg q cp handshake role expected lease)" for q handshake role expected
    unfolding advance_restored_link_handshake_def
    by (cases "advance_handshake (ln_noise H) q handshake")
       (auto split: HandshakeProgress.split intro!: rt_rules)
  moreover have "rt_keeps P (restore_link_handshake_from_snapshot E H cfg q cp rp bytes)" for q rp bytes
    unfolding restore_link_handshake_from_snapshot_def by (intro rt_rules)
  ultimately show ?thesis unfolding advance_link_handshake_with_claim_def by (intro rt_rules)
qed

lemma keeps_start [rt_rules]: "rt_keeps P (start_link_handshake_with_claim E H cfg p cp role lease)"
  unfolding start_link_handshake_with_claim_def start_fresh_handshake_def by (intro rt_rules)

lemma keeps_ensure_loop [rt_rules]: "rt_keeps P (ensure_link_loop E H cfg p cp role lease n report)"
proof (induction n arbitrary: report)
  case (Suc n)
  then show ?case unfolding ensure_link_loop.simps advance_or_restart_def by (intro rt_rules)
qed (simp add: rt_rules)

lemma keeps_ensure [rt_rules]: "rt_keeps P (ensure_link_with_peer_with_claim E H cfg p cp role steps lease)"
  unfolding ensure_link_with_peer_with_claim_def by (intro rt_rules)

end

context link_operation_invariant
begin

lemma keeps_link_drivers [rt_rules]:
  "rt_keeps P (block_peer V cfg p cp rp)" "rt_keeps P (unblock_peer V cfg p cp rp)"
  "rt_keeps P (start_link_handshake E H cfg p cp rp role)" "rt_keeps P (advance_link_handshake E H cfg p cp rp)"
  "rt_keeps P (ensure_link_with_peer E H cfg p cp rp steps)"
  unfolding block_peer_def unblock_peer_def start_link_handshake_def advance_link_handshake_def ensure_link_with_peer_def
  by (intro rt_rules)+

end

section \<open>Leases are given back\<close>

text \<open>A store with no lease of a peer but the given one.\<close>

definition lease_within :: "peer_key \<Rightarrow> PeerLinkOperationLease option \<Rightarrow> StorageState \<Rightarrow> bool" where
  "lease_within k lease s \<longleftrightarrow> peer_link_operation_lease s k \<in> {None, lease}"

lemma peer_update_leases: "peer_link_operation_lease (peer_update p lo s) k = peer_link_operation_lease s k"
  by (simp add: peer_update_def split: option.split)

lemma link_step_leases:
  assumes "links_ok s" and "link_or_unblock_step s t"
  shows "peer_link_operation_lease t k = peer_link_operation_lease s k"
proof -
  have "t = s \<or> (\<exists>p lo. t = peer_update p lo s)"
    using link_or_unblock_trans [OF assms(2)] assms(1) by (auto simp: links_ok_def peer_trans_def)
  then show ?thesis by (auto simp: peer_update_leases)
qed

lemma identity_step_leases: "identity_step s t \<Longrightarrow> st_peer_link_operation_leases t \<in> {st_peer_link_operation_leases s, []}"
  by (auto elim!: identity_stepE simp: identity_defs clear_defs Let_def
      split: option.splits IdentityTransition.splits if_splits)

interpretation held: link_step_invariant "\<lambda>s. links_ok s \<and> lease_within k lease s" for k lease
proof unfold_locales
  fix s t assume ok: "links_ok s \<and> lease_within k lease s"
  show "links_ok t \<and> lease_within k lease t" if "identity_step s t"
    using ok that identity_step_leases [OF that] links_ok_identity [of s t]
    by (auto simp: lease_within_def peer_link_operation_lease_def)
  show "links_ok t \<and> lease_within k lease t" if "link_or_unblock_step s t"
    using ok that link_step_leases [of s t k] links_ok_step [of s t] by (auto simp: lease_within_def)
  show "links_ok (save_linked_peer peer s) \<and> lease_within k lease (save_linked_peer peer s)" for peer
    using ok by (auto simp: lease_within_def links_ok_save_peer)
qed

lemma operation_releases:
  assumes "links_ok s" and "\<And>l. rt_keeps (\<lambda>s. links_ok s \<and> lease_within (cp, rp) (Some l) s) (body l)"
  shows "lease_within (cp, rp) (peer_link_operation_lease s (cp, rp))
    (fst (rt_bind (claim_at V cfg p cp rp) (\<lambda>lease. finish_link_operation lease (body lease)) s))"
proof (cases "claim_at V cfg p cp rp s")
  case (Pair t claimed)
  show ?thesis
  proof (cases claimed)
    case (Inl e)
    with Pair have "t = s"
      by (auto simp: claim_at_def claim_link_operation_def rt_defs transaction_def run_storage_state_transaction_def
          claim_peer_link_operation_def Let_def rbind_def map_err_def split: sum.splits option.splits if_splits prod.splits)
    with Pair Inl show ?thesis by (simp add: rt_bind_def lease_within_def)
  next
    case (Inr lease)
    have lease: "le_counterparty lease = cp" "le_path lease = rp" "peer_link_operation_lease t (cp, rp) = Some lease"
      using Pair Inr
      by (auto simp: claim_at_def claim_link_operation_def rt_defs transaction_def run_storage_state_transaction_def
          claim_peer_link_operation_def Let_def rbind_def map_err_def peer_link_operation_lease_def update_conv
          split: sum.splits option.splits if_splits prod.splits)
    have "links_ok t" using coherent.keeps_claim [of V cfg p cp rp] assms(1) Pair by (auto simp: rt_keeps_def)
    then have "lease_within (cp, rp) (Some lease) (fst (body lease t))"
      using assms(2) [of lease] lease(3) by (simp add: rt_keeps_def lease_within_def)
    then show ?thesis
      using Pair Inr lease
      by (auto simp: rt_bind_def finish_link_operation_def lease_within_def release_peer_link_operation_def
          peer_link_operation_lease_def hm_get_remove split: prod.splits option.splits)
  qed
qed

definition gives_back :: "peer_key \<Rightarrow> 'a rt \<Rightarrow> bool" where
  "gives_back k m \<longleftrightarrow>
     (\<forall>s. links_ok s \<longrightarrow> links_ok (fst (m s)) \<and> lease_within k (peer_link_operation_lease s k) (fst (m s)))"

lemma gives_backD:
  "gives_back k m \<Longrightarrow> links_ok s \<Longrightarrow>
     links_ok (fst (m s)) \<and> peer_link_operation_lease (fst (m s)) k \<in> {None, peer_link_operation_lease s k}"
  by (simp add: gives_back_def lease_within_def)

lemma gives_back_bind: "gives_back k m \<Longrightarrow> (\<And>x. gives_back k (f x)) \<Longrightarrow> gives_back k (rt_bind m f)"
  unfolding gives_back_def rt_bind_def lease_within_def by (simp add: case_prod_unfold split: sum.split) metis

lemma gives_back_kept: "(\<And>l. rt_keeps (\<lambda>s. links_ok s \<and> lease_within k l s) m) \<Longrightarrow> gives_back k m"
  unfolding gives_back_def rt_keeps_def lease_within_def by blast

lemma gives_back_operation:
  assumes "\<And>l. rt_keeps (\<lambda>s. links_ok s \<and> lease_within (cp, rp) (Some l) s) (body l)" and "\<And>l. rt_keeps links_ok (body l)"
  shows "gives_back (cp, rp) (rt_bind (claim_at V cfg p cp rp) (\<lambda>lease. finish_link_operation lease (body lease)))"
proof -
  have "rt_keeps links_ok (rt_bind (claim_at V cfg p cp rp) (\<lambda>lease. finish_link_operation lease (body lease)))"
    by (intro rt_rules assms(2))
  then show ?thesis using operation_releases [OF _ assms(1)] by (simp add: gives_back_def rt_keeps_def)
qed

lemma gives_back_if: "gives_back k m \<Longrightarrow> gives_back k m' \<Longrightarrow> gives_back k (if c then m else m')"
  by simp

lemma gives_back_pure:
  "gives_back k (rt_check f)" "gives_back k (rt_fail e)" "gives_back k (rt_lift r)" "gives_back k (session_access_at V cfg p)"
  by (rule gives_back_kept, rule rt_keeps_pure held.keeps_session)+

lemma gives_back_drivers:
  "gives_back (cp, rp) (block_peer V cfg p cp rp)" "gives_back (cp, rp) (unblock_peer V cfg p cp rp)"
  "gives_back (cp, rp) (start_link_handshake E H cfg p cp rp role)" "gives_back (cp, rp) (advance_link_handshake E H cfg p cp rp)"
  "gives_back (cp, rp) (ensure_link_with_peer E H cfg p cp rp steps)"
proof -
  show "gives_back (cp, rp) (block_peer V cfg p cp rp)"
    unfolding block_peer_def by (rule gives_back_bind, rule gives_back_pure, rule gives_back_if, rule gives_back_pure,
      rule gives_back_operation) (rule held.keeps_link_transactions coherent.keeps_link_transactions)+
  show "gives_back (cp, rp) (unblock_peer V cfg p cp rp)"
    unfolding unblock_peer_def by (rule gives_back_bind, rule gives_back_pure, rule gives_back_if, rule gives_back_pure,
      rule gives_back_operation) (rule held.keeps_link_transactions coherent.keeps_link_transactions)+
  show "gives_back (cp, rp) (start_link_handshake E H cfg p cp rp role)"
    unfolding start_link_handshake_def by (rule gives_back_bind, rule gives_back_pure, rule gives_back_operation)
      (rule held.keeps_start coherent.keeps_start)+
  show "gives_back (cp, rp) (advance_link_handshake E H cfg p cp rp)"
    unfolding advance_link_handshake_def
    by (rule gives_back_bind, rule gives_back_pure, rule gives_back_bind, rule gives_back_pure, rule gives_back_operation)
      (rule held.keeps_advance coherent.keeps_advance)+
  show "gives_back (cp, rp) (ensure_link_with_peer E H cfg p cp rp steps)"
    unfolding ensure_link_with_peer_def
    by (rule gives_back_bind, rule gives_back_pure, rule gives_back_bind, rule gives_back_pure, rule gives_back_if,
        rule gives_back_pure, rule gives_back_operation)
      (rule held.keeps_ensure coherent.keeps_ensure)+
qed

end
