(* ===== verification/Link_Progress.thy ===== *)
theory Link_Progress
  imports Handshake_Runtime
begin

text \<open>
  Progress of link establishment: with a session that stays and a noise library that carries the
  handshake through, the driver \<^verbatim>\<open>ensure_link_with_peer\<close> links the peer within its step budget; and
  whatever happens, the drivers give their lease back.
\<close>

section \<open>Cooperation\<close>

text \<open>
  What the runtime relies on of the noise library for a handshake that the counterparty takes part in:
  \<open>live\<close> are the states of the handshake with \<open>remote\<close>, \<open>transported\<close> those of the link after it, and \<open>rank\<close> bounds the
  steps still to come. A live state restores, a step of rank zero is the last one and the others reduce
  the rank. Snapshots of the pair can be printed, and those of the handshake read back.
\<close>

definition cooperative ::
  "'n noise \<Rightarrow> PublicKey \<Rightarrow> (PubkyNoiseSessionState \<Rightarrow> bool) \<Rightarrow> (PubkyNoiseSessionState \<Rightarrow> bool) \<Rightarrow>
   (PubkyNoiseSessionState \<Rightarrow> nat) \<Rightarrow> bool" where
  "cooperative N remote live transported rank \<longleftrightarrow>
     (\<forall>c. ns_config_error N c = None)
     \<and> (\<forall>st. live st \<longrightarrow> ns_phase N st = ''HandShake'' \<and> (\<forall>p c. \<exists>n. ns_restore N p c st remote = Inr n \<and> ns_snapshot N n = st))
     \<and> (\<forall>p n. live (ns_snapshot N n) \<longrightarrow> \<not> ns_is_handshake_complete N n
          \<and> (\<exists>n' last. ns_handle_handshake N p n = (n', Inr last) \<and> last = (rank (ns_snapshot N n) = 0)
               \<and> (if last then snd (ns_transition_transport N n') = None \<and> transported (ns_snapshot N (fst (ns_transition_transport N n')))
                  else live (ns_snapshot N n') \<and> rank (ns_snapshot N n') < rank (ns_snapshot N n))))"

definition snapshots_readable ::
  "ext \<Rightarrow> PublicKey \<Rightarrow> PublicKey \<Rightarrow> PaykitReceiverPath \<Rightarrow> PaykitReceiverPath \<Rightarrow> (PubkyNoiseSessionState \<Rightarrow> bool) \<Rightarrow>
   (PubkyNoiseSessionState \<Rightarrow> bool) \<Rightarrow> bool" where
  "snapshots_readable E remote noise local_rp remote_rp live transported \<longleftrightarrow>
     (\<forall>sn. es_recipient sn = remote \<and> es_remote_noise_public_key sn = noise \<and> es_local_receiver_path sn = local_rp
        \<and> es_remote_receiver_path sn = remote_rp \<and> (live (es_state sn) \<or> transported (es_state sn)) \<longrightarrow>
        (\<exists>bytes. snapshot_serialize E sn = Inr bytes
           \<and> (live (es_state sn) \<longrightarrow> handshake_snapshot_deserialize E bytes = Inr sn)))"

text \<open>A live session whose keys are the stored ones.\<close>

definition signed_in :: "net \<Rightarrow> PaykitSdkConfig \<Rightarrow> PubkySessionAccess \<Rightarrow> StorageState \<Rightarrow> bool" where
  "signed_in V cfg access s \<longleftrightarrow>
     (\<forall>p. nv_session V p = Inr (Some access))
     \<and> sa_validate_for_capabilities access (required_session_capabilities cfg) = Inr ()
     \<and> stored_public_key s = Some (sa_session_public_key access) \<and> stored_noise_key s = Some (sa_noise_public_key access)"

text \<open>The stored handshake of a peer with at most \<open>n\<close> steps after the next one.\<close>

definition handshake_stored ::
  "ext \<Rightarrow> PublicKey \<Rightarrow> PaykitSdkConfig \<Rightarrow> PubkyPublicKey \<Rightarrow> PaykitReceiverPath \<Rightarrow> (PubkyNoiseSessionState \<Rightarrow> bool) \<Rightarrow>
   (PubkyNoiseSessionState \<Rightarrow> nat) \<Rightarrow> nat \<Rightarrow> StorageState \<Rightarrow> bool" where
  "handshake_stored E noise cfg cp rp live rank n s \<longleftrightarrow>
     (\<exists>peer ls bytes sn remote. linked_peer s (cp, rp) = Some peer \<and> lp_state peer = Linking
        \<and> encrypted_link_state s (cp, rp) = Some ls \<and> ls_link_snapshot ls = None \<and> ls_handshake_role ls \<noteq> None
        \<and> ls_handshake_snapshot ls = Some bytes \<and> ls_path ls = rp
        \<and> handshake_snapshot_deserialize E bytes = Inr sn \<and> to_public_key E cp = Inr remote \<and> es_recipient sn = remote
        \<and> es_remote_noise_public_key sn = noise \<and> es_local_receiver_path sn = cf_receiver_path cfg \<and> es_remote_receiver_path sn = rp
        \<and> live (es_state sn) \<and> rank (es_state sn) \<le> n)"

lemma session_access_signed_in:
  assumes "signed_in V cfg access s"
  shows "\<exists>state. session_access_at V cfg p s = (save_identity_state state s, Inr access)
    \<and> id_public_key state = Some (sa_session_public_key access) \<and> id_noise_public_key state = Some (sa_noise_public_key access)"
proof -
  let ?active = "\<lparr>ai_public_key = sa_session_public_key access, ai_noise_public_key = sa_noise_public_key access\<rparr>"
  obtain previous where previous: "load_identity_state s = Some previous" "identity_transition (Some previous) ?active = Unchanged"
    using assms
    by (auto simp: signed_in_def stored_public_key_def stored_noise_key_def load_identity_state_def identity_transition_def
        bind_eq_Some_conv)
  let ?state = "\<lparr>id_public_key = Some (sa_session_public_key access), id_noise_public_key = Some (sa_noise_public_key access),
    id_initialized_at = nv_now V (0 # p), id_sign_out_generation = id_sign_out_generation previous\<rparr>"
  have "refresh_active_identity ?active (nv_now V (0 # p)) s = (save_identity_state ?state s, ?state)"
    using previous by (simp add: refresh_active_identity_def Let_def previous_generation_def)
  moreover have "nv_session V p = Inr (Some access)"
    "sa_validate_for_capabilities access (required_session_capabilities cfg) = Inr ()"
    using assms by (auto simp: signed_in_def)
  ultimately have "session_access_at V cfg p s = (save_identity_state ?state s, Inr access)"
    by (simp add: session_access_at_def private_link_session_access_def refresh_identity_def
        load_session_access_and_refresh_identity_def sa_public_key_def transaction_def run_storage_state_transaction_def
        rt_bind_def rt_lift_def rmap_def)
  then show ?thesis by (intro exI [of _ ?state]) simp
qed

section \<open>One step of a live handshake\<close>

lemma restore_live:
  assumes "cooperative N remote live transported rank" and "live (es_state sn)" and "es_recipient sn = remote"
  shows "\<exists>h. restore_encrypted_link_handshake E N p L remote (es_local_receiver_path sn) (es_remote_receiver_path sn) sn = Inr h
    \<and> ns_snapshot N (eh_encryptor h) = es_state sn \<and> eh_remote_pubkey h = remote
    \<and> eh_remote_noise_public_key h = es_remote_noise_public_key sn
    \<and> eh_local_receiver_path h = es_local_receiver_path sn \<and> eh_remote_receiver_path h = es_remote_receiver_path sn"
proof -
  obtain c where c: "pair_config E N '' for handshake restore'' L remote (es_remote_noise_public_key sn)
      (es_local_receiver_path sn) (es_remote_receiver_path sn) = Inr c"
    using assms(1) by (auto simp: pair_config_def cooperative_def Let_def case_prod_unfold)
  note live = assms(1) [unfolded cooperative_def, THEN conjunct2, THEN conjunct1, rule_format, OF assms(2)]
  obtain n where "ns_restore N p c (es_state sn) remote = Inr n" "ns_snapshot N n = es_state sn"
    using live [THEN conjunct2] by blast
  moreover have "ns_phase N (es_state sn) = ''HandShake''" by (rule live [THEN conjunct1])
  ultimately show ?thesis
    using c config_paths_ok [OF c] assms(3)
    by (simp add: restore_encrypted_link_handshake_def validate_receiver_scope_def
        restore_encrypted_link_handshake_inner_def check_snapshot_for_def)
qed

lemma advance_live:
  assumes "cooperative N remote live transported rank" and "live (ns_snapshot N (eh_encryptor h))"
  shows "(\<exists>l. advance_handshake N p h = Inr (Complete l) \<and> rank (ns_snapshot N (eh_encryptor h)) = 0
          \<and> transported (ns_snapshot N (el_encryptor l)) \<and> el_remote_noise_public_key l = eh_remote_noise_public_key h
          \<and> el_recipient l = eh_remote_pubkey h \<and> el_local_receiver_path l = eh_local_receiver_path h
          \<and> el_remote_receiver_path l = eh_remote_receiver_path h)
    \<or> (\<exists>h'. advance_handshake N p h = Inr (Pending h') \<and> live (ns_snapshot N (eh_encryptor h'))
          \<and> rank (ns_snapshot N (eh_encryptor h')) < rank (ns_snapshot N (eh_encryptor h))
          \<and> eh_remote_noise_public_key h' = eh_remote_noise_public_key h
          \<and> eh_remote_pubkey h' = eh_remote_pubkey h \<and> eh_local_receiver_path h' = eh_local_receiver_path h
          \<and> eh_remote_receiver_path h' = eh_remote_receiver_path h)"
proof -
  have "\<forall>p n. live (ns_snapshot N n) \<longrightarrow> \<not> ns_is_handshake_complete N n
          \<and> (\<exists>n' last. ns_handle_handshake N p n = (n', Inr last) \<and> last = (rank (ns_snapshot N n) = 0)
               \<and> (if last then snd (ns_transition_transport N n') = None \<and> transported (ns_snapshot N (fst (ns_transition_transport N n')))
                  else live (ns_snapshot N n') \<and> rank (ns_snapshot N n') < rank (ns_snapshot N n)))"
    by (rule assms(1) [unfolded cooperative_def, THEN conjunct2, THEN conjunct2])
  from this [rule_format, OF assms(2), of p] obtain n' last where
    "\<not> ns_is_handshake_complete N (eh_encryptor h)" "ns_handle_handshake N p (eh_encryptor h) = (n', Inr last)"
    "last = (rank (ns_snapshot N (eh_encryptor h)) = 0)"
    "if last then snd (ns_transition_transport N n') = None \<and> transported (ns_snapshot N (fst (ns_transition_transport N n')))
     else live (ns_snapshot N n') \<and> rank (ns_snapshot N n') < rank (ns_snapshot N (eh_encryptor h))"
    by blast
  then show ?thesis
    by (cases "ns_transition_transport N n'")
       (auto simp: advance_handshake_def finish_handshake_def from_parts_def split: if_splits)
qed

section \<open>One step of the runtime\<close>

text \<open>The store while the driver holds the lease of a peer in an unchanged session.\<close>

definition holding :: "net \<Rightarrow> PaykitSdkConfig \<Rightarrow> PubkySessionAccess \<Rightarrow> PeerLinkOperationLease \<Rightarrow> StorageState \<Rightarrow> bool" where
  "holding V cfg access lease s \<longleftrightarrow>
     signed_in V cfg access s \<and> tables_inv s \<and> require_peer_link_operation_lease s lease = Inr ()"

lemma identity_save_reads [simp]:
  "linked_peer (save_identity_state st s) k = linked_peer s k"
  "encrypted_link_state (save_identity_state st s) k = encrypted_link_state s k"
  "require_peer_link_operation_lease (save_identity_state st s) lease = require_peer_link_operation_lease s lease"
  "peer_link_operation_lease (save_identity_state st s) k = peer_link_operation_lease s k"
  by (simp_all add: save_identity_state_def linked_peer_def encrypted_link_state_def require_peer_link_operation_lease_def
      peer_link_operation_lease_def)

lemma holding_identity:
  assumes "holding V cfg access lease s" and "id_public_key st = Some (sa_session_public_key access)"
    and "id_noise_public_key st = Some (sa_noise_public_key access)"
  shows "holding V cfg access lease (save_identity_state st s)"
  using assms
  by (simp add: holding_def) (simp add: signed_in_def stored_public_key_def stored_noise_key_def tables_inv_def save_identity_state_def)

lemma holding_saves:
  assumes "holding V cfg access lease s"
  shows "holding V cfg access lease (save_linked_peer peer s)" "holding V cfg access lease (save_encrypted_link_state ls s)"
proof -
  have tables: "tables_inv (save_linked_peer peer s)" "tables_inv (save_encrypted_link_state ls s)"
    using assms by (simp_all add: holding_def tables_inv_saves)
  have "st_identity_state (save_linked_peer peer s) = st_identity_state s"
    "st_identity_state (save_encrypted_link_state ls s) = st_identity_state s"
    by (simp_all add: save_linked_peer_def save_encrypted_link_state_def)
  with assms tables
  show "holding V cfg access lease (save_linked_peer peer s)" "holding V cfg access lease (save_encrypted_link_state ls s)"
    by (simp_all add: holding_def signed_in_def stored_public_key_def stored_noise_key_def
        require_peer_link_operation_lease_def)
qed

lemma transaction_ok: "f s = Inr (t, r) \<Longrightarrow> transaction f s = (t, Inr r)"
  by (simp add: transaction_def run_storage_state_transaction_def rbind_def)

text \<open>Saving the next state of a handshake, or the finished link, for a peer whose stored state did not move.\<close>

lemma save_next_state:
  assumes "holding V cfg access lease s" and "linked_peer s (cp, le_path lease) = Some peer" and "lp_state peer = Linking"
    and "encrypted_link_state s (cp, le_path lease) = Some ls"
  shows "\<exists>t report. transaction (save_link_handshake_state_if_generation_with_lease cp role bytes (ls_generation ls) lease now) s
          = (t, Inr report) \<and> hr_state report = Linking \<and> holding V cfg access lease t
          \<and> (\<exists>peer'. linked_peer t (cp, le_path lease) = Some peer' \<and> lp_state peer' = Linking)
          \<and> encrypted_link_state t (cp, le_path lease)
              = Some (handshake_state cp (le_path lease) bytes role (sat_inc (ls_generation ls)) now)"
    and "\<exists>t report. transaction (save_linked_peer_link_state_if_generation_with_lease cp bytes (ls_generation ls) lease now) s
          = (t, Inr report) \<and> hr_state report = Linked \<and> holding V cfg access lease t
          \<and> (\<exists>peer'. linked_peer t (cp, le_path lease) = Some peer' \<and> lp_state peer' = Linked)
          \<and> encrypted_link_state t (cp, le_path lease)
              = Some (established_state cp (le_path lease) bytes (sat_inc (ls_generation ls)) now)"
proof -
  have key: "lp_key peer = (cp, le_path lease)" and lease: "require_peer_link_operation_lease s lease = Inr ()"
    using assms(1,2) by (auto simp: holding_def tables_inv_def linked_peer_def dest: hm_wf_get)
  let ?saved = "\<lambda>state link. save_encrypted_link_state link
    (save_linked_peer (peer\<lparr>lp_state := state, lp_last_sync_at := Some now, lp_failure_count := 0\<rparr>) s)"
  have kept: "holding V cfg access lease (?saved state link)" for state link by (intro holding_saves assms(1))
  have reads: "linked_peer (?saved state link) (cp, le_path lease)
      = Some (peer\<lparr>lp_state := state, lp_last_sync_at := Some now, lp_failure_count := 0\<rparr>)"
    "ls_key link = (cp, le_path lease) \<Longrightarrow> encrypted_link_state (?saved state link) (cp, le_path lease) = Some link" for state link
    using key by (simp_all add: links.load_save peers.load_save lp_key_def)
  note defs = save_link_handshake_state_if_generation_with_lease_def save_link_handshake_state_if_generation_inner_def
    save_linked_peer_link_state_if_generation_with_lease_def save_linked_peer_link_state_if_generation_inner_def
    require_optional_lease_def counterparty_receiver_path_for_operation_def linked_peer_or_default_def ensure_not_blocked_def
    save_peer_and_link_def Let_def
  have "save_link_handshake_state_if_generation_with_lease cp role bytes (ls_generation ls) lease now s =
      Inr (?saved Linking (handshake_state cp (le_path lease) bytes role (sat_inc (ls_generation ls)) now),
        \<lparr>hr_counterparty = cp, hr_path = le_path lease, hr_state = Linking, hr_generation = sat_inc (ls_generation ls),
         hr_handshake_role = Some role\<rparr>)"
    using assms lease by (simp add: defs handshake_state_def)
  from transaction_ok [where f = "save_link_handshake_state_if_generation_with_lease cp role bytes (ls_generation ls) lease now", OF this]
    kept reads
  show "\<exists>t report. transaction (save_link_handshake_state_if_generation_with_lease cp role bytes (ls_generation ls) lease now) s
          = (t, Inr report) \<and> hr_state report = Linking \<and> holding V cfg access lease t
          \<and> (\<exists>peer'. linked_peer t (cp, le_path lease) = Some peer' \<and> lp_state peer' = Linking)
          \<and> encrypted_link_state t (cp, le_path lease)
              = Some (handshake_state cp (le_path lease) bytes role (sat_inc (ls_generation ls)) now)"
    by (simp add: ls_key_def handshake_state_def)
  have "save_linked_peer_link_state_if_generation_with_lease cp bytes (ls_generation ls) lease now s =
      Inr (?saved Linked (established_state cp (le_path lease) bytes (sat_inc (ls_generation ls)) now),
        \<lparr>hr_counterparty = cp, hr_path = le_path lease, hr_state = Linked, hr_generation = sat_inc (ls_generation ls),
         hr_handshake_role = None\<rparr>)"
    using assms lease by (simp add: defs established_state_def)
  from transaction_ok [where f = "save_linked_peer_link_state_if_generation_with_lease cp bytes (ls_generation ls) lease now", OF this]
    kept reads
  show "\<exists>t report. transaction (save_linked_peer_link_state_if_generation_with_lease cp bytes (ls_generation ls) lease now) s
          = (t, Inr report) \<and> hr_state report = Linked \<and> holding V cfg access lease t
          \<and> (\<exists>peer'. linked_peer t (cp, le_path lease) = Some peer' \<and> lp_state peer' = Linked)
          \<and> encrypted_link_state t (cp, le_path lease)
              = Some (established_state cp (le_path lease) bytes (sat_inc (ls_generation ls)) now)"
    by (simp add: ls_key_def established_state_def)
qed

text \<open>What a reader sees of the link of a peer; recording or clearing marker data does not touch it.\<close>

definition link_view :: "StorageState \<Rightarrow> peer_key \<Rightarrow> LinkedPeerState option \<times> EncryptedLinkStateRecord option" where
  "link_view s k = (map_option lp_state (linked_peer s k), encrypted_link_state s k)"

lemma marker_saves_view:
  assumes "tables_inv s"
  shows "link_view (fst (save_local_recovery_marker_last_error cp rp err s)) k = link_view s k"
    and "link_view (fst (clear_local_marker cp rp s)) k = link_view s k"
proof -
  have view: "link_view (save_linked_peer peer' s) k = link_view s k"
    if "linked_peer s (cp, rp) = Some peer" "lp_key peer' = lp_key peer" "lp_state peer' = lp_state peer" for peer peer'
  proof -
    have "lp_key peer = (cp, rp)" using assms that(1) by (auto simp: tables_inv_def linked_peer_def dest: hm_wf_get)
    with that show ?thesis by (simp add: link_view_def peers.load_save)
  qed
  show "link_view (fst (save_local_recovery_marker_last_error cp rp err s)) k = link_view s k"
    "link_view (fst (clear_local_marker cp rp s)) k = link_view s k"
    by (auto simp: save_local_recovery_marker_last_error_def clear_local_marker_def rt_save_def split: option.split
        intro!: view, simp_all add: lp_key_def)
qed

lemma remove_marker_view:
  assumes "signed_in V cfg access s" and "tables_inv s"
  shows "\<exists>t. remove_local_recovery_marker_if_recorded E V cfg p cp rp s = (t, Inr ()) \<and> link_view t k = link_view s k"
proof -
  obtain state where access: "session_access_at V cfg (0 # p) s = (save_identity_state state s, Inr access)"
    using session_access_signed_in [OF assms(1)] by blast
  let ?s = "save_identity_state state s"
  have same: "link_view ?s k = link_view s k" by (simp add: link_view_def)
  have "tables_inv ?s" using assms(2) by (simp add: tables_inv_def save_identity_state_def)
  note saves = marker_saves_view [OF this]
  have noted: "\<exists>t. rt_ignore (save_local_recovery_marker_last_error cp rp err) ?s = (t, Inr ()) \<and> link_view t k = link_view s k" for err
    using saves(1) [of cp rp err k] same
    by (simp add: rt_ignore_def rt_catch_def rt_return_def save_local_recovery_marker_last_error_def rt_save_def)
  have cleared: "\<exists>t. clear_local_marker cp rp ?s = (t, Inr ()) \<and> link_view t k = link_view s k"
    using saves(2) [of cp rp k] same by (simp add: clear_local_marker_def rt_save_def)
  show ?thesis
    unfolding remove_local_recovery_marker_if_recorded_def Let_def rt_catch_def access
    using noted cleared same
    by (auto simp: rt_bind_def has_local_recovery_marker_def rt_read_def rt_return_def split: sum.split)
qed

definition linked_in :: "StorageState \<Rightarrow> peer_key \<Rightarrow> bool" where
  "linked_in s k \<longleftrightarrow> (\<exists>ls. link_view s k = (Some Linked, Some ls) \<and> ls_link_snapshot ls \<noteq> None)"

lemma readableE:
  assumes "snapshots_readable E remote noise local_rp remote_rp live transported" and "es_recipient sn = remote"
    and "es_remote_noise_public_key sn = noise"
    and "es_local_receiver_path sn = local_rp" and "es_remote_receiver_path sn = remote_rp"
    and "live (es_state sn) \<or> transported (es_state sn)"
  obtains bytes where "serialize_snapshot E kind sn = Inr bytes"
    and "live (es_state sn) \<Longrightarrow> handshake_snapshot_deserialize E bytes = Inr sn"
  using assms unfolding snapshots_readable_def serialize_snapshot_def by (metis map_err_simps(2))

lemma advance_restored_step:
  assumes coop: "cooperative (ln_noise H) remote live transported rank"
    and readable: "snapshots_readable E remote noise (cf_receiver_path cfg) (le_path lease) live transported"
    and key: "to_public_key E cp = Inr remote" and holding: "holding (ln_net H) cfg access lease s"
    and peer: "linked_peer s (cp, le_path lease) = Some peer" "lp_state peer = Linking"
    and link: "encrypted_link_state s (cp, le_path lease) = Some ls"
    and h: "live (ns_snapshot (ln_noise H) (eh_encryptor h))" "eh_remote_pubkey h = remote"
      "eh_local_receiver_path h = cf_receiver_path cfg" "eh_remote_receiver_path h = le_path lease"
      "eh_remote_noise_public_key h = noise"
  shows "\<exists>t report. advance_restored_link_handshake E H cfg p cp h role (ls_generation ls) lease s = (t, Inr report)
    \<and> (hr_state report = Linked \<and> linked_in t (cp, le_path lease)
       \<or> hr_state report = Linking \<and> holding (ln_net H) cfg access lease t
         \<and> (\<exists>n. n < rank (ns_snapshot (ln_noise H) (eh_encryptor h)) \<and> handshake_stored E noise cfg cp (le_path lease) live rank n t))"
  using advance_live [OF coop h(1), of p]
proof (elim disjE exE conjE)
  fix l assume l: "advance_handshake (ln_noise H) p h = Inr (Complete l)" "el_recipient l = eh_remote_pubkey h"
    "el_local_receiver_path l = eh_local_receiver_path h" "el_remote_receiver_path l = eh_remote_receiver_path h"
    "el_remote_noise_public_key l = eh_remote_noise_public_key h" "transported (ns_snapshot (ln_noise H) (el_encryptor l))"
  obtain bytes where bytes: "serialize_snapshot E ''Encrypted Link snapshot'' (link_snapshot (ln_noise H) l) = Inr bytes"
    using readableE [OF readable, of "link_snapshot (ln_noise H) l" "''Encrypted Link snapshot''"] l h
    by (auto simp: link_snapshot_def)
  obtain t report where saved: "transaction (save_linked_peer_link_state_if_generation_with_lease cp bytes (ls_generation ls) lease
      (nv_now (ln_net H) p)) s = (t, Inr report)" "hr_state report = Linked" "holding (ln_net H) cfg access lease t"
    "linked_in t (cp, le_path lease)"
    using save_next_state(2) [OF holding peer link, of bytes "nv_now (ln_net H) p"]
    by (auto simp: linked_in_def link_view_def established_state_def)
  obtain u where "remove_local_recovery_marker_if_recorded E (ln_net H) cfg (1 # p) cp (le_path lease) t = (u, Inr ())"
    "link_view u (cp, le_path lease) = link_view t (cp, le_path lease)"
    using remove_marker_view [of "ln_net H" cfg access t E "1 # p" cp "le_path lease" "(cp, le_path lease)"] saved(3)
    by (auto simp: holding_def)
  with l bytes saved show ?thesis
    by (auto simp: advance_restored_link_handshake_def rt_bind_def rt_lift_def rt_return_def linked_in_def)
next
  fix h' assume h': "advance_handshake (ln_noise H) p h = Inr (Pending h')" "live (ns_snapshot (ln_noise H) (eh_encryptor h'))"
    "rank (ns_snapshot (ln_noise H) (eh_encryptor h')) < rank (ns_snapshot (ln_noise H) (eh_encryptor h))"
    "eh_remote_pubkey h' = eh_remote_pubkey h" "eh_local_receiver_path h' = eh_local_receiver_path h"
    "eh_remote_receiver_path h' = eh_remote_receiver_path h" "eh_remote_noise_public_key h' = eh_remote_noise_public_key h"
  let ?sn = "handshake_snapshot (ln_noise H) h'"
  have sn: "es_recipient ?sn = remote" "es_remote_noise_public_key ?sn = noise" "es_local_receiver_path ?sn = cf_receiver_path cfg"
    "es_remote_receiver_path ?sn = le_path lease" "live (es_state ?sn)"
    using h' h by (simp_all add: handshake_snapshot_def)
  from readableE [OF readable sn(1-4) disjI1 [OF sn(5)], of "''Encrypted Link Handshake snapshot''"] obtain bytes
    where bytes: "serialize_snapshot E ''Encrypted Link Handshake snapshot'' ?sn = Inr bytes"
      and read: "handshake_snapshot_deserialize E bytes = Inr ?sn"
    using sn(5) by blast
  obtain t report where saved: "transaction (save_link_handshake_state_if_generation_with_lease cp role bytes (ls_generation ls) lease
      (nv_now (ln_net H) p)) s = (t, Inr report)" "hr_state report = Linking" "holding (ln_net H) cfg access lease t"
    and peer': "\<exists>peer'. linked_peer t (cp, le_path lease) = Some peer' \<and> lp_state peer' = Linking"
    and state: "encrypted_link_state t (cp, le_path lease)
      = Some (handshake_state cp (le_path lease) bytes role (sat_inc (ls_generation ls)) (nv_now (ln_net H) p))"
    using save_next_state(1) [OF holding peer link, of role bytes "nv_now (ln_net H) p"] by blast
  have "handshake_stored E noise cfg cp (le_path lease) live rank (rank (es_state ?sn)) t"
    using peer' state read key sn unfolding handshake_stored_def
    by (auto simp: handshake_state_def)
  with h' bytes saved show ?thesis
    by (auto simp: advance_restored_link_handshake_def rt_bind_def rt_lift_def handshake_snapshot_def)
qed

lemma advance_step:
  assumes coop: "cooperative (ln_noise H) remote live transported rank"
    and readable: "snapshots_readable E remote noise (cf_receiver_path cfg) (le_path lease) live transported"
    and key: "to_public_key E cp = Inr remote" and holding: "holding (ln_net H) cfg access lease s"
    and stored: "handshake_stored E noise cfg cp (le_path lease) live rank n s"
  shows "\<exists>t report. advance_link_handshake_with_claim E H cfg p cp lease s = (t, Inr report)
    \<and> (hr_state report = Linked \<and> linked_in t (cp, le_path lease)
       \<or> hr_state report = Linking \<and> holding (ln_net H) cfg access lease t
         \<and> (\<exists>m. m < n \<and> handshake_stored E noise cfg cp (le_path lease) live rank m t))"
proof -
  from stored key obtain peer ls bytes sn role where
    peer: "linked_peer s (cp, le_path lease) = Some peer" "lp_state peer = Linking"
    and ls: "encrypted_link_state s (cp, le_path lease) = Some ls" "ls_link_snapshot ls = None" "ls_handshake_role ls = Some role"
      "ls_handshake_snapshot ls = Some bytes" "ls_path ls = le_path lease"
    and noise: "es_remote_noise_public_key sn = noise"
    and sn: "handshake_snapshot_deserialize E bytes = Inr sn" "es_recipient sn = remote"
      "es_local_receiver_path sn = cf_receiver_path cfg" "es_remote_receiver_path sn = le_path lease"
      "live (es_state sn)" "rank (es_state sn) \<le> n"
    unfolding handshake_stored_def by auto
  obtain state where access: "session_access_at (ln_net H) cfg (0 # 1 # p) s = (save_identity_state state s, Inr access)"
    and state: "id_public_key state = Some (sa_session_public_key access)" "id_noise_public_key state = Some (sa_noise_public_key access)"
    using session_access_signed_in holding unfolding holding_def by blast
  let ?s = "save_identity_state state s"
  obtain h where h: "restore_encrypted_link_handshake E (ln_noise H) (1 # 1 # p) (ln_party H access) remote (cf_receiver_path cfg)
      (le_path lease) sn = Inr h" "ns_snapshot (ln_noise H) (eh_encryptor h) = es_state sn" "eh_remote_pubkey h = remote"
      "eh_local_receiver_path h = cf_receiver_path cfg" "eh_remote_receiver_path h = le_path lease" "eh_remote_noise_public_key h = noise"
    using restore_live [OF coop sn(5,2), of E "1 # 1 # p" "ln_party H access"] unfolding sn(3,4) noise by blast
  have restored: "restore_link_handshake_from_snapshot E H cfg (1 # p) cp (ls_path ls) bytes s = (?s, Inr h)"
    using access key sn(1) h(1) ls(5) by (simp add: restore_link_handshake_from_snapshot_def rt_bind_def rt_lift_def)
  have "advance_link_handshake_with_claim E H cfg p cp lease s
      = advance_restored_link_handshake E H cfg (3 # p) cp h role (ls_generation ls) lease ?s"
    using peer ls restored
    by (simp add: advance_link_handshake_with_claim_def rt_bind_def rt_check_def rt_read_def rt_catch_def
        ensure_peer_not_recovery_required_or_blocked_def)
  moreover have live: "live (ns_snapshot (ln_noise H) (eh_encryptor h))" using h(2) sn(5) by simp
  note advance_restored_step [OF coop readable key holding_identity [OF holding state] _ peer(2) _ live h(3-6), of ls "3 # p" role]
  ultimately show ?thesis using peer(1) ls(1) h(2) sn(6) by (fastforce dest: order.strict_trans2)
qed

lemma ensure_loop_links:
  assumes "cooperative (ln_noise H) remote live transported rank"
    and "snapshots_readable E remote noise (cf_receiver_path cfg) (le_path lease) live transported" and "to_public_key E cp = Inr remote"
  shows "holding (ln_net H) cfg access lease s \<Longrightarrow> handshake_stored E noise cfg cp (le_path lease) live rank n s \<Longrightarrow>
    hr_state report \<noteq> Linked \<Longrightarrow> n < steps \<Longrightarrow>
    \<exists>t report'. ensure_link_loop E H cfg p cp role lease steps report s = (t, Inr report') \<and> hr_state report' = Linked
      \<and> linked_in t (cp, le_path lease)"
proof (induction steps arbitrary: n s report)
  case (Suc steps)
  from advance_step [OF assms Suc.prems(1,2), of "0 # steps # p"] obtain t r
    where adv: "advance_link_handshake_with_claim E H cfg (0 # steps # p) cp lease s = (t, Inr r)"
      and cases: "hr_state r = Linked \<and> linked_in t (cp, le_path lease)
       \<or> hr_state r = Linking \<and> holding (ln_net H) cfg access lease t
         \<and> (\<exists>m. m < n \<and> handshake_stored E noise cfg cp (le_path lease) live rank m t)"
    by blast
  have step: "ensure_link_loop E H cfg p cp role lease (Suc steps) report s = ensure_link_loop E H cfg p cp role lease steps r t"
    using Suc.prems(3) adv by (simp add: advance_or_restart_def rt_bind_def rt_catch_def rt_return_def)
  from cases show ?case
  proof (elim disjE conjE exE)
    assume "hr_state r = Linked" "linked_in t (cp, le_path lease)"
    moreover then have "ensure_link_loop E H cfg p cp role lease steps r t = (t, Inr r)"
      by (cases steps) (simp_all add: rt_return_def)
    ultimately show ?case unfolding step by blast
  next
    fix m assume "hr_state r = Linking" "holding (ln_net H) cfg access lease t" "m < n"
      "handshake_stored E noise cfg cp (le_path lease) live rank m t"
    with Suc.IH [of t m r] Suc.prems(4) show ?case unfolding step by simp
  qed
qed simp

section \<open>The driver\<close>

lemma claim_free:
  assumes "\<not> unexpired_lease_held s cp rp (nv_now V p)" and "nv_from_std V (cf_peer_link_operation_lease_timeout cfg) = Inr w"
    and "signed_in V cfg access s" and "tables_inv s"
  shows "\<exists>t lease. claim_at V cfg p cp rp s = (t, Inr lease) \<and> le_path lease = rp \<and> holding V cfg access lease t
    \<and> linked_peer t = linked_peer s \<and> encrypted_link_state t = encrypted_link_state s"
proof -
  let ?lease = "\<lparr>le_counterparty = cp, le_path = rp, le_lease_id = st_next_lease_id s, le_claimed_at = nv_now V p,
    le_expires_at = nv_now V p + w\<rparr>"
  let ?t = "s\<lparr>st_next_lease_id := st_next_lease_id s + 1,
    st_peer_link_operation_leases := hm_insert (cp, rp) ?lease (st_peer_link_operation_leases s)\<rparr>"
  have "claim_at V cfg p cp rp s = (?t, Inr ?lease)"
    using assms(1,2)
    by (auto simp: claim_at_def claim_link_operation_def rt_bind_def rt_lift_def transaction_def run_storage_state_transaction_def
        rbind_def claim_peer_link_operation_def unexpired_lease_held_def peer_link_operation_lease_def Let_def split: option.splits)
  moreover have "tables_inv ?t" using assms(4) by (simp add: tables_inv_def)
  then have "holding V cfg access ?lease ?t"
    using assms(3)
    by (simp add: holding_def signed_in_def stored_public_key_def stored_noise_key_def require_peer_link_operation_lease_def
        peer_link_operation_lease_def update_conv)
  moreover have "linked_peer ?t = linked_peer s" "encrypted_link_state ?t = encrypted_link_state s"
    by (simp_all add: fun_eq_iff linked_peer_def encrypted_link_state_def)
  ultimately show ?thesis by (intro exI [of _ ?t] exI [of _ ?lease]) simp
qed

lemma stored_handshake_resumes:
  assumes "holding V cfg access lease s" and stored: "handshake_stored E noise cfg cp (le_path lease) live rank n s"
    and ls: "encrypted_link_state s (cp, le_path lease) = Some ls"
  shows "\<exists>t report. resume_stored_handshake E V cfg p cp ls lease s = (t, Inr report) \<and> hr_state report = Linking
    \<and> holding V cfg access lease t \<and> handshake_stored E noise cfg cp (le_path lease) live rank n t"
proof -
  from stored ls obtain peer role where peer: "linked_peer s (cp, le_path lease) = Some peer" "lp_state peer = Linking"
    and role: "ls_handshake_role ls = Some role"
    unfolding handshake_stored_def by auto
  let ?peer = "peer\<lparr>lp_state := Linking, lp_last_sync_at := Some (nv_now V p), lp_failure_count := 0\<rparr>"
  let ?t = "save_linked_peer ?peer s"
  have key: "lp_key peer = (cp, le_path lease)" and lease: "require_peer_link_operation_lease s lease = Inr ()"
    using assms(1) peer(1) by (auto simp: holding_def tables_inv_def linked_peer_def dest: hm_wf_get)
  have "save_linked_peer_state_with_lease cp Linking lease (nv_now V p) s = Inr (?t, ?peer)"
    using peer lease
    by (simp add: save_linked_peer_state_with_lease_def save_linked_peer_state_inner_def require_optional_lease_def
        counterparty_receiver_path_for_operation_def linked_peer_or_default_def Let_def)
  from transaction_ok [where f = "save_linked_peer_state_with_lease cp Linking lease (nv_now V p)", OF this]
  have "\<exists>report. resume_stored_handshake E V cfg p cp ls lease s = (?t, Inr report) \<and> hr_state report = Linking"
    using role by (simp add: resume_stored_handshake_def report_stored_link_def rt_bind_def rt_return_def)
  moreover have "linked_peer ?t (cp, le_path lease) = Some ?peer" using key by (simp add: peers.load_save lp_key_def)
  then have "handshake_stored E noise cfg cp (le_path lease) live rank n ?t"
    using stored unfolding handshake_stored_def by auto
  ultimately show ?thesis using holding_saves(1) [OF assms(1)] by blast
qed

lemma release_view: "link_view (release_peer_link_operation cp rp i s) k = link_view s k"
  by (simp add: release_peer_link_operation_def link_view_def linked_peer_def encrypted_link_state_def)

text \<open>C16: Ensuring a link with a peer whose handshake is stored succeeds and leaves the peer linked with a stored
  link, when the session is the one the store belongs to, nobody else holds the lease of the peer, the
  noise library carries the handshake through in at most as many steps as the caller allows, and the
  snapshots in between can be read back.\<close>

theorem cooperating_peer_linked:
  assumes coop: "cooperative (ln_noise H) remote live transported rank"
    and readable: "snapshots_readable E remote noise (cf_receiver_path cfg) rp live transported" and key: "to_public_key E cp = Inr remote"
    and "signed_in (ln_net H) cfg access s" and "tables_inv s" and "cp \<noteq> sa_session_public_key access"
    and "\<not> unexpired_lease_held s cp rp (nv_now (ln_net H) (1 # p))"
    and "nv_from_std (ln_net H) (cf_peer_link_operation_lease_timeout cfg) = Inr w"
    and stored: "handshake_stored E noise cfg cp rp live rank n s" and "n < unat steps"
  shows "\<exists>t report. ensure_link_with_peer E H cfg p cp rp steps s = (t, Inr report) \<and> hr_state report = Linked
    \<and> linked_in t (cp, rp)"
proof -
  let ?V = "ln_net H" and ?role = "deterministic_handshake_role (sa_session_public_key access) cp"
  obtain state where access: "session_access_at ?V cfg (0 # p) s = (save_identity_state state s, Inr access)"
    and state: "id_public_key state = Some (sa_session_public_key access)" "id_noise_public_key state = Some (sa_noise_public_key access)"
    using session_access_signed_in [OF assms(4)] by blast
  let ?s = "save_identity_state state s"
  have "signed_in ?V cfg access ?s" "tables_inv ?s" "\<not> unexpired_lease_held ?s cp rp (nv_now ?V (1 # p))"
    using assms(4,5,7) state
    by (simp_all add: signed_in_def stored_public_key_def stored_noise_key_def tables_inv_def unexpired_lease_held_def
        save_identity_state_def peer_link_operation_lease_def)
  from claim_free [OF this(3) assms(8) this(1,2)] obtain u lease
    where claim: "claim_at ?V cfg (1 # p) cp rp ?s = (u, Inr lease)" and lease: "le_path lease = rp" "holding ?V cfg access lease u"
      and same: "linked_peer u = linked_peer ?s" "encrypted_link_state u = encrypted_link_state ?s"
    by blast
  have stored_u: "handshake_stored E noise cfg cp (le_path lease) live rank n u"
    using stored same lease(1) by (simp add: handshake_stored_def)
  then obtain peer ls where ls: "linked_peer u (cp, rp) = Some peer" "lp_state peer = Linking" "encrypted_link_state u (cp, rp) = Some ls"
    "ls_link_snapshot ls = None" "ls_handshake_snapshot ls \<noteq> None"
    using lease(1) unfolding handshake_stored_def by auto
  obtain v report where resumed: "resume_stored_handshake E ?V cfg (2 # p) cp ls lease u = (v, Inr report)" "hr_state report = Linking"
    "holding ?V cfg access lease v" "handshake_stored E noise cfg cp (le_path lease) live rank n v"
    using stored_handshake_resumes [OF lease(2) stored_u, of ls "2 # p"] ls(3) lease(1) by auto
  obtain t report' where loop: "ensure_link_loop E H cfg (1 # 2 # p) cp ?role lease (unat steps) report v = (t, Inr report')"
    "hr_state report' = Linked" "linked_in t (cp, rp)"
    using ensure_loop_links [of H remote live transported rank E noise cfg lease cp access v n report "unat steps" "1 # 2 # p" ?role]
      coop readable key resumed(2-4) assms(10) lease(1) by auto
  have "ensure_link_with_peer_with_claim E H cfg (2 # p) cp ?role steps lease u = (t, Inr report')"
    using ls resumed(1) loop(1) lease(1)
    by (simp add: ensure_link_with_peer_with_claim_def rt_bind_def rt_read_def)
  then have "ensure_link_with_peer E H cfg p cp rp steps s
      = (release_peer_link_operation (le_counterparty lease) (le_path lease) (le_lease_id lease) t, Inr report')"
    using access claim assms(6)
    by (simp add: ensure_link_with_peer_def rt_bind_def rt_lift_def sa_public_key_def finish_link_operation_def)
  then show ?thesis using loop(2,3) by (simp add: linked_in_def release_view)
qed

section \<open>An instance\<close>

text \<open>A counterparty whose next handshake step is the last one, and a network that answers every call the same.\<close>

definition sample_state :: PubkyNoiseSessionState where
  "sample_state = \<lparr>nss_endpoint_pubkey = ''alice'', nss_rest = []\<rparr>"

definition ready_noise :: "unit noise" where
  "ready_noise = failing_noise\<lparr>ns_handle_handshake := (\<lambda>_ _. ((), Inr True)), ns_snapshot := (\<lambda>_. sample_state)\<rparr>"

definition sample_session :: PubkySessionAccess where
  "sample_session =
     \<lparr>sa_session_public_key = PubkyPublicKey ''bob'', sa_local_public_key = None, sa_noise_public_key = PubkyPublicKey ''noise'',
      sa_check_capabilities = (\<lambda>_. Inr ())\<rparr>"

definition sample_net :: net where
  "sample_net =
     \<lparr>nv_now = (\<lambda>_. 7), nv_session = (\<lambda>_. Inr (Some sample_session)), nv_public_storage = (\<lambda>_. Inr True),
      nv_receiver_marker = (\<lambda>_ _ _. Inr (Some (PublicKey ''key''))), nv_uuid_v4 = (\<lambda>_. sample_uuid),
      nv_publish_marker = (\<lambda>_ _ _ _ _. Inr ()), nv_fetch_marker = (\<lambda>_ _ _ _. Inr None),
      nv_remove_marker = (\<lambda>_ _ _ _. Inr ()), nv_clear_outbox = (\<lambda>_ _ _ _. Inr ()), nv_from_std = (\<lambda>n. Inr (int n))\<rparr>"

definition sample_link_net :: "unit link_net" where
  "sample_link_net = \<lparr>ln_net = sample_net, ln_noise = ready_noise, ln_party = (\<lambda>_. sample_party ''b'' ''bob'')\<rparr>"

definition sample_handshake :: EncryptedLinkSnapshot where
  "sample_handshake =
     \<lparr>es_state = sample_state, es_recipient = PublicKey ''alice'', es_remote_noise_public_key = PublicKey ''key'',
      es_local_receiver_path = sample_path, es_remote_receiver_path = sample_path\<rparr>"

definition sample_link_ext :: ext where
  "sample_link_ext = table_ext [(''S'', ser_SnapshotWire (table_ext [])
     \<lparr>sw_version = SNAPSHOT_WIRE_VERSION, sw_local_receiver_path = sample_path, sw_remote_receiver_path = sample_path,
      sw_remote_noise_public_key = PublicKey ''key'', sw_state = ''alice''\<rparr>)]"

definition sample_linking :: StorageState where
  "sample_linking =
     save_encrypted_link_state (handshake_state sample_peer sample_path ''S'' Responder 0 1)
       (save_linked_peer ((default_linked_peer sample_peer sample_path)\<lparr>lp_state := Linking\<rparr>)
         (save_identity_state \<lparr>id_public_key = Some (PubkyPublicKey ''bob''), id_noise_public_key = Some (PubkyPublicKey ''noise''),
            id_initialized_at = 1, id_sign_out_generation = 0\<rparr> empty_storage))"

lemma sample_snapshot_reads:
  "snapshot_serialize sample_link_ext sample_handshake = Inr ''S''"
  "handshake_snapshot_deserialize sample_link_ext ''S'' = Inr sample_handshake"
proof -
  show serialized: "snapshot_serialize sample_link_ext sample_handshake = Inr ''S''"
    by (simp add: snapshot_serialize_def sample_link_ext_def sample_handshake_def sample_state_def table_ext_def ser_SnapshotWire_def)
  have "snapshot_wf sample_link_ext sample_handshake"
    by (simp add: snapshot_wf_def sample_handshake_def sample_path_def sample_state_def noise_state_roundtrip_def
        sample_link_ext_def table_ext_def) code_simp
  then show "handshake_snapshot_deserialize sample_link_ext ''S'' = Inr sample_handshake"
    by (rule snapshot_restores [OF _ _ _ serialized])
       (simp_all add: sample_link_ext_def table_ext_laws table_ext_prints_back)
qed

lemma sample_cooperation:
  "cooperative ready_noise (PublicKey ''alice'') (\<lambda>st. st = sample_state) (\<lambda>st. st = sample_state) (\<lambda>_. 0)"
  "snapshots_readable sample_link_ext (PublicKey ''alice'') (PublicKey ''key'') sample_path sample_path
     (\<lambda>st. st = sample_state) (\<lambda>st. st = sample_state)"
proof -
  show "cooperative ready_noise (PublicKey ''alice'') (\<lambda>st. st = sample_state) (\<lambda>st. st = sample_state) (\<lambda>_. 0)"
    by (simp add: cooperative_def ready_noise_def failing_noise_def) blast
  have "sn = sample_handshake" if "es_recipient sn = PublicKey ''alice''" "es_remote_noise_public_key sn = PublicKey ''key''"
    "es_local_receiver_path sn = sample_path" "es_remote_receiver_path sn = sample_path" "es_state sn = sample_state" for sn
    using that by (cases sn) (simp add: sample_handshake_def)
  then show "snapshots_readable sample_link_ext (PublicKey ''alice'') (PublicKey ''key'') sample_path sample_path
     (\<lambda>st. st = sample_state) (\<lambda>st. st = sample_state)"
    using sample_snapshot_reads by (auto simp: snapshots_readable_def)
qed

lemma sample_linking_reads:
  "signed_in sample_net (PaykitSdkConfig_new sample_path) sample_session sample_linking" "tables_inv sample_linking"
  "peer_link_operation_lease sample_linking k = None"
  "handshake_stored sample_link_ext (PublicKey ''key'') (PaykitSdkConfig_new sample_path) sample_peer sample_path
     (\<lambda>st. st = sample_state) (\<lambda>_. 0) 0 sample_linking"
proof -
  have identity: "st_identity_state sample_linking = Some \<lparr>id_public_key = Some (PubkyPublicKey ''bob''),
      id_noise_public_key = Some (PubkyPublicKey ''noise''), id_initialized_at = 1, id_sign_out_generation = 0\<rparr>"
    by (simp add: sample_linking_def save_encrypted_link_state_def save_linked_peer_def save_identity_state_def)
  show "signed_in sample_net (PaykitSdkConfig_new sample_path) sample_session sample_linking"
    by (simp add: signed_in_def identity sample_net_def sample_session_def sa_validate_for_capabilities_def session_validate_def
        stored_public_key_def stored_noise_key_def)
  have "tables_inv (save_identity_state st empty_storage)" for st
    by (simp add: tables_inv_def save_identity_state_def empty_storage_def)
  then show "tables_inv sample_linking" by (simp add: sample_linking_def tables_inv_saves)
  show "peer_link_operation_lease sample_linking k = None"
    by (simp add: sample_linking_def save_encrypted_link_state_def save_linked_peer_def save_identity_state_def
        peer_link_operation_lease_def empty_storage_def)
  have "linked_peer sample_linking (sample_peer, sample_path) = Some ((default_linked_peer sample_peer sample_path)\<lparr>lp_state := Linking\<rparr>)"
    "encrypted_link_state sample_linking (sample_peer, sample_path) = Some (handshake_state sample_peer sample_path ''S'' Responder 0 1)"
    by (simp_all add: sample_linking_def links.load_save peers.load_save lp_key_def ls_key_def default_linked_peer_def
        handshake_state_def)
  moreover have "to_public_key sample_link_ext sample_peer = Inr (PublicKey ''alice'')"
    by (simp add: to_public_key_def sample_link_ext_def table_ext_def sample_peer_def)
  ultimately show "handshake_stored sample_link_ext (PublicKey ''key'') (PaykitSdkConfig_new sample_path) sample_peer sample_path
     (\<lambda>st. st = sample_state) (\<lambda>_. 0) 0 sample_linking"
    using sample_snapshot_reads(2)
    by (simp add: handshake_stored_def handshake_state_def sample_handshake_def PaykitSdkConfig_new_def)
qed

theorem cooperating_peer_linked_witness:
  "\<exists>t report. ensure_link_with_peer sample_link_ext sample_link_net (PaykitSdkConfig_new sample_path) [] sample_peer sample_path 1
       sample_linking = (t, Inr report) \<and> hr_state report = Linked \<and> linked_in t (sample_peer, sample_path)"
proof (rule cooperating_peer_linked)
  show "cooperative (ln_noise sample_link_net) (PublicKey ''alice'') (\<lambda>st. st = sample_state) (\<lambda>st. st = sample_state) (\<lambda>_. 0)"
    "snapshots_readable sample_link_ext (PublicKey ''alice'') (PublicKey ''key'')
       (cf_receiver_path (PaykitSdkConfig_new sample_path)) sample_path (\<lambda>st. st = sample_state) (\<lambda>st. st = sample_state)"
    using sample_cooperation by (simp_all add: sample_link_net_def PaykitSdkConfig_new_def)
  show "to_public_key sample_link_ext sample_peer = Inr (PublicKey ''alice'')"
    by (simp add: to_public_key_def sample_link_ext_def table_ext_def sample_peer_def)
  show "signed_in (ln_net sample_link_net) (PaykitSdkConfig_new sample_path) sample_session sample_linking" "tables_inv sample_linking"
    using sample_linking_reads by (simp_all add: sample_link_net_def)
  show "sample_peer \<noteq> sa_session_public_key sample_session" by (simp add: sample_peer_def sample_session_def)
  show "\<not> unexpired_lease_held sample_linking sample_peer sample_path (nv_now (ln_net sample_link_net) [1])"
    by (simp add: unexpired_lease_held_def sample_linking_reads)
  show "nv_from_std (ln_net sample_link_net) (cf_peer_link_operation_lease_timeout (PaykitSdkConfig_new sample_path))
      = Inr (int (cf_peer_link_operation_lease_timeout (PaykitSdkConfig_new sample_path)))"
    by (simp add: sample_link_net_def sample_net_def)
  show "handshake_stored sample_link_ext (PublicKey ''key'') (PaykitSdkConfig_new sample_path) sample_peer sample_path
     (\<lambda>st. st = sample_state) (\<lambda>_. 0) 0 sample_linking"
    by (rule sample_linking_reads)
  show "0 < unat (1 :: u32)" by simp
qed



end
