(* ===== verification/Outbound_Delivery.thy ===== *)
theory Outbound_Delivery
  imports Link_Progress Outbound_Private Reservations "HOL-Library.Sublist"
begin

text \<open>
  Delivery of the outbound queue (\<^verbatim>\<open>paykit-sdk/src/runtime/outbound_private.rs\<close>) with the cancellation of
  reservations that lost their list (\<^verbatim>\<open>runtime/private_lists.rs\<close>): restoring the link, the loop that claims,
  checks, sends and records messages, and the run over all counterparties. The loop of the source has
  no bound, so it is a partial function; the lemmas show that it always ends, and that it attempts the
  messages of a peer in the order they were queued.
\<close>

section \<open>Reports\<close>

record ReservationCleanupFailure =
  rcf_reservation_id :: "string option"
  rcf_error :: string

record OutboundPrivateSendFailure =
  osf_outbound_message_id :: u64
  osf_error :: string

record RecoveryMarkerPublishFailure =
  rmf_outbound_message_id :: "u64 option"
  rmf_error :: string

record OutboundPrivateSendReport =
  osr_attempted :: "u64 list"
  osr_sent :: "u64 list"
  osr_failed :: "OutboundPrivateSendFailure list"
  osr_reservation_cleanup_failures :: "ReservationCleanupFailure list"
  osr_recovery_marker_failures :: "RecoveryMarkerPublishFailure list"

record OutboundPrivateCounterpartySendReport =
  ocr_counterparty :: PubkyPublicKey
  ocr_path :: PaykitReceiverPath
  ocr_report :: "OutboundPrivateSendReport option"
  ocr_error :: "string option"

definition empty_send_report :: OutboundPrivateSendReport where
  "empty_send_report =
     \<lparr>osr_attempted = [], osr_sent = [], osr_failed = [], osr_reservation_cleanup_failures = [],
      osr_recovery_marker_failures = []\<rparr>"

definition add_cleanup_failures ::
  "ReservationCleanupFailure list \<Rightarrow> OutboundPrivateSendReport \<Rightarrow> OutboundPrivateSendReport" where
  "add_cleanup_failures fs r = r\<lparr>osr_reservation_cleanup_failures := osr_reservation_cleanup_failures r @ fs\<rparr>"

definition add_send_failure :: "u64 \<Rightarrow> string \<Rightarrow> OutboundPrivateSendReport \<Rightarrow> OutboundPrivateSendReport" where
  "add_send_failure i err r = r\<lparr>osr_failed := osr_failed r @ [\<lparr>osf_outbound_message_id = i, osf_error = err\<rparr>]\<rparr>"

section \<open>Canceling reservations\<close>

text \<open>
  A cancellation is claimed in the store, asked of the payment adapter (\<open>cancel\<close>, at the position of the
  call) and then removed from the store.
\<close>

type_synonym cancel_call = "nat list \<Rightarrow> PrivatePaymentEndpointReservationCancellation \<Rightarrow> unit sdk_res"

definition claim_reservation_cancellation ::
  "PrivatePaymentEndpointReservationCancellation \<Rightarrow> u64 \<Rightarrow> PeerLinkOperationLease option \<Rightarrow> instant \<Rightarrow> (sdk_error, bool) tx" where
  "claim_reservation_cancellation c outbound_id lease now s =
     rbind (require_optional_lease s lease) (\<lambda>_.
     case payment_endpoint_reservation s (pc_counterparty c, pc_path c, pc_reservation_id c) of
       None \<Rightarrow> Inr (s, False)
     | Some r \<Rightarrow>
         if rv_outbound_message_id r \<noteq> outbound_id \<or> rv_identifier r \<noteq> pc_identifier c \<or> rv_payload_hash r \<noteq> pc_payload_hash c
         then Inr (s, False)
         else Inr (save_payment_endpoint_reservation (r\<lparr>rv_cancellation_started_at := Some now\<rparr>) s, True))"

definition remove_canceled_reservation ::
  "PrivatePaymentEndpointReservationCancellation \<Rightarrow> u64 \<Rightarrow> StorageState \<Rightarrow> StorageState" where
  "remove_canceled_reservation c outbound_id s =
     (case payment_endpoint_reservation s (pc_counterparty c, pc_path c, pc_reservation_id c) of
        None \<Rightarrow> s
      | Some r \<Rightarrow>
          if rv_outbound_message_id r = outbound_id \<and> rv_identifier r = pc_identifier c \<and> rv_payload_hash r = pc_payload_hash c
             \<and> rv_cancellation_started_at r \<noteq> None
          then fst (remove_payment_endpoint_reservation (pc_counterparty c, pc_path c, pc_reservation_id c) s)
          else s)"

definition cancel_reservation_record ::
  "net \<Rightarrow> cancel_call \<Rightarrow> nat list \<Rightarrow> PaymentEndpointReservationCancellationRecord \<Rightarrow> PeerLinkOperationLease option \<Rightarrow>
   ReservationCleanupFailure list rt" where
  "cancel_reservation_record V cancel p record lease =
     (let c = cr_cancellation record;
          failure = (\<lambda>err. [\<lparr>rcf_reservation_id = Some (pc_reservation_id c), rcf_error = sdk_error_display err\<rparr>])
      in rt_catch (transaction (claim_reservation_cancellation c (cr_outbound_message_id record) lease (nv_now V p)))
           (\<lambda>err. rt_return (failure err))
           (\<lambda>claimed.
              if \<not> claimed then rt_return []
              else case cancel p c of
                Inl err \<Rightarrow> rt_return (failure err)
              | Inr _ \<Rightarrow> rt_bind (rt_save (remove_canceled_reservation c (cr_outbound_message_id record))) (\<lambda>_. rt_return [])))"

fun cancel_reservation_records ::
  "net \<Rightarrow> cancel_call \<Rightarrow> nat list \<Rightarrow> PaymentEndpointReservationCancellationRecord list \<Rightarrow> PeerLinkOperationLease option \<Rightarrow>
   ReservationCleanupFailure list rt" where
  "cancel_reservation_records V cancel p [] lease = rt_return []"
| "cancel_reservation_records V cancel p (r # rs) lease =
     rt_bind (cancel_reservation_record V cancel (length rs # p) r lease) (\<lambda>failures.
     rt_bind (cancel_reservation_records V cancel p rs lease) (\<lambda>more. rt_return (failures @ more)))"

definition cancel_unattempted_superseded_reservations ::
  "net \<Rightarrow> cancel_call \<Rightarrow> nat list \<Rightarrow> PubkyPublicKey \<Rightarrow> PaykitReceiverPath \<Rightarrow> PeerLinkOperationLease option \<Rightarrow>
   ReservationCleanupFailure list rt" where
  "cancel_unattempted_superseded_reservations V cancel p cp rp lease =
     rt_bind (rt_read (\<lambda>s. unattempted_superseded_reservation_cancellations s cp rp)) (\<lambda>cancellations.
     cancel_reservation_records V cancel p cancellations lease)"

definition cancel_terminal_private_list_reservations ::
  "net \<Rightarrow> cancel_call \<Rightarrow> nat list \<Rightarrow> PubkyPublicKey \<Rightarrow> PaykitReceiverPath \<Rightarrow> PeerLinkOperationLease option \<Rightarrow>
   ReservationCleanupFailure list rt" where
  "cancel_terminal_private_list_reservations V cancel p cp rp lease =
     rt_bind (cancel_unattempted_superseded_reservations V cancel (0 # p) cp rp lease) (\<lambda>failures.
     rt_bind (rt_read (\<lambda>s. invalid_private_list_reservation_cancellations s cp rp)) (\<lambda>cancellations.
     rt_bind (cancel_reservation_records V cancel (1 # p) cancellations lease) (\<lambda>more.
     rt_return (failures @ more))))"

section \<open>Restoring the link\<close>

definition mark_outbound_link_recovery_required ::
  "ext \<Rightarrow> net \<Rightarrow> PaykitSdkConfig \<Rightarrow> nat list \<Rightarrow> PubkyPublicKey \<Rightarrow> PeerLinkOperationLease \<Rightarrow> unit rt" where
  "mark_outbound_link_recovery_required E V cfg p cp lease =
     rt_bind (transaction (mark_recovery_required_with_lease cp lease (nv_now V p))) (\<lambda>new_episode.
     rt_ignore (publish_local_recovery_marker_with_session E V cfg (0 # p) cp (le_path lease) new_episode))"

definition restore_link_for_outbound_send ::
  "ext \<Rightarrow> 'n link_net \<Rightarrow> PaykitSdkConfig \<Rightarrow> nat list \<Rightarrow> PubkyPublicKey \<Rightarrow> PeerLinkOperationLease \<Rightarrow> PubkySessionAccess \<Rightarrow>
   ('n EncryptedLink \<times> EncryptedLinkStateRecord) rt" where
  "restore_link_for_outbound_send E H cfg p cp lease access =
     (let recovery = (\<lambda>err. rt_bind (mark_outbound_link_recovery_required E (ln_net H) cfg (0 # p) cp lease) (\<lambda>_. rt_fail err)) in
      rt_bind (rt_lift (to_public_key E cp)) (\<lambda>remote.
      rt_bind (rt_read (\<lambda>s. encrypted_link_state s (cp, le_path lease))) (\<lambda>stored.
      case stored of
        None \<Rightarrow> rt_fail (SdkRecoveryRequired (''no Encrypted Link state for counterparty '' @ z32 cp) None)
      | Some ls \<Rightarrow>
          (case ls_link_snapshot ls of
             None \<Rightarrow> recovery (SdkRecoveryRequired (''no active Encrypted Link snapshot for counterparty '' @ z32 cp) None)
           | Some bytes \<Rightarrow>
               (case rbind (link_snapshot_deserialize E bytes) (\<lambda>sn.
                     restore_encrypted_link E (ln_noise H) p (ln_party H access) remote (cf_receiver_path cfg) (ls_path ls) sn) of
                  Inl err \<Rightarrow> recovery (sdk_error_of_lib err)
                | Inr link \<Rightarrow> rt_return (link, ls))))))"

section \<open>One message\<close>

definition outbound_retry_thresholds :: "net \<Rightarrow> PaykitSdkConfig \<Rightarrow> instant \<Rightarrow> (instant \<times> instant) sdk_res" where
  "outbound_retry_thresholds V cfg now =
     rbind (map_err (\<lambda>err. SdkPolicy (''invalid outbound private send lease timeout: '' @ err) None)
              (nv_from_std V (cf_outbound_private_send_lease_timeout cfg))) (\<lambda>lease_timeout.
     rbind (map_err (\<lambda>err. SdkPolicy (''invalid outbound private retry backoff: '' @ err) None)
              (nv_from_std V (cf_outbound_private_retry_backoff cfg))) (\<lambda>retry_backoff.
     Inr (now - lease_timeout, now - retry_backoff)))"

definition save_outbound_with_lease ::
  "OutboundPrivateMessageRecord \<Rightarrow> PeerLinkOperationLease \<Rightarrow> (sdk_error, OutboundPrivateMessageRecord) tx" where
  "save_outbound_with_lease record lease s =
     rbind (require_peer_link_operation_lease s lease) (\<lambda>_.
     rbind (save_outbound_private_message record s) (\<lambda>(t, _). Inr (t, record)))"

definition claimed_message_ready_for_send ::
  "ext \<Rightarrow> net \<Rightarrow> cancel_call \<Rightarrow> nat list \<Rightarrow> PubkyPublicKey \<Rightarrow> OutboundPrivateMessageRecord \<Rightarrow> PeerLinkOperationLease \<Rightarrow>
   OutboundPrivateSendReport \<Rightarrow> instant \<Rightarrow> (OutboundPrivateSendReport \<times> OutboundPrivateMessageRecord option) rt" where
  "claimed_message_ready_for_send E V cancel p cp sending lease report now =
     (let invalidate = (\<lambda>err. transaction (save_outbound_with_lease (mark_outbound_invalid sending err (nv_now V p)) lease));
          cleanup = cancel_terminal_private_list_reservations V cancel (0 # p) cp (le_path lease) (Some lease)
      in case validate_queued_outbound_private_message E sending of
           Inl e \<Rightarrow>
             rt_bind (invalidate (sdk_error_display e)) (\<lambda>failed.
             rt_bind cleanup (\<lambda>failures.
             rt_return (add_cleanup_failures failures (add_send_failure (om_id failed) (sdk_error_display e) report), None)))
         | Inr _ \<Rightarrow>
             if om_kind sending \<noteq> kind_as_str PrivatePaymentListKind then rt_return (report, Some sending)
             else
             rt_bind (rt_read (\<lambda>s. expired_outbound_reservation_cancellations s cp (le_path lease) (om_id sending) now)) (\<lambda>expired.
             if expired = [] then rt_return (report, Some sending)
             else
             let err = ''Payment Endpoint Reservation expired before private list send'' in
             rt_bind (invalidate err) (\<lambda>failed.
             rt_bind (cancel_reservation_records V cancel (1 # p) expired (Some lease)) (\<lambda>failures.
             rt_bind cleanup (\<lambda>more.
             rt_return (add_cleanup_failures (failures @ more) (add_send_failure (om_id failed) err report), None))))))"

definition next_link_state :: "string \<Rightarrow> instant \<Rightarrow> EncryptedLinkStateRecord \<Rightarrow> EncryptedLinkStateRecord" where
  "next_link_state bytes now ls =
     ls\<lparr>ls_link_snapshot := Some bytes, ls_handshake_snapshot := None, ls_handshake_role := None,
        ls_generation := sat_inc (ls_generation ls), ls_checkpointed_at := now\<rparr>"

definition record_send_tx ::
  "OutboundPrivateMessageRecord \<Rightarrow> EncryptedLinkStateRecord \<Rightarrow> PeerLinkOperationLease \<Rightarrow> (sdk_error, unit) tx" where
  "record_send_tx sent ls lease s =
     rbind (require_peer_link_operation_lease s lease) (\<lambda>_.
     rbind (save_outbound_private_message sent s) (\<lambda>(t, _). Inr (save_encrypted_link_state ls t, ())))"

definition record_private_send_success ::
  "ext \<Rightarrow> 'n link_net \<Rightarrow> nat list \<Rightarrow> OutboundPrivateMessageRecord \<Rightarrow> 'n EncryptedLink \<Rightarrow> EncryptedLinkStateRecord \<Rightarrow>
   PeerLinkOperationLease \<Rightarrow> OutboundPrivateSendReport \<Rightarrow> (EncryptedLinkStateRecord \<times> OutboundPrivateSendReport) rt" where
  "record_private_send_success E H p sending link ls lease report =
     (let now = nv_now (ln_net H) p; sent = mark_outbound_sent sending now in
      rt_bind (rt_lift (serialize_snapshot E ''Encrypted Link snapshot'' (link_snapshot (ln_noise H) link))) (\<lambda>bytes.
      let ls' = next_link_state bytes now ls in
      rt_bind (transaction (record_send_tx sent ls' lease)) (\<lambda>_.
      rt_return (ls', report\<lparr>osr_sent := osr_sent report @ [om_id sent]\<rparr>))))"

definition record_failure_tx ::
  "PubkyPublicKey \<Rightarrow> OutboundPrivateMessageRecord \<Rightarrow> PeerLinkOperationLease \<Rightarrow> instant \<Rightarrow>
   (sdk_error, OutboundPrivateMessageRecord \<times> bool) tx" where
  "record_failure_tx cp failed lease now s =
     rbind (require_peer_link_operation_lease s lease) (\<lambda>_.
     rbind (mark_recovery_required_in_transaction cp (le_path lease) now s) (\<lambda>(t, new_episode).
     rbind (save_outbound_private_message failed t) (\<lambda>(u, _). Inr (u, (failed, new_episode)))))"

definition record_outbound_recovery_marker_result ::
  "ext \<Rightarrow> net \<Rightarrow> PaykitSdkConfig \<Rightarrow> nat list \<Rightarrow> OutboundPrivateSendReport \<Rightarrow> PubkyPublicKey \<Rightarrow> PaykitReceiverPath \<Rightarrow> bool \<Rightarrow>
   u64 option \<Rightarrow> OutboundPrivateSendReport rt" where
  "record_outbound_recovery_marker_result E V cfg p report cp rp new_episode i =
     rt_catch (publish_local_recovery_marker_with_session E V cfg p cp rp new_episode)
       (\<lambda>err. rt_return (report\<lparr>osr_recovery_marker_failures := osr_recovery_marker_failures report
          @ [\<lparr>rmf_outbound_message_id = i, rmf_error = sdk_error_display err\<rparr>]\<rparr>))
       (\<lambda>_. rt_return report)"

definition record_private_send_error ::
  "ext \<Rightarrow> net \<Rightarrow> cancel_call \<Rightarrow> PaykitSdkConfig \<Rightarrow> nat list \<Rightarrow> PubkyPublicKey \<Rightarrow> OutboundPrivateMessageRecord \<Rightarrow> paykit_error \<Rightarrow>
   PeerLinkOperationLease \<Rightarrow> OutboundPrivateSendReport \<Rightarrow> OutboundPrivateSendReport rt" where
  "record_private_send_error E V cancel cfg p cp sending err lease report =
     (let now = nv_now V p; text = paykit_error_display err in
      if is_non_retryable_private_send_error err
      then rt_bind (transaction (record_failure_tx cp (mark_outbound_recovery_required sending text now) lease now))
             (\<lambda>(failed, new_episode).
           record_outbound_recovery_marker_result E V cfg (0 # p) (add_send_failure (om_id failed) text report) cp (le_path lease)
             new_episode (Some (om_id failed)))
      else rt_bind (transaction (save_outbound_with_lease (mark_outbound_failed sending text now) lease)) (\<lambda>failed.
           rt_bind (cancel_terminal_private_list_reservations V cancel (1 # p) cp (le_path lease) (Some lease)) (\<lambda>failures.
           rt_return (add_cleanup_failures failures (add_send_failure (om_id failed) text report)))))"

section \<open>The delivery loop\<close>

text \<open>One pass of the loop: it stops, or goes on with the link and its stored state.\<close>

datatype 'n delivery =
  Stopped OutboundPrivateSendReport
| Continue "'n EncryptedLink" EncryptedLinkStateRecord OutboundPrivateSendReport

definition deliver_claimed ::
  "ext \<Rightarrow> 'n link_net \<Rightarrow> cancel_call \<Rightarrow> PaykitSdkConfig \<Rightarrow> nat list \<Rightarrow> PubkyPublicKey \<Rightarrow> PeerLinkOperationLease \<Rightarrow>
   'n EncryptedLink \<Rightarrow> EncryptedLinkStateRecord \<Rightarrow> OutboundPrivateSendReport \<Rightarrow> OutboundPrivateMessageRecord \<Rightarrow> instant \<Rightarrow>
   'n delivery rt" where
  "deliver_claimed E H cancel cfg p cp lease link ls report sending now =
     rt_bind (claimed_message_ready_for_send E (ln_net H) cancel (1 # p) cp sending lease
                (report\<lparr>osr_attempted := osr_attempted report @ [om_id sending]\<rparr>) now) (\<lambda>(report, ready).
     case ready of
       None \<Rightarrow> rt_return (Continue link ls report)
     | Some sending \<Rightarrow>
         (case send_private_application_message_json E (ln_noise H) (2 # p) (om_raw_json sending) link of
            (link', Inr _) \<Rightarrow>
              rt_bind (record_private_send_success E H (3 # p) sending link' ls lease report) (\<lambda>(ls', report).
              rt_bind (cancel_terminal_private_list_reservations (ln_net H) cancel (5 # p) cp (le_path lease) (Some lease)) (\<lambda>failures.
              rt_return (Continue link' ls' (add_cleanup_failures failures report))))
          | (_, Inl err) \<Rightarrow>
              rt_bind (record_private_send_error E (ln_net H) cancel cfg (4 # p) cp sending err lease report) (\<lambda>report.
              rt_return (Stopped report))))"

definition delivery_pass ::
  "ext \<Rightarrow> 'n link_net \<Rightarrow> cancel_call \<Rightarrow> PaykitSdkConfig \<Rightarrow> nat list \<Rightarrow> PubkyPublicKey \<Rightarrow> PeerLinkOperationLease \<Rightarrow>
   'n EncryptedLink \<Rightarrow> EncryptedLinkStateRecord \<Rightarrow> OutboundPrivateSendReport \<Rightarrow> 'n delivery rt" where
  "delivery_pass E H cancel cfg p cp lease link ls report =
     (let now = nv_now (ln_net H) p in
      rt_bind (rt_lift (outbound_retry_thresholds (ln_net H) cfg now)) (\<lambda>(stale_before, failed_retry_after).
      rt_bind (transaction (claim_next_outbound_private_message_with_peer_lease cp now stale_before failed_retry_after lease))
        (\<lambda>claimed.
      case claimed of
        None \<Rightarrow>
          rt_bind (cancel_terminal_private_list_reservations (ln_net H) cancel (0 # p) cp (le_path lease) (Some lease)) (\<lambda>failures.
          rt_return (Stopped (add_cleanup_failures failures report)))
      | Some sending \<Rightarrow> deliver_claimed E H cancel cfg p cp lease link ls report sending now)))"

partial_function (option) delivery_loop ::
  "ext \<Rightarrow> 'n link_net \<Rightarrow> cancel_call \<Rightarrow> PaykitSdkConfig \<Rightarrow> nat list \<Rightarrow> PubkyPublicKey \<Rightarrow> PeerLinkOperationLease \<Rightarrow> nat \<Rightarrow>
   'n EncryptedLink \<Rightarrow> EncryptedLinkStateRecord \<Rightarrow> OutboundPrivateSendReport \<Rightarrow> StorageState \<Rightarrow>
   (StorageState \<times> OutboundPrivateSendReport sdk_res) option" where
  "delivery_loop E H cancel cfg p cp lease k link ls report s =
     (case delivery_pass E H cancel cfg (k # p) cp lease link ls report s of
        (t, Inl e) \<Rightarrow> Some (t, Inl e)
      | (t, Inr d) \<Rightarrow>
          (case d of
             Stopped report' \<Rightarrow> Some (t, Inr report')
           | Continue link' ls' report' \<Rightarrow> delivery_loop E H cancel cfg p cp lease (Suc k) link' ls' report' t))"

definition process_outbound_private_messages_with_claim ::
  "ext \<Rightarrow> 'n link_net \<Rightarrow> cancel_call \<Rightarrow> PaykitSdkConfig \<Rightarrow> nat list \<Rightarrow> PubkyPublicKey \<Rightarrow> OutboundPrivateSendReport \<Rightarrow>
   PeerLinkOperationLease \<Rightarrow> PubkySessionAccess \<Rightarrow> StorageState \<Rightarrow> (StorageState \<times> OutboundPrivateSendReport sdk_res) option" where
  "process_outbound_private_messages_with_claim E H cancel cfg p cp report lease access s =
     (case restore_link_for_outbound_send E H cfg (0 # p) cp lease access s of
        (t, Inl e) \<Rightarrow> Some (t, Inl e)
      | (t, Inr (link, ls)) \<Rightarrow> delivery_loop E H cancel cfg (1 # p) cp lease 0 link ls report t)"

text \<open>The checks and the lease in front of the delivery; the result tells whether anything is queued.\<close>

definition prepare_delivery ::
  "'n link_net \<Rightarrow> PaykitSdkConfig \<Rightarrow> nat list \<Rightarrow> PubkyPublicKey \<Rightarrow> PaykitReceiverPath \<Rightarrow>
   (PubkySessionAccess \<times> bool \<times> PeerLinkOperationLease) rt" where
  "prepare_delivery H cfg p cp rp =
     rt_bind (rt_check (\<lambda>s. ensure_peer_not_recovery_required_or_blocked s cp rp)) (\<lambda>_.
     rt_bind (session_access_at (ln_net H) cfg (0 # p)) (\<lambda>access.
     rt_bind (rt_check (ensure_peer_allows_private_automation cp rp)) (\<lambda>_.
     rt_bind (rt_read (\<lambda>s. queued_outbound_private_messages s cp rp \<noteq> [])) (\<lambda>queued.
     rt_bind (claim_at (ln_net H) cfg (1 # p) cp rp) (\<lambda>lease.
     rt_return (access, queued, lease))))))"

definition process_outbound_private_messages ::
  "ext \<Rightarrow> 'n link_net \<Rightarrow> cancel_call \<Rightarrow> PaykitSdkConfig \<Rightarrow> nat list \<Rightarrow> PubkyPublicKey \<Rightarrow> PaykitReceiverPath \<Rightarrow> StorageState \<Rightarrow>
   (StorageState \<times> OutboundPrivateSendReport sdk_res) option" where
  "process_outbound_private_messages E H cancel cfg p cp rp s =
     (case prepare_delivery H cfg p cp rp s of
        (t, Inl e) \<Rightarrow> Some (t, Inl e)
      | (t, Inr (access, queued, lease)) \<Rightarrow>
          map_option (\<lambda>(u, result).
              (release_peer_link_operation (le_counterparty lease) (le_path lease) (le_lease_id lease) u, result))
            (if \<not> queued
             then Some (rt_bind (cancel_terminal_private_list_reservations (ln_net H) cancel (2 # p) cp (le_path lease) (Some lease))
                          (\<lambda>failures. rt_return (add_cleanup_failures failures empty_send_report)) t)
             else process_outbound_private_messages_with_claim E H cancel cfg (3 # p) cp empty_send_report lease access t))"

section \<open>All counterparties\<close>

definition terminal_private_list_reservation_needs_cleanup ::
  "PaymentEndpointReservationRecord \<Rightarrow> (u64 \<rightharpoonup> OutboundPrivateMessageRecord) \<Rightarrow> bool" where
  "terminal_private_list_reservation_needs_cleanup r by_id =
     (case by_id (rv_outbound_message_id r) of
        None \<Rightarrow> False
      | Some m \<Rightarrow>
          om_kind m = kind_as_str PrivatePaymentListKind
          \<and> (om_status m = Invalid \<or> om_status m = Superseded \<and> om_last_attempt_at m = None))"

definition pending_outbound_private_counterparties ::
  "net \<Rightarrow> PaykitSdkConfig \<Rightarrow> instant \<Rightarrow> StorageState \<Rightarrow> (PubkyPublicKey \<times> PaykitReceiverPath) list sdk_res" where
  "pending_outbound_private_counterparties V cfg now s =
     rbind (outbound_retry_thresholds V cfg now) (\<lambda>(stale_before, failed_retry_after).
     let ms = st_outbound_private_messages s;
         by_id = map_of (rev (map (\<lambda>m. (om_id m, m)) ms));
         with_head = filter (\<lambda>(cp, rp). outbound_private_queue_head_is_claimable (filter (om_for cp rp) ms) stale_before failed_retry_after)
           (map (\<lambda>m. (om_counterparty m, om_path m)) ms);
         with_cleanup = map (\<lambda>r. (rv_counterparty r, rv_path r))
           (filter (\<lambda>r. terminal_private_list_reservation_needs_cleanup r by_id) (hm_values (st_payment_endpoint_reservations s)));
         stopped = (\<lambda>k. case linked_peer s k of None \<Rightarrow> False | Some peer \<Rightarrow> lp_state peer \<in> {Linking, RecoveryRequiredState, Blocked})
     in Inr (sort_key (\<lambda>(cp, rp). (z32 cp, receiver_path_str rp)) (filter (\<lambda>k. \<not> stopped k) (remdups (with_head @ with_cleanup)))))"

fun process_counterparties ::
  "ext \<Rightarrow> 'n link_net \<Rightarrow> cancel_call \<Rightarrow> PaykitSdkConfig \<Rightarrow> nat list \<Rightarrow> (PubkyPublicKey \<times> PaykitReceiverPath) list \<Rightarrow>
   StorageState \<Rightarrow> (StorageState \<times> OutboundPrivateCounterpartySendReport list) option" where
  "process_counterparties E H cancel cfg p [] s = Some (s, [])"
| "process_counterparties E H cancel cfg p ((cp, rp) # rest) s =
     Option.bind (process_outbound_private_messages E H cancel cfg (length rest # p) cp rp s) (\<lambda>(t, result).
     Option.bind (process_counterparties E H cancel cfg p rest t) (\<lambda>(u, reports).
     Some (u, \<lparr>ocr_counterparty = cp, ocr_path = rp,
               ocr_report = (case result of Inl _ \<Rightarrow> None | Inr r \<Rightarrow> Some r),
               ocr_error = (case result of Inl e \<Rightarrow> Some (sdk_error_display e) | Inr _ \<Rightarrow> None)\<rparr> # reports)))"

definition process_pending_private_messages ::
  "ext \<Rightarrow> 'n link_net \<Rightarrow> cancel_call \<Rightarrow> PaykitSdkConfig \<Rightarrow> nat list \<Rightarrow> StorageState \<Rightarrow>
   (StorageState \<times> OutboundPrivateCounterpartySendReport list sdk_res) option" where
  "process_pending_private_messages E H cancel cfg p s =
     (case pending_outbound_private_counterparties (ln_net H) cfg (nv_now (ln_net H) p) s of
        Inl e \<Rightarrow> Some (s, Inl e)
      | Inr counterparties \<Rightarrow>
          map_option (\<lambda>(t, reports). (t, Inr reports)) (process_counterparties E H cancel cfg p counterparties s))"

section \<open>What a pass does to the queue\<close>

text \<open>The queue and its next id.\<close>

definition queue_is :: "OutboundPrivateMessageRecord list \<times> u64 \<Rightarrow> StorageState \<Rightarrow> bool" where
  "queue_is q s \<longleftrightarrow> (st_outbound_private_messages s, st_next_outbound_id s) = q"

lemma queue_is_inv: "queue_is q s \<Longrightarrow> queue_is q t \<Longrightarrow> outbound_inv t \<longleftrightarrow> outbound_inv s"
  by (auto simp: queue_is_def outbound_inv_def)

lemma outbound_inv_ids:
  assumes "map om_id (st_outbound_private_messages t) = map om_id (st_outbound_private_messages s)"
    and "st_next_outbound_id t = st_next_outbound_id s"
  shows "outbound_inv t \<longleftrightarrow> outbound_inv s"
proof -
  have all: "list_all (\<lambda>m. om_id m < n) ms \<longleftrightarrow> list_all (\<lambda>i. i < n) (map om_id ms)" for n ms
    by (simp add: list.pred_map comp_def)
  show ?thesis unfolding outbound_inv_def all assms ..
qed

lemma cancel_keeps_queue [rt_rules]:
  "rt_keeps (queue_is q) (cancel_reservation_records V cancel p rs lease)"
proof (induction rs)
  case (Cons r rs)
  have "rt_keeps (queue_is q) (cancel_reservation_record V cancel (length rs # p) r lease)"
    unfolding cancel_reservation_record_def
    by (intro rt_rules rt_keeps_transaction rt_keeps_save)
       (auto simp: claim_reservation_cancellation_def remove_canceled_reservation_def queue_is_def rbind_Inr_iff
          save_payment_endpoint_reservation_def remove_payment_endpoint_reservation_def split: option.splits if_splits)
  with Cons show ?case unfolding cancel_reservation_records.simps by (intro rt_rules)
qed (simp add: rt_rules)

lemma cancel_terminal_keeps_queue [rt_rules]:
  "rt_keeps (queue_is q) (cancel_terminal_private_list_reservations V cancel p cp rp lease)"
  unfolding cancel_terminal_private_list_reservations_def cancel_unattempted_superseded_reservations_def by (intro rt_rules)

lemma keeps_queue: "rt_keeps (queue_is q) m \<Longrightarrow> queue_is q s \<Longrightarrow> m s = (t, r) \<Longrightarrow> queue_is q t"
  by (auto simp: rt_keeps_def)

text \<open>The ids of the messages of a peer that still have to be delivered.\<close>

definition unsettled_ids :: "StorageState \<Rightarrow> PubkyPublicKey \<Rightarrow> PaykitReceiverPath \<Rightarrow> u64 set" where
  "unsettled_ids s cp rp = om_id ` {m \<in> set (st_outbound_private_messages s). om_for cp rp m \<and> \<not> om_settled m}"

lemma unsettled_ids_queue: "queue_is q s \<Longrightarrow> queue_is q t \<Longrightarrow> unsettled_ids t cp rp = unsettled_ids s cp rp"
  by (auto simp: queue_is_def unsettled_ids_def)

lemma claim_unsettled:
  assumes "outbound_inv s" and "claim_next_outbound_private_message cp rp now sb fa s = (t, Some m)"
  shows "outbound_inv t" and "m \<in> set (st_outbound_private_messages t)" and "om_for cp rp m" and "\<not> om_settled m"
    and "om_id m \<in> unsettled_ids s cp rp" and "unsettled_ids t cp rp \<subseteq> unsettled_ids s cp rp"
    and "\<And>i. i \<in> unsettled_ids t cp rp \<Longrightarrow> om_id m \<le> i"
proof -
  let ?s = "supersede_outdated_private_payment_lists cp rp now sb fa s"
  let ?ms = "st_outbound_private_messages ?s"
  have sorted: "sorted_wrt (<) (map om_id ?ms)" using assms(1) by (simp add: outbound_inv_def)
  obtain ms' where spec: "claim_spec cp rp now sb fa ?ms = (ms', Some m)" and t: "t = ?s\<lparr>st_outbound_private_messages := ms'\<rparr>"
    using assms by (auto simp: claim_next_refines Let_def split: prod.splits)
  from claim_spec_Some [OF spec sorted] obtain m0 where m0: "m0 \<in> set ?ms" "om_for cp rp m0" "\<not> om_settled m0"
    "m = claim_message now m0" "ms' = map (\<lambda>x. if om_id x = om_id m0 then claim_message now x else x) ?ms"
    and older: "\<And>x. x \<in> set ?ms \<Longrightarrow> om_for cp rp x \<Longrightarrow> om_id x < om_id m0 \<Longrightarrow> om_settled x"
    by blast
  have claimed: "om_id (claim_message now x) = om_id x" "om_for cp rp (claim_message now x) = om_for cp rp x"
    "\<not> om_settled (claim_message now x)" for x
    by (simp_all add: claim_message_def om_for_def om_settled_def)
  show "om_for cp rp m" "\<not> om_settled m" using m0 claimed by simp_all
  show "m \<in> set (st_outbound_private_messages t)" using m0(1,4,5) t by auto
  have ids: "map om_id ms' = map om_id ?ms" using claim_spec_ids [of cp rp now sb fa ?ms] spec by simp
  have next_id: "st_next_outbound_id ?s = st_next_outbound_id s"
    by (subst supersede_rest) simp
  show "outbound_inv t"
    using assms(1) outbound_inv_ids [of t s] ids next_id by (simp add: t)
  have sub: "x \<in> set ?ms \<Longrightarrow> om_for cp rp x \<Longrightarrow> \<not> om_settled x \<Longrightarrow> om_id x \<in> unsettled_ids s cp rp" for x
    by (auto simp: supersede_outbound unsettled_ids_def supersede_settled)
  show "om_id m \<in> unsettled_ids s cp rp" using sub [OF m0(1-3)] m0(4) claimed(1) by simp
  have still: "\<exists>x \<in> set ?ms. om_for cp rp x \<and> \<not> om_settled x \<and> om_id x = i" if unsettled: "i \<in> unsettled_ids t cp rp" for i
  proof -
    obtain y where y: "y \<in> set ms'" "om_for cp rp y" "\<not> om_settled y" "om_id y = i"
      using unsettled unfolding unsettled_ids_def t by auto
    then obtain x where x: "x \<in> set ?ms" "y = (if om_id x = om_id m0 then claim_message now x else x)" using m0(5) by auto
    show ?thesis
    proof (cases "om_id x = om_id m0")
      case True
      with x y m0(1-3) claimed show ?thesis by (intro bexI [of _ m0]) simp_all
    next
      case False
      with x y show ?thesis by auto
    qed
  qed
  show "unsettled_ids t cp rp \<subseteq> unsettled_ids s cp rp" using still sub by blast
  show "om_id m \<le> i" if "i \<in> unsettled_ids t cp rp" for i
    using still [OF that] older m0(4) claimed(1) by (metis linorder_not_less)
qed

lemma replace_outbound_set:
  "replace_outbound r ms = Some ms' \<Longrightarrow> distinct (map om_id ms) \<Longrightarrow> set ms' = insert r {m \<in> set ms. om_id m \<noteq> om_id r}"
proof (induction ms arbitrary: ms')
  case (Cons m ms)
  show ?case
  proof (cases "om_id m = om_id r")
    case True
    then have "ms' = r # ms" "\<forall>x \<in> set ms. om_id x \<noteq> om_id r" using Cons.prems by (auto simp: rev_image_eqI)
    with True show ?thesis by auto
  next
    case False
    with Cons.prems obtain rest where rest: "replace_outbound r ms = Some rest" "ms' = m # rest" by auto
    with Cons.IH [OF rest(1)] Cons.prems(2) False show ?thesis by auto
  qed
qed simp

lemma save_settles:
  assumes "outbound_inv s" and "om_settled r" and "save_outbound_private_message r s = Inr (t, u)"
  shows "outbound_inv t" and "unsettled_ids t cp rp \<subseteq> unsettled_ids s cp rp - {om_id r}"
proof -
  obtain ms where ms: "replace_outbound r (st_outbound_private_messages s) = Some ms" "t = s\<lparr>st_outbound_private_messages := ms\<rparr>"
    using assms(3) by (auto simp: save_outbound_private_message_def split: option.splits)
  show "outbound_inv t" using assms(1) outbound_inv_ids [of t s] replace_outbound_ids [OF ms(1)] by (simp add: ms(2))
  have "distinct (map om_id (st_outbound_private_messages s))" using assms(1) by (simp add: outbound_inv_def strict_sorted_iff)
  from replace_outbound_set [OF ms(1) this] assms(2)
  show "unsettled_ids t cp rp \<subseteq> unsettled_ids s cp rp - {om_id r}" unfolding unsettled_ids_def ms(2) by auto
qed

lemma save_with_lease_settles:
  assumes "outbound_inv s" and "om_settled r" and "transaction (save_outbound_with_lease r lease) s = (t, Inr r')"
  shows "outbound_inv t" and "unsettled_ids t cp rp \<subseteq> unsettled_ids s cp rp - {om_id r}"
proof -
  obtain u where "save_outbound_private_message r s = Inr (t, u)"
    using assms(3) by (auto simp: transaction_ok_iff save_outbound_with_lease_def rbind_Inr_iff)
  from save_settles [OF assms(1,2) this]
  show "outbound_inv t" "unsettled_ids t cp rp \<subseteq> unsettled_ids s cp rp - {om_id r}" .
qed

lemma queue_after:
  assumes "rt_keeps (queue_is (st_outbound_private_messages s, st_next_outbound_id s)) m" and "m s = (t, r)" and "outbound_inv s"
  shows "outbound_inv t" and "unsettled_ids t cp rp = unsettled_ids s cp rp"
proof -
  let ?q = "(st_outbound_private_messages s, st_next_outbound_id s)"
  have q: "queue_is ?q s" by (simp add: queue_is_def)
  have "queue_is ?q t" by (rule keeps_queue [OF assms(1) q assms(2)])
  then show "outbound_inv t" "unsettled_ids t cp rp = unsettled_ids s cp rp"
    using queue_is_inv [OF q] unsettled_ids_queue [OF q] assms(3) by blast+
qed

lemma ready_some:
  "claimed_message_ready_for_send E V cancel p cp sending lease report now s = (t, Inr (r, Some m)) \<Longrightarrow>
     t = s \<and> r = report \<and> m = sending"
  by (auto simp: claimed_message_ready_for_send_def Let_def rt_bind_ok rt_return_def rt_read_def split: sum.splits if_splits)

lemma report_adds [simp]:
  "osr_attempted (add_cleanup_failures fs r) = osr_attempted r" "osr_sent (add_cleanup_failures fs r) = osr_sent r"
  "osr_attempted (add_send_failure i err r) = osr_attempted r" "osr_sent (add_send_failure i err r) = osr_sent r"
  by (simp_all add: add_cleanup_failures_def add_send_failure_def)

lemma ready_none:
  assumes "outbound_inv s" and "claimed_message_ready_for_send E V cancel p cp sending lease report now s = (t, Inr (r, None))"
  shows "outbound_inv t" and "unsettled_ids t cp' rp' \<subseteq> unsettled_ids s cp' rp' - {om_id sending}"
    and "osr_attempted r = osr_attempted report" and "osr_sent r = osr_sent report"
proof -
  have "\<exists>err u v x cs. transaction (save_outbound_with_lease (mark_outbound_invalid sending err (nv_now V p)) lease) s = (u, Inr x)
      \<and> (\<exists>fs. cancel_reservation_records V cancel (1 # p) cs (Some lease) u = (v, Inr fs))
      \<and> (\<exists>fs. cancel_terminal_private_list_reservations V cancel (0 # p) cp (le_path lease) (Some lease) v = (t, Inr fs))
      \<and> osr_attempted r = osr_attempted report \<and> osr_sent r = osr_sent report"
  proof (cases "validate_queued_outbound_private_message E sending")
    case (Inl e)
    obtain u x fs where "transaction (save_outbound_with_lease (mark_outbound_invalid sending (sdk_error_display e) (nv_now V p)) lease) s
        = (u, Inr x)" "cancel_terminal_private_list_reservations V cancel (0 # p) cp (le_path lease) (Some lease) u = (t, Inr fs)"
      and r: "r = add_cleanup_failures fs (add_send_failure (om_id x) (sdk_error_display e) report)"
      using assms(2) Inl by (auto simp: claimed_message_ready_for_send_def Let_def rt_bind_ok rt_return_def)
    moreover have "cancel_reservation_records V cancel (1 # p) [] (Some lease) u = (u, Inr [])" by (simp add: rt_return_def)
    ultimately show ?thesis unfolding r report_adds by blast
  next
    case (Inr _)
    then show ?thesis
      using assms(2)
      by (fastforce simp: claimed_message_ready_for_send_def Let_def rt_bind_ok rt_return_def rt_read_def split: if_splits)
  qed
  then obtain err u v x cs fs fs' where
    save: "transaction (save_outbound_with_lease (mark_outbound_invalid sending err (nv_now V p)) lease) s = (u, Inr x)"
    and cancel: "cancel_reservation_records V cancel (1 # p) cs (Some lease) u = (v, Inr fs)"
    and cleanup: "cancel_terminal_private_list_reservations V cancel (0 # p) cp (le_path lease) (Some lease) v = (t, Inr fs')"
    and r: "osr_attempted r = osr_attempted report" "osr_sent r = osr_sent report"
    by blast
  have settled: "om_settled (mark_outbound_invalid sending err (nv_now V p))" by (simp add: mark_outbound_invalid_def om_settled_def)
  note saved = save_with_lease_settles [OF assms(1) settled save]
  note canceled = queue_after [OF cancel_keeps_queue cancel saved(1)]
  note cleaned = queue_after [OF cancel_terminal_keeps_queue cleanup canceled(1)]
  show "outbound_inv t" by (rule cleaned(1))
  show "unsettled_ids t cp' rp' \<subseteq> unsettled_ids s cp' rp' - {om_id sending}"
    unfolding cleaned(2) canceled(2) using saved(2) [of cp' rp'] by (simp add: mark_outbound_invalid_def)
  show "osr_attempted r = osr_attempted report" "osr_sent r = osr_sent report" by (rule r)+
qed

lemma send_error_report:
  assumes "record_private_send_error E V cancel cfg p cp sending err lease report s = (t, Inr r)"
  shows "osr_attempted r = osr_attempted report \<and> osr_sent r = osr_sent report"
proof (cases "is_non_retryable_private_send_error err")
  case True
  have marker: "osr_attempted r = osr_attempted r0 \<and> osr_sent r = osr_sent r0"
    if "record_outbound_recovery_marker_result E V cfg q r0 cp rp b i u = (t, Inr r)" for q r0 rp b i u
    using that
    by (auto simp: record_outbound_recovery_marker_result_def rt_catch_def rt_return_def split: prod.splits sum.splits)
  obtain u and x :: "OutboundPrivateMessageRecord \<times> bool" where
    "record_outbound_recovery_marker_result E V cfg (0 # p) (add_send_failure (om_id (fst x)) (paykit_error_display err) report)
      cp (le_path lease) (snd x) (Some (om_id (fst x))) u = (t, Inr r)"
    using assms unfolding record_private_send_error_def Let_def case_prod_unfold if_P [OF True] rt_bind_ok by blast
  from marker [OF this] show ?thesis by simp
next
  case False
  then show ?thesis
    using assms by (auto simp: record_private_send_error_def Let_def rt_bind_ok rt_return_def)
qed

lemma send_success_settles:
  assumes "outbound_inv s" and "record_private_send_success E H p sending link ls lease report s = (t, Inr (ls', r))"
  shows "outbound_inv t" and "unsettled_ids t cp rp \<subseteq> unsettled_ids s cp rp - {om_id sending}"
    and "osr_attempted r = osr_attempted report" and "osr_sent r = osr_sent report @ [om_id sending]"
proof -
  let ?sent = "mark_outbound_sent sending (nv_now (ln_net H) p)"
  obtain bytes where tx: "record_send_tx ?sent (next_link_state bytes (nv_now (ln_net H) p) ls) lease s = Inr (t, ())"
    and r: "r = report\<lparr>osr_sent := osr_sent report @ [om_id ?sent]\<rparr>"
    using assms(2) by (auto simp: record_private_send_success_def Let_def rt_bind_ok rt_lift_def rt_return_def transaction_ok_iff)
  obtain u where u: "save_outbound_private_message ?sent s = Inr (u, ())"
    and t: "t = save_encrypted_link_state (next_link_state bytes (nv_now (ln_net H) p) ls) u"
    using tx by (auto simp: record_send_tx_def rbind_Inr_iff)
  have "om_settled ?sent" by (simp add: mark_outbound_sent_def om_settled_def)
  note saved = save_settles [OF assms(1) this u]
  have same: "st_outbound_private_messages t = st_outbound_private_messages u" "st_next_outbound_id t = st_next_outbound_id u"
    by (simp_all add: t save_encrypted_link_state_def)
  show "outbound_inv t" using saved(1) by (simp add: outbound_inv_def same)
  show "unsettled_ids t cp rp \<subseteq> unsettled_ids s cp rp - {om_id sending}"
    using saved(2) [of cp rp] by (simp add: unsettled_ids_def same mark_outbound_sent_def)
  show "osr_attempted r = osr_attempted report" "osr_sent r = osr_sent report @ [om_id sending]"
    by (simp_all add: r mark_outbound_sent_def)
qed

text \<open>What one pass does, by the way it ends.\<close>

definition pass_outcome ::
  "u64 set \<Rightarrow> u64 set \<Rightarrow> OutboundPrivateSendReport \<Rightarrow> OutboundPrivateSendReport \<Rightarrow> bool \<Rightarrow> bool" where
  "pass_outcome before after r r' continues \<longleftrightarrow>
     (\<exists>i \<in> before. osr_attempted r' = osr_attempted r @ [i] \<and> osr_sent r' \<in> {osr_sent r, osr_sent r @ [i]}
        \<and> (continues \<longrightarrow> (\<forall>j \<in> after. j \<in> before \<and> i < j)))
     \<or> \<not> continues \<and> osr_attempted r' = osr_attempted r \<and> osr_sent r' = osr_sent r"

lemma claimed_continues:
  assumes "outbound_inv s" and "deliver_claimed E H cancel cfg p cp lease link ls report sending now s = (t, Inr (Continue link' ls' report'))"
  shows "outbound_inv t" and "unsettled_ids t cp' rp' \<subseteq> unsettled_ids s cp' rp' - {om_id sending}"
    and "osr_attempted report' = osr_attempted report @ [om_id sending]"
    and "osr_sent report' \<in> {osr_sent report, osr_sent report @ [om_id sending]}"
proof -
  obtain v r ready where
    ready: "claimed_message_ready_for_send E (ln_net H) cancel (1 # p) cp sending lease
        (report\<lparr>osr_attempted := osr_attempted report @ [om_id sending]\<rparr>) now s = (v, Inr (r, ready))"
    and rest: "(case ready of
       None \<Rightarrow> rt_return (Continue link ls r)
     | Some sending \<Rightarrow>
         (case send_private_application_message_json E (ln_noise H) (2 # p) (om_raw_json sending) link of
            (link', Inr _) \<Rightarrow>
              rt_bind (record_private_send_success E H (3 # p) sending link' ls lease r) (\<lambda>(ls', report).
              rt_bind (cancel_terminal_private_list_reservations (ln_net H) cancel (5 # p) cp (le_path lease) (Some lease)) (\<lambda>failures.
              rt_return (Continue link' ls' (add_cleanup_failures failures report))))
          | (_, Inl err) \<Rightarrow>
              rt_bind (record_private_send_error E (ln_net H) cancel cfg (4 # p) cp sending err lease r) (\<lambda>report.
              rt_return (Stopped report)))) v = (t, Inr (Continue link' ls' report'))"
    using assms(2) by (auto simp: deliver_claimed_def rt_bind_ok)
  have "outbound_inv t \<and> unsettled_ids t cp' rp' \<subseteq> unsettled_ids s cp' rp' - {om_id sending}
      \<and> osr_attempted report' = osr_attempted report @ [om_id sending]
      \<and> osr_sent report' \<in> {osr_sent report, osr_sent report @ [om_id sending]}"
  proof (cases ready)
    case None
    with rest have "t = v" "report' = r" by (simp_all add: rt_return_def)
    with ready_none [OF assms(1) ready [unfolded None]] show ?thesis by simp
  next
    case (Some m)
    from ready_some [OF ready [unfolded Some]] have same: "v = s" "m = sending"
      "r = report\<lparr>osr_attempted := osr_attempted report @ [om_id sending]\<rparr>" by simp_all
    obtain l' w fs r2 where success: "record_private_send_success E H (3 # p) sending l' ls lease r s = (w, Inr (ls', r2))"
      and cleanup: "cancel_terminal_private_list_reservations (ln_net H) cancel (5 # p) cp (le_path lease) (Some lease) w = (t, Inr fs)"
      and report': "report' = add_cleanup_failures fs r2"
      using rest unfolding Some same
      by (auto simp: rt_bind_ok rt_return_def split: prod.splits sum.splits)
    note settled = send_success_settles [OF assms(1) success]
    note cleaned = queue_after [OF cancel_terminal_keeps_queue cleanup settled(1)]
    from settled(2) [of cp' rp'] settled(3,4) cleaned same(3) show ?thesis unfolding report' by simp
  qed
  then show "outbound_inv t" "unsettled_ids t cp' rp' \<subseteq> unsettled_ids s cp' rp' - {om_id sending}"
    "osr_attempted report' = osr_attempted report @ [om_id sending]"
    "osr_sent report' \<in> {osr_sent report, osr_sent report @ [om_id sending]}"
    by blast+
qed

lemma claimed_stops:
  assumes "deliver_claimed E H cancel cfg p cp lease link ls report sending now s = (t, Inr (Stopped report'))"
  shows "osr_attempted report' = osr_attempted report @ [om_id sending] \<and> osr_sent report' = osr_sent report"
proof -
  obtain v r m err where ready: "claimed_message_ready_for_send E (ln_net H) cancel (1 # p) cp sending lease
      (report\<lparr>osr_attempted := osr_attempted report @ [om_id sending]\<rparr>) now s = (v, Inr (r, Some m))"
    and failed: "record_private_send_error E (ln_net H) cancel cfg (4 # p) cp m err lease r v = (t, Inr report')"
  proof -
    obtain v r ready where first: "claimed_message_ready_for_send E (ln_net H) cancel (1 # p) cp sending lease
        (report\<lparr>osr_attempted := osr_attempted report @ [om_id sending]\<rparr>) now s = (v, Inr (r, ready))"
      using assms by (auto simp: deliver_claimed_def rt_bind_ok)
    then obtain m where m: "ready = Some m" using assms by (cases ready) (auto simp: deliver_claimed_def rt_bind_def rt_return_def)
    obtain l' result where sent: "send_private_application_message_json E (ln_noise H) (2 # p) (om_raw_json m) link = (l', result)" by force
    show thesis
      using assms first m sent that
      by (cases result) (auto simp: deliver_claimed_def rt_bind_def rt_return_def split: prod.splits sum.splits)
  qed
  show ?thesis using send_error_report [OF failed] ready_some [OF ready] by simp
qed

lemma delivery_passE:
  assumes "delivery_pass E H cancel cfg p cp lease link ls report s = (t, Inr d)"
  obtains u fs where "d = Stopped (add_cleanup_failures fs report)"
    | sb fa u sending where "claim_next_outbound_private_message cp (le_path lease) (nv_now (ln_net H) p) sb fa s = (u, Some sending)"
      "deliver_claimed E H cancel cfg p cp lease link ls report sending (nv_now (ln_net H) p) u = (t, Inr d)"
proof -
  obtain sb fa u claimed where
    claim: "claim_next_outbound_private_message cp (le_path lease) (nv_now (ln_net H) p) sb fa s = (u, claimed)"
    and rest: "(case claimed of
        None \<Rightarrow>
          rt_bind (cancel_terminal_private_list_reservations (ln_net H) cancel (0 # p) cp (le_path lease) (Some lease)) (\<lambda>failures.
          rt_return (Stopped (add_cleanup_failures failures report)))
      | Some sending \<Rightarrow> deliver_claimed E H cancel cfg p cp lease link ls report sending (nv_now (ln_net H) p)) u = (t, Inr d)"
    using assms
    by (auto simp: delivery_pass_def Let_def rt_bind_ok rt_lift_def transaction_ok_iff
        claim_next_outbound_private_message_with_peer_lease_def rbind_Inr_iff)
  show thesis
  proof (cases claimed)
    case None
    with rest show thesis using that(1) by (auto simp: rt_bind_ok rt_return_def)
  next
    case (Some sending)
    with claim rest show thesis using that(2) by simp
  qed
qed

lemma pass_continues:
  assumes "outbound_inv s" and "delivery_pass E H cancel cfg p cp lease link ls report s = (t, Inr (Continue link' ls' report'))"
  shows "outbound_inv t"
    and "pass_outcome (unsettled_ids s cp (le_path lease)) (unsettled_ids t cp (le_path lease)) report report' True"
proof -
  let ?rp = "le_path lease"
  from assms(2) obtain sb fa u sending
    where claim: "claim_next_outbound_private_message cp ?rp (nv_now (ln_net H) p) sb fa s = (u, Some sending)"
      and rest: "deliver_claimed E H cancel cfg p cp lease link ls report sending (nv_now (ln_net H) p) u
        = (t, Inr (Continue link' ls' report'))"
    by (elim delivery_passE) simp_all
  note claimed = claim_unsettled [OF assms(1) claim]
  note delivered = claimed_continues [OF claimed(1) rest]
  show "outbound_inv t" by (rule delivered(1))
  have later: "j \<in> unsettled_ids s cp ?rp \<and> om_id sending < j" if unsettled: "j \<in> unsettled_ids t cp ?rp" for j
  proof -
    have "j \<in> unsettled_ids u cp ?rp" "j \<noteq> om_id sending" using unsettled delivered(2) by blast+
    then show ?thesis using claimed(6) claimed(7) [of j] by (simp add: order_less_le subset_iff)
  qed
  show "pass_outcome (unsettled_ids s cp ?rp) (unsettled_ids t cp ?rp) report report' True"
    unfolding pass_outcome_def using delivered(3,4) claimed(5) later
    by (intro disjI1 bexI [of _ "om_id sending"]) simp_all
qed

lemma pass_stops:
  assumes "outbound_inv s" and "delivery_pass E H cancel cfg p cp lease link ls report s = (t, Inr (Stopped report'))"
  shows "pass_outcome (unsettled_ids s cp (le_path lease)) after report report' False"
  using assms(2)
proof (rule delivery_passE)
  fix fs assume "Stopped report' = Stopped (add_cleanup_failures fs report)"
  then show ?thesis by (simp add: pass_outcome_def)
next
  fix sb fa u sending
  assume claim: "claim_next_outbound_private_message cp (le_path lease) (nv_now (ln_net H) p) sb fa s = (u, Some sending)"
    and rest: "deliver_claimed E H cancel cfg p cp lease link ls report sending (nv_now (ln_net H) p) u = (t, Inr (Stopped report'))"
  from claimed_stops [OF rest] claim_unsettled(5) [OF assms(1) claim] show ?thesis
    unfolding pass_outcome_def by (intro disjI1 bexI [of _ "om_id sending"]) simp_all
qed

section \<open>The queue stays in order\<close>

lemma outbound_inv_eqI:
  "st_outbound_private_messages t = st_outbound_private_messages s \<Longrightarrow> st_next_outbound_id t = st_next_outbound_id s \<Longrightarrow>
     outbound_inv t = outbound_inv s"
  by (simp add: outbound_inv_def)

lemma mark_recovery_queue:
  assumes "mark_recovery_required_in_transaction_inner cp rp now bump s = Inr (t, b)"
  shows "outbound_inv t = outbound_inv s"
  using assms
  by (intro outbound_inv_eqI)
     (auto simp: mark_recovery_required_in_transaction_inner_def Let_def rbind_Inr_iff save_linked_peer_def
        save_encrypted_link_state_def split: option.splits)

lemma save_outbound_queue: "save_outbound_private_message r s = Inr (t, u) \<Longrightarrow> outbound_inv t = outbound_inv s"
  by (auto simp: save_outbound_private_message_def split: option.splits intro!: outbound_inv_ids dest: replace_outbound_ids)

lemma claim_queue:
  assumes "outbound_inv s" and "claim_next_outbound_private_message cp rp now sb fa s = (t, m)"
  shows "outbound_inv t"
proof -
  let ?s = "supersede_outdated_private_payment_lists cp rp now sb fa s"
  obtain ms' where spec: "claim_spec cp rp now sb fa (st_outbound_private_messages ?s) = (ms', m)"
    and t: "t = ?s\<lparr>st_outbound_private_messages := ms'\<rparr>"
    using assms by (auto simp: claim_next_refines Let_def split: prod.splits)
  have "map om_id ms' = map om_id (st_outbound_private_messages s)"
    using claim_spec_ids [of cp rp now sb fa "st_outbound_private_messages ?s"] spec by simp
  moreover have "st_next_outbound_id ?s = st_next_outbound_id s" by (subst supersede_rest) simp
  ultimately show ?thesis using assms(1) outbound_inv_ids [of t s] by (simp add: t)
qed

lemma keeps_outbound_transactions [rt_rules]:
  "rt_keeps outbound_inv (transaction (save_outbound_with_lease r lease))"
  "rt_keeps outbound_inv (transaction (record_send_tx r ls lease))"
  "rt_keeps outbound_inv (transaction (record_failure_tx cp r lease now))"
  "rt_keeps outbound_inv (transaction (mark_recovery_required_with_lease cp lease now))"
  "rt_keeps outbound_inv (transaction (claim_next_outbound_private_message_with_peer_lease cp now sb fa lease))"
  "rt_keeps outbound_inv (transaction (record_marker_tx E fresh force now cp rp))"
proof -
  show "rt_keeps outbound_inv (transaction (save_outbound_with_lease r lease))"
    by (rule rt_keeps_transaction) (auto simp: save_outbound_with_lease_def rbind_Inr_iff dest: save_outbound_queue)
  show "rt_keeps outbound_inv (transaction (record_send_tx r ls lease))"
    by (rule rt_keeps_transaction)
       (auto simp: record_send_tx_def rbind_Inr_iff outbound_inv_def save_encrypted_link_state_def
          dest!: save_outbound_queue [unfolded outbound_inv_def])
  show "rt_keeps outbound_inv (transaction (record_failure_tx cp r lease now))"
    by (rule rt_keeps_transaction)
       (auto simp: record_failure_tx_def mark_recovery_required_in_transaction_def rbind_Inr_iff
          dest!: save_outbound_queue mark_recovery_queue)
  show "rt_keeps outbound_inv (transaction (mark_recovery_required_with_lease cp lease now))"
    by (rule rt_keeps_transaction)
       (auto simp: mark_recovery_required_with_lease_def mark_recovery_required_inner_def
          mark_recovery_required_in_transaction_def rbind_Inr_iff split: if_splits dest!: mark_recovery_queue)
  show "rt_keeps outbound_inv (transaction (claim_next_outbound_private_message_with_peer_lease cp now sb fa lease))"
    by (rule rt_keeps_transaction)
       (auto simp: claim_next_outbound_private_message_with_peer_lease_def rbind_Inr_iff intro: claim_queue)
  show "rt_keeps outbound_inv (transaction (record_marker_tx E fresh force now cp rp))"
    by (rule rt_keeps_transaction)
       (auto simp: record_marker_tx_def Let_def rbind_Inr_iff outbound_inv_def save_linked_peer_def split: if_splits)
qed

lemma keeps_outbound_cancel [rt_rules]:
  "rt_keeps outbound_inv (cancel_reservation_records V cancel p rs lease)"
  "rt_keeps outbound_inv (cancel_terminal_private_list_reservations V cancel p cp rp lease)"
  unfolding rt_keeps_def
  by (metis queue_after(1) cancel_keeps_queue cancel_terminal_keeps_queue prod.collapse)+

lemma keeps_outbound_marker [rt_rules]:
  "rt_keeps outbound_inv (publish_local_recovery_marker_with_session E V cfg p cp rp force)"
proof -
  have "rt_keeps outbound_inv (save_local_recovery_marker_last_error cp rp err)" for err
    unfolding save_local_recovery_marker_last_error_def
    by (intro rt_keeps_save) (simp add: outbound_inv_def save_linked_peer_def split: option.split)
  then show ?thesis unfolding publish_local_recovery_marker_with_session_def by (intro rt_rules)
qed

lemma keeps_outbound_pass [rt_rules]: "rt_keeps outbound_inv (delivery_pass E H cancel cfg p cp lease link ls report)"
proof -
  have "rt_keeps outbound_inv (claimed_message_ready_for_send E V cancel q cp m lease r now)" for V q m r now
    unfolding claimed_message_ready_for_send_def Let_def by (intro rt_rules)
  moreover have "rt_keeps outbound_inv (record_private_send_success E H q m l ls lease r)" for q m l r
    unfolding record_private_send_success_def Let_def by (intro rt_rules)
  moreover have "rt_keeps outbound_inv (record_private_send_error E V cancel cfg q cp m err lease r)" for V q m err r
    unfolding record_private_send_error_def record_outbound_recovery_marker_result_def Let_def by (intro rt_rules)
  ultimately show ?thesis unfolding delivery_pass_def deliver_claimed_def Let_def by (intro rt_rules)
qed

section \<open>The loop ends and keeps the order\<close>

text \<open>A report whose attempts are in order, with the sent messages among them, and before all that is left.\<close>

definition report_in_order :: "u64 set \<Rightarrow> OutboundPrivateSendReport \<Rightarrow> bool" where
  "report_in_order left r \<longleftrightarrow>
     sorted_wrt (<) (osr_attempted r) \<and> subseq (osr_sent r) (osr_attempted r)
     \<and> (\<forall>i \<in> set (osr_attempted r). \<forall>j \<in> left. i < j)"

lemma outcome_in_order:
  assumes "pass_outcome before after r r' continues" and "report_in_order before r"
  shows "report_in_order (if continues then after else {}) r'"
proof -
  have "subseq sent attempted \<Longrightarrow> subseq (sent @ [i]) (attempted @ [i]) \<and> subseq sent (attempted @ [i])" for sent attempted and i :: u64
    by (simp add: subseq_append_iff) (metis append.right_neutral list_emb_Nil subseq_order.refl)
  with assms show ?thesis
    by (fastforce simp: pass_outcome_def report_in_order_def sorted_wrt_append)
qed

lemma finite_unsettled: "finite (unsettled_ids s cp rp)"
  by (simp add: unsettled_ids_def)

lemma delivery_loop_ends:
  assumes "outbound_inv s" and "report_in_order (unsettled_ids s cp (le_path lease)) report"
  shows "\<exists>t result. delivery_loop E H cancel cfg p cp lease k link ls report s = Some (t, result) \<and> outbound_inv t
    \<and> (\<forall>r. result = Inr r \<longrightarrow> report_in_order {} r)"
  using assms
proof (induction "card (unsettled_ids s cp (le_path lease))" arbitrary: k link ls report s rule: less_induct)
  case less
  obtain t outcome where pass: "delivery_pass E H cancel cfg (k # p) cp lease link ls report s = (t, outcome)" by force
  have kept: "outbound_inv t"
    using keeps_outbound_pass [of E H cancel cfg "k # p" cp lease link ls report] less.prems(1) pass by (auto simp: rt_keeps_def)
  show ?case
  proof (cases outcome)
    case (Inl e)
    with pass kept show ?thesis by (subst delivery_loop.simps) simp
  next
    case (Inr d)
    show ?thesis
    proof (cases d)
      case (Stopped r)
      have "report_in_order {} r"
        using outcome_in_order [OF pass_stops [OF less.prems(1) pass [unfolded Inr Stopped], of "{}"] less.prems(2)] by simp
      with pass kept Inr Stopped show ?thesis by (subst delivery_loop.simps) simp
    next
      case (Continue link' ls' r)
      note next_pass = pass_continues [OF less.prems(1) pass [unfolded Inr Continue]]
      have ordered: "report_in_order (unsettled_ids t cp (le_path lease)) r"
        using outcome_in_order [OF next_pass(2) less.prems(2)] by simp
      have "unsettled_ids t cp (le_path lease) \<subset> unsettled_ids s cp (le_path lease)"
        using next_pass(2) unfolding pass_outcome_def by blast
      then have fewer: "card (unsettled_ids t cp (le_path lease)) < card (unsettled_ids s cp (le_path lease))"
        by (rule psubset_card_mono [OF finite_unsettled])
      have "delivery_loop E H cancel cfg p cp lease k link ls report s = delivery_loop E H cancel cfg p cp lease (Suc k) link' ls' r t"
        by (subst delivery_loop.simps) (simp add: pass Inr Continue)
      with less.hyps [OF fewer next_pass(1) ordered, of "Suc k" link' ls'] show ?thesis by simp
    qed
  qed
qed

lemma prepare_keeps: "rt_keeps outbound_inv (prepare_delivery H cfg p cp rp)"
proof -
  have "outbound_inv t" if "outbound_inv s" "identity_step s t" for s t
    using that
    by (auto elim!: identity_stepE simp: outbound_inv_def identity_defs clear_defs Let_def
        split: option.splits IdentityTransition.splits if_splits)
  then have session: "rt_keeps outbound_inv (session_access_at V cfg q)" for V q
    unfolding session_access_at_def by (rule rt_keeps_guards(1))
  have claim: "rt_keeps outbound_inv (claim_at V cfg q cp rp)" for V q
    unfolding claim_at_def claim_link_operation_def
    by (intro rt_rules rt_keeps_transaction)
       (auto simp: claim_peer_link_operation_def outbound_inv_def Let_def split: if_splits)
  show ?thesis unfolding prepare_delivery_def by (intro rt_rules session claim)
qed

lemma restored_unchanged: "restore_link_for_outbound_send E H cfg p cp lease access s = (t, Inr x) \<Longrightarrow> t = s"
  by (auto simp: restore_link_for_outbound_send_def Let_def rt_defs split: sum.splits option.splits prod.splits)

lemma keeps_outbound_restore: "rt_keeps outbound_inv (restore_link_for_outbound_send E H cfg p cp lease access)"
  unfolding restore_link_for_outbound_send_def mark_outbound_link_recovery_required_def Let_def by (intro rt_rules)

lemma release_queue: "outbound_inv (release_peer_link_operation cp rp i s) = outbound_inv s"
  by (simp add: release_peer_link_operation_def outbound_inv_def)

lemma process_ends:
  assumes "outbound_inv s"
  shows "\<exists>t result. process_outbound_private_messages E H cancel cfg p cp rp s = Some (t, result) \<and> outbound_inv t
    \<and> (\<forall>r. result = Inr r \<longrightarrow> report_in_order {} r)"
proof -
  have empty: "report_in_order left (add_cleanup_failures fs empty_send_report)" "report_in_order left empty_send_report" for left fs
    by (simp_all add: report_in_order_def empty_send_report_def)
  obtain u prepared where prepare: "prepare_delivery H cfg p cp rp s = (u, prepared)" by force
  have u: "outbound_inv u" using prepare_keeps [of H cfg p cp rp] assms prepare by (auto simp: rt_keeps_def)
  show ?thesis
  proof (cases prepared)
    case (Inl e)
    with prepare u show ?thesis by (simp add: process_outbound_private_messages_def)
  next
    case (Inr x)
    obtain access queued lease where x: "x = (access, queued, lease)" by (cases x)
    define m where "m = rt_bind (cancel_terminal_private_list_reservations (ln_net H) cancel (2 # p) cp (le_path lease) (Some lease))
      (\<lambda>failures. rt_return (add_cleanup_failures failures empty_send_report))"
    have "rt_keeps outbound_inv m" unfolding m_def by (intro rt_rules)
    then have cleanup: "outbound_inv (fst (m u))" "\<And>r. snd (m u) = Inr r \<Longrightarrow> report_in_order {} r"
      using u empty by (auto simp: rt_keeps_def m_def rt_bind_def rt_return_def split: prod.splits sum.splits)
    obtain v restored where restore: "restore_link_for_outbound_send E H cfg (0 # 3 # p) cp lease access u = (v, restored)" by force
    have "outbound_inv v" using keeps_outbound_restore [of E H cfg "0 # 3 # p" cp lease access] u restore by (auto simp: rt_keeps_def)
    then have deliver: "\<exists>t result. process_outbound_private_messages_with_claim E H cancel cfg (3 # p) cp empty_send_report lease access u
        = Some (t, result) \<and> outbound_inv t \<and> (\<forall>r. result = Inr r \<longrightarrow> report_in_order {} r)"
      using restore delivery_loop_ends [OF _ empty(2), of v E H cancel cfg "1 # 3 # p" cp lease 0]
      by (cases restored) (auto simp: process_outbound_private_messages_with_claim_def)
    show ?thesis
    proof (cases queued)
      case True
      with deliver prepare Inr x show ?thesis
        by (auto simp: process_outbound_private_messages_def release_queue)
    next
      case False
      with cleanup prepare Inr x show ?thesis
        by (cases "m u") (auto simp: process_outbound_private_messages_def m_def [symmetric] release_queue)
    qed
  qed
qed

text \<open>C17: Delivering the queue of a peer always ends, whatever the network, the noise library and the payment
  adapter answer; the messages of the peer are attempted in the order they were queued, each at most
  once, and the messages reported as sent are among the attempted ones in the same order.\<close>

theorem delivery_ends_in_order:
  assumes "outbound_inv s"
  shows "\<exists>t result. process_outbound_private_messages E H cancel cfg p cp rp s = Some (t, result)
    \<and> (\<forall>r. result = Inr r \<longrightarrow> sorted_wrt (<) (osr_attempted r) \<and> subseq (osr_sent r) (osr_attempted r))"
  using process_ends [OF assms, of E H cancel cfg p cp rp] by (auto simp: report_in_order_def)

lemma process_counterparties_ends:
  "outbound_inv s \<Longrightarrow> \<exists>t reports. process_counterparties E H cancel cfg p keys s = Some (t, reports)
     \<and> map (\<lambda>r. (ocr_counterparty r, ocr_path r)) reports = keys"
proof (induction keys arbitrary: s)
  case (Cons k keys)
  obtain cp rp where k: "k = (cp, rp)" by (cases k)
  obtain t result where "process_outbound_private_messages E H cancel cfg (length keys # p) cp rp s = Some (t, result)" "outbound_inv t"
    using process_ends [OF Cons.prems, of E H cancel cfg "length keys # p" cp rp] by blast
  with Cons.IH [of t] k show ?case by auto
qed simp

text \<open>Processing every pending counterparty ends with one report or error per counterparty, in the order of
  the list of pending counterparties, and that list names each of them once, none of them in a
  handshake, in recovery or blocked.\<close>

theorem process_pending_total:
  assumes "outbound_inv s"
    and "pending_outbound_private_counterparties (ln_net H) cfg (nv_now (ln_net H) p) s = Inr keys"
  shows "(\<exists>t reports. process_pending_private_messages E H cancel cfg p s = Some (t, Inr reports)
      \<and> map (\<lambda>r. (ocr_counterparty r, ocr_path r)) reports = keys)
    \<and> distinct keys \<and> (\<forall>k \<in> set keys. \<forall>peer. linked_peer s k = Some peer \<longrightarrow> lp_state peer \<in> {NotLinked, Linked})"
proof -
  have "\<exists>t reports. process_pending_private_messages E H cancel cfg p s = Some (t, Inr reports)
      \<and> map (\<lambda>r. (ocr_counterparty r, ocr_path r)) reports = keys"
    using process_counterparties_ends [OF assms(1), of E H cancel cfg p keys] assms(2)
    by (auto simp: process_pending_private_messages_def)
  moreover have state: "st \<in> {NotLinked, Linked} \<longleftrightarrow> st \<notin> {Linking, RecoveryRequiredState, Blocked}" for st :: LinkedPeerState
    by (cases st) simp_all
  have "distinct keys \<and> (\<forall>k \<in> set keys. \<forall>peer. linked_peer s k = Some peer \<longrightarrow> lp_state peer \<in> {NotLinked, Linked})"
    using assms(2) unfolding state
    by (auto simp: pending_outbound_private_counterparties_def Let_def rbind_Inr_iff split: prod.splits option.splits)
  ultimately show ?thesis by blast
qed

section \<open>An instance\<close>

definition sample_cancel :: cancel_call where
  "sample_cancel p c = Inr ()"

lemma sample_outbox_inv: "outbound_inv sample_outbox"
  unfolding sample_outbox_eq by code_simp

theorem delivery_ends_in_order_witness:
  "\<exists>t result. process_outbound_private_messages sample_ext sample_link_net sample_cancel (PaykitSdkConfig_new sample_path) []
     sample_peer sample_path sample_outbox = Some (t, result)"
  using delivery_ends_in_order [OF sample_outbox_inv, of sample_ext sample_link_net sample_cancel "PaykitSdkConfig_new sample_path" "[]"
      sample_peer sample_path] by blast

lemma sample_pending:
  "pending_outbound_private_counterparties (ln_net sample_link_net) ((PaykitSdkConfig_new sample_path)
     \<lparr>cf_outbound_private_send_lease_timeout := 1, cf_outbound_private_retry_backoff := 1\<rparr>) 7 sample_outbox
     = Inr [(sample_peer, sample_path)]"
proof -
  have queue: "st_outbound_private_messages sample_outbox = [outbound_from_new 0 \<lparr>nm_counterparty = sample_peer, nm_path = sample_path,
      nm_kind = ''paykit.payment_request'', nm_raw_json = ''doc'', nm_created_at = 1\<rparr>]"
    unfolding sample_outbox_eq by code_simp
  have tables: "st_payment_endpoint_reservations sample_outbox = []" unfolding sample_outbox_eq by code_simp
  have peers: "st_linked_peers sample_outbox = []" unfolding sample_outbox_eq by code_simp
  let ?m = "outbound_from_new 0 \<lparr>nm_counterparty = sample_peer, nm_path = sample_path,
      nm_kind = ''paykit.payment_request'', nm_raw_json = ''doc'', nm_created_at = 1\<rparr>"
  have m: "om_counterparty ?m = sample_peer" "om_path ?m = sample_path" "om_for sample_peer sample_path ?m"
    by (simp_all add: outbound_from_new_def om_for_def)
  have head: "outbound_private_queue_head_is_claimable [?m] 6 6" by code_simp
  show ?thesis
    unfolding pending_outbound_private_counterparties_def outbound_retry_thresholds_def Let_def queue tables
    by (simp add: sample_link_net_def sample_net_def m head peers linked_peer_def hm_values_def)
qed

theorem process_pending_total_witness:
  "\<exists>t reports. process_pending_private_messages sample_ext sample_link_net sample_cancel ((PaykitSdkConfig_new sample_path)
       \<lparr>cf_outbound_private_send_lease_timeout := 1, cf_outbound_private_retry_backoff := 1\<rparr>) [] sample_outbox
     = Some (t, Inr reports) \<and> map ocr_counterparty reports = [sample_peer]"
proof -
  have now: "nv_now (ln_net sample_link_net) [] = 7" by (simp add: sample_link_net_def sample_net_def)
  from process_pending_total [OF sample_outbox_inv, of sample_link_net _ "[]" _ sample_ext sample_cancel, unfolded now, OF sample_pending, THEN conjunct1]
  obtain t and reports :: "OutboundPrivateCounterpartySendReport list" where run: "process_pending_private_messages sample_ext sample_link_net sample_cancel ((PaykitSdkConfig_new sample_path)
       \<lparr>cf_outbound_private_send_lease_timeout := 1, cf_outbound_private_retry_backoff := 1\<rparr>) [] sample_outbox
     = Some (t, Inr reports)" and keys: "map (\<lambda>r. (ocr_counterparty r, ocr_path r)) reports = [(sample_peer, sample_path)]"
    by (elim exE conjE)
  have "map ocr_counterparty reports = map fst (map (\<lambda>r. (ocr_counterparty r, ocr_path r)) reports)" by simp
  with run keys show ?thesis by simp
qed

end
