(* ===== verification/Stream_Runtime.thy ===== *)
theory Stream_Runtime
  imports Outbound_Delivery Private_Stream
begin

text \<open>
  Receiving the private stream of a peer (\<^verbatim>\<open>paykit-sdk/src/runtime/private_stream.rs\<close>): restoring the link,
  reading all batches of the noise channel, and storing them with the state of the link in one
  transaction. The theory shows that the stored link moves past messages exactly when the messages
  are stored, and that receiving ends on a channel that runs dry.
\<close>

section \<open>Receiving from one peer\<close>

record PrivateStreamCounterpartyIntakeReport =
  pir_counterparty :: PubkyPublicKey
  pir_path :: PaykitReceiverPath
  pir_report :: "PrivateStreamIntakeReport option"
  pir_error :: "string option"

text \<open>The link is given up: the peer needs recovery, and the other side is told when that is possible.\<close>

definition abandon_link ::
  "ext \<Rightarrow> net \<Rightarrow> PaykitSdkConfig \<Rightarrow> nat list \<Rightarrow> PubkyPublicKey \<Rightarrow> PeerLinkOperationLease \<Rightarrow> PaykitReceiverPath \<Rightarrow> sdk_error \<Rightarrow> 'a rt" where
  "abandon_link E V cfg p cp lease rp err =
     rt_bind (transaction (mark_recovery_required_with_lease cp lease (nv_now V p))) (\<lambda>new_episode.
     rt_bind (rt_ignore (publish_local_recovery_marker_with_session E V cfg (0 # p) cp rp new_episode)) (\<lambda>_.
     rt_fail err))"

definition restore_link_for_receive ::
  "ext \<Rightarrow> 'n link_net \<Rightarrow> PaykitSdkConfig \<Rightarrow> nat list \<Rightarrow> PubkyPublicKey \<Rightarrow> PeerLinkOperationLease \<Rightarrow> PubkySessionAccess \<Rightarrow>
   ('n EncryptedLink \<times> EncryptedLinkStateRecord) rt" where
  "restore_link_for_receive E H cfg p cp lease access =
     rt_bind (rt_lift (to_public_key E cp)) (\<lambda>remote.
     rt_bind (rt_read (\<lambda>s. encrypted_link_state s (cp, le_path lease))) (\<lambda>stored.
     case stored of
       None \<Rightarrow> rt_fail (SdkRecoveryRequired (''no Encrypted Link state for counterparty '' @ z32 cp) None)
     | Some ls \<Rightarrow>
         (case ls_link_snapshot ls of
            None \<Rightarrow> abandon_link E (ln_net H) cfg (0 # p) cp lease (ls_path ls)
              (SdkRecoveryRequired (''no active Encrypted Link snapshot for counterparty '' @ z32 cp) None)
          | Some bytes \<Rightarrow>
              (case rbind (link_snapshot_deserialize E bytes) (\<lambda>sn.
                    restore_encrypted_link E (ln_noise H) p (ln_party H access) remote (cf_receiver_path cfg) (ls_path ls) sn) of
                 Inl err \<Rightarrow> abandon_link E (ln_net H) cfg (0 # p) cp lease (ls_path ls) (sdk_error_of_lib err)
               | Inr link \<Rightarrow> rt_return (link, ls)))))"

definition received_link_state :: "PubkyPublicKey \<Rightarrow> string \<Rightarrow> instant \<Rightarrow> EncryptedLinkStateRecord \<Rightarrow> EncryptedLinkStateRecord" where
  "received_link_state cp bytes now ls =
     \<lparr>ls_counterparty = cp, ls_path = ls_path ls, ls_link_snapshot = Some bytes, ls_handshake_snapshot = None,
      ls_handshake_role = None, ls_generation = sat_inc (ls_generation ls), ls_checkpointed_at = now\<rparr>"

definition persist_received ::
  "ext \<Rightarrow> 'n link_net \<Rightarrow> PaykitSdkConfig \<Rightarrow> nat list \<Rightarrow> PubkyPublicKey \<Rightarrow> PeerLinkOperationLease \<Rightarrow> EncryptedLinkStateRecord \<Rightarrow>
   'n EncryptedLink \<Rightarrow> PrivateApplicationMessage list res \<Rightarrow> PrivateStreamIntakeReport rt" where
  "persist_received E H cfg p cp lease ls link received =
     (case received of
        Inl err \<Rightarrow>
          if is_non_retryable_private_receive_error err
          then abandon_link E (ln_net H) cfg (0 # p) cp lease (ls_path ls) (sdk_error_of_lib err)
          else rt_fail (sdk_error_of_lib err)
      | Inr messages \<Rightarrow>
          let now = nv_now (ln_net H) p in
          rt_bind (rt_lift (serialize_snapshot E ''Encrypted Link snapshot'' (link_snapshot (ln_noise H) link))) (\<lambda>bytes.
          transaction (persist_private_stream_batch_with_link_lease E cp (ls_path ls) messages
            (Some (received_link_state cp bytes now ls)) (Some lease) now)))"

definition receive_private_messages_with_claim ::
  "ext \<Rightarrow> 'n link_net \<Rightarrow> PaykitSdkConfig \<Rightarrow> nat list \<Rightarrow> PubkyPublicKey \<Rightarrow> PeerLinkOperationLease \<Rightarrow> PubkySessionAccess \<Rightarrow>
   StorageState \<Rightarrow> (StorageState \<times> PrivateStreamIntakeReport sdk_res) option" where
  "receive_private_messages_with_claim E H cfg p cp lease access s =
     (case restore_link_for_receive E H cfg (0 # p) cp lease access s of
        (t, Inl e) \<Rightarrow> Some (t, Inl e)
      | (t, Inr (link, ls)) \<Rightarrow>
          map_option (\<lambda>(link', received). persist_received E H cfg (2 # p) cp lease ls link' received t)
            (receive_private_application_messages E (ln_noise H) (1 # p) link))"

definition prepare_receive ::
  "'n link_net \<Rightarrow> PaykitSdkConfig \<Rightarrow> nat list \<Rightarrow> PubkyPublicKey \<Rightarrow> PaykitReceiverPath \<Rightarrow> (PubkySessionAccess \<times> PeerLinkOperationLease) rt" where
  "prepare_receive H cfg p cp rp =
     rt_bind (session_access_at (ln_net H) cfg (0 # p)) (\<lambda>access.
     rt_bind (rt_check (ensure_peer_allows_private_automation cp rp)) (\<lambda>_.
     rt_bind (claim_at (ln_net H) cfg (1 # p) cp rp) (\<lambda>lease.
     rt_return (access, lease))))"

definition receive_private_messages ::
  "ext \<Rightarrow> 'n link_net \<Rightarrow> PaykitSdkConfig \<Rightarrow> nat list \<Rightarrow> PubkyPublicKey \<Rightarrow> PaykitReceiverPath \<Rightarrow> StorageState \<Rightarrow>
   (StorageState \<times> PrivateStreamIntakeReport sdk_res) option" where
  "receive_private_messages E H cfg p cp rp s =
     (case prepare_receive H cfg p cp rp s of
        (t, Inl e) \<Rightarrow> Some (t, Inl e)
      | (t, Inr (access, lease)) \<Rightarrow>
          map_option (\<lambda>(u, result).
              (release_peer_link_operation (le_counterparty lease) (le_path lease) (le_lease_id lease) u, result))
            (receive_private_messages_with_claim E H cfg (2 # p) cp lease access t))"

section \<open>Receiving from all linked peers\<close>

fun receive_from_peers ::
  "ext \<Rightarrow> 'n link_net \<Rightarrow> PaykitSdkConfig \<Rightarrow> nat list \<Rightarrow> (PubkyPublicKey \<times> PaykitReceiverPath) list \<Rightarrow> StorageState \<Rightarrow>
   (StorageState \<times> PrivateStreamCounterpartyIntakeReport list) option" where
  "receive_from_peers E H cfg p [] s = Some (s, [])"
| "receive_from_peers E H cfg p ((cp, rp) # rest) s =
     Option.bind (receive_private_messages E H cfg (length rest # p) cp rp s) (\<lambda>(t, result).
     Option.bind (receive_from_peers E H cfg p rest t) (\<lambda>(u, reports).
     Some (u, \<lparr>pir_counterparty = cp, pir_path = rp,
               pir_report = (case result of Inl _ \<Rightarrow> None | Inr r \<Rightarrow> Some r),
               pir_error = (case result of Inl e \<Rightarrow> Some (sdk_error_display e) | Inr _ \<Rightarrow> None)\<rparr> # reports)))"

definition receive_private_messages_from_linked_peers ::
  "ext \<Rightarrow> 'n link_net \<Rightarrow> PaykitSdkConfig \<Rightarrow> nat list \<Rightarrow> StorageState \<Rightarrow>
   (StorageState \<times> PrivateStreamCounterpartyIntakeReport list) option" where
  "receive_private_messages_from_linked_peers E H cfg p s =
     receive_from_peers E H cfg p
       (map (\<lambda>r. (lp_counterparty r, lp_path r)) (filter (\<lambda>r. lp_state r = Linked) (linked_peers s))) s"

section \<open>What a failed receive leaves\<close>

text \<open>The stream is as it was, and every link is as it was or has lost its snapshot.\<close>

definition not_received :: "StorageState \<Rightarrow> StorageState \<Rightarrow> bool" where
  "not_received s t \<longleftrightarrow> st_private_stream_items t = st_private_stream_items s
     \<and> (\<forall>k. encrypted_link_state t k = encrypted_link_state s k
          \<or> Option.bind (encrypted_link_state t k) ls_link_snapshot = None)"

lemma not_received_refl: "not_received s s"
  by (simp add: not_received_def)

lemma not_received_saves:
  "not_received s u \<Longrightarrow> not_received s (save_linked_peer peer u)"
  "ls_link_snapshot r = None \<Longrightarrow> not_received s u \<Longrightarrow> not_received s (save_encrypted_link_state r u)"
  by (simp_all add: not_received_def save_linked_peer_def save_encrypted_link_state_def encrypted_link_state_def hm_get_insert)

lemma mark_not_received:
  "mark_recovery_required_in_transaction_inner cp rp now bump u = Inr (t, b) \<Longrightarrow> not_received s u \<Longrightarrow> not_received s t"
  by (auto simp: mark_recovery_required_in_transaction_inner_def Let_def rbind_Inr_iff intro!: not_received_saves
      split: option.splits)

lemma publish_not_received:
  "rt_keeps (not_received s) (publish_local_recovery_marker_with_session E V cfg p cp rp force)"
proof -
  have "rt_keeps (not_received s) (save_local_recovery_marker_last_error cp rp err)" for err
    unfolding save_local_recovery_marker_last_error_def
    by (intro rt_keeps_save) (simp add: not_received_saves split: option.split)
  moreover have "rt_keeps (not_received s) (transaction (record_marker_tx E fresh force now cp rp))" for fresh force now
    by (rule rt_keeps_transaction)
       (auto simp: record_marker_tx_def Let_def rbind_Inr_iff split: if_splits intro!: not_received_saves)
  ultimately show ?thesis unfolding publish_local_recovery_marker_with_session_def by (intro rt_rules)
qed

lemma abandon_not_received: "rt_keeps (not_received s) (abandon_link E V cfg p cp lease rp err)"
proof -
  have "rt_keeps (not_received s) (transaction (mark_recovery_required_with_lease cp lease now))" for now
    by (rule rt_keeps_transaction)
       (auto simp: mark_recovery_required_with_lease_def mark_recovery_required_inner_def
          mark_recovery_required_in_transaction_def rbind_Inr_iff split: if_splits intro: mark_not_received)
  then show ?thesis unfolding abandon_link_def rt_ignore_def by (intro rt_rules publish_not_received)
qed

section \<open>Messages and checkpoint together\<close>

lemma stored_items_raw: "map si_raw_json (stored_items E cp rp b now i ms) = map pam_raw_json ms"
  by (induction ms arbitrary: i) (simp_all add: stored_item_def stream_item_from_new_def new_stream_item_def)

lemma stored_items_peer: "x \<in> set (stored_items E cp rp b now i ms) \<Longrightarrow> si_counterparty x = cp \<and> si_path x = rp"
  by (induction ms arbitrary: i) (auto simp: stored_item_def stream_item_from_new_def new_stream_item_def)

lemma batch_checkpoint:
  assumes "persist_private_stream_batch_with_link_lease E cp rp ms (Some r) lease now s = Inr (t, report)"
  shows "encrypted_link_state t (ls_counterparty r, ls_path r) = Some r"
  using assms
  by (auto simp: persist_private_stream_batch_with_link_lease_def Let_def rbind_Inr_iff links.load_save ls_key_def
      split: prod.splits option.splits)

lemma abandon_fails: "\<exists>u e. (abandon_link E V cfg p cp lease rp err :: 'a rt) s = (u, Inl e) \<and> not_received s u"
proof -
  let ?m = "abandon_link E V cfg p cp lease rp err :: 'a rt"
  have "rt_keeps (not_received s) ?m" by (rule abandon_not_received)
  then have "not_received s (fst (?m s))" using not_received_refl by (simp add: rt_keeps_def)
  moreover have "\<exists>e. snd (?m s) = Inl e"
    by (simp add: abandon_link_def rt_bind_def rt_fail_def split: prod.split sum.split)
  ultimately show ?thesis by (metis prod.collapse)
qed

lemma restore_receive:
  assumes "restore_link_for_receive E H cfg p cp lease access s = (t, r)"
  shows "case r of
      Inl _ \<Rightarrow> not_received s t
    | Inr (link, ls) \<Rightarrow> t = s \<and> encrypted_link_state s (cp, le_path lease) = Some ls
        \<and> (\<exists>remote bytes. to_public_key E cp = Inr remote \<and> ls_link_snapshot ls = Some bytes
             \<and> rbind (link_snapshot_deserialize E bytes) (\<lambda>sn.
                 restore_encrypted_link E (ln_noise H) p (ln_party H access) remote (cf_receiver_path cfg) (ls_path ls) sn) = Inr link)"
proof (cases "to_public_key E cp")
  case (Inl e)
  with assms show ?thesis by (auto simp: restore_link_for_receive_def rt_bind_def rt_lift_def not_received_refl)
next
  case (Inr remote)
  let ?abandon = "\<lambda>ls. abandon_link E (ln_net H) cfg (0 # p) cp lease (ls_path ls) :: _ \<Rightarrow> ('a EncryptedLink \<times> EncryptedLinkStateRecord) rt"
  have abandoned: "case r of Inl _ \<Rightarrow> not_received s t | Inr x \<Rightarrow> False" if "?abandon ls err s = (t, r)" for ls err
  proof -
    obtain u e where "?abandon ls err s = (u, Inl e)" "not_received s u" using abandon_fails by blast
    with that show ?thesis by auto
  qed
  show ?thesis
    using assms Inr
    by (auto simp: restore_link_for_receive_def rt_bind_def rt_lift_def rt_read_def rt_fail_def rt_return_def not_received_refl
        split: option.splits sum.splits dest!: abandoned)
qed

lemma persist_receivedE:
  assumes "persist_received E H cfg p cp lease ls link received s = (t, result)" and "tables_inv s"
  shows "case result of
      Inl _ \<Rightarrow> not_received s t
    | Inr report \<Rightarrow> \<exists>messages bytes new. received = Inr messages
        \<and> serialize_snapshot E ''Encrypted Link snapshot'' (link_snapshot (ln_noise H) link) = Inr bytes
        \<and> st_private_stream_items t = st_private_stream_items s @ new \<and> map si_raw_json new = map pam_raw_json messages
        \<and> (\<forall>x \<in> set new. si_counterparty x = cp \<and> si_path x = ls_path ls) \<and> ir_stream_item_ids report = map si_id new
        \<and> Option.bind (encrypted_link_state t (cp, ls_path ls)) ls_link_snapshot = Some bytes"
proof (cases received)
  case (Inl err)
  obtain u e where "(abandon_link E (ln_net H) cfg (0 # p) cp lease (ls_path ls) (sdk_error_of_lib err)
      :: PrivateStreamIntakeReport rt) s = (u, Inl e)" "not_received s u"
    using abandon_fails by blast
  with Inl assms(1) show ?thesis by (auto simp: persist_received_def rt_fail_def not_received_refl split: if_splits)
next
  case (Inr messages)
  let ?now = "nv_now (ln_net H) p"
  show ?thesis
  proof (cases result)
    case (Inl e)
    with assms(1) Inr show ?thesis
      by (auto simp: persist_received_def Let_def rt_bind_def rt_lift_def not_received_refl transaction_def
          run_storage_state_transaction_def split: sum.splits prod.splits)
  next
    case ok: (Inr report)
    obtain bytes where bytes: "serialize_snapshot E ''Encrypted Link snapshot'' (link_snapshot (ln_noise H) link) = Inr bytes"
      and batch: "persist_private_stream_batch_with_link_lease E cp (ls_path ls) messages
        (Some (received_link_state cp bytes ?now ls)) (Some lease) ?now s = Inr (t, report)"
      using assms(1) Inr ok by (auto simp: persist_received_def Let_def rt_bind_ok rt_lift_def transaction_ok_iff)
    let ?new = "stored_items E cp (ls_path ls) (st_next_receive_batch_id s) ?now (st_next_stream_item_id s) messages"
    note items = batch_items_in_order [OF assms(2) batch]
    have "encrypted_link_state t (cp, ls_path ls) = Some (received_link_state cp bytes ?now ls)"
      using batch_checkpoint [OF batch] by (simp add: received_link_state_def)
    moreover have "\<forall>x \<in> set ?new. si_counterparty x = cp \<and> si_path x = ls_path ls" using stored_items_peer by blast
    ultimately show ?thesis
      unfolding ok sum.case using bytes Inr items stored_items_raw [of E cp "ls_path ls"]
      by (intro exI [of _ messages] exI [of _ bytes] exI [of _ ?new]) (simp add: received_link_state_def)
  qed
qed

text \<open>C20: The stored link moves past received messages exactly when they are stored. When receiving succeeds, the
  batches read from the restored link are all appended to the stream of the peer, in order, and the
  stored link is the one after reading them; when it fails, nothing is stored and the link is the old
  one or gone, so that no message is lost or stored twice.\<close>

theorem received_batch_checkpointed:
  assumes "tables_inv s" and "receive_private_messages_with_claim E H cfg p cp lease access s = Some (t, result)"
  shows "case result of
      Inl _ \<Rightarrow> not_received s t
    | Inr report \<Rightarrow> \<exists>ls link link' messages bytes new.
        encrypted_link_state s (cp, le_path lease) = Some ls
        \<and> receive_private_application_messages E (ln_noise H) (1 # p) link = Some (link', Inr messages)
        \<and> (\<exists>remote stored. to_public_key E cp = Inr remote \<and> ls_link_snapshot ls = Some stored
             \<and> rbind (link_snapshot_deserialize E stored) (\<lambda>sn. restore_encrypted_link E (ln_noise H) (0 # p) (ln_party H access)
                 remote (cf_receiver_path cfg) (ls_path ls) sn) = Inr link)
        \<and> st_private_stream_items t = st_private_stream_items s @ new \<and> map si_raw_json new = map pam_raw_json messages
        \<and> (\<forall>x \<in> set new. si_counterparty x = cp \<and> si_path x = ls_path ls) \<and> ir_stream_item_ids report = map si_id new
        \<and> serialize_snapshot E ''Encrypted Link snapshot'' (link_snapshot (ln_noise H) link') = Inr bytes
        \<and> Option.bind (encrypted_link_state t (cp, ls_path ls)) ls_link_snapshot = Some bytes"
proof -
  obtain u r where restore: "restore_link_for_receive E H cfg (0 # p) cp lease access s = (u, r)" by force
  note restored = restore_receive [OF restore]
  show ?thesis
  proof (cases r)
    case (Inl e)
    with assms(2) restore restored show ?thesis by (auto simp: receive_private_messages_with_claim_def)
  next
    case (Inr x)
    then obtain link ls where r: "r = Inr (link, ls)" by (cases x) auto
    with assms(2) restore restored obtain link' received where
      receive: "receive_private_application_messages E (ln_noise H) (1 # p) link = Some (link', received)"
      and persist: "persist_received E H cfg (2 # p) cp lease ls link' received s = (t, result)"
      by (auto simp: receive_private_messages_with_claim_def)
    with persist_receivedE [OF persist assms(1)] receive restored [unfolded r] show ?thesis
      by (cases result) (simp_all, blast)
  qed
qed

section \<open>Receiving ends\<close>

text \<open>What the loop relies on of the noise library: a batch it hands out is gone from the channel.\<close>

definition runs_dry :: "'n noise \<Rightarrow> ('n \<Rightarrow> nat) \<Rightarrow> bool" where
  "runs_dry N waiting \<longleftrightarrow>
     (\<forall>p n n' batch. ns_receive_message N p n = (n', Inr batch) \<longrightarrow> batch \<noteq> [] \<longrightarrow> waiting n' < waiting n)"

lemma receive_batches_ends:
  assumes "runs_dry N waiting"
  shows "\<exists>r. receive_batches E (\<lambda>k. ns_receive_message N (k # p)) k messages n = Some r"
proof (induction "waiting n" arbitrary: k messages n rule: less_induct)
  case less
  obtain n' r where step: "ns_receive_message N (k # p) n = (n', r)" by force
  show ?case
  proof (cases "\<exists>batch decoded. r = Inr batch \<and> batch \<noteq> [] \<and> rmap_list (decode_private_application_message E) batch = Inr decoded")
    case True
    then have "waiting n' < waiting n" using assms step by (auto simp: runs_dry_def)
    with less True step show ?thesis by (subst receive_batches.simps) auto
  next
    case False
    with step show ?thesis by (subst receive_batches.simps) (auto split: sum.split)
  qed
qed

lemma receive_private_messages_ends:
  assumes "runs_dry (ln_noise H) waiting"
  shows "\<exists>t result. receive_private_messages E H cfg p cp rp s = Some (t, result)"
proof -
  have "\<exists>t result. receive_private_messages_with_claim E H cfg q cp lease access u = Some (t, result)" for q lease access u
    using receive_batches_ends [OF assms]
    by (auto simp: receive_private_messages_with_claim_def receive_private_application_messages_def split: prod.split sum.split)
       (metis old.prod.exhaust)
  then show ?thesis
    by (auto simp: receive_private_messages_def split: prod.split sum.split) (metis (no_types, lifting) option.map(2) case_prod_conv)
qed

lemma receive_from_peers_ends:
  assumes "runs_dry (ln_noise H) waiting"
  shows "\<exists>t reports. receive_from_peers E H cfg p keys s = Some (t, reports)
    \<and> map (\<lambda>r. (pir_counterparty r, pir_path r)) reports = keys \<and> (\<forall>r \<in> set reports. pir_report r = None \<longleftrightarrow> pir_error r \<noteq> None)"
proof (induction keys arbitrary: s)
  case (Cons k keys)
  obtain cp rp where k: "k = (cp, rp)" by (cases k)
  obtain t result where "receive_private_messages E H cfg (length keys # p) cp rp s = Some (t, result)"
    using receive_private_messages_ends [OF assms] by blast
  with Cons.IH [of t] k show ?case by (auto split: sum.split)
qed simp

text \<open>Receiving from all linked peers ends, on a noise library that hands out each batch once, with one
  report or error for every peer that is linked, in the order of the peers.\<close>

theorem receive_linked_peers_total:
  assumes "runs_dry (ln_noise H) waiting"
  shows "\<exists>t reports. receive_private_messages_from_linked_peers E H cfg p s = Some (t, reports)
    \<and> map (\<lambda>r. (pir_counterparty r, pir_path r)) reports
        = map (\<lambda>r. (lp_counterparty r, lp_path r)) (filter (\<lambda>r. lp_state r = Linked) (linked_peers s))
    \<and> (\<forall>r \<in> set reports. pir_report r = None \<longleftrightarrow> pir_error r \<noteq> None)"
  unfolding receive_private_messages_from_linked_peers_def by (rule receive_from_peers_ends [OF assms])

section \<open>An inbox with one message\<close>

text \<open>The state of the noise library says whether the message is still waiting.\<close>

definition inbox_noise :: "bool noise" where
  "inbox_noise =
     \<lparr>ns_config_error = (\<lambda>_. None), ns_new = (\<lambda>_ _ _. Inr True), ns_restore = (\<lambda>_ _ _ _. Inr True),
      ns_phase = (\<lambda>_. ''Transport''), ns_is_handshake_complete = (\<lambda>_. True), ns_handle_handshake = (\<lambda>_ n. (n, Inr True)),
      ns_transition_transport = (\<lambda>n. (n, None)), ns_snapshot = (\<lambda>_. sample_state), ns_last_good_snapshot = (\<lambda>_. None),
      ns_send_message = (\<lambda>_ n _. (n, None)), ns_receive_message = (\<lambda>_ n. (False, Inr (if n then [''hello''] else []))),
      ns_derive_paths = sample_derive\<rparr>"

definition inbox_net :: "bool link_net" where
  "inbox_net = \<lparr>ln_net = sample_net, ln_noise = inbox_noise, ln_party = (\<lambda>_. sample_party ''b'' ''bob'')\<rparr>"

definition inbox_store :: StorageState where
  "inbox_store = save_encrypted_link_state
     \<lparr>ls_counterparty = sample_peer, ls_path = sample_path, ls_link_snapshot = Some ''S'', ls_handshake_snapshot = None,
      ls_handshake_role = None, ls_generation = 1, ls_checkpointed_at = 2\<rparr> sample_leased"

lemma sample_link_snapshot_reads: "link_snapshot_deserialize sample_link_ext ''S'' = Inr sample_handshake"
proof -
  have "snapshot_wf sample_link_ext sample_handshake"
    by (simp add: snapshot_wf_def sample_handshake_def sample_path_def sample_state_def noise_state_roundtrip_def
        sample_link_ext_def table_ext_def) code_simp
  then show ?thesis
    by (rule snapshot_restores [OF _ _ _ sample_snapshot_reads(1)])
       (simp_all add: sample_link_ext_def table_ext_laws table_ext_prints_back)
qed

lemma inbox_restores:
  "\<exists>link. restore_encrypted_link sample_link_ext inbox_noise p (sample_party ''b'' ''bob'') (PublicKey ''alice'') sample_path sample_path
     sample_handshake = Inr link \<and> el_encryptor link \<and> (\<forall>n. link_snapshot inbox_noise (link\<lparr>el_encryptor := n\<rparr>) = sample_handshake)"
  by (simp add: restore_encrypted_link_def restore_encrypted_link_inner_def check_snapshot_for_def pair_config_def
      validate_private_payment_paths_def validate_receiver_scope_def sample_handshake_def inbox_noise_def from_parts_def
      link_snapshot_def case_prod_unfold Let_def)

lemma inbox_received:
  "\<exists>messages. receive_batches E (\<lambda>k. ns_receive_message inbox_noise (k # p)) 0 [] True = Some (False, Inr messages)
     \<and> map pam_raw_json messages = [''hello'']"
proof -
  have plain: "trim_padding ''hello'' = ''hello''" "valid_utf8 ''hello''" by code_simp+
  have "rmap_list (decode_private_application_message E) [''hello''] = Inr [from_plaintext E ''hello'']"
    by (simp add: decode_private_application_message_def Let_def plain del: valid_utf8.simps)
  then show ?thesis
    by (subst receive_batches.simps, subst receive_batches.simps) (simp add: inbox_noise_def from_plaintext_def Let_def)
qed

lemma inbox_batch:
  assumes "tables_inv s" and "\<And>u. peer_link_operation_lease u = peer_link_operation_lease s \<Longrightarrow> require_optional_lease u lease = Inr ()"
  shows "\<exists>t report. persist_private_stream_batch_with_link_lease E cp rp ms ls lease now s = Inr (t, report)"
proof (rule persist_batch_unfold [of s E cp rp now ms ls lease])
  fix s0 s1 r
  assume u: "s0 = fst (allocate_receive_batch_id s)"
    "persist_messages E cp rp (st_next_receive_batch_id s) now ms (s0, empty_report (st_next_receive_batch_id s)) = (s1, r)"
    "\<And>e. persist_private_stream_batch_with_link_lease E cp rp ms ls lease now s = Inl e \<longleftrightarrow> ls \<noteq> None \<and> require_optional_lease s1 lease = Inl e"
  have "peer_link_operation_lease s1 = peer_link_operation_lease s"
    using persist_messages_effect [OF _ u(2)] assms(1) u(1) by simp
  then show ?thesis
    using u(3) assms(2) [of s1] by (cases "persist_private_stream_batch_with_link_lease E cp rp ms ls lease now s") auto
qed

theorem received_batch_checkpointed_witness:
  "\<exists>t report new. receive_private_messages_with_claim sample_link_ext inbox_net (PaykitSdkConfig_new sample_path) [] sample_peer
       sample_lease sample_session inbox_store = Some (t, Inr report)
     \<and> st_private_stream_items t = new \<and> map si_raw_json new = [''hello'']"
proof -
  let ?receive = "receive_private_messages_with_claim sample_link_ext inbox_net (PaykitSdkConfig_new sample_path) [] sample_peer
       sample_lease sample_session inbox_store"
  have link: "encrypted_link_state inbox_store (sample_peer, sample_path) = Some
     \<lparr>ls_counterparty = sample_peer, ls_path = sample_path, ls_link_snapshot = Some ''S'', ls_handshake_snapshot = None,
      ls_handshake_role = None, ls_generation = 1, ls_checkpointed_at = 2\<rparr>"
    by (simp add: inbox_store_def links.load_save ls_key_def)
  obtain link where restored: "restore_encrypted_link sample_link_ext inbox_noise [0] (sample_party ''b'' ''bob'') (PublicKey ''alice'')
     sample_path sample_path sample_handshake = Inr link" "el_encryptor link"
     "\<And>n. link_snapshot inbox_noise (link\<lparr>el_encryptor := n\<rparr>) = sample_handshake"
    using inbox_restores by blast
  obtain messages where received: "receive_batches sample_link_ext (\<lambda>k. ns_receive_message inbox_noise [k, 1]) 0 [] True
      = Some (False, Inr messages)" "map pam_raw_json messages = [''hello'']"
    using inbox_received [of sample_link_ext "[1]"] by auto
  have tables: "tables_inv inbox_store" using sample_leased_tables by (simp add: inbox_store_def tables_inv_saves)
  have leased: "require_optional_lease u (Some sample_lease) = Inr ()" if "peer_link_operation_lease u = peer_link_operation_lease inbox_store" for u
  proof -
    have "peer_link_operation_lease inbox_store (sample_peer, sample_path) = Some sample_lease" by code_simp
    with that show ?thesis by (simp add: require_optional_lease_def require_peer_link_operation_lease_def sample_lease_def)
  qed
  let ?ls = "the (encrypted_link_state inbox_store (sample_peer, sample_path))"
  obtain u report where batch: "persist_private_stream_batch_with_link_lease sample_link_ext sample_peer sample_path messages
      (Some (received_link_state sample_peer ''S'' 7 ?ls)) (Some sample_lease) 7 inbox_store = Inr (u, report)"
    using inbox_batch [OF tables leased] by blast
  then have persisted: "persist_received sample_link_ext inbox_net (PaykitSdkConfig_new sample_path) [2] sample_peer sample_lease
      ?ls (link\<lparr>el_encryptor := False\<rparr>) (Inr messages) inbox_store = (u, Inr report)"
    using restored(3) sample_snapshot_reads(1) link
    by (simp add: persist_received_def inbox_net_def sample_net_def serialize_snapshot_def rt_bind_def rt_lift_def transaction_ok_iff)
  have key: "to_public_key sample_link_ext sample_peer = Inr (PublicKey ''alice'')"
    by (simp add: to_public_key_def sample_link_ext_def table_ext_def sample_peer_def)
  then have receive: "?receive = Some (u, Inr report)"
    using link restored(1,2) received(1) persisted sample_link_snapshot_reads
    by (simp add: receive_private_messages_with_claim_def restore_link_for_receive_def rt_bind_def rt_lift_def rt_read_def
        rt_return_def inbox_net_def sample_lease_def PaykitSdkConfig_new_def receive_private_application_messages_def)
  obtain link0 link0' messages0 new where
    read: "receive_private_application_messages sample_link_ext inbox_noise [1] link0 = Some (link0', Inr messages0)"
    and "rbind (link_snapshot_deserialize sample_link_ext ''S'') (\<lambda>sn. restore_encrypted_link sample_link_ext inbox_noise [0]
        (sample_party ''b'' ''bob'') (PublicKey ''alice'') sample_path sample_path sn) = Inr link0"
    and items: "st_private_stream_items u = st_private_stream_items inbox_store @ new" "map si_raw_json new = map pam_raw_json messages0"
    using received_batch_checkpointed [OF tables receive, unfolded sum.case] link key
    by (auto simp: inbox_net_def sample_lease_def PaykitSdkConfig_new_def)
  then have "link0 = link" using restored(1) sample_link_snapshot_reads by simp
  with read restored(2) received have "map pam_raw_json messages0 = [''hello'']"
    by (auto simp: receive_private_application_messages_def)
  moreover have "st_private_stream_items inbox_store = []" by code_simp
  ultimately show ?thesis using receive items by auto
qed

theorem receive_linked_peers_total_witness:
  "runs_dry (ln_noise inbox_net) (\<lambda>n. if n then 1 else 0) \<and>
   (\<exists>t reports. receive_private_messages_from_linked_peers sample_link_ext inbox_net (PaykitSdkConfig_new sample_path) []
      (save_linked_peer ((default_linked_peer sample_peer sample_path)\<lparr>lp_state := Linked\<rparr>) inbox_store) = Some (t, reports)
    \<and> map pir_counterparty reports = [sample_peer])"
proof -
  let ?s = "save_linked_peer ((default_linked_peer sample_peer sample_path)\<lparr>lp_state := Linked\<rparr>) inbox_store"
  have dry: "runs_dry (ln_noise inbox_net) (\<lambda>n. if n then 1 else 0)"
    by (simp add: runs_dry_def inbox_net_def inbox_noise_def)
  have "map (\<lambda>r. (lp_counterparty r, lp_path r)) (filter (\<lambda>r. lp_state r = Linked) (linked_peers ?s)) = [(sample_peer, sample_path)]"
    by code_simp
  moreover obtain t reports where "receive_private_messages_from_linked_peers sample_link_ext inbox_net (PaykitSdkConfig_new sample_path) []
      ?s = Some (t, reports)" "map (\<lambda>r. (pir_counterparty r, pir_path r)) reports
        = map (\<lambda>r. (lp_counterparty r, lp_path r)) (filter (\<lambda>r. lp_state r = Linked) (linked_peers ?s))"
    using receive_linked_peers_total [OF dry, of sample_link_ext "PaykitSdkConfig_new sample_path" "[]" ?s] by blast
  ultimately show ?thesis using dry by auto
qed

end
