(* ===== verification/Payment_Adapter.thy ===== *)
theory Payment_Adapter
  imports Stream_Runtime
begin

text \<open>
  The interface to the payment methods of an application (\<^verbatim>\<open>paykit-sdk/src/domain/adapters/mod.rs\<close>), which is
  code outside the SDK and an argument of the operations that call it, and the sequencing of runtime
  operations that may not return because a part of them waits for the network in a loop.
\<close>

section \<open>The adapter\<close>

record PublicReceivingDetail =
  prd_identifier :: string
  prd_payload :: string

record PublicPaymentEndpointCandidate =
  uc_counterparty :: PubkyPublicKey
  uc_path :: PaykitReceiverPath
  uc_identifier :: string
  uc_payload :: string

record PrivatePaymentEndpointCandidate =
  vc_counterparty :: PubkyPublicKey
  vc_path :: PaykitReceiverPath
  vc_identifier :: string
  vc_payload :: string

record PaymentAmountContext =
  ac_value :: string
  ac_asset :: string

record PublicPaymentEndpointSelectionRequest =
  usr_counterparty :: PubkyPublicKey
  usr_path :: PaykitReceiverPath
  usr_amount :: "PaymentAmountContext option"
  usr_candidates :: "PublicPaymentEndpointCandidate list"

record PrivatePaymentEndpointSelectionRequest =
  vsr_counterparty :: PubkyPublicKey
  vsr_path :: PaykitReceiverPath
  vsr_amount :: "PaymentAmountContext option"
  vsr_candidates :: "PrivatePaymentEndpointCandidate list"

record PaymentTarget =
  pt_payload :: string

text \<open>The calls of the adapter, each at the position where it happens.\<close>

record payment_adapter =
  pa_public_receiving_details :: "nat list \<Rightarrow> PublicReceivingDetail list sdk_res"
  pa_private_receiving_details :: "nat list \<Rightarrow> PubkyPublicKey \<Rightarrow> PaykitReceiverPath \<Rightarrow> PrivateReceivingDetail list sdk_res"
  pa_reserve :: "nat list \<Rightarrow> PubkyPublicKey \<Rightarrow> PaykitReceiverPath \<Rightarrow> PrivatePaymentEndpointReservation list option sdk_res"
  pa_cancel :: cancel_call
  pa_select_public :: "nat list \<Rightarrow> PublicPaymentEndpointSelectionRequest \<Rightarrow> PublicPaymentEndpointCandidate list sdk_res"
  pa_public_target :: "nat list \<Rightarrow> PublicPaymentEndpointCandidate \<Rightarrow> PaymentTarget sdk_res"
  pa_select_private :: "nat list \<Rightarrow> PrivatePaymentEndpointSelectionRequest \<Rightarrow> PrivatePaymentEndpointCandidate list sdk_res"
  pa_private_target :: "nat list \<Rightarrow> PrivatePaymentEndpointCandidate \<Rightarrow> PaymentTarget sdk_res"

section \<open>Operations that may not return\<close>

type_synonym 'a prt = "StorageState \<Rightarrow> (StorageState \<times> 'a sdk_res) option"

definition prt_of :: "'a rt \<Rightarrow> 'a prt" where
  "prt_of m s = Some (m s)"

definition prt_bind :: "'a prt \<Rightarrow> ('a \<Rightarrow> 'b prt) \<Rightarrow> 'b prt" where
  "prt_bind m f s =
     (case m s of
        None \<Rightarrow> None
      | Some (t, Inl e) \<Rightarrow> Some (t, Inl e)
      | Some (t, Inr x) \<Rightarrow> f x t)"

definition prt_catch :: "'a prt \<Rightarrow> (sdk_error \<Rightarrow> 'b prt) \<Rightarrow> ('a \<Rightarrow> 'b prt) \<Rightarrow> 'b prt" where
  "prt_catch m handle f s =
     (case m s of
        None \<Rightarrow> None
      | Some (t, Inl e) \<Rightarrow> handle e t
      | Some (t, Inr x) \<Rightarrow> f x t)"

text \<open>An operation that returns from every state with \<open>P\<close> and leaves \<open>P\<close> behind.\<close>

definition prt_ends :: "(StorageState \<Rightarrow> bool) \<Rightarrow> 'a prt \<Rightarrow> bool" where
  "prt_ends P m \<longleftrightarrow> (\<forall>s. P s \<longrightarrow> (\<exists>t r. m s = Some (t, r) \<and> P t))"

lemma prt_endsD: "prt_ends P m \<Longrightarrow> P s \<Longrightarrow> \<exists>t r. m s = Some (t, r) \<and> P t"
  by (simp add: prt_ends_def)

lemma prt_ends_of [rt_rules]: "rt_keeps P m \<Longrightarrow> prt_ends P (prt_of m)"
  by (simp add: prt_ends_def prt_of_def rt_keeps_def) (metis prod.collapse)

lemma prt_ends_bind [rt_rules]: "prt_ends P m \<Longrightarrow> (\<And>x. prt_ends P (f x)) \<Longrightarrow> prt_ends P (prt_bind m f)"
  unfolding prt_ends_def prt_bind_def by (fastforce split: option.split prod.split sum.split)

lemma prt_ends_catch [rt_rules]:
  "prt_ends P m \<Longrightarrow> (\<And>e. prt_ends P (h e)) \<Longrightarrow> (\<And>x. prt_ends P (f x)) \<Longrightarrow> prt_ends P (prt_catch m h f)"
  unfolding prt_ends_def prt_catch_def by (fastforce split: option.split prod.split sum.split)

lemma prt_ends_cases [rt_rules]:
  "(\<And>a b. prt_ends P (g a b)) \<Longrightarrow> prt_ends P (case x of (a, b) \<Rightarrow> g a b)"
  "(c \<Longrightarrow> prt_ends P m) \<Longrightarrow> (\<not> c \<Longrightarrow> prt_ends P m') \<Longrightarrow> prt_ends P (if c then m else m')"
  "(opt = None \<Longrightarrow> prt_ends P m) \<Longrightarrow> (\<And>y. opt = Some y \<Longrightarrow> prt_ends P (h y)) \<Longrightarrow>
     prt_ends P (case opt of None \<Rightarrow> m | Some y \<Rightarrow> h y)"
  by (auto split: prod.split option.split)

lemma prt_bind_ok: "prt_bind m f s = Some (t, Inr y) \<longleftrightarrow> (\<exists>u x. m s = Some (u, Inr x) \<and> f x u = Some (t, Inr y))"
  by (auto simp: prt_bind_def split: option.splits prod.splits sum.splits)

lemma prt_catch_ok:
  "prt_catch m h f s = Some (t, Inr y) \<longleftrightarrow>
     (\<exists>u e. m s = Some (u, Inl e) \<and> h e u = Some (t, Inr y)) \<or> (\<exists>u x. m s = Some (u, Inr x) \<and> f x u = Some (t, Inr y))"
  by (auto simp: prt_catch_def split: option.splits prod.splits sum.splits)

lemma prt_of_ok: "prt_of m s = Some (t, Inr y) \<longleftrightarrow> m s = (t, Inr y)"
  by (simp add: prt_of_def)

section \<open>The queue under link operations\<close>

text \<open>Identity changes and link operations leave the outbound queue in order.\<close>

lemma link_step_queue:
  assumes "link_or_unblock_step s t"
  shows "st_outbound_private_messages t = st_outbound_private_messages s \<and> st_next_outbound_id t = st_next_outbound_id s"
proof -
  have writes: "st_outbound_private_messages (save_linked_peer peer u) = st_outbound_private_messages u"
    "st_next_outbound_id (save_linked_peer peer u) = st_next_outbound_id u"
    "st_outbound_private_messages (save_encrypted_link_state ls u) = st_outbound_private_messages u"
    "st_next_outbound_id (save_encrypted_link_state ls u) = st_next_outbound_id u" for peer ls u
    by (simp_all add: save_linked_peer_def save_encrypted_link_state_def)
  have link: "link_step s t \<Longrightarrow> ?thesis"
    by (induction rule: link_step.induct)
       (auto simp: save_linked_peer_state_inner_def mark_recovery_required_in_transaction_inner_def
          save_link_handshake_state_inner_def save_link_handshake_state_if_generation_inner_def
          save_linked_peer_link_state_if_generation_inner_def block_peer_with_claim_def clear_encrypted_link_state_def
          save_peer_and_link_def report_moved_generation_def Let_def rbind_Inr_iff writes case_prod_unfold
          split: option.split_asm if_split_asm option.split)
  show ?thesis
    using assms link
    by cases (auto simp: unblock_peer_with_claim_def clear_encrypted_link_state_def Let_def rbind_Inr_iff writes split: option.splits if_splits)
qed

interpretation queue_ids: link_operation_invariant outbound_inv
proof unfold_locales
  fix s t assume inv: "outbound_inv s"
  show "outbound_inv t" if "identity_step s t"
    using that inv
    by (auto elim!: identity_stepE simp: outbound_inv_def identity_defs clear_defs Let_def
        split: option.splits IdentityTransition.splits if_splits)
  show "outbound_inv t" if "link_or_unblock_step s t"
    using link_step_queue [OF that] inv by (simp add: outbound_inv_def)
  show "outbound_inv (save_linked_peer peer s)" for peer
    using inv by (simp add: outbound_inv_def save_linked_peer_def)
  show "outbound_inv (fst (claim_peer_link_operation cp rp now until s))" for cp rp now until
    using inv by (simp add: claim_peer_link_operation_def outbound_inv_def Let_def)
  show "outbound_inv (release_peer_link_operation cp rp i s)" for cp rp i
    using inv by (simp add: release_queue)
qed

text \<open>Receiving adds to the stream and leaves the queue alone.\<close>

lemma persist_message_queue:
  "persist_message E cp rp b now m (s, report) = (t, report') \<Longrightarrow>
     st_outbound_private_messages t = st_outbound_private_messages s \<and> st_next_outbound_id t = st_next_outbound_id s"
  by (auto simp: persist_message_def Let_def insert_private_stream_item_def update_event_dedupe_def save_event_dedup_record_def
      save_receipt_access_record_def split: option.splits if_splits prod.splits EventDedupeOutcome.splits)

lemma persist_messages_queue:
  "persist_messages E cp rp b now ms (s, report) = (t, report') \<Longrightarrow>
     st_outbound_private_messages t = st_outbound_private_messages s \<and> st_next_outbound_id t = st_next_outbound_id s"
proof (induction ms arbitrary: s report)
  case (Cons m ms)
  obtain u r where "persist_message E cp rp b now m (s, report) = (u, r)" by force
  with Cons persist_message_queue [of E cp rp b now m s report u r] show ?case by simp
qed simp

lemma persist_batch_queue:
  assumes "persist_private_stream_batch_with_link_lease E cp rp ms ls lease now s = Inr (t, report)"
  shows "outbound_inv t = outbound_inv s"
proof -
  obtain s1 r where "persist_messages E cp rp (st_next_receive_batch_id s) now ms
      (fst (allocate_receive_batch_id s), empty_report (st_next_receive_batch_id s)) = (s1, r)"
    by (cases "persist_messages E cp rp (st_next_receive_batch_id s) now ms
      (fst (allocate_receive_batch_id s), empty_report (st_next_receive_batch_id s))")
  then have "st_outbound_private_messages t = st_outbound_private_messages s \<and> st_next_outbound_id t = st_next_outbound_id s"
    using assms persist_messages_queue [of E cp rp "st_next_receive_batch_id s" now ms "fst (allocate_receive_batch_id s)"
        "empty_report (st_next_receive_batch_id s)" s1 r]
    by (auto simp: persist_private_stream_batch_with_link_lease_def allocate_receive_batch_id_def empty_report_def Let_def
        rbind_Inr_iff save_linked_peer_def save_encrypted_link_state_def split: option.splits)
  then show ?thesis by (simp add: outbound_inv_def)
qed

lemma keeps_abandon [rt_rules]: "rt_keeps outbound_inv (abandon_link E V cfg p cp lease rp err)"
  unfolding abandon_link_def rt_ignore_def by (intro rt_rules)

lemma receive_ends:
  assumes "runs_dry (ln_noise H) waiting"
  shows "prt_ends outbound_inv (receive_private_messages E H cfg p cp rp)"
proof -
  have prepare: "rt_keeps outbound_inv (prepare_receive H cfg p cp rp)"
    unfolding prepare_receive_def by (intro rt_rules queue_ids.keeps_session queue_ids.keeps_claim)
  have restore: "rt_keeps outbound_inv (restore_link_for_receive E H cfg q cp lease access)" for q lease access
    unfolding restore_link_for_receive_def by (intro rt_rules)
  have persist: "rt_keeps outbound_inv (persist_received E H cfg q cp lease ls link received)" for q lease ls link received
    unfolding persist_received_def by (intro rt_rules rt_keeps_transaction) (simp add: persist_batch_queue)
  have claimed: "prt_ends outbound_inv (receive_private_messages_with_claim E H cfg q cp lease access)" for q lease access
    unfolding prt_ends_def
  proof (intro allI impI)
    fix s assume s: "outbound_inv s"
    obtain u r where u: "restore_link_for_receive E H cfg (0 # q) cp lease access s = (u, r)" by force
    have inv: "outbound_inv u" using restore s u by (metis fst_conv rt_keeps_def)
    have "\<exists>x. receive_private_application_messages E (ln_noise H) (1 # q) link = Some x" for link
      using receive_batches_ends [OF assms, of E "1 # q" 0 "[]" "el_encryptor link"]
      by (auto simp: receive_private_application_messages_def)
    then show "\<exists>t r. receive_private_messages_with_claim E H cfg q cp lease access s = Some (t, r) \<and> outbound_inv t"
      using u inv persist unfolding receive_private_messages_with_claim_def rt_keeps_def
      by (auto split: sum.split) (metis (no_types, lifting) case_prod_conv option.map(2) prod.collapse)
  qed
  show ?thesis
    unfolding prt_ends_def
  proof (intro allI impI)
    fix s assume s: "outbound_inv s"
    obtain u r where u: "prepare_receive H cfg p cp rp s = (u, r)" by force
    have inv: "outbound_inv u" using prepare s u by (metis fst_conv rt_keeps_def)
    show "\<exists>t r. receive_private_messages E H cfg p cp rp s = Some (t, r) \<and> outbound_inv t"
    proof (cases r)
      case (Inr x)
      obtain access lease where x: "x = (access, lease)" by (cases x)
      obtain t res where "receive_private_messages_with_claim E H cfg (2 # p) cp lease access u = Some (t, res)" "outbound_inv t"
        using prt_endsD [OF claimed inv] by blast
      with u Inr x show ?thesis by (simp add: receive_private_messages_def release_queue)
    qed (use u inv in \<open>simp add: receive_private_messages_def\<close>)
  qed
qed

lemma delivery_ends: "prt_ends outbound_inv (process_outbound_private_messages E H cancel cfg p cp rp)"
  unfolding prt_ends_def using process_ends by blast

end
