(* ===== verification/Pubky_Routing.thy ===== *)
theory Pubky_Routing
  imports Link_Snapshots
begin

text \<open>
  Public documents on a homeserver: Payment Endpoints (\<^verbatim>\<open>paykit-lib/src/payment_endpoint.rs\<close>,
  \<^verbatim>\<open>pubky_routing.rs\<close>) and receiver markers (\<^verbatim>\<open>receiver_marker.rs\<close>), how they are written, removed, listed and
  read. The homeserver client is a parameter with its own state. On a homeserver that keeps what it is
  given, a marker that was published is read back, the Payment List holds exactly the endpoints, and
  the receivers that are found are advertised ones.
\<close>

section \<open>The homeserver client\<close>

text \<open>
  Calls over the contents \<open>'w\<close> of the homeserver, at the position of the call. An error comes with whether it
  says that nothing is there (\<^verbatim>\<open>is_not_found\<close>); the bytes of a response may fail to arrive.
\<close>

type_synonym call_error = "anyhow \<times> bool"

record pubky_entry =
  pe_owner :: PublicKey
  pe_path :: string

record 'w homeserver =
  hs_put :: "nat list \<Rightarrow> string \<Rightarrow> string \<Rightarrow> 'w \<Rightarrow> 'w \<times> call_error option"
  hs_delete :: "nat list \<Rightarrow> string \<Rightarrow> 'w \<Rightarrow> 'w \<times> call_error option"
  hs_get :: "nat list \<Rightarrow> string \<Rightarrow> 'w \<Rightarrow> call_error + (anyhow + string)"
  hs_list_builder :: "nat list \<Rightarrow> string \<Rightarrow> 'w \<Rightarrow> call_error option"
  hs_list :: "nat list \<Rightarrow> string \<Rightarrow> string option \<Rightarrow> 'w \<Rightarrow> call_error + pubky_entry list"
  hs_entry_addr :: "pubky_entry \<Rightarrow> string"
  hs_utf8_error :: "string \<Rightarrow> anyhow"

definition ROUTING_PAGE_LIMIT :: nat where
  "ROUTING_PAGE_LIMIT = 100"

text \<open>\<^verbatim>\<open>Utf8Error::valid_up_to\<close>: the longest prefix that is valid.\<close>

definition valid_up_to :: "string \<Rightarrow> nat" where
  "valid_up_to bytes = last (filter (\<lambda>n. valid_utf8 (take n bytes)) [0..<Suc (length bytes)])"

definition decode_text :: "'w homeserver \<Rightarrow> string \<Rightarrow> string \<Rightarrow> string res" where
  "decode_text HV label bytes =
     (if valid_utf8 bytes then Inr bytes
      else Inl (InvalidData (label @ '': invalid UTF-8 at byte '' @ show_nat (valid_up_to bytes)) (Some (hs_utf8_error HV bytes))))"

definition fetch_text :: "'w homeserver \<Rightarrow> nat list \<Rightarrow> string \<Rightarrow> string \<Rightarrow> 'w \<Rightarrow> string option res" where
  "fetch_text HV p addr label w =
     (case hs_get HV p addr w of
        Inr body \<Rightarrow>
          rbind (map_err (Transport label) body) (\<lambda>bytes.
          if bytes = [] then Inr None else rbind (decode_text HV label bytes) (\<lambda>text. Inr (Some text)))
      | Inl (err, not_found) \<Rightarrow> if not_found then Inr None else Inl (Transport label err))"

definition fetch_nonempty_text :: "'w homeserver \<Rightarrow> nat list \<Rightarrow> string \<Rightarrow> string \<Rightarrow> 'w \<Rightarrow> string option res" where
  "fetch_nonempty_text HV p addr label w =
     (case hs_get HV p addr w of
        Inr body \<Rightarrow>
          rbind (map_err (Transport label) body) (\<lambda>bytes.
          if bytes = [] then Inl (invalid_data (label @ '': resource must not be empty'') None)
          else rbind (decode_text HV label bytes) (\<lambda>text. Inr (Some text)))
      | Inl (err, not_found) \<Rightarrow> if not_found then Inr None else Inl (Transport label err))"

text \<open>The paging loop, which goes on as long as pages are full.\<close>

partial_function (option) list_resources_loop ::
  "ext \<Rightarrow> 'w homeserver \<Rightarrow> nat list \<Rightarrow> string \<Rightarrow> string \<Rightarrow> 'w \<Rightarrow> nat \<Rightarrow> string option \<Rightarrow> pubky_entry list \<Rightarrow>
   pubky_entry list res option" where
  "list_resources_loop E HV p addr label w k cursor resources =
     (case hs_list_builder HV (k # p) addr w of
        Some (err, not_found) \<Rightarrow> Some (if not_found then Inr resources else Inl (Transport label err))
      | None \<Rightarrow>
          (case hs_list HV (k # p) addr cursor w of
             Inl (err, not_found) \<Rightarrow> Some (if not_found then Inr resources else Inl (Transport (label @ '' send failed'') err))
           | Inr page \<Rightarrow>
               if page = [] then Some (Inr resources)
               else if length page < ROUTING_PAGE_LIMIT then Some (Inr (resources @ page))
               else list_resources_loop E HV p addr label w (Suc k)
                      (Some (public_key_z32 E (pe_owner (last page)) @ pe_path (last page))) (resources @ page)))"

definition list_resources ::
  "ext \<Rightarrow> 'w homeserver \<Rightarrow> nat list \<Rightarrow> string \<Rightarrow> string \<Rightarrow> 'w \<Rightarrow> pubky_entry list res option" where
  "list_resources E HV p addr label w = list_resources_loop E HV p addr label w 0 None []"

text \<open>Sequencing of reads that may not return.\<close>

definition read_bind :: "'a res option \<Rightarrow> ('a \<Rightarrow> 'b res option) \<Rightarrow> 'b res option" where
  "read_bind m f = (case m of None \<Rightarrow> None | Some (Inl e) \<Rightarrow> Some (Inl e) | Some (Inr x) \<Rightarrow> f x)"

lemma read_bind_ok: "read_bind m f = Some (Inr y) \<longleftrightarrow> (\<exists>x. m = Some (Inr x) \<and> f x = Some (Inr y))"
  by (auto simp: read_bind_def split: option.splits sum.splits)

section \<open>Payment Endpoints\<close>

definition upsert_payment_endpoint ::
  "'w homeserver \<Rightarrow> nat list \<Rightarrow> PaykitReceiverPath \<Rightarrow> PaymentEndpointIdentifier \<Rightarrow> PaymentEndpointPayload \<Rightarrow> 'w \<Rightarrow> 'w \<times> unit res" where
  "upsert_payment_endpoint HV p rp identifier payload w =
     (case hs_put HV p (payment_endpoint_path rp identifier) (payload_str payload) w of
        (w', None) \<Rightarrow> (w', Inr ())
      | (w', Some (err, _)) \<Rightarrow> (w', Inl (Transport ''put Payment Endpoint'' err)))"

definition delete_payment_endpoint ::
  "'w homeserver \<Rightarrow> nat list \<Rightarrow> PaykitReceiverPath \<Rightarrow> PaymentEndpointIdentifier \<Rightarrow> 'w \<Rightarrow> 'w \<times> unit res" where
  "delete_payment_endpoint HV p rp identifier w =
     (case hs_delete HV p (payment_endpoint_path rp identifier) w of
        (w', None) \<Rightarrow> (w', Inr ())
      | (w', Some (err, not_found)) \<Rightarrow> (w', if not_found then Inr () else Inl (Transport ''delete Payment Endpoint'' err)))"

definition set_payment_endpoint ::
  "'w homeserver \<Rightarrow> nat list \<Rightarrow> PaykitReceiverPath \<Rightarrow> PaymentEndpointIdentifier \<Rightarrow> PaymentEndpointPayload \<Rightarrow> 'w \<Rightarrow> 'w \<times> unit res" where
  "set_payment_endpoint HV p rp identifier payload w =
     map_prod id (map_err (map_error ''set_payment_endpoint'')) (upsert_payment_endpoint HV p rp identifier payload w)"

definition remove_payment_endpoint ::
  "'w homeserver \<Rightarrow> nat list \<Rightarrow> PaykitReceiverPath \<Rightarrow> PaymentEndpointIdentifier \<Rightarrow> 'w \<Rightarrow> 'w \<times> unit res" where
  "remove_payment_endpoint HV p rp identifier w =
     map_prod id (map_err (map_error ''remove_payment_endpoint'')) (delete_payment_endpoint HV p rp identifier w)"

definition fetch_payment_endpoint ::
  "ext \<Rightarrow> 'w homeserver \<Rightarrow> nat list \<Rightarrow> PublicKey \<Rightarrow> PaykitReceiverPath \<Rightarrow> PaymentEndpointIdentifier \<Rightarrow> 'w \<Rightarrow>
   PaymentEndpointPayload option res" where
  "fetch_payment_endpoint E HV p payee rp identifier w =
     rbind (fetch_text HV p (public_key_display E payee @ payment_endpoint_path rp identifier) ''fetch Payment Endpoint'' w)
       (\<lambda>text. Inr (map_option PaymentEndpointPayload text))"

definition get_payment_endpoint ::
  "ext \<Rightarrow> 'w homeserver \<Rightarrow> nat list \<Rightarrow> PublicKey \<Rightarrow> PaykitReceiverPath \<Rightarrow> PaymentEndpointIdentifier \<Rightarrow> 'w \<Rightarrow>
   PaymentEndpointPayload option res" where
  "get_payment_endpoint E HV p payee rp identifier w =
     map_err (map_error ''get_payment_endpoint'') (fetch_payment_endpoint E HV p payee rp identifier w)"

fun collect_listed ::
  "'w homeserver \<Rightarrow> nat list \<Rightarrow> 'w \<Rightarrow> (PaymentEndpointIdentifier, PaymentEndpointPayload) hashmap \<Rightarrow> pubky_entry list \<Rightarrow>
   (PaymentEndpointIdentifier, PaymentEndpointPayload) hashmap res" where
  "collect_listed HV p w endpoints [] = Inr endpoints"
| "collect_listed HV p w endpoints (r # rs) =
     (if ends_with_char CHR ''/'' (pe_path r) then collect_listed HV p w endpoints rs
      else let identifier_text = last (split_on CHR ''/'' (pe_path r)) in
        if identifier_text = []
        then Inl (InvalidData (''cannot extract Payment Endpoint Identifier from resource path '' @ quoted (pe_path r)) None)
        else rbind (fetch_text HV (length rs # p) (hs_entry_addr HV r) (''fetch payment endpoint '' @ identifier_text) w) (\<lambda>text.
          case text of
            None \<Rightarrow> collect_listed HV p w endpoints rs
          | Some payload \<Rightarrow>
              rbind (map_err (\<lambda>err. InvalidData (''storage returned invalid Payment Endpoint Identifier '' @ quoted identifier_text)
                        (Some (AnyhowPaykit err))) (PaymentEndpointIdentifier_new identifier_text)) (\<lambda>identifier.
              collect_listed HV p w (hm_insert identifier (PaymentEndpointPayload payload) endpoints) rs)))"

definition fetch_payment_list_from_directory ::
  "ext \<Rightarrow> 'w homeserver \<Rightarrow> nat list \<Rightarrow> string \<Rightarrow> 'w \<Rightarrow> (PaymentEndpointIdentifier, PaymentEndpointPayload) hashmap res option" where
  "fetch_payment_list_from_directory E HV p addr w =
     read_bind (list_resources E HV (0 # p) addr ''list payment endpoints'' w) (\<lambda>resources.
     Some (collect_listed HV (1 # p) w [] resources))"

definition fetch_payment_list ::
  "ext \<Rightarrow> 'w homeserver \<Rightarrow> nat list \<Rightarrow> PublicKey \<Rightarrow> PaykitReceiverPath \<Rightarrow> 'w \<Rightarrow>
   (PaymentEndpointIdentifier, PaymentEndpointPayload) hashmap res option" where
  "fetch_payment_list E HV p payee rp w =
     fetch_payment_list_from_directory E HV p (public_key_display E payee @ payment_endpoint_path_prefix rp) w"

definition get_payment_list ::
  "ext \<Rightarrow> 'w homeserver \<Rightarrow> nat list \<Rightarrow> PublicKey \<Rightarrow> PaykitReceiverPath \<Rightarrow> 'w \<Rightarrow>
   (PaymentEndpointIdentifier, PaymentEndpointPayload) hashmap res option" where
  "get_payment_list E HV p payee rp w =
     map_option (map_err (map_error ''get_payment_list'')) (fetch_payment_list E HV p payee rp w)"

section \<open>Receiver markers\<close>

definition RECEIVER_MARKER_KIND :: string where
  "RECEIVER_MARKER_KIND = ''paykit.receiver''"

definition RECEIVER_MARKER_VERSION :: u8 where
  "RECEIVER_MARKER_VERSION = 1"

record PaykitReceiverCapabilities =
  cap_private_payments :: bool
  cap_payment_requests :: bool
  cap_receipts :: bool
  cap_outgoing_payments :: bool

record PaykitReceiverMarker =
  pm_receiver_path :: PaykitReceiverPath
  pm_capabilities :: PaykitReceiverCapabilities
  pm_noise_public_key :: PublicKey

definition PaykitReceiverMarker_new ::
  "PaykitReceiverPath \<Rightarrow> PaykitReceiverCapabilities \<Rightarrow> PublicKey \<Rightarrow> PaykitReceiverMarker" where
  "PaykitReceiverMarker_new rp capabilities key =
     \<lparr>pm_receiver_path = rp, pm_capabilities = capabilities, pm_noise_public_key = key\<rparr>"

record ReceiverMarkerWire =
  mw_version :: u8
  mw_kind :: string
  mw_receiver_path :: PaykitReceiverPath
  mw_capabilities :: PaykitReceiverCapabilities
  mw_noise_public_key :: string

fun de_bool :: "json \<Rightarrow> bool option" where
  "de_bool (JBool b) = Some b"
| "de_bool _ = None"

definition de_PaykitReceiverCapabilities :: "json \<Rightarrow> PaykitReceiverCapabilities option" where
  "de_PaykitReceiverCapabilities j =
     Option.bind (struct_fields [''private_payments'', ''payment_requests'', ''receipts'', ''outgoing_payments''] j) (\<lambda>kvs.
     Option.bind (field ''private_payments'' de_bool kvs) (\<lambda>private_payments.
     Option.bind (field ''payment_requests'' de_bool kvs) (\<lambda>payment_requests.
     Option.bind (field ''receipts'' de_bool kvs) (\<lambda>receipts.
     Option.bind (field ''outgoing_payments'' de_bool kvs) (\<lambda>outgoing_payments.
     Some \<lparr>cap_private_payments = private_payments, cap_payment_requests = payment_requests, cap_receipts = receipts,
           cap_outgoing_payments = outgoing_payments\<rparr>)))))"

definition ser_PaykitReceiverCapabilities :: "PaykitReceiverCapabilities \<Rightarrow> json" where
  "ser_PaykitReceiverCapabilities c =
     JObj [(''private_payments'', JBool (cap_private_payments c)), (''payment_requests'', JBool (cap_payment_requests c)),
           (''receipts'', JBool (cap_receipts c)), (''outgoing_payments'', JBool (cap_outgoing_payments c))]"

definition de_ReceiverMarkerWire :: "json \<Rightarrow> ReceiverMarkerWire option" where
  "de_ReceiverMarkerWire j =
     Option.bind (struct_fields [''version'', ''kind'', ''receiver_path'', ''capabilities'', ''noise_public_key''] j) (\<lambda>kvs.
     Option.bind (field ''version'' de_u8 kvs) (\<lambda>version.
     Option.bind (field ''kind'' de_string kvs) (\<lambda>kind.
     Option.bind (field ''receiver_path'' de_receiver_path kvs) (\<lambda>rp.
     Option.bind (field ''capabilities'' de_PaykitReceiverCapabilities kvs) (\<lambda>capabilities.
     Option.bind (field ''noise_public_key'' de_string kvs) (\<lambda>key.
     Some \<lparr>mw_version = version, mw_kind = kind, mw_receiver_path = rp, mw_capabilities = capabilities,
           mw_noise_public_key = key\<rparr>))))))"

definition ser_ReceiverMarkerWire :: "ReceiverMarkerWire \<Rightarrow> json" where
  "ser_ReceiverMarkerWire w =
     JObj [(''version'', JInt (uint (mw_version w))), (''kind'', JStr (mw_kind w)),
           (''receiver_path'', JStr (receiver_path_str (mw_receiver_path w))),
           (''capabilities'', ser_PaykitReceiverCapabilities (mw_capabilities w)),
           (''noise_public_key'', JStr (mw_noise_public_key w))]"

definition receiver_marker_to_wire :: "ext \<Rightarrow> PaykitReceiverMarker \<Rightarrow> ReceiverMarkerWire" where
  "receiver_marker_to_wire E m =
     \<lparr>mw_version = RECEIVER_MARKER_VERSION, mw_kind = RECEIVER_MARKER_KIND, mw_receiver_path = pm_receiver_path m,
      mw_capabilities = pm_capabilities m, mw_noise_public_key = public_key_z32 E (pm_noise_public_key m)\<rparr>"

definition receiver_marker_of_wire :: "ext \<Rightarrow> ReceiverMarkerWire \<Rightarrow> PaykitReceiverMarker res" where
  "receiver_marker_of_wire E w =
     (if mw_version w \<noteq> RECEIVER_MARKER_VERSION \<or> mw_kind w \<noteq> RECEIVER_MARKER_KIND
      then Inl (invalid_data (''unsupported Paykit receiver marker version/kind: '' @ show_nat (unat (mw_version w)) @ ''/''
             @ mw_kind w) None)
      else rbind (map_err (\<lambda>err. invalid_data (''Paykit receiver marker Noise public key is invalid: '' @ err) (Some (AnyhowMsg err)))
                    (public_key_from_z32 E (mw_noise_public_key w))) (\<lambda>key.
           Inr (PaykitReceiverMarker_new (mw_receiver_path w) (mw_capabilities w) key)))"

definition serialize_paykit_receiver_marker :: "ext \<Rightarrow> PaykitReceiverMarker \<Rightarrow> string res" where
  "serialize_paykit_receiver_marker E m =
     map_err (\<lambda>err. Validation (''failed to serialize Paykit receiver marker: '' @ err))
       (json_to_string E (ser_ReceiverMarkerWire (receiver_marker_to_wire E m)))"

definition parse_paykit_receiver_marker_json :: "ext \<Rightarrow> string \<Rightarrow> PaykitReceiverPath \<Rightarrow> PaykitReceiverMarker res" where
  "parse_paykit_receiver_marker_json E raw expected =
     rbind (map_err (\<lambda>err. invalid_data (''Paykit receiver marker JSON is invalid: '' @ err) (Some (AnyhowMsg err)))
              (struct_from_str E ''ReceiverMarkerWire'' de_ReceiverMarkerWire raw)) (\<lambda>w.
     rbind (receiver_marker_of_wire E w) (\<lambda>marker.
     if pm_receiver_path marker \<noteq> expected
     then Inl (invalid_data (''Paykit receiver marker path mismatch: expected '' @ receiver_path_str expected @ '', got ''
            @ receiver_path_str (pm_receiver_path marker)) None)
     else Inr marker))"

definition upsert_paykit_receiver_marker :: "ext \<Rightarrow> 'w homeserver \<Rightarrow> nat list \<Rightarrow> PaykitReceiverMarker \<Rightarrow> 'w \<Rightarrow> 'w \<times> unit res" where
  "upsert_paykit_receiver_marker E HV p m w =
     (case serialize_paykit_receiver_marker E m of
        Inl e \<Rightarrow> (w, Inl e)
      | Inr payload \<Rightarrow>
          (case hs_put HV p (receiver_marker_path (pm_receiver_path m)) payload w of
             (w', None) \<Rightarrow> (w', Inr ())
           | (w', Some (err, _)) \<Rightarrow> (w', Inl (Transport ''put Paykit receiver marker'' err))))"

definition delete_paykit_receiver_marker :: "'w homeserver \<Rightarrow> nat list \<Rightarrow> PaykitReceiverPath \<Rightarrow> 'w \<Rightarrow> 'w \<times> unit res" where
  "delete_paykit_receiver_marker HV p rp w =
     (case hs_delete HV p (receiver_marker_path rp) w of
        (w', None) \<Rightarrow> (w', Inr ())
      | (w', Some (err, not_found)) \<Rightarrow> (w', if not_found then Inr () else Inl (Transport ''delete Paykit receiver marker'' err)))"

definition publish_paykit_receiver_marker :: "ext \<Rightarrow> 'w homeserver \<Rightarrow> nat list \<Rightarrow> PaykitReceiverMarker \<Rightarrow> 'w \<Rightarrow> 'w \<times> unit res" where
  "publish_paykit_receiver_marker E HV p m w =
     map_prod id (map_err (map_error ''publish_paykit_receiver_marker'')) (upsert_paykit_receiver_marker E HV p m w)"

definition remove_paykit_receiver_marker :: "'w homeserver \<Rightarrow> nat list \<Rightarrow> PaykitReceiverPath \<Rightarrow> 'w \<Rightarrow> 'w \<times> unit res" where
  "remove_paykit_receiver_marker HV p rp w =
     map_prod id (map_err (map_error ''remove_paykit_receiver_marker'')) (delete_paykit_receiver_marker HV p rp w)"

definition fetch_paykit_receiver_marker ::
  "ext \<Rightarrow> 'w homeserver \<Rightarrow> nat list \<Rightarrow> PublicKey \<Rightarrow> PaykitReceiverPath \<Rightarrow> 'w \<Rightarrow> PaykitReceiverMarker option res" where
  "fetch_paykit_receiver_marker E HV p owner rp w =
     rbind (fetch_nonempty_text HV p (public_key_display E owner @ receiver_marker_path rp) ''fetch Paykit receiver marker'' w) (\<lambda>text.
     case text of
       None \<Rightarrow> Inr None
     | Some payload \<Rightarrow> rbind (parse_paykit_receiver_marker_json E payload rp) (\<lambda>marker. Inr (Some marker)))"

definition get_paykit_receiver_marker ::
  "ext \<Rightarrow> 'w homeserver \<Rightarrow> nat list \<Rightarrow> PublicKey \<Rightarrow> PaykitReceiverPath \<Rightarrow> 'w \<Rightarrow> PaykitReceiverMarker option res" where
  "get_paykit_receiver_marker E HV p owner rp w =
     map_err (map_error ''get_paykit_receiver_marker'') (fetch_paykit_receiver_marker E HV p owner rp w)"

section \<open>Finding receivers\<close>

definition receiver_path_prefix :: string where
  "receiver_path_prefix = PAYKIT_PATH_PREFIX @ ''/''"

text \<open>\<^verbatim>\<open>trim_end_matches('/')\<close>.\<close>

definition trim_slashes :: "string \<Rightarrow> string" where
  "trim_slashes s = rev (dropWhile (\<lambda>c. c = CHR ''/'') (rev s))"

definition listed_child_segment :: "string \<Rightarrow> string \<Rightarrow> string option" where
  "listed_child_segment path prefix =
     Option.bind (strip_prefix prefix path) (\<lambda>suffix.
     let segment = hd (split_on CHR ''/'' (trim_slashes suffix)) in if segment = [] then None else Some segment)"

definition is_valid_receiver_app_segment :: "string \<Rightarrow> bool" where
  "is_valid_receiver_app_segment segment = is_ok (PaykitReceiverPath_new (segment @ ''/wallet''))"

definition receiver_is_publicly_advertised ::
  "ext \<Rightarrow> 'w homeserver \<Rightarrow> nat list \<Rightarrow> PublicKey \<Rightarrow> PaykitReceiverPath \<Rightarrow> 'w \<Rightarrow> bool res option" where
  "receiver_is_publicly_advertised E HV p owner rp w =
     (let from_endpoints =
        read_bind (list_resources E HV (1 # p) (public_key_display E owner @ payment_endpoint_path_prefix rp)
                     ''list receiver payment endpoints'' w) (\<lambda>resources.
        Some (Inr (list_ex (\<lambda>r. \<not> ends_with_char CHR ''/'' (pe_path r)) resources)))
      in case fetch_paykit_receiver_marker E HV (0 # p) owner rp w of
           Inr (Some _) \<Rightarrow> Some (Inr True)
         | Inr None \<Rightarrow> from_endpoints
         | Inl (InvalidData _ _) \<Rightarrow> from_endpoints
         | Inl err \<Rightarrow> Some (Inl err))"

fun discover_runtimes ::
  "ext \<Rightarrow> 'w homeserver \<Rightarrow> nat list \<Rightarrow> PublicKey \<Rightarrow> string \<Rightarrow> 'w \<Rightarrow> PaykitReceiverPath list \<times> PaykitReceiverPath list \<Rightarrow>
   pubky_entry list \<Rightarrow> (PaykitReceiverPath list \<times> PaykitReceiverPath list) res option" where
  "discover_runtimes E HV p owner app w acc [] = Some (Inr acc)"
| "discover_runtimes E HV p owner app w (seen, found) (r # rs) =
     (case Option.bind (listed_child_segment (pe_path r) (PAYKIT_PATH_PREFIX @ ''/'' @ app @ ''/''))
             (\<lambda>runtime. ok_of (PaykitReceiverPath_new (app @ ''/'' @ runtime))) of
        None \<Rightarrow> discover_runtimes E HV p owner app w (seen, found) rs
      | Some rp \<Rightarrow>
          if rp \<in> set seen then discover_runtimes E HV p owner app w (seen, found) rs
          else read_bind (receiver_is_publicly_advertised E HV (length rs # p) owner rp w) (\<lambda>advertised.
               discover_runtimes E HV p owner app w (rp # seen, if advertised then found @ [rp] else found) rs))"

fun discover_apps ::
  "ext \<Rightarrow> 'w homeserver \<Rightarrow> nat list \<Rightarrow> PublicKey \<Rightarrow> 'w \<Rightarrow> PaykitReceiverPath list \<times> PaykitReceiverPath list \<Rightarrow>
   pubky_entry list \<Rightarrow> (PaykitReceiverPath list \<times> PaykitReceiverPath list) res option" where
  "discover_apps E HV p owner w acc [] = Some (Inr acc)"
| "discover_apps E HV p owner w acc (r # rs) =
     (case listed_child_segment (pe_path r) receiver_path_prefix of
        None \<Rightarrow> discover_apps E HV p owner w acc rs
      | Some app \<Rightarrow>
          if \<not> is_valid_receiver_app_segment app then discover_apps E HV p owner w acc rs
          else read_bind (list_resources E HV (0 # length rs # p) (public_key_display E owner @ PAYKIT_PATH_PREFIX @ ''/'' @ app @ ''/'')
                            ''list Paykit receiver runtimes'' w) (\<lambda>runtimes.
               read_bind (discover_runtimes E HV (1 # length rs # p) owner app w acc runtimes) (\<lambda>acc.
               discover_apps E HV p owner w acc rs)))"

definition fetch_paykit_receiver_paths ::
  "ext \<Rightarrow> 'w homeserver \<Rightarrow> nat list \<Rightarrow> PublicKey \<Rightarrow> 'w \<Rightarrow> PaykitReceiverPath list res option" where
  "fetch_paykit_receiver_paths E HV p owner w =
     read_bind (list_resources E HV (0 # p) (public_key_display E owner @ receiver_path_prefix) ''list Paykit receiver apps'' w) (\<lambda>apps.
     read_bind (discover_apps E HV (1 # p) owner w ([], []) apps) (\<lambda>(seen, found).
     Some (Inr (sort_key receiver_path_str found))))"

definition list_paykit_receiver_paths ::
  "ext \<Rightarrow> 'w homeserver \<Rightarrow> nat list \<Rightarrow> PublicKey \<Rightarrow> 'w \<Rightarrow> PaykitReceiverPath list res option" where
  "list_paykit_receiver_paths E HV p owner w =
     map_option (map_err (map_error ''list_paykit_receiver_paths'')) (fetch_paykit_receiver_paths E HV p owner w)"

section \<open>Publishing and reading back\<close>

text \<open>
  What a homeserver promises to its owner, whose documents are addressed by \<open>key\<close>: a document that was put is
  what a read gives, and one that was deleted, or was not there to delete, is not found.
\<close>

definition homeserver_stores :: "'w homeserver \<Rightarrow> string \<Rightarrow> bool" where
  "homeserver_stores HV key \<longleftrightarrow>
     (\<forall>p q path body w w'. hs_put HV p path body w = (w', None) \<longrightarrow> hs_get HV q (key @ path) w' = Inr (Inr body))
     \<and> (\<forall>p q path w w' result. hs_delete HV p path w = (w', result) \<and> (\<forall>err. result \<noteq> Some (err, False))
          \<longrightarrow> (\<exists>err. hs_get HV q (key @ path) w' = Inl (err, True)))"

text \<open>Printed JSON is text and not empty.\<close>

definition json_prints_text :: "ext \<Rightarrow> bool" where
  "json_prints_text E \<longleftrightarrow> (\<forall>j s. json_to_string E j = Inr s \<longrightarrow> s \<noteq> [] \<and> valid_utf8 s)"

lemma fetch_texts:
  "hs_get HV q addr w = Inr (Inr body) \<Longrightarrow> body \<noteq> [] \<Longrightarrow> valid_utf8 body \<Longrightarrow> fetch_text HV q addr label w = Inr (Some body)"
  "hs_get HV q addr w = Inr (Inr body) \<Longrightarrow> body \<noteq> [] \<Longrightarrow> valid_utf8 body \<Longrightarrow> fetch_nonempty_text HV q addr label w = Inr (Some body)"
  "hs_get HV q addr w = Inl (err, True) \<Longrightarrow> fetch_text HV q addr label w = Inr None"
  "hs_get HV q addr w = Inl (err, True) \<Longrightarrow> fetch_nonempty_text HV q addr label w = Inr None"
  by (simp_all add: fetch_text_def fetch_nonempty_text_def decode_text_def)

lemma fetch_text_Some:
  "fetch_text HV q addr label w = Inr (Some body) \<longleftrightarrow> hs_get HV q addr w = Inr (Inr body) \<and> body \<noteq> [] \<and> valid_utf8 body"
  by (auto simp: fetch_text_def decode_text_def result_iffs split: sum.splits)

lemma fetch_text_None:
  "fetch_text HV q addr label w = Inr None \<longleftrightarrow> hs_get HV q addr w = Inr (Inr []) \<or> (\<exists>err. hs_get HV q addr w = Inl (err, True))"
  by (auto simp: fetch_text_def decode_text_def result_iffs split: sum.splits)

lemma receiver_marker_roundtrip:
  assumes "public_key_roundtrip E" and "json_prints_back E"
    and "PaykitReceiverPath_new (receiver_path_str (pm_receiver_path m)) = Inr (pm_receiver_path m)"
    and "serialize_paykit_receiver_marker E m = Inr raw"
  shows "parse_paykit_receiver_marker_json E raw (pm_receiver_path m) = Inr m"
proof -
  let ?w = "receiver_marker_to_wire E m"
  have "de_PaykitReceiverCapabilities (ser_PaykitReceiverCapabilities c) = Some c" for c
    by (simp add: de_PaykitReceiverCapabilities_def ser_PaykitReceiverCapabilities_def field_def)
  then have "de_ReceiverMarkerWire (ser_ReceiverMarkerWire ?w) = Some ?w"
    using assms(3) by (simp add: de_ReceiverMarkerWire_def ser_ReceiverMarkerWire_def field_def de_receiver_path_def
        receiver_marker_to_wire_def de_u8_of_word del: de_u8.simps)
  then have "struct_from_str E ''ReceiverMarkerWire'' de_ReceiverMarkerWire raw = Inr ?w"
    using assms(2,4) by (auto simp: struct_from_str_Inr json_prints_back_def serialize_paykit_receiver_marker_def map_err_Inr_iff)
  then show ?thesis
    using assms(1) by (simp add: parse_paykit_receiver_marker_json_def receiver_marker_of_wire_def receiver_marker_to_wire_def
        PaykitReceiverMarker_new_def public_key_roundtrip_def)
qed

lemma published_marker_found:
  assumes "homeserver_stores HV (public_key_display E owner)" and "public_key_roundtrip E"
    and "json_prints_back E" and "json_prints_text E"
    and "PaykitReceiverPath_new (receiver_path_str (pm_receiver_path m)) = Inr (pm_receiver_path m)"
    and "publish_paykit_receiver_marker E HV p m w = (w', Inr ())"
  shows "get_paykit_receiver_marker E HV q owner (pm_receiver_path m) w' = Inr (Some m)"
proof -
  from assms(6) obtain raw where raw: "serialize_paykit_receiver_marker E m = Inr raw"
      "hs_put HV p (receiver_marker_path (pm_receiver_path m)) raw w = (w', None)"
    by (auto simp: publish_paykit_receiver_marker_def upsert_paykit_receiver_marker_def result_iffs
        split: sum.splits prod.splits option.splits)
  moreover have "raw \<noteq> []" "valid_utf8 raw"
    using assms(4) raw(1) by (auto simp: json_prints_text_def serialize_paykit_receiver_marker_def map_err_Inr_iff)
  ultimately show ?thesis
    using assms(1) receiver_marker_roundtrip [OF assms(2,3,5) raw(1)]
    by (simp add: get_paykit_receiver_marker_def fetch_paykit_receiver_marker_def homeserver_stores_def fetch_texts)
qed

lemma removed_marker_absent:
  assumes "homeserver_stores HV (public_key_display E owner)" and "remove_paykit_receiver_marker HV p rp w = (w', Inr ())"
  shows "get_paykit_receiver_marker E HV q owner rp w' = Inr None"
proof -
  from assms(2) obtain result where "hs_delete HV p (receiver_marker_path rp) w = (w', result)" "\<forall>err. result \<noteq> Some (err, False)"
    by (auto simp: remove_paykit_receiver_marker_def delete_paykit_receiver_marker_def result_iffs
        split: prod.splits option.splits if_splits)
  then obtain err where "hs_get HV q (public_key_display E owner @ receiver_marker_path rp) w' = Inl (err, True)"
    using assms(1) unfolding homeserver_stores_def by blast
  then show ?thesis
    by (simp add: get_paykit_receiver_marker_def fetch_paykit_receiver_marker_def fetch_texts)
qed

lemma set_endpoint_found:
  assumes "homeserver_stores HV (public_key_display E payee)" and "payload_str payload \<noteq> []" and "valid_utf8 (payload_str payload)"
    and "set_payment_endpoint HV p rp identifier payload w = (w', Inr ())"
  shows "get_payment_endpoint E HV q payee rp identifier w' = Inr (Some payload)"
proof -
  from assms(4) have "hs_put HV p (payment_endpoint_path rp identifier) (payload_str payload) w = (w', None)"
    by (auto simp: set_payment_endpoint_def upsert_payment_endpoint_def result_iffs split: prod.splits option.splits)
  with assms(1-3) show ?thesis
    by (simp add: get_payment_endpoint_def fetch_payment_endpoint_def homeserver_stores_def fetch_texts)
qed

lemma removed_endpoint_absent:
  assumes "homeserver_stores HV (public_key_display E payee)" and "remove_payment_endpoint HV p rp identifier w = (w', Inr ())"
  shows "get_payment_endpoint E HV q payee rp identifier w' = Inr None"
proof -
  from assms(2) obtain result where "hs_delete HV p (payment_endpoint_path rp identifier) w = (w', result)"
      "\<forall>err. result \<noteq> Some (err, False)"
    by (auto simp: remove_payment_endpoint_def delete_payment_endpoint_def result_iffs
        split: prod.splits option.splits if_splits)
  then obtain err where "hs_get HV q (public_key_display E payee @ payment_endpoint_path rp identifier) w' = Inl (err, True)"
    using assms(1) unfolding homeserver_stores_def by blast
  then show ?thesis
    by (simp add: get_payment_endpoint_def fetch_payment_endpoint_def fetch_texts)
qed

text \<open>A receiver marker that was published is what a reader finds, and after a successful removal
  (even of a marker that was not there) a reader finds none, on a homeserver that keeps what it is
  given.\<close>

theorem receiver_marker_publication:
  assumes "homeserver_stores HV (public_key_display E owner)" and "public_key_roundtrip E"
    and "json_prints_back E" and "json_prints_text E"
    and "PaykitReceiverPath_new (receiver_path_str (pm_receiver_path m)) = Inr (pm_receiver_path m)"
  shows "(publish_paykit_receiver_marker E HV p m w = (w', Inr ())
          \<longrightarrow> get_paykit_receiver_marker E HV q owner (pm_receiver_path m) w' = Inr (Some m))
       \<and> (remove_paykit_receiver_marker HV p (pm_receiver_path m) w = (w', Inr ())
          \<longrightarrow> get_paykit_receiver_marker E HV q owner (pm_receiver_path m) w' = Inr None)"
  using published_marker_found [OF assms] removed_marker_absent [OF assms(1)] by blast

section \<open>The Payment List\<close>

text \<open>What the directory holds for an identifier: a document that is not empty, named by the last segment.\<close>

definition listed_document :: "(string \<Rightarrow> call_error + (anyhow + string)) \<Rightarrow> 'w homeserver \<Rightarrow> pubky_entry list \<Rightarrow> string \<Rightarrow> string \<Rightarrow> bool" where
  "listed_document docs HV resources name body \<longleftrightarrow>
     (\<exists>r \<in> set resources. \<not> ends_with_char CHR ''/'' (pe_path r) \<and> last (split_on CHR ''/'' (pe_path r)) = name
        \<and> docs (hs_entry_addr HV r) = Inr (Inr body)) \<and> body \<noteq> []"

definition entry_names :: "pubky_entry list \<Rightarrow> string list" where
  "entry_names resources = map (\<lambda>r. last (split_on CHR ''/'' (pe_path r)))
     (filter (\<lambda>r. \<not> ends_with_char CHR ''/'' (pe_path r)) resources)"

lemma listed_document_name: "listed_document docs HV rs name body \<Longrightarrow> name \<in> set (entry_names rs)"
  by (auto simp: listed_document_def entry_names_def)

lemma listed_identifier_str: "PaymentEndpointIdentifier_new s = Inr i \<Longrightarrow> i = PaymentEndpointIdentifier s"
  by (auto simp: PaymentEndpointIdentifier_new_def split: if_splits option.splits prod.splits)

lemma collect_listed_exact:
  assumes "collect_listed HV p w endpoints rs = Inr endpoints'" and "\<forall>q a. hs_get HV q a w = docs a"
    and "distinct (entry_names rs)" and "\<forall>name \<in> set (entry_names rs). hm_get endpoints (PaymentEndpointIdentifier name) = None"
  shows "hm_get endpoints' i = Some pl \<longleftrightarrow>
     hm_get endpoints i = Some pl \<or> listed_document docs HV rs (identifier_str i) (payload_str pl)"
  using assms
proof (induction rs arbitrary: endpoints)
  case Nil
  then show ?case by (simp add: listed_document_def)
next
  case (Cons r rs)
  let ?name = "last (split_on CHR ''/'' (pe_path r))"
  show ?case
  proof (cases "ends_with_char CHR ''/'' (pe_path r)")
    case True
    with Cons show ?thesis by (simp add: listed_document_def entry_names_def)
  next
    case leaf: False
    with Cons.prems(1) obtain doc where fetched: "fetch_text HV (length rs # p) (hs_entry_addr HV r)
        (''fetch payment endpoint '' @ ?name) w = Inr doc"
      by (auto simp: Let_def result_iffs split: if_splits)
    show ?thesis
    proof (cases doc)
      case None
      then have "docs (hs_entry_addr HV r) = Inr (Inr b) \<Longrightarrow> b = []" for b
        using fetched Cons.prems(2) by (auto simp: fetch_text_None)
      moreover have "collect_listed HV p w endpoints rs = Inr endpoints'"
        using Cons.prems(1) leaf fetched None by (simp add: Let_def split: if_splits)
      ultimately show ?thesis
        using Cons.IH [OF _ Cons.prems(2)] Cons.prems(3,4) leaf by (fastforce simp: listed_document_def entry_names_def)
    next
      case (Some body)
      then have body: "docs (hs_entry_addr HV r) = Inr (Inr body)" "body \<noteq> []"
        using fetched Cons.prems(2) by (auto simp: fetch_text_Some)
      have names: "entry_names (r # rs) = ?name # entry_names rs" using leaf by (simp add: entry_names_def)
      let ?endpoints = "hm_insert (PaymentEndpointIdentifier ?name) (PaymentEndpointPayload body) endpoints"
      have run: "collect_listed HV p w ?endpoints rs = Inr endpoints'"
        using Cons.prems(1) leaf fetched Some
        by (auto simp: Let_def result_iffs dest: listed_identifier_str split: if_splits)
      have fresh: "\<forall>name \<in> set (entry_names rs). hm_get ?endpoints (PaymentEndpointIdentifier name) = None"
        using Cons.prems(3,4) names by (auto simp: table_simps)
      have "hm_get endpoints' i = Some pl \<longleftrightarrow>
          hm_get ?endpoints i = Some pl \<or> listed_document docs HV rs (identifier_str i) (payload_str pl)"
        using Cons.IH [OF run Cons.prems(2) _ fresh] Cons.prems(3) leaf by (simp add: entry_names_def)
      moreover have "\<not> listed_document docs HV rs ?name b" for b
        using Cons.prems(3) names by (auto dest: listed_document_name)
      moreover have "hm_get endpoints (PaymentEndpointIdentifier ?name) = None"
        using Cons.prems(4) names by simp
      ultimately show ?thesis
        using leaf body by (cases i; cases pl) (auto simp: listed_document_def table_simps)
    qed
  qed
qed

lemma update_member: "x \<in> set (AList.update k v m) \<Longrightarrow> x = (k, v) \<or> x \<in> set m"
  by (induction m) (auto split: if_splits)

lemma collect_listed_sound:
  "collect_listed HV p w endpoints rs = Inr endpoints' \<Longrightarrow> (i, pl) \<in> set endpoints' \<Longrightarrow>
     (i, pl) \<in> set endpoints \<or> (\<exists>q. listed_document (\<lambda>a. hs_get HV q a w) HV rs (identifier_str i) (payload_str pl))"
proof (induction rs arbitrary: endpoints)
  case (Cons r rs)
  let ?name = "last (split_on CHR ''/'' (pe_path r))"
  have weaken: "listed_document docs HV rs n b \<Longrightarrow> listed_document docs HV (r # rs) n b" for docs n b
    by (auto simp: listed_document_def)
  show ?case
  proof (cases "ends_with_char CHR ''/'' (pe_path r)")
    case True
    with Cons weaken show ?thesis by fastforce
  next
    case leaf: False
    with Cons.prems(1) obtain doc where fetched: "fetch_text HV (length rs # p) (hs_entry_addr HV r)
        (''fetch payment endpoint '' @ ?name) w = Inr doc"
      by (auto simp: Let_def result_iffs split: if_splits)
    show ?thesis
    proof (cases doc)
      case None
      then have "collect_listed HV p w endpoints rs = Inr endpoints'"
        using Cons.prems(1) leaf fetched by (simp add: Let_def split: if_splits)
      from Cons.IH [OF this Cons.prems(2)] weaken show ?thesis by blast
    next
      case (Some body)
      let ?docs = "\<lambda>a. hs_get HV (length rs # p) a w"
      have here: "listed_document ?docs HV (r # rs) ?name body"
        using fetched Some leaf by (auto simp: listed_document_def fetch_text_Some)
      have "collect_listed HV p w (hm_insert (PaymentEndpointIdentifier ?name) (PaymentEndpointPayload body) endpoints) rs = Inr endpoints'"
        using Cons.prems(1) leaf fetched Some by (auto simp: Let_def result_iffs dest: listed_identifier_str split: if_splits)
      from Cons.IH [OF this Cons.prems(2)] here weaken show ?thesis by (auto dest!: update_member)
    qed
  qed
qed simp

lemma payment_list_sound:
  assumes "get_payment_list E HV p payee rp w = Some (Inr endpoints)" and "(i, pl) \<in> set endpoints"
  obtains resources q where "list_resources E HV (0 # p) (public_key_display E payee @ payment_endpoint_path_prefix rp)
       ''list payment endpoints'' w = Some (Inr resources)"
    "listed_document (\<lambda>a. hs_get HV q a w) HV resources (identifier_str i) (payload_str pl)"
proof -
  obtain resources where resources: "list_resources E HV (0 # p) (public_key_display E payee @ payment_endpoint_path_prefix rp)
       ''list payment endpoints'' w = Some (Inr resources)" "collect_listed HV (1 # p) w [] resources = Inr endpoints"
    using assms(1) by (auto simp: get_payment_list_def fetch_payment_list_def fetch_payment_list_from_directory_def
        read_bind_ok result_iffs)
  from collect_listed_sound [OF resources(2) assms(2)] that resources(1) show thesis by auto
qed

lemma payment_list_exact:
  assumes "get_payment_list E HV p payee rp w = Some (Inr endpoints)" and "\<forall>q a. hs_get HV q a w = docs a"
    and "list_resources E HV (0 # p) (public_key_display E payee @ payment_endpoint_path_prefix rp) ''list payment endpoints'' w
       = Some (Inr resources)" and "distinct (entry_names resources)"
  shows "hm_get endpoints i = Some pl \<longleftrightarrow> listed_document docs HV resources (identifier_str i) (payload_str pl)"
proof -
  have "collect_listed HV (1 # p) w [] resources = Inr endpoints"
    using assms(1,3) by (auto simp: get_payment_list_def fetch_payment_list_def fetch_payment_list_from_directory_def
        read_bind_def result_iffs)
  from collect_listed_exact [OF this assms(2,4)] show ?thesis by simp
qed

section \<open>Found receivers\<close>

abbreviation advertised_by :: "ext \<Rightarrow> 'w homeserver \<Rightarrow> PublicKey \<Rightarrow> 'w \<Rightarrow> PaykitReceiverPath \<Rightarrow> bool" where
  "advertised_by E HV owner w rp \<equiv>
     PaykitReceiverPath_new (receiver_path_str rp) = Inr rp
     \<and> (\<exists>q. receiver_is_publicly_advertised E HV q owner rp w = Some (Inr True))"

definition found_ok :: "ext \<Rightarrow> 'w homeserver \<Rightarrow> PublicKey \<Rightarrow> 'w \<Rightarrow> PaykitReceiverPath list \<times> PaykitReceiverPath list \<Rightarrow> bool" where
  "found_ok E HV owner w acc \<longleftrightarrow>
     distinct (snd acc) \<and> set (snd acc) \<subseteq> set (fst acc) \<and> (\<forall>rp \<in> set (snd acc). advertised_by E HV owner w rp)"

lemma found_ok_step:
  assumes "found_ok E HV owner w (seen, found)" and "rp \<notin> set seen"
    and "PaykitReceiverPath_new s = Inr rp" and "receiver_is_publicly_advertised E HV q owner rp w = Some (Inr advertised)"
  shows "found_ok E HV owner w (rp # seen, if advertised then found @ [rp] else found)"
  using assms by (auto simp: found_ok_def receiver_path_new_iff)

lemma discover_runtimes_ok:
  "discover_runtimes E HV p owner app w acc rs = Some (Inr acc') \<Longrightarrow> found_ok E HV owner w acc \<Longrightarrow> found_ok E HV owner w acc'"
proof (induction E HV p owner app w acc rs rule: discover_runtimes.induct)
  case (2 E HV p owner app w seen found r rs)
  let ?candidate = "Option.bind (listed_child_segment (pe_path r) (PAYKIT_PATH_PREFIX @ ''/'' @ app @ ''/''))
             (\<lambda>runtime. ok_of (PaykitReceiverPath_new (app @ ''/'' @ runtime)))"
  show ?case
  proof (cases ?candidate)
    case None
    with 2 show ?thesis by simp
  next
    case (Some rp)
    then obtain s where path: "PaykitReceiverPath_new s = Inr rp" by (auto simp: Option.bind_eq_Some_conv ok_of_Some_iff)
    show ?thesis
    proof (cases "rp \<in> set seen")
      case True
      with 2 Some show ?thesis by simp
    next
      case False
      with 2(4) Some obtain advertised where step: "receiver_is_publicly_advertised E HV (length rs # p) owner rp w = Some (Inr advertised)"
          "discover_runtimes E HV p owner app w (rp # seen, if advertised then found @ [rp] else found) rs = Some (Inr acc')"
        by (auto simp: read_bind_ok)
      from 2(3) [OF Some False step(2)] found_ok_step [OF 2(5) False path step(1)] show ?thesis by blast
    qed
  qed
qed simp

lemma discover_apps_ok:
  "discover_apps E HV p owner w acc rs = Some (Inr acc') \<Longrightarrow> found_ok E HV owner w acc \<Longrightarrow> found_ok E HV owner w acc'"
proof (induction E HV p owner w acc rs rule: discover_apps.induct)
  case (2 E HV p owner w acc r rs)
  show ?case
  proof (cases "listed_child_segment (pe_path r) receiver_path_prefix")
    case None
    with 2 show ?thesis by simp
  next
    case (Some app)
    show ?thesis
    proof (cases "is_valid_receiver_app_segment app")
      case False
      with 2 Some show ?thesis by simp
    next
      case True
      with 2(4) Some obtain runtimes mid where step:
          "discover_runtimes E HV (1 # length rs # p) owner app w acc runtimes = Some (Inr mid)"
          "discover_apps E HV p owner w mid rs = Some (Inr acc')"
        by (auto simp: read_bind_ok)
      from 2(3) [OF Some _ step(2)] True discover_runtimes_ok [OF step(1) 2(5)] show ?thesis by blast
    qed
  qed
qed simp

text \<open>C27: Receiver discovery returns each receiver path once, in the order of their texts, and only valid paths
  that the owner advertises by a readable marker or by at least one Payment Endpoint document.\<close>

theorem found_receivers_advertised:
  assumes "list_paykit_receiver_paths E HV p owner w = Some (Inr paths)"
  shows "sorted (map receiver_path_str paths) \<and> distinct paths
     \<and> (\<forall>rp \<in> set paths. PaykitReceiverPath_new (receiver_path_str rp) = Inr rp
          \<and> (\<exists>q. receiver_is_publicly_advertised E HV q owner rp w = Some (Inr True)))"
proof -
  from assms obtain apps seen found where run: "discover_apps E HV (1 # p) owner w ([], []) apps = Some (Inr (seen, found))"
      "paths = sort_key receiver_path_str found"
    by (auto simp: list_paykit_receiver_paths_def fetch_paykit_receiver_paths_def result_iffs read_bind_ok)
  have "found_ok E HV owner w ([], [])" by (simp add: found_ok_def)
  from discover_apps_ok [OF run(1) this] run(2) show ?thesis by (simp add: found_ok_def)
qed

section \<open>A homeserver that keeps an association list\<close>

definition kept_homeserver :: "PublicKey \<Rightarrow> (string, string) hashmap homeserver" where
  "kept_homeserver owner =
     \<lparr>hs_put = (\<lambda>p path body w. (hm_insert (public_key_bytes owner @ path) body w, None)),
      hs_delete = (\<lambda>p path w. (hm_remove (public_key_bytes owner @ path) w,
         if hm_get w (public_key_bytes owner @ path) = None then Some (AnyhowMsg ''404'', True) else None)),
      hs_get = (\<lambda>p addr w. case hm_get w addr of None \<Rightarrow> Inl (AnyhowMsg ''404'', True) | Some body \<Rightarrow> Inr (Inr body)),
      hs_list_builder = (\<lambda>p addr w. None),
      hs_list = (\<lambda>p addr cursor w. Inr (if cursor = None
         then map (\<lambda>(a, _). \<lparr>pe_owner = owner, pe_path = drop (length (public_key_bytes owner)) a\<rparr>)
                (filter (\<lambda>(a, _). strip_prefix addr a \<noteq> None) w) else [])),
      hs_entry_addr = (\<lambda>r. public_key_bytes (pe_owner r) @ pe_path r),
      hs_utf8_error = (\<lambda>s. AnyhowMsg ''invalid utf-8'')\<rparr>"

lemma kept_homeserver_stores: "homeserver_stores (kept_homeserver owner) (public_key_bytes owner)"
  by (auto simp: homeserver_stores_def kept_homeserver_def table_simps split: if_splits)

definition sample_receiver :: PaykitReceiverPath where
  "sample_receiver = PaykitReceiverPath ''bitkit/server''"

definition sample_receiver_marker :: PaykitReceiverMarker where
  "sample_receiver_marker = PaykitReceiverMarker_new sample_receiver
     \<lparr>cap_private_payments = True, cap_payment_requests = True, cap_receipts = True, cap_outgoing_payments = False\<rparr> (PublicKey ''n'')"

definition sample_routing_ext :: ext where
  "sample_routing_ext = table_ext [(''M'', ser_ReceiverMarkerWire (receiver_marker_to_wire (table_ext []) sample_receiver_marker))]"

definition marked_homeserver :: "(string, string) hashmap" where
  "marked_homeserver = fst (publish_paykit_receiver_marker sample_routing_ext (kept_homeserver (PublicKey ''o'')) [] sample_receiver_marker [])"

lemma marked_homeserver_published:
  "publish_paykit_receiver_marker sample_routing_ext (kept_homeserver (PublicKey ''o'')) [] sample_receiver_marker [] = (marked_homeserver, Inr ())"
  by code_simp

theorem receiver_marker_publication_witness:
  "get_paykit_receiver_marker sample_routing_ext (kept_homeserver (PublicKey ''o'')) [] (PublicKey ''o'') sample_receiver marked_homeserver
     = Inr (Some sample_receiver_marker)"
proof -
  have path: "pm_receiver_path sample_receiver_marker = sample_receiver" and text_M: "valid_utf8 ''M''" by code_simp+
  have "homeserver_stores (kept_homeserver (PublicKey ''o'')) (public_key_display sample_routing_ext (PublicKey ''o''))"
    using kept_homeserver_stores [of "PublicKey ''o''"] by (simp add: sample_routing_ext_def table_ext_def)
  moreover have "public_key_roundtrip sample_routing_ext" "json_prints_back sample_routing_ext"
    by (simp_all add: sample_routing_ext_def table_ext_laws table_ext_prints_back)
  moreover have "json_prints_text sample_routing_ext"
    using text_M by (auto simp: json_prints_text_def sample_routing_ext_def table_ext_def simp del: valid_utf8.simps split: option.splits if_splits)
  moreover have "PaykitReceiverPath_new (receiver_path_str (pm_receiver_path sample_receiver_marker)) = Inr (pm_receiver_path sample_receiver_marker)"
    by code_simp
  ultimately show ?thesis
    using receiver_marker_publication [of "kept_homeserver (PublicKey ''o'')" sample_routing_ext "PublicKey ''o''"
        sample_receiver_marker "[]" "[]" marked_homeserver "[]"] marked_homeserver_published
    by (simp add: path)
qed

lemma kept_listing:
  assumes "length w < ROUTING_PAGE_LIMIT"
  shows "list_resources E (kept_homeserver owner) p addr label w = Some (Inr
     (map (\<lambda>(a, _). \<lparr>pe_owner = owner, pe_path = drop (length (public_key_bytes owner)) a\<rparr>)
        (filter (\<lambda>(a, _). strip_prefix addr a \<noteq> None) w)))"
proof -
  have "length (filter Q w) < ROUTING_PAGE_LIMIT" for Q using le_less_trans [OF length_filter_le assms] .
  then show ?thesis
    by (subst list_resources_def, subst list_resources_loop.simps) (auto simp: kept_homeserver_def)
qed

lemma marked_homeserver_eq: "marked_homeserver = [(''o/pub/paykit/v0/bitkit/server/receiver.json'', ''M'')]"
  by code_simp

lemma sample_receivers_found:
  "list_paykit_receiver_paths sample_routing_ext (kept_homeserver (PublicKey ''o'')) [] (PublicKey ''o'') marked_homeserver = Some (Inr [sample_receiver])"
proof -
  let ?HV = "kept_homeserver (PublicKey ''o'')"
  let ?entry = "\<lparr>pe_owner = PublicKey ''o'', pe_path = ''/pub/paykit/v0/bitkit/server/receiver.json''\<rparr>"
  have listing: "list_resources sample_routing_ext ?HV p addr label marked_homeserver
      = Some (Inr (if strip_prefix addr ''o/pub/paykit/v0/bitkit/server/receiver.json'' \<noteq> None then [?entry] else []))" for p addr label
    by (simp add: kept_listing marked_homeserver_eq ROUTING_PAGE_LIMIT_def)
  have keys: "public_key_display sample_routing_ext (PublicKey ''o'') = ''o''" by code_simp
  have prefixes: "strip_prefix (''o'' @ receiver_path_prefix) ''o/pub/paykit/v0/bitkit/server/receiver.json'' \<noteq> None"
    "strip_prefix (''o'' @ PAYKIT_PATH_PREFIX @ ''/'' @ ''bitkit'' @ ''/'') ''o/pub/paykit/v0/bitkit/server/receiver.json'' \<noteq> None"
    by code_simp+
  have segments: "listed_child_segment ''/pub/paykit/v0/bitkit/server/receiver.json'' receiver_path_prefix = Some ''bitkit''"
    "listed_child_segment ''/pub/paykit/v0/bitkit/server/receiver.json'' (PAYKIT_PATH_PREFIX @ ''/'' @ ''bitkit'' @ ''/'') = Some ''server''"
    "is_valid_receiver_app_segment ''bitkit''" "PaykitReceiverPath_new (''bitkit'' @ ''/'' @ ''server'') = Inr sample_receiver"
    by code_simp+
  have marker: "fetch_paykit_receiver_marker sample_routing_ext ?HV [0, 0, 1, 0, 1] (PublicKey ''o'') sample_receiver marked_homeserver
      = Inr (Some sample_receiver_marker)"
    by code_simp
  then have advertised: "receiver_is_publicly_advertised sample_routing_ext ?HV [0, 1, 0, 1] (PublicKey ''o'') sample_receiver marked_homeserver
      = Some (Inr True)"
    by (simp add: receiver_is_publicly_advertised_def)
  have runtimes: "discover_runtimes sample_routing_ext ?HV [1, 0, 1] (PublicKey ''o'') ''bitkit'' marked_homeserver ([], []) [?entry]
      = Some (Inr ([sample_receiver], [sample_receiver]))"
    using segments advertised by (simp add: read_bind_def)
  have "discover_apps sample_routing_ext ?HV [1] (PublicKey ''o'') marked_homeserver ([], []) [?entry]
      = Some (Inr ([sample_receiver], [sample_receiver]))"
    using segments prefixes runtimes by (simp add: read_bind_def listing keys)
  then show ?thesis
    using prefixes(1) by (simp add: list_paykit_receiver_paths_def fetch_paykit_receiver_paths_def listing keys read_bind_def)
qed

theorem found_receivers_advertised_witness:
  "\<exists>q. receiver_is_publicly_advertised sample_routing_ext (kept_homeserver (PublicKey ''o'')) q (PublicKey ''o'') sample_receiver
     marked_homeserver = Some (Inr True)"
  using found_receivers_advertised [OF sample_receivers_found] by simp

end
