(* ===== verification/Payment_Resolution.thy ===== *)
theory Payment_Resolution
  imports Payment_Adapter Pubky_Routing
begin

text \<open>
  Choosing where to pay a counterparty (\<^verbatim>\<open>paykit-sdk/src/runtime/payment_resolution.rs\<close>,
  \<^verbatim>\<open>domain/payment_resolution.rs\<close>): candidates from the private list that was received last or from the
  public endpoints, the order the payment adapter gives them, and the preparation of a private payment
  that ensures the link and exchanges waiting messages first. The theory shows that a payable private
  endpoint comes from the newest valid list in the store, and that the preparation ends.
\<close>

section \<open>Results\<close>

datatype PublicPaymentResolutionStatus = PublicPayable | PublicNoEndpoint | PublicUnsupportedEndpoint

datatype PrivatePaymentResolutionStatus =
  Payable | NoEndpoint | UnsupportedEndpoint | WaitingForUpdatedPaymentList

datatype PrivatePaymentResolutionState = Available | NoPrivateEndpoint | RecoveryPending

record ResolvedPublicPaymentEndpoint =
  ue_endpoint :: PublicPaymentEndpointCandidate
  ue_target :: PaymentTarget

record ResolvedPrivatePaymentEndpoint =
  ve_endpoint :: PrivatePaymentEndpointCandidate
  ve_target :: PaymentTarget

record PublicContactPaymentResolution =
  ur_status :: PublicPaymentResolutionStatus
  ur_payable_endpoints :: "ResolvedPublicPaymentEndpoint list"

record PrivateContactPaymentResolution =
  vr_status :: PrivatePaymentResolutionStatus
  vr_state :: PrivatePaymentResolutionState
  vr_private_payment_list_version :: "u64 option"
  vr_payable_endpoints :: "ResolvedPrivatePaymentEndpoint list"

record PreparedPrivateContactPayment =
  pp_resolution :: PrivateContactPaymentResolution
  pp_link_report :: "LinkedPeerHandshakeReport option"
  pp_receive_report :: "PrivateStreamIntakeReport option"
  pp_outbound_report :: "OutboundPrivateSendReport option"

definition unresolved_public_resolution :: "bool \<Rightarrow> PublicContactPaymentResolution" where
  "unresolved_public_resolution had_candidates =
     \<lparr>ur_status = (if had_candidates then PublicUnsupportedEndpoint else PublicNoEndpoint), ur_payable_endpoints = []\<rparr>"

definition unresolved_private_resolution ::
  "bool \<Rightarrow> PrivatePaymentResolutionState \<Rightarrow> u64 option \<Rightarrow> PrivateContactPaymentResolution" where
  "unresolved_private_resolution had_candidates state version =
     \<lparr>vr_status = (if had_candidates then UnsupportedEndpoint else NoEndpoint), vr_state = state,
      vr_private_payment_list_version = version, vr_payable_endpoints = []\<rparr>"

definition waiting_for_updated_private_payment_list ::
  "PrivatePaymentResolutionState \<Rightarrow> u64 \<Rightarrow> PrivateContactPaymentResolution" where
  "waiting_for_updated_private_payment_list state version =
     \<lparr>vr_status = WaitingForUpdatedPaymentList, vr_state = state,
      vr_private_payment_list_version = Some version, vr_payable_endpoints = []\<rparr>"

section \<open>Candidates\<close>

record PrivatePaymentCandidateBatch =
  cb_private_payment_list_version :: u64
  cb_candidates :: "PrivatePaymentEndpointCandidate list"

datatype PrivateRecoveryOutcome = NotNeeded | RefreshPending | Refreshed "PrivatePaymentCandidateBatch option"

definition has_candidates :: "PrivatePaymentCandidateBatch \<Rightarrow> bool" where
  "has_candidates b \<longleftrightarrow> cb_candidates b \<noteq> []"

definition is_newer_than :: "PrivatePaymentCandidateBatch \<Rightarrow> u64 option \<Rightarrow> bool" where
  "is_newer_than b previous = (case previous of None \<Rightarrow> True | Some version \<Rightarrow> version < cb_private_payment_list_version b)"

definition private_candidate_batch ::
  "PubkyPublicKey \<Rightarrow> PaykitReceiverPath \<Rightarrow> PrivatePaymentListView option \<Rightarrow> PrivatePaymentCandidateBatch option sdk_res" where
  "private_candidate_batch cp rp view =
     (case view of
        None \<Rightarrow> Inr None
      | Some v \<Rightarrow>
          (case plv_latest_stream_item_id v of
             None \<Rightarrow> Inl (SdkProtocol ''current Private Payment List has no stream item id'' None)
           | Some version \<Rightarrow>
               Inr (Some \<lparr>cb_private_payment_list_version = version,
                 cb_candidates = sort_key vc_identifier
                   (map (\<lambda>(identifier, payload). \<lparr>vc_counterparty = cp, vc_path = rp, vc_identifier = identifier, vc_payload = payload\<rparr>)
                     (plv_payment_endpoints v))\<rparr>)))"

fun payable_from_batch :: "'a list \<Rightarrow> 'a list \<Rightarrow> 'a list \<Rightarrow> 'a list sdk_res" where
  "payable_from_batch payable [] candidates = Inr payable"
| "payable_from_batch payable (c # selected) candidates =
     (if c \<notin> set candidates
      then Inl (SdkProtocol ''PaymentAdapter returned a payable endpoint that was not in the candidate batch'' None)
      else if c \<in> set payable
      then Inl (SdkProtocol ''PaymentAdapter returned duplicate payable endpoints'' None)
      else payable_from_batch (payable @ [c]) selected candidates)"

definition public_payable_from_batch ::
  "PublicPaymentEndpointCandidate list \<Rightarrow> PublicPaymentEndpointCandidate list \<Rightarrow> PublicPaymentEndpointCandidate list sdk_res" where
  "public_payable_from_batch selected candidates = payable_from_batch [] selected candidates"

definition private_payable_from_batch ::
  "PrivatePaymentEndpointCandidate list \<Rightarrow> PrivatePaymentEndpointCandidate list \<Rightarrow> PrivatePaymentEndpointCandidate list sdk_res" where
  "private_payable_from_batch selected candidates = payable_from_batch [] selected candidates"

fun build_public_payable_endpoints ::
  "payment_adapter \<Rightarrow> nat list \<Rightarrow> PublicPaymentEndpointCandidate list \<Rightarrow> ResolvedPublicPaymentEndpoint list sdk_res" where
  "build_public_payable_endpoints A p [] = Inr []"
| "build_public_payable_endpoints A p (c # cs) =
     rbind (pa_public_target A (length cs # p) c) (\<lambda>target.
     rbind (build_public_payable_endpoints A p cs) (\<lambda>rest. Inr (\<lparr>ue_endpoint = c, ue_target = target\<rparr> # rest)))"

fun build_private_payable_endpoints ::
  "payment_adapter \<Rightarrow> nat list \<Rightarrow> PrivatePaymentEndpointCandidate list \<Rightarrow> ResolvedPrivatePaymentEndpoint list sdk_res" where
  "build_private_payable_endpoints A p [] = Inr []"
| "build_private_payable_endpoints A p (c # cs) =
     rbind (pa_private_target A (length cs # p) c) (\<lambda>target.
     rbind (build_private_payable_endpoints A p cs) (\<lambda>rest. Inr (\<lparr>ve_endpoint = c, ve_target = target\<rparr> # rest)))"

definition resolve_public_candidate_batch ::
  "payment_adapter \<Rightarrow> nat list \<Rightarrow> PubkyPublicKey \<Rightarrow> PaykitReceiverPath \<Rightarrow> PaymentAmountContext option \<Rightarrow>
   PublicPaymentEndpointCandidate list \<Rightarrow> PublicContactPaymentResolution sdk_res" where
  "resolve_public_candidate_batch A p cp rp amount candidates =
     rbind (pa_select_public A p \<lparr>usr_counterparty = cp, usr_path = rp, usr_amount = amount, usr_candidates = candidates\<rparr>) (\<lambda>selected.
     rbind (public_payable_from_batch selected candidates) (\<lambda>payable.
     rbind (build_public_payable_endpoints A p payable) (\<lambda>endpoints.
     Inr (if endpoints = [] then unresolved_public_resolution True
          else \<lparr>ur_status = PublicPayable, ur_payable_endpoints = endpoints\<rparr>))))"

definition resolve_private_candidate_batch ::
  "payment_adapter \<Rightarrow> nat list \<Rightarrow> PubkyPublicKey \<Rightarrow> PaykitReceiverPath \<Rightarrow> PaymentAmountContext option \<Rightarrow>
   PrivatePaymentEndpointCandidate list \<Rightarrow> PrivatePaymentResolutionState \<Rightarrow> u64 \<Rightarrow> PrivateContactPaymentResolution sdk_res" where
  "resolve_private_candidate_batch A p cp rp amount candidates state version =
     rbind (pa_select_private A p \<lparr>vsr_counterparty = cp, vsr_path = rp, vsr_amount = amount, vsr_candidates = candidates\<rparr>) (\<lambda>selected.
     rbind (private_payable_from_batch selected candidates) (\<lambda>payable.
     rbind (build_private_payable_endpoints A p payable) (\<lambda>endpoints.
     Inr (if endpoints = [] then unresolved_private_resolution True state (Some version)
          else \<lparr>vr_status = Payable, vr_state = state, vr_private_payment_list_version = Some version,
                vr_payable_endpoints = endpoints\<rparr>))))"

section \<open>Public endpoints\<close>

text \<open>Reading the Payment List may not return when the listing of the directory does not.\<close>

definition public_payment_candidates ::
  "ext \<Rightarrow> net \<Rightarrow> 'w homeserver \<Rightarrow> nat list \<Rightarrow> PubkyPublicKey \<Rightarrow> PaykitReceiverPath \<Rightarrow> 'w \<Rightarrow>
   PublicPaymentEndpointCandidate list sdk_res option" where
  "public_payment_candidates E V HV p cp rp w =
     (case nv_public_storage V p of
        Inl e \<Rightarrow> Some (Inl e)
      | Inr available \<Rightarrow>
          if \<not> available
          then Some (Inl (SdkIdentity ''no Pubky public storage available for public Payment Endpoint lookup'' None))
          else (case to_public_key E cp of
                  Inl e \<Rightarrow> Some (Inl e)
                | Inr key \<Rightarrow>
                    map_option (\<lambda>listed. rbind (map_err sdk_error_of_lib listed) (\<lambda>endpoints.
                      Inr (sort_key uc_identifier
                        (map (\<lambda>(identifier, payload). \<lparr>uc_counterparty = cp, uc_path = rp, uc_identifier = identifier_str identifier,
                               uc_payload = payload_str payload\<rparr>) endpoints))))
                      (get_payment_list E HV p key rp w)))"

definition resolve_public_contact_payment ::
  "ext \<Rightarrow> net \<Rightarrow> payment_adapter \<Rightarrow> 'w homeserver \<Rightarrow> nat list \<Rightarrow> PubkyPublicKey \<Rightarrow> PaykitReceiverPath \<Rightarrow>
   PaymentAmountContext option \<Rightarrow> 'w \<Rightarrow> PublicContactPaymentResolution sdk_res option" where
  "resolve_public_contact_payment E V A HV p cp rp amount w =
     map_option (\<lambda>found. rbind found (\<lambda>candidates.
       if candidates = [] then Inr (unresolved_public_resolution False)
       else resolve_public_candidate_batch A (1 # p) cp rp amount candidates))
       (public_payment_candidates E V HV (0 # p) cp rp w)"

section \<open>Private lists\<close>

definition private_resolution_allowed_for_peer ::
  "PubkyPublicKey \<Rightarrow> PaykitReceiverPath \<Rightarrow> PrivatePaymentResolutionState \<Rightarrow> (bool \<times> PrivatePaymentResolutionState) rt" where
  "private_resolution_allowed_for_peer cp rp state =
     rt_catch (rt_check (ensure_peer_allows_private_automation cp rp))
       (\<lambda>err. case err of SdkRecoveryRequired _ _ \<Rightarrow> rt_return (False, RecoveryPending) | _ \<Rightarrow> rt_fail err)
       (\<lambda>_. rt_return (True, state))"

definition cached_private_resolution_allowed_for_peer ::
  "PubkyPublicKey \<Rightarrow> PaykitReceiverPath \<Rightarrow> PrivatePaymentResolutionState \<Rightarrow> (bool \<times> PrivatePaymentResolutionState) rt" where
  "cached_private_resolution_allowed_for_peer cp rp state =
     rt_bind (rt_read (\<lambda>s. map_option lp_state (linked_peer s (cp, rp)))) (\<lambda>peer_state.
     if peer_state = Some Linking \<or> peer_state = Some RecoveryRequiredState then rt_return (False, RecoveryPending)
     else if peer_state = Some Blocked then rt_fail (SdkPolicy (''counterparty '' @ z32 cp @ '' is blocked'') None)
     else rt_return (True, state))"

definition private_resolution_gate ::
  "ext \<Rightarrow> net \<Rightarrow> PaykitSdkConfig \<Rightarrow> nat list \<Rightarrow> PubkyPublicKey \<Rightarrow> PaykitReceiverPath \<Rightarrow> bool \<Rightarrow> bool \<Rightarrow>
   (bool \<times> PrivatePaymentResolutionState) rt" where
  "private_resolution_gate E V cfg p cp rp live initialized =
     rt_bind (if \<not> initialized then rt_return (False, NoPrivateEndpoint)
              else if live then private_resolution_allowed_for_peer cp rp NoPrivateEndpoint
              else cached_private_resolution_allowed_for_peer cp rp NoPrivateEndpoint) (\<lambda>(allowed, state).
     if \<not> (allowed \<and> live) then rt_return (allowed, state)
     else rt_catch (observe_remote_recovery_marker_for_cached_private_state E V cfg p cp rp True)
            (\<lambda>err. case err of SdkRecoveryRequired _ _ \<Rightarrow> rt_return (False, RecoveryPending) | _ \<Rightarrow> rt_fail err)
            (\<lambda>_. private_resolution_allowed_for_peer cp rp state))"

definition load_candidate_batch ::
  "ext \<Rightarrow> PubkyPublicKey \<Rightarrow> PaykitReceiverPath \<Rightarrow> PrivatePaymentCandidateBatch option rt" where
  "load_candidate_batch E cp rp =
     rt_bind (rt_check (\<lambda>s. current_private_payment_list E s cp rp)) (\<lambda>view. rt_lift (private_candidate_batch cp rp view))"

text \<open>Which errors of a refresh leave the resolution pending.\<close>

fun refresh_pending :: "sdk_error \<Rightarrow> bool" where
  "refresh_pending (SdkPolicy _ _) = True"
| "refresh_pending (SdkRecoveryRequired _ _) = True"
| "refresh_pending (SdkTransport _ _) = True"
| "refresh_pending (SdkProtocol _ _) = True"
| "refresh_pending _ = False"

definition recover_private_candidates_for_resolution ::
  "ext \<Rightarrow> 'n link_net \<Rightarrow> PaykitSdkConfig \<Rightarrow> nat list \<Rightarrow> PubkyPublicKey \<Rightarrow> PaykitReceiverPath \<Rightarrow> PrivateRecoveryOutcome prt" where
  "recover_private_candidates_for_resolution E H cfg p cp rp =
     prt_bind (prt_of (rt_read load_identity_state)) (\<lambda>identity.
     if Option.bind identity id_public_key = None then prt_of (rt_return NotNeeded)
     else
     prt_bind (prt_of (rt_read (\<lambda>s. (map_option lp_state (linked_peer s (cp, rp)),
        Option.bind (encrypted_link_state s (cp, rp)) ls_link_snapshot \<noteq> None)))) (\<lambda>(peer_state, has_active_link).
     if peer_state = Some Linking \<or> peer_state = Some RecoveryRequiredState then prt_of (rt_return RefreshPending)
     else if \<not> has_active_link then prt_of (rt_return NotNeeded)
     else
     prt_bind (prt_of (observe_remote_recovery_marker_for_cached_private_state E (ln_net H) cfg (0 # p) cp rp False)) (\<lambda>_.
     prt_catch (receive_private_messages E H cfg (1 # p) cp rp)
       (\<lambda>err. prt_of (if refresh_pending err then rt_return RefreshPending else rt_fail err))
       (\<lambda>_. prt_of (rt_bind (load_candidate_batch E cp rp) (\<lambda>batch. rt_return (Refreshed batch)))))))"

definition offers :: "PrivatePaymentCandidateBatch option \<Rightarrow> bool" where
  "offers batch = (case batch of None \<Rightarrow> False | Some b \<Rightarrow> has_candidates b)"

text \<open>The candidates in the store, and those after a refresh when the store has none.\<close>

definition stored_candidates ::
  "ext \<Rightarrow> net \<Rightarrow> PaykitSdkConfig \<Rightarrow> nat list \<Rightarrow> PubkyPublicKey \<Rightarrow> PaykitReceiverPath \<Rightarrow>
   (bool \<times> PrivatePaymentResolutionState \<times> PrivatePaymentCandidateBatch option) rt" where
  "stored_candidates E V cfg p cp rp =
     rt_bind (refresh_identity cfg (nv_session V (0 # p)) (nv_now V (0 # p))) (\<lambda>(access, identity).
     rt_bind (private_resolution_gate E V cfg (1 # p) cp rp (access \<noteq> None) (id_public_key identity \<noteq> None)) (\<lambda>(allowed, state).
     rt_bind (if allowed then load_candidate_batch E cp rp else rt_lift (private_candidate_batch cp rp None)) (\<lambda>batch.
     rt_return (access \<noteq> None, if offers batch then Available else state, batch))))"

definition refreshed_candidates ::
  "ext \<Rightarrow> 'n link_net \<Rightarrow> PaykitSdkConfig \<Rightarrow> nat list \<Rightarrow> PubkyPublicKey \<Rightarrow> PaykitReceiverPath \<Rightarrow> bool \<Rightarrow>
   PrivatePaymentResolutionState \<Rightarrow> PrivatePaymentCandidateBatch option \<Rightarrow>
   (PrivatePaymentResolutionState \<times> PrivatePaymentCandidateBatch option) prt" where
  "refreshed_candidates E H cfg p cp rp live state batch =
     (if \<not> offers batch \<and> live \<and> state \<noteq> RecoveryPending
      then prt_bind (recover_private_candidates_for_resolution E H cfg p cp rp) (\<lambda>outcome.
           prt_of (rt_return (case outcome of
               Refreshed refreshed \<Rightarrow> (if offers refreshed then Available else state, refreshed)
             | RefreshPending \<Rightarrow> (RecoveryPending, batch)
             | NotNeeded \<Rightarrow> (state, batch))))
      else prt_of (rt_return (state, batch)))"

definition resolve_batch ::
  "payment_adapter \<Rightarrow> nat list \<Rightarrow> PubkyPublicKey \<Rightarrow> PaykitReceiverPath \<Rightarrow> PaymentAmountContext option \<Rightarrow> u64 option \<Rightarrow>
   PrivatePaymentResolutionState \<Rightarrow> PrivatePaymentCandidateBatch option \<Rightarrow> PrivateContactPaymentResolution sdk_res" where
  "resolve_batch A p cp rp amount after state batch =
     (case batch of
        None \<Rightarrow> Inr (unresolved_private_resolution False state None)
      | Some b \<Rightarrow>
          if \<not> is_newer_than b after
          then Inr (waiting_for_updated_private_payment_list state (cb_private_payment_list_version b))
          else if \<not> has_candidates b
          then Inr (unresolved_private_resolution False state (Some (cb_private_payment_list_version b)))
          else resolve_private_candidate_batch A p cp rp amount (cb_candidates b) state (cb_private_payment_list_version b))"

definition resolve_private_contact_payment ::
  "ext \<Rightarrow> 'n link_net \<Rightarrow> payment_adapter \<Rightarrow> PaykitSdkConfig \<Rightarrow> nat list \<Rightarrow> PubkyPublicKey \<Rightarrow> PaykitReceiverPath \<Rightarrow>
   PaymentAmountContext option \<Rightarrow> u64 option \<Rightarrow> PrivateContactPaymentResolution prt" where
  "resolve_private_contact_payment E H A cfg p cp rp amount after =
     prt_bind (prt_of (stored_candidates E (ln_net H) cfg (0 # p) cp rp)) (\<lambda>(live, state, batch).
     prt_bind (refreshed_candidates E H cfg (1 # p) cp rp live state batch) (\<lambda>(state, batch).
     prt_of (rt_lift (resolve_batch A (2 # p) cp rp amount after state batch))))"

section \<open>Preparing a private payment\<close>

definition PREPARE_PRIVATE_PAYMENT_SYNC_ROUND_LIMIT :: nat where
  "PREPARE_PRIVATE_PAYMENT_SYNC_ROUND_LIMIT = 8"

definition merge_outbound_report :: "OutboundPrivateSendReport option \<Rightarrow> OutboundPrivateSendReport \<Rightarrow> OutboundPrivateSendReport option" where
  "merge_outbound_report current report =
     Some (case current of
       None \<Rightarrow> report
     | Some r \<Rightarrow> \<lparr>osr_attempted = osr_attempted r @ osr_attempted report, osr_sent = osr_sent r @ osr_sent report,
         osr_failed = osr_failed r @ osr_failed report,
         osr_reservation_cleanup_failures = osr_reservation_cleanup_failures r @ osr_reservation_cleanup_failures report,
         osr_recovery_marker_failures = osr_recovery_marker_failures r @ osr_recovery_marker_failures report\<rparr>)"

definition merge_receive_report :: "PrivateStreamIntakeReport option \<Rightarrow> PrivateStreamIntakeReport \<Rightarrow> PrivateStreamIntakeReport option" where
  "merge_receive_report current report =
     Some (case current of
       None \<Rightarrow> report
     | Some r \<Rightarrow> r\<lparr>ir_stream_item_ids := ir_stream_item_ids r @ ir_stream_item_ids report,
         ir_event_conflicts := ir_event_conflicts r @ ir_event_conflicts report\<rparr>)"

definition outbound_report_made_progress :: "OutboundPrivateSendReport \<Rightarrow> bool" where
  "outbound_report_made_progress r \<longleftrightarrow> osr_attempted r \<noteq> [] \<or> osr_sent r \<noteq> [] \<or> osr_failed r \<noteq> []"

definition receive_report_made_progress :: "PrivateStreamIntakeReport \<Rightarrow> bool" where
  "receive_report_made_progress r \<longleftrightarrow> ir_stream_item_ids r \<noteq> [] \<or> ir_event_conflicts r \<noteq> []"

definition private_payment_preparation_is_available :: "net \<Rightarrow> PaykitSdkConfig \<Rightarrow> nat list \<Rightarrow> bool rt" where
  "private_payment_preparation_is_available V cfg p =
     rt_bind (refresh_identity cfg (nv_session V p) (nv_now V p)) (\<lambda>(access, _). rt_return (access \<noteq> None))"

fun sync_rounds ::
  "ext \<Rightarrow> 'n link_net \<Rightarrow> payment_adapter \<Rightarrow> PaykitSdkConfig \<Rightarrow> nat list \<Rightarrow> PubkyPublicKey \<Rightarrow> PaykitReceiverPath \<Rightarrow> nat \<Rightarrow>
   OutboundPrivateSendReport option \<Rightarrow> PrivateStreamIntakeReport option \<Rightarrow>
   (OutboundPrivateSendReport option \<times> PrivateStreamIntakeReport option) prt" where
  "sync_rounds E H A cfg p cp rp 0 outbound_report receive_report = prt_of (rt_return (outbound_report, receive_report))"
| "sync_rounds E H A cfg p cp rp (Suc n) outbound_report receive_report =
     prt_bind (process_outbound_private_messages E H (pa_cancel A) cfg (0 # n # p) cp rp) (\<lambda>outbound.
     prt_bind (receive_private_messages E H cfg (1 # n # p) cp rp) (\<lambda>received.
     if \<not> outbound_report_made_progress outbound \<and> \<not> receive_report_made_progress received
     then prt_of (rt_return (merge_outbound_report outbound_report outbound, merge_receive_report receive_report received))
     else sync_rounds E H A cfg p cp rp n (merge_outbound_report outbound_report outbound)
            (merge_receive_report receive_report received)))"

definition prepare_and_resolve_private_contact_payment ::
  "ext \<Rightarrow> 'n link_net \<Rightarrow> payment_adapter \<Rightarrow> PaykitSdkConfig \<Rightarrow> nat list \<Rightarrow> PubkyPublicKey \<Rightarrow> PaykitReceiverPath \<Rightarrow>
   PaymentAmountContext option \<Rightarrow> u64 option \<Rightarrow> u32 \<Rightarrow> PreparedPrivateContactPayment prt" where
  "prepare_and_resolve_private_contact_payment E H A cfg p cp rp amount after max_advance_steps =
     prt_bind (prt_of (private_payment_preparation_is_available (ln_net H) cfg (0 # p))) (\<lambda>available.
     prt_bind (if \<not> available then prt_of (rt_return (None, None, None))
               else prt_bind (prt_of (ensure_link_with_peer E H cfg (1 # p) cp rp max_advance_steps)) (\<lambda>link_report.
                    prt_bind (sync_rounds E H A cfg (2 # p) cp rp PREPARE_PRIVATE_PAYMENT_SYNC_ROUND_LIMIT None None)
                      (\<lambda>(outbound, received). prt_of (rt_return (Some link_report, outbound, received)))))
       (\<lambda>(link_report, outbound, received).
     prt_bind (resolve_private_contact_payment E H A cfg (3 # p) cp rp amount after) (\<lambda>resolution.
     prt_of (rt_return \<lparr>pp_resolution = resolution, pp_link_report = link_report, pp_receive_report = received,
       pp_outbound_report = outbound\<rparr>))))"

section \<open>Endpoints come from the newest list\<close>

definition valid_list :: "PrivateStreamItemRecord \<Rightarrow> bool" where
  "valid_list i \<longleftrightarrow> si_parse_status i = Valid \<and> si_known_paykit_kind i = Some (kind_as_str PrivatePaymentListKind)"

lemma find_descending:
  "sorted_wrt (\<lambda>a b. f b \<le> f a) xs \<Longrightarrow> List.find P xs = Some x \<Longrightarrow> y \<in> set xs \<Longrightarrow> P y \<Longrightarrow> (f y :: 'b :: linorder) \<le> f x"
  by (induction xs) (auto split: if_splits)

lemma find_member: "List.find P xs = Some x \<Longrightarrow> x \<in> set xs \<and> P x"
  by (induction xs) (auto split: if_splits)

lemma current_list_newest:
  assumes "current_private_payment_list E s cp rp = Inr (Some view)"
  obtains item l where "item \<in> set (private_stream_items s cp rp)" "valid_list item"
    "\<forall>other \<in> set (private_stream_items s cp rp). valid_list other \<longrightarrow> si_id other \<le> si_id item"
    "parse_private_payment_list_json E (si_raw_json item) = Inr l" "plv_latest_stream_item_id view = Some (si_id item)"
    "plv_payment_endpoints view = map (\<lambda>(k, v). (identifier_str k, payload_str v)) (ppl_payment_endpoints l)"
proof -
  let ?items = "private_stream_items s cp rp"
  obtain item l where found: "List.find valid_list (rev (sort_key si_id ?items)) = Some item"
    and l: "parse_private_payment_list_json E (si_raw_json item) = Inr l" "plv_latest_stream_item_id view = Some (si_id item)"
      "plv_payment_endpoints view = map (\<lambda>(k, v). (identifier_str k, payload_str v)) (ppl_payment_endpoints l)"
    using assms
    by (auto simp: current_private_payment_list_def derive_private_payment_list_view_def rbind_Inr_iff map_err_Inr_iff
        valid_list_def [abs_def] split: option.splits)
  have "sorted_wrt (\<lambda>a b. si_id b \<le> si_id a) (rev (sort_key si_id ?items))"
    using sorted_sort_key [of si_id ?items] by (simp add: sorted_wrt_rev sorted_map)
  from find_descending [OF this found] have "si_id other \<le> si_id item" if "other \<in> set ?items" "valid_list other" for other
    using that by simp
  moreover have "item \<in> set ?items" "valid_list item" using find_member [OF found] by simp_all
  ultimately show thesis using l that by blast
qed

lemma payable_batch_ok:
  "payable_from_batch payable selected candidates = Inr result \<Longrightarrow> distinct payable \<Longrightarrow> set payable \<subseteq> set candidates \<Longrightarrow>
     distinct result \<and> set result \<subseteq> set candidates"
  by (induction selected arbitrary: payable) (auto split: if_splits)

lemma build_private_endpoints: "build_private_payable_endpoints A p cs = Inr es \<Longrightarrow> map ve_endpoint es = cs"
  by (induction cs arbitrary: es) (auto simp: rbind_Inr_iff)

lemma batch_candidates:
  assumes "load_candidate_batch E cp rp s = (t, Inr (Some b))"
  obtains view where "current_private_payment_list E s cp rp = Inr (Some view)" "t = s"
    "plv_latest_stream_item_id view = Some (cb_private_payment_list_version b)"
    "set (cb_candidates b) = (\<lambda>(i, pl). \<lparr>vc_counterparty = cp, vc_path = rp, vc_identifier = i, vc_payload = pl\<rparr>) ` set (plv_payment_endpoints view)"
proof -
  obtain view where view: "current_private_payment_list E s cp rp = Inr view" "private_candidate_batch cp rp view = Inr (Some b)" "t = s"
    using assms by (auto simp: load_candidate_batch_def rt_bind_ok rt_check_def rt_lift_def)
  then obtain v version where v: "view = Some v" "plv_latest_stream_item_id v = Some version"
    by (auto simp: private_candidate_batch_def split: option.splits)
  with view(2) have "b = \<lparr>cb_private_payment_list_version = version,
      cb_candidates = sort_key vc_identifier
        (map (\<lambda>(i, pl). \<lparr>vc_counterparty = cp, vc_path = rp, vc_identifier = i, vc_payload = pl\<rparr>) (plv_payment_endpoints v))\<rparr>"
    by (simp add: private_candidate_batch_def)
  with view v show thesis by (intro that [of v]) simp_all
qed

lemma stored_candidates_loaded:
  assumes "stored_candidates E V cfg p cp rp s = (t, Inr (live, state, batch))"
  shows "batch = None \<or> load_candidate_batch E cp rp t = (t, Inr batch)"
  using assms
  by (auto simp: stored_candidates_def rt_bind_ok rt_lift_def rt_return_def private_candidate_batch_def load_candidate_batch_def
      rt_check_def split: if_splits)

lemma refreshed_candidates_loaded:
  assumes "refreshed_candidates E H cfg p cp rp live state batch s = Some (t, Inr (state', batch'))" and "offers batch'"
  shows "(t = s \<and> batch' = batch) \<or> load_candidate_batch E cp rp t = (t, Inr batch')"
proof (cases "offers batch \<or> \<not> live \<or> state = RecoveryPending")
  case True
  with assms(1) show ?thesis by (auto simp: refreshed_candidates_def prt_of_def rt_return_def)
next
  case False
  then obtain outcome where outcome: "recover_private_candidates_for_resolution E H cfg p cp rp s = Some (t, Inr outcome)"
    and result: "(state', batch') = (case outcome of Refreshed refreshed \<Rightarrow> (if offers refreshed then Available else state, refreshed)
        | RefreshPending \<Rightarrow> (RecoveryPending, batch) | NotNeeded \<Rightarrow> (state, batch))"
    using assms(1) by (auto simp: refreshed_candidates_def prt_bind_ok prt_of_ok rt_return_def)
  from result False assms(2) obtain refreshed where refreshed: "outcome = Refreshed refreshed" "batch' = refreshed"
    by (auto split: PrivateRecoveryOutcome.splits)
  then show ?thesis
    using outcome
    by (auto simp: recover_private_candidates_for_resolution_def prt_bind_ok prt_of_ok rt_read_def rt_return_def prt_catch_ok
        rt_bind_ok rt_fail_def load_candidate_batch_def rt_check_def rt_lift_def split: if_splits)
qed

lemma resolve_batch_payable:
  assumes "resolve_batch A p cp rp amount after state batch = Inr r" and "vr_status r = Payable"
  obtains b where "batch = Some b" "offers batch" "is_newer_than b after"
    "vr_private_payment_list_version r = Some (cb_private_payment_list_version b)" "vr_payable_endpoints r \<noteq> []"
    "distinct (map ve_endpoint (vr_payable_endpoints r))" "ve_endpoint ` set (vr_payable_endpoints r) \<subseteq> set (cb_candidates b)"
proof -
  obtain b where b: "batch = Some b" "is_newer_than b after" "has_candidates b"
    and resolved: "resolve_private_candidate_batch A p cp rp amount (cb_candidates b) state (cb_private_payment_list_version b) = Inr r"
    using assms
    by (auto simp: resolve_batch_def unresolved_private_resolution_def waiting_for_updated_private_payment_list_def
        split: option.splits if_splits)
  obtain selected payable es where es: "private_payable_from_batch selected (cb_candidates b) = Inr payable"
    "build_private_payable_endpoints A p payable = Inr es" "es \<noteq> []"
    "r = \<lparr>vr_status = Payable, vr_state = state, vr_private_payment_list_version = Some (cb_private_payment_list_version b),
          vr_payable_endpoints = es\<rparr>"
    using resolved assms(2)
    by (auto simp: resolve_private_candidate_batch_def rbind_Inr_iff unresolved_private_resolution_def split: if_splits)
  have "distinct payable \<and> set payable \<subseteq> set (cb_candidates b)"
    using payable_batch_ok [OF es(1) [unfolded private_payable_from_batch_def]] by simp
  moreover have endpoints: "map ve_endpoint es = payable" by (rule build_private_endpoints [OF es(2)])
  then have "ve_endpoint ` set es = set payable" using set_map [of ve_endpoint es] by simp
  ultimately show thesis using b es(3,4) endpoints by (intro that [of b]) (simp_all add: offers_def)
qed

text \<open>C19: Every private endpoint that is offered for payment comes from the newest valid Private Payment List that
  the store holds from that peer after the call: it names the peer, its identifier and payload are an
  entry of that list, no endpoint is offered twice, and the version of the result is the id of that
  list, newer than the version the caller has consumed.\<close>

theorem payable_private_endpoints_current:
  assumes "resolve_private_contact_payment E H A cfg p cp rp amount after s = Some (t, Inr r)" and "vr_status r = Payable"
  shows "\<exists>item l. item \<in> set (private_stream_items t cp rp) \<and> valid_list item
    \<and> (\<forall>other \<in> set (private_stream_items t cp rp). valid_list other \<longrightarrow> si_id other \<le> si_id item)
    \<and> parse_private_payment_list_json E (si_raw_json item) = Inr l
    \<and> vr_private_payment_list_version r = Some (si_id item) \<and> (\<forall>v. after = Some v \<longrightarrow> v < si_id item)
    \<and> vr_payable_endpoints r \<noteq> [] \<and> distinct (map ve_endpoint (vr_payable_endpoints r))
    \<and> (\<forall>e \<in> set (vr_payable_endpoints r). vc_counterparty (ve_endpoint e) = cp \<and> vc_path (ve_endpoint e) = rp
         \<and> (\<exists>(k, v) \<in> set (ppl_payment_endpoints l). vc_identifier (ve_endpoint e) = identifier_str k
              \<and> vc_payload (ve_endpoint e) = payload_str v))"
proof -
  obtain u live st batch st' batch' where stored: "stored_candidates E (ln_net H) cfg (0 # p) cp rp s = (u, Inr (live, st, batch))"
    and refreshed: "refreshed_candidates E H cfg (1 # p) cp rp live st batch u = Some (t, Inr (st', batch'))"
    and resolved: "resolve_batch A (2 # p) cp rp amount after st' batch' = Inr r"
    using assms(1) by (auto simp: resolve_private_contact_payment_def prt_bind_ok prt_of_ok rt_lift_def)
  obtain b where b: "batch' = Some b" "offers batch'" "is_newer_than b after"
    "vr_private_payment_list_version r = Some (cb_private_payment_list_version b)" "vr_payable_endpoints r \<noteq> []"
    "distinct (map ve_endpoint (vr_payable_endpoints r))" "ve_endpoint ` set (vr_payable_endpoints r) \<subseteq> set (cb_candidates b)"
    by (rule resolve_batch_payable [OF resolved assms(2)])
  have "load_candidate_batch E cp rp t = (t, Inr (Some b))"
    using refreshed_candidates_loaded [OF refreshed b(2)] stored_candidates_loaded [OF stored] b(1) by auto
  then obtain view where view: "current_private_payment_list E t cp rp = Inr (Some view)"
    "plv_latest_stream_item_id view = Some (cb_private_payment_list_version b)"
    "set (cb_candidates b) = (\<lambda>(i, pl). \<lparr>vc_counterparty = cp, vc_path = rp, vc_identifier = i, vc_payload = pl\<rparr>) ` set (plv_payment_endpoints view)"
    by (rule batch_candidates)
  obtain item l where item: "item \<in> set (private_stream_items t cp rp)" "valid_list item"
    "\<forall>other \<in> set (private_stream_items t cp rp). valid_list other \<longrightarrow> si_id other \<le> si_id item"
    "parse_private_payment_list_json E (si_raw_json item) = Inr l" "plv_latest_stream_item_id view = Some (si_id item)"
    "plv_payment_endpoints view = map (\<lambda>(k, v). (identifier_str k, payload_str v)) (ppl_payment_endpoints l)"
    by (rule current_list_newest [OF view(1)])
  have "\<exists>(k, v) \<in> set (ppl_payment_endpoints l). c = \<lparr>vc_counterparty = cp, vc_path = rp, vc_identifier = identifier_str k,
      vc_payload = payload_str v\<rparr>" if "c \<in> set (cb_candidates b)" for c
    using that view(3) item(6) by (force simp: image_image)
  with b(7) have "\<forall>e \<in> set (vr_payable_endpoints r). \<exists>(k, v) \<in> set (ppl_payment_endpoints l).
      ve_endpoint e = \<lparr>vc_counterparty = cp, vc_path = rp, vc_identifier = identifier_str k, vc_payload = payload_str v\<rparr>"
    by blast
  moreover have "si_id item = cb_private_payment_list_version b" using view(2) item(5) by simp
  ultimately show ?thesis using item(1-4) b by (intro exI [of _ item] exI [of _ l]) (fastforce simp: is_newer_than_def)
qed

section \<open>Preparing ends\<close>

lemma resolve_private_ends:
  assumes "runs_dry (ln_noise H) waiting"
  shows "prt_ends outbound_inv (resolve_private_contact_payment E H A cfg p cp rp amount after)"
proof -
  note receives = receive_ends [OF assms]
  have refresh: "rt_keeps outbound_inv (refresh_identity cfg session now)" for session now
    by (rule rt_keeps_refresh [of outbound_inv, OF queue_ids.identity_kept])
  have observe: "rt_keeps outbound_inv (observe_remote_recovery_marker_for_cached_private_state E V cfg q cp rp b)" for V q b
    unfolding observe_remote_recovery_marker_for_cached_private_state_def by (intro rt_rules)
  have pending: "rt_keeps outbound_inv (case err of SdkRecoveryRequired _ _ \<Rightarrow> rt_return x | _ \<Rightarrow> rt_fail err)" for err and x :: "'c"
    by (cases err) (simp_all add: rt_rules)
  have gate: "rt_keeps outbound_inv (private_resolution_gate E V cfg q cp rp live initialized)" for V q live initialized
    unfolding private_resolution_gate_def private_resolution_allowed_for_peer_def cached_private_resolution_allowed_for_peer_def
    by (intro rt_rules observe pending)
  have load: "rt_keeps outbound_inv (load_candidate_batch E cp rp)"
    unfolding load_candidate_batch_def by (intro rt_rules)
  have "rt_keeps outbound_inv (stored_candidates E V cfg q cp rp)" for V q
    unfolding stored_candidates_def by (intro rt_rules refresh gate load)
  moreover have "prt_ends outbound_inv (refreshed_candidates E H cfg q cp rp live state batch)" for q live state batch
    unfolding refreshed_candidates_def recover_private_candidates_for_resolution_def
    by (intro rt_rules observe load receives)
  ultimately show ?thesis unfolding resolve_private_contact_payment_def by (intro rt_rules)
qed

lemma sync_rounds_end:
  assumes "runs_dry (ln_noise H) waiting"
  shows "prt_ends outbound_inv (sync_rounds E H A cfg p cp rp n outbound received)"
proof (induction n arbitrary: outbound received)
  case (Suc n)
  then show ?case unfolding sync_rounds.simps by (intro rt_rules delivery_ends receive_ends [OF assms])
qed (simp add: rt_rules)

text \<open>C21: Preparing a private payment always ends, on a noise library that hands out each batch once: the link is
  ensured, at most the limit of rounds of sending and receiving run, each of them ends, and the payment
  is resolved or an error is returned; the outbound queue stays in order.\<close>

theorem prepare_private_payment_ends:
  assumes "runs_dry (ln_noise H) waiting" and "outbound_inv s"
  shows "\<exists>t result. prepare_and_resolve_private_contact_payment E H A cfg p cp rp amount after steps s = Some (t, result)
    \<and> outbound_inv t"
proof -
  have "rt_keeps outbound_inv (private_payment_preparation_is_available V cfg q)" for V q
    unfolding private_payment_preparation_is_available_def
    by (intro rt_rules rt_keeps_refresh [of outbound_inv, OF queue_ids.identity_kept])
  then have "prt_ends outbound_inv (prepare_and_resolve_private_contact_payment E H A cfg p cp rp amount after steps)"
    unfolding prepare_and_resolve_private_contact_payment_def
    by (intro rt_rules sync_rounds_end [OF assms(1)] resolve_private_ends [OF assms(1)])
  then show ?thesis using assms(2) by (rule prt_endsD)
qed

section \<open>Public endpoints are documents of the payee\<close>

lemma build_public_endpoints: "build_public_payable_endpoints A p cs = Inr es \<Longrightarrow> map ue_endpoint es = cs"
  by (induction cs arbitrary: es) (auto simp: rbind_Inr_iff)

lemma public_candidate_listed:
  assumes "public_payment_candidates E V HV p cp rp w = Some (Inr candidates)" and "c \<in> set candidates"
  obtains key resources q where "to_public_key E cp = Inr key" "uc_counterparty c = cp \<and> uc_path c = rp"
    "list_resources E HV (0 # p) (public_key_display E key @ payment_endpoint_path_prefix rp) ''list payment endpoints'' w = Some (Inr resources)"
    "listed_document (\<lambda>a. hs_get HV q a w) HV resources (uc_identifier c) (uc_payload c)"
proof -
  obtain key endpoints where key: "to_public_key E cp = Inr key" "get_payment_list E HV p key rp w = Some (Inr endpoints)"
    and c: "c \<in> (\<lambda>(i, pl). \<lparr>uc_counterparty = cp, uc_path = rp, uc_identifier = identifier_str i, uc_payload = payload_str pl\<rparr>) ` set endpoints"
    using assms by (auto simp: public_payment_candidates_def rbind_Inr_iff map_err_Inr_iff split: sum.splits if_splits)
  then obtain i pl where entry: "(i, pl) \<in> set endpoints"
      "c = \<lparr>uc_counterparty = cp, uc_path = rp, uc_identifier = identifier_str i, uc_payload = payload_str pl\<rparr>" by auto
  from payment_list_sound [OF key(2) entry(1)] key(1) entry(2) that show thesis by force
qed

text \<open>C22: Every payable public endpoint that resolution returns is listed once and is a document that the
  counterparty's homeserver lists and serves in the endpoint directory of the asked receiver, under its
  identifier and with its payload.\<close>

theorem payable_public_endpoints_published:
  assumes "resolve_public_contact_payment E V A HV p cp rp amount w = Some (Inr r)"
  shows "distinct (map ue_endpoint (ur_payable_endpoints r))
     \<and> (\<forall>e \<in> set (ur_payable_endpoints r). \<exists>key resources q. to_public_key E cp = Inr key
          \<and> list_resources E HV (0 # 0 # p) (public_key_display E key @ payment_endpoint_path_prefix rp) ''list payment endpoints'' w
            = Some (Inr resources)
          \<and> listed_document (\<lambda>a. hs_get HV q a w) HV resources (uc_identifier (ue_endpoint e)) (uc_payload (ue_endpoint e)))"
proof (cases "ur_payable_endpoints r = []")
  case False
  obtain candidates where candidates: "public_payment_candidates E V HV (0 # p) cp rp w = Some (Inr candidates)"
      "resolve_public_candidate_batch A (1 # p) cp rp amount candidates = Inr r"
    using assms False by (auto simp: resolve_public_contact_payment_def rbind_Inr_iff unresolved_public_resolution_def split: if_splits)
  then obtain selected payable where payable: "payable_from_batch [] selected candidates = Inr payable"
      "build_public_payable_endpoints A (1 # p) payable = Inr (ur_payable_endpoints r)"
    using False by (auto simp: resolve_public_candidate_batch_def public_payable_from_batch_def rbind_Inr_iff
        unresolved_public_resolution_def split: if_splits)
  have offered: "distinct payable" "set payable \<subseteq> set candidates" using payable_batch_ok [OF payable(1)] by simp_all
  have built: "map ue_endpoint (ur_payable_endpoints r) = payable" using build_public_endpoints [OF payable(2)] .
  show ?thesis
  proof (intro conjI ballI)
    show "distinct (map ue_endpoint (ur_payable_endpoints r))" using built offered by simp
  next
    fix e assume "e \<in> set (ur_payable_endpoints r)"
    then have "ue_endpoint e \<in> set (map ue_endpoint (ur_payable_endpoints r))" by simp
    then have "ue_endpoint e \<in> set candidates" using built offered by auto
    from public_candidate_listed [OF candidates(1) this]
    show "\<exists>key resources q. to_public_key E cp = Inr key
          \<and> list_resources E HV (0 # 0 # p) (public_key_display E key @ payment_endpoint_path_prefix rp) ''list payment endpoints'' w
            = Some (Inr resources)
          \<and> listed_document (\<lambda>a. hs_get HV q a w) HV resources (uc_identifier (ue_endpoint e)) (uc_payload (ue_endpoint e))" by metis
  qed
qed simp

section \<open>An instance\<close>

text \<open>A wallet without a live session that has received one list, and an adapter that can pay everything.\<close>

definition offline_net :: "bool link_net" where
  "offline_net = inbox_net\<lparr>ln_net := sample_net\<lparr>nv_session := (\<lambda>_. Inr None)\<rparr>\<rparr>"

definition paying_adapter :: payment_adapter where
  "paying_adapter =
     \<lparr>pa_public_receiving_details = (\<lambda>_. Inr []), pa_private_receiving_details = (\<lambda>_ _ _. Inr []), pa_reserve = (\<lambda>_ _ _. Inr None),
      pa_cancel = (\<lambda>_ _. Inr ()), pa_select_public = (\<lambda>_ r. Inr (usr_candidates r)), pa_public_target = (\<lambda>_ c. Inr \<lparr>pt_payload = uc_payload c\<rparr>),
      pa_select_private = (\<lambda>_ r. Inr (vsr_candidates r)), pa_private_target = (\<lambda>_ c. Inr \<lparr>pt_payload = vc_payload c\<rparr>)\<rparr>"

definition sample_list_received :: StorageState where
  "sample_list_received = fst (insert_private_stream_item
     \<lparr>ns_counterparty = sample_peer, ns_path = sample_path, ns_receive_batch_id = 0, ns_raw_json = ''doc'', ns_parsed_version = Some 1,
      ns_parsed_kind = Some (kind_as_str PrivatePaymentListKind), ns_known_paykit_kind = Some (kind_as_str PrivatePaymentListKind),
      ns_parse_status = Valid, ns_parse_error = None, ns_received_at = 3\<rparr>
     (save_identity_state \<lparr>id_public_key = Some (PubkyPublicKey ''bob''), id_noise_public_key = Some (PubkyPublicKey ''noise''),
        id_initialized_at = 1, id_sign_out_generation = 0\<rparr> empty_storage))"

lemma sample_current_list:
  "current_private_payment_list sample_reservation_ext sample_list_received sample_peer sample_path
     = Inr (Some \<lparr>plv_latest_stream_item_id = Some 0, plv_payment_endpoints = [(''btc-onchain'', ''bc1q'')], plv_last_refresh_at = Some 3\<rparr>)"
proof -
  have "list_wf sample_reserved_list" by code_simp
  moreover have "json_faithful sample_reservation_ext (private_payment_list_json sample_reserved_list)"
    by (simp add: json_faithful_def sample_reservation_ext_def table_ext_def)
  ultimately have "parse_private_payment_list_json sample_reservation_ext ''doc'' = Inr sample_reserved_list"
    using sample_list_printed(1) by (intro parse_serialized_list)
  then show ?thesis
    by (simp add: current_private_payment_list_def derive_private_payment_list_view_def private_stream_items_def sample_list_received_def
        insert_private_stream_item_def save_identity_state_def empty_storage_def stream_item_from_new_def sample_reserved_list_def
        PrivatePaymentList_new_def sample_peer_def sample_path_def)
qed

lemma sample_resolved:
  "\<exists>t r. resolve_private_contact_payment sample_reservation_ext offline_net paying_adapter (PaykitSdkConfig_new sample_path) [] sample_peer
     sample_path None None sample_list_received = Some (t, Inr r) \<and> vr_status r = Payable"
proof -
  let ?state = "\<lparr>id_public_key = Some (PubkyPublicKey ''bob''), id_noise_public_key = Some (PubkyPublicKey ''noise''),
        id_initialized_at = 1, id_sign_out_generation = 0\<rparr>"
  have reads: "load_identity_state sample_list_received = Some ?state" "linked_peer sample_list_received (sample_peer, sample_path) = None"
    by (simp_all add: sample_list_received_def insert_private_stream_item_def save_identity_state_def load_identity_state_def
        linked_peer_def empty_storage_def)
  let ?c = "\<lparr>vc_counterparty = sample_peer, vc_path = sample_path, vc_identifier = ''btc-onchain'', vc_payload = ''bc1q''\<rparr>"
  let ?b = "Some \<lparr>cb_private_payment_list_version = 0, cb_candidates = [?c]\<rparr>"
  have "load_candidate_batch sample_reservation_ext sample_peer sample_path sample_list_received = (sample_list_received, Inr ?b)"
    by (simp add: load_candidate_batch_def rt_bind_def rt_check_def rt_lift_def sample_current_list private_candidate_batch_def)
  then have "stored_candidates sample_reservation_ext (ln_net offline_net) (PaykitSdkConfig_new sample_path) [0] sample_peer sample_path
      sample_list_received = (sample_list_received, Inr (False, Available, ?b))"
    using reads
    by (simp add: stored_candidates_def offline_net_def sample_net_def refresh_identity_def load_session_access_and_refresh_identity_def
        transaction_def run_storage_state_transaction_def refresh_without_session_tx_def private_resolution_gate_def
        cached_private_resolution_allowed_for_peer_def rt_bind_def rt_return_def rt_read_def offers_def has_candidates_def)
  then show ?thesis
    by (simp add: resolve_private_contact_payment_def prt_bind_def prt_of_def refreshed_candidates_def offers_def has_candidates_def
        rt_return_def rt_lift_def resolve_batch_def is_newer_than_def resolve_private_candidate_batch_def paying_adapter_def
        private_payable_from_batch_def)
qed

theorem payable_private_endpoints_current_witness:
  "\<exists>t r item. resolve_private_contact_payment sample_reservation_ext offline_net paying_adapter (PaykitSdkConfig_new sample_path) []
     sample_peer sample_path None None sample_list_received = Some (t, Inr r) \<and> vr_status r = Payable
     \<and> item \<in> set (private_stream_items t sample_peer sample_path) \<and> vr_private_payment_list_version r = Some (si_id item)"
proof -
  obtain t r where run: "resolve_private_contact_payment sample_reservation_ext offline_net paying_adapter (PaykitSdkConfig_new sample_path) []
     sample_peer sample_path None None sample_list_received = Some (t, Inr r)" "vr_status r = Payable"
    using sample_resolved by blast
  then show ?thesis using payable_private_endpoints_current [OF run] by blast
qed

theorem prepare_private_payment_ends_witness:
  "\<exists>t result. prepare_and_resolve_private_contact_payment sample_link_ext inbox_net paying_adapter (PaykitSdkConfig_new sample_path) []
     sample_peer sample_path None None 3 inbox_store = Some (t, result) \<and> outbound_inv t"
proof (rule prepare_private_payment_ends)
  show "runs_dry (ln_noise inbox_net) (\<lambda>n. if n then 1 else 0)" by (simp add: runs_dry_def inbox_net_def inbox_noise_def)
  show "outbound_inv inbox_store" by code_simp
qed

text \<open>The peer's homeserver with one endpoint document.\<close>

definition sample_published :: "(string, string) hashmap" where
  "sample_published = fst (set_payment_endpoint (kept_homeserver (PublicKey ''alice'')) [] sample_path
     (PaymentEndpointIdentifier ''btc-onchain'') (PaymentEndpointPayload ''bc1q'') [])"

lemma sample_public_resolved:
  "\<exists>r. resolve_public_contact_payment sample_link_ext sample_net paying_adapter (kept_homeserver (PublicKey ''alice'')) [] sample_peer
     sample_path None sample_published = Some (Inr r) \<and> map ue_endpoint (ur_payable_endpoints r)
       = [\<lparr>uc_counterparty = sample_peer, uc_path = sample_path, uc_identifier = ''btc-onchain'', uc_payload = ''bc1q''\<rparr>]"
proof -
  let ?HV = "kept_homeserver (PublicKey ''alice'')"
  let ?addr = "public_key_display sample_link_ext (PublicKey ''alice'') @ payment_endpoint_path_prefix sample_path"
  let ?entry = "\<lparr>pe_owner = PublicKey ''alice'', pe_path = payment_endpoint_path sample_path (PaymentEndpointIdentifier ''btc-onchain'')\<rparr>"
  have published: "sample_published = [(''alice'' @ payment_endpoint_path sample_path (PaymentEndpointIdentifier ''btc-onchain''), ''bc1q'')]"
    by code_simp
  have "strip_prefix ?addr (''alice'' @ payment_endpoint_path sample_path (PaymentEndpointIdentifier ''btc-onchain'')) \<noteq> None"
    by code_simp
  then have listing: "list_resources sample_link_ext ?HV [0, 0] ?addr ''list payment endpoints'' sample_published = Some (Inr [?entry])"
    by (simp add: kept_listing published ROUTING_PAGE_LIMIT_def)
  have collected: "collect_listed ?HV [1, 0] sample_published [] [?entry]
      = Inr [(PaymentEndpointIdentifier ''btc-onchain'', PaymentEndpointPayload ''bc1q'')]"
    by code_simp
  have key: "to_public_key sample_link_ext sample_peer = Inr (PublicKey ''alice'')"
    by (simp add: to_public_key_def sample_link_ext_def table_ext_def sample_peer_def)
  have "public_payment_candidates sample_link_ext sample_net ?HV [0] sample_peer sample_path sample_published = Some (Inr
      [\<lparr>uc_counterparty = sample_peer, uc_path = sample_path, uc_identifier = ''btc-onchain'', uc_payload = ''bc1q''\<rparr>])"
    using listing collected
    by (simp add: public_payment_candidates_def sample_net_def key get_payment_list_def fetch_payment_list_def
        fetch_payment_list_from_directory_def read_bind_def)
  then show ?thesis
    by (simp add: resolve_public_contact_payment_def resolve_public_candidate_batch_def paying_adapter_def public_payable_from_batch_def)
qed

theorem payable_public_endpoints_published_witness:
  "\<exists>resources q. list_resources sample_link_ext (kept_homeserver (PublicKey ''alice'')) [0, 0]
       (public_key_display sample_link_ext (PublicKey ''alice'') @ payment_endpoint_path_prefix sample_path)
       ''list payment endpoints'' sample_published = Some (Inr resources)
     \<and> listed_document (\<lambda>a. hs_get (kept_homeserver (PublicKey ''alice'')) q a sample_published) (kept_homeserver (PublicKey ''alice''))
         resources ''btc-onchain'' ''bc1q''"
proof -
  obtain r e where run: "resolve_public_contact_payment sample_link_ext sample_net paying_adapter (kept_homeserver (PublicKey ''alice'')) []
      sample_peer sample_path None sample_published = Some (Inr r)"
    and e: "e \<in> set (ur_payable_endpoints r)" "uc_identifier (ue_endpoint e) = ''btc-onchain''" "uc_payload (ue_endpoint e) = ''bc1q''"
    using sample_public_resolved by fastforce
  have key: "to_public_key sample_link_ext sample_peer = Inr (PublicKey ''alice'')"
    by (simp add: to_public_key_def sample_link_ext_def table_ext_def sample_peer_def)
  show ?thesis using payable_public_endpoints_published [OF run] e key by fastforce
qed

end
