(* ===== verification/Payment_Request_Records.thy ===== *)
theory Payment_Request_Records
  imports Outbound_Private "HOL-Library.Option_ord" "HOL-Library.Product_Lexorder"
begin

text \<open>
  The records of the Payment Request lifecycle and their transitions
  (\<^verbatim>\<open>paykit-sdk/src/domain/payment_requests/mod.rs\<close> and the event application of
  \<^verbatim>\<open>derivation.rs\<close>): local roles and states, copied terms and proofs, list filters, and how one received
  or locally queued event changes a record. The lemmas give a well-formedness invariant of records,
  the transitions of the state, and the round trip of the copied terms.
\<close>

section \<open>Records\<close>

datatype PaymentRequestLocalRole = Payer | Payee

datatype PaymentRequestLifecycleState =
  Proposed | ProposalExpired | Accepted | Rejected | Canceled | ProofSubmitted | ActiveRecurring
| LifecycleRecoveryRequired | InvalidConflict

record PaymentRequestRecurrenceRecord =
  rcr_every :: u32
  rcr_unit :: string
  rcr_starts_at :: string
  rcr_anchor :: string
  rcr_ends_at :: "string option"

record PaymentRequestTermsRecord =
  tr_amount :: AmountRecord
  tr_payment_reference :: string
  tr_proposal_expires_at :: "string option"
  tr_recurrence :: "PaymentRequestRecurrenceRecord option"
  tr_identifiers :: "string list"
  tr_metadata :: json_map

record PaymentProofRecord =
  pp_event_id :: string
  pp_outbound_message_id :: "u64 option"
  pp_outbound_status :: "OutboundPrivateMessageStatus option"
  pp_stream_item_id :: "u64 option"
  pp_payment_reference :: string
  pp_billing_period :: "BillingPeriodRecord option"
  pp_endpoint_identifier :: string
  pp_proof :: json_map
  pp_recorded_at :: instant

record PaymentRequestRecord =
  rq_counterparty :: PubkyPublicKey
  rq_path :: PaykitReceiverPath
  rq_id :: string
  rq_local_role :: "PaymentRequestLocalRole option"
  rq_state :: PaymentRequestLifecycleState
  rq_proposal_stream_item_id :: "u64 option"
  rq_proposal_outbound_message_id :: "u64 option"
  rq_proposal_outbound_status :: "OutboundPrivateMessageStatus option"
  rq_proposal_event_id :: "string option"
  rq_terms :: "PaymentRequestTermsRecord option"
  rq_accepted_event_id :: "string option"
  rq_accepted_outbound_status :: "OutboundPrivateMessageStatus option"
  rq_rejected_event_id :: "string option"
  rq_rejected_outbound_status :: "OutboundPrivateMessageStatus option"
  rq_canceled_event_id :: "string option"
  rq_canceled_outbound_status :: "OutboundPrivateMessageStatus option"
  rq_payment_proofs :: "PaymentProofRecord list"
  rq_last_stream_item_id :: "u64 option"
  rq_last_outbound_message_id :: "u64 option"
  rq_last_outbound_status :: "OutboundPrivateMessageStatus option"
  rq_last_event_at :: "instant option"
  rq_invalid_reason :: "string option"

fun recurrence_unit_to_str :: "RecurrenceUnit \<Rightarrow> string" where
  "recurrence_unit_to_str Minute = ''minute''"
| "recurrence_unit_to_str Hour = ''hour''"
| "recurrence_unit_to_str Day = ''day''"
| "recurrence_unit_to_str Week = ''week''"
| "recurrence_unit_to_str Month = ''month''"
| "recurrence_unit_to_str Year = ''year''"

definition parse_recurrence_unit :: "string \<Rightarrow> RecurrenceUnit option" where
  "parse_recurrence_unit u =
     (if u = ''minute'' then Some Minute
      else if u = ''hour'' then Some Hour
      else if u = ''day'' then Some Day
      else if u = ''week'' then Some Week
      else if u = ''month'' then Some Month
      else if u = ''year'' then Some Year
      else None)"

definition terms_record_of :: "PaymentRequestTerms \<Rightarrow> PaymentRequestTermsRecord" where
  "terms_record_of t =
     \<lparr>tr_amount = amount_record_of (terms_amount t),
      tr_payment_reference = reference_str (terms_payment_reference t),
      tr_proposal_expires_at = terms_proposal_expires_at t,
      tr_recurrence = map_option (\<lambda>r. \<lparr>rcr_every = rec_every r, rcr_unit = recurrence_unit_to_str (rec_unit r),
          rcr_starts_at = rec_starts_at r, rcr_anchor = rec_anchor r, rcr_ends_at = rec_ends_at r\<rparr>) (terms_recurrence t),
      tr_identifiers = map identifier_str (terms_identifiers t),
      tr_metadata = terms_metadata t\<rparr>"

definition PaymentRequestRecord_new :: "PubkyPublicKey \<Rightarrow> PaykitReceiverPath \<Rightarrow> string \<Rightarrow> PaymentRequestRecord" where
  "PaymentRequestRecord_new cp rp rid =
     \<lparr>rq_counterparty = cp, rq_path = rp, rq_id = rid, rq_local_role = None, rq_state = InvalidConflict,
      rq_proposal_stream_item_id = None, rq_proposal_outbound_message_id = None, rq_proposal_outbound_status = None,
      rq_proposal_event_id = None, rq_terms = None, rq_accepted_event_id = None, rq_accepted_outbound_status = None,
      rq_rejected_event_id = None, rq_rejected_outbound_status = None, rq_canceled_event_id = None,
      rq_canceled_outbound_status = None, rq_payment_proofs = [], rq_last_stream_item_id = None,
      rq_last_outbound_message_id = None, rq_last_outbound_status = None, rq_last_event_at = None,
      rq_invalid_reason = None\<rparr>"

section \<open>Touching and invalidating\<close>

definition touch_at :: "instant \<Rightarrow> PaymentRequestRecord \<Rightarrow> PaymentRequestRecord" where
  "touch_at timestamp r =
     r\<lparr>rq_last_event_at := Some (case rq_last_event_at r of Some current \<Rightarrow> max current timestamp | None \<Rightarrow> timestamp)\<rparr>"

definition touch :: "PrivateStreamItemRecord \<Rightarrow> PaymentRequestRecord \<Rightarrow> PaymentRequestRecord" where
  "touch item r = touch_at (si_received_at item) (r\<lparr>rq_last_stream_item_id := Some (si_id item)\<rparr>)"

definition touch_outbound :: "OutboundPrivateMessageRecord \<Rightarrow> PaymentRequestRecord \<Rightarrow> PaymentRequestRecord" where
  "touch_outbound m r =
     touch_at (om_updated_at m) (r\<lparr>rq_last_outbound_message_id := Some (om_id m), rq_last_outbound_status := Some (om_status m)\<rparr>)"

definition mark_invalid :: "PrivateStreamItemRecord \<Rightarrow> string \<Rightarrow> PaymentRequestRecord \<Rightarrow> PaymentRequestRecord" where
  "mark_invalid item reason r =
     touch item (r\<lparr>rq_state := InvalidConflict,
       rq_invalid_reason := (case rq_invalid_reason r of None \<Rightarrow> Some reason | Some x \<Rightarrow> Some x)\<rparr>)"

section \<open>Filters\<close>

record PaymentRequestFilter =
  fl_counterparty :: "PubkyPublicKey option"
  fl_path :: "PaykitReceiverPath option"
  fl_local_role :: "PaymentRequestLocalRole option"
  fl_states :: "PaymentRequestLifecycleState list"
  fl_recurring :: "bool option"
  fl_received_only :: bool

definition record_recurring :: "PaymentRequestRecord \<Rightarrow> bool" where
  "record_recurring r \<longleftrightarrow> Option.bind (rq_terms r) tr_recurrence \<noteq> None"

definition filter_matches :: "PaymentRequestFilter \<Rightarrow> PaymentRequestRecord \<Rightarrow> bool" where
  "filter_matches f r =
     (if (case fl_counterparty f of Some c \<Rightarrow> rq_counterparty r \<noteq> c | None \<Rightarrow> False) then False
      else if (case fl_path f of Some p \<Rightarrow> rq_path r \<noteq> p | None \<Rightarrow> False) then False
      else if (case fl_local_role f of Some role \<Rightarrow> rq_local_role r \<noteq> Some role | None \<Rightarrow> False) then False
      else if fl_states f \<noteq> [] \<and> rq_state r \<notin> set (fl_states f) then False
      else if (case fl_recurring f of Some b \<Rightarrow> record_recurring r \<noteq> b | None \<Rightarrow> False) then False
      else True)"

section \<open>Stored events\<close>

datatype StoredPaymentRequestEvent =
  Received PrivateStreamItemRecord PaymentRequestEvent
| Outbound OutboundPrivateMessageRecord PaymentRequestEvent

fun stored_event :: "StoredPaymentRequestEvent \<Rightarrow> PaymentRequestEvent" where
  "stored_event (Received _ ev) = ev"
| "stored_event (Outbound _ ev) = ev"

fun record_time :: "StoredPaymentRequestEvent \<Rightarrow> instant" where
  "record_time (Received item _) = si_received_at item"
| "record_time (Outbound m _) = om_created_at m"

definition phase_order :: "StoredPaymentRequestEvent \<Rightarrow> u8" where
  "phase_order ev = (case stored_event ev of Request _ \<Rightarrow> 0 | _ \<Rightarrow> 1)"

fun source_order :: "StoredPaymentRequestEvent \<Rightarrow> u64" where
  "source_order (Received item _) = si_id item"
| "source_order (Outbound m _) = om_id m"

fun source_rank :: "StoredPaymentRequestEvent \<Rightarrow> u8" where
  "source_rank (Received _ _) = 0"
| "source_rank (Outbound _ _) = 1"

fun stored_payload_hash :: "ext \<Rightarrow> StoredPaymentRequestEvent \<Rightarrow> string" where
  "stored_payload_hash E (Received item _) = payload_hash E (si_raw_json item)"
| "stored_payload_hash E (Outbound m _) = payload_hash E (om_raw_json m)"

definition stored_request_id :: "StoredPaymentRequestEvent \<Rightarrow> string" where
  "stored_request_id ev = request_id_str (event_request_id (stored_event ev))"

definition stored_event_id :: "StoredPaymentRequestEvent \<Rightarrow> string" where
  "stored_event_id ev = event_id_str (event_event_id (stored_event ev))"

fun touch_stored :: "StoredPaymentRequestEvent \<Rightarrow> PaymentRequestRecord \<Rightarrow> PaymentRequestRecord" where
  "touch_stored (Received item _) r = touch item r"
| "touch_stored (Outbound m _) r =
     (let r' = touch_outbound m r in
      if om_status m = RecoveryRequired \<and> rq_state r' \<noteq> InvalidConflict
      then r'\<lparr>rq_state := LifecycleRecoveryRequired\<rparr> else r')"

fun outbound_status :: "StoredPaymentRequestEvent \<Rightarrow> OutboundPrivateMessageStatus option" where
  "outbound_status (Outbound m _) = Some (om_status m)"
| "outbound_status (Received _ _) = None"

definition mark_invalid_stored :: "StoredPaymentRequestEvent \<Rightarrow> string \<Rightarrow> PaymentRequestRecord \<Rightarrow> PaymentRequestRecord" where
  "mark_invalid_stored stored reason r =
     touch_stored stored (r\<lparr>rq_state := InvalidConflict,
       rq_invalid_reason := (case rq_invalid_reason r of None \<Rightarrow> Some reason | Some x \<Rightarrow> Some x)\<rparr>)"

definition payer_action_source_allowed :: "PaymentRequestRecord \<Rightarrow> StoredPaymentRequestEvent \<Rightarrow> bool" where
  "payer_action_source_allowed r stored =
     (case (rq_local_role r, stored) of
        (Some Payer, Outbound _ _) \<Rightarrow> True
      | (Some Payee, Received _ _) \<Rightarrow> True
      | _ \<Rightarrow> False)"

definition proposal_expired :: "ext \<Rightarrow> PaymentRequestRecord \<Rightarrow> instant \<Rightarrow> bool" where
  "proposal_expired E r now =
     (case Option.bind (Option.bind (rq_terms r) tr_proposal_expires_at) (\<lambda>t. ok_of (rfc3339 E t)) of
        Some expires_at \<Rightarrow> now \<ge> expires_at
      | None \<Rightarrow> False)"

text \<open>Rebuilding the proposal from its copied terms.\<close>

definition recurrence_from_record :: "PaymentRequestRecurrenceRecord \<Rightarrow> Recurrence option" where
  "recurrence_from_record r =
     map_option (\<lambda>u. \<lparr>rec_every = rcr_every r, rec_unit = u, rec_starts_at = rcr_starts_at r,
       rec_anchor = rcr_anchor r, rec_ends_at = rcr_ends_at r\<rparr>) (parse_recurrence_unit (rcr_unit r))"

definition request_from_record :: "ext \<Rightarrow> PaymentRequestRecord \<Rightarrow> PaymentRequest option" where
  "request_from_record E r =
     Option.bind (rq_terms r) (\<lambda>terms.
     Option.bind (rq_proposal_event_id r) (\<lambda>proposal_event_id.
     Option.bind (case tr_recurrence terms of
                    Some rec \<Rightarrow> map_option Some (recurrence_from_record rec) | None \<Rightarrow> Some None) (\<lambda>recurrence.
     Option.bind (ok_of (EventId_new E proposal_event_id)) (\<lambda>eid.
     Option.bind (ok_of (PaymentRequestId_new E (rq_id r))) (\<lambda>rid.
     Option.bind (ok_of (PaymentAmount_new (ar_value (tr_amount terms)) (ar_asset (tr_amount terms)))) (\<lambda>amount.
     Option.bind (ok_of (PaymentReference_new (tr_payment_reference terms))) (\<lambda>reference.
     Option.bind (omap_list (\<lambda>i. ok_of (PaymentEndpointIdentifier_new i)) (tr_identifiers terms)) (\<lambda>identifiers.
     Some (PaymentRequest_new eid rid
       \<lparr>terms_amount = amount, terms_payment_reference = reference,
        terms_proposal_expires_at = tr_proposal_expires_at terms, terms_recurrence = recurrence,
        terms_identifiers = identifiers, terms_metadata = tr_metadata terms\<rparr>)))))))))"

section \<open>Applying received events\<close>

definition apply_request :: "PaymentRequest \<Rightarrow> PrivateStreamItemRecord \<Rightarrow> PaymentRequestRecord \<Rightarrow> PaymentRequestRecord" where
  "apply_request request item r =
     (if rq_state r = InvalidConflict \<and> rq_last_stream_item_id r \<noteq> None then touch item r
      else if rq_terms r \<noteq> None
      then mark_invalid item ''multiple Payment Request proposals used the same Payment Request ID'' r
      else touch item
        (r\<lparr>rq_local_role := Some Payer, rq_state := Proposed, rq_proposal_stream_item_id := Some (si_id item),
           rq_proposal_event_id := Some (event_id_str (prq_event_id request)),
           rq_terms := Some (terms_record_of (prq_request request))\<rparr>))"

definition expire_proposal :: "ext \<Rightarrow> instant \<Rightarrow> PaymentRequestRecord \<Rightarrow> PaymentRequestRecord" where
  "expire_proposal E now r =
     (if rq_state r = Proposed \<and> proposal_expired E r now then r\<lparr>rq_state := ProposalExpired\<rparr> else r)"

definition apply_event ::
  "ext \<Rightarrow> PaymentRequestEvent \<Rightarrow> PrivateStreamItemRecord \<Rightarrow> instant \<Rightarrow> PaymentRequestRecord \<Rightarrow> PaymentRequestRecord" where
  "apply_event E event item now r =
     (if rq_state r = InvalidConflict \<and> rq_last_stream_item_id r \<noteq> None then touch item r
      else
        case event of
          Request request \<Rightarrow> expire_proposal E now (apply_request request item r)
        | Acceptance _ \<Rightarrow>
            if rq_terms r = None then mark_invalid item ''Payment Request acceptance arrived before proposal'' r
            else expire_proposal E now (mark_invalid item
              ''Payment Request acceptance is an outbound payer event for a received proposal'' r)
        | Rejection _ \<Rightarrow>
            if rq_terms r = None then mark_invalid item ''Payment Request rejection arrived before proposal'' r
            else expire_proposal E now (mark_invalid item
              ''Payment Request rejection is an outbound payer event for a received proposal'' r)
        | Cancellation cancellation \<Rightarrow>
            if rq_terms r = None then mark_invalid item ''Payment Request cancellation arrived before proposal'' r
            else if rq_state r \<in> {Canceled, InvalidConflict}
            then mark_invalid item ''Payment Request cancellation arrived after terminal state'' r
            else expire_proposal E now (touch item
              (r\<lparr>rq_canceled_event_id := Some (event_id_str (can_event_id cancellation)), rq_state := Canceled\<rparr>))
        | Proof _ \<Rightarrow>
            if rq_terms r = None then mark_invalid item ''Payment Proof arrived before acceptance'' r
            else expire_proposal E now (mark_invalid item
              ''Payment Proof is an outbound payer event for a received proposal'' r))"

section \<open>Applying stored events of both sides\<close>

definition apply_stored_request ::
  "StoredPaymentRequestEvent \<Rightarrow> PaymentRequest \<Rightarrow> PaymentRequestRecord \<Rightarrow> PaymentRequestRecord" where
  "apply_stored_request stored request r =
     (if rq_state r = InvalidConflict \<and> (rq_last_stream_item_id r \<noteq> None \<or> rq_last_outbound_message_id r \<noteq> None)
      then touch_stored stored r
      else if rq_terms r \<noteq> None
      then mark_invalid_stored stored ''multiple Payment Request proposals used the same Payment Request ID'' r
      else
        let r1 = r\<lparr>rq_local_role := Some (case stored of Received _ _ \<Rightarrow> Payer | Outbound _ _ \<Rightarrow> Payee),
                   rq_state := Proposed\<rparr>;
            r2 = (case stored of
                    Received item _ \<Rightarrow> r1\<lparr>rq_proposal_stream_item_id := Some (si_id item)\<rparr>
                  | Outbound m _ \<Rightarrow> r1\<lparr>rq_proposal_outbound_message_id := Some (om_id m),
                                       rq_proposal_outbound_status := Some (om_status m)\<rparr>)
        in touch_stored stored
             (r2\<lparr>rq_proposal_event_id := Some (event_id_str (prq_event_id request)),
                 rq_terms := Some (terms_record_of (prq_request request))\<rparr>))"

definition proof_record_of :: "StoredPaymentRequestEvent \<Rightarrow> PaymentProof \<Rightarrow> PaymentProofRecord" where
  "proof_record_of stored p =
     \<lparr>pp_event_id = event_id_str (prf_event_id p),
      pp_outbound_message_id = (case stored of Outbound m _ \<Rightarrow> Some (om_id m) | Received _ _ \<Rightarrow> None),
      pp_outbound_status = outbound_status stored,
      pp_stream_item_id = (case stored of Received item _ \<Rightarrow> Some (si_id item) | Outbound _ _ \<Rightarrow> None),
      pp_payment_reference = reference_str (prf_payment_reference p),
      pp_billing_period = map_option billing_record_of (prf_billing_period p),
      pp_endpoint_identifier = identifier_str (prf_identifier p),
      pp_proof = prf_proof p, pp_recorded_at = record_time stored\<rparr>"

definition apply_stored_acceptance ::
  "ext \<Rightarrow> StoredPaymentRequestEvent \<Rightarrow> PaymentRequestAcceptance \<Rightarrow> PaymentRequestRecord \<Rightarrow> PaymentRequestRecord" where
  "apply_stored_acceptance E stored acceptance r =
     (if \<not> payer_action_source_allowed r stored
      then mark_invalid_stored stored ''Payment Request acceptance came from the wrong side'' r
      else if rq_terms r = None
      then mark_invalid_stored stored ''Payment Request acceptance arrived before proposal'' r
      else if proposal_expired E r (record_time stored)
      then mark_invalid_stored stored ''Payment Request acceptance arrived after proposal expiry'' r
      else if rq_state r \<noteq> Proposed
      then mark_invalid_stored stored ''Payment Request acceptance arrived after transition'' r
      else touch_stored stored
        (r\<lparr>rq_accepted_event_id := Some (event_id_str (acc_event_id acceptance)),
           rq_accepted_outbound_status := outbound_status stored,
           rq_state := (if record_recurring r then ActiveRecurring else Accepted)\<rparr>))"

definition apply_stored_rejection ::
  "StoredPaymentRequestEvent \<Rightarrow> PaymentRequestRejection \<Rightarrow> PaymentRequestRecord \<Rightarrow> PaymentRequestRecord" where
  "apply_stored_rejection stored rejection r =
     (if \<not> payer_action_source_allowed r stored
      then mark_invalid_stored stored ''Payment Request rejection came from the wrong side'' r
      else if rq_terms r = None
      then mark_invalid_stored stored ''Payment Request rejection arrived before proposal'' r
      else if rq_state r \<noteq> Proposed
      then mark_invalid_stored stored ''Payment Request rejection arrived after transition'' r
      else touch_stored stored
        (r\<lparr>rq_rejected_event_id := Some (event_id_str (rej_event_id rejection)),
           rq_rejected_outbound_status := outbound_status stored, rq_state := Rejected\<rparr>))"

definition apply_stored_cancellation ::
  "StoredPaymentRequestEvent \<Rightarrow> PaymentRequestCancellation \<Rightarrow> PaymentRequestRecord \<Rightarrow> PaymentRequestRecord" where
  "apply_stored_cancellation stored cancellation r =
     (if rq_terms r = None
      then mark_invalid_stored stored ''Payment Request cancellation arrived before proposal'' r
      else if rq_state r \<in> {Rejected, Canceled, LifecycleRecoveryRequired, InvalidConflict}
      then mark_invalid_stored stored ''Payment Request cancellation arrived after terminal state'' r
      else touch_stored stored
        (r\<lparr>rq_canceled_event_id := Some (event_id_str (can_event_id cancellation)),
           rq_canceled_outbound_status := outbound_status stored, rq_state := Canceled\<rparr>))"

definition apply_stored_proof ::
  "ext \<Rightarrow> StoredPaymentRequestEvent \<Rightarrow> PaymentProof \<Rightarrow> PaymentRequestRecord \<Rightarrow> PaymentRequestRecord" where
  "apply_stored_proof E stored p r =
     (if \<not> payer_action_source_allowed r stored
      then mark_invalid_stored stored ''Payment Proof came from the wrong side'' r
      else if rq_state r \<notin> {Accepted, ActiveRecurring}
      then mark_invalid_stored stored ''Payment Proof arrived before acceptance'' r
      else
        case request_from_record E r of
          None \<Rightarrow> mark_invalid_stored stored ''Payment Proof cannot be correlated without proposal'' r
        | Some request \<Rightarrow>
            (case validate_for_request E p request of
               Inl err \<Rightarrow> mark_invalid_stored stored (paykit_error_display err) r
             | Inr _ \<Rightarrow> touch_stored stored
                 (r\<lparr>rq_payment_proofs := rq_payment_proofs r @ [proof_record_of stored p],
                    rq_state := (if record_recurring r then ActiveRecurring else ProofSubmitted)\<rparr>)))"

definition apply_stored_event ::
  "ext \<Rightarrow> StoredPaymentRequestEvent \<Rightarrow> PaymentRequestRecord \<Rightarrow> PaymentRequestRecord" where
  "apply_stored_event E stored r =
     (if rq_state r = InvalidConflict \<and> (rq_last_stream_item_id r \<noteq> None \<or> rq_last_outbound_message_id r \<noteq> None)
      then touch_stored stored r
      else
        case stored_event stored of
          Request request \<Rightarrow> apply_stored_request stored request r
        | Acceptance acceptance \<Rightarrow> apply_stored_acceptance E stored acceptance r
        | Rejection rejection \<Rightarrow> apply_stored_rejection stored rejection r
        | Cancellation cancellation \<Rightarrow> apply_stored_cancellation stored cancellation r
        | Proof p \<Rightarrow> apply_stored_proof E stored p r)"

section \<open>Queueing events\<close>

definition enqueue_payment_request_event ::
  "ext \<Rightarrow> PubkyPublicKey \<Rightarrow> PaykitReceiverPath \<Rightarrow> PaymentRequestEvent \<Rightarrow> instant \<Rightarrow> StorageState
    \<Rightarrow> StorageState \<times> OutboundPrivateMessageRecord sdk_res" where
  "enqueue_payment_request_event E cp rp event now s =
     (case serialize_payment_request_event E event of
        Inl err \<Rightarrow> (s, Inl (sdk_error_of_lib err))
      | Inr raw_json \<Rightarrow> enqueue_private_message E cp rp raw_json now s)"

definition enqueue_payment_request where
  "enqueue_payment_request E cp rp event now s = enqueue_payment_request_event E cp rp (Request event) now s"

definition enqueue_payment_request_acceptance where
  "enqueue_payment_request_acceptance E cp rp event now s = enqueue_payment_request_event E cp rp (Acceptance event) now s"

definition enqueue_payment_request_rejection where
  "enqueue_payment_request_rejection E cp rp event now s = enqueue_payment_request_event E cp rp (Rejection event) now s"

definition enqueue_payment_request_cancellation where
  "enqueue_payment_request_cancellation E cp rp event now s = enqueue_payment_request_event E cp rp (Cancellation event) now s"

definition enqueue_payment_proof where
  "enqueue_payment_proof E cp rp event now s = enqueue_payment_request_event E cp rp (Proof event) now s"

section \<open>Touching changes only the bookkeeping fields\<close>

definition touched :: "PaymentRequestRecord \<Rightarrow> bool" where
  "touched r \<longleftrightarrow> rq_last_stream_item_id r \<noteq> None \<or> rq_last_outbound_message_id r \<noteq> None"

definition recovering :: "StoredPaymentRequestEvent \<Rightarrow> bool" where
  "recovering stored \<longleftrightarrow> outbound_status stored = Some RecoveryRequired"

lemma touch_fields [simp]:
  "rq_state (touch i r) = rq_state r" "rq_terms (touch i r) = rq_terms r" "rq_id (touch i r) = rq_id r"
  "rq_local_role (touch i r) = rq_local_role r" "rq_proposal_event_id (touch i r) = rq_proposal_event_id r"
  "rq_accepted_event_id (touch i r) = rq_accepted_event_id r" "rq_rejected_event_id (touch i r) = rq_rejected_event_id r"
  "rq_canceled_event_id (touch i r) = rq_canceled_event_id r" "rq_payment_proofs (touch i r) = rq_payment_proofs r"
  "rq_invalid_reason (touch i r) = rq_invalid_reason r" "rq_counterparty (touch i r) = rq_counterparty r"
  "rq_path (touch i r) = rq_path r" "rq_last_outbound_message_id (touch i r) = rq_last_outbound_message_id r"
  "rq_last_stream_item_id (touch i r) = Some (si_id i)"
  by (simp_all add: touch_def touch_at_def)

lemma touch_stored_fields [simp]:
  "rq_terms (touch_stored e r) = rq_terms r" "rq_id (touch_stored e r) = rq_id r"
  "rq_local_role (touch_stored e r) = rq_local_role r" "rq_proposal_event_id (touch_stored e r) = rq_proposal_event_id r"
  "rq_accepted_event_id (touch_stored e r) = rq_accepted_event_id r"
  "rq_rejected_event_id (touch_stored e r) = rq_rejected_event_id r"
  "rq_canceled_event_id (touch_stored e r) = rq_canceled_event_id r"
  "rq_payment_proofs (touch_stored e r) = rq_payment_proofs r" "rq_invalid_reason (touch_stored e r) = rq_invalid_reason r"
  "rq_counterparty (touch_stored e r) = rq_counterparty r" "rq_path (touch_stored e r) = rq_path r"
  by (cases e; simp add: touch_outbound_def touch_at_def Let_def)+

lemma touch_stored_state [simp]:
  "rq_state (touch_stored e r) = (if recovering e \<and> rq_state r \<noteq> InvalidConflict then LifecycleRecoveryRequired else rq_state r)"
  by (cases e) (simp_all add: touch_outbound_def touch_at_def Let_def recovering_def)

lemma touch_stored_touched [simp]: "touched (touch_stored e r)"
  by (cases e) (simp_all add: touch_outbound_def touch_at_def Let_def touched_def)

declare touch_stored.simps [simp del]

lemma touch_touched [simp]: "touched (touch i r)"
  by (simp add: touched_def)

lemma touched_updates [simp]:
  "touched (r\<lparr>rq_state := st\<rparr>) = touched r"
  by (simp_all add: touched_def)

lemma mark_invalid_fields [simp]:
  "rq_state (mark_invalid_stored e reason r) = InvalidConflict" "touched (mark_invalid_stored e reason r)"
  "rq_invalid_reason (mark_invalid_stored e reason r) \<noteq> None"
  "rq_id (mark_invalid_stored e reason r) = rq_id r" "rq_terms (mark_invalid_stored e reason r) = rq_terms r"
  "rq_state (mark_invalid i reason r) = InvalidConflict" "touched (mark_invalid i reason r)"
  "rq_invalid_reason (mark_invalid i reason r) \<noteq> None"
  "rq_id (mark_invalid i reason r) = rq_id r" "rq_terms (mark_invalid i reason r) = rq_terms r"
  "rq_last_stream_item_id (mark_invalid i reason r) = Some (si_id i)"
  "rq_last_outbound_message_id (mark_invalid i reason r) = rq_last_outbound_message_id r"
  by (simp_all add: mark_invalid_stored_def mark_invalid_def split: option.splits)

section \<open>Well-formed records\<close>

text \<open>A recorded proof matches the proposal it is filed under and came from the paying side.\<close>

definition proof_matches :: "PaymentRequestRecord \<Rightarrow> PaymentProofRecord \<Rightarrow> bool" where
  "proof_matches r p \<longleftrightarrow>
     (case rq_terms r of
        None \<Rightarrow> False
      | Some t \<Rightarrow> pp_payment_reference p = tr_payment_reference t \<and> pp_endpoint_identifier p \<in> set (tr_identifiers t)
          \<and> (pp_billing_period p = None \<longleftrightarrow> tr_recurrence t = None))
     \<and> (rq_local_role r = Some Payer \<longleftrightarrow> pp_outbound_message_id p \<noteq> None)
     \<and> (rq_local_role r = Some Payee \<longleftrightarrow> pp_stream_item_id p \<noteq> None)"

fun state_evidence :: "PaymentRequestLifecycleState \<Rightarrow> PaymentRequestRecord \<Rightarrow> bool" where
  "state_evidence Proposed r \<longleftrightarrow> rq_accepted_event_id r = None \<and> rq_rejected_event_id r = None
     \<and> rq_canceled_event_id r = None \<and> rq_payment_proofs r = []"
| "state_evidence ProposalExpired r \<longleftrightarrow> rq_accepted_event_id r = None \<and> rq_rejected_event_id r = None
     \<and> rq_canceled_event_id r = None \<and> rq_payment_proofs r = []"
| "state_evidence Accepted r \<longleftrightarrow> rq_accepted_event_id r \<noteq> None \<and> rq_rejected_event_id r = None
     \<and> rq_canceled_event_id r = None \<and> rq_payment_proofs r = [] \<and> \<not> record_recurring r"
| "state_evidence ProofSubmitted r \<longleftrightarrow> rq_accepted_event_id r \<noteq> None \<and> rq_rejected_event_id r = None
     \<and> rq_canceled_event_id r = None \<and> length (rq_payment_proofs r) = 1 \<and> \<not> record_recurring r"
| "state_evidence ActiveRecurring r \<longleftrightarrow> rq_accepted_event_id r \<noteq> None \<and> rq_rejected_event_id r = None
     \<and> rq_canceled_event_id r = None \<and> record_recurring r"
| "state_evidence Rejected r \<longleftrightarrow> rq_rejected_event_id r \<noteq> None \<and> rq_accepted_event_id r = None
     \<and> rq_payment_proofs r = []"
| "state_evidence Canceled r \<longleftrightarrow> rq_canceled_event_id r \<noteq> None \<and> rq_rejected_event_id r = None"
| "state_evidence LifecycleRecoveryRequired r \<longleftrightarrow> True"
| "state_evidence InvalidConflict r \<longleftrightarrow> True"

definition record_core :: "PaymentRequestRecord \<Rightarrow> bool" where
  "record_core r \<longleftrightarrow>
     state_evidence (rq_state r) r
     \<and> (rq_state r = InvalidConflict \<or> rq_terms r \<noteq> None \<and> rq_local_role r \<noteq> None \<and> rq_invalid_reason r = None)
     \<and> (rq_terms r \<noteq> None \<or> rq_local_role r = None \<and> rq_accepted_event_id r = None \<and> rq_rejected_event_id r = None
          \<and> rq_canceled_event_id r = None \<and> rq_payment_proofs r = [])
     \<and> (rq_accepted_event_id r = None \<or> rq_rejected_event_id r = None)
     \<and> (rq_payment_proofs r = [] \<or> rq_accepted_event_id r \<noteq> None)
     \<and> (record_recurring r \<or> length (rq_payment_proofs r) \<le> 1)
     \<and> list_all (proof_matches r) (rq_payment_proofs r)"

definition request_record_wf :: "PaymentRequestRecord \<Rightarrow> bool" where
  "request_record_wf r \<longleftrightarrow> record_core r \<and> (touched r \<or> rq_terms r = None \<and> rq_invalid_reason r = None)"

lemma record_recurring_cong: "rq_terms r = rq_terms r' \<Longrightarrow> record_recurring r = record_recurring r'"
  by (simp add: record_recurring_def)

lemma proof_matches_cong:
  "rq_terms r = rq_terms r' \<Longrightarrow> rq_local_role r = rq_local_role r' \<Longrightarrow> proof_matches r = proof_matches r'"
  by (simp add: proof_matches_def fun_eq_iff)

lemma wf_new: "request_record_wf (PaymentRequestRecord_new cp rp rid)"
  by (simp add: request_record_wf_def record_core_def PaymentRequestRecord_new_def)

text \<open>A record that differs only in bookkeeping and is invalid or recovering keeps the invariant.\<close>

lemma wf_transfer:
  assumes "record_core r" and "rq_terms r' = rq_terms r" and "rq_local_role r' = rq_local_role r"
    and "rq_accepted_event_id r' = rq_accepted_event_id r" and "rq_rejected_event_id r' = rq_rejected_event_id r"
    and "rq_canceled_event_id r' = rq_canceled_event_id r" and "rq_payment_proofs r' = rq_payment_proofs r"
    and "touched r'"
    and "rq_state r' = InvalidConflict \<or> rq_state r \<noteq> InvalidConflict \<and> rq_invalid_reason r' = rq_invalid_reason r
      \<and> (rq_state r' = rq_state r \<or> rq_state r' = LifecycleRecoveryRequired
          \<or> rq_state r = Proposed \<and> rq_state r' = ProposalExpired)"
  shows "request_record_wf r'"
proof -
  have pm: "proof_matches r' = proof_matches r" and rr: "record_recurring r' = record_recurring r"
    using proof_matches_cong [OF assms(2,3)] record_recurring_cong [OF assms(2)] by blast+
  have "state_evidence st r' = state_evidence st r" for st
    by (cases st) (simp_all only: state_evidence.simps assms(4-7) rr)
  moreover have "state_evidence (rq_state r') r"
    using assms(1,9) by (auto simp: record_core_def)
  moreover have "rq_state r' = InvalidConflict \<or> rq_terms r \<noteq> None \<and> rq_local_role r \<noteq> None \<and> rq_invalid_reason r' = None"
    using assms(1,9) unfolding record_core_def by metis
  moreover note assms(1) [unfolded record_core_def]
  ultimately show ?thesis
    using assms(8) unfolding request_record_wf_def record_core_def assms(2-7) pm rr by simp
qed

lemma wf_core: "request_record_wf r \<Longrightarrow> record_core r"
  by (simp add: request_record_wf_def)

lemma wf_touched: "request_record_wf r \<Longrightarrow> rq_state r \<noteq> InvalidConflict \<Longrightarrow> touched r"
  by (auto simp: request_record_wf_def record_core_def)

lemma wf_touch_stored: "record_core r \<Longrightarrow> request_record_wf (touch_stored e r)"
  by (erule wf_transfer) simp_all

lemma wf_touch: "record_core r \<Longrightarrow> request_record_wf (touch i r)"
  by (erule wf_transfer) simp_all

lemma wf_mark_invalid_stored: "request_record_wf r \<Longrightarrow> request_record_wf (mark_invalid_stored e reason r)"
  by (rule wf_transfer [OF wf_core]) (simp_all add: mark_invalid_stored_def)

lemma wf_mark_invalid: "request_record_wf r \<Longrightarrow> request_record_wf (mark_invalid i reason r)"
  by (rule wf_transfer [OF wf_core]) (simp_all add: mark_invalid_def)

lemma wf_expire:
  assumes "request_record_wf r"
  shows "request_record_wf (expire_proposal E now r)"
proof (cases "rq_state r = Proposed \<and> proposal_expired E r now")
  case True
  then show ?thesis
    using wf_touched [OF assms] unfolding expire_proposal_def
    by (simp, intro wf_transfer [OF wf_core [OF assms]]) simp_all
qed (use assms in \<open>auto simp: expire_proposal_def\<close>)

lemma update_cong [simp]:
  "record_recurring (r\<lparr>rq_state := st\<rparr>) = record_recurring r"
  "record_recurring (r\<lparr>rq_accepted_event_id := x\<rparr>) = record_recurring r"
  "record_recurring (r\<lparr>rq_accepted_outbound_status := y\<rparr>) = record_recurring r"
  "record_recurring (r\<lparr>rq_rejected_event_id := x\<rparr>) = record_recurring r"
  "record_recurring (r\<lparr>rq_rejected_outbound_status := y\<rparr>) = record_recurring r"
  "record_recurring (r\<lparr>rq_canceled_event_id := x\<rparr>) = record_recurring r"
  "record_recurring (r\<lparr>rq_canceled_outbound_status := y\<rparr>) = record_recurring r"
  "record_recurring (r\<lparr>rq_payment_proofs := ps\<rparr>) = record_recurring r"
  "proof_matches (r\<lparr>rq_state := st\<rparr>) = proof_matches r"
  "proof_matches (r\<lparr>rq_accepted_event_id := x\<rparr>) = proof_matches r"
  "proof_matches (r\<lparr>rq_accepted_outbound_status := y\<rparr>) = proof_matches r"
  "proof_matches (r\<lparr>rq_rejected_event_id := x\<rparr>) = proof_matches r"
  "proof_matches (r\<lparr>rq_rejected_outbound_status := y\<rparr>) = proof_matches r"
  "proof_matches (r\<lparr>rq_canceled_event_id := x\<rparr>) = proof_matches r"
  "proof_matches (r\<lparr>rq_canceled_outbound_status := y\<rparr>) = proof_matches r"
  "proof_matches (r\<lparr>rq_payment_proofs := ps\<rparr>) = proof_matches r"
  by (rule record_recurring_cong proof_matches_cong; simp)+

text \<open>The updates of the accepting branches keep the core of the invariant.\<close>

lemma core_propose:
  assumes "request_record_wf r" and "rq_terms r = None" and "\<not> (rq_state r = InvalidConflict \<and> touched r)"
    and "rq_terms r' = Some t" and "rq_local_role r' \<noteq> None" and "rq_state r' = Proposed"
    and "rq_accepted_event_id r' = rq_accepted_event_id r" and "rq_rejected_event_id r' = rq_rejected_event_id r"
    and "rq_canceled_event_id r' = rq_canceled_event_id r" and "rq_payment_proofs r' = rq_payment_proofs r"
    and "rq_invalid_reason r' = rq_invalid_reason r"
  shows "record_core r'"
proof -
  have "rq_invalid_reason r = None \<and> rq_accepted_event_id r = None \<and> rq_rejected_event_id r = None
    \<and> rq_canceled_event_id r = None \<and> rq_payment_proofs r = []"
    using assms(1-3) by (auto simp: request_record_wf_def record_core_def)
  with assms(4-) show ?thesis by (simp add: record_core_def)
qed

lemma core_accept:
  assumes "request_record_wf r" and "rq_state r = Proposed"
  shows "record_core (r\<lparr>rq_accepted_event_id := Some x, rq_accepted_outbound_status := y,
    rq_state := (if record_recurring r then ActiveRecurring else Accepted)\<rparr>)"
  using assms by (simp add: request_record_wf_def record_core_def)

lemma core_reject:
  assumes "request_record_wf r" and "rq_state r = Proposed"
  shows "record_core (r\<lparr>rq_rejected_event_id := Some x, rq_rejected_outbound_status := y, rq_state := Rejected\<rparr>)"
  using assms by (simp add: request_record_wf_def record_core_def)

lemma core_cancel:
  assumes "request_record_wf r" and "rq_state r \<notin> {Rejected, Canceled, LifecycleRecoveryRequired, InvalidConflict}"
    and "rq_state r' = Canceled" and "rq_canceled_event_id r' = Some x" and "rq_terms r' = rq_terms r"
    and "rq_local_role r' = rq_local_role r" and "rq_accepted_event_id r' = rq_accepted_event_id r"
    and "rq_rejected_event_id r' = rq_rejected_event_id r" and "rq_payment_proofs r' = rq_payment_proofs r"
    and "rq_invalid_reason r' = rq_invalid_reason r"
  shows "record_core r'"
proof -
  have pm: "proof_matches r' = proof_matches r" and rr: "record_recurring r' = record_recurring r"
    using proof_matches_cong [OF assms(5,6)] record_recurring_cong [OF assms(5)] by blast+
  have "rq_rejected_event_id r = None"
    using assms(1,2) by (cases "rq_state r") (simp_all add: request_record_wf_def record_core_def)
  then show ?thesis
    using assms(1-4) unfolding request_record_wf_def record_core_def assms(5-10) pm rr by (auto simp: assms(8))
qed

lemma core_proof:
  assumes "request_record_wf r" and "rq_state r \<in> {Accepted, ActiveRecurring}" and "proof_matches r p"
  shows "record_core (r\<lparr>rq_payment_proofs := rq_payment_proofs r @ [p],
    rq_state := (if record_recurring r then ActiveRecurring else ProofSubmitted)\<rparr>)"
  using assms by (elim insertE emptyE) (simp_all add: request_record_wf_def record_core_def)

lemma wf_if:
  "(b \<Longrightarrow> request_record_wf x) \<Longrightarrow> (\<not> b \<Longrightarrow> request_record_wf y) \<Longrightarrow> request_record_wf (if b then x else y)"
  by simp

lemmas wf_branches = wf_if wf_touch_stored wf_mark_invalid_stored

lemma wf_apply_stored_request:
  assumes "request_record_wf r"
  shows "request_record_wf (apply_stored_request e q r)"
proof -
  have guard: "rq_state r = InvalidConflict \<and> (rq_last_stream_item_id r \<noteq> None \<or> rq_last_outbound_message_id r \<noteq> None)
      \<longleftrightarrow> rq_state r = InvalidConflict \<and> touched r" by (simp add: touched_def)
  show ?thesis
    unfolding apply_stored_request_def guard Let_def
    by (intro wf_branches assms wf_core [OF assms] core_propose [OF assms]) (auto split: StoredPaymentRequestEvent.splits)
qed

lemma wf_apply_stored_acceptance:
  assumes "request_record_wf r"
  shows "request_record_wf (apply_stored_acceptance E e a r)"
  unfolding apply_stored_acceptance_def by (intro wf_branches assms core_accept [OF assms]) simp

lemma wf_apply_stored_rejection:
  assumes "request_record_wf r"
  shows "request_record_wf (apply_stored_rejection e a r)"
  unfolding apply_stored_rejection_def by (intro wf_branches assms core_reject [OF assms]) simp

lemma wf_apply_stored_cancellation:
  assumes "request_record_wf r"
  shows "request_record_wf (apply_stored_cancellation e a r)"
  unfolding apply_stored_cancellation_def by (intro wf_branches assms core_cancel [OF assms]) simp_all

section \<open>Rebuilding the proposal\<close>

lemma reference_new_eq: "PaymentReference_new s = Inr x \<Longrightarrow> x = PaymentReference s"
  by (auto simp: PaymentReference_new_def Let_def split: if_splits option.splits prod.splits)

lemma identifier_new_eq: "PaymentEndpointIdentifier_new s = Inr x \<Longrightarrow> x = PaymentEndpointIdentifier s"
  by (auto simp: PaymentEndpointIdentifier_new_def Let_def split: if_splits option.splits prod.splits)

lemma amount_new_record: "PaymentAmount_new v a = Inr x \<Longrightarrow> amount_record_of x = \<lparr>ar_value = v, ar_asset = a\<rparr>"
  by (auto simp: PaymentAmount_new_def amount_record_of_def Let_def result_iffs)

interpretation record_unit: string_enum recurrence_unit_to_str parse_recurrence_unit
proof
  show "parse_recurrence_unit (recurrence_unit_to_str x) = Some x" for x
    by (cases x) (simp_all add: parse_recurrence_unit_def)
  show "parse_recurrence_unit u = Some x \<Longrightarrow> recurrence_unit_to_str x = u" for u x
    by (auto simp: parse_recurrence_unit_def split: if_splits)
qed

lemma omap_list_inverse:
  assumes "\<And>x y. f x = Some y \<Longrightarrow> g y = x"
  shows "omap_list f xs = Some ys \<Longrightarrow> map g ys = xs"
  using assms by (induction xs arbitrary: ys) (auto split: option.splits)

lemma recurrence_record_inverse:
  "recurrence_from_record rr = Some r \<longleftrightarrow>
     rr = \<lparr>rcr_every = rec_every r, rcr_unit = recurrence_unit_to_str (rec_unit r),
       rcr_starts_at = rec_starts_at r, rcr_anchor = rec_anchor r, rcr_ends_at = rec_ends_at r\<rparr>"
  by (cases rr; cases r) (auto simp: recurrence_from_record_def record_unit.parse_iff record_unit.parse_as_str)

lemma rebuilt_terms:
  assumes "request_from_record E r = Some q"
  shows "rq_terms r = Some (terms_record_of (prq_request q)) \<and> prq_version q = 1 \<and> prq_kind q = PaymentRequestKind"
proof -
  obtain t rc amount reference ids where t: "rq_terms r = Some t"
    and rc: "(case tr_recurrence t of Some x \<Rightarrow> map_option Some (recurrence_from_record x) | None \<Rightarrow> Some None) = Some rc"
    and amount: "PaymentAmount_new (ar_value (tr_amount t)) (ar_asset (tr_amount t)) = Inr amount"
    and reference: "PaymentReference_new (tr_payment_reference t) = Inr reference"
    and ids: "omap_list (\<lambda>i. ok_of (PaymentEndpointIdentifier_new i)) (tr_identifiers t) = Some ids"
    and q: "prq_request q = \<lparr>terms_amount = amount, terms_payment_reference = reference,
        terms_proposal_expires_at = tr_proposal_expires_at t, terms_recurrence = rc,
        terms_identifiers = ids, terms_metadata = tr_metadata t\<rparr>" "prq_version q = 1" "prq_kind q = PaymentRequestKind"
    using assms
    by (auto simp: request_from_record_def bind_eq_Some_conv PaymentRequest_new_def ok_of_Some_iff)
  have "map identifier_str ids = tr_identifiers t"
    by (rule omap_list_inverse [OF _ ids]) (auto simp: ok_of_Some_iff dest: identifier_new_eq)
  moreover have "map_option (\<lambda>r. \<lparr>rcr_every = rec_every r, rcr_unit = recurrence_unit_to_str (rec_unit r),
      rcr_starts_at = rec_starts_at r, rcr_anchor = rec_anchor r, rcr_ends_at = rec_ends_at r\<rparr>) rc = tr_recurrence t"
    using rc by (auto simp: recurrence_record_inverse split: option.splits)
  moreover have "amount_record_of amount = tr_amount t"
    using amount_new_record [OF amount] by (simp add: AmountRecord.equality)
  moreover have "reference_str reference = tr_payment_reference t"
    using reference_new_eq [OF reference] by simp
  ultimately have "t = terms_record_of (prq_request q)"
    unfolding terms_record_of_def q(1) by (intro PaymentRequestTermsRecord.equality) simp_all
  with t show ?thesis using q(2,3) by blast
qed

lemma rebuild_request:
  assumes "event_wf E (Request q)" and "event_valid E (Request q)"
    and "rq_terms r = Some (terms_record_of (prq_request q))" and "rq_id r = request_id_str (prq_request_id q)"
    and "rq_proposal_event_id r = Some (event_id_str (prq_event_id q))"
  shows "request_from_record E r = Some q"
proof -
  let ?t = "prq_request q"
  have ids: "omap_list (\<lambda>i. ok_of (PaymentEndpointIdentifier_new i)) (map identifier_str (terms_identifiers ?t))
      = Some (terms_identifiers ?t)"
    using assms(1) by (intro omap_list_map) (simp add: event_wf_def terms_wf_def list_all_iff)
  have rc: "(case map_option (\<lambda>r. \<lparr>rcr_every = rec_every r, rcr_unit = recurrence_unit_to_str (rec_unit r),
        rcr_starts_at = rec_starts_at r, rcr_anchor = rec_anchor r, rcr_ends_at = rec_ends_at r\<rparr>) (terms_recurrence ?t) of
      Some x \<Rightarrow> map_option Some (recurrence_from_record x) | None \<Rightarrow> Some None) = Some (terms_recurrence ?t)"
    by (auto simp: recurrence_record_inverse split: option.splits)
  have amount: "PaymentAmount_new (amount_value (terms_amount ?t)) (amount_asset (terms_amount ?t)) = Inr (terms_amount ?t)"
    using assms(2) by (simp add: PaymentAmount_new_def Let_def result_iffs amount_validate_iff terms_ok_def)
  show ?thesis
    using assms ids rc amount
    by (cases q) (simp add: request_from_record_def terms_record_of_def amount_record_of_def event_wf_def ids_wf_def
        terms_wf_def PaymentRequest_new_def)
qed

lemma accepted_proof_matches:
  assumes "payer_action_source_allowed r e" and "request_from_record E r = Some q" and "validate_for_request E p q = Inr ()"
  shows "proof_matches r (proof_record_of e p)"
proof -
  have t: "rq_terms r = Some (terms_record_of (prq_request q))" using rebuilt_terms [OF assms(2)] by simp
  have "(rq_local_role r = Some Payer \<longleftrightarrow> pp_outbound_message_id (proof_record_of e p) \<noteq> None)
      \<and> (rq_local_role r = Some Payee \<longleftrightarrow> pp_stream_item_id (proof_record_of e p) \<noteq> None)"
    using assms(1) by (cases e; cases "rq_local_role r")
      (auto simp: payer_action_source_allowed_def proof_record_of_def split: PaymentRequestLocalRole.splits)
  with t assms(3) show ?thesis
    by (auto simp: proof_matches_def proof_valid_iff terms_record_of_def proof_record_of_def)
qed

lemma wf_apply_stored_proof:
  assumes "request_record_wf r"
  shows "request_record_wf (apply_stored_proof E e p r)"
proof (cases "payer_action_source_allowed r e \<and> rq_state r \<in> {Accepted, ActiveRecurring}")
  case False
  then have "\<exists>reason. apply_stored_proof E e p r = mark_invalid_stored e reason r"
    by (auto simp: apply_stored_proof_def)
  then show ?thesis using wf_mark_invalid_stored [OF assms] by auto
next
  case True
  show ?thesis
  proof (cases "request_from_record E r")
    case None
    with True show ?thesis by (simp add: apply_stored_proof_def wf_mark_invalid_stored [OF assms])
  next
    case (Some q)
    have "validate_for_request E p q = Inr () \<Longrightarrow> proof_matches r (proof_record_of e p)"
      using accepted_proof_matches True Some by blast
    from wf_touch_stored [OF core_proof [OF assms conjunct2 [OF True] this], of e] True Some
    show ?thesis
      by (cases "validate_for_request E p q") (simp_all add: apply_stored_proof_def wf_mark_invalid_stored [OF assms])
  qed
qed

lemma wf_apply_stored_event:
  assumes "request_record_wf r"
  shows "request_record_wf (apply_stored_event E e r)"
  using assms
  by (auto simp: apply_stored_event_def intro!: wf_touch_stored [OF wf_core] wf_apply_stored_request wf_apply_stored_acceptance
      wf_apply_stored_rejection wf_apply_stored_cancellation wf_apply_stored_proof split: PaymentRequestEvent.splits)

lemma wf_apply_event:
  assumes "request_record_wf r" and "rq_last_outbound_message_id r = None" and "rq_state r \<noteq> Rejected"
    and "rq_state r \<noteq> LifecycleRecoveryRequired"
  shows "request_record_wf (apply_event E ev i now r)"
proof -
  have guard: "rq_state r = InvalidConflict \<and> rq_last_stream_item_id r \<noteq> None \<longleftrightarrow> rq_state r = InvalidConflict \<and> touched r"
    using assms(2) by (simp add: touched_def)
  have req: "request_record_wf (apply_request q i r)" for q
    unfolding apply_request_def guard
    by (intro wf_if wf_touch wf_mark_invalid assms wf_core [OF assms(1)] core_propose [OF assms(1)]) simp_all
  have can: "request_record_wf (touch i (r\<lparr>rq_canceled_event_id := Some x, rq_state := Canceled\<rparr>))"
    if "rq_state r \<notin> {Canceled, InvalidConflict}" for x
    using that assms(3,4) by (intro wf_touch core_cancel [OF assms(1)]) simp_all
  show ?thesis
    unfolding apply_event_def guard
    by (auto simp: wf_touch wf_core [OF assms(1)] wf_mark_invalid assms(1) req can wf_expire
        split: PaymentRequestEvent.splits)
qed

section \<open>Transitions\<close>

text \<open>The states a known record can be in after one more stored event.\<close>

fun lifecycle_next :: "PaymentRequestLifecycleState \<Rightarrow> PaymentRequestLifecycleState list" where
  "lifecycle_next Proposed = [Accepted, ActiveRecurring, Rejected, Canceled, LifecycleRecoveryRequired, InvalidConflict]"
| "lifecycle_next ProposalExpired = [Canceled, LifecycleRecoveryRequired, InvalidConflict]"
| "lifecycle_next Accepted = [ProofSubmitted, Canceled, LifecycleRecoveryRequired, InvalidConflict]"
| "lifecycle_next ActiveRecurring = [ActiveRecurring, Canceled, LifecycleRecoveryRequired, InvalidConflict]"
| "lifecycle_next ProofSubmitted = [Canceled, LifecycleRecoveryRequired, InvalidConflict]"
| "lifecycle_next Rejected = [InvalidConflict]"
| "lifecycle_next Canceled = [InvalidConflict]"
| "lifecycle_next LifecycleRecoveryRequired = [InvalidConflict]"
| "lifecycle_next InvalidConflict = [InvalidConflict]"

lemma touched_terms:
  "request_record_wf r \<Longrightarrow> touched r \<Longrightarrow> rq_state r \<noteq> InvalidConflict \<Longrightarrow> rq_terms r \<noteq> None"
  by (auto simp: request_record_wf_def record_core_def)

lemma touched_guard:
  "rq_last_stream_item_id r \<noteq> None \<or> rq_last_outbound_message_id r \<noteq> None \<longleftrightarrow> touched r"
  by (simp add: touched_def)

lemma invalid_absorbs:
  assumes "rq_state r = InvalidConflict" and "touched r"
  shows "apply_stored_event E e r = touch_stored e r"
  using assms unfolding apply_stored_event_def touched_guard by simp

lemma apply_stored_next:
  assumes "request_record_wf r" and "touched r"
  shows "rq_state (apply_stored_event E e r) \<in> set (lifecycle_next (rq_state r))"
proof (cases "rq_state r = InvalidConflict")
  case True
  with assms show ?thesis by (simp add: invalid_absorbs)
next
  case False
  note terms = touched_terms [OF assms False]
  show ?thesis
  proof (cases "stored_event e")
    case (Request q)
    with False terms show ?thesis
      by (cases "rq_state r") (simp_all add: apply_stored_event_def apply_stored_request_def)
  next
    case (Acceptance a)
    with False terms show ?thesis
      by (cases "rq_state r") (simp_all add: apply_stored_event_def apply_stored_acceptance_def)
  next
    case (Rejection a)
    with False terms show ?thesis
      by (cases "rq_state r") (simp_all add: apply_stored_event_def apply_stored_rejection_def)
  next
    case (Cancellation a)
    with False terms show ?thesis
      by (cases "rq_state r") (simp_all add: apply_stored_event_def apply_stored_cancellation_def)
  next
    case (Proof p)
    have "record_recurring r \<longleftrightarrow> rq_state r = ActiveRecurring" if "rq_state r \<in> {Accepted, ActiveRecurring}"
      using that assms(1) by (auto simp: request_record_wf_def record_core_def)
    with Proof False show ?thesis
      by (cases "rq_state r") (auto simp: apply_stored_event_def apply_stored_proof_def split: option.splits sum.splits)
  qed
qed

text \<open>C5: applying a stored event to a well-formed record it already knows keeps the record
  well-formed, moves its state only along the lifecycle, never changes the proposal's terms, and once
  the record is in conflict it stays in conflict with the first reason found and no new proof.\<close>

theorem stored_event_lifecycle:
  assumes "request_record_wf r" and "touched r"
  shows "request_record_wf (apply_stored_event E e r)
    \<and> rq_state (apply_stored_event E e r) \<in> set (lifecycle_next (rq_state r))
    \<and> (rq_state r = InvalidConflict \<longrightarrow> rq_invalid_reason (apply_stored_event E e r) = rq_invalid_reason r
         \<and> rq_payment_proofs (apply_stored_event E e r) = rq_payment_proofs r)
    \<and> (rq_terms r \<noteq> None \<longrightarrow> rq_terms (apply_stored_event E e r) = rq_terms r)"
proof -
  have "rq_terms (apply_stored_event E e r) = rq_terms r" if "rq_terms r \<noteq> None"
    using that by (auto simp: apply_stored_event_def apply_stored_request_def apply_stored_acceptance_def
        apply_stored_rejection_def apply_stored_cancellation_def apply_stored_proof_def
        split: PaymentRequestEvent.splits option.splits sum.splits)
  then show ?thesis
    using wf_apply_stored_event [OF assms(1)] apply_stored_next [OF assms] invalid_absorbs [OF _ assms(2)] by simp
qed

text \<open>The proposal rebuilt from the copied terms is the proposal that was received or queued,
  so a later Payment Proof is checked against exactly the request the payee made.\<close>

theorem proposal_rebuilt:
  assumes "stored_event e = Request q" and "event_wf E (Request q)" and "event_valid E (Request q)"
  shows "request_from_record E (apply_stored_event E e
    (PaymentRequestRecord_new cp rp (request_id_str (prq_request_id q)))) = Some q"
proof (rule rebuild_request [OF assms(2,3)])
  let ?new = "PaymentRequestRecord_new cp rp (request_id_str (prq_request_id q))"
  have fresh: "rq_terms ?new = None" "\<not> touched ?new" "rq_id ?new = request_id_str (prq_request_id q)"
    by (simp_all add: PaymentRequestRecord_new_def touched_def)
  have ap: "apply_stored_event E e ?new = apply_stored_request e q ?new"
    using fresh(2) unfolding apply_stored_event_def touched_guard assms(1) by simp
  have "rq_terms (apply_stored_request e q ?new) = Some (terms_record_of (prq_request q))
      \<and> rq_id (apply_stored_request e q ?new) = request_id_str (prq_request_id q)
      \<and> rq_proposal_event_id (apply_stored_request e q ?new) = Some (event_id_str (prq_event_id q))"
    using fresh unfolding apply_stored_request_def touched_guard by (cases e) (simp_all add: Let_def)
  then show "rq_terms (apply_stored_event E e ?new) = Some (terms_record_of (prq_request q))"
    and "rq_id (apply_stored_event E e ?new) = request_id_str (prq_request_id q)"
    and "rq_proposal_event_id (apply_stored_event E e ?new) = Some (event_id_str (prq_event_id q))"
    unfolding ap by simp_all
qed

text \<open>A request received from the sample peer, and the record it creates.\<close>

definition sample_item :: PrivateStreamItemRecord where
  "sample_item = stream_item_from_new 0 (new_stream_item sample_ext sample_peer sample_path 0 5
     (from_plaintext sample_ext ''doc'')
     \<lparr>cl_status = Valid, cl_parse_error = None, cl_event = None, cl_receipt_access = None\<rparr>)"

definition sample_request_record :: PaymentRequestRecord where
  "sample_request_record = apply_stored_event sample_ext (Received sample_item sample_event)
     (PaymentRequestRecord_new sample_peer sample_path sample_uuid)"

lemma sample_request_touched: "touched sample_request_record" "rq_state sample_request_record = Proposed"
  by (simp_all add: sample_request_record_def apply_stored_event_def apply_stored_request_def
      PaymentRequestRecord_new_def Let_def sample_event_def recovering_def)

theorem stored_event_lifecycle_witness:
  "rq_state (apply_stored_event sample_ext (Received sample_item sample_event) sample_request_record)
     \<in> {Accepted, ActiveRecurring, Rejected, Canceled, LifecycleRecoveryRequired, InvalidConflict}"
proof -
  have "request_record_wf sample_request_record"
    unfolding sample_request_record_def by (intro wf_apply_stored_event wf_new)
  from stored_event_lifecycle [OF this sample_request_touched(1), of sample_ext "Received sample_item sample_event"]
  show ?thesis by (simp add: sample_request_touched(2))
qed

theorem proposal_rebuilt_witness:
  "\<exists>q. sample_event = Request q \<and> request_from_record sample_ext sample_request_record = Some q"
proof -
  obtain q where q: "sample_event = Request q" "request_id_str (prq_request_id q) = sample_uuid"
    by (simp add: sample_event_def PaymentRequest_new_def)
  have "event_wf sample_ext (Request q)" "event_valid sample_ext (Request q)"
    using sample_event_wf sample_event_valid unfolding q(1) [symmetric] sample_ext_def by blast+
  from proposal_rebuilt [OF _ this, of "Received sample_item (Request q)" sample_peer sample_path] q
  show ?thesis by (simp add: sample_request_record_def)
qed

end
