(* ===== verification/Payment_Request_Derivation.thy ===== *)
theory Payment_Request_Derivation
  imports Payment_Request_Records "HOL-Library.Sublist"
begin

text \<open>
  Deriving the Payment Request records of a peer from the stored stream and the outbound log
  (\<^verbatim>\<open>paykit-sdk/src/domain/payment_requests/derivation.rs\<close>): the received-only derivation, and the one
  that merges both sides, with its ordering, its Event ID deduplication and the replay of the surviving
  events. The lemmas show that every derived record is well-formed and filed once per request, that a
  request touched by a conflicting or malformed event ends in conflict, which states the received-only
  view can show, and that the merge order is not transitive.
\<close>

section \<open>Records by request id\<close>

type_synonym records = "(string, PaymentRequestRecord) hashmap"

text \<open>\<^verbatim>\<open>record_for\<close> gives a mutable reference; \<open>with_record\<close> is that lookup with the change made through it.\<close>

definition record_for :: "PubkyPublicKey \<Rightarrow> PaykitReceiverPath \<Rightarrow> string \<Rightarrow> records \<Rightarrow> PaymentRequestRecord" where
  "record_for cp rp rid records =
     (case hm_get records rid of Some r \<Rightarrow> r | None \<Rightarrow> PaymentRequestRecord_new cp rp rid)"

definition with_record ::
  "PubkyPublicKey \<Rightarrow> PaykitReceiverPath \<Rightarrow> string \<Rightarrow> (PaymentRequestRecord \<Rightarrow> PaymentRequestRecord) \<Rightarrow> records \<Rightarrow> records" where
  "with_record cp rp rid f records = hm_insert rid (f (record_for cp rp rid records)) records"

definition is_payment_request_kind :: "string \<Rightarrow> bool" where
  "is_payment_request_kind kind \<longleftrightarrow> kind \<in> {''paykit.payment_request'', ''paykit.payment_request_acceptance'',
     ''paykit.payment_request_rejection'', ''paykit.payment_request_cancellation'', ''paykit.payment_proof''}"

definition payment_request_message_from_item :: "PrivateStreamItemRecord \<Rightarrow> PrivateApplicationMessage option" where
  "payment_request_message_from_item item =
     Option.bind (si_known_paykit_kind item) (\<lambda>kind.
     if \<not> is_payment_request_kind kind then None
     else Some \<lparr>pam_version = Option.bind (si_parsed_version item) (\<lambda>v. if unat v < 256 then Some (ucast v) else None),
                pam_kind = si_parsed_kind item, pam_raw_json = si_raw_json item\<rparr>)"

definition parsed_item :: "ext \<Rightarrow> PrivateStreamItemRecord \<Rightarrow> PaymentRequestEventMessage option" where
  "parsed_item E item = Option.bind (payment_request_message_from_item item) (parse_payment_request_event_message E)"

type_synonym dedupe_records = "(string, EventDedupRecord) hashmap"

definition collect_dedupe_record ::
  "ext \<Rightarrow> StorageState \<Rightarrow> PubkyPublicKey \<Rightarrow> PaykitReceiverPath \<Rightarrow> PrivateStreamItemRecord \<Rightarrow> dedupe_records \<Rightarrow> dedupe_records" where
  "collect_dedupe_record E s cp rp item dedupes =
     (case Option.bind (parsed_item E item) evm_event_id of
        None \<Rightarrow> dedupes
      | Some eid \<Rightarrow>
          (case event_dedup_record s (cp, rp, event_id_str eid) of
             None \<Rightarrow> dedupes
           | Some record \<Rightarrow> hm_insert (event_id_str eid) record dedupes))"

text \<open>What the dedupe record of its Event ID says about one stream item.\<close>

definition item_verdict :: "dedupe_records \<Rightarrow> string option \<Rightarrow> PrivateStreamItemRecord \<Rightarrow> EventDedupeOutcome" where
  "item_verdict dedupes event_id item =
     (case Option.bind event_id (hm_get dedupes) of
        None \<Rightarrow> First
      | Some dedupe \<Rightarrow>
          if si_id item \<in> set (ed_duplicate_stream_item_ids dedupe) then Duplicate
          else if si_id item \<in> set (ed_conflicting_stream_item_ids dedupe)
            \<or> ed_first_stream_item_id dedupe = si_id item \<and> ed_conflicting_stream_item_ids dedupe \<noteq> []
          then Conflict else First)"

definition validation_reason :: "PaymentRequestEventMessage \<Rightarrow> string" where
  "validation_reason parsed =
     (case evm_validation_error parsed of Some e \<Rightarrow> e | None \<Rightarrow> ''malformed Payment Request event'')"

section \<open>The received-only derivation\<close>

definition apply_received_item ::
  "ext \<Rightarrow> PubkyPublicKey \<Rightarrow> PaykitReceiverPath \<Rightarrow> dedupe_records \<Rightarrow> instant \<Rightarrow> PrivateStreamItemRecord \<Rightarrow> records \<Rightarrow> records" where
  "apply_received_item E cp rp dedupes now item records =
     (case parsed_item E item of
        None \<Rightarrow> records
      | Some parsed \<Rightarrow>
          let request_id = map_option request_id_str (evm_request_id parsed);
              event_id = map_option event_id_str (evm_event_id parsed)
          in (case item_verdict dedupes event_id item of
                Duplicate \<Rightarrow> records
              | Conflict \<Rightarrow>
                  (case request_id of
                     Some rid \<Rightarrow> with_record cp rp rid (mark_invalid item ''Event ID reused with different payload'') records
                   | None \<Rightarrow> records)
              | First \<Rightarrow>
                  (case request_id of
                     None \<Rightarrow> records
                   | Some rid \<Rightarrow>
                       (case evm_event parsed of
                          Inl _ \<Rightarrow> with_record cp rp rid (mark_invalid item (validation_reason parsed)) records
                        | Inr event \<Rightarrow> with_record cp rp rid (apply_event E event item now) records))))"

definition newest_first :: "(PaymentRequestRecord \<Rightarrow> 'k::linorder) \<Rightarrow> PaymentRequestRecord list \<Rightarrow> PaymentRequestRecord list" where
  "newest_first key = sort_by (\<lambda>a b. key b < key a)"

definition option_or :: "'a option \<Rightarrow> 'a option \<Rightarrow> 'a option" where
  "option_or a b = (case a of Some x \<Rightarrow> Some x | None \<Rightarrow> b)"

definition expire_records :: "ext \<Rightarrow> instant \<Rightarrow> records \<Rightarrow> records" where
  "expire_records E now records = map (\<lambda>(k, r). (k, expire_proposal E now r)) records"

definition derive_received_payment_request_records ::
  "ext \<Rightarrow> PubkyPublicKey \<Rightarrow> PaykitReceiverPath \<Rightarrow> PrivateStreamItemRecord list \<Rightarrow> dedupe_records \<Rightarrow> instant
    \<Rightarrow> PaymentRequestRecord list" where
  "derive_received_payment_request_records E cp rp items dedupes now =
     (let records = fold (apply_received_item E cp rp dedupes now) (sort_key si_id items) []
      in newest_first (\<lambda>r. option_or (rq_last_stream_item_id r) (rq_proposal_stream_item_id r))
           (hm_values (expire_records E now records)))"

definition received_payment_request_records ::
  "ext \<Rightarrow> StorageState \<Rightarrow> PubkyPublicKey \<Rightarrow> PaykitReceiverPath \<Rightarrow> instant \<Rightarrow> PaymentRequestRecord list" where
  "received_payment_request_records E s cp rp now =
     (let items = private_stream_items s cp rp;
          dedupes = fold (collect_dedupe_record E s cp rp) items []
      in derive_received_payment_request_records E cp rp items dedupes now)"

section \<open>The order of stored events\<close>

datatype Ordering = Less | Equal | Greater

definition cmp :: "'a::linorder \<Rightarrow> 'a \<Rightarrow> Ordering" where
  "cmp a b = (if a < b then Less else if a = b then Equal else Greater)"

fun then_with :: "Ordering \<Rightarrow> Ordering \<Rightarrow> Ordering" where
  "then_with Equal o' = o'"
| "then_with o1 _ = o1"

definition compare_stored_events :: "StoredPaymentRequestEvent \<Rightarrow> StoredPaymentRequestEvent \<Rightarrow> Ordering" where
  "compare_stored_events a b =
     (if source_rank a = source_rank b
      then then_with (cmp (source_order a) (source_order b)) (cmp (record_time a) (record_time b))
      else
        let phase = cmp (phase_order a) (phase_order b) in
        if phase \<noteq> Equal then phase
        else then_with (then_with (cmp (record_time a) (record_time b)) (cmp (source_rank a) (source_rank b)))
               (cmp (source_order a) (source_order b)))"

section \<open>Deduplication across both sides\<close>

record StoredEventDedupeEntry =
  de_payload_hash :: string
  de_event :: "StoredPaymentRequestEvent option"
  de_request_id :: string
  de_source_rank :: u8
  de_tainted :: bool

record TaintedEventSeed =
  ts_event_id :: string
  ts_request_id :: string
  ts_payload_hash :: string
  ts_source_rank :: u8

definition or_insert :: "'k \<Rightarrow> 'v \<Rightarrow> ('k, 'v) hashmap \<Rightarrow> ('k, 'v) hashmap" where
  "or_insert k v m = (case hm_get m k of Some _ \<Rightarrow> m | None \<Rightarrow> hm_insert k v m)"

definition entry_of_event :: "ext \<Rightarrow> bool \<Rightarrow> StoredPaymentRequestEvent \<Rightarrow> StoredEventDedupeEntry" where
  "entry_of_event E tainted ev =
     \<lparr>de_payload_hash = stored_payload_hash E ev, de_event = Some ev, de_request_id = stored_request_id ev,
      de_source_rank = source_rank ev, de_tainted = tainted\<rparr>"

definition entry_of_seed :: "TaintedEventSeed \<Rightarrow> StoredEventDedupeEntry" where
  "entry_of_seed seed =
     \<lparr>de_payload_hash = ts_payload_hash seed, de_event = None, de_request_id = ts_request_id seed,
      de_source_rank = ts_source_rank seed, de_tainted = True\<rparr>"

record dedupe_acc =
  da_records :: records
  da_first :: "(string, StoredEventDedupeEntry) hashmap"
  da_conflicted_events :: "string set"
  da_conflicted_requests :: "string set"
  da_deduped :: "StoredPaymentRequestEvent list"

definition REUSED :: string where
  "REUSED = ''Event ID reused with different payload''"

definition dedupe_event ::
  "ext \<Rightarrow> PubkyPublicKey \<Rightarrow> PaykitReceiverPath \<Rightarrow> StoredPaymentRequestEvent \<Rightarrow> dedupe_acc \<Rightarrow> dedupe_acc" where
  "dedupe_event E cp rp ev acc =
     (case hm_get (da_first acc) (stored_event_id ev) of
        Some first \<Rightarrow>
          if de_payload_hash first = stored_payload_hash E ev \<and> \<not> de_tainted first
            \<and> de_source_rank first = source_rank ev
          then acc
          else
            let acc1 =
              (case (de_tainted first, de_event first) of
                 (False, Some first_event) \<Rightarrow>
                   acc\<lparr>da_records := with_record cp rp (de_request_id first)
                         (mark_invalid_stored first_event REUSED) (da_records acc),
                       da_conflicted_requests := insert (de_request_id first) (da_conflicted_requests acc)\<rparr>
               | _ \<Rightarrow> acc)
            in acc1\<lparr>da_records := with_record cp rp (stored_request_id ev) (mark_invalid_stored ev REUSED) (da_records acc1),
                    da_conflicted_events := insert (stored_event_id ev) (da_conflicted_events acc1),
                    da_conflicted_requests := insert (stored_request_id ev) (da_conflicted_requests acc1)\<rparr>
      | None \<Rightarrow>
          acc\<lparr>da_first := hm_insert (stored_event_id ev) (entry_of_event E False ev) (da_first acc),
              da_deduped := da_deduped acc @ [ev]\<rparr>)"

definition dedupe_stored_events ::
  "ext \<Rightarrow> PubkyPublicKey \<Rightarrow> PaykitReceiverPath \<Rightarrow> records \<Rightarrow> StoredPaymentRequestEvent list
    \<Rightarrow> StoredPaymentRequestEvent list \<Rightarrow> TaintedEventSeed list \<Rightarrow> records \<times> StoredPaymentRequestEvent list" where
  "dedupe_stored_events E cp rp records events tainted_events seeds =
     (let first1 = fold (\<lambda>ev. or_insert (stored_event_id ev) (entry_of_event E True ev)) tainted_events [];
          first2 = fold (\<lambda>seed. or_insert (ts_event_id seed) (entry_of_seed seed)) seeds first1;
          acc = fold (dedupe_event E cp rp) events
            \<lparr>da_records = records, da_first = first2, da_conflicted_events = {}, da_conflicted_requests = {},
             da_deduped = []\<rparr>
      in (da_records acc,
          filter (\<lambda>ev. stored_event_id ev \<notin> da_conflicted_events acc
            \<and> stored_request_id ev \<notin> da_conflicted_requests acc) (da_deduped acc)))"

section \<open>The merged derivation\<close>

record derive_acc =
  dv_records :: records
  dv_events :: "StoredPaymentRequestEvent list"
  dv_pre_invalid :: "string set"
  dv_seeds :: "TaintedEventSeed list"

definition seed_of :: "ext \<Rightarrow> PrivateStreamItemRecord \<Rightarrow> string \<Rightarrow> string \<Rightarrow> TaintedEventSeed" where
  "seed_of E item event_id request_id =
     \<lparr>ts_event_id = event_id, ts_request_id = request_id, ts_payload_hash = payload_hash E (si_raw_json item),
      ts_source_rank = 0\<rparr>"

text \<open>An invalid item: its Event ID, when it has one, taints; its request, when it names one, is in conflict.\<close>

definition reject_item ::
  "ext \<Rightarrow> PubkyPublicKey \<Rightarrow> PaykitReceiverPath \<Rightarrow> PrivateStreamItemRecord \<Rightarrow> string \<Rightarrow> string option \<Rightarrow> string option
    \<Rightarrow> derive_acc \<Rightarrow> derive_acc" where
  "reject_item E cp rp item reason event_id request_id acc =
     (let acc1 = (case event_id of
            Some eid \<Rightarrow> acc\<lparr>dv_seeds := dv_seeds acc @ [seed_of E item eid (case request_id of Some rid \<Rightarrow> rid | None \<Rightarrow> [])]\<rparr>
          | None \<Rightarrow> acc)
      in case request_id of
           Some rid \<Rightarrow> acc1\<lparr>dv_pre_invalid := insert rid (dv_pre_invalid acc1),
                            dv_records := with_record cp rp rid (mark_invalid item reason) (dv_records acc1)\<rparr>
         | None \<Rightarrow> acc1)"

definition collect_received_item ::
  "ext \<Rightarrow> PubkyPublicKey \<Rightarrow> PaykitReceiverPath \<Rightarrow> dedupe_records \<Rightarrow> PrivateStreamItemRecord \<Rightarrow> derive_acc \<Rightarrow> derive_acc" where
  "collect_received_item E cp rp dedupes item acc =
     (case parsed_item E item of
        None \<Rightarrow> acc
      | Some parsed \<Rightarrow>
          let request_id = map_option request_id_str (evm_request_id parsed);
              event_id = map_option event_id_str (evm_event_id parsed)
          in (case item_verdict dedupes event_id item of
                Duplicate \<Rightarrow> acc
              | Conflict \<Rightarrow> reject_item E cp rp item REUSED event_id request_id acc
              | First \<Rightarrow>
                  (case request_id of
                     None \<Rightarrow> reject_item E cp rp item [] event_id None acc
                   | Some rid \<Rightarrow>
                       (case evm_event parsed of
                          Inl _ \<Rightarrow> reject_item E cp rp item (validation_reason parsed) event_id (Some rid) acc
                        | Inr event \<Rightarrow> acc\<lparr>dv_events := dv_events acc @ [Received item event]\<rparr>))))"

definition collect_outbound_message ::
  "ext \<Rightarrow> PubkyPublicKey \<Rightarrow> PaykitReceiverPath \<Rightarrow> dedupe_records \<Rightarrow> OutboundPrivateMessageRecord \<Rightarrow> derive_acc \<Rightarrow> derive_acc" where
  "collect_outbound_message E cp rp dedupes m acc =
     (if om_status m \<in> {Invalid, Superseded} then acc
      else
        case Option.bind (parse_payment_request_event_message E
               \<lparr>pam_version = Some 1, pam_kind = Some (om_kind m), pam_raw_json = om_raw_json m\<rparr>) evm_parsed_event of
          None \<Rightarrow> acc
        | Some event \<Rightarrow>
            let stored = Outbound m event in
            if (case hm_get dedupes (event_id_str (event_event_id event)) of
                  Some dedupe \<Rightarrow> ed_conflicting_stream_item_ids dedupe \<noteq> [] | None \<Rightarrow> False)
            then acc\<lparr>dv_records := with_record cp rp (stored_request_id stored) (mark_invalid_stored stored REUSED) (dv_records acc)\<rparr>
            else acc\<lparr>dv_events := dv_events acc @ [stored]\<rparr>)"

definition replay_event ::
  "ext \<Rightarrow> PubkyPublicKey \<Rightarrow> PaykitReceiverPath \<Rightarrow> StoredPaymentRequestEvent \<Rightarrow> records \<Rightarrow> records" where
  "replay_event E cp rp ev records = with_record cp rp (stored_request_id ev) (apply_stored_event E ev) records"

definition derive_payment_request_records ::
  "ext \<Rightarrow> PubkyPublicKey \<Rightarrow> PaykitReceiverPath \<Rightarrow> PrivateStreamItemRecord list \<Rightarrow> OutboundPrivateMessageRecord list
    \<Rightarrow> dedupe_records \<Rightarrow> instant \<Rightarrow> PaymentRequestRecord list" where
  "derive_payment_request_records E cp rp items outbound dedupes now =
     (let acc1 = fold (collect_received_item E cp rp dedupes) (sort_key si_id items)
            \<lparr>dv_records = [], dv_events = [], dv_pre_invalid = {}, dv_seeds = []\<rparr>;
          acc2 = fold (collect_outbound_message E cp rp dedupes) outbound acc1;
          events = sort_by (\<lambda>a b. compare_stored_events a b = Less) (dv_events acc2);
          tainted = filter (\<lambda>ev. stored_request_id ev \<in> dv_pre_invalid acc2) events;
          kept = filter (\<lambda>ev. stored_request_id ev \<notin> dv_pre_invalid acc2) events;
          (records, deduped) = dedupe_stored_events E cp rp (dv_records acc2) kept tainted (dv_seeds acc2);
          records' = fold (replay_event E cp rp) deduped records
      in newest_first (\<lambda>r. (rq_last_event_at r, option_or (rq_last_outbound_message_id r) (rq_last_stream_item_id r)))
           (hm_values (expire_records E now records')))"

definition payment_request_records ::
  "ext \<Rightarrow> StorageState \<Rightarrow> PubkyPublicKey \<Rightarrow> PaykitReceiverPath \<Rightarrow> instant \<Rightarrow> PaymentRequestRecord list" where
  "payment_request_records E s cp rp now =
     (let items = private_stream_items s cp rp;
          outbound = outbound_private_messages s cp rp;
          dedupes = fold (collect_dedupe_record E s cp rp) items []
      in derive_payment_request_records E cp rp items outbound dedupes now)"

section \<open>Every derived record is well-formed\<close>

text \<open>A change of one record that keeps its identity and the invariant.\<close>

definition same_record :: "PaymentRequestRecord \<Rightarrow> PaymentRequestRecord \<Rightarrow> bool" where
  "same_record r r' \<longleftrightarrow> rq_id r' = rq_id r \<and> rq_counterparty r' = rq_counterparty r \<and> rq_path r' = rq_path r"

lemma same_record_changes [simp]:
  "same_record r (mark_invalid i reason r)" "same_record r (mark_invalid_stored e reason r)"
  "same_record r (expire_proposal E now r)"
  by (simp_all add: same_record_def mark_invalid_def mark_invalid_stored_def expire_proposal_def)

lemma same_record_apply_stored [simp]: "same_record r (apply_stored_event E e r)"
  by (cases e) (auto simp: same_record_def apply_stored_event_def apply_stored_request_def apply_stored_acceptance_def
      apply_stored_rejection_def apply_stored_cancellation_def apply_stored_proof_def mark_invalid_stored_def Let_def
      split: PaymentRequestEvent.splits option.splits sum.splits)

lemma same_record_apply [simp]: "same_record r (apply_event E ev i now r)"
  by (auto simp: same_record_def apply_event_def apply_request_def mark_invalid_def expire_proposal_def
      split: PaymentRequestEvent.splits)

definition records_ok :: "PubkyPublicKey \<Rightarrow> PaykitReceiverPath \<Rightarrow> (PaymentRequestRecord \<Rightarrow> bool) \<Rightarrow> records \<Rightarrow> bool" where
  "records_ok cp rp P m \<longleftrightarrow> hm_wf rq_id m
     \<and> list_all (\<lambda>(k, r). rq_counterparty r = cp \<and> rq_path r = rp \<and> P r) m"

lemma records_ok_get:
  "records_ok cp rp P m \<Longrightarrow> hm_get m rid = Some r \<Longrightarrow> rq_id r = rid \<and> rq_counterparty r = cp \<and> rq_path r = rp \<and> P r"
  by (auto simp: records_ok_def list_all_iff dest: hm_wf_get map_of_SomeD)

lemma record_for_ok:
  assumes "records_ok cp rp P m" and "\<And>rid. P (PaymentRequestRecord_new cp rp rid)"
  shows "rq_id (record_for cp rp rid m) = rid \<and> rq_counterparty (record_for cp rp rid m) = cp
    \<and> rq_path (record_for cp rp rid m) = rp \<and> P (record_for cp rp rid m)"
  using assms records_ok_get [OF assms(1), of rid]
  by (cases "hm_get m rid") (simp_all add: record_for_def PaymentRequestRecord_new_def)

lemma with_record_ok:
  assumes "records_ok cp rp P m" and "\<And>rid. P (PaymentRequestRecord_new cp rp rid)"
    and "\<And>r. P r \<Longrightarrow> P (f r) \<and> same_record r (f r)"
  shows "records_ok cp rp P (with_record cp rp rid f m)"
proof -
  let ?r = "record_for cp rp rid m"
  have r: "rq_id ?r = rid \<and> rq_counterparty ?r = cp \<and> rq_path ?r = rp \<and> P ?r"
    using record_for_ok [OF assms(1,2)] .
  then have f: "P (f ?r)" "rq_id (f ?r) = rid" "rq_counterparty (f ?r) = cp" "rq_path (f ?r) = rp"
    using assms(3) [of ?r] by (auto simp: same_record_def)
  then have "hm_wf rq_id (with_record cp rp rid f m)"
    using assms(1) hm_wf_insert [of rq_id m "f ?r"] by (simp add: records_ok_def with_record_def)
  moreover have "list_all (\<lambda>(k, r). rq_counterparty r = cp \<and> rq_path r = rp \<and> P r) (with_record cp rp rid f m)"
    using assms(1) f set_update_subset [of rid "f ?r" m]
    by (auto simp: records_ok_def with_record_def list_all_iff)
  ultimately show ?thesis by (simp add: records_ok_def)
qed

lemma records_ok_empty [simp]: "records_ok cp rp P []"
  by (simp add: records_ok_def)

lemma expire_records_ok:
  assumes "records_ok cp rp P m" and "\<And>r. P r \<Longrightarrow> P (expire_proposal E now r)"
  shows "records_ok cp rp P (expire_records E now m)"
proof -
  have keys: "map fst (expire_records E now m) = map fst m" by (simp add: expire_records_def comp_def split_beta)
  have "fst e = rq_id (snd e) \<and> rq_counterparty (snd e) = cp \<and> rq_path (snd e) = rp \<and> P (snd e)"
    if e: "e \<in> set (expire_records E now m)" for e
  proof -
    obtain k r where kr: "(k, r) \<in> set m" "e = (k, expire_proposal E now r)"
      using e by (auto simp: expire_records_def)
    then have "k = rq_id r \<and> rq_counterparty r = cp \<and> rq_path r = rp \<and> P r"
      using assms(1) by (fastforce simp: records_ok_def hm_wf_def list_all_iff)
    then show ?thesis using kr(2) assms(2) same_record_changes(3) [of r E now] by (simp add: same_record_def)
  qed
  then show ?thesis
    using assms(1) unfolding records_ok_def hm_wf_def keys by (auto simp: list_all_iff)
qed

text \<open>Two invariants: any record of the merged derivation, and a record of the received-only one.\<close>

definition received_only :: "PaymentRequestRecord \<Rightarrow> bool" where
  "received_only r \<longleftrightarrow> request_record_wf r \<and> rq_last_outbound_message_id r = None
     \<and> rq_state r \<in> {Proposed, ProposalExpired, Canceled, InvalidConflict}
     \<and> rq_local_role r \<noteq> Some Payee \<and> rq_accepted_event_id r = None \<and> rq_payment_proofs r = []"

lemma received_only_new [simp]: "received_only (PaymentRequestRecord_new cp rp rid)"
  using wf_new by (simp add: received_only_def PaymentRequestRecord_new_def)

lemma received_only_expire: "received_only r \<Longrightarrow> received_only (expire_proposal E now r)"
  using wf_expire [of r E now] by (auto simp: received_only_def expire_proposal_def)

lemma received_only_mark: "received_only r \<Longrightarrow> received_only (mark_invalid i reason r)"
  using wf_mark_invalid [of r i reason] by (auto simp: received_only_def mark_invalid_def)

lemma received_only_apply:
  assumes "received_only r"
  shows "received_only (apply_event E ev i now r)"
proof -
  have "request_record_wf (apply_event E ev i now r)"
    using assms by (intro wf_apply_event) (auto simp: received_only_def)
  then show ?thesis
    using assms
    by (auto simp: received_only_def apply_event_def apply_request_def mark_invalid_def expire_proposal_def
        split: PaymentRequestEvent.splits if_splits)
qed

lemma apply_received_item_ok:
  assumes "records_ok cp rp received_only m"
  shows "records_ok cp rp received_only (apply_received_item E cp rp dedupes now item m)"
  using assms
  by (auto simp: apply_received_item_def Let_def received_only_mark received_only_apply
      intro!: with_record_ok split: option.splits EventDedupeOutcome.splits sum.splits)

lemma fold_inv: "(\<And>x a. I a \<Longrightarrow> I (f x a)) \<Longrightarrow> I a \<Longrightarrow> I (fold f xs a)"
  by (induction xs arbitrary: a) auto

definition derived_ok ::
  "PubkyPublicKey \<Rightarrow> PaykitReceiverPath \<Rightarrow> (PaymentRequestRecord \<Rightarrow> bool) \<Rightarrow> PaymentRequestRecord list \<Rightarrow> bool" where
  "derived_ok cp rp P rs \<longleftrightarrow> distinct (map rq_id rs)
     \<and> list_all (\<lambda>r. rq_counterparty r = cp \<and> rq_path r = rp \<and> P r) rs"

lemma set_newest_first [simp]: "set (newest_first key rs) = set rs"
  by (simp add: newest_first_def)

lemma derived_ok_newest: "derived_ok cp rp P (newest_first key rs) = derived_ok cp rp P rs"
proof -
  have "mset (map rq_id (newest_first key rs)) = mset (map rq_id rs)" by (simp add: newest_first_def)
  then have "distinct (map rq_id (newest_first key rs)) = distinct (map rq_id rs)"
    by (rule mset_eq_imp_distinct_iff)
  then show ?thesis by (simp add: derived_ok_def list_all_iff)
qed

lemma records_ok_values:
  assumes "records_ok cp rp P m"
  shows "derived_ok cp rp P (hm_values m)"
proof -
  have "map rq_id (hm_values m) = map fst m"
    using assms by (auto simp: records_ok_def hm_wf_def hm_values_def)
  then have "distinct (map rq_id (hm_values m))" using assms by (simp add: records_ok_def hm_wf_def)
  then show ?thesis
    using assms by (auto simp: derived_ok_def records_ok_def hm_values_def list_all_iff)
qed

text \<open>the received-only view lists each Payment Request once, for the asked peer, and shows it as
  proposed, expired, canceled or in conflict and never as a request the local side made, accepted or
  paid, whatever the stream holds.\<close>

theorem received_records_states:
  "derived_ok cp rp received_only (received_payment_request_records E s cp rp now)"
proof -
  have "records_ok cp rp received_only (fold (apply_received_item E cp rp dedupes now) items [])" for dedupes items
    by (rule fold_inv) (simp_all add: apply_received_item_ok)
  then show ?thesis
    unfolding received_payment_request_records_def derive_received_payment_request_records_def Let_def derived_ok_newest
    by (intro records_ok_values expire_records_ok received_only_expire)
qed

section \<open>The merged view\<close>

abbreviation merged_ok :: "PubkyPublicKey \<Rightarrow> PaykitReceiverPath \<Rightarrow> records \<Rightarrow> bool" where
  "merged_ok cp rp \<equiv> records_ok cp rp request_record_wf"

lemma with_record_mark_ok:
  assumes "merged_ok cp rp m"
  shows "merged_ok cp rp (with_record cp rp rid (mark_invalid i reason) m)"
    and "merged_ok cp rp (with_record cp rp rid (mark_invalid_stored e reason) m)"
  by (rule with_record_ok [OF assms]; simp add: wf_new wf_mark_invalid wf_mark_invalid_stored)+

lemma replay_event_ok: "merged_ok cp rp m \<Longrightarrow> merged_ok cp rp (replay_event E cp rp ev m)"
  unfolding replay_event_def by (rule with_record_ok) (simp_all add: wf_new wf_apply_stored_event)

lemma reject_item_ok: "merged_ok cp rp (dv_records acc) \<Longrightarrow> merged_ok cp rp (dv_records (reject_item E cp rp i reason eid rid acc))"
  by (auto simp: reject_item_def Let_def with_record_mark_ok split: option.splits)

lemma collect_received_ok:
  "merged_ok cp rp (dv_records acc) \<Longrightarrow> merged_ok cp rp (dv_records (collect_received_item E cp rp dedupes i acc))"
  by (auto simp: collect_received_item_def Let_def reject_item_ok split: option.splits EventDedupeOutcome.splits sum.splits)

lemma collect_outbound_ok:
  "merged_ok cp rp (dv_records acc) \<Longrightarrow> merged_ok cp rp (dv_records (collect_outbound_message E cp rp dedupes m acc))"
  by (auto simp: collect_outbound_message_def Let_def with_record_mark_ok split: option.splits)

lemma dedupe_event_ok:
  "merged_ok cp rp (da_records acc) \<Longrightarrow> merged_ok cp rp (da_records (dedupe_event E cp rp ev acc))"
  by (auto simp: dedupe_event_def Let_def with_record_mark_ok split: option.splits bool.splits)

text \<open>A request in conflict stays in conflict.\<close>

definition in_conflict :: "string \<Rightarrow> records \<Rightarrow> bool" where
  "in_conflict rid m \<longleftrightarrow> (case hm_get m rid of Some r \<Rightarrow> rq_state r = InvalidConflict \<and> touched r | None \<Rightarrow> False)"

lemma in_conflict_mark:
  "in_conflict rid (with_record cp rp rid (mark_invalid i reason) m)"
  "in_conflict rid (with_record cp rp rid (mark_invalid_stored e reason) m)"
  by (simp_all add: in_conflict_def with_record_def table_simps)

lemma in_conflict_with:
  assumes "in_conflict rid m" and "\<And>r. rq_state r = InvalidConflict \<Longrightarrow> touched r \<Longrightarrow> rq_state (f r) = InvalidConflict \<and> touched (f r)"
  shows "in_conflict rid (with_record cp rp rid' f m)"
  using assms by (auto simp: in_conflict_def with_record_def record_for_def table_simps split: option.splits)

lemma in_conflict_steps:
  assumes "in_conflict rid m"
  shows "in_conflict rid (with_record cp rp rid' (mark_invalid i reason) m)"
    and "in_conflict rid (with_record cp rp rid' (mark_invalid_stored e reason) m)"
    and "in_conflict rid (replay_event E cp rp ev m)"
  unfolding replay_event_def
  by (rule in_conflict_with [OF assms]; simp add: invalid_absorbs)+

lemma in_conflict_collect:
  assumes "in_conflict rid (dv_records acc)"
  shows "in_conflict rid (dv_records (reject_item E cp rp i reason eid rid' acc))"
    and "in_conflict rid (dv_records (collect_received_item E cp rp dedupes i acc))"
    and "in_conflict rid (dv_records (collect_outbound_message E cp rp dedupes m acc))"
proof -
  show reject: "in_conflict rid (dv_records (reject_item E cp rp i reason eid rid' acc))" for reason eid rid'
    using assms by (auto simp: reject_item_def Let_def in_conflict_steps split: option.splits)
  show "in_conflict rid (dv_records (collect_received_item E cp rp dedupes i acc))"
    using assms reject by (auto simp: collect_received_item_def Let_def
        split: option.splits EventDedupeOutcome.splits sum.splits)
  show "in_conflict rid (dv_records (collect_outbound_message E cp rp dedupes m acc))"
    using assms by (auto simp: collect_outbound_message_def Let_def in_conflict_steps split: option.splits)
qed

lemma in_conflict_dedupe:
  "in_conflict rid (da_records acc) \<Longrightarrow> in_conflict rid (da_records (dedupe_event E cp rp ev acc))"
  by (auto simp: dedupe_event_def Let_def in_conflict_steps split: option.splits bool.splits)

lemma in_conflict_expire: "in_conflict rid (expire_records E now m) = in_conflict rid m"
proof -
  have "hm_get (expire_records E now m) rid = map_option (expire_proposal E now) (hm_get m rid)"
    by (induction m) (auto simp: expire_records_def)
  then show ?thesis
    by (auto simp: in_conflict_def expire_proposal_def split: option.splits)
qed

text \<open>The stages of the derivation.\<close>

definition collected ::
  "ext \<Rightarrow> PubkyPublicKey \<Rightarrow> PaykitReceiverPath \<Rightarrow> PrivateStreamItemRecord list \<Rightarrow> OutboundPrivateMessageRecord list
    \<Rightarrow> dedupe_records \<Rightarrow> derive_acc" where
  "collected E cp rp items outbound dedupes =
     fold (collect_outbound_message E cp rp dedupes) outbound
       (fold (collect_received_item E cp rp dedupes) (sort_key si_id items)
         \<lparr>dv_records = [], dv_events = [], dv_pre_invalid = {}, dv_seeds = []\<rparr>)"

definition replayed ::
  "ext \<Rightarrow> PubkyPublicKey \<Rightarrow> PaykitReceiverPath \<Rightarrow> PrivateStreamItemRecord list \<Rightarrow> OutboundPrivateMessageRecord list
    \<Rightarrow> dedupe_records \<Rightarrow> records" where
  "replayed E cp rp items outbound dedupes =
     (let acc = collected E cp rp items outbound dedupes;
          events = sort_by (\<lambda>a b. compare_stored_events a b = Less) (dv_events acc);
          (records, deduped) = dedupe_stored_events E cp rp (dv_records acc)
            (filter (\<lambda>ev. stored_request_id ev \<notin> dv_pre_invalid acc) events)
            (filter (\<lambda>ev. stored_request_id ev \<in> dv_pre_invalid acc) events) (dv_seeds acc)
      in fold (replay_event E cp rp) deduped records)"

lemma derive_stages:
  "derive_payment_request_records E cp rp items outbound dedupes now =
     newest_first (\<lambda>r. (rq_last_event_at r, option_or (rq_last_outbound_message_id r) (rq_last_stream_item_id r)))
       (hm_values (expire_records E now (replayed E cp rp items outbound dedupes)))"
  by (simp add: derive_payment_request_records_def replayed_def collected_def Let_def split: prod.splits)

text \<open>An invariant of the records that every stage keeps holds of the replayed records.\<close>

lemma replayed_inv:
  assumes "I (dv_records (collected E cp rp items outbound dedupes))"
    and "\<And>acc ev. I (da_records acc) \<Longrightarrow> I (da_records (dedupe_event E cp rp ev acc))"
    and "\<And>m ev. I m \<Longrightarrow> I (replay_event E cp rp ev m)"
  shows "I (replayed E cp rp items outbound dedupes)"
proof -
  have "I (da_records (fold (dedupe_event E cp rp) evs acc))" if "I (da_records acc)" for evs acc
    using that assms(2) by (intro fold_inv [where I = "\<lambda>acc. I (da_records acc)"])
  then show ?thesis
    using assms(1) by (auto simp: replayed_def Let_def dedupe_stored_events_def intro!: fold_inv [of I] assms(3))
qed

lemma collected_inv:
  assumes "I (dv_records (fold (collect_received_item E cp rp dedupes) (sort_key si_id items)
         \<lparr>dv_records = [], dv_events = [], dv_pre_invalid = {}, dv_seeds = []\<rparr>))"
    and "\<And>acc m. I (dv_records acc) \<Longrightarrow> I (dv_records (collect_outbound_message E cp rp dedupes m acc))"
  shows "I (dv_records (collected E cp rp items outbound dedupes))"
  unfolding collected_def
  by (rule fold_inv [where I = "\<lambda>acc. I (dv_records acc)", OF assms(2) assms(1)])

lemma replayed_ok: "merged_ok cp rp (replayed E cp rp items outbound dedupes)"
proof (rule replayed_inv)
  show "merged_ok cp rp (dv_records (collected E cp rp items outbound dedupes))"
    by (rule collected_inv [OF fold_inv [where I = "\<lambda>acc. merged_ok cp rp (dv_records acc)"] collect_outbound_ok])
      (simp_all add: collect_received_ok)
qed (rule dedupe_event_ok replay_event_ok; assumption)+

text \<open>the merged view of a peer's Payment Requests lists each request once, for the asked peer and
  receiver path, and every listed record is well-formed: its state is backed by the events it names, it is
  never both accepted and rejected, a one-time request has at most one Payment Proof, and every recorded
  proof matches the proposal's reference, endpoints and recurrence and came from the paying side.\<close>

theorem merged_records_wf:
  "derived_ok cp rp request_record_wf (payment_request_records E s cp rp now)"
  unfolding payment_request_records_def Let_def derive_stages derived_ok_newest
  by (intro records_ok_values expire_records_ok replayed_ok wf_expire)

text \<open>An item that the derivation cannot accept and that names a request.\<close>

definition item_rejected :: "ext \<Rightarrow> dedupe_records \<Rightarrow> PrivateStreamItemRecord \<Rightarrow> string \<Rightarrow> bool" where
  "item_rejected E dedupes item rid =
     (case parsed_item E item of
        None \<Rightarrow> False
      | Some parsed \<Rightarrow>
          map_option request_id_str (evm_request_id parsed) = Some rid
          \<and> (case item_verdict dedupes (map_option event_id_str (evm_event_id parsed)) item of
               Duplicate \<Rightarrow> False | Conflict \<Rightarrow> True | First \<Rightarrow> \<not> is_ok (evm_event parsed)))"

lemma rejected_in_conflict:
  assumes "item_rejected E dedupes item rid"
  shows "in_conflict rid (dv_records (collect_received_item E cp rp dedupes item acc))"
proof -
  obtain parsed where parsed: "parsed_item E item = Some parsed"
    and rid: "map_option request_id_str (evm_request_id parsed) = Some rid"
    using assms by (auto simp: item_rejected_def split: option.splits)
  have reject: "in_conflict rid (dv_records (reject_item E cp rp item reason eid (Some rid) acc))" for reason eid
    by (simp add: reject_item_def Let_def in_conflict_mark split: option.splits)
  show ?thesis
    using assms parsed rid reject
    by (cases "item_verdict dedupes (map_option event_id_str (evm_event_id parsed)) item")
      (auto simp: item_rejected_def collect_received_item_def Let_def split: sum.splits)
qed

lemma rejected_collected:
  assumes "item \<in> set items" and "item_rejected E dedupes item rid"
  shows "in_conflict rid (dv_records (fold (collect_received_item E cp rp dedupes) items acc))"
  using assms(1)
proof (induction items arbitrary: acc)
  case (Cons i items)
  show ?case
  proof (cases "i = item")
    case True
    have "in_conflict rid (dv_records (fold (collect_received_item E cp rp dedupes) items
        (collect_received_item E cp rp dedupes item acc)))"
      by (rule fold_inv [where I = "\<lambda>acc. in_conflict rid (dv_records acc)"])
        (simp_all add: in_conflict_collect rejected_in_conflict [OF assms(2)])
    then show ?thesis using True by simp
  qed (use Cons in auto)
qed simp

lemma in_conflict_listed:
  assumes "in_conflict rid m" and "hm_wf rq_id m"
  shows "\<exists>r \<in> set (hm_values m). rq_id r = rid \<and> rq_state r = InvalidConflict"
proof -
  obtain r where r: "hm_get m rid = Some r" "rq_state r = InvalidConflict"
    using assms(1) by (auto simp: in_conflict_def split: option.splits)
  have "rq_id r = rid" using hm_wf_get [OF assms(2) r(1)] .
  with r assms(2) show ?thesis using hm_values_iff [of rq_id m r] by auto
qed

text \<open>C4: a stream item that reuses an Event ID with another payload, or that is a malformed Payment
  Request event, puts the request it names in conflict in the merged view, no matter which other events,
  received or queued, the request has and in which order they are merged.\<close>

theorem rejected_item_conflicts:
  assumes "item \<in> set items" and "item_rejected E dedupes item rid"
  shows "\<exists>r \<in> set (derive_payment_request_records E cp rp items outbound dedupes now).
    rq_id r = rid \<and> rq_state r = InvalidConflict"
proof -
  have "in_conflict rid (dv_records (collected E cp rp items outbound dedupes))"
    by (rule collected_inv) (simp_all add: rejected_collected [OF _ assms(2)] assms(1) in_conflict_collect)
  then have "in_conflict rid (replayed E cp rp items outbound dedupes)"
    by (rule replayed_inv) (simp_all add: in_conflict_dedupe in_conflict_steps)
  moreover have "hm_wf rq_id (expire_records E now (replayed E cp rp items outbound dedupes))"
    using expire_records_ok [OF replayed_ok wf_expire] by (simp add: records_ok_def)
  ultimately show ?thesis
    unfolding derive_stages set_newest_first by (intro in_conflict_listed) (simp_all add: in_conflict_expire)
qed

section \<open>Each event is replayed at most once\<close>

definition entries_present :: "(string, StoredEventDedupeEntry) hashmap \<Rightarrow> bool" where
  "entries_present first \<longleftrightarrow> list_all (\<lambda>(k, e). de_tainted e \<or> de_event e \<noteq> None) first"

definition dedupe_inv :: "StoredPaymentRequestEvent list \<Rightarrow> dedupe_acc \<Rightarrow> bool" where
  "dedupe_inv evs acc \<longleftrightarrow> distinct (map stored_event_id (da_deduped acc))
     \<and> list_all (\<lambda>ev. hm_get (da_first acc) (stored_event_id ev) \<noteq> None) (da_deduped acc)
     \<and> subseq (da_deduped acc) evs"

lemma dedupe_event_first:
  "hm_get (da_first acc) k \<noteq> None \<Longrightarrow> hm_get (da_first (dedupe_event E cp rp ev acc)) k \<noteq> None"
  by (auto simp: dedupe_event_def Let_def table_simps split: option.splits bool.splits)

lemma dedupe_event_deduped:
  "da_deduped (dedupe_event E cp rp ev acc) =
     da_deduped acc @ (if hm_get (da_first acc) (stored_event_id ev) = None then [ev] else [])"
  by (auto simp: dedupe_event_def Let_def split: option.splits bool.splits)

lemma dedupe_event_inv:
  assumes "dedupe_inv evs acc"
  shows "dedupe_inv (evs @ [ev]) (dedupe_event E cp rp ev acc)"
proof (cases "hm_get (da_first acc) (stored_event_id ev)")
  case None
  then have "stored_event_id ev \<notin> set (map stored_event_id (da_deduped acc))"
    using assms by (auto simp: dedupe_inv_def list_all_iff)
  moreover have "hm_get (da_first (dedupe_event E cp rp ev acc)) (stored_event_id ev) \<noteq> None"
    using None by (simp add: dedupe_event_def table_simps)
  ultimately show ?thesis
    using assms None dedupe_event_first [of acc _ E cp rp ev]
    by (auto simp: dedupe_inv_def dedupe_event_deduped list_all_iff intro: subseq_append' list_emb_append_mono)
next
  case (Some e)
  then show ?thesis
    using assms dedupe_event_first [of acc _ E cp rp ev]
    by (auto simp: dedupe_inv_def dedupe_event_deduped list_all_iff intro: subseq_rev_drop_many)
qed

lemma fold_dedupe_inv: "dedupe_inv evs acc \<Longrightarrow> dedupe_inv (evs @ new) (fold (dedupe_event E cp rp) new acc)"
proof (induction new arbitrary: evs acc)
  case (Cons ev new)
  from Cons.IH [OF dedupe_event_inv [OF Cons.prems]] show ?case by simp
qed simp

lemma entries_present_insert:
  "entries_present m \<Longrightarrow> de_tainted e \<or> de_event e \<noteq> None \<Longrightarrow> entries_present (hm_insert k e m)"
  using set_update_subset [of k e m] by (fastforce simp: entries_present_def list_all_iff)

text \<open>The entry looked up for an untainted first occurrence always carries its event.\<close>

lemma dedupe_entries_present:
  assumes "entries_present (da_first acc)"
  shows "entries_present (da_first (fold (dedupe_event E cp rp) evs acc))"
proof (rule fold_inv [where I = "\<lambda>acc. entries_present (da_first acc)"])
  fix ev and acc :: dedupe_acc assume "entries_present (da_first acc)"
  then show "entries_present (da_first (dedupe_event E cp rp ev acc))"
    by (auto simp: dedupe_event_def Let_def entry_of_event_def entries_present_insert split: option.splits bool.splits)
qed (fact assms)

text \<open>after deduplication every Event ID is replayed at most once, and the events that remain keep
  the order they were merged in.\<close>

theorem dedupe_replays_once:
  "distinct (map stored_event_id (snd (dedupe_stored_events E cp rp records events tainted seeds)))
    \<and> subseq (snd (dedupe_stored_events E cp rp records events tainted seeds)) events"
proof -
  define first where "first = fold (\<lambda>seed. or_insert (ts_event_id seed) (entry_of_seed seed)) seeds
    (fold (\<lambda>ev. or_insert (stored_event_id ev) (entry_of_event E True ev)) tainted [])"
  let ?acc = "\<lparr>da_records = records, da_first = first, da_conflicted_events = {}, da_conflicted_requests = {},
    da_deduped = []\<rparr>"
  have "dedupe_inv [] ?acc" by (simp add: dedupe_inv_def)
  from fold_dedupe_inv [OF this, of events E cp rp]
  have "dedupe_inv events (fold (dedupe_event E cp rp) events ?acc)" by simp
  then show ?thesis
    by (auto simp: dedupe_stored_events_def Let_def first_def dedupe_inv_def distinct_map_filter
        intro: subseq_order.trans subseq_filter_left)
qed

section \<open>The order of the listing and of the merge\<close>

lemma insert_tail_sorted:
  fixes key :: "'a \<Rightarrow> 'k::linorder"
  assumes "sorted_wrt (\<lambda>a b. key a \<le> key b) ys"
  shows "sorted_wrt (\<lambda>a b. key a \<le> key b) (insert_tail (\<lambda>a b. key b < key a) x ys)"
  using assms
proof (induction ys)
  case (Cons y ys)
  have "set (insert_tail (\<lambda>a b. key b < key a) x ys) = insert x (set ys)"
    using mset_insert_tail [of "\<lambda>a b. key b < key a" x ys] by (metis set_mset_add_mset_insert set_mset_mset)
  with Cons show ?case by (auto intro: order.trans)
qed simp

lemma newest_first_sorted: "sorted_wrt (\<lambda>a b. key b \<le> key a) (newest_first key rs)"
proof -
  have "sorted_wrt (\<lambda>a b. key a \<le> key b) (fold (insert_tail (\<lambda>a b. key b < key a)) rs [])"
    by (rule fold_inv) (simp_all add: insert_tail_sorted)
  then show ?thesis by (simp add: newest_first_def sort_by_def sorted_wrt_rev)
qed

text \<open>The merged view is listed newest first: no record is followed by one whose last event is later.\<close>

theorem merged_records_newest_first:
  "sorted_wrt (\<lambda>a b. rq_last_event_at b \<le> rq_last_event_at a) (payment_request_records E s cp rp now)"
proof (rule sorted_wrt_mono_rel [rotated])
  let ?key = "\<lambda>r. (rq_last_event_at r, option_or (rq_last_outbound_message_id r) (rq_last_stream_item_id r))"
  show "sorted_wrt (\<lambda>a b. ?key b \<le> ?key a) (payment_request_records E s cp rp now)"
    unfolding payment_request_records_def Let_def derive_stages by (rule newest_first_sorted)
qed (auto simp: less_eq_prod_simp)

text \<open>
  Three events that the comparator orders in a circle: a received Payment Proof, a proposal received after
  it, and a proposal queued later still. By stream id the proof precedes the received proposal, by time the
  received proposal precedes the queued one, and by phase the queued proposal precedes the proof.
\<close>

definition cycle_proof :: StoredPaymentRequestEvent where
  "cycle_proof = Received (sample_item\<lparr>si_id := 1, si_received_at := 10\<rparr>)
     (Proof (PaymentProof_new (EventId ''a'') (PaymentRequestId ''r'') (PaymentReference ''ref'') None
       (PaymentEndpointIdentifier ''btc'') []))"

definition cycle_received :: StoredPaymentRequestEvent where
  "cycle_received = Received (sample_item\<lparr>si_id := 2, si_received_at := 20\<rparr>) sample_event"

definition cycle_queued :: StoredPaymentRequestEvent where
  "cycle_queued = Outbound (outbound_from_new 3 \<lparr>nm_counterparty = sample_peer, nm_path = sample_path,
     nm_kind = ''paykit.payment_request'', nm_raw_json = ''doc'', nm_created_at = 30\<rparr>) sample_event"

text \<open>C40: the comparison the merged events are sorted with is not a total order: there are events that
  it orders in a circle, which \<^verbatim>\<open>slice::sort_by\<close> does not allow.\<close>

theorem stored_event_order_cyclic:
  "compare_stored_events cycle_proof cycle_received = Less
    \<and> compare_stored_events cycle_received cycle_queued = Less
    \<and> compare_stored_events cycle_queued cycle_proof = Less"
  by (simp add: compare_stored_events_def cycle_proof_def cycle_received_def cycle_queued_def cmp_def phase_order_def
      sample_event_def outbound_from_new_def Let_def)

text \<open>Within one side the comparison is the order of the ids.\<close>

lemma compare_same_source:
  "source_rank a = source_rank b \<Longrightarrow> source_order a \<noteq> source_order b \<Longrightarrow>
     compare_stored_events a b = Less \<longleftrightarrow> source_order a < source_order b"
  by (auto simp: compare_stored_events_def cmp_def)

text \<open>A request of the sample peer received twice with different payloads.\<close>

definition sample_dedupes :: dedupe_records where
  "sample_dedupes = [(sample_uuid,
     (dedup_first sample_peer sample_path sample_uuid 0 ''k'' ''h'')\<lparr>ed_conflicting_stream_item_ids := [4]\<rparr>)]"

lemma sample_item_parsed:
  obtains em where "parsed_item sample_ext sample_item = Some em" "evm_event em = Inr sample_event"
    "evm_event_id em = Some (EventId sample_uuid)" "evm_request_id em = Some (PaymentRequestId sample_uuid)"
proof -
  obtain m where m: "payment_request_message_from_item sample_item = Some m" "pam_raw_json m = ''doc''"
    using sample_doc(1) [of "from_plaintext sample_ext ''doc''"]
    by (simp add: payment_request_message_from_item_def sample_item_def stream_item_from_new_def new_stream_item_def
        is_payment_request_kind_def)
  obtain em where em: "parse_payment_request_event_message sample_ext m = Some em" "evm_event em = Inr sample_event"
    using parsed_event_message [OF sample_doc(1) [OF m(2)], of sample_event] sample_doc(2) [OF m(2)] m(2) by metis
  show thesis
    using that [of em] m em event_message_ids [OF em]
    by (simp add: parsed_item_def sample_event_def PaymentRequest_new_def)
qed

theorem rejected_item_conflicts_witness:
  "\<exists>r \<in> set (derive_payment_request_records sample_ext sample_peer sample_path [sample_item] [] sample_dedupes 9).
     rq_id r = sample_uuid \<and> rq_state r = InvalidConflict"
proof (rule rejected_item_conflicts)
  obtain em where em: "parsed_item sample_ext sample_item = Some em"
    "evm_event_id em = Some (EventId sample_uuid)" "evm_request_id em = Some (PaymentRequestId sample_uuid)"
    using sample_item_parsed by metis
  have "item_verdict sample_dedupes (Some sample_uuid) sample_item = Conflict"
    by (simp add: item_verdict_def sample_dedupes_def dedup_first_def sample_item_def stream_item_from_new_def)
  with em show "item_rejected sample_ext sample_dedupes sample_item sample_uuid"
    by (simp add: item_rejected_def)
qed simp

end
