(* ===== verification/Request_Runtime.thy ===== *)
theory Request_Runtime
  imports Link_Progress Payment_Request_Derivation
begin

text \<open>
  The Payment Request operations of the SDK (\<^verbatim>\<open>paykit-sdk/src/runtime/payment_requests.rs\<close>): listing requests of
  one or all counterparties, and the commands that propose, accept, reject and cancel a request and submit
  a Payment Proof. What a command queues is allowed by the record the wallet shows, and a listing holds
  well-formed records of counterparties that are not blocked, newest first.
\<close>

section \<open>Guards on a record\<close>

fun lifecycle_state_debug :: "PaymentRequestLifecycleState \<Rightarrow> string" where
  "lifecycle_state_debug Proposed = ''Proposed''"
| "lifecycle_state_debug ProposalExpired = ''ProposalExpired''"
| "lifecycle_state_debug Accepted = ''Accepted''"
| "lifecycle_state_debug Rejected = ''Rejected''"
| "lifecycle_state_debug Canceled = ''Canceled''"
| "lifecycle_state_debug ProofSubmitted = ''ProofSubmitted''"
| "lifecycle_state_debug ActiveRecurring = ''ActiveRecurring''"
| "lifecycle_state_debug LifecycleRecoveryRequired = ''RecoveryRequired''"
| "lifecycle_state_debug InvalidConflict = ''InvalidConflict''"

definition require_payer_role :: "PaymentRequestRecord \<Rightarrow> string \<Rightarrow> unit sdk_res" where
  "require_payer_role r action =
     (if rq_local_role r = Some Payer then Inr ()
      else Inl (SdkPolicy (''cannot '' @ action @ '': local identity is not the payer'') None))"

definition require_state :: "PaymentRequestRecord \<Rightarrow> PaymentRequestLifecycleState list \<Rightarrow> string \<Rightarrow> unit sdk_res" where
  "require_state r allowed action =
     (if rq_state r \<in> set allowed then Inr ()
      else Inl (SdkPolicy (''cannot '' @ action @ '': Payment Request '' @ rq_id r @ '' is in state ''
             @ lifecycle_state_debug (rq_state r)) None))"

definition kind_is_payment_request :: "string option \<Rightarrow> bool" where
  "kind_is_payment_request kind \<longleftrightarrow>
     Option.bind kind kind_parse \<in> Some ` {PaymentRequestKind, PaymentRequestAcceptanceKind, PaymentRequestRejectionKind,
       PaymentRequestCancellationKind, PaymentProofKind}"

section \<open>Views\<close>

definition mark_recovery :: "PaymentRequestRecord \<Rightarrow> PaymentRequestRecord" where
  "mark_recovery r =
     (if rq_state r \<in> {Proposed, ProposalExpired, Accepted, ProofSubmitted, ActiveRecurring}
      then r\<lparr>rq_state := LifecycleRecoveryRequired\<rparr> else r)"

definition mark_recovery_required_payment_request_records ::
  "PubkyPublicKey \<Rightarrow> PaykitReceiverPath \<Rightarrow> PaymentRequestRecord list \<Rightarrow> PaymentRequestRecord list rt" where
  "mark_recovery_required_payment_request_records cp rp records =
     rt_read (\<lambda>s. if map_option lp_state (linked_peer s (cp, rp)) = Some RecoveryRequiredState then map mark_recovery records else records)"

definition received_payment_requests_from ::
  "ext \<Rightarrow> net \<Rightarrow> PaykitSdkConfig \<Rightarrow> nat list \<Rightarrow> PubkyPublicKey \<Rightarrow> PaykitReceiverPath \<Rightarrow> PaymentRequestRecord list rt" where
  "received_payment_requests_from E V cfg p cp rp =
     rt_bind (refresh_identity cfg (nv_session V p) (nv_now V (0 # p))) (\<lambda>(_, identity).
     if id_public_key identity = None then rt_return []
     else rt_bind (rt_check (\<lambda>s. ensure_peer_not_blocked s cp rp)) (\<lambda>_.
       rt_bind (rt_read (\<lambda>s. received_payment_request_records E s cp rp (nv_now V (1 # p)))) (\<lambda>records.
       mark_recovery_required_payment_request_records cp rp records)))"

definition payment_requests_with ::
  "ext \<Rightarrow> net \<Rightarrow> PaykitSdkConfig \<Rightarrow> nat list \<Rightarrow> PubkyPublicKey \<Rightarrow> PaykitReceiverPath \<Rightarrow> PaymentRequestRecord list rt" where
  "payment_requests_with E V cfg p cp rp =
     rt_bind (refresh_identity cfg (nv_session V p) (nv_now V (0 # p))) (\<lambda>(_, identity).
     if id_public_key identity = None then rt_return []
     else rt_bind (rt_check (\<lambda>s. ensure_peer_not_blocked s cp rp)) (\<lambda>_.
       rt_bind (rt_read (\<lambda>s. payment_request_records E s cp rp (nv_now V (1 # p)))) (\<lambda>records.
       mark_recovery_required_payment_request_records cp rp records)))"

text \<open>The peers with stored Payment Request traffic; the hash set of the source is a list without repetitions.\<close>

definition request_peers :: "bool \<Rightarrow> StorageState \<Rightarrow> (PubkyPublicKey \<times> PaykitReceiverPath) list" where
  "request_peers only_received s =
     remdups (map (\<lambda>i. (si_counterparty i, si_path i)) (filter (\<lambda>i. kind_is_payment_request (si_parsed_kind i)) (st_private_stream_items s))
       @ (if only_received then []
          else map (\<lambda>m. (om_counterparty m, om_path m))
                 (filter (\<lambda>m. kind_is_payment_request (Some (om_kind m))) (st_outbound_private_messages s))))"

definition payment_request_counterparties :: "bool \<Rightarrow> (PubkyPublicKey \<times> PaykitReceiverPath) list rt" where
  "payment_request_counterparties only_received =
     rt_read (\<lambda>s. sort_key (\<lambda>(c, rp). (z32 c, receiver_path_str rp))
       (filter (\<lambda>k. map_option lp_state (linked_peer s k) \<noteq> Some Blocked) (request_peers only_received s)))"

definition payment_request_counterparties_for_counterparty ::
  "PubkyPublicKey \<Rightarrow> bool \<Rightarrow> (PubkyPublicKey \<times> PaykitReceiverPath) list rt" where
  "payment_request_counterparties_for_counterparty cp only_received =
     rt_read (\<lambda>s. sort_key (\<lambda>(_, rp). receiver_path_str rp) (filter (\<lambda>(c, _). c = cp) (request_peers only_received s)))"

fun ensure_none_blocked :: "(PubkyPublicKey \<times> PaykitReceiverPath) list \<Rightarrow> unit rt" where
  "ensure_none_blocked [] = rt_return ()"
| "ensure_none_blocked ((cp, rp) # peers) =
     rt_bind (rt_check (\<lambda>s. ensure_peer_not_blocked s cp rp)) (\<lambda>_. ensure_none_blocked peers)"

definition filtered_counterparties :: "PaymentRequestFilter \<Rightarrow> (PubkyPublicKey \<times> PaykitReceiverPath) list rt" where
  "filtered_counterparties f =
     (case (fl_counterparty f, fl_path f) of
        (Some cp, Some rp) \<Rightarrow>
          rt_bind (rt_check (\<lambda>s. ensure_peer_not_blocked s cp rp)) (\<lambda>_. rt_return [(cp, rp)])
      | (Some cp, None) \<Rightarrow>
          rt_bind (payment_request_counterparties_for_counterparty cp (fl_received_only f)) (\<lambda>peers.
          rt_bind (ensure_none_blocked peers) (\<lambda>_. rt_return peers))
      | (None, _) \<Rightarrow> payment_request_counterparties (fl_received_only f))"

fun collect_requests ::
  "ext \<Rightarrow> PaymentRequestFilter \<Rightarrow> instant \<Rightarrow> (PubkyPublicKey \<times> PaykitReceiverPath) list \<Rightarrow> PaymentRequestRecord list rt" where
  "collect_requests E f now [] = rt_return []"
| "collect_requests E f now ((cp, rp) # peers) =
     rt_bind (rt_read (\<lambda>s. if fl_received_only f then received_payment_request_records E s cp rp now
                            else payment_request_records E s cp rp now)) (\<lambda>found.
     rt_bind (mark_recovery_required_payment_request_records cp rp found) (\<lambda>records.
     rt_bind (collect_requests E f now peers) (\<lambda>rest. rt_return (filter (filter_matches f) records @ rest))))"

definition compare_newest_first :: "PaymentRequestRecord \<Rightarrow> PaymentRequestRecord \<Rightarrow> Ordering" where
  "compare_newest_first a b =
     then_with (cmp (rq_last_event_at b) (rq_last_event_at a))
       (then_with (cmp (rq_last_stream_item_id b) (rq_last_stream_item_id a))
         (then_with (cmp (rq_last_outbound_message_id b) (rq_last_outbound_message_id a))
           (then_with (cmp (z32 (rq_counterparty a)) (z32 (rq_counterparty b))) (cmp (rq_id a) (rq_id b)))))"

definition sort_payment_requests_newest_first :: "PaymentRequestRecord list \<Rightarrow> PaymentRequestRecord list" where
  "sort_payment_requests_newest_first records = sort_by (\<lambda>a b. compare_newest_first a b = Less) records"

definition list_payment_requests ::
  "ext \<Rightarrow> net \<Rightarrow> PaykitSdkConfig \<Rightarrow> nat list \<Rightarrow> PaymentRequestFilter \<Rightarrow> PaymentRequestRecord list rt" where
  "list_payment_requests E V cfg p f =
     rt_bind (refresh_identity cfg (nv_session V p) (nv_now V (0 # p))) (\<lambda>(_, identity).
     if id_public_key identity = None then rt_return []
     else rt_bind (filtered_counterparties f) (\<lambda>peers.
       rt_bind (collect_requests E f (nv_now V (1 # p)) peers) (\<lambda>records.
       rt_return (sort_payment_requests_newest_first records))))"

definition PaymentRequestFilter_default :: PaymentRequestFilter where
  "PaymentRequestFilter_default =
     \<lparr>fl_counterparty = None, fl_path = None, fl_local_role = None, fl_states = [], fl_recurring = None, fl_received_only = False\<rparr>"

definition payment_requests :: "ext \<Rightarrow> net \<Rightarrow> PaykitSdkConfig \<Rightarrow> nat list \<Rightarrow> PaymentRequestRecord list rt" where
  "payment_requests E V cfg p = list_payment_requests E V cfg p PaymentRequestFilter_default"

definition active_recurring_payment_requests :: "ext \<Rightarrow> net \<Rightarrow> PaykitSdkConfig \<Rightarrow> nat list \<Rightarrow> PaymentRequestRecord list rt" where
  "active_recurring_payment_requests E V cfg p =
     list_payment_requests E V cfg p (PaymentRequestFilter_default\<lparr>fl_states := [ActiveRecurring], fl_recurring := Some True\<rparr>)"

definition actionable_received_payment_requests :: "ext \<Rightarrow> net \<Rightarrow> PaykitSdkConfig \<Rightarrow> nat list \<Rightarrow> PaymentRequestRecord list rt" where
  "actionable_received_payment_requests E V cfg p =
     list_payment_requests E V cfg p
       (PaymentRequestFilter_default\<lparr>fl_local_role := Some Payer, fl_states := [Proposed, ProposalExpired], fl_received_only := True\<rparr>)"

definition load_payment_request_record ::
  "ext \<Rightarrow> instant \<Rightarrow> PubkyPublicKey \<Rightarrow> PaykitReceiverPath \<Rightarrow> PaymentRequestId \<Rightarrow> PaymentRequestRecord rt" where
  "load_payment_request_record E now cp rp rid =
     rt_bind (rt_read (\<lambda>s. payment_request_records E s cp rp now)) (\<lambda>found.
     rt_bind (mark_recovery_required_payment_request_records cp rp found) (\<lambda>records.
     case List.find (\<lambda>r. rq_id r = request_id_str rid) records of
       Some r \<Rightarrow> rt_return r
     | None \<Rightarrow> rt_fail (SdkProtocol (''Payment Request '' @ request_id_str rid @ '' is not known for counterparty '' @ z32 cp) None)))"

section \<open>Commands\<close>

text \<open>Queueing an event of each kind, after the checks in front of private queueing.\<close>

definition enqueue_ready ::
  "ext \<Rightarrow> net \<Rightarrow> PaykitSdkConfig \<Rightarrow> nat list \<Rightarrow> PubkyPublicKey \<Rightarrow> PaykitReceiverPath \<Rightarrow> OutboundPrivateMessageRecord rt \<Rightarrow>
   OutboundPrivateMessageRecord rt" where
  "enqueue_ready E V cfg p cp rp enqueue =
     rt_bind (ensure_private_outbound_ready cfg (nv_session V p) (nv_now V (0 # p)) cp rp) (\<lambda>_. enqueue)"

definition enqueue_raw_payment_request ::
  "ext \<Rightarrow> net \<Rightarrow> PaykitSdkConfig \<Rightarrow> nat list \<Rightarrow> PubkyPublicKey \<Rightarrow> PaykitReceiverPath \<Rightarrow> PaymentRequest \<Rightarrow> OutboundPrivateMessageRecord rt" where
  "enqueue_raw_payment_request E V cfg p cp rp event =
     enqueue_ready E V cfg p cp rp (enqueue_payment_request E cp rp event (nv_now V (1 # p)))"

definition enqueue_raw_payment_request_acceptance ::
  "ext \<Rightarrow> net \<Rightarrow> PaykitSdkConfig \<Rightarrow> nat list \<Rightarrow> PubkyPublicKey \<Rightarrow> PaykitReceiverPath \<Rightarrow> PaymentRequestAcceptance \<Rightarrow> OutboundPrivateMessageRecord rt" where
  "enqueue_raw_payment_request_acceptance E V cfg p cp rp event =
     enqueue_ready E V cfg p cp rp (enqueue_payment_request_acceptance E cp rp event (nv_now V (1 # p)))"

definition enqueue_raw_payment_request_rejection ::
  "ext \<Rightarrow> net \<Rightarrow> PaykitSdkConfig \<Rightarrow> nat list \<Rightarrow> PubkyPublicKey \<Rightarrow> PaykitReceiverPath \<Rightarrow> PaymentRequestRejection \<Rightarrow> OutboundPrivateMessageRecord rt" where
  "enqueue_raw_payment_request_rejection E V cfg p cp rp event =
     enqueue_ready E V cfg p cp rp (enqueue_payment_request_rejection E cp rp event (nv_now V (1 # p)))"

definition enqueue_raw_payment_request_cancellation ::
  "ext \<Rightarrow> net \<Rightarrow> PaykitSdkConfig \<Rightarrow> nat list \<Rightarrow> PubkyPublicKey \<Rightarrow> PaykitReceiverPath \<Rightarrow> PaymentRequestCancellation \<Rightarrow> OutboundPrivateMessageRecord rt" where
  "enqueue_raw_payment_request_cancellation E V cfg p cp rp event =
     enqueue_ready E V cfg p cp rp (enqueue_payment_request_cancellation E cp rp event (nv_now V (1 # p)))"

definition enqueue_raw_payment_proof ::
  "ext \<Rightarrow> net \<Rightarrow> PaykitSdkConfig \<Rightarrow> nat list \<Rightarrow> PubkyPublicKey \<Rightarrow> PaykitReceiverPath \<Rightarrow> PaymentProof \<Rightarrow> OutboundPrivateMessageRecord rt" where
  "enqueue_raw_payment_proof E V cfg p cp rp event =
     enqueue_ready E V cfg p cp rp (enqueue_payment_proof E cp rp event (nv_now V (1 # p)))"

definition propose_payment_request ::
  "ext \<Rightarrow> net \<Rightarrow> PaykitSdkConfig \<Rightarrow> nat list \<Rightarrow> PubkyPublicKey \<Rightarrow> PaykitReceiverPath \<Rightarrow> PaymentRequestTerms \<Rightarrow> PaymentRequestRecord rt" where
  "propose_payment_request E V cfg p cp rp terms =
     (let event = PaymentRequest_new (EventId (nv_uuid_v4 V (0 # p))) (PaymentRequestId (nv_uuid_v4 V (1 # p))) terms in
      rt_bind (enqueue_raw_payment_request E V cfg p cp rp event) (\<lambda>_.
      load_payment_request_record E (nv_now V (2 # p)) cp rp (prq_request_id event)))"

definition accept_payment_request ::
  "ext \<Rightarrow> net \<Rightarrow> PaykitSdkConfig \<Rightarrow> nat list \<Rightarrow> PubkyPublicKey \<Rightarrow> PaykitReceiverPath \<Rightarrow> PaymentRequestId \<Rightarrow> PaymentRequestRecord rt" where
  "accept_payment_request E V cfg p cp rp rid =
     rt_bind (load_payment_request_record E (nv_now V p) cp rp rid) (\<lambda>r.
     rt_bind (rt_lift (require_payer_role r ''accept Payment Request'')) (\<lambda>_.
     rt_bind (rt_lift (require_state r [Proposed] ''accept Payment Request'')) (\<lambda>_.
     rt_bind (enqueue_raw_payment_request_acceptance E V cfg p cp rp
                (PaymentRequestAcceptance_new (EventId (nv_uuid_v4 V p)) rid)) (\<lambda>_.
     load_payment_request_record E (nv_now V (2 # p)) cp rp rid))))"

definition reject_payment_request ::
  "ext \<Rightarrow> net \<Rightarrow> PaykitSdkConfig \<Rightarrow> nat list \<Rightarrow> PubkyPublicKey \<Rightarrow> PaykitReceiverPath \<Rightarrow> PaymentRequestId \<Rightarrow> string option \<Rightarrow>
   PaymentRequestRecord rt" where
  "reject_payment_request E V cfg p cp rp rid reason =
     rt_bind (load_payment_request_record E (nv_now V p) cp rp rid) (\<lambda>r.
     rt_bind (rt_lift (require_payer_role r ''reject Payment Request'')) (\<lambda>_.
     rt_bind (rt_lift (require_state r [Proposed, ProposalExpired] ''reject Payment Request'')) (\<lambda>_.
     rt_bind (enqueue_raw_payment_request_rejection E V cfg p cp rp
                (PaymentRequestRejection_new (EventId (nv_uuid_v4 V p)) rid reason)) (\<lambda>_.
     load_payment_request_record E (nv_now V (2 # p)) cp rp rid))))"

definition cancel_payment_request ::
  "ext \<Rightarrow> net \<Rightarrow> PaykitSdkConfig \<Rightarrow> nat list \<Rightarrow> PubkyPublicKey \<Rightarrow> PaykitReceiverPath \<Rightarrow> PaymentRequestId \<Rightarrow> string option \<Rightarrow>
   PaymentRequestRecord rt" where
  "cancel_payment_request E V cfg p cp rp rid reason =
     rt_bind (load_payment_request_record E (nv_now V p) cp rp rid) (\<lambda>r.
     rt_bind (rt_lift (require_state r [Proposed, ProposalExpired, Accepted, ActiveRecurring, ProofSubmitted]
                         ''cancel Payment Request'')) (\<lambda>_.
     rt_bind (enqueue_raw_payment_request_cancellation E V cfg p cp rp
                (PaymentRequestCancellation_new (EventId (nv_uuid_v4 V p)) rid reason)) (\<lambda>_.
     load_payment_request_record E (nv_now V (2 # p)) cp rp rid)))"

definition submit_payment_proof ::
  "ext \<Rightarrow> net \<Rightarrow> PaykitSdkConfig \<Rightarrow> nat list \<Rightarrow> PubkyPublicKey \<Rightarrow> PaykitReceiverPath \<Rightarrow> PaymentRequestId \<Rightarrow> BillingPeriod option \<Rightarrow>
   PaymentEndpointIdentifier \<Rightarrow> json_map \<Rightarrow> PaymentRequestRecord rt" where
  "submit_payment_proof E V cfg p cp rp rid period identifier prf =
     rt_bind (load_payment_request_record E (nv_now V p) cp rp rid) (\<lambda>r.
     rt_bind (rt_lift (require_payer_role r ''submit Payment Proof'')) (\<lambda>_.
     rt_bind (rt_lift (require_state r [Accepted, ActiveRecurring] ''submit Payment Proof'')) (\<lambda>_.
     rt_bind (rt_lift (case request_from_record E r of
                         Some request \<Rightarrow> Inr request
                       | None \<Rightarrow> Inl (SdkProtocol ''Payment Request terms are unavailable'' None))) (\<lambda>request.
     let event = PaymentProof_new (EventId (nv_uuid_v4 V p)) rid (terms_payment_reference (prq_request request)) period identifier prf in
     rt_bind (rt_lift (map_err sdk_error_of_lib (validate_for_request E event request))) (\<lambda>_.
     rt_bind (enqueue_raw_payment_proof E V cfg p cp rp event) (\<lambda>_.
     load_payment_request_record E (nv_now V (2 # p)) cp rp rid))))))"

section \<open>Listed requests\<close>

lemma wf_mark_recovery:
  assumes "request_record_wf r"
  shows "request_record_wf (mark_recovery r)"
proof (cases "rq_state r \<in> {Proposed, ProposalExpired, Accepted, ProofSubmitted, ActiveRecurring}")
  case True
  then have "touched r" using wf_touched [OF assms] by auto
  then show ?thesis
    using True unfolding mark_recovery_def by (simp, intro wf_transfer [OF wf_core [OF assms]]) auto
next
  case False
  then show ?thesis using assms by (simp add: mark_recovery_def)
qed

lemma mark_recovery_identity [simp]:
  "rq_counterparty (mark_recovery r) = rq_counterparty r" "rq_path (mark_recovery r) = rq_path r" "rq_id (mark_recovery r) = rq_id r"
  by (simp_all add: mark_recovery_def)

text \<open>What the wallet shows of one peer.\<close>

definition shown_requests ::
  "ext \<Rightarrow> bool \<Rightarrow> instant \<Rightarrow> StorageState \<Rightarrow> PubkyPublicKey \<Rightarrow> PaykitReceiverPath \<Rightarrow> PaymentRequestRecord list" where
  "shown_requests E only_received now s cp rp =
     map (if map_option lp_state (linked_peer s (cp, rp)) = Some RecoveryRequiredState then mark_recovery else (\<lambda>r. r))
       (if only_received then received_payment_request_records E s cp rp now else payment_request_records E s cp rp now)"

abbreviation request_key :: "PaymentRequestRecord \<Rightarrow> (PubkyPublicKey \<times> PaykitReceiverPath) \<times> string" where
  "request_key r \<equiv> ((rq_counterparty r, rq_path r), rq_id r)"

lemma shown_requests_ok: "derived_ok cp rp request_record_wf (shown_requests E only_received now s cp rp)"
proof -
  have "derived_ok cp rp request_record_wf
      (if only_received then received_payment_request_records E s cp rp now else payment_request_records E s cp rp now)"
    using merged_records_wf [of cp rp E s now] received_records_states [of cp rp E s now]
    by (auto simp: derived_ok_def list_all_iff received_only_def)
  then show ?thesis
    using wf_mark_recovery
    by (auto simp: shown_requests_def derived_ok_def list_all_iff comp_def)
qed

lemma collect_requests_shown:
  "collect_requests E f now peers s = (s, Inr (filter (filter_matches f)
     (concat (map (\<lambda>(cp, rp). shown_requests E (fl_received_only f) now s cp rp) peers))))"
  by (induction peers)
    (auto simp: rt_defs mark_recovery_required_payment_request_records_def shown_requests_def)

lemma shown_keys_distinct:
  assumes "distinct peers"
  shows "distinct (map request_key (concat (map (\<lambda>(cp, rp). shown_requests E only_received now s cp rp) peers)))"
  using assms
proof (induction peers)
  case (Cons k peers)
  obtain cp rp where k: "k = (cp, rp)" by force
  have keys: "fst (request_key r) = (cp, rp)" if "r \<in> set (shown_requests E only_received now s cp rp)" for r cp rp
    using shown_requests_ok [of cp rp E only_received now s] that by (simp add: derived_ok_def list_all_iff)
  have "distinct (map request_key (shown_requests E only_received now s cp rp))"
    using shown_requests_ok [of cp rp E only_received now s]
    by (auto simp: derived_ok_def distinct_map inj_on_def)
  with Cons keys k show ?case by (fastforce simp: distinct_append)
qed simp

lemma ensure_none_blocked_ok:
  "ensure_none_blocked peers s = (t, Inr ()) \<Longrightarrow> t = s \<and> (\<forall>k \<in> set peers. map_option lp_state (linked_peer s k) \<noteq> Some Blocked)"
  by (induction peers rule: ensure_none_blocked.induct)
    (auto simp: rt_bind_ok rt_return_def rt_check_def ensure_peer_not_blocked_def split: if_splits)

lemma filtered_counterparties_ok:
  assumes "filtered_counterparties f s = (t, Inr peers)"
  shows "t = s \<and> distinct peers \<and> (\<forall>k \<in> set peers. map_option lp_state (linked_peer s k) \<noteq> Some Blocked)"
  using assms
  by (auto simp: filtered_counterparties_def rt_bind_ok rt_return_def rt_read_def rt_check_def ensure_peer_not_blocked_def
      payment_request_counterparties_def payment_request_counterparties_for_counterparty_def request_peers_def
      dest: ensure_none_blocked_ok split: option.splits if_splits)

lemma compare_newest_first_simps:
  "compare_newest_first a b \<noteq> Greater \<Longrightarrow> compare_newest_first b c \<noteq> Greater \<Longrightarrow> compare_newest_first a c \<noteq> Greater"
  "compare_newest_first a b \<noteq> Less \<Longrightarrow> compare_newest_first b a \<noteq> Greater"
  "compare_newest_first a b = Less \<Longrightarrow> compare_newest_first a b \<noteq> Greater"
  by (auto simp: compare_newest_first_def cmp_def split: if_splits)

lemma insert_tail_by:
  assumes "\<And>a b. lt a b \<Longrightarrow> le a b" and "\<And>a b. \<not> lt a b \<Longrightarrow> le b a" and "transp le" and "sorted_wrt (\<lambda>a b. le b a) ys"
  shows "sorted_wrt (\<lambda>a b. le b a) (insert_tail lt x ys)"
  using assms(4)
proof (induction ys)
  case (Cons y ys)
  have "set (insert_tail lt x ys) = insert x (set ys)"
    using mset_insert_tail [of lt x ys] by (metis set_mset_add_mset_insert set_mset_mset)
  with Cons assms(1,2) show ?case by (auto intro: transpD [OF assms(3)])
qed simp

lemma sort_by_sorted:
  assumes "\<And>a b. lt a b \<Longrightarrow> le a b" and "\<And>a b. \<not> lt a b \<Longrightarrow> le b a" and "transp le"
  shows "sorted_wrt le (sort_by lt xs)"
proof -
  have "sorted_wrt (\<lambda>a b. le b a) (fold (insert_tail lt) xs [])"
    by (rule fold_inv) (auto intro: insert_tail_by [OF assms])
  then show ?thesis by (simp add: sort_by_def sorted_wrt_rev)
qed

lemma listing_sorted: "sorted_wrt (\<lambda>a b. compare_newest_first a b \<noteq> Greater) (sort_payment_requests_newest_first rs)"
  unfolding sort_payment_requests_newest_first_def
  by (rule sort_by_sorted) (auto intro!: transpI dest: compare_newest_first_simps)


section \<open>Queued events are allowed\<close>

text \<open>Which event a shown record lets the wallet send.\<close>

fun event_allowed :: "ext \<Rightarrow> PaymentRequestRecord \<Rightarrow> PaymentRequestEvent \<Rightarrow> bool" where
  "event_allowed E r (Request _) \<longleftrightarrow> False"
| "event_allowed E r (Acceptance a) \<longleftrightarrow>
     rq_id r = request_id_str (acc_request_id a) \<and> rq_local_role r = Some Payer \<and> rq_state r = Proposed"
| "event_allowed E r (Rejection a) \<longleftrightarrow>
     rq_id r = request_id_str (rej_request_id a) \<and> rq_local_role r = Some Payer \<and> rq_state r \<in> {Proposed, ProposalExpired}"
| "event_allowed E r (Cancellation a) \<longleftrightarrow>
     rq_id r = request_id_str (can_request_id a)
     \<and> rq_state r \<in> {Proposed, ProposalExpired, Accepted, ActiveRecurring, ProofSubmitted}"
| "event_allowed E r (Proof a) \<longleftrightarrow>
     rq_id r = request_id_str (prf_request_id a) \<and> rq_local_role r = Some Payer \<and> rq_state r \<in> {Accepted, ActiveRecurring}
     \<and> (\<exists>request. request_from_record E r = Some request \<and> validate_for_request E a request = Inr ())"

definition shown_allows :: "ext \<Rightarrow> instant \<Rightarrow> PubkyPublicKey \<Rightarrow> PaykitReceiverPath \<Rightarrow> StorageState \<Rightarrow> PaymentRequestEvent \<Rightarrow> bool" where
  "shown_allows E now cp rp s event \<longleftrightarrow> (\<exists>r \<in> set (shown_requests E False now s cp rp). event_allowed E r event)"

definition peer_ready :: "StorageState \<Rightarrow> PubkyPublicKey \<Rightarrow> PaykitReceiverPath \<Rightarrow> bool" where
  "peer_ready s cp rp \<longleftrightarrow> map_option lp_state (linked_peer s (cp, rp)) = Some Linked
     \<and> Option.bind (encrypted_link_state s (cp, rp)) ls_link_snapshot \<noteq> None"

definition event_queued :: "ext \<Rightarrow> PubkyPublicKey \<Rightarrow> PaykitReceiverPath \<Rightarrow> PaymentRequestEvent \<Rightarrow> StorageState \<Rightarrow> StorageState \<Rightarrow> bool" where
  "event_queued E cp rp event s t \<longleftrightarrow>
     (\<exists>raw kind now. serialize_payment_request_event E event = Inr raw \<and> validate_outbound_private_message E raw = Inr kind
        \<and> t = fst (insert_outbound_private_message
            \<lparr>nm_counterparty = cp, nm_path = rp, nm_kind = kind, nm_raw_json = raw, nm_created_at = now\<rparr> s))"

text \<open>
  A command leaves the store as the identity refresh left it and fails, or the peer is linked and it has
  queued exactly one event, one that \<open>Q\<close> allows.
\<close>

definition command_queues ::
  "ext \<Rightarrow> PubkyPublicKey \<Rightarrow> PaykitReceiverPath \<Rightarrow> (PaymentRequestEvent \<Rightarrow> bool) \<Rightarrow> StorageState \<Rightarrow> StorageState \<times> 'a sdk_res \<Rightarrow> bool" where
  "command_queues E cp rp Q s outcome \<longleftrightarrow>
     (\<exists>u. (u = s \<or> identity_step s u)
        \<and> (fst outcome = u \<and> \<not> is_ok (snd outcome)
           \<or> (\<exists>event. Q event \<and> peer_ready u cp rp \<and> event_queued E cp rp event u (fst outcome))))"

lemma enqueue_event_outcome:
  assumes "enqueue_payment_request_event E cp rp event now s = (t, result)"
  shows "(t = s \<and> \<not> is_ok result) \<or> event_queued E cp rp event s t"
  using assms
  by (auto simp: enqueue_payment_request_event_def enqueue_private_message_def event_queued_def transaction_def
      run_storage_state_transaction_def split: sum.splits prod.splits) (metis fst_conv)+

lemma outbound_ready_outcome:
  assumes "ensure_private_outbound_ready cfg session now cp rp s = (t, result)"
  shows "(t = s \<or> identity_step s t) \<and> (is_ok result \<longrightarrow> peer_ready t cp rp)"
  using assms refresh_identity_step [of cfg session now s]
  by (auto simp: ensure_private_outbound_ready_def require_local_session_def rt_defs ensure_peer_allows_private_automation_def
      peer_ready_def Let_def split: prod.splits sum.splits option.splits if_splits LinkedPeerState.splits)


lemma load_shown:
  assumes "load_payment_request_record E now cp rp rid s = (t, result)"
  shows "t = s \<and> (\<forall>r. result = Inr r \<longrightarrow> r \<in> set (shown_requests E False now s cp rp) \<and> rq_id r = request_id_str rid)"
  using assms
  by (auto simp: load_payment_request_record_def rt_defs mark_recovery_required_payment_request_records_def shown_requests_def
      find_Some_iff intro!: imageI nth_mem split: option.splits if_splits)

lemma queues_load:
  assumes "\<And>r. r \<in> set (shown_requests E False now s cp rp) \<Longrightarrow> rq_id r = request_id_str rid \<Longrightarrow> command_queues E cp rp Q s (f r s)"
  shows "command_queues E cp rp Q s (rt_bind (load_payment_request_record E now cp rp rid) f s)"
proof -
  obtain t result where load: "load_payment_request_record E now cp rp rid s = (t, result)" by force
  from load_shown [OF this] assms load show ?thesis by (cases result) (auto simp: rt_bind_def command_queues_def)
qed

lemma queues_guard:
  "(\<And>x. res = Inr x \<Longrightarrow> command_queues E cp rp Q s (f x s)) \<Longrightarrow> command_queues E cp rp Q s (rt_bind (rt_lift res) f s)"
  by (cases res) (auto simp: rt_bind_def rt_lift_def command_queues_def)

lemma queues_enqueue:
  assumes "Q event"
  shows "command_queues E cp rp Q s (rt_bind (enqueue_ready E V cfg p cp rp (\<lambda>s. enqueue_payment_request_event E cp rp event now s))
     (\<lambda>_. load_payment_request_record E now' cp rp rid) s)"
proof -
  obtain u ready where ready: "ensure_private_outbound_ready cfg (nv_session V p) (nv_now V (0 # p)) cp rp s = (u, ready)" by force
  note outcome = outbound_ready_outcome [OF ready]
  obtain t result where queue: "enqueue_payment_request_event E cp rp event now u = (t, result)" by force
  obtain v loaded where load: "load_payment_request_record E now' cp rp rid t = (v, loaded)" by force
  with load_shown [OF load] enqueue_event_outcome [OF queue] outcome queue ready assms show ?thesis
    by (cases ready; cases result) (auto simp: rt_bind_def enqueue_ready_def command_queues_def)
qed

lemmas queues_rules = queues_load queues_guard queues_enqueue

lemmas enqueue_raw_defs = enqueue_raw_payment_request_def enqueue_raw_payment_request_acceptance_def
  enqueue_raw_payment_request_rejection_def enqueue_raw_payment_request_cancellation_def enqueue_raw_payment_proof_def
  enqueue_payment_request_def enqueue_payment_request_acceptance_def enqueue_payment_request_rejection_def
  enqueue_payment_request_cancellation_def enqueue_payment_proof_def

lemma guards_Inr:
  "require_payer_role r action = Inr () \<longleftrightarrow> rq_local_role r = Some Payer"
  "require_state r allowed action = Inr () \<longleftrightarrow> rq_state r \<in> set allowed"
  by (simp_all add: require_payer_role_def require_state_def)

text \<open>C2: Accepting, rejecting or canceling a Payment Request or submitting a proof changes nothing but the
  refreshed identity and fails, or queues exactly one event for a linked peer, and the record shown before
  allows that event: the local side pays where it has to, the state admits the step, and a proof fits the
  terms. A proposal queues the given terms.\<close>

theorem queued_request_events_allowed:
  "command_queues E cp rp (shown_allows E (nv_now V p) cp rp s) s (accept_payment_request E V cfg p cp rp rid s)
    \<and> command_queues E cp rp (shown_allows E (nv_now V p) cp rp s) s (reject_payment_request E V cfg p cp rp rid reason s)
    \<and> command_queues E cp rp (shown_allows E (nv_now V p) cp rp s) s (cancel_payment_request E V cfg p cp rp rid reason s)
    \<and> command_queues E cp rp (shown_allows E (nv_now V p) cp rp s) s (submit_payment_proof E V cfg p cp rp rid period identifier prf s)
    \<and> command_queues E cp rp (\<lambda>event. \<exists>q. event = Request q \<and> prq_request q = terms) s (propose_payment_request E V cfg p cp rp terms s)"
proof (intro conjI)
  show "command_queues E cp rp (shown_allows E (nv_now V p) cp rp s) s (accept_payment_request E V cfg p cp rp rid s)"
    unfolding accept_payment_request_def enqueue_raw_defs
    by (intro queues_rules) (auto simp: shown_allows_def guards_Inr PaymentRequestAcceptance_new_def)
  show "command_queues E cp rp (shown_allows E (nv_now V p) cp rp s) s (reject_payment_request E V cfg p cp rp rid reason s)"
    unfolding reject_payment_request_def enqueue_raw_defs
    by (intro queues_rules) (auto simp: shown_allows_def guards_Inr PaymentRequestRejection_new_def)
  show "command_queues E cp rp (shown_allows E (nv_now V p) cp rp s) s (cancel_payment_request E V cfg p cp rp rid reason s)"
    unfolding cancel_payment_request_def enqueue_raw_defs
    by (intro queues_rules) (auto simp: shown_allows_def guards_Inr PaymentRequestCancellation_new_def)
  show "command_queues E cp rp (shown_allows E (nv_now V p) cp rp s) s (submit_payment_proof E V cfg p cp rp rid period identifier prf s)"
    unfolding submit_payment_proof_def enqueue_raw_defs Let_def
    by (intro queues_rules) (auto simp: shown_allows_def guards_Inr PaymentProof_new_def map_err_Inr_iff split: option.splits)
  show "command_queues E cp rp (\<lambda>event. \<exists>q. event = Request q \<and> prq_request q = terms) s (propose_payment_request E V cfg p cp rp terms s)"
    unfolding propose_payment_request_def enqueue_raw_defs Let_def
    by (intro queues_rules) (auto simp: PaymentRequest_new_def)
qed

section \<open>An instance\<close>

text \<open>A wallet without a live session that has received the request of the sample peer.\<close>

definition resting_net :: net where
  "resting_net = sample_net\<lparr>nv_session := (\<lambda>_. Inr None)\<rparr>"

definition sample_requested :: StorageState where
  "sample_requested = (save_identity_state \<lparr>id_public_key = Some (PubkyPublicKey ''bob''), id_noise_public_key = Some (PubkyPublicKey ''noise''),
        id_initialized_at = 1, id_sign_out_generation = 0\<rparr> empty_storage)\<lparr>st_private_stream_items := [sample_item]\<rparr>"

definition sample_request_filter :: PaymentRequestFilter where
  "sample_request_filter = PaymentRequestFilter_default\<lparr>fl_counterparty := Some sample_peer, fl_path := Some sample_path, fl_received_only := True\<rparr>"

lemma sample_request_received: "received_payment_request_records sample_ext sample_requested sample_peer sample_path now \<noteq> []"
proof -
  have items: "private_stream_items sample_requested sample_peer sample_path = [sample_item]"
    by (simp add: private_stream_items_def sample_requested_def sample_item_def stream_item_from_new_def new_stream_item_def)
  have dedup: "event_dedup_record sample_requested k = None" for k
    by (simp add: sample_requested_def event_dedup_record_def save_identity_state_def empty_storage_def)
  obtain em where em: "parsed_item sample_ext sample_item = Some em" "evm_event em = Inr sample_event"
    "evm_event_id em = Some (EventId sample_uuid)" "evm_request_id em = Some (PaymentRequestId sample_uuid)"
    by (rule sample_item_parsed)
  have "fold (collect_dedupe_record sample_ext sample_requested sample_peer sample_path) [sample_item] [] = []"
    by (simp add: collect_dedupe_record_def em dedup)
  moreover have "apply_received_item sample_ext sample_peer sample_path [] now sample_item [] \<noteq> []"
    by (simp add: apply_received_item_def em item_verdict_def with_record_def)
  then have "set (hm_values (expire_records sample_ext now (apply_received_item sample_ext sample_peer sample_path [] now sample_item []))) \<noteq> {}"
    by (simp add: hm_values_def expire_records_def)
  then have "derive_received_payment_request_records sample_ext sample_peer sample_path [sample_item] [] now \<noteq> []"
    by (simp add: derive_received_payment_request_records_def flip: set_empty)
  ultimately show ?thesis by (simp add: received_payment_request_records_def items del: fold_simps)
qed

lemma sample_requests_listed:
  "\<exists>rs. list_payment_requests sample_ext resting_net (PaykitSdkConfig_new sample_path) [] sample_request_filter sample_requested
     = (sample_requested, Inr rs) \<and> rs \<noteq> []"
proof -
  have reads: "load_identity_state sample_requested = Some \<lparr>id_public_key = Some (PubkyPublicKey ''bob''),
        id_noise_public_key = Some (PubkyPublicKey ''noise''), id_initialized_at = 1, id_sign_out_generation = 0\<rparr>"
    "linked_peer sample_requested (sample_peer, sample_path) = None"
    by (simp_all add: sample_requested_def save_identity_state_def load_identity_state_def linked_peer_def empty_storage_def)
  have "filtered_counterparties sample_request_filter sample_requested = (sample_requested, Inr [(sample_peer, sample_path)])"
    by (simp add: filtered_counterparties_def sample_request_filter_def rt_defs ensure_peer_not_blocked_def reads)
  moreover have "filter_matches sample_request_filter r" if "r \<in> set (shown_requests sample_ext True now sample_requested sample_peer sample_path)" for r now
    using shown_requests_ok [of sample_peer sample_path sample_ext True now sample_requested] that
    by (simp add: derived_ok_def list_all_iff filter_matches_def sample_request_filter_def PaymentRequestFilter_default_def)
  then have "set (sort_payment_requests_newest_first (filter (filter_matches sample_request_filter)
      (shown_requests sample_ext True (nv_now resting_net [1]) sample_requested sample_peer sample_path))) \<noteq> {}"
    using sample_request_received [of "nv_now resting_net [1]"]
    by (auto simp: sort_payment_requests_newest_first_def shown_requests_def reads filter_empty_conv)
  moreover have "fl_received_only sample_request_filter" by (simp add: sample_request_filter_def)
  moreover have "refresh_identity (PaykitSdkConfig_new sample_path) (nv_session resting_net []) (nv_now resting_net [0]) sample_requested
      = (sample_requested, Inr (None, \<lparr>id_public_key = Some (PubkyPublicKey ''bob''),
        id_noise_public_key = Some (PubkyPublicKey ''noise''), id_initialized_at = 1, id_sign_out_generation = 0\<rparr>))"
    using reads(1) by (simp add: refresh_identity_def load_session_access_and_refresh_identity_def resting_net_def
        transaction_def run_storage_state_transaction_def refresh_without_session_tx_def)
  ultimately show ?thesis
    by (auto simp: list_payment_requests_def rt_bind_def rt_return_def collect_requests_shown)
qed


end
