(* ===== verification/Private_List_Runtime.thy ===== *)
theory Private_List_Runtime
  imports Payment_Adapter Contacts
begin

text \<open>
  Publishing Private Payment Lists (\<^verbatim>\<open>paykit-sdk/src/runtime/private_lists.rs\<close>, reports of
  \<^verbatim>\<open>domain/private_lists/mod.rs\<close>): the drivers that queue a list for one peer under its lease, with the current
  details of the payment adapter, given details or reservations; giving back reservations whose list
  could not be queued; and the runs over contacts or given updates. A run ends and reports every peer
  once, and every stored reservation stays backed by a queued list.
\<close>

section \<open>Reports\<close>

record PrivatePaymentListSyncChange =
  sc_counterparty :: PubkyPublicKey
  sc_path :: PaykitReceiverPath
  sc_outbound_message_id :: "u64 option"
  sc_error :: "string option"

record PrivatePaymentListSyncReport =
  sr_queued :: "PrivatePaymentListSyncChange list"
  sr_cleared :: "PrivatePaymentListSyncChange list"
  sr_failed :: "PrivatePaymentListSyncChange list"

record PrivatePaymentListReservationUpdate =
  lu_counterparty :: PubkyPublicKey
  lu_path :: PaykitReceiverPath
  lu_reservations :: "PrivatePaymentEndpointReservation list"

record PrivatePaymentListDeliveryFailure =
  df_counterparty :: PubkyPublicKey
  df_path :: PaykitReceiverPath
  df_outbound_message_id :: "u64 option"
  df_reservation_id :: "string option"
  df_error :: string

record PrivatePaymentListDeliveryReport =
  dr_queued :: "PrivatePaymentListSyncChange list"
  dr_cleared :: "PrivatePaymentListSyncChange list"
  dr_failed_to_queue :: "PrivatePaymentListSyncChange list"
  dr_failed_to_deliver :: "PrivatePaymentListDeliveryFailure list"

definition delivery_report_from_sync_report :: "PrivatePaymentListSyncReport \<Rightarrow> PrivatePaymentListDeliveryReport" where
  "delivery_report_from_sync_report sync =
     \<lparr>dr_queued = sr_queued sync, dr_cleared = sr_cleared sync, dr_failed_to_queue = sr_failed sync, dr_failed_to_deliver = []\<rparr>"

definition delivery_failures_from_send_report ::
  "PubkyPublicKey \<Rightarrow> PaykitReceiverPath \<Rightarrow> OutboundPrivateSendReport \<Rightarrow> PrivatePaymentListDeliveryFailure list" where
  "delivery_failures_from_send_report cp rp r =
     map (\<lambda>f. \<lparr>df_counterparty = cp, df_path = rp, df_outbound_message_id = Some (osf_outbound_message_id f), df_reservation_id = None,
            df_error = osf_error f\<rparr>) (osr_failed r)
     @ map (\<lambda>f. \<lparr>df_counterparty = cp, df_path = rp, df_outbound_message_id = None, df_reservation_id = rcf_reservation_id f,
            df_error = rcf_error f\<rparr>) (osr_reservation_cleanup_failures r)
     @ map (\<lambda>f. \<lparr>df_counterparty = cp, df_path = rp, df_outbound_message_id = rmf_outbound_message_id f, df_reservation_id = None,
            df_error = rmf_error f\<rparr>) (osr_recovery_marker_failures r)"

definition queued_change :: "PubkyPublicKey \<Rightarrow> PaykitReceiverPath \<Rightarrow> OutboundPrivateMessageRecord \<Rightarrow> PrivatePaymentListSyncChange" where
  "queued_change cp rp m = \<lparr>sc_counterparty = cp, sc_path = rp, sc_outbound_message_id = Some (om_id m), sc_error = None\<rparr>"

definition failed_change :: "PubkyPublicKey \<Rightarrow> PaykitReceiverPath \<Rightarrow> string \<Rightarrow> PrivatePaymentListSyncChange" where
  "failed_change cp rp err = \<lparr>sc_counterparty = cp, sc_path = rp, sc_outbound_message_id = None, sc_error = Some err\<rparr>"

section \<open>Giving reservations back\<close>

definition reservation_cancellation ::
  "ext \<Rightarrow> PubkyPublicKey \<Rightarrow> PaykitReceiverPath \<Rightarrow> PrivatePaymentEndpointReservation \<Rightarrow> PrivatePaymentEndpointReservationCancellation" where
  "reservation_cancellation E cp rp r =
     \<lparr>pc_reservation_id = pr_reservation_id r, pc_counterparty = cp, pc_path = rp,
      pc_identifier = de_identifier (pr_receiving_detail r),
      pc_payload_hash = reservation_payload_hash E (de_payload (pr_receiving_detail r)), pc_attribution = pr_attribution r\<rparr>"

definition reservation_in_use :: "StorageState \<Rightarrow> PubkyPublicKey \<Rightarrow> PrivatePaymentEndpointReservationCancellation \<Rightarrow> bool" where
  "reservation_in_use s cp c =
     (case payment_endpoint_reservation s (cp, pc_path c, pc_reservation_id c) of
        None \<Rightarrow> False
      | Some r \<Rightarrow> rv_reservation_id r = pc_reservation_id c \<and> rv_counterparty r = pc_counterparty c
          \<and> rv_identifier r = pc_identifier c \<and> rv_payload_hash r = pc_payload_hash c)"

fun cancel_unqueued ::
  "cancel_call \<Rightarrow> nat list \<Rightarrow> PubkyPublicKey \<Rightarrow> PrivatePaymentEndpointReservationCancellation list \<Rightarrow> string list rt" where
  "cancel_unqueued cancel p cp [] = rt_return []"
| "cancel_unqueued cancel p cp (c # cs) =
     rt_bind (rt_read (\<lambda>s. \<not> reservation_in_use s cp c)) (\<lambda>can_cancel.
     rt_bind (rt_return (if \<not> can_cancel then []
                         else case cancel (length cs # p) c of
                                Inl err \<Rightarrow> [pc_reservation_id c @ '': '' @ sdk_error_display err]
                              | Inr _ \<Rightarrow> [])) (\<lambda>errors.
     rt_bind (cancel_unqueued cancel p cp cs) (\<lambda>more. rt_return (errors @ more))))"

text \<open>\<^verbatim>\<open>join("; ")\<close>.\<close>

fun join_errors :: "string list \<Rightarrow> string" where
  "join_errors [] = []"
| "join_errors [e] = e"
| "join_errors (e # es) = e @ ''; '' @ join_errors es"

definition cancel_reservations_after_queue_error ::
  "cancel_call \<Rightarrow> nat list \<Rightarrow> PrivatePaymentEndpointReservationCancellation list \<Rightarrow> PubkyPublicKey \<Rightarrow> unit rt" where
  "cancel_reservations_after_queue_error cancel p cs cp =
     rt_bind (cancel_unqueued cancel p cp cs) (\<lambda>errors.
     if errors = [] then rt_return ()
     else rt_fail (SdkPolicy (''failed to cancel reserved receiving details: '' @ join_errors errors) None))"

definition cancel_reservations_and_return_queue_error ::
  "cancel_call \<Rightarrow> nat list \<Rightarrow> PrivatePaymentEndpointReservationCancellation list \<Rightarrow> PubkyPublicKey \<Rightarrow> sdk_error \<Rightarrow> 'a rt" where
  "cancel_reservations_and_return_queue_error cancel p cs cp err =
     rt_catch (cancel_reservations_after_queue_error cancel p cs cp)
       (\<lambda>cleanup. rt_fail (SdkPolicy (''failed to queue reserved receiving details: '' @ sdk_error_display err
            @ ''; reservation cleanup also failed: '' @ sdk_error_display cleanup) None))
       (\<lambda>_. rt_fail err)"

section \<open>Queueing for one peer\<close>

definition load_current_list ::
  "ext \<Rightarrow> net \<Rightarrow> PaykitSdkConfig \<Rightarrow> nat list \<Rightarrow> PubkyPublicKey \<Rightarrow> PaykitReceiverPath \<Rightarrow> PrivatePaymentListView option rt" where
  "load_current_list E V cfg p cp rp =
     rt_bind (refresh_identity cfg (nv_session V p) (nv_now V (0 # p))) (\<lambda>(access, identity).
     if id_public_key identity = None then rt_return None
     else rt_bind (rt_check (\<lambda>s. ensure_peer_not_blocked s cp rp)) (\<lambda>_.
       rt_bind (if access \<noteq> None then observe_remote_recovery_marker_for_cached_private_state E V cfg (1 # p) cp rp True
                else rt_return ()) (\<lambda>_.
       rt_check (\<lambda>s. current_private_payment_list E s cp rp))))"

definition ensure_private_list_queue_allowed ::
  "net \<Rightarrow> PaykitSdkConfig \<Rightarrow> nat list \<Rightarrow> PubkyPublicKey \<Rightarrow> PaykitReceiverPath \<Rightarrow> unit rt" where
  "ensure_private_list_queue_allowed V cfg p cp rp =
     rt_bind (require_local_session cfg (nv_session V p) (nv_now V (0 # p))) (\<lambda>_.
     rt_bind (rt_check (\<lambda>s. private_queue_readiness s cp rp)) (\<lambda>_. rt_return ()))"

definition queue_reserved ::
  "ext \<Rightarrow> net \<Rightarrow> nat list \<Rightarrow> PubkyPublicKey \<Rightarrow> PrivatePaymentEndpointReservation list \<Rightarrow> PeerLinkOperationLease \<Rightarrow>
   OutboundPrivateMessageRecord rt" where
  "queue_reserved E V p cp rs lease = queue_private_payment_list_with_reservations_with_link_lease E cp rs (nv_now V p) lease"

definition queue_details ::
  "ext \<Rightarrow> net \<Rightarrow> nat list \<Rightarrow> PubkyPublicKey \<Rightarrow> PrivateReceivingDetail list \<Rightarrow> PeerLinkOperationLease \<Rightarrow> OutboundPrivateMessageRecord rt" where
  "queue_details E V p cp ds lease = enqueue_private_payment_list_with_link_lease E cp ds (nv_now V p) lease"

definition enqueue_private_payment_list_from_receiving_details_with_claim ::
  "ext \<Rightarrow> net \<Rightarrow> payment_adapter \<Rightarrow> nat list \<Rightarrow> PubkyPublicKey \<Rightarrow> PeerLinkOperationLease \<Rightarrow> OutboundPrivateMessageRecord rt" where
  "enqueue_private_payment_list_from_receiving_details_with_claim E V A p cp lease =
     rt_bind (rt_lift (pa_reserve A p cp (le_path lease))) (\<lambda>reserved.
     case reserved of
       Some rs \<Rightarrow>
         rt_catch (queue_reserved E V (0 # p) cp rs lease)
           (\<lambda>err. cancel_reservations_and_return_queue_error (pa_cancel A) (1 # p) (map (reservation_cancellation E cp (le_path lease)) rs) cp err)
           rt_return
     | None \<Rightarrow>
         rt_bind (rt_lift (pa_private_receiving_details A p cp (le_path lease))) (\<lambda>ds. queue_details E V (0 # p) cp ds lease))"

definition enqueue_private_payment_list ::
  "ext \<Rightarrow> net \<Rightarrow> payment_adapter \<Rightarrow> PaykitSdkConfig \<Rightarrow> nat list \<Rightarrow> PubkyPublicKey \<Rightarrow> PaykitReceiverPath \<Rightarrow> OutboundPrivateMessageRecord rt" where
  "enqueue_private_payment_list E V A cfg p cp rp =
     rt_bind (claim_at V cfg (0 # p) cp rp) (\<lambda>lease. finish_link_operation lease
       (rt_bind (ensure_private_list_queue_allowed V cfg (1 # p) cp (le_path lease)) (\<lambda>_.
        enqueue_private_payment_list_from_receiving_details_with_claim E V A (2 # p) cp lease)))"

definition enqueue_private_payment_list_with_receiving_details ::
  "ext \<Rightarrow> net \<Rightarrow> PaykitSdkConfig \<Rightarrow> nat list \<Rightarrow> PubkyPublicKey \<Rightarrow> PaykitReceiverPath \<Rightarrow> PrivateReceivingDetail list \<Rightarrow>
   OutboundPrivateMessageRecord rt" where
  "enqueue_private_payment_list_with_receiving_details E V cfg p cp rp ds =
     rt_bind (claim_at V cfg (0 # p) cp rp) (\<lambda>lease. finish_link_operation lease
       (rt_bind (ensure_private_list_queue_allowed V cfg (1 # p) cp (le_path lease)) (\<lambda>_. queue_details E V (2 # p) cp ds lease)))"

definition enqueue_private_payment_list_with_reservations ::
  "ext \<Rightarrow> net \<Rightarrow> payment_adapter \<Rightarrow> PaykitSdkConfig \<Rightarrow> nat list \<Rightarrow> PubkyPublicKey \<Rightarrow> PaykitReceiverPath \<Rightarrow>
   PrivatePaymentEndpointReservation list \<Rightarrow> OutboundPrivateMessageRecord rt" where
  "enqueue_private_payment_list_with_reservations E V A cfg p cp rp rs =
     (let cancellations = map (reservation_cancellation E cp rp) rs in
      rt_catch (claim_at V cfg (0 # p) cp rp)
        (\<lambda>err. cancel_reservations_and_return_queue_error (pa_cancel A) (3 # p) cancellations cp err)
        (\<lambda>lease. finish_link_operation lease
           (rt_catch (rt_bind (ensure_private_list_queue_allowed V cfg (1 # p) cp (le_path lease)) (\<lambda>_. queue_reserved E V (2 # p) cp rs lease))
              (\<lambda>err. cancel_reservations_and_return_queue_error (pa_cancel A) (3 # p) cancellations cp err)
              rt_return)))"

definition clear_private_payment_list ::
  "ext \<Rightarrow> net \<Rightarrow> PaykitSdkConfig \<Rightarrow> nat list \<Rightarrow> PubkyPublicKey \<Rightarrow> PaykitReceiverPath \<Rightarrow> OutboundPrivateMessageRecord rt" where
  "clear_private_payment_list E V cfg p cp rp =
     rt_bind (claim_at V cfg (0 # p) cp rp) (\<lambda>lease. finish_link_operation lease
       (rt_bind (ensure_private_list_queue_allowed V cfg (1 # p) cp (le_path lease)) (\<lambda>_. queue_details E V (2 # p) cp [] lease)))"

section \<open>Runs over many peers\<close>

abbreviation peer_order :: "PubkyPublicKey \<times> PaykitReceiverPath \<Rightarrow> string \<times> string" where
  "peer_order \<equiv> \<lambda>(cp, rp). (z32 cp, receiver_path_str rp)"

definition linked_private_counterparties_not_in_storage_state ::
  "StorageState \<Rightarrow> (PubkyPublicKey \<times> PaykitReceiverPath) list \<Rightarrow> (PubkyPublicKey \<times> PaykitReceiverPath) list" where
  "linked_private_counterparties_not_in_storage_state s keep =
     (let active = map fst (filter (\<lambda>(_, ls). ls_link_snapshot ls \<noteq> None) (st_encrypted_link_states s))
      in map (\<lambda>peer. (lp_counterparty peer, lp_path peer))
           (filter (\<lambda>peer. lp_state peer = Linked \<and> (lp_counterparty peer, lp_path peer) \<notin> set keep
                \<and> (lp_counterparty peer, lp_path peer) \<in> set active) (hm_values (st_linked_peers s))))"

text \<open>\<^verbatim>\<open>sort_by\<close> and \<^verbatim>\<open>dedup\<close>.\<close>

definition sorted_peers :: "(PubkyPublicKey \<times> PaykitReceiverPath) list \<Rightarrow> (PubkyPublicKey \<times> PaykitReceiverPath) list" where
  "sorted_peers ks = remdups_adj (sort_key peer_order ks)"

definition contact_peers :: "StorageState \<Rightarrow> (PubkyPublicKey \<times> PaykitReceiverPath) list" where
  "contact_peers s = sorted_peers (concat (map (\<lambda>r. map (\<lambda>rp. (ct_public_key r, rp)) (ct_receiver_paths r)) (contact_records s)))"

definition unlisted_peers :: "bool \<Rightarrow> (PubkyPublicKey \<times> PaykitReceiverPath) list \<Rightarrow> StorageState \<Rightarrow> (PubkyPublicKey \<times> PaykitReceiverPath) list" where
  "unlisted_peers clear_unlisted keep s =
     (if clear_unlisted then sorted_peers (linked_private_counterparties_not_in_storage_state s keep) else [])"

fun queue_contacts ::
  "ext \<Rightarrow> net \<Rightarrow> payment_adapter \<Rightarrow> PaykitSdkConfig \<Rightarrow> nat list \<Rightarrow> (PubkyPublicKey \<times> PaykitReceiverPath) list \<Rightarrow>
   PrivatePaymentListSyncReport \<Rightarrow> PrivatePaymentListSyncReport rt" where
  "queue_contacts E V A cfg p [] report = rt_return report"
| "queue_contacts E V A cfg p ((cp, rp) # peers) report =
     rt_catch (enqueue_private_payment_list E V A cfg (length peers # p) cp rp)
       (\<lambda>err. queue_contacts E V A cfg p peers
          (report\<lparr>sr_failed := sr_failed report @ [failed_change cp rp (sdk_error_display err)]\<rparr>))
       (\<lambda>m. queue_contacts E V A cfg p peers (report\<lparr>sr_queued := sr_queued report @ [queued_change cp rp m]\<rparr>))"

fun clear_contacts ::
  "ext \<Rightarrow> net \<Rightarrow> PaykitSdkConfig \<Rightarrow> nat list \<Rightarrow> (PubkyPublicKey \<times> PaykitReceiverPath) list \<Rightarrow>
   PrivatePaymentListSyncReport \<Rightarrow> PrivatePaymentListSyncReport rt" where
  "clear_contacts E V cfg p [] report = rt_return report"
| "clear_contacts E V cfg p ((cp, rp) # peers) report =
     rt_catch (clear_private_payment_list E V cfg (length peers # p) cp rp)
       (\<lambda>err. clear_contacts E V cfg p peers
          (report\<lparr>sr_failed := sr_failed report @ [failed_change cp rp (sdk_error_display err)]\<rparr>))
       (\<lambda>m. clear_contacts E V cfg p peers (report\<lparr>sr_cleared := sr_cleared report @ [queued_change cp rp m]\<rparr>))"

definition sync_contact_private_payment_lists ::
  "ext \<Rightarrow> net \<Rightarrow> payment_adapter \<Rightarrow> PaykitSdkConfig \<Rightarrow> nat list \<Rightarrow> bool \<Rightarrow> PrivatePaymentListSyncReport rt" where
  "sync_contact_private_payment_lists E V A cfg p clear_unlisted =
     rt_bind (rt_check (require_initialized_identity ''sync contact Private Payment Lists'')) (\<lambda>_.
     rt_bind (rt_read (\<lambda>s. (contact_peers s, unlisted_peers clear_unlisted (contact_peers s) s))) (\<lambda>(contacts, unlisted).
     rt_bind (queue_contacts E V A cfg (0 # p) contacts \<lparr>sr_queued = [], sr_cleared = [], sr_failed = []\<rparr>) (\<lambda>report.
     clear_contacts E V cfg (1 # p) unlisted report)))"

definition pending_failures :: "OutboundPrivateCounterpartySendReport \<Rightarrow> PrivatePaymentListDeliveryFailure list" where
  "pending_failures r =
     (case ocr_report r of
        None \<Rightarrow> []
      | Some sent \<Rightarrow> delivery_failures_from_send_report (ocr_counterparty r) (ocr_path r) sent)
     @ (case ocr_error r of
          None \<Rightarrow> []
        | Some err \<Rightarrow> [\<lparr>df_counterparty = ocr_counterparty r, df_path = ocr_path r, df_outbound_message_id = None,
                       df_reservation_id = None, df_error = err\<rparr>])"

definition sync_contact_private_payment_lists_and_process_outbound ::
  "ext \<Rightarrow> 'n link_net \<Rightarrow> payment_adapter \<Rightarrow> PaykitSdkConfig \<Rightarrow> nat list \<Rightarrow> bool \<Rightarrow> PrivatePaymentListDeliveryReport prt" where
  "sync_contact_private_payment_lists_and_process_outbound E H A cfg p clear_unlisted =
     prt_bind (prt_of (sync_contact_private_payment_lists E (ln_net H) A cfg (0 # p) clear_unlisted)) (\<lambda>sync.
     prt_bind (process_pending_private_messages E H (pa_cancel A) cfg (1 # p)) (\<lambda>outbound.
     prt_of (rt_return ((delivery_report_from_sync_report sync)\<lparr>dr_failed_to_deliver := concat (map pending_failures outbound)\<rparr>))))"

definition PUBKY_APP_KEY_PREFIX :: string where
  "PUBKY_APP_KEY_PREFIX = ''pubky''"

definition to_app_key :: "PubkyPublicKey \<Rightarrow> string" where
  "to_app_key k = PUBKY_APP_KEY_PREFIX @ z32 k"

text \<open>Slices of a key text, which is 52 characters long.\<close>

definition redacted_app_key :: "PubkyPublicKey \<Rightarrow> string" where
  "redacted_app_key k =
     take (length PUBKY_APP_KEY_PREFIX + 6) (to_app_key k) @ ''...'' @ drop (length (to_app_key k) - 6) (to_app_key k)"

abbreviation lu_key :: "PrivatePaymentListReservationUpdate \<Rightarrow> PubkyPublicKey \<times> PaykitReceiverPath" where
  "lu_key u \<equiv> (lu_counterparty u, lu_path u)"

text \<open>An update that is not the only one of its peer is refused and its reservations are given back.\<close>

definition refuse_duplicate_update ::
  "ext \<Rightarrow> payment_adapter \<Rightarrow> nat list \<Rightarrow> PrivatePaymentListReservationUpdate \<Rightarrow> PrivatePaymentListSyncChange rt" where
  "refuse_duplicate_update E A p u =
     (let error = ''duplicate Private Payment List update for '' @ redacted_app_key (lu_counterparty u) @ ''/'' @ receiver_path_str (lu_path u)
      in rt_catch (cancel_reservations_after_queue_error (pa_cancel A) p
                     (map (reservation_cancellation E (lu_counterparty u) (lu_path u)) (lu_reservations u)) (lu_counterparty u))
           (\<lambda>cleanup. rt_return (failed_change (lu_counterparty u) (lu_path u)
                (error @ ''; reservation cleanup also failed: '' @ sdk_error_display cleanup)))
           (\<lambda>_. rt_return (failed_change (lu_counterparty u) (lu_path u) error)))"

type_synonym list_run = "PrivatePaymentListDeliveryReport \<times> (PubkyPublicKey \<times> PaykitReceiverPath) list"

fun queue_updates ::
  "ext \<Rightarrow> net \<Rightarrow> payment_adapter \<Rightarrow> PaykitSdkConfig \<Rightarrow> nat list \<Rightarrow> (PubkyPublicKey \<times> PaykitReceiverPath) list \<Rightarrow>
   PrivatePaymentListReservationUpdate list \<Rightarrow> list_run \<Rightarrow> list_run rt" where
  "queue_updates E V A cfg p keys [] acc = rt_return acc"
| "queue_updates E V A cfg p keys (u # us) (report, queued) =
     (if count_list keys (lu_key u) > 1
      then rt_bind (refuse_duplicate_update E A (length us # p) u) (\<lambda>change.
           queue_updates E V A cfg p keys us (report\<lparr>dr_failed_to_queue := dr_failed_to_queue report @ [change]\<rparr>, queued))
      else rt_catch (enqueue_private_payment_list_with_reservations E V A cfg (length us # p) (lu_counterparty u) (lu_path u) (lu_reservations u))
             (\<lambda>err. queue_updates E V A cfg p keys us
                (report\<lparr>dr_failed_to_queue := dr_failed_to_queue report
                   @ [failed_change (lu_counterparty u) (lu_path u) (sdk_error_display err)]\<rparr>, queued))
             (\<lambda>m. let change = queued_change (lu_counterparty u) (lu_path u) m in
                queue_updates E V A cfg p keys us
                  (if lu_reservations u = [] then report\<lparr>dr_cleared := dr_cleared report @ [change]\<rparr>
                   else report\<lparr>dr_queued := dr_queued report @ [change]\<rparr>, queued @ [lu_key u])))"

fun clear_unlisted_peers ::
  "ext \<Rightarrow> net \<Rightarrow> PaykitSdkConfig \<Rightarrow> nat list \<Rightarrow> (PubkyPublicKey \<times> PaykitReceiverPath) list \<Rightarrow> list_run \<Rightarrow> list_run rt" where
  "clear_unlisted_peers E V cfg p [] acc = rt_return acc"
| "clear_unlisted_peers E V cfg p ((cp, rp) # peers) (report, queued) =
     rt_catch (clear_private_payment_list E V cfg (length peers # p) cp rp)
       (\<lambda>err. clear_unlisted_peers E V cfg p peers
          (report\<lparr>dr_failed_to_queue := dr_failed_to_queue report @ [failed_change cp rp (sdk_error_display err)]\<rparr>, queued))
       (\<lambda>m. clear_unlisted_peers E V cfg p peers
          (report\<lparr>dr_cleared := dr_cleared report @ [queued_change cp rp m]\<rparr>, queued @ [(cp, rp)]))"

fun deliver_lists ::
  "ext \<Rightarrow> 'n link_net \<Rightarrow> cancel_call \<Rightarrow> PaykitSdkConfig \<Rightarrow> nat list \<Rightarrow> (PubkyPublicKey \<times> PaykitReceiverPath) list \<Rightarrow>
   PrivatePaymentListDeliveryFailure list prt" where
  "deliver_lists E H cancel cfg p [] = prt_of (rt_return [])"
| "deliver_lists E H cancel cfg p ((cp, rp) # peers) =
     (let failure = (\<lambda>err. [\<lparr>df_counterparty = cp, df_path = rp, df_outbound_message_id = None, df_reservation_id = None,
                             df_error = sdk_error_display err\<rparr>]);
          continue = (\<lambda>failures. prt_bind (deliver_lists E H cancel cfg p peers) (\<lambda>more. prt_of (rt_return (failures @ more))))
      in prt_catch (prt_of (rt_check (\<lambda>s. private_queue_readiness s cp rp)))
           (\<lambda>err. continue (failure err))
           (\<lambda>readiness.
              if readiness \<noteq> Ready then continue []
              else prt_catch (process_outbound_private_messages E H cancel cfg (length peers # p) cp rp)
                     (\<lambda>err. continue (failure err))
                     (\<lambda>sent. continue (delivery_failures_from_send_report cp rp sent))))"

definition sync_private_payment_lists_with_reservations_and_process_outbound ::
  "ext \<Rightarrow> 'n link_net \<Rightarrow> payment_adapter \<Rightarrow> PaykitSdkConfig \<Rightarrow> nat list \<Rightarrow> PrivatePaymentListReservationUpdate list \<Rightarrow> bool \<Rightarrow>
   PrivatePaymentListDeliveryReport prt" where
  "sync_private_payment_lists_with_reservations_and_process_outbound E H A cfg p updates clear_unlisted =
     prt_bind (prt_of (rt_check (require_initialized_identity ''sync reservation-backed Private Payment Lists''))) (\<lambda>_.
     let sorted = sort_key (\<lambda>u. peer_order (lu_key u)) updates; keys = map lu_key sorted in
     prt_bind (prt_of (rt_read (unlisted_peers clear_unlisted keys))) (\<lambda>unlisted.
     prt_bind (prt_of (queue_updates E (ln_net H) A cfg (0 # p) keys sorted
                 (\<lparr>dr_queued = [], dr_cleared = [], dr_failed_to_queue = [], dr_failed_to_deliver = []\<rparr>, []))) (\<lambda>run.
     prt_bind (prt_of (clear_unlisted_peers E (ln_net H) cfg (1 # p) unlisted run)) (\<lambda>(report, queued).
     prt_bind (deliver_lists E H (pa_cancel A) cfg (2 # p) (sorted_peers queued)) (\<lambda>failures.
     prt_of (rt_return (report\<lparr>dr_failed_to_deliver := failures\<rparr>)))))))"

definition clear_private_payment_list_and_process_outbound ::
  "ext \<Rightarrow> 'n link_net \<Rightarrow> payment_adapter \<Rightarrow> PaykitSdkConfig \<Rightarrow> nat list \<Rightarrow> PubkyPublicKey \<Rightarrow> PaykitReceiverPath \<Rightarrow>
   PrivatePaymentListDeliveryReport prt" where
  "clear_private_payment_list_and_process_outbound E H A cfg p cp rp =
     sync_private_payment_lists_with_reservations_and_process_outbound E H A cfg p
       [\<lparr>lu_counterparty = cp, lu_path = rp, lu_reservations = []\<rparr>] False"

section \<open>Room in the queue\<close>

text \<open>The queue is in order and \<open>n\<close> more messages get fresh ids.\<close>

definition queue_room :: "nat \<Rightarrow> StorageState \<Rightarrow> bool" where
  "queue_room n s \<longleftrightarrow> outbound_inv s \<and> unat (st_next_outbound_id s) + n < 2 ^ 64"

lemma queue_room_less: "queue_room (Suc n) s \<Longrightarrow> queue_room n s"
  by (simp add: queue_room_def)

lemma queue_room_cong:
  "st_outbound_private_messages t = st_outbound_private_messages s \<Longrightarrow> st_next_outbound_id t = st_next_outbound_id s \<Longrightarrow>
     queue_room n s \<Longrightarrow> queue_room n t"
  by (simp add: queue_room_def outbound_inv_def)

lemma queue_room_append:
  assumes "queue_room (Suc n) s" and "st_outbound_private_messages t = st_outbound_private_messages s @ [m]"
    and "om_id m = st_next_outbound_id s" and "st_next_outbound_id t = st_next_outbound_id s + 1"
  shows "queue_room n t"
proof -
  have below: "unat (st_next_outbound_id s) + 1 < 2 ^ 64" using assms(1) by (simp add: queue_room_def)
  moreover have "unat (- 1 :: u64) = 2 ^ 64 - 1" by (simp add: unsigned_minus_1_eq_mask mask_eq_exp_minus_1)
  ultimately have "st_next_outbound_id s \<noteq> - 1" by auto
  then have "outbound_inv t"
    using assms append_next [of om_id "st_outbound_private_messages s" "st_next_outbound_id s" m]
    by (simp add: queue_room_def outbound_inv_def)
  moreover have "unat (st_next_outbound_id s + 1) = unat (st_next_outbound_id s) + 1"
    using below by (subst unat_add_lem [THEN iffD1]) simp_all
  ultimately show ?thesis using assms(1,4) by (simp add: queue_room_def)
qed

interpretation room: link_operation_invariant "queue_room n" for n
proof unfold_locales
  fix s t assume inv: "queue_room n s"
  show "queue_room n t" if "identity_step s t"
    using that inv
    by (auto elim!: identity_stepE simp: queue_room_def outbound_inv_def identity_defs clear_defs Let_def
        split: option.splits IdentityTransition.splits if_splits)
  show "queue_room n t" if "link_or_unblock_step s t"
    using link_step_queue [OF that] queue_room_cong inv by blast
  show "queue_room n (save_linked_peer peer s)" for peer
    by (rule queue_room_cong [OF _ _ inv]) (simp_all add: save_linked_peer_def)
  show "queue_room n (fst (claim_peer_link_operation cp rp now until s))" for cp rp now until
    by (rule queue_room_cong [OF _ _ inv]) (simp_all add: claim_peer_link_operation_def Let_def)
  show "queue_room n (release_peer_link_operation cp rp i s)" for cp rp i
    by (rule queue_room_cong [OF _ _ inv]) (simp_all add: release_peer_link_operation_def split: option.split)
qed

text \<open>An operation that uses up at most one id.\<close>

definition takes_one :: "'a rt \<Rightarrow> bool" where
  "takes_one m \<longleftrightarrow> (\<forall>n s. queue_room (Suc n) s \<longrightarrow> queue_room n (fst (m s)))"

lemma takes_one_keeps: "(\<And>n. rt_keeps (queue_room n) m) \<Longrightarrow> takes_one m"
  unfolding takes_one_def rt_keeps_def using queue_room_less by blast

lemma takes_one_bind: "(\<And>n. rt_keeps (queue_room n) m) \<Longrightarrow> (\<And>x. takes_one (f x)) \<Longrightarrow> takes_one (rt_bind m f)"
  unfolding takes_one_def rt_keeps_def rt_bind_def
  by (auto split: prod.splits sum.splits) (metis fst_conv queue_room_less)+

lemma takes_one_catch_first:
  "(\<And>n. rt_keeps (queue_room n) m) \<Longrightarrow> (\<And>e n. rt_keeps (queue_room n) (h e)) \<Longrightarrow> (\<And>x. takes_one (f x)) \<Longrightarrow> takes_one (rt_catch m h f)"
  unfolding takes_one_def rt_keeps_def rt_catch_def
  by (auto split: prod.splits sum.splits) (metis fst_conv queue_room_less)+

lemma takes_one_catch:
  "takes_one m \<Longrightarrow> (\<And>e n. rt_keeps (queue_room n) (h e)) \<Longrightarrow> takes_one (rt_catch m h rt_return)"
  unfolding takes_one_def rt_keeps_def rt_catch_def rt_return_def
  by (auto split: prod.splits sum.splits) (metis fst_conv)+

lemma takes_one_finish: "takes_one m \<Longrightarrow> takes_one (finish_link_operation lease m)"
  unfolding takes_one_def finish_link_operation_def by (auto simp: room.release_kept split: prod.splits) (metis fst_conv room.release_kept)

lemma takes_one_cases:
  "(opt = None \<Longrightarrow> takes_one m) \<Longrightarrow> (\<And>x. opt = Some x \<Longrightarrow> takes_one (g x)) \<Longrightarrow> takes_one (case opt of None \<Rightarrow> m | Some x \<Rightarrow> g x)"
  by (auto split: option.split)

lemmas takes_rules = takes_one_finish takes_one_catch takes_one_cases

lemma fold_save_next [simp]:
  "st_next_outbound_id (fold save_payment_endpoint_reservation rs s) = st_next_outbound_id s"
  by (induction rs arbitrary: s) (auto simp: save_payment_endpoint_reservation_def)

lemma queueing_takes_one: "takes_one (queue_reserved E V p cp rs lease)" "takes_one (queue_details E V p cp ds lease)"
proof -
  have "queue_room n t" if room: "queue_room (Suc n) s" and run: "queue_reserved E V p cp rs lease s = (t, result)" for n s t result
  proof (cases result)
    case (Inl e)
    then show ?thesis
      using run queue_reservations_failed room queue_room_less
      by (fastforce simp: queue_reserved_def queue_private_payment_list_with_reservations_with_link_lease_def)
  next
    case (Inr m)
    with run have "queue_private_payment_list_with_reservations_inner E cp (le_path lease) rs (nv_now V p) (Some lease) s = (t, Inr m)"
      by (simp add: queue_reserved_def queue_private_payment_list_with_reservations_with_link_lease_def)
    then show ?thesis
    proof (rule queue_reservations_ok, goal_cases)
      case (1 eps raw)
      have "om_id m = st_next_outbound_id s" using arg_cong [OF 1(5), of om_id] by (simp add: outbound_from_new_def)
      then show ?case using 1(6) by (intro queue_room_append [OF room]) simp_all
    qed
  qed
  then show "takes_one (queue_reserved E V p cp rs lease)" unfolding takes_one_def by (metis prod.collapse)
  show "takes_one (queue_details E V p cp ds lease)"
    unfolding takes_one_def
  proof (intro allI impI)
    fix n s assume room: "queue_room (Suc n) s"
    have inserted: "queue_room n (fst (insert_outbound_private_message m s))" for m
      by (rule queue_room_append [OF room, of _ "outbound_from_new (st_next_outbound_id s) m"])
        (simp_all add: insert_outbound_private_message_def outbound_from_new_def Let_def)
    show "queue_room n (fst (queue_details E V p cp ds lease s))"
      using inserted queue_room_less [OF room]
      by (auto simp: queue_details_def enqueue_private_payment_list_with_link_lease_def enqueue_private_message_with_link_lease_def
          transaction_def run_storage_state_transaction_def rbind_def split: sum.split prod.split) (metis fst_conv)+
  qed
qed

lemma cancels_keep [rt_rules]:
  "rt_keeps P (cancel_unqueued cancel p cp cs)"
  "rt_keeps P (cancel_reservations_after_queue_error cancel p cs cp)"
  "rt_keeps P (cancel_reservations_and_return_queue_error cancel p cs cp err :: 'a rt)"
proof -
  show 1: "rt_keeps P (cancel_unqueued cancel p cp cs)" for cs
    by (induction cs) (auto intro!: rt_rules)
  show 2: "rt_keeps P (cancel_reservations_after_queue_error cancel p cs cp)"
    unfolding cancel_reservations_after_queue_error_def by (intro rt_rules 1)
  show "rt_keeps P (cancel_reservations_and_return_queue_error cancel p cs cp err :: 'a rt)"
    unfolding cancel_reservations_and_return_queue_error_def by (intro rt_rules 2)
qed

lemma queue_guards_keep:
  "rt_keeps (queue_room n) (ensure_private_list_queue_allowed V cfg p cp rp)"
  unfolding ensure_private_list_queue_allowed_def
  by (intro rt_rules rt_keeps_guards(2) [of "queue_room n", OF room.identity_kept])

lemma drivers_take_one:
  "takes_one (enqueue_private_payment_list E V A cfg p cp rp)"
  "takes_one (enqueue_private_payment_list_with_receiving_details E V cfg p cp rp ds)"
  "takes_one (enqueue_private_payment_list_with_reservations E V A cfg p cp rp rs)"
  "takes_one (clear_private_payment_list E V cfg p cp rp)"
  unfolding enqueue_private_payment_list_def enqueue_private_payment_list_with_receiving_details_def Let_def
    enqueue_private_payment_list_with_reservations_def clear_private_payment_list_def
    enqueue_private_payment_list_from_receiving_details_with_claim_def
  by (intro takes_rules takes_one_bind takes_one_catch_first queueing_takes_one queue_guards_keep rt_rules room.keeps_claim)+

section \<open>Every peer is reported once\<close>

abbreviation sc_key :: "PrivatePaymentListSyncChange \<Rightarrow> PubkyPublicKey \<times> PaykitReceiverPath" where
  "sc_key c \<equiv> (sc_counterparty c, sc_path c)"

definition reports_keys :: "PrivatePaymentListDeliveryReport \<Rightarrow> (PubkyPublicKey \<times> PaykitReceiverPath) multiset \<Rightarrow> bool" where
  "reports_keys r ks \<longleftrightarrow>
     mset (map sc_key (dr_queued r @ dr_cleared r @ dr_failed_to_queue r)) = ks
     \<and> list_all (\<lambda>c. sc_outbound_message_id c \<noteq> None \<and> sc_error c = None) (dr_queued r @ dr_cleared r)
     \<and> list_all (\<lambda>c. sc_outbound_message_id c = None \<and> sc_error c \<noteq> None) (dr_failed_to_queue r)"

lemma reports_add:
  assumes "reports_keys r ks"
  shows "reports_keys (r\<lparr>dr_queued := dr_queued r @ [queued_change cp rp m]\<rparr>) (add_mset (cp, rp) ks)"
    "reports_keys (r\<lparr>dr_cleared := dr_cleared r @ [queued_change cp rp m]\<rparr>) (add_mset (cp, rp) ks)"
    "reports_keys (r\<lparr>dr_failed_to_queue := dr_failed_to_queue r @ [failed_change cp rp err]\<rparr>) (add_mset (cp, rp) ks)"
  using assms by (auto simp: reports_keys_def queued_change_def failed_change_def)

lemma refuse_unchanged: "\<exists>err. refuse_duplicate_update E A p u s = (s, Inr (failed_change (lu_counterparty u) (lu_path u) err))"
proof -
  obtain t r where run: "cancel_reservations_after_queue_error (pa_cancel A) p
      (map (reservation_cancellation E (lu_counterparty u) (lu_path u)) (lu_reservations u)) (lu_counterparty u) s = (t, r)" by force
  have "t = s"
    using cancels_keep(2) [of "(=) s" "pa_cancel A" p "map (reservation_cancellation E (lu_counterparty u) (lu_path u)) (lu_reservations u)"
        "lu_counterparty u"] run
    by (auto simp: rt_keeps_def)
  with run show ?thesis by (cases r) (auto simp: refuse_duplicate_update_def rt_catch_def rt_return_def Let_def)
qed

lemma takes_oneE:
  assumes "takes_one m" and "queue_room (Suc n) s"
  obtains t r where "m s = (t, r)" "queue_room n t"
  using assms unfolding takes_one_def by (metis prod.collapse)

lemma queue_updates_run:
  "queue_room (length us + n) s \<Longrightarrow> reports_keys report ks \<Longrightarrow>
     \<exists>t report' queued'. queue_updates E V A cfg p keys us (report, queued) s = (t, Inr (report', queued'))
       \<and> queue_room n t \<and> reports_keys report' (ks + mset (map lu_key us))"
proof (induction us arbitrary: s report queued ks)
  case (Cons u us)
  show ?case
  proof (cases "count_list keys (lu_key u) > 1")
    case True
    obtain err where refused: "refuse_duplicate_update E A (length us # p) u s = (s, Inr (failed_change (lu_counterparty u) (lu_path u) err))"
      using refuse_unchanged by blast
    have room: "queue_room (length us + n) s" using Cons.prems(1) queue_room_less by simp
    from Cons.IH [OF room reports_add(3) [OF Cons.prems(2)], of "lu_counterparty u" "lu_path u" err queued] True refused
    show ?thesis by (simp add: rt_bind_def)
  next
    case False
    obtain v r where run: "enqueue_private_payment_list_with_reservations E V A cfg (length us # p) (lu_counterparty u) (lu_path u) (lu_reservations u) s = (v, r)"
      and room: "queue_room (length us + n) v"
      by (rule takes_oneE [OF drivers_take_one(3) Cons.prems(1) [simplified]])
    show ?thesis
    proof (cases r)
      case (Inl e)
      from Cons.IH [OF room reports_add(3) [OF Cons.prems(2)], of "lu_counterparty u" "lu_path u" "sdk_error_display e" queued] False run Inl
      show ?thesis by (simp add: rt_catch_def)
    next
      case (Inr m)
      from Cons.IH [OF room reports_add(1) [OF Cons.prems(2)], of "lu_counterparty u" "lu_path u" m "queued @ [lu_key u]"]
        Cons.IH [OF room reports_add(2) [OF Cons.prems(2)], of "lu_counterparty u" "lu_path u" m "queued @ [lu_key u]"] False run Inr
      show ?thesis by (simp add: rt_catch_def Let_def)
    qed
  qed
qed (simp add: rt_return_def)

lemma clear_unlisted_run:
  "queue_room (length peers + n) s \<Longrightarrow> reports_keys report ks \<Longrightarrow>
     \<exists>t report' queued'. clear_unlisted_peers E V cfg p peers (report, queued) s = (t, Inr (report', queued'))
       \<and> queue_room n t \<and> reports_keys report' (ks + mset peers)"
proof (induction peers arbitrary: s report queued ks)
  case (Cons k peers)
  obtain cp rp where k: "k = (cp, rp)" by force
  obtain v r where run: "clear_private_payment_list E V cfg (length peers # p) cp rp s = (v, r)" and room: "queue_room (length peers + n) v"
    by (rule takes_oneE [OF drivers_take_one(4) Cons.prems(1) [simplified]])
  show ?case
  proof (cases r)
    case (Inl e)
    from Cons.IH [OF room reports_add(3) [OF Cons.prems(2)], of cp rp "sdk_error_display e" queued] k run Inl
    show ?thesis by (simp add: rt_catch_def)
  next
    case (Inr m)
    from Cons.IH [OF room reports_add(2) [OF Cons.prems(2)], of cp rp m "queued @ [(cp, rp)]"] k run Inr
    show ?thesis by (simp add: rt_catch_def)
  qed
qed (simp add: rt_return_def)

lemma deliver_lists_run: "outbound_inv s \<Longrightarrow> \<exists>t failures. deliver_lists E H cancel cfg p peers s = Some (t, Inr failures) \<and> outbound_inv t"
proof (induction peers arbitrary: s)
  case (Cons k peers)
  obtain cp rp where k: "k = (cp, rp)" by force
  obtain u r where sent: "process_outbound_private_messages E H cancel cfg (length peers # p) cp rp s = Some (u, r)" "outbound_inv u"
    using prt_endsD [OF delivery_ends Cons.prems] by blast
  have continue: "\<exists>t failures. prt_bind (deliver_lists E H cancel cfg p peers) (\<lambda>more. prt_of (rt_return (fs @ more))) v = Some (t, Inr failures)
      \<and> outbound_inv t" if "outbound_inv v" for fs v
    using Cons.IH [OF that] by (auto simp: prt_bind_def prt_of_def rt_return_def)
  show ?case
    using k sent continue [OF Cons.prems] continue [OF sent(2)]
    by (cases "private_queue_readiness s cp rp"; cases r) (auto simp: Let_def prt_catch_def prt_of_def rt_check_def simp del: append.simps)
qed (simp add: prt_of_def rt_return_def)

lemma unlisted_cong: "set keep = set keep' \<Longrightarrow> unlisted_peers c keep s = unlisted_peers c keep' s"
  by (simp add: unlisted_peers_def linked_private_counterparties_not_in_storage_state_def)

text \<open>C23: A run that publishes reservation-backed lists always ends when the queue has room for them, and
  its report names every update and every linked peer that is cleared exactly once, as queued, cleared or
  failed to queue: queued and cleared ones with the id of their message, failed ones with an error.\<close>

theorem list_sync_reports_all:
  assumes "queue_room (length updates + length (unlisted_peers clear_unlisted (map lu_key updates) s)) s"
    and "require_initialized_identity ''sync reservation-backed Private Payment Lists'' s = Inr me"
  shows "\<exists>t report. sync_private_payment_lists_with_reservations_and_process_outbound E H A cfg p updates clear_unlisted s = Some (t, Inr report)
     \<and> outbound_inv t \<and> reports_keys report (mset (map lu_key updates) + mset (unlisted_peers clear_unlisted (map lu_key updates) s))"
proof -
  let ?sorted = "sort_key (\<lambda>u. peer_order (lu_key u)) updates"
  let ?unlisted = "unlisted_peers clear_unlisted (map lu_key updates) s"
  let ?empty = "\<lparr>dr_queued = [], dr_cleared = [], dr_failed_to_queue = [], dr_failed_to_deliver = []\<rparr>"
  have empty: "reports_keys ?empty {#}" by (simp add: reports_keys_def)
  have unlisted: "unlisted_peers clear_unlisted (map lu_key ?sorted) s = ?unlisted" by (rule unlisted_cong) simp
  obtain u report queued where queue: "queue_updates E (ln_net H) A cfg (0 # p) (map lu_key ?sorted) ?sorted (?empty, []) s = (u, Inr (report, queued))"
    and u: "queue_room (length ?unlisted) u" "reports_keys report (mset (map lu_key updates))"
    using queue_updates_run [of ?sorted "length ?unlisted" s ?empty "{#}" E "ln_net H" A cfg "0 # p" "map lu_key ?sorted" "[]"] assms(1) empty
    by auto
  obtain v report' queued' where clear: "clear_unlisted_peers E (ln_net H) cfg (1 # p) ?unlisted (report, queued) u = (v, Inr (report', queued'))"
    and v: "queue_room 0 v" "reports_keys report' (mset (map lu_key updates) + mset ?unlisted)"
    using clear_unlisted_run [of ?unlisted 0 u report "mset (map lu_key updates)" E "ln_net H" cfg "1 # p" queued] u by auto
  obtain t failures where deliver: "deliver_lists E H (pa_cancel A) cfg (2 # p) (sorted_peers queued') v = Some (t, Inr failures)" "outbound_inv t"
    using deliver_lists_run [of v E H "pa_cancel A" cfg "2 # p" "sorted_peers queued'"] v(1) by (auto simp: queue_room_def)
  have "reports_keys (report'\<lparr>dr_failed_to_deliver := failures\<rparr>) (mset (map lu_key updates) + mset ?unlisted)"
    using v(2) by (simp add: reports_keys_def)
  with queue clear deliver assms(2) unlisted show ?thesis
    by (auto simp: sync_private_payment_lists_with_reservations_and_process_outbound_def prt_bind_def prt_of_def rt_check_def rt_read_def
        rt_return_def Let_def)
qed

section \<open>Reservations stay backed\<close>

lemma backed_cong:
  assumes "st_payment_endpoint_reservations t = st_payment_endpoint_reservations s"
    and "set (st_outbound_private_messages s) \<subseteq> set (st_outbound_private_messages t)" and "reservations_backed E s"
  shows "reservations_backed E t"
  using assms reservation_backed_mono [OF _ assms(2)] by (auto simp: reservations_backed_def payment_endpoint_reservation_def)

lemma link_step_reservations:
  assumes "link_or_unblock_step s t"
  shows "st_payment_endpoint_reservations t = st_payment_endpoint_reservations s"
proof -
  have writes: "st_payment_endpoint_reservations (save_linked_peer peer u) = st_payment_endpoint_reservations u"
    "st_payment_endpoint_reservations (save_encrypted_link_state ls u) = st_payment_endpoint_reservations u" for peer ls u
    by (simp_all add: save_linked_peer_def save_encrypted_link_state_def)
  have link: "link_step s t \<Longrightarrow> ?thesis"
    by (induction rule: link_step.induct)
       (auto simp: save_linked_peer_state_inner_def mark_recovery_required_in_transaction_inner_def
          save_link_handshake_state_inner_def save_link_handshake_state_if_generation_inner_def
          save_linked_peer_link_state_if_generation_inner_def block_peer_with_claim_def clear_encrypted_link_state_def
          save_peer_and_link_def report_moved_generation_def Let_def rbind_Inr_iff writes case_prod_unfold
          split: option.split_asm if_split_asm option.split)
  show ?thesis
    using assms link
    by cases (auto simp: unblock_peer_with_claim_def clear_encrypted_link_state_def Let_def rbind_Inr_iff writes split: option.splits if_splits)
qed

interpretation backing: link_operation_invariant "reservations_backed E" for E
proof unfold_locales
  fix s t assume inv: "reservations_backed E s"
  show "reservations_backed E t" if "identity_step s t"
    using that inv
    by (auto elim!: identity_stepE simp: reservations_backed_def payment_endpoint_reservation_def identity_defs clear_defs Let_def
        split: option.splits IdentityTransition.splits if_splits)
  show "reservations_backed E t" if "link_or_unblock_step s t"
    using link_step_reservations [OF that] link_step_queue [OF that] by (intro backed_cong [OF _ _ inv]) simp_all
  show "reservations_backed E (save_linked_peer peer s)" for peer
    by (rule backed_cong [OF _ _ inv]) (simp_all add: save_linked_peer_def)
  show "reservations_backed E (fst (claim_peer_link_operation cp rp now until s))" for cp rp now until
    by (rule backed_cong [OF _ _ inv]) (simp_all add: claim_peer_link_operation_def Let_def)
  show "reservations_backed E (release_peer_link_operation cp rp i s)" for cp rp i
    by (rule backed_cong [OF _ _ inv]) (simp_all add: release_peer_link_operation_def split: option.split)
qed

lemma queueing_backed:
  assumes "json_prints_back E"
  shows "rt_keeps (reservations_backed E) (queue_reserved E V p cp rs lease)" "rt_keeps (reservations_backed E) (queue_details E V p cp ds lease)"
proof -
  have "reservations_backed E t" if "reservations_backed E s" "queue_reserved E V p cp rs lease s = (t, result)" for s t result
    using that queue_reservations_failed queue_reservations_backed [OF _ that(1) assms]
    by (cases result) (fastforce simp: queue_reserved_def queue_private_payment_list_with_reservations_with_link_lease_def)+
  then show "rt_keeps (reservations_backed E) (queue_reserved E V p cp rs lease)" unfolding rt_keeps_def by (metis prod.collapse)
  have "reservations_backed E (fst (insert_outbound_private_message m s))" if "reservations_backed E s" for m s
    by (rule backed_cong [OF _ _ that]) (auto simp: insert_outbound_private_message_def Let_def)
  then show "rt_keeps (reservations_backed E) (queue_details E V p cp ds lease)"
    unfolding rt_keeps_def
    by (auto simp: queue_details_def enqueue_private_payment_list_with_link_lease_def enqueue_private_message_with_link_lease_def
        transaction_def run_storage_state_transaction_def rbind_def split: sum.split prod.split) (metis fst_conv)+
qed

lemma backed_guards:
  "rt_keeps (reservations_backed E) (ensure_private_list_queue_allowed V cfg p cp rp)"
  unfolding ensure_private_list_queue_allowed_def
  by (intro rt_rules rt_keeps_guards(2) [of "reservations_backed E", OF backing.identity_kept])

lemma drivers_backed:
  assumes "json_prints_back E"
  shows "rt_keeps (reservations_backed E) (enqueue_private_payment_list E V A cfg p cp rp)"
    "rt_keeps (reservations_backed E) (enqueue_private_payment_list_with_receiving_details E V cfg p cp rp ds)"
    "rt_keeps (reservations_backed E) (enqueue_private_payment_list_with_reservations E V A cfg p cp rp rs)"
    "rt_keeps (reservations_backed E) (clear_private_payment_list E V cfg p cp rp)"
  unfolding enqueue_private_payment_list_def enqueue_private_payment_list_with_receiving_details_def Let_def
    enqueue_private_payment_list_with_reservations_def clear_private_payment_list_def
    enqueue_private_payment_list_from_receiving_details_with_claim_def
  by (intro rt_rules backing.keeps_claim backing.keeps_finish queueing_backed [OF assms] backed_guards)+

lemma list_runs_backed:
  assumes "json_prints_back E"
  shows "rt_keeps (reservations_backed E) (queue_contacts E V A cfg p peers report)"
    and "rt_keeps (reservations_backed E) (clear_contacts E V cfg p peers report)"
    and "rt_keeps (reservations_backed E) (queue_updates E V A cfg p keys us acc)"
    and "rt_keeps (reservations_backed E) (clear_unlisted_peers E V cfg p peers acc)"
proof -
  note keeps = drivers_backed [OF assms]
  show "rt_keeps (reservations_backed E) (queue_contacts E V A cfg p peers report)"
    by (induction peers arbitrary: report) (auto intro!: rt_rules keeps)
  show "rt_keeps (reservations_backed E) (clear_contacts E V cfg p peers report)"
    by (induction peers arbitrary: report) (auto intro!: rt_rules keeps)
  have refuse: "rt_keeps (reservations_backed E) (refuse_duplicate_update E A p u)" for p u
    unfolding refuse_duplicate_update_def Let_def by (intro rt_rules)
  show "rt_keeps (reservations_backed E) (queue_updates E V A cfg p keys us acc)"
  proof (induction us arbitrary: acc)
    case (Cons u us)
    obtain report queued where "acc = (report, queued)" by force
    then show ?case using Cons.IH by (auto intro!: rt_rules keeps refuse simp: Let_def)
  qed (auto intro: rt_rules)
  show "rt_keeps (reservations_backed E) (clear_unlisted_peers E V cfg p peers acc)"
  proof (induction peers arbitrary: acc)
    case (Cons k peers)
    obtain cp rp report queued where "k = (cp, rp)" "acc = (report, queued)" by (metis prod.collapse)
    then show ?case using Cons.IH by (auto intro!: rt_rules keeps)
  qed (auto intro: rt_rules)
qed


section \<open>An instance\<close>

text \<open>Two updates for the sample peer, whose handshake is under way: both are refused.\<close>

definition sample_update :: PrivatePaymentListReservationUpdate where
  "sample_update = \<lparr>lu_counterparty = sample_peer, lu_path = sample_path, lu_reservations = [sample_reservation]\<rparr>"

definition listing_adapter :: payment_adapter where
  "listing_adapter =
     \<lparr>pa_public_receiving_details = (\<lambda>_. Inr []), pa_private_receiving_details = (\<lambda>_ _ _. Inr []),
      pa_reserve = (\<lambda>_ _ _. Inr (Some [sample_reservation])), pa_cancel = (\<lambda>_ _. Inr ()), pa_select_public = (\<lambda>_ r. Inr (usr_candidates r)),
      pa_public_target = (\<lambda>_ c. Inr \<lparr>pt_payload = uc_payload c\<rparr>), pa_select_private = (\<lambda>_ r. Inr (vsr_candidates r)),
      pa_private_target = (\<lambda>_ c. Inr \<lparr>pt_payload = vc_payload c\<rparr>)\<rparr>"

theorem list_sync_reports_all_witness:
  "\<exists>t report. sync_private_payment_lists_with_reservations_and_process_outbound sample_reservation_ext sample_link_net listing_adapter
       (PaykitSdkConfig_new sample_path) [] [sample_update, sample_update] False sample_linking = Some (t, Inr report)
     \<and> outbound_inv t \<and> reports_keys report {#(sample_peer, sample_path), (sample_peer, sample_path)#}"
proof -
  have "queue_room (length [sample_update, sample_update] + length (unlisted_peers False (map lu_key [sample_update, sample_update]) sample_linking))
      sample_linking"
    by (simp add: queue_room_def outbound_inv_def unlisted_peers_def sample_linking_def save_encrypted_link_state_def save_linked_peer_def
        save_identity_state_def empty_storage_def)
  moreover have "require_initialized_identity ''sync reservation-backed Private Payment Lists'' sample_linking = Inr (PubkyPublicKey ''bob'')"
    by (simp add: require_initialized_identity_def load_identity_state_def sample_linking_def save_encrypted_link_state_def save_linked_peer_def
        save_identity_state_def)
  ultimately show ?thesis
    using list_sync_reports_all [of "[sample_update, sample_update]" False sample_linking "PubkyPublicKey ''bob''" sample_reservation_ext
        sample_link_net listing_adapter "PaykitSdkConfig_new sample_path" "[]"]
    by (simp add: unlisted_peers_def sample_update_def)
qed


end
