(* ===== verification/Public_Endpoints.thy ===== *)
theory Public_Endpoints
  imports Payment_Adapter Pubky_Routing
begin

text \<open>
  Publication of the local receiving details as public Payment Endpoints and of the local receiver marker
  (\<^verbatim>\<open>paykit-sdk/src/runtime/public_endpoints.rs\<close>, \<^verbatim>\<open>domain/endpoints/mod.rs\<close>). The operations run over the
  store and the homeserver together. Whatever calls fail, a record that says published or removed is
  true of the homeserver, and a sync without failures leaves exactly the wanted endpoints.
\<close>

section \<open>Records and reports\<close>

record EndpointSyncChange =
  ec_identifier :: string
  ec_status :: PublicationStatus
  ec_error :: "string option"

record EndpointSyncReport =
  ep_published :: "EndpointSyncChange list"
  ep_removed :: "EndpointSyncChange list"
  ep_failed :: "EndpointSyncChange list"

definition empty_endpoint_report :: EndpointSyncReport where
  "empty_endpoint_report = \<lparr>ep_published = [], ep_removed = [], ep_failed = []\<rparr>"

fun normalize_details ::
  "(PaymentEndpointIdentifier, PaymentEndpointPayload) hashmap \<Rightarrow> PublicReceivingDetail list \<Rightarrow>
   (PaymentEndpointIdentifier, PaymentEndpointPayload) hashmap sdk_res" where
  "normalize_details desired [] = Inr desired"
| "normalize_details desired (d # ds) =
     rbind (map_err sdk_error_of_lib (PaymentEndpointIdentifier_new (prd_identifier d))) (\<lambda>identifier.
     if hm_get desired identifier \<noteq> None
     then Inl (SdkProtocol (''duplicate Payment Endpoint identifier '' @ quoted (identifier_str identifier)) None)
     else normalize_details (hm_insert identifier (PaymentEndpointPayload (prd_payload d)) desired) ds)"

definition normalize_receiving_details ::
  "PublicReceivingDetail list \<Rightarrow> (PaymentEndpointIdentifier, PaymentEndpointPayload) hashmap sdk_res" where
  "normalize_receiving_details details = normalize_details [] details"

definition load_public_endpoint_records :: "PublicEndpointRecord list rt" where
  "load_public_endpoint_records = rt_read public_endpoint_records"

definition published_record :: "PaymentEndpointIdentifier \<Rightarrow> PaymentEndpointPayload \<Rightarrow> instant \<Rightarrow> PublicEndpointRecord" where
  "published_record identifier payload now =
     \<lparr>pe_identifier = identifier_str identifier, pe_payload = Some (payload_str payload), pe_status = Published,
      pe_updated_at = now, pe_last_error = None\<rparr>"

definition pending_publication_record ::
  "PaymentEndpointIdentifier \<Rightarrow> PaymentEndpointPayload \<Rightarrow> instant \<Rightarrow> PublicEndpointRecord" where
  "pending_publication_record identifier payload now =
     \<lparr>pe_identifier = identifier_str identifier, pe_payload = Some (payload_str payload), pe_status = PendingPublication,
      pe_updated_at = now, pe_last_error = None\<rparr>"

definition pending_removal_record :: "string \<Rightarrow> string option \<Rightarrow> instant \<Rightarrow> PublicEndpointRecord" where
  "pending_removal_record identifier payload now =
     \<lparr>pe_identifier = identifier, pe_payload = payload, pe_status = PendingRemoval, pe_updated_at = now, pe_last_error = None\<rparr>"

definition removed_record :: "string \<Rightarrow> instant \<Rightarrow> PublicEndpointRecord" where
  "removed_record identifier now =
     \<lparr>pe_identifier = identifier, pe_payload = None, pe_status = Removed, pe_updated_at = now, pe_last_error = None\<rparr>"

definition failed_record :: "string \<Rightarrow> string option \<Rightarrow> string \<Rightarrow> instant \<Rightarrow> PublicEndpointRecord" where
  "failed_record identifier payload error now =
     \<lparr>pe_identifier = identifier, pe_payload = payload, pe_status = PublicationFailed, pe_updated_at = now,
      pe_last_error = Some error\<rparr>"

section \<open>Reading public documents\<close>

text \<open>\<open>storage\<close> is what \<^verbatim>\<open>load_public_storage\<close> answers: whether there is public storage to read from.\<close>

definition require_public_storage :: "string \<Rightarrow> unit option sdk_res \<Rightarrow> unit sdk_res" where
  "require_public_storage purpose storage =
     rbind storage (\<lambda>available.
     if available = None then Inl (SdkIdentity (''no Pubky public storage available'' @ purpose) None) else Inr ())"

definition paykit_receiver_paths ::
  "ext \<Rightarrow> 'w homeserver \<Rightarrow> unit option sdk_res \<Rightarrow> nat list \<Rightarrow> PubkyPublicKey \<Rightarrow> 'w \<Rightarrow> PaykitReceiverPath list sdk_res option" where
  "paykit_receiver_paths E HV storage p owner w =
     (case rbind (require_public_storage [] storage) (\<lambda>_. to_public_key E owner) of
        Inl e \<Rightarrow> Some (Inl e)
      | Inr key \<Rightarrow> map_option (map_err sdk_error_of_lib) (list_paykit_receiver_paths E HV p key w))"

definition paykit_receiver_marker ::
  "ext \<Rightarrow> 'w homeserver \<Rightarrow> unit option sdk_res \<Rightarrow> nat list \<Rightarrow> PubkyPublicKey \<Rightarrow> PaykitReceiverPath \<Rightarrow> 'w \<Rightarrow>
   PaykitReceiverMarker option sdk_res" where
  "paykit_receiver_marker E HV storage p owner rp w =
     rbind (require_public_storage [] storage) (\<lambda>_.
     rbind (to_public_key E owner) (\<lambda>key.
     map_err sdk_error_of_lib (get_paykit_receiver_marker E HV p key rp w)))"

section \<open>The local receiver marker\<close>

text \<open>
  A session as the runtime holds it: what the identity layer sees of it, and the two keys in the form of
  the library (\<^verbatim>\<open>session.info().public_key()\<close> and the public key of the receiver noise secret).
\<close>

record open_session =
  os_access :: "PubkySessionAccess option sdk_res"
  os_public_key :: PublicKey
  os_noise_public_key :: PublicKey

definition sdk_publish_paykit_receiver_marker ::
  "ext \<Rightarrow> 'w homeserver \<Rightarrow> PaykitSdkConfig \<Rightarrow> bool option \<Rightarrow> open_session \<Rightarrow> instant \<Rightarrow> nat list \<Rightarrow> PaykitReceiverCapabilities \<Rightarrow>
   StorageState \<times> 'w \<Rightarrow> (StorageState \<times> 'w) \<times> PaykitReceiverMarker sdk_res" where
  "sdk_publish_paykit_receiver_marker E HV cfg in_progress session now p capabilities = (\<lambda>(s, w).
     case claim_identity_operation in_progress ''publish Paykit receiver marker'' of
       Inl e \<Rightarrow> ((s, w), Inl e)
     | Inr _ \<Rightarrow>
         (case private_link_session_access cfg (os_access session) now s of
            (t, Inl e) \<Rightarrow> ((t, w), Inl e)
          | (t, Inr _) \<Rightarrow>
              let marker = PaykitReceiverMarker_new (cf_receiver_path cfg) capabilities (os_noise_public_key session)
              in case publish_paykit_receiver_marker E HV p marker w of
                   (w', Inl err) \<Rightarrow> ((t, w'), Inl (sdk_error_of_lib err))
                 | (w', Inr _) \<Rightarrow> ((t, w'), Inr marker)))"

definition sdk_remove_paykit_receiver_marker ::
  "'w homeserver \<Rightarrow> PaykitSdkConfig \<Rightarrow> bool option \<Rightarrow> open_session \<Rightarrow> instant \<Rightarrow> nat list \<Rightarrow>
   StorageState \<times> 'w \<Rightarrow> (StorageState \<times> 'w) \<times> unit sdk_res" where
  "sdk_remove_paykit_receiver_marker HV cfg in_progress session now p = (\<lambda>(s, w).
     case claim_identity_operation in_progress ''remove Paykit receiver marker'' of
       Inl e \<Rightarrow> ((s, w), Inl e)
     | Inr _ \<Rightarrow>
         (case private_link_session_access cfg (os_access session) now s of
            (t, Inl e) \<Rightarrow> ((t, w), Inl e)
          | (t, Inr _) \<Rightarrow>
              (case remove_paykit_receiver_marker HV p (cf_receiver_path cfg) w of
                 (w', result) \<Rightarrow> ((t, w'), map_err sdk_error_of_lib result))))"

section \<open>Endpoint sync\<close>

fun publish_desired ::
  "'w homeserver \<Rightarrow> PaykitReceiverPath \<Rightarrow> nat list \<Rightarrow> instant \<Rightarrow> (PaymentEndpointIdentifier \<times> PaymentEndpointPayload) list \<Rightarrow>
   EndpointSyncReport \<Rightarrow> StorageState \<times> 'w \<Rightarrow> (StorageState \<times> 'w) \<times> EndpointSyncReport" where
  "publish_desired HV rp p now [] report sw = (sw, report)"
| "publish_desired HV rp p now ((identifier, payload) # ds) report (s, w) =
     (let s1 = save_public_endpoint_record (pending_publication_record identifier payload now) s in
      case set_payment_endpoint HV (length ds # p) rp identifier payload w of
        (w', Inr _) \<Rightarrow>
          publish_desired HV rp p now ds
            (report\<lparr>ep_published := ep_published report
               @ [\<lparr>ec_identifier = identifier_str identifier, ec_status = Published, ec_error = None\<rparr>]\<rparr>)
            (save_public_endpoint_record (published_record identifier payload now) s1, w')
      | (w', Inl err) \<Rightarrow>
          let error = paykit_error_display err in
          publish_desired HV rp p now ds
            (report\<lparr>ep_failed := ep_failed report
               @ [\<lparr>ec_identifier = identifier_str identifier, ec_status = PublicationFailed, ec_error = Some error\<rparr>]\<rparr>)
            (save_public_endpoint_record (failed_record (identifier_str identifier) (Some (payload_str payload)) error now) s1, w'))"

fun mark_already_removed ::
  "instant \<Rightarrow> PublicEndpointRecord list \<Rightarrow> EndpointSyncReport \<Rightarrow> StorageState \<Rightarrow> StorageState \<times> EndpointSyncReport" where
  "mark_already_removed now [] report s = (s, report)"
| "mark_already_removed now (r # rs) report s =
     mark_already_removed now rs
       (report\<lparr>ep_removed := ep_removed report
          @ [\<lparr>ec_identifier = pe_identifier r, ec_status = Removed, ec_error = None\<rparr>]\<rparr>)
       (save_public_endpoint_record (removed_record (pe_identifier r) now) s)"

abbreviation desired_names :: "(PaymentEndpointIdentifier, PaymentEndpointPayload) hashmap \<Rightarrow> string list" where
  "desired_names desired \<equiv> map (identifier_str \<circ> fst) desired"

definition managed_candidates ::
  "(PaymentEndpointIdentifier, PaymentEndpointPayload) hashmap \<Rightarrow> StorageState \<Rightarrow> (string \<times> string option) list" where
  "managed_candidates desired s =
     map (\<lambda>r. (pe_identifier r, pe_payload r))
       (filter (\<lambda>r. pe_status r \<noteq> Removed \<and> pe_identifier r \<notin> set (desired_names desired)) (public_endpoint_records s))"

text \<open>The records whose document is already gone, and the published endpoints nobody wants.\<close>

definition already_removed_records ::
  "(PaymentEndpointIdentifier, PaymentEndpointPayload) hashmap \<Rightarrow> (PaymentEndpointIdentifier, PaymentEndpointPayload) hashmap \<Rightarrow>
   StorageState \<Rightarrow> PublicEndpointRecord list" where
  "already_removed_records current desired s =
     sort_key pe_identifier
       (filter (\<lambda>r. pe_status r \<in> {PendingRemoval, PublicationFailed} \<and> pe_identifier r \<notin> set (desired_names current)
                  \<and> pe_identifier r \<notin> set (desired_names desired)) (public_endpoint_records s))"

definition unwanted_endpoints ::
  "(PaymentEndpointIdentifier, PaymentEndpointPayload) hashmap \<Rightarrow> (PaymentEndpointIdentifier, PaymentEndpointPayload) hashmap \<Rightarrow>
   (string \<times> string option) list" where
  "unwanted_endpoints current desired =
     map (\<lambda>(identifier, payload). (identifier_str identifier, Some (payload_str payload)))
       (filter (\<lambda>(identifier, _). hm_get desired identifier = None) current)"

definition removal_candidates ::
  "ext \<Rightarrow> 'w homeserver \<Rightarrow> PaykitSdkConfig \<Rightarrow> nat list \<Rightarrow> PublicKey \<Rightarrow> instant \<Rightarrow>
   (PaymentEndpointIdentifier, PaymentEndpointPayload) hashmap \<Rightarrow> EndpointSyncReport \<Rightarrow> StorageState \<times> 'w \<Rightarrow>
   (StorageState \<times> (EndpointSyncReport \<times> (string \<times> string option) list) sdk_res) option" where
  "removal_candidates E HV cfg p key now desired report = (\<lambda>(s, w).
     case cf_endpoint_management_scope cfg of
       ManagedOnly \<Rightarrow> Some (s, Inr (report, managed_candidates desired s))
     | FullPaykitNamespace \<Rightarrow>
         (case get_payment_list E HV p key (cf_receiver_path cfg) w of
            None \<Rightarrow> None
          | Some (Inl err) \<Rightarrow> Some (s, Inl (sdk_error_of_lib err))
          | Some (Inr current) \<Rightarrow>
              (case mark_already_removed now (already_removed_records current desired s) report s of
                 (t, report') \<Rightarrow> Some (t, Inr (report', unwanted_endpoints current desired)))))"

fun remove_stale ::
  "'w homeserver \<Rightarrow> PaykitReceiverPath \<Rightarrow> nat list \<Rightarrow> instant \<Rightarrow> (string \<times> string option) list \<Rightarrow> EndpointSyncReport \<Rightarrow>
   StorageState \<times> 'w \<Rightarrow> (StorageState \<times> 'w) \<times> EndpointSyncReport sdk_res" where
  "remove_stale HV rp p now [] report sw = (sw, Inr report)"
| "remove_stale HV rp p now ((identifier_text, previous_payload) # cs) report (s, w) =
     (case PaymentEndpointIdentifier_new identifier_text of
        Inl err \<Rightarrow> ((s, w), Inl (sdk_error_of_lib err))
      | Inr identifier \<Rightarrow>
          let s1 = save_public_endpoint_record (pending_removal_record identifier_text previous_payload now) s in
          case remove_payment_endpoint HV (length cs # p) rp identifier w of
            (w', Inr _) \<Rightarrow>
              remove_stale HV rp p now cs
                (report\<lparr>ep_removed := ep_removed report
                   @ [\<lparr>ec_identifier = identifier_text, ec_status = Removed, ec_error = None\<rparr>]\<rparr>)
                (save_public_endpoint_record (removed_record identifier_text now) s1, w')
          | (w', Inl err) \<Rightarrow>
              let error = paykit_error_display err in
              remove_stale HV rp p now cs
                (report\<lparr>ep_failed := ep_failed report
                   @ [\<lparr>ec_identifier = identifier_text, ec_status = PublicationFailed, ec_error = Some error\<rparr>]\<rparr>)
                (save_public_endpoint_record (failed_record identifier_text previous_payload error now) s1, w'))"

definition sync_desired_endpoints ::
  "ext \<Rightarrow> 'w homeserver \<Rightarrow> PaykitSdkConfig \<Rightarrow> nat list \<Rightarrow> PublicKey \<Rightarrow> instant \<Rightarrow>
   (PaymentEndpointIdentifier, PaymentEndpointPayload) hashmap \<Rightarrow> StorageState \<times> 'w \<Rightarrow>
   ((StorageState \<times> 'w) \<times> EndpointSyncReport sdk_res) option" where
  "sync_desired_endpoints E HV cfg p key now desired sw =
     (case publish_desired HV (cf_receiver_path cfg) (0 # p) now (sort_key (identifier_str \<circ> fst) desired) empty_endpoint_report sw of
        ((s, w), report) \<Rightarrow>
          (case removal_candidates E HV cfg (1 # p) key now desired report (s, w) of
             None \<Rightarrow> None
           | Some (t, Inl e) \<Rightarrow> Some ((t, w), Inl e)
           | Some (t, Inr (report, candidates)) \<Rightarrow>
               Some (remove_stale HV (cf_receiver_path cfg) (2 # p) now (sort_key fst candidates) report (t, w))))"

definition sync_public_endpoints_with_receiving_details ::
  "ext \<Rightarrow> 'w homeserver \<Rightarrow> PaykitSdkConfig \<Rightarrow> bool option \<Rightarrow> open_session \<Rightarrow> (nat \<Rightarrow> instant) \<Rightarrow> nat list \<Rightarrow> PublicReceivingDetail list \<Rightarrow>
   StorageState \<times> 'w \<Rightarrow> ((StorageState \<times> 'w) \<times> EndpointSyncReport sdk_res) option" where
  "sync_public_endpoints_with_receiving_details E HV cfg in_progress session clock p details = (\<lambda>(s, w).
     case claim_identity_operation in_progress ''sync public endpoints'' of
       Inl e \<Rightarrow> Some ((s, w), Inl e)
     | Inr _ \<Rightarrow>
         (case private_link_session_access cfg (os_access session) (clock 0) s of
            (t, Inl e) \<Rightarrow> Some ((t, w), Inl e)
          | (t, Inr _) \<Rightarrow>
              (case normalize_receiving_details details of
                 Inl e \<Rightarrow> Some ((t, w), Inl e)
               | Inr desired \<Rightarrow> sync_desired_endpoints E HV cfg p (os_public_key session) (clock 1) desired (t, w))))"

definition sync_public_endpoints ::
  "ext \<Rightarrow> 'w homeserver \<Rightarrow> payment_adapter \<Rightarrow> PaykitSdkConfig \<Rightarrow> bool option \<Rightarrow> open_session \<Rightarrow> (nat \<Rightarrow> instant) \<Rightarrow> nat list \<Rightarrow>
   StorageState \<times> 'w \<Rightarrow> ((StorageState \<times> 'w) \<times> EndpointSyncReport sdk_res) option" where
  "sync_public_endpoints E HV A cfg in_progress session clock p sw =
     (case pa_public_receiving_details A (0 # p) of
        Inl e \<Rightarrow> Some (sw, Inl e)
      | Inr details \<Rightarrow> sync_public_endpoints_with_receiving_details E HV cfg in_progress session clock (1 # p) details sw)"

section \<open>What the homeserver holds\<close>

text \<open>
  What a homeserver does with the documents of its owner, whose addresses start with \<open>key\<close>. \<open>docs\<close> are the
  documents. A call that succeeds has the effect it says and no call touches another document; one that
  fails may have had its effect or not. A read that answers tells the truth, but reads may fail.
\<close>

definition homeserver_documents :: "'w homeserver \<Rightarrow> string \<Rightarrow> ('w \<Rightarrow> string \<Rightarrow> string option) \<Rightarrow> bool" where
  "homeserver_documents HV key docs \<longleftrightarrow>
     (\<forall>p path body w w' result. hs_put HV p path body w = (w', result) \<longrightarrow>
        (result = None \<longrightarrow> docs w' (key @ path) = Some body) \<and> (\<forall>a. a \<noteq> key @ path \<longrightarrow> docs w' a = docs w a))
     \<and> (\<forall>p path w w' result. hs_delete HV p path w = (w', result) \<longrightarrow>
          ((\<forall>err. result \<noteq> Some (err, False)) \<longrightarrow> docs w' (key @ path) = None) \<and> (\<forall>a. a \<noteq> key @ path \<longrightarrow> docs w' a = docs w a))
     \<and> (\<forall>p a w body. hs_get HV p a w = Inr (Inr body) \<longrightarrow> docs w a = Some body)
     \<and> (\<forall>p a w err. hs_get HV p a w = Inl (err, True) \<longrightarrow> docs w a = None)"

text \<open>
  How it lists them: a directory \<open>dir\<close> is served in pages after a cursor, a page may fail, only an empty
  directory is said not to be there, and every document directly under the prefix is an entry.
\<close>

definition routing_cursor :: "ext \<Rightarrow> pubky_entry \<Rightarrow> string" where
  "routing_cursor E e = public_key_z32 E (pe_owner e) @ pe_path e"

definition routing_page :: "ext \<Rightarrow> pubky_entry list \<Rightarrow> string option \<Rightarrow> pubky_entry list" where
  "routing_page E dir cursor =
     take ROUTING_PAGE_LIMIT
       (case cursor of None \<Rightarrow> dir | Some c \<Rightarrow> tl (dropWhile (\<lambda>e. routing_cursor E e \<noteq> c) dir))"

definition lists_directory :: "ext \<Rightarrow> 'w homeserver \<Rightarrow> string \<Rightarrow> 'w \<Rightarrow> pubky_entry list \<Rightarrow> bool" where
  "lists_directory E HV addr w dir \<longleftrightarrow>
     distinct (map (routing_cursor E) dir)
     \<and> (\<forall>p err. hs_list_builder HV p addr w = Some (err, True) \<longrightarrow> dir = [])
     \<and> (\<forall>p cursor. case hs_list HV p addr cursor w of
           Inr page \<Rightarrow> page = routing_page E dir cursor
         | Inl (err, not_found) \<Rightarrow> not_found \<longrightarrow> dir = [])"

definition homeserver_lists :: "ext \<Rightarrow> 'w homeserver \<Rightarrow> string \<Rightarrow> ('w \<Rightarrow> string \<Rightarrow> string option) \<Rightarrow> bool" where
  "homeserver_lists E HV key docs \<longleftrightarrow>
     (\<forall>prefix w. \<exists>dir. lists_directory E HV (key @ prefix) w dir
        \<and> (\<forall>name body. docs w (key @ prefix @ name) = Some body \<and> name \<noteq> [] \<and> CHR ''/'' \<notin> set name \<longrightarrow>
             (\<exists>e \<in> set dir. pe_path e = prefix @ name \<and> hs_entry_addr HV e = key @ prefix @ name)))"

lemma routing_page_after:
  assumes "distinct (map (routing_cursor E) (front @ rest))" and "front \<noteq> []"
  shows "routing_page E (front @ rest) (Some (routing_cursor E (last front))) = take ROUTING_PAGE_LIMIT rest"
proof -
  obtain es e where split: "front = es @ [e]" using assms(2) by (metis append_butlast_last_id)
  then have "routing_cursor E e \<notin> routing_cursor E ` set es" using assms(1) by auto
  then have "dropWhile (\<lambda>x. routing_cursor E x \<noteq> routing_cursor E e) (es @ e # rest) = e # rest"
    by (subst dropWhile_append2) (force simp: image_iff)+
  then show ?thesis by (simp add: routing_page_def split)
qed

lemma list_resources_directory:
  assumes "lists_directory E HV addr w (front @ rest)"
    and "cursor = (if front = [] then None else Some (routing_cursor E (last front)))"
  shows "list_resources_loop E HV p addr label w k cursor front = Some (Inr (front @ rest))
     \<or> (\<exists>err. list_resources_loop E HV p addr label w k cursor front = Some (Inl err))"
  using assms
proof (induction "length rest" arbitrary: rest front cursor k rule: less_induct)
  case less
  note step = list_resources_loop.simps [of E HV p addr label w k cursor front]
  have page_eq: "routing_page E (front @ rest) cursor = take ROUTING_PAGE_LIMIT rest"
    using less.prems routing_page_after [of E front rest]
    by (cases "front = []") (simp_all add: lists_directory_def, simp add: routing_page_def)
  have answer: "case hs_list HV (k # p) addr cursor w of Inr page \<Rightarrow> page = take ROUTING_PAGE_LIMIT rest
      | Inl (err, not_found) \<Rightarrow> not_found \<longrightarrow> front @ rest = []"
    using less.prems(1) unfolding lists_directory_def page_eq [symmetric] by blast
  have missing: "hs_list_builder HV (k # p) addr w = Some (err, True) \<Longrightarrow> front @ rest = []" for err
    using less.prems(1) unfolding lists_directory_def by blast
  consider (ended) "\<exists>b. hs_list_builder HV (k # p) addr w = Some b" | (page_error) err where "hs_list_builder HV (k # p) addr w = None"
      "hs_list HV (k # p) addr cursor w = Inl err"
    | (page) "hs_list_builder HV (k # p) addr w = None" "hs_list HV (k # p) addr cursor w = Inr (take ROUTING_PAGE_LIMIT rest)"
    by (insert answer, cases "hs_list_builder HV (k # p) addr w"; cases "hs_list HV (k # p) addr cursor w") auto
  then show ?case
  proof cases
    case ended
    with missing show ?thesis by (subst (1 2) step) (auto split: prod.splits if_splits)
  next
    case page_error
    with answer show ?thesis by (subst (1 2) step) (auto split: prod.splits if_splits)
  next
    case page
    show ?thesis
    proof (cases "length rest < ROUTING_PAGE_LIMIT")
      case True
      then show ?thesis using page by (subst (1 2) step) auto
    next
      case False
      let ?next = "front @ take ROUTING_PAGE_LIMIT rest" and ?rest = "drop ROUTING_PAGE_LIMIT rest"
      have full: "length (take ROUTING_PAGE_LIMIT rest) = ROUTING_PAGE_LIMIT" "take ROUTING_PAGE_LIMIT rest \<noteq> []"
        using False by (auto simp: ROUTING_PAGE_LIMIT_def)
      let ?run = "list_resources_loop E HV p addr label w (Suc k) (Some (routing_cursor E (last (take ROUTING_PAGE_LIMIT rest)))) ?next"
      have "?run = Some (Inr (?next @ ?rest)) \<or> (\<exists>err. ?run = Some (Inl err))"
      proof (rule less.hyps)
        show "length ?rest < length rest" using False by (simp add: ROUTING_PAGE_LIMIT_def)
        show "lists_directory E HV addr w (?next @ ?rest)" using less.prems(1) by simp
        show "Some (routing_cursor E (last (take ROUTING_PAGE_LIMIT rest))) =
            (if ?next = [] then None else Some (routing_cursor E (last ?next)))" using full(2) by simp
      qed
      then show ?thesis using page full by (subst (1 2) step) (simp add: routing_cursor_def)
    qed
  qed
qed

lemma list_resources_lists:
  assumes "lists_directory E HV addr w dir"
  obtains "list_resources E HV p addr label w = Some (Inr dir)" | err where "list_resources E HV p addr label w = Some (Inl err)"
  using list_resources_directory [of E HV addr w "[]" dir None p label 0] assms by (auto simp: list_resources_def)

text \<open>An entry of the directory whose document is not empty is in the Payment List.\<close>

lemma homeserver_documentsD:
  assumes "homeserver_documents HV key docs"
  shows "hs_put HV p path body w = (w', None) \<Longrightarrow> docs w' (key @ path) = Some body"
    and "hs_put HV p path body w = (w', result) \<Longrightarrow> a \<noteq> key @ path \<Longrightarrow> docs w' a = docs w a"
    and "hs_delete HV p path w = (w', result) \<Longrightarrow> (\<forall>err. result \<noteq> Some (err, False)) \<Longrightarrow> docs w' (key @ path) = None"
    and "hs_delete HV p path w = (w', result) \<Longrightarrow> a \<noteq> key @ path \<Longrightarrow> docs w' a = docs w a"
    and "hs_get HV p a w = Inr (Inr body) \<Longrightarrow> docs w a = Some body"
    and "hs_get HV p a w = Inl (err, True) \<Longrightarrow> docs w a = None"
  using assms unfolding homeserver_documents_def by blast+

lemma fetched_document:
  assumes "fetch_text HV p a label w = Inr doc" and "homeserver_documents HV key docs"
  shows "docs w a = (case doc of None \<Rightarrow> if docs w a = Some [] then Some [] else None | Some body \<Rightarrow> Some body)"
  using assms(1) homeserver_documentsD(5,6) [OF assms(2)]
  by (cases doc) (auto simp: fetch_text_Some fetch_text_None split: if_splits)

lemma collect_listed_step:
  assumes "collect_listed HV p w endpoints (x # rs) = Inr endpoints'" and "homeserver_documents HV key docs"
  obtains mid where "collect_listed HV p w mid rs = Inr endpoints'"
    "\<And>i. hm_get endpoints i \<noteq> None \<Longrightarrow> hm_get mid i \<noteq> None"
    "\<And>i body. \<not> ends_with_char CHR ''/'' (pe_path x) \<Longrightarrow> last (split_on CHR ''/'' (pe_path x)) = identifier_str i \<Longrightarrow>
        docs w (hs_entry_addr HV x) = Some body \<Longrightarrow> body \<noteq> [] \<Longrightarrow> hm_get mid i \<noteq> None"
proof (cases "ends_with_char CHR ''/'' (pe_path x)")
  case True
  with assms(1) show ?thesis by (intro that [of endpoints]) simp_all
next
  case leaf: False
  let ?name = "last (split_on CHR ''/'' (pe_path x))"
  from leaf assms(1) obtain doc where fetched: "fetch_text HV (length rs # p) (hs_entry_addr HV x)
      (''fetch payment endpoint '' @ ?name) w = Inr doc"
    by (auto simp: Let_def result_iffs split: if_splits)
  note document = fetched_document [OF fetched assms(2)]
  show ?thesis
  proof (cases doc)
    case None
    then have "collect_listed HV p w endpoints rs = Inr endpoints'"
      using assms(1) leaf fetched by (simp add: Let_def split: if_splits)
    then show ?thesis using document None by (intro that [of endpoints]) (auto split: if_splits)
  next
    case (Some body)
    let ?mid = "hm_insert (PaymentEndpointIdentifier ?name) (PaymentEndpointPayload body) endpoints"
    have "collect_listed HV p w ?mid rs = Inr endpoints'"
      using assms(1) leaf fetched Some by (auto simp: Let_def result_iffs dest: listed_identifier_str split: if_splits)
    moreover have "identifier_str i = ?name \<Longrightarrow> i = PaymentEndpointIdentifier ?name" for i by (cases i) simp
    ultimately show ?thesis by (intro that [of ?mid]) (auto simp: table_simps)
  qed
qed

lemma collect_listed_complete:
  assumes "homeserver_documents HV key docs"
  shows "collect_listed HV p w endpoints rs = Inr endpoints' \<Longrightarrow> hm_get endpoints i \<noteq> None \<or>
     (\<exists>r \<in> set rs. \<not> ends_with_char CHR ''/'' (pe_path r) \<and> last (split_on CHR ''/'' (pe_path r)) = identifier_str i
        \<and> (\<exists>body. docs w (hs_entry_addr HV r) = Some body \<and> body \<noteq> [])) \<Longrightarrow> hm_get endpoints' i \<noteq> None"
proof (induction rs arbitrary: endpoints)
  case (Cons x rs)
  from collect_listed_step [OF Cons.prems(1) assms] obtain mid where mid: "collect_listed HV p w mid rs = Inr endpoints'"
    "\<And>i. hm_get endpoints i \<noteq> None \<Longrightarrow> hm_get mid i \<noteq> None"
    "\<And>i body. \<not> ends_with_char CHR ''/'' (pe_path x) \<Longrightarrow> last (split_on CHR ''/'' (pe_path x)) = identifier_str i \<Longrightarrow>
        docs w (hs_entry_addr HV x) = Some body \<Longrightarrow> body \<noteq> [] \<Longrightarrow> hm_get mid i \<noteq> None"
    by blast
  show ?case by (rule Cons.IH [OF mid(1)]) (use Cons.prems(2) mid(2,3) in auto)
qed simp

lemma split_on_last: "sep \<notin> set name \<Longrightarrow> \<exists>segs. segs \<noteq> [] \<and> split_on sep (front @ sep # name) = segs @ [name]"
proof (induction front)
  case Nil
  then show ?case by (intro exI [of _ "[[]]"]) (simp add: split_on_no_sep)
next
  case (Cons c front)
  then obtain segs where segs: "segs \<noteq> []" "split_on sep (front @ sep # name) = segs @ [name]" by blast
  show ?case
  proof (cases "c = sep")
    case True
    with segs show ?thesis by (intro exI [of _ "[] # segs"]) simp
  next
    case False
    with segs show ?thesis by (intro exI [of _ "(c # hd segs) # tl segs"]) (cases segs; simp)
  qed
qed

lemma last_split_on: "sep \<notin> set name \<Longrightarrow> last (split_on sep (front @ sep # name)) = name"
  using split_on_last [of sep name front] by auto

definition valid_identifier :: "PaymentEndpointIdentifier \<Rightarrow> bool" where
  "valid_identifier i \<longleftrightarrow> valid_utf8 (identifier_str i) \<and> PaymentEndpointIdentifier_new (identifier_str i) = Inr i"

lemma valid_identifier_name:
  assumes "valid_identifier i"
  shows "identifier_str i \<noteq> []" "CHR ''/'' \<notin> set (identifier_str i)"
  using assms by (auto simp: valid_identifier_def identifier_new_iff dest: identifier_no_slash)

lemma unlisted_endpoint_absent:
  assumes docs: "homeserver_documents HV (public_key_display E key) docs" and lists: "homeserver_lists E HV (public_key_display E key) docs"
    and current: "get_payment_list E HV p key rp w = Some (Inr current)"
    and i: "valid_identifier i" "hm_get current i = None"
    and document: "docs w (public_key_display E key @ payment_endpoint_path rp i) = Some body"
  shows "body = []"
proof (rule ccontr)
  assume body: "body \<noteq> []"
  let ?prefix = "payment_endpoint_path_prefix rp" and ?key = "public_key_display E key"
  obtain dir where dir: "lists_directory E HV (?key @ ?prefix) w dir"
      "\<forall>name body. docs w (?key @ ?prefix @ name) = Some body \<and> name \<noteq> [] \<and> CHR ''/'' \<notin> set name \<longrightarrow>
         (\<exists>e \<in> set dir. pe_path e = ?prefix @ name \<and> hs_entry_addr HV e = ?key @ ?prefix @ name)"
    using lists unfolding homeserver_lists_def by blast
  note name = valid_identifier_name [OF i(1)]
  obtain e where e: "e \<in> set dir" "pe_path e = ?prefix @ identifier_str i" "hs_entry_addr HV e = ?key @ ?prefix @ identifier_str i"
    using dir(2) document name by (auto simp: payment_endpoint_path_def)
  have "collect_listed HV (1 # p) w [] dir = Inr current"
    using current by (auto simp: get_payment_list_def fetch_payment_list_def fetch_payment_list_from_directory_def read_bind_ok result_iffs
        intro: list_resources_lists [OF dir(1), of "0 # p" "''list payment endpoints''"])
  moreover have "last (split_on CHR ''/'' (pe_path e)) = identifier_str i"
    using last_split_on [OF name(2), of "PAYKIT_PATH_PREFIX @ ''/'' @ receiver_path_str rp @ ''/endpoints''"] e(2)
    by (simp add: payment_endpoint_path_prefix_def)
  moreover have "\<not> ends_with_char CHR ''/'' (pe_path e)"
    using e(2) name by (simp add: ends_with_char_def) (metis last_in_set)
  ultimately have "hm_get current i \<noteq> None"
    using e document body
    by (intro collect_listed_complete [OF docs, of "1 # p" w "[]" dir] disjI2 bexI [of _ e]) (auto simp: payment_endpoint_path_def)
  with i(2) show False by simp
qed

lemma get_payment_list_returns:
  assumes "homeserver_lists E HV (public_key_display E key) docs"
  shows "get_payment_list E HV p key rp w \<noteq> None"
proof -
  obtain dir where "lists_directory E HV (public_key_display E key @ payment_endpoint_path_prefix rp) w dir"
    using assms unfolding homeserver_lists_def by blast
  then show ?thesis
    by (rule list_resources_lists [of E HV _ w dir "0 # p" "''list payment endpoints''"])
      (auto simp: get_payment_list_def fetch_payment_list_def fetch_payment_list_from_directory_def read_bind_def)
qed

section \<open>Records tell the truth\<close>

abbreviation endpoint_address :: "ext \<Rightarrow> PublicKey \<Rightarrow> PaykitReceiverPath \<Rightarrow> PaymentEndpointIdentifier \<Rightarrow> string" where
  "endpoint_address E key rp i \<equiv> public_key_display E key @ payment_endpoint_path rp i"

lemma payment_endpoint_path_eq [simp]: "payment_endpoint_path rp i = payment_endpoint_path rp j \<longleftrightarrow> i = j"
  by (cases i; cases j) (simp add: payment_endpoint_path_def)

definition record_served :: "string option \<Rightarrow> PublicEndpointRecord \<Rightarrow> bool" where
  "record_served document r \<longleftrightarrow>
     (pe_status r = Published \<longrightarrow> document \<noteq> None \<and> pe_payload r = document)
     \<and> (pe_status r = Removed \<longrightarrow> document \<in> {None, Some []})"

definition endpoints_served ::
  "ext \<Rightarrow> ('w \<Rightarrow> string \<Rightarrow> string option) \<Rightarrow> PublicKey \<Rightarrow> PaykitReceiverPath \<Rightarrow> StorageState \<times> 'w \<Rightarrow> bool" where
  "endpoints_served E docs key rp sw \<longleftrightarrow>
     (\<forall>i r. valid_identifier i \<and> public_endpoint_record (fst sw) (identifier_str i) = Some r \<longrightarrow>
        record_served (docs (snd sw) (endpoint_address E key rp i)) r)"

lemma save_served:
  assumes "endpoints_served E docs key rp (s, w)" and "\<And>a. a \<noteq> endpoint_address E key rp i \<Longrightarrow> docs w' a = docs w a"
    and "pe_identifier r = identifier_str i" and "pe_identifier r0 = identifier_str i"
    and "record_served (docs w' (endpoint_address E key rp i)) r"
  shows "endpoints_served E docs key rp (save_public_endpoint_record r (save_public_endpoint_record r0 s), w')"
  unfolding endpoints_served_def
proof (intro allI impI, elim conjE)
  fix j q assume j: "valid_identifier j"
    "public_endpoint_record (fst (save_public_endpoint_record r (save_public_endpoint_record r0 s), w')) (identifier_str j) = Some q"
  show "record_served (docs (snd (save_public_endpoint_record r (save_public_endpoint_record r0 s), w')) (endpoint_address E key rp j)) q"
  proof (cases "identifier_str j = identifier_str i")
    case True
    with j(2) assms(3,4,5) show ?thesis
      by (cases i; cases j) (simp add: public_endpoint_record_def save_public_endpoint_record_def table_simps)
  next
    case False
    then have "endpoint_address E key rp j \<noteq> endpoint_address E key rp i" by (simp add: payment_endpoint_path_def)
    moreover have "public_endpoint_record s (identifier_str j) = Some q"
      using j(2) False assms(3,4) by (simp add: public_endpoint_record_def save_public_endpoint_record_def table_simps)
    ultimately show ?thesis using assms(1,2) j(1) by (auto simp: endpoints_served_def)
  qed
qed

lemma set_endpoint_cases:
  assumes "homeserver_documents HV (public_key_display E key) docs" and "set_payment_endpoint HV p rp i pl w = (w', result)"
  shows "\<And>a. a \<noteq> endpoint_address E key rp i \<Longrightarrow> docs w' a = docs w a"
    and "result = Inr u \<Longrightarrow> docs w' (endpoint_address E key rp i) = Some (payload_str pl)"
proof -
  obtain answer where put: "hs_put HV p (payment_endpoint_path rp i) (payload_str pl) w = (w', answer)" "result = Inr u \<longrightarrow> answer = None"
    using assms(2) by (auto simp: set_payment_endpoint_def upsert_payment_endpoint_def split: prod.splits option.splits)
  then show "\<And>a. a \<noteq> endpoint_address E key rp i \<Longrightarrow> docs w' a = docs w a"
    "result = Inr u \<Longrightarrow> docs w' (endpoint_address E key rp i) = Some (payload_str pl)"
    using homeserver_documentsD(1,2) [OF assms(1)] by auto
qed

lemma remove_endpoint_cases:
  assumes "homeserver_documents HV (public_key_display E key) docs" and "remove_payment_endpoint HV p rp i w = (w', result)"
  shows "\<And>a. a \<noteq> endpoint_address E key rp i \<Longrightarrow> docs w' a = docs w a"
    and "result = Inr u \<Longrightarrow> docs w' (endpoint_address E key rp i) = None"
proof -
  obtain answer where delete: "hs_delete HV p (payment_endpoint_path rp i) w = (w', answer)"
      "result = Inr u \<longrightarrow> (\<forall>err. answer \<noteq> Some (err, False))"
    using assms(2) by (auto simp: remove_payment_endpoint_def delete_payment_endpoint_def split: prod.splits option.splits if_splits)
  then show "\<And>a. a \<noteq> endpoint_address E key rp i \<Longrightarrow> docs w' a = docs w a"
    "result = Inr u \<Longrightarrow> docs w' (endpoint_address E key rp i) = None"
    using homeserver_documentsD(3,4) [OF assms(1)] by auto
qed

lemma publish_desired_run:
  assumes "homeserver_documents HV (public_key_display E key) docs"
  shows "publish_desired HV rp p now ds report (s, w) = ((t, w'), report') \<Longrightarrow> distinct (map fst ds) \<Longrightarrow>
     endpoints_served E docs key rp (s, w) \<Longrightarrow>
     endpoints_served E docs key rp (t, w')
     \<and> (\<forall>a. a \<notin> endpoint_address E key rp ` fst ` set ds \<longrightarrow> docs w' a = docs w a)
     \<and> (ep_failed report' = [] \<longrightarrow> ep_failed report = []
          \<and> (\<forall>(i, pl) \<in> set ds. docs w' (endpoint_address E key rp i) = Some (payload_str pl)))"
proof (induction ds arbitrary: report s w)
  case (Cons d ds)
  obtain i pl where d: "d = (i, pl)" by fastforce
  obtain w1 result where set_i: "set_payment_endpoint HV (length ds # p) rp i pl w = (w1, result)" by fastforce
  note effect = set_endpoint_cases [OF assms set_i]
  let ?s1 = "save_public_endpoint_record (pending_publication_record i pl now) s"
  obtain r report1 where next_step: "publish_desired HV rp p now ds report1 (save_public_endpoint_record r ?s1, w1) = ((t, w'), report')"
      and r: "pe_identifier r = identifier_str i" "record_served (docs w1 (endpoint_address E key rp i)) r"
      and failed: "ep_failed report1 = [] \<longrightarrow> ep_failed report = [] \<and> docs w1 (endpoint_address E key rp i) = Some (payload_str pl)"
  proof (cases result)
    case (Inl err)
    with Cons.prems(1) d set_i show ?thesis
      by (intro that [of _ "failed_record (identifier_str i) (Some (payload_str pl)) (paykit_error_display err) now"])
        (auto simp: Let_def failed_record_def record_served_def)
  next
    case (Inr u)
    with Cons.prems(1) d set_i effect(2) show ?thesis
      by (intro that [of _ "published_record i pl now"]) (auto simp: Let_def published_record_def record_served_def)
  qed
  have "endpoints_served E docs key rp (save_public_endpoint_record r ?s1, w1)"
    by (rule save_served [OF Cons.prems(3) effect(1) r(1) _ r(2)]) (simp_all add: pending_publication_record_def)
  from Cons.IH [OF next_step _ this] Cons.prems(2) d
  have rest: "endpoints_served E docs key rp (t, w')"
      "\<forall>a. a \<notin> endpoint_address E key rp ` fst ` set ds \<longrightarrow> docs w' a = docs w1 a"
      "ep_failed report' = [] \<longrightarrow> ep_failed report1 = []
         \<and> (\<forall>(i, pl) \<in> set ds. docs w' (endpoint_address E key rp i) = Some (payload_str pl))"
    by auto
  have "endpoint_address E key rp i \<notin> endpoint_address E key rp ` fst ` set ds"
    using Cons.prems(2) d by force
  with rest effect(1) failed d show ?case by auto
qed simp

lemma remove_stale_run:
  assumes "homeserver_documents HV (public_key_display E key) docs"
  shows "remove_stale HV rp p now cs report (s, w) = ((t, w'), result) \<Longrightarrow> endpoints_served E docs key rp (s, w) \<Longrightarrow>
     endpoints_served E docs key rp (t, w')
     \<and> (\<forall>a. a \<notin> (\<lambda>c. endpoint_address E key rp (PaymentEndpointIdentifier (fst c))) ` set cs \<longrightarrow> docs w' a = docs w a)
     \<and> (\<forall>n. public_endpoint_record t n \<noteq> None \<longrightarrow> public_endpoint_record s n \<noteq> None \<or> n \<in> fst ` set cs)
     \<and> (\<forall>report'. result = Inr report' \<and> ep_failed report' = [] \<longrightarrow> ep_failed report = []
          \<and> (\<forall>c \<in> set cs. docs w' (endpoint_address E key rp (PaymentEndpointIdentifier (fst c))) = None))"
proof (induction cs arbitrary: report s w)
  case (Cons c cs)
  obtain n previous where c: "c = (n, previous)" by fastforce
  show ?case
  proof (cases "PaymentEndpointIdentifier_new n")
    case (Inl err)
    with Cons.prems c show ?thesis by auto
  next
    case (Inr i)
    then have i: "i = PaymentEndpointIdentifier n" by (rule listed_identifier_str)
    obtain w1 answer where remove_i: "remove_payment_endpoint HV (length cs # p) rp i w = (w1, answer)" by fastforce
    note effect = remove_endpoint_cases [OF assms remove_i]
    let ?s1 = "save_public_endpoint_record (pending_removal_record n previous now) s"
    obtain r report1 where next_step: "remove_stale HV rp p now cs report1 (save_public_endpoint_record r ?s1, w1) = ((t, w'), result)"
        and r: "pe_identifier r = n" "record_served (docs w1 (endpoint_address E key rp i)) r"
        and failed: "ep_failed report1 = [] \<longrightarrow> ep_failed report = [] \<and> docs w1 (endpoint_address E key rp i) = None"
    proof (cases answer)
      case (Inl err)
      with Cons.prems(1) c Inr remove_i show ?thesis
        by (intro that [of _ "failed_record n previous (paykit_error_display err) now"])
          (auto simp: Let_def failed_record_def record_served_def)
    next
      case gone: (Inr u)
      with Cons.prems(1) c Inr remove_i effect(2) show ?thesis
        by (intro that [of _ "removed_record n now"]) (auto simp: Let_def removed_record_def record_served_def)
    qed
    have "endpoints_served E docs key rp (save_public_endpoint_record r ?s1, w1)"
      using r i by (intro save_served [OF Cons.prems(2) effect(1) _ _ r(2)]) (simp_all add: pending_removal_record_def)
    from Cons.IH [OF next_step this]
    have rest: "endpoints_served E docs key rp (t, w')"
        "\<forall>a. a \<notin> (\<lambda>c. endpoint_address E key rp (PaymentEndpointIdentifier (fst c))) ` set cs \<longrightarrow> docs w' a = docs w1 a"
        "\<forall>m. public_endpoint_record t m \<noteq> None \<longrightarrow> public_endpoint_record (save_public_endpoint_record r ?s1) m \<noteq> None \<or> m \<in> fst ` set cs"
        "\<forall>report'. result = Inr report' \<and> ep_failed report' = [] \<longrightarrow> ep_failed report1 = []
          \<and> (\<forall>c \<in> set cs. docs w' (endpoint_address E key rp (PaymentEndpointIdentifier (fst c))) = None)"
      by auto
    have saved: "public_endpoint_record (save_public_endpoint_record r ?s1) m \<noteq> None \<Longrightarrow> public_endpoint_record s m \<noteq> None \<or> m = n" for m
      using r(1) by (auto simp: public_endpoint_record_def save_public_endpoint_record_def pending_removal_record_def table_simps)
    have here: "ep_failed report1 = [] \<and> (\<forall>c \<in> set cs. docs w' (endpoint_address E key rp (PaymentEndpointIdentifier (fst c))) = None)
        \<Longrightarrow> docs w' (endpoint_address E key rp i) = None"
      using rest(2) failed i by (cases "endpoint_address E key rp i \<in> (\<lambda>c. endpoint_address E key rp (PaymentEndpointIdentifier (fst c))) ` set cs")
        (auto simp del: append.simps)
    have frame: "docs w' a = docs w a"
      if "a \<notin> (\<lambda>c. endpoint_address E key rp (PaymentEndpointIdentifier (fst c))) ` set (c # cs)" for a
      using that rest(2) effect(1) [of a] i c by simp
    have names: "public_endpoint_record s m \<noteq> None \<or> m \<in> fst ` set (c # cs)" if "public_endpoint_record t m \<noteq> None" for m
      using that rest(3) saved [of m] c by auto
    show ?thesis
    proof (intro conjI allI impI rest(1) frame names; (elim conjE)?)
      fix report' assume ok: "result = Inr report'" "ep_failed report' = []"
      with rest(4) failed show "ep_failed report = []" by blast
      show "\<forall>c \<in> set (c # cs). docs w' (endpoint_address E key rp (PaymentEndpointIdentifier (fst c))) = None"
        using ok rest(4) here c i by simp
    qed
  qed
qed auto

lemma mark_already_removed_run:
  "mark_already_removed now rs report s = (t, report') \<Longrightarrow> endpoints_served E docs key rp (s, w) \<Longrightarrow>
   (\<And>r i. r \<in> set rs \<Longrightarrow> pe_identifier r = identifier_str i \<Longrightarrow> valid_identifier i \<Longrightarrow>
      docs w (endpoint_address E key rp i) \<in> {None, Some []}) \<Longrightarrow>
   endpoints_served E docs key rp (t, w) \<and> ep_failed report' = ep_failed report"
proof (induction rs arbitrary: report s)
  case (Cons r rs)
  let ?s = "save_public_endpoint_record (removed_record (pe_identifier r) now) s"
  have served: "endpoints_served E docs key rp (?s, w)"
    unfolding endpoints_served_def
  proof (intro allI impI, elim conjE)
    fix i q assume i: "valid_identifier i" "public_endpoint_record (fst (?s, w)) (identifier_str i) = Some q"
    show "record_served (docs (snd (?s, w)) (endpoint_address E key rp i)) q"
    proof (cases "identifier_str i = pe_identifier r")
      case True
      with i Cons.prems(3) [of r i] show ?thesis
        by (auto simp: public_endpoint_record_def save_public_endpoint_record_def removed_record_def record_served_def table_simps)
    next
      case False
      with i Cons.prems(2) show ?thesis
        by (auto simp: public_endpoint_record_def save_public_endpoint_record_def removed_record_def endpoints_served_def table_simps)
    qed
  qed
  let ?report = "report\<lparr>ep_removed := ep_removed report
      @ [\<lparr>ec_identifier = pe_identifier r, ec_status = Removed, ec_error = None\<rparr>]\<rparr>"
  have "mark_already_removed now rs ?report ?s = (t, report')" using Cons.prems(1) by simp
  then have "endpoints_served E docs key rp (t, w) \<and> ep_failed report' = ep_failed ?report"
    by (rule Cons.IH [OF _ served]) (use Cons.prems(3) in auto)
  then show ?case by simp
qed simp

section \<open>A sync as a whole\<close>

text \<open>What is left of the wanted endpoints and of the others when nothing failed.\<close>

definition endpoints_exact ::
  "ext \<Rightarrow> ('w \<Rightarrow> string \<Rightarrow> string option) \<Rightarrow> PublicKey \<Rightarrow> PaykitSdkConfig \<Rightarrow>
   (PaymentEndpointIdentifier, PaymentEndpointPayload) hashmap \<Rightarrow> StorageState \<times> 'w \<Rightarrow> bool" where
  "endpoints_exact E docs key cfg desired sw \<longleftrightarrow>
     (\<forall>i pl. hm_get desired i = Some pl \<longrightarrow> docs (snd sw) (endpoint_address E key (cf_receiver_path cfg) i) = Some (payload_str pl))
     \<and> (\<forall>i. valid_identifier i \<and> hm_get desired i = None
          \<and> (cf_endpoint_management_scope cfg = FullPaykitNamespace \<or> public_endpoint_record (fst sw) (identifier_str i) \<noteq> None)
          \<longrightarrow> docs (snd sw) (endpoint_address E key (cf_receiver_path cfg) i) \<in> {None, Some []})"

lemma hm_get_name: "hm_get desired i \<noteq> None \<longleftrightarrow> identifier_str i \<in> set (desired_names desired)"
  by (induction desired) (auto intro: PaymentEndpointIdentifier.expand)

lemma distinct_map_sort_key: "distinct (map f (sort_key k xs)) \<longleftrightarrow> distinct (map f xs)"
  by (rule mset_eq_imp_distinct_iff) simp

lemma removal_candidates_run:
  assumes docs: "homeserver_documents HV (public_key_display E key) docs" and lists: "homeserver_lists E HV (public_key_display E key) docs"
    and served: "endpoints_served E docs key (cf_receiver_path cfg) (s, w)" and inv: "hm_wf pe_identifier (st_public_endpoint_records s)"
  obtains t err where "removal_candidates E HV cfg p key now desired report (s, w) = Some (t, Inl err)"
      "endpoints_served E docs key (cf_receiver_path cfg) (t, w)"
  | t report' candidates where "removal_candidates E HV cfg p key now desired report (s, w) = Some (t, Inr (report', candidates))"
      "endpoints_served E docs key (cf_receiver_path cfg) (t, w)" "ep_failed report' = ep_failed report"
      "fst ` set candidates \<inter> set (desired_names desired) = {}"
      "\<And>i. valid_identifier i \<Longrightarrow> hm_get desired i = None \<Longrightarrow> identifier_str i \<notin> fst ` set candidates \<Longrightarrow>
         cf_endpoint_management_scope cfg = FullPaykitNamespace \<or> public_endpoint_record t (identifier_str i) \<noteq> None \<Longrightarrow>
         docs w (endpoint_address E key (cf_receiver_path cfg) i) \<in> {None, Some []}"
proof (cases "cf_endpoint_management_scope cfg")
  case ManagedOnly
  have "docs w (endpoint_address E key (cf_receiver_path cfg) i) \<in> {None, Some []}"
    if i: "valid_identifier i" "hm_get desired i = None" "identifier_str i \<notin> fst ` set (managed_candidates desired s)"
      "public_endpoint_record s (identifier_str i) = Some r" for i r
  proof -
    have "r \<in> set (public_endpoint_records s)" "pe_identifier r = identifier_str i"
      using i(4) inv by (force simp: public_endpoint_records_def public_endpoint_record_def hm_wf_def hm_values_def dest!: map_of_SomeD)+
    then have "pe_status r = Removed"
      using i(2,3) hm_get_name [of desired i] by (auto simp: managed_candidates_def image_iff) metis
    with served i(1,4) show ?thesis by (auto simp: endpoints_served_def record_served_def)
  qed
  then have absent: "docs w (endpoint_address E key (cf_receiver_path cfg) i) \<in> {None, Some []}"
    if "valid_identifier i" "hm_get desired i = None" "identifier_str i \<notin> fst ` set (managed_candidates desired s)"
      "cf_endpoint_management_scope cfg = FullPaykitNamespace \<or> public_endpoint_record s (identifier_str i) \<noteq> None" for i
    using that ManagedOnly by (metis EndpointManagementScope.distinct(1) not_None_eq)
  have "\<forall>c \<in> set (managed_candidates desired s). fst c \<notin> set (desired_names desired)"
    by (simp add: managed_candidates_def)
  then have "fst ` set (managed_candidates desired s) \<inter> set (desired_names desired) = {}" by blast
  then show ?thesis
    by (rule that(2) [OF _ served refl _ absent, rotated]) (simp_all add: removal_candidates_def ManagedOnly)
next
  case FullPaykitNamespace
  obtain answer where answer: "get_payment_list E HV p key (cf_receiver_path cfg) w = Some answer"
    using get_payment_list_returns [OF lists] by blast
  show ?thesis
  proof (cases answer)
    case (Inl err)
    with that(1) served FullPaykitNamespace answer show ?thesis by (simp add: removal_candidates_def)
  next
    case (Inr current)
    note absent = unlisted_endpoint_absent [OF docs lists answer [unfolded Inr]]
    obtain t report' where marked: "mark_already_removed now (already_removed_records current desired s) report s = (t, report')" by fastforce
    have "endpoints_served E docs key (cf_receiver_path cfg) (t, w) \<and> ep_failed report' = ep_failed report"
      by (rule mark_already_removed_run [OF marked served])
        (use absent hm_get_name [of current] in \<open>fastforce simp: already_removed_records_def\<close>)
    moreover have "hm_get current i = None" if "hm_get desired i = None" "identifier_str i \<notin> fst ` set (unwanted_endpoints current desired)" for i
      using that by (cases "hm_get current i") (force simp: unwanted_endpoints_def dest!: map_of_SomeD)+
    moreover have "fst c \<notin> set (desired_names desired)" if "c \<in> set (unwanted_endpoints current desired)" for c
    proof -
      from that obtain i where "fst c = identifier_str i" "hm_get desired i = None" by (auto simp: unwanted_endpoints_def)
      with hm_get_name [of desired i] show ?thesis by simp
    qed
    then have "fst ` set (unwanted_endpoints current desired) \<inter> set (desired_names desired) = {}" by blast
    ultimately show ?thesis
      using that(2) [of t report' "unwanted_endpoints current desired"] absent marked FullPaykitNamespace answer Inr
      by (fastforce simp: removal_candidates_def)
  qed
qed

lemma publish_desired_wf:
  "publish_desired HV rp p now ds report (s, w) = ((t, w'), report') \<Longrightarrow> hm_wf pe_identifier (st_public_endpoint_records s) \<Longrightarrow>
   hm_wf pe_identifier (st_public_endpoint_records t)"
proof (induction ds arbitrary: report s w)
  case (Cons d ds)
  obtain i pl where d: "d = (i, pl)" by fastforce
  have save: "hm_wf pe_identifier (st_public_endpoint_records (save_public_endpoint_record r (save_public_endpoint_record r0 s)))" for r r0
    using Cons.prems(2) by (simp add: save_public_endpoint_record_def hm_wf_insert)
  obtain r r0 report1 w1 where "publish_desired HV rp p now ds report1 (save_public_endpoint_record r (save_public_endpoint_record r0 s), w1)
      = ((t, w'), report')"
    using Cons.prems(1) d by (auto simp: Let_def split: prod.splits sum.splits)
  from Cons.IH [OF this save] show ?case .
qed simp

lemma sync_desired_run:
  assumes docs: "homeserver_documents HV (public_key_display E key) docs" and lists: "homeserver_lists E HV (public_key_display E key) docs"
    and served: "endpoints_served E docs key (cf_receiver_path cfg) (s, w)" and inv: "hm_wf pe_identifier (st_public_endpoint_records s)"
    and desired: "distinct (map fst desired)"
  shows "\<exists>t w' result. sync_desired_endpoints E HV cfg p key now desired (s, w) = Some ((t, w'), result)
     \<and> endpoints_served E docs key (cf_receiver_path cfg) (t, w')
     \<and> (\<forall>report. result = Inr report \<and> ep_failed report = [] \<longrightarrow> endpoints_exact E docs key cfg desired (t, w'))"
proof -
  let ?rp = "cf_receiver_path cfg"
  obtain s1 w1 report1 where publish: "publish_desired HV ?rp (0 # p) now (sort_key (identifier_str \<circ> fst) desired) empty_endpoint_report (s, w)
      = ((s1, w1), report1)"
    by (metis prod.collapse)
  have published: "endpoints_served E docs key ?rp (s1, w1)"
    "ep_failed report1 = [] \<Longrightarrow> hm_get desired i = Some pl \<Longrightarrow> docs w1 (endpoint_address E key ?rp i) = Some (payload_str pl)" for i pl
    using publish_desired_run [OF docs publish _ served] desired by (auto simp: distinct_map_sort_key dest!: map_of_SomeD)
  note wf = publish_desired_wf [OF publish inv]
  show ?thesis
  proof (rule removal_candidates_run [OF docs lists published(1) wf, where p = "1 # p" and now = now and desired = desired and report = report1])
    fix t err assume "removal_candidates E HV cfg (1 # p) key now desired report1 (s1, w1) = Some (t, Inl err)"
      and "endpoints_served E docs key ?rp (t, w1)"
    with publish show ?thesis by (simp add: sync_desired_endpoints_def)
  next
    fix t report2 candidates
    assume found: "removal_candidates E HV cfg (1 # p) key now desired report1 (s1, w1) = Some (t, Inr (report2, candidates))"
      and kept: "endpoints_served E docs key ?rp (t, w1)" "ep_failed report2 = ep_failed report1"
      and apart: "fst ` set candidates \<inter> set (desired_names desired) = {}"
      and others: "\<And>i. valid_identifier i \<Longrightarrow> hm_get desired i = None \<Longrightarrow> identifier_str i \<notin> fst ` set candidates \<Longrightarrow>
         cf_endpoint_management_scope cfg = FullPaykitNamespace \<or> public_endpoint_record t (identifier_str i) \<noteq> None \<Longrightarrow>
         docs w1 (endpoint_address E key ?rp i) \<in> {None, Some []}"
    obtain u w' result where run: "remove_stale HV ?rp (2 # p) now (sort_key fst candidates) report2 (t, w1) = ((u, w'), result)"
      by (metis prod.collapse)
    let ?address = "\<lambda>c. endpoint_address E key ?rp (PaymentEndpointIdentifier (fst c))"
    note removed = remove_stale_run [OF docs run kept(1), unfolded set_sort]
    from removed have left: "endpoints_served E docs key ?rp (u, w')" by blast
    from removed have frame: "a \<notin> ?address ` set candidates \<Longrightarrow> docs w' a = docs w1 a" for a by blast
    from removed have names: "public_endpoint_record u n \<noteq> None \<Longrightarrow> public_endpoint_record t n \<noteq> None \<or> n \<in> fst ` set candidates" for n
      by blast
    from removed have finished: "result = Inr report \<Longrightarrow> ep_failed report = [] \<Longrightarrow> ep_failed report2 = [] \<and> (\<forall>c \<in> set candidates. docs w' (?address c) = None)" for report
      by blast
    have "sync_desired_endpoints E HV cfg p key now desired (s, w) = Some ((u, w'), result)"
      using publish found run by (simp add: sync_desired_endpoints_def)
    moreover have "endpoints_exact E docs key cfg desired (u, w')" if ok: "result = Inr report" "ep_failed report = []" for report
    proof -
      note finished = finished [OF ok]
      have gone: "docs w' (endpoint_address E key ?rp i) = None" if "identifier_str i \<in> fst ` set candidates" for i
      proof -
        from that obtain c where "c \<in> set candidates" "PaymentEndpointIdentifier (fst c) = i" by (cases i) auto
        with finished show ?thesis by metis
      qed
      have same: "docs w' (endpoint_address E key ?rp i) = docs w1 (endpoint_address E key ?rp i)"
        if "identifier_str i \<notin> fst ` set candidates" for i
        using that by (intro frame) force
      have "docs w' (endpoint_address E key ?rp i) = Some (payload_str pl)" if wanted: "hm_get desired i = Some pl" for i pl
      proof -
        have "identifier_str i \<notin> fst ` set candidates" using wanted hm_get_name [of desired i] apart by auto
        with published(2) [OF _ wanted] same finished kept(2) show ?thesis by simp
      qed
      moreover have "docs w' (endpoint_address E key ?rp i) \<in> {None, Some []}"
        if i: "valid_identifier i" "hm_get desired i = None"
          "cf_endpoint_management_scope cfg = FullPaykitNamespace \<or> public_endpoint_record u (identifier_str i) \<noteq> None" for i
      proof (cases "identifier_str i \<in> fst ` set candidates")
        case False
        with i(3) names have "cf_endpoint_management_scope cfg = FullPaykitNamespace \<or> public_endpoint_record t (identifier_str i) \<noteq> None" by blast
        from others [OF i(1,2) False this] same [OF False] show ?thesis by simp
      qed (simp add: gone)
      ultimately show ?thesis by (simp add: endpoints_exact_def)
    qed
    ultimately show ?thesis using left by blast
  qed
qed

lemma normalize_details_distinct:
  "normalize_details desired ds = Inr desired' \<Longrightarrow> distinct (map fst desired) \<Longrightarrow> distinct (map fst desired')"
  by (induction ds arbitrary: desired) (auto simp: result_iffs distinct_update split: if_splits)

lemma identity_step_endpoints:
  "identity_step s t \<Longrightarrow> st_public_endpoint_records t = [] \<or> st_public_endpoint_records t = st_public_endpoint_records s"
  by (elim identity_stepE) (auto simp: identity_defs clear_defs Let_def split: option.splits IdentityTransition.splits if_splits)

definition records_served ::
  "ext \<Rightarrow> ('w \<Rightarrow> string \<Rightarrow> string option) \<Rightarrow> PublicKey \<Rightarrow> PaykitReceiverPath \<Rightarrow> 'w \<Rightarrow> StorageState \<Rightarrow> bool" where
  "records_served E docs key rp w s \<longleftrightarrow> endpoints_served E docs key rp (s, w) \<and> hm_wf pe_identifier (st_public_endpoint_records s)"

lemma session_access_served:
  assumes "records_served E docs key rp w s" and "private_link_session_access cfg session now s = (t, r)"
  shows "records_served E docs key rp w t"
proof -
  have "rt_keeps (records_served E docs key rp w) (private_link_session_access cfg session now)"
    by (rule rt_keeps_guards(1)) (auto simp: records_served_def endpoints_served_def public_endpoint_record_def dest!: identity_step_endpoints)
  then show ?thesis using assms unfolding rt_keeps_def by (metis fst_conv)
qed

text \<open>C25: On a homeserver that pages its listings and keeps the documents of its owner, syncing public endpoints
  returns whatever calls fail. Every record that says published, before and after, is the document the homeserver
  serves for that identifier, and for one that says removed it serves none. When no change failed, each
  wanted endpoint is served with its payload, and every other endpoint the store knows of is gone; with
  the whole namespace managed, every other endpoint is.\<close>

theorem public_endpoint_sync:
  assumes "homeserver_documents HV (public_key_display E (os_public_key session)) docs"
    and "homeserver_lists E HV (public_key_display E (os_public_key session)) docs"
    and "storage_inv s" and "endpoints_served E docs (os_public_key session) (cf_receiver_path cfg) (s, w)"
  shows "\<exists>t w' result. sync_public_endpoints_with_receiving_details E HV cfg in_progress session clock p details (s, w) = Some ((t, w'), result)
     \<and> endpoints_served E docs (os_public_key session) (cf_receiver_path cfg) (t, w')
     \<and> (\<forall>report. result = Inr report \<and> ep_failed report = [] \<longrightarrow>
          (\<exists>desired. normalize_receiving_details details = Inr desired \<and> endpoints_exact E docs (os_public_key session) cfg desired (t, w')))"
proof (cases "claim_identity_operation in_progress ''sync public endpoints''")
  case (Inl e)
  then show ?thesis using assms(4) by (simp add: sync_public_endpoints_with_receiving_details_def)
next
  case claimed: (Inr _)
  obtain t r where access: "private_link_session_access cfg (os_access session) (clock 0) s = (t, r)" by fastforce
  have "records_served E docs (os_public_key session) (cf_receiver_path cfg) w s"
    using assms(3,4) by (simp add: records_served_def storage_inv_def tables_inv_def)
  from session_access_served [OF this access]
  have t: "endpoints_served E docs (os_public_key session) (cf_receiver_path cfg) (t, w)" "hm_wf pe_identifier (st_public_endpoint_records t)"
    by (simp_all add: records_served_def)
  show ?thesis
  proof (cases r)
    case (Inl e)
    with t(1) claimed access show ?thesis by (simp add: sync_public_endpoints_with_receiving_details_def)
  next
    case opened: (Inr a)
    show ?thesis
    proof (cases "normalize_receiving_details details")
      case (Inl e)
      with t(1) claimed access opened show ?thesis by (simp add: sync_public_endpoints_with_receiving_details_def)
    next
      case (Inr desired)
      then have "distinct (map fst desired)" by (auto simp: normalize_receiving_details_def dest: normalize_details_distinct)
      from sync_desired_run [OF assms(1,2) t this, of p "clock 1"] Inr claimed access opened show ?thesis
        by (simp add: sync_public_endpoints_with_receiving_details_def)
    qed
  qed
qed

section \<open>A homeserver that pages\<close>

definition paged_entries :: "PublicKey \<Rightarrow> string \<Rightarrow> (string, string) hashmap \<Rightarrow> pubky_entry list" where
  "paged_entries owner addr w =
     map (\<lambda>a. \<lparr>pe_owner = owner, pe_path = drop (length (public_key_bytes owner)) a\<rparr>)
       (filter (\<lambda>a. strip_prefix addr a \<noteq> None) (remdups (map fst w)))"

definition paged_homeserver :: "ext \<Rightarrow> PublicKey \<Rightarrow> (string, string) hashmap homeserver" where
  "paged_homeserver E owner =
     (kept_homeserver owner)\<lparr>hs_list := (\<lambda>p addr cursor w. Inr (routing_page E (paged_entries owner addr w) cursor))\<rparr>"

lemma paged_homeserver_documents: "homeserver_documents (paged_homeserver E owner) (public_key_bytes owner) hm_get"
  by (auto simp: homeserver_documents_def paged_homeserver_def kept_homeserver_def table_simps split: if_splits option.splits)

lemma paged_homeserver_lists: "homeserver_lists E (paged_homeserver E owner) (public_key_bytes owner) hm_get"
  unfolding homeserver_lists_def
proof (intro allI exI conjI impI)
  fix prefix w
  let ?key = "public_key_bytes owner"
  have inj: "inj_on (\<lambda>a. routing_cursor E \<lparr>pe_owner = owner, pe_path = drop (length ?key) a\<rparr>) {a. strip_prefix (?key @ prefix) a \<noteq> None}"
    by (rule inj_onI) (auto simp: routing_cursor_def strip_prefix_iff)
  then have "distinct (map (routing_cursor E) (paged_entries owner (?key @ prefix) w))"
    by (auto simp: paged_entries_def distinct_map comp_def intro: inj_on_subset)
  then show "lists_directory E (paged_homeserver E owner) (?key @ prefix) w (paged_entries owner (?key @ prefix) w)"
    by (simp add: lists_directory_def paged_homeserver_def kept_homeserver_def)
  fix name body assume "hm_get w (?key @ prefix @ name) = Some body \<and> name \<noteq> [] \<and> CHR ''/'' \<notin> set name"
  then have "?key @ prefix @ name \<in> set (map fst w)" by (force dest: map_of_SomeD)
  moreover have "strip_prefix (?key @ prefix) (?key @ prefix @ name) \<noteq> None" by (simp add: strip_prefix_def starts_with_def)
  ultimately have "?key @ prefix @ name \<in> set (filter (\<lambda>a. strip_prefix (?key @ prefix) a \<noteq> None) (remdups (map fst w)))" by simp
  then have "\<lparr>pe_owner = owner, pe_path = drop (length ?key) (?key @ prefix @ name)\<rparr> \<in> set (paged_entries owner (?key @ prefix) w)"
    unfolding paged_entries_def set_map by (rule imageI)
  then show "\<exists>e \<in> set (paged_entries owner (?key @ prefix) w). pe_path e = prefix @ name
      \<and> hs_entry_addr (paged_homeserver E owner) e = ?key @ prefix @ name"
    by (intro bexI [of _ "\<lparr>pe_owner = owner, pe_path = prefix @ name\<rparr>"]) (simp_all add: paged_homeserver_def kept_homeserver_def)
qed

definition sample_open_session :: open_session where
  "sample_open_session = \<lparr>os_access = Inr (Some sample_session), os_public_key = PublicKey ''o'', os_noise_public_key = PublicKey ''n''\<rparr>"

definition sample_stale_store :: StorageState where
  "sample_stale_store = save_identity_state \<lparr>id_public_key = Some (sa_session_public_key sample_session),
       id_noise_public_key = Some (sa_noise_public_key sample_session), id_initialized_at = 1, id_sign_out_generation = 0\<rparr>
     (save_public_endpoint_record (published_record (PaymentEndpointIdentifier ''old'') (PaymentEndpointPayload ''stale'') 3) empty_storage)"

definition sample_documents :: "(string, string) hashmap" where
  "sample_documents = [(''o/pub/paykit/v0/bitkit/server/endpoints/old'', ''stale'')]"

definition sample_sync :: "((StorageState \<times> (string, string) hashmap) \<times> EndpointSyncReport sdk_res) option" where
  "sample_sync = sync_public_endpoints_with_receiving_details (table_ext []) (paged_homeserver (table_ext []) (PublicKey ''o''))
     (PaykitSdkConfig_new sample_receiver) (Some False) sample_open_session (\<lambda>_. 9) []
     [\<lparr>prd_identifier = ''btc-bolt11'', prd_payload = ''lnbc1''\<rparr>] (sample_stale_store, sample_documents)"

lemma sample_sync_parts:
  "normalize_receiving_details [\<lparr>prd_identifier = ''btc-bolt11'', prd_payload = ''lnbc1''\<rparr>]
     = Inr [(PaymentEndpointIdentifier ''btc-bolt11'', PaymentEndpointPayload ''lnbc1'')]"
  "PaymentEndpointIdentifier_new ''old'' = Inr (PaymentEndpointIdentifier ''old'')"
  by code_simp+

lemma sample_sync_paths:
  "payment_endpoint_path sample_receiver (PaymentEndpointIdentifier ''btc-bolt11'') = ''/pub/paykit/v0/bitkit/server/endpoints/btc-bolt11''"
  "payment_endpoint_path sample_receiver (PaymentEndpointIdentifier ''old'') = ''/pub/paykit/v0/bitkit/server/endpoints/old''"
  by code_simp+

lemma sample_sync_session:
  "private_link_session_access (PaykitSdkConfig_new sample_receiver) (os_access sample_open_session) now sample_stale_store
     = (sample_stale_store\<lparr>st_identity_state := Some \<lparr>id_public_key = Some (sa_session_public_key sample_session),
       id_noise_public_key = Some (sa_noise_public_key sample_session), id_initialized_at = now, id_sign_out_generation = 0\<rparr>\<rparr>, Inr sample_session)"
  by (simp add: private_link_session_access_def refresh_identity_def load_session_access_and_refresh_identity_def sample_open_session_def
      sample_stale_store_def sample_session_def sa_public_key_def sa_validate_for_capabilities_def session_validate_def transaction_def
      run_storage_state_transaction_def identity_defs rt_defs Let_def)

lemma sample_sync_result:
  "\<exists>t. sample_sync = Some ((t, [(''o/pub/paykit/v0/bitkit/server/endpoints/btc-bolt11'', ''lnbc1'')]),
      Inr \<lparr>ep_published = [\<lparr>ec_identifier = ''btc-bolt11'', ec_status = Published, ec_error = None\<rparr>],
           ep_removed = [\<lparr>ec_identifier = ''old'', ec_status = Removed, ec_error = None\<rparr>], ep_failed = []\<rparr>)"
proof -
  let ?E = "table_ext []"
  let ?s = "sample_stale_store\<lparr>st_identity_state := Some \<lparr>id_public_key = Some (sa_session_public_key sample_session),
       id_noise_public_key = Some (sa_noise_public_key sample_session), id_initialized_at = 9, id_sign_out_generation = 0\<rparr>\<rparr>"
  have opened: "sample_sync = sync_desired_endpoints ?E (paged_homeserver ?E (PublicKey ''o'')) (PaykitSdkConfig_new sample_receiver) []
      (PublicKey ''o'') 9 [(PaymentEndpointIdentifier ''btc-bolt11'', PaymentEndpointPayload ''lnbc1'')] (?s, sample_documents)"
    unfolding sample_sync_def sync_public_endpoints_with_receiving_details_def
    by (simp add: claim_identity_operation_def sample_sync_session sample_sync_parts) (simp add: sample_open_session_def)
  note records = sample_stale_store_def save_identity_state_def empty_storage_def save_public_endpoint_record_def
    pending_publication_record_def published_record_def pending_removal_record_def removed_record_def
  note server = set_payment_endpoint_def upsert_payment_endpoint_def remove_payment_endpoint_def delete_payment_endpoint_def
    paged_homeserver_def kept_homeserver_def sample_sync_paths sample_documents_def
  show ?thesis
    unfolding opened sync_desired_endpoints_def
    by (simp add: records server sample_sync_parts PaykitSdkConfig_new_def removal_candidates_def managed_candidates_def
        public_endpoint_records_def hm_values_def empty_endpoint_report_def Let_def)
qed

lemma sample_stale_served: "endpoints_served (table_ext []) hm_get (PublicKey ''o'') sample_receiver (sample_stale_store, sample_documents)"
  unfolding endpoints_served_def
proof (intro allI impI, elim conjE)
  fix i r assume r: "public_endpoint_record (fst (sample_stale_store, sample_documents)) (identifier_str i) = Some r"
  then have i: "i = PaymentEndpointIdentifier ''old''"
    and "r = published_record (PaymentEndpointIdentifier ''old'') (PaymentEndpointPayload ''stale'') 3"
    by (cases i; auto simp: sample_stale_store_def save_identity_state_def public_endpoint_record_def save_public_endpoint_record_def
        empty_storage_def published_record_def split: if_splits)+
  moreover have "public_key_display (table_ext []) (PublicKey ''o'') = ''o''" by (simp add: table_ext_def)
  ultimately show "record_served (hm_get (snd (sample_stale_store, sample_documents)) (endpoint_address (table_ext []) (PublicKey ''o'') sample_receiver i)) r"
    by (simp add: record_served_def sample_documents_def sample_sync_paths published_record_def)
qed

theorem public_endpoint_sync_witness:
  "\<exists>t w. sample_sync = Some ((t, w), Inr \<lparr>ep_published = [\<lparr>ec_identifier = ''btc-bolt11'', ec_status = Published, ec_error = None\<rparr>],
       ep_removed = [\<lparr>ec_identifier = ''old'', ec_status = Removed, ec_error = None\<rparr>], ep_failed = []\<rparr>)
     \<and> endpoints_exact (table_ext []) hm_get (PublicKey ''o'') (PaykitSdkConfig_new sample_receiver)
         [(PaymentEndpointIdentifier ''btc-bolt11'', PaymentEndpointPayload ''lnbc1'')] (t, w)"
proof -
  let ?E = "table_ext []" and ?owner = "PublicKey ''o''"
  have keys: "public_key_display ?E ?owner = public_key_bytes ?owner" "os_public_key sample_open_session = ?owner"
    "cf_receiver_path (PaykitSdkConfig_new sample_receiver) = sample_receiver"
    by (simp_all add: table_ext_def sample_open_session_def PaykitSdkConfig_new_def)
  have inv: "storage_inv sample_stale_store"
    by (simp add: storage_inv_defs sample_stale_store_def save_identity_state_def save_public_endpoint_record_def empty_storage_def hm_wf_def)
  obtain t w result where sync: "sample_sync = Some ((t, w), result)"
      "\<forall>report. result = Inr report \<and> ep_failed report = [] \<longrightarrow> endpoints_exact ?E hm_get ?owner (PaykitSdkConfig_new sample_receiver)
         [(PaymentEndpointIdentifier ''btc-bolt11'', PaymentEndpointPayload ''lnbc1'')] (t, w)"
    using public_endpoint_sync [of "paged_homeserver ?E ?owner" ?E sample_open_session hm_get sample_stale_store
        "PaykitSdkConfig_new sample_receiver" sample_documents "Some False" "\<lambda>_. 9" "[]"
        "[\<lparr>prd_identifier = ''btc-bolt11'', prd_payload = ''lnbc1''\<rparr>]"]
      paged_homeserver_documents [of ?E ?owner] paged_homeserver_lists [of ?E ?owner] inv sample_stale_served
    by (auto simp: keys sample_sync_parts(1) simp flip: sample_sync_def)
  moreover have "result = Inr \<lparr>ep_published = [\<lparr>ec_identifier = ''btc-bolt11'', ec_status = Published, ec_error = None\<rparr>],
       ep_removed = [\<lparr>ec_identifier = ''old'', ec_status = Removed, ec_error = None\<rparr>], ep_failed = []\<rparr>"
    using sample_sync_result unfolding sync(1) by auto
  ultimately show ?thesis by (intro exI [of _ t] exI [of _ w]) simp
qed

end
