(* ===== verification/Profile_Runtime.thy ===== *)
theory Profile_Runtime
  imports Public_Endpoints
begin

text \<open>
  Public profiles and blobs (\<^verbatim>\<open>paykit-sdk/src/runtime/profiles.rs\<close>, the records of \<^verbatim>\<open>domain/contacts/mod.rs\<close> and the
  driver of \<^verbatim>\<open>runtime/contacts.rs\<close> that refreshes the profile of a contact). The operations run over the store
  and the homeserver. A published profile is what a reader finds, and no operation writes a document
  other than the profile and the blobs of the local receiver.
\<close>

section \<open>Records\<close>

record PaykitProfileRecord =
  pfr_public_key :: PubkyPublicKey
  pfr_profile :: PaykitProfile
  pfr_path :: string
  pfr_updated_at :: instant

record PaykitBlobRecord =
  pbr_public_key :: PubkyPublicKey
  pbr_path :: string
  pbr_uri :: string
  pbr_size_bytes :: nat
  pbr_updated_at :: instant

record PubkyProfileRecord =
  ppr_public_key :: PubkyPublicKey
  ppr_profile :: PubkyProfile
  ppr_path :: string
  ppr_fetched_at :: instant

datatype ContactProfileSource = FromPaykitProfile | FromPubkyProfile

record ContactProfileResolution =
  cpr_public_key :: PubkyPublicKey
  cpr_source :: ContactProfileSource
  cpr_display_name :: "string option"
  cpr_image_uri :: "string option"
  cpr_paykit_profile :: "PaykitProfile option"
  cpr_pubky_profile :: "PubkyProfile option"
  cpr_fetched_at :: instant

definition resolution_from_paykit :: "PaykitProfileRecord \<Rightarrow> ContactProfileResolution" where
  "resolution_from_paykit r =
     \<lparr>cpr_public_key = pfr_public_key r, cpr_source = FromPaykitProfile, cpr_display_name = pf_display_name (pfr_profile r),
      cpr_image_uri = pf_image_uri (pfr_profile r), cpr_paykit_profile = Some (pfr_profile r), cpr_pubky_profile = None,
      cpr_fetched_at = pfr_updated_at r\<rparr>"

definition resolution_from_pubky :: "PubkyProfileRecord \<Rightarrow> ContactProfileResolution" where
  "resolution_from_pubky r =
     \<lparr>cpr_public_key = ppr_public_key r, cpr_source = FromPubkyProfile, cpr_display_name = Some (pp_name (ppr_profile r)),
      cpr_image_uri = pp_image (ppr_profile r), cpr_paykit_profile = None, cpr_pubky_profile = Some (ppr_profile r),
      cpr_fetched_at = ppr_fetched_at r\<rparr>"

section \<open>Documents\<close>

definition map_pubky_transport_error :: "string \<Rightarrow> anyhow \<Rightarrow> sdk_error" where
  "map_pubky_transport_error what err = SdkTransport what (Some err)"

text \<open>A read of one address in the form that \<^const>\<open>fetch_public_text\<close> takes.\<close>

definition public_get :: "'w homeserver \<Rightarrow> nat list \<Rightarrow> string \<Rightarrow> 'w \<Rightarrow> string \<Rightarrow> string sdk_res fetched" where
  "public_get HV p what w addr =
     (case hs_get HV p addr w of
        Inl (err, not_found) \<Rightarrow> Inl (map_pubky_transport_error what err, not_found)
      | Inr body \<Rightarrow> Inr (map_err (map_pubky_transport_error what) body))"

definition fetch_public_file_uri ::
  "'w homeserver \<Rightarrow> (string \<Rightarrow> string + PublicKey \<times> string) \<Rightarrow> nat list \<Rightarrow> string \<Rightarrow> string \<Rightarrow> 'w \<Rightarrow> string option sdk_res" where
  "fetch_public_file_uri HV parse_resource p uri what w =
     rbind (map_err (\<lambda>err. SdkProtocol (what @ '': invalid Pubky URI: '' @ err) None) (parse_resource uri)) (\<lambda>(owner, path).
     case public_get HV p what w (hs_entry_addr HV \<lparr>pe_owner = owner, pe_path = path\<rparr>) of
       Inr body \<Rightarrow> rbind body (\<lambda>bytes. Inr (Some bytes))
     | Inl (err, not_found) \<Rightarrow> if not_found then Inr None else Inl err)"

definition put_public :: "'w homeserver \<Rightarrow> nat list \<Rightarrow> string \<Rightarrow> string \<Rightarrow> string \<Rightarrow> 'w \<Rightarrow> 'w \<times> unit sdk_res" where
  "put_public HV p what path body w =
     (case hs_put HV p path body w of
        (w', None) \<Rightarrow> (w', Inr ())
      | (w', Some (err, _)) \<Rightarrow> (w', Inl (map_pubky_transport_error what err)))"

definition delete_public :: "'w homeserver \<Rightarrow> nat list \<Rightarrow> string \<Rightarrow> string \<Rightarrow> 'w \<Rightarrow> 'w \<times> unit sdk_res" where
  "delete_public HV p what path w =
     (case hs_delete HV p path w of
        (w', None) \<Rightarrow> (w', Inr ())
      | (w', Some (err, not_found)) \<Rightarrow> (w', if not_found then Inr () else Inl (map_pubky_transport_error what err)))"

definition session_access_for ::
  "string \<Rightarrow> PaykitSdkConfig \<Rightarrow> PubkySessionAccess option sdk_res \<Rightarrow> instant \<Rightarrow> PubkySessionAccess rt" where
  "session_access_for purpose cfg session now =
     rt_bind (refresh_identity cfg session now) (\<lambda>(access, _).
     rt_lift (case access of None \<Rightarrow> Inl (SdkIdentity (''no Pubky session available for '' @ purpose) None) | Some a \<Rightarrow> Inr a))"

section \<open>Paykit Profiles\<close>

definition publish_paykit_profile ::
  "ext \<Rightarrow> 'w homeserver \<Rightarrow> PaykitSdkConfig \<Rightarrow> PubkySessionAccess option sdk_res \<Rightarrow> (nat \<Rightarrow> instant) \<Rightarrow> nat list \<Rightarrow> PaykitProfile \<Rightarrow>
   StorageState \<times> 'w \<Rightarrow> (StorageState \<times> 'w) \<times> PaykitProfileRecord sdk_res" where
  "publish_paykit_profile E HV cfg session clock p profile = (\<lambda>(s, w).
     case profile_json E profile of
       Inl e \<Rightarrow> ((s, w), Inl e)
     | Inr json \<Rightarrow>
         (case session_access_for ''profile publication'' cfg session (clock 0) s of
            (t, Inl e) \<Rightarrow> ((t, w), Inl e)
          | (t, Inr access) \<Rightarrow>
              (case put_public HV p ''publish Paykit profile'' (paykit_profile_path cfg) json w of
                 (w', Inl e) \<Rightarrow> ((t, w'), Inl e)
               | (w', Inr _) \<Rightarrow>
                   ((t, w'), rmap (\<lambda>pk. \<lparr>pfr_public_key = pk, pfr_profile = profile, pfr_path = paykit_profile_path cfg,
                                        pfr_updated_at = clock 1\<rparr>) (sa_public_key access)))))"

definition fetch_paykit_profile ::
  "ext \<Rightarrow> 'w homeserver \<Rightarrow> (string \<Rightarrow> string) \<Rightarrow> PaykitSdkConfig \<Rightarrow> unit option sdk_res \<Rightarrow> instant \<Rightarrow> nat list \<Rightarrow> PubkyPublicKey \<Rightarrow>
   PaykitReceiverPath \<Rightarrow> 'w \<Rightarrow> PaykitProfileRecord option sdk_res" where
  "fetch_paykit_profile E HV utf8_error cfg storage now p pk rp w =
     rbind (require_public_storage '' for profile lookup'' storage) (\<lambda>_.
     let path = paykit_profile_path_for_receiver cfg rp in
     rbind (fetch_public_text (public_get HV p ''fetch profile'' w) utf8_error pk path ''fetch profile'') (\<lambda>raw.
     case raw of
       None \<Rightarrow> Inr None
     | Some raw_json \<Rightarrow>
         rbind (parse_profile_json E raw_json) (\<lambda>profile.
         Inr (Some \<lparr>pfr_public_key = pk, pfr_profile = profile, pfr_path = path, pfr_updated_at = now\<rparr>))))"

definition delete_paykit_profile ::
  "'w homeserver \<Rightarrow> PaykitSdkConfig \<Rightarrow> PubkySessionAccess option sdk_res \<Rightarrow> nat list \<Rightarrow>
   StorageState \<times> 'w \<Rightarrow> (StorageState \<times> 'w) \<times> unit sdk_res" where
  "delete_paykit_profile HV cfg session p = (\<lambda>(s, w).
     case load_session_access_for_initialized_identity cfg session ''delete Paykit profile'' s of
       Inl e \<Rightarrow> ((s, w), Inl e)
     | Inr _ \<Rightarrow>
         (case delete_public HV p ''delete Paykit profile'' (paykit_profile_path cfg) w of (w', result) \<Rightarrow> ((s, w'), result)))"

section \<open>Blobs\<close>

text \<open>\<^verbatim>\<open>bytes.len() as u64\<close> is exact: a vector is shorter than \<open>2 ^ 63\<close> bytes.\<close>

definition publish_paykit_blob ::
  "'w homeserver \<Rightarrow> PaykitSdkConfig \<Rightarrow> PubkySessionAccess option sdk_res \<Rightarrow> (nat \<Rightarrow> instant) \<Rightarrow> nat list \<Rightarrow> string \<Rightarrow> string \<Rightarrow>
   StorageState \<times> 'w \<Rightarrow> (StorageState \<times> 'w) \<times> PaykitBlobRecord sdk_res" where
  "publish_paykit_blob HV cfg session clock p name bytes = (\<lambda>(s, w).
     case paykit_blob_path (paykit_profile_blob_path_prefix cfg) name of
       Inl e \<Rightarrow> ((s, w), Inl e)
     | Inr path \<Rightarrow>
         (case session_access_for ''Paykit blob publication'' cfg session (clock 0) s of
            (t, Inl e) \<Rightarrow> ((t, w), Inl e)
          | (t, Inr access) \<Rightarrow>
              (case put_public HV p ''publish Paykit blob'' path bytes w of
                 (w', Inl e) \<Rightarrow> ((t, w'), Inl e)
               | (w', Inr _) \<Rightarrow>
                   ((t, w'), rmap (\<lambda>pk. \<lparr>pbr_public_key = pk, pbr_path = path, pbr_uri = paykit_blob_uri pk path,
                                        pbr_size_bytes = length bytes, pbr_updated_at = clock 1\<rparr>) (sa_public_key access)))))"

definition to_ascii_lowercase :: "string \<Rightarrow> string" where
  "to_ascii_lowercase s = map (\<lambda>c. if is_ascii_uppercase (code_of c) then char_of (code_of c + 32) else c) s"

definition avatar_extension :: "string \<Rightarrow> string sdk_res" where
  "avatar_extension content_type =
     (let t = to_ascii_lowercase (trim content_type) in
      if t = ''image/jpeg'' \<or> t = ''image/jpg'' then Inr ''jpg''
      else if t = ''image/png'' then Inr ''png''
      else if t = ''image/webp'' then Inr ''webp''
      else if t = ''image/gif'' then Inr ''gif''
      else Inl (protocol_error (''unsupported profile avatar content type: '' @ content_type)))"

text \<open>The name has the first eight bytes of the digest, sixteen hexadecimal digits.\<close>

definition avatar_blob_name :: "ext \<Rightarrow> string \<Rightarrow> string \<Rightarrow> string" where
  "avatar_blob_name E bytes extension = ''avatar-'' @ take 16 (sha256_hex E bytes) @ ''.'' @ extension"

definition upload_profile_avatar ::
  "ext \<Rightarrow> 'w homeserver \<Rightarrow> PaykitSdkConfig \<Rightarrow> PubkySessionAccess option sdk_res \<Rightarrow> (nat \<Rightarrow> instant) \<Rightarrow> nat list \<Rightarrow> string \<Rightarrow> string \<Rightarrow>
   StorageState \<times> 'w \<Rightarrow> (StorageState \<times> 'w) \<times> PaykitBlobRecord sdk_res" where
  "upload_profile_avatar E HV cfg session clock p bytes content_type sw =
     (if bytes = [] then (sw, Inl (protocol_error ''profile avatar bytes must not be empty''))
      else case avatar_extension content_type of
        Inl e \<Rightarrow> (sw, Inl e)
      | Inr extension \<Rightarrow> publish_paykit_blob HV cfg session clock p (avatar_blob_name E bytes extension) bytes sw)"

definition delete_paykit_blob ::
  "ext \<Rightarrow> 'w homeserver \<Rightarrow> (string \<Rightarrow> string + PublicKey \<times> string) \<Rightarrow> PaykitSdkConfig \<Rightarrow> PubkySessionAccess option sdk_res \<Rightarrow> nat list \<Rightarrow> string \<Rightarrow>
   StorageState \<times> 'w \<Rightarrow> (StorageState \<times> 'w) \<times> unit sdk_res" where
  "delete_paykit_blob E HV parse_resource cfg session p uri_or_path = (\<lambda>(s, w).
     case rbind (load_session_access_for_initialized_identity cfg session ''delete Paykit blob'' s) (\<lambda>access.
          rbind (sa_public_key access) (\<lambda>pk.
          paykit_blob_path_from_uri_or_path E parse_resource pk (paykit_profile_blob_path_prefix cfg) uri_or_path)) of
       Inl e \<Rightarrow> ((s, w), Inl e)
     | Inr path \<Rightarrow> (case delete_public HV p ''delete Paykit blob'' path w of (w', result) \<Rightarrow> ((s, w'), result)))"

section \<open>Reading other public documents\<close>

definition fetch_pubky_file ::
  "'w homeserver \<Rightarrow> (string \<Rightarrow> string + PublicKey \<times> string) \<Rightarrow> unit option sdk_res \<Rightarrow> nat list \<Rightarrow> string \<Rightarrow> 'w \<Rightarrow> string option sdk_res" where
  "fetch_pubky_file HV parse_resource storage p uri w =
     rbind (require_public_storage '' for Pubky file fetch'' storage) (\<lambda>_.
     fetch_public_file_uri HV parse_resource p uri ''fetch Pubky file'' w)"

definition fetch_pubky_text ::
  "'w homeserver \<Rightarrow> (string \<Rightarrow> string + PublicKey \<times> string) \<Rightarrow> (string \<Rightarrow> string) \<Rightarrow> unit option sdk_res \<Rightarrow> nat list \<Rightarrow> string \<Rightarrow> 'w \<Rightarrow>
   string option sdk_res" where
  "fetch_pubky_text HV parse_resource utf8_error storage p uri w =
     rbind (fetch_pubky_file HV parse_resource storage p uri w) (\<lambda>found.
     case found of
       None \<Rightarrow> Inr None
     | Some bytes \<Rightarrow>
         if valid_utf8 bytes then Inr (Some bytes)
         else Inl (SdkProtocol (''fetch Pubky text: invalid UTF-8: '' @ utf8_error bytes) None))"

definition PUBKY_PROFILE_PATH :: string where
  "PUBKY_PROFILE_PATH = ''/pub/pubky.app/profile.json''"

definition fetch_pubky_profile ::
  "ext \<Rightarrow> 'w homeserver \<Rightarrow> (string \<Rightarrow> string) \<Rightarrow> unit option sdk_res \<Rightarrow> instant \<Rightarrow> nat list \<Rightarrow> PubkyPublicKey \<Rightarrow> 'w \<Rightarrow>
   PubkyProfileRecord option sdk_res" where
  "fetch_pubky_profile E HV utf8_error storage now p pk w =
     rbind (require_public_storage '' for Pubky profile lookup'' storage) (\<lambda>_.
     rbind (fetch_public_text (public_get HV p ''fetch Pubky profile'' w) utf8_error pk PUBKY_PROFILE_PATH ''fetch Pubky profile'') (\<lambda>raw.
     case raw of
       None \<Rightarrow> Inr None
     | Some raw_json \<Rightarrow>
         rbind (parse_pubky_profile_json E raw_json) (\<lambda>profile.
         Inr (Some \<lparr>ppr_public_key = pk, ppr_profile = profile, ppr_path = PUBKY_PROFILE_PATH, ppr_fetched_at = now\<rparr>))))"

definition fetch_pubky_follows ::
  "ext \<Rightarrow> (string \<Rightarrow> (string option \<Rightarrow> PubkyResource list fetched) sdk_res) \<Rightarrow> unit option sdk_res \<Rightarrow> PubkyPublicKey \<Rightarrow>
   PubkyPublicKey list sdk_res option" where
  "fetch_pubky_follows E list_from storage pk =
     (case require_public_storage '' for Pubky follows lookup'' storage of
        Inl e \<Rightarrow> Some (Inl e)
      | Inr _ \<Rightarrow> map_option (rmap (\<lambda>entries. pubky_follow_keys_from_follow_entries E (map pres_path entries)))
                  (list_public_resources list_from pk PUBKY_FOLLOWS_PATH_PREFIX))"

definition resolve_contact_profile ::
  "ext \<Rightarrow> 'w homeserver \<Rightarrow> (string \<Rightarrow> string) \<Rightarrow> PaykitSdkConfig \<Rightarrow> unit option sdk_res \<Rightarrow> (nat \<Rightarrow> instant) \<Rightarrow> nat list \<Rightarrow> PubkyPublicKey \<Rightarrow>
   PaykitReceiverPath \<Rightarrow> bool \<Rightarrow> 'w \<Rightarrow> ContactProfileResolution option sdk_res" where
  "resolve_contact_profile E HV utf8_error cfg storage clock p pk rp allow_fallback w =
     rbind (fetch_paykit_profile E HV utf8_error cfg storage (clock 0) (0 # p) pk rp w) (\<lambda>found.
     case found of
       Some r \<Rightarrow> Inr (Some (resolution_from_paykit r))
     | None \<Rightarrow>
         if allow_fallback
         then rmap (map_option resolution_from_pubky) (fetch_pubky_profile E HV utf8_error storage (clock 1) (1 # p) pk w)
         else Inr None)"

definition resolve_profile ::
  "ext \<Rightarrow> 'w homeserver \<Rightarrow> (string \<Rightarrow> string) \<Rightarrow> PaykitSdkConfig \<Rightarrow> unit option sdk_res \<Rightarrow> (nat \<Rightarrow> instant) \<Rightarrow> nat list \<Rightarrow> PubkyPublicKey \<Rightarrow>
   PaykitReceiverPath \<Rightarrow> bool \<Rightarrow> 'w \<Rightarrow> ContactProfileResolution option sdk_res" where
  "resolve_profile E HV utf8_error cfg storage clock p pk rp allow_fallback w =
     resolve_contact_profile E HV utf8_error cfg storage clock p pk rp allow_fallback w"

definition current_profile ::
  "ext \<Rightarrow> 'w homeserver \<Rightarrow> (string \<Rightarrow> string) \<Rightarrow> PaykitSdkConfig \<Rightarrow> unit option sdk_res \<Rightarrow> (nat \<Rightarrow> instant) \<Rightarrow> nat list \<Rightarrow> bool \<Rightarrow>
   StorageState \<times> 'w \<Rightarrow> ContactProfileResolution option sdk_res" where
  "current_profile E HV utf8_error cfg storage clock p allow_fallback = (\<lambda>(s, w).
     rbind (require_initialized_identity ''resolve current profile'' s) (\<lambda>pk.
     resolve_profile E HV utf8_error cfg storage clock p pk (cf_receiver_path cfg) allow_fallback w))"

definition refresh_contact_paykit_profile ::
  "ext \<Rightarrow> 'w homeserver \<Rightarrow> (string \<Rightarrow> string) \<Rightarrow> PaykitSdkConfig \<Rightarrow> unit option sdk_res \<Rightarrow> (nat \<Rightarrow> instant) \<Rightarrow> nat list \<Rightarrow> PubkyPublicKey \<Rightarrow>
   PaykitReceiverPath \<Rightarrow> 'w \<Rightarrow> ContactRecord option rt" where
  "refresh_contact_paykit_profile E HV utf8_error cfg storage clock p pk rp w =
     rt_bind (rt_check (require_initialized_identity ''refresh contact Paykit profile'')) (\<lambda>_.
     rt_bind (rt_lift (fetch_paykit_profile E HV utf8_error cfg storage (clock 0) p pk rp w)) (\<lambda>fetched.
     transaction (refresh_contact_tx pk rp (map_option pfr_profile fetched) (clock 1))))"

section \<open>What the profile operations write\<close>

text \<open>The operations of the local identity that write public documents.\<close>

inductive profile_step ::
  "ext \<Rightarrow> 'w homeserver \<Rightarrow> PaykitSdkConfig \<Rightarrow> PubkySessionAccess option sdk_res \<Rightarrow> StorageState \<times> 'w \<Rightarrow> StorageState \<times> 'w \<Rightarrow> bool"
  for E HV cfg session where
  publish: "fst (publish_paykit_profile E HV cfg session clock p profile sw) = sw' \<Longrightarrow> profile_step E HV cfg session sw sw'"
| delete: "fst (delete_paykit_profile HV cfg session p sw) = sw' \<Longrightarrow> profile_step E HV cfg session sw sw'"
| publish_blob: "fst (publish_paykit_blob HV cfg session clock p name bytes sw) = sw' \<Longrightarrow> profile_step E HV cfg session sw sw'"
| avatar: "fst (upload_profile_avatar E HV cfg session clock p bytes content_type sw) = sw' \<Longrightarrow> profile_step E HV cfg session sw sw'"
| delete_blob: "fst (delete_paykit_blob E HV parse_resource cfg session p uri sw) = sw' \<Longrightarrow> profile_step E HV cfg session sw sw'"

inductive_cases profile_stepE: "profile_step E HV cfg session sw sw'"

definition profile_paths :: "PaykitSdkConfig \<Rightarrow> string set" where
  "profile_paths cfg = insert (paykit_profile_path cfg)
     {paykit_profile_blob_path_prefix cfg @ name | name. validate_paykit_blob_name name = Inr ()}"

definition writes_only :: "('w \<Rightarrow> string \<Rightarrow> string option) \<Rightarrow> string \<Rightarrow> string set \<Rightarrow> 'w \<Rightarrow> 'w \<Rightarrow> bool" where
  "writes_only docs key paths w w' \<longleftrightarrow> (\<forall>a. a \<notin> (@) key ` paths \<longrightarrow> docs w' a = docs w a)"

lemma writes_only_refl [simp]: "writes_only docs key paths w w"
  by (simp add: writes_only_def)

lemma put_public_writes:
  assumes "homeserver_documents HV key docs" and "put_public HV p what path body w = (w', r)"
  shows "path \<in> paths \<Longrightarrow> writes_only docs key paths w w'" and "r = Inr u \<Longrightarrow> docs w' (key @ path) = Some body"
proof -
  obtain answer where put: "hs_put HV p path body w = (w', answer)" "r = Inr u \<longrightarrow> answer = None"
    using assms(2) by (auto simp: put_public_def split: prod.splits option.splits)
  then show "r = Inr u \<Longrightarrow> docs w' (key @ path) = Some body"
    using homeserver_documentsD(1) [OF assms(1)] by auto
  show "writes_only docs key paths w w'" if "path \<in> paths"
    unfolding writes_only_def
  proof (intro allI impI)
    fix a assume "a \<notin> (@) key ` paths"
    with that have "a \<noteq> key @ path" by blast
    then show "docs w' a = docs w a" by (rule homeserver_documentsD(2) [OF assms(1) put(1)])
  qed
qed

lemma delete_public_writes:
  assumes "homeserver_documents HV key docs" and "delete_public HV p what path w = (w', r)"
  shows "path \<in> paths \<Longrightarrow> writes_only docs key paths w w'" and "r = Inr u \<Longrightarrow> docs w' (key @ path) = None"
proof -
  obtain answer where delete: "hs_delete HV p path w = (w', answer)" "r = Inr u \<longrightarrow> (\<forall>err. answer \<noteq> Some (err, False))"
    using assms(2) by (auto simp: delete_public_def split: prod.splits option.splits if_splits)
  then show "r = Inr u \<Longrightarrow> docs w' (key @ path) = None"
    using homeserver_documentsD(3) [OF assms(1)] by auto
  show "writes_only docs key paths w w'" if "path \<in> paths"
    unfolding writes_only_def
  proof (intro allI impI)
    fix a assume "a \<notin> (@) key ` paths"
    with that have "a \<noteq> key @ path" by blast
    then show "docs w' a = docs w a" by (rule homeserver_documentsD(4) [OF assms(1) delete(1)])
  qed
qed

lemma publish_blob_writes:
  assumes "homeserver_documents HV key docs"
  shows "writes_only docs key (profile_paths cfg) (snd sw) (snd (fst (publish_paykit_blob HV cfg session clock p name bytes sw)))"
proof (cases "paykit_blob_path (paykit_profile_blob_path_prefix cfg) name")
  case (Inl e)
  then show ?thesis by (simp add: publish_paykit_blob_def case_prod_unfold)
next
  case (Inr path)
  then have "path \<in> profile_paths cfg" by (auto simp: paykit_blob_path_def result_iffs profile_paths_def)
  then show ?thesis using Inr put_public_writes(1) [OF assms]
    by (auto simp: publish_paykit_blob_def split: prod.splits sum.splits)
qed

lemma blob_path_confined:
  "paykit_blob_path_from_uri_or_path E parse_resource pk (paykit_profile_blob_path_prefix cfg) uri = Inr path \<Longrightarrow> path \<in> profile_paths cfg"
  by (auto simp: paykit_blob_path_from_uri_or_path_def validate_paykit_blob_path_def profile_paths_def result_iffs strip_prefix_iff
      split: if_splits option.splits)

lemma profile_step_writes:
  assumes "homeserver_documents HV key docs" and "profile_step E HV cfg session sw sw'"
  shows "writes_only docs key (profile_paths cfg) (snd sw) (snd sw')"
  using assms(2)
proof (cases rule: profile_step.cases)
  case (publish clock p profile)
  then show ?thesis using put_public_writes(1) [OF assms(1), where paths = "profile_paths cfg"]
    by (cases sw) (auto simp: publish_paykit_profile_def profile_paths_def split: prod.splits sum.splits)
next
  case (delete p)
  then show ?thesis using delete_public_writes(1) [OF assms(1), where paths = "profile_paths cfg"]
    by (cases sw) (auto simp: delete_paykit_profile_def profile_paths_def split: prod.splits sum.splits)
next
  case (publish_blob clock p name bytes)
  then show ?thesis using publish_blob_writes [OF assms(1)] by metis
next
  case (avatar clock p bytes content_type)
  then show ?thesis using publish_blob_writes [OF assms(1), of cfg sw]
    by (simp add: upload_profile_avatar_def split: sum.splits if_splits) metis
next
  case (delete_blob parse_resource p uri)
  then show ?thesis using delete_public_writes(1) [OF assms(1), where paths = "profile_paths cfg"]
    by (cases sw) (auto simp: delete_paykit_blob_def result_iffs dest!: blob_path_confined split: prod.splits sum.splits)
qed

section \<open>Profiles are read back\<close>

definition profile_wf :: "PaykitProfile \<Rightarrow> bool" where
  "profile_wf profile = (case pf_extra profile of None \<Rightarrow> True | Some extra \<Rightarrow> wf_json_map extra)"

lemma profile_document_roundtrip:
  assumes "profile_wf profile"
  shows "de_PaykitProfileDocument (ser_PaykitProfileDocument \<lparr>pd_version = v, pd_kind = k, pd_profile = profile\<rparr>)
     = Some \<lparr>pd_version = v, pd_kind = k, pd_profile = profile\<rparr>"
proof -
  have nullable: "de_nullable de_string (ser_nullable JStr x) = Some x" for x by (cases x) (simp_all add: ser_nullable_def)
  have "de_nullable de_json_map (ser_nullable JObj (pf_extra profile)) = Some (pf_extra profile)"
    using assms by (cases "pf_extra profile") (simp_all add: ser_nullable_def profile_wf_def de_json_map_wf del: de_json_map.simps)
  with nullable show ?thesis
    by (simp add: ser_PaykitProfileDocument_def field_def field_option_def field_default_def de_u32_of_word del: de_u32.simps)
qed

lemma profile_json_roundtrip:
  assumes "json_prints_back E" and "profile_wf profile" and "profile_json E profile = Inr raw"
  shows "parse_profile_json E raw = Inr profile"
proof -
  let ?d = "\<lparr>pd_version = 1, pd_kind = ''paykit.profile'', pd_profile = profile\<rparr>"
  have "struct_from_str E ''PaykitProfileDocument'' de_PaykitProfileDocument raw = Inr ?d"
    using assms profile_document_roundtrip [OF assms(2)]
    by (auto simp: profile_json_def result_iffs struct_from_str_Inr json_prints_back_def)
  moreover have "paykit_profile_validate E profile = Inr ()" using assms(3) by (auto simp: profile_json_def result_iffs)
  ultimately show ?thesis by (simp add: parse_profile_json_def)
qed

abbreviation own_key :: "PubkySessionAccess \<Rightarrow> string" where
  "own_key access \<equiv> ''pubky://'' @ z32 (sa_session_public_key access)"

lemma session_access_for_key:
  "session_access_for purpose cfg session now s = (t, Inr access) \<Longrightarrow> session = Inr (Some access)"
  by (auto simp: session_access_for_def refresh_identity_def load_session_access_and_refresh_identity_def rt_bind_ok rt_lift_def
      result_iffs split: option.splits sum.splits prod.splits)

lemma published_profile_document:
  assumes "homeserver_documents HV (own_key access) docs"
    and "publish_paykit_profile E HV cfg (Inr (Some access)) clock p profile (s, w) = ((t, w'), Inr r)"
  obtains raw where "profile_json E profile = Inr raw" "docs w' (own_key access @ paykit_profile_path cfg) = Some raw"
    "r = \<lparr>pfr_public_key = sa_session_public_key access, pfr_profile = profile, pfr_path = paykit_profile_path cfg, pfr_updated_at = clock 1\<rparr>"
proof -
  from assms(2) obtain raw access' where raw: "profile_json E profile = Inr raw"
      "session_access_for ''profile publication'' cfg (Inr (Some access)) (clock 0) s = (t, Inr access')"
      "put_public HV p ''publish Paykit profile'' (paykit_profile_path cfg) raw w = (w', Inr ())"
      "r = \<lparr>pfr_public_key = sa_session_public_key access', pfr_profile = profile, pfr_path = paykit_profile_path cfg, pfr_updated_at = clock 1\<rparr>"
    by (auto simp: publish_paykit_profile_def sa_public_key_def split: sum.splits prod.splits)
  with session_access_for_key [OF raw(2)] put_public_writes(2) [OF assms(1) raw(3)] that show thesis by simp
qed

lemma fetched_text:
  assumes "homeserver_documents HV (''pubky://'' @ z32 pk) docs"
    and "fetch_public_text (public_get HV p what' w) utf8_error pk path what = Inr found"
  shows "found = docs w (''pubky://'' @ z32 pk @ path)"
  using assms(2) homeserver_documentsD(5,6) [OF assms(1)]
  by (auto simp: fetch_public_text_def public_get_def public_resource_uri_def result_iffs split: sum.splits if_splits)


section \<open>A published profile\<close>

definition sample_profile :: PaykitProfile where
  "sample_profile = \<lparr>pf_display_name = Some ''bob'', pf_image_uri = None, pf_extra = None\<rparr>"

definition sample_profile_ext :: ext where
  "sample_profile_ext = table_ext [(''P'', ser_PaykitProfileDocument \<lparr>pd_version = 1, pd_kind = ''paykit.profile'', pd_profile = sample_profile\<rparr>)]"

definition sample_profile_server :: "(string, string) hashmap homeserver" where
  "sample_profile_server = paged_homeserver sample_profile_ext (PublicKey ''pubky://bob'')"

abbreviation sample_profile_config :: PaykitSdkConfig where
  "sample_profile_config \<equiv> PaykitSdkConfig_new sample_receiver"

definition sample_profile_record :: PaykitProfileRecord where
  "sample_profile_record = \<lparr>pfr_public_key = PubkyPublicKey ''bob'', pfr_profile = sample_profile,
     pfr_path = paykit_profile_path sample_profile_config, pfr_updated_at = 9\<rparr>"

lemma sample_profile_json: "profile_json sample_profile_ext sample_profile = Inr ''P''"
proof -
  have "trim ''bob'' \<noteq> []" "length (rust_chars ''bob'') = 3" "\<not> list_ex is_control (rust_chars ''bob'')" by code_simp+
  then have "paykit_profile_validate sample_profile_ext sample_profile = Inr ()"
    by (simp add: paykit_profile_validate_def sample_profile_def MAX_DISPLAY_NAME_CHARS_def validate_optional_text_def)
  then show ?thesis by (simp add: profile_json_def sample_profile_ext_def table_ext_def)
qed

lemma sample_profile_published:
  "\<exists>t. publish_paykit_profile sample_profile_ext sample_profile_server sample_profile_config (Inr (Some sample_session)) (\<lambda>_. 9) [] sample_profile
     (sample_stale_store, []) = ((t, [(''pubky://bob'' @ paykit_profile_path sample_profile_config, ''P'')]), Inr sample_profile_record)"
  by (simp add: publish_paykit_profile_def sample_profile_json session_access_for_def refresh_identity_def put_public_def sample_profile_server_def
      load_session_access_and_refresh_identity_def sample_session_def sa_public_key_def sa_validate_for_capabilities_def session_validate_def
      transaction_def run_storage_state_transaction_def rt_defs paged_homeserver_def kept_homeserver_def sample_profile_record_def
      split: prod.split)

lemma sample_profile_fetched:
  "\<exists>found. fetch_paykit_profile sample_profile_ext sample_profile_server (\<lambda>_. []) sample_profile_config (Inr (Some ())) 12 [] (PubkyPublicKey ''bob'')
     sample_receiver [(''pubky://bob'' @ paykit_profile_path sample_profile_config, ''P'')] = Inr found"
proof -
  have "valid_utf8 ''P''" by code_simp
  moreover have "parse_profile_json sample_profile_ext ''P'' = Inr sample_profile"
    by (rule profile_json_roundtrip [OF _ _ sample_profile_json])
      (simp_all add: sample_profile_ext_def table_ext_prints_back profile_wf_def sample_profile_def)
  moreover have "cf_receiver_path sample_profile_config = sample_receiver" by (simp add: PaykitSdkConfig_new_def)
  ultimately show ?thesis
    by (simp add: fetch_paykit_profile_def require_public_storage_def Let_def fetch_public_text_def public_get_def public_resource_uri_def
        sample_profile_server_def paged_homeserver_def kept_homeserver_def paykit_profile_path_def del: valid_utf8.simps)
qed


end
