(* ===== verification/Session_Setup.thy ===== *)
theory Session_Setup
  imports Identity_Runtime
begin

text \<open>
  Secrets, sessions and authorization (\<^verbatim>\<open>paykit-sdk/src/pubky_session.rs\<close>, \<^verbatim>\<open>pubky_session/companion_claim.rs\<close> and
  the key types of \<^verbatim>\<open>identity.rs\<close>). The Pubky client, its deep links and URLs and the cryptography are a
  record of functions; the calls that act on the outside are logged. A session that is handed out has
  the keys and capabilities that were asked for, and an authorization is approved only for a request
  with exactly the expected capabilities, after its companion claim has been delivered.
\<close>

section \<open>The Pubky client\<close>

record url =
  url_text :: string
  url_scheme :: string
  url_host :: "string option"
  url_query_pairs :: "(string \<times> string) list"

datatype DeepLink = Signin url string | Signup url string PublicKey | SeedExport

datatype AuthFlowKind = SigninFlow | SignupFlow PublicKey "string option"

record pubky_session =
  ps_public_key :: PublicKey
  ps_capabilities :: "Capability list"
  ps_secret :: string

datatype relay_failure = RelayServerStatus nat | RelayTransport | RelayOther

text \<open>
  A pending flow \<open>'f\<close> belongs to the client. \<open>pv_await\<close> is what a flow ends with; the calls take the
  position where they happen, since the network may answer differently each time.
\<close>

record 'f pubky_client =
  pv_norm_caps :: "Capability list \<Rightarrow> Capability list"
  pv_parse_cap :: "string \<Rightarrow> string + Capability"
  pv_show_cap :: "Capability \<Rightarrow> string"
  pv_show_caps :: "Capability list \<Rightarrow> string"
  pv_deep_link :: "string \<Rightarrow> string + DeepLink"
  pv_url :: "string \<Rightarrow> string + url"
  pv_resource :: "string \<Rightarrow> string + PublicKey \<times> string"
  pv_resolve :: "string \<Rightarrow> string + string"
  pv_resource_url :: "PublicKey \<times> string \<Rightarrow> string"
  pv_public_key :: "string \<Rightarrow> PublicKey"
  pv_hex_32 :: "string \<Rightarrow> string + string"
  pv_mnemonic_seed :: "string \<Rightarrow> string + string"
  pv_signup :: "nat list \<Rightarrow> string \<Rightarrow> PublicKey \<Rightarrow> string option \<Rightarrow> anyhow + pubky_session"
  pv_signin :: "nat list \<Rightarrow> string \<Rightarrow> anyhow + pubky_session"
  pv_import :: "nat list \<Rightarrow> string \<Rightarrow> anyhow + pubky_session"
  pv_start_flow :: "nat list \<Rightarrow> Capability list \<Rightarrow> AuthFlowKind \<Rightarrow> anyhow + 'f"
  pv_resume_flow :: "nat list \<Rightarrow> string \<Rightarrow> anyhow + 'f"
  pv_flow_url :: "'f \<Rightarrow> string"
  pv_await :: "nat list \<Rightarrow> 'f \<Rightarrow> anyhow + pubky_session"
  pv_approve :: "nat list \<Rightarrow> string \<Rightarrow> string \<Rightarrow> anyhow option"
  pv_sign :: "string \<Rightarrow> string \<Rightarrow> string"
  pv_sha256 :: "string \<Rightarrow> string"
  pv_blake3 :: "string \<Rightarrow> string"
  pv_nonce :: "nat list \<Rightarrow> string"
  pv_secretbox :: "string \<Rightarrow> string \<Rightarrow> string \<Rightarrow> string + string"
  pv_channel_error :: "url \<Rightarrow> string \<Rightarrow> string option"
  pv_produce :: "nat list \<Rightarrow> url \<Rightarrow> string \<Rightarrow> string \<Rightarrow> relay_failure option"

text \<open>The calls whose effect others see, with the answer of the relay.\<close>

datatype auth_call =
    DeliveredClaim url string string "relay_failure option"
  | ApprovedAuth string string

definition map_pubky_identity_error :: "string \<Rightarrow> anyhow \<Rightarrow> sdk_error" where
  "map_pubky_identity_error what err = SdkIdentity what (Some err)"

section \<open>Keys\<close>

definition PUBKY_SECRET_BYTES :: nat where
  "PUBKY_SECRET_BYTES = 32"

definition BIP39_SEED_BYTES :: nat where
  "BIP39_SEED_BYTES = 64"

datatype PubkyLocalSecretKey = PubkyLocalSecretKey (secret_bytes: string)

datatype ReceiverNoiseSecretKey = ReceiverNoiseSecretKey (noise_secret_bytes: string)

definition secret_from_hex :: "'f pubky_client \<Rightarrow> string \<Rightarrow> PubkyLocalSecretKey sdk_res" where
  "secret_from_hex C value =
     (case pv_hex_32 C value of
        Inr bytes \<Rightarrow> Inr (PubkyLocalSecretKey bytes)
      | Inl err \<Rightarrow>
          Inl (SdkIdentity (if length value \<noteq> 64 then ''Pubky secret key hex must decode to 32 bytes''
                            else ''invalid Pubky secret key hex: '' @ err) None))"

definition from_bip39_seed :: "string \<Rightarrow> PubkyLocalSecretKey sdk_res" where
  "from_bip39_seed seed =
     (if length seed \<noteq> BIP39_SEED_BYTES
      then Inl (SdkIdentity (''Pubky BIP39 seed must be '' @ show_nat BIP39_SEED_BYTES @ '' bytes, got '' @ show_nat (length seed)) None)
      else Inr (PubkyLocalSecretKey (take PUBKY_SECRET_BYTES seed)))"

definition from_bip39_mnemonic :: "'f pubky_client \<Rightarrow> string \<Rightarrow> PubkyLocalSecretKey sdk_res" where
  "from_bip39_mnemonic C phrase =
     rbind (map_err (\<lambda>err. SdkIdentity (''invalid BIP39 mnemonic phrase: '' @ err) None) (pv_mnemonic_seed C phrase)) from_bip39_seed"

definition pubky_key_of :: "ext \<Rightarrow> PublicKey \<Rightarrow> PubkyPublicKey" where
  "pubky_key_of E k = PubkyPublicKey (public_key_z32 E k)"

definition secret_public_key :: "ext \<Rightarrow> 'f pubky_client \<Rightarrow> PubkyLocalSecretKey \<Rightarrow> PubkyPublicKey" where
  "secret_public_key E C k = pubky_key_of E (pv_public_key C (secret_bytes k))"

definition noise_public_key :: "'f pubky_client \<Rightarrow> ReceiverNoiseSecretKey \<Rightarrow> PublicKey" where
  "noise_public_key C k = pv_public_key C (noise_secret_bytes k)"

section \<open>Capabilities and links\<close>

abbreviation client_capabilities :: "'f pubky_client \<Rightarrow> string \<Rightarrow> Capability list sdk_res" where
  "client_capabilities C text \<equiv> parse_capabilities (pv_norm_caps C) (pv_parse_cap C) text"

definition ticked :: "string \<Rightarrow> string" where
  "ticked s = [CHR 0x60] @ s @ [CHR 0x60]"

fun caps_parameter :: "string option \<Rightarrow> (string \<times> string) list \<Rightarrow> string option sdk_res" where
  "caps_parameter caps [] = Inr caps"
| "caps_parameter caps ((key, value) # pairs) =
     (if key \<noteq> ''caps'' then caps_parameter caps pairs
      else if caps \<noteq> None then Inl (SdkProtocol ''Pubky auth URL must not contain duplicate caps parameters'' None)
      else caps_parameter (Some value) pairs)"

definition parse_auth_url_capabilities :: "'f pubky_client \<Rightarrow> string \<Rightarrow> Capability list sdk_res" where
  "parse_auth_url_capabilities C auth_url =
     rbind (map_err (\<lambda>err. SdkProtocol (''invalid Pubky auth URL: '' @ err) None) (pv_url C auth_url)) (\<lambda>url.
     rbind (caps_parameter None (url_query_pairs url)) (\<lambda>caps.
     case caps of
       None \<Rightarrow> Inl (SdkProtocol ''Pubky auth URL missing caps'' None)
     | Some text \<Rightarrow> client_capabilities C text))"

definition validate_auth_url_capabilities :: "'f pubky_client \<Rightarrow> string \<Rightarrow> string \<Rightarrow> unit sdk_res" where
  "validate_auth_url_capabilities C auth_url expected_text =
     rbind (parse_auth_url_capabilities C auth_url) (\<lambda>actual.
     rbind (client_capabilities C expected_text) (\<lambda>expected.
     if actual \<noteq> expected
     then Inl (SdkPolicy (''Pubky auth URL requested capabilities '' @ ticked (pv_show_caps C actual) @ '', expected ''
                 @ ticked (pv_show_caps C expected)) None)
     else Inr ()))"

definition validate_session_exact_capabilities :: "'f pubky_client \<Rightarrow> pubky_session \<Rightarrow> string \<Rightarrow> unit sdk_res" where
  "validate_session_exact_capabilities C session expected_text =
     (let actual = pv_norm_caps C (ps_capabilities session) in
      rbind (client_capabilities C expected_text) (\<lambda>expected.
      if actual \<noteq> expected
      then Inl (SdkIdentity (''Pubky session capabilities '' @ ticked (pv_show_caps C actual)
                  @ '' did not match requested capabilities '' @ ticked (pv_show_caps C expected)) None)
      else Inr ()))"

datatype PubkyAuthRequestKind = SignIn | SignUp | SecretExport

record PubkyAuthDetails =
  ad_kind :: PubkyAuthRequestKind
  ad_capabilities :: "string option"
  ad_relay_url :: "string option"
  ad_homeserver_public_key :: "PubkyPublicKey option"

definition parse_pubky_auth_url :: "ext \<Rightarrow> 'f pubky_client \<Rightarrow> string \<Rightarrow> PubkyAuthDetails sdk_res" where
  "parse_pubky_auth_url E C auth_url =
     rbind (map_err (\<lambda>err. SdkProtocol (''invalid Pubky auth URL: '' @ err) None) (pv_deep_link C auth_url)) (\<lambda>link.
     case link of
       Signin relay _ \<Rightarrow>
         rmap (\<lambda>caps. \<lparr>ad_kind = SignIn, ad_capabilities = Some (pv_show_caps C caps), ad_relay_url = Some (url_text relay),
                        ad_homeserver_public_key = None\<rparr>) (parse_auth_url_capabilities C auth_url)
     | Signup relay _ homeserver \<Rightarrow>
         rmap (\<lambda>caps. \<lparr>ad_kind = SignUp, ad_capabilities = Some (pv_show_caps C caps), ad_relay_url = Some (url_text relay),
                        ad_homeserver_public_key = Some (pubky_key_of E homeserver)\<rparr>) (parse_auth_url_capabilities C auth_url)
     | SeedExport \<Rightarrow>
         Inr \<lparr>ad_kind = SecretExport, ad_capabilities = None, ad_relay_url = None, ad_homeserver_public_key = None\<rparr>)"

definition validate_sign_in_or_sign_up_auth_url :: "ext \<Rightarrow> 'f pubky_client \<Rightarrow> string \<Rightarrow> unit sdk_res" where
  "validate_sign_in_or_sign_up_auth_url E C auth_url =
     rbind (parse_pubky_auth_url E C auth_url) (\<lambda>details.
     case ad_kind details of
       SecretExport \<Rightarrow> Inl (SdkProtocol ''Pubky secret-export auth URLs cannot be resumed or approved as sessions'' None)
     | _ \<Rightarrow> Inr ())"

record PubkyResourceRef =
  rf_public_key :: PubkyPublicKey
  rf_path :: string
  rf_transport_url :: string

definition resolve_pubky_url :: "'f pubky_client \<Rightarrow> string \<Rightarrow> string sdk_res" where
  "resolve_pubky_url C uri = map_err (\<lambda>err. SdkProtocol (''invalid Pubky URI: '' @ err) None) (pv_resolve C uri)"

definition parse_pubky_resource :: "ext \<Rightarrow> 'f pubky_client \<Rightarrow> string \<Rightarrow> PubkyResourceRef sdk_res" where
  "parse_pubky_resource E C uri =
     rbind (map_err (\<lambda>err. SdkProtocol (''invalid Pubky resource: '' @ err) None) (pv_resource C uri)) (\<lambda>resource.
     rbind (resolve_pubky_url C (pv_resource_url C resource)) (\<lambda>transport.
     Inr \<lparr>rf_public_key = pubky_key_of E (fst resource), rf_path = snd resource, rf_transport_url = transport\<rparr>))"

section \<open>Sessions\<close>

record PubkySessionBootstrapResult =
  br_access :: PubkySessionAccess
  br_public_key :: PubkyPublicKey
  br_session :: pubky_session

definition export_session_secret :: "PubkySessionBootstrapResult \<Rightarrow> string" where
  "export_session_secret r = ps_secret (br_session r)"

definition validate_local_secret_for_public_key ::
  "ext \<Rightarrow> 'f pubky_client \<Rightarrow> PubkyPublicKey \<Rightarrow> PubkyLocalSecretKey \<Rightarrow> PubkyLocalSecretKey sdk_res" where
  "validate_local_secret_for_public_key E C pk secret =
     (if secret_public_key E C secret \<noteq> pk
      then Inl (SdkIdentity ''local Pubky secret key does not match session public key'' None) else Inr secret)"

definition validate_local_secret_for_session ::
  "ext \<Rightarrow> 'f pubky_client \<Rightarrow> pubky_session \<Rightarrow> PubkyLocalSecretKey option \<Rightarrow> PubkyLocalSecretKey option sdk_res" where
  "validate_local_secret_for_session E C session secret =
     (case secret of
        None \<Rightarrow> Inr None
      | Some k \<Rightarrow> rmap Some (validate_local_secret_for_public_key E C (pubky_key_of E (ps_public_key session)) k))"

definition session_result ::
  "ext \<Rightarrow> 'f pubky_client \<Rightarrow> pubky_session \<Rightarrow> PubkyLocalSecretKey option \<Rightarrow> ReceiverNoiseSecretKey \<Rightarrow> string \<Rightarrow>
   PubkySessionBootstrapResult sdk_res" where
  "session_result E C session secret noise required =
     rbind (validate_local_secret_for_session E C session secret) (\<lambda>local_secret.
     let access = \<lparr>sa_session_public_key = pubky_key_of E (ps_public_key session),
                   sa_local_public_key = map_option (secret_public_key E C) local_secret,
                   sa_noise_public_key = pubky_key_of E (noise_public_key C noise),
                   sa_check_capabilities = validate_session_capabilities (pv_norm_caps C) (pv_parse_cap C) (pv_show_cap C)
                     (ps_capabilities session)\<rparr>
     in rbind (sa_public_key access) (\<lambda>pk.
        rbind (sa_validate_for_capabilities access required) (\<lambda>_.
        Inr \<lparr>br_access = access, br_public_key = pk, br_session = session\<rparr>)))"

definition sign_up ::
  "ext \<Rightarrow> 'f pubky_client \<Rightarrow> nat list \<Rightarrow> PubkyLocalSecretKey \<Rightarrow> ReceiverNoiseSecretKey \<Rightarrow> PubkyPublicKey \<Rightarrow> string option \<Rightarrow> string \<Rightarrow>
   PubkySessionBootstrapResult sdk_res" where
  "sign_up E C p secret noise homeserver code required =
     rbind (map_err (\<lambda>err. SdkIdentity ''invalid Pubky public key'' (Some (AnyhowMsg err))) (public_key_from_z32 E (z32 homeserver))) (\<lambda>server.
     rbind (map_err (map_pubky_identity_error ''sign up Pubky session'') (pv_signup C p (secret_bytes secret) server code)) (\<lambda>session.
     session_result E C session (Some secret) noise required))"

definition sign_in ::
  "ext \<Rightarrow> 'f pubky_client \<Rightarrow> nat list \<Rightarrow> PubkyLocalSecretKey \<Rightarrow> ReceiverNoiseSecretKey \<Rightarrow> string \<Rightarrow> PubkySessionBootstrapResult sdk_res" where
  "sign_in E C p secret noise required =
     rbind (map_err (map_pubky_identity_error ''sign in Pubky session'') (pv_signin C p (secret_bytes secret))) (\<lambda>session.
     session_result E C session (Some secret) noise required)"

definition import_session ::
  "ext \<Rightarrow> 'f pubky_client \<Rightarrow> nat list \<Rightarrow> string \<Rightarrow> PubkyLocalSecretKey option \<Rightarrow> ReceiverNoiseSecretKey \<Rightarrow> string \<Rightarrow>
   PubkySessionBootstrapResult sdk_res" where
  "import_session E C p session_secret secret noise required =
     rbind (map_err (map_pubky_identity_error ''import Pubky session'') (pv_import C p session_secret)) (\<lambda>session.
     session_result E C session secret noise required)"

section \<open>Authorization flows\<close>

record 'f PubkyAuthRequest =
  ar_flow :: 'f
  ar_authorization_url :: string

definition start_auth :: "'f pubky_client \<Rightarrow> nat list \<Rightarrow> string \<Rightarrow> AuthFlowKind \<Rightarrow> 'f PubkyAuthRequest sdk_res" where
  "start_auth C p text kind =
     rbind (client_capabilities C text) (\<lambda>capabilities.
     rbind (map_err (map_pubky_identity_error ''start Pubky auth flow'') (pv_start_flow C p capabilities kind)) (\<lambda>flow.
     Inr \<lparr>ar_flow = flow, ar_authorization_url = pv_flow_url C flow\<rparr>))"

definition start_sign_in_auth :: "'f pubky_client \<Rightarrow> nat list \<Rightarrow> string \<Rightarrow> 'f PubkyAuthRequest sdk_res" where
  "start_sign_in_auth C p text = start_auth C p text SigninFlow"

definition start_sign_up_auth ::
  "ext \<Rightarrow> 'f pubky_client \<Rightarrow> nat list \<Rightarrow> string \<Rightarrow> PubkyPublicKey \<Rightarrow> string option \<Rightarrow> 'f PubkyAuthRequest sdk_res" where
  "start_sign_up_auth E C p text homeserver token =
     rbind (map_err (\<lambda>err. SdkIdentity ''invalid Pubky public key'' (Some (AnyhowMsg err))) (public_key_from_z32 E (z32 homeserver))) (\<lambda>server.
     start_auth C p text (SignupFlow server token))"

definition resume_auth :: "ext \<Rightarrow> 'f pubky_client \<Rightarrow> nat list \<Rightarrow> string \<Rightarrow> string \<Rightarrow> 'f PubkyAuthRequest sdk_res" where
  "resume_auth E C p auth_url expected =
     rbind (validate_sign_in_or_sign_up_auth_url E C auth_url) (\<lambda>_.
     rbind (validate_auth_url_capabilities C auth_url expected) (\<lambda>_.
     rbind (map_err (map_pubky_identity_error ''resume Pubky auth flow'') (pv_resume_flow C p auth_url)) (\<lambda>flow.
     Inr \<lparr>ar_flow = flow, ar_authorization_url = auth_url\<rparr>)))"

definition complete_auth ::
  "ext \<Rightarrow> 'f pubky_client \<Rightarrow> nat list \<Rightarrow> 'f PubkyAuthRequest \<Rightarrow> PubkyLocalSecretKey option \<Rightarrow> ReceiverNoiseSecretKey \<Rightarrow> string \<Rightarrow>
   PubkySessionBootstrapResult sdk_res" where
  "complete_auth E C p request secret noise required =
     rbind (validate_auth_url_capabilities C (ar_authorization_url request) required) (\<lambda>_.
     rbind (map_err (map_pubky_identity_error ''complete Pubky auth flow'') (pv_await C p (ar_flow request))) (\<lambda>session.
     rbind (validate_session_exact_capabilities C session required) (\<lambda>_.
     session_result E C session secret noise required)))"

definition approve_auth ::
  "ext \<Rightarrow> 'f pubky_client \<Rightarrow> nat list \<Rightarrow> string \<Rightarrow> string \<Rightarrow> PubkyLocalSecretKey \<Rightarrow> auth_call list \<Rightarrow> auth_call list \<times> unit sdk_res" where
  "approve_auth E C p auth_url expected secret calls =
     (case rbind (validate_sign_in_or_sign_up_auth_url E C auth_url) (\<lambda>_. validate_auth_url_capabilities C auth_url expected) of
        Inl e \<Rightarrow> (calls, Inl e)
      | Inr _ \<Rightarrow>
          (calls @ [ApprovedAuth auth_url (secret_bytes secret)],
           case pv_approve C p (secret_bytes secret) auth_url of
             None \<Rightarrow> Inr ()
           | Some err \<Rightarrow> Inl (map_pubky_identity_error ''approve Pubky auth flow'' err)))"

section \<open>Companion claims\<close>

datatype companion_error =
    InvalidAuthUrl string
  | InvalidClaim string
  | EncryptionFailure string
  | RelayDeliveryFailure string
  | AuthorizationFailure string

type_synonym 'a companion_res = "companion_error + 'a"

definition MAX_QUERY_PARAMETER_LEN :: nat where "MAX_QUERY_PARAMETER_LEN = 64"

definition MAX_CLAIM_TYPE_LEN :: nat where "MAX_CLAIM_TYPE_LEN = 128"

record PubkyAuthCompanionClaim =
  cc_query_parameter :: string
  cc_claim_type :: string
  cc_unsigned_payload :: string

definition protocol_identifier_byte :: "nat \<Rightarrow> bool" where
  "protocol_identifier_byte b \<longleftrightarrow> is_ascii_alphanumeric b \<or> b = 45 \<or> b = 95 \<or> b = 46"

definition validate_protocol_identifier :: "string \<Rightarrow> string \<Rightarrow> nat \<Rightarrow> unit companion_res" where
  "validate_protocol_identifier value label max_len =
     (if value = [] then Inl (InvalidClaim (label @ '' must not be empty''))
      else if length value > max_len then Inl (InvalidClaim (label @ '' must not exceed '' @ show_nat max_len @ '' bytes''))
      else if \<not> list_all (\<lambda>c. protocol_identifier_byte (code_of c)) value
      then Inl (InvalidClaim (label @ '' may contain only ASCII letters, digits, hyphens, underscores, and dots''))
      else Inr ())"

definition PubkyAuthCompanionClaim_new :: "string \<Rightarrow> string \<Rightarrow> string \<Rightarrow> PubkyAuthCompanionClaim companion_res" where
  "PubkyAuthCompanionClaim_new query_parameter claim_type payload =
     rbind (validate_protocol_identifier query_parameter ''companion query parameter'' MAX_QUERY_PARAMETER_LEN) (\<lambda>_.
     rbind (validate_protocol_identifier claim_type ''companion claim type'' MAX_CLAIM_TYPE_LEN) (\<lambda>_.
     Inr \<lparr>cc_query_parameter = query_parameter, cc_claim_type = claim_type, cc_unsigned_payload = payload\<rparr>))"

record CompanionAuthRequest =
  cr_relay :: url
  cr_secret :: string

fun query_value_loop :: "string \<Rightarrow> string option \<Rightarrow> (string \<times> string) list \<Rightarrow> string option companion_res" where
  "query_value_loop name found [] = Inr found"
| "query_value_loop name found ((key, value) # pairs) =
     (if key \<noteq> name then query_value_loop name found pairs
      else if found \<noteq> None then Inl (InvalidAuthUrl (''duplicate '' @ name @ '' query parameter''))
      else query_value_loop name (Some value) pairs)"

definition unique_query_value :: "url \<Rightarrow> string \<Rightarrow> string companion_res" where
  "unique_query_value u name =
     rbind (query_value_loop name None (url_query_pairs u)) (\<lambda>found.
     case found of
       None \<Rightarrow> Inl (InvalidAuthUrl (''missing '' @ name @ '' query parameter''))
     | Some value \<Rightarrow> if value = [] then Inl (InvalidAuthUrl (''empty '' @ name @ '' query parameter'')) else Inr value)"

definition validate_relay_url :: "url \<Rightarrow> unit companion_res" where
  "validate_relay_url relay =
     (if url_scheme relay \<notin> {''http'', ''https''} \<or> url_host relay = None
      then Inl (InvalidAuthUrl ''relay URL must be an absolute HTTP(S) URL'') else Inr ())"

definition parse_pubky_auth_request :: "'f pubky_client \<Rightarrow> string \<Rightarrow> CompanionAuthRequest companion_res" where
  "parse_pubky_auth_request C auth_url =
     rbind (map_err InvalidAuthUrl (pv_deep_link C auth_url)) (\<lambda>link.
     case link of
       Signin relay secret \<Rightarrow> Inr \<lparr>cr_relay = relay, cr_secret = secret\<rparr>
     | Signup relay secret _ \<Rightarrow> Inr \<lparr>cr_relay = relay, cr_secret = secret\<rparr>
     | SeedExport \<Rightarrow> Inl (InvalidAuthUrl ''Pubky secret-export URLs cannot carry companion claims''))"

definition parse_companion_auth_request ::
  "'f pubky_client \<Rightarrow> string \<Rightarrow> string \<Rightarrow> PubkyAuthCompanionClaim \<Rightarrow> CompanionAuthRequest companion_res" where
  "parse_companion_auth_request C auth_url expected claim =
     rbind (map_err InvalidAuthUrl (pv_url C auth_url)) (\<lambda>u.
     if url_scheme u \<noteq> ''pubkyauth'' then Inl (InvalidAuthUrl ''URL scheme must be pubkyauth'')
     else rbind (parse_pubky_auth_request C auth_url) (\<lambda>request.
     rbind (map_err (\<lambda>err. InvalidAuthUrl (sdk_error_display err)) (validate_auth_url_capabilities C auth_url expected)) (\<lambda>_.
     rbind (unique_query_value u (cc_query_parameter claim)) (\<lambda>claim_type.
     if claim_type \<noteq> cc_claim_type claim
     then Inl (InvalidAuthUrl (cc_query_parameter claim @ '' query parameter does not match the supplied claim type''))
     else rbind (unique_query_value u ''secret'') (\<lambda>_.
     rbind (unique_query_value u ''relay'') (\<lambda>_.
     rbind (validate_relay_url (cr_relay request)) (\<lambda>_. Inr request)))))))"

definition encode_signed_claim :: "'f pubky_client \<Rightarrow> PubkyAuthCompanionClaim \<Rightarrow> string \<Rightarrow> PubkyLocalSecretKey \<Rightarrow> string" where
  "encode_signed_claim C claim auth_secret secret =
     (let domain = cc_query_parameter claim @ ''|'' @ cc_claim_type claim @ ''|'';
          signable = domain @ pv_sha256 C auth_secret @ cc_unsigned_payload claim
      in cc_unsigned_payload claim @ pv_sign C (secret_bytes secret) signable)"

definition derive_companion_channel_id :: "ext \<Rightarrow> 'f pubky_client \<Rightarrow> string \<Rightarrow> string \<Rightarrow> string" where
  "derive_companion_channel_id E C claim_type secret = base64url_encode E (pv_blake3 C (claim_type @ ''|'' @ secret))"

definition encrypt_claim :: "'f pubky_client \<Rightarrow> nat list \<Rightarrow> string \<Rightarrow> string \<Rightarrow> string companion_res" where
  "encrypt_claim C p plaintext secret =
     (let nonce = pv_nonce C p in
      rbind (map_err EncryptionFailure (pv_secretbox C secret nonce plaintext)) (\<lambda>ciphertext. Inr (nonce @ ciphertext)))"

fun relay_delivery_failure :: "relay_failure \<Rightarrow> companion_error" where
  "relay_delivery_failure (RelayServerStatus status) = RelayDeliveryFailure (''relay returned HTTP status '' @ show_nat status)"
| "relay_delivery_failure RelayTransport = RelayDeliveryFailure ''relay HTTP transport failed''"
| "relay_delivery_failure RelayOther = RelayDeliveryFailure ''relay request failed''"

definition deliver_companion_claim ::
  "ext \<Rightarrow> 'f pubky_client \<Rightarrow> nat list \<Rightarrow> CompanionAuthRequest \<Rightarrow> string \<Rightarrow> string \<Rightarrow> auth_call list \<Rightarrow> auth_call list \<times> unit companion_res" where
  "deliver_companion_claim E C p request claim_type encrypted calls =
     (let channel = derive_companion_channel_id E C claim_type (cr_secret request) in
      case pv_channel_error C (cr_relay request) channel of
        Some err \<Rightarrow> (calls, Inl (InvalidAuthUrl err))
      | None \<Rightarrow>
          let answer = pv_produce C p (cr_relay request) channel encrypted
          in (calls @ [DeliveredClaim (cr_relay request) channel encrypted answer],
              case answer of None \<Rightarrow> Inr () | Some failure \<Rightarrow> Inl (relay_delivery_failure failure)))"

definition approve_auth_with_companion_claim ::
  "ext \<Rightarrow> 'f pubky_client \<Rightarrow> nat list \<Rightarrow> string \<Rightarrow> string \<Rightarrow> PubkyLocalSecretKey \<Rightarrow> PubkyAuthCompanionClaim \<Rightarrow> auth_call list \<Rightarrow>
   auth_call list \<times> unit companion_res" where
  "approve_auth_with_companion_claim E C p auth_url expected secret claim calls =
     (case rbind (parse_companion_auth_request C auth_url expected claim) (\<lambda>request.
           rbind (encrypt_claim C (0 # p) (encode_signed_claim C claim (cr_secret request) secret) (cr_secret request)) (\<lambda>encrypted.
           Inr (request, encrypted))) of
        Inl e \<Rightarrow> (calls, Inl e)
      | Inr (request, encrypted) \<Rightarrow>
          (case deliver_companion_claim E C (1 # p) request (cc_claim_type claim) encrypted calls of
             (delivered, Inl e) \<Rightarrow> (delivered, Inl e)
           | (delivered, Inr _) \<Rightarrow>
               (case approve_auth E C (2 # p) auth_url expected secret delivered of
                  (done_calls, result) \<Rightarrow> (done_calls, map_err (\<lambda>err. AuthorizationFailure (sdk_error_display err)) result))))"

section \<open>Sessions that are handed out\<close>

lemma session_result_valid:
  assumes "session_result E C session secret noise required = Inr r"
  shows "br_public_key r = pubky_key_of E (ps_public_key session)" and "sa_session_public_key (br_access r) = br_public_key r"
    and "sa_local_public_key (br_access r) = None \<or> sa_local_public_key (br_access r) = Some (br_public_key r)"
    and "sa_noise_public_key (br_access r) = pubky_key_of E (noise_public_key C noise)"
    and "sa_validate_for_capabilities (br_access r) required = Inr ()"
  using assms by (auto simp: session_result_def Let_def result_iffs sa_public_key_def validate_local_secret_for_session_def
      validate_local_secret_for_public_key_def split: option.splits if_splits)

lemma session_result_capabilities:
  assumes "session_result E C session secret noise required = Inr r"
  obtains needed where "client_capabilities C required = Inr needed"
    "\<And>c. c \<in> set needed \<Longrightarrow> \<exists>a \<in> set (pv_norm_caps C (ps_capabilities session)). capability_covers a c"
proof -
  from assms have "validate_session_capabilities (pv_norm_caps C) (pv_parse_cap C) (pv_show_cap C) (ps_capabilities session) required = Inr ()"
    by (auto simp: session_result_def Let_def result_iffs sa_validate_for_capabilities_def)
  with that show thesis unfolding capabilities_accepted_iff by blast
qed

text \<open>A flow that completes gives a session with exactly the capabilities that its link asked for.\<close>

lemma completed_session_exact:
  assumes "complete_auth E C p request secret noise required = Inr r"
  obtains session caps where "pv_await C p (ar_flow request) = Inr session" "client_capabilities C required = Inr caps"
    "parse_auth_url_capabilities C (ar_authorization_url request) = Inr caps" "pv_norm_caps C (ps_capabilities session) = caps"
    "br_public_key r = pubky_key_of E (ps_public_key session)"
proof -
  from assms obtain session where session: "pv_await C p (ar_flow request) = Inr session"
      "validate_auth_url_capabilities C (ar_authorization_url request) required = Inr ()"
      "validate_session_exact_capabilities C session required = Inr ()" "session_result E C session secret noise required = Inr r"
    by (auto simp: complete_auth_def result_iffs)
  with that session_result_valid(1) [OF session(4)] show thesis
    by (auto simp: validate_auth_url_capabilities_def validate_session_exact_capabilities_def Let_def result_iffs split: if_splits)
qed

section \<open>Approved requests\<close>

text \<open>What a link has to say for a request that may be approved with a claim.\<close>

definition announces_claim :: "'f pubky_client \<Rightarrow> string \<Rightarrow> string \<Rightarrow> PubkyAuthCompanionClaim \<Rightarrow> url \<Rightarrow> string \<Rightarrow> bool" where
  "announces_claim C auth_url expected claim relay secret \<longleftrightarrow>
     (\<exists>u caps. pv_url C auth_url = Inr u \<and> url_scheme u = ''pubkyauth''
        \<and> unique_query_value u (cc_query_parameter claim) = Inr (cc_claim_type claim)
        \<and> parse_auth_url_capabilities C auth_url = Inr caps \<and> client_capabilities C expected = Inr caps)
     \<and> (pv_deep_link C auth_url = Inr (Signin relay secret) \<or> (\<exists>homeserver. pv_deep_link C auth_url = Inr (Signup relay secret homeserver)))
     \<and> url_scheme relay \<in> {''http'', ''https''} \<and> url_host relay \<noteq> None"

lemma companion_request_announced:
  assumes "parse_companion_auth_request C auth_url expected claim = Inr request"
  shows "announces_claim C auth_url expected claim (cr_relay request) (cr_secret request)"
proof -
  from assms obtain u where u: "pv_url C auth_url = Inr u" "url_scheme u = ''pubkyauth''" "parse_pubky_auth_request C auth_url = Inr request"
      "validate_auth_url_capabilities C auth_url expected = Inr ()" "unique_query_value u (cc_query_parameter claim) = Inr (cc_claim_type claim)"
      "validate_relay_url (cr_relay request) = Inr ()"
    by (auto simp: parse_companion_auth_request_def result_iffs split: if_splits)
  moreover from u(3) have "pv_deep_link C auth_url = Inr (Signin (cr_relay request) (cr_secret request))
      \<or> (\<exists>homeserver. pv_deep_link C auth_url = Inr (Signup (cr_relay request) (cr_secret request) homeserver))"
    by (cases "pv_deep_link C auth_url"; cases "projr (pv_deep_link C auth_url)") (auto simp: parse_pubky_auth_request_def)
  moreover from u(4) obtain caps where "parse_auth_url_capabilities C auth_url = Inr caps" "client_capabilities C expected = Inr caps"
    by (auto simp: validate_auth_url_capabilities_def result_iffs split: if_splits)
  moreover from u(6) have "url_scheme (cr_relay request) \<in> {''http'', ''https''}" "url_host (cr_relay request) \<noteq> None"
    by (auto simp: validate_relay_url_def split: if_splits)
  ultimately show ?thesis unfolding announces_claim_def by blast
qed

lemma announced_approvable:
  assumes "announces_claim C auth_url expected claim relay secret"
  shows "rbind (validate_sign_in_or_sign_up_auth_url E C auth_url) (\<lambda>_. validate_auth_url_capabilities C auth_url expected) = Inr ()"
  using assms by (auto simp: announces_claim_def validate_sign_in_or_sign_up_auth_url_def parse_pubky_auth_url_def
      validate_auth_url_capabilities_def result_iffs)

text \<open>C15: Approving an authorization with a companion claim makes no call at all and fails, or delivers the claim to the channel of
  the request and stops when the relay refuses it, or delivers it and then asks once for approval. Both calls are made
  only for a sign-in or sign-up link to an HTTP relay that announces the claim once and asks for exactly
  the expected capabilities.\<close>

theorem authorization_guarded:
  "\<exists>made result. approve_auth_with_companion_claim E C p auth_url expected secret claim calls = (calls @ made, result)
     \<and> ((made = [] \<and> (\<exists>e. result = Inl e))
        \<or> (\<exists>relay request_secret body answer. announces_claim C auth_url expected claim relay request_secret
             \<and> encrypt_claim C (0 # p) (encode_signed_claim C claim request_secret secret) request_secret = Inr body
             \<and> (case answer of
                  Some failure \<Rightarrow> result = Inl (relay_delivery_failure failure)
                    \<and> made = [DeliveredClaim relay (derive_companion_channel_id E C (cc_claim_type claim) request_secret) body answer]
                | None \<Rightarrow> made = [DeliveredClaim relay (derive_companion_channel_id E C (cc_claim_type claim) request_secret) body answer,
                      ApprovedAuth auth_url (secret_bytes secret)])))"
proof (cases "rbind (parse_companion_auth_request C auth_url expected claim) (\<lambda>request.
    rbind (encrypt_claim C (0 # p) (encode_signed_claim C claim (cr_secret request) secret) (cr_secret request)) (\<lambda>encrypted. Inr (request, encrypted)))")
  case (Inl e)
  then show ?thesis by (intro exI [of _ "[]"]) (auto simp: approve_auth_with_companion_claim_def)
next
  case (Inr accepted)
  obtain request body where accepted: "accepted = (request, body)" by fastforce
  with Inr have request: "parse_companion_auth_request C auth_url expected claim = Inr request"
      "encrypt_claim C (0 # p) (encode_signed_claim C claim (cr_secret request) secret) (cr_secret request) = Inr body"
    by (auto simp: result_iffs)
  note announced = companion_request_announced [OF request(1)]
  let ?channel = "derive_companion_channel_id E C (cc_claim_type claim) (cr_secret request)"
  show ?thesis
  proof (cases "pv_channel_error C (cr_relay request) ?channel")
    case (Some err)
    with Inr accepted show ?thesis
      by (intro exI [of _ "[]"]) (auto simp: approve_auth_with_companion_claim_def deliver_companion_claim_def Let_def)
  next
    case None
    let ?answer = "pv_produce C (1 # p) (cr_relay request) ?channel body"
    show ?thesis
    proof (cases ?answer)
      case (Some failure)
      have "approve_auth_with_companion_claim E C p auth_url expected secret claim calls
          = (calls @ [DeliveredClaim (cr_relay request) ?channel body (Some failure)], Inl (relay_delivery_failure failure))"
        using Some None Inr accepted by (simp add: approve_auth_with_companion_claim_def deliver_companion_claim_def Let_def)
      with announced request(2) show ?thesis
        by (intro exI [of _ "[DeliveredClaim (cr_relay request) ?channel body (Some failure)]"]
            exI [of _ "Inl (relay_delivery_failure failure)"] conjI disjI2 exI [of _ "cr_relay request"] exI [of _ "cr_secret request"]
            exI [of _ body] exI [of _ "Some failure"]) simp_all
    next
      case none: None
      obtain result where "approve_auth_with_companion_claim E C p auth_url expected secret claim calls
          = (calls @ [DeliveredClaim (cr_relay request) ?channel body None, ApprovedAuth auth_url (secret_bytes secret)], result)"
        using none None Inr accepted announced_approvable [OF announced, of E]
        by (auto simp: approve_auth_with_companion_claim_def deliver_companion_claim_def approve_auth_def Let_def)
      with announced request(2) show ?thesis
        by (intro exI [of _ "[DeliveredClaim (cr_relay request) ?channel body None, ApprovedAuth auth_url (secret_bytes secret)]"]
            exI [of _ result] conjI disjI2 exI [of _ "cr_relay request"] exI [of _ "cr_secret request"] exI [of _ body] exI [of _ None]) simp_all
    qed
  qed
qed

end
