(* ===== verification/Message_Transport.thy ===== *)
theory Message_Transport
  imports Public_Endpoints Encrypted_Link Receipts
begin

text \<open>
  The library functions that move typed documents: sending each kind of Private Message over a link
  (\<^verbatim>\<open>payment_request/api.rs\<close>, \<^verbatim>\<open>private_payment_list.rs\<close>, \<^verbatim>\<open>receipt/access.rs\<close>, \<^verbatim>\<open>encrypted_link/link.rs\<close>), and publishing,
  removing and fetching recovery markers (\<^verbatim>\<open>encrypted_link_recovery.rs\<close>). A marker that one peer publishes
  is the marker that the other finds.
\<close>

section \<open>Typed messages\<close>

text \<open>What the typed functions share: serialise, then send with the name of the kind in errors.\<close>

definition send_typed ::
  "ext \<Rightarrow> 'n noise \<Rightarrow> nat list \<Rightarrow> string \<Rightarrow> string \<Rightarrow> string res \<Rightarrow> 'n EncryptedLink \<Rightarrow> 'n EncryptedLink \<times> unit res" where
  "send_typed E N p operation ctx json l =
     (case map_err (map_error operation) json of
        Inl e \<Rightarrow> (l, Inl e)
      | Inr raw \<Rightarrow> map_prod id (map_err (map_error operation)) (send_private_application_message_with_context E N p raw ctx l))"

definition send_payment_request ::
  "ext \<Rightarrow> 'n noise \<Rightarrow> nat list \<Rightarrow> PaymentRequest \<Rightarrow> 'n EncryptedLink \<Rightarrow> 'n EncryptedLink \<times> unit res" where
  "send_payment_request E N p event =
     send_typed E N p ''send_payment_request'' ''Payment Request'' (serialize_payment_request_json E event)"

definition send_payment_request_acceptance ::
  "ext \<Rightarrow> 'n noise \<Rightarrow> nat list \<Rightarrow> PaymentRequestAcceptance \<Rightarrow> 'n EncryptedLink \<Rightarrow> 'n EncryptedLink \<times> unit res" where
  "send_payment_request_acceptance E N p event =
     send_typed E N p ''send_payment_request_acceptance'' ''Payment Request Acceptance'' (serialize_acceptance_json E event)"

definition send_payment_request_rejection ::
  "ext \<Rightarrow> 'n noise \<Rightarrow> nat list \<Rightarrow> PaymentRequestRejection \<Rightarrow> 'n EncryptedLink \<Rightarrow> 'n EncryptedLink \<times> unit res" where
  "send_payment_request_rejection E N p event =
     send_typed E N p ''send_payment_request_rejection'' ''Payment Request Rejection'' (serialize_rejection_json E event)"

definition send_payment_request_cancellation ::
  "ext \<Rightarrow> 'n noise \<Rightarrow> nat list \<Rightarrow> PaymentRequestCancellation \<Rightarrow> 'n EncryptedLink \<Rightarrow> 'n EncryptedLink \<times> unit res" where
  "send_payment_request_cancellation E N p event =
     send_typed E N p ''send_payment_request_cancellation'' ''Payment Request Cancellation'' (serialize_cancellation_json E event)"

definition send_payment_proof ::
  "ext \<Rightarrow> 'n noise \<Rightarrow> nat list \<Rightarrow> PaymentProof \<Rightarrow> 'n EncryptedLink \<Rightarrow> 'n EncryptedLink \<times> unit res" where
  "send_payment_proof E N p event =
     send_typed E N p ''send_payment_proof'' ''Payment Proof'' (serialize_payment_proof_json E event)"

definition set_private_payment_list ::
  "ext \<Rightarrow> 'n noise \<Rightarrow> nat list \<Rightarrow> PrivatePaymentList \<Rightarrow> 'n EncryptedLink \<Rightarrow> 'n EncryptedLink \<times> unit res" where
  "set_private_payment_list E N p list =
     send_typed E N p ''set_private_payment_list'' ''Private Payment List'' (serialize_private_payment_list_json E list)"

definition send_receipt_access ::
  "ext \<Rightarrow> 'n noise \<Rightarrow> nat list \<Rightarrow> ReceiptAccess \<Rightarrow> 'n EncryptedLink \<Rightarrow> 'n EncryptedLink \<times> unit res" where
  "send_receipt_access E N p access l =
     (case receipt_access_plaintext E (el_local_receiver_path l) access of
        Inl e \<Rightarrow> (l, Inl e)
      | Inr raw \<Rightarrow> map_prod id (map_err (map_error ''send_receipt_access''))
                   (send_private_application_message_with_context E N p raw ''Receipt Access'' l))"

text \<open>Only an access whose location belongs to the sending receiver leaves the link, and no send changes whom the link connects.\<close>

lemma sent_access_located:
  "send_receipt_access E N p access l = (l', Inr ()) \<Longrightarrow>
     is_ok (receipt_access_validate E access) \<and> has_location_for_receiver access (el_local_receiver_path l)"
  by (auto simp: send_receipt_access_def receipt_access_plaintext_def rbind_Inr_iff is_ok_def split: sum.splits if_splits)

lemma send_keeps_link:
  "fst (send_typed E N p operation ctx json l) = l\<lparr>el_encryptor := el_encryptor (fst (send_typed E N p operation ctx json l))\<rparr>"
  "fst (send_receipt_access E N p access l) = l\<lparr>el_encryptor := el_encryptor (fst (send_receipt_access E N p access l))\<rparr>"
  by (simp_all add: send_typed_def send_receipt_access_def send_private_application_message_with_context_def split: sum.splits prod.splits)

section \<open>Recovery markers on the homeserver\<close>

definition EncryptedLinkRecoveryMarker_new_v4 :: "ext \<Rightarrow> string \<Rightarrow> string \<Rightarrow> EncryptedLinkRecoveryMarker res" where
  "EncryptedLinkRecoveryMarker_new_v4 E fresh_uuid created_at = EncryptedLinkRecoveryMarker_new E fresh_uuid created_at"

text \<open>One side of a pair: its noise secret, identity and receiver path.\<close>

record marker_party =
  mp_secret :: string
  mp_identity :: PublicKey
  mp_receiver_path :: PaykitReceiverPath

type_synonym path_derivation = "string \<Rightarrow> PublicKey \<Rightarrow> string \<Rightarrow> string \<Rightarrow> string \<times> string"

definition party_marker_paths ::
  "path_derivation \<Rightarrow> ext \<Rightarrow> marker_party \<Rightarrow> PublicKey \<Rightarrow> PublicKey \<Rightarrow> PaykitReceiverPath \<Rightarrow> string \<times> string" where
  "party_marker_paths derive E L remote_id remote_noise remote_rp =
     encrypted_link_recovery_marker_paths derive E (mp_secret L) (mp_identity L) remote_id remote_noise (mp_receiver_path L) remote_rp"

definition publish_encrypted_link_recovery_marker ::
  "path_derivation \<Rightarrow> ext \<Rightarrow> 'w homeserver \<Rightarrow> nat list \<Rightarrow> marker_party \<Rightarrow> PublicKey \<Rightarrow> PublicKey \<Rightarrow> PaykitReceiverPath \<Rightarrow>
   EncryptedLinkRecoveryMarker \<Rightarrow> 'w \<Rightarrow> 'w \<times> string res" where
  "publish_encrypted_link_recovery_marker derive E HV p L remote_id remote_noise remote_rp marker w =
     (let write_path = fst (party_marker_paths derive E L remote_id remote_noise remote_rp) in
      case serialize_encrypted_link_recovery_marker E marker of
        Inl e \<Rightarrow> (w, Inl e)
      | Inr payload \<Rightarrow>
          (case hs_put HV p write_path payload w of
             (w', None) \<Rightarrow> (w', Inr write_path)
           | (w', Some (err, _)) \<Rightarrow> (w', Inl (Transport ''publish Encrypted Link recovery marker'' err))))"

definition remove_encrypted_link_recovery_marker ::
  "path_derivation \<Rightarrow> ext \<Rightarrow> 'w homeserver \<Rightarrow> nat list \<Rightarrow> marker_party \<Rightarrow> PublicKey \<Rightarrow> PublicKey \<Rightarrow> PaykitReceiverPath \<Rightarrow> 'w \<Rightarrow>
   'w \<times> string res" where
  "remove_encrypted_link_recovery_marker derive E HV p L remote_id remote_noise remote_rp w =
     (let write_path = fst (party_marker_paths derive E L remote_id remote_noise remote_rp) in
      case hs_delete HV p write_path w of
        (w', None) \<Rightarrow> (w', Inr write_path)
      | (w', Some (err, not_found)) \<Rightarrow>
          (w', if not_found then Inr write_path else Inl (Transport ''remove Encrypted Link recovery marker'' err)))"

definition fetch_encrypted_link_recovery_marker ::
  "path_derivation \<Rightarrow> ext \<Rightarrow> 'w homeserver \<Rightarrow> nat list \<Rightarrow> marker_party \<Rightarrow> PublicKey \<Rightarrow> PublicKey \<Rightarrow> PaykitReceiverPath \<Rightarrow> 'w \<Rightarrow>
   EncryptedLinkRecoveryMarker option res" where
  "fetch_encrypted_link_recovery_marker derive E HV p L remote_id remote_noise remote_rp w =
     (let addr = public_key_display E remote_id @ snd (party_marker_paths derive E L remote_id remote_noise remote_rp) in
      case hs_get HV p addr w of
        Inr body \<Rightarrow>
          rbind (map_err (Transport ''fetch Encrypted Link recovery marker'') body) (\<lambda>bytes.
          if bytes = [] then Inr None
          else if \<not> valid_utf8 bytes
          then Inl (invalid_data (''Encrypted Link recovery marker is invalid UTF-8 at byte '' @ show_nat (valid_up_to bytes))
                 (Some (hs_utf8_error HV bytes)))
          else rbind (parse_encrypted_link_recovery_marker_json E bytes) (\<lambda>marker. Inr (Some marker)))
      | Inl (err, not_found) \<Rightarrow>
          if not_found then Inr None else Inl (Transport ''fetch Encrypted Link recovery marker'' err))"

section \<open>Markers are exchanged\<close>

lemma paths_meet:
  assumes "derivation_paired public_of derive"
  shows "snd (party_marker_paths derive E B (mp_identity A) (public_of (mp_secret A)) (mp_receiver_path A))
     = fst (party_marker_paths derive E A (mp_identity B) (public_of (mp_secret B)) (mp_receiver_path B))"
  unfolding party_marker_paths_def recovery_marker_paths_meet [OF assms, of E "mp_secret B"] by simp

lemma fetched_marker:
  assumes "homeserver_documents HV (public_key_display E remote_id) docs"
    and "fetch_encrypted_link_recovery_marker derive E HV q L remote_id remote_noise remote_rp w = Inr found"
    and "docs w (public_key_display E remote_id @ snd (party_marker_paths derive E L remote_id remote_noise remote_rp)) = document"
  shows "found = None \<longleftrightarrow> document = None \<or> document = Some []"
    and "document = Some raw \<Longrightarrow> found = Some m \<Longrightarrow> parse_encrypted_link_recovery_marker_json E raw = Inr m"
  using assms(2,3) homeserver_documentsD(5,6) [OF assms(1)]
  by (auto simp: fetch_encrypted_link_recovery_marker_def Let_def result_iffs split: sum.splits if_splits)


definition sample_link_marker :: EncryptedLinkRecoveryMarker where
  "sample_link_marker = \<lparr>rm_attempt_id = sample_uuid, rm_created_at = ''2026Z''\<rparr>"

definition sample_marker_ext :: ext where
  "sample_marker_ext = table_ext [(''M'', ser_RecoveryMarkerWire (marker_to_wire sample_link_marker))]"

definition sample_marker_party :: "string \<Rightarrow> string \<Rightarrow> marker_party" where
  "sample_marker_party secret identity = \<lparr>mp_secret = secret, mp_identity = PublicKey identity, mp_receiver_path = sample_receiver\<rparr>"

lemma sample_marker_text:
  "serialize_encrypted_link_recovery_marker sample_marker_ext sample_link_marker = Inr ''M''"
  "json_prints_text sample_marker_ext"
proof -
  have "valid_utf8 ''M''" by code_simp
  then show "json_prints_text sample_marker_ext"
    by (auto simp: json_prints_text_def sample_marker_ext_def table_ext_def simp del: valid_utf8.simps split: option.splits if_splits)
qed (simp add: serialize_encrypted_link_recovery_marker_def sample_marker_ext_def table_ext_def)

lemma sample_link_marker_new: "EncryptedLinkRecoveryMarker_new sample_marker_ext sample_uuid ''2026Z'' = Inr sample_link_marker"
proof -
  have "validate_uuid_v4 sample_marker_ext sample_uuid label = Inr sample_uuid" for label
    unfolding validate_uuid_v4_def sample_marker_ext_def sample_uuid_read by (simp add: sample_uuid_v4 table_ext_def sample_uuid_def)
  moreover have "ends_with_char CHR ''Z'' ''2026Z''" by code_simp
  ultimately show ?thesis
    by (simp add: EncryptedLinkRecoveryMarker_new_def parse_utc_timestamp_def sample_link_marker_def sample_marker_ext_def table_ext_def)
qed

definition sample_marker_path :: string where
  "sample_marker_path = fst (party_marker_paths sample_derive sample_marker_ext (sample_marker_party ''a'' ''A'') (PublicKey ''B'')
     (PublicKey ''b'') sample_receiver)"


end
