(* ===== verification/Spec2Isabelle.thy ===== *)
theory Spec2Isabelle
  imports Backup_Runtime Receipt_Flow Payment_Resolution Request_Runtime Private_List_Runtime Profile_Runtime
    Session_Setup Message_Transport
begin

text \<open>
  A verification development of Paykit, a Rust library and SDK for exchanging payment details,
  payment requests and receipts between Pubky identities.

  \<^bold>\<open>The program.\<close> \<^verbatim>\<open>src/paykit-lib\<close> holds the values of the protocol, their validation, their JSON
  wire forms and the messages that travel over an encrypted link. \<^verbatim>\<open>src/paykit-sdk\<close> keeps a wallet's
  state in a transactional store: linked peers and their link snapshots, an outbound queue of private
  messages, the private stream received from each peer with its dedupe index, contacts, endpoint
  reservations and receipts. Its domain functions run inside storage transactions, a lease per peer
  serialises link operations, and the Payment Request view is derived from the stored stream and the
  outbound queue. A backup exports the store and a restore checks and reconciles it.

  \<^bold>\<open>Conventions.\<close> Third-party code (serde, uuid, chrono, base64, SHA-256, the cipher, public keys,
  Noise state) is the record \<^typ>\<open>ext\<close> of theory Externals, passed as the argument \<open>E\<close>; what the code
  relies on is a named hypothesis of the theorem that needs it. Homeserver calls, random values and the
  clock are arguments. A \<^verbatim>\<open>Result\<close> is a sum with the error on the left; 64-bit ids and 32-bit counters
  are words; time stamps are integers; a \<^verbatim>\<open>HashMap\<close> is an association list read by \<open>hm_get\<close>; a storage
  transaction is a function of the store that leaves it unchanged when it fails
  (\<^const>\<open>transaction\<close>); an operation that runs several transactions is a function of the store that
  keeps what the earlier ones wrote (\<^typ>\<open>'a rt\<close>). Loops are structural recursions, so no fuel is
  needed, except the paging of a directory and the loops over the noise channel, the outbox,
  received messages and the delivery of a queue, which may run forever and are partial functions that are shown to end; the retry budget of the send loop is the source's own.

  \<^bold>\<open>Theories and sources.\<close>
  \<^item> Prelude, Externals: results, Rust strings and UTF-8, hash maps, the locales of keyed tables, of
    enumerations with string forms and of transition systems; the interface of third-party code.
  \<^item> Lib_Values (\<^verbatim>\<open>error.rs, event.rs, payment_*.rs, receiver.rs, validation.rs, encrypted_link/paths.rs\<close>):
    validated values and paths; which texts each constructor accepts, and that a path built from
    validated parts has exactly its segments.
  \<^item> Payment_Request_Types, Payment_Request_Wire (\<^verbatim>\<open>payment_request/*.rs, shared_wire.rs,
    encrypted_link/private_application_message.rs\<close>): requests, proofs and events with their wire forms,
    parsers and the send loop; round trips, canonical re-parsing and exact acceptance of proofs.
  \<^item> Private_Messages, Receipts (\<^verbatim>\<open>private_payment_list.rs, receipt/*.rs\<close>): payment lists, receipt access
    descriptors, receipt documents and their encryption; round trips and the check before storing.
  \<^item> Link_Snapshots (\<^verbatim>\<open>encrypted_link/snapshot.rs, encrypted_link_recovery.rs\<close>): snapshot and recovery
    marker wire forms and paths; that both sides derive the same marker paths.
  \<^item> Storage_Records, Storage, Storage_Queue (\<^verbatim>\<open>storage/*.rs\<close>): records, the transaction with every
    operation and the queue policy; the storage invariant, first-in first-out claims, superseding of
    outdated lists and fencing of old leases.
  \<^item> Linked_Peers (\<^verbatim>\<open>domain/linked_peers/mod.rs\<close>): peer and link-state transitions as a step relation;
    coherence, generations that never go back, finality of blocking, rejection of stale leases.
  \<^item> Private_Stream, Outbound_Private (\<^verbatim>\<open>domain/private_stream/mod.rs, domain/outbound_private/mod.rs\<close>):
    intake of a batch refines a specification of the dedupe index; queued messages are exactly those a
    receiver accepts.
  \<^item> Payment_Request_Records, Payment_Request_Derivation (\<^verbatim>\<open>domain/payment_requests/*.rs\<close>): the life
    cycle of a request and the two derived views; well-formedness, conflicts, deduplication and order.
  \<^item> Sdk_Config, Contacts (\<^verbatim>\<open>config.rs, domain/contacts/mod.rs, runtime/contacts.rs\<close>): configuration, and
    contacts with their public markers as interleaved transactions; coherence of the marker state.
  \<^item> Reservations (\<^verbatim>\<open>domain/private_lists/mod.rs, domain/endpoint_reservations/mod.rs\<close>): publication of
    private lists with reservations, backed by the queued message.
  \<^item> Backup_Validation, Backup (\<^verbatim>\<open>backup/*.rs\<close>): all checks of a restore, reconciliation, exactness and
    atomicity, the export/restore round trip, the bound on restored ids, usable links after a restore,
    and a contact state that the restore rejects.

  \<^item> Identity_Runtime (\<^verbatim>\<open>runtime/mod.rs, identity.rs\<close>): refreshing the stored identity, signing out and
    paging a public directory; isolation of identities and termination of the listing.
  \<^item> Link_Runtime (\<^verbatim>\<open>runtime/encrypted_links.rs, runtime/payment_requests.rs\<close>): sequencing of transactions,
    the guards of private operations and their leases.
  \<^item> Receipt_Flow (\<^verbatim>\<open>domain/receipts/mod.rs, runtime/receipts.rs\<close>): issuing, retrieving and listing
    receipts; soundness of retrieved receipts and statuses that a restore accepts.

  \<^item> Encrypted_Link (\<^verbatim>\<open>encrypted_link/handshake.rs, link.rs, paths.rs\<close>): handshakes, links, receiving and
    clearing the outbox over a noise library that is a parameter; both peers meet on their paths,
    restoring is exact, failed writes are retried a bounded number of times and clearing ends.
  \<^item> Recovery_Runtime (\<^verbatim>\<open>runtime/recovery.rs, domain/recovery.rs\<close>): publishing, observing and removing
    recovery markers; a marker resets a link at most once and a retry repeats its attempt.
  \<^item> Handshake_Runtime, Link_Progress (\<^verbatim>\<open>runtime/encrypted_links.rs\<close>): the drivers that block, unblock, start,
    advance and ensure a link; each gives its lease back, and with a noise library that carries the
    handshake through a peer ends up linked.
  \<^item> Outbound_Delivery (\<^verbatim>\<open>runtime/outbound_private.rs\<close>, cancellations of \<^verbatim>\<open>runtime/private_lists.rs\<close>): the
    delivery loop and the run over all counterparties; both end, and messages are attempted in order.

  \<^item> Stream_Runtime (\<^verbatim>\<open>runtime/private_stream.rs\<close>): receiving from one peer or all linked peers; messages and
    the advanced link are stored together.
  \<^item> Pubky_Routing (\<^verbatim>\<open>pubky_routing.rs, payment_endpoint.rs, receiver_marker.rs\<close>): public documents on a
    homeserver; markers are read back, a Payment List is the directory, found receivers are advertised.
  \<^item> Payment_Adapter, Payment_Resolution (\<^verbatim>\<open>domain/adapters/mod.rs, runtime/payment_resolution.rs\<close>): choosing
    payable endpoints; they come from the newest private list or from the payee's public documents.

  \<^item> Request_Runtime (\<^verbatim>\<open>runtime/payment_requests.rs\<close>): listings and commands; listed records are well-formed and in
    order, and a command queues only an event that the shown record allows.
  \<^item> Private_List_Runtime (\<^verbatim>\<open>runtime/private_lists.rs\<close>): publishing private lists for one peer or many; runs end and
    report every peer once, and reservations stay backed by queued lists.

  \<^item> Public_Endpoints (\<^verbatim>\<open>runtime/public_endpoints.rs, domain/endpoints/mod.rs\<close>): publishing receiving details and the
    local marker over the store and the homeserver together; a sync returns, its records are true of the
    homeserver whatever calls fail, and without failures exactly the wanted endpoints are served.
  \<^item> Profile_Runtime (\<^verbatim>\<open>runtime/profiles.rs\<close>): profiles, blobs and avatars; a published profile is read back and
    nothing outside the profile and blob paths is written.
  \<^item> Backup_Runtime (\<^verbatim>\<open>runtime/backup.rs\<close>): a restore belongs to the active session or changes nothing.

  \<^item> Session_Setup (\<^verbatim>\<open>pubky_session.rs, pubky_session/companion_claim.rs, identity.rs\<close>): keys, sessions and authorization
    over a Pubky client that is a parameter; handed-out sessions have the keys and capabilities asked for, and an
    approval is asked for only when the link matches and its claim was delivered.
  \<^item> Message_Transport (\<^verbatim>\<open>payment_request/api.rs, private_payment_list.rs, receipt/access.rs, encrypted_link_recovery.rs\<close>):
    sending each kind of message over a link, and recovery markers on the homeserver; a marker one peer publishes is
    the one the other finds.

  \<^bold>\<open>Not modelled.\<close> Debug output and zeroizing of secrets; and the bindings \<^verbatim>\<open>paykit-ffi\<close> and \<^verbatim>\<open>paykit-wasm\<close>, which convert
  types.
\<close>

end
